(* ===== verification/Radio_Prelude.thy ===== *)
theory Radio_Prelude
  imports Main "HOL-Library.Word"
begin

text \<open>
  Shared vocabulary of the development: the machine integers of the C sources, the faults a C
  statement can run into, the sequencing of fallible steps, the splitting of a machine word into
  the bytes of a bus command, buffers with bounds, the contracts of streaming
  transformations and of operations whose calls are recorded, and the collection of rules the
  simulation proofs fill.
\<close>

unbundle bit_operations_syntax

named_theorems mirror \<open>rules that carry a mirrored state through the statements of an operation\<close>

section \<open>Machine integers\<close>

type_synonym u8 = "8 word"
type_synonym u16 = "16 word"
type_synonym u32 = "32 word"
type_synonym u64 = "64 word"

text \<open>
  Signed C integers are mathematical integers, brought back into their width where the source
  stores them: a conversion to \<^verbatim>\<open>int8_t\<close> or \<^verbatim>\<open>int32_t\<close> keeps the low bits and reads them as two's
  complement (gcc's definition of the conversion).
\<close>

definition to_i8 :: "int \<Rightarrow> int" where
  "to_i8 x = signed_take_bit 7 x"

definition to_i32 :: "int \<Rightarrow> int" where
  "to_i32 x = signed_take_bit 31 x"

lemma to_i8_id [simp]: "-128 \<le> x \<Longrightarrow> x \<le> 127 \<Longrightarrow> to_i8 x = x"
  by (simp add: to_i8_def signed_take_bit_int_eq_self)

lemma to_i8_range: "-128 \<le> to_i8 x \<and> to_i8 x \<le> 127"
  using signed_take_bit_int_greater_eq_minus_exp [of 7 x] signed_take_bit_int_less_exp [of 7 x]
  by (simp add: to_i8_def)

lemma to_i32_id [simp]: "-(2 ^ 31) \<le> x \<Longrightarrow> x < 2 ^ 31 \<Longrightarrow> to_i32 x = x"
  by (simp add: to_i32_def signed_take_bit_int_eq_self)

lemma unat_u8_less [simp]: "unat (x :: u8) < 256"
  using unsigned_less [of x] by simp

lemma uint_u8_less [simp]: "uint (x :: u8) < 256"
  using unsigned_less [of x, where 'a = int] by simp

lemma unat_u16_less [simp]: "unat (x :: u16) < 65536"
  using unsigned_less [of x] by simp

lemma unat_u32_less [simp]: "unat (x :: u32) < 4294967296"
  using unsigned_less [of x] by simp

text \<open>C's integer division truncates towards zero.\<close>

definition cdiv :: "int \<Rightarrow> int \<Rightarrow> int" where
  "cdiv a b = sgn a * sgn b * (\<bar>a\<bar> div \<bar>b\<bar>)"

lemma cdiv_nonneg [simp]: "0 \<le> a \<Longrightarrow> 0 < b \<Longrightarrow> cdiv a b = a div b"
  by (cases "a = 0") (auto simp: cdiv_def sgn_if)

section \<open>Faults and fallible steps\<close>

text \<open>
  What keeps a call of the modelled code from returning: \<^verbatim>\<open>sim_error\<close> (native_node.c) prints a
  message and exits the process; a polling loop may never end; the others are the undefined
  behaviours the sources can reach: a null pointer, an index outside an array, a division by zero, a
  signed overflow or an oversized shift (\<open>Undefined\<close>).
\<close>

datatype fault =
    SimError string
  | NullDeref
  | OutOfBounds
  | DivByZero
  | Diverges
  | Undefined

type_synonym 'a result = "fault + 'a"

definition bindr :: "'a result \<Rightarrow> ('a \<Rightarrow> 'b result) \<Rightarrow> 'b result" where
  "bindr r f = (case r of Inl e \<Rightarrow> Inl e | Inr x \<Rightarrow> f x)"

lemma bindr_Inr [simp]: "bindr (Inr x) f = f x"
  and bindr_Inl [simp]: "bindr (Inl e) f = Inl e"
  by (simp_all add: bindr_def)

lemma bindr_eq_Inr_iff: "bindr r f = Inr y \<longleftrightarrow> (\<exists>x. r = Inr x \<and> f x = Inr y)"
  by (cases r) auto

lemma bindr_assoc [simp]: "bindr (bindr r f) g = bindr r (\<lambda>x. bindr (f x) g)"
  by (cases r) auto

section \<open>Words and their bytes\<close>

text \<open>
  The drivers cut integers into bytes with \<^verbatim>\<open>( uint8_t )( ( x >> n ) & 0xFF )\<close>; \<open>byte_at n x\<close> is that
  expression. \<open>join16\<close>, \<open>join24\<close> and \<open>join32\<close> put the bytes of a command back together, most
  significant byte first.
\<close>

definition byte_at :: "nat \<Rightarrow> 'a::len word \<Rightarrow> u8" where
  "byte_at n w = ucast (drop_bit n w AND 0xFF)"

definition join16 :: "u8 \<Rightarrow> u8 \<Rightarrow> u16" where
  "join16 a b = push_bit 8 (ucast a) OR ucast b"

definition join24 :: "u8 \<Rightarrow> u8 \<Rightarrow> u8 \<Rightarrow> u32" where
  "join24 a b c = push_bit 16 (ucast a) OR push_bit 8 (ucast b) OR ucast c"

definition join32 :: "u8 \<Rightarrow> u8 \<Rightarrow> u8 \<Rightarrow> u8 \<Rightarrow> u32" where
  "join32 a b c d = push_bit 24 (ucast a) OR join24 b c d"

lemma xor_twice [simp]: "(a XOR b) XOR b = (a :: 'a::len word)"
  by (simp add: xor.assoc)

lemma xor_eq_0_iff [simp]: "a XOR b = 0 \<longleftrightarrow> a = (b :: 'a::len word)"
  by (metis xor_twice xor.left_neutral xor_self_eq)

lemma byte_at_take_bit: "byte_at n w = ucast (take_bit 8 (drop_bit n w))"
  by (simp add: byte_at_def take_bit_eq_mask mask_eq_exp_minus_1)

lemma bit_byte_at [bit_simps]:
  "bit (byte_at n (w :: 'a::len word)) k \<longleftrightarrow> k < 8 \<and> bit w (n + k)"
  by (auto simp: byte_at_take_bit bit_simps dest: bit_imp_le_length)

lemma join16_byte_at [simp]: "join16 (byte_at 8 w) (byte_at 0 w) = w"
  by (rule bit_word_eqI) (auto simp: join16_def bit_simps)

lemma join24_byte_at [simp]:
  "join24 (byte_at 16 w) (byte_at 8 w) (byte_at 0 w) = take_bit 24 (w :: u32)"
proof (rule bit_word_eqI)
  fix n :: nat
  consider "n < 8" | "8 \<le> n" "n < 16" | "16 \<le> n" by linarith
  then show "bit (join24 (byte_at 16 w) (byte_at 8 w) (byte_at 0 w)) n = bit (take_bit 24 w) n"
    if "n < LENGTH(32)"
    using that by cases (auto simp: join24_def bit_simps)
qed

lemma join32_byte_at [simp]:
  "join32 (byte_at 24 w) (byte_at 16 w) (byte_at 8 w) (byte_at 0 w) = (w :: u32)"
proof (rule bit_word_eqI)
  fix n :: nat
  consider "n < 24" | "24 \<le> n" by linarith
  then show "bit (join32 (byte_at 24 w) (byte_at 16 w) (byte_at 8 w) (byte_at 0 w)) n = bit w n"
    if "n < LENGTH(32)"
    using that by cases (auto simp: join32_def bit_simps)
qed

lemma byte_at_join16 [simp]:
  "byte_at 8 (join16 a b) = a" "byte_at 0 (join16 a b) = b"
  by (rule bit_word_eqI; auto simp: join16_def bit_simps dest: bit_imp_le_length)+

section \<open>Buffers\<close>

text \<open>
  A C array is a list of its elements. \<open>blit off src dst\<close> is \<open>dst\<close> with the elements of \<open>src\<close>
  stored from index \<open>off\<close> on; \<open>copy_into\<close> is the same copy with the bounds checked, running past
  the end of the array being a fault. \<open>read_bytes\<close> reads the first elements of an array, reading past
  its end being the same fault.
\<close>

definition blit :: "nat \<Rightarrow> 'a list \<Rightarrow> 'a list \<Rightarrow> 'a list" where
  "blit off src dst = take off dst @ src @ drop (off + length src) dst"

definition copy_into :: "nat \<Rightarrow> 'a list \<Rightarrow> 'a list \<Rightarrow> 'a list result" where
  "copy_into off src dst =
     (if off + length src \<le> length dst then Inr (blit off src dst) else Inl OutOfBounds)"

definition read_bytes :: "nat \<Rightarrow> 'a list \<Rightarrow> 'a list result" where
  "read_bytes n buf = (if n \<le> length buf then Inr (take n buf) else Inl OutOfBounds)"

lemma length_blit [simp]: "off + length src \<le> length dst \<Longrightarrow> length (blit off src dst) = length dst"
  by (simp add: blit_def)

lemma take_blit_prefix [simp]: "take (length src) (blit 0 src dst) = src"
  by (simp add: blit_def)

lemma take_blit_upto:
  "off + length src \<le> length dst \<Longrightarrow>
     take (off + length src) (blit off src dst) = take off dst @ src"
  by (simp add: blit_def)

lemma nth_blit:
  assumes "off + length src \<le> length dst" "i < length dst"
  shows "blit off src dst ! i =
    (if i < off then dst ! i else if i < off + length src then src ! (i - off) else dst ! i)"
  using assms by (auto simp: blit_def nth_append)

lemma copy_into_ok [simp]:
  "off + length src \<le> length dst \<Longrightarrow> copy_into off src dst = Inr (blit off src dst)"
  by (simp add: copy_into_def)

lemma copy_into_past [simp]:
  "length dst < off + length src \<Longrightarrow> copy_into off src dst = Inl OutOfBounds"
  by (simp add: copy_into_def)

lemma read_bytes_ok [simp]: "n \<le> length buf \<Longrightarrow> read_bytes n buf = Inr (take n buf)"
  by (simp add: read_bytes_def)

lemma read_bytes_past [simp]: "length buf < n \<Longrightarrow> read_bytes n buf = Inl OutOfBounds"
  by (simp add: read_bytes_def)

section \<open>Streaming transformations\<close>

text \<open>
  The firmware processes a packet in chunks and saves the state of its algorithms between two
  chunks. \<open>run_chunks\<close> threads that state through a sequence of chunks; the locale states the
  contract of a transformation for which the cutting into chunks does not matter.
\<close>

fun run_chunks :: "('st \<Rightarrow> 'a list \<Rightarrow> 'b list \<times> 'st) \<Rightarrow> 'st \<Rightarrow> 'a list list \<Rightarrow> 'b list \<times> 'st" where
  "run_chunks run st [] = ([], st)"
| "run_chunks run st (xs # xss) =
     (let (ys, st1) = run st xs; (zs, st2) = run_chunks run st1 xss in (ys @ zs, st2))"

locale chunked =
  fixes run :: "'st \<Rightarrow> 'a list \<Rightarrow> 'b list \<times> 'st"
  assumes run_nil: "run st [] = ([], st)"
    and run_append: "run st (xs @ ys) =
      (let (us, st1) = run st xs; (vs, st2) = run st1 ys in (us @ vs, st2))"
begin

lemma run_chunks_concat: "run_chunks run st xss = run st (concat xss)"
proof (induction xss arbitrary: st)
  case Nil
  show ?case by (simp add: run_nil)
next
  case (Cons xs xss)
  then show ?case by (simp add: run_append split: prod.split)
qed

lemma rechunk: "concat xss = concat yss \<Longrightarrow> run_chunks run st xss = run_chunks run st yss"
  by (simp add: run_chunks_concat)

end

section \<open>Sequences of operations\<close>

text \<open>
  A client calls the operations of a component in some order; a fault ends the run. \<open>follows\<close> relates
  two states of a component whose calls to the outside are recorded: the later state has the calls of
  the earlier one and some more, and what it knows of the outside is what those calls make of it.
\<close>

fun run_ops :: "('op \<Rightarrow> 's \<Rightarrow> 's result) \<Rightarrow> 'op list \<Rightarrow> 's \<Rightarrow> 's result" where
  "run_ops step [] s = Inr s"
| "run_ops step (x # xs) s = bindr (step x s) (run_ops step xs)"

definition follows ::
  "('s \<Rightarrow> 'c list) \<Rightarrow> ('s \<Rightarrow> 'd) \<Rightarrow> ('d \<Rightarrow> 'c \<Rightarrow> 'd) \<Rightarrow> 's \<Rightarrow> 's \<Rightarrow> bool" where
  "follows trace view dev s s' \<longleftrightarrow>
     take (length (trace s)) (trace s') = trace s \<and>
     view s' = foldl dev (view s) (drop (length (trace s)) (trace s'))"

lemma follows_refl [simp]: "follows trace view dev s s"
  by (simp add: follows_def)

lemma follows_iff:
  "follows trace view dev s s' \<longleftrightarrow> (\<exists>cs. trace s' = trace s @ cs \<and> view s' = foldl dev (view s) cs)"
  unfolding follows_def by (metis append_eq_conv_conj append_take_drop_id)

lemma follows_trans:
  "follows trace view dev s t \<Longrightarrow> follows trace view dev t u \<Longrightarrow> follows trace view dev s u"
  by (auto simp: follows_iff)

locale call_refinement =
  fixes step :: "'op \<Rightarrow> 's \<Rightarrow> 's result"
    and trace :: "'s \<Rightarrow> 'c list"
    and view :: "'s \<Rightarrow> 'd"
    and dev :: "'d \<Rightarrow> 'c \<Rightarrow> 'd"
    and mirrored :: "'op \<Rightarrow> bool"
  assumes step_follows: "mirrored x \<Longrightarrow> step x s = Inr s' \<Longrightarrow> follows trace view dev s s'"
begin

lemma run_follows:
  "list_all mirrored xs \<Longrightarrow> run_ops step xs s = Inr s' \<Longrightarrow> follows trace view dev s s'"
proof (induction xs arbitrary: s)
  case Nil
  then show ?case by simp
next
  case (Cons x xs)
  then obtain t where "step x s = Inr t" "run_ops step xs t = Inr s'"
    by (auto simp: bindr_eq_Inr_iff)
  with Cons show ?case by (auto intro: follows_trans step_follows)
qed

end

end
