(* ===== verification/Hal_Stubs.thy ===== *)
theory Hal_Stubs
  imports Radio_Prelude
begin

text \<open>
  The small stubs under \<^verbatim>\<open>stm32wl/hal_stubs\<close>: the byte-wise memory routines of \<^verbatim>\<open>stm32_mem.c\<close> over an
  explicit store, the interrupt mask of \<^verbatim>\<open>cmsis_compiler.c\<close> with the critical sections built on it,
  and the argument checks of \<^verbatim>\<open>stm32wlxx_hal_pwr.c\<close>.
\<close>

section \<open>Status codes\<close>

datatype HAL_StatusTypeDef = HAL_OK | HAL_ERROR | HAL_BUSY | HAL_TIMEOUT

section \<open>Memory routines (stm32_mem.c)\<close>

text \<open>
  A store maps addresses to bytes, so that overlapping buffers behave as they do in C. The loops
  run \<^verbatim>\<open>while( size-- )\<close>; the remaining count is the recursion argument.
\<close>

type_synonym mem = "nat \<Rightarrow> u8"

fun cpy8_loop :: "nat \<Rightarrow> nat \<Rightarrow> nat \<Rightarrow> mem \<Rightarrow> mem" where
  "cpy8_loop dst8 src8 0 m = m"
| "cpy8_loop dst8 src8 (Suc n) m = cpy8_loop (dst8 + 1) (src8 + 1) n (m(dst8 := m src8))"

definition UTIL_MEM_cpy_8 :: "nat \<Rightarrow> nat \<Rightarrow> u16 \<Rightarrow> mem \<Rightarrow> mem" where
  "UTIL_MEM_cpy_8 dst src sz m = cpy8_loop dst src (unat sz) m"

text \<open>
  The reversing copy starts at \<^verbatim>\<open>dst + ( size - 1 )\<close> and walks down: with \<open>n\<close> bytes left after the
  current one the destination pointer is \<open>dst + n\<close>.
\<close>

fun cpyr8_loop :: "nat \<Rightarrow> nat \<Rightarrow> nat \<Rightarrow> mem \<Rightarrow> mem" where
  "cpyr8_loop dst src8 0 m = m"
| "cpyr8_loop dst src8 (Suc n) m = cpyr8_loop dst (src8 + 1) n (m(dst + n := m src8))"

definition UTIL_MEM_cpyr_8 :: "nat \<Rightarrow> nat \<Rightarrow> u16 \<Rightarrow> mem \<Rightarrow> mem" where
  "UTIL_MEM_cpyr_8 dst src sz m = cpyr8_loop dst src (unat sz) m"

fun set8_loop :: "nat \<Rightarrow> u8 \<Rightarrow> nat \<Rightarrow> mem \<Rightarrow> mem" where
  "set8_loop dst8 v 0 m = m"
| "set8_loop dst8 v (Suc n) m = set8_loop (dst8 + 1) v n (m(dst8 := v))"

definition UTIL_MEM_set_8 :: "nat \<Rightarrow> u8 \<Rightarrow> u16 \<Rightarrow> mem \<Rightarrow> mem" where
  "UTIL_MEM_set_8 dst value sz m = set8_loop dst value (unat sz) m"

text \<open>The bytes stored from an address on.\<close>

definition load :: "nat \<Rightarrow> nat \<Rightarrow> mem \<Rightarrow> u8 list" where
  "load a n m = map (\<lambda>i. m (a + i)) [0..<n]"

section \<open>Interrupt mask (cmsis_compiler.c)\<close>

definition sim_get_PRIMASK :: "u32 \<Rightarrow> u32" where
  "sim_get_PRIMASK sim_primask = sim_primask"

definition sim_set_PRIMASK :: "u32 \<Rightarrow> u32 \<Rightarrow> u32" where
  "sim_set_PRIMASK primask sim_primask = primask"

definition disable_irq :: "u32 \<Rightarrow> u32" where
  "disable_irq sim_primask = sim_set_PRIMASK 1 sim_primask"

definition enable_irq :: "u32 \<Rightarrow> u32" where
  "enable_irq sim_primask = sim_set_PRIMASK 0 sim_primask"

text \<open>
  \<^verbatim>\<open>UTILS_ENTER_CRITICAL_SECTION\<close> saves the mask in a local variable and disables interrupts;
  \<^verbatim>\<open>UTILS_EXIT_CRITICAL_SECTION\<close> writes the saved value back. A critical section around a body runs
  the body on the mask in between.
\<close>

definition UTILS_ENTER_CRITICAL_SECTION :: "u32 \<Rightarrow> u32 \<times> u32" where
  "UTILS_ENTER_CRITICAL_SECTION sim_primask =
     (let primask_bit = sim_get_PRIMASK sim_primask in (primask_bit, disable_irq sim_primask))"

definition UTILS_EXIT_CRITICAL_SECTION :: "u32 \<Rightarrow> u32 \<Rightarrow> u32" where
  "UTILS_EXIT_CRITICAL_SECTION primask_bit sim_primask = sim_set_PRIMASK primask_bit sim_primask"

definition critical_section :: "(u32 \<Rightarrow> u32) \<Rightarrow> u32 \<Rightarrow> u32" where
  "critical_section body sim_primask =
     (let (primask_bit, pm) = UTILS_ENTER_CRITICAL_SECTION sim_primask
      in UTILS_EXIT_CRITICAL_SECTION primask_bit (body pm))"

section \<open>Power control (stm32wlxx_hal_pwr.c)\<close>

definition PWR_GPIO_A :: u32 where "PWR_GPIO_A = 0"
definition PWR_GPIO_B :: u32 where "PWR_GPIO_B = 1"
definition PWR_GPIO_C :: u32 where "PWR_GPIO_C = 2"
definition PWR_GPIO_H :: u32 where "PWR_GPIO_H = 7"
definition GPIO_PIN_MASK :: u32 where "GPIO_PIN_MASK = 0x0000FFFF"

definition IS_PWR_GPIO :: "u32 \<Rightarrow> bool" where
  "IS_PWR_GPIO g \<longleftrightarrow> g = PWR_GPIO_A \<or> g = PWR_GPIO_B \<or> g = PWR_GPIO_C \<or> g = PWR_GPIO_H"

definition sim_hal_stm32_pwr_gpio :: "u32 \<Rightarrow> u32 \<Rightarrow> HAL_StatusTypeDef" where
  "sim_hal_stm32_pwr_gpio GPIO GPIONumber =
     (if \<not> IS_PWR_GPIO GPIO then HAL_ERROR
      else if GPIONumber AND GPIO_PIN_MASK = 0 then HAL_ERROR
      else HAL_OK)"

definition HAL_PWREx_EnableGPIOPullUp :: "u32 \<Rightarrow> u32 \<Rightarrow> HAL_StatusTypeDef" where
  "HAL_PWREx_EnableGPIOPullUp GPIO GPIONumber = sim_hal_stm32_pwr_gpio GPIO GPIONumber"

definition HAL_PWREx_DisableGPIOPullUp :: "u32 \<Rightarrow> u32 \<Rightarrow> HAL_StatusTypeDef" where
  "HAL_PWREx_DisableGPIOPullUp GPIO GPIONumber = sim_hal_stm32_pwr_gpio GPIO GPIONumber"

definition HAL_PWREx_EnableGPIOPullDown :: "u32 \<Rightarrow> u32 \<Rightarrow> HAL_StatusTypeDef" where
  "HAL_PWREx_EnableGPIOPullDown GPIO GPIONumber = sim_hal_stm32_pwr_gpio GPIO GPIONumber"

definition HAL_PWREx_DisableGPIOPullDown :: "u32 \<Rightarrow> u32 \<Rightarrow> HAL_StatusTypeDef" where
  "HAL_PWREx_DisableGPIOPullDown GPIO GPIONumber = sim_hal_stm32_pwr_gpio GPIO GPIONumber"

text \<open>The wake-up flag kept for a CM0+ core.\<close>

definition HAL_PWREx_EnableWakeUp_ILAC :: "u32 \<Rightarrow> u32" where
  "HAL_PWREx_EnableWakeUp_ILAC enabled = 1"

definition HAL_PWREx_DisableWakeUp_ILAC :: "u32 \<Rightarrow> u32" where
  "HAL_PWREx_DisableWakeUp_ILAC enabled = 0"

definition HAL_PWREx_IsEnabledWakeUp_ILAC :: "u32 \<Rightarrow> u32" where
  "HAL_PWREx_IsEnabledWakeUp_ILAC enabled = enabled"

section \<open>Lemmas\<close>

lemma length_load [simp]: "length (load a n m) = n"
  by (simp add: load_def)

lemma load_Suc: "load a (Suc n) m = m a # load (a + 1) n m"
  by (simp add: load_def upt_conv_Cons map_Suc_upt [symmetric] comp_def del: upt_Suc)

text \<open>
  A forward copy is right when the destination lies below the source or beyond its end; bytes
  outside the destination keep their values.
\<close>

lemma cpy8_loop_eq:
  assumes "dst \<le> src \<or> src + n \<le> dst"
  shows "cpy8_loop dst src n m a =
    (if dst \<le> a \<and> a < dst + n then m (src + (a - dst)) else m a)"
  using assms
proof (induction n arbitrary: dst src m)
  case 0
  then show ?case by auto
next
  case (Suc n)
  have "dst + 1 \<le> src + 1 \<or> src + 1 + n \<le> dst + 1"
    using Suc.prems by linarith
  from Suc.IH [OF this] Suc.prems show ?case
    by (simp only: cpy8_loop.simps) (cases "a = dst"; auto simp: Suc_diff_Suc)
qed

lemma cpyr8_loop_eq:
  assumes "dst + n \<le> src \<or> src + n \<le> dst"
  shows "cpyr8_loop dst src n m a =
    (if dst \<le> a \<and> a < dst + n then m (src + (dst + n - 1 - a)) else m a)"
  using assms
proof (induction n arbitrary: src m)
  case 0
  then show ?case by auto
next
  case (Suc n)
  have "dst + n \<le> src + 1 \<or> src + 1 + n \<le> dst"
    using Suc.prems by linarith
  from Suc.IH [OF this] Suc.prems show ?case
    by (simp only: cpyr8_loop.simps) (cases "a = dst + n"; auto simp: Suc_diff_Suc)
qed

lemma set8_loop_eq: "set8_loop dst v n m a = (if dst \<le> a \<and> a < dst + n then v else m a)"
  by (induction n arbitrary: dst m) auto

lemma load_cpy8:
  assumes "dst \<le> src \<or> src + n \<le> dst"
  shows "load dst n (cpy8_loop dst src n m) = load src n m"
  using assms by (simp add: load_def cpy8_loop_eq)

lemma load_cpyr8:
  assumes "dst + n \<le> src \<or> src + n \<le> dst"
  shows "load dst n (cpyr8_loop dst src n m) = rev (load src n m)"
proof (rule nth_equalityI)
  show "length (load dst n (cpyr8_loop dst src n m)) = length (rev (load src n m))" by simp
  fix i assume "i < length (load dst n (cpyr8_loop dst src n m))"
  with assms show "load dst n (cpyr8_loop dst src n m) ! i = rev (load src n m) ! i"
    by (simp add: load_def cpyr8_loop_eq rev_nth)
qed

lemma load_frame:
  assumes "\<And>i. i < n \<Longrightarrow> m' (a + i) = m (a + i)"
  shows "load a n m' = load a n m"
  using assms by (simp add: load_def)

section \<open>Properties\<close>

text \<open>
  \<^verbatim>\<open>UTIL_MEM_cpy_8\<close> copies a block: when the destination starts at or below the source, or
  beyond the end of the source, the \<open>sz\<close> bytes at the destination are the old bytes of the source
  and every byte outside the destination is unchanged.
\<close>

theorem UTIL_MEM_cpy_8_correct:
  assumes "dst \<le> src \<or> src + unat sz \<le> dst"
  shows "load dst (unat sz) (UTIL_MEM_cpy_8 dst src sz m) = load src (unat sz) m \<and>
    (a < dst \<or> dst + unat sz \<le> a \<longrightarrow> UTIL_MEM_cpy_8 dst src sz m a = m a)"
  using assms by (simp add: UTIL_MEM_cpy_8_def load_cpy8 cpy8_loop_eq)

theorem UTIL_MEM_cpy_8_correct_witness:
  "load 2 3 (UTIL_MEM_cpy_8 2 3 3 (\<lambda>a. of_nat a)) = [3, 4, 5]"
  using UTIL_MEM_cpy_8_correct [of 2 3 3 "\<lambda>a. of_nat a" 0] by (simp add: load_def upt_rec)

text \<open>
  \<^verbatim>\<open>UTIL_MEM_cpyr_8\<close> copies a block in reverse: on buffers that do not overlap the destination
  receives the reversed source, and copying it back in reverse restores the source bytes (the
  round trip the big-endian/little-endian conversions rely on).
\<close>

theorem UTIL_MEM_cpyr_8_reverses:
  assumes "dst + unat sz \<le> src \<or> src + unat sz \<le> dst"
  shows "load dst (unat sz) (UTIL_MEM_cpyr_8 dst src sz m) = rev (load src (unat sz) m) \<and>
    load src (unat sz) (UTIL_MEM_cpyr_8 src dst sz (UTIL_MEM_cpyr_8 dst src sz m)) =
      load src (unat sz) m"
proof -
  have "src + unat sz \<le> dst \<or> dst + unat sz \<le> src" using assms by blast
  with assms show ?thesis by (simp add: UTIL_MEM_cpyr_8_def load_cpyr8)
qed

theorem UTIL_MEM_cpyr_8_reverses_witness:
  "load 10 3 (UTIL_MEM_cpyr_8 10 2 3 (\<lambda>a. of_nat a)) = [4, 3, 2]"
  using UTIL_MEM_cpyr_8_reverses [of 10 3 2 "\<lambda>a. of_nat a"] by (simp add: load_def upt_rec)

text \<open>
  A critical section restores the interrupt mask it found, whatever the body does to it, so
  critical sections nest: leaving an inner section never enables interrupts inside an outer one.
\<close>

theorem critical_section_restores:
  "critical_section body pm = pm \<and>
   critical_section (\<lambda>k. critical_section body (disable_irq k)) pm = pm \<and>
   snd (UTILS_ENTER_CRITICAL_SECTION pm) = 1"
  by (simp add: critical_section_def UTILS_ENTER_CRITICAL_SECTION_def UTILS_EXIT_CRITICAL_SECTION_def
      sim_get_PRIMASK_def sim_set_PRIMASK_def disable_irq_def Let_def)

end
