(* ===== verification/Subghz_Hal.thy ===== *)
theory Subghz_Hal
  imports Hal_Stubs
begin

text \<open>
  The sub-GHz HAL of the simulator (\<^verbatim>\<open>hal_stubs/stm32wlxx_hal_subghz.c\<close> and its header): the peripheral
  handle and its states, initialisation, the registration of callbacks, register writes and radio
  commands. It also fixes how the model sees code outside the repository: \<open>ext_call\<close> is the alphabet
  of calls that cross the boundary, \<open>calls\<close> the sequence of those made so far, and \<open>env\<close> what the
  outside answers, as a function of that sequence.
\<close>

section \<open>Types of the HAL header\<close>

datatype HAL_SUBGHZ_StateTypeDef =
    HAL_SUBGHZ_STATE_RESET
  | HAL_SUBGHZ_STATE_READY
  | HAL_SUBGHZ_STATE_BUSY
  | HAL_SUBGHZ_STATE_RESET_RF_READY

datatype HAL_SUBGHZ_CadStatusTypeDef = HAL_SUBGHZ_CAD_CLEAR | HAL_SUBGHZ_CAD_DETECTED

text \<open>
  An enum-typed argument of C can hold a value outside the enumerators; \<open>HAL_SUBGHZ_OTHER_CB_ID\<close>
  stands for those, the ones the \<^verbatim>\<open>default\<close> branches are for.
\<close>

datatype HAL_SUBGHZ_CallbackIDTypeDef =
    HAL_SUBGHZ_TX_COMPLETE_CB_ID
  | HAL_SUBGHZ_RX_COMPLETE_CB_ID
  | HAL_SUBGHZ_PREAMBLE_DETECTED_CB_ID
  | HAL_SUBGHZ_SYNCWORD_VALID_CB_ID
  | HAL_SUBGHZ_HEADER_VALID_CB_ID
  | HAL_SUBGHZ_HEADER_ERROR_CB_ID
  | HAL_SUBGHZ_CRC_ERROR_CB_ID
  | HAL_SUBGHZ_RX_TX_TIMEOUT_CB_ID
  | HAL_SUBGHZ_MSPINIT_CB_ID
  | HAL_SUBGHZ_MSPDEINIT_CB_ID
  | HAL_SUBGHZ_LR_FHSS_HOP_CB_ID
  | HAL_SUBGHZ_OTHER_CB_ID nat

datatype SUBGHZ_RadioSetCmd_t =
    RADIO_SET_SLEEP
  | RADIO_SET_STANDBY
  | RADIO_SET_FS
  | RADIO_SET_TX
  | RADIO_SET_RX
  | RADIO_SET_RXDUTYCYCLE
  | RADIO_SET_CAD
  | RADIO_SET_TXCONTINUOUSWAVE
  | RADIO_SET_TXCONTINUOUSPREAMBLE
  | RADIO_SET_PACKETTYPE
  | RADIO_SET_RFFREQUENCY
  | RADIO_SET_TXPARAMS
  | RADIO_SET_PACONFIG
  | RADIO_SET_CADPARAMS
  | RADIO_SET_BUFFERBASEADDRESS
  | RADIO_SET_MODULATIONPARAMS
  | RADIO_SET_PACKETPARAMS
  | RADIO_RESET_STATS
  | RADIO_CFG_DIOIRQ
  | RADIO_CLR_IRQSTATUS
  | RADIO_CALIBRATE
  | RADIO_CALIBRATEIMAGE
  | RADIO_SET_REGULATORMODE
  | RADIO_SET_TCXOMODE
  | RADIO_SET_TXFALLBACKMODE
  | RADIO_SET_RFSWITCHMODE
  | RADIO_SET_STOPRXTIMERONPREAMBLE
  | RADIO_SET_LORASYMBTIMEOUT
  | RADIO_CLR_ERROR

text \<open>The opcode of a set command, as the header numbers them.\<close>

fun set_cmd_code :: "SUBGHZ_RadioSetCmd_t \<Rightarrow> u8" where
  "set_cmd_code RADIO_SET_SLEEP = 0x84"
| "set_cmd_code RADIO_SET_STANDBY = 0x80"
| "set_cmd_code RADIO_SET_FS = 0xC1"
| "set_cmd_code RADIO_SET_TX = 0x83"
| "set_cmd_code RADIO_SET_RX = 0x82"
| "set_cmd_code RADIO_SET_RXDUTYCYCLE = 0x94"
| "set_cmd_code RADIO_SET_CAD = 0xC5"
| "set_cmd_code RADIO_SET_TXCONTINUOUSWAVE = 0xD1"
| "set_cmd_code RADIO_SET_TXCONTINUOUSPREAMBLE = 0xD2"
| "set_cmd_code RADIO_SET_PACKETTYPE = 0x8A"
| "set_cmd_code RADIO_SET_RFFREQUENCY = 0x86"
| "set_cmd_code RADIO_SET_TXPARAMS = 0x8E"
| "set_cmd_code RADIO_SET_PACONFIG = 0x95"
| "set_cmd_code RADIO_SET_CADPARAMS = 0x88"
| "set_cmd_code RADIO_SET_BUFFERBASEADDRESS = 0x8F"
| "set_cmd_code RADIO_SET_MODULATIONPARAMS = 0x8B"
| "set_cmd_code RADIO_SET_PACKETPARAMS = 0x8C"
| "set_cmd_code RADIO_RESET_STATS = 0x00"
| "set_cmd_code RADIO_CFG_DIOIRQ = 0x08"
| "set_cmd_code RADIO_CLR_IRQSTATUS = 0x02"
| "set_cmd_code RADIO_CALIBRATE = 0x89"
| "set_cmd_code RADIO_CALIBRATEIMAGE = 0x98"
| "set_cmd_code RADIO_SET_REGULATORMODE = 0x96"
| "set_cmd_code RADIO_SET_TCXOMODE = 0x97"
| "set_cmd_code RADIO_SET_TXFALLBACKMODE = 0x93"
| "set_cmd_code RADIO_SET_RFSWITCHMODE = 0x9D"
| "set_cmd_code RADIO_SET_STOPRXTIMERONPREAMBLE = 0x9F"
| "set_cmd_code RADIO_SET_LORASYMBTIMEOUT = 0xA0"
| "set_cmd_code RADIO_CLR_ERROR = 0x07"

datatype SUBGHZ_RadioGetCmd_t =
    RADIO_GET_STATUS
  | RADIO_GET_PACKETTYPE
  | RADIO_GET_RXBUFFERSTATUS
  | RADIO_GET_PACKETSTATUS
  | RADIO_GET_RSSIINST
  | RADIO_GET_STATS
  | RADIO_GET_IRQSTATUS
  | RADIO_GET_ERROR

definition HAL_SUBGHZ_ERROR_INVALID_CALLBACK :: u32 where
  "HAL_SUBGHZ_ERROR_INVALID_CALLBACK = 0x80"

text \<open>
  A callback is a function pointer: one of the HAL's own weak functions, or a function of the user,
  known by a number. A handle is known by its address.
\<close>

datatype callback =
    HAL_SUBGHZ_TxCpltCallback
  | HAL_SUBGHZ_RxCpltCallback
  | HAL_SUBGHZ_PreambleDetectedCallback
  | HAL_SUBGHZ_SyncWordValidCallback
  | HAL_SUBGHZ_HeaderValidCallback
  | HAL_SUBGHZ_HeaderErrorCallback
  | HAL_SUBGHZ_CRCErrorCallback
  | HAL_SUBGHZ_RxTxTimeoutCallback
  | HAL_SUBGHZ_MspInit
  | HAL_SUBGHZ_MspDeInit
  | HAL_SUBGHZ_LrFhssHopCallback
  | UserCallback nat

type_synonym hptr = nat

record SUBGHZ_HandleTypeDef =
  BaudratePrescaler :: u32
  DeepSleep :: u8
  Lock :: bool
  State :: HAL_SUBGHZ_StateTypeDef
  ErrorCode :: u32
  TxCpltCallback :: "callback option"
  RxCpltCallback :: "callback option"
  PreambleDetectedCallback :: "callback option"
  SyncWordValidCallback :: "callback option"
  HeaderValidCallback :: "callback option"
  HeaderErrorCallback :: "callback option"
  CRCErrorCallback :: "callback option"
  RxTxTimeoutCallback :: "callback option"
  MspInitCallback :: "callback option"
  MspDeInitCallback :: "callback option"
  LrFhssHopCallback :: "callback option"

section \<open>State of the HAL and the boundary of the model\<close>

text \<open>
  The globals of \<^verbatim>\<open>stm32wlxx_hal_subghz.c\<close>, the store of handles and the console. A console entry is
  the format string of a \<^verbatim>\<open>printf\<close> with its arguments.
\<close>

record hal_globals =
  handles :: "hptr \<Rightarrow> SUBGHZ_HandleTypeDef"
  sim_stm32_hal_subghz_radio_init :: bool
  sim_stm32_hal_subghz_callbacks :: "hptr option"
  console :: "(string \<times> int list) list"

text \<open>The timers of the sources, and the null pointer a caller may pass in place of one.\<close>

datatype timer_id = TxTimeoutTimer | RxTimeoutTimer | RFWPacket_Timer | NullTimer

datatype timer_callback =
    RadioOnTxTimeoutIrq | RadioOnRxTimeoutIrq
  | RFW_GetPayloadTimerEvent | RFW_TransmitLongPacket_NewTxChunkTimerEvent

datatype RBI_Switch_TypeDef =
    RBI_SWITCH_OFF | RBI_SWITCH_RX | RBI_SWITCH_RFO_LP | RBI_SWITCH_RFO_HP

datatype RBI_RFOMaxPowerConfig_TypeDef = RBI_RFO_LP_MAXPOWER | RBI_RFO_HP_MAXPOWER

datatype RBI_TxConfig = RBI_CONF_RFO_LP_HP | RBI_CONF_RFO_LP | RBI_CONF_RFO_HP | RBI_CONF_OTHER int

datatype probe_line = DBG_GPIO_RADIO_RX | DBG_GPIO_RADIO_TX

text \<open>
  Calls that leave the modelled code: the HAL entry points, the board support package (\<^verbatim>\<open>RBI_*\<close>),
  the timer server, delays, debug pins and the application's callbacks, with their arguments.
\<close>

datatype ext_call =
    SetCmd SUBGHZ_RadioSetCmd_t "u8 list"
  | GetCmd SUBGHZ_RadioGetCmd_t nat
  | WriteRegisters u16 "u8 list"
  | ReadRegisters u16 nat
  | WriteBuffer u8 "u8 list"
  | ReadBuffer u8 nat
  | MX_SUBGHZ_Init_call
  | RBI_Init_call
  | RBI_ConfigRFSwitch RBI_Switch_TypeDef
  | TimerInit timer_id timer_callback
  | TimerSetValue timer_id u32
  | TimerStart timer_id
  | TimerStop timer_id
  | Delay_ms u32
  | Probe probe_line bool
  | TxDone
  | TxTimeoutCb
  | RxDone "u8 list" u16 int int
  | RxTimeoutCb
  | RxError
  | CadDone bool
  | TxLongPacketGetNextChunkCb u8
  | RxLongPacketStoreChunkCb "u8 list"

text \<open>
  What the outside answers. Every answer may depend on all the calls made so far, so an \<open>env\<close> covers
  any deterministic device, board, clock and application. \<open>read_regs X h a n i\<close> is the \<open>i\<close>-th byte
  delivered by reading \<open>n\<close> registers from \<open>a\<close> after the calls \<open>h\<close> (the simulator's HAL has no
  \<^verbatim>\<open>HAL_SUBGHZ_ReadRegisters\<close>, \<^verbatim>\<open>ReadBuffer\<close> or \<^verbatim>\<open>WriteBuffer\<close>: they come with the firmware);
  \<open>read_buf\<close> is the same for the data buffer and \<open>next_chunk\<close> for the bytes the application provides.
  \<open>stack_byte X h i\<close> is the \<open>i\<close>-th byte an uninitialised local array holds. \<open>RFW_ENABLE\<close> and
  \<open>RFW_LONGPACKET_ENABLE\<close> are the build switches of \<^verbatim>\<open>radio_fw.c\<close>.
\<close>

record env =
  read_regs :: "ext_call list \<Rightarrow> u16 \<Rightarrow> nat \<Rightarrow> nat \<Rightarrow> u8"
  read_buf :: "ext_call list \<Rightarrow> u8 \<Rightarrow> nat \<Rightarrow> nat \<Rightarrow> u8"
  stack_byte :: "ext_call list \<Rightarrow> nat \<Rightarrow> u8"
  next_chunk :: "ext_call list \<Rightarrow> u8 \<Rightarrow> nat \<Rightarrow> u8"
  TimerGetCurrentTime :: "ext_call list \<Rightarrow> u32"
  TimerGetElapsedTime :: "ext_call list \<Rightarrow> u32 \<Rightarrow> u32"
  MX_SUBGHZ_Init :: "hal_globals \<Rightarrow> hal_globals"
  RBI_IsTCXO :: int
  RBI_IsDCDC :: int
  RBI_GetTxConfig :: RBI_TxConfig
  RBI_GetRFOMaxPowerConfig :: "RBI_RFOMaxPowerConfig_TypeDef \<Rightarrow> int"
  LL_DBGMCU_GetRevisionID :: u32
  RFW_ENABLE :: bool
  RFW_LONGPACKET_ENABLE :: bool

record hal_state =
  hal :: hal_globals
  calls :: "ext_call list"

definition ext :: "ext_call \<Rightarrow> 'a hal_state_scheme \<Rightarrow> 'a hal_state_scheme" where
  "ext c s = s\<lparr>calls := calls s @ [c]\<rparr>"

definition printf :: "string \<Rightarrow> int list \<Rightarrow> hal_globals \<Rightarrow> hal_globals" where
  "printf msg args g = g\<lparr>console := console g @ [(msg, args)]\<rparr>"

section \<open>Initialisation\<close>

definition HAL_SUBGHZ_MspInit_fn :: "hptr \<Rightarrow> hal_globals \<Rightarrow> hal_globals" where
  "HAL_SUBGHZ_MspInit_fn hsubghz g =
     (let g = (if sim_stm32_hal_subghz_callbacks g = None
               then g\<lparr>sim_stm32_hal_subghz_callbacks := Some hsubghz\<rparr> else g)
      in if sim_stm32_hal_subghz_callbacks g \<noteq> Some hsubghz
         then printf ''ERROR: HAL_SUBGHZ_DeInit() called with a handle that does not match the registered callbacks.'' [] g
         else g)"

definition HAL_SUBGHZ_MspDeInit_fn :: "hptr \<Rightarrow> hal_globals \<Rightarrow> hal_globals" where
  "HAL_SUBGHZ_MspDeInit_fn hsubghz g =
     (if sim_stm32_hal_subghz_callbacks g = None then g
      else if sim_stm32_hal_subghz_callbacks g \<noteq> Some hsubghz
      then printf ''ERROR: HAL_SUBGHZ_DeInit() called with a handle that does not match the registered callbacks.'' [] g
      else g)"

definition HAL_SUBGHZ_Init :: "hptr \<Rightarrow> hal_globals \<Rightarrow> HAL_StatusTypeDef \<times> hal_globals" where
  "HAL_SUBGHZ_Init hsubghz g =
     (let g = g\<lparr>sim_stm32_hal_subghz_callbacks := Some hsubghz\<rparr>;
          g = g\<lparr>sim_stm32_hal_subghz_radio_init := True\<rparr>
      in (HAL_OK, HAL_SUBGHZ_MspInit_fn hsubghz g))"

definition HAL_SUBGHZ_DeInit :: "hptr \<Rightarrow> hal_globals \<Rightarrow> HAL_StatusTypeDef \<times> hal_globals" where
  "HAL_SUBGHZ_DeInit hsubghz g =
     (if sim_stm32_hal_subghz_callbacks g \<noteq> Some hsubghz
      then (HAL_ERROR, printf ''ERROR: HAL_SUBGHZ_DeInit() called with a handle that does not match the registered callbacks.'' [] g)
      else
        let g = g\<lparr>sim_stm32_hal_subghz_callbacks := None\<rparr>;
            g = g\<lparr>sim_stm32_hal_subghz_radio_init := False\<rparr>
        in (HAL_OK, HAL_SUBGHZ_MspDeInit_fn hsubghz g))"

section \<open>Registration of callbacks\<close>

text \<open>The part compiled with \<^verbatim>\<open>USE_HAL_SUBGHZ_REGISTER_CALLBACKS == 1\<close>.\<close>

definition upd_handle ::
  "hptr \<Rightarrow> (SUBGHZ_HandleTypeDef \<Rightarrow> SUBGHZ_HandleTypeDef) \<Rightarrow> hal_globals \<Rightarrow> hal_globals" where
  "upd_handle p f g = g\<lparr>handles := (handles g)(p := f (handles g p))\<rparr>"

definition HAL_SUBGHZ_RegisterCallback ::
  "hptr \<Rightarrow> HAL_SUBGHZ_CallbackIDTypeDef \<Rightarrow> callback option \<Rightarrow> hal_globals
     \<Rightarrow> HAL_StatusTypeDef \<times> hal_globals" where
  "HAL_SUBGHZ_RegisterCallback p CallbackID pCallback g =
     (case pCallback of
        None \<Rightarrow>
          (HAL_ERROR,
           upd_handle p (\<lambda>h. h\<lparr>ErrorCode := ErrorCode h OR HAL_SUBGHZ_ERROR_INVALID_CALLBACK\<rparr>)
             (printf ''ERROR: HAL_SUBGHZ_RegisterCallback() received invalid callback.'' [] g))
      | Some cb \<Rightarrow>
        (case State (handles g p) of
          HAL_SUBGHZ_STATE_READY \<Rightarrow>
          (case CallbackID of
             HAL_SUBGHZ_TX_COMPLETE_CB_ID \<Rightarrow> (HAL_OK, upd_handle p (\<lambda>h. h\<lparr>TxCpltCallback := Some cb\<rparr>) g)
           | HAL_SUBGHZ_RX_COMPLETE_CB_ID \<Rightarrow> (HAL_OK, upd_handle p (\<lambda>h. h\<lparr>RxCpltCallback := Some cb\<rparr>) g)
           | HAL_SUBGHZ_PREAMBLE_DETECTED_CB_ID \<Rightarrow> (HAL_OK, upd_handle p (\<lambda>h. h\<lparr>PreambleDetectedCallback := Some cb\<rparr>) g)
           | HAL_SUBGHZ_SYNCWORD_VALID_CB_ID \<Rightarrow> (HAL_OK, upd_handle p (\<lambda>h. h\<lparr>SyncWordValidCallback := Some cb\<rparr>) g)
           | HAL_SUBGHZ_HEADER_VALID_CB_ID \<Rightarrow> (HAL_OK, upd_handle p (\<lambda>h. h\<lparr>HeaderValidCallback := Some cb\<rparr>) g)
           | HAL_SUBGHZ_HEADER_ERROR_CB_ID \<Rightarrow> (HAL_OK, upd_handle p (\<lambda>h. h\<lparr>HeaderErrorCallback := Some cb\<rparr>) g)
           | HAL_SUBGHZ_CRC_ERROR_CB_ID \<Rightarrow> (HAL_OK, upd_handle p (\<lambda>h. h\<lparr>CRCErrorCallback := Some cb\<rparr>) g)
           | HAL_SUBGHZ_RX_TX_TIMEOUT_CB_ID \<Rightarrow> (HAL_OK, upd_handle p (\<lambda>h. h\<lparr>RxTxTimeoutCallback := Some cb\<rparr>) g)
           | HAL_SUBGHZ_MSPINIT_CB_ID \<Rightarrow> (HAL_OK, upd_handle p (\<lambda>h. h\<lparr>MspInitCallback := Some cb\<rparr>) g)
           | HAL_SUBGHZ_MSPDEINIT_CB_ID \<Rightarrow> (HAL_OK, upd_handle p (\<lambda>h. h\<lparr>MspDeInitCallback := Some cb\<rparr>) g)
           | HAL_SUBGHZ_LR_FHSS_HOP_CB_ID \<Rightarrow> (HAL_OK, upd_handle p (\<lambda>h. h\<lparr>LrFhssHopCallback := Some cb\<rparr>) g)
           | _ \<Rightarrow> (HAL_ERROR, upd_handle p (\<lambda>h. h\<lparr>ErrorCode := HAL_SUBGHZ_ERROR_INVALID_CALLBACK\<rparr>) (printf ''ERROR: HAL_SUBGHZ_RegisterCallback() received invalid callback.'' [] g)))
        | HAL_SUBGHZ_STATE_RESET \<Rightarrow>
          (case CallbackID of
             HAL_SUBGHZ_MSPINIT_CB_ID \<Rightarrow> (HAL_OK, upd_handle p (\<lambda>h. h\<lparr>MspInitCallback := Some cb\<rparr>) g)
           | HAL_SUBGHZ_MSPDEINIT_CB_ID \<Rightarrow> (HAL_OK, upd_handle p (\<lambda>h. h\<lparr>MspDeInitCallback := Some cb\<rparr>) g)
           | _ \<Rightarrow> (HAL_ERROR, upd_handle p (\<lambda>h. h\<lparr>ErrorCode := HAL_SUBGHZ_ERROR_INVALID_CALLBACK\<rparr>) g))
        | _ \<Rightarrow>
          (HAL_ERROR, upd_handle p (\<lambda>h. h\<lparr>ErrorCode := HAL_SUBGHZ_ERROR_INVALID_CALLBACK\<rparr>) g)))"

definition HAL_SUBGHZ_UnRegisterCallback ::
  "hptr \<Rightarrow> HAL_SUBGHZ_CallbackIDTypeDef \<Rightarrow> hal_globals \<Rightarrow> HAL_StatusTypeDef \<times> hal_globals" where
  "HAL_SUBGHZ_UnRegisterCallback p CallbackID g =
     (case State (handles g p) of
          HAL_SUBGHZ_STATE_READY \<Rightarrow>
          (case CallbackID of
             HAL_SUBGHZ_TX_COMPLETE_CB_ID \<Rightarrow> (HAL_OK, upd_handle p (\<lambda>h. h\<lparr>TxCpltCallback := Some HAL_SUBGHZ_TxCpltCallback\<rparr>) g)
           | HAL_SUBGHZ_RX_COMPLETE_CB_ID \<Rightarrow> (HAL_OK, upd_handle p (\<lambda>h. h\<lparr>RxCpltCallback := Some HAL_SUBGHZ_RxCpltCallback\<rparr>) g)
           | HAL_SUBGHZ_PREAMBLE_DETECTED_CB_ID \<Rightarrow> (HAL_OK, upd_handle p (\<lambda>h. h\<lparr>PreambleDetectedCallback := Some HAL_SUBGHZ_PreambleDetectedCallback\<rparr>) g)
           | HAL_SUBGHZ_SYNCWORD_VALID_CB_ID \<Rightarrow> (HAL_OK, upd_handle p (\<lambda>h. h\<lparr>SyncWordValidCallback := Some HAL_SUBGHZ_SyncWordValidCallback\<rparr>) g)
           | HAL_SUBGHZ_HEADER_VALID_CB_ID \<Rightarrow> (HAL_OK, upd_handle p (\<lambda>h. h\<lparr>HeaderValidCallback := Some HAL_SUBGHZ_HeaderValidCallback\<rparr>) g)
           | HAL_SUBGHZ_HEADER_ERROR_CB_ID \<Rightarrow> (HAL_OK, upd_handle p (\<lambda>h. h\<lparr>HeaderErrorCallback := Some HAL_SUBGHZ_HeaderErrorCallback\<rparr>) g)
           | HAL_SUBGHZ_CRC_ERROR_CB_ID \<Rightarrow> (HAL_OK, upd_handle p (\<lambda>h. h\<lparr>CRCErrorCallback := Some HAL_SUBGHZ_CRCErrorCallback\<rparr>) g)
           | HAL_SUBGHZ_RX_TX_TIMEOUT_CB_ID \<Rightarrow> (HAL_OK, upd_handle p (\<lambda>h. h\<lparr>RxTxTimeoutCallback := Some HAL_SUBGHZ_RxTxTimeoutCallback\<rparr>) g)
           | HAL_SUBGHZ_MSPINIT_CB_ID \<Rightarrow> (HAL_OK, upd_handle p (\<lambda>h. h\<lparr>MspInitCallback := Some HAL_SUBGHZ_MspInit\<rparr>) g)
           | HAL_SUBGHZ_MSPDEINIT_CB_ID \<Rightarrow> (HAL_OK, upd_handle p (\<lambda>h. h\<lparr>MspDeInitCallback := Some HAL_SUBGHZ_MspDeInit\<rparr>) g)
           | HAL_SUBGHZ_LR_FHSS_HOP_CB_ID \<Rightarrow> (HAL_OK, upd_handle p (\<lambda>h. h\<lparr>LrFhssHopCallback := Some HAL_SUBGHZ_LrFhssHopCallback\<rparr>) g)
           | _ \<Rightarrow> (HAL_ERROR, upd_handle p (\<lambda>h. h\<lparr>ErrorCode := HAL_SUBGHZ_ERROR_INVALID_CALLBACK\<rparr>) (printf ''ERROR: HAL_SUBGHZ_UnRegisterCallback() received invalid callback ID.'' [] g)))
        | HAL_SUBGHZ_STATE_RESET \<Rightarrow>
          (case CallbackID of
             HAL_SUBGHZ_MSPINIT_CB_ID \<Rightarrow> (HAL_OK, upd_handle p (\<lambda>h. h\<lparr>MspInitCallback := Some HAL_SUBGHZ_MspInit\<rparr>) g)
           | HAL_SUBGHZ_MSPDEINIT_CB_ID \<Rightarrow> (HAL_OK, upd_handle p (\<lambda>h. h\<lparr>MspDeInitCallback := Some HAL_SUBGHZ_MspDeInit\<rparr>) g)
           | _ \<Rightarrow> (HAL_ERROR, upd_handle p (\<lambda>h. h\<lparr>ErrorCode := HAL_SUBGHZ_ERROR_INVALID_CALLBACK\<rparr>) (printf ''ERROR: HAL_SUBGHZ_UnRegisterCallback() received invalid callback ID!.'' [] g)))
        | _ \<Rightarrow>
          (HAL_ERROR, upd_handle p (\<lambda>h. h\<lparr>ErrorCode := HAL_SUBGHZ_ERROR_INVALID_CALLBACK\<rparr>) g))"

text \<open>The slot of a handle that an identifier names, and the function the HAL installs by default.\<close>

fun slot :: "HAL_SUBGHZ_CallbackIDTypeDef \<Rightarrow> SUBGHZ_HandleTypeDef \<Rightarrow> callback option" where
  "slot HAL_SUBGHZ_TX_COMPLETE_CB_ID h = TxCpltCallback h"
| "slot HAL_SUBGHZ_RX_COMPLETE_CB_ID h = RxCpltCallback h"
| "slot HAL_SUBGHZ_PREAMBLE_DETECTED_CB_ID h = PreambleDetectedCallback h"
| "slot HAL_SUBGHZ_SYNCWORD_VALID_CB_ID h = SyncWordValidCallback h"
| "slot HAL_SUBGHZ_HEADER_VALID_CB_ID h = HeaderValidCallback h"
| "slot HAL_SUBGHZ_HEADER_ERROR_CB_ID h = HeaderErrorCallback h"
| "slot HAL_SUBGHZ_CRC_ERROR_CB_ID h = CRCErrorCallback h"
| "slot HAL_SUBGHZ_RX_TX_TIMEOUT_CB_ID h = RxTxTimeoutCallback h"
| "slot HAL_SUBGHZ_MSPINIT_CB_ID h = MspInitCallback h"
| "slot HAL_SUBGHZ_MSPDEINIT_CB_ID h = MspDeInitCallback h"
| "slot HAL_SUBGHZ_LR_FHSS_HOP_CB_ID h = LrFhssHopCallback h"
| "slot (HAL_SUBGHZ_OTHER_CB_ID n) h = None"

fun default_callback :: "HAL_SUBGHZ_CallbackIDTypeDef \<Rightarrow> callback option" where
  "default_callback HAL_SUBGHZ_TX_COMPLETE_CB_ID = Some HAL_SUBGHZ_TxCpltCallback"
| "default_callback HAL_SUBGHZ_RX_COMPLETE_CB_ID = Some HAL_SUBGHZ_RxCpltCallback"
| "default_callback HAL_SUBGHZ_PREAMBLE_DETECTED_CB_ID = Some HAL_SUBGHZ_PreambleDetectedCallback"
| "default_callback HAL_SUBGHZ_SYNCWORD_VALID_CB_ID = Some HAL_SUBGHZ_SyncWordValidCallback"
| "default_callback HAL_SUBGHZ_HEADER_VALID_CB_ID = Some HAL_SUBGHZ_HeaderValidCallback"
| "default_callback HAL_SUBGHZ_HEADER_ERROR_CB_ID = Some HAL_SUBGHZ_HeaderErrorCallback"
| "default_callback HAL_SUBGHZ_CRC_ERROR_CB_ID = Some HAL_SUBGHZ_CRCErrorCallback"
| "default_callback HAL_SUBGHZ_RX_TX_TIMEOUT_CB_ID = Some HAL_SUBGHZ_RxTxTimeoutCallback"
| "default_callback HAL_SUBGHZ_MSPINIT_CB_ID = Some HAL_SUBGHZ_MspInit"
| "default_callback HAL_SUBGHZ_MSPDEINIT_CB_ID = Some HAL_SUBGHZ_MspDeInit"
| "default_callback HAL_SUBGHZ_LR_FHSS_HOP_CB_ID = Some HAL_SUBGHZ_LrFhssHopCallback"
| "default_callback (HAL_SUBGHZ_OTHER_CB_ID n) = None"

text \<open>The identifiers a handle accepts: all of them when ready, the two Msp ones in reset.\<close>

fun accepts :: "HAL_SUBGHZ_StateTypeDef \<Rightarrow> HAL_SUBGHZ_CallbackIDTypeDef \<Rightarrow> bool" where
  "accepts HAL_SUBGHZ_STATE_READY (HAL_SUBGHZ_OTHER_CB_ID n) = False"
| "accepts HAL_SUBGHZ_STATE_READY CallbackID = True"
| "accepts HAL_SUBGHZ_STATE_RESET CallbackID =
     (CallbackID = HAL_SUBGHZ_MSPINIT_CB_ID \<or> CallbackID = HAL_SUBGHZ_MSPDEINIT_CB_ID)"
| "accepts _ CallbackID = False"

section \<open>Registers and commands\<close>

definition HAL_SUBGHZ_WriteRegisters ::
  "hptr \<Rightarrow> u16 \<Rightarrow> u8 list \<Rightarrow> hal_globals \<Rightarrow> HAL_StatusTypeDef \<times> hal_globals" where
  "HAL_SUBGHZ_WriteRegisters p Address pBuffer g =
     (if State (handles g p) = HAL_SUBGHZ_STATE_READY then
        let g = upd_handle p (\<lambda>h. h\<lparr>State := HAL_SUBGHZ_STATE_BUSY\<rparr>) g in
        if \<not> sim_stm32_hal_subghz_radio_init g then
          (HAL_ERROR, printf ''ERROR: HAL_SUBGHZ_WriteRegisters called for uninitialized radio.'' [] g)
        else
          (HAL_ERROR, printf ''NOT IMPLEMENTED: Ignoring HAL_SUBGHZ_WriteRegisters call.'' [] g)
      else (HAL_BUSY, g))"

definition HAL_SUBGHZ_ExecSetCmd ::
  "hptr \<Rightarrow> SUBGHZ_RadioSetCmd_t \<Rightarrow> u8 list \<Rightarrow> hal_globals \<Rightarrow> HAL_StatusTypeDef \<times> hal_globals" where
  "HAL_SUBGHZ_ExecSetCmd p Command pBuffer g =
     (case Command of
        RADIO_SET_SLEEP \<Rightarrow> (HAL_ERROR, printf ''NOT IMPLEMENTED: Ignoring RADIO_SET_SLEEP command.'' [] g)
      | RADIO_SET_STANDBY \<Rightarrow> (HAL_ERROR, printf ''NOT IMPLEMENTED: Ignoring RADIO_SET_STANDBY command.'' [] g)
      | RADIO_SET_FS \<Rightarrow> (HAL_ERROR, printf ''NOT IMPLEMENTED: Ignoring RADIO_SET_FS command.'' [] g)
      | RADIO_SET_TX \<Rightarrow> (HAL_ERROR, printf ''NOT IMPLEMENTED: Ignoring RADIO_SET_TX command.'' [] g)
      | RADIO_SET_RX \<Rightarrow> (HAL_ERROR, printf ''NOT IMPLEMENTED: Ignoring RADIO_SET_RX command.'' [] g)
      | _ \<Rightarrow>
        (HAL_ERROR, printf ''ERROR: HAL_SUBGHZ_ExecSetCmd received unhandled command %d'' [uint (set_cmd_code Command)] g))"

definition HAL_SUBGHZ_ExecGetCmd ::
  "hptr \<Rightarrow> SUBGHZ_RadioGetCmd_t \<Rightarrow> u8 list \<Rightarrow> hal_globals \<Rightarrow> HAL_StatusTypeDef \<times> u8 list \<times> hal_globals" where
  "HAL_SUBGHZ_ExecGetCmd p Command pBuffer g = (HAL_ERROR, pBuffer, g)"

text \<open>A client of the HAL calls its entry points in some order.\<close>

datatype hal_op =
    OpInit hptr
  | OpDeInit hptr
  | OpRegister hptr HAL_SUBGHZ_CallbackIDTypeDef "callback option"
  | OpUnRegister hptr HAL_SUBGHZ_CallbackIDTypeDef
  | OpWriteRegisters hptr u16 "u8 list"
  | OpExecSetCmd hptr SUBGHZ_RadioSetCmd_t "u8 list"

fun hal_step :: "hal_op \<Rightarrow> hal_globals \<Rightarrow> HAL_StatusTypeDef \<times> hal_globals" where
  "hal_step (OpInit p) g = HAL_SUBGHZ_Init p g"
| "hal_step (OpDeInit p) g = HAL_SUBGHZ_DeInit p g"
| "hal_step (OpRegister p i cb) g = HAL_SUBGHZ_RegisterCallback p i cb g"
| "hal_step (OpUnRegister p i) g = HAL_SUBGHZ_UnRegisterCallback p i g"
| "hal_step (OpWriteRegisters p a b) g = HAL_SUBGHZ_WriteRegisters p a b g"
| "hal_step (OpExecSetCmd p c b) g = HAL_SUBGHZ_ExecSetCmd p c b g"

fun hal_run :: "hal_op list \<Rightarrow> hal_globals \<Rightarrow> hal_globals" where
  "hal_run [] g = g"
| "hal_run (x # xs) g = hal_run xs (snd (hal_step x g))"

section \<open>Lemmas\<close>

lemma handles_upd_handle [simp]:
  "handles (upd_handle p f g) q = (if q = p then f (handles g p) else handles g q)"
  by (simp add: upd_handle_def)

lemma handles_printf [simp]: "handles (printf m a g) = handles g"
  by (simp add: printf_def)

lemma State_printf: "State (handles (printf m a g) p) = State (handles g p)"
  by simp

lemma RegisterCallback_accepts:
  "accepts (State (handles g p)) i \<Longrightarrow>
     fst (HAL_SUBGHZ_RegisterCallback p i (Some cb) g) = HAL_OK \<and>
     slot i (handles (snd (HAL_SUBGHZ_RegisterCallback p i (Some cb) g)) p) = Some cb"
  by (cases i; cases "State (handles g p)") (simp_all add: HAL_SUBGHZ_RegisterCallback_def)

lemma RegisterCallback_other_slots:
  "accepts (State (handles g p)) i \<Longrightarrow> j \<noteq> i \<Longrightarrow>
     slot j (handles (snd (HAL_SUBGHZ_RegisterCallback p i (Some cb) g)) p) = slot j (handles g p)"
  by (cases i; cases "State (handles g p)"; cases j) (simp_all add: HAL_SUBGHZ_RegisterCallback_def)

lemma RegisterCallback_refuses:
  "\<not> accepts (State (handles g p)) i \<Longrightarrow>
     fst (HAL_SUBGHZ_RegisterCallback p i (Some cb) g) = HAL_ERROR \<and>
     ErrorCode (handles (snd (HAL_SUBGHZ_RegisterCallback p i (Some cb) g)) p) = HAL_SUBGHZ_ERROR_INVALID_CALLBACK \<and>
     slot j (handles (snd (HAL_SUBGHZ_RegisterCallback p i (Some cb) g)) p) = slot j (handles g p)"
  by (cases i; cases "State (handles g p)"; cases j) (simp_all add: HAL_SUBGHZ_RegisterCallback_def)

lemma RegisterCallback_State [simp]:
  "State (handles (snd (HAL_SUBGHZ_RegisterCallback p i cb g)) q) = State (handles g q)"
  by (simp add: HAL_SUBGHZ_RegisterCallback_def
      split: option.split HAL_SUBGHZ_StateTypeDef.split HAL_SUBGHZ_CallbackIDTypeDef.split)

lemma UnRegisterCallback_State [simp]:
  "State (handles (snd (HAL_SUBGHZ_UnRegisterCallback p i g)) q) = State (handles g q)"
  by (simp add: HAL_SUBGHZ_UnRegisterCallback_def
      split: HAL_SUBGHZ_StateTypeDef.split HAL_SUBGHZ_CallbackIDTypeDef.split)

lemma UnRegisterCallback_accepts:
  "accepts (State (handles g p)) i \<Longrightarrow>
     fst (HAL_SUBGHZ_UnRegisterCallback p i g) = HAL_OK \<and>
     slot i (handles (snd (HAL_SUBGHZ_UnRegisterCallback p i g)) p) = default_callback i"
  by (cases i; cases "State (handles g p)") (simp_all add: HAL_SUBGHZ_UnRegisterCallback_def)

lemma Init_handles [simp]: "handles (snd (HAL_SUBGHZ_Init p g)) = handles g"
  by (simp add: HAL_SUBGHZ_Init_def HAL_SUBGHZ_MspInit_fn_def Let_def)

lemma DeInit_handles [simp]: "handles (snd (HAL_SUBGHZ_DeInit p g)) = handles g"
  by (simp add: HAL_SUBGHZ_DeInit_def HAL_SUBGHZ_MspDeInit_fn_def Let_def)

lemma ExecSetCmd_handles [simp]: "handles (snd (HAL_SUBGHZ_ExecSetCmd p c b g)) = handles g"
  by (cases c) (simp_all add: HAL_SUBGHZ_ExecSetCmd_def)

lemma WriteRegisters_State:
  "State (handles (snd (HAL_SUBGHZ_WriteRegisters p a b g)) q) =
     (if q = p \<and> State (handles g p) = HAL_SUBGHZ_STATE_READY then HAL_SUBGHZ_STATE_BUSY
      else State (handles g q))"
  by (simp add: HAL_SUBGHZ_WriteRegisters_def Let_def)

lemma hal_step_never_ready:
  "State (handles g q) \<noteq> HAL_SUBGHZ_STATE_READY \<Longrightarrow>
     State (handles (snd (hal_step x g)) q) = State (handles g q)"
  by (cases x) (auto simp: WriteRegisters_State)

lemma hal_run_never_ready:
  "State (handles g q) \<noteq> HAL_SUBGHZ_STATE_READY \<Longrightarrow>
     State (handles (hal_run xs g) q) = State (handles g q)"
  by (induction xs arbitrary: g) (simp_all add: hal_step_never_ready)

section \<open>Properties\<close>

text \<open>
  C36: registering a callback. On a handle whose state accepts the identifier the call answers
  \<^verbatim>\<open>HAL_OK\<close>, installs the function in the slot of that identifier and in no other, and unregistering
  the identifier afterwards brings the HAL's own weak function back; the state of the handle is not
  touched by either call.
\<close>

theorem RegisterCallback_correct:
  assumes "accepts (State (handles g p)) i"
  shows "fst (HAL_SUBGHZ_RegisterCallback p i (Some cb) g) = HAL_OK \<and>
    slot j (handles (snd (HAL_SUBGHZ_RegisterCallback p i (Some cb) g)) p) =
      (if j = i then Some cb else slot j (handles g p)) \<and>
    (let g' = snd (HAL_SUBGHZ_RegisterCallback p i (Some cb) g)
     in fst (HAL_SUBGHZ_UnRegisterCallback p i g') = HAL_OK \<and>
        slot i (handles (snd (HAL_SUBGHZ_UnRegisterCallback p i g')) p) = default_callback i \<and>
        State (handles (snd (HAL_SUBGHZ_UnRegisterCallback p i g')) p) = State (handles g p))"
  using assms RegisterCallback_accepts RegisterCallback_other_slots UnRegisterCallback_accepts
  by (simp add: Let_def)

definition ready_handle :: SUBGHZ_HandleTypeDef where
  "ready_handle = \<lparr>BaudratePrescaler = 0, DeepSleep = 0, Lock = False, State = HAL_SUBGHZ_STATE_READY,
     ErrorCode = 0, TxCpltCallback = None, RxCpltCallback = None, PreambleDetectedCallback = None,
     SyncWordValidCallback = None, HeaderValidCallback = None, HeaderErrorCallback = None,
     CRCErrorCallback = None, RxTxTimeoutCallback = None, MspInitCallback = None,
     MspDeInitCallback = None, LrFhssHopCallback = None\<rparr>"

definition ready_globals :: hal_globals where
  "ready_globals = \<lparr>handles = (\<lambda>_. ready_handle), sim_stm32_hal_subghz_radio_init = True,
     sim_stm32_hal_subghz_callbacks = Some 0, console = []\<rparr>"

lemma State_ready [simp]: "State (handles ready_globals p) = HAL_SUBGHZ_STATE_READY"
  by (simp add: ready_globals_def ready_handle_def)

theorem RegisterCallback_correct_witness:
  "slot HAL_SUBGHZ_CRC_ERROR_CB_ID
     (handles (snd (HAL_SUBGHZ_RegisterCallback 0 HAL_SUBGHZ_CRC_ERROR_CB_ID (Some (UserCallback 3)) ready_globals)) 0)
   = Some (UserCallback 3)"
  using RegisterCallback_correct [of ready_globals 0 HAL_SUBGHZ_CRC_ERROR_CB_ID "UserCallback 3"
      HAL_SUBGHZ_CRC_ERROR_CB_ID] by simp

text \<open>
  A refused registration. On a handle whose state does not accept the identifier, and for a
  null function pointer on any handle, the call answers \<^verbatim>\<open>HAL_ERROR\<close>, records the invalid-callback
  error in the handle and leaves every slot as it was.
\<close>

theorem RegisterCallback_refused:
  assumes "cb = None \<or> \<not> accepts (State (handles g p)) i"
  shows "fst (HAL_SUBGHZ_RegisterCallback p i cb g) = HAL_ERROR \<and>
    ErrorCode (handles (snd (HAL_SUBGHZ_RegisterCallback p i cb g)) p) AND HAL_SUBGHZ_ERROR_INVALID_CALLBACK
      = HAL_SUBGHZ_ERROR_INVALID_CALLBACK \<and>
    slot j (handles (snd (HAL_SUBGHZ_RegisterCallback p i cb g)) p) = slot j (handles g p)"
proof (cases cb)
  case None
  then show ?thesis
    by (cases j) (simp_all add: HAL_SUBGHZ_RegisterCallback_def bit.conj_disj_distrib2)
next
  case (Some c)
  with assms show ?thesis by (simp add: RegisterCallback_refuses)
qed

theorem RegisterCallback_refused_witness:
  "fst (HAL_SUBGHZ_RegisterCallback 0 HAL_SUBGHZ_MSPINIT_CB_ID None ready_globals) = HAL_ERROR"
  using RegisterCallback_refused [of None ready_globals 0 HAL_SUBGHZ_MSPINIT_CB_ID
      HAL_SUBGHZ_MSPINIT_CB_ID] by simp

text \<open>
  C37: no entry point of the stub makes a handle ready. After a register write, whatever calls
  follow (initialisation included), every later register write on that handle answers \<^verbatim>\<open>HAL_BUSY\<close>
  and changes nothing.
\<close>

theorem WriteRegisters_busy_forever:
  "let g' = hal_run xs (snd (HAL_SUBGHZ_WriteRegisters p a b g))
   in HAL_SUBGHZ_WriteRegisters p a' b' g' = (HAL_BUSY, g')"
proof -
  let ?g = "snd (HAL_SUBGHZ_WriteRegisters p a b g)"
  have "State (handles ?g p) \<noteq> HAL_SUBGHZ_STATE_READY"
    by (simp add: WriteRegisters_State)
  then have "State (handles (hal_run xs ?g) p) \<noteq> HAL_SUBGHZ_STATE_READY"
    by (simp add: hal_run_never_ready)
  then show ?thesis by (simp add: HAL_SUBGHZ_WriteRegisters_def Let_def)
qed

end
