(* ===== verification/Radio_Types.thy ===== *)
theory Radio_Types
  imports Subghz_Hal
begin

text \<open>
  The types and constants of \<^verbatim>\<open>radio_driver.h\<close>, \<^verbatim>\<open>radio_def.h\<close> and \<^verbatim>\<open>radio.h\<close>. Enumerations the code only
  compares are datatypes; those it also casts from integers or writes to the radio are words with the
  header's values. A struct is a record; the nested \<^verbatim>\<open>Params\<close> structs (they are structs, not unions,
  so their members do not overlap) are flattened with the member's name as a prefix.
\<close>

section \<open>Enumerations\<close>

datatype RadioModems_t =
    MODEM_FSK | MODEM_LORA | MODEM_MSK | MODEM_BPSK | MODEM_SIGFOX_TX | MODEM_SIGFOX_RX

datatype RadioPacketTypes_t =
    PACKET_TYPE_GFSK | PACKET_TYPE_LORA | PACKET_TYPE_BPSK | PACKET_TYPE_GMSK | PACKET_TYPE_NONE

fun packet_type_val :: "RadioPacketTypes_t \<Rightarrow> u8" where
  "packet_type_val PACKET_TYPE_GFSK = 0x00"
| "packet_type_val PACKET_TYPE_LORA = 0x01"
| "packet_type_val PACKET_TYPE_BPSK = 0x02"
| "packet_type_val PACKET_TYPE_GMSK = 0x03"
| "packet_type_val PACKET_TYPE_NONE = 0x0F"

datatype RadioOperatingModes_t =
    MODE_SLEEP | MODE_STDBY_RC | MODE_STDBY_XOSC | MODE_FS | MODE_TX | MODE_RX | MODE_RX_DC | MODE_CAD

datatype RadioStandbyModes_t = STDBY_RC | STDBY_XOSC

fun standby_val :: "RadioStandbyModes_t \<Rightarrow> u8" where
  "standby_val STDBY_RC = 0x00"
| "standby_val STDBY_XOSC = 0x01"

datatype RadioRegulatorMode_t = USE_LDO | USE_DCDC

fun regulator_val :: "RadioRegulatorMode_t \<Rightarrow> u8" where
  "regulator_val USE_LDO = 0x00"
| "regulator_val USE_DCDC = 0x01"

datatype RFState_t = RFSWITCH_RX | RFSWITCH_TX

datatype RadioState_t = RF_IDLE | RF_RX_RUNNING | RF_TX_RUNNING | RF_CAD

datatype radio_status_t =
    RADIO_STATUS_OK | RADIO_STATUS_UNSUPPORTED_FEATURE | RADIO_STATUS_UNKNOWN_VALUE | RADIO_STATUS_ERROR

text \<open>The operating modes are numbered in the order of the header, and the code compares them by it.\<close>

fun mode_val :: "RadioOperatingModes_t \<Rightarrow> nat" where
  "mode_val MODE_SLEEP = 0"
| "mode_val MODE_STDBY_RC = 1"
| "mode_val MODE_STDBY_XOSC = 2"
| "mode_val MODE_FS = 3"
| "mode_val MODE_TX = 4"
| "mode_val MODE_RX = 5"
| "mode_val MODE_RX_DC = 6"
| "mode_val MODE_CAD = 7"

lemma mode_val_inj [simp]: "mode_val a = mode_val b \<longleftrightarrow> a = b"
  by (cases a; cases b) simp_all

instantiation RadioOperatingModes_t :: linorder
begin

definition less_eq_RadioOperatingModes_t :: "RadioOperatingModes_t \<Rightarrow> RadioOperatingModes_t \<Rightarrow> bool" where
  "less_eq_RadioOperatingModes_t a b \<longleftrightarrow> mode_val a \<le> mode_val b"

definition less_RadioOperatingModes_t :: "RadioOperatingModes_t \<Rightarrow> RadioOperatingModes_t \<Rightarrow> bool" where
  "less_RadioOperatingModes_t a b \<longleftrightarrow> mode_val a < mode_val b"

instance
  by standard (auto simp: less_eq_RadioOperatingModes_t_def less_RadioOperatingModes_t_def)

end

lemmas mode_order_defs = less_eq_RadioOperatingModes_t_def less_RadioOperatingModes_t_def

section \<open>Register addresses and constants\<close>

definition REG_LR_CRCSEEDBASEADDR :: u16 where [simp]: "REG_LR_CRCSEEDBASEADDR = 0x06BC"
definition REG_LR_CRCPOLYBASEADDR :: u16 where [simp]: "REG_LR_CRCPOLYBASEADDR = 0x06BE"
definition REG_LR_WHITSEEDBASEADDR_MSB :: u16 where [simp]: "REG_LR_WHITSEEDBASEADDR_MSB = 0x06B8"
definition REG_LR_WHITSEEDBASEADDR_LSB :: u16 where [simp]: "REG_LR_WHITSEEDBASEADDR_LSB = 0x06B9"
definition REG_LR_PAYLOADLENGTH :: u16 where [simp]: "REG_LR_PAYLOADLENGTH = 0x0702"
definition REG_LR_SYNCH_TIMEOUT :: u16 where [simp]: "REG_LR_SYNCH_TIMEOUT = 0x0706"
definition REG_LR_SYNCWORDBASEADDRESS :: u16 where [simp]: "REG_LR_SYNCWORDBASEADDRESS = 0x06C0"
definition REG_LR_SYNCWORD :: u16 where [simp]: "REG_LR_SYNCWORD = 0x0740"
definition RANDOM_NUMBER_GENERATORBASEADDR :: u16 where [simp]: "RANDOM_NUMBER_GENERATORBASEADDR = 0x0819"
definition REG_ANA_LNA :: u16 where [simp]: "REG_ANA_LNA = 0x08E2"
definition REG_ANA_MIXER :: u16 where [simp]: "REG_ANA_MIXER = 0x08E5"
definition REG_RX_GAIN :: u16 where [simp]: "REG_RX_GAIN = 0x08AC"
definition REG_BIT_SYNC :: u16 where [simp]: "REG_BIT_SYNC = 0x06AC"
definition REG_DRV_CTRL :: u16 where [simp]: "REG_DRV_CTRL = 0x091F"
definition REG_XTA_TRIM :: u16 where [simp]: "REG_XTA_TRIM = 0x0911"
definition REG_XTB_TRIM :: u16 where [simp]: "REG_XTB_TRIM = 0x0912"
definition REG_OCP :: u16 where [simp]: "REG_OCP = 0x08E7"
definition REG_TX_CLAMP :: u16 where [simp]: "REG_TX_CLAMP = 0x08D8"
definition SUBGHZ_RAM_RAMPUPH :: u16 where [simp]: "SUBGHZ_RAM_RAMPUPH = 0x00F0"
definition SUBGHZ_RAM_RAMPUPL :: u16 where [simp]: "SUBGHZ_RAM_RAMPUPL = 0x00F1"
definition SUBGHZ_RAM_RAMPDNH :: u16 where [simp]: "SUBGHZ_RAM_RAMPDNH = 0x00F2"
definition SUBGHZ_RAM_RAMPDNL :: u16 where [simp]: "SUBGHZ_RAM_RAMPDNL = 0x00F3"
definition SUBGHZ_RAM_FRAMELIMH :: u16 where [simp]: "SUBGHZ_RAM_FRAMELIMH = 0x00F4"
definition SUBGHZ_RAM_FRAMELIML :: u16 where [simp]: "SUBGHZ_RAM_FRAMELIML = 0x00F5"
definition SUBGHZ_GPKTCTL1AR :: u16 where [simp]: "SUBGHZ_GPKTCTL1AR = REG_LR_WHITSEEDBASEADDR_MSB"
definition SUBGHZ_GRTXPLDLEN :: u16 where [simp]: "SUBGHZ_GRTXPLDLEN = 0x06BB"
definition SUBGHZ_LIQPOLR :: u16 where [simp]: "SUBGHZ_LIQPOLR = 0x0736"
definition SUBGHZ_TXADRPTR :: u16 where [simp]: "SUBGHZ_TXADRPTR = 0x0802"
definition SUBGHZ_RXADRPTR :: u16 where [simp]: "SUBGHZ_RXADRPTR = 0x0803"
definition SUBGHZ_SDCFG0R :: u16 where [simp]: "SUBGHZ_SDCFG0R = 0x0889"
definition SUBGHZ_AGCCFG :: u16 where [simp]: "SUBGHZ_AGCCFG = 0x08A3"
definition SUBGHZ_RTCCTLR :: u16 where [simp]: "SUBGHZ_RTCCTLR = 0x0902"
definition SUBGHZ_RTCPRDR2 :: u16 where [simp]: "SUBGHZ_RTCPRDR2 = 0x0903"
definition SUBGHZ_RTCPRDR1 :: u16 where [simp]: "SUBGHZ_RTCPRDR1 = 0x0904"
definition SUBGHZ_RTCPRDR0 :: u16 where [simp]: "SUBGHZ_RTCPRDR0 = 0x0905"
definition SUBGHZ_EVENTMASKR :: u16 where [simp]: "SUBGHZ_EVENTMASKR = 0x0944"
definition CRC_IBM_SEED :: u16 where [simp]: "CRC_IBM_SEED = 0xFFFF"
definition CRC_CCITT_SEED :: u16 where [simp]: "CRC_CCITT_SEED = 0x1D0F"
definition CRC_POLYNOMIAL_IBM :: u16 where [simp]: "CRC_POLYNOMIAL_IBM = 0x8005"
definition CRC_POLYNOMIAL_CCITT :: u16 where [simp]: "CRC_POLYNOMIAL_CCITT = 0x1021"
definition LORA_MAC_PRIVATE_SYNCWORD :: u16 where [simp]: "LORA_MAC_PRIVATE_SYNCWORD = 0x1424"
definition LORA_MAC_PUBLIC_SYNCWORD :: u16 where [simp]: "LORA_MAC_PUBLIC_SYNCWORD = 0x3444"

definition RFO_LP :: u8 where [simp]: "RFO_LP = 1"
definition RFO_HP :: u8 where [simp]: "RFO_HP = 2"
definition RADIO_WAKEUP_TIME :: u32 where [simp]: "RADIO_WAKEUP_TIME = 3"

text \<open>Interrupt masks.\<close>

definition IRQ_RADIO_NONE :: u16 where [simp]: "IRQ_RADIO_NONE = 0x0000"
definition IRQ_TX_DONE :: u16 where [simp]: "IRQ_TX_DONE = 0x0001"
definition IRQ_RX_DONE :: u16 where [simp]: "IRQ_RX_DONE = 0x0002"
definition IRQ_PREAMBLE_DETECTED :: u16 where [simp]: "IRQ_PREAMBLE_DETECTED = 0x0004"
definition IRQ_SYNCWORD_VALID :: u16 where [simp]: "IRQ_SYNCWORD_VALID = 0x0008"
definition IRQ_HEADER_VALID :: u16 where [simp]: "IRQ_HEADER_VALID = 0x0010"
definition IRQ_HEADER_ERROR :: u16 where [simp]: "IRQ_HEADER_ERROR = 0x0020"
definition IRQ_CRC_ERROR :: u16 where [simp]: "IRQ_CRC_ERROR = 0x0040"
definition IRQ_CAD_CLEAR :: u16 where [simp]: "IRQ_CAD_CLEAR = 0x0080"
definition IRQ_CAD_DETECTED :: u16 where [simp]: "IRQ_CAD_DETECTED = 0x0100"
definition IRQ_RX_TX_TIMEOUT :: u16 where [simp]: "IRQ_RX_TX_TIMEOUT = 0x0200"
definition IRQ_RADIO_ALL :: u16 where [simp]: "IRQ_RADIO_ALL = 0xFFFF"

text \<open>LoRa parameters.\<close>

definition LORA_SF5 :: u32 where [simp]: "LORA_SF5 = 0x05"
definition LORA_SF6 :: u32 where [simp]: "LORA_SF6 = 0x06"
definition LORA_SF7 :: u32 where [simp]: "LORA_SF7 = 0x07"
definition LORA_SF8 :: u32 where [simp]: "LORA_SF8 = 0x08"
definition LORA_SF9 :: u32 where [simp]: "LORA_SF9 = 0x09"
definition LORA_SF10 :: u32 where [simp]: "LORA_SF10 = 0x0A"
definition LORA_SF11 :: u32 where [simp]: "LORA_SF11 = 0x0B"
definition LORA_SF12 :: u32 where [simp]: "LORA_SF12 = 0x0C"
definition LORA_BW_500 :: u32 where [simp]: "LORA_BW_500 = 6"
definition LORA_BW_250 :: u32 where [simp]: "LORA_BW_250 = 5"
definition LORA_BW_125 :: u32 where [simp]: "LORA_BW_125 = 4"
definition LORA_BW_062 :: u32 where [simp]: "LORA_BW_062 = 3"
definition LORA_BW_041 :: u32 where [simp]: "LORA_BW_041 = 10"
definition LORA_BW_031 :: u32 where [simp]: "LORA_BW_031 = 2"
definition LORA_BW_020 :: u32 where [simp]: "LORA_BW_020 = 9"
definition LORA_BW_015 :: u32 where [simp]: "LORA_BW_015 = 1"
definition LORA_BW_010 :: u32 where [simp]: "LORA_BW_010 = 8"
definition LORA_BW_007 :: u32 where [simp]: "LORA_BW_007 = 0"
definition LORA_CR_4_5 :: u32 where [simp]: "LORA_CR_4_5 = 0x01"
definition LORA_CR_4_6 :: u32 where [simp]: "LORA_CR_4_6 = 0x02"
definition LORA_CR_4_7 :: u32 where [simp]: "LORA_CR_4_7 = 0x03"
definition LORA_CR_4_8 :: u32 where [simp]: "LORA_CR_4_8 = 0x04"
definition LORA_PACKET_VARIABLE_LENGTH :: u32 where [simp]: "LORA_PACKET_VARIABLE_LENGTH = 0x00"
definition LORA_PACKET_FIXED_LENGTH :: u32 where [simp]: "LORA_PACKET_FIXED_LENGTH = 0x01"
definition LORA_IQ_NORMAL :: u32 where [simp]: "LORA_IQ_NORMAL = 0x00"
definition LORA_IQ_INVERTED :: u32 where [simp]: "LORA_IQ_INVERTED = 0x01"
definition LORA_CRC_ON :: u32 where [simp]: "LORA_CRC_ON = 0x01"
definition LORA_CRC_OFF :: u32 where [simp]: "LORA_CRC_OFF = 0x00"

text \<open>GFSK parameters.\<close>

definition RADIO_PACKET_FIXED_LENGTH :: u32 where [simp]: "RADIO_PACKET_FIXED_LENGTH = 0x00"
definition RADIO_PACKET_VARIABLE_LENGTH :: u32 where [simp]: "RADIO_PACKET_VARIABLE_LENGTH = 0x01"
definition RADIO_CRC_OFF :: u32 where [simp]: "RADIO_CRC_OFF = 0x01"
definition RADIO_CRC_1_BYTES :: u32 where [simp]: "RADIO_CRC_1_BYTES = 0x00"
definition RADIO_CRC_2_BYTES :: u32 where [simp]: "RADIO_CRC_2_BYTES = 0x02"
definition RADIO_CRC_1_BYTES_INV :: u32 where [simp]: "RADIO_CRC_1_BYTES_INV = 0x04"
definition RADIO_CRC_2_BYTES_INV :: u32 where [simp]: "RADIO_CRC_2_BYTES_INV = 0x06"
definition RADIO_CRC_2_BYTES_IBM :: u32 where [simp]: "RADIO_CRC_2_BYTES_IBM = 0xF1"
definition RADIO_CRC_2_BYTES_CCIT :: u32 where [simp]: "RADIO_CRC_2_BYTES_CCIT = 0xF2"
definition RADIO_DC_FREE_OFF :: u32 where [simp]: "RADIO_DC_FREE_OFF = 0x00"
definition RADIO_DC_FREEWHITENING :: u32 where [simp]: "RADIO_DC_FREEWHITENING = 0x01"
definition RADIO_PREAMBLE_DETECTOR_OFF :: u32 where [simp]: "RADIO_PREAMBLE_DETECTOR_OFF = 0x00"
definition RADIO_PREAMBLE_DETECTOR_08_BITS :: u32 where [simp]: "RADIO_PREAMBLE_DETECTOR_08_BITS = 0x04"
definition RADIO_PREAMBLE_DETECTOR_16_BITS :: u32 where [simp]: "RADIO_PREAMBLE_DETECTOR_16_BITS = 0x05"
definition RADIO_PREAMBLE_DETECTOR_24_BITS :: u32 where [simp]: "RADIO_PREAMBLE_DETECTOR_24_BITS = 0x06"
definition RADIO_PREAMBLE_DETECTOR_32_BITS :: u32 where [simp]: "RADIO_PREAMBLE_DETECTOR_32_BITS = 0x07"
definition RADIO_ADDRESSCOMP_FILT_OFF :: u32 where [simp]: "RADIO_ADDRESSCOMP_FILT_OFF = 0x00"
definition RADIO_ADDRESSCOMP_FILT_NODE :: u32 where [simp]: "RADIO_ADDRESSCOMP_FILT_NODE = 0x01"
definition RADIO_ADDRESSCOMP_FILT_NODE_BROAD :: u32 where [simp]: "RADIO_ADDRESSCOMP_FILT_NODE_BROAD = 0x02"
definition MOD_SHAPING_OFF :: u32 where [simp]: "MOD_SHAPING_OFF = 0x00"
definition MOD_SHAPING_G_BT_03 :: u32 where [simp]: "MOD_SHAPING_G_BT_03 = 0x08"
definition MOD_SHAPING_G_BT_05 :: u32 where [simp]: "MOD_SHAPING_G_BT_05 = 0x09"
definition MOD_SHAPING_G_BT_07 :: u32 where [simp]: "MOD_SHAPING_G_BT_07 = 0x0A"
definition MOD_SHAPING_G_BT_1 :: u32 where [simp]: "MOD_SHAPING_G_BT_1 = 0x0B"
definition MOD_SHAPING_DBPSK :: u32 where [simp]: "MOD_SHAPING_DBPSK = 0x16"
definition RADIO_RAMP_10_US :: u32 where [simp]: "RADIO_RAMP_10_US = 0x00"
definition RADIO_RAMP_20_US :: u32 where [simp]: "RADIO_RAMP_20_US = 0x01"
definition RADIO_RAMP_40_US :: u32 where [simp]: "RADIO_RAMP_40_US = 0x02"
definition RADIO_RAMP_80_US :: u32 where [simp]: "RADIO_RAMP_80_US = 0x03"
definition RADIO_RAMP_200_US :: u32 where [simp]: "RADIO_RAMP_200_US = 0x04"
definition RADIO_RAMP_800_US :: u32 where [simp]: "RADIO_RAMP_800_US = 0x05"
definition RADIO_RAMP_1700_US :: u32 where [simp]: "RADIO_RAMP_1700_US = 0x06"
definition RADIO_RAMP_3400_US :: u32 where [simp]: "RADIO_RAMP_3400_US = 0x07"
definition TCXO_CTRL_1_6V :: u32 where [simp]: "TCXO_CTRL_1_6V = 0x00"
definition TCXO_CTRL_1_7V :: u32 where [simp]: "TCXO_CTRL_1_7V = 0x01"
definition TCXO_CTRL_1_8V :: u32 where [simp]: "TCXO_CTRL_1_8V = 0x02"
definition TCXO_CTRL_2_2V :: u32 where [simp]: "TCXO_CTRL_2_2V = 0x03"
definition TCXO_CTRL_2_4V :: u32 where [simp]: "TCXO_CTRL_2_4V = 0x04"
definition TCXO_CTRL_2_7V :: u32 where [simp]: "TCXO_CTRL_2_7V = 0x05"
definition TCXO_CTRL_3_0V :: u32 where [simp]: "TCXO_CTRL_3_0V = 0x06"
definition TCXO_CTRL_3_3V :: u32 where [simp]: "TCXO_CTRL_3_3V = 0x07"

section \<open>Structures\<close>

record ModulationParams_t =
  mod_PacketType :: RadioPacketTypes_t
  mod_Gfsk_BitRate :: u32
  mod_Gfsk_Fdev :: u32
  mod_Gfsk_ModulationShaping :: u32
  mod_Gfsk_Bandwidth :: u8
  mod_Bpsk_BitRate :: u32
  mod_Bpsk_ModulationShaping :: u32
  mod_LoRa_SpreadingFactor :: u32
  mod_LoRa_Bandwidth :: u32
  mod_LoRa_CodingRate :: u32
  mod_LoRa_LowDatarateOptimize :: u8

record PacketParams_t =
  pkt_PacketType :: RadioPacketTypes_t
  pkt_Gfsk_PreambleLength :: u16
  pkt_Gfsk_PreambleMinDetect :: u32
  pkt_Gfsk_SyncWordLength :: u8
  pkt_Gfsk_AddrComp :: u32
  pkt_Gfsk_HeaderType :: u32
  pkt_Gfsk_PayloadLength :: u8
  pkt_Gfsk_CrcLength :: u32
  pkt_Gfsk_DcFree :: u32
  pkt_Bpsk_PayloadLength :: u8
  pkt_LoRa_PreambleLength :: u16
  pkt_LoRa_HeaderType :: u32
  pkt_LoRa_PayloadLength :: u8
  pkt_LoRa_CrcMode :: u32
  pkt_LoRa_InvertIQ :: u32

text \<open>The RSSI and SNR fields are \<^verbatim>\<open>int8_t\<close>: integers, stored through \<open>to_i8\<close>.\<close>

record PacketStatus_t =
  ps_packetType :: RadioPacketTypes_t
  ps_Gfsk_RxStatus :: u8
  ps_Gfsk_RssiAvg :: int
  ps_Gfsk_RssiSync :: int
  ps_Gfsk_FreqError :: u32
  ps_LoRa_RssiPkt :: int
  ps_LoRa_SnrPkt :: int
  ps_LoRa_SignalRssiPkt :: int
  ps_LoRa_FreqError :: u32

definition PacketStatus_zero :: PacketStatus_t where
  "PacketStatus_zero = \<lparr>ps_packetType = PACKET_TYPE_GFSK, ps_Gfsk_RxStatus = 0, ps_Gfsk_RssiAvg = 0,
     ps_Gfsk_RssiSync = 0, ps_Gfsk_FreqError = 0, ps_LoRa_RssiPkt = 0, ps_LoRa_SnrPkt = 0,
     ps_LoRa_SignalRssiPkt = 0, ps_LoRa_FreqError = 0\<rparr>"

text \<open>
  The bit-field unions: a value of type \<^verbatim>\<open>uint8_t\<close>, with its fields as bits from the least
  significant one.
\<close>

type_synonym SleepParams_t = u8
type_synonym CalibrationParams_t = u8

definition Fields_bit :: "nat \<Rightarrow> u8 \<Rightarrow> u8" where
  "Fields_bit n v = (if bit v n then 1 else 0)"

record RadioPhyStatus_t =
  CmdStatus :: u8
  ChipMode :: u8

end
