(* ===== verification/Radio_Driver.thy ===== *)
theory Radio_Driver
  imports Radio_Types
begin

text \<open>
  The radio driver (\<^verbatim>\<open>radio_driver_stubs/radio_driver.c\<close>): the static variables of the file as a record
  that extends the HAL state, and its functions as state transformers in the order of the file. What a
  function sends to the radio is appended to \<open>calls\<close>; what it reads comes from the environment \<open>X\<close>.
  A pointer with a size is the list of the bytes at it.
\<close>

section \<open>State\<close>

text \<open>The only interrupt handler registered in the repository is \<^verbatim>\<open>RadioOnDioIrq\<close> of \<^verbatim>\<open>radio.c\<close>.\<close>

datatype DioIrqHandler = RadioOnDioIrq_handler

record drv_state = hal_state +
  OperatingMode :: RadioOperatingModes_t
  PacketType :: RadioPacketTypes_t
  LoRaHeaderType :: u32
  FrequencyError :: u32
  ImageCalibrated :: bool
  RadioOnDioIrqCb :: "DioIrqHandler option"

text \<open>The address of the external handle \<^verbatim>\<open>hsubghz\<close>.\<close>

definition hsubghz :: hptr where
  "hsubghz = 0"

definition XTAL_FREQ :: u64 where
  "XTAL_FREQ = 32000000"

definition XTAL_DEFAULT_CAP_VALUE :: u8 where
  "XTAL_DEFAULT_CAP_VALUE = 0x20"

definition RF_WAKEUP_TIME :: u32 where
  "RF_WAKEUP_TIME = 1"

definition DCDC_ENABLE :: int where
  "DCDC_ENABLE = 1"

definition SX_FREQ_TO_CHANNEL :: "u32 \<Rightarrow> u32" where
  "SX_FREQ_TO_CHANNEL freq = ucast (push_bit 25 (ucast freq :: u64) div XTAL_FREQ)"

section \<open>Access to the radio\<close>

definition SUBGRF_WriteRegisters :: "u16 \<Rightarrow> u8 list \<Rightarrow> 'a drv_state_scheme \<Rightarrow> 'a drv_state_scheme" where
  "SUBGRF_WriteRegisters address buffer s =
     (let s = ext (WriteRegisters address buffer) s
      in s\<lparr>hal := snd (HAL_SUBGHZ_WriteRegisters hsubghz address buffer (hal s))\<rparr>)"

definition SUBGRF_WriteRegister :: "u16 \<Rightarrow> u8 \<Rightarrow> 'a drv_state_scheme \<Rightarrow> 'a drv_state_scheme" where
  "SUBGRF_WriteRegister addr data s =
     (let s = ext (WriteRegisters addr [data]) s
      in s\<lparr>hal := snd (HAL_SUBGHZ_WriteRegisters hsubghz addr [data] (hal s))\<rparr>)"

definition SUBGRF_ReadRegisters :: "env \<Rightarrow> u16 \<Rightarrow> nat \<Rightarrow> 'a drv_state_scheme \<Rightarrow> u8 list \<times> 'a drv_state_scheme" where
  "SUBGRF_ReadRegisters X address n s =
     (map (read_regs X (calls s) address n) [0..<n], ext (ReadRegisters address n) s)"

definition SUBGRF_ReadRegister :: "env \<Rightarrow> u16 \<Rightarrow> 'a drv_state_scheme \<Rightarrow> u8 \<times> 'a drv_state_scheme" where
  "SUBGRF_ReadRegister X addr s = (read_regs X (calls s) addr 1 0, ext (ReadRegisters addr 1) s)"

definition SUBGRF_WriteBuffer :: "u8 \<Rightarrow> u8 list \<Rightarrow> 'a drv_state_scheme \<Rightarrow> 'a drv_state_scheme" where
  "SUBGRF_WriteBuffer offset buffer s = ext (WriteBuffer offset buffer) s"

definition SUBGRF_ReadBuffer :: "env \<Rightarrow> u8 \<Rightarrow> nat \<Rightarrow> 'a drv_state_scheme \<Rightarrow> u8 list \<times> 'a drv_state_scheme" where
  "SUBGRF_ReadBuffer X offset n s =
     (map (read_buf X (calls s) offset n) [0..<n], ext (ReadBuffer offset n) s)"

definition SUBGRF_WriteCommand ::
  "SUBGHZ_RadioSetCmd_t \<Rightarrow> u8 list \<Rightarrow> 'a drv_state_scheme \<Rightarrow> 'a drv_state_scheme" where
  "SUBGRF_WriteCommand Command pBuffer s =
     (let s = ext (SetCmd Command pBuffer) s
      in s\<lparr>hal := snd (HAL_SUBGHZ_ExecSetCmd hsubghz Command pBuffer (hal s))\<rparr>)"

text \<open>The bytes of an uninitialised local array, and a get command into a buffer.\<close>

definition uninit :: "env \<Rightarrow> nat \<Rightarrow> 'a drv_state_scheme \<Rightarrow> u8 list" where
  "uninit X n s = map (stack_byte X (calls s)) [0..<n]"

definition SUBGRF_ReadCommand ::
  "SUBGHZ_RadioGetCmd_t \<Rightarrow> u8 list \<Rightarrow> 'a drv_state_scheme \<Rightarrow> u8 list \<times> 'a drv_state_scheme" where
  "SUBGRF_ReadCommand Command pBuffer s =
     (let s = ext (GetCmd Command (length pBuffer)) s;
          (status, buf, g) = HAL_SUBGHZ_ExecGetCmd hsubghz Command pBuffer (hal s)
      in (buf, s\<lparr>hal := g\<rparr>))"

text \<open>The SMPS drive setting is a no-op in the simulator.\<close>

definition Radio_SMPS_Set :: "u8 \<Rightarrow> 'a drv_state_scheme \<Rightarrow> 'a drv_state_scheme" where
  "Radio_SMPS_Set level s = s"

definition SMPS_DRIVE_SETTING_DEFAULT :: u8 where "SMPS_DRIVE_SETTING_DEFAULT = 2"
definition SMPS_DRIVE_SETTING_MAX :: u8 where "SMPS_DRIVE_SETTING_MAX = 4"

section \<open>Operating modes\<close>

definition SUBGRF_SetSleep :: "SleepParams_t \<Rightarrow> 'a drv_state_scheme \<Rightarrow> 'a drv_state_scheme" where
  "SUBGRF_SetSleep sleepConfig s =
     (let s = ext (RBI_ConfigRFSwitch RBI_SWITCH_OFF) s;
          s = Radio_SMPS_Set SMPS_DRIVE_SETTING_DEFAULT s;
          value = push_bit 2 (Fields_bit 2 sleepConfig) OR push_bit 1 (Fields_bit 1 sleepConfig) OR
                  Fields_bit 0 sleepConfig;
          s = SUBGRF_WriteCommand RADIO_SET_SLEEP [value] s
      in s\<lparr>OperatingMode := MODE_SLEEP\<rparr>)"

definition SUBGRF_SetStandby :: "RadioStandbyModes_t \<Rightarrow> 'a drv_state_scheme \<Rightarrow> 'a drv_state_scheme" where
  "SUBGRF_SetStandby standbyConfig s =
     (let s = SUBGRF_WriteCommand RADIO_SET_STANDBY [standby_val standbyConfig] s
      in if standbyConfig = STDBY_RC then s\<lparr>OperatingMode := MODE_STDBY_RC\<rparr>
         else s\<lparr>OperatingMode := MODE_STDBY_XOSC\<rparr>)"

definition SUBGRF_SetFs :: "'a drv_state_scheme \<Rightarrow> 'a drv_state_scheme" where
  "SUBGRF_SetFs s = (let s = SUBGRF_WriteCommand RADIO_SET_FS [] s in s\<lparr>OperatingMode := MODE_FS\<rparr>)"

definition SUBGRF_SetTx :: "u32 \<Rightarrow> 'a drv_state_scheme \<Rightarrow> 'a drv_state_scheme" where
  "SUBGRF_SetTx timeout s =
     (let s = s\<lparr>OperatingMode := MODE_TX\<rparr>;
          buf = [byte_at 16 timeout, byte_at 8 timeout, byte_at 0 timeout]
      in SUBGRF_WriteCommand RADIO_SET_TX buf s)"

definition SUBGRF_SetRx :: "u32 \<Rightarrow> 'a drv_state_scheme \<Rightarrow> 'a drv_state_scheme" where
  "SUBGRF_SetRx timeout s =
     (let s = s\<lparr>OperatingMode := MODE_RX\<rparr>;
          buf = [byte_at 16 timeout, byte_at 8 timeout, byte_at 0 timeout]
      in SUBGRF_WriteCommand RADIO_SET_RX buf s)"

definition SUBGRF_SetRxBoosted :: "u32 \<Rightarrow> 'a drv_state_scheme \<Rightarrow> 'a drv_state_scheme" where
  "SUBGRF_SetRxBoosted timeout s =
     (let s = s\<lparr>OperatingMode := MODE_RX\<rparr>;
          s = SUBGRF_WriteRegister REG_RX_GAIN 0x97 s;
          buf = [byte_at 16 timeout, byte_at 8 timeout, byte_at 0 timeout]
      in SUBGRF_WriteCommand RADIO_SET_RX buf s)"

definition SUBGRF_SetRxDutyCycle :: "u32 \<Rightarrow> u32 \<Rightarrow> 'a drv_state_scheme \<Rightarrow> 'a drv_state_scheme" where
  "SUBGRF_SetRxDutyCycle rxTime sleepTime s =
     (let buf = [byte_at 16 rxTime, byte_at 8 rxTime, byte_at 0 rxTime,
                 byte_at 16 sleepTime, byte_at 8 sleepTime, byte_at 0 sleepTime];
          s = SUBGRF_WriteCommand RADIO_SET_RXDUTYCYCLE buf s
      in s\<lparr>OperatingMode := MODE_RX_DC\<rparr>)"

definition SUBGRF_SetCad :: "'a drv_state_scheme \<Rightarrow> 'a drv_state_scheme" where
  "SUBGRF_SetCad s = (let s = SUBGRF_WriteCommand RADIO_SET_CAD [] s in s\<lparr>OperatingMode := MODE_CAD\<rparr>)"

definition SUBGRF_SetTxContinuousWave :: "'a drv_state_scheme \<Rightarrow> 'a drv_state_scheme" where
  "SUBGRF_SetTxContinuousWave s = SUBGRF_WriteCommand RADIO_SET_TXCONTINUOUSWAVE [] s"

definition SUBGRF_SetTxInfinitePreamble :: "'a drv_state_scheme \<Rightarrow> 'a drv_state_scheme" where
  "SUBGRF_SetTxInfinitePreamble s = SUBGRF_WriteCommand RADIO_SET_TXCONTINUOUSPREAMBLE [] s"

definition SUBGRF_GetOperatingMode :: "'a drv_state_scheme \<Rightarrow> RadioOperatingModes_t" where
  "SUBGRF_GetOperatingMode s = OperatingMode s"

section \<open>Payload\<close>

definition SUBGRF_SetPayload :: "u8 list \<Rightarrow> 'a drv_state_scheme \<Rightarrow> 'a drv_state_scheme" where
  "SUBGRF_SetPayload payload s = SUBGRF_WriteBuffer 0x00 payload s"

definition SUBGRF_SendPayload :: "u8 list \<Rightarrow> u32 \<Rightarrow> 'a drv_state_scheme \<Rightarrow> 'a drv_state_scheme" where
  "SUBGRF_SendPayload payload timeout s = (let s = SUBGRF_SetPayload payload s in SUBGRF_SetTx timeout s)"

definition SUBGRF_GetPacketType :: "'a drv_state_scheme \<Rightarrow> RadioPacketTypes_t" where
  "SUBGRF_GetPacketType s = PacketType s"

definition SUBGRF_GetRxBufferStatus :: "env \<Rightarrow> 'a drv_state_scheme \<Rightarrow> (u8 \<times> u8) \<times> 'a drv_state_scheme" where
  "SUBGRF_GetRxBufferStatus X s =
     (let (status, s) = SUBGRF_ReadCommand RADIO_GET_RXBUFFERSTATUS (uninit X 2 s) s;
          (payloadLength, s) =
            (if SUBGRF_GetPacketType s = PACKET_TYPE_LORA \<and> LoRaHeaderType s = LORA_PACKET_FIXED_LENGTH
             then SUBGRF_ReadRegister X REG_LR_PAYLOADLENGTH s
             else (status ! 0, s))
      in ((payloadLength, status ! 1), s))"

text \<open>The result is the return value, the size and the bytes read (none when the size is refused).\<close>

definition SUBGRF_GetPayload ::
  "env \<Rightarrow> u8 \<Rightarrow> 'a drv_state_scheme \<Rightarrow> (u8 \<times> u8 \<times> u8 list) \<times> 'a drv_state_scheme" where
  "SUBGRF_GetPayload X maxSize s =
     (let ((sz, offset), s) = SUBGRF_GetRxBufferStatus X s
      in if sz > maxSize then ((1, sz, []), s)
         else let (buffer, s) = SUBGRF_ReadBuffer X offset (unat sz) s in ((0, sz, buffer), s))"

definition SUBGRF_SetSyncWord :: "u8 list \<Rightarrow> 'a drv_state_scheme \<Rightarrow> u8 \<times> 'a drv_state_scheme" where
  "SUBGRF_SetSyncWord syncWord s = (0, SUBGRF_WriteRegisters REG_LR_SYNCWORDBASEADDRESS (take 8 syncWord) s)"

definition SUBGRF_SetCrcSeed :: "u16 \<Rightarrow> 'a drv_state_scheme \<Rightarrow> 'a drv_state_scheme" where
  "SUBGRF_SetCrcSeed seed s =
     (let buf = [byte_at 8 seed, byte_at 0 seed]
      in case SUBGRF_GetPacketType s of
           PACKET_TYPE_GFSK \<Rightarrow> SUBGRF_WriteRegisters REG_LR_CRCSEEDBASEADDR buf s
         | _ \<Rightarrow> s)"

definition SUBGRF_SetCrcPolynomial :: "u16 \<Rightarrow> 'a drv_state_scheme \<Rightarrow> 'a drv_state_scheme" where
  "SUBGRF_SetCrcPolynomial polynomial s =
     (let buf = [byte_at 8 polynomial, byte_at 0 polynomial]
      in case SUBGRF_GetPacketType s of
           PACKET_TYPE_GFSK \<Rightarrow> SUBGRF_WriteRegisters REG_LR_CRCPOLYBASEADDR buf s
         | _ \<Rightarrow> s)"

definition SUBGRF_SetWhiteningSeed :: "env \<Rightarrow> u16 \<Rightarrow> 'a drv_state_scheme \<Rightarrow> 'a drv_state_scheme" where
  "SUBGRF_SetWhiteningSeed X seed s =
     (case SUBGRF_GetPacketType s of
        PACKET_TYPE_GFSK \<Rightarrow>
          (let (r, s) = SUBGRF_ReadRegister X REG_LR_WHITSEEDBASEADDR_MSB s;
               regValue = r AND 0xFE;
               regValue = ucast (drop_bit 8 seed AND 0x01) OR regValue;
               s = SUBGRF_WriteRegister REG_LR_WHITSEEDBASEADDR_MSB regValue s
           in SUBGRF_WriteRegister REG_LR_WHITSEEDBASEADDR_LSB (ucast seed) s)
      | _ \<Rightarrow> s)"

text \<open>The four bytes are read into the memory of a \<^verbatim>\<open>uint32_t\<close>, least significant byte first.\<close>

definition SUBGRF_GetRandom :: "env \<Rightarrow> 'a drv_state_scheme \<Rightarrow> u32 \<times> 'a drv_state_scheme" where
  "SUBGRF_GetRandom X s =
     (let (regAnaLna, s) = SUBGRF_ReadRegister X REG_ANA_LNA s;
          s = SUBGRF_WriteRegister REG_ANA_LNA (regAnaLna AND NOT 1) s;
          (regAnaMixer, s) = SUBGRF_ReadRegister X REG_ANA_MIXER s;
          s = SUBGRF_WriteRegister REG_ANA_MIXER (regAnaMixer AND NOT (push_bit 7 1)) s;
          s = SUBGRF_SetRx 0xFFFFFF s;
          (b, s) = SUBGRF_ReadRegisters X RANDOM_NUMBER_GENERATORBASEADDR 4 s;
          number = join32 (b ! 3) (b ! 2) (b ! 1) (b ! 0);
          s = SUBGRF_SetStandby STDBY_RC s;
          s = SUBGRF_WriteRegister REG_ANA_LNA regAnaLna s;
          s = SUBGRF_WriteRegister REG_ANA_MIXER regAnaMixer s
      in (number, s))"

section \<open>Configuration\<close>

definition SUBGRF_SetStopRxTimerOnPreambleDetect :: "bool \<Rightarrow> 'a drv_state_scheme \<Rightarrow> 'a drv_state_scheme" where
  "SUBGRF_SetStopRxTimerOnPreambleDetect enable s =
     SUBGRF_WriteCommand RADIO_SET_STOPRXTIMERONPREAMBLE [if enable then 1 else 0] s"

text \<open>The loop \<^verbatim>\<open>while( mant > 31 ) { mant >>= 2; exp++; }\<close> on \<^verbatim>\<open>uint8_t\<close> variables.\<close>

function symb_mant_exp :: "u8 \<Rightarrow> u8 \<Rightarrow> u8 \<times> u8" where
  "symb_mant_exp mant ex = (if mant > 31 then symb_mant_exp (drop_bit 2 mant) (ex + 1) else (mant, ex))"
  by pat_completeness auto
termination
  by (relation "measure (\<lambda>(mant, ex). unat mant)")
    (auto simp: word_less_nat_alt unat_drop_bit_eq drop_bit_eq_div unat_div)

definition SUBGRF_SetLoRaSymbNumTimeout :: "u8 \<Rightarrow> 'a drv_state_scheme \<Rightarrow> 'a drv_state_scheme" where
  "SUBGRF_SetLoRaSymbNumTimeout symbNum s =
     (let s = SUBGRF_WriteCommand RADIO_SET_LORASYMBTIMEOUT [symbNum] s
      in if symbNum \<ge> 64 then
           let mant = drop_bit 1 symbNum;
               (mant, ex) = symb_mant_exp mant 0;
               reg = ex + push_bit 3 mant
           in SUBGRF_WriteRegister REG_LR_SYNCH_TIMEOUT reg s
         else s)"

definition SUBGRF_SetRegulatorMode :: "env \<Rightarrow> 'a drv_state_scheme \<Rightarrow> 'a drv_state_scheme" where
  "SUBGRF_SetRegulatorMode X s =
     (let md = (if 1 = RBI_IsDCDC X \<and> 1 = DCDC_ENABLE then USE_DCDC else USE_LDO)
      in SUBGRF_WriteCommand RADIO_SET_REGULATORMODE [regulator_val md] s)"

definition SUBGRF_Calibrate :: "CalibrationParams_t \<Rightarrow> 'a drv_state_scheme \<Rightarrow> 'a drv_state_scheme" where
  "SUBGRF_Calibrate calibParam s =
     (let value = push_bit 6 (Fields_bit 6 calibParam) OR push_bit 5 (Fields_bit 5 calibParam) OR
                  push_bit 4 (Fields_bit 4 calibParam) OR push_bit 3 (Fields_bit 3 calibParam) OR
                  push_bit 2 (Fields_bit 2 calibParam) OR push_bit 1 (Fields_bit 1 calibParam) OR
                  Fields_bit 0 calibParam
      in SUBGRF_WriteCommand RADIO_CALIBRATE [value] s)"

definition SUBGRF_CalibrateImage :: "u32 \<Rightarrow> 'a drv_state_scheme \<Rightarrow> 'a drv_state_scheme" where
  "SUBGRF_CalibrateImage freq s =
     (let calFreq =
        (if freq > 900000000 then [0xE1, 0xE9]
         else if freq > 850000000 then [0xD7, 0xDB]
         else if freq > 770000000 then [0xC1, 0xC5]
         else if freq > 460000000 then [0x75, 0x81]
         else if freq > 425000000 then [0x6B, 0x6F]
         else [0x29, 0x2B])
      in SUBGRF_WriteCommand RADIO_CALIBRATEIMAGE calFreq s)"

definition SUBGRF_SetPaConfig :: "u8 \<Rightarrow> u8 \<Rightarrow> u8 \<Rightarrow> u8 \<Rightarrow> 'a drv_state_scheme \<Rightarrow> 'a drv_state_scheme" where
  "SUBGRF_SetPaConfig paDutyCycle hpMax deviceSel paLut s =
     SUBGRF_WriteCommand RADIO_SET_PACONFIG [paDutyCycle, hpMax, deviceSel, paLut] s"

definition SUBGRF_SetRxTxFallbackMode :: "u8 \<Rightarrow> 'a drv_state_scheme \<Rightarrow> 'a drv_state_scheme" where
  "SUBGRF_SetRxTxFallbackMode fallbackMode s = SUBGRF_WriteCommand RADIO_SET_TXFALLBACKMODE [fallbackMode] s"

definition SUBGRF_SetDioIrqParams ::
  "u16 \<Rightarrow> u16 \<Rightarrow> u16 \<Rightarrow> u16 \<Rightarrow> 'a drv_state_scheme \<Rightarrow> 'a drv_state_scheme" where
  "SUBGRF_SetDioIrqParams irqMask dio1Mask dio2Mask dio3Mask s =
     SUBGRF_WriteCommand RADIO_CFG_DIOIRQ
       [byte_at 8 irqMask, byte_at 0 irqMask, byte_at 8 dio1Mask, byte_at 0 dio1Mask,
        byte_at 8 dio2Mask, byte_at 0 dio2Mask, byte_at 8 dio3Mask, byte_at 0 dio3Mask] s"

definition SUBGRF_GetIrqStatus :: "env \<Rightarrow> 'a drv_state_scheme \<Rightarrow> u16 \<times> 'a drv_state_scheme" where
  "SUBGRF_GetIrqStatus X s =
     (let (irqStatus, s) = SUBGRF_ReadCommand RADIO_GET_IRQSTATUS (uninit X 2 s) s
      in (join16 (irqStatus ! 0) (irqStatus ! 1), s))"

definition SUBGRF_SetTcxoMode :: "u32 \<Rightarrow> u32 \<Rightarrow> 'a drv_state_scheme \<Rightarrow> 'a drv_state_scheme" where
  "SUBGRF_SetTcxoMode tcxoVoltage timeout s =
     SUBGRF_WriteCommand RADIO_SET_TCXOMODE
       [ucast (tcxoVoltage AND 0x07), byte_at 16 timeout, byte_at 8 timeout, byte_at 0 timeout] s"

definition SUBGRF_SetRfFrequency :: "u32 \<Rightarrow> 'a drv_state_scheme \<Rightarrow> 'a drv_state_scheme" where
  "SUBGRF_SetRfFrequency frequency s =
     (let s = (if ImageCalibrated s = False
               then (let s = SUBGRF_CalibrateImage frequency s in s\<lparr>ImageCalibrated := True\<rparr>) else s);
          chan = SX_FREQ_TO_CHANNEL frequency
      in SUBGRF_WriteCommand RADIO_SET_RFFREQUENCY
           [byte_at 24 chan, byte_at 16 chan, byte_at 8 chan, byte_at 0 chan] s)"

definition SUBGRF_SetPacketType :: "RadioPacketTypes_t \<Rightarrow> 'a drv_state_scheme \<Rightarrow> 'a drv_state_scheme" where
  "SUBGRF_SetPacketType packetType s =
     (let s = s\<lparr>PacketType := packetType\<rparr>;
          s = (if packetType = PACKET_TYPE_GFSK then SUBGRF_WriteRegister REG_BIT_SYNC 0x00 s else s)
      in SUBGRF_WriteCommand RADIO_SET_PACKETTYPE [packet_type_val packetType] s)"

text \<open>
  The transmit power. \<open>txPower\<close> (\<^verbatim>\<open>power\<close>) is an \<^verbatim>\<open>int8_t\<close>; the differences are computed in \<^verbatim>\<open>int32_t\<close> and stored
  back into eight bits.
\<close>

definition SUBGRF_SetTxParams :: "env \<Rightarrow> u8 \<Rightarrow> int \<Rightarrow> u32 \<Rightarrow> 'a drv_state_scheme \<Rightarrow> 'a drv_state_scheme" where
  "SUBGRF_SetTxParams X paSelect txPower rampTime s =
     (let (txPower, s) =
       (if paSelect = RFO_LP then
          let max_power = RBI_GetRFOMaxPowerConfig X RBI_RFO_LP_MAXPOWER;
              txPower = (if txPower > max_power then to_i8 max_power else txPower);
              (txPower, s) =
                (if max_power = 14 then
                   (to_i8 (0x0E - (max_power - txPower)), SUBGRF_SetPaConfig 0x04 0x00 0x01 0x01 s)
                 else if max_power = 10 then
                   (to_i8 (0x0D - (max_power - txPower)), SUBGRF_SetPaConfig 0x01 0x00 0x01 0x01 s)
                 else
                   (to_i8 (0x0E - (max_power - txPower)), SUBGRF_SetPaConfig 0x07 0x00 0x01 0x01 s));
              txPower = (if txPower < -17 then -17 else txPower)
          in (txPower, SUBGRF_WriteRegister REG_OCP 0x18 s)
        else
          let (r, s) = SUBGRF_ReadRegister X REG_TX_CLAMP s;
              s = SUBGRF_WriteRegister REG_TX_CLAMP (r OR push_bit 1 0x0F) s;
              max_power = RBI_GetRFOMaxPowerConfig X RBI_RFO_HP_MAXPOWER;
              txPower = (if txPower > max_power then to_i8 max_power else txPower);
              (txPower, s) =
                (if max_power = 20 then
                   (to_i8 (0x16 - (max_power - txPower)), SUBGRF_SetPaConfig 0x03 0x05 0x00 0x01 s)
                 else if max_power = 17 then
                   (to_i8 (0x16 - (max_power - txPower)), SUBGRF_SetPaConfig 0x02 0x03 0x00 0x01 s)
                 else if max_power = 14 then
                   (to_i8 (0x0E - (max_power - txPower)), SUBGRF_SetPaConfig 0x02 0x02 0x00 0x01 s)
                 else
                   (to_i8 (0x16 - (max_power - txPower)), SUBGRF_SetPaConfig 0x04 0x07 0x00 0x01 s));
              txPower = (if txPower < -9 then -9 else txPower)
          in (txPower, SUBGRF_WriteRegister REG_OCP 0x38 s))
      in SUBGRF_WriteCommand RADIO_SET_TXPARAMS [word_of_int txPower, ucast rampTime] s)"

text \<open>A bit rate of zero divides by zero.\<close>

definition bitrate_div :: "u32 \<Rightarrow> u32 result" where
  "bitrate_div BitRate =
     (if BitRate = 0 then Inl DivByZero else Inr (ucast ((32 * XTAL_FREQ) div (ucast BitRate :: u64))))"

definition SUBGRF_SetModulationParams ::
  "ModulationParams_t \<Rightarrow> 'a drv_state_scheme \<Rightarrow> 'a drv_state_scheme result" where
  "SUBGRF_SetModulationParams modulationParams s =
     (let s = (if PacketType s \<noteq> mod_PacketType modulationParams
               then SUBGRF_SetPacketType (mod_PacketType modulationParams) s else s)
      in case mod_PacketType modulationParams of
           PACKET_TYPE_GFSK \<Rightarrow>
             bindr (bitrate_div (mod_Gfsk_BitRate modulationParams)) (\<lambda>tempVal.
               let chan = SX_FREQ_TO_CHANNEL (mod_Gfsk_Fdev modulationParams);
                   buf = [byte_at 16 tempVal, byte_at 8 tempVal, byte_at 0 tempVal,
                          ucast (mod_Gfsk_ModulationShaping modulationParams),
                          mod_Gfsk_Bandwidth modulationParams,
                          byte_at 16 chan, byte_at 8 chan, byte_at 0 chan]
               in Inr (SUBGRF_WriteCommand RADIO_SET_MODULATIONPARAMS buf s))
         | PACKET_TYPE_BPSK \<Rightarrow>
             bindr (bitrate_div (mod_Bpsk_BitRate modulationParams)) (\<lambda>tempVal.
               let buf = [byte_at 16 tempVal, byte_at 8 tempVal, byte_at 0 tempVal,
                          ucast (mod_Bpsk_ModulationShaping modulationParams)]
               in Inr (SUBGRF_WriteCommand RADIO_SET_MODULATIONPARAMS buf s))
         | PACKET_TYPE_LORA \<Rightarrow>
             (let buf = [ucast (mod_LoRa_SpreadingFactor modulationParams),
                         ucast (mod_LoRa_Bandwidth modulationParams),
                         ucast (mod_LoRa_CodingRate modulationParams),
                         mod_LoRa_LowDatarateOptimize modulationParams]
              in Inr (SUBGRF_WriteCommand RADIO_SET_MODULATIONPARAMS buf s))
         | PACKET_TYPE_GMSK \<Rightarrow>
             bindr (bitrate_div (mod_Gfsk_BitRate modulationParams)) (\<lambda>tempVal.
               let buf = [byte_at 16 tempVal, byte_at 8 tempVal, byte_at 0 tempVal,
                          ucast (mod_Gfsk_ModulationShaping modulationParams),
                          mod_Gfsk_Bandwidth modulationParams]
               in Inr (SUBGRF_WriteCommand RADIO_SET_MODULATIONPARAMS buf s))
         | PACKET_TYPE_NONE \<Rightarrow> Inr s)"

definition SUBGRF_SetPacketParams :: "PacketParams_t \<Rightarrow> 'a drv_state_scheme \<Rightarrow> 'a drv_state_scheme" where
  "SUBGRF_SetPacketParams packetParams s =
     (let s = (if PacketType s \<noteq> pkt_PacketType packetParams
               then SUBGRF_SetPacketType (pkt_PacketType packetParams) s else s);
          gfsk =
            (let (crcVal, s) =
               (if pkt_Gfsk_CrcLength packetParams = RADIO_CRC_2_BYTES_IBM then
                  let s = SUBGRF_SetCrcSeed CRC_IBM_SEED s;
                      s = SUBGRF_SetCrcPolynomial CRC_POLYNOMIAL_IBM s
                  in (ucast RADIO_CRC_2_BYTES, s)
                else if pkt_Gfsk_CrcLength packetParams = RADIO_CRC_2_BYTES_CCIT then
                  let s = SUBGRF_SetCrcSeed CRC_CCITT_SEED s;
                      s = SUBGRF_SetCrcPolynomial CRC_POLYNOMIAL_CCITT s
                  in (ucast RADIO_CRC_2_BYTES_INV, s)
                else (ucast (pkt_Gfsk_CrcLength packetParams), s));
                 buf = [byte_at 8 (pkt_Gfsk_PreambleLength packetParams),
                        ucast (pkt_Gfsk_PreambleLength packetParams),
                        ucast (pkt_Gfsk_PreambleMinDetect packetParams),
                        pkt_Gfsk_SyncWordLength packetParams,
                        ucast (pkt_Gfsk_AddrComp packetParams),
                        ucast (pkt_Gfsk_HeaderType packetParams),
                        pkt_Gfsk_PayloadLength packetParams,
                        crcVal,
                        ucast (pkt_Gfsk_DcFree packetParams)]
             in SUBGRF_WriteCommand RADIO_SET_PACKETPARAMS buf s)
      in case pkt_PacketType packetParams of
           PACKET_TYPE_GMSK \<Rightarrow> gfsk
         | PACKET_TYPE_GFSK \<Rightarrow> gfsk
         | PACKET_TYPE_BPSK \<Rightarrow>
             SUBGRF_WriteCommand RADIO_SET_PACKETPARAMS [pkt_Bpsk_PayloadLength packetParams] s
         | PACKET_TYPE_LORA \<Rightarrow>
             (let s = s\<lparr>LoRaHeaderType := pkt_LoRa_HeaderType packetParams\<rparr>;
                  buf = [byte_at 8 (pkt_LoRa_PreambleLength packetParams),
                         ucast (pkt_LoRa_PreambleLength packetParams),
                         ucast (pkt_LoRa_HeaderType packetParams),
                         pkt_LoRa_PayloadLength packetParams,
                         ucast (pkt_LoRa_CrcMode packetParams),
                         ucast (pkt_LoRa_InvertIQ packetParams)]
              in SUBGRF_WriteCommand RADIO_SET_PACKETPARAMS buf s)
         | PACKET_TYPE_NONE \<Rightarrow> s)"

definition SUBGRF_SetCadParams ::
  "u8 \<Rightarrow> u8 \<Rightarrow> u8 \<Rightarrow> u8 \<Rightarrow> u32 \<Rightarrow> 'a drv_state_scheme \<Rightarrow> 'a drv_state_scheme" where
  "SUBGRF_SetCadParams cadSymbolNum cadDetPeak cadDetMin cadExitMode cadTimeout s =
     (let buf = [cadSymbolNum, cadDetPeak, cadDetMin, cadExitMode,
                 byte_at 16 cadTimeout, byte_at 8 cadTimeout, byte_at 0 cadTimeout];
          s = SUBGRF_WriteCommand RADIO_SET_CADPARAMS buf s
      in s\<lparr>OperatingMode := MODE_CAD\<rparr>)"

definition SUBGRF_SetBufferBaseAddress :: "u8 \<Rightarrow> u8 \<Rightarrow> 'a drv_state_scheme \<Rightarrow> 'a drv_state_scheme" where
  "SUBGRF_SetBufferBaseAddress txBaseAddress rxBaseAddress s =
     SUBGRF_WriteCommand RADIO_SET_BUFFERBASEADDRESS [txBaseAddress, rxBaseAddress] s"

section \<open>Status\<close>

definition SUBGRF_GetStatus :: "'a drv_state_scheme \<Rightarrow> RadioPhyStatus_t \<times> 'a drv_state_scheme" where
  "SUBGRF_GetStatus s =
     (let (buf, s) = SUBGRF_ReadCommand RADIO_GET_STATUS [0] s; stat = buf ! 0
      in (\<lparr>CmdStatus = drop_bit 1 (stat AND push_bit 1 0x07), ChipMode = drop_bit 4 (stat AND push_bit 4 0x07)\<rparr>, s))"

text \<open>\<^verbatim>\<open>-x >> 1\<close> is an arithmetic shift of an \<^verbatim>\<open>int\<close>: it rounds towards minus infinity.\<close>

definition SUBGRF_GetRssiInst :: "env \<Rightarrow> 'a drv_state_scheme \<Rightarrow> int \<times> 'a drv_state_scheme" where
  "SUBGRF_GetRssiInst X s =
     (let (buf, s) = SUBGRF_ReadCommand RADIO_GET_RSSIINST (uninit X 1 s) s
      in (to_i8 ((- uint (buf ! 0)) div 2), s))"

definition SUBGRF_GetPacketStatus :: "env \<Rightarrow> PacketStatus_t \<Rightarrow> 'a drv_state_scheme \<Rightarrow> PacketStatus_t \<times> 'a drv_state_scheme" where
  "SUBGRF_GetPacketStatus X pktStatus s =
     (let (status, s) = SUBGRF_ReadCommand RADIO_GET_PACKETSTATUS (uninit X 3 s) s;
          pktStatus = pktStatus\<lparr>ps_packetType := SUBGRF_GetPacketType s\<rparr>
      in case ps_packetType pktStatus of
           PACKET_TYPE_GFSK \<Rightarrow>
             (pktStatus\<lparr>ps_Gfsk_RxStatus := status ! 0,
                ps_Gfsk_RssiSync := to_i8 ((- uint (status ! 1)) div 2),
                ps_Gfsk_RssiAvg := to_i8 ((- uint (status ! 2)) div 2),
                ps_Gfsk_FreqError := 0\<rparr>, s)
         | PACKET_TYPE_LORA \<Rightarrow>
             (pktStatus\<lparr>ps_LoRa_RssiPkt := to_i8 ((- uint (status ! 0)) div 2),
                ps_LoRa_SnrPkt := to_i8 ((sint (status ! 1) + 2) div 4),
                ps_LoRa_SignalRssiPkt := to_i8 ((- uint (status ! 2)) div 2),
                ps_LoRa_FreqError := FrequencyError s\<rparr>, s)
         | _ \<Rightarrow> (PacketStatus_zero\<lparr>ps_packetType := PACKET_TYPE_NONE\<rparr>, s))"

definition SUBGRF_GetDeviceErrors :: u16 where
  "SUBGRF_GetDeviceErrors = 0"

definition SUBGRF_ClearDeviceErrors :: "'a drv_state_scheme \<Rightarrow> 'a drv_state_scheme" where
  "SUBGRF_ClearDeviceErrors s = SUBGRF_WriteCommand RADIO_CLR_ERROR [0x00, 0x00] s"

definition SUBGRF_ClearIrqStatus :: "u16 \<Rightarrow> 'a drv_state_scheme \<Rightarrow> 'a drv_state_scheme" where
  "SUBGRF_ClearIrqStatus irq s = SUBGRF_WriteCommand RADIO_CLR_IRQSTATUS [byte_at 8 irq, byte_at 0 irq] s"

section \<open>Antenna switch and power\<close>

definition SUBGRF_SetSwitch :: "u8 \<Rightarrow> RFState_t \<Rightarrow> 'a drv_state_scheme \<Rightarrow> 'a drv_state_scheme" where
  "SUBGRF_SetSwitch paSelect rxtx s =
     (let (sw, s) =
       (if rxtx = RFSWITCH_TX then
          let (sw, s) = (if paSelect = RFO_LP
                         then (RBI_SWITCH_RFO_LP, Radio_SMPS_Set SMPS_DRIVE_SETTING_MAX s)
                         else (RBI_SWITCH_RX, s))
          in (if paSelect = RFO_HP then RBI_SWITCH_RFO_HP else sw, s)
        else (RBI_SWITCH_RX, s))
      in ext (RBI_ConfigRFSwitch sw) s)"

definition SUBGRF_SetRfTxPower :: "env \<Rightarrow> int \<Rightarrow> 'a drv_state_scheme \<Rightarrow> u8 \<times> 'a drv_state_scheme" where
  "SUBGRF_SetRfTxPower X txPower s =
     (let paSelect = (case RBI_GetTxConfig X of
                        RBI_CONF_RFO_LP_HP \<Rightarrow> if txPower > 15 then RFO_HP else RFO_LP
                      | RBI_CONF_RFO_LP \<Rightarrow> RFO_LP
                      | RBI_CONF_RFO_HP \<Rightarrow> RFO_HP
                      | _ \<Rightarrow> RFO_LP);
          s = SUBGRF_SetTxParams X paSelect txPower RADIO_RAMP_40_US s
      in (paSelect, s))"

definition SUBGRF_GetRadioWakeUpTime :: u32 where
  "SUBGRF_GetRadioWakeUpTime = RF_WAKEUP_TIME"

text \<open>FSK support is cut out of the simulator: these two exit the process.\<close>

definition SUBGRF_GetFskBandwidthRegValue :: "u32 \<Rightarrow> u8 result" where
  "SUBGRF_GetFskBandwidthRegValue bandwidth =
     Inl (SimError ''SUBGRF_GetFskBandwidthRegValue(): lora-simulator does not support FSK'')"

definition SUBGRF_GetCFO :: "u32 \<Rightarrow> int result" where
  "SUBGRF_GetCFO bitRate = Inl (SimError ''SUBGRF_GetCFO(): lora-simulator does not support FSK'')"

section \<open>Initialisation\<close>

definition SUBGRF_Init :: "env \<Rightarrow> DioIrqHandler option \<Rightarrow> 'a drv_state_scheme \<Rightarrow> 'a drv_state_scheme" where
  "SUBGRF_Init X dioIrq s =
     (let s = (if dioIrq \<noteq> None then s\<lparr>RadioOnDioIrqCb := dioIrq\<rparr> else s);
          s = ext MX_SUBGHZ_Init_call s;
          s = s\<lparr>hal := MX_SUBGHZ_Init X (hal s)\<rparr>;
          s = Radio_SMPS_Set SMPS_DRIVE_SETTING_DEFAULT s;
          s = s\<lparr>ImageCalibrated := False\<rparr>;
          s = SUBGRF_SetStandby STDBY_RC s;
          s = (if 1 = RBI_IsTCXO X then
                 let s = SUBGRF_SetTcxoMode TCXO_CTRL_1_7V (push_bit 6 RF_WAKEUP_TIME) s;
                     s = SUBGRF_WriteRegister REG_XTA_TRIM 0x00 s
                 in SUBGRF_Calibrate 0x7F s
               else
                 let s = SUBGRF_WriteRegister REG_XTA_TRIM XTAL_DEFAULT_CAP_VALUE s
                 in SUBGRF_WriteRegister REG_XTB_TRIM XTAL_DEFAULT_CAP_VALUE s);
          s = SUBGRF_WriteRegister REG_DRV_CTRL (push_bit 1 0x7) s;
          s = ext RBI_Init_call s
      in s\<lparr>OperatingMode := MODE_STDBY_RC\<rparr>)"

section \<open>Effects of the primitives\<close>

lemma ext_sel [simp]:
  "calls (ext c s) = calls s @ [c]" "hal (ext c s) = hal s"
  by (simp_all add: ext_def)

lemma ext_drv_sel [simp]:
  "OperatingMode (ext c s) = OperatingMode s" "PacketType (ext c s) = PacketType s"
  "LoRaHeaderType (ext c s) = LoRaHeaderType s" "FrequencyError (ext c s) = FrequencyError s"
  "ImageCalibrated (ext c s) = ImageCalibrated s" "RadioOnDioIrqCb (ext c s) = RadioOnDioIrqCb s"
  "drv_state.more (ext c s) = drv_state.more s"
  by (simp_all add: ext_def)

lemma WriteCommand_sel [simp]:
  "calls (SUBGRF_WriteCommand c b s) = calls s @ [SetCmd c b]"
  "OperatingMode (SUBGRF_WriteCommand c b s) = OperatingMode s"
  "PacketType (SUBGRF_WriteCommand c b s) = PacketType s"
  "LoRaHeaderType (SUBGRF_WriteCommand c b s) = LoRaHeaderType s"
  "FrequencyError (SUBGRF_WriteCommand c b s) = FrequencyError s"
  "ImageCalibrated (SUBGRF_WriteCommand c b s) = ImageCalibrated s"
  "RadioOnDioIrqCb (SUBGRF_WriteCommand c b s) = RadioOnDioIrqCb s"
  "drv_state.more (SUBGRF_WriteCommand c b s) = drv_state.more s"
  by (simp_all add: SUBGRF_WriteCommand_def Let_def)

lemma WriteRegisters_sel [simp]:
  "calls (SUBGRF_WriteRegisters a b s) = calls s @ [WriteRegisters a b]"
  "OperatingMode (SUBGRF_WriteRegisters a b s) = OperatingMode s"
  "PacketType (SUBGRF_WriteRegisters a b s) = PacketType s"
  "LoRaHeaderType (SUBGRF_WriteRegisters a b s) = LoRaHeaderType s"
  "FrequencyError (SUBGRF_WriteRegisters a b s) = FrequencyError s"
  "ImageCalibrated (SUBGRF_WriteRegisters a b s) = ImageCalibrated s"
  "RadioOnDioIrqCb (SUBGRF_WriteRegisters a b s) = RadioOnDioIrqCb s"
  "drv_state.more (SUBGRF_WriteRegisters a b s) = drv_state.more s"
  by (simp_all add: SUBGRF_WriteRegisters_def Let_def)

lemma WriteRegister_eq [simp]: "SUBGRF_WriteRegister a d s = SUBGRF_WriteRegisters a [d] s"
  by (simp add: SUBGRF_WriteRegister_def SUBGRF_WriteRegisters_def)

lemma ReadRegister_eq [simp]:
  "SUBGRF_ReadRegister X a s = (read_regs X (calls s) a 1 0, ext (ReadRegisters a 1) s)"
  by (simp add: SUBGRF_ReadRegister_def)

lemma ReadRegisters_eq [simp]:
  "SUBGRF_ReadRegisters X a n s =
     (map (read_regs X (calls s) a n) [0..<n], ext (ReadRegisters a n) s)"
  by (simp add: SUBGRF_ReadRegisters_def)

text \<open>The get commands of the simulator's HAL leave the buffer as it was.\<close>

lemma ReadCommand_eq [simp]: "SUBGRF_ReadCommand c b s = (b, ext (GetCmd c (length b)) s)"
  by (simp add: SUBGRF_ReadCommand_def HAL_SUBGHZ_ExecGetCmd_def Let_def ext_def)

lemma length_uninit [simp]: "length (uninit X n s) = n"
  by (simp add: uninit_def)

lemma nth_uninit [simp]: "i < n \<Longrightarrow> uninit X n s ! i = stack_byte X (calls s) i"
  by (simp add: uninit_def)

lemma SMPS_Set_eq [simp]: "Radio_SMPS_Set l s = s"
  by (simp add: Radio_SMPS_Set_def)

lemmas drv_defs =
  SUBGRF_SetSleep_def SUBGRF_SetStandby_def SUBGRF_SetFs_def SUBGRF_SetTx_def SUBGRF_SetRx_def
  SUBGRF_SetRxBoosted_def SUBGRF_SetRxDutyCycle_def SUBGRF_SetCad_def SUBGRF_SetTxContinuousWave_def
  SUBGRF_SetTxInfinitePreamble_def SUBGRF_GetOperatingMode_def SUBGRF_WriteBuffer_def
  SUBGRF_SetPayload_def SUBGRF_SendPayload_def SUBGRF_GetPacketType_def SUBGRF_SetSyncWord_def
  SUBGRF_SetCrcSeed_def SUBGRF_SetCrcPolynomial_def SUBGRF_SetWhiteningSeed_def
  SUBGRF_SetStopRxTimerOnPreambleDetect_def SUBGRF_SetLoRaSymbNumTimeout_def
  SUBGRF_SetRegulatorMode_def SUBGRF_Calibrate_def SUBGRF_CalibrateImage_def SUBGRF_SetPaConfig_def
  SUBGRF_SetRxTxFallbackMode_def SUBGRF_SetDioIrqParams_def SUBGRF_SetTcxoMode_def
  SUBGRF_SetRfFrequency_def SUBGRF_SetPacketType_def SUBGRF_SetBufferBaseAddress_def
  SUBGRF_ClearDeviceErrors_def SUBGRF_ClearIrqStatus_def SUBGRF_SetSwitch_def

section \<open>The driver and the radio it commands\<close>

text \<open>
  What the radio makes of the commands it receives, as far as the driver keeps a copy of it: its
  operating mode, the packet type byte, and whether its image rejection was calibrated since its
  initialisation.
\<close>

record chip =
  chip_mode :: RadioOperatingModes_t
  chip_packet_type :: u8
  chip_image :: bool

fun chip_cmd :: "SUBGHZ_RadioSetCmd_t \<Rightarrow> u8 list \<Rightarrow> chip \<Rightarrow> chip" where
  "chip_cmd RADIO_SET_SLEEP b d = d\<lparr>chip_mode := MODE_SLEEP\<rparr>"
| "chip_cmd RADIO_SET_STANDBY b d =
     d\<lparr>chip_mode := if b = [0] then MODE_STDBY_RC else MODE_STDBY_XOSC\<rparr>"
| "chip_cmd RADIO_SET_FS b d = d\<lparr>chip_mode := MODE_FS\<rparr>"
| "chip_cmd RADIO_SET_TX b d = d\<lparr>chip_mode := MODE_TX\<rparr>"
| "chip_cmd RADIO_SET_RX b d = d\<lparr>chip_mode := MODE_RX\<rparr>"
| "chip_cmd RADIO_SET_RXDUTYCYCLE b d = d\<lparr>chip_mode := MODE_RX_DC\<rparr>"
| "chip_cmd RADIO_SET_CAD b d = d\<lparr>chip_mode := MODE_CAD\<rparr>"
| "chip_cmd RADIO_SET_TXCONTINUOUSWAVE b d = d\<lparr>chip_mode := MODE_TX\<rparr>"
| "chip_cmd RADIO_SET_TXCONTINUOUSPREAMBLE b d = d\<lparr>chip_mode := MODE_TX\<rparr>"
| "chip_cmd RADIO_SET_PACKETTYPE b d = d\<lparr>chip_packet_type := hd b\<rparr>"
| "chip_cmd RADIO_CALIBRATEIMAGE b d = d\<lparr>chip_image := True\<rparr>"
| "chip_cmd _ b d = d"

fun chip_step :: "chip \<Rightarrow> ext_call \<Rightarrow> chip" where
  "chip_step d (SetCmd c b) = chip_cmd c b d"
| "chip_step d MX_SUBGHZ_Init_call = d\<lparr>chip_image := False\<rparr>"
| "chip_step d _ = d"

definition chip_of :: "'a drv_state_scheme \<Rightarrow> chip" where
  "chip_of s = \<lparr>chip_mode = OperatingMode s, chip_packet_type = packet_type_val (PacketType s),
                chip_image = ImageCalibrated s\<rparr>"

text \<open>The operations of the driver's interface that change its state, as a client calls them.\<close>

datatype drv_op =
    DrvInit "DioIrqHandler option"
  | DrvSetPayload "u8 list"
  | DrvGetPayload u8
  | DrvSendPayload "u8 list" u32
  | DrvSetSyncWord "u8 list"
  | DrvSetCrcSeed u16
  | DrvSetCrcPolynomial u16
  | DrvSetWhiteningSeed u16
  | DrvGetRandom
  | DrvSetSleep SleepParams_t
  | DrvSetStandby RadioStandbyModes_t
  | DrvSetFs
  | DrvSetTx u32
  | DrvSetRx u32
  | DrvSetRxBoosted u32
  | DrvSetRxDutyCycle u32 u32
  | DrvSetCad
  | DrvSetTxContinuousWave
  | DrvSetTxInfinitePreamble
  | DrvSetStopRxTimerOnPreambleDetect bool
  | DrvSetLoRaSymbNumTimeout u8
  | DrvSetRegulatorMode
  | DrvCalibrate CalibrationParams_t
  | DrvCalibrateImage u32
  | DrvSetPaConfig u8 u8 u8 u8
  | DrvSetRxTxFallbackMode u8
  | DrvSetDioIrqParams u16 u16 u16 u16
  | DrvGetIrqStatus
  | DrvSetTcxoMode u32 u32
  | DrvSetRfFrequency u32
  | DrvSetPacketType RadioPacketTypes_t
  | DrvSetTxParams u8 int u32
  | DrvSetModulationParams ModulationParams_t
  | DrvSetPacketParams PacketParams_t
  | DrvSetCadParams u8 u8 u8 u8 u32
  | DrvSetBufferBaseAddress u8 u8
  | DrvGetStatus
  | DrvGetRssiInst
  | DrvGetPacketStatus PacketStatus_t
  | DrvClearDeviceErrors
  | DrvClearIrqStatus u16
  | DrvSetSwitch u8 RFState_t
  | DrvSetRfTxPower int

fun drv_step :: "env \<Rightarrow> drv_op \<Rightarrow> 'a drv_state_scheme \<Rightarrow> 'a drv_state_scheme result" where
  "drv_step X (DrvInit irq) s = Inr (SUBGRF_Init X irq s)"
| "drv_step X (DrvSetPayload b) s = Inr (SUBGRF_SetPayload b s)"
| "drv_step X (DrvGetPayload n) s = Inr (snd (SUBGRF_GetPayload X n s))"
| "drv_step X (DrvSendPayload b t) s = Inr (SUBGRF_SendPayload b t s)"
| "drv_step X (DrvSetSyncWord b) s = Inr (snd (SUBGRF_SetSyncWord b s))"
| "drv_step X (DrvSetCrcSeed v) s = Inr (SUBGRF_SetCrcSeed v s)"
| "drv_step X (DrvSetCrcPolynomial v) s = Inr (SUBGRF_SetCrcPolynomial v s)"
| "drv_step X (DrvSetWhiteningSeed v) s = Inr (SUBGRF_SetWhiteningSeed X v s)"
| "drv_step X DrvGetRandom s = Inr (snd (SUBGRF_GetRandom X s))"
| "drv_step X (DrvSetSleep v) s = Inr (SUBGRF_SetSleep v s)"
| "drv_step X (DrvSetStandby m) s = Inr (SUBGRF_SetStandby m s)"
| "drv_step X DrvSetFs s = Inr (SUBGRF_SetFs s)"
| "drv_step X (DrvSetTx t) s = Inr (SUBGRF_SetTx t s)"
| "drv_step X (DrvSetRx t) s = Inr (SUBGRF_SetRx t s)"
| "drv_step X (DrvSetRxBoosted t) s = Inr (SUBGRF_SetRxBoosted t s)"
| "drv_step X (DrvSetRxDutyCycle t u) s = Inr (SUBGRF_SetRxDutyCycle t u s)"
| "drv_step X DrvSetCad s = Inr (SUBGRF_SetCad s)"
| "drv_step X DrvSetTxContinuousWave s = Inr (SUBGRF_SetTxContinuousWave s)"
| "drv_step X DrvSetTxInfinitePreamble s = Inr (SUBGRF_SetTxInfinitePreamble s)"
| "drv_step X (DrvSetStopRxTimerOnPreambleDetect b) s = Inr (SUBGRF_SetStopRxTimerOnPreambleDetect b s)"
| "drv_step X (DrvSetLoRaSymbNumTimeout n) s = Inr (SUBGRF_SetLoRaSymbNumTimeout n s)"
| "drv_step X DrvSetRegulatorMode s = Inr (SUBGRF_SetRegulatorMode X s)"
| "drv_step X (DrvCalibrate v) s = Inr (SUBGRF_Calibrate v s)"
| "drv_step X (DrvCalibrateImage f) s = Inr (SUBGRF_CalibrateImage f s)"
| "drv_step X (DrvSetPaConfig a b c d) s = Inr (SUBGRF_SetPaConfig a b c d s)"
| "drv_step X (DrvSetRxTxFallbackMode v) s = Inr (SUBGRF_SetRxTxFallbackMode v s)"
| "drv_step X (DrvSetDioIrqParams a b c d) s = Inr (SUBGRF_SetDioIrqParams a b c d s)"
| "drv_step X DrvGetIrqStatus s = Inr (snd (SUBGRF_GetIrqStatus X s))"
| "drv_step X (DrvSetTcxoMode v t) s = Inr (SUBGRF_SetTcxoMode v t s)"
| "drv_step X (DrvSetRfFrequency f) s = Inr (SUBGRF_SetRfFrequency f s)"
| "drv_step X (DrvSetPacketType t) s = Inr (SUBGRF_SetPacketType t s)"
| "drv_step X (DrvSetTxParams p v r) s = Inr (SUBGRF_SetTxParams X p v r s)"
| "drv_step X (DrvSetModulationParams m) s = SUBGRF_SetModulationParams m s"
| "drv_step X (DrvSetPacketParams q) s = Inr (SUBGRF_SetPacketParams q s)"
| "drv_step X (DrvSetCadParams a b c d t) s = Inr (SUBGRF_SetCadParams a b c d t s)"
| "drv_step X (DrvSetBufferBaseAddress a b) s = Inr (SUBGRF_SetBufferBaseAddress a b s)"
| "drv_step X DrvGetStatus s = Inr (snd (SUBGRF_GetStatus s))"
| "drv_step X DrvGetRssiInst s = Inr (snd (SUBGRF_GetRssiInst X s))"
| "drv_step X (DrvGetPacketStatus q) s = Inr (snd (SUBGRF_GetPacketStatus X q s))"
| "drv_step X DrvClearDeviceErrors s = Inr (SUBGRF_ClearDeviceErrors s)"
| "drv_step X (DrvClearIrqStatus v) s = Inr (SUBGRF_ClearIrqStatus v s)"
| "drv_step X (DrvSetSwitch p m) s = Inr (SUBGRF_SetSwitch p m s)"
| "drv_step X (DrvSetRfTxPower v) s = Inr (snd (SUBGRF_SetRfTxPower X v s))"

text \<open>
  The four operations whose command the driver's own variables do not follow: the two continuous
  transmissions do not set the mode, \<^verbatim>\<open>SUBGRF_SetCadParams\<close> sets it without starting a detection, and
  a direct \<^verbatim>\<open>SUBGRF_CalibrateImage\<close> does not set the flag.
\<close>

fun mirrored_op :: "drv_op \<Rightarrow> bool" where
  "mirrored_op DrvSetTxContinuousWave = False"
| "mirrored_op DrvSetTxInfinitePreamble = False"
| "mirrored_op (DrvSetCadParams a b c d t) = False"
| "mirrored_op (DrvCalibrateImage f) = False"
| "mirrored_op _ = True"

abbreviation drv_follows :: "'a drv_state_scheme \<Rightarrow> 'a drv_state_scheme \<Rightarrow> bool" where
  "drv_follows \<equiv> follows calls chip_of chip_step"

lemmas drv_follows_defs = follows_def chip_of_def Let_def

lemma packet_params_follows: "drv_follows s (SUBGRF_SetPacketParams q s)"
  by (cases "pkt_PacketType q")
    (simp_all add: SUBGRF_SetPacketParams_def drv_defs drv_follows_defs
      split: if_split prod.split RadioPacketTypes_t.split)

lemma modulation_params_follows:
  "SUBGRF_SetModulationParams m s = Inr s' \<Longrightarrow> drv_follows s s'"
  by (cases "mod_PacketType m")
    (auto simp: SUBGRF_SetModulationParams_def bindr_eq_Inr_iff drv_defs drv_follows_defs
      split: if_split_asm)

lemma tx_params_follows: "drv_follows s (SUBGRF_SetTxParams X p v r s)"
  by (simp add: SUBGRF_SetTxParams_def drv_defs drv_follows_defs split: if_split)

lemma init_follows: "drv_follows s (SUBGRF_Init X irq s)"
  by (simp add: SUBGRF_Init_def drv_defs drv_follows_defs split: if_split)

lemma reads_follow:
  "drv_follows s (snd (SUBGRF_GetPayload X n s))" "drv_follows s (snd (SUBGRF_GetIrqStatus X s))"
  "drv_follows s (snd (SUBGRF_GetStatus s))" "drv_follows s (snd (SUBGRF_GetRssiInst X s))"
  "drv_follows s (snd (SUBGRF_GetRandom X s))"
  by (simp_all add: SUBGRF_GetPayload_def SUBGRF_GetRxBufferStatus_def SUBGRF_GetIrqStatus_def
      SUBGRF_ReadBuffer_def SUBGRF_GetStatus_def SUBGRF_GetRssiInst_def SUBGRF_GetRandom_def
      drv_defs drv_follows_defs del: upt_Suc split: if_split)

lemma packet_status_follows: "drv_follows s (snd (SUBGRF_GetPacketStatus X q s))"
  by (cases "PacketType s") (simp_all add: SUBGRF_GetPacketStatus_def drv_defs drv_follows_defs)

lemma standby_follows: "drv_follows s (SUBGRF_SetStandby m s)"
  by (cases m) (simp_all add: drv_defs drv_follows_defs)

lemma mode_commands_follow:
  "drv_follows s (SUBGRF_SetSleep v s)" "drv_follows s (SUBGRF_SetFs s)"
  "drv_follows s (SUBGRF_SetTx t s)" "drv_follows s (SUBGRF_SetRx t s)"
  "drv_follows s (SUBGRF_SetRxBoosted t s)" "drv_follows s (SUBGRF_SetRxDutyCycle t u s)"
  "drv_follows s (SUBGRF_SetCad s)" "drv_follows s (SUBGRF_SendPayload b t s)"
  by (simp_all add: drv_defs drv_follows_defs)

lemma register_writes_follow:
  "drv_follows s (snd (SUBGRF_SetSyncWord b s))" "drv_follows s (SUBGRF_SetCrcSeed w s)"
  "drv_follows s (SUBGRF_SetCrcPolynomial w s)" "drv_follows s (SUBGRF_SetWhiteningSeed X w s)"
  "drv_follows s (SUBGRF_SetLoRaSymbNumTimeout n s)"
  by (simp_all add: drv_defs drv_follows_defs split: RadioPacketTypes_t.split prod.split)

lemma configuration_follows:
  "drv_follows s (SUBGRF_SetPayload b s)" "drv_follows s (SUBGRF_SetStopRxTimerOnPreambleDetect e s)"
  "drv_follows s (SUBGRF_SetRegulatorMode X s)" "drv_follows s (SUBGRF_Calibrate v s)"
  "drv_follows s (SUBGRF_SetPaConfig v v1 v2 v3 s)" "drv_follows s (SUBGRF_SetRxTxFallbackMode v s)"
  "drv_follows s (SUBGRF_SetDioIrqParams w w1 w2 w3 s)" "drv_follows s (SUBGRF_SetTcxoMode t u s)"
  "drv_follows s (SUBGRF_SetRfFrequency t s)" "drv_follows s (SUBGRF_SetPacketType k s)"
  "drv_follows s (SUBGRF_SetBufferBaseAddress v v1 s)" "drv_follows s (SUBGRF_ClearDeviceErrors s)"
  "drv_follows s (SUBGRF_ClearIrqStatus w s)" "drv_follows s (SUBGRF_SetSwitch v m s)"
  "drv_follows s (snd (SUBGRF_SetRfTxPower X p s))"
  by (simp_all add: SUBGRF_SetRfTxPower_def tx_params_follows Let_def)
    (simp_all add: drv_defs drv_follows_defs)

lemmas drv_op_follows =
  packet_params_follows tx_params_follows init_follows reads_follow packet_status_follows
  standby_follows mode_commands_follow register_writes_follow configuration_follows

lemma drv_step_follows:
  "mirrored_op x \<Longrightarrow> drv_step X x s = Inr s' \<Longrightarrow> drv_follows s s'"
  by (cases x) (auto simp: drv_op_follows modulation_params_follows)

interpretation drv: call_refinement "drv_step X" calls chip_of chip_step mirrored_op
  by unfold_locales (rule drv_step_follows)

section \<open>Arithmetic of the encodings\<close>

lemma unat_channel:
  assumes "unat freq < 4096000000"
  shows "unat (SX_FREQ_TO_CHANNEL freq) = unat freq * 2 ^ 25 div 32000000"
proof -
  have le: "unat freq < 4294967296" by simp
  have u: "unat (ucast freq :: u64) = unat freq"
    using le by (simp add: unsigned_ucast_eq take_bit_nat_eq_self_iff less_trans [OF le])
  have p: "unat (push_bit 25 (ucast freq :: u64)) = unat freq * 2 ^ 25"
    using le less_trans [OF le, of 549755813888]
    by (simp add: push_bit_eq_mult unat_word_ariths u)
  have d: "unat (push_bit 25 (ucast freq :: u64) div XTAL_FREQ) = unat freq * 2 ^ 25 div 32000000"
    by (simp add: unat_div p XTAL_FREQ_def del: push_bit_numeral)
  have "unat freq * 2 ^ 25 div 32000000 < 2 ^ 32"
    using assms by (simp add: div_less_iff_less_mult)
  then show ?thesis
    by (simp add: SX_FREQ_TO_CHANNEL_def unsigned_ucast_eq d take_bit_nat_eq_self del: push_bit_numeral)
qed

lemma channel_brackets:
  assumes "unat freq < 4096000000"
  shows "unat (SX_FREQ_TO_CHANNEL freq) * 32000000 \<le> unat freq * 2 ^ 25"
    and "unat freq * 2 ^ 25 < (unat (SX_FREQ_TO_CHANNEL freq) + 1) * 32000000"
proof -
  have "unat freq * 2 ^ 25 mod 32000000 < 32000000" by simp
  then show "unat (SX_FREQ_TO_CHANNEL freq) * 32000000 \<le> unat freq * 2 ^ 25"
    "unat freq * 2 ^ 25 < (unat (SX_FREQ_TO_CHANNEL freq) + 1) * 32000000"
    unfolding unat_channel [OF assms]
    using div_mult_mod_eq [of "unat freq * 2 ^ 25" 32000000]
    by (simp_all only: add_mult_distrib)
qed

lemma channel_inj:
  assumes "unat f < 4096000000" "unat f' < 4096000000" "SX_FREQ_TO_CHANNEL f = SX_FREQ_TO_CHANNEL f'"
  shows "f = f'"
proof -
  have "unat f = unat f'"
    using channel_brackets [OF assms(1)] channel_brackets [OF assms(2)]
    unfolding assms(3) add_mult_distrib by simp
  then show ?thesis by (simp add: word_unat_eq_iff)
qed

declare symb_mant_exp.simps [simp del]

lemma symb_mant_exp_eq:
  assumes "32 \<le> m" "m < 128"
  shows "symb_mant_exp m e = (drop_bit 2 m, e + 1)"
proof -
  have "\<not> 31 < drop_bit 2 m" "31 < m"
    using assms by (simp_all add: word_less_nat_alt word_le_nat_alt drop_bit_eq_div unat_div)
  then show ?thesis by (simp add: symb_mant_exp.simps [of m] symb_mant_exp.simps [of "drop_bit 2 m"])
qed

lemma symb_reg:
  assumes "64 \<le> n"
  shows "symb_mant_exp (drop_bit 1 n) 0 = (drop_bit 3 n, 1)"
proof -
  have "unat n < 256" by simp
  then have "32 \<le> drop_bit 1 n" "drop_bit 1 n < 128"
    using assms
    by (simp_all add: word_less_nat_alt word_le_nat_alt drop_bit_eq_div unat_div div_less_iff_less_mult)
  then show ?thesis by (simp add: symb_mant_exp_eq)
qed

section \<open>Properties\<close>

text \<open>A concrete environment and a power-on state, used where a property is applied to data.\<close>

definition env0 :: env where
  "env0 = \<lparr>read_regs = (\<lambda>h a n i. 0x5A), read_buf = (\<lambda>h a n i. of_nat i + 1), stack_byte = (\<lambda>h i. 3),
     next_chunk = (\<lambda>h n i. of_nat i), TimerGetCurrentTime = (\<lambda>h. 0), TimerGetElapsedTime = (\<lambda>h t. 10),
     MX_SUBGHZ_Init = (\<lambda>g. snd (HAL_SUBGHZ_Init hsubghz g)), RBI_IsTCXO = 1, RBI_IsDCDC = 1,
     RBI_GetTxConfig = RBI_CONF_RFO_LP_HP,
     RBI_GetRFOMaxPowerConfig = (\<lambda>c. case c of RBI_RFO_LP_MAXPOWER \<Rightarrow> 15 | RBI_RFO_HP_MAXPOWER \<Rightarrow> 22),
     LL_DBGMCU_GetRevisionID = 0x1003, RFW_ENABLE = True, RFW_LONGPACKET_ENABLE = True\<rparr>"

definition drv0 :: drv_state where
  "drv0 = \<lparr>hal = ready_globals, calls = [], OperatingMode = MODE_STDBY_RC, PacketType = PACKET_TYPE_GFSK,
     LoRaHeaderType = 0, FrequencyError = 0, ImageCalibrated = False, RadioOnDioIrqCb = None\<rparr>"

text \<open>
  C3: the driver's variables follow the radio. Whatever mirrored operations a client performs in
  whatever order, the driver only appends calls, and its operating mode, packet type and image
  calibration flag are those of a radio that started where the driver stood and executed exactly the
  commands sent.
\<close>

theorem driver_mirrors_radio:
  assumes "list_all mirrored_op ops" "run_ops (drv_step X) ops s = Inr s'"
  shows "\<exists>cs. calls s' = calls s @ cs \<and> chip_of s' = foldl chip_step (chip_of s) cs"
  using drv.run_follows [OF assms] by (simp add: follows_iff)

theorem driver_mirrors_radio_witness:
  "\<exists>s' cs. run_ops (drv_step env0) [DrvInit (Some RadioOnDioIrq_handler), DrvSetPacketType PACKET_TYPE_LORA,
      DrvSetRfFrequency 868000000, DrvSetRx 0xFFFFFF] drv0 = Inr s' \<and>
    calls s' = calls drv0 @ cs \<and> chip_of s' = foldl chip_step (chip_of drv0) cs"
  using driver_mirrors_radio [of "[DrvInit (Some RadioOnDioIrq_handler), DrvSetPacketType PACKET_TYPE_LORA,
      DrvSetRfFrequency 868000000, DrvSetRx 0xFFFFFF]" env0 drv0] by simp

text \<open>
  The continuous transmissions escape the mirror. Both put the radio into transmission and leave
  the driver's operating mode as it was, whatever it was.
\<close>

theorem continuous_tx_not_mirrored:
  "OperatingMode (SUBGRF_SetTxContinuousWave s) = OperatingMode s \<and>
   chip_mode (foldl chip_step (chip_of s) (drop (length (calls s)) (calls (SUBGRF_SetTxContinuousWave s)))) = MODE_TX \<and>
   OperatingMode (SUBGRF_SetTxInfinitePreamble s) = OperatingMode s \<and>
   chip_mode (foldl chip_step (chip_of s) (drop (length (calls s)) (calls (SUBGRF_SetTxInfinitePreamble s)))) = MODE_TX"
  by (simp add: drv_defs)

text \<open>The bands the sub-GHz radio is used in, in MHz; the radio counts its calibration band in steps of 4 MHz.\<close>

definition ism_bands :: "(nat \<times> nat) list" where
  "ism_bands = [(430, 440), (470, 510), (779, 787), (863, 870), (902, 928)]"

definition in_ism_band :: "u32 \<Rightarrow> bool" where
  "in_ism_band f \<longleftrightarrow> list_ex (\<lambda>(lo, hi). lo * 1000000 \<le> unat f \<and> unat f \<le> hi * 1000000) ism_bands"

lemma CalibrateImage_band:
  "\<exists>a b. calls (SUBGRF_CalibrateImage f s) = calls s @ [SetCmd RADIO_CALIBRATEIMAGE [a, b]] \<and>
     (in_ism_band f \<longrightarrow> unat a * 4000000 \<le> unat f \<and> unat f \<le> unat b * 4000000)"
  by (simp add: SUBGRF_CalibrateImage_def Let_def in_ism_band_def ism_bands_def word_less_nat_alt)

text \<open>
  C35: The frequency command. Below 4096 MHz, where the channel number fits 32 bits, setting a
  frequency ends with one command whose four bytes hold the channel of that frequency: the largest
  multiple of the 32 MHz / 2^25 step that does not exceed it. Two different frequencies get different
  channels. Nothing precedes the command when the image is calibrated; otherwise one calibration does,
  over a band around the frequency when that lies in one of the five bands of the radio. The image
  counts as calibrated afterwards, so the calibration is not repeated for a frequency in another band.
\<close>

theorem SetRfFrequency_correct:
  assumes "unat f < 4096000000" "unat f' < 4096000000"
  shows "(\<exists>b0 b1 b2 b3 cs.
      calls (SUBGRF_SetRfFrequency f s) = calls s @ cs @ [SetCmd RADIO_SET_RFFREQUENCY [b0, b1, b2, b3]] \<and>
      unat (join32 b0 b1 b2 b3) * 32000000 \<le> unat f * 2 ^ 25 \<and>
      unat f * 2 ^ 25 < (unat (join32 b0 b1 b2 b3) + 1) * 32000000 \<and>
      (if ImageCalibrated s then cs = []
       else \<exists>a b. cs = [SetCmd RADIO_CALIBRATEIMAGE [a, b]] \<and>
         (in_ism_band f \<longrightarrow> unat a * 4000000 \<le> unat f \<and> unat f \<le> unat b * 4000000))) \<and>
    (SX_FREQ_TO_CHANNEL f = SX_FREQ_TO_CHANNEL f' \<longleftrightarrow> f = f') \<and>
    ImageCalibrated (SUBGRF_SetRfFrequency f s)"
proof (intro conjI)
  let ?c = "SX_FREQ_TO_CHANNEL f"
  obtain a b where ab: "calls (SUBGRF_CalibrateImage f s) = calls s @ [SetCmd RADIO_CALIBRATEIMAGE [a, b]]"
    "in_ism_band f \<longrightarrow> unat a * 4000000 \<le> unat f \<and> unat f \<le> unat b * 4000000"
    using CalibrateImage_band by blast
  show "\<exists>b0 b1 b2 b3 cs.
      calls (SUBGRF_SetRfFrequency f s) = calls s @ cs @ [SetCmd RADIO_SET_RFFREQUENCY [b0, b1, b2, b3]] \<and>
      unat (join32 b0 b1 b2 b3) * 32000000 \<le> unat f * 2 ^ 25 \<and>
      unat f * 2 ^ 25 < (unat (join32 b0 b1 b2 b3) + 1) * 32000000 \<and>
      (if ImageCalibrated s then cs = []
       else \<exists>a b. cs = [SetCmd RADIO_CALIBRATEIMAGE [a, b]] \<and>
         (in_ism_band f \<longrightarrow> unat a * 4000000 \<le> unat f \<and> unat f \<le> unat b * 4000000))"
    using channel_brackets [OF assms(1)] ab
    by (intro exI [of _ "byte_at 24 ?c"] exI [of _ "byte_at 16 ?c"] exI [of _ "byte_at 8 ?c"]
        exI [of _ "byte_at 0 ?c"] exI [of _ "if ImageCalibrated s then [] else [SetCmd RADIO_CALIBRATEIMAGE [a, b]]"])
      (auto simp: SUBGRF_SetRfFrequency_def Let_def)
  show "SX_FREQ_TO_CHANNEL f = SX_FREQ_TO_CHANNEL f' \<longleftrightarrow> f = f'"
    using channel_inj [OF assms] by auto
  show "ImageCalibrated (SUBGRF_SetRfFrequency f s)"
    by (simp add: SUBGRF_SetRfFrequency_def Let_def)
qed

theorem SetRfFrequency_correct_witness:
  "\<exists>a b cs. calls (SUBGRF_SetRfFrequency 868100000 drv0) = SetCmd RADIO_CALIBRATEIMAGE [a, b] # cs \<and>
     unat a * 4000000 \<le> 868100000 \<and> 868100000 \<le> unat b * 4000000 \<and>
   SX_FREQ_TO_CHANNEL 868100000 \<noteq> SX_FREQ_TO_CHANNEL 868300000"
proof -
  have "in_ism_band 868100000" "\<not> ImageCalibrated drv0" "calls drv0 = []"
    by (simp_all add: in_ism_band_def ism_bands_def drv0_def)
  then show ?thesis using SetRfFrequency_correct [of 868100000 868300000 drv0] by auto
qed

text \<open>
  The LoRa symbol timeout. The command always carries the number of symbols; from 64 symbols on
  the synchronisation timeout register is written too, with a mantissa below 32 and an exponent,
  and the timeout it encodes, mantissa * 2^(2 * exponent + 1), is the number of symbols rounded down
  to a multiple of eight. Below 64 the register is left alone.
\<close>

theorem SetLoRaSymbNumTimeout_correct:
  "calls (SUBGRF_SetLoRaSymbNumTimeout n s) =
     calls s @ [SetCmd RADIO_SET_LORASYMBTIMEOUT [n]] @
     (if 64 \<le> n then [WriteRegisters REG_LR_SYNCH_TIMEOUT [fst (symb_mant_exp (drop_bit 1 n) 0) * 8 +
        snd (symb_mant_exp (drop_bit 1 n) 0)]] else []) \<and>
   (let (m, e) = symb_mant_exp (drop_bit 1 n) 0
    in m < 32 \<and> (64 \<le> n \<longrightarrow> unat m * 2 ^ (2 * unat e + 1) = unat n div 8 * 8))"
proof (cases "64 \<le> n")
  case True
  have "unat (drop_bit 3 n) = unat n div 8" "drop_bit 3 n < 32"
    by (simp_all add: drop_bit_eq_div unat_div div_less_iff_less_mult word_less_nat_alt)
  with True show ?thesis
    by (simp add: SUBGRF_SetLoRaSymbNumTimeout_def symb_reg Let_def push_bit_eq_mult add.commute
        del: One_nat_def)
next
  case False
  then have "drop_bit 1 n < 32"
    by (simp add: word_less_nat_alt word_le_nat_alt drop_bit_eq_div unat_div div_less_iff_less_mult)
  moreover from this have "symb_mant_exp (drop_bit 1 n) 0 = (drop_bit 1 n, 0)"
    by (subst symb_mant_exp.simps) (simp add: word_less_nat_alt)
  ultimately show ?thesis
    using False by (simp add: SUBGRF_SetLoRaSymbNumTimeout_def Let_def del: One_nat_def)
qed

theorem SetLoRaSymbNumTimeout_correct_witness:
  "calls (SUBGRF_SetLoRaSymbNumTimeout 100 drv0) =
     [SetCmd RADIO_SET_LORASYMBTIMEOUT [100], WriteRegisters REG_LR_SYNCH_TIMEOUT [97]]"
  using SetLoRaSymbNumTimeout_correct [of 100 drv0]
  by (simp add: drv0_def symb_mant_exp.simps)

text \<open>The byte the transmit power command carries.\<close>

definition tx_power_byte :: "env \<Rightarrow> u8 \<Rightarrow> int \<Rightarrow> int" where
  "tx_power_byte X paSelect p =
     (if paSelect = RFO_LP
      then let m = RBI_GetRFOMaxPowerConfig X RBI_RFO_LP_MAXPOWER
           in max (-17) ((if m = 10 then 13 else 14) - (m - min p m))
      else let m = RBI_GetRFOMaxPowerConfig X RBI_RFO_HP_MAXPOWER
           in max (-9) ((if m = 14 then 14 else 22) - (m - min p m)))"

lemma tx_params_lp:
  assumes "RBI_GetRFOMaxPowerConfig X RBI_RFO_LP_MAXPOWER \<in> {10, 14, 15}" "-127 \<le> p" "p \<le> 127"
  shows "last (calls (SUBGRF_SetTxParams X RFO_LP p ramp s)) =
      SetCmd RADIO_SET_TXPARAMS [word_of_int (tx_power_byte X RFO_LP p), ucast ramp]"
proof -
  from assms(1) consider "RBI_GetRFOMaxPowerConfig X RBI_RFO_LP_MAXPOWER = 10"
    | "RBI_GetRFOMaxPowerConfig X RBI_RFO_LP_MAXPOWER = 14"
    | "RBI_GetRFOMaxPowerConfig X RBI_RFO_LP_MAXPOWER = 15" by blast
  then show ?thesis
    using assms(2,3)
    by (cases; simp add: SUBGRF_SetTxParams_def tx_power_byte_def Let_def SUBGRF_SetPaConfig_def
        max_def min_def split del: if_split cong: if_cong; auto)
qed

lemma tx_params_hp:
  assumes "RBI_GetRFOMaxPowerConfig X RBI_RFO_HP_MAXPOWER \<in> {14, 17, 20, 22}" "-127 \<le> p" "p \<le> 127"
    and "pa \<noteq> RFO_LP"
  shows "last (calls (SUBGRF_SetTxParams X pa p ramp s)) =
      SetCmd RADIO_SET_TXPARAMS [word_of_int (tx_power_byte X pa p), ucast ramp]"
proof -
  from assms(1) consider "RBI_GetRFOMaxPowerConfig X RBI_RFO_HP_MAXPOWER = 14"
    | "RBI_GetRFOMaxPowerConfig X RBI_RFO_HP_MAXPOWER = 17"
    | "RBI_GetRFOMaxPowerConfig X RBI_RFO_HP_MAXPOWER = 20"
    | "RBI_GetRFOMaxPowerConfig X RBI_RFO_HP_MAXPOWER = 22" by blast
  then show ?thesis
    using assms(2-4)
    by (cases; simp add: SUBGRF_SetTxParams_def tx_power_byte_def Let_def SUBGRF_SetPaConfig_def
        max_def min_def split del: if_split cong: if_cong; auto)
qed

text \<open>
  The transmit power. When the board reports a maximum its documentation lists (10, 14 or 15 dBm
  for the low-power amplifier, 14, 17, 20 or 22 dBm for the high-power one) and the request is an
  \<^verbatim>\<open>int8_t\<close> above -128, no eight-bit step of the computation wraps: the last command carries the request, cut at
  the maximum, shifted so that the maximum maps to the amplifier's top setting, and never below -17
  (low power) or -9 (high power) nor above 14 or 22. A larger request never gives a smaller setting.
\<close>

theorem SetTxParams_power:
  assumes "RBI_GetRFOMaxPowerConfig X RBI_RFO_LP_MAXPOWER \<in> {10, 14, 15}"
    and "RBI_GetRFOMaxPowerConfig X RBI_RFO_HP_MAXPOWER \<in> {14, 17, 20, 22}"
    and "-127 \<le> p" "p \<le> q" "q \<le> 127"
  shows "last (calls (SUBGRF_SetTxParams X pa p ramp s)) =
      SetCmd RADIO_SET_TXPARAMS [word_of_int (tx_power_byte X pa p), ucast ramp] \<and>
    tx_power_byte X pa p \<in> (if pa = RFO_LP then {-17..14} else {-9..22}) \<and>
    tx_power_byte X pa p \<le> tx_power_byte X pa q"
proof -
  have "tx_power_byte X pa p \<in> (if pa = RFO_LP then {-17..14} else {-9..22})"
    using assms(1,2) by (auto simp: tx_power_byte_def Let_def)
  moreover have "tx_power_byte X pa p \<le> tx_power_byte X pa q"
    using assms(4) by (auto simp: tx_power_byte_def Let_def)
  ultimately show ?thesis
    using tx_params_lp [OF assms(1,3)] tx_params_hp [OF assms(2,3)] assms(4,5) by fastforce
qed

theorem SetTxParams_power_witness:
  "last (calls (SUBGRF_SetTxParams env0 RFO_LP 14 RADIO_RAMP_40_US drv0)) =
     SetCmd RADIO_SET_TXPARAMS [13, 2]"
  using SetTxParams_power [of env0 14 14 RFO_LP RADIO_RAMP_40_US drv0]
  by (simp add: env0_def tx_power_byte_def)

text \<open>The two conversions of a packet status fit eight bits.\<close>

lemma rssi_byte:
  "to_i8 (- uint (b :: u8) div 2) = - uint b div 2" "- 128 \<le> - uint b div 2" "- uint b div 2 \<le> 0"
proof -
  show *: "- 128 \<le> - uint b div 2" "- uint b div 2 \<le> 0"
    using uint_u8_less [of b] unsigned_greater_eq [of b, where 'a = int] by linarith+
  show "to_i8 (- uint b div 2) = - uint b div 2" using * by (intro to_i8_id) linarith+
qed

lemma snr_byte:
  "to_i8 ((sint (b :: u8) + 2) div 4) = (sint b + 2) div 4" "- 32 \<le> (sint b + 2) div 4" "(sint b + 2) div 4 \<le> 32"
proof -
  show *: "- 32 \<le> (sint b + 2) div 4" "(sint b + 2) div 4 \<le> 32"
    using sint_greater_eq [of b] sint_less [of b] by (simp; presburger)+
  show "to_i8 ((sint b + 2) div 4) = (sint b + 2) div 4" using * by (intro to_i8_id) linarith+
qed

text \<open>
  The units of a LoRa packet status. The RSSI fields are minus half the byte, rounded down and
  between -128 and 0, so the conversion to \<^verbatim>\<open>int8_t\<close> loses nothing; the SNR is the signed byte over
  four, rounded to the nearest integer (half upwards), between -32 and 32.
\<close>

theorem LoRa_packet_status_units:
  assumes "PacketType s = PACKET_TYPE_LORA"
  shows "let (p, s') = SUBGRF_GetPacketStatus X q s; b = uninit X 3 s
   in 2 * ps_LoRa_RssiPkt p \<in> {- uint (b ! 0) - 1 .. - uint (b ! 0)} \<and>
      2 * ps_LoRa_SignalRssiPkt p \<in> {- uint (b ! 2) - 1 .. - uint (b ! 2)} \<and>
      4 * ps_LoRa_SnrPkt p \<in> {sint (b ! 1) - 1 .. sint (b ! 1) + 2} \<and>
      ps_LoRa_RssiPkt p \<in> {-128..0} \<and> ps_LoRa_SnrPkt p \<in> {-32..32} \<and>
      ps_packetType p = PACKET_TYPE_LORA"
  using assms
  by (auto simp: SUBGRF_GetPacketStatus_def SUBGRF_GetPacketType_def Let_def rssi_byte snr_byte)

theorem LoRa_packet_status_units_witness:
  "4 * ps_LoRa_SnrPkt (fst (SUBGRF_GetPacketStatus env0 PacketStatus_zero (drv0\<lparr>PacketType := PACKET_TYPE_LORA\<rparr>))) \<in> {2..5}"
  using LoRa_packet_status_units [of "drv0\<lparr>PacketType := PACKET_TYPE_LORA\<rparr>" env0 PacketStatus_zero]
  by (simp add: Let_def split_beta env0_def)

end
