(* ===== verification/Radio_Fw.thy ===== *)
theory Radio_Fw
  imports Radio_Driver
begin

text \<open>
  The firmware packet layer (\<^verbatim>\<open>radio_driver_stubs/radio_fw.c\<close>, types of \<^verbatim>\<open>radio_fw.h\<close> and
  \<^verbatim>\<open>radio_ex.h\<close>): length field, CRC and whitening of FSK packets done in software, and packets
  longer than the radio's 255-byte buffer, sent and received in chunks under a timer. The static
  variables of the file extend the driver's state.
\<close>

section \<open>Configuration types\<close>

record generic_param_rx_lora_t =
  rxl_StopTimerOnPreambleDetect :: u32
  rxl_SpreadingFactor :: u32
  rxl_Bandwidth :: u32
  rxl_Coderate :: u32
  rxl_LowDatarateOptimize :: u32
  rxl_PreambleLen :: u16
  rxl_LengthMode :: u32
  rxl_MaxPayloadLength :: u8
  rxl_CrcMode :: u32
  rxl_IqInverted :: u32

record generic_param_rx_fsk_t =
  rxf_StopTimerOnPreambleDetect :: u32
  rxf_Bandwidth :: u32
  rxf_BitRate :: u32
  rxf_PreambleLen :: u32
  rxf_SyncWord :: "u8 list"
  rxf_MaxPayloadLength :: u32
  rxf_CrcPolynomial :: u16
  rxf_CrcSeed :: u16
  rxf_whiteSeed :: u16
  rxf_SyncWordLength :: u8
  rxf_PreambleMinDetect :: u32
  rxf_ModulationShaping :: u32
  rxf_AddrComp :: u32
  rxf_LengthMode :: u32
  rxf_CrcLength :: u32
  rxf_Whitening :: u32

record RxConfigGeneric_t =
  rx_fsk :: generic_param_rx_fsk_t
  rx_lora :: generic_param_rx_lora_t

record generic_param_tx_lora_t =
  txl_SpreadingFactor :: u32
  txl_Bandwidth :: u32
  txl_Coderate :: u32
  txl_LowDatarateOptimize :: u32
  txl_PreambleLen :: u16
  txl_LengthMode :: u32
  txl_CrcMode :: u32
  txl_IqInverted :: u32

record generic_param_tx_fsk_t =
  txf_BitRate :: u32
  txf_PreambleLen :: u32
  txf_SyncWord :: "u8 list"
  txf_CrcPolynomial :: u16
  txf_CrcSeed :: u16
  txf_whiteSeed :: u16
  txf_SyncWordLength :: u8
  txf_ModulationShaping :: u32
  txf_HeaderType :: u32
  txf_CrcLength :: u32
  txf_Whitening :: u32
  txf_FrequencyDeviation :: u32

text \<open>
  \<^verbatim>\<open>TxConfigGeneric_t\<close> is a union: the record holds the views the code takes of it, each read only
  for the modem it belongs to. The MSK struct is the FSK one without its last member, and the code
  relies on their common layout, so one view serves both.
\<close>

record TxConfigGeneric_t =
  tx_fsk :: generic_param_tx_fsk_t
  tx_lora :: generic_param_tx_lora_t
  tx_bpsk_BitRate :: u32

datatype ConfigGeneric_t = CONFIG_TX TxConfigGeneric_t | CONFIG_RX RxConfigGeneric_t

definition RADIO_FSK_PACKET_FIXED_LENGTH :: u32 where [simp]: "RADIO_FSK_PACKET_FIXED_LENGTH = 0x00"
definition RADIO_FSK_PACKET_VARIABLE_LENGTH :: u32 where [simp]: "RADIO_FSK_PACKET_VARIABLE_LENGTH = 0x01"
definition RADIO_FSK_PACKET_2BYTES_LENGTH :: u32 where [simp]: "RADIO_FSK_PACKET_2BYTES_LENGTH = 0x02"
definition RADIO_FSK_CRC_OFF :: u32 where [simp]: "RADIO_FSK_CRC_OFF = 0x01"
definition RADIO_FSK_CRC_2_BYTES_IBM :: u32 where [simp]: "RADIO_FSK_CRC_2_BYTES_IBM = 0xF1"
definition RADIO_FSK_CRC_2_BYTES_CCIT :: u32 where [simp]: "RADIO_FSK_CRC_2_BYTES_CCIT = 0xF2"
definition RADIO_FSK_DC_FREE_OFF :: u32 where [simp]: "RADIO_FSK_DC_FREE_OFF = 0x00"
definition RADIO_FSK_DC_IBM_WHITENING :: u32 where [simp]: "RADIO_FSK_DC_IBM_WHITENING = 0x02"

text \<open>The application's callbacks: whether each function pointer is set.\<close>

record RadioEvents_t =
  ev_TxDone :: bool
  ev_TxTimeout :: bool
  ev_RxDone :: bool
  ev_RxTimeout :: bool
  ev_RxError :: bool
  ev_CadDone :: bool

section \<open>State\<close>

text \<open>
  The members of \<^verbatim>\<open>RFWPacket\<close> (\<^verbatim>\<open>RadioFw_t\<close> with its \<^verbatim>\<open>RFwInit_t\<close>) and the two static buffers. Of a
  chunk callback the state records whether it is set, of a timer pointer the timer or null.
\<close>

record fw_state = drv_state +
  Enable :: u8
  PayloadLengthFieldSize :: u8
  CrcEnable :: u8
  CrcFieldSize :: u8
  CrcPolynomial :: u16
  CrcSeed :: u16
  CrcType :: u32
  WhiteSeed :: u16
  LongPacketMaxRxLength :: u16
  FwModem :: RadioModems_t
  FwRadioEvents :: "RadioEvents_t option"
  CrcLfsrState :: u16
  WhiteLfsrState :: u16
  PayloadLength :: u16
  LongPacketModeEnable :: u8
  LongPacketRemainingBytes :: u16
  RadioBufferOffset :: u8
  RxPayloadOffset :: u16
  RxStoreChunkCb :: bool
  TxGetNextChunkCb :: bool
  FwAntSwitchPaSelect :: u8
  BitRate :: u32
  FwRxTimeoutTimer :: timer_id
  FwTxTimeoutTimer :: timer_id
  ChunkBuffer :: "u8 list"
  RxBuffer :: "u8 list"

definition RADIO_BUF_SIZE :: nat where
  "RADIO_BUF_SIZE = 255"

definition LONGPACKET_CHUNK_LENGTH_BYTES :: u32 where
  "LONGPACKET_CHUNK_LENGTH_BYTES = 128"

text \<open>The two rounding divisions, in the \<^verbatim>\<open>uint32_t\<close> arithmetic their operands have.\<close>

definition DIVC :: "u32 \<Rightarrow> u32 \<Rightarrow> u32 result" where
  "DIVC x n = (if n = 0 then Inl DivByZero else Inr ((x + n - 1) div n))"

definition DIVR :: "u32 \<Rightarrow> u32 \<Rightarrow> u32 result" where
  "DIVR x n = (if n = 0 then Inl DivByZero else Inr ((x + drop_bit 1 n) div n))"

section \<open>Whitening and CRC\<close>

text \<open>One shift of the whitening register, and the bytes of a payload under it.\<close>

definition white_shift :: "u16 \<Rightarrow> u16" where
  "white_shift st = push_bit 8 ((drop_bit 5 st AND 1) XOR (st AND 1)) OR drop_bit 1 st"

fun white_run :: "u16 \<Rightarrow> u8 list \<Rightarrow> u8 list \<times> u16" where
  "white_run st [] = ([], st)"
| "white_run st (b # bs) =
     (let (ys, st') = white_run ((white_shift ^^ 8) st) bs in ((b XOR ucast (st AND 0xFF)) # ys, st'))"

definition RFW_WhiteSetState :: "'a fw_state_scheme \<Rightarrow> 'a fw_state_scheme" where
  "RFW_WhiteSetState s = s\<lparr>WhiteLfsrState := WhiteSeed s\<rparr>"

definition RFW_WhiteInitState :: "u16 \<Rightarrow> 'a fw_state_scheme \<Rightarrow> 'a fw_state_scheme" where
  "RFW_WhiteInitState seed s = s\<lparr>WhiteSeed := seed\<rparr>"

text \<open>\<^verbatim>\<open>RFW_WhiteRun\<close> is always called on the start of \<^verbatim>\<open>ChunkBuffer\<close>.\<close>

definition RFW_WhiteRun :: "nat \<Rightarrow> 'a fw_state_scheme \<Rightarrow> 'a fw_state_scheme result" where
  "RFW_WhiteRun Size s =
     (if Size > length (ChunkBuffer s) then Inl OutOfBounds
      else let (ys, st) = white_run (WhiteLfsrState s) (take Size (ChunkBuffer s))
           in Inr (s\<lparr>ChunkBuffer := ys @ drop Size (ChunkBuffer s), WhiteLfsrState := st\<rparr>))"

definition crc_bit :: "u16 \<Rightarrow> u16 \<times> u8 \<Rightarrow> u16 \<times> u8" where
  "crc_bit Polynomial cd =
     (let (Crc, DataByte) = cd;
          Crc = (if drop_bit 8 (Crc AND 0x8000) XOR ucast (DataByte AND 0x80) \<noteq> 0
                 then push_bit 1 Crc XOR Polynomial else push_bit 1 Crc)
      in (Crc, push_bit 1 DataByte))"

definition RFW_CrcRun1Byte :: "u16 \<Rightarrow> u8 \<Rightarrow> u16 \<Rightarrow> u16" where
  "RFW_CrcRun1Byte Crc DataByte Polynomial = fst ((crc_bit Polynomial ^^ 8) (Crc, DataByte))"

fun crc_run :: "u16 \<Rightarrow> u16 \<Rightarrow> u8 list \<Rightarrow> u16" where
  "crc_run Polynomial crc [] = crc"
| "crc_run Polynomial crc (b # bs) = crc_run Polynomial (RFW_CrcRun1Byte crc b Polynomial) bs"

definition crc_result :: "u32 \<Rightarrow> u16 \<Rightarrow> u8 list" where
  "crc_result crcType crc =
     (if crcType = RADIO_FSK_CRC_2_BYTES_IBM then [ucast (drop_bit 8 crc), ucast (crc AND 0xFF)]
      else let crc = NOT crc in [ucast (drop_bit 8 crc), ucast (crc AND 0xFF)])"

definition RFW_CrcInitState :: "u16 \<Rightarrow> u16 \<Rightarrow> u32 \<Rightarrow> 'a fw_state_scheme \<Rightarrow> 'a fw_state_scheme" where
  "RFW_CrcInitState polynomial seed crcType s =
     s\<lparr>CrcPolynomial := polynomial, CrcSeed := seed, CrcType := crcType\<rparr>"

definition RFW_CrcSetState :: "'a fw_state_scheme \<Rightarrow> 'a fw_state_scheme" where
  "RFW_CrcSetState s = s\<lparr>CrcLfsrState := CrcSeed s\<rparr>"

text \<open>\<^verbatim>\<open>RFW_CrcRun\<close> too runs on the start of \<^verbatim>\<open>ChunkBuffer\<close>; its value is the two result bytes.\<close>

definition RFW_CrcRun :: "nat \<Rightarrow> 'a fw_state_scheme \<Rightarrow> (u8 list \<times> 'a fw_state_scheme) result" where
  "RFW_CrcRun Size s =
     (if Size > length (ChunkBuffer s) then Inl OutOfBounds
      else let crc = crc_run (CrcPolynomial s) (CrcLfsrState s) (take Size (ChunkBuffer s))
           in Inr (crc_result (CrcType s) crc, s\<lparr>CrcLfsrState := crc\<rparr>))"

text \<open>Copies into \<^verbatim>\<open>ChunkBuffer\<close>, and reads of the radio's buffer into its start.\<close>

definition chunk_write :: "nat \<Rightarrow> u8 list \<Rightarrow> 'a fw_state_scheme \<Rightarrow> 'a fw_state_scheme result" where
  "chunk_write off bs s =
     bindr (copy_into off bs (ChunkBuffer s)) (\<lambda>c. Inr (s\<lparr>ChunkBuffer := c\<rparr>))"

definition chunk_read :: "env \<Rightarrow> u8 \<Rightarrow> u8 \<Rightarrow> 'a fw_state_scheme \<Rightarrow> 'a fw_state_scheme result" where
  "chunk_read X offset n s =
     (let (bs, s) = SUBGRF_ReadBuffer X offset (unat n) s in chunk_write 0 bs s)"

text \<open>The application's callbacks the file calls without testing the pointers.\<close>

definition event_RxError :: "'a fw_state_scheme \<Rightarrow> 'a fw_state_scheme result" where
  "event_RxError s = (case FwRadioEvents s of
       Some e \<Rightarrow> if ev_RxError e then Inr (ext RxError s) else Inl NullDeref
     | None \<Rightarrow> Inl NullDeref)"

definition event_RxTimeout :: "'a fw_state_scheme \<Rightarrow> 'a fw_state_scheme result" where
  "event_RxTimeout s = (case FwRadioEvents s of
       Some e \<Rightarrow> if ev_RxTimeout e then Inr (ext RxTimeoutCb s) else Inl NullDeref
     | None \<Rightarrow> Inl NullDeref)"

definition store_chunk :: "u8 list \<Rightarrow> 'a fw_state_scheme \<Rightarrow> 'a fw_state_scheme result" where
  "store_chunk bs s =
     (if RxStoreChunkCb s then Inr (ext (RxLongPacketStoreChunkCb bs) s) else Inl NullDeref)"

text \<open>The next bytes the application provides for a transmission.\<close>

definition get_next_chunk :: "env \<Rightarrow> u8 \<Rightarrow> 'a fw_state_scheme \<Rightarrow> u8 list \<times> 'a fw_state_scheme" where
  "get_next_chunk X n s =
     (map (next_chunk X (calls s) n) [0..<unat n], ext (TxLongPacketGetNextChunkCb n) s)"

section \<open>Transmission of a long packet\<close>

text \<open>The size of the first chunk and of the CRC in it.\<close>

definition first_chunk :: "u16 \<Rightarrow> u32 \<Rightarrow> u8 \<Rightarrow> u8 \<Rightarrow> u8 \<times> u8" where
  "first_chunk payload_size total_size field crcFieldSize =
     (if unat total_size > RADIO_BUF_SIZE then
        (if unat total_size < RADIO_BUF_SIZE + unat crcFieldSize
         then of_nat RADIO_BUF_SIZE - field - crcFieldSize
         else of_nat RADIO_BUF_SIZE - field, 0)
      else (ucast payload_size, crcFieldSize))"

text \<open>
  The branch of an FSK or MSK modem: building the first chunk, sending it and, when more is to
  follow, starting the timers.
\<close>

definition RFW_build_first_chunk ::
  "env \<Rightarrow> u16 \<Rightarrow> u8 \<Rightarrow> u8 \<Rightarrow> 'a fw_state_scheme \<Rightarrow> 'a fw_state_scheme result" where
  "RFW_build_first_chunk X payload_size chunk_size crc_size s =
     (let field = PayloadLengthFieldSize s;
          hdr = (if field = 1 then [ucast payload_size]
                 else [ucast (drop_bit 8 payload_size), ucast (payload_size AND 0xFF)])
      in bindr (chunk_write 0 hdr s) (\<lambda>s.
         let (app, s) = get_next_chunk X chunk_size s
         in bindr (chunk_write (unat field) app s) (\<lambda>s.
         bindr (if CrcEnable s = 1 then
                  let s = RFW_CrcSetState s
                  in bindr (RFW_CrcRun (unat field + unat chunk_size) s) (\<lambda>(crc, s).
                     chunk_write (unat field + unat chunk_size) (take (unat crc_size) crc) s)
                else Inr s) (\<lambda>s.
         RFW_WhiteRun (unat field + unat chunk_size + unat crc_size) (RFW_WhiteSetState s)))))"

definition RFW_TransmitLongPacket_fsk ::
  "env \<Rightarrow> u16 \<Rightarrow> u32 \<Rightarrow> u32 \<Rightarrow> 'a fw_state_scheme \<Rightarrow> (int \<times> 'a fw_state_scheme) result" where
  "RFW_TransmitLongPacket_fsk X payload_size total_size timeout s =
     (let s = s\<lparr>RadioBufferOffset := 0\<rparr>;
          s = s\<lparr>LongPacketModeEnable := 1\<rparr>;
          s = s\<lparr>LongPacketRemainingBytes := ucast total_size\<rparr>;
          s = s\<lparr>PayloadLength := ucast total_size\<rparr>;
          (chunk_size, crc_size) = first_chunk payload_size total_size (PayloadLengthFieldSize s) (CrcFieldSize s)
      in bindr (RFW_build_first_chunk X payload_size chunk_size crc_size s) (\<lambda>s.
         let n = unat (PayloadLengthFieldSize s) + unat chunk_size + unat crc_size;
             s = SUBGRF_WriteRegister SUBGHZ_GRTXPLDLEN (of_nat n) s;
             s = SUBGRF_WriteRegister SUBGHZ_TXADRPTR 0 s;
             s = SUBGRF_SendPayload (take n (ChunkBuffer s)) 0 s
         in if unat total_size > RADIO_BUF_SIZE then
              if BitRate s = 0 then Inl DivByZero else
              let chunk_timeout = (LONGPACKET_CHUNK_LENGTH_BYTES * 8 * 1000) div BitRate s;
                  s = ext (TimerInit RFWPacket_Timer RFW_TransmitLongPacket_NewTxChunkTimerEvent) s;
                  s = ext (TimerSetValue RFWPacket_Timer chunk_timeout) s;
                  s = ext (TimerStart RFWPacket_Timer) s;
                  (reg, s) = SUBGRF_ReadRegister X SUBGHZ_GPKTCTL1AR s;
                  s = SUBGRF_WriteRegister SUBGHZ_GPKTCTL1AR (reg OR 0x02) s;
                  s = ext (TimerSetValue (FwRxTimeoutTimer s) timeout) s;
                  s = ext (TimerStart (FwRxTimeoutTimer s)) s
              in Inr (0, s)
            else Inr (0, s)))"

text \<open>What precedes the choice of the modem.\<close>

definition RFW_TransmitLongPacket_setup :: "'a fw_state_scheme \<Rightarrow> 'a fw_state_scheme" where
  "RFW_TransmitLongPacket_setup s =
     (let s = s\<lparr>TxGetNextChunkCb := True\<rparr>;
          s = SUBGRF_SetDioIrqParams (IRQ_TX_DONE OR IRQ_RX_TX_TIMEOUT) (IRQ_TX_DONE OR IRQ_RX_TX_TIMEOUT)
                IRQ_RADIO_NONE IRQ_RADIO_NONE s;
          s = ext (Probe DBG_GPIO_RADIO_TX True) s
      in SUBGRF_SetSwitch (FwAntSwitchPaSelect s) RFSWITCH_TX s)"

definition RFW_TransmitLongPacket ::
  "env \<Rightarrow> u16 \<Rightarrow> u32 \<Rightarrow> bool \<Rightarrow> 'a fw_state_scheme \<Rightarrow> (int \<times> 'a fw_state_scheme) result" where
  "RFW_TransmitLongPacket X payload_size timeout cb s =
     (if \<not> RFW_LONGPACKET_ENABLE X then Inr (-1, s) else
      let total_size = ucast payload_size + ucast (PayloadLengthFieldSize s) + ucast (CrcFieldSize s) :: u32 in
      if \<not> cb \<or> unat payload_size > 2 ^ (8 * unat (PayloadLengthFieldSize s)) - 1 \<or>
         Enable s = 0 \<or> LL_DBGMCU_GetRevisionID X < 0x1003
      then Inr (-1, s)
      else
        let s = RFW_TransmitLongPacket_setup s
        in case FwModem s of
             MODEM_FSK \<Rightarrow>
               if Enable s = 1 then RFW_TransmitLongPacket_fsk X payload_size total_size timeout s else Inr (-1, s)
           | MODEM_MSK \<Rightarrow>
               if Enable s = 1 then RFW_TransmitLongPacket_fsk X payload_size total_size timeout s else Inr (-1, s)
           | MODEM_LORA \<Rightarrow> Inr (-2, s)
           | MODEM_BPSK \<Rightarrow> Inr (-2, s)
           | MODEM_SIGFOX_TX \<Rightarrow> Inr (-2, s)
           | MODEM_SIGFOX_RX \<Rightarrow> Inr (0, s))"

definition RFW_TransmitLongPacket_TxChunkProcess ::
  "env \<Rightarrow> 'a fw_state_scheme \<Rightarrow> 'a fw_state_scheme result" where
  "RFW_TransmitLongPacket_TxChunkProcess X s =
     (let (read_ptr, s) = SUBGRF_ReadRegister X SUBGHZ_TXADRPTR s;
          (write_ptr, s) = SUBGRF_ReadRegister X SUBGHZ_GRTXPLDLEN s;
          bytes_sent = read_ptr - RadioBufferOffset s;
          bytes_loaded = write_ptr - read_ptr;
          s = s\<lparr>RadioBufferOffset := RadioBufferOffset s + bytes_sent\<rparr>;
          s = s\<lparr>LongPacketRemainingBytes := LongPacketRemainingBytes s - ucast bytes_sent\<rparr>
      in bindr
           (if LongPacketRemainingBytes s > 256 then
              let chunk_size = (if unat (LongPacketRemainingBytes s) > 256 + unat (CrcFieldSize s)
                                then bytes_sent else bytes_sent - CrcFieldSize s)
              in bindr (DIVR (ucast chunk_size * 8 * 1000) (BitRate s)) (\<lambda>timeout.
                 let s = ext (TimerSetValue RFWPacket_Timer timeout) s;
                     s = ext (TimerStart RFWPacket_Timer) s
                 in Inr ((chunk_size, 0 :: u8), s))
            else
              let chunk_size = (if LongPacketRemainingBytes s > ucast bytes_loaded
                                then ucast (LongPacketRemainingBytes s - ucast bytes_loaded)
                                else CrcFieldSize s);
                  s' = s\<lparr>LongPacketRemainingBytes := 0\<rparr>
              in Inr ((chunk_size, CrcFieldSize s), s')) (\<lambda>((chunk_size, crc_size), s).
         if \<not> TxGetNextChunkCb s then Inl NullDeref else
         let (app, s) = get_next_chunk X (chunk_size - crc_size) s
         in if chunk_size < crc_size then Inl OutOfBounds else
            bindr (chunk_write 0 app s) (\<lambda>s.
            bindr (if CrcEnable s = 1 then
                     bindr (RFW_CrcRun (unat chunk_size - unat crc_size) s) (\<lambda>(crc, s).
                       chunk_write (unat chunk_size - unat crc_size) (take (unat crc_size) crc) s)
                   else Inr s) (\<lambda>s.
            bindr (RFW_WhiteRun (unat chunk_size) s) (\<lambda>s.
              let s = SUBGRF_WriteBuffer write_ptr (take (unat chunk_size) (ChunkBuffer s)) s
              in Inr (SUBGRF_WriteRegister SUBGHZ_GRTXPLDLEN (chunk_size + write_ptr) s))))))"

definition RFW_TransmitLongPacket_NewTxChunkTimerEvent_fn ::
  "env \<Rightarrow> 'a fw_state_scheme \<Rightarrow> 'a fw_state_scheme result" where
  "RFW_TransmitLongPacket_NewTxChunkTimerEvent_fn X s = RFW_TransmitLongPacket_TxChunkProcess X s"

definition RFW_DeInit_TxLongPacket :: "env \<Rightarrow> 'a fw_state_scheme \<Rightarrow> 'a fw_state_scheme" where
  "RFW_DeInit_TxLongPacket X s =
     (if RFW_LONGPACKET_ENABLE X then
        let (reg, s) = SUBGRF_ReadRegister X SUBGHZ_GPKTCTL1AR s;
            s = SUBGRF_WriteRegister SUBGHZ_GPKTCTL1AR (reg AND NOT 0x02) s
        in SUBGRF_WriteRegister SUBGHZ_GRTXPLDLEN 0xFF s
      else s)"

section \<open>Setting up\<close>

definition RFW_Init ::
  "env \<Rightarrow> ConfigGeneric_t \<Rightarrow> RadioEvents_t option \<Rightarrow> timer_id \<Rightarrow> 'a fw_state_scheme \<Rightarrow> int \<times> 'a fw_state_scheme" where
  "RFW_Init X config events timer s =
     (if \<not> RFW_ENABLE X then (-1, s) else
      let (HeaderType, RxMaxPayloadLength, CrcLength, whiteSeed, crcPolynomial, crcSeed, s) =
        (case config of
           CONFIG_TX c \<Rightarrow>
             (let f = tx_fsk c
              in (txf_HeaderType f, 0, txf_CrcLength f, txf_whiteSeed f, txf_CrcPolynomial f, txf_CrcSeed f,
                  s\<lparr>BitRate := txf_BitRate f, FwTxTimeoutTimer := timer\<rparr>))
         | CONFIG_RX c \<Rightarrow>
             (let f = rx_fsk c
              in (rxf_LengthMode f, rxf_MaxPayloadLength f, rxf_CrcLength f, rxf_whiteSeed f,
                  rxf_CrcPolynomial f, rxf_CrcSeed f,
                  s\<lparr>BitRate := rxf_BitRate f, FwRxTimeoutTimer := timer\<rparr>)))
      in case events of
           None \<Rightarrow> (-1, s)
         | Some e \<Rightarrow>
             if \<not> ev_RxError e then (-1, s) else
             let s = s\<lparr>FwRadioEvents := events\<rparr>
             in if HeaderType = RADIO_FSK_PACKET_2BYTES_LENGTH \<and> \<not> RFW_LONGPACKET_ENABLE X then (-1, s) else
                let s = s\<lparr>PayloadLengthFieldSize :=
                            (if HeaderType = RADIO_FSK_PACKET_2BYTES_LENGTH then 2 else 1)\<rparr>;
                    s = s\<lparr>LongPacketMaxRxLength := ucast RxMaxPayloadLength\<rparr>;
                    s = (if CrcLength = RADIO_FSK_CRC_OFF then s\<lparr>CrcEnable := 0, CrcFieldSize := 0\<rparr>
                         else s\<lparr>CrcEnable := 1, CrcFieldSize := 2\<rparr>);
                    s = RFW_WhiteInitState whiteSeed s;
                    s = RFW_CrcInitState crcPolynomial crcSeed CrcLength s;
                    s = s\<lparr>Enable := 1\<rparr>;
                    s = ext (TimerInit RFWPacket_Timer RFW_GetPayloadTimerEvent) s
                in (0, s))"

definition RFW_DeInit :: "env \<Rightarrow> 'a fw_state_scheme \<Rightarrow> 'a fw_state_scheme" where
  "RFW_DeInit X s = (if RFW_ENABLE X then s\<lparr>Enable := 0\<rparr> else s)"

definition RFW_Is_Init :: "env \<Rightarrow> 'a fw_state_scheme \<Rightarrow> u8" where
  "RFW_Is_Init X s = (if RFW_ENABLE X then Enable s else 0)"

definition RFW_Is_LongPacketModeEnabled :: "env \<Rightarrow> 'a fw_state_scheme \<Rightarrow> u8" where
  "RFW_Is_LongPacketModeEnabled X s = (if RFW_ENABLE X then LongPacketModeEnable s else 0)"

definition RFW_SetAntSwitch :: "env \<Rightarrow> u8 \<Rightarrow> 'a fw_state_scheme \<Rightarrow> 'a fw_state_scheme" where
  "RFW_SetAntSwitch X AntSwitch s = (if RFW_ENABLE X then s\<lparr>FwAntSwitchPaSelect := AntSwitch\<rparr> else s)"

definition RFW_SetRadioModem :: "env \<Rightarrow> RadioModems_t \<Rightarrow> 'a fw_state_scheme \<Rightarrow> 'a fw_state_scheme" where
  "RFW_SetRadioModem X Modem s = (if RFW_ENABLE X then s\<lparr>FwModem := Modem\<rparr> else s)"

section \<open>Short packets\<close>

text \<open>
  \<open>inOutBuffer\<close> is the caller's whole buffer, of which the first \<open>sz\<close> bytes are the payload, and
  \<open>outSize\<close> what the caller's variable for the size of the frame holds. The value is the status and the
  contents of the two afterwards. The frame is copied back over the payload and is longer than it: a
  buffer with no room for the length field and the CRC is overrun.
\<close>

definition RFW_TransmitInit ::
  "env \<Rightarrow> u8 list \<Rightarrow> u8 \<Rightarrow> u8 \<Rightarrow> 'a fw_state_scheme \<Rightarrow>
     ((int \<times> u8 list \<times> u8) \<times> 'a fw_state_scheme) result" where
  "RFW_TransmitInit X inOutBuffer sz outSize s =
     (if \<not> RFW_ENABLE X then Inr ((-1, inOutBuffer, outSize), s) else
      let len = unat sz; field = unat (PayloadLengthFieldSize s); crcf = unat (CrcFieldSize s)
      in if len + field + crcf > RADIO_BUF_SIZE then Inr ((-1, inOutBuffer, outSize), s) else
         bindr (read_bytes len inOutBuffer) (\<lambda>payload.
         bindr (chunk_write field payload s) (\<lambda>s.
         bindr (chunk_write 0 (if PayloadLengthFieldSize s = 1 then [sz] else [0, sz]) s) (\<lambda>s.
         bindr (if CrcEnable s = 1 then
                  let s = RFW_CrcSetState s
                  in bindr (RFW_CrcRun (len + field) s) (\<lambda>(crc, s). chunk_write (len + field) (take crcf crc) s)
                else Inr s) (\<lambda>s.
         let s = RFW_WhiteSetState s
         in bindr (RFW_WhiteRun (len + field + crcf) s) (\<lambda>s.
            let outSize = sz + PayloadLengthFieldSize s + CrcFieldSize s
            in bindr (copy_into 0 (take (unat outSize) (ChunkBuffer s)) inOutBuffer) (\<lambda>inOutBuffer.
               let s = s\<lparr>LongPacketModeEnable := 0\<rparr>
               in Inr ((0, inOutBuffer, outSize), s))))))))"

definition RFW_ReceiveInit :: "env \<Rightarrow> 'a fw_state_scheme \<Rightarrow> int \<times> 'a fw_state_scheme" where
  "RFW_ReceiveInit X s =
     (if \<not> RFW_ENABLE X then (-1, s) else
      let s = SUBGRF_SetDioIrqParams (IRQ_RADIO_ALL AND NOT IRQ_RX_DONE) (IRQ_RADIO_ALL AND NOT IRQ_RX_DONE)
                IRQ_RADIO_NONE IRQ_RADIO_NONE s;
          s = RFW_WhiteSetState s;
          s = RFW_CrcSetState s;
          s = s\<lparr>RxPayloadOffset := 0\<rparr>
      in (0, s\<lparr>LongPacketModeEnable := 0\<rparr>))"

definition RFW_ReceiveLongPacket ::
  "env \<Rightarrow> u8 \<Rightarrow> u32 \<Rightarrow> bool \<Rightarrow> 'a fw_state_scheme \<Rightarrow> int \<times> 'a fw_state_scheme" where
  "RFW_ReceiveLongPacket X boosted_mode timeout cb s =
     (if \<not> RFW_LONGPACKET_ENABLE X then (-1, s) else
      if \<not> cb \<or> Enable s = 0 then (-1, s) else
      let s = s\<lparr>RxStoreChunkCb := True\<rparr>;
          s = SUBGRF_SetDioIrqParams (IRQ_SYNCWORD_VALID OR IRQ_RX_TX_TIMEOUT)
                (IRQ_SYNCWORD_VALID OR IRQ_RX_TX_TIMEOUT) IRQ_RADIO_NONE IRQ_RADIO_NONE s;
          s = SUBGRF_SetSwitch (FwAntSwitchPaSelect s) RFSWITCH_RX s;
          s = s\<lparr>RadioBufferOffset := 0\<rparr>;
          s = RFW_WhiteSetState s;
          s = RFW_CrcSetState s;
          s = SUBGRF_WriteRegister SUBGHZ_GRTXPLDLEN 255 s;
          s = SUBGRF_WriteRegister SUBGHZ_RXADRPTR 0 s;
          s = s\<lparr>LongPacketModeEnable := 1\<rparr>;
          s = (if timeout \<noteq> 0 then
                 let s = ext (TimerSetValue (FwRxTimeoutTimer s) timeout) s
                 in ext (TimerStart (FwRxTimeoutTimer s)) s
               else s);
          s = ext (Probe DBG_GPIO_RADIO_RX True) s;
          s = (if boosted_mode = 1 then SUBGRF_SetRxBoosted 0xFFFFFF s else SUBGRF_SetRx 0xFFFFFF s)
      in (0, s))"

section \<open>Reception\<close>

text \<open>
  The loop of \<^verbatim>\<open>RFW_PollRxBytes\<close>: it reads the receive pointer until it moved by \<open>bytes\<close> or the
  time is over. The difference of the two pointers is an \<^verbatim>\<open>int\<close> compared with a \<^verbatim>\<open>uint32_t\<close>, so it
  is taken modulo 2^32. A loop that never ends has the value \<open>None\<close>.
\<close>

partial_function (option) poll_loop ::
  "env \<Rightarrow> u32 \<Rightarrow> u32 \<Rightarrow> u32 \<Rightarrow> u8 \<Rightarrow> u8 \<Rightarrow> 'a fw_state_scheme \<Rightarrow> (int \<times> 'a fw_state_scheme) option" where
  "poll_loop X now timeout bytes reg_buff_ptr_ref reg_buff_ptr s =
     (if (ucast reg_buff_ptr - ucast reg_buff_ptr_ref :: u32) < bytes then
        (if TimerGetElapsedTime X (calls (snd (SUBGRF_ReadRegister X SUBGHZ_RXADRPTR s))) now > timeout
         then Some (-1, snd (SUBGRF_ReadRegister X SUBGHZ_RXADRPTR s))
         else poll_loop X now timeout bytes reg_buff_ptr_ref (fst (SUBGRF_ReadRegister X SUBGHZ_RXADRPTR s))
                (snd (SUBGRF_ReadRegister X SUBGHZ_RXADRPTR s)))
      else Some (0, s))"

definition RFW_PollRxBytes :: "env \<Rightarrow> u32 \<Rightarrow> 'a fw_state_scheme \<Rightarrow> (int \<times> 'a fw_state_scheme) result" where
  "RFW_PollRxBytes X bytes s =
     (let now = TimerGetCurrentTime X (calls s);
          (reg_buff_ptr_ref, s) = SUBGRF_ReadRegister X SUBGHZ_RXADRPTR s
      in bindr (DIVC (bytes * 8 * 1000) (BitRate s)) (\<lambda>timeout.
         case poll_loop X now timeout bytes reg_buff_ptr_ref reg_buff_ptr_ref s of
           None \<Rightarrow> Inl Diverges
         | Some r \<Rightarrow> Inr r))"

definition RFW_GetPacketLength :: "env \<Rightarrow> 'a fw_state_scheme \<Rightarrow> ((int \<times> u16) \<times> 'a fw_state_scheme) result" where
  "RFW_GetPacketLength X s =
     bindr (RFW_PollRxBytes X (ucast (PayloadLengthFieldSize s)) s) (\<lambda>(r, s).
     if r \<noteq> 0 then Inr ((-1, 0), s) else
     bindr (chunk_read X 0 (PayloadLengthFieldSize s) s) (\<lambda>s.
     bindr (RFW_WhiteRun (unat (PayloadLengthFieldSize s)) s) (\<lambda>s.
     bindr (if CrcEnable s = 1 then
              bindr (RFW_CrcRun (unat (PayloadLengthFieldSize s)) s) (\<lambda>(crc_dummy, s). Inr s)
            else Inr s) (\<lambda>s.
     let len = (if PayloadLengthFieldSize s = 1 then ucast (ChunkBuffer s ! 0)
                else push_bit 8 (ucast (ChunkBuffer s ! 0)) OR ucast (ChunkBuffer s ! 1))
     in Inr ((0, len), s)))))"

definition RFW_ReceivePayload :: "env \<Rightarrow> 'a fw_state_scheme \<Rightarrow> 'a fw_state_scheme result" where
  "RFW_ReceivePayload X s =
     (if \<not> RFW_ENABLE X then Inr s else
      bindr (RFW_GetPacketLength X s) (\<lambda>((r, len), s).
      if r = 0 then
        let packet_length = ucast len + ucast (CrcFieldSize s) :: u32;
            s = s\<lparr>PayloadLength := len\<rparr>;
            s = s\<lparr>LongPacketRemainingBytes := ucast packet_length\<rparr>;
            s = s\<lparr>RadioBufferOffset := PayloadLengthFieldSize s\<rparr>
        in if len > LongPacketMaxRxLength s then event_RxError (SUBGRF_SetStandby STDBY_RC s)
           else
             bindr (if packet_length < LONGPACKET_CHUNK_LENGTH_BYTES then
                      bindr (DIVC (packet_length * 8 * 1000) (BitRate s)) (\<lambda>t. Inr (t + 2))
                    else if packet_length < 3 * LONGPACKET_CHUNK_LENGTH_BYTES div 2 then
                      DIVR ((packet_length * 8 * 1000) div 2) (BitRate s)
                    else DIVR (LONGPACKET_CHUNK_LENGTH_BYTES * 8 * 1000) (BitRate s)) (\<lambda>timeout.
             let s = ext (TimerSetValue RFWPacket_Timer timeout) s
             in Inr (ext (TimerStart RFWPacket_Timer) s))
      else event_RxTimeout (SUBGRF_SetStandby STDBY_RC s)))"

text \<open>
  \<^verbatim>\<open>RFW_GetPayload\<close> in two parts. The first reads the last chunk, removes the whitening, runs the CRC
  and delivers the data; its value tells whether the packet was kept and whether its CRC matches.
  The comparison with the two last bytes comes first in the source's condition, so with a length
  below two it reads before the start of \<^verbatim>\<open>ChunkBuffer\<close> even when the CRC is off.
\<close>

definition RFW_GetPayload_data ::
  "env \<Rightarrow> u8 \<Rightarrow> u8 \<Rightarrow> 'a fw_state_scheme \<Rightarrow> ((bool \<times> u8 list) \<times> 'a fw_state_scheme) result" where
  "RFW_GetPayload_data X Offset Length s =
     (let s = SUBGRF_SetStandby STDBY_RC s
      in bindr (chunk_read X Offset Length s) (\<lambda>s.
         bindr (RFW_WhiteRun (unat Length) s) (\<lambda>s.
         if Length < CrcFieldSize s then Inl OutOfBounds else
         let n = unat Length - unat (CrcFieldSize s)
         in bindr (if CrcEnable s = 1 then RFW_CrcRun n s else Inr (uninit X 2 s, s)) (\<lambda>(crc, s).
            if LongPacketModeEnable s = 1 then
              bindr (store_chunk (take n (ChunkBuffer s)) s) (\<lambda>s. Inr ((True, crc), s))
            else if unat (RxPayloadOffset s) + n < RADIO_BUF_SIZE then
              bindr (copy_into (unat (RxPayloadOffset s)) (take n (ChunkBuffer s)) (RxBuffer s)) (\<lambda>rx.
                Inr ((True, crc), s\<lparr>RxBuffer := rx, RxPayloadOffset := RxPayloadOffset s + of_nat n\<rparr>))
            else Inr ((False, crc), s)))))"

definition crc_check :: "u8 \<Rightarrow> u8 list \<Rightarrow> 'a fw_state_scheme \<Rightarrow> bool result" where
  "crc_check Length crc s =
     (if unat Length < 2 then Inl OutOfBounds
      else Inr (crc ! 0 = ChunkBuffer s ! (unat Length - 2) \<and> crc ! 1 = ChunkBuffer s ! (unat Length - 1) \<or>
                CrcEnable s = 0))"

definition event_RxDone :: "int \<Rightarrow> int \<Rightarrow> 'a fw_state_scheme \<Rightarrow> 'a fw_state_scheme result" where
  "event_RxDone rssi cfo s = (case FwRadioEvents s of
       Some e \<Rightarrow> if ev_RxDone e
         then Inr (ext (RxDone (take (unat (RxPayloadOffset s)) (RxBuffer s)) (RxPayloadOffset s) rssi
                      (to_i8 (cdiv (cfo + 500) 1000))) s)
         else Inl NullDeref
     | None \<Rightarrow> Inl NullDeref)"

definition RFW_GetPayload :: "env \<Rightarrow> u8 \<Rightarrow> u8 \<Rightarrow> 'a fw_state_scheme \<Rightarrow> 'a fw_state_scheme result" where
  "RFW_GetPayload X Offset Length s =
     bindr (RFW_GetPayload_data X Offset Length s) (\<lambda>((kept, crc), s).
     if \<not> kept then event_RxError s else
     let s = ext (TimerStop (FwRxTimeoutTimer s)) s
     in bindr (crc_check Length crc s) (\<lambda>ok.
        bindr (if ok then
                 let (rssi_sync, s) = SUBGRF_ReadRegister X 0x06CA s
                 in bindr (SUBGRF_GetCFO (BitRate s)) (\<lambda>cfo.
                    event_RxDone (- uint (drop_bit 1 rssi_sync)) cfo s)
               else event_RxError s) (\<lambda>s.
        Inr (ext (Probe DBG_GPIO_RADIO_RX False) s))))"

text \<open>
  \<^verbatim>\<open>RFW_GetPayloadProcess\<close> in three parts. Where an intermediate chunk goes:
  \<^verbatim>\<open>RFWPacket.RxPayloadOffset += size < RADIO_BUF_SIZE\<close> adds the truth value of the comparison, since
  \<^verbatim>\<open><\<close> binds tighter than \<^verbatim>\<open>+=\<close>; the condition is that the sum is not zero. The value is whether the
  function goes on.
\<close>

definition RFW_store_intermediate :: "u8 \<Rightarrow> 'a fw_state_scheme \<Rightarrow> (bool \<times> 'a fw_state_scheme) result" where
  "RFW_store_intermediate sz s =
     (if LongPacketModeEnable s = 1 then
        bindr (store_chunk (take (unat sz) (ChunkBuffer s)) s) (\<lambda>s. Inr (True, s))
      else
        let s = s\<lparr>RxPayloadOffset := RxPayloadOffset s + (if unat sz < RADIO_BUF_SIZE then 1 else 0)\<rparr>
        in if RxPayloadOffset s \<noteq> 0 then
             bindr (copy_into (unat (RxPayloadOffset s)) (take (unat sz) (ChunkBuffer s)) (RxBuffer s)) (\<lambda>rx.
               Inr (True, s\<lparr>RxBuffer := rx, RxPayloadOffset := RxPayloadOffset s + ucast sz\<rparr>))
           else
             bindr (event_RxError (SUBGRF_SetStandby STDBY_RC s)) (\<lambda>s. Inr (False, s)))"

text \<open>When the next chunk is due.\<close>

definition RFW_next_timeout :: "u16 \<Rightarrow> u32 \<Rightarrow> u32 result" where
  "RFW_next_timeout remainingBytes bitRate =
     (let remaining = ucast remainingBytes :: u32
      in if remaining < LONGPACKET_CHUNK_LENGTH_BYTES then
           bindr (DIVC (remaining * 8 * 1000) bitRate) (\<lambda>t. Inr (t + 2))
         else if remaining < (3 * LONGPACKET_CHUNK_LENGTH_BYTES) div 2 then
           DIVR ((remaining div 2) * 8 * 1000) bitRate
         else DIVR (LONGPACKET_CHUNK_LENGTH_BYTES * 8 * 1000) bitRate)"

text \<open>An intermediate chunk: read it, remove the whitening, run the CRC, store it, set the timer.\<close>

definition RFW_intermediate_chunk ::
  "env \<Rightarrow> u8 \<Rightarrow> u8 \<Rightarrow> 'a fw_state_scheme \<Rightarrow> 'a fw_state_scheme result" where
  "RFW_intermediate_chunk X read_ptr sz s =
     (let s = s\<lparr>LongPacketRemainingBytes := LongPacketRemainingBytes s - ucast sz\<rparr>;
          s = SUBGRF_WriteRegister SUBGHZ_GRTXPLDLEN (read_ptr - 1) s
      in bindr (chunk_read X (RadioBufferOffset s) sz s) (\<lambda>s.
         let s = s\<lparr>RadioBufferOffset := RadioBufferOffset s + sz\<rparr>
         in bindr (RFW_WhiteRun (unat sz) s) (\<lambda>s.
            bindr (if CrcEnable s = 1 then bindr (RFW_CrcRun (unat sz) s) (\<lambda>(crc_dummy, s). Inr s)
                   else Inr s) (\<lambda>s.
            bindr (RFW_store_intermediate sz s) (\<lambda>(continue, s).
            if \<not> continue then Inr s else
            bindr (RFW_next_timeout (LongPacketRemainingBytes s) (BitRate s)) (\<lambda>Timeout.
            let s = ext (TimerSetValue RFWPacket_Timer Timeout) s
            in Inr (ext (TimerStart RFWPacket_Timer) s)))))))"

definition RFW_GetPayloadProcess :: "env \<Rightarrow> 'a fw_state_scheme \<Rightarrow> 'a fw_state_scheme result" where
  "RFW_GetPayloadProcess X s =
     (let (read_ptr, s) = SUBGRF_ReadRegister X SUBGHZ_RXADRPTR s;
          sz = read_ptr - RadioBufferOffset s
      in if LongPacketRemainingBytes s > ucast sz then RFW_intermediate_chunk X read_ptr sz s
         else
           let s = (if LongPacketRemainingBytes s < ucast (CrcFieldSize s)
                    then s\<lparr>LongPacketRemainingBytes := ucast (CrcFieldSize s)\<rparr> else s);
               last_size = ucast (LongPacketRemainingBytes s);
               s = s\<lparr>LongPacketRemainingBytes := 0\<rparr>
           in RFW_GetPayload X (RadioBufferOffset s) last_size s)"

definition RFW_GetPayloadTimerEvent_fn :: "env \<Rightarrow> 'a fw_state_scheme \<Rightarrow> 'a fw_state_scheme result" where
  "RFW_GetPayloadTimerEvent_fn X s = RFW_GetPayloadProcess X s"

section \<open>The whitening as a stream\<close>

text \<open>The whitening bytes depend on the state only, so applying them twice gives the data back.\<close>

lemma white_run_append:
  "white_run st (xs @ ys) =
     (let (us, st1) = white_run st xs; (vs, st2) = white_run st1 ys in (us @ vs, st2))"
  by (induction xs arbitrary: st) (auto simp: Let_def split: prod.split)

interpretation white: chunked white_run
  by unfold_locales (simp_all add: white_run_append)

lemma length_white_run [simp]: "length (fst (white_run st xs)) = length xs"
  by (induction xs arbitrary: st) (auto simp: split_beta)

lemma snd_white_run: "snd (white_run st xs) = (white_shift ^^ (8 * length xs)) st"
proof (induction xs arbitrary: st)
  case (Cons x xs)
  then show ?case by (simp add: split_beta funpow_add add.commute [of 8] flip: funpow_mult)
qed simp

lemma white_run_twice: "white_run st (fst (white_run st xs)) = (xs, snd (white_run st xs))"
  by (induction xs arbitrary: st) (auto simp: split_beta)

lemma white_run_eq: "white_run st xs = (fst (white_run st xs), (white_shift ^^ (8 * length xs)) st)"
  by (simp add: prod_eq_iff snd_white_run)

text \<open>
  The whitening sequence by itself: the seed's nine bits, and from then on every bit the exclusive or
  of the bits nine and four places before it.
\<close>

fun white_bit :: "u16 \<Rightarrow> nat \<Rightarrow> bool" where
  "white_bit seed n = (if n < 9 then bit seed n else white_bit seed (n - 9) \<noteq> white_bit seed (n - 4))"

declare white_bit.simps [simp del]

lemma white_shift_bit:
  assumes "\<And>j. 9 \<le> j \<Longrightarrow> \<not> bit st j"
  shows "bit (white_shift st) j = (if j = 8 then bit st 0 \<noteq> bit st 5 else bit st (Suc j))"
proof -
  have "bit (256 :: u16) j = (j = 8)" using bit_exp_iff [of 8 j, where 'a = u16] by auto
  then show ?thesis
    using assms [of 9] assms [of "Suc j"] by (auto simp: white_shift_def bit_simps bit_1_iff dest: bit_imp_le_length)
qed

lemma white_state_bits:
  assumes "unat seed < 2 ^ 9"
  shows "bit ((white_shift ^^ n) seed) j = (j < 9 \<and> white_bit seed (n + j))"
proof (induction n arbitrary: j)
  case 0
  have "\<not> bit seed j" if "9 \<le> j"
  proof -
    have "unat (take_bit 9 seed) = unat seed"
      using assms by (simp add: unsigned_take_bit_eq take_bit_nat_eq_self)
    then have "take_bit 9 seed = seed" by (simp only: word_unat_eq_iff)
    with that show ?thesis by (metis bit_take_bit_iff not_le)
  qed
  then show ?case by (auto simp: white_bit.simps)
next
  case (Suc n)
  have "bit (white_shift ((white_shift ^^ n) seed)) j =
      (if j = 8 then white_bit seed n \<noteq> white_bit seed (n + 5) else Suc j < 9 \<and> white_bit seed (n + Suc j))"
    using white_shift_bit [of "(white_shift ^^ n) seed" j] Suc by simp
  moreover have "white_bit seed (9 + n) = (white_bit seed n \<noteq> white_bit seed (n + 5))"
    by (subst white_bit.simps) (simp add: add.commute)
  ultimately show ?case by (cases "j = 8") (auto simp: less_Suc_eq)
qed

lemma nth_white_run:
  "i < length xs \<Longrightarrow> fst (white_run st xs) ! i = xs ! i XOR ucast ((white_shift ^^ (8 * i)) st AND 0xFF)"
proof (induction xs arbitrary: st i)
  case (Cons x xs)
  show ?case
  proof (cases i)
    case 0
    then show ?thesis by (simp add: split_beta)
  next
    case (Suc k)
    have "(white_shift ^^ (8 * k)) ((white_shift ^^ 8) st) = (white_shift ^^ (8 * Suc k)) st"
      using funpow_add [of "8 * k" 8 white_shift] by (simp add: add.commute)
    with Cons.IH [of k "(white_shift ^^ 8) st"] Cons.prems Suc show ?thesis by (simp add: split_beta)
  qed
qed simp

lemma white_run_bits:
  assumes "unat seed < 2 ^ 9" "i < length xs" "j < 8"
  shows "bit (fst (white_run seed xs) ! i) j = (bit (xs ! i) j \<noteq> white_bit seed (8 * i + j))"
proof -
  have "bit (0xFF :: u16) j" using assms(3) mask_eq_exp_minus_1 [of 8, where 'a = u16] bit_mask_iff [of 8 j, where 'a = u16] by simp
  then show ?thesis
    using assms by (simp add: nth_white_run bit_simps white_state_bits)
qed

section \<open>The CRC as a linear map\<close>

text \<open>
  One shift of the CRC register with no data is linear over exclusive or; a byte of data enters at
  the top of the register, and sixteen bits of data are the register plus the data, shifted sixteen
  times. With an odd polynomial a shift loses nothing, so the CRC tells any two such data apart.
\<close>

definition crc_shift :: "u16 \<Rightarrow> u16 \<Rightarrow> u16" where
  "crc_shift p c = push_bit 1 c XOR (if bit c 15 then p else 0)"

lemma crc_shift_xor: "crc_shift p (a XOR b) = crc_shift p a XOR crc_shift p b"
  by (rule bit_word_eqI) (auto simp: crc_shift_def bit_simps)

lemma crc_shifts_xor: "(crc_shift p ^^ n) (a XOR b) = (crc_shift p ^^ n) a XOR (crc_shift p ^^ n) b"
  by (induction n) (simp_all add: crc_shift_xor)

lemma bit_crc_shift:
  "bit (crc_shift p c) n \<longleftrightarrow> n < 16 \<and> (0 < n \<and> bit c (n - 1)) \<noteq> (bit c 15 \<and> bit p n)"
  unfolding crc_shift_def by (auto simp only: bit_simps split: if_split)
    (auto simp: dest: bit_imp_le_length)

lemma crc_shift_zero:
  assumes "bit p 0" "crc_shift p c = 0"
  shows "c = 0"
proof (rule bit_word_eqI)
  fix n assume n: "n < LENGTH(16)"
  have z: "\<not> bit (crc_shift p c) m" for m by (simp add: assms(2))
  have "\<not> bit c 15" using z [of 0] assms(1) by (simp add: bit_crc_shift)
  with z [of "Suc n"] n show "bit c n = bit 0 n"
    by (cases "n = 15") (auto simp: bit_crc_shift)
qed

lemma crc_shifts_zero: "bit p 0 \<Longrightarrow> (crc_shift p ^^ n) c = 0 \<Longrightarrow> c = 0"
  by (induction n arbitrary: c) (auto dest: crc_shift_zero)

lemma crc_shifts_inj: "bit p 0 \<Longrightarrow> (crc_shift p ^^ n) a = (crc_shift p ^^ n) b \<Longrightarrow> a = b"
  using crc_shifts_zero [of p n "a XOR b"] by (simp add: crc_shifts_xor)

lemma bit_0x8000: "bit (0x8000 :: u16) n \<longleftrightarrow> n = 15"
  using bit_push_bit_iff [of 15 "1 :: u16" n] by (auto simp: bit_1_iff)

lemma bit_0x80: "bit (0x80 :: u8) n \<longleftrightarrow> n = 7"
  using bit_push_bit_iff [of 7 "1 :: u8" n] by (auto simp: bit_1_iff)

lemma crc_bit_shift:
  "crc_bit p (c, d) = (crc_shift p (c XOR push_bit 8 (ucast d)) XOR push_bit 9 (ucast d), push_bit 1 d)"
proof -
  have "bit (drop_bit 8 (c AND 0x8000) XOR (ucast (d AND 0x80) :: u16)) n \<longleftrightarrow>
      n = 7 \<and> (bit c 15 \<noteq> bit d 7)" for n
    by (auto simp only: bit_xor_iff bit_drop_bit_eq comp_def bit_and_iff bit_unsigned_iff bit_0x8000 bit_0x80)
      (auto dest: bit_imp_le_length)
  then have cond: "drop_bit 8 (c AND 0x8000) XOR (ucast (d AND 0x80) :: u16) \<noteq> 0 \<longleftrightarrow>
      (bit c 15 \<noteq> bit d 7)"
    by (metis bit_eq_iff bit_0_eq bot_apply bot_bool_def)
  have "push_bit 1 c = push_bit 1 (c XOR push_bit 8 (ucast d)) XOR push_bit 9 (ucast d)"
    by (rule bit_word_eqI) (auto simp: bit_simps)
  moreover have "bit (c XOR push_bit 8 (ucast d)) 15 \<longleftrightarrow> bit c 15 \<noteq> bit d 7"
    by (simp add: bit_simps)
  ultimately show ?thesis
    by (simp only: crc_bit_def crc_shift_def Let_def prod.case cond if_distrib)
      (simp add: xor.assoc xor.commute xor.left_commute)
qed

lemma push_ucast_byte:
  "push_bit 9 (ucast (d :: u8) :: u16) = push_bit 8 (ucast (push_bit 1 d))"
  by (rule bit_word_eqI) (auto simp: bit_push_bit_iff bit_unsigned_iff simp del: push_bit_Suc)

lemma crc_bits_shift:
  "(crc_bit p ^^ n) (c, d) =
     ((crc_shift p ^^ n) (c XOR push_bit 8 (ucast d)) XOR push_bit 8 (ucast (push_bit n d)), push_bit n d)"
proof (induction n)
  case 0
  show ?case by simp
next
  case (Suc n)
  have "push_bit 1 (push_bit n d) = push_bit (Suc n) d" by (simp add: push_bit_push_bit)
  then show ?case
    by (simp only: funpow.simps comp_def Suc crc_bit_shift xor_twice push_ucast_byte)
qed

lemma CrcRun1Byte_shift: "RFW_CrcRun1Byte c d p = (crc_shift p ^^ 8) (c XOR push_bit 8 (ucast d))"
proof -
  have "push_bit 8 d = 0" by (rule bit_word_eqI) (simp add: bit_push_bit_iff)
  then show ?thesis by (simp only: RFW_CrcRun1Byte_def crc_bits_shift) simp
qed

lemma crc_shifts_byte: "n \<le> 8 \<Longrightarrow> (crc_shift p ^^ n) (ucast (d :: u8)) = push_bit n (ucast d)"
proof (induction n)
  case 0
  show ?case by simp
next
  case (Suc n)
  then have "\<not> bit (push_bit n (ucast d) :: u16) 15"
    by (auto simp: bit_push_bit_iff bit_unsigned_iff dest: bit_imp_le_length)
  with Suc show ?case by (simp add: crc_shift_def push_bit_push_bit del: push_bit_Suc)
qed

lemma crc_two_bytes:
  "RFW_CrcRun1Byte (RFW_CrcRun1Byte c a p) b p = (crc_shift p ^^ 16) (c XOR join16 a b)"
proof -
  have "push_bit 8 (ucast b) = (crc_shift p ^^ 8) (ucast b)" by (simp only: crc_shifts_byte order_refl)
  moreover have "join16 a b = push_bit 8 (ucast a) XOR ucast b"
    by (rule bit_word_eqI)
      (auto simp: join16_def bit_or_iff bit_xor_iff bit_push_bit_iff bit_unsigned_iff dest: bit_imp_le_length)
  moreover have "(crc_shift p ^^ 8) ((crc_shift p ^^ 8) x) = (crc_shift p ^^ 16) x" for x
    using funpow_add [of 8 8 "crc_shift p"] by simp
  ultimately show ?thesis
    by (simp only: CrcRun1Byte_shift crc_shifts_xor [symmetric] xor.assoc)
qed

lemma crc_run_append: "crc_run p c (xs @ ys) = crc_run p (crc_run p c xs) ys"
  by (induction xs arbitrary: c) simp_all

interpretation crc: chunked "\<lambda>c xs. ([], crc_run p c xs)"
  by unfold_locales (simp_all add: crc_run_append)

lemma crc_run_inj: "bit p 0 \<Longrightarrow> crc_run p c xs = crc_run p c' xs \<Longrightarrow> c = c'"
proof (induction xs arbitrary: c c')
  case (Cons x xs)
  then have "RFW_CrcRun1Byte c x p = RFW_CrcRun1Byte c' x p" by simp
  then have "c XOR push_bit 8 (ucast x) = c' XOR push_bit 8 (ucast x)"
    by (auto simp only: CrcRun1Byte_shift dest!: crc_shifts_inj [OF Cons.prems(1)])
  then show ?case by (metis xor_twice)
qed simp

lemma crc_run_burst:
  assumes "bit p 0" "crc_run p c (xs @ [a, b] @ ys) = crc_run p c (xs @ [a', b'] @ ys)"
  shows "a = a' \<and> b = b'"
proof -
  let ?d = "crc_run p c xs"
  have "RFW_CrcRun1Byte (RFW_CrcRun1Byte ?d a p) b p = RFW_CrcRun1Byte (RFW_CrcRun1Byte ?d a' p) b' p"
    using crc_run_inj [OF assms(1)] assms(2) by (simp add: crc_run_append)
  then have "?d XOR join16 a b = ?d XOR join16 a' b'"
    unfolding crc_two_bytes by (rule crc_shifts_inj [OF assms(1)])
  then have "join16 a b = join16 a' b'" by (metis xor_twice xor.commute)
  then show ?thesis by (metis byte_at_join16)
qed

lemma crc_result_bytes:
  "crc_result t c =
     (let x = (if t = RADIO_FSK_CRC_2_BYTES_IBM then c else NOT c) in [byte_at 8 x, byte_at 0 x])"
proof -
  have "(ucast (drop_bit 8 x) :: u8) = byte_at 8 x" for x :: u16
    unfolding byte_at_take_bit by (rule bit_word_eqI) (auto simp: bit_simps)
  moreover have "(ucast (x AND 0xFF) :: u8) = byte_at 0 x" for x :: u16
    by (simp add: byte_at_def)
  ultimately show ?thesis by (simp add: crc_result_def Let_def)
qed

lemma crc_result_inj: "crc_result t c = crc_result t c' \<Longrightarrow> c = c'"
  by (simp add: crc_result_bytes Let_def split: if_splits)
    (metis join16_byte_at, metis join16_byte_at bit.double_compl)

lemma length_crc_result [simp]: "length (crc_result t c) = 2"
  by (simp add: crc_result_def Let_def)

section \<open>What the driver calls leave alone\<close>

lemma ext_fw_sel [simp]:
  "Enable (ext c s) = Enable s" "PayloadLengthFieldSize (ext c s) = PayloadLengthFieldSize s"
  "CrcEnable (ext c s) = CrcEnable s" "CrcFieldSize (ext c s) = CrcFieldSize s"
  "CrcPolynomial (ext c s) = CrcPolynomial s" "CrcSeed (ext c s) = CrcSeed s"
  "CrcType (ext c s) = CrcType s" "WhiteSeed (ext c s) = WhiteSeed s"
  "LongPacketMaxRxLength (ext c s) = LongPacketMaxRxLength s" "FwModem (ext c s) = FwModem s"
  "FwRadioEvents (ext c s) = FwRadioEvents s" "CrcLfsrState (ext c s) = CrcLfsrState s"
  "WhiteLfsrState (ext c s) = WhiteLfsrState s" "PayloadLength (ext c s) = PayloadLength s"
  "LongPacketModeEnable (ext c s) = LongPacketModeEnable s" "LongPacketRemainingBytes (ext c s) = LongPacketRemainingBytes s"
  "RadioBufferOffset (ext c s) = RadioBufferOffset s" "RxPayloadOffset (ext c s) = RxPayloadOffset s"
  "RxStoreChunkCb (ext c s) = RxStoreChunkCb s" "TxGetNextChunkCb (ext c s) = TxGetNextChunkCb s"
  "FwAntSwitchPaSelect (ext c s) = FwAntSwitchPaSelect s" "BitRate (ext c s) = BitRate s"
  "FwRxTimeoutTimer (ext c s) = FwRxTimeoutTimer s" "FwTxTimeoutTimer (ext c s) = FwTxTimeoutTimer s"
  "ChunkBuffer (ext c s) = ChunkBuffer s" "RxBuffer (ext c s) = RxBuffer s"
  by (simp_all add: ext_def)

lemma WriteCommand_fw_sel [simp]:
  "Enable (SUBGRF_WriteCommand c b s) = Enable s" "PayloadLengthFieldSize (SUBGRF_WriteCommand c b s) = PayloadLengthFieldSize s"
  "CrcEnable (SUBGRF_WriteCommand c b s) = CrcEnable s" "CrcFieldSize (SUBGRF_WriteCommand c b s) = CrcFieldSize s"
  "CrcPolynomial (SUBGRF_WriteCommand c b s) = CrcPolynomial s" "CrcSeed (SUBGRF_WriteCommand c b s) = CrcSeed s"
  "CrcType (SUBGRF_WriteCommand c b s) = CrcType s" "WhiteSeed (SUBGRF_WriteCommand c b s) = WhiteSeed s"
  "LongPacketMaxRxLength (SUBGRF_WriteCommand c b s) = LongPacketMaxRxLength s" "FwModem (SUBGRF_WriteCommand c b s) = FwModem s"
  "FwRadioEvents (SUBGRF_WriteCommand c b s) = FwRadioEvents s" "CrcLfsrState (SUBGRF_WriteCommand c b s) = CrcLfsrState s"
  "WhiteLfsrState (SUBGRF_WriteCommand c b s) = WhiteLfsrState s" "PayloadLength (SUBGRF_WriteCommand c b s) = PayloadLength s"
  "LongPacketModeEnable (SUBGRF_WriteCommand c b s) = LongPacketModeEnable s" "LongPacketRemainingBytes (SUBGRF_WriteCommand c b s) = LongPacketRemainingBytes s"
  "RadioBufferOffset (SUBGRF_WriteCommand c b s) = RadioBufferOffset s" "RxPayloadOffset (SUBGRF_WriteCommand c b s) = RxPayloadOffset s"
  "RxStoreChunkCb (SUBGRF_WriteCommand c b s) = RxStoreChunkCb s" "TxGetNextChunkCb (SUBGRF_WriteCommand c b s) = TxGetNextChunkCb s"
  "FwAntSwitchPaSelect (SUBGRF_WriteCommand c b s) = FwAntSwitchPaSelect s" "BitRate (SUBGRF_WriteCommand c b s) = BitRate s"
  "FwRxTimeoutTimer (SUBGRF_WriteCommand c b s) = FwRxTimeoutTimer s" "FwTxTimeoutTimer (SUBGRF_WriteCommand c b s) = FwTxTimeoutTimer s"
  "ChunkBuffer (SUBGRF_WriteCommand c b s) = ChunkBuffer s" "RxBuffer (SUBGRF_WriteCommand c b s) = RxBuffer s"
  by (simp_all add: SUBGRF_WriteCommand_def Let_def ext_def)

lemma WriteRegisters_fw_sel [simp]:
  "Enable (SUBGRF_WriteRegisters a b s) = Enable s" "PayloadLengthFieldSize (SUBGRF_WriteRegisters a b s) = PayloadLengthFieldSize s"
  "CrcEnable (SUBGRF_WriteRegisters a b s) = CrcEnable s" "CrcFieldSize (SUBGRF_WriteRegisters a b s) = CrcFieldSize s"
  "CrcPolynomial (SUBGRF_WriteRegisters a b s) = CrcPolynomial s" "CrcSeed (SUBGRF_WriteRegisters a b s) = CrcSeed s"
  "CrcType (SUBGRF_WriteRegisters a b s) = CrcType s" "WhiteSeed (SUBGRF_WriteRegisters a b s) = WhiteSeed s"
  "LongPacketMaxRxLength (SUBGRF_WriteRegisters a b s) = LongPacketMaxRxLength s" "FwModem (SUBGRF_WriteRegisters a b s) = FwModem s"
  "FwRadioEvents (SUBGRF_WriteRegisters a b s) = FwRadioEvents s" "CrcLfsrState (SUBGRF_WriteRegisters a b s) = CrcLfsrState s"
  "WhiteLfsrState (SUBGRF_WriteRegisters a b s) = WhiteLfsrState s" "PayloadLength (SUBGRF_WriteRegisters a b s) = PayloadLength s"
  "LongPacketModeEnable (SUBGRF_WriteRegisters a b s) = LongPacketModeEnable s" "LongPacketRemainingBytes (SUBGRF_WriteRegisters a b s) = LongPacketRemainingBytes s"
  "RadioBufferOffset (SUBGRF_WriteRegisters a b s) = RadioBufferOffset s" "RxPayloadOffset (SUBGRF_WriteRegisters a b s) = RxPayloadOffset s"
  "RxStoreChunkCb (SUBGRF_WriteRegisters a b s) = RxStoreChunkCb s" "TxGetNextChunkCb (SUBGRF_WriteRegisters a b s) = TxGetNextChunkCb s"
  "FwAntSwitchPaSelect (SUBGRF_WriteRegisters a b s) = FwAntSwitchPaSelect s" "BitRate (SUBGRF_WriteRegisters a b s) = BitRate s"
  "FwRxTimeoutTimer (SUBGRF_WriteRegisters a b s) = FwRxTimeoutTimer s" "FwTxTimeoutTimer (SUBGRF_WriteRegisters a b s) = FwTxTimeoutTimer s"
  "ChunkBuffer (SUBGRF_WriteRegisters a b s) = ChunkBuffer s" "RxBuffer (SUBGRF_WriteRegisters a b s) = RxBuffer s"
  by (simp_all add: SUBGRF_WriteRegisters_def Let_def ext_def)

text \<open>
  The layer is well formed when its buffers have their size and the length and CRC fields are ones
  \<^verbatim>\<open>RFW_Init\<close> can set.
\<close>

definition fw_wf :: "'a fw_state_scheme \<Rightarrow> bool" where
  "fw_wf s \<longleftrightarrow>
     length (ChunkBuffer s) = RADIO_BUF_SIZE \<and> length (RxBuffer s) = RADIO_BUF_SIZE \<and>
     (PayloadLengthFieldSize s = 1 \<or> PayloadLengthFieldSize s = 2) \<and>
     (CrcEnable s = 1 \<and> CrcFieldSize s = 2 \<or> CrcEnable s = 0 \<and> CrcFieldSize s = 0)"

text \<open>The header and CRC of a payload, and the frame that goes on air.\<close>

definition fw_body :: "'a fw_state_scheme \<Rightarrow> u8 list \<Rightarrow> u8 list" where
  "fw_body s payload =
     (if PayloadLengthFieldSize s = 1 then [of_nat (length payload)] else [0, of_nat (length payload)]) @ payload"

definition fw_crc :: "'a fw_state_scheme \<Rightarrow> u8 list \<Rightarrow> u8 list" where
  "fw_crc s payload =
     (if CrcEnable s = 1
      then crc_result (CrcType s) (crc_run (CrcPolynomial s) (CrcSeed s) (fw_body s payload)) else [])"

definition fw_frame :: "'a fw_state_scheme \<Rightarrow> u8 list \<Rightarrow> u8 list" where
  "fw_frame s payload = fst (white_run (WhiteSeed s) (fw_body s payload @ fw_crc s payload))"

lemma length_fw_body: "fw_wf s \<Longrightarrow> length (fw_body s payload) = unat (PayloadLengthFieldSize s) + length payload"
  by (auto simp: fw_wf_def fw_body_def)

lemma length_fw_crc: "fw_wf s \<Longrightarrow> length (fw_crc s payload) = unat (CrcFieldSize s)"
  by (auto simp: fw_wf_def fw_crc_def)

lemma length_fw_frame:
  "fw_wf s \<Longrightarrow> length (fw_frame s payload) =
     unat (PayloadLengthFieldSize s) + length payload + unat (CrcFieldSize s)"
  by (simp add: fw_frame_def length_fw_body length_fw_crc)

lemma chunk_write_ok:
  "off + length bs \<le> length (ChunkBuffer s) \<Longrightarrow>
     chunk_write off bs s = Inr (s\<lparr>ChunkBuffer := blit off bs (ChunkBuffer s)\<rparr>)"
  by (simp add: chunk_write_def)

lemma WhiteRun_ok:
  "n \<le> length (ChunkBuffer s) \<Longrightarrow>
     RFW_WhiteRun n s =
       Inr (s\<lparr>ChunkBuffer := fst (white_run (WhiteLfsrState s) (take n (ChunkBuffer s))) @ drop n (ChunkBuffer s),
              WhiteLfsrState := (white_shift ^^ (8 * n)) (WhiteLfsrState s)\<rparr>)"
  by (simp add: RFW_WhiteRun_def split_beta snd_white_run min_def)

lemma CrcRun_ok:
  "n \<le> length (ChunkBuffer s) \<Longrightarrow>
     RFW_CrcRun n s =
       (let c = crc_run (CrcPolynomial s) (CrcLfsrState s) (take n (ChunkBuffer s))
        in Inr (crc_result (CrcType s) c, s\<lparr>CrcLfsrState := c\<rparr>))"
  by (simp add: RFW_CrcRun_def Let_def)

lemma blit_blit_prefix:
  "length hdr = off \<Longrightarrow> off + length bs \<le> length c \<Longrightarrow>
     take (off + length bs) (blit 0 hdr (blit off bs c)) = hdr @ bs"
  by (simp add: blit_def)

text \<open>Framing succeeds up to the copy back into the caller's buffer.\<close>

lemma TransmitInit_framed:
  assumes wf: "fw_wf s" and en: "RFW_ENABLE X" and room: "unat sz \<le> length buffer"
    and fits: "unat sz + unat (PayloadLengthFieldSize s) + unat (CrcFieldSize s) \<le> RADIO_BUF_SIZE"
  shows "\<exists>s'. RFW_TransmitInit X buffer sz out s =
      bindr (copy_into 0 (fw_frame s (take (unat sz) buffer)) buffer) (\<lambda>b.
        Inr ((0, b, sz + PayloadLengthFieldSize s + CrcFieldSize s), s')) \<and>
    fw_wf s' \<and> LongPacketModeEnable s' = 0 \<and> calls s' = calls s"
proof -
  define n where "n = unat sz"
  define payload where "payload = take n buffer"
  define f where "f = unat (PayloadLengthFieldSize s)"
  define hdr :: "u8 list" where "hdr = (if PayloadLengthFieldSize s = 1 then [sz] else [0, sz])"
  define c1 where "c1 = blit 0 hdr (blit f payload (ChunkBuffer s))"
  note defs = f_def [symmetric] n_def [symmetric] hdr_def [symmetric] c1_def [symmetric] payload_def [symmetric]
  have lp: "length payload = n" using room by (simp add: payload_def n_def)
  have lh: "length hdr = f" using wf by (auto simp: hdr_def f_def fw_wf_def)
  have lb: "length (fw_body s payload) = n + f" by (simp add: length_fw_body [OF wf] f_def lp)
  have le: "f \<le> RADIO_BUF_SIZE" "f + n \<le> RADIO_BUF_SIZE" "n + f + unat (CrcFieldSize s) \<le> RADIO_BUF_SIZE"
    using fits by (simp_all add: f_def n_def)
  have lc: "length c1 = RADIO_BUF_SIZE" using wf le lh lp by (simp add: c1_def fw_wf_def)
  have body: "take (n + f) c1 = fw_body s payload"
    using blit_blit_prefix [OF lh, of payload "ChunkBuffer s"] wf le lp
    by (simp add: c1_def fw_body_def fw_wf_def add.commute hdr_def n_def)
  have lc0: "length (ChunkBuffer s) = RADIO_BUF_SIZE" using wf by (simp add: fw_wf_def)
  have out: "unat (sz + PayloadLengthFieldSize s + CrcFieldSize s) = n + f + unat (CrcFieldSize s)"
    using fits by (simp add: unat_word_ariths f_def n_def RADIO_BUF_SIZE_def)
  have room': "n \<le> length buffer" using room by (simp add: n_def)
  show ?thesis
  proof (cases "CrcEnable s = 1")
    case True
    then have cf: "CrcFieldSize s = 2" using wf by (simp add: fw_wf_def)
    let ?crc = "fw_crc s payload"
    have lcrc: "length ?crc = 2" using cf by (simp add: length_fw_crc [OF wf])
    define c2 where "c2 = blit (n + f) ?crc c1"
    have c2: "take (n + f + 2) c2 = fw_body s payload @ ?crc"
      using take_blit_upto [of "n + f" ?crc c1] le lc lcrc cf body by (simp add: c2_def)
    have crc: "crc_result (CrcType s) (crc_run (CrcPolynomial s) (CrcSeed s) (fw_body s payload)) = ?crc"
      using True by (simp add: fw_crc_def)
    have "length c2 = RADIO_BUF_SIZE" using le lc lcrc cf by (simp add: c2_def)
    with True c2 le wf lh lc lb lc0 body en cf lcrc lp room' out show ?thesis
      by (simp add: RFW_TransmitInit_def Let_def chunk_write_ok CrcRun_ok WhiteRun_ok RFW_CrcSetState_def
          RFW_WhiteSetState_def fw_frame_def fw_wf_def defs crc c2_def [symmetric])
        (rule exI, rule conjI, rule refl, simp)
  next
    case False
    then have cf: "CrcFieldSize s = 0" using wf by (auto simp: fw_wf_def)
    with False le wf lh lc lb lc0 body en lp room' out show ?thesis
      by (simp add: RFW_TransmitInit_def Let_def chunk_write_ok WhiteRun_ok
          RFW_WhiteSetState_def fw_frame_def fw_crc_def fw_wf_def defs)
        (rule exI, rule conjI, rule refl, simp)
  qed
qed

lemma TransmitInit_success:
  assumes "fw_wf s" "RFW_TransmitInit X buffer sz out s = Inr ((0, b, n), s')"
  shows "unat n = unat sz + unat (PayloadLengthFieldSize s) + unat (CrcFieldSize s)"
    and "unat sz + unat (PayloadLengthFieldSize s) + unat (CrcFieldSize s) \<le> RADIO_BUF_SIZE"
    and "unat sz \<le> length buffer" and "take (unat n) b = fw_frame s (take (unat sz) buffer)"
proof -
  have en: "RFW_ENABLE X" using assms(2) by (rule_tac ccontr) (simp add: RFW_TransmitInit_def)
  show fits: "unat sz + unat (PayloadLengthFieldSize s) + unat (CrcFieldSize s) \<le> RADIO_BUF_SIZE"
    using assms(2) en by (rule_tac ccontr) (simp add: RFW_TransmitInit_def)
  show room: "unat sz \<le> length buffer"
    using assms(2) en fits by (rule_tac ccontr) (simp add: RFW_TransmitInit_def Let_def bindr_def)
  from TransmitInit_framed [OF assms(1) en room fits, of out] assms(2)
  have b: "copy_into 0 (fw_frame s (take (unat sz) buffer)) buffer = Inr b"
    and n: "n = sz + PayloadLengthFieldSize s + CrcFieldSize s"
    by (cases "copy_into 0 (fw_frame s (take (unat sz) buffer)) buffer"; auto)+
  show len: "unat n = unat sz + unat (PayloadLengthFieldSize s) + unat (CrcFieldSize s)"
    using fits by (simp add: n unat_word_ariths RADIO_BUF_SIZE_def)
  have "length (fw_frame s (take (unat sz) buffer)) = unat n"
    using room by (simp add: length_fw_frame [OF assms(1)] len)
  with b show "take (unat n) b = fw_frame s (take (unat sz) buffer)"
    by (auto simp: copy_into_def blit_def split: if_splits)
qed

text \<open>A packet whitened in chunks, each copied to the start of \<^verbatim>\<open>ChunkBuffer\<close> and run through \<^verbatim>\<open>RFW_WhiteRun\<close>.\<close>

fun white_chunks :: "u8 list list \<Rightarrow> 'a fw_state_scheme \<Rightarrow> (u8 list \<times> 'a fw_state_scheme) result" where
  "white_chunks [] s = Inr ([], s)"
| "white_chunks (c # cs) s =
     bindr (chunk_write 0 c s) (\<lambda>s.
     bindr (RFW_WhiteRun (length c) s) (\<lambda>s.
     bindr (white_chunks cs s) (\<lambda>(ys, s'). Inr (take (length c) (ChunkBuffer s) @ ys, s'))))"

lemma white_chunks_run:
  assumes "\<forall>c \<in> set cs. length c \<le> length (ChunkBuffer s)"
  shows "\<exists>s'. white_chunks cs s = Inr (fst (white_run (WhiteLfsrState s) (concat cs)), s')"
  using assms
proof (induction cs arbitrary: s)
  case (Cons c cs)
  let ?st = "(white_shift ^^ (8 * length c)) (WhiteLfsrState s)"
  let ?s = "s\<lparr>ChunkBuffer := fst (white_run (WhiteLfsrState s) c) @ drop (length c) (blit 0 c (ChunkBuffer s)),
    WhiteLfsrState := ?st\<rparr>"
  have step: "chunk_write 0 c s = Inr (s\<lparr>ChunkBuffer := blit 0 c (ChunkBuffer s)\<rparr>)"
    "RFW_WhiteRun (length c) (s\<lparr>ChunkBuffer := blit 0 c (ChunkBuffer s)\<rparr>) = Inr ?s"
    using Cons.prems by (simp_all add: chunk_write_ok WhiteRun_ok)
  have "\<exists>s'. white_chunks cs ?s = Inr (fst (white_run ?st (concat cs)), s')"
    using Cons.IH [of ?s] Cons.prems by simp
  then show ?case
    using white_run_append [of "WhiteLfsrState s" c "concat cs"]
    by (auto simp: step split_beta Let_def snd_white_run)
qed simp

section \<open>Receiving what was framed\<close>

lemma white_split:
  assumes "k \<le> length w"
  shows "white_run st (take k (fst (white_run st w))) = (take k w, (white_shift ^^ (8 * k)) st)"
    and "fst (white_run ((white_shift ^^ (8 * k)) st) (drop k (fst (white_run st w)))) = drop k w"
proof -
  let ?u = "fst (white_run st (take k w))" and ?st = "(white_shift ^^ (8 * k)) st"
  let ?v = "fst (white_run ?st (drop k w))"
  have st: "snd (white_run st (take k w)) = ?st" using assms by (simp add: snd_white_run min_def)
  have f: "fst (white_run st w) = ?u @ ?v"
    using white_run_append [of st "take k w" "drop k w"] st by (simp add: Let_def split_beta)
  have lu: "length ?u = k" using assms by simp
  show "white_run st (take k (fst (white_run st w))) = (take k w, ?st)"
    using white_run_twice [of st "take k w"] lu st by (simp add: f)
  show "fst (white_run ?st (drop k (fst (white_run st w)))) = drop k w"
    using white_run_twice [of ?st "drop k w"] lu by (simp add: f)
qed

text \<open>The radio's buffer holds the frame \<open>f\<close> from its start.\<close>

definition holds_frame :: "env \<Rightarrow> u8 list \<Rightarrow> bool" where
  "holds_frame X f \<longleftrightarrow> (\<forall>h off n. \<forall>i<n. unat off + n \<le> length f \<longrightarrow> read_buf X h off n i = f ! (unat off + i))"

lemma chunk_read_frame:
  assumes "holds_frame X f" "unat off + unat n \<le> length f" "length (ChunkBuffer s) = RADIO_BUF_SIZE"
  shows "chunk_read X off n s =
    Inr (ext (ReadBuffer off (unat n)) s\<lparr>ChunkBuffer := blit 0 (take (unat n) (drop (unat off) f)) (ChunkBuffer s)\<rparr>)"
proof -
  have "map (read_buf X (calls s) off (unat n)) [0..<unat n] = take (unat n) (drop (unat off) f)"
    using assms(1,2) by (intro nth_equalityI) (auto simp: holds_frame_def)
  moreover have "unat n \<le> RADIO_BUF_SIZE" using unat_u8_less [of n] by (simp add: RADIO_BUF_SIZE_def del: unat_u8_less)
  ultimately show ?thesis
    using assms by (simp add: chunk_read_def SUBGRF_ReadBuffer_def chunk_write_ok min_def)
qed

lemma chunk_read_any:
  assumes "length (ChunkBuffer s) = RADIO_BUF_SIZE"
  shows "chunk_read X off n s = Inr (ext (ReadBuffer off (unat n)) s\<lparr>ChunkBuffer :=
    blit 0 (map (read_buf X (calls s) off (unat n)) [0..<unat n]) (ChunkBuffer s)\<rparr>)"
proof -
  have "unat n \<le> RADIO_BUF_SIZE" using unat_u8_less [of n] by (simp add: RADIO_BUF_SIZE_def del: unat_u8_less)
  then show ?thesis
    using assms by (simp add: chunk_read_def SUBGRF_ReadBuffer_def chunk_write_ok)
qed

lemma poll_loop_calls:
  assumes "poll_loop X now t b rf ptr s = Some res"
  shows "\<exists>r cs. res = (r, s\<lparr>calls := calls s @ cs\<rparr>) \<and> (r = 0 \<or> r = -1)"
  using assms
proof (induction X now t b rf ptr s res rule: poll_loop.raw_induct [rotated, consumes 1, case_names step])
  case (step loop X now t b rf ptr s res)
  have more: "\<exists>r cs. (res :: int \<times> 'a fw_state_scheme) = (r, s\<lparr>calls := calls s @ cs\<rparr>) \<and> (r = 0 \<or> r = -1)"
    if loop: "loop X now t b rf p' (ext c s) = Some res" for p' c
  proof -
    obtain r cs where "res = (r, ext c s\<lparr>calls := calls (ext c s) @ cs\<rparr>)" "r = 0 \<or> r = -1"
      using step(1) [OF loop] by blast
    then have "res = (r, s\<lparr>calls := calls s @ (c # cs)\<rparr>) \<and> (r = 0 \<or> r = -1)"
      by (simp add: ext_def)
    then show ?thesis by blast
  qed
  note body = step(2) [unfolded ReadRegister_eq fst_conv snd_conv]
  consider "res = (0, s)" | "res = (-1, ext (ReadRegisters SUBGHZ_RXADRPTR 1) s)"
    | p' where "loop X now t b rf p' (ext (ReadRegisters SUBGHZ_RXADRPTR 1) s) = Some res"
    using body by (metis option.inject)
  then show ?case
  proof cases
    case 1
    then have "res = (0, s\<lparr>calls := calls s @ []\<rparr>)" by simp
    then show ?thesis by blast
  next
    case 2
    then have "res = (-1, s\<lparr>calls := calls s @ [ReadRegisters SUBGHZ_RXADRPTR 1]\<rparr>)" by (simp add: ext_def)
    then show ?thesis by blast
  next
    case 3
    then show ?thesis by (rule more)
  qed
qed

lemma poll_loop_returns:
  assumes "\<And>h. N \<le> length h \<Longrightarrow> timeout < TimerGetElapsedTime X h now"
  shows "\<exists>r s'. poll_loop X now timeout bytes rf ptr s = Some (r, s')"
proof (induction "N - length (calls s)" arbitrary: ptr s rule: less_induct)
  case less
  let ?s = "ext (ReadRegisters SUBGHZ_RXADRPTR 1) s"
  show ?case
  proof (cases "timeout < TimerGetElapsedTime X (calls ?s) now")
    case True
    then show ?thesis by (subst poll_loop.simps) simp
  next
    case False
    then have "length (calls ?s) < N" using assms by (meson not_le)
    then have "\<exists>r s'. poll_loop X now timeout bytes rf (read_regs X (calls s) SUBGHZ_RXADRPTR 1 0) ?s = Some (r, s')"
      by (intro less) simp
    with False show ?thesis by (subst poll_loop.simps) simp
  qed
qed

lemma PollRxBytes_calls:
  assumes "RFW_PollRxBytes X bytes s = Inr (r, s')"
  shows "\<exists>cs. s' = s\<lparr>calls := calls s @ cs\<rparr>"
proof -
  let ?s = "ext (ReadRegisters SUBGHZ_RXADRPTR 1) s"
  obtain t now rf where "poll_loop X now t bytes rf rf ?s = Some (r, s')"
    using assms by (auto simp: RFW_PollRxBytes_def bindr_eq_Inr_iff split: option.splits)
  from poll_loop_calls [OF this] obtain cs where "s' = ?s\<lparr>calls := calls ?s @ cs\<rparr>" by blast
  then have "s' = s\<lparr>calls := calls s @ (ReadRegisters SUBGHZ_RXADRPTR 1 # cs)\<rparr>" by (simp add: ext_def)
  then show ?thesis by blast
qed

text \<open>Two layers that agree on everything that shapes a frame.\<close>

definition same_params :: "'a fw_state_scheme \<Rightarrow> 'b fw_state_scheme \<Rightarrow> bool" where
  "same_params s r \<longleftrightarrow>
     PayloadLengthFieldSize r = PayloadLengthFieldSize s \<and> CrcEnable r = CrcEnable s \<and>
     CrcFieldSize r = CrcFieldSize s \<and> CrcPolynomial r = CrcPolynomial s \<and> CrcSeed r = CrcSeed s \<and>
     CrcType r = CrcType s \<and> WhiteSeed r = WhiteSeed s"

definition fw_header :: "'a fw_state_scheme \<Rightarrow> nat \<Rightarrow> u8 list" where
  "fw_header s n = (if PayloadLengthFieldSize s = 1 then [of_nat n] else [0, of_nat n])"

lemma fw_body_header: "fw_body s payload = fw_header s (length payload) @ payload"
  by (simp add: fw_body_def fw_header_def)

lemma length_fw_header: "fw_wf s \<Longrightarrow> length (fw_header s n) = unat (PayloadLengthFieldSize s)"
  by (auto simp: fw_wf_def fw_header_def)

lemma header_value:
  assumes "n < 256"
  shows "PayloadLengthFieldSize s = 1 \<Longrightarrow> ucast (fw_header s n ! 0) = (of_nat n :: u16)"
    and "PayloadLengthFieldSize s \<noteq> 1 \<Longrightarrow>
      push_bit 8 (ucast (fw_header s n ! 0)) OR ucast (fw_header s n ! 1) = (of_nat n :: u16)"
  using assms by (simp_all add: fw_header_def unsigned_of_nat take_bit_nat_eq_self)

lemma GetPacketLength_frame:
  assumes wf: "fw_wf s" and fits: "length payload < 256" and hf: "holds_frame X (fw_frame s payload)"
    and poll: "RFW_PollRxBytes X (ucast (PayloadLengthFieldSize s)) s = Inr (0, s1)"
    and st: "WhiteLfsrState s = WhiteSeed s" "CrcLfsrState s = CrcSeed s"
  shows "\<exists>s2. RFW_GetPacketLength X s = Inr ((0, of_nat (length payload)), s2) \<and>
    fw_wf s2 \<and> same_params s s2 \<and> RxPayloadOffset s2 = RxPayloadOffset s \<and>
    LongPacketModeEnable s2 = LongPacketModeEnable s \<and> RxBuffer s2 = RxBuffer s \<and>
    WhiteLfsrState s2 = (white_shift ^^ (8 * unat (PayloadLengthFieldSize s))) (WhiteSeed s) \<and>
    (CrcEnable s = 1 \<longrightarrow> CrcLfsrState s2 = crc_run (CrcPolynomial s) (CrcSeed s) (fw_header s (length payload)))"
proof -
  define f where "f = PayloadLengthFieldSize s"
  define c where "c = ChunkBuffer s"
  obtain cs where s1: "s1 = s\<lparr>calls := calls s @ cs\<rparr>" using PollRxBytes_calls [OF poll] by blast
  have lc: "length c = RADIO_BUF_SIZE" and f: "f = 1 \<or> f = 2" using wf by (auto simp: fw_wf_def c_def f_def)
  have fle: "unat f \<le> RADIO_BUF_SIZE" using f by (auto simp: RADIO_BUF_SIZE_def)
  have lw: "unat f \<le> length (fw_body s payload @ fw_crc s payload)"
    by (simp add: length_fw_body [OF wf] f_def)
  have tw: "take (unat f) (fw_body s payload @ fw_crc s payload) = fw_header s (length payload)"
    by (simp add: fw_body_header length_fw_header [OF wf] f_def)
  have white: "white_run (WhiteSeed s) (take (unat f) (fw_frame s payload)) =
      (fw_header s (length payload), (white_shift ^^ (8 * unat f)) (WhiteSeed s))"
    using white_split(1) [OF lw, of "WhiteSeed s"] unfolding tw fw_frame_def .
  have lf: "unat f \<le> length (fw_frame s payload)" by (simp add: length_fw_frame [OF wf] f_def)
  have tb: "take (unat f) (blit 0 (take (unat f) (fw_frame s payload)) c) = take (unat f) (fw_frame s payload)"
    using lf by (metis length_take min.absorb2 take_blit_prefix)
  have lb: "length (blit 0 (take (unat f) (fw_frame s payload)) c) = RADIO_BUF_SIZE"
    using lf lc fle by simp
  define c1 where "c1 = blit 0 (take (unat f) (fw_frame s payload)) c"
  define c2 where "c2 = fw_header s (length payload) @ drop (unat f) c1"
  have lh: "length (fw_header s (length payload)) = unat f" by (simp add: length_fw_header [OF wf] f_def)
  have c2: "length c2 = RADIO_BUF_SIZE" "take (unat f) c2 = fw_header s (length payload)"
    "c2 ! 0 = fw_header s (length payload) ! 0" "f = 2 \<longrightarrow> c2 ! 1 = fw_header s (length payload) ! 1"
    using lh lb f fle by (auto simp: c2_def c1_def nth_append)
  have read: "chunk_read X 0 f s1 = Inr (ext (ReadBuffer 0 (unat f)) s1\<lparr>ChunkBuffer := c1\<rparr>)"
    using chunk_read_frame [OF hf, of 0 f s1] lf lc by (simp add: s1 c_def c1_def)
  define s2 where "s2 = ext (ReadBuffer 0 (unat f)) s1\<lparr>ChunkBuffer := c2,
    WhiteLfsrState := (white_shift ^^ (8 * unat f)) (WhiteSeed s)\<rparr>"
  have run: "RFW_WhiteRun (unat f) (ext (ReadBuffer 0 (unat f)) s1\<lparr>ChunkBuffer := c1\<rparr>) = Inr s2"
    using WhiteRun_ok [of "unat f" "ext (ReadBuffer 0 (unat f)) s1\<lparr>ChunkBuffer := c1\<rparr>"] fle lb tb white st
    by (simp add: s2_def c1_def c2_def s1)
  have len: "f = 1 \<longrightarrow> ucast (c2 ! 0) = (of_nat (length payload) :: u16)"
    "f \<noteq> 1 \<longrightarrow> push_bit 8 (ucast (c2 ! 0)) OR ucast (c2 ! Suc 0) = (of_nat (length payload) :: u16)"
    using header_value [OF fits, of s] f c2(3,4) by (auto simp: f_def)
  have s2: "PayloadLengthFieldSize s2 = f" "CrcEnable s2 = CrcEnable s" "ChunkBuffer s2 = c2"
    by (simp_all add: s2_def s1 f_def)
  show ?thesis
    using len c2(1,2) fle wf s2 read run poll st
    by (cases "CrcEnable s = 1")
      (simp_all add: RFW_GetPacketLength_def f_def [symmetric] s1 CrcRun_ok Let_def same_params_def fw_wf_def s2_def)
qed

lemma GetPayload_data_frame:
  assumes wf: "fw_wf s" and wfr: "fw_wf r" and same: "same_params s r" and hf: "holds_frame X (fw_frame s payload)"
    and fits: "length payload + unat (PayloadLengthFieldSize s) + unat (CrcFieldSize s) \<le> RADIO_BUF_SIZE"
    and short: "LongPacketModeEnable r \<noteq> 1" "RxPayloadOffset r = 0"
    and st: "WhiteLfsrState r = (white_shift ^^ (8 * unat (PayloadLengthFieldSize s))) (WhiteSeed s)"
      "CrcEnable s = 1 \<longrightarrow> CrcLfsrState r = crc_run (CrcPolynomial s) (CrcSeed s) (fw_header s (length payload))"
  shows "\<exists>crc r'. RFW_GetPayload_data X (PayloadLengthFieldSize s) (of_nat (length payload + unat (CrcFieldSize s))) r
      = Inr ((True, crc), r') \<and>
    take (length payload) (RxBuffer r') = payload \<and> RxPayloadOffset r' = of_nat (length payload) \<and>
    crc_check (of_nat (length payload + unat (CrcFieldSize s))) crc r' =
      (if 2 \<le> length payload + unat (CrcFieldSize s) then Inr True else Inl OutOfBounds)"
proof -
  define f where "f = PayloadLengthFieldSize s"
  define k where "k = length payload + unat (CrcFieldSize s)"
  define L where "L = (of_nat k :: u8)"
  define data where "data = payload @ fw_crc s payload"
  have f1: "1 \<le> unat f" using wf by (auto simp: f_def fw_wf_def)
  have k: "unat f + k \<le> RADIO_BUF_SIZE" "k < 256" "k \<le> RADIO_BUF_SIZE" "length payload < RADIO_BUF_SIZE"
    using fits f1 by (auto simp: k_def f_def RADIO_BUF_SIZE_def)
  have L: "unat L = k" using k by (simp add: L_def unsigned_of_nat take_bit_nat_eq_self)
  have ld: "length data = k" by (simp add: data_def k_def length_fw_crc [OF wf])
  have lframe: "length (fw_frame s payload) = unat f + k" by (simp add: length_fw_frame [OF wf] f_def k_def)
  have lw: "unat f \<le> length (fw_body s payload @ fw_crc s payload)" by (simp add: length_fw_body [OF wf] f_def)
  have dw: "drop (unat f) (fw_body s payload @ fw_crc s payload) = data"
    by (simp add: fw_body_header length_fw_header [OF wf] f_def data_def)
  have white: "fst (white_run ((white_shift ^^ (8 * unat f)) (WhiteSeed s)) (drop (unat f) (fw_frame s payload))) = data"
    using white_split(2) [OF lw, of "WhiteSeed s"] unfolding dw fw_frame_def .
  define r0 where "r0 = SUBGRF_SetStandby STDBY_RC r"
  define c where "c = ChunkBuffer r"
  have r0: "ChunkBuffer r0 = c" "WhiteLfsrState r0 = WhiteLfsrState r" "CrcFieldSize r0 = CrcFieldSize s"
    "CrcEnable r0 = CrcEnable s" "CrcLfsrState r0 = CrcLfsrState r" "CrcPolynomial r0 = CrcPolynomial s"
    "CrcType r0 = CrcType s" "LongPacketModeEnable r0 = LongPacketModeEnable r" "RxPayloadOffset r0 = 0"
    "RxBuffer r0 = RxBuffer r"
    using same short by (simp_all add: r0_def c_def SUBGRF_SetStandby_def same_params_def)
  have lc: "length c = RADIO_BUF_SIZE" "length (RxBuffer r) = RADIO_BUF_SIZE" using wfr by (simp_all add: c_def fw_wf_def)
  define c1 where "c1 = blit 0 (drop (unat f) (fw_frame s payload)) c"
  have c1: "length c1 = RADIO_BUF_SIZE" "take k c1 = drop (unat f) (fw_frame s payload)"
    using lc k lframe take_blit_prefix [of "drop (unat f) (fw_frame s payload)" c] by (simp_all add: c1_def)
  define r1 where "r1 = ext (ReadBuffer f k) r0\<lparr>ChunkBuffer := c1\<rparr>"
  have read: "chunk_read X f L r0 = Inr r1"
    using chunk_read_frame [OF hf, of f L r0] lframe lc L by (simp add: r0 c1_def r1_def)
  define r2 where "r2 = r1\<lparr>ChunkBuffer := data @ drop k c1,
    WhiteLfsrState := (white_shift ^^ (8 * k)) (WhiteLfsrState r)\<rparr>"
  have run: "RFW_WhiteRun (unat L) r1 = Inr r2"
    using WhiteRun_ok [of k r1] k c1 st white by (simp add: L r1_def r2_def r0 f_def)
  have lc2: "length (data @ drop k c1) = RADIO_BUF_SIZE" using ld c1 k by simp
  have r2: "ChunkBuffer r2 = data @ drop k c1" "CrcFieldSize r2 = CrcFieldSize s" "CrcEnable r2 = CrcEnable s"
    "CrcLfsrState r2 = CrcLfsrState r" "CrcPolynomial r2 = CrcPolynomial s" "CrcType r2 = CrcType s"
    "LongPacketModeEnable r2 = LongPacketModeEnable r" "RxPayloadOffset r2 = 0" "RxBuffer r2 = RxBuffer r"
    by (simp_all add: r2_def r1_def r0)
  have n: "k - unat (CrcFieldSize s) = length payload" "\<not> L < CrcFieldSize s"
    using L by (simp_all add: k_def word_less_nat_alt)
  have take_data: "take (length payload) (data @ drop k c1) = payload" by (simp add: data_def)
  have crcs: "\<exists>cc crc. (if CrcEnable r2 = 1 then RFW_CrcRun (length payload) r2 else Inr (uninit X 2 r2, r2)) =
      Inr (crc, r2\<lparr>CrcLfsrState := cc\<rparr>) \<and> (CrcEnable s = 1 \<longrightarrow> crc = fw_crc s payload)"
  proof (cases "CrcEnable s = 1")
    case True
    then have "fw_crc s payload = crc_result (CrcType s) (crc_run (CrcPolynomial s) (CrcLfsrState r) payload)"
      using st(2) by (simp add: fw_crc_def fw_body_header crc_run_append)
    with True k lc2 take_data show ?thesis
      by (intro exI [of _ "crc_run (CrcPolynomial s) (CrcLfsrState r) payload"] exI [of _ "fw_crc s payload"])
        (simp add: CrcRun_ok r2 Let_def)
  next
    case False
    with r2(3) show ?thesis
      by (intro exI [of _ "CrcLfsrState r2"] exI [of _ "uninit X 2 r2"]) simp
  qed
  then obtain cc crc where crc_step: "(if CrcEnable r2 = 1 then RFW_CrcRun (length payload) r2
      else Inr (uninit X 2 r2, r2)) = Inr (crc, r2\<lparr>CrcLfsrState := cc\<rparr>)"
    and crc: "CrcEnable s = 1 \<longrightarrow> crc = fw_crc s payload" by blast
  define r3 where "r3 = r2\<lparr>CrcLfsrState := cc, RxBuffer := blit 0 payload (RxBuffer r),
    RxPayloadOffset := of_nat (length payload)\<rparr>"
  have "RFW_GetPayload_data X f L r = Inr ((True, crc), r3)"
    using short k lc
    by (simp add: RFW_GetPayload_data_def r0_def [symmetric] read run [unfolded L] L Let_def n r2
        crc_step [unfolded r2(3)] r3_def data_def)
  moreover have "crc_check L crc r3 = Inr True" if "2 \<le> k"
  proof (cases "CrcEnable s = 1")
    case True
    then have "CrcFieldSize s = 2" using wf by (simp add: fw_wf_def)
    then have "k = length payload + 2" "length (fw_crc s payload) = 2"
      by (simp_all add: k_def length_fw_crc [OF wf])
    with True that L crc show ?thesis
      by (simp add: crc_check_def r3_def r2 data_def nth_append)
  next
    case False
    then have "CrcEnable s = 0" using wf by (auto simp: fw_wf_def)
    with that L show ?thesis by (simp add: crc_check_def r3_def r2)
  qed
  moreover have "crc_check L crc r3 = Inl OutOfBounds" if "\<not> 2 \<le> k"
    using that L wf by (auto simp: crc_check_def r3_def r2 k_def fw_wf_def)
  ultimately show ?thesis
    by (intro exI [of _ crc] exI [of _ r3])
      (simp add: k_def [symmetric] L_def [symmetric] f_def [symmetric] r3_def)
qed

section \<open>Properties\<close>

text \<open>A layer set up for one-byte lengths and the CCITT CRC, and an environment that received \<open>f\<close>.\<close>

definition fw0 :: fw_state where
  "fw0 = drv_state.extend drv0
     \<lparr>Enable = 1, PayloadLengthFieldSize = 1, CrcEnable = 1, CrcFieldSize = 2, CrcPolynomial = 0x1021,
      CrcSeed = 0x1D0F, CrcType = RADIO_FSK_CRC_2_BYTES_CCIT, WhiteSeed = 0x01FF, LongPacketMaxRxLength = 255,
      FwModem = MODEM_FSK,
      FwRadioEvents = Some \<lparr>ev_TxDone = True, ev_TxTimeout = True, ev_RxDone = True, ev_RxTimeout = True,
        ev_RxError = True, ev_CadDone = True\<rparr>,
      CrcLfsrState = 0, WhiteLfsrState = 0, PayloadLength = 0, LongPacketModeEnable = 0,
      LongPacketRemainingBytes = 0, RadioBufferOffset = 0, RxPayloadOffset = 0, RxStoreChunkCb = False,
      TxGetNextChunkCb = False, FwAntSwitchPaSelect = 1, BitRate = 50, FwRxTimeoutTimer = NullTimer,
      FwTxTimeoutTimer = TxTimeoutTimer, ChunkBuffer = replicate 255 0, RxBuffer = replicate 255 0\<rparr>"

definition env_rx :: "u8 list \<Rightarrow> env" where
  "env_rx f = env0\<lparr>read_regs := (\<lambda>h a n i. of_nat (length h)),
     read_buf := (\<lambda>h off n i. if unat off + i < length f then f ! (unat off + i) else 0)\<rparr>"

lemma fw0_simps [simp]:
  "PayloadLengthFieldSize fw0 = 1" "CrcFieldSize fw0 = 2" "fw_wf fw0" "LongPacketModeEnable fw0 = 0" "calls fw0 = []"
  "BitRate fw0 = 50" "FwRxTimeoutTimer fw0 = NullTimer" "Enable fw0 = 1" "FwModem fw0 = MODEM_FSK"
  by (simp_all add: fw0_def drv_state.defs drv0_def fw_wf_def RADIO_BUF_SIZE_def)

lemma env_rx_holds: "holds_frame (env_rx f) f"
  by (simp add: holds_frame_def env_rx_def)

text \<open>
  C16: framing a short packet in the caller's buffer. The first \<open>sz\<close> bytes of the buffer are the
  payload; with the length field and the CRC the frame has n bytes. More than the 255 bytes of the
  radio's buffer are refused with -1, and neither the buffer nor the size nor the state changes. A
  buffer of fewer than n bytes is overrun by the copy back - always the case for a buffer that has just
  the \<open>sz\<close> bytes of the payload. Otherwise the first n bytes of the buffer become the frame - length,
  payload and CRC, whitened from the seed on - the bytes behind stay as they were, the reported size is
  n, and nothing is sent yet.
\<close>

theorem TransmitInit_correct:
  assumes "fw_wf s" "RFW_ENABLE X" "unat sz \<le> length buffer"
    and "n = unat sz + unat (PayloadLengthFieldSize s) + unat (CrcFieldSize s)"
  shows "unat sz < n \<and>
    (if RADIO_BUF_SIZE < n then RFW_TransmitInit X buffer sz out s = Inr ((-1, buffer, out), s)
     else if length buffer < n then RFW_TransmitInit X buffer sz out s = Inl OutOfBounds
     else \<exists>s'. RFW_TransmitInit X buffer sz out s =
         Inr ((0, fw_frame s (take (unat sz) buffer) @ drop n buffer, of_nat n), s') \<and>
       length (fw_frame s (take (unat sz) buffer)) = n \<and>
       fw_wf s' \<and> LongPacketModeEnable s' = 0 \<and> calls s' = calls s)"
proof (intro conjI)
  show "unat sz < n" using assms(1,4) by (auto simp: fw_wf_def)
  let ?F = "fw_frame s (take (unat sz) buffer)"
  have len: "length ?F = n" using assms(3,4) by (simp add: length_fw_frame [OF assms(1)])
  have over: "RFW_TransmitInit X buffer sz out s = Inr ((-1, buffer, out), s)" if "RADIO_BUF_SIZE < n"
    using that assms(2,4) by (simp add: RFW_TransmitInit_def)
  have word: "sz + PayloadLengthFieldSize s + CrcFieldSize s = of_nat n" using assms(4) by simp
  have framed: "\<exists>s'. RFW_TransmitInit X buffer sz out s =
        bindr (copy_into 0 ?F buffer) (\<lambda>b. Inr ((0, b, of_nat n), s')) \<and>
      fw_wf s' \<and> LongPacketModeEnable s' = 0 \<and> calls s' = calls s"
    if "n \<le> RADIO_BUF_SIZE"
    using TransmitInit_framed [OF assms(1-3), of out] that assms(4) unfolding word by simp
  show "if RADIO_BUF_SIZE < n then RFW_TransmitInit X buffer sz out s = Inr ((-1, buffer, out), s)
     else if length buffer < n then RFW_TransmitInit X buffer sz out s = Inl OutOfBounds
     else \<exists>s'. RFW_TransmitInit X buffer sz out s = Inr ((0, ?F @ drop n buffer, of_nat n), s') \<and>
       length ?F = n \<and> fw_wf s' \<and> LongPacketModeEnable s' = 0 \<and> calls s' = calls s"
    using framed over len by (auto simp: not_less blit_def bindr_def)
qed

theorem TransmitInit_correct_witness:
  "(\<exists>s'. RFW_TransmitInit env0 [1, 2, 3, 0, 0, 0, 9] 3 0 fw0 =
     Inr ((0, fw_frame fw0 [1, 2, 3] @ [9], 6), s')) \<and>
   RFW_TransmitInit env0 [1, 2, 3] 3 0 fw0 = Inl OutOfBounds"
  using TransmitInit_correct [of fw0 env0 3 "[1, 2, 3, 0, 0, 0, 9]" 6 0]
    TransmitInit_correct [of fw0 env0 3 "[1, 2, 3]" 6 0]
  by (auto simp: env0_def RADIO_BUF_SIZE_def)

text \<open>
  C2: what was framed is received. A sender frames the first \<open>sz\<close> bytes of its buffer; the receiver
  is set up with the parameters of the sender, armed with \<^verbatim>\<open>RFW_ReceiveInit\<close>, the length field has
  arrived in time, and the radio's buffer holds the bytes the sender was given to send. Then the decoded
  length is the length of the payload, and reading the rest stores exactly the payload in
  \<^verbatim>\<open>RxBuffer\<close> and advances the offset by it. The comparison of the CRC succeeds when payload and CRC
  have at least two bytes; for a payload of no or one byte without a CRC it reads before the chunk.
\<close>

theorem frame_round_trip:
  assumes "fw_wf s" "fw_wf r" "same_params s r" "RFW_ENABLE X"
    and "RFW_TransmitInit X' buffer sz out s = Inr ((0, frame, n), s')"
    and "holds_frame X (take (unat n) frame)"
    and "r0 = snd (RFW_ReceiveInit X r)"
    and "RFW_PollRxBytes X (ucast (PayloadLengthFieldSize r)) r0 = Inr (0, r1)"
  shows "\<exists>r2 crc r3.
    RFW_GetPacketLength X r0 = Inr ((0, ucast sz), r2) \<and>
    RFW_GetPayload_data X (PayloadLengthFieldSize s) (sz + CrcFieldSize s) r2 = Inr ((True, crc), r3) \<and>
    take (unat sz) (RxBuffer r3) = take (unat sz) buffer \<and> RxPayloadOffset r3 = ucast sz \<and>
    crc_check (sz + CrcFieldSize s) crc r3 =
      (if 2 \<le> unat sz + unat (CrcFieldSize s) then Inr True else Inl OutOfBounds)"
proof -
  define payload where "payload = take (unat sz) buffer"
  note sent = TransmitInit_success [OF assms(1,5)]
  have lp: "length payload = unat sz" using sent(3) by (simp add: payload_def)
  have hf: "holds_frame X (fw_frame s payload)" using assms(6) sent(4) by (simp add: payload_def)
  have r0: "fw_wf r0" "same_params s r0" "WhiteLfsrState r0 = WhiteSeed r0" "CrcLfsrState r0 = CrcSeed r0"
    "RxPayloadOffset r0 = 0" "LongPacketModeEnable r0 = 0" "PayloadLengthFieldSize r0 = PayloadLengthFieldSize r"
    using assms by (simp_all add: RFW_ReceiveInit_def Let_def RFW_WhiteSetState_def RFW_CrcSetState_def
        SUBGRF_SetDioIrqParams_def fw_wf_def same_params_def)
  have eq: "fw_frame r0 p = fw_frame s p" "fw_header r0 n = fw_header s n" for p n
    using r0(2) by (simp_all add: same_params_def fw_frame_def fw_body_def fw_crc_def fw_header_def)
  have "length payload < 256" using sent(2) lp by (simp add: RADIO_BUF_SIZE_def)
  with GetPacketLength_frame [of r0 payload X r1] r0 hf assms(8) obtain r2 where r2:
    "RFW_GetPacketLength X r0 = Inr ((0, of_nat (length payload)), r2)" "fw_wf r2" "same_params r0 r2"
    "RxPayloadOffset r2 = 0" "LongPacketModeEnable r2 = 0"
    "WhiteLfsrState r2 = (white_shift ^^ (8 * unat (PayloadLengthFieldSize r0))) (WhiteSeed r0)"
    "CrcEnable r0 = 1 \<longrightarrow> CrcLfsrState r2 = crc_run (CrcPolynomial r0) (CrcSeed r0) (fw_header r0 (length payload))"
    by (auto simp: eq)
  have "same_params s r2" using r0(2) r2(3) by (simp add: same_params_def)
  with GetPayload_data_frame [of s r2 X payload] assms(1) hf sent(2) r2 r0(2)
  have "\<exists>r2 crc r3. RFW_GetPacketLength X r0 = Inr ((0, of_nat (length payload)), r2) \<and>
    RFW_GetPayload_data X (PayloadLengthFieldSize s) (of_nat (length payload + unat (CrcFieldSize s))) r2 =
      Inr ((True, crc), r3) \<and>
    take (length payload) (RxBuffer r3) = payload \<and> RxPayloadOffset r3 = of_nat (length payload) \<and>
    crc_check (of_nat (length payload + unat (CrcFieldSize s))) crc r3 =
      (if 2 \<le> length payload + unat (CrcFieldSize s) then Inr True else Inl OutOfBounds)"
    by (auto simp: eq same_params_def lp)
  then show ?thesis unfolding lp by (simp add: payload_def)
qed

lemma env_rx_poll:
  "\<exists>r1. RFW_PollRxBytes (env_rx f) 1 (snd (RFW_ReceiveInit (env_rx f) fw0)) = Inr (0, r1)"
proof -
  let ?X = "env_rx f" and ?r = "snd (RFW_ReceiveInit (env_rx f) fw0)"
  have X: "RFW_ENABLE ?X" "TimerGetElapsedTime ?X h t = 10" "read_regs ?X h a n i = of_nat (length h)" for h t a n i
    by (simp_all add: env_rx_def env0_def)
  have r: "length (calls ?r) = 1" "BitRate ?r = 50"
    using X(1) by (simp_all add: RFW_ReceiveInit_def Let_def RFW_WhiteSetState_def RFW_CrcSetState_def
        SUBGRF_SetDioIrqParams_def)
  show ?thesis
    by (simp add: RFW_PollRxBytes_def X r DIVC_def) (simp add: X r poll_loop.simps)
qed

theorem frame_round_trip_witness:
  "\<exists>r2. RFW_GetPacketLength (env_rx (fw_frame fw0 [7, 8, 9])) (snd (RFW_ReceiveInit (env_rx (fw_frame fw0 [7, 8, 9])) fw0)) =
     Inr ((0, 3), r2)"
proof -
  obtain r1 where poll: "RFW_PollRxBytes (env_rx (fw_frame fw0 [7, 8, 9])) (ucast (PayloadLengthFieldSize fw0))
      (snd (RFW_ReceiveInit (env_rx (fw_frame fw0 [7, 8, 9])) fw0)) = Inr (0, r1)"
    using env_rx_poll by auto
  have len: "length (fw_frame fw0 [7, 8, 9]) = 6" by (simp add: length_fw_frame)
  obtain s' where "RFW_TransmitInit env0 [7, 8, 9, 0, 0, 0] 3 0 fw0 = Inr ((0, fw_frame fw0 [7, 8, 9], 6), s')"
    using TransmitInit_framed [of fw0 env0 3 "[7, 8, 9, 0, 0, 0]" 0] len
    by (auto simp: env0_def RADIO_BUF_SIZE_def blit_def)
  then show ?thesis
    using frame_round_trip [of fw0 fw0 "env_rx (fw_frame fw0 [7, 8, 9])" env0 "[7, 8, 9, 0, 0, 0]" 3 0
        "fw_frame fw0 [7, 8, 9]" 6 s' _ r1] env_rx_holds [of "fw_frame fw0 [7, 8, 9]"] poll len
    by (auto simp: same_params_def env_rx_def env0_def)
qed

text \<open>
  An intact frame ends the simulation. When the data of the last chunk was kept and its CRC is
  right, \<^verbatim>\<open>RFW_GetPayload\<close> asks for the carrier frequency offset before it reports the packet, and
  that request exits the process: \<^verbatim>\<open>RxDone\<close> is never called.
\<close>

theorem GetPayload_intact_exits:
  assumes "RFW_GetPayload_data X Offset Length s = Inr ((True, crc), s1)"
    and "crc_check Length crc (ext (TimerStop (FwRxTimeoutTimer s1)) s1) = Inr True"
  shows "RFW_GetPayload X Offset Length s =
    Inl (SimError ''SUBGRF_GetCFO(): lora-simulator does not support FSK'')"
  using assms by (simp add: RFW_GetPayload_def SUBGRF_GetCFO_def Let_def)

definition fw_nocrc :: fw_state where
  "fw_nocrc = fw0\<lparr>CrcEnable := 0, CrcFieldSize := 0\<rparr>"

theorem GetPayload_intact_exits_witness:
  "RFW_GetPayload env0 1 3 fw_nocrc = Inl (SimError ''SUBGRF_GetCFO(): lora-simulator does not support FSK'')"
proof -
  have sel: "length (ChunkBuffer fw_nocrc) = 255" "length (RxBuffer fw_nocrc) = 255" "CrcEnable fw_nocrc = 0"
    "CrcFieldSize fw_nocrc = 0" "LongPacketModeEnable fw_nocrc = 0" "RxPayloadOffset fw_nocrc = 0"
    by (simp_all add: fw_nocrc_def fw0_def drv_state.defs drv0_def)
  obtain crc s1 where "RFW_GetPayload_data env0 1 3 fw_nocrc = Inr ((True, crc), s1)" "CrcEnable s1 = 0"
    by (simp add: RFW_GetPayload_data_def SUBGRF_SetStandby_def chunk_read_def SUBGRF_ReadBuffer_def chunk_write_ok
        WhiteRun_ok sel Let_def RADIO_BUF_SIZE_def blit_def)
  then show ?thesis
    by (intro GetPayload_intact_exits [of env0 1 3 fw_nocrc crc s1]) (simp_all add: crc_check_def)
qed

text \<open>
  C26: the whitening sequence, whatever way a packet is cut. Start a packet with \<^verbatim>\<open>RFW_WhiteSetState\<close> and
  run it through \<^verbatim>\<open>RFW_WhiteRun\<close> in chunks of at most 255 bytes, the state saved in \<^verbatim>\<open>WhiteLfsrState\<close>
  in between. With a seed of nine bits, bit j of byte i of the packet is flipped exactly by bit 8i+j of the
  sequence that starts with the bits of the seed, lowest first, and continues with the exclusive or of
  the bits nine and four places back. A receiver with the same seed that gets the whitened bytes cut in
  any other way recovers the packet.
\<close>

theorem whitening_rechunk:
  assumes "fw_wf s" "fw_wf r" "WhiteSeed r = WhiteSeed s" "unat (WhiteSeed s) < 2 ^ 9"
    and "\<forall>c \<in> set xss \<union> set yss. length c \<le> RADIO_BUF_SIZE"
  shows "\<exists>ys s'. white_chunks xss (RFW_WhiteSetState s) = Inr (ys, s') \<and> length ys = length (concat xss) \<and>
    (\<forall>i < length ys. \<forall>j < 8. bit (ys ! i) j = (bit (concat xss ! i) j \<noteq> white_bit (WhiteSeed s) (8 * i + j))) \<and>
    (concat yss = ys \<longrightarrow> (\<exists>r'. white_chunks yss (RFW_WhiteSetState r) = Inr (concat xss, r')))"
proof -
  let ?w = "white_run (WhiteSeed s)"
  have len: "length (ChunkBuffer s) = RADIO_BUF_SIZE" "length (ChunkBuffer r) = RADIO_BUF_SIZE"
    using assms(1,2) by (simp_all add: fw_wf_def)
  obtain s' where "white_chunks xss (RFW_WhiteSetState s) = Inr (fst (?w (concat xss)), s')"
    using white_chunks_run [of xss "RFW_WhiteSetState s"] assms(5) len by (auto simp: RFW_WhiteSetState_def)
  moreover obtain r' where "white_chunks yss (RFW_WhiteSetState r) = Inr (fst (?w (concat yss)), r')"
    using white_chunks_run [of yss "RFW_WhiteSetState r"] assms(3,5) len by (auto simp: RFW_WhiteSetState_def)
  ultimately show ?thesis
    using white_run_bits [OF assms(4), of _ "concat xss"] by (auto simp: white_run_twice)
qed

theorem whitening_rechunk_witness:
  "\<exists>ys s' r'. white_chunks [[1, 2], [3]] (RFW_WhiteSetState fw0) = Inr (ys, s') \<and>
     white_chunks [ys] (RFW_WhiteSetState fw0) = Inr ([1, 2, 3], r')"
proof -
  have seed: "WhiteSeed fw0 = 0x1FF" and len: "length (ChunkBuffer fw0) = 255"
    by (simp_all add: fw0_def drv_state.defs)
  obtain s' where "white_chunks [[1, 2], [3]] (RFW_WhiteSetState fw0) = Inr (fst (white_run 0x1FF [1, 2, 3]), s')"
    using white_chunks_run [of "[[1, 2], [3]]" "RFW_WhiteSetState fw0"]
    by (auto simp: RFW_WhiteSetState_def seed len)
  with whitening_rechunk [of fw0 fw0 "[[1, 2], [3]]" "[fst (white_run 0x1FF [1, 2, 3])]"]
  show ?thesis by (auto simp: seed RADIO_BUF_SIZE_def)
qed

text \<open>
  C27: the CRC over chunks, and what it detects. Running the CRC chunk by chunk gives the CRC of the
  whole. With an odd polynomial - both polynomials of the driver are odd - two messages of the same
  length that differ only inside two adjacent bytes never have the same two CRC bytes.
\<close>

theorem crc_detects_burst:
  assumes "odd p"
  shows "snd (run_chunks (\<lambda>c xs. ([] :: u8 list, crc_run p c xs)) c xss) = crc_run p c (concat xss) \<and>
    (crc_result t (crc_run p c (xs @ [a, b] @ ys)) = crc_result t (crc_run p c (xs @ [a', b'] @ ys)) \<longrightarrow>
      a = a' \<and> b = b') \<and> odd CRC_POLYNOMIAL_IBM \<and> odd CRC_POLYNOMIAL_CCITT"
  using crc_run_burst [of p c xs a b ys a' b'] assms
  by (auto simp: crc.run_chunks_concat bit_0 dest: crc_result_inj)

theorem crc_detects_burst_witness:
  "crc_result 0xF1 (crc_run 0x8005 0xFFFF [1, 2, 3]) \<noteq> crc_result 0xF1 (crc_run 0x8005 0xFFFF [1, 2, 7])"
  using crc_detects_burst [where p = "0x8005" and c = "0xFFFF" and t = "0xF1" and xs = "[1]" and a = 2 and b = 3
      and ys = "[]" and a' = 2 and b' = 7] by simp

text \<open>
  Waiting for bytes ends. If the elapsed time the timer reports is beyond the timeout after
  enough register reads, the polling loop returns, with 0 or -1, whatever the receive pointer does;
  with a bit rate of zero it divides by zero instead.
\<close>

theorem PollRxBytes_returns:
  assumes "\<And>now. \<exists>N. \<forall>h. N \<le> length h \<longrightarrow> TimerGetElapsedTime X h now > (bytes * 8 * 1000 + BitRate s - 1) div BitRate s"
  shows "if BitRate s = 0 then RFW_PollRxBytes X bytes s = Inl DivByZero
    else \<exists>r s'. RFW_PollRxBytes X bytes s = Inr (r, s') \<and> (r = 0 \<or> r = -1) \<and>
      (\<exists>cs. s' = s\<lparr>calls := calls s @ cs\<rparr>)"
proof (cases "BitRate s = 0")
  case True
  then show ?thesis by (simp add: RFW_PollRxBytes_def DIVC_def)
next
  case False
  let ?s = "ext (ReadRegisters SUBGHZ_RXADRPTR 1) s" and ?rf = "read_regs X (calls s) SUBGHZ_RXADRPTR 1 0"
  let ?now = "TimerGetCurrentTime X (calls s)" and ?t = "(bytes * 8 * 1000 + BitRate s - 1) div BitRate s"
  obtain N where N: "\<And>h. N \<le> length h \<Longrightarrow> ?t < TimerGetElapsedTime X h ?now" using assms by blast
  obtain r s' where loop: "poll_loop X ?now ?t bytes ?rf ?rf ?s = Some (r, s')"
    using poll_loop_returns [of N ?t X ?now] N by blast
  then have "RFW_PollRxBytes X bytes s = Inr (r, s')"
    using False by (simp add: RFW_PollRxBytes_def DIVC_def)
  moreover have "r = 0 \<or> r = -1" using poll_loop_calls [OF loop] by auto
  ultimately show ?thesis using False PollRxBytes_calls by simp blast
qed

theorem PollRxBytes_returns_witness:
  "\<exists>r s'. RFW_PollRxBytes (env0\<lparr>TimerGetElapsedTime := (\<lambda>h t. 1000)\<rparr>) 1 fw0 = Inr (r, s')"
  using PollRxBytes_returns [where X = "env0\<lparr>TimerGetElapsedTime := (\<lambda>h t. 1000)\<rparr>" and bytes = 1 and s = fw0]
  by auto

text \<open>
  Initialisation of the layer. Whatever the configuration, \<^verbatim>\<open>RFW_Init\<close> answers 0 or -1. On 0 the
  layer is enabled and well formed, with the length field and CRC the configuration asks for; on -1
  it is enabled exactly if it was before. It answers -1 exactly when the build has no firmware
  packets, when there is no error callback, or for two-byte lengths without long packets.
\<close>

theorem RFW_Init_correct:
  assumes "length (ChunkBuffer s) = RADIO_BUF_SIZE" "length (RxBuffer s) = RADIO_BUF_SIZE"
  shows "let (r, s') = RFW_Init X config events tm s;
      mode = (case config of CONFIG_TX c \<Rightarrow> txf_HeaderType (tx_fsk c) | CONFIG_RX c \<Rightarrow> rxf_LengthMode (rx_fsk c));
      crc = (case config of CONFIG_TX c \<Rightarrow> txf_CrcLength (tx_fsk c) | CONFIG_RX c \<Rightarrow> rxf_CrcLength (rx_fsk c))
    in (r = 0 \<or> r = -1) \<and>
       (r = -1 \<longleftrightarrow> \<not> RFW_ENABLE X \<or> events = None \<or> (\<exists>e. events = Some e \<and> \<not> ev_RxError e) \<or>
          mode = RADIO_FSK_PACKET_2BYTES_LENGTH \<and> \<not> RFW_LONGPACKET_ENABLE X) \<and>
       (r = -1 \<longrightarrow> Enable s' = Enable s) \<and>
       (r = 0 \<longrightarrow> fw_wf s' \<and> Enable s' = 1 \<and>
          PayloadLengthFieldSize s' = (if mode = RADIO_FSK_PACKET_2BYTES_LENGTH then 2 else 1) \<and>
          CrcFieldSize s' = (if crc = RADIO_FSK_CRC_OFF then 0 else 2))"
  using assms
  by (simp add: RFW_Init_def Let_def RFW_WhiteInitState_def RFW_CrcInitState_def fw_wf_def
      split: ConfigGeneric_t.split option.split)

theorem RFW_Init_correct_witness:
  "Enable (snd (RFW_Init env0 (CONFIG_TX \<lparr>tx_fsk = \<lparr>txf_BitRate = 4800, txf_PreambleLen = 5, txf_SyncWord = [1, 2],
      txf_CrcPolynomial = 0x1021, txf_CrcSeed = 0x1D0F, txf_whiteSeed = 0x01FF, txf_SyncWordLength = 2,
      txf_ModulationShaping = 0, txf_HeaderType = 1, txf_CrcLength = 0xF2, txf_Whitening = 2,
      txf_FrequencyDeviation = 5000\<rparr>, tx_lora = \<lparr>txl_SpreadingFactor = 7, txl_Bandwidth = 4, txl_Coderate = 1,
      txl_LowDatarateOptimize = 0, txl_PreambleLen = 8, txl_LengthMode = 0, txl_CrcMode = 1, txl_IqInverted = 0\<rparr>,
      tx_bpsk_BitRate = 100\<rparr>) (FwRadioEvents fw0) TxTimeoutTimer fw0)) = 1"
proof -
  have "length (ChunkBuffer fw0) = RADIO_BUF_SIZE" "length (RxBuffer fw0) = RADIO_BUF_SIZE"
    "\<exists>e. FwRadioEvents fw0 = Some e \<and> ev_RxError e"
    by (simp_all add: fw0_def drv_state.defs drv0_def RADIO_BUF_SIZE_def)
  then show ?thesis
    using RFW_Init_correct [of fw0 env0 _ "FwRadioEvents fw0" TxTimeoutTimer]
    by (fastforce simp: Let_def split_beta env0_def)
qed

lemma next_timeout_ok: "br \<noteq> 0 \<Longrightarrow> \<exists>t. RFW_next_timeout r br = Inr t"
  by (simp add: RFW_next_timeout_def DIVC_def DIVR_def Let_def)

lemma store_intermediate_short:
  assumes "LongPacketModeEnable s \<noteq> 1" "length (RxBuffer s) = RADIO_BUF_SIZE" "unat sz \<le> length (ChunkBuffer s)"
    and "unat (RxPayloadOffset s) + 1 + unat sz \<le> RADIO_BUF_SIZE"
  shows "RFW_store_intermediate sz s =
    Inr (True, s\<lparr>RxPayloadOffset := RxPayloadOffset s + 1 + ucast sz,
      RxBuffer := blit (unat (RxPayloadOffset s) + 1) (take (unat sz) (ChunkBuffer s)) (RxBuffer s)\<rparr>)"
proof -
  have "unat (RxPayloadOffset s + 1) = unat (RxPayloadOffset s) + 1" "RxPayloadOffset s + 1 \<noteq> 0"
    using assms(4) by (simp_all add: unat_word_ariths RADIO_BUF_SIZE_def word_unat_eq_iff)
  then show ?thesis
    using assms by (simp add: RFW_store_intermediate_def Let_def)
qed

lemma intermediate_chunk_ok:
  assumes "fw_wf s" "BitRate s \<noteq> 0" "LongPacketModeEnable s \<noteq> 1"
    and "unat (RxPayloadOffset s) + 1 + unat sz \<le> RADIO_BUF_SIZE"
  shows "\<exists>s' chunk. RFW_intermediate_chunk X p sz s = Inr s' \<and> length chunk = unat sz \<and>
    RxBuffer s' = blit (unat (RxPayloadOffset s) + 1) chunk (RxBuffer s) \<and>
    RxPayloadOffset s' = RxPayloadOffset s + 1 + ucast sz"
proof -
  have "length (ChunkBuffer s) = RADIO_BUF_SIZE" "length (RxBuffer s) = RADIO_BUF_SIZE" "unat sz \<le> RADIO_BUF_SIZE"
    using assms by (simp_all add: fw_wf_def)
  moreover obtain t where "\<And>r. RFW_next_timeout r (BitRate s) = Inr (t r)"
    using next_timeout_ok [OF assms(2)] by metis
  ultimately show ?thesis
    using assms(3,4)
    by (simp add: RFW_intermediate_chunk_def Let_def chunk_read_any WhiteRun_ok CrcRun_ok store_intermediate_short)
      (rule exI, rule conjI [rotated], rule refl, simp)
qed

text \<open>
  An intermediate chunk of a short packet is stored one byte too far. In short-packet mode a
  chunk of fewer than 255 bytes that fits is copied to \<^verbatim>\<open>RxBuffer\<close> not at the offset but one above
  it, and the offset advances by the size of the chunk plus one, because the truth value of
  \<^verbatim>\<open>size < RADIO_BUF_SIZE\<close> is added to it.
\<close>

theorem GetPayloadProcess_offset:
  assumes "fw_wf s" "BitRate s \<noteq> 0" "LongPacketModeEnable s \<noteq> 1"
    and "sz = read_regs X (calls s) SUBGHZ_RXADRPTR 1 0 - RadioBufferOffset s"
    and "ucast sz < LongPacketRemainingBytes s"
    and "unat (RxPayloadOffset s) + 1 + unat sz \<le> RADIO_BUF_SIZE"
  shows "\<exists>s' chunk. RFW_GetPayloadProcess X s = Inr s' \<and> length chunk = unat sz \<and>
    RxBuffer s' = blit (unat (RxPayloadOffset s) + 1) chunk (RxBuffer s) \<and>
    RxPayloadOffset s' = RxPayloadOffset s + 1 + ucast sz"
proof -
  let ?p = "read_regs X (calls s) SUBGHZ_RXADRPTR 1 0" and ?s = "ext (ReadRegisters SUBGHZ_RXADRPTR 1) s"
  have "RFW_GetPayloadProcess X s = RFW_intermediate_chunk X ?p sz ?s"
    using assms(4,5) by (simp add: RFW_GetPayloadProcess_def Let_def)
  with intermediate_chunk_ok [of ?s sz X ?p] assms(1-3,6) show ?thesis
    by (simp add: fw_wf_def)
qed

definition fw_shortrx :: fw_state where
  "fw_shortrx = fw0\<lparr>LongPacketRemainingBytes := 180\<rparr>"

theorem GetPayloadProcess_offset_witness:
  "\<exists>s'. RFW_GetPayloadProcess (env0\<lparr>read_regs := (\<lambda>h a n i. 90)\<rparr>) fw_shortrx = Inr s' \<and> RxPayloadOffset s' = 91"
proof -
  have "fw_wf fw_shortrx" "BitRate fw_shortrx \<noteq> 0" "LongPacketModeEnable fw_shortrx \<noteq> 1" "RxPayloadOffset fw_shortrx = 0"
    "RadioBufferOffset fw_shortrx = 0" "LongPacketRemainingBytes fw_shortrx = 180"
    by (simp_all add: fw_shortrx_def fw0_def drv_state.defs drv0_def fw_wf_def RADIO_BUF_SIZE_def)
  then show ?thesis
    using GetPayloadProcess_offset [of fw_shortrx 90 "env0\<lparr>read_regs := (\<lambda>h a n i. 90)\<rparr>"]
    by (auto simp: RADIO_BUF_SIZE_def)
qed

lemma first_chunk_bounds:
  assumes "field = 1 \<or> field = 2" "crcf = 0 \<or> crcf = 2"
    and "tot = ucast payload + ucast field + ucast crcf" "first_chunk payload tot field crcf = (cs, crs)"
  shows "unat field + unat cs + unat crs \<le> RADIO_BUF_SIZE" "unat crs \<le> 2"
proof -
  have tot: "unat tot = unat payload + unat field + unat crcf"
    using assms(1-3) unat_u16_less [of payload]
    by (auto simp: unat_word_ariths unsigned_ucast_eq take_bit_eq_mod simp del: unat_u16_less)
  have "unat (ucast payload :: u8) = unat payload" if "unat payload \<le> RADIO_BUF_SIZE"
    using that by (simp add: unsigned_ucast_eq take_bit_nat_eq_self RADIO_BUF_SIZE_def)
  with assms(1,2,4) tot show "unat field + unat cs + unat crs \<le> RADIO_BUF_SIZE" "unat crs \<le> 2"
    by (auto simp: first_chunk_def RADIO_BUF_SIZE_def split: if_splits)
qed

lemma build_first_chunk_ok:
  assumes wf: "fw_wf s" and b: "unat (PayloadLengthFieldSize s) + unat cz + unat crz \<le> RADIO_BUF_SIZE" "unat crz \<le> 2"
  shows "\<exists>s'. RFW_build_first_chunk X payload cz crz s = Inr s' \<and> fw_wf s' \<and>
    calls s' = calls s @ [TxLongPacketGetNextChunkCb cz] \<and> BitRate s' = BitRate s \<and>
    PayloadLengthFieldSize s' = PayloadLengthFieldSize s \<and> FwRxTimeoutTimer s' = FwRxTimeoutTimer s"
proof -
  have "length (ChunkBuffer s) = RADIO_BUF_SIZE" "length (RxBuffer s) = RADIO_BUF_SIZE" using wf by (simp_all add: fw_wf_def)
  moreover have "1 \<le> RADIO_BUF_SIZE" "2 \<le> RADIO_BUF_SIZE" by (simp_all add: RADIO_BUF_SIZE_def)
  ultimately show ?thesis
    using wf b
    by (cases "CrcEnable s = 1")
      (simp_all add: RFW_build_first_chunk_def Let_def chunk_write_ok get_next_chunk_def CrcRun_ok WhiteRun_ok
        RFW_CrcSetState_def RFW_WhiteSetState_def fw_wf_def)
qed

text \<open>The calls of a list that concern a timer, and the writes to the radio's buffer.\<close>

fun is_timer_call :: "ext_call \<Rightarrow> bool" where
  "is_timer_call (TimerInit t cb) = True"
| "is_timer_call (TimerSetValue t v) = True"
| "is_timer_call (TimerStart t) = True"
| "is_timer_call (TimerStop t) = True"
| "is_timer_call _ = False"

fun is_buffer_write :: "ext_call \<Rightarrow> bool" where
  "is_buffer_write (WriteBuffer off bs) = True"
| "is_buffer_write _ = False"

text \<open>
  What starting a long packet of \<open>n\<close> bytes, length field and CRC included, does with the timers: nothing
  when the packet fits the radio's buffer, and otherwise the packet timer for the next chunk and the timer
  \<open>t\<close> for the whole transmission.
\<close>

definition long_packet_timers :: "nat \<Rightarrow> u32 \<Rightarrow> u32 \<Rightarrow> timer_id \<Rightarrow> ext_call list" where
  "long_packet_timers n rate timeout t =
     (if n \<le> 255 then []
      else [TimerInit RFWPacket_Timer RFW_TransmitLongPacket_NewTxChunkTimerEvent,
            TimerSetValue RFWPacket_Timer (1024000 div rate), TimerStart RFWPacket_Timer,
            TimerSetValue t timeout, TimerStart t])"

definition first_chunk_size :: "nat \<Rightarrow> nat \<Rightarrow> nat" where
  "first_chunk_size n crc = (if n \<le> 255 then n else if n < 255 + crc then 255 - crc else 255)"

lemma first_chunk_total:
  assumes "field = 1 \<or> field = 2" "crcf = 0 \<or> crcf = 2"
    and "tot = ucast payload + ucast field + ucast crcf" "first_chunk payload tot field crcf = (cs, crs)"
  shows "unat field + unat cs + unat crs = first_chunk_size (unat tot) (unat crcf)"
proof -
  have tot: "unat tot = unat payload + unat field + unat crcf"
    using assms(1-3) unat_u16_less [of payload]
    by (auto simp: unat_word_ariths unsigned_ucast_eq take_bit_eq_mod simp del: unat_u16_less)
  have "unat (ucast payload :: u8) = unat payload" if "unat payload \<le> RADIO_BUF_SIZE"
    using that by (simp add: unsigned_ucast_eq take_bit_nat_eq_self RADIO_BUF_SIZE_def)
  with assms(1,2,4) tot show ?thesis
    by (auto simp: first_chunk_def first_chunk_size_def RADIO_BUF_SIZE_def split: if_splits)
qed

lemma fsk_send_ok:
  assumes wf: "fw_wf s" and "BitRate s \<noteq> 0"
    and tot: "tot = ucast payload + ucast (PayloadLengthFieldSize s) + ucast (CrcFieldSize s)"
  shows "\<exists>s' cs bs. RFW_TransmitLongPacket_fsk X payload tot timeout s = Inr (0, s') \<and>
    fw_wf s' \<and> calls s' = calls s @ cs \<and>
    filter is_timer_call cs = long_packet_timers (unat tot) (BitRate s) timeout (FwRxTimeoutTimer s) \<and>
    filter is_buffer_write cs = [WriteBuffer 0 bs] \<and>
    length bs = first_chunk_size (unat tot) (unat (CrcFieldSize s))"
proof -
  obtain cz crz where fc: "first_chunk payload tot (PayloadLengthFieldSize s) (CrcFieldSize s) = (cz, crz)"
    by fastforce
  have b: "unat (PayloadLengthFieldSize s) + unat cz + unat crz \<le> RADIO_BUF_SIZE" "unat crz \<le> 2"
    using first_chunk_bounds [OF _ _ tot fc] wf by (auto simp: fw_wf_def)
  have total: "unat (PayloadLengthFieldSize s) + unat cz + unat crz = first_chunk_size (unat tot) (unat (CrcFieldSize s))"
    using first_chunk_total [OF _ _ tot fc] wf by (auto simp: fw_wf_def)
  let ?s = "s\<lparr>RadioBufferOffset := 0, LongPacketModeEnable := 1, LongPacketRemainingBytes := ucast tot,
    PayloadLength := ucast tot\<rparr>"
  have "fw_wf ?s" using wf by (simp add: fw_wf_def)
  with build_first_chunk_ok [of ?s cz crz X payload] b obtain s1 where
    "RFW_build_first_chunk X payload cz crz ?s = Inr s1" "fw_wf s1"
    "calls s1 = calls s @ [TxLongPacketGetNextChunkCb cz]" "BitRate s1 = BitRate s"
    "PayloadLengthFieldSize s1 = PayloadLengthFieldSize s" "FwRxTimeoutTimer s1 = FwRxTimeoutTimer s" by auto
  with assms(2) total b show ?thesis
    by (auto simp: RFW_TransmitLongPacket_fsk_def Let_def fc SUBGRF_SendPayload_def SUBGRF_SetPayload_def
        SUBGRF_WriteBuffer_def SUBGRF_SetTx_def fw_wf_def long_packet_timers_def RADIO_BUF_SIZE_def
        LONGPACKET_CHUNK_LENGTH_BYTES_def)
qed

text \<open>
  C33: starting a long packet. On a well-formed layer with a bit rate the call always returns and
  leaves the layer well formed. It refuses with -1 a build without long packets, a missing callback, a
  payload too long for the length field, a layer that is not enabled and a silicon revision below 0x1003;
  with -2 the modems LoRa, BPSK and Sigfox transmission; the Sigfox reception modem returns 0 and sends
  nothing. An accepted FSK or MSK packet of n bytes with its length field and CRC writes its first
  chunk to the start of the radio's buffer: the whole packet when n is at most 255, and otherwise 255
  bytes, less the CRC when only part of it would fit. Timers are touched only when n exceeds 255: the
  packet timer, for the time 128 bytes take, and then - for a transmission - the receive timeout timer
  recorded in the layer; no other timer is.
\<close>

theorem TransmitLongPacket_returns:
  assumes "fw_wf s" "BitRate s \<noteq> 0"
    and "n = unat payload + unat (PayloadLengthFieldSize s) + unat (CrcFieldSize s)"
  shows "\<exists>st s' cs. RFW_TransmitLongPacket X payload timeout cb s = Inr (st, s') \<and> fw_wf s' \<and>
    calls s' = calls s @ cs \<and>
    st = (if \<not> RFW_LONGPACKET_ENABLE X \<or> \<not> cb \<or> 2 ^ (8 * unat (PayloadLengthFieldSize s)) \<le> unat payload \<or>
            Enable s = 0 \<or> LL_DBGMCU_GetRevisionID X < 0x1003 then -1
          else if FwModem s \<in> {MODEM_FSK, MODEM_MSK} then if Enable s = 1 then 0 else -1
          else if FwModem s = MODEM_SIGFOX_RX then 0 else -2) \<and>
    (if st = 0 \<and> FwModem s \<in> {MODEM_FSK, MODEM_MSK}
     then filter is_timer_call cs = long_packet_timers n (BitRate s) timeout (FwRxTimeoutTimer s) \<and>
       (\<exists>bs. filter is_buffer_write cs = [WriteBuffer 0 bs] \<and>
         length bs = first_chunk_size n (unat (CrcFieldSize s)))
     else filter is_timer_call cs = [] \<and> filter is_buffer_write cs = [])"
proof -
  define tot :: u32 where "tot = ucast payload + ucast (PayloadLengthFieldSize s) + ucast (CrcFieldSize s)"
  define s1 where "s1 = RFW_TransmitLongPacket_setup s"
  have s1: "fw_wf s1" "BitRate s1 = BitRate s" "FwModem s1 = FwModem s" "FwRxTimeoutTimer s1 = FwRxTimeoutTimer s"
    "PayloadLengthFieldSize s1 = PayloadLengthFieldSize s" "CrcFieldSize s1 = CrcFieldSize s" "Enable s1 = Enable s"
    using assms(1)
    by (simp_all add: s1_def RFW_TransmitLongPacket_setup_def Let_def SUBGRF_SetSwitch_def
        SUBGRF_SetDioIrqParams_def fw_wf_def)
  have "\<exists>cs. calls s1 = calls s @ cs \<and> filter is_timer_call cs = [] \<and> filter is_buffer_write cs = []"
    by (simp add: s1_def RFW_TransmitLongPacket_setup_def Let_def SUBGRF_SetSwitch_def SUBGRF_SetDioIrqParams_def)
  then obtain cs1 where cs1: "calls s1 = calls s @ cs1" "filter is_timer_call cs1 = []" "filter is_buffer_write cs1 = []"
    by blast
  have utot: "unat tot = n"
    using assms(1,3) unat_u16_less [of payload]
    by (auto simp: tot_def fw_wf_def unat_word_ariths unsigned_ucast_eq take_bit_eq_mod simp del: unat_u16_less)
  obtain s2 cs bs where "RFW_TransmitLongPacket_fsk X payload tot timeout s1 = Inr (0, s2)" "fw_wf s2"
    "calls s2 = calls s1 @ cs" "filter is_timer_call cs = long_packet_timers n (BitRate s) timeout (FwRxTimeoutTimer s)"
    "filter is_buffer_write cs = [WriteBuffer 0 bs]" "length bs = first_chunk_size n (unat (CrcFieldSize s))"
    using fsk_send_ok [of s1 tot payload X timeout] s1 assms(2) utot by (auto simp: tot_def)
  moreover have "2 ^ (8 * unat (PayloadLengthFieldSize s)) \<le> unat payload \<longleftrightarrow>
      2 ^ (8 * unat (PayloadLengthFieldSize s)) - 1 < unat payload"
    by (simp add: less_eq_Suc_le)
  ultimately show ?thesis
    using s1 cs1 assms(1)
    by (cases "FwModem s")
      (simp_all add: RFW_TransmitLongPacket_def Let_def tot_def [symmetric] s1_def [symmetric])
qed

theorem TransmitLongPacket_returns_witness:
  "\<exists>s' cs bs. RFW_TransmitLongPacket env0 300 1000 True (fw0\<lparr>PayloadLengthFieldSize := 2\<rparr>) = Inr (0, s') \<and>
     calls s' = cs \<and> length bs = 255 \<and> filter is_buffer_write cs = [WriteBuffer 0 bs] \<and>
     filter is_timer_call cs = [TimerInit RFWPacket_Timer RFW_TransmitLongPacket_NewTxChunkTimerEvent,
       TimerSetValue RFWPacket_Timer 20480, TimerStart RFWPacket_Timer,
       TimerSetValue NullTimer 1000, TimerStart NullTimer]"
proof -
  have "fw_wf (fw0\<lparr>PayloadLengthFieldSize := 2\<rparr>)"
    by (simp add: fw0_def drv_state.defs drv0_def fw_wf_def RADIO_BUF_SIZE_def)
  then show ?thesis
    using TransmitLongPacket_returns [of "fw0\<lparr>PayloadLengthFieldSize := 2\<rparr>" 304 300 env0 1000 True]
    by (auto simp: long_packet_timers_def first_chunk_size_def env0_def)
qed

end
