(* ===== verification/Radio.thy ===== *)
theory Radio
  imports Radio_Fw
begin

text \<open>
  The radio API (\<^verbatim>\<open>radio_driver_stubs/radio.c\<close>): configuration of the modems, transmission and
  reception, time on air, the interrupt process and the callbacks of the HAL that lead to it. The
  static variables of the file, \<^verbatim>\<open>SubgRf\<close> among them, extend the state of the packet layer.
\<close>

section \<open>State\<close>

record radio_state = fw_state +
  Modem :: RadioModems_t
  RxContinuous :: bool
  TxTimeout :: u32
  RxTimeout :: u32
  PublicNetwork_Previous :: bool
  PublicNetwork_Current :: bool
  PacketParams :: PacketParams_t
  PacketStatus :: PacketStatus_t
  ModulationParams :: ModulationParams_t
  RadioIrq :: u16
  AntSwitchPaSelect :: u8
  RxDcPreambleDetectTimeout :: u32
  MaxPayloadLength :: u8
  RadioBuffer :: "u8 list"
  RadioEvents :: "RadioEvents_t option"

definition Bandwidths :: "u32 list" where
  "Bandwidths = [LORA_BW_125, LORA_BW_250, LORA_BW_500]"

definition upd_pkt :: "(PacketParams_t \<Rightarrow> PacketParams_t) \<Rightarrow> radio_state \<Rightarrow> radio_state" where
  "upd_pkt f s = s\<lparr>PacketParams := f (PacketParams s)\<rparr>"

definition upd_mod :: "(ModulationParams_t \<Rightarrow> ModulationParams_t) \<Rightarrow> radio_state \<Rightarrow> radio_state" where
  "upd_mod f s = s\<lparr>ModulationParams := f (ModulationParams s)\<rparr>"

text \<open>What the lower layers leave alone.\<close>

lemma ext_radio_sel [simp]:
  "Modem (ext c s) = Modem s" "RxContinuous (ext c s) = RxContinuous s"
  "TxTimeout (ext c s) = TxTimeout s" "RxTimeout (ext c s) = RxTimeout s"
  "PublicNetwork_Previous (ext c s) = PublicNetwork_Previous s" "PublicNetwork_Current (ext c s) = PublicNetwork_Current s"
  "PacketParams (ext c s) = PacketParams s" "PacketStatus (ext c s) = PacketStatus s"
  "ModulationParams (ext c s) = ModulationParams s" "RadioIrq (ext c s) = RadioIrq s"
  "AntSwitchPaSelect (ext c s) = AntSwitchPaSelect s" "RxDcPreambleDetectTimeout (ext c s) = RxDcPreambleDetectTimeout s"
  "MaxPayloadLength (ext c s) = MaxPayloadLength s" "RadioBuffer (ext c s) = RadioBuffer s"
  "RadioEvents (ext c s) = RadioEvents s"
  by (simp_all add: ext_def)

lemma WriteCommand_radio_sel [simp]:
  "Modem (SUBGRF_WriteCommand c b s) = Modem s" "RxContinuous (SUBGRF_WriteCommand c b s) = RxContinuous s"
  "TxTimeout (SUBGRF_WriteCommand c b s) = TxTimeout s" "RxTimeout (SUBGRF_WriteCommand c b s) = RxTimeout s"
  "PublicNetwork_Previous (SUBGRF_WriteCommand c b s) = PublicNetwork_Previous s" "PublicNetwork_Current (SUBGRF_WriteCommand c b s) = PublicNetwork_Current s"
  "PacketParams (SUBGRF_WriteCommand c b s) = PacketParams s" "PacketStatus (SUBGRF_WriteCommand c b s) = PacketStatus s"
  "ModulationParams (SUBGRF_WriteCommand c b s) = ModulationParams s" "RadioIrq (SUBGRF_WriteCommand c b s) = RadioIrq s"
  "AntSwitchPaSelect (SUBGRF_WriteCommand c b s) = AntSwitchPaSelect s" "RxDcPreambleDetectTimeout (SUBGRF_WriteCommand c b s) = RxDcPreambleDetectTimeout s"
  "MaxPayloadLength (SUBGRF_WriteCommand c b s) = MaxPayloadLength s" "RadioBuffer (SUBGRF_WriteCommand c b s) = RadioBuffer s"
  "RadioEvents (SUBGRF_WriteCommand c b s) = RadioEvents s"
  by (simp_all add: SUBGRF_WriteCommand_def Let_def ext_def)

lemma WriteRegisters_radio_sel [simp]:
  "Modem (SUBGRF_WriteRegisters a b s) = Modem s" "RxContinuous (SUBGRF_WriteRegisters a b s) = RxContinuous s"
  "TxTimeout (SUBGRF_WriteRegisters a b s) = TxTimeout s" "RxTimeout (SUBGRF_WriteRegisters a b s) = RxTimeout s"
  "PublicNetwork_Previous (SUBGRF_WriteRegisters a b s) = PublicNetwork_Previous s" "PublicNetwork_Current (SUBGRF_WriteRegisters a b s) = PublicNetwork_Current s"
  "PacketParams (SUBGRF_WriteRegisters a b s) = PacketParams s" "PacketStatus (SUBGRF_WriteRegisters a b s) = PacketStatus s"
  "ModulationParams (SUBGRF_WriteRegisters a b s) = ModulationParams s" "RadioIrq (SUBGRF_WriteRegisters a b s) = RadioIrq s"
  "AntSwitchPaSelect (SUBGRF_WriteRegisters a b s) = AntSwitchPaSelect s" "RxDcPreambleDetectTimeout (SUBGRF_WriteRegisters a b s) = RxDcPreambleDetectTimeout s"
  "MaxPayloadLength (SUBGRF_WriteRegisters a b s) = MaxPayloadLength s" "RadioBuffer (SUBGRF_WriteRegisters a b s) = RadioBuffer s"
  "RadioEvents (SUBGRF_WriteRegisters a b s) = RadioEvents s"
  by (simp_all add: SUBGRF_WriteRegisters_def Let_def ext_def)

lemma SetPacketType_radio_sel [simp]:
  "PublicNetwork_Previous (SUBGRF_SetPacketType t s) = PublicNetwork_Previous s"
  "PublicNetwork_Current (SUBGRF_SetPacketType t s) = PublicNetwork_Current s"
  by (simp_all add: SUBGRF_SetPacketType_def Let_def)

lemma SetRadioModem_radio_sel [simp]:
  "PublicNetwork_Previous (RFW_SetRadioModem X m s) = PublicNetwork_Previous s"
  "PublicNetwork_Current (RFW_SetRadioModem X m s) = PublicNetwork_Current s"
  by (simp_all add: RFW_SetRadioModem_def)

section \<open>Modems\<close>

text \<open>
  \<^verbatim>\<open>RadioSetModem\<close> and \<^verbatim>\<open>RadioSetPublicNetwork\<close> call each other. The second makes the two network
  flags equal before it calls the first, and the first calls back only when they differ.
\<close>

function RadioSetModem :: "env \<Rightarrow> RadioModems_t \<Rightarrow> radio_state \<Rightarrow> radio_state"
  and RadioSetPublicNetwork :: "env \<Rightarrow> bool \<Rightarrow> radio_state \<Rightarrow> radio_state" where
  "RadioSetModem X modem s =
     (let s = s\<lparr>Modem := modem\<rparr>;
          s = RFW_SetRadioModem X modem s
      in case modem of
           MODEM_MSK \<Rightarrow>
             (let s = SUBGRF_SetPacketType PACKET_TYPE_GMSK s in s\<lparr>PublicNetwork_Current := False\<rparr>)
         | MODEM_FSK \<Rightarrow>
             (let s = SUBGRF_SetPacketType PACKET_TYPE_GFSK s in s\<lparr>PublicNetwork_Current := False\<rparr>)
         | MODEM_LORA \<Rightarrow>
             (let s = SUBGRF_SetPacketType PACKET_TYPE_LORA s
              in if PublicNetwork_Current s \<noteq> PublicNetwork_Previous s then
                   let s = s\<lparr>PublicNetwork_Current := PublicNetwork_Previous s\<rparr>
                   in RadioSetPublicNetwork X (PublicNetwork_Current s) s
                 else s)
         | MODEM_BPSK \<Rightarrow>
             (let s = SUBGRF_SetPacketType PACKET_TYPE_BPSK s in s\<lparr>PublicNetwork_Current := False\<rparr>)
         | MODEM_SIGFOX_TX \<Rightarrow>
             (let s = SUBGRF_SetPacketType PACKET_TYPE_BPSK s in s\<lparr>PublicNetwork_Current := False\<rparr>)
         | MODEM_SIGFOX_RX \<Rightarrow>
             (let s = SUBGRF_SetPacketType PACKET_TYPE_GFSK s in s\<lparr>PublicNetwork_Current := False\<rparr>))"
| "RadioSetPublicNetwork X enable s =
     (let s = s\<lparr>PublicNetwork_Current := enable, PublicNetwork_Previous := enable\<rparr>;
          s = RadioSetModem X MODEM_LORA s
      in if enable then
           let s = SUBGRF_WriteRegister REG_LR_SYNCWORD (byte_at 8 LORA_MAC_PUBLIC_SYNCWORD) s
           in SUBGRF_WriteRegister (REG_LR_SYNCWORD + 1) (byte_at 0 LORA_MAC_PUBLIC_SYNCWORD) s
         else
           let s = SUBGRF_WriteRegister REG_LR_SYNCWORD (byte_at 8 LORA_MAC_PRIVATE_SYNCWORD) s
           in SUBGRF_WriteRegister (REG_LR_SYNCWORD + 1) (byte_at 0 LORA_MAC_PRIVATE_SYNCWORD) s)"
  by pat_completeness auto

termination
  by (relation "measure (\<lambda>c. case c of
        Inl (X, modem, s) \<Rightarrow> if PublicNetwork_Current s \<noteq> PublicNetwork_Previous s then 2 else 0
      | Inr (X, enable, s) \<Rightarrow> 1)")
    auto

declare RadioSetModem.simps [simp del] RadioSetPublicNetwork.simps [simp del]

section \<open>Basic operations\<close>

definition RadioStandby :: "radio_state \<Rightarrow> radio_state" where
  "RadioStandby s = SUBGRF_SetStandby STDBY_RC s"

definition RadioSleep :: "radio_state \<Rightarrow> radio_state" where
  "RadioSleep s =
     (let params = push_bit 2 1 :: SleepParams_t;
          s = SUBGRF_SetSleep params s
      in ext (Delay_ms 2) s)"

definition RadioInit :: "env \<Rightarrow> RadioEvents_t option \<Rightarrow> radio_state \<Rightarrow> radio_state" where
  "RadioInit X events s =
     (let s = s\<lparr>RadioEvents := events\<rparr>;
          s = s\<lparr>RxContinuous := False\<rparr>;
          s = s\<lparr>TxTimeout := 0\<rparr>;
          s = s\<lparr>RxTimeout := 0\<rparr>;
          s = s\<lparr>RxDcPreambleDetectTimeout := 0\<rparr>;
          s = SUBGRF_Init X (Some RadioOnDioIrq_handler) s;
          s = s\<lparr>PublicNetwork_Current := False\<rparr>;
          s = s\<lparr>PublicNetwork_Previous := False\<rparr>;
          s = SUBGRF_SetRegulatorMode X s;
          s = SUBGRF_SetBufferBaseAddress 0x00 0x00 s;
          s = SUBGRF_SetTxParams X RFO_LP 0 RADIO_RAMP_200_US s;
          s = SUBGRF_SetDioIrqParams IRQ_RADIO_ALL IRQ_RADIO_ALL IRQ_RADIO_NONE IRQ_RADIO_NONE s;
          s = RadioSleep s;
          s = ext (TimerInit TxTimeoutTimer RadioOnTxTimeoutIrq) s;
          s = ext (TimerInit RxTimeoutTimer RadioOnRxTimeoutIrq) s;
          s = ext (TimerStop TxTimeoutTimer) s
      in ext (TimerStop RxTimeoutTimer) s)"

definition RadioGetStatus :: "radio_state \<Rightarrow> RadioState_t" where
  "RadioGetStatus s =
     (case SUBGRF_GetOperatingMode s of
        MODE_TX \<Rightarrow> RF_TX_RUNNING
      | MODE_RX \<Rightarrow> RF_RX_RUNNING
      | MODE_CAD \<Rightarrow> RF_CAD
      | _ \<Rightarrow> RF_IDLE)"

definition RadioSetChannel :: "u32 \<Rightarrow> radio_state \<Rightarrow> radio_state" where
  "RadioSetChannel freq s = SUBGRF_SetRfFrequency freq s"

definition RadioRandom :: "env \<Rightarrow> radio_state \<Rightarrow> u32 \<times> radio_state" where
  "RadioRandom X s =
     (let s = SUBGRF_SetDioIrqParams IRQ_RADIO_NONE IRQ_RADIO_NONE IRQ_RADIO_NONE IRQ_RADIO_NONE s
      in SUBGRF_GetRandom X s)"

definition RadioCheckRfFrequency :: "u32 \<Rightarrow> bool" where
  "RadioCheckRfFrequency frequency = True"

definition RadioGetWakeupTime :: u32 where
  "RadioGetWakeupTime = SUBGRF_GetRadioWakeUpTime + RADIO_WAKEUP_TIME"

definition RadioRssi :: "env \<Rightarrow> RadioModems_t \<Rightarrow> radio_state \<Rightarrow> int \<times> radio_state" where
  "RadioRssi X modem s = SUBGRF_GetRssiInst X s"

definition RadioWrite :: "u16 \<Rightarrow> u8 \<Rightarrow> radio_state \<Rightarrow> radio_state" where
  "RadioWrite addr data s = SUBGRF_WriteRegister addr data s"

definition RadioRead :: "env \<Rightarrow> u16 \<Rightarrow> radio_state \<Rightarrow> u8 \<times> radio_state" where
  "RadioRead X addr s = SUBGRF_ReadRegister X addr s"

definition RadioWriteRegisters :: "u16 \<Rightarrow> u8 list \<Rightarrow> radio_state \<Rightarrow> radio_state" where
  "RadioWriteRegisters addr buffer s = SUBGRF_WriteRegisters addr buffer s"

definition RadioReadRegisters :: "env \<Rightarrow> u16 \<Rightarrow> nat \<Rightarrow> radio_state \<Rightarrow> u8 list \<times> radio_state" where
  "RadioReadRegisters X addr n s = SUBGRF_ReadRegisters X addr n s"

definition RadioSetMaxPayloadLength :: "RadioModems_t \<Rightarrow> u8 \<Rightarrow> radio_state \<Rightarrow> radio_state" where
  "RadioSetMaxPayloadLength modem mx s =
     (if modem = MODEM_LORA then
        let s = s\<lparr>MaxPayloadLength := mx\<rparr>;
            s = upd_pkt (\<lambda>p. p\<lparr>pkt_LoRa_PayloadLength := mx\<rparr>) s
        in SUBGRF_SetPacketParams (PacketParams s) s
      else if pkt_Gfsk_HeaderType (PacketParams s) = RADIO_PACKET_VARIABLE_LENGTH then
        let s = s\<lparr>MaxPayloadLength := mx\<rparr>;
            s = upd_pkt (\<lambda>p. p\<lparr>pkt_Gfsk_PayloadLength := mx\<rparr>) s
        in SUBGRF_SetPacketParams (PacketParams s) s
      else s)"

section \<open>LoRa and transmit configuration\<close>

text \<open>The registers the errata work-arounds read, change and write back.\<close>

definition iq_workaround :: "env \<Rightarrow> radio_state \<Rightarrow> radio_state" where
  "iq_workaround X s =
     (let (r, s) = SUBGRF_ReadRegister X SUBGHZ_LIQPOLR s
      in if pkt_LoRa_InvertIQ (PacketParams s) = LORA_IQ_INVERTED
         then SUBGRF_WriteRegister SUBGHZ_LIQPOLR (r AND NOT (push_bit 2 1)) s
         else SUBGRF_WriteRegister SUBGHZ_LIQPOLR (r OR push_bit 2 1) s)"

definition bw500_workaround :: "env \<Rightarrow> bool \<Rightarrow> radio_state \<Rightarrow> radio_state" where
  "bw500_workaround X is_bw500 s =
     (let (r, s) = SUBGRF_ReadRegister X SUBGHZ_SDCFG0R s
      in if is_bw500 then SUBGRF_WriteRegister SUBGHZ_SDCFG0R (r AND NOT (push_bit 2 1)) s
         else SUBGRF_WriteRegister SUBGHZ_SDCFG0R (r OR push_bit 2 1) s)"

text \<open>Low data rate optimisation and the preamble of the fast spreading factors.\<close>

definition low_datarate :: "u32 \<Rightarrow> u32 \<Rightarrow> bool" where
  "low_datarate bandwidth datarate \<longleftrightarrow>
     bandwidth = 0 \<and> (datarate = 11 \<or> datarate = 12) \<or> bandwidth = 1 \<and> datarate = 12"

definition lora_preamble :: "u32 \<Rightarrow> u16 \<Rightarrow> u16" where
  "lora_preamble sf preambleLen =
     (if sf = LORA_SF5 \<or> sf = LORA_SF6 then (if preambleLen < 12 then 12 else preambleLen) else preambleLen)"

text \<open>
  The part \<^verbatim>\<open>RadioSetRxConfig\<close> and \<^verbatim>\<open>RadioSetTxConfig\<close> share: the LoRa modulation and packet parameters.
  An index past the three entries of \<^verbatim>\<open>Bandwidths\<close> reads outside the array.
\<close>

definition lora_params ::
  "u32 \<Rightarrow> u32 \<Rightarrow> u8 \<Rightarrow> u16 \<Rightarrow> bool \<Rightarrow> bool \<Rightarrow> bool \<Rightarrow> radio_state \<Rightarrow> radio_state result" where
  "lora_params bandwidth datarate coderate preambleLen fixLen crcOn iqInverted s =
     (if unat bandwidth \<ge> length Bandwidths then Inl OutOfBounds else
      let s = upd_mod (\<lambda>m. m\<lparr>mod_PacketType := PACKET_TYPE_LORA,
                mod_LoRa_SpreadingFactor := datarate,
                mod_LoRa_Bandwidth := Bandwidths ! unat bandwidth,
                mod_LoRa_CodingRate := ucast coderate\<rparr>) s;
          s = upd_mod (\<lambda>m. m\<lparr>mod_LoRa_LowDatarateOptimize :=
                if low_datarate bandwidth datarate then 0x01 else 0x00\<rparr>) s;
          s = upd_pkt (\<lambda>p. p\<lparr>pkt_PacketType := PACKET_TYPE_LORA\<rparr>) s;
          s = upd_pkt (\<lambda>p. p\<lparr>pkt_LoRa_PreambleLength :=
                lora_preamble (mod_LoRa_SpreadingFactor (ModulationParams s)) preambleLen\<rparr>) s;
          s = upd_pkt (\<lambda>p. p\<lparr>pkt_LoRa_HeaderType := (if fixLen then 1 else 0),
                pkt_LoRa_PayloadLength := MaxPayloadLength s,
                pkt_LoRa_CrcMode := (if crcOn then 1 else 0),
                pkt_LoRa_InvertIQ := (if iqInverted then 1 else 0)\<rparr>) s
      in Inr s)"

definition apply_params :: "env \<Rightarrow> RadioModems_t \<Rightarrow> radio_state \<Rightarrow> radio_state result" where
  "apply_params X modem s =
     (let s = RadioStandby s;
          s = RadioSetModem X modem s
      in bindr (SUBGRF_SetModulationParams (ModulationParams s) s) (\<lambda>s.
         Inr (SUBGRF_SetPacketParams (PacketParams s) s)))"

definition RadioSetRxConfig ::
  "env \<Rightarrow> RadioModems_t \<Rightarrow> u32 \<Rightarrow> u32 \<Rightarrow> u8 \<Rightarrow> u32 \<Rightarrow> u16 \<Rightarrow> u16 \<Rightarrow> bool \<Rightarrow> u8 \<Rightarrow> bool \<Rightarrow> bool \<Rightarrow> u8 \<Rightarrow> bool \<Rightarrow> bool
     \<Rightarrow> radio_state \<Rightarrow> radio_state result" where
  "RadioSetRxConfig X modem bandwidth datarate coderate bandwidthAfc preambleLen symbTimeout fixLen payloadLen
     crcOn freqHopOn hopPeriod iqInverted rxContinuous s =
     (if modem \<noteq> MODEM_LORA
      then Inl (SimError ''Lora is the only modem type supported by lora-simulator'') else
      let s = s\<lparr>RxContinuous := rxContinuous\<rparr>;
          s = RFW_DeInit X s;
          symbTimeout = (if rxContinuous then 0 else symbTimeout);
          s = s\<lparr>MaxPayloadLength := if fixLen then payloadLen else 0xFF\<rparr>;
          s = SUBGRF_SetStopRxTimerOnPreambleDetect False s
      in bindr (lora_params bandwidth datarate coderate preambleLen fixLen crcOn iqInverted s) (\<lambda>s.
         bindr (apply_params X MODEM_LORA s) (\<lambda>s.
         let s = SUBGRF_SetLoRaSymbNumTimeout (ucast symbTimeout) s;
             (r, s) = SUBGRF_ReadRegister X SUBGHZ_AGCCFG s;
             s = SUBGRF_WriteRegister SUBGHZ_AGCCFG (r AND 0x1) s;
             s = iq_workaround X s
         in Inr (s\<lparr>RxTimeout := 0xFFFF\<rparr>))))"

definition RadioSetTxConfig ::
  "env \<Rightarrow> RadioModems_t \<Rightarrow> int \<Rightarrow> u32 \<Rightarrow> u32 \<Rightarrow> u32 \<Rightarrow> u8 \<Rightarrow> u16 \<Rightarrow> bool \<Rightarrow> bool \<Rightarrow> bool \<Rightarrow> u8 \<Rightarrow> bool \<Rightarrow> u32
     \<Rightarrow> radio_state \<Rightarrow> radio_state result" where
  "RadioSetTxConfig X modem txPower fdev bandwidth datarate coderate preambleLen fixLen crcOn freqHopOn hopPeriod
     iqInverted timeout s =
     (let s = RFW_DeInit X s
      in bindr
           (case modem of
              MODEM_FSK \<Rightarrow> Inl (SimError ''FSK is not supported by lora-simulator'')
            | MODEM_LORA \<Rightarrow>
                bindr (lora_params bandwidth datarate coderate preambleLen fixLen crcOn iqInverted s)
                  (apply_params X MODEM_LORA)
            | MODEM_SIGFOX_TX \<Rightarrow> Inl (SimError ''FSK is not supported by lora-simulator'')
            | _ \<Rightarrow> Inr s) (\<lambda>s.
         let (pa, s) = SUBGRF_SetRfTxPower X txPower s;
             s = s\<lparr>AntSwitchPaSelect := pa\<rparr>;
             s = SUBGRF_WriteRegister REG_DRV_CTRL (push_bit 1 0x7) s;
             s = RFW_SetAntSwitch X (AntSwitchPaSelect s) s
         in Inr (s\<lparr>TxTimeout := timeout\<rparr>)))"

section \<open>Time on air\<close>

definition RadioGetLoRaBandwidthInHz :: "u32 \<Rightarrow> u32" where
  "RadioGetLoRaBandwidthInHz bw =
     (if bw = LORA_BW_007 then 7812
      else if bw = LORA_BW_010 then 10417
      else if bw = LORA_BW_015 then 15625
      else if bw = LORA_BW_020 then 20833
      else if bw = LORA_BW_031 then 31250
      else if bw = LORA_BW_041 then 41667
      else if bw = LORA_BW_062 then 62500
      else if bw = LORA_BW_125 then 125000
      else if bw = LORA_BW_250 then 250000
      else if bw = LORA_BW_500 then 500000
      else 0)"

definition RadioGetGfskTimeOnAirNumerator :: "u32 \<Rightarrow> u8 \<Rightarrow> u16 \<Rightarrow> bool \<Rightarrow> u8 \<Rightarrow> bool \<Rightarrow> u32" where
  "RadioGetGfskTimeOnAirNumerator datarate coderate preambleLen fixLen payloadLen crcOn =
     push_bit 3 (ucast preambleLen) + (if fixLen = False then 8 else 0) + 24 +
     push_bit 3 (ucast payloadLen + (if crcOn then 2 else 0))"

text \<open>
  The sums mix \<^verbatim>\<open>int\<close> with the \<^verbatim>\<open>uint32_t\<close> data rate, so they are taken modulo 2^32 and stored as
  \<^verbatim>\<open>int32_t\<close>. A shift by 32 or more and a product beyond \<^verbatim>\<open>int32_t\<close> are undefined.
\<close>

definition RadioGetLoRaTimeOnAirNumerator ::
  "u32 \<Rightarrow> u32 \<Rightarrow> u8 \<Rightarrow> u16 \<Rightarrow> bool \<Rightarrow> u8 \<Rightarrow> bool \<Rightarrow> u32 result" where
  "RadioGetLoRaTimeOnAirNumerator bandwidth datarate coderate preambleLen fixLen payloadLen crcOn =
     (let crDenom = uint coderate + 4;
          preambleLen = (if datarate = 5 \<or> datarate = 6 then (if preambleLen < 12 then 12 else preambleLen)
                         else preambleLen);
          lowDatareOptimize = low_datarate bandwidth datarate;
          ceilNumerator = to_i32 (uint payloadLen * 8 + (if crcOn then 16 else 0) - 4 * uint datarate +
                            (if fixLen then 0 else 20));
          (ceilNumerator, ceilDenominator) =
            (if datarate \<le> 6 then (ceilNumerator, to_i32 (4 * uint datarate))
             else (ceilNumerator + 8,
                   if lowDatareOptimize then to_i32 (4 * (uint datarate - 2)) else to_i32 (4 * uint datarate)));
          ceilNumerator = (if ceilNumerator < 0 then 0 else ceilNumerator)
      in if ceilDenominator = 0 then Inl DivByZero else
         let intermediate = cdiv (ceilNumerator + ceilDenominator - 1) ceilDenominator * crDenom +
                              uint preambleLen + 12;
             intermediate = (if datarate \<le> 6 then intermediate + 2 else intermediate)
         in if unat (datarate - 2) \<ge> 32 then Inl Undefined else
            let product = (4 * intermediate + 1) * 2 ^ unat (datarate - 2)
            in if product \<ge> 2 ^ 31 \<or> product < - (2 ^ 31) then Inl Undefined else Inr (word_of_int product))"

definition RadioTimeOnAir ::
  "RadioModems_t \<Rightarrow> u32 \<Rightarrow> u32 \<Rightarrow> u8 \<Rightarrow> u16 \<Rightarrow> bool \<Rightarrow> u8 \<Rightarrow> bool \<Rightarrow> u32 result" where
  "RadioTimeOnAir modem bandwidth datarate coderate preambleLen fixLen payloadLen crcOn =
     (case modem of
        MODEM_FSK \<Rightarrow>
          DIVC (1000 * RadioGetGfskTimeOnAirNumerator datarate coderate preambleLen fixLen payloadLen crcOn) datarate
      | MODEM_LORA \<Rightarrow>
          bindr (RadioGetLoRaTimeOnAirNumerator bandwidth datarate coderate preambleLen fixLen payloadLen crcOn)
            (\<lambda>numerator.
              if unat bandwidth \<ge> length Bandwidths then Inl OutOfBounds
              else DIVC (1000 * numerator) (RadioGetLoRaBandwidthInHz (Bandwidths ! unat bandwidth)))
      | _ \<Rightarrow> DIVC 0 1)"

section \<open>Transmission\<close>

text \<open>
  The differential encoding of a Sigfox frame: the loop body for bit \<open>i\<close>, with the running
  \<^verbatim>\<open>prevInt\<close> and the output buffer, and the whole function. It clears the first \<^verbatim>\<open>size\<close> bytes of the
  output, inverts the input in place and writes \<^verbatim>\<open>size + 1\<close> bytes, past the end of a 255-byte buffer
  when \<^verbatim>\<open>size\<close> is 255. The value is the output and the inverted input.
\<close>

definition integration_step :: "u8 list \<Rightarrow> nat \<Rightarrow> u8 \<times> u8 list \<Rightarrow> u8 \<times> u8 list" where
  "integration_step inBuffer i po =
     (let (prevInt, outBuffer) = po;
          index_bit = 7 - i mod 8;
          index_byte = i div 8;
          index_bit_out = 7 - (i + 1) mod 8;
          index_byte_out = (i + 1) div 8;
          currBit = drop_bit index_bit (inBuffer ! index_byte) AND 0x01;
          prevInt = prevInt XOR currBit
      in (prevInt, outBuffer[index_byte_out := outBuffer ! index_byte_out OR push_bit index_bit_out prevInt]))"

definition payload_integration :: "u8 list \<Rightarrow> u8 list \<Rightarrow> (u8 list \<times> u8 list) result" where
  "payload_integration outBuffer inBuffer =
     (let sz = length inBuffer
      in if sz \<ge> length outBuffer then Inl OutOfBounds else
         let inBuffer = map (\<lambda>b. NOT b) inBuffer;
             outBuffer = blit 0 (replicate sz 0) outBuffer;
             (prevInt, outBuffer) = fold (integration_step inBuffer) [0..<sz * 8] (0, outBuffer);
             tail = push_bit 7 prevInt OR push_bit 6 prevInt OR push_bit 5 (if prevInt = 0 then 1 else 0)
         in Inr (outBuffer[sz := tail], inBuffer))"

definition start_tx_timer :: "radio_state \<Rightarrow> radio_state" where
  "start_tx_timer s =
     (let s = ext (TimerSetValue TxTimeoutTimer (TxTimeout s)) s in ext (TimerStart TxTimeoutTimer) s)"

text \<open>The switch of \<^verbatim>\<open>RadioSend\<close> on the modem, for FSK and MSK and for Sigfox.\<close>

definition RadioSend_fsk ::
  "env \<Rightarrow> u8 list \<Rightarrow> u8 \<Rightarrow> radio_state \<Rightarrow> ((radio_status_t \<times> u8 list) \<times> radio_state) result" where
  "RadioSend_fsk X buffer sz s =
     (let send = (\<lambda>buffer n s.
            let s = upd_pkt (\<lambda>p. p\<lparr>pkt_Gfsk_PayloadLength := n\<rparr>) s;
                s = SUBGRF_SetPacketParams (PacketParams s) s
            in bindr (read_bytes (unat n) buffer) (\<lambda>bs.
               let s = SUBGRF_SendPayload bs 0 s
               in Inr ((RADIO_STATUS_OK, buffer), start_tx_timer s)))
      in if RFW_Is_Init X s = 1 then
           bindr (RFW_TransmitInit X buffer sz (uninit X 1 s ! 0) s) (\<lambda>((status, buffer, outsize), s).
             if status = 0 then send buffer outsize s else Inr ((RADIO_STATUS_ERROR, buffer), s))
         else send buffer sz s)"

definition RadioSend_sigfox ::
  "u8 list \<Rightarrow> u8 \<Rightarrow> radio_state \<Rightarrow> ((radio_status_t \<times> u8 list) \<times> radio_state) result" where
  "RadioSend_sigfox buffer sz s =
     bindr (read_bytes (unat sz) buffer) (\<lambda>payload.
     bindr (payload_integration (RadioBuffer s) payload) (\<lambda>(rb, payload').
       let s = s\<lparr>RadioBuffer := rb\<rparr>;
           s = upd_pkt (\<lambda>p. p\<lparr>pkt_PacketType := PACKET_TYPE_BPSK, pkt_Bpsk_PayloadLength := sz + 1\<rparr>) s;
           s = SUBGRF_SetPacketParams (PacketParams s) s;
           s = RadioWrite SUBGHZ_RAM_RAMPUPL 0 s;
           s = RadioWrite SUBGHZ_RAM_RAMPUPH 0 s;
           s = (if mod_Bpsk_BitRate (ModulationParams s) = 100 then
                  let s = RadioWrite SUBGHZ_RAM_RAMPDNL 0x70 s in RadioWrite SUBGHZ_RAM_RAMPDNH 0x1D s
                else
                  let s = RadioWrite SUBGHZ_RAM_RAMPDNL 0xE1 s in RadioWrite SUBGHZ_RAM_RAMPDNH 0x04 s);
           bitNum = of_nat (unat sz * 8 + 2) :: u16;
           s = RadioWrite SUBGHZ_RAM_FRAMELIMH (byte_at 8 bitNum) s;
           s = RadioWrite SUBGHZ_RAM_FRAMELIML (byte_at 0 bitNum) s;
           s = SUBGRF_SendPayload (take (unat (sz + 1)) rb) 0xFFFFFF s
       in Inr ((RADIO_STATUS_OK, payload' @ drop (unat sz) buffer), start_tx_timer s)))"

text \<open>
  \<^verbatim>\<open>RadioSend\<close> of the first \<open>sz\<close> bytes of the caller's whole buffer; its value has the contents that
  buffer ends with, since the firmware packets and the Sigfox encoding work in it.
\<close>

definition RadioSend ::
  "env \<Rightarrow> u8 list \<Rightarrow> u8 \<Rightarrow> radio_state \<Rightarrow> ((radio_status_t \<times> u8 list) \<times> radio_state) result" where
  "RadioSend X buffer sz s =
     (let s = SUBGRF_SetDioIrqParams (IRQ_TX_DONE OR IRQ_RX_TX_TIMEOUT) (IRQ_TX_DONE OR IRQ_RX_TX_TIMEOUT)
                IRQ_RADIO_NONE IRQ_RADIO_NONE s;
          s = ext (Probe DBG_GPIO_RADIO_TX True) s;
          s = SUBGRF_SetSwitch (AntSwitchPaSelect s) RFSWITCH_TX s;
          s = bw500_workaround X (Modem s = MODEM_LORA \<and> mod_LoRa_Bandwidth (ModulationParams s) = LORA_BW_500) s
      in case Modem s of
           MODEM_LORA \<Rightarrow>
             (let s = upd_pkt (\<lambda>p. p\<lparr>pkt_LoRa_PayloadLength := sz\<rparr>) s;
                  s = SUBGRF_SetPacketParams (PacketParams s) s
              in bindr (read_bytes (unat sz) buffer) (\<lambda>bs.
                 let s = SUBGRF_SendPayload bs 0 s
                 in Inr ((RADIO_STATUS_OK, buffer), start_tx_timer s)))
         | MODEM_MSK \<Rightarrow> RadioSend_fsk X buffer sz s
         | MODEM_FSK \<Rightarrow> RadioSend_fsk X buffer sz s
         | MODEM_BPSK \<Rightarrow>
             (let s = upd_pkt (\<lambda>p. p\<lparr>pkt_PacketType := PACKET_TYPE_BPSK,
                        pkt_Bpsk_PayloadLength := sz\<rparr>) s;
                  s = SUBGRF_SetPacketParams (PacketParams s) s
              in bindr (read_bytes (unat sz) buffer) (\<lambda>bs.
                 let s = SUBGRF_SendPayload bs 0 s
                 in Inr ((RADIO_STATUS_OK, buffer), start_tx_timer s)))
         | MODEM_SIGFOX_TX \<Rightarrow> RadioSend_sigfox buffer sz s
         | MODEM_SIGFOX_RX \<Rightarrow> Inr ((RADIO_STATUS_OK, buffer), start_tx_timer s))"

section \<open>Reception\<close>

definition rx_irq_mask :: u16 where
  "rx_irq_mask = IRQ_RX_DONE OR IRQ_RX_TX_TIMEOUT OR IRQ_CRC_ERROR OR IRQ_HEADER_ERROR"

text \<open>What \<^verbatim>\<open>RadioRx\<close> and \<^verbatim>\<open>RadioRxBoosted\<close> do before they start the receiver.\<close>

definition rx_setup :: "env \<Rightarrow> u32 \<Rightarrow> radio_state \<Rightarrow> radio_state" where
  "rx_setup X timeout s =
     (let s = (if RFW_Is_Init X s = 1 then snd (RFW_ReceiveInit X s)
               else SUBGRF_SetDioIrqParams rx_irq_mask rx_irq_mask IRQ_RADIO_NONE IRQ_RADIO_NONE s);
          s = (if timeout \<noteq> 0 then
                 let s = ext (TimerSetValue RxTimeoutTimer timeout) s in ext (TimerStart RxTimeoutTimer) s
               else s);
          s = s\<lparr>RxDcPreambleDetectTimeout := 0\<rparr>;
          s = ext (Probe DBG_GPIO_RADIO_RX True) s
      in SUBGRF_SetSwitch (AntSwitchPaSelect s) RFSWITCH_RX s)"

definition RadioRx :: "env \<Rightarrow> u32 \<Rightarrow> radio_state \<Rightarrow> radio_state" where
  "RadioRx X timeout s =
     (let s = rx_setup X timeout s
      in if RxContinuous s then SUBGRF_SetRx 0xFFFFFF s else SUBGRF_SetRx (push_bit 6 (RxTimeout s)) s)"

definition RadioRxBoosted :: "env \<Rightarrow> u32 \<Rightarrow> radio_state \<Rightarrow> radio_state" where
  "RadioRxBoosted X timeout s =
     (let s = rx_setup X timeout s
      in if RxContinuous s then SUBGRF_SetRxBoosted 0xFFFFFF s else SUBGRF_SetRxBoosted (push_bit 6 (RxTimeout s)) s)"

definition RadioSetRxDutyCycle :: "u32 \<Rightarrow> u32 \<Rightarrow> radio_state \<Rightarrow> radio_state" where
  "RadioSetRxDutyCycle rxTime sleepTime s =
     (let s = s\<lparr>RxDcPreambleDetectTimeout := 2 * rxTime + sleepTime\<rparr>;
          s = SUBGRF_SetDioIrqParams IRQ_RADIO_ALL IRQ_RADIO_ALL IRQ_RADIO_NONE IRQ_RADIO_NONE s;
          s = SUBGRF_SetSwitch (AntSwitchPaSelect s) RFSWITCH_RX s
      in SUBGRF_SetRxDutyCycle rxTime sleepTime s)"

definition RadioStartCad :: "radio_state \<Rightarrow> radio_state" where
  "RadioStartCad s =
     (let s = SUBGRF_SetSwitch (AntSwitchPaSelect s) RFSWITCH_RX s;
          s = SUBGRF_SetDioIrqParams (IRQ_CAD_CLEAR OR IRQ_CAD_DETECTED) (IRQ_CAD_CLEAR OR IRQ_CAD_DETECTED)
                IRQ_RADIO_NONE IRQ_RADIO_NONE s
      in SUBGRF_SetCad s)"

definition RadioSetTxContinuousWave :: "env \<Rightarrow> u32 \<Rightarrow> int \<Rightarrow> u16 \<Rightarrow> radio_state \<Rightarrow> radio_state" where
  "RadioSetTxContinuousWave X freq txPower time s =
     (let timeout = ucast time * 1000 :: u32;
          s = SUBGRF_SetRfFrequency freq s;
          (antswitchpow, s) = SUBGRF_SetRfTxPower X txPower s;
          s = SUBGRF_WriteRegister REG_DRV_CTRL (push_bit 1 0x7) s;
          s = SUBGRF_SetSwitch antswitchpow RFSWITCH_TX s;
          s = SUBGRF_SetTxContinuousWave s;
          s = ext (TimerSetValue TxTimeoutTimer timeout) s
      in ext (TimerStart TxTimeoutTimer) s)"

definition RadioTxPrbs :: "radio_state \<Rightarrow> radio_state" where
  "RadioTxPrbs s =
     (let s = SUBGRF_SetSwitch (AntSwitchPaSelect s) RFSWITCH_TX s;
          s = RadioWrite SUBGHZ_GPKTCTL1AR 0x2d s;
          s = SUBGRF_SetTxInfinitePreamble s
      in SUBGRF_SetTx 0x0fffff s)"

definition RadioTxCw :: "env \<Rightarrow> int \<Rightarrow> radio_state \<Rightarrow> radio_state" where
  "RadioTxCw X txPower s =
     (let (paselect, s) = SUBGRF_SetRfTxPower X txPower s;
          s = SUBGRF_WriteRegister REG_DRV_CTRL (push_bit 1 0x7) s;
          s = SUBGRF_SetSwitch paselect RFSWITCH_TX s
      in SUBGRF_SetTxContinuousWave s)"

text \<open>
  The carrier sense loop; without an end it has the value \<open>None\<close>. \<^verbatim>\<open>RadioIsChannelFree\<close> configures the
  receiver for FSK first.
\<close>

partial_function (option) carrier_sense ::
  "env \<Rightarrow> u32 \<Rightarrow> int \<Rightarrow> u32 \<Rightarrow> radio_state \<Rightarrow> (bool \<times> radio_state) option" where
  "carrier_sense X carrierSenseTime rssiThresh maxCarrierSenseTime s =
     (if TimerGetElapsedTime X (calls s) carrierSenseTime < maxCarrierSenseTime then
        (if fst (RadioRssi X MODEM_FSK s) > rssiThresh then Some (False, snd (RadioRssi X MODEM_FSK s))
         else carrier_sense X carrierSenseTime rssiThresh maxCarrierSenseTime (snd (RadioRssi X MODEM_FSK s)))
      else Some (True, s))"

definition RadioIsChannelFree ::
  "env \<Rightarrow> u32 \<Rightarrow> u32 \<Rightarrow> int \<Rightarrow> u32 \<Rightarrow> radio_state \<Rightarrow> (bool \<times> radio_state) result" where
  "RadioIsChannelFree X freq rxBandwidth rssiThresh maxCarrierSenseTime s =
     (let s = RadioStandby s;
          s = RadioSetModem X MODEM_FSK s;
          s = RadioSetChannel freq s
      in bindr (RadioSetRxConfig X MODEM_FSK rxBandwidth 600 0 rxBandwidth 3 0 False 0 False False 0 False True s) (\<lambda>s.
         let s = RadioRx X 0 s;
             s = ext (Delay_ms RadioGetWakeupTime) s;
             carrierSenseTime = TimerGetCurrentTime X (calls s)
         in case carrier_sense X carrierSenseTime rssiThresh maxCarrierSenseTime s of
              None \<Rightarrow> Inl Diverges
            | Some (status, s) \<Rightarrow> Inr (status, RadioStandby s)))"

section \<open>Interrupts\<close>

text \<open>A callback of the application, called when it is set.\<close>

definition notify :: "(RadioEvents_t \<Rightarrow> bool) \<Rightarrow> ext_call \<Rightarrow> radio_state \<Rightarrow> radio_state" where
  "notify ev c s = (case RadioEvents s of Some e \<Rightarrow> if ev e then ext c s else s | None \<Rightarrow> s)"

definition RadioOnTxTimeoutProcess :: "radio_state \<Rightarrow> radio_state" where
  "RadioOnTxTimeoutProcess s =
     (let s = ext (Probe DBG_GPIO_RADIO_TX False) s in notify ev_TxTimeout TxTimeoutCb s)"

definition RadioOnRxTimeoutProcess :: "radio_state \<Rightarrow> radio_state" where
  "RadioOnRxTimeoutProcess s =
     (let s = ext (Probe DBG_GPIO_RADIO_RX False) s in notify ev_RxTimeout RxTimeoutCb s)"

definition RadioOnTxTimeoutIrq_fn :: "radio_state \<Rightarrow> radio_state" where
  "RadioOnTxTimeoutIrq_fn s = RadioOnTxTimeoutProcess s"

definition RadioOnRxTimeoutIrq_fn :: "radio_state \<Rightarrow> radio_state" where
  "RadioOnRxTimeoutIrq_fn s = RadioOnRxTimeoutProcess s"

text \<open>The cases of \<^verbatim>\<open>RadioIrqProcess\<close>.\<close>

definition irq_tx_done :: "env \<Rightarrow> radio_state \<Rightarrow> radio_state" where
  "irq_tx_done X s =
     (let s = ext (Probe DBG_GPIO_RADIO_TX False) s;
          s = ext (TimerStop TxTimeoutTimer) s;
          s = SUBGRF_SetStandby STDBY_RC s;
          s = (if RFW_Is_LongPacketModeEnabled X s = 1 then RFW_DeInit_TxLongPacket X s else s)
      in notify ev_TxDone TxDone s)"

text \<open>The standby and the work-around that end a reception outside continuous mode.\<close>

definition rx_done_standby :: "env \<Rightarrow> radio_state \<Rightarrow> radio_state" where
  "rx_done_standby X s =
     (if RxContinuous s = False then
        let s = SUBGRF_SetStandby STDBY_RC s;
            s = SUBGRF_WriteRegister SUBGHZ_RTCCTLR 0x00 s;
            (r, s) = SUBGRF_ReadRegister X SUBGHZ_EVENTMASKR s
        in SUBGRF_WriteRegister SUBGHZ_EVENTMASKR (r OR push_bit 1 1) s
      else s)"

definition irq_rx_done :: "env \<Rightarrow> radio_state \<Rightarrow> radio_state result" where
  "irq_rx_done X s =
     (let s = ext (Probe DBG_GPIO_RADIO_RX False) s;
          s = ext (TimerStop RxTimeoutTimer) s;
          s = rx_done_standby X s;
          ((status, sz, bytes), s) = SUBGRF_GetPayload X 255 s
      in bindr (copy_into 0 bytes (RadioBuffer s)) (\<lambda>rb.
         let s = s\<lparr>RadioBuffer := rb\<rparr>;
             (ps, s) = SUBGRF_GetPacketStatus X (PacketStatus s) s;
             s = s\<lparr>PacketStatus := ps\<rparr>
         in case RadioEvents s of
              None \<Rightarrow> Inr s
            | Some e \<Rightarrow>
                if \<not> ev_RxDone e then Inr s else
                (case ps_packetType (PacketStatus s) of
                   PACKET_TYPE_LORA \<Rightarrow>
                     Inr (ext (RxDone (take (unat sz) (RadioBuffer s)) (ucast sz)
                            (ps_LoRa_RssiPkt (PacketStatus s)) (ps_LoRa_SnrPkt (PacketStatus s))) s)
                 | _ \<Rightarrow>
                     bindr (SUBGRF_GetCFO (mod_Gfsk_BitRate (ModulationParams s))) (\<lambda>cfo.
                       Inr (ext (RxDone (take (unat sz) (RadioBuffer s)) (ucast sz)
                              (ps_Gfsk_RssiAvg (PacketStatus s)) (to_i8 (cdiv (cfo + 500) 1000))) s)))))"

definition irq_cad :: "bool \<Rightarrow> radio_state \<Rightarrow> radio_state" where
  "irq_cad detected s =
     (let s = SUBGRF_SetStandby STDBY_RC s in notify ev_CadDone (CadDone detected) s)"

definition irq_rx_tx_timeout :: "radio_state \<Rightarrow> radio_state" where
  "irq_rx_tx_timeout s =
     (if SUBGRF_GetOperatingMode s = MODE_TX then
        let s = ext (Probe DBG_GPIO_RADIO_TX False) s;
            s = ext (TimerStop TxTimeoutTimer) s;
            s = SUBGRF_SetStandby STDBY_RC s
        in notify ev_TxTimeout TxTimeoutCb s
      else if SUBGRF_GetOperatingMode s = MODE_RX then
        let s = ext (Probe DBG_GPIO_RADIO_RX False) s;
            s = ext (TimerStop RxTimeoutTimer) s;
            s = SUBGRF_SetStandby STDBY_RC s
        in notify ev_RxTimeout RxTimeoutCb s
      else s)"

definition irq_preamble_detected :: "env \<Rightarrow> radio_state \<Rightarrow> radio_state" where
  "irq_preamble_detected X s =
     (if RxDcPreambleDetectTimeout s \<noteq> 0 then
        let s = RadioWrite SUBGHZ_RTCPRDR2 (byte_at 16 (RxDcPreambleDetectTimeout s)) s;
            s = RadioWrite SUBGHZ_RTCPRDR1 (byte_at 8 (RxDcPreambleDetectTimeout s)) s;
            s = RadioWrite SUBGHZ_RTCPRDR0 (byte_at 0 (RxDcPreambleDetectTimeout s)) s;
            (r, s) = RadioRead X SUBGHZ_RTCCTLR s;
            s = RadioWrite SUBGHZ_RTCCTLR (r OR 0x1) s;
            s = s\<lparr>RxDcPreambleDetectTimeout := 0\<rparr>
        in SUBGRF_SetDioIrqParams rx_irq_mask rx_irq_mask IRQ_RADIO_NONE IRQ_RADIO_NONE s
      else s)"

definition RadioIrqProcess :: "env \<Rightarrow> radio_state \<Rightarrow> radio_state result" where
  "RadioIrqProcess X s =
     (let irq = RadioIrq s
      in if irq = IRQ_TX_DONE then Inr (irq_tx_done X s)
         else if irq = IRQ_RX_DONE then irq_rx_done X s
         else if irq = IRQ_CAD_CLEAR then Inr (irq_cad False s)
         else if irq = IRQ_CAD_DETECTED then Inr (irq_cad True s)
         else if irq = IRQ_RX_TX_TIMEOUT then Inr (irq_rx_tx_timeout s)
         else if irq = IRQ_PREAMBLE_DETECTED then Inr (irq_preamble_detected X s)
         else if irq = IRQ_SYNCWORD_VALID then
           (if RFW_Is_Init X s = 1 then RFW_ReceivePayload X s else Inr s)
         else if irq = IRQ_HEADER_VALID then Inr s
         else if irq = IRQ_HEADER_ERROR then
           (let s = ext (TimerStop RxTimeoutTimer) s;
                s = (if RxContinuous s = False then SUBGRF_SetStandby STDBY_RC s else s)
            in Inr (notify ev_RxTimeout RxTimeoutCb s))
         else if irq = IRQ_CRC_ERROR then
           (let s = (if RxContinuous s = False then SUBGRF_SetStandby STDBY_RC s else s)
            in Inr (notify ev_RxError RxError s))
         else Inr s)"

definition RadioOnDioIrq :: "env \<Rightarrow> u16 \<Rightarrow> radio_state \<Rightarrow> radio_state result" where
  "RadioOnDioIrq X radioIrq s = (let s = s\<lparr>RadioIrq := radioIrq\<rparr> in RadioIrqProcess X s)"

text \<open>The HAL's callbacks in \<^verbatim>\<open>radio_driver.c\<close> call the handler that \<^verbatim>\<open>SUBGRF_Init\<close> recorded.\<close>

definition call_RadioOnDioIrqCb :: "env \<Rightarrow> u16 \<Rightarrow> radio_state \<Rightarrow> radio_state result" where
  "call_RadioOnDioIrqCb X irq s = (case RadioOnDioIrqCb s of
       None \<Rightarrow> Inl NullDeref
     | Some RadioOnDioIrq_handler \<Rightarrow> RadioOnDioIrq X irq s)"

definition HAL_SUBGHZ_TxCpltCallback_fn :: "env \<Rightarrow> radio_state \<Rightarrow> radio_state result" where
  "HAL_SUBGHZ_TxCpltCallback_fn X s = call_RadioOnDioIrqCb X IRQ_TX_DONE s"

definition HAL_SUBGHZ_RxCpltCallback_fn :: "env \<Rightarrow> radio_state \<Rightarrow> radio_state result" where
  "HAL_SUBGHZ_RxCpltCallback_fn X s = call_RadioOnDioIrqCb X IRQ_RX_DONE s"

definition HAL_SUBGHZ_CRCErrorCallback_fn :: "env \<Rightarrow> radio_state \<Rightarrow> radio_state result" where
  "HAL_SUBGHZ_CRCErrorCallback_fn X s = call_RadioOnDioIrqCb X IRQ_CRC_ERROR s"

definition HAL_SUBGHZ_CADStatusCallback_fn ::
  "env \<Rightarrow> HAL_SUBGHZ_CadStatusTypeDef \<Rightarrow> radio_state \<Rightarrow> radio_state result" where
  "HAL_SUBGHZ_CADStatusCallback_fn X cadstatus s = (case cadstatus of
       HAL_SUBGHZ_CAD_CLEAR \<Rightarrow> call_RadioOnDioIrqCb X IRQ_CAD_CLEAR s
     | HAL_SUBGHZ_CAD_DETECTED \<Rightarrow> call_RadioOnDioIrqCb X IRQ_CAD_DETECTED s)"

definition HAL_SUBGHZ_RxTxTimeoutCallback_fn :: "env \<Rightarrow> radio_state \<Rightarrow> radio_state result" where
  "HAL_SUBGHZ_RxTxTimeoutCallback_fn X s = call_RadioOnDioIrqCb X IRQ_RX_TX_TIMEOUT s"

definition HAL_SUBGHZ_HeaderErrorCallback_fn :: "env \<Rightarrow> radio_state \<Rightarrow> radio_state result" where
  "HAL_SUBGHZ_HeaderErrorCallback_fn X s = call_RadioOnDioIrqCb X IRQ_HEADER_ERROR s"

definition HAL_SUBGHZ_PreambleDetectedCallback_fn :: "env \<Rightarrow> radio_state \<Rightarrow> radio_state result" where
  "HAL_SUBGHZ_PreambleDetectedCallback_fn X s = call_RadioOnDioIrqCb X IRQ_PREAMBLE_DETECTED s"

definition HAL_SUBGHZ_SyncWordValidCallback_fn :: "env \<Rightarrow> radio_state \<Rightarrow> radio_state result" where
  "HAL_SUBGHZ_SyncWordValidCallback_fn X s = call_RadioOnDioIrqCb X IRQ_SYNCWORD_VALID s"

definition HAL_SUBGHZ_HeaderValidCallback_fn :: "env \<Rightarrow> radio_state \<Rightarrow> radio_state result" where
  "HAL_SUBGHZ_HeaderValidCallback_fn X s = call_RadioOnDioIrqCb X IRQ_HEADER_VALID s"

section \<open>Generic configuration\<close>

datatype GenericModems_t = GENERIC_FSK | GENERIC_LORA | GENERIC_BPSK | GENERIC_MSK

definition RADIO_LORA_LOWDR_OPT_OFF :: u32 where [simp]: "RADIO_LORA_LOWDR_OPT_OFF = 0x00"
definition RADIO_LORA_LOWDR_OPT_ON :: u32 where [simp]: "RADIO_LORA_LOWDR_OPT_ON = 0x01"
definition RADIO_LORA_LOWDR_OPT_AUTO :: u32 where [simp]: "RADIO_LORA_LOWDR_OPT_AUTO = 0x02"

text \<open>The three-way choice of the low data rate optimisation; another value leaves it as it was.\<close>

definition low_datarate_opt :: "u32 \<Rightarrow> u32 \<Rightarrow> u8 \<Rightarrow> u8" where
  "low_datarate_opt opt sf old =
     (if opt = RADIO_LORA_LOWDR_OPT_OFF then 0
      else if opt = RADIO_LORA_LOWDR_OPT_ON then 1
      else if opt = RADIO_LORA_LOWDR_OPT_AUTO then (if sf = LORA_SF11 \<or> sf = LORA_SF12 then 1 else 0)
      else old)"

text \<open>
  The synchronisation word: eight zero bytes with the configured ones copied over their start; a
  pointer with fewer bytes behind it than announced is read past its end.
\<close>

definition copy_syncword :: "u8 list \<Rightarrow> u8 \<Rightarrow> u8 list result" where
  "copy_syncword SyncWord n =
     (if unat n > length SyncWord then Inl OutOfBounds
      else copy_into 0 (take (unat n) SyncWord) (replicate 8 0))"

text \<open>The CRC types a firmware packet supports.\<close>

definition fw_crc_supported :: "u32 \<Rightarrow> bool" where
  "fw_crc_supported crc \<longleftrightarrow>
     crc = RADIO_FSK_CRC_2_BYTES_IBM \<or> crc = RADIO_FSK_CRC_2_BYTES_CCIT \<or> crc = RADIO_FSK_CRC_OFF"

text \<open>
  CRC, whitening and length mode of an FSK or MSK configuration: done by the firmware, with the
  radio's own switched off, or by the radio. The value is whether the configuration is accepted.
\<close>

definition fsk_packet_engine ::
  "env \<Rightarrow> ConfigGeneric_t \<Rightarrow> timer_id \<Rightarrow> u32 \<Rightarrow> u32 \<Rightarrow> u32 \<Rightarrow> radio_state \<Rightarrow> bool \<times> radio_state" where
  "fsk_packet_engine X config tm whitening header crc s =
     (if whitening = RADIO_FSK_DC_IBM_WHITENING \<or> header = RADIO_FSK_PACKET_2BYTES_LENGTH then
        if \<not> fw_crc_supported crc then (False, s) else
        let (r, s) = RFW_Init X config (RadioEvents s) tm s
        in if r \<noteq> 0 then (False, s)
           else (True, upd_pkt (\<lambda>p. p\<lparr>pkt_Gfsk_DcFree := RADIO_FSK_DC_FREE_OFF,
                   pkt_Gfsk_CrcLength := RADIO_CRC_OFF, pkt_Gfsk_HeaderType := RADIO_PACKET_FIXED_LENGTH\<rparr>) s)
      else (True, upd_pkt (\<lambda>p. p\<lparr>pkt_Gfsk_CrcLength := crc, pkt_Gfsk_DcFree := whitening,
              pkt_Gfsk_HeaderType := header\<rparr>) s))"

text \<open>The commands that end an FSK or MSK configuration.\<close>

definition apply_fsk ::
  "env \<Rightarrow> RadioModems_t \<Rightarrow> u8 list \<Rightarrow> u16 \<Rightarrow> u16 \<Rightarrow> radio_state \<Rightarrow> radio_state result" where
  "apply_fsk X modem syncword whiteSeed crcPolynomial s =
     bindr (apply_params X modem s) (\<lambda>s.
       let s = snd (SUBGRF_SetSyncWord syncword s);
           s = SUBGRF_SetWhiteningSeed X whiteSeed s
       in Inr (SUBGRF_SetCrcPolynomial crcPolynomial s))"

definition RadioSetRxGenericConfig ::
  "env \<Rightarrow> GenericModems_t \<Rightarrow> RxConfigGeneric_t \<Rightarrow> u32 \<Rightarrow> u32 \<Rightarrow> radio_state \<Rightarrow> (int \<times> radio_state) result" where
  "RadioSetRxGenericConfig X modem config rxContinuous symbTimeout s =
     (let s = RFW_DeInit X s;
          symbTimeout = (if rxContinuous \<noteq> 0 then 0 else symbTimeout);
          s = s\<lparr>RxContinuous := rxContinuous \<noteq> 0\<rparr>
      in case modem of
           GENERIC_FSK \<Rightarrow>
             (let f = rx_fsk config
              in if rxf_BitRate f = 0 \<or> rxf_PreambleLen f = 0 \<or> rxf_SyncWordLength f > 8 then Inr (-1, s) else
                 bindr (copy_syncword (rxf_SyncWord f) (rxf_SyncWordLength f)) (\<lambda>syncword.
                 let s = SUBGRF_SetStopRxTimerOnPreambleDetect (rxf_StopTimerOnPreambleDetect f \<noteq> 0) s;
                     s = upd_mod (\<lambda>m. m\<lparr>mod_PacketType := PACKET_TYPE_GFSK, mod_Gfsk_BitRate := rxf_BitRate f,
                           mod_Gfsk_ModulationShaping := rxf_ModulationShaping f\<rparr>) s
                 in bindr (SUBGRF_GetFskBandwidthRegValue (rxf_Bandwidth f)) (\<lambda>bw.
                 let s = upd_mod (\<lambda>m. m\<lparr>mod_Gfsk_Bandwidth := bw\<rparr>) s;
                     s = upd_pkt (\<lambda>p. p\<lparr>pkt_PacketType := PACKET_TYPE_GFSK,
                           pkt_Gfsk_PreambleLength := ucast (push_bit 3 (rxf_PreambleLen f)),
                           pkt_Gfsk_PreambleMinDetect := rxf_PreambleMinDetect f,
                           pkt_Gfsk_SyncWordLength := push_bit 3 (rxf_SyncWordLength f),
                           pkt_Gfsk_AddrComp := rxf_AddrComp f,
                           pkt_Gfsk_PayloadLength :=
                             (if rxf_LengthMode f = RADIO_FSK_PACKET_FIXED_LENGTH
                              then ucast (rxf_MaxPayloadLength f) else 0xFF)\<rparr>) s;
                     (ok, s) = fsk_packet_engine X (CONFIG_RX config) RxTimeoutTimer (rxf_Whitening f)
                                 (rxf_LengthMode f) (rxf_CrcLength f) s
                 in if \<not> ok then Inr (-1, s) else
                    bindr (apply_fsk X MODEM_FSK syncword (rxf_whiteSeed f) (rxf_CrcPolynomial f) s) (\<lambda>s.
                      Inr (0, s\<lparr>RxTimeout := (symbTimeout * 1000 * 8) div rxf_BitRate f\<rparr>)))))
         | GENERIC_LORA \<Rightarrow>
             (let l = rx_lora config
              in if rxl_PreambleLen l = 0 then Inr (-1, s) else
                 let maxPayload = (if rxl_LengthMode l = LORA_PACKET_FIXED_LENGTH then rxl_MaxPayloadLength l else 0xFF);
                     s = SUBGRF_SetStopRxTimerOnPreambleDetect (rxl_StopTimerOnPreambleDetect l \<noteq> 0) s;
                     s = SUBGRF_SetLoRaSymbNumTimeout (ucast symbTimeout) s;
                     s = upd_mod (\<lambda>m. m\<lparr>mod_PacketType := PACKET_TYPE_LORA,
                           mod_LoRa_SpreadingFactor := rxl_SpreadingFactor l, mod_LoRa_Bandwidth := rxl_Bandwidth l,
                           mod_LoRa_CodingRate := rxl_Coderate l,
                           mod_LoRa_LowDatarateOptimize :=
                             low_datarate_opt (rxl_LowDatarateOptimize l) (rxl_SpreadingFactor l)
                               (mod_LoRa_LowDatarateOptimize m)\<rparr>) s;
                     s = upd_pkt (\<lambda>p. p\<lparr>pkt_PacketType := PACKET_TYPE_LORA,
                           pkt_LoRa_PreambleLength := rxl_PreambleLen l, pkt_LoRa_HeaderType := rxl_LengthMode l,
                           pkt_LoRa_PayloadLength := maxPayload, pkt_LoRa_CrcMode := rxl_CrcMode l,
                           pkt_LoRa_InvertIQ := rxl_IqInverted l\<rparr>) s
                 in bindr (apply_params X MODEM_LORA s) (\<lambda>s.
                    let s = iq_workaround X s in Inr (0, s\<lparr>RxTimeout := 0xFFFF\<rparr>)))
         | _ \<Rightarrow> Inr (0, s))"

text \<open>
  The transmit side. For MSK up to 10 kbit/s the radio's MSK modem is used, above it the FSK modem
  with a deviation of a quarter of the bit rate.
\<close>

definition tx_gfsk_packet :: "generic_param_tx_fsk_t \<Rightarrow> radio_state \<Rightarrow> radio_state" where
  "tx_gfsk_packet f s =
     upd_pkt (\<lambda>p. p\<lparr>pkt_Gfsk_PreambleLength := ucast (push_bit 3 (txf_PreambleLen f)),
       pkt_Gfsk_PreambleMinDetect := RADIO_PREAMBLE_DETECTOR_08_BITS,
       pkt_Gfsk_SyncWordLength := push_bit 3 (txf_SyncWordLength f),
       pkt_Gfsk_AddrComp := RADIO_ADDRESSCOMP_FILT_OFF\<rparr>) s"

definition tx_generic_msk ::
  "env \<Rightarrow> TxConfigGeneric_t \<Rightarrow> radio_state \<Rightarrow> (bool \<times> radio_state) result" where
  "tx_generic_msk X config s =
     (let f = tx_fsk config
      in if txf_SyncWordLength f > 8 then Inr (False, s) else
         bindr (copy_syncword (txf_SyncWord f) (txf_SyncWordLength f)) (\<lambda>syncword.
         if txf_BitRate f = 0 then Inr (False, s) else
         let (radio_modem, s) =
               (if txf_BitRate f \<le> 10000 then
                  let s = upd_pkt (\<lambda>p. p\<lparr>pkt_PacketType := PACKET_TYPE_GMSK\<rparr>) s
                  in (MODEM_MSK, upd_mod (\<lambda>m. m\<lparr>mod_PacketType := PACKET_TYPE_GMSK,
                        mod_Gfsk_BitRate := txf_BitRate f,
                        mod_Gfsk_ModulationShaping := txf_ModulationShaping f\<rparr>) s)
                else
                  let s = upd_pkt (\<lambda>p. p\<lparr>pkt_PacketType := PACKET_TYPE_GFSK\<rparr>) s
                  in (MODEM_FSK, upd_mod (\<lambda>m. m\<lparr>mod_PacketType := PACKET_TYPE_GFSK,
                        mod_Gfsk_BitRate := txf_BitRate f,
                        mod_Gfsk_ModulationShaping := txf_ModulationShaping f,
                        mod_Gfsk_Fdev := txf_BitRate f div 4\<rparr>) s));
             s = tx_gfsk_packet f s;
             (ok, s) = fsk_packet_engine X (CONFIG_TX config) TxTimeoutTimer (txf_Whitening f)
                         (txf_HeaderType f) (txf_CrcLength f) s
         in if \<not> ok then Inr (False, s) else
            bindr (apply_fsk X radio_modem syncword (txf_whiteSeed f) (txf_CrcPolynomial f) s) (\<lambda>s. Inr (True, s))))"

definition tx_generic_fsk ::
  "env \<Rightarrow> TxConfigGeneric_t \<Rightarrow> radio_state \<Rightarrow> (bool \<times> radio_state) result" where
  "tx_generic_fsk X config s =
     (let f = tx_fsk config
      in if txf_BitRate f = 0 \<or> txf_SyncWordLength f > 8 then Inr (False, s) else
         bindr (copy_syncword (txf_SyncWord f) (txf_SyncWordLength f)) (\<lambda>syncword.
         let s = upd_mod (\<lambda>m. m\<lparr>mod_PacketType := PACKET_TYPE_GFSK, mod_Gfsk_BitRate := txf_BitRate f,
                   mod_Gfsk_ModulationShaping := txf_ModulationShaping f,
                   mod_Gfsk_Fdev := txf_FrequencyDeviation f\<rparr>) s;
             s = upd_pkt (\<lambda>p. p\<lparr>pkt_PacketType := PACKET_TYPE_GFSK\<rparr>) s;
             s = tx_gfsk_packet f s;
             (ok, s) = fsk_packet_engine X (CONFIG_TX config) TxTimeoutTimer (txf_Whitening f)
                         (txf_HeaderType f) (txf_CrcLength f) s
         in if \<not> ok then Inr (False, s) else
            bindr (apply_fsk X MODEM_FSK syncword (txf_whiteSeed f) (txf_CrcPolynomial f) s) (\<lambda>s. Inr (True, s))))"

definition tx_generic_lora ::
  "env \<Rightarrow> TxConfigGeneric_t \<Rightarrow> radio_state \<Rightarrow> (bool \<times> radio_state) result" where
  "tx_generic_lora X config s =
     (let l = tx_lora config;
          s = upd_mod (\<lambda>m. m\<lparr>mod_PacketType := PACKET_TYPE_LORA,
                mod_LoRa_SpreadingFactor := txl_SpreadingFactor l, mod_LoRa_Bandwidth := txl_Bandwidth l,
                mod_LoRa_CodingRate := txl_Coderate l,
                mod_LoRa_LowDatarateOptimize :=
                  low_datarate_opt (txl_LowDatarateOptimize l) (txl_SpreadingFactor l)
                    (mod_LoRa_LowDatarateOptimize m)\<rparr>) s;
          s = upd_pkt (\<lambda>p. p\<lparr>pkt_PacketType := PACKET_TYPE_LORA, pkt_LoRa_PreambleLength := txl_PreambleLen l,
                pkt_LoRa_HeaderType := txl_LengthMode l, pkt_LoRa_CrcMode := txl_CrcMode l,
                pkt_LoRa_InvertIQ := txl_IqInverted l\<rparr>) s
      in bindr (apply_params X MODEM_LORA s) (\<lambda>s.
         Inr (True, bw500_workaround X (mod_LoRa_Bandwidth (ModulationParams s) = LORA_BW_500) s)))"

definition tx_generic_bpsk ::
  "env \<Rightarrow> TxConfigGeneric_t \<Rightarrow> radio_state \<Rightarrow> (bool \<times> radio_state) result" where
  "tx_generic_bpsk X config s =
     (if tx_bpsk_BitRate config = 0 \<or> tx_bpsk_BitRate config > 1000 then Inr (False, s) else
      let s = RadioSetModem X MODEM_BPSK s;
          s = upd_mod (\<lambda>m. m\<lparr>mod_PacketType := PACKET_TYPE_BPSK, mod_Bpsk_BitRate := tx_bpsk_BitRate config,
                mod_Bpsk_ModulationShaping := MOD_SHAPING_DBPSK\<rparr>) s
      in bindr (SUBGRF_SetModulationParams (ModulationParams s) s) (\<lambda>s. Inr (True, s)))"

definition RadioSetTxGenericConfig ::
  "env \<Rightarrow> GenericModems_t \<Rightarrow> TxConfigGeneric_t \<Rightarrow> int \<Rightarrow> u32 \<Rightarrow> radio_state \<Rightarrow> (int \<times> radio_state) result" where
  "RadioSetTxGenericConfig X modem config txPower timeout s =
     (let s = RFW_DeInit X s
      in bindr (case modem of
                  GENERIC_MSK \<Rightarrow> tx_generic_msk X config s
                | GENERIC_FSK \<Rightarrow> tx_generic_fsk X config s
                | GENERIC_LORA \<Rightarrow> tx_generic_lora X config s
                | GENERIC_BPSK \<Rightarrow> tx_generic_bpsk X config s) (\<lambda>(ok, s).
         if \<not> ok then Inr (-1, s) else
         let (pa, s) = SUBGRF_SetRfTxPower X txPower s;
             s = s\<lparr>AntSwitchPaSelect := pa\<rparr>;
             s = RFW_SetAntSwitch X (AntSwitchPaSelect s) s
         in Inr (0, s\<lparr>TxTimeout := timeout\<rparr>)))"

section \<open>A radio after power-on\<close>

text \<open>
  The static variables as the program starts (all zero but \<^verbatim>\<open>MaxPayloadLength\<close>), with an application
  that sets all its callbacks, used where a property is applied to data.
\<close>

definition events0 :: RadioEvents_t where
  "events0 = \<lparr>ev_TxDone = True, ev_TxTimeout = True, ev_RxDone = True, ev_RxTimeout = True,
     ev_RxError = True, ev_CadDone = True\<rparr>"

definition radio0 :: radio_state where
  "radio0 = fw_state.extend (fw0\<lparr>Enable := 0\<rparr>)
     \<lparr>Modem = MODEM_FSK, RxContinuous = False, TxTimeout = 0, RxTimeout = 0, PublicNetwork_Previous = False,
      PublicNetwork_Current = False,
      PacketParams = \<lparr>pkt_PacketType = PACKET_TYPE_GFSK, pkt_Gfsk_PreambleLength = 0, pkt_Gfsk_PreambleMinDetect = 0,
        pkt_Gfsk_SyncWordLength = 0, pkt_Gfsk_AddrComp = 0, pkt_Gfsk_HeaderType = 0, pkt_Gfsk_PayloadLength = 0,
        pkt_Gfsk_CrcLength = 0, pkt_Gfsk_DcFree = 0, pkt_Bpsk_PayloadLength = 0, pkt_LoRa_PreambleLength = 0,
        pkt_LoRa_HeaderType = 0, pkt_LoRa_PayloadLength = 0, pkt_LoRa_CrcMode = 0, pkt_LoRa_InvertIQ = 0\<rparr>,
      PacketStatus = PacketStatus_zero,
      ModulationParams = \<lparr>mod_PacketType = PACKET_TYPE_GFSK, mod_Gfsk_BitRate = 0, mod_Gfsk_Fdev = 0,
        mod_Gfsk_ModulationShaping = 0, mod_Gfsk_Bandwidth = 0, mod_Bpsk_BitRate = 0, mod_Bpsk_ModulationShaping = 0,
        mod_LoRa_SpreadingFactor = 0, mod_LoRa_Bandwidth = 0, mod_LoRa_CodingRate = 0,
        mod_LoRa_LowDatarateOptimize = 0\<rparr>,
      RadioIrq = 0, AntSwitchPaSelect = 0, RxDcPreambleDetectTimeout = 0, MaxPayloadLength = 255,
      RadioBuffer = replicate 255 0, RadioEvents = Some events0\<rparr>"

end
