(* ===== verification/Radio_Time.thy ===== *)
theory Radio_Time
  imports Radio
begin

text \<open>
  Time on air (\<^verbatim>\<open>RadioTimeOnAir\<close> and its helpers of \<^verbatim>\<open>radio.c\<close>) against the LoRa formula: the preamble and
  12.25 symbols, plus the payload symbols, each of \<open>2^SF / BW\<close> seconds.
\<close>

section \<open>Specification\<close>

text \<open>
  The number of payload symbols: \<open>coderate + 4\<close> for every started group of \<open>4 * (SF - 2 * LDRO)\<close> bits
  beyond what the header symbols carry. The constant is 8 for the spreading factors above 6.
\<close>

definition ceil_div :: "int \<Rightarrow> int \<Rightarrow> int" where
  "ceil_div a b = (a + b - 1) div b"

definition lora_bits :: "int \<Rightarrow> int \<Rightarrow> bool \<Rightarrow> bool \<Rightarrow> int" where
  "lora_bits sf payload crcOn fixLen =
     max 0 (8 * payload + (if crcOn then 16 else 0) - 4 * sf + (if fixLen then 0 else 20) + (if sf > 6 then 8 else 0))"

definition lora_symbols :: "int \<Rightarrow> bool \<Rightarrow> int \<Rightarrow> int \<Rightarrow> bool \<Rightarrow> bool \<Rightarrow> int" where
  "lora_symbols sf ldro coderate payload crcOn fixLen =
     ceil_div (lora_bits sf payload crcOn fixLen) (4 * (if ldro then sf - 2 else sf)) * (coderate + 4)"

text \<open>Four times the number of symbols of a whole packet, the quarter of a symbol included.\<close>

definition lora_quarter_symbols ::
  "int \<Rightarrow> bool \<Rightarrow> int \<Rightarrow> int \<Rightarrow> int \<Rightarrow> bool \<Rightarrow> bool \<Rightarrow> int" where
  "lora_quarter_symbols sf ldro coderate preamble payload crcOn fixLen =
     4 * (lora_symbols sf ldro coderate payload crcOn fixLen + preamble + 12 + (if sf \<le> 6 then 2 else 0)) + 1"

text \<open>
  The three bandwidths of the LoRa modem in Hertz, and the symbols that need the low data rate
  optimisation: those that last longer than 16 milliseconds.
\<close>

definition bandwidth_hz :: "u32 \<Rightarrow> int" where
  "bandwidth_hz bandwidth = (if bandwidth = 0 then 125000 else if bandwidth = 1 then 250000 else 500000)"

definition slow_symbol :: "u32 \<Rightarrow> u32 \<Rightarrow> bool" where
  "slow_symbol bandwidth sf \<longleftrightarrow> 16 * bandwidth_hz bandwidth < 1000 * 2 ^ unat sf"

lemma bandwidth_cases:
  assumes "unat (bandwidth :: u32) < 3"
  obtains "bandwidth = 0" | "bandwidth = 1" | "bandwidth = 2"
proof -
  have "unat bandwidth \<in> {0, 1, 2}" using assms by auto
  then have "bandwidth \<in> {0, 1, 2}" by (auto simp: word_unat_eq_iff)
  then show thesis using that by blast
qed

lemma bandwidth_in_hz:
  "unat bandwidth < 3 \<Longrightarrow> uint (RadioGetLoRaBandwidthInHz (Bandwidths ! unat bandwidth)) = bandwidth_hz bandwidth"
  by (elim bandwidth_cases) (simp_all add: bandwidth_hz_def Bandwidths_def RadioGetLoRaBandwidthInHz_def)

text \<open>The rule the code applies to bandwidth and spreading factor selects exactly the slow symbols.\<close>

lemma low_datarate_slow_symbol:
  assumes "unat bandwidth < 3" "5 \<le> sf" "sf \<le> 12"
  shows "low_datarate bandwidth sf \<longleftrightarrow> slow_symbol bandwidth sf"
proof -
  have "unat sf \<in> {5..12}" using assms(2,3) by (simp add: word_le_nat_alt)
  then have "unat sf \<in> {5, 6, 7, 8, 9, 10, 11, 12}" by auto
  then have "sf \<in> {5, 6, 7, 8, 9, 10, 11, 12}" by (simp add: word_unat_eq_iff)
  with assms(1) show ?thesis
    by (elim bandwidth_cases insertE emptyE) (simp_all add: low_datarate_def slow_symbol_def bandwidth_hz_def)
qed

lemma ceil_div_bounds:
  assumes "0 < b"
  shows "a \<le> b * ceil_div a b" "b * ceil_div a b < a + b"
proof -
  have "b * ceil_div a b + (a + b - 1) mod b = a + b - 1"
    by (simp add: ceil_div_def)
  moreover have "(a + b - 1) mod b < b" "0 \<le> (a + b - 1) mod b" using assms by simp_all
  ultimately show "a \<le> b * ceil_div a b" "b * ceil_div a b < a + b" by linarith+
qed

section \<open>The numerator\<close>

text \<open>Bounds that keep the arithmetic of the code inside its types.\<close>

lemma lora_bits_bounds:
  assumes "0 \<le> payload" "payload \<le> 255" "5 \<le> sf"
  shows "0 \<le> lora_bits sf payload crcOn fixLen" "lora_bits sf payload crcOn fixLen \<le> 2084"
  using assms by (auto simp: lora_bits_def)

lemma lora_symbols_bounds:
  assumes "0 \<le> payload" "payload \<le> 255" "0 \<le> coderate" "coderate \<le> 255" "5 \<le> sf" "ldro \<Longrightarrow> 7 \<le> sf"
  shows "0 \<le> lora_symbols sf ldro coderate payload crcOn fixLen"
    "lora_symbols sf ldro coderate payload crcOn fixLen \<le> 27195"
proof -
  let ?b = "lora_bits sf payload crcOn fixLen" and ?d = "4 * (if ldro then sf - 2 else sf)"
  have b: "0 \<le> ?b" "?b \<le> 2084" by (rule lora_bits_bounds; use assms in simp)+
  have d: "20 \<le> ?d" using assms(5,6) by (cases ldro) auto
  have c0: "0 \<le> ceil_div ?b ?d" using b d by (simp add: ceil_div_def pos_imp_zdiv_nonneg_iff)
  have "20 * ceil_div ?b ?d \<le> ?d * ceil_div ?b ?d" using d c0 by (intro mult_right_mono) auto
  have c1: "ceil_div ?b ?d \<le> 105"
  proof (rule ccontr)
    assume "\<not> ceil_div ?b ?d \<le> 105"
    then have "?d * 106 \<le> ?d * ceil_div ?b ?d" using d by (intro mult_left_mono) auto
    then show False using ceil_div_bounds(2) [of ?d ?b] b d by linarith
  qed
  show "0 \<le> lora_symbols sf ldro coderate payload crcOn fixLen"
    using c0 assms(3) by (simp add: lora_symbols_def)
  have "ceil_div ?b ?d * (coderate + 4) \<le> 105 * 259"
    using c0 c1 assms(3,4) by (intro mult_mono) auto
  then show "lora_symbols sf ldro coderate payload crcOn fixLen \<le> 27195"
    by (simp add: lora_symbols_def)
qed

lemma uint_u16_le: "0 \<le> uint (x :: u16)" "uint x \<le> 65535"
  using unsigned_less [of x, where 'a = int] by simp_all

lemma uint_u8_le: "0 \<le> uint (x :: u8)" "uint x \<le> 255"
  using uint_u8_less [of x] by (simp_all del: uint_u8_less)

lemma quarters_arith:
  fixes a p :: int
  assumes "0 \<le> a" "a \<le> 27195" "0 \<le> p" "p \<le> 65535"
  shows "0 < 4 * (a + p + 12 + (if c then 2 else 0)) + 1" "4 * (a + p + 12 + (if c then 2 else 0)) + 1 \<le> 370977"
  using assms by auto

lemma i32_arith:
  fixes P S :: int
  assumes "0 \<le> P" "P \<le> 255" "5 \<le> S" "S \<le> 12"
  shows "to_i32 (P * 8 + (if c then 16 else 0) - 4 * S + (if d then 0 else 20)) =
    P * 8 + (if c then 16 else 0) - 4 * S + (if d then 0 else 20)"
  using assms by (intro to_i32_id) auto

text \<open>The preamble the code counts with.\<close>

definition eff_preamble :: "u32 \<Rightarrow> u16 \<Rightarrow> u16" where
  "eff_preamble sf pre = (if sf \<le> 6 \<and> pre < 12 then 12 else pre)"

definition packet_quarters :: "u32 \<Rightarrow> u32 \<Rightarrow> u8 \<Rightarrow> u16 \<Rightarrow> bool \<Rightarrow> u8 \<Rightarrow> bool \<Rightarrow> int" where
  "packet_quarters bandwidth sf coderate pre fixLen payload crcOn =
     lora_quarter_symbols (uint sf) (slow_symbol bandwidth sf) (uint coderate) (uint (eff_preamble sf pre))
       (uint payload) crcOn fixLen"

lemma packet_quarters_bounds:
  assumes "5 \<le> sf" "sf \<le> 12" "unat bandwidth < 3"
  shows "0 < packet_quarters bandwidth sf coderate pre fixLen payload crcOn"
    "packet_quarters bandwidth sf coderate pre fixLen payload crcOn \<le> 370977"
proof -
  have sf: "5 \<le> uint sf" "slow_symbol bandwidth sf \<Longrightarrow> 7 \<le> uint sf"
    using assms low_datarate_slow_symbol [OF assms(3,1,2)] by (auto simp: word_le_def low_datarate_def)
  have "0 \<le> lora_symbols (uint sf) (slow_symbol bandwidth sf) (uint coderate) (uint payload) crcOn fixLen"
    "lora_symbols (uint sf) (slow_symbol bandwidth sf) (uint coderate) (uint payload) crcOn fixLen \<le> 27195"
    by (rule lora_symbols_bounds; use sf uint_u8_le in simp)+
  then show "0 < packet_quarters bandwidth sf coderate pre fixLen payload crcOn"
    "packet_quarters bandwidth sf coderate pre fixLen payload crcOn \<le> 370977"
    using uint_u16_le [of "eff_preamble sf pre"]
    unfolding packet_quarters_def lora_quarter_symbols_def by (simp_all only: quarters_arith)
qed

lemma numerator_correct:
  assumes "5 \<le> sf" "sf \<le> 12" "unat bandwidth < 3"
  shows "RadioGetLoRaTimeOnAirNumerator bandwidth sf coderate pre fixLen payload crcOn =
    Inr (word_of_int (packet_quarters bandwidth sf coderate pre fixLen payload crcOn * 2 ^ (unat sf - 2)))"
proof -
  let ?n = "uint payload * 8 + (if crcOn then 16 else 0) - 4 * uint sf + (if fixLen then 0 else 20)"
  let ?l = "low_datarate bandwidth sf" and ?q = "packet_quarters bandwidth sf coderate pre fixLen payload crcOn"
  let ?b = "lora_bits (uint sf) (uint payload) crcOn fixLen"
  have l: "slow_symbol bandwidth sf = ?l" using low_datarate_slow_symbol [OF assms(3,1,2)] by simp
  have S: "5 \<le> uint sf" "uint sf \<le> 12" "?l \<Longrightarrow> 7 \<le> uint sf" and le6: "sf \<le> 6 \<longleftrightarrow> uint sf \<le> 6"
    using assms by (auto simp: word_le_def low_datarate_def)
  have n: "to_i32 ?n = ?n" by (intro i32_arith S(1,2) uint_u8_le)
  have d: "to_i32 (4 * uint sf) = 4 * uint sf" "to_i32 (4 * (uint sf - 2)) = 4 * (uint sf - 2)"
    using S by (auto intro!: to_i32_id)
  have b: "0 \<le> ?b" by (rule lora_bits_bounds; use S uint_u8_le in simp)
  have pre: "(if sf = 5 \<or> sf = 6 then (if pre < 12 then 12 else pre) else pre) = eff_preamble sf pre"
    using assms by (auto simp: eff_preamble_def word_le_nat_alt word_less_nat_alt word_unat_eq_iff)
  have sh: "unat (sf - 2) = unat sf - 2" "unat sf - 2 \<le> 10"
    using assms by (simp_all add: unat_sub word_le_nat_alt)
  have "?q * 2 ^ (unat sf - 2) \<le> 370977 * 2 ^ 10"
    using packet_quarters_bounds [OF assms] sh by (intro mult_mono power_increasing) auto
  moreover have "0 \<le> ?q * 2 ^ (unat sf - 2)"
    using packet_quarters_bounds(1) [OF assms] by (simp add: less_imp_le)
  ultimately have q: "\<not> (?q * 2 ^ (unat sf - 2) \<ge> 2 ^ 31 \<or> ?q * 2 ^ (unat sf - 2) < - (2 ^ 31))" by simp
  show ?thesis
  proof (cases "sf \<le> 6")
    case True
    then have "\<not> ?l" using S by (auto simp: le6)
    have bits: "(if ?n < 0 then 0 else ?n) = ?b" using True by (auto simp: lora_bits_def le6)
    have q4: "4 * (cdiv (?b + 4 * uint sf - 1) (4 * uint sf) * (uint coderate + 4) + uint (eff_preamble sf pre) + 12 + 2) + 1 = ?q"
      using True \<open>\<not> ?l\<close> S b by (simp add: packet_quarters_def lora_quarter_symbols_def lora_symbols_def ceil_div_def le6 l)
    show ?thesis
      unfolding RadioGetLoRaTimeOnAirNumerator_def Let_def pre n d if_P [OF True] prod.case bits sh(1) q4
      using q S sh(2) by simp
  next
    case False
    have bits: "(if ?n + 8 < 0 then 0 else ?n + 8) = ?b" using False by (auto simp: lora_bits_def le6)
    let ?d = "4 * (if ?l then uint sf - 2 else uint sf)"
    have d': "(if ?l then 4 * (uint sf - 2) else 4 * uint sf) = ?d" by simp
    have "0 < ?d" using S by auto
    then have q4: "4 * (cdiv (?b + ?d - 1) ?d * (uint coderate + 4) + uint (eff_preamble sf pre) + 12) + 1 = ?q"
      using False b by (simp add: packet_quarters_def lora_quarter_symbols_def lora_symbols_def ceil_div_def le6 l)
    show ?thesis
      unfolding RadioGetLoRaTimeOnAirNumerator_def Let_def pre n d d' if_not_P [OF False] prod.case bits sh(1) q4
      using q \<open>0 < ?d\<close> sh(2) by simp
  qed
qed

section \<open>Properties\<close>

lemma DIVC_ceil:
  assumes "0 < a" "0 < b" "a + b \<le> 2 ^ 32" "n = word_of_int a" "m = word_of_int b"
  shows "\<exists>t. DIVC n m = Inr t \<and> uint t = ceil_div a b"
proof -
  have u: "uint n = a" "uint m = b"
    using assms by (simp_all add: unsigned_of_int take_bit_int_eq_self)
  then have "m \<noteq> 0" using assms(2) by auto
  moreover have "uint (n + m - 1) = a + b - 1"
    using u assms(1-3) by (simp add: uint_word_ariths mod_diff_left_eq)
  ultimately show ?thesis by (simp add: DIVC_def uint_div ceil_div_def u)
qed

text \<open>
  C4: the time on air of a LoRa packet. For the spreading factors 5 to 12 and the three bandwidths
  of the table, as long as a thousand times the numerator plus the bandwidth in Hertz does not exceed
  \<open>2^32\<close>, \<^verbatim>\<open>RadioTimeOnAir\<close> returns the duration of the packet in milliseconds, rounded up: the smallest
  number of milliseconds not below the preamble (at least 12 symbols for the spreading factors 5 and 6)
  plus 12.25 symbols (14.25 for those two) plus the payload symbols of the LoRa formula, at \<open>2^SF / BW\<close>
  seconds each, with the low data rate optimisation for symbols longer than 16 milliseconds. The
  numerator is the number of symbols times \<open>2^SF\<close>.
\<close>

theorem RadioTimeOnAir_correct:
  assumes "5 \<le> sf" "sf \<le> 12" "unat bandwidth < 3"
    and "1000 * (packet_quarters bandwidth sf coderate pre fixLen payload crcOn * 2 ^ (unat sf - 2)) +
      bandwidth_hz bandwidth \<le> 2 ^ 32"
  shows "\<exists>t. RadioTimeOnAir MODEM_LORA bandwidth sf coderate pre fixLen payload crcOn = Inr t \<and>
    bandwidth_hz bandwidth * (uint t - 1)
      < 1000 * (packet_quarters bandwidth sf coderate pre fixLen payload crcOn * 2 ^ (unat sf - 2)) \<and>
    1000 * (packet_quarters bandwidth sf coderate pre fixLen payload crcOn * 2 ^ (unat sf - 2))
      \<le> bandwidth_hz bandwidth * uint t"
proof -
  let ?q = "packet_quarters bandwidth sf coderate pre fixLen payload crcOn * 2 ^ (unat sf - 2)"
  let ?hz = "RadioGetLoRaBandwidthInHz (Bandwidths ! unat bandwidth)"
  have hz: "0 < bandwidth_hz bandwidth" by (simp add: bandwidth_hz_def)
  have "0 < ?q" using packet_quarters_bounds(1) [OF assms(1-3)] by simp
  moreover have "?hz = word_of_int (bandwidth_hz bandwidth)"
    using bandwidth_in_hz [OF assms(3)] by (metis word_of_int_uint)
  ultimately obtain t where t: "DIVC (1000 * word_of_int ?q) ?hz = Inr t" "uint t = ceil_div (1000 * ?q) (bandwidth_hz bandwidth)"
    using DIVC_ceil [of "1000 * ?q" "bandwidth_hz bandwidth" "1000 * word_of_int ?q" ?hz] hz assms(4) by auto
  have "RadioTimeOnAir MODEM_LORA bandwidth sf coderate pre fixLen payload crcOn = Inr t"
    using t(1) assms(3) by (simp add: RadioTimeOnAir_def numerator_correct [OF assms(1-3)] Bandwidths_def)
  then show ?thesis
    using ceil_div_bounds [OF hz, of "1000 * ?q"] t(2) by (simp add: algebra_simps)
qed

lemma packet_quarters_example:
  "packet_quarters 0 7 1 8 False 20 True = 221"
  by (simp add: packet_quarters_def lora_quarter_symbols_def lora_symbols_def lora_bits_def slow_symbol_def bandwidth_hz_def
      eff_preamble_def ceil_div_def)

theorem RadioTimeOnAir_correct_witness:
  "\<exists>t. RadioTimeOnAir MODEM_LORA 0 7 1 8 False 20 True = Inr t \<and>
    125000 * (uint t - 1) < 7072000 \<and> 7072000 \<le> 125000 * uint t"
  using RadioTimeOnAir_correct [of 7 0 1 8 False 20 True]
  by (auto simp: packet_quarters_example bandwidth_hz_def)

text \<open>
  The bound is needed. With a preamble of 1100 symbols at spreading factor 12 and 125 kHz a packet of 20
  bytes is on the air for 37102 milliseconds, and the product by a thousand of the 32-bit numerator
  wraps: the code answers 2742.
\<close>

theorem RadioTimeOnAir_wraps:
  "RadioTimeOnAir MODEM_LORA 0 12 1 1100 False 20 True = Inr 2742 \<and>
   ceil_div (1000 * (packet_quarters 0 12 1 1100 False 20 True * 2 ^ 10)) (bandwidth_hz 0) = 37102"
proof (rule conjI)
  have q: "packet_quarters 0 12 1 1100 False 20 True = 4529"
    by (simp add: packet_quarters_def lora_quarter_symbols_def lora_symbols_def lora_bits_def slow_symbol_def bandwidth_hz_def
        eff_preamble_def ceil_div_def)
  show "RadioTimeOnAir MODEM_LORA 0 12 1 1100 False 20 True = Inr 2742"
    by (simp add: RadioTimeOnAir_def numerator_correct q Bandwidths_def RadioGetLoRaBandwidthInHz_def DIVC_def)
  show "ceil_div (1000 * (packet_quarters 0 12 1 1100 False 20 True * 2 ^ 10)) (bandwidth_hz 0) = 37102"
    by (simp add: q ceil_div_def bandwidth_hz_def)
qed

end
