(* ===== verification/Radio_Mirror.thy ===== *)
theory Radio_Mirror
  imports Radio
begin

text \<open>
  The status the application sees. The driver's copy of the radio's operating mode stays in step with
  the radio (Radio_Driver); here the same is shown for the firmware packet layer and the radio API
  above it, and so for \<^verbatim>\<open>RadioGetStatus\<close>, over every sequence of API calls, timer events and interrupts.
\<close>

section \<open>Rules\<close>

text \<open>
  What each step of a layer keeps: a state that follows the start of an operation still does after
  the step. For fallible steps the rules speak of the state they return, alone (\<open>keeps\<close>) or beside a
  value (\<open>keeps2\<close>). The collection \<open>mirror\<close> has a rule for every statement, so that an operation is
  done by applying it.
\<close>

definition keeps :: "'a drv_state_scheme \<Rightarrow> 'a drv_state_scheme result \<Rightarrow> bool" where
  "keeps s r \<longleftrightarrow> (\<forall>s'. r = Inr s' \<longrightarrow> drv_follows s s')"

definition keeps2 :: "'a drv_state_scheme \<Rightarrow> ('v \<times> 'a drv_state_scheme) result \<Rightarrow> bool" where
  "keeps2 s r \<longleftrightarrow> (\<forall>v s'. r = Inr (v, s') \<longrightarrow> drv_follows s s')"

lemma keeps_pure [mirror]:
  "drv_follows s t \<Longrightarrow> keeps s (Inr t)" "keeps s (Inl e)"
  "drv_follows s t \<Longrightarrow> keeps2 s (Inr (v, t))" "keeps2 s (Inl e)"
  by (simp_all add: keeps_def keeps2_def)

lemma keeps_bind [mirror]:
  fixes s :: "'a drv_state_scheme"
  shows "keeps s q \<Longrightarrow> (\<And>t. drv_follows s t \<Longrightarrow> keeps s (f t)) \<Longrightarrow> keeps s (bindr q f)"
    and "keeps2 s r \<Longrightarrow> (\<And>p. drv_follows s (snd p) \<Longrightarrow> keeps s (g p)) \<Longrightarrow> keeps s (bindr r g)"
    and "keeps s q \<Longrightarrow> (\<And>t. drv_follows s t \<Longrightarrow> keeps2 s (h t)) \<Longrightarrow> keeps2 s (bindr q h)"
    and "keeps2 s r \<Longrightarrow> (\<And>p. drv_follows s (snd p) \<Longrightarrow> keeps2 s (k p)) \<Longrightarrow> keeps2 s (bindr r k)"
  by (auto simp: keeps_def keeps2_def bindr_eq_Inr_iff)

text \<open>A bind over a computation that has no state.\<close>

lemma keeps_bind_pure:
  fixes r :: "'x result"
  shows "(\<And>x. keeps s (f x)) \<Longrightarrow> keeps s (bindr r f)"
    and "(\<And>x. keeps2 s (g x)) \<Longrightarrow> keeps2 s (bindr r g)"
  by (auto simp: keeps_def keeps2_def bindr_eq_Inr_iff)

lemmas [mirror] =
  keeps_bind_pure [where 'x = u32] keeps_bind_pure [where 'x = "u8 list"] keeps_bind_pure [where 'x = bool]
  keeps_bind_pure [where 'x = int] keeps_bind_pure [where 'x = u8]

lemma keeps_if [mirror]:
  "(b \<Longrightarrow> drv_follows s t) \<Longrightarrow> (\<not> b \<Longrightarrow> drv_follows s u) \<Longrightarrow> drv_follows s (if b then t else u)"
  "(b \<Longrightarrow> keeps s q) \<Longrightarrow> (\<not> b \<Longrightarrow> keeps s q') \<Longrightarrow> keeps s (if b then q else q')"
  "(b \<Longrightarrow> keeps2 s r) \<Longrightarrow> (\<not> b \<Longrightarrow> keeps2 s r') \<Longrightarrow> keeps2 s (if b then r else r')"
  "(b \<Longrightarrow> drv_follows s (snd p)) \<Longrightarrow> (\<not> b \<Longrightarrow> drv_follows s (snd p')) \<Longrightarrow> drv_follows s (snd (if b then p else p'))"
  by simp_all

lemma keeps_pair [mirror]: "drv_follows s t \<Longrightarrow> drv_follows s (snd (v, t))"
  by simp

lemmas [mirror] = follows_refl drv_op_follows [THEN follows_trans [rotated]]

lemma ext_follows [mirror]:
  "(\<And>d. chip_step d c = d) \<Longrightarrow> drv_follows s t \<Longrightarrow> drv_follows s (ext c t)"
  by (erule follows_trans) (simp add: drv_follows_defs)

lemma access_follows:
  "drv_follows t (SUBGRF_WriteRegister a d t)" "drv_follows t (SUBGRF_WriteRegisters a bs t)"
  "drv_follows t (snd (SUBGRF_ReadRegister X a t))" "drv_follows t (snd (SUBGRF_ReadRegisters X a n t))"
  "drv_follows t (snd (SUBGRF_ReadBuffer X p n t))" "drv_follows t (SUBGRF_WriteBuffer p bs t)"
  by (simp_all add: drv_follows_defs SUBGRF_ReadBuffer_def SUBGRF_WriteBuffer_def)

lemmas [mirror] = access_follows [THEN follows_trans [rotated]]

lemma modulation_keeps [mirror]:
  "drv_follows s t \<Longrightarrow> keeps s (SUBGRF_SetModulationParams m t)"
  unfolding keeps_def by (intro allI impI) (erule follows_trans, erule modulation_params_follows)

lemma fw_fields_follow [mirror]:
  "drv_follows s t \<Longrightarrow> drv_follows s (t\<lparr>Enable := v0\<rparr>)" "drv_follows s t \<Longrightarrow> drv_follows s (t\<lparr>PayloadLengthFieldSize := v1\<rparr>)"
  "drv_follows s t \<Longrightarrow> drv_follows s (t\<lparr>CrcEnable := v2\<rparr>)" "drv_follows s t \<Longrightarrow> drv_follows s (t\<lparr>CrcFieldSize := v3\<rparr>)"
  "drv_follows s t \<Longrightarrow> drv_follows s (t\<lparr>CrcPolynomial := v4\<rparr>)" "drv_follows s t \<Longrightarrow> drv_follows s (t\<lparr>CrcSeed := v5\<rparr>)"
  "drv_follows s t \<Longrightarrow> drv_follows s (t\<lparr>CrcType := v6\<rparr>)" "drv_follows s t \<Longrightarrow> drv_follows s (t\<lparr>WhiteSeed := v7\<rparr>)"
  "drv_follows s t \<Longrightarrow> drv_follows s (t\<lparr>LongPacketMaxRxLength := v8\<rparr>)" "drv_follows s t \<Longrightarrow> drv_follows s (t\<lparr>FwModem := v9\<rparr>)"
  "drv_follows s t \<Longrightarrow> drv_follows s (t\<lparr>FwRadioEvents := v10\<rparr>)" "drv_follows s t \<Longrightarrow> drv_follows s (t\<lparr>CrcLfsrState := v11\<rparr>)"
  "drv_follows s t \<Longrightarrow> drv_follows s (t\<lparr>WhiteLfsrState := v12\<rparr>)" "drv_follows s t \<Longrightarrow> drv_follows s (t\<lparr>PayloadLength := v13\<rparr>)"
  "drv_follows s t \<Longrightarrow> drv_follows s (t\<lparr>LongPacketModeEnable := v14\<rparr>)" "drv_follows s t \<Longrightarrow> drv_follows s (t\<lparr>LongPacketRemainingBytes := v15\<rparr>)"
  "drv_follows s t \<Longrightarrow> drv_follows s (t\<lparr>RadioBufferOffset := v16\<rparr>)" "drv_follows s t \<Longrightarrow> drv_follows s (t\<lparr>RxPayloadOffset := v17\<rparr>)"
  "drv_follows s t \<Longrightarrow> drv_follows s (t\<lparr>RxStoreChunkCb := v18\<rparr>)" "drv_follows s t \<Longrightarrow> drv_follows s (t\<lparr>TxGetNextChunkCb := v19\<rparr>)"
  "drv_follows s t \<Longrightarrow> drv_follows s (t\<lparr>FwAntSwitchPaSelect := v20\<rparr>)" "drv_follows s t \<Longrightarrow> drv_follows s (t\<lparr>BitRate := v21\<rparr>)"
  "drv_follows s t \<Longrightarrow> drv_follows s (t\<lparr>FwRxTimeoutTimer := v22\<rparr>)" "drv_follows s t \<Longrightarrow> drv_follows s (t\<lparr>FwTxTimeoutTimer := v23\<rparr>)"
  "drv_follows s t \<Longrightarrow> drv_follows s (t\<lparr>RxBuffer := v24\<rparr>)" "drv_follows s t \<Longrightarrow> drv_follows s (t\<lparr>ChunkBuffer := v25\<rparr>)"
  by (simp_all add: follows_def chip_of_def)

lemma radio_fields_follow [mirror]:
  "drv_follows s t \<Longrightarrow> drv_follows s (t\<lparr>Modem := v0\<rparr>)" "drv_follows s t \<Longrightarrow> drv_follows s (t\<lparr>RxContinuous := v1\<rparr>)"
  "drv_follows s t \<Longrightarrow> drv_follows s (t\<lparr>TxTimeout := v2\<rparr>)" "drv_follows s t \<Longrightarrow> drv_follows s (t\<lparr>RxTimeout := v3\<rparr>)"
  "drv_follows s t \<Longrightarrow> drv_follows s (t\<lparr>PublicNetwork_Previous := v4\<rparr>)" "drv_follows s t \<Longrightarrow> drv_follows s (t\<lparr>PublicNetwork_Current := v5\<rparr>)"
  "drv_follows s t \<Longrightarrow> drv_follows s (t\<lparr>PacketParams := v6\<rparr>)" "drv_follows s t \<Longrightarrow> drv_follows s (t\<lparr>PacketStatus := v7\<rparr>)"
  "drv_follows s t \<Longrightarrow> drv_follows s (t\<lparr>ModulationParams := v8\<rparr>)" "drv_follows s t \<Longrightarrow> drv_follows s (t\<lparr>RadioIrq := v9\<rparr>)"
  "drv_follows s t \<Longrightarrow> drv_follows s (t\<lparr>AntSwitchPaSelect := v10\<rparr>)" "drv_follows s t \<Longrightarrow> drv_follows s (t\<lparr>RxDcPreambleDetectTimeout := v11\<rparr>)"
  "drv_follows s t \<Longrightarrow> drv_follows s (t\<lparr>MaxPayloadLength := v12\<rparr>)" "drv_follows s t \<Longrightarrow> drv_follows s (t\<lparr>RadioBuffer := v13\<rparr>)"
  "drv_follows s t \<Longrightarrow> drv_follows s (t\<lparr>RadioEvents := v14\<rparr>)"
  by (simp_all add: follows_def chip_of_def)

section \<open>The firmware packet layer\<close>

lemma fw_small_keeps [mirror]:
  "drv_follows s t \<Longrightarrow> drv_follows s (RFW_WhiteSetState t)"
  "drv_follows s t \<Longrightarrow> drv_follows s (RFW_WhiteInitState w t)"
  "drv_follows s t \<Longrightarrow> drv_follows s (RFW_CrcSetState t)"
  "drv_follows s t \<Longrightarrow> drv_follows s (RFW_CrcInitState p q c t)"
  "drv_follows s t \<Longrightarrow> keeps s (RFW_WhiteRun n t)"
  "drv_follows s t \<Longrightarrow> keeps2 s (RFW_CrcRun n t)"
  "drv_follows s t \<Longrightarrow> keeps s (chunk_write n bs t)"
  "drv_follows s t \<Longrightarrow> keeps s (chunk_read X off len t)"
  "drv_follows s t \<Longrightarrow> drv_follows s (snd (get_next_chunk X len t))"
  "drv_follows s t \<Longrightarrow> keeps s (store_chunk bs t)"
  unfolding RFW_WhiteSetState_def RFW_WhiteInitState_def RFW_CrcSetState_def RFW_CrcInitState_def
    RFW_WhiteRun_def RFW_CrcRun_def chunk_write_def chunk_read_def get_next_chunk_def store_chunk_def
    Let_def split_beta
  by (intro mirror; simp)+

lemma fw_events_keep [mirror]:
  "drv_follows s t \<Longrightarrow> keeps s (event_RxError t)"
  "drv_follows s t \<Longrightarrow> keeps s (event_RxTimeout t)"
  "drv_follows s t \<Longrightarrow> keeps s (event_RxDone r c t)"
  unfolding event_RxError_def event_RxTimeout_def event_RxDone_def
  by (cases "FwRadioEvents t"; simp; intro conjI impI mirror; simp)+

lemma fw_setup_follows [mirror]:
  "drv_follows s t \<Longrightarrow> drv_follows s (RFW_DeInit X t)"
  "drv_follows s t \<Longrightarrow> drv_follows s (RFW_SetAntSwitch X a t)"
  "drv_follows s t \<Longrightarrow> drv_follows s (RFW_SetRadioModem X m t)"
  "drv_follows s t \<Longrightarrow> drv_follows s (snd (RFW_ReceiveInit X t))"
  "drv_follows s t \<Longrightarrow> drv_follows s (snd (RFW_ReceiveLongPacket X b to cb t))"
  "drv_follows s t \<Longrightarrow> drv_follows s (RFW_DeInit_TxLongPacket X t)"
  "drv_follows s t \<Longrightarrow> drv_follows s (RFW_TransmitLongPacket_setup t)"
  unfolding RFW_DeInit_def RFW_SetAntSwitch_def RFW_SetRadioModem_def RFW_ReceiveInit_def
    RFW_ReceiveLongPacket_def RFW_DeInit_TxLongPacket_def RFW_TransmitLongPacket_setup_def Let_def split_beta
  by (intro mirror; simp)+

lemma RFW_Init_follows [mirror]:
  "drv_follows s t \<Longrightarrow> drv_follows s (snd (RFW_Init X config ev tm t))"
  unfolding RFW_Init_def Let_def
  by (cases config; cases ev; simp split del: if_split cong: if_cong; intro mirror; simp)

lemma fw_send_keeps [mirror]:
  "drv_follows s t \<Longrightarrow> keeps2 s (RFW_TransmitInit X bs sz out t)"
  "drv_follows s t \<Longrightarrow> keeps s (RFW_build_first_chunk X n a b t)"
  unfolding RFW_TransmitInit_def RFW_build_first_chunk_def Let_def split_beta
  by (intro mirror; simp)+

lemma poll_loop_follows:
  "poll_loop X now t b rf ptr s = Some res \<Longrightarrow> drv_follows s (snd res)"
proof (induction X now t b rf ptr s res rule: poll_loop.raw_induct [rotated, consumes 1, case_names step])
  case (step loop X now t b rf ptr s res)
  let ?s = "snd (SUBGRF_ReadRegister X SUBGHZ_RXADRPTR s)"
  have "drv_follows s ?s" by (rule access_follows)
  moreover consider "res = (0, s)" | "res = (-1, ?s)" | p where "loop X now t b rf p ?s = Some res"
    using step(2) by (metis option.inject)
  then have "res = (0, s) \<or> drv_follows ?s (snd res)"
    by cases (auto dest: step(1))
  ultimately show ?case by (auto intro: follows_trans)
qed

lemma PollRxBytes_keeps [mirror]:
  assumes "drv_follows s t"
  shows "keeps2 s (RFW_PollRxBytes X n t)"
  unfolding keeps2_def
proof (intro allI impI)
  let ?t = "ext (ReadRegisters SUBGHZ_RXADRPTR 1) t"
  fix r t'
  assume "RFW_PollRxBytes X n t = Inr (r, t')"
  then obtain now lim rf where "poll_loop X now lim n rf rf ?t = Some (r, t')"
    by (auto simp: RFW_PollRxBytes_def bindr_eq_Inr_iff split: option.splits)
  then have "drv_follows ?t t'" by (auto dest: poll_loop_follows)
  moreover have "drv_follows s ?t" by (intro mirror assms) simp
  ultimately show "drv_follows s t'" by (rule follows_trans [rotated])
qed

lemma fw_receive_keeps [mirror]:
  "drv_follows s t \<Longrightarrow> keeps2 s (RFW_GetPacketLength X t)"
  "drv_follows s t \<Longrightarrow> keeps2 s (RFW_GetPayload_data X a b t)"
  "drv_follows s t \<Longrightarrow> keeps2 s (RFW_store_intermediate b t)"
  unfolding RFW_GetPacketLength_def RFW_GetPayload_data_def RFW_store_intermediate_def Let_def split_beta
  by (intro mirror; simp)+

lemma fw_process_keeps [mirror]:
  "drv_follows s t \<Longrightarrow> keeps s (RFW_ReceivePayload X t)"
  "drv_follows s t \<Longrightarrow> keeps s (RFW_GetPayload X a b t)"
  "drv_follows s t \<Longrightarrow> keeps s (RFW_intermediate_chunk X a b t)"
  unfolding RFW_ReceivePayload_def RFW_GetPayload_def RFW_intermediate_chunk_def Let_def split_beta
  by (intro mirror; simp)+

lemma fw_timer_keeps [mirror]:
  "drv_follows s t \<Longrightarrow> keeps s (RFW_GetPayloadTimerEvent_fn X t)"
  "drv_follows s t \<Longrightarrow> keeps s (RFW_TransmitLongPacket_NewTxChunkTimerEvent_fn X t)"
  unfolding RFW_GetPayloadTimerEvent_fn_def RFW_GetPayloadProcess_def
    RFW_TransmitLongPacket_NewTxChunkTimerEvent_fn_def RFW_TransmitLongPacket_TxChunkProcess_def Let_def split_beta
  by (intro mirror; simp)+

lemma long_packet_keeps [mirror]:
  "drv_follows s t \<Longrightarrow> keeps2 s (RFW_TransmitLongPacket_fsk X a b c t)"
  unfolding RFW_TransmitLongPacket_fsk_def Let_def split_beta
  by (intro mirror; simp)

lemma TransmitLongPacket_keeps [mirror]:
  assumes "drv_follows s t"
  shows "keeps2 s (RFW_TransmitLongPacket X n to cb t)"
proof -
  have "drv_follows s (RFW_TransmitLongPacket_setup t)" by (intro mirror assms)
  then show ?thesis
    unfolding RFW_TransmitLongPacket_def Let_def using assms
    by (cases "FwModem (RFW_TransmitLongPacket_setup t)"; simp split del: if_split cong: if_cong; intro mirror)
qed

section \<open>The radio API\<close>

lemma modem_follows:
  "drv_follows s (RadioSetModem X m s)" "drv_follows s (RadioSetPublicNetwork X e s)"
proof (induction X m s and X e s rule: RadioSetModem_RadioSetPublicNetwork.induct)
  case (1 X m s)
  let ?t = "SUBGRF_SetPacketType PACKET_TYPE_LORA (RFW_SetRadioModem X m (s\<lparr>Modem := m\<rparr>))"
  have t: "drv_follows s ?t" by (intro mirror)
  show ?case
  proof (cases "m = MODEM_LORA \<and> PublicNetwork_Current ?t \<noteq> PublicNetwork_Previous ?t")
    case True
    then have "drv_follows (?t\<lparr>PublicNetwork_Current := PublicNetwork_Previous ?t\<rparr>) (RadioSetModem X m s)"
      using "1" by (simp add: RadioSetModem.simps [of X MODEM_LORA s] Let_def)
    moreover have "drv_follows s (?t\<lparr>PublicNetwork_Current := PublicNetwork_Previous ?t\<rparr>)"
      by (intro mirror t)
    ultimately show ?thesis by (rule follows_trans [rotated])
  next
    case False
    then show ?thesis
      by (cases m; simp add: RadioSetModem.simps [of X _ s] Let_def split del: if_split; intro mirror)
  qed
next
  case (2 X e s)
  let ?t = "s\<lparr>PublicNetwork_Current := e, PublicNetwork_Previous := e\<rparr>"
  have "drv_follows s (RadioSetModem X MODEM_LORA ?t)"
    by (rule follows_trans [OF _ "2"]) (intro mirror, simp)
  then show ?case
    unfolding RadioSetPublicNetwork.simps [of X e s] Let_def by (intro mirror)
qed

lemmas [mirror] = modem_follows [THEN follows_trans [rotated]]

lemma prbs_follows [mirror]:
  "drv_follows s t \<Longrightarrow> drv_follows s (SUBGRF_SetTx n (SUBGRF_SetTxInfinitePreamble t))"
  by (erule follows_trans) (simp add: drv_defs drv_follows_defs)

lemma notify_follows [mirror]:
  "(\<And>d. chip_step d c = d) \<Longrightarrow> drv_follows s t \<Longrightarrow> drv_follows s (notify ev c t)"
  unfolding notify_def by (cases "RadioEvents t"; simp; intro impI mirror; simp)

lemma radio_small_follows [mirror]:
  "drv_follows s t \<Longrightarrow> drv_follows s (upd_pkt f t)"
  "drv_follows s t \<Longrightarrow> drv_follows s (upd_mod g t)"
  "drv_follows s t \<Longrightarrow> drv_follows s (RadioStandby t)"
  "drv_follows s t \<Longrightarrow> drv_follows s (RadioSleep t)"
  "drv_follows s t \<Longrightarrow> drv_follows s (RadioSetChannel fq t)"
  "drv_follows s t \<Longrightarrow> drv_follows s (snd (RadioRandom X t))"
  "drv_follows s t \<Longrightarrow> drv_follows s (snd (RadioRssi X m t))"
  "drv_follows s t \<Longrightarrow> drv_follows s (RadioWrite a d t)"
  "drv_follows s t \<Longrightarrow> drv_follows s (snd (RadioRead X a t))"
  "drv_follows s t \<Longrightarrow> drv_follows s (RadioWriteRegisters a bs t)"
  "drv_follows s t \<Longrightarrow> drv_follows s (snd (RadioReadRegisters X a n t))"
  "drv_follows s t \<Longrightarrow> drv_follows s (start_tx_timer t)"
  unfolding upd_pkt_def upd_mod_def RadioStandby_def RadioSleep_def RadioSetChannel_def RadioRandom_def
    RadioRssi_def RadioWrite_def RadioRead_def RadioWriteRegisters_def RadioReadRegisters_def
    start_tx_timer_def Let_def
  by (intro mirror; simp)+

lemma radio_op_follows [mirror]:
  "drv_follows s t \<Longrightarrow> drv_follows s (RadioInit X evs t)"
  "drv_follows s t \<Longrightarrow> drv_follows s (RadioSetMaxPayloadLength m n t)"
  "drv_follows s t \<Longrightarrow> drv_follows s (iq_workaround X t)"
  "drv_follows s t \<Longrightarrow> drv_follows s (bw500_workaround X b t)"
  "drv_follows s t \<Longrightarrow> drv_follows s (RadioRx X to t)"
  "drv_follows s t \<Longrightarrow> drv_follows s (RadioRxBoosted X to t)"
  "drv_follows s t \<Longrightarrow> drv_follows s (RadioSetRxDutyCycle to ts t)"
  "drv_follows s t \<Longrightarrow> drv_follows s (RadioStartCad t)"
  "drv_follows s t \<Longrightarrow> drv_follows s (RadioTxPrbs t)"
  "drv_follows s t \<Longrightarrow> drv_follows s (RadioOnTxTimeoutIrq_fn t)"
  "drv_follows s t \<Longrightarrow> drv_follows s (RadioOnRxTimeoutIrq_fn t)"
  "drv_follows s t \<Longrightarrow> drv_follows s (irq_tx_done X t)"
  "drv_follows s t \<Longrightarrow> drv_follows s (irq_cad b t)"
  "drv_follows s t \<Longrightarrow> drv_follows s (irq_rx_tx_timeout t)"
  "drv_follows s t \<Longrightarrow> drv_follows s (irq_preamble_detected X t)"
  unfolding RadioInit_def RadioSetMaxPayloadLength_def iq_workaround_def bw500_workaround_def RadioRx_def
    RadioRxBoosted_def rx_setup_def RadioSetRxDutyCycle_def RadioStartCad_def RadioTxPrbs_def
    RadioOnTxTimeoutIrq_fn_def RadioOnTxTimeoutProcess_def RadioOnRxTimeoutIrq_fn_def
    RadioOnRxTimeoutProcess_def irq_tx_done_def irq_cad_def irq_rx_tx_timeout_def irq_preamble_detected_def
    Let_def split_beta
  by (intro mirror; simp)+

lemma lora_config_keeps [mirror]:
  "drv_follows s t \<Longrightarrow> keeps s (lora_params bw sf cr pre fl co iq t)"
  "drv_follows s t \<Longrightarrow> keeps s (apply_params X m t)"
  "drv_follows s t \<Longrightarrow> keeps s (apply_fsk X m sw ws cp t)"
  unfolding lora_params_def apply_params_def apply_fsk_def Let_def
  by (intro mirror; simp)+

lemma SetRxConfig_keeps [mirror]:
  "drv_follows s t \<Longrightarrow> keeps s (RadioSetRxConfig X m bw sf cr afc pre sy fl pl co fh hp iq rc t)"
  unfolding RadioSetRxConfig_def Let_def split_beta
  by (intro mirror; simp)

lemma SetTxConfig_keeps [mirror]:
  "drv_follows s t \<Longrightarrow> keeps s (RadioSetTxConfig X m pw fd bw sf cr pre fl co fh hp iq to t)"
  unfolding RadioSetTxConfig_def Let_def split_beta
  by (cases m; simp del: bindr_Inr bindr_assoc; intro mirror)

lemma fsk_engine_follows [mirror]:
  "drv_follows s t \<Longrightarrow> drv_follows s (snd (fsk_packet_engine X cfg tm w h c t))"
  unfolding fsk_packet_engine_def Let_def split_beta
  by (intro mirror; simp)

lemma tx_generic_keeps [mirror]:
  "drv_follows s t \<Longrightarrow> keeps2 s (tx_generic_msk X cfg t)"
  "drv_follows s t \<Longrightarrow> keeps2 s (tx_generic_fsk X cfg t)"
  "drv_follows s t \<Longrightarrow> keeps2 s (tx_generic_lora X cfg t)"
  "drv_follows s t \<Longrightarrow> keeps2 s (tx_generic_bpsk X cfg t)"
  unfolding tx_generic_msk_def tx_generic_fsk_def tx_generic_lora_def tx_generic_bpsk_def tx_gfsk_packet_def
    Let_def split_beta
  by (intro mirror; simp)+

lemma SetTxGenericConfig_keeps [mirror]:
  "drv_follows s t \<Longrightarrow> keeps2 s (RadioSetTxGenericConfig X m cfg pw to t)"
  unfolding RadioSetTxGenericConfig_def Let_def split_beta
  by (cases m; simp; intro mirror)

lemma SetRxGenericConfig_keeps [mirror]:
  "drv_follows s t \<Longrightarrow> keeps2 s (RadioSetRxGenericConfig X m cfg rc sy t)"
  unfolding RadioSetRxGenericConfig_def Let_def split_beta
  by (cases m; simp split del: if_split; intro mirror)

lemma send_parts_keep [mirror]:
  "drv_follows s t \<Longrightarrow> keeps2 s (RadioSend_fsk X bs n t)"
  "drv_follows s t \<Longrightarrow> keeps2 s (RadioSend_sigfox bs n t)"
  unfolding RadioSend_fsk_def RadioSend_sigfox_def Let_def split_beta
  by (intro mirror keeps_bind_pure; simp)+

lemma keeps_case_modem [mirror]:
  "keeps2 s a \<Longrightarrow> keeps2 s b \<Longrightarrow> keeps2 s c \<Longrightarrow> keeps2 s d \<Longrightarrow> keeps2 s e \<Longrightarrow> keeps2 s f \<Longrightarrow>
    keeps2 s (case_RadioModems_t a b c d e f m)"
  by (cases m) simp_all

lemma keeps_case_events [mirror]:
  "keeps s q \<Longrightarrow> (\<And>e. keeps s (f e)) \<Longrightarrow> keeps s (case_option q f evs)"
  by (cases evs) simp_all

lemma keeps_case_packet [mirror]:
  "keeps s a \<Longrightarrow> keeps s b \<Longrightarrow> keeps s c \<Longrightarrow> keeps s d \<Longrightarrow> keeps s e \<Longrightarrow>
    keeps s (case_RadioPacketTypes_t a b c d e m)"
  by (cases m) simp_all

lemma RadioSend_keeps [mirror]: "drv_follows s t \<Longrightarrow> keeps2 s (RadioSend X bs n t)"
  unfolding RadioSend_def Let_def
  by (intro mirror; simp)

lemma irq_rx_done_keeps [mirror]: "drv_follows s t \<Longrightarrow> keeps s (irq_rx_done X t)"
  unfolding irq_rx_done_def rx_done_standby_def Let_def split_beta
  by (intro mirror; simp)

lemma IrqProcess_keeps [mirror]: "drv_follows s t \<Longrightarrow> keeps s (RadioIrqProcess X t)"
  unfolding RadioIrqProcess_def Let_def
  by (intro mirror; simp)

lemma IsChannelFree_exits [simp]:
  "RadioIsChannelFree X fq bw th mx t = Inl (SimError ''Lora is the only modem type supported by lora-simulator'')"
  by (simp add: RadioIsChannelFree_def RadioSetRxConfig_def Let_def)

section \<open>Clients of the API\<close>

text \<open>
  What can happen to the radio: the functions of the table \<^verbatim>\<open>Radio\<close> that touch its state, the two
  timeout timers, the packet timer in its two uses and the interrupts.
\<close>

datatype radio_op =
    RInit "RadioEvents_t option" | RSetModem RadioModems_t | RSetChannel u32 | RIsChannelFree u32 u32 int u32
  | RRandom
  | RSetRxConfig RadioModems_t u32 u32 u8 u32 u16 u16 bool u8 bool bool u8 bool bool
  | RSetTxConfig RadioModems_t int u32 u32 u32 u8 u16 bool bool bool u8 bool u32
  | RSend "u8 list" u8 | RSleep | RStandby | RRx u32 | RStartCad | RSetTxContinuousWave u32 int u16
  | RRssi RadioModems_t | RWrite u16 u8 | RRead u16 | RWriteRegisters u16 "u8 list" | RReadRegisters u16 nat
  | RSetMaxPayloadLength RadioModems_t u8 | RSetPublicNetwork bool | RIrqProcess | RRxBoosted u32
  | RSetRxDutyCycle u32 u32 | RTxPrbs | RTxCw int
  | RSetRxGenericConfig GenericModems_t RxConfigGeneric_t u32 u32
  | RSetTxGenericConfig GenericModems_t TxConfigGeneric_t int u32
  | RTransmitLongPacket u16 u32 bool | RReceiveLongPacket u8 u32 bool
  | RTxTimeoutTimer | RRxTimeoutTimer | RGetPayloadTimer | RNewTxChunkTimer | RDioIrq u16

definition forget :: "('v \<times> 's) result \<Rightarrow> 's result" where
  "forget r = bindr r (\<lambda>p. Inr (snd p))"

fun radio_step :: "env \<Rightarrow> radio_op \<Rightarrow> radio_state \<Rightarrow> radio_state result" where
  "radio_step X (RInit evs) s = Inr (RadioInit X evs s)"
| "radio_step X (RSetModem m) s = Inr (RadioSetModem X m s)"
| "radio_step X (RSetChannel fq) s = Inr (RadioSetChannel fq s)"
| "radio_step X (RIsChannelFree fq bw th mx) s = forget (RadioIsChannelFree X fq bw th mx s)"
| "radio_step X RRandom s = Inr (snd (RadioRandom X s))"
| "radio_step X (RSetRxConfig m bw sf cr afc pre sy fl pl co fh hp iq rc) s =
     RadioSetRxConfig X m bw sf cr afc pre sy fl pl co fh hp iq rc s"
| "radio_step X (RSetTxConfig m pw fd bw sf cr pre fl co fh hp iq to) s =
     RadioSetTxConfig X m pw fd bw sf cr pre fl co fh hp iq to s"
| "radio_step X (RSend bs n) s = forget (RadioSend X bs n s)"
| "radio_step X RSleep s = Inr (RadioSleep s)"
| "radio_step X RStandby s = Inr (RadioStandby s)"
| "radio_step X (RRx to) s = Inr (RadioRx X to s)"
| "radio_step X RStartCad s = Inr (RadioStartCad s)"
| "radio_step X (RSetTxContinuousWave fq pw ti) s = Inr (RadioSetTxContinuousWave X fq pw ti s)"
| "radio_step X (RRssi m) s = Inr (snd (RadioRssi X m s))"
| "radio_step X (RWrite a d) s = Inr (RadioWrite a d s)"
| "radio_step X (RRead a) s = Inr (snd (RadioRead X a s))"
| "radio_step X (RWriteRegisters a bs) s = Inr (RadioWriteRegisters a bs s)"
| "radio_step X (RReadRegisters a n) s = Inr (snd (RadioReadRegisters X a n s))"
| "radio_step X (RSetMaxPayloadLength m n) s = Inr (RadioSetMaxPayloadLength m n s)"
| "radio_step X (RSetPublicNetwork e) s = Inr (RadioSetPublicNetwork X e s)"
| "radio_step X RIrqProcess s = RadioIrqProcess X s"
| "radio_step X (RRxBoosted to) s = Inr (RadioRxBoosted X to s)"
| "radio_step X (RSetRxDutyCycle a b) s = Inr (RadioSetRxDutyCycle a b s)"
| "radio_step X RTxPrbs s = Inr (RadioTxPrbs s)"
| "radio_step X (RTxCw pw) s = Inr (RadioTxCw X pw s)"
| "radio_step X (RSetRxGenericConfig m cfg rc sy) s = forget (RadioSetRxGenericConfig X m cfg rc sy s)"
| "radio_step X (RSetTxGenericConfig m cfg pw to) s = forget (RadioSetTxGenericConfig X m cfg pw to s)"
| "radio_step X (RTransmitLongPacket n to cb) s = forget (RFW_TransmitLongPacket X n to cb s)"
| "radio_step X (RReceiveLongPacket b to cb) s = Inr (snd (RFW_ReceiveLongPacket X b to cb s))"
| "radio_step X RTxTimeoutTimer s = Inr (RadioOnTxTimeoutIrq_fn s)"
| "radio_step X RRxTimeoutTimer s = Inr (RadioOnRxTimeoutIrq_fn s)"
| "radio_step X RGetPayloadTimer s = RFW_GetPayloadTimerEvent_fn X s"
| "radio_step X RNewTxChunkTimer s = RFW_TransmitLongPacket_NewTxChunkTimerEvent_fn X s"
| "radio_step X (RDioIrq irq) s = RadioOnDioIrq X irq s"

text \<open>The two continuous wave transmissions leave the driver's mode as it was.\<close>

fun mirrored_radio_op :: "radio_op \<Rightarrow> bool" where
  "mirrored_radio_op (RSetTxContinuousWave fq pw ti) = False"
| "mirrored_radio_op (RTxCw pw) = False"
| "mirrored_radio_op _ = True"

lemma forget_keeps [mirror]: "keeps2 s r \<Longrightarrow> keeps s (forget r)"
  by (auto simp: forget_def keeps_def keeps2_def bindr_eq_Inr_iff)

lemma radio_step_keeps: "mirrored_radio_op x \<Longrightarrow> keeps s (radio_step X x s)"
  by (cases x; simp add: RadioOnDioIrq_def; intro mirror; simp add: keeps2_def)

interpretation rad: call_refinement "radio_step X" calls chip_of chip_step mirrored_radio_op
  by unfold_locales (use radio_step_keeps in \<open>auto simp: keeps_def\<close>)

section \<open>Properties\<close>

text \<open>
  C1: the status follows the radio through the whole API. Whatever an application does with the
  radio, timer events and interrupts included and only the two continuous wave transmissions left out,
  in whatever order, as long as no call ends the process: the code only appends calls, and
  \<^verbatim>\<open>RadioGetStatus\<close> reports a transmission, a reception or a channel activity detection exactly when
  the radio that executed the commands sent is transmitting, receiving or detecting.
\<close>

theorem api_mirrors_radio:
  assumes "list_all mirrored_radio_op ops" "run_ops (radio_step X) ops s = Inr s'"
  shows "\<exists>cs d. calls s' = calls s @ cs \<and> d = foldl chip_step (chip_of s) cs \<and>
    (RadioGetStatus s' = RF_TX_RUNNING \<longleftrightarrow> chip_mode d = MODE_TX) \<and>
    (RadioGetStatus s' = RF_RX_RUNNING \<longleftrightarrow> chip_mode d = MODE_RX) \<and>
    (RadioGetStatus s' = RF_CAD \<longleftrightarrow> chip_mode d = MODE_CAD) \<and>
    chip_packet_type d = packet_type_val (PacketType s')"
proof -
  from rad.run_follows [OF assms] obtain cs
    where cs: "calls s' = calls s @ cs" "chip_of s' = foldl chip_step (chip_of s) cs"
    by (auto simp: follows_iff)
  moreover have "(RadioGetStatus s' = RF_TX_RUNNING \<longleftrightarrow> chip_mode (chip_of s') = MODE_TX) \<and>
    (RadioGetStatus s' = RF_RX_RUNNING \<longleftrightarrow> chip_mode (chip_of s') = MODE_RX) \<and>
    (RadioGetStatus s' = RF_CAD \<longleftrightarrow> chip_mode (chip_of s') = MODE_CAD) \<and>
    chip_packet_type (chip_of s') = packet_type_val (PacketType s')"
    by (cases "OperatingMode s'") (simp_all add: chip_of_def RadioGetStatus_def SUBGRF_GetOperatingMode_def)
  ultimately show ?thesis by blast
qed

theorem api_mirrors_radio_witness:
  "\<exists>s' cs. run_ops (radio_step env0) [RInit (Some events0), RSetChannel 868100000, RSetPublicNetwork True, RRx 3000]
      radio0 = Inr s' \<and> calls s' = calls radio0 @ cs \<and>
    RadioGetStatus s' = RF_RX_RUNNING \<and> chip_mode (foldl chip_step (chip_of radio0) cs) = MODE_RX"
proof -
  let ?ops = "[RInit (Some events0), RSetChannel 868100000, RSetPublicNetwork True, RRx 3000]"
  obtain s' where run: "run_ops (radio_step env0) ?ops radio0 = Inr s'"
    and status: "RadioGetStatus s' = RF_RX_RUNNING"
    by (simp add: RadioGetStatus_def RadioRx_def SUBGRF_SetRx_def SUBGRF_GetOperatingMode_def Let_def)
  from api_mirrors_radio [OF _ run] status
  have "\<exists>cs. calls s' = calls radio0 @ cs \<and> chip_mode (foldl chip_step (chip_of radio0) cs) = MODE_RX" by auto
  with run status show ?thesis by blast
qed

end
