(* ===== verification/Radio_Api.thy ===== *)
theory Radio_Api
  imports Radio_Time
begin

text \<open>
  What the radio API promises to an application: the network's synchronisation word survives changes
  of the modem, a LoRa configuration reaches the radio, a packet is written before it is sent, every
  interrupt leads to one callback, a received packet is delivered, and a Sigfox frame can be decoded.
\<close>

section \<open>Specifications\<close>

text \<open>
  The radio's LoRa synchronisation word: its two registers, and the reset to the private network's word
  when the radio leaves the LoRa packet type (the comments of \<^verbatim>\<open>RadioSetModem\<close>).
\<close>

fun sync_step :: "u16 \<Rightarrow> ext_call \<Rightarrow> u16" where
  "sync_step w (WriteRegisters a [d]) =
     (if a = REG_LR_SYNCWORD then join16 d (byte_at 0 w)
      else if a = REG_LR_SYNCWORD + 1 then join16 (byte_at 8 w) d else w)"
| "sync_step w (SetCmd c b) =
     (if c = RADIO_SET_PACKETTYPE \<and> b \<noteq> [packet_type_val PACKET_TYPE_LORA] then LORA_MAC_PRIVATE_SYNCWORD else w)"
| "sync_step w c = w"

definition network_word :: "bool \<Rightarrow> u16" where
  "network_word public = (if public then LORA_MAC_PUBLIC_SYNCWORD else LORA_MAC_PRIVATE_SYNCWORD)"

text \<open>What an application does to the modem and the network, and the network it asked for last.\<close>

datatype net_op = NetModem RadioModems_t | NetPublic bool

fun net_step :: "env \<Rightarrow> net_op \<Rightarrow> radio_state \<Rightarrow> radio_state" where
  "net_step X (NetModem m) s = RadioSetModem X m s"
| "net_step X (NetPublic e) s = RadioSetPublicNetwork X e s"

fun requested :: "bool \<Rightarrow> net_op list \<Rightarrow> bool" where
  "requested e [] = e"
| "requested e (NetModem m # xs) = requested e xs"
| "requested e (NetPublic e' # xs) = requested e' xs"

text \<open>The callbacks of the application among the recorded calls.\<close>

fun is_event :: "ext_call \<Rightarrow> bool" where
  "is_event TxDone = True"
| "is_event TxTimeoutCb = True"
| "is_event (RxDone bs n r c) = True"
| "is_event RxTimeoutCb = True"
| "is_event RxError = True"
| "is_event (CadDone b) = True"
| "is_event _ = False"

text \<open>The arguments of all commands of one kind, in the order they were sent.\<close>

definition sent :: "SUBGHZ_RadioSetCmd_t \<Rightarrow> ext_call list \<Rightarrow> u8 list list" where
  "sent c cs = concat (map (\<lambda>x. case x of SetCmd c' b \<Rightarrow> if c' = c then [b] else [] | _ \<Rightarrow> []) cs)"

text \<open>Bit \<open>i\<close> of a buffer, the most significant bit of the first byte first.\<close>

definition bit_at :: "u8 list \<Rightarrow> nat \<Rightarrow> bool" where
  "bit_at bs i = bit (bs ! (i div 8)) (7 - i mod 8)"

section \<open>The network's synchronisation word\<close>

text \<open>The radio holds the word \<^verbatim>\<open>PublicNetwork.Current\<close> stands for, and private networks need no more.\<close>

definition net_ok :: "u16 \<Rightarrow> radio_state \<Rightarrow> bool" where
  "net_ok w s \<longleftrightarrow> foldl sync_step w (calls s) = network_word (PublicNetwork_Current s) \<and>
     (PublicNetwork_Current s \<longrightarrow> PublicNetwork_Previous s)"

lemma SetRadioModem_calls [simp]: "calls (RFW_SetRadioModem X m s) = calls s"
  by (simp add: RFW_SetRadioModem_def)

lemma SetPacketType_calls [simp]:
  "calls (SUBGRF_SetPacketType t s) = calls s @
     (if t = PACKET_TYPE_GFSK then [WriteRegisters REG_BIT_SYNC [0x00]] else []) @
     [SetCmd RADIO_SET_PACKETTYPE [packet_type_val t]]"
  by (simp add: SUBGRF_SetPacketType_def Let_def)

lemma SetPublicNetwork_net:
  "PublicNetwork_Current (RadioSetPublicNetwork X e s) = e \<and>
   PublicNetwork_Previous (RadioSetPublicNetwork X e s) = e \<and>
   net_ok w (RadioSetPublicNetwork X e s)"
  by (simp add: RadioSetPublicNetwork.simps RadioSetModem.simps Let_def net_ok_def network_word_def)

lemma SetModem_net:
  assumes "net_ok w s"
  shows "net_ok w (RadioSetModem X m s) \<and> PublicNetwork_Previous (RadioSetModem X m s) = PublicNetwork_Previous s \<and>
    (m = MODEM_LORA \<longrightarrow> PublicNetwork_Current (RadioSetModem X m s) = PublicNetwork_Previous s)"
proof (cases "m = MODEM_LORA \<and> PublicNetwork_Current s \<noteq> PublicNetwork_Previous s")
  case True
  then show ?thesis
    by (simp add: RadioSetModem.simps [of X MODEM_LORA s] SetPublicNetwork_net Let_def)
next
  case False
  then show ?thesis
    using assms
    by (cases m) (auto simp: RadioSetModem.simps Let_def net_ok_def network_word_def)
qed

lemma net_run:
  "net_ok w s \<Longrightarrow> net_ok w (fold (net_step X) ops s) \<and>
     PublicNetwork_Previous (fold (net_step X) ops s) = requested (PublicNetwork_Previous s) ops"
proof (induction ops arbitrary: s)
  case (Cons x ops)
  then show ?case by (cases x) (simp_all add: SetModem_net SetPublicNetwork_net)
qed simp

text \<open>
  C6: the synchronisation word of the network survives the modem. However an application switches
  between modems and networks, when it selects the LoRa modem the radio's synchronisation word is the
  one of the network it asked for last, although the radio forgets that word whenever it leaves LoRa.
\<close>

theorem network_word_restored:
  assumes "foldl sync_step w (calls s) = network_word (PublicNetwork_Current s)"
    and "PublicNetwork_Current s \<longrightarrow> PublicNetwork_Previous s"
  shows "foldl sync_step w (calls (RadioSetModem X MODEM_LORA (fold (net_step X) ops s))) =
    network_word (requested (PublicNetwork_Previous s) ops)"
proof -
  have "net_ok w s" using assms by (simp add: net_ok_def)
  from net_run [OF this] have "net_ok w (fold (net_step X) ops s)"
    "PublicNetwork_Previous (fold (net_step X) ops s) = requested (PublicNetwork_Previous s) ops" by blast+
  with SetModem_net [of w "fold (net_step X) ops s" X MODEM_LORA] show ?thesis
    by (simp add: net_ok_def)
qed

lemma radio0_simps [simp]:
  "calls radio0 = []" "PublicNetwork_Current radio0 = False" "PublicNetwork_Previous radio0 = False"
  "Modem radio0 = MODEM_FSK" "PacketType radio0 = PACKET_TYPE_GFSK" "RadioEvents radio0 = Some events0"
  "RadioBuffer radio0 = replicate 255 0" "RxContinuous radio0 = False" "OperatingMode radio0 = MODE_STDBY_RC"
  by (simp_all add: radio0_def fw_state.defs drv_state.defs fw0_def drv0_def)

theorem network_word_restored_witness:
  "foldl sync_step LORA_MAC_PRIVATE_SYNCWORD (calls (RadioSetModem env0 MODEM_LORA
     (fold (net_step env0) [NetPublic True, NetModem MODEM_FSK] radio0))) = LORA_MAC_PUBLIC_SYNCWORD"
  using network_word_restored [of LORA_MAC_PRIVATE_SYNCWORD radio0 env0 "[NetPublic True, NetModem MODEM_FSK]"]
  by (simp add: network_word_def)

section \<open>LoRa configuration\<close>

lemma sent_append [simp]: "sent c (xs @ ys) = sent c xs @ sent c ys"
  by (simp add: sent_def)

lemma sent_simps [simp]:
  "sent c [] = []"
  "sent c (SetCmd c' b # xs) = (if c' = c then b # sent c xs else sent c xs)"
  "sent c (WriteRegisters a b # xs) = sent c xs" "sent c (ReadRegisters a n # xs) = sent c xs"
  "sent c (RBI_ConfigRFSwitch w # xs) = sent c xs" "sent c (Probe p v # xs) = sent c xs"
  by (simp_all add: sent_def)

text \<open>What selecting the LoRa modem changes and sends.\<close>

lemma SetModem_lora_sel [simp]:
  "ModulationParams (RadioSetModem X MODEM_LORA s) = ModulationParams s"
  "PacketParams (RadioSetModem X MODEM_LORA s) = PacketParams s"
  "OperatingMode (RadioSetModem X MODEM_LORA s) = OperatingMode s"
  "PacketType (RadioSetModem X MODEM_LORA s) = PACKET_TYPE_LORA"
  "Modem (RadioSetModem X MODEM_LORA s) = MODEM_LORA"
  "RxContinuous (RadioSetModem X MODEM_LORA s) = RxContinuous s"
  by (simp_all add: RadioSetModem.simps RadioSetPublicNetwork.simps SUBGRF_SetPacketType_def RFW_SetRadioModem_def Let_def)

lemma apply_params_lora:
  assumes "mod_PacketType (ModulationParams s) = PACKET_TYPE_LORA" "pkt_PacketType (PacketParams s) = PACKET_TYPE_LORA"
  shows "\<exists>s'. apply_params X MODEM_LORA s = Inr s' \<and> OperatingMode s' = MODE_STDBY_RC \<and>
    PacketType s' = PACKET_TYPE_LORA \<and> Modem s' = MODEM_LORA \<and> RxContinuous s' = RxContinuous s \<and>
    PacketParams s' = PacketParams s \<and>
    (\<exists>cs. calls s' = cs @ (let m = ModulationParams s; p = PacketParams s in
      [SetCmd RADIO_SET_MODULATIONPARAMS [ucast (mod_LoRa_SpreadingFactor m), ucast (mod_LoRa_Bandwidth m),
         ucast (mod_LoRa_CodingRate m), mod_LoRa_LowDatarateOptimize m],
       SetCmd RADIO_SET_PACKETPARAMS [byte_at 8 (pkt_LoRa_PreambleLength p), ucast (pkt_LoRa_PreambleLength p),
         ucast (pkt_LoRa_HeaderType p), pkt_LoRa_PayloadLength p, ucast (pkt_LoRa_CrcMode p),
         ucast (pkt_LoRa_InvertIQ p)]]))"
  using assms
  by (simp add: apply_params_def SUBGRF_SetModulationParams_def SUBGRF_SetPacketParams_def RadioStandby_def
      SUBGRF_SetStandby_def Let_def)

lemma SetRfTxPower_sel [simp]:
  "OperatingMode (snd (SUBGRF_SetRfTxPower X p s)) = OperatingMode s"
  "PacketType (snd (SUBGRF_SetRfTxPower X p s)) = PacketType s"
  "Modem (snd (SUBGRF_SetRfTxPower X p (s :: radio_state))) = Modem s"
  "c \<noteq> RADIO_SET_TXPARAMS \<Longrightarrow> c \<noteq> RADIO_SET_PACONFIG \<Longrightarrow>
     sent c (calls (snd (SUBGRF_SetRfTxPower X p s))) = sent c (calls s)"
  by (simp_all add: SUBGRF_SetRfTxPower_def SUBGRF_SetTxParams_def SUBGRF_SetPaConfig_def Let_def)

text \<open>
  The parameters a LoRa configuration asks for, as the bytes of the two commands: the codes 4, 5 and 6
  of the three bandwidths, and a preamble of at least 12 symbols for the spreading factors 5 and 6.
\<close>

definition lora_mod_bytes :: "u32 \<Rightarrow> u32 \<Rightarrow> u8 \<Rightarrow> u8 list" where
  "lora_mod_bytes bandwidth sf coderate =
     [ucast sf, if bandwidth = 0 then 4 else if bandwidth = 1 then 5 else 6, coderate,
      if low_datarate bandwidth sf then 1 else 0]"

definition least_preamble :: "u32 \<Rightarrow> u16 \<Rightarrow> u16" where
  "least_preamble sf pre = (if sf \<in> {5, 6} then max 12 pre else pre)"

definition lora_pkt_bytes :: "u32 \<Rightarrow> u16 \<Rightarrow> bool \<Rightarrow> u8 \<Rightarrow> bool \<Rightarrow> bool \<Rightarrow> u8 list" where
  "lora_pkt_bytes sf pre fixLen len crcOn iq =
     [byte_at 8 (least_preamble sf pre), byte_at 0 (least_preamble sf pre), if fixLen then 1 else 0, len,
      if crcOn then 1 else 0, if iq then 1 else 0]"

lemma lora_preamble_least: "lora_preamble sf pre = least_preamble sf pre"
  by (auto simp: lora_preamble_def least_preamble_def max_def not_less not_le)

lemma byte_at_0_ucast: "byte_at 0 w = ucast (w :: u16)"
  by (rule bit_word_eqI) (auto simp: bit_simps)

lemma ucast_u32_u8 [simp]: "ucast (ucast (b :: u8) :: u32) = b"
  by (rule bit_word_eqI) (auto simp: bit_simps dest: bit_imp_le_length)

lemma lora_params_ok:
  assumes "unat bandwidth < 3"
  obtains s' where "lora_params bandwidth sf coderate pre fixLen crcOn iq s = Inr s'"
    "mod_PacketType (ModulationParams s') = PACKET_TYPE_LORA" "pkt_PacketType (PacketParams s') = PACKET_TYPE_LORA"
    "(let m = ModulationParams s' in [ucast (mod_LoRa_SpreadingFactor m), ucast (mod_LoRa_Bandwidth m),
         ucast (mod_LoRa_CodingRate m), mod_LoRa_LowDatarateOptimize m]) = lora_mod_bytes bandwidth sf coderate"
    "(let p = PacketParams s' in [byte_at 8 (pkt_LoRa_PreambleLength p), ucast (pkt_LoRa_PreambleLength p),
         ucast (pkt_LoRa_HeaderType p), pkt_LoRa_PayloadLength p, ucast (pkt_LoRa_CrcMode p),
         ucast (pkt_LoRa_InvertIQ p)]) = lora_pkt_bytes sf pre fixLen (MaxPayloadLength s) crcOn iq"
    "calls s' = calls s" "RxContinuous s' = RxContinuous s" "pkt_LoRa_InvertIQ (PacketParams s') = (if iq then 1 else 0)"
  using assms that
  by (elim bandwidth_cases)
    (simp_all add: lora_params_def Bandwidths_def upd_mod_def upd_pkt_def Let_def lora_mod_bytes_def
      lora_pkt_bytes_def byte_at_0_ucast lora_preamble_least)

lemma lora_configured:
  assumes "unat bandwidth < 3"
  obtains s1 s2 cs where "lora_params bandwidth sf coderate pre fixLen crcOn iq s = Inr s1"
    "apply_params X MODEM_LORA s1 = Inr s2" "OperatingMode s2 = MODE_STDBY_RC"
    "PacketType s2 = PACKET_TYPE_LORA" "Modem s2 = MODEM_LORA" "RxContinuous s2 = RxContinuous s"
    "pkt_LoRa_InvertIQ (PacketParams s2) = (if iq then 1 else 0)"
    "calls s2 = cs @ [SetCmd RADIO_SET_MODULATIONPARAMS (lora_mod_bytes bandwidth sf coderate),
      SetCmd RADIO_SET_PACKETPARAMS (lora_pkt_bytes sf pre fixLen (MaxPayloadLength s) crcOn iq)]"
proof -
  obtain s1 where s1: "lora_params bandwidth sf coderate pre fixLen crcOn iq s = Inr s1"
    "mod_PacketType (ModulationParams s1) = PACKET_TYPE_LORA" "pkt_PacketType (PacketParams s1) = PACKET_TYPE_LORA"
    "(let m = ModulationParams s1 in [ucast (mod_LoRa_SpreadingFactor m), ucast (mod_LoRa_Bandwidth m),
         ucast (mod_LoRa_CodingRate m), mod_LoRa_LowDatarateOptimize m]) = lora_mod_bytes bandwidth sf coderate"
    "(let p = PacketParams s1 in [byte_at 8 (pkt_LoRa_PreambleLength p), ucast (pkt_LoRa_PreambleLength p),
         ucast (pkt_LoRa_HeaderType p), pkt_LoRa_PayloadLength p, ucast (pkt_LoRa_CrcMode p),
         ucast (pkt_LoRa_InvertIQ p)]) = lora_pkt_bytes sf pre fixLen (MaxPayloadLength s) crcOn iq"
    "RxContinuous s1 = RxContinuous s" "pkt_LoRa_InvertIQ (PacketParams s1) = (if iq then 1 else 0)"
    by (rule lora_params_ok [OF assms])
  show thesis
    using apply_params_lora [OF s1(2,3), of X] s1 that by (auto simp: Let_def)
qed

lemma DeInit_sel [simp]:
  "MaxPayloadLength (RFW_DeInit X s) = MaxPayloadLength s" "RxContinuous (RFW_DeInit X s) = RxContinuous s"
  by (simp_all add: RFW_DeInit_def)

text \<open>
  C23: configuring a LoRa transmission. With one of the three bandwidths and a spreading factor from 5 to
  12 the call returns with the radio in standby and the LoRa packet type. The last modulation command
  carries spreading factor, bandwidth, coding rate and a low data rate flag that is set exactly when
  a symbol lasts longer than 16 milliseconds; the last packet command carries the preamble, at least 12
  symbols for the spreading factors 5 and 6, and the other packet parameters. The timeout is recorded for
  the next transmission. A bandwidth outside the table is read outside the array, FSK and Sigfox end the process.
\<close>

theorem SetTxConfig_lora:
  assumes "unat bandwidth < 3" "5 \<le> sf" "sf \<le> 12" "\<not> unat bad < 3"
  shows "(\<exists>s'. RadioSetTxConfig X MODEM_LORA txPower fdev bandwidth sf coderate pre fixLen crcOn hop period iq timeout s = Inr s' \<and>
      OperatingMode s' = MODE_STDBY_RC \<and> PacketType s' = PACKET_TYPE_LORA \<and> Modem s' = MODEM_LORA \<and>
      TxTimeout s' = timeout \<and>
      last (sent RADIO_SET_MODULATIONPARAMS (calls s')) = lora_mod_bytes bandwidth sf coderate \<and>
      last (sent RADIO_SET_PACKETPARAMS (calls s')) = lora_pkt_bytes sf pre fixLen (MaxPayloadLength s) crcOn iq) \<and>
    (low_datarate bandwidth sf \<longleftrightarrow> 16 * bandwidth_hz bandwidth < 1000 * 2 ^ unat sf) \<and>
    RadioSetTxConfig X MODEM_LORA txPower fdev bad sf coderate pre fixLen crcOn hop period iq timeout s = Inl OutOfBounds \<and>
    (\<exists>m. RadioSetTxConfig X MODEM_FSK txPower fdev bandwidth sf coderate pre fixLen crcOn hop period iq timeout s = Inl (SimError m)) \<and>
    (\<exists>m. RadioSetTxConfig X MODEM_SIGFOX_TX txPower fdev bandwidth sf coderate pre fixLen crcOn hop period iq timeout s = Inl (SimError m))"
proof (intro conjI)
  obtain s1 s2 cs where "lora_params bandwidth sf coderate pre fixLen crcOn iq (RFW_DeInit X s) = Inr s1"
    "apply_params X MODEM_LORA s1 = Inr s2" "OperatingMode s2 = MODE_STDBY_RC"
    "PacketType s2 = PACKET_TYPE_LORA" "Modem s2 = MODEM_LORA"
    "calls s2 = cs @ [SetCmd RADIO_SET_MODULATIONPARAMS (lora_mod_bytes bandwidth sf coderate),
      SetCmd RADIO_SET_PACKETPARAMS (lora_pkt_bytes sf pre fixLen (MaxPayloadLength (RFW_DeInit X s)) crcOn iq)]"
    by (rule lora_configured [OF assms(1)])
  then show "\<exists>s'. RadioSetTxConfig X MODEM_LORA txPower fdev bandwidth sf coderate pre fixLen crcOn hop period iq timeout s = Inr s' \<and>
      OperatingMode s' = MODE_STDBY_RC \<and> PacketType s' = PACKET_TYPE_LORA \<and> Modem s' = MODEM_LORA \<and>
      TxTimeout s' = timeout \<and>
      last (sent RADIO_SET_MODULATIONPARAMS (calls s')) = lora_mod_bytes bandwidth sf coderate \<and>
      last (sent RADIO_SET_PACKETPARAMS (calls s')) = lora_pkt_bytes sf pre fixLen (MaxPayloadLength s) crcOn iq"
    by (simp add: RadioSetTxConfig_def RFW_SetAntSwitch_def Let_def split_beta)
qed (use assms low_datarate_slow_symbol [OF assms(1-3)] in \<open>simp_all add: slow_symbol_def RadioSetTxConfig_def lora_params_def Bandwidths_def Let_def\<close>)

theorem SetTxConfig_lora_witness:
  "\<exists>s'. RadioSetTxConfig env0 MODEM_LORA 14 0 0 12 1 8 False True False 0 False 3000 radio0 = Inr s' \<and>
     OperatingMode s' = MODE_STDBY_RC \<and> TxTimeout s' = 3000 \<and>
     last (sent RADIO_SET_MODULATIONPARAMS (calls s')) = [12, 4, 1, 1]"
  using SetTxConfig_lora [of 0 12 7 env0 14 0 1 8 False True False 0 False 3000 radio0]
  by (auto simp: lora_mod_bytes_def low_datarate_def)

lemma SymbNumTimeout_sel [simp]:
  "OperatingMode (SUBGRF_SetLoRaSymbNumTimeout n s) = OperatingMode s"
  "PacketType (SUBGRF_SetLoRaSymbNumTimeout n s) = PacketType s"
  "RxContinuous (SUBGRF_SetLoRaSymbNumTimeout n (s :: radio_state)) = RxContinuous s"
  "PacketParams (SUBGRF_SetLoRaSymbNumTimeout n (s :: radio_state)) = PacketParams s"
  "sent c (calls (SUBGRF_SetLoRaSymbNumTimeout n s)) =
     sent c (calls s) @ (if c = RADIO_SET_LORASYMBTIMEOUT then [[n]] else [])"
  by (simp_all add: SUBGRF_SetLoRaSymbNumTimeout_def Let_def split: prod.split)

lemma iq_workaround_lora:
  "pkt_LoRa_InvertIQ (PacketParams s) = (if iq then 1 else 0) \<Longrightarrow>
     \<exists>v. iq_workaround X s = SUBGRF_WriteRegister SUBGHZ_LIQPOLR v (ext (ReadRegisters SUBGHZ_LIQPOLR 1) s) \<and>
       (bit v 2 \<longleftrightarrow> \<not> iq)"
  by (cases iq) (auto simp: iq_workaround_def Let_def bit_simps)

text \<open>
  C24: configuring a LoRa reception. With one of the three bandwidths the call returns with the radio in
  standby; the last modulation and packet commands carry the parameters, the payload length being the
  given one for fixed-length packets and 255 otherwise; the symbol timeout is the low byte of the
  requested one, and none in continuous mode; the last access writes the register of the IQ
  polarity with bit 2 clear exactly when the IQ signals are inverted. Any other modem ends the process.
\<close>

theorem SetRxConfig_lora:
  assumes "unat bandwidth < 3" "m \<noteq> MODEM_LORA"
  shows "(\<exists>s' cs v. RadioSetRxConfig X MODEM_LORA bandwidth sf coderate afc pre symb fixLen len crcOn hop period iq cont s = Inr s' \<and>
      OperatingMode s' = MODE_STDBY_RC \<and> PacketType s' = PACKET_TYPE_LORA \<and>
      RxContinuous s' = cont \<and> RxTimeout s' = 0xFFFF \<and>
      last (sent RADIO_SET_MODULATIONPARAMS (calls s')) = lora_mod_bytes bandwidth sf coderate \<and>
      last (sent RADIO_SET_PACKETPARAMS (calls s')) = lora_pkt_bytes sf pre fixLen (if fixLen then len else 255) crcOn iq \<and>
      last (sent RADIO_SET_LORASYMBTIMEOUT (calls s')) = [if cont then 0 else ucast symb] \<and>
      calls s' = cs @ [WriteRegisters SUBGHZ_LIQPOLR [v]] \<and> (bit v 2 \<longleftrightarrow> \<not> iq)) \<and>
    (\<exists>e. RadioSetRxConfig X m bandwidth sf coderate afc pre symb fixLen len crcOn hop period iq cont s = Inl (SimError e))"
proof (rule conjI)
  let ?t = "SUBGRF_SetStopRxTimerOnPreambleDetect False
    (RFW_DeInit X (s\<lparr>RxContinuous := cont\<rparr>)\<lparr>MaxPayloadLength := if fixLen then len else 0xFF\<rparr>)"
  have t: "MaxPayloadLength ?t = (if fixLen then len else 0xFF)" "RxContinuous ?t = cont"
    by (simp_all add: SUBGRF_SetStopRxTimerOnPreambleDetect_def)
  obtain s1 s2 cs where s2: "lora_params bandwidth sf coderate pre fixLen crcOn iq ?t = Inr s1"
    "apply_params X MODEM_LORA s1 = Inr s2" "OperatingMode s2 = MODE_STDBY_RC"
    "PacketType s2 = PACKET_TYPE_LORA" "RxContinuous s2 = RxContinuous ?t"
    "pkt_LoRa_InvertIQ (PacketParams s2) = (if iq then 1 else 0)"
    "calls s2 = cs @ [SetCmd RADIO_SET_MODULATIONPARAMS (lora_mod_bytes bandwidth sf coderate),
      SetCmd RADIO_SET_PACKETPARAMS (lora_pkt_bytes sf pre fixLen (MaxPayloadLength ?t) crcOn iq)]"
    by (rule lora_configured [OF assms(1)])
  let ?u = "SUBGRF_SetLoRaSymbNumTimeout (ucast (if cont then 0 else symb)) s2"
  let ?w = "SUBGRF_WriteRegister SUBGHZ_AGCCFG (read_regs X (calls ?u) SUBGHZ_AGCCFG 1 0 AND 1) (ext (ReadRegisters SUBGHZ_AGCCFG 1) ?u)"
  obtain v where v: "iq_workaround X ?w = SUBGRF_WriteRegister SUBGHZ_LIQPOLR v (ext (ReadRegisters SUBGHZ_LIQPOLR 1) ?w)"
    "bit v 2 \<longleftrightarrow> \<not> iq"
    using iq_workaround_lora [of ?w iq X] s2(6) by auto
  let ?f = "(SUBGRF_WriteRegister SUBGHZ_LIQPOLR v (ext (ReadRegisters SUBGHZ_LIQPOLR 1) ?w))\<lparr>RxTimeout := 0xFFFF\<rparr>"
  have "RadioSetRxConfig X MODEM_LORA bandwidth sf coderate afc pre symb fixLen len crcOn hop period iq cont s =
    Inr ?f"
    unfolding v(1) [symmetric] using s2(1,2) by (simp add: RadioSetRxConfig_def Let_def)
  then show "\<exists>s' cs v. RadioSetRxConfig X MODEM_LORA bandwidth sf coderate afc pre symb fixLen len crcOn hop period iq cont s = Inr s' \<and>
      OperatingMode s' = MODE_STDBY_RC \<and> PacketType s' = PACKET_TYPE_LORA \<and>
      RxContinuous s' = cont \<and> RxTimeout s' = 0xFFFF \<and>
      last (sent RADIO_SET_MODULATIONPARAMS (calls s')) = lora_mod_bytes bandwidth sf coderate \<and>
      last (sent RADIO_SET_PACKETPARAMS (calls s')) = lora_pkt_bytes sf pre fixLen (if fixLen then len else 255) crcOn iq \<and>
      last (sent RADIO_SET_LORASYMBTIMEOUT (calls s')) = [if cont then 0 else ucast symb] \<and>
      calls s' = cs @ [WriteRegisters SUBGHZ_LIQPOLR [v]] \<and> (bit v 2 \<longleftrightarrow> \<not> iq)"
    by (intro exI [of _ ?f] exI [of _ "calls ?w @ [ReadRegisters SUBGHZ_LIQPOLR 1]"] exI [of _ v])
      (simp add: v(2) s2(3-5,7) t)
qed (use assms(2) in \<open>simp add: RadioSetRxConfig_def\<close>)

theorem SetRxConfig_lora_witness:
  "\<exists>s'. RadioSetRxConfig env0 MODEM_LORA 0 7 1 0 8 5 False 0 True False 0 False True radio0 = Inr s' \<and>
     RxContinuous s' \<and> last (sent RADIO_SET_PACKETPARAMS (calls s')) = [0, 8, 0, 255, 1, 0]"
  using SetRxConfig_lora [of 0 MODEM_FSK env0 7 1 0 8 5 False 0 True False 0 False True radio0]
  by (auto simp: lora_pkt_bytes_def least_preamble_def byte_at_def)

section \<open>Transmission\<close>

text \<open>
  C15: sending a LoRa packet. With the LoRa modem configured, \<^verbatim>\<open>RadioSend\<close> of the first bytes of a buffer,
  as many as its \<open>uint8_t\<close> size says and the buffer has, succeeds and leaves the buffer as it was. It ends
  with exactly these steps: the packet parameters with the length of the payload, the payload
  written to the start of the radio's buffer, the transmit command without a timeout of the radio's, and the start
  of the transmit timer with the configured timeout. Nothing was written to the buffer and no transmission started
  before. The status is a running transmission.
\<close>

theorem RadioSend_lora:
  assumes "Modem s = MODEM_LORA" "PacketType s = PACKET_TYPE_LORA" "pkt_PacketType (PacketParams s) = PACKET_TYPE_LORA"
    and "unat n \<le> length buffer"
  shows "\<exists>s' cs a b h c i. RadioSend X buffer n s = Inr ((RADIO_STATUS_OK, buffer), s') \<and>
    calls s' = calls s @ cs @ [SetCmd RADIO_SET_PACKETPARAMS [a, b, h, n, c, i], WriteBuffer 0 (take (unat n) buffer),
      SetCmd RADIO_SET_TX [0, 0, 0], TimerSetValue TxTimeoutTimer (TxTimeout s), TimerStart TxTimeoutTimer] \<and>
    sent RADIO_SET_TX cs = [] \<and> (\<nexists>off bs. WriteBuffer off bs \<in> set cs) \<and>
    RadioGetStatus s' = RF_TX_RUNNING"
  using assms
  by (simp add: RadioSend_def SUBGRF_SetDioIrqParams_def SUBGRF_SetSwitch_def bw500_workaround_def upd_pkt_def
      SUBGRF_SetPacketParams_def SUBGRF_SendPayload_def SUBGRF_SetPayload_def SUBGRF_WriteBuffer_def SUBGRF_SetTx_def
      start_tx_timer_def RadioGetStatus_def SUBGRF_GetOperatingMode_def byte_at_def Let_def)

theorem RadioSend_lora_witness:
  "\<exists>s' cs a b h c i. RadioSend env0 [1, 2, 3, 9] 3 (radio0\<lparr>Modem := MODEM_LORA, PacketType := PACKET_TYPE_LORA,
      PacketParams := (PacketParams radio0)\<lparr>pkt_PacketType := PACKET_TYPE_LORA\<rparr>, TxTimeout := 3000\<rparr>) =
      Inr ((RADIO_STATUS_OK, [1, 2, 3, 9]), s') \<and>
    calls s' = cs @ [SetCmd RADIO_SET_PACKETPARAMS [a, b, h, 3, c, i], WriteBuffer 0 [1, 2, 3],
      SetCmd RADIO_SET_TX [0, 0, 0], TimerSetValue TxTimeoutTimer 3000, TimerStart TxTimeoutTimer]"
  using RadioSend_lora [of "radio0\<lparr>Modem := MODEM_LORA, PacketType := PACKET_TYPE_LORA,
      PacketParams := (PacketParams radio0)\<lparr>pkt_PacketType := PACKET_TYPE_LORA\<rparr>, TxTimeout := 3000\<rparr>" 3 "[1, 2, 3, 9]" env0]
  by auto

text \<open>
  C13: a firmware packet overruns the application's buffer. With the firmware packet layer set up, sending in
  FSK a buffer that has just the bytes of the payload always overruns it when the frame fits the
  radio: the frame is copied back over the payload and is longer.
\<close>

theorem RadioSend_fsk_overruns:
  assumes "Modem s = MODEM_FSK" "RFW_Is_Init X s = 1" "fw_wf s" "length buffer = unat n"
    and "unat n + unat (PayloadLengthFieldSize s) + unat (CrcFieldSize s) \<le> RADIO_BUF_SIZE"
  shows "RadioSend X buffer n s = Inl OutOfBounds"
proof -
  define s1 where "s1 = bw500_workaround X False (SUBGRF_SetSwitch (AntSwitchPaSelect s) RFSWITCH_TX
    (ext (Probe DBG_GPIO_RADIO_TX True) (SUBGRF_SetDioIrqParams (IRQ_TX_DONE OR IRQ_RX_TX_TIMEOUT)
      (IRQ_TX_DONE OR IRQ_RX_TX_TIMEOUT) IRQ_RADIO_NONE IRQ_RADIO_NONE s)))"
  have s1: "Modem s1 = MODEM_FSK" "Enable s1 = Enable s" "fw_wf s1"
    "PayloadLengthFieldSize s1 = PayloadLengthFieldSize s" "CrcFieldSize s1 = CrcFieldSize s"
    using assms(1,3) by (simp_all add: s1_def bw500_workaround_def SUBGRF_SetSwitch_def
        SUBGRF_SetDioIrqParams_def fw_wf_def Let_def)
  have en: "RFW_ENABLE X" "RFW_Is_Init X s1 = 1"
    using assms(2) s1(2) by (auto simp: RFW_Is_Init_def split: if_splits)
  have longer: "length buffer < length (fw_frame s1 (take (unat n) buffer))"
    using assms(3,4) s1 by (auto simp: length_fw_frame fw_wf_def)
  have "RadioSend X buffer n s = RadioSend_fsk X buffer n s1"
    using assms(1) by (simp add: RadioSend_def s1_def bw500_workaround_def SUBGRF_SetSwitch_def
        SUBGRF_SetDioIrqParams_def Let_def)
  moreover have "RFW_TransmitInit X buffer n out s1 = Inl OutOfBounds" for out
    using TransmitInit_framed [OF s1(3) en(1), of n buffer out] longer assms(4,5) s1(4,5) by auto
  ultimately show ?thesis using en(2) by (simp add: RadioSend_fsk_def)
qed

theorem RadioSend_fsk_overruns_witness:
  "RadioSend env0 [1, 2, 3] 3 (radio0\<lparr>Enable := 1\<rparr>) = Inl OutOfBounds"
proof -
  let ?s = "radio0\<lparr>Enable := 1\<rparr>"
  have "fw_wf ?s" "PayloadLengthFieldSize ?s = 1" "CrcFieldSize ?s = 2" "RFW_Is_Init env0 ?s = 1"
    by (simp_all add: radio0_def fw_state.defs drv_state.defs fw0_def drv0_def fw_wf_def RADIO_BUF_SIZE_def
        RFW_Is_Init_def env0_def)
  then show ?thesis
    using RadioSend_fsk_overruns [of ?s env0 "[1, 2, 3]" 3] by (simp add: RADIO_BUF_SIZE_def)
qed

section \<open>Interrupts\<close>

text \<open>
  The callback every interrupt leads to, the end of a reception and the synchronisation word apart, and
  whether it ends what the radio was doing.
\<close>

definition irq_callbacks :: "u16 \<Rightarrow> radio_state \<Rightarrow> ext_call list" where
  "irq_callbacks irq s =
     (if irq = IRQ_TX_DONE then [TxDone]
      else if irq = IRQ_CAD_CLEAR then [CadDone False]
      else if irq = IRQ_CAD_DETECTED then [CadDone True]
      else if irq = IRQ_RX_TX_TIMEOUT then
        (if OperatingMode s = MODE_TX then [TxTimeoutCb] else if OperatingMode s = MODE_RX then [RxTimeoutCb] else [])
      else if irq = IRQ_HEADER_ERROR then [RxTimeoutCb]
      else if irq = IRQ_CRC_ERROR then [RxError]
      else [])"

definition irq_ends :: "u16 \<Rightarrow> radio_state \<Rightarrow> bool" where
  "irq_ends irq s \<longleftrightarrow>
     irq = IRQ_TX_DONE \<or> irq = IRQ_CAD_CLEAR \<or> irq = IRQ_CAD_DETECTED \<or>
     irq = IRQ_RX_TX_TIMEOUT \<and> (OperatingMode s = MODE_TX \<or> OperatingMode s = MODE_RX) \<or>
     (irq = IRQ_HEADER_ERROR \<or> irq = IRQ_CRC_ERROR) \<and> \<not> RxContinuous s"

definition all_callbacks :: "RadioEvents_t \<Rightarrow> bool" where
  "all_callbacks e \<longleftrightarrow> ev_TxDone e \<and> ev_TxTimeout e \<and> ev_RxDone e \<and> ev_RxTimeout e \<and> ev_RxError e \<and> ev_CadDone e"

lemma notify_set: "RadioEvents s = Some e \<Longrightarrow> ev e \<Longrightarrow> notify ev c s = ext c s"
  by (simp add: notify_def)

lemma standby_sel [simp]:
  "RadioEvents (SUBGRF_SetStandby m (s :: radio_state)) = RadioEvents s"
  "RxContinuous (SUBGRF_SetStandby m (s :: radio_state)) = RxContinuous s"
  "RadioBuffer (SUBGRF_SetStandby m (s :: radio_state)) = RadioBuffer s"
  "PacketType (SUBGRF_SetStandby m s) = PacketType s" "LoRaHeaderType (SUBGRF_SetStandby m s) = LoRaHeaderType s"
  "filter is_event (calls (SUBGRF_SetStandby m s)) = filter is_event (calls s)"
  "OperatingMode (SUBGRF_SetStandby STDBY_RC s) = MODE_STDBY_RC"
  by (simp_all add: SUBGRF_SetStandby_def Let_def)

lemma DeInit_TxLongPacket_sel [simp]:
  "RadioEvents (RFW_DeInit_TxLongPacket X s) = RadioEvents s"
  "OperatingMode (RFW_DeInit_TxLongPacket X s) = OperatingMode s"
  "filter is_event (calls (RFW_DeInit_TxLongPacket X s)) = filter is_event (calls s)"
  by (simp_all add: RFW_DeInit_TxLongPacket_def Let_def)

text \<open>
  C18: interrupts. For an application with all its callbacks, every interrupt but the end of a
  reception and the synchronisation word is processed without a fault, calls the callback of
  the table exactly once, and no other; it leaves the radio in standby when it ends what the radio
  was doing (a header or CRC error only outside continuous reception) and the mode alone otherwise.
\<close>

theorem irq_one_callback:
  assumes "RadioEvents s = Some e" "all_callbacks e" "irq \<noteq> IRQ_RX_DONE" "irq \<noteq> IRQ_SYNCWORD_VALID"
  shows "\<exists>s'. RadioOnDioIrq X irq s = Inr s' \<and>
    filter is_event (calls s') = filter is_event (calls s) @ irq_callbacks irq s \<and>
    OperatingMode s' = (if irq_ends irq s then MODE_STDBY_RC else OperatingMode s)"
proof -
  let ?s = "s\<lparr>RadioIrq := irq\<rparr>"
  have "irq_ends irq ?s = irq_ends irq s" "irq_callbacks irq ?s = irq_callbacks irq s"
    by (simp_all add: irq_ends_def irq_callbacks_def)
  moreover have "\<exists>s'. RadioIrqProcess X ?s = Inr s' \<and>
      filter is_event (calls s') = filter is_event (calls ?s) @ irq_callbacks irq ?s \<and>
      OperatingMode s' = (if irq_ends irq ?s then MODE_STDBY_RC else OperatingMode ?s)"
    using assms
    by (simp add: RadioIrqProcess_def irq_tx_done_def irq_cad_def irq_rx_tx_timeout_def irq_preamble_detected_def
        RadioWrite_def RadioRead_def SUBGRF_SetDioIrqParams_def SUBGRF_GetOperatingMode_def
        notify_set [of _ e] all_callbacks_def irq_callbacks_def irq_ends_def Let_def)
  ultimately show ?thesis by (cases "irq_ends irq s") (simp_all add: RadioOnDioIrq_def)
qed

theorem irq_one_callback_witness:
  "\<exists>s'. RadioOnDioIrq env0 IRQ_TX_DONE radio0 = Inr s' \<and> filter is_event (calls s') = [TxDone]"
  using irq_one_callback [of radio0 events0 IRQ_TX_DONE env0]
  by (auto simp: all_callbacks_def events0_def irq_callbacks_def)

section \<open>Reception\<close>

lemma rx_done_standby_sel:
  "PacketType (rx_done_standby X s) = PacketType s" "RadioEvents (rx_done_standby X s) = RadioEvents s"
  "RadioBuffer (rx_done_standby X s) = RadioBuffer s"
  "OperatingMode (rx_done_standby X s) = (if RxContinuous s then OperatingMode s else MODE_STDBY_RC)"
  "LoRaHeaderType (rx_done_standby X s) = LoRaHeaderType s"
  by (simp_all add: rx_done_standby_def Let_def)

text \<open>
  What announces a received packet after the calls \<open>h\<close>: the two bytes of the buffer status, of which the
  second is the offset and the first the number of bytes, or the payload length register instead of it
  for LoRa packets without a header.
\<close>

definition announced :: "env \<Rightarrow> bool \<Rightarrow> ext_call list \<Rightarrow> ext_call list \<times> u8 \<times> u8" where
  "announced X headerless h =
     (let status = GetCmd RADIO_GET_RXBUFFERSTATUS 2; len = ReadRegisters REG_LR_PAYLOADLENGTH 1
      in if headerless then ([status, len], read_regs X (h @ [status]) REG_LR_PAYLOADLENGTH 1 0, stack_byte X h 1)
         else ([status], stack_byte X h 0, stack_byte X h 1))"

lemma RxBufferStatus_announced:
  assumes "announced X (PacketType v = PACKET_TYPE_LORA \<and> LoRaHeaderType v = LORA_PACKET_FIXED_LENGTH) (calls v) = (cs, n, off)"
  shows "SUBGRF_GetRxBufferStatus X v = ((n, off), v\<lparr>calls := calls v @ cs\<rparr>)"
  using assms
  by (auto simp: announced_def SUBGRF_GetRxBufferStatus_def SUBGRF_GetPacketType_def Let_def ext_def split: if_splits)

lemma GetPayload_cases:
  obtains r n bs cs where "SUBGRF_GetPayload X 255 v = ((r, n, bs), v\<lparr>calls := calls v @ cs\<rparr>)" "length bs \<le> 255"
proof -
  obtain n off cs where w: "SUBGRF_GetRxBufferStatus X v = ((n, off), v\<lparr>calls := calls v @ cs\<rparr>)"
    using RxBufferStatus_announced by (metis prod_cases3)
  have "unat n \<le> 255" using unat_u8_less [of n] by (simp del: unat_u8_less)
  moreover have "\<not> n > 255" using calculation by (simp add: word_less_nat_alt)
  ultimately show thesis
    by (intro that [of 0 n "map (read_buf X (calls v @ cs) off (unat n)) [0..<unat n]" "cs @ [ReadBuffer off (unat n)]"])
      (simp_all add: SUBGRF_GetPayload_def SUBGRF_ReadBuffer_def w ext_def)
qed

text \<open>
  C12: a received LoRa packet is delivered. When the end of a reception is signalled in LoRa, the
  handler returns. Its last calls ask for the buffer status - and read the payload length register when
  the packets have no header - read the announced number of bytes from the announced offset of the
  radio's buffer, ask for the packet status and hand exactly those bytes with their number to the
  application. The offset is the second byte of the buffer status, the number the first one or the
  register. The RSSI handed over is minus half the first byte of the packet status, rounded
  down, between -128 and 0, and the SNR a quarter of the signed second one, rounded to the nearest,
  between -32 and 32. The copy stays inside \<^verbatim>\<open>RadioBuffer\<close>, and outside continuous reception the radio is
  in standby. (No answer reaches the two status arrays in the simulator, so their bytes are those the
  uninitialised arrays hold.)
\<close>

theorem rx_done_delivers:
  assumes "PacketType s = PACKET_TYPE_LORA" "RadioEvents s = Some e" "ev_RxDone e" "length (RadioBuffer s) = 255"
  shows "\<exists>s' h cs n off payload rssi snr. RadioOnDioIrq X IRQ_RX_DONE s = Inr s' \<and>
    announced X (LoRaHeaderType s = LORA_PACKET_FIXED_LENGTH) h = (cs, n, off) \<and>
    calls s' = h @ cs @ [ReadBuffer off (unat n), GetCmd RADIO_GET_PACKETSTATUS 3, RxDone payload (ucast n) rssi snr] \<and>
    payload = map (read_buf X (h @ cs) off (unat n)) [0..<unat n] \<and>
    length (RadioBuffer s') = 255 \<and> take (unat n) (RadioBuffer s') = payload \<and>
    rssi = - uint (stack_byte X (h @ cs @ [ReadBuffer off (unat n)]) 0) div 2 \<and> rssi \<in> {-128..0} \<and>
    snr = (sint (stack_byte X (h @ cs @ [ReadBuffer off (unat n)]) 1) + 2) div 4 \<and> snr \<in> {-32..32} \<and>
    OperatingMode s' = (if RxContinuous s then OperatingMode s else MODE_STDBY_RC)"
proof -
  define v where "v = rx_done_standby X
    (ext (TimerStop RxTimeoutTimer) (ext (Probe DBG_GPIO_RADIO_RX False) (s\<lparr>RadioIrq := IRQ_RX_DONE\<rparr>)))"
  have v: "PacketType v = PACKET_TYPE_LORA" "RadioEvents v = Some e" "length (RadioBuffer v) = 255"
    "OperatingMode v = (if RxContinuous s then OperatingMode s else MODE_STDBY_RC)" "LoRaHeaderType v = LoRaHeaderType s"
    using assms by (simp_all add: v_def rx_done_standby_sel)
  obtain cs n off where an: "announced X (LoRaHeaderType s = LORA_PACKET_FIXED_LENGTH) (calls v) = (cs, n, off)"
    by (metis prod_cases3)
  have w: "SUBGRF_GetRxBufferStatus X v = ((n, off), v\<lparr>calls := calls v @ cs\<rparr>)"
    using RxBufferStatus_announced [of X v] an v(1,5) by simp
  let ?bs = "map (read_buf X (calls v @ cs) off (unat n)) [0..<unat n]"
  let ?st = "stack_byte X (calls v @ cs @ [ReadBuffer off (unat n)])"
  have n: "\<not> n > 255" "unat n \<le> 255" using unat_u8_less [of n] by (simp_all add: word_less_nat_alt del: unat_u8_less)
  have gp: "SUBGRF_GetPayload X 255 v = ((0, n, ?bs), ext (ReadBuffer off (unat n)) (v\<lparr>calls := calls v @ cs\<rparr>))"
    using n by (simp add: SUBGRF_GetPayload_def SUBGRF_ReadBuffer_def w)
  have "\<exists>s'. irq_rx_done X (s\<lparr>RadioIrq := IRQ_RX_DONE\<rparr>) = Inr s' \<and>
    calls s' = calls v @ cs @ [ReadBuffer off (unat n), GetCmd RADIO_GET_PACKETSTATUS 3,
      RxDone ?bs (ucast n) (- uint (?st 0) div 2) ((sint (?st 1) + 2) div 4)] \<and>
    RadioBuffer s' = blit 0 ?bs (RadioBuffer v) \<and> OperatingMode s' = OperatingMode v"
    unfolding irq_rx_done_def Let_def v_def [symmetric] gp prod.case
    using v n assms(3) take_blit_prefix [of ?bs "RadioBuffer v"]
    by (simp add: SUBGRF_GetPacketStatus_def SUBGRF_GetPacketType_def Let_def rssi_byte snr_byte)
  moreover have "RadioOnDioIrq X IRQ_RX_DONE s = irq_rx_done X (s\<lparr>RadioIrq := IRQ_RX_DONE\<rparr>)"
    by (simp add: RadioOnDioIrq_def RadioIrqProcess_def)
  moreover have "length (blit 0 ?bs (RadioBuffer v)) = 255" "take (unat n) (blit 0 ?bs (RadioBuffer v)) = ?bs"
    using v(3) n(2) take_blit_prefix [of ?bs "RadioBuffer v"] by simp_all
  ultimately show ?thesis
    using an v(4) rssi_byte(2,3) [of "?st 0"] snr_byte(2,3) [of "?st 1"] by fastforce
qed

theorem rx_done_delivers_witness:
  "\<exists>s' h. RadioOnDioIrq env0 IRQ_RX_DONE (radio0\<lparr>PacketType := PACKET_TYPE_LORA\<rparr>) = Inr s' \<and>
    calls s' = h @ [ReadBuffer 3 3, GetCmd RADIO_GET_PACKETSTATUS 3, RxDone [1, 2, 3] 3 (-2) 1]"
proof -
  let ?s = "radio0\<lparr>PacketType := PACKET_TYPE_LORA\<rparr>"
  have "LoRaHeaderType radio0 \<noteq> LORA_PACKET_FIXED_LENGTH"
    by (simp add: radio0_def fw_state.defs drv_state.defs fw0_def drv0_def LORA_PACKET_FIXED_LENGTH_def)
  moreover have "stack_byte env0 h i = 3" "read_buf env0 h off n i = of_nat i + 1" for h off n i
    by (simp_all add: env0_def)
  ultimately show ?thesis
    using rx_done_delivers [of ?s events0 env0] by (auto simp: events0_def announced_def upt_rec)
qed

text \<open>
  What the simulator cuts out of FSK. Sensing a channel configures the receiver for FSK and so
  always ends the process; the end of a reception in any packet type but LoRa ends it too when the
  application has a callback for it, and so does an acceptable FSK configuration of the receiver.
\<close>

theorem fsk_unsupported:
  assumes "PacketType s \<noteq> PACKET_TYPE_LORA" "RadioEvents s = Some e" "ev_RxDone e" "length (RadioBuffer s) = 255"
    and "rxf_BitRate (rx_fsk cfg) \<noteq> 0" "rxf_PreambleLen (rx_fsk cfg) \<noteq> 0"
    and "unat (rxf_SyncWordLength (rx_fsk cfg)) \<le> min 8 (length (rxf_SyncWord (rx_fsk cfg)))"
  shows "(\<exists>m. RadioIsChannelFree X freq bw thresh time s = Inl (SimError m)) \<and>
    (\<exists>m. RadioOnDioIrq X IRQ_RX_DONE s = Inl (SimError m)) \<and>
    (\<exists>m. RadioSetRxGenericConfig X GENERIC_FSK cfg cont symb s = Inl (SimError m))"
proof (intro conjI)
  show "\<exists>m. RadioIsChannelFree X freq bw thresh time s = Inl (SimError m)"
    by (simp add: RadioIsChannelFree_def RadioSetRxConfig_def Let_def)
  show "\<exists>m. RadioSetRxGenericConfig X GENERIC_FSK cfg cont symb s = Inl (SimError m)"
    using assms(5-7)
    by (simp add: RadioSetRxGenericConfig_def copy_syncword_def SUBGRF_GetFskBandwidthRegValue_def Let_def
        word_less_nat_alt)
  define v where "v = rx_done_standby X
    (ext (TimerStop RxTimeoutTimer) (ext (Probe DBG_GPIO_RADIO_RX False) (s\<lparr>RadioIrq := IRQ_RX_DONE\<rparr>)))"
  have v: "PacketType v \<noteq> PACKET_TYPE_LORA" "RadioEvents v = Some e" "length (RadioBuffer v) = 255"
    using assms by (simp_all add: v_def rx_done_standby_sel)
  obtain r n and bs :: "u8 list" and cs where gp: "SUBGRF_GetPayload X 255 v = ((r, n, bs), v\<lparr>calls := calls v @ cs\<rparr>)"
    "length bs \<le> 255"
    by (rule GetPayload_cases)
  have "\<exists>m. irq_rx_done X (s\<lparr>RadioIrq := IRQ_RX_DONE\<rparr>) = Inl (SimError m)"
    unfolding irq_rx_done_def Let_def v_def [symmetric] gp(1) prod.case
    using v gp(2) assms(3)
    by (cases "PacketType v")
      (simp_all add: SUBGRF_GetPacketStatus_def SUBGRF_GetPacketType_def SUBGRF_GetCFO_def Let_def)
  then show "\<exists>m. RadioOnDioIrq X IRQ_RX_DONE s = Inl (SimError m)"
    by (simp add: RadioOnDioIrq_def RadioIrqProcess_def)
qed

definition rx_cfg0 :: RxConfigGeneric_t where
  "rx_cfg0 = \<lparr>rx_fsk = \<lparr>rxf_StopTimerOnPreambleDetect = 0, rxf_Bandwidth = 4800, rxf_BitRate = 9600, rxf_PreambleLen = 4,
       rxf_SyncWord = [0xC1, 0x94, 0xC1], rxf_MaxPayloadLength = 255, rxf_CrcPolynomial = 0x1021, rxf_CrcSeed = 0x1D0F,
       rxf_whiteSeed = 0x01FF, rxf_SyncWordLength = 3, rxf_PreambleMinDetect = 0, rxf_ModulationShaping = 0,
       rxf_AddrComp = 0, rxf_LengthMode = 1, rxf_CrcLength = 1, rxf_Whitening = 0\<rparr>,
     rx_lora = \<lparr>rxl_StopTimerOnPreambleDetect = 0, rxl_SpreadingFactor = 7, rxl_Bandwidth = 4, rxl_Coderate = 1,
       rxl_LowDatarateOptimize = 2, rxl_PreambleLen = 8, rxl_LengthMode = 0, rxl_MaxPayloadLength = 255, rxl_CrcMode = 1,
       rxl_IqInverted = 0\<rparr>\<rparr>"

theorem fsk_unsupported_witness:
  "(\<exists>m. RadioIsChannelFree env0 868100000 4800 (-80) 100 radio0 = Inl (SimError m)) \<and>
   (\<exists>m. RadioSetRxGenericConfig env0 GENERIC_FSK rx_cfg0 0 5 radio0 = Inl (SimError m))"
  using fsk_unsupported [of radio0 events0 rx_cfg0 env0 868100000 4800 "-80" 100 0 5]
  by (simp add: events0_def rx_cfg0_def)

section \<open>Sigfox frames\<close>

text \<open>The running value of the integration: the parity of the inverted bits so far.\<close>

fun integral :: "u8 list \<Rightarrow> nat \<Rightarrow> bool" where
  "integral bs 0 = False"
| "integral bs (Suc i) = (integral bs i \<noteq> bit_at bs i)"

definition bit_word :: "bool \<Rightarrow> u8" where
  "bit_word b = (if b then 1 else 0)"

lemma bit_push_bit_word: "q < 8 \<Longrightarrow> bit (push_bit q (bit_word b)) m \<longleftrightarrow> b \<and> m = q"
  by (auto simp: bit_word_def bit_simps)

lemma bit_word_extract: "drop_bit k b AND 1 = bit_word (bit b k)"
  by (simp add: bit_word_def and_one_eq odd_iff_mod_2_eq_one bit_iff_odd_drop_bit)

lemma bit_word_xor: "bit_word a XOR bit_word b = bit_word (a \<noteq> b)"
  by (simp add: bit_word_def)

lemma position_eq: "j div 8 = k div 8 \<and> 7 - j mod 8 = 7 - k mod 8 \<longleftrightarrow> j = (k :: nat)"
proof
  assume A: "j div 8 = k div 8 \<and> 7 - j mod 8 = 7 - k mod 8"
  moreover have "j mod 8 < 8" "k mod 8 < 8" by simp_all
  ultimately have "j mod 8 = k mod 8" by linarith
  with A show "j = k" by (metis div_mult_mod_eq)
qed simp

lemma bit_at_or:
  assumes "k div 8 < length bs"
  shows "bit_at (bs[k div 8 := bs ! (k div 8) OR push_bit (7 - k mod 8) (bit_word b)]) j \<longleftrightarrow>
    bit_at bs j \<or> j = k \<and> b"
proof -
  have "7 - k mod 8 < 8" by simp
  then show ?thesis
    using assms position_eq [of j k]
    by (auto simp: bit_at_def nth_list_update bit_or_iff bit_push_bit_word)
qed

lemma integration_run:
  assumes "k \<le> 8 * sz" "sz < length out" "length bs = sz" "\<And>j. j < 8 * sz \<Longrightarrow> \<not> bit_at out j"
  shows "\<exists>out'. fold (integration_step bs) [0..<k] (0, out) = (bit_word (integral bs k), out') \<and>
    length out' = length out \<and> (\<forall>j < 8 * sz. bit_at out' j \<longleftrightarrow> j \<le> k \<and> integral bs j)"
  using assms(1)
proof (induction k)
  case 0
  then show ?case using assms(4) by (auto simp: bit_word_def)
next
  case (Suc k)
  then obtain out' where IH: "fold (integration_step bs) [0..<k] (0, out) = (bit_word (integral bs k), out')"
    "length out' = length out" "\<And>j. j < 8 * sz \<Longrightarrow> bit_at out' j \<longleftrightarrow> j \<le> k \<and> integral bs j" by auto
  have "Suc k div 8 < length out'" using Suc.prems assms(2) IH(2) by linarith
  note new = bit_at_or [OF this]
  have "integration_step bs k (bit_word (integral bs k), out') =
    (bit_word (integral bs (Suc k)),
     out'[Suc k div 8 := out' ! (Suc k div 8) OR push_bit (7 - Suc k mod 8) (bit_word (integral bs (Suc k)))])"
    unfolding integration_step_def Let_def prod.case numeral_One bit_word_extract bit_word_xor
    by (simp add: bit_at_def)
  moreover have "(j \<le> k \<and> integral bs j \<or> j = Suc k \<and> integral bs (Suc k)) \<longleftrightarrow> j \<le> Suc k \<and> integral bs j" for j
    by (auto simp: le_Suc_eq)
  ultimately show ?case using IH new by (simp del: integral.simps)
qed

lemma bit_at_update_other: "j div 8 \<noteq> n \<Longrightarrow> bit_at (bs[n := b]) j = bit_at bs j"
  by (simp add: bit_at_def)

lemma bit_at_cleared: "j < 8 * n \<Longrightarrow> \<not> bit_at (blit 0 (replicate n 0) out) j"
  by (simp add: bit_at_def blit_def nth_append div_less_iff_less_mult)

lemma bit_at_not: "j < 8 * length bs \<Longrightarrow> bit_at (map (\<lambda>b. NOT b) bs) j = (\<not> bit_at bs j)"
  by (auto simp: bit_at_def bit_not_iff div_less_iff_less_mult)

lemma bit_at_last:
  assumes "n < length bs" "i < 8"
  shows "bit_at (bs[n := b]) (8 * n + i) = bit b (7 - i)"
  using assms by (simp add: bit_at_def div_add1_eq mod_add_eq)

text \<open>
  C25: the Sigfox encoding. A frame that is shorter than the output buffer is encoded without a fault: the
  output keeps its length and holds the frame in differential form from its first bit, a zero, on.
  Two neighbouring bits are equal exactly for a one of the frame, so the receiver gets the frame back;
  the last bit is repeated once and then inverted. The input buffer ends inverted. A frame as
  long as the buffer, 255 bytes for \<^verbatim>\<open>RadioBuffer\<close>, is written past its end.
\<close>

theorem payload_integration_decodes:
  assumes "length frame < length out" "length out \<le> length long"
  shows "(\<exists>enc. payload_integration out frame = Inr (enc, map (\<lambda>b. NOT b) frame) \<and> length enc = length out \<and>
      (frame \<noteq> [] \<longrightarrow> \<not> bit_at enc 0) \<and>
      (\<forall>i < 8 * length frame. bit_at frame i \<longleftrightarrow> (bit_at enc i \<longleftrightarrow> bit_at enc (i + 1))) \<and>
      (bit_at enc (8 * length frame + 1) \<longleftrightarrow> bit_at enc (8 * length frame)) \<and>
      (bit_at enc (8 * length frame + 2) \<longleftrightarrow> \<not> bit_at enc (8 * length frame))) \<and>
    payload_integration out long = Inl OutOfBounds"
proof (rule conjI)
  let ?n = "length frame" and ?inv = "map (\<lambda>b. NOT b) frame"
  let ?out = "blit 0 (replicate ?n 0) out"
  obtain out' where out': "fold (integration_step ?inv) [0..<8 * ?n] (0, ?out) = (bit_word (integral ?inv (8 * ?n)), out')"
    "length out' = length out" "\<And>j. j < 8 * ?n \<Longrightarrow> bit_at out' j \<longleftrightarrow> integral ?inv j"
    using integration_run [of "8 * ?n" ?n ?out ?inv] assms(1) bit_at_cleared [of _ ?n out] by auto
  let ?p = "integral ?inv (8 * ?n)"
  define t where "t = (push_bit 7 (bit_word ?p) OR push_bit 6 (bit_word ?p) OR push_bit 5 (bit_word (\<not> ?p)))"
  have t: "bit t 7 \<longleftrightarrow> ?p" "bit t 6 \<longleftrightarrow> ?p" "bit t 5 \<longleftrightarrow> \<not> ?p"
    by (simp_all add: t_def bit_or_iff bit_push_bit_word)
  let ?enc = "out'[?n := t]"
  have inner: "bit_at ?enc j \<longleftrightarrow> integral ?inv j" if "j < 8 * ?n" for j
    using that out'(3) by (subst bit_at_update_other) (simp_all add: div_less_iff_less_mult)
  have last: "bit_at ?enc (8 * ?n + i) = bit t (7 - i)" if "i < 8" for i
    using that assms(1) out'(2) by (intro bit_at_last) simp_all
  have all: "bit_at ?enc j \<longleftrightarrow> integral ?inv j" if "j \<le> 8 * ?n" for j
    using that inner [of j] last [of 0] t(1) by (cases "j = 8 * ?n") auto
  have "payload_integration out frame = Inr (?enc, ?inv)"
    using assms(1) out'(1) by (simp add: payload_integration_def Let_def t_def bit_word_def mult.commute)
  moreover have "bit_at frame i \<longleftrightarrow> (bit_at ?enc i \<longleftrightarrow> bit_at ?enc (i + 1))" if "i < 8 * ?n" for i
    using that all [of i] all [of "i + 1"] bit_at_not [of i frame] by auto
  moreover have "\<not> bit_at ?enc 0" if "frame \<noteq> []"
    using all [of 0] by simp
  ultimately show "\<exists>enc. payload_integration out frame = Inr (enc, map (\<lambda>b. NOT b) frame) \<and> length enc = length out \<and>
      (frame \<noteq> [] \<longrightarrow> \<not> bit_at enc 0) \<and>
      (\<forall>i < 8 * length frame. bit_at frame i \<longleftrightarrow> (bit_at enc i \<longleftrightarrow> bit_at enc (i + 1))) \<and>
      (bit_at enc (8 * length frame + 1) \<longleftrightarrow> bit_at enc (8 * length frame)) \<and>
      (bit_at enc (8 * length frame + 2) \<longleftrightarrow> \<not> bit_at enc (8 * length frame))"
    using out'(2) last [of 0] last [of 1] last [of 2] t by (intro exI [of _ ?enc]) simp
  show "payload_integration out long = Inl OutOfBounds"
    using assms(2) by (simp add: payload_integration_def)
qed

theorem payload_integration_decodes_witness:
  "(\<exists>enc. payload_integration (replicate 255 0) [0xA5] = Inr (enc, [0x5A]) \<and> length enc = 255 \<and> \<not> bit_at enc 0) \<and>
   payload_integration (replicate 255 0) (replicate 255 1) = Inl OutOfBounds"
  using payload_integration_decodes [of "[0xA5]" "replicate 255 0" "replicate 255 1"] by auto

end
