(* ===== verification/Ending_Systems.thy ===== *)
theory Ending_Systems
  imports Radio_Prelude
begin

text \<open>
  Runs of a system that executes one action at a time, and the contract of a system whose runs end.
  The thread handshakes and the trace utility are instances.
\<close>

section \<open>Systems whose runs end\<close>

text \<open>
  The contract of a system whose runs end: an invariant, a rank that every step but the disturbing
  ones lowers, a bound on what a disturbing step adds, and progress until the system is done.
\<close>

fun run :: "('a \<Rightarrow> 's \<Rightarrow> 's option) \<Rightarrow> 'a list \<Rightarrow> 's \<Rightarrow> 's option" where
  "run stp [] s = Some s"
| "run stp (a # as) s = (case stp a s of None \<Rightarrow> None | Some s' \<Rightarrow> run stp as s')"

lemma run_append: "run stp (as @ bs) s = (case run stp as s of None \<Rightarrow> None | Some s' \<Rightarrow> run stp bs s')"
  by (induction as arbitrary: s) (auto split: option.split)

locale ending_system =
  fixes stp :: "'a \<Rightarrow> 's \<Rightarrow> 's option"
    and inv :: "'s \<Rightarrow> bool"
    and inner :: "'a \<Rightarrow> bool"
    and disturbs :: "'a \<Rightarrow> bool"
    and rank :: "'s \<Rightarrow> nat"
    and extra :: nat
    and final :: "'s \<Rightarrow> bool"
  assumes inv_step: "inv s \<Longrightarrow> inner a \<Longrightarrow> stp a s = Some s' \<Longrightarrow> inv s'"
    and rank_less: "inv s \<Longrightarrow> inner a \<Longrightarrow> \<not> disturbs a \<Longrightarrow> stp a s = Some s' \<Longrightarrow> rank s' < rank s"
    and rank_extra: "inv s \<Longrightarrow> inner a \<Longrightarrow> disturbs a \<Longrightarrow> stp a s = Some s' \<Longrightarrow> rank s' \<le> rank s + extra"
    and progress: "inv s \<Longrightarrow> \<not> final s \<Longrightarrow> \<exists>a s'. inner a \<and> \<not> disturbs a \<and> stp a s = Some s'"
begin

lemma inv_run: "inv s \<Longrightarrow> list_all inner as \<Longrightarrow> run stp as s = Some s' \<Longrightarrow> inv s'"
  by (induction as arbitrary: s) (auto split: option.splits dest: inv_step)

lemma run_bound:
  "inv s \<Longrightarrow> list_all inner as \<Longrightarrow> run stp as s = Some s' \<Longrightarrow>
     length as + rank s' \<le> rank s + (extra + 1) * length (filter disturbs as)"
proof (induction as arbitrary: s)
  case (Cons a as)
  then obtain s1 where s1: "stp a s = Some s1" and rest: "run stp as s1 = Some s'"
    by (auto split: option.splits)
  have "inv s1" using inv_step Cons.prems s1 by auto
  then have "length as + rank s' \<le> rank s1 + (extra + 1) * length (filter disturbs as)"
    using Cons.IH Cons.prems rest by auto
  moreover have "rank s1 + 1 \<le> rank s + (if disturbs a then extra + 1 else 0)"
    using rank_less [of s a s1] rank_extra [of s a s1] Cons.prems s1 by auto
  ultimately show ?case by auto
qed simp

lemma run_ends: "inv s \<Longrightarrow> \<exists>as s'. list_all inner as \<and> filter disturbs as = [] \<and> run stp as s = Some s' \<and> final s'"
proof (induction "rank s" arbitrary: s rule: less_induct)
  case less
  show ?case
  proof (cases "final s")
    case True
    then have "list_all inner [] \<and> filter disturbs [] = [] \<and> run stp [] s = Some s \<and> final s" by simp
    then show ?thesis by blast
  next
    case False
    obtain a s1 where a: "inner a" "\<not> disturbs a" "stp a s = Some s1"
      using progress less.prems False by blast
    then obtain as s' where "list_all inner as" "filter disturbs as = []" "run stp as s1 = Some s'" "final s'"
      using less.hyps [of s1] rank_less inv_step less.prems by blast
    with a have "list_all inner (a # as) \<and> filter disturbs (a # as) = [] \<and> run stp (a # as) s = Some s' \<and> final s'"
      by simp
    then show ?thesis by blast
  qed
qed

end

end
