(* ===== verification/Sim_Threads.thy ===== *)
theory Sim_Threads
  imports Ending_Systems Complex_Main
begin

text \<open>
  The handshakes between a firmware thread and the simulator (\<^verbatim>\<open>native_node.c\<close>, \<^verbatim>\<open>radio_node.c\<close> and the
  delays of \<^verbatim>\<open>stm32wlxx_hal.c\<close>). Each C function is the list of its statements, the granularity at which
  the two threads interleave; \<open>step\<close> executes one statement of either thread, wakes the firmware
  spuriously, or lets the simulator go on. The theory shows that the blocking calls always
  return, what they return, and where a transmission escapes the handshake.
\<close>

section \<open>State\<close>

text \<open>
  The three triples of a flag, a condition variable and a mutex: \<open>SLEEP\<close> of \<^verbatim>\<open>native_node.c\<close>, \<open>TX_DONE\<close>
  and \<open>RX_DONE\<close> of \<^verbatim>\<open>radio_node.c\<close>.
\<close>

datatype chan = SLEEP | TX_DONE | RX_DONE

datatype thread = Firmware | Simulator

text \<open>The functions of the simulator the C code calls to start something.\<close>

datatype request =
    sim_sleep_start real
  | sim_transmit_start "u8 list" int
  | sim_start_receive nat int int

datatype err_var = sim_tx_err_var | sim_rx_err_var | sim_rx_bytes_received_var

text \<open>
  A statement. \<open>Start\<close> calls the simulator and returns its error if there is one; \<open>Wait_ready\<close> is the
  loop around \<^verbatim>\<open>pthread_cond_wait\<close>, whose second half, taking the mutex again, is \<open>Reacquire\<close>; \<open>Load\<close>
  makes a variable the value to return.
\<close>

datatype instr =
    Start request
  | Return_if_transmitting int
  | Lock chan
  | Wait_ready chan
  | Reacquire chan
  | Unlock chan
  | Set_ready chan int
  | Set_var err_var int
  | Signal chan
  | Load err_var
  | Load_ready chan
  | Return_if_nonzero

definition SIM_ERR_SIM_ENDED :: int where [simp]: "SIM_ERR_SIM_ENDED = -1"
definition SIM_ERR_ALREADY_TRANSMITTING :: int where [simp]: "SIM_ERR_ALREADY_TRANSMITTING = -2"
definition SIM_ERR_TIMEOUT :: int where [simp]: "SIM_ERR_TIMEOUT = -3"
definition SIM_ERR_UNKNOWN_ERR :: int where [simp]: "SIM_ERR_UNKNOWN_ERR = -4"

section \<open>The C functions\<close>

definition sim_sleep :: "real \<Rightarrow> instr list" where
  "sim_sleep duration =
     [Start (sim_sleep_start duration),
      Lock SLEEP,
      Wait_ready SLEEP,
      Unlock SLEEP,
      Set_ready SLEEP 0]"

definition sim_sleep_end :: "instr list" where
  "sim_sleep_end =
     [Lock SLEEP,
      Set_ready SLEEP 1,
      Signal SLEEP,
      Unlock SLEEP]"

definition sim_wait_transmit_finished :: "instr list" where
  "sim_wait_transmit_finished =
     [Return_if_transmitting SIM_ERR_ALREADY_TRANSMITTING,
      Lock TX_DONE,
      Wait_ready TX_DONE,
      Unlock TX_DONE,
      Set_ready TX_DONE 0,
      Load sim_tx_err_var]"

definition sim_is_transmit_finished :: "instr list" where
  "sim_is_transmit_finished = [Load_ready TX_DONE]"

definition sim_wait_receive_finished :: "instr list" where
  "sim_wait_receive_finished =
     [Lock RX_DONE,
      Wait_ready RX_DONE,
      Unlock RX_DONE,
      Set_ready RX_DONE 0,
      Load sim_rx_err_var]"

definition sim_transmit_blocking :: "u8 list \<Rightarrow> int \<Rightarrow> instr list" where
  "sim_transmit_blocking data len = Start (sim_transmit_start data len) # sim_wait_transmit_finished"

definition sim_receive_blocking :: "nat \<Rightarrow> int \<Rightarrow> int \<Rightarrow> instr list" where
  "sim_receive_blocking data len timeout_ms =
     [Start (sim_start_receive data len timeout_ms)] @
     sim_wait_receive_finished @
     [Return_if_nonzero,
      Load sim_rx_bytes_received_var]"

definition sim_receive_blocking_no_timeout :: "nat \<Rightarrow> int \<Rightarrow> instr list" where
  "sim_receive_blocking_no_timeout data len = sim_receive_blocking data len (-1)"

definition sim_tx_done_callback :: "int \<Rightarrow> instr list" where
  "sim_tx_done_callback err =
     [Lock TX_DONE,
      Set_ready TX_DONE 1,
      Set_var sim_tx_err_var err,
      Signal TX_DONE,
      Unlock TX_DONE]"

definition sim_rx_done_callback :: "int \<Rightarrow> int \<Rightarrow> instr list" where
  "sim_rx_done_callback bytes_received err =
     [Lock RX_DONE,
      Set_var sim_rx_bytes_received_var bytes_received,
      Set_ready RX_DONE 1,
      Set_var sim_rx_err_var err,
      Signal RX_DONE,
      Unlock RX_DONE]"

text \<open>The delays of the HAL are sleeps of the node.\<close>

definition HAL_Delay :: "u32 \<Rightarrow> instr list" where
  "HAL_Delay delay_ms = sim_sleep (real (unat delay_ms) / 1000)"

definition HAL_IncTick :: "instr list" where
  "HAL_IncTick = sim_sleep (1 / 1000000)"

text \<open>The calls a firmware can make.\<close>

datatype call =
    Call_sleep real
  | Call_HAL_Delay u32
  | Call_HAL_IncTick
  | Call_transmit_start "u8 list" int
  | Call_start_receive nat int int
  | Call_transmit_blocking "u8 list" int
  | Call_receive_blocking nat int int
  | Call_receive_blocking_no_timeout nat int
  | Call_wait_transmit_finished
  | Call_is_transmit_finished
  | Call_wait_receive_finished

fun body :: "call \<Rightarrow> instr list" where
  "body (Call_sleep duration) = sim_sleep duration"
| "body (Call_HAL_Delay delay_ms) = HAL_Delay delay_ms"
| "body Call_HAL_IncTick = HAL_IncTick"
| "body (Call_transmit_start data len) = [Start (sim_transmit_start data len)]"
| "body (Call_start_receive data len timeout_ms) = [Start (sim_start_receive data len timeout_ms)]"
| "body (Call_transmit_blocking data len) = sim_transmit_blocking data len"
| "body (Call_receive_blocking data len timeout_ms) = sim_receive_blocking data len timeout_ms"
| "body (Call_receive_blocking_no_timeout data len) = sim_receive_blocking_no_timeout data len"
| "body Call_wait_transmit_finished = sim_wait_transmit_finished"
| "body Call_is_transmit_finished = sim_is_transmit_finished"
| "body Call_wait_receive_finished = sim_wait_receive_finished"

text \<open>The callback the simulator owes for a request, with the arguments it passes.\<close>

fun callback_of :: "chan \<Rightarrow> int \<Rightarrow> int \<Rightarrow> instr list" where
  "callback_of SLEEP bytes err = sim_sleep_end"
| "callback_of TX_DONE bytes err = sim_tx_done_callback err"
| "callback_of RX_DONE bytes err = sim_rx_done_callback bytes err"

section \<open>Execution\<close>

text \<open>
  Beside the variables of the files: the statements each thread has left, the value the firmware's
  function returns, the condition the firmware sleeps on, and of the simulator how many callbacks it
  owes, whether the radio is transmitting and whether the simulation has ended. \<open>answer\<close> is history:
  the arguments of the callback made on a channel since the firmware entered its current function.
\<close>

record sim_state =
  ready :: "chan \<Rightarrow> int"
  mutex :: "chan \<Rightarrow> thread option"
  sim_tx_err :: int
  sim_rx_bytes_received :: int
  sim_rx_err :: int
  fw_call :: "call option"
  fw_code :: "instr list"
  fw_ret :: int
  asleep_on :: "chan option"
  cb_code :: "instr list"
  owed :: "chan \<Rightarrow> nat"
  on_air :: bool
  ended :: bool
  answer :: "chan \<Rightarrow> (int \<times> int) option"

definition sim0 :: sim_state where
  "sim0 = \<lparr>ready = (\<lambda>c. 0), mutex = (\<lambda>c. None), sim_tx_err = 0, sim_rx_bytes_received = 0, sim_rx_err = 0,
     fw_call = None, fw_code = [], fw_ret = 0, asleep_on = None, cb_code = [], owed = (\<lambda>c. 0),
     on_air = False, ended = False, answer = (\<lambda>c. None)\<rparr>"

fun chan_of :: "request \<Rightarrow> chan" where
  "chan_of (sim_sleep_start d) = SLEEP"
| "chan_of (sim_transmit_start b l) = TX_DONE"
| "chan_of (sim_start_receive b l t) = RX_DONE"

text \<open>The answers of the simulator (\<^verbatim>\<open>native_node.py\<close>, \<^verbatim>\<open>radio_node.py\<close>): 0 when the task was created.\<close>

fun request_error :: "request \<Rightarrow> sim_state \<Rightarrow> int" where
  "request_error (sim_sleep_start d) s = 0"
| "request_error (sim_transmit_start b l) s =
     (if on_air s then SIM_ERR_ALREADY_TRANSMITTING else if ended s then SIM_ERR_SIM_ENDED else 0)"
| "request_error (sim_start_receive b l t) s = (if on_air s then 1 else 0)"

fun set_var :: "err_var \<Rightarrow> int \<Rightarrow> sim_state \<Rightarrow> sim_state" where
  "set_var sim_tx_err_var v s = s\<lparr>sim_tx_err := v\<rparr>"
| "set_var sim_rx_err_var v s = s\<lparr>sim_rx_err := v\<rparr>"
| "set_var sim_rx_bytes_received_var v s = s\<lparr>sim_rx_bytes_received := v\<rparr>"

fun get_var :: "err_var \<Rightarrow> sim_state \<Rightarrow> int" where
  "get_var sim_tx_err_var s = sim_tx_err s"
| "get_var sim_rx_err_var s = sim_rx_err s"
| "get_var sim_rx_bytes_received_var s = sim_rx_bytes_received s"

text \<open>A statement of the firmware thread; \<open>is\<close> are the statements after it.\<close>

fun fw_step :: "instr \<Rightarrow> instr list \<Rightarrow> sim_state \<Rightarrow> sim_state option" where
  "fw_step (Start r) is s =
     (if request_error r s = 0 then Some (s\<lparr>fw_code := is, fw_ret := 0, owed := (owed s)(chan_of r := owed s (chan_of r) + 1)\<rparr>)
      else Some (s\<lparr>fw_code := [], fw_ret := request_error r s\<rparr>))"
| "fw_step (Return_if_transmitting v) is s =
     (if on_air s then Some (s\<lparr>fw_code := [], fw_ret := v\<rparr>) else Some (s\<lparr>fw_code := is\<rparr>))"
| "fw_step (Lock c) is s =
     (if mutex s c = None then Some (s\<lparr>fw_code := is, mutex := (mutex s)(c := Some Firmware)\<rparr>) else None)"
| "fw_step (Wait_ready c) is s =
     (if ready s c \<noteq> 0 then Some (s\<lparr>fw_code := is\<rparr>)
      else Some (s\<lparr>fw_code := Reacquire c # Wait_ready c # is, mutex := (mutex s)(c := None), asleep_on := Some c\<rparr>))"
| "fw_step (Reacquire c) is s =
     (if asleep_on s = None \<and> mutex s c = None
      then Some (s\<lparr>fw_code := is, mutex := (mutex s)(c := Some Firmware)\<rparr>) else None)"
| "fw_step (Unlock c) is s = Some (s\<lparr>fw_code := is, mutex := (mutex s)(c := None)\<rparr>)"
| "fw_step (Set_ready c v) is s = Some (s\<lparr>fw_code := is, ready := (ready s)(c := v)\<rparr>)"
| "fw_step (Set_var x v) is s = Some (set_var x v (s\<lparr>fw_code := is\<rparr>))"
| "fw_step (Signal c) is s = Some (s\<lparr>fw_code := is\<rparr>)"
| "fw_step (Load x) is s = Some (s\<lparr>fw_code := is, fw_ret := get_var x s\<rparr>)"
| "fw_step (Load_ready c) is s = Some (s\<lparr>fw_code := is, fw_ret := ready s c\<rparr>)"
| "fw_step Return_if_nonzero is s = Some (s\<lparr>fw_code := if fw_ret s \<noteq> 0 then [] else is\<rparr>)"

text \<open>A statement of a callback in the simulator's thread; callbacks neither start nor wait.\<close>

fun cb_step :: "instr \<Rightarrow> instr list \<Rightarrow> sim_state \<Rightarrow> sim_state option" where
  "cb_step (Lock c) is s =
     (if mutex s c = None then Some (s\<lparr>cb_code := is, mutex := (mutex s)(c := Some Simulator)\<rparr>) else None)"
| "cb_step (Unlock c) is s = Some (s\<lparr>cb_code := is, mutex := (mutex s)(c := None)\<rparr>)"
| "cb_step (Set_ready c v) is s = Some (s\<lparr>cb_code := is, ready := (ready s)(c := v)\<rparr>)"
| "cb_step (Set_var x v) is s = Some (set_var x v (s\<lparr>cb_code := is\<rparr>))"
| "cb_step (Signal c) is s =
     Some (s\<lparr>cb_code := is, asleep_on := if asleep_on s = Some c then None else asleep_on s\<rparr>)"
| "cb_step _ is s = None"

text \<open>
  What can happen next: the firmware enters a function or executes a statement; it wakes up without a
  signal; the simulator puts a transmission on the air, makes a callback it owes, executes a statement
  of it, or ends the simulation. A transmission is off the air when its callback is made.
\<close>

datatype action =
    Enter call
  | Fw
  | Spurious
  | Begin_tx
  | Deliver chan int int
  | Cb
  | End_sim

fun step :: "action \<Rightarrow> sim_state \<Rightarrow> sim_state option" where
  "step (Enter k) s =
     (if fw_code s = [] then Some (s\<lparr>fw_call := Some k, fw_code := body k, answer := (\<lambda>c. None)\<rparr>) else None)"
| "step Fw s = (case fw_code s of [] \<Rightarrow> None | i # is \<Rightarrow> fw_step i is s)"
| "step Spurious s = (if asleep_on s \<noteq> None then Some (s\<lparr>asleep_on := None\<rparr>) else None)"
| "step Begin_tx s = (if owed s TX_DONE > 0 \<and> \<not> on_air s then Some (s\<lparr>on_air := True\<rparr>) else None)"
| "step (Deliver c bytes err) s =
     (if cb_code s = [] \<and> owed s c > 0
      then Some (s\<lparr>cb_code := callback_of c bytes err, owed := (owed s)(c := owed s c - 1),
                   on_air := on_air s \<and> c \<noteq> TX_DONE, answer := (answer s)(c := Some (bytes, err))\<rparr>)
      else None)"
| "step Cb s = (case cb_code s of [] \<Rightarrow> None | i # is \<Rightarrow> cb_step i is s)"
| "step End_sim s = (if \<not> ended s then Some (s\<lparr>ended := True\<rparr>) else None)"

text \<open>The states a firmware can reach that makes only the calls \<open>P\<close> allows.\<close>

inductive reach :: "(call \<Rightarrow> bool) \<Rightarrow> sim_state \<Rightarrow> bool" for P where
  reach_init: "reach P sim0"
| reach_step: "reach P s \<Longrightarrow> (\<And>k. a = Enter k \<Longrightarrow> P k) \<Longrightarrow> step a s = Some s' \<Longrightarrow> reach P s'"

section \<open>Shape of the code\<close>

text \<open>
  The statements either thread can have left. They are described per channel, once for the three: a
  function waits on a channel and ends with statements that touch no shared lock, \<open>e\<close>.
\<close>

fun local_instr :: "instr \<Rightarrow> bool" where
  "local_instr (Load x) = True"
| "local_instr (Load_ready c) = True"
| "local_instr Return_if_nonzero = True"
| "local_instr _ = False"

inductive fw_wf :: "instr list \<Rightarrow> bool" where
  fw_local: "list_all local_instr e \<Longrightarrow> fw_wf e"
| fw_clear: "list_all local_instr e \<Longrightarrow> fw_wf (Set_ready c 0 # e)"
| fw_unlock: "list_all local_instr e \<Longrightarrow> fw_wf (Unlock c # Set_ready c 0 # e)"
| fw_test: "list_all local_instr e \<Longrightarrow> fw_wf (Wait_ready c # Unlock c # Set_ready c 0 # e)"
| fw_again: "list_all local_instr e \<Longrightarrow> fw_wf (Reacquire c # Wait_ready c # Unlock c # Set_ready c 0 # e)"
| fw_lock: "list_all local_instr e \<Longrightarrow> fw_wf (Lock c # Wait_ready c # Unlock c # Set_ready c 0 # e)"
| fw_check: "list_all local_instr e \<Longrightarrow> c = TX_DONE \<Longrightarrow>
    fw_wf (Return_if_transmitting v # Lock c # Wait_ready c # Unlock c # Set_ready c 0 # e)"
| fw_start: "list_all local_instr e \<Longrightarrow> c = chan_of r \<Longrightarrow>
    fw_wf (Start r # Lock c # Wait_ready c # Unlock c # Set_ready c 0 # e)"
| fw_start_check: "list_all local_instr e \<Longrightarrow> c = TX_DONE \<Longrightarrow> chan_of r = TX_DONE \<Longrightarrow>
    fw_wf (Start r # Return_if_transmitting v # Lock c # Wait_ready c # Unlock c # Set_ready c 0 # e)"
| fw_start_only: "fw_wf [Start r]"

fun var_chan :: "err_var \<Rightarrow> chan" where
  "var_chan sim_tx_err_var = TX_DONE"
| "var_chan sim_rx_err_var = RX_DONE"
| "var_chan sim_rx_bytes_received_var = RX_DONE"

fun assigns :: "chan \<Rightarrow> instr \<Rightarrow> bool" where
  "assigns c (Set_ready c' v) \<longleftrightarrow> c' = c \<and> v = 1"
| "assigns c (Set_var x v) \<longleftrightarrow> var_chan x = c"
| "assigns c _ \<longleftrightarrow> False"

inductive cb_wf :: "instr list \<Rightarrow> bool" where
  cb_idle: "cb_wf []"
| cb_unlock: "cb_wf [Unlock c]"
| cb_signal: "list_all (assigns c) a \<Longrightarrow> distinct a \<Longrightarrow> cb_wf (a @ [Signal c, Unlock c])"
| cb_lock: "list_all (assigns c) a \<Longrightarrow> distinct a \<Longrightarrow> Set_ready c 1 \<in> set a \<Longrightarrow>
    cb_wf (Lock c # a @ [Signal c, Unlock c])"

lemmas program_defs =
  sim_sleep_def sim_sleep_end_def sim_wait_transmit_finished_def sim_is_transmit_finished_def
  sim_wait_receive_finished_def sim_transmit_blocking_def sim_receive_blocking_def
  sim_receive_blocking_no_timeout_def sim_tx_done_callback_def sim_rx_done_callback_def
  HAL_Delay_def HAL_IncTick_def

lemma body_wf: "fw_wf (body k)"
  by (cases k) (simp_all add: program_defs fw_wf.simps)

lemma callback_wf: "cb_wf (callback_of c b e)"
proof (cases c)
  case SLEEP
  then show ?thesis using cb_lock [of SLEEP "[Set_ready SLEEP 1]"] by (simp add: program_defs)
next
  case TX_DONE
  then show ?thesis using cb_lock [of TX_DONE "[Set_ready TX_DONE 1, Set_var sim_tx_err_var e]"]
    by (simp add: program_defs)
next
  case RX_DONE
  then show ?thesis
    using cb_lock [of RX_DONE "[Set_var sim_rx_bytes_received_var b, Set_ready RX_DONE 1, Set_var sim_rx_err_var e]"]
    by (simp add: program_defs)
qed

text \<open>Local statements neither start, nor lock, nor wait.\<close>

lemma local_not_in:
  assumes "list_all local_instr e"
  shows "Start r \<notin> set e" "Lock c \<notin> set e" "Wait_ready c \<notin> set e" "Reacquire c \<notin> set e"
    "Unlock c \<notin> set e" "Set_ready c v \<notin> set e" "Signal c \<notin> set e" "Return_if_transmitting v \<notin> set e"
    "Set_var x v \<notin> set e"
  using assms by (induction e) auto

lemma assigns_not_in:
  assumes "list_all (assigns c) a"
  shows "Lock d \<notin> set a" "Reacquire d \<notin> set a" "Unlock d \<notin> set a" "Signal d \<notin> set a" "Wait_ready d \<notin> set a"
    "Start r \<notin> set a" "d \<noteq> c \<Longrightarrow> Set_ready d v \<notin> set a" "v \<noteq> 1 \<Longrightarrow> Set_ready d v \<notin> set a"
  using assms by (induction a) auto

lemmas not_in = local_not_in assigns_not_in

section \<open>Locks and wake-ups\<close>

text \<open>A thread owns a mutex when it has still to unlock it and neither to lock nor to take it again.\<close>

definition owns :: "chan \<Rightarrow> instr list \<Rightarrow> bool" where
  "owns c code \<longleftrightarrow> Unlock c \<in> set code \<and> Lock c \<notin> set code \<and> Reacquire c \<notin> set code"

text \<open>A function that has started something and not yet seen its flag.\<close>

definition waits :: "chan \<Rightarrow> instr list \<Rightarrow> bool" where
  "waits c code \<longleftrightarrow> Wait_ready c \<in> set code \<and> (\<forall>r. Start r \<notin> set code)"

definition inv_code :: "sim_state \<Rightarrow> bool" where
  "inv_code s \<longleftrightarrow> fw_wf (fw_code s) \<and> cb_wf (cb_code s)"

definition inv_mutex :: "sim_state \<Rightarrow> bool" where
  "inv_mutex s \<longleftrightarrow> (\<forall>c. (mutex s c = Some Firmware \<longleftrightarrow> owns c (fw_code s)) \<and>
                        (mutex s c = Some Simulator \<longleftrightarrow> owns c (cb_code s)))"

definition inv_asleep :: "sim_state \<Rightarrow> bool" where
  "inv_asleep s \<longleftrightarrow> (\<forall>c. asleep_on s = Some c \<longrightarrow> (\<exists>is. fw_code s = Reacquire c # is))"

definition inv_wakeup :: "sim_state \<Rightarrow> bool" where
  "inv_wakeup s \<longleftrightarrow> (\<forall>c. asleep_on s = Some c \<longrightarrow> owed s c > 0 \<or> Signal c \<in> set (cb_code s))"

definition inv_wait :: "sim_state \<Rightarrow> bool" where
  "inv_wait s \<longleftrightarrow> (\<forall>c. waits c (fw_code s) \<longrightarrow>
     ready s c \<noteq> 0 \<or> owed s c > 0 \<or> Set_ready c 1 \<in> set (cb_code s))"

definition inv_base :: "sim_state \<Rightarrow> bool" where
  "inv_base s \<longleftrightarrow> inv_code s \<and> inv_mutex s \<and> inv_asleep s"

definition inv_live :: "sim_state \<Rightarrow> bool" where
  "inv_live s \<longleftrightarrow> inv_base s \<and> inv_wakeup s \<and> inv_wait s"

lemma base_init: "inv_base sim0" "inv_live sim0"
  by (auto simp: inv_live_def inv_base_def inv_code_def inv_mutex_def inv_asleep_def inv_wakeup_def inv_wait_def
      sim0_def owns_def waits_def fw_local cb_idle)

lemma set_var_fields [simp]:
  "ready (set_var x v s) = ready s" "mutex (set_var x v s) = mutex s" "fw_code (set_var x v s) = fw_code s"
  "cb_code (set_var x v s) = cb_code s" "owed (set_var x v s) = owed s" "asleep_on (set_var x v s) = asleep_on s"
  "on_air (set_var x v s) = on_air s" "ended (set_var x v s) = ended s" "answer (set_var x v s) = answer s"
  "fw_call (set_var x v s) = fw_call s" "fw_ret (set_var x v s) = fw_ret s"
  by (cases x; simp)+

lemma list_all_tl: "list_all P (x # xs) \<Longrightarrow> list_all P xs"
  by simp

text \<open>A statement of the firmware, by the shape of its code.\<close>

lemma fw_code_step:
  assumes "fw_wf (i # is)" "fw_step i is s = Some s'"
  shows "fw_wf (fw_code s')"
  using assms
  by cases (auto simp: fw_wf.simps split: if_splits elim!: local_instr.elims)

lemma cb_code_step:
  assumes "cb_wf (i # is)" "cb_step i is s = Some s'"
  shows "cb_wf (cb_code s')" "cb_code s' = is"
proof -
  show e: "cb_code s' = is"
    using assms(2) by (cases i) (auto split: if_splits)
  from assms(1) have "cb_wf is"
  proof cases
    case (cb_signal c a)
    then show ?thesis by (cases a) (auto intro: cb_wf.intros)
  qed (auto intro: cb_wf.intros)
  then show "cb_wf (cb_code s')" by (simp add: e)
qed

lemma owns_simps [simp]:
  "\<not> owns c []"
  "list_all local_instr e \<Longrightarrow> \<not> owns c e"
  "owns c (Set_ready d v # e) = owns c e" "owns c (Wait_ready d # e) = owns c e"
  "owns c (Load x # e) = owns c e" "owns c (Load_ready d # e) = owns c e" "owns c (Set_var x v # e) = owns c e"
  "owns c (Start r # e) = owns c e" "owns c (Return_if_transmitting v # e) = owns c e"
  "owns c (Return_if_nonzero # e) = owns c e" "owns c (Signal d # e) = owns c e"
  "owns c (Reacquire d # e) \<longleftrightarrow> owns c e \<and> d \<noteq> c" "owns c (Lock d # e) \<longleftrightarrow> owns c e \<and> d \<noteq> c"
  by (auto simp: owns_def local_not_in)

lemma owns_unlock [simp]:
  "list_all local_instr e \<Longrightarrow> owns c (Unlock d # e) \<longleftrightarrow> d = c"
  "list_all local_instr e \<Longrightarrow> owns c (Unlock d # Set_ready d' v # e) \<longleftrightarrow> d = c"
  "list_all (assigns d) a \<Longrightarrow> owns c (a @ [Signal d, Unlock d]) \<longleftrightarrow> d = c"
  by (auto simp: owns_def not_in)

lemma fw_mutex_step:
  assumes "fw_wf (i # is)" "fw_step i is s = Some s'" "fw_code s = i # is"
    and "\<And>c. mutex s c = Some Firmware \<longleftrightarrow> owns c (i # is)"
  shows "mutex s' c = Some Firmware \<longleftrightarrow> owns c (fw_code s')"
    and "mutex s' c = Some Simulator \<longleftrightarrow> mutex s c = Some Simulator"
proof -
  have m: "mutex s d = Some Firmware" if "owns d (i # is)" for d
    using assms(4) that by simp
  have "(mutex s' c = Some Firmware \<longleftrightarrow> owns c (fw_code s')) \<and> (mutex s' c = Some Simulator \<longleftrightarrow> mutex s c = Some Simulator)"
    using assms(1)
  proof cases
    case fw_local
    with assms(2) assms(4)[of c] show ?thesis by (cases i) auto
  next
    case (fw_unlock e d)
    with assms(2) assms(4)[of c] m[of d] show ?thesis by auto
  next
    case (fw_test e d)
    with assms(2) assms(4)[of c] m[of d] show ?thesis by (auto split: if_splits)
  qed (use assms(2) assms(4)[of c] in \<open>auto split: if_splits\<close>)
  then show "mutex s' c = Some Firmware \<longleftrightarrow> owns c (fw_code s')" "mutex s' c = Some Simulator \<longleftrightarrow> mutex s c = Some Simulator"
    by auto
qed

lemma cb_mutex_step:
  assumes "cb_wf (i # is)" "cb_step i is s = Some s'" "cb_code s = i # is"
    and "\<And>c. mutex s c = Some Simulator \<longleftrightarrow> owns c (i # is)"
  shows "mutex s' c = Some Simulator \<longleftrightarrow> owns c is"
    and "mutex s' c = Some Firmware \<longleftrightarrow> mutex s c = Some Firmware"
proof -
  have "(mutex s' c = Some Simulator \<longleftrightarrow> owns c is) \<and> (mutex s' c = Some Firmware \<longleftrightarrow> mutex s c = Some Firmware)"
    using assms(1)
  proof cases
    case (cb_signal d a)
    with assms(2) assms(4)[of c] show ?thesis by (cases a; cases i) auto
  next
    case (cb_lock d a)
    with assms(2) assms(4)[of c] show ?thesis by (auto split: if_splits)
  next
    case (cb_unlock d)
    with assms(2) assms(4)[of c] assms(4)[of d] show ?thesis by (auto simp: owns_def)
  qed
  then show "mutex s' c = Some Simulator \<longleftrightarrow> owns c is" "mutex s' c = Some Firmware \<longleftrightarrow> mutex s c = Some Firmware"
    by auto
qed

lemma owns_fresh [simp]: "\<not> owns c (body k)" "\<not> owns c (callback_of d b e)"
  by (cases k; auto simp: owns_def program_defs; fail) (cases d; auto simp: owns_def program_defs)

lemma fw_step_keeps:
  assumes "fw_step i is s = Some s'"
  shows "cb_code s' = cb_code s" "answer s' = answer s" "fw_call s' = fw_call s" "on_air s' = on_air s"
    "ended s' = ended s"
    "asleep_on s' = asleep_on s \<or> (\<exists>c. i = Wait_ready c \<and> asleep_on s' = Some c \<and> fw_code s' = Reacquire c # i # is)"
  using assms by (cases i; auto split: if_splits)+

lemma cb_step_keeps:
  assumes "cb_step i is s = Some s'"
  shows "fw_code s' = fw_code s" "answer s' = answer s" "fw_call s' = fw_call s" "fw_ret s' = fw_ret s" "on_air s' = on_air s"
    "ended s' = ended s" "owed s' = owed s"
    "asleep_on s' = asleep_on s \<or> (\<exists>c. i = Signal c \<and> asleep_on s = Some c \<and> asleep_on s' = None)"
  using assms by (cases i; auto split: if_splits)+

lemma inv_code_step:
  assumes "inv_code s" "step a s = Some s'"
  shows "inv_code s'"
proof (cases a)
  case Fw
  with assms fw_code_step fw_step_keeps(1) show ?thesis
    unfolding inv_code_def by (auto split: list.splits)
next
  case Cb
  with assms cb_code_step(1) cb_step_keeps(1) show ?thesis
    unfolding inv_code_def by (fastforce split: list.splits)
qed (use assms in \<open>auto simp: inv_code_def body_wf callback_wf split: if_splits\<close>)

lemma inv_mutex_step:
  assumes "inv_code s" "inv_mutex s" "step a s = Some s'"
  shows "inv_mutex s'"
proof (cases a)
  case Fw
  then obtain i "is" where i: "fw_code s = i # is" "fw_step i is s = Some s'"
    using assms(3) by (auto split: list.splits)
  with assms have "fw_wf (i # is)" "\<And>c. mutex s c = Some Firmware \<longleftrightarrow> owns c (i # is)"
    unfolding inv_code_def inv_mutex_def by auto
  with assms(2) fw_mutex_step i fw_step_keeps(1) show ?thesis
    unfolding inv_mutex_def by metis
next
  case Cb
  then obtain i "is" where i: "cb_code s = i # is" "cb_step i is s = Some s'"
    using assms(3) by (auto split: list.splits)
  with assms have w: "cb_wf (i # is)" and "\<And>c. mutex s c = Some Simulator \<longleftrightarrow> owns c (i # is)"
    unfolding inv_code_def inv_mutex_def by auto
  with assms(2) cb_mutex_step i cb_step_keeps(1) cb_code_step(2) [OF w i(2)] show ?thesis
    unfolding inv_mutex_def by metis
qed (use assms in \<open>auto simp: inv_mutex_def split: if_splits\<close>)

lemma inv_asleep_step:
  assumes "inv_asleep s" "step a s = Some s'"
  shows "inv_asleep s'"
proof (cases a)
  case Fw
  then obtain i "is" where i: "fw_code s = i # is" "fw_step i is s = Some s'"
    using assms(2) by (auto split: list.splits)
  moreover have "asleep_on s = None"
    using assms(1) i unfolding inv_asleep_def by (cases "asleep_on s") (auto split: if_splits)
  ultimately show ?thesis
    using fw_step_keeps(6) [OF i(2)] unfolding inv_asleep_def by auto
next
  case Cb
  then obtain i "is" where i: "cb_code s = i # is" "cb_step i is s = Some s'"
    using assms(2) by (auto split: list.splits)
  then show ?thesis
    using assms(1) cb_step_keeps(1,8) [OF i(2)] unfolding inv_asleep_def by auto
qed (use assms in \<open>auto simp: inv_asleep_def split: if_splits\<close>)

lemma base_step: "inv_base s \<Longrightarrow> step a s = Some s' \<Longrightarrow> inv_base s'"
  unfolding inv_base_def by (blast intro: inv_code_step inv_mutex_step inv_asleep_step)

lemma base_reach: "reach P s \<Longrightarrow> inv_base s"
  by (induction rule: reach.induct) (auto intro: base_init base_step)

text \<open>No wake-up is lost: a firmware asleep is owed a signal.\<close>

definition unaided :: "call \<Rightarrow> bool" where
  "unaided k \<longleftrightarrow> k \<noteq> Call_wait_transmit_finished \<and> k \<noteq> Call_wait_receive_finished"

lemma waits_simps [simp]:
  "\<not> waits c []" "list_all local_instr e \<Longrightarrow> \<not> waits c e" "\<not> waits c (Start r # e)"
  "waits c (Set_ready d v # e) = waits c e" "waits c (Unlock d # e) = waits c e"
  "waits c (Lock d # e) = waits c e" "waits c (Reacquire d # e) = waits c e"
  "waits c (Return_if_transmitting v # e) = waits c e"
  by (auto simp: waits_def local_not_in)

lemma waits_wait [simp]:
  "list_all local_instr e \<Longrightarrow> waits c (Wait_ready d # Unlock d # Set_ready d v # e) \<longleftrightarrow> d = c"
  by (auto simp: waits_def local_not_in)

lemma waits_body: "unaided k \<Longrightarrow> \<not> waits c (body k)"
  by (cases k) (auto simp: unaided_def waits_def program_defs)

lemma fw_wait_step:
  assumes "fw_wf (i # is)" "fw_step i is s = Some s'" "fw_code s = i # is" "inv_wait s"
  shows "inv_wait s'"
  using assms(1)
proof cases
  case fw_local
  with assms show ?thesis by (cases i) (auto simp: inv_wait_def)
qed (use assms in \<open>auto simp: inv_wait_def split: if_splits\<close>)

lemma callback_contains: "Set_ready c 1 \<in> set (callback_of c b e)" "Signal c \<in> set (callback_of c b e)"
  by (cases c; simp add: program_defs)+

lemma assigns_chan: "list_all (assigns c) a \<Longrightarrow> Set_ready d v \<in> set a \<Longrightarrow> d = c \<and> v = 1"
  by (auto simp: list_all_iff)

lemma cb_sets_one: "cb_wf code \<Longrightarrow> Set_ready d v \<in> set code \<Longrightarrow> v = 1"
  by (cases rule: cb_wf.cases) (auto dest: assigns_chan)

lemma cb_wait_step:
  assumes "cb_wf (i # is)" "cb_step i is s = Some s'" "cb_code s = i # is" "inv_wait s"
  shows "inv_wait s'"
proof (cases i)
  case (Set_ready d v)
  then have "v = 1" using cb_sets_one [OF assms(1)] by auto
  with Set_ready assms show ?thesis by (auto simp: inv_wait_def split: if_splits)
qed (use assms in \<open>auto simp: inv_wait_def split: if_splits\<close>)

lemma inv_wait_step:
  assumes "inv_code s" "inv_wait s" "step a s = Some s'" "\<And>k. a = Enter k \<Longrightarrow> unaided k"
  shows "inv_wait s'"
proof (cases a)
  case (Enter k)
  with assms show ?thesis by (auto simp: inv_wait_def waits_body split: if_splits)
next
  case Fw
  with assms fw_wait_step show ?thesis by (auto simp: inv_code_def split: list.splits)
next
  case Cb
  with assms cb_wait_step show ?thesis by (auto simp: inv_code_def split: list.splits)
next
  case (Deliver c b e)
  with assms callback_contains(1) show ?thesis by (auto simp: inv_wait_def split: if_splits)
qed (use assms in \<open>auto simp: inv_wait_def split: if_splits\<close>)

lemma cb_set_has_signal: "cb_wf code \<Longrightarrow> Set_ready c 1 \<in> set code \<Longrightarrow> Signal c \<in> set code"
  by (cases rule: cb_wf.cases) (auto dest: assigns_chan)

lemma inv_wakeup_step:
  assumes "inv_base s" "inv_wait s" "inv_wakeup s" "step a s = Some s'"
  shows "inv_wakeup s'"
proof (cases a)
  case Fw
  then obtain i "is" where i: "fw_code s = i # is" "fw_step i is s = Some s'"
    using assms(4) by (auto split: list.splits)
  then have n: "asleep_on s = None"
    using assms(1) unfolding inv_base_def inv_asleep_def by (cases "asleep_on s") (auto split: if_splits)
  show ?thesis
  proof (cases "asleep_on s' = None")
    case False
    with n fw_step_keeps(6) [OF i(2)] obtain c where c: "i = Wait_ready c" "asleep_on s' = Some c"
      "fw_code s' = Reacquire c # i # is" by auto
    have "waits c (fw_code s)"
      using assms(1) i c unfolding inv_base_def inv_code_def by (auto elim: fw_wf.cases)
    then have "owed s c > 0 \<or> Set_ready c 1 \<in> set (cb_code s)"
      using assms(2) i c unfolding inv_wait_def by (auto split: if_splits)
    then have "owed s' c > 0 \<or> Signal c \<in> set (cb_code s')"
      using i c assms(1) cb_set_has_signal unfolding inv_base_def inv_code_def by (auto split: if_splits)
    with c show ?thesis by (simp add: inv_wakeup_def)
  qed (simp add: inv_wakeup_def)
next
  case Cb
  then obtain i "is" where i: "cb_code s = i # is" "cb_step i is s = Some s'"
    using assms(4) by (auto split: list.splits)
  then show ?thesis
    using assms(3) unfolding inv_wakeup_def by (cases i) (auto split: if_splits)
next
  case (Deliver c b e)
  with assms callback_contains(2) show ?thesis by (auto simp: inv_wakeup_def split: if_splits)
qed (use assms in \<open>auto simp: inv_wakeup_def split: if_splits\<close>)

lemma live_step:
  assumes "inv_live s" "step a s = Some s'" "\<And>k. a = Enter k \<Longrightarrow> unaided k"
  shows "inv_live s'"
  using assms base_step inv_wakeup_step inv_wait_step unfolding inv_live_def inv_base_def by meson

lemma live_reach: "reach unaided s \<Longrightarrow> inv_live s"
  by (induction rule: reach.induct) (auto intro: base_init live_step)

section \<open>Every call returns\<close>

fun inner :: "action \<Rightarrow> bool" where
  "inner (Enter k) = False"
| "inner _ = True"

fun weight :: "instr \<Rightarrow> nat" where
  "weight (Start r) = 40"
| "weight _ = 3"

text \<open>
  The work left: the statements of the firmware, the statements of the callback, the callbacks owed,
  and the two events of the simulator. A firmware asleep has less to do than one about to test the flag;
  the callback's signal pays for the test after it.
\<close>

fun discount :: "instr list \<Rightarrow> chan option \<Rightarrow> nat" where
  "discount (Reacquire c # is) w = (if w = None then 2 else 5)"
| "discount _ w = 0"

definition fw_work :: "sim_state \<Rightarrow> nat" where
  "fw_work s = sum_list (map weight (fw_code s)) - discount (fw_code s) (asleep_on s)"

definition work :: "sim_state \<Rightarrow> nat" where
  "work s = fw_work s + 4 * length (cb_code s) + 30 * (owed s SLEEP + owed s TX_DONE + owed s RX_DONE) +
     (if on_air s then 0 else 1) + (if ended s then 0 else 1)"

lemma discount_local [simp]: "list_all local_instr e \<Longrightarrow> discount e w = 0"
  by (cases "(e, w)" rule: discount.cases) auto

lemma discount_woken: "discount e w \<le> discount e None + 3"
  by (cases "(e, w)" rule: discount.cases) auto

lemma fw_work_local:
  assumes "list_all local_instr (fw_code s)"
  shows "fw_work s = sum_list (map weight (fw_code s))"
  using assms by (simp add: fw_work_def)

definition owed_sum :: "sim_state \<Rightarrow> nat" where
  "owed_sum s = owed s SLEEP + owed s TX_DONE + owed s RX_DONE"

lemma owed_sum_start [simp]: "owed_sum (s\<lparr>fw_code := is, fw_ret := v, owed := (owed s)(c := Suc (owed s c))\<rparr>) = owed_sum s + 1"
  by (cases c) (auto simp: owed_sum_def)

lemma owed_sum_fields [simp]:
  "owed_sum (s\<lparr>fw_code := a, fw_ret := v\<rparr>) = owed_sum s" "owed_sum (s\<lparr>fw_code := a\<rparr>) = owed_sum s"
  "owed_sum (s\<lparr>fw_code := a, mutex := m\<rparr>) = owed_sum s"
  "owed_sum (s\<lparr>fw_code := a, mutex := m, asleep_on := w\<rparr>) = owed_sum s"
  "owed_sum (s\<lparr>fw_code := a, ready := f\<rparr>) = owed_sum s"
  by (simp_all add: owed_sum_def)

lemma fw_work_step:
  assumes "fw_wf (i # is)" "fw_step i is s = Some s'" "fw_code s = i # is" "asleep_on s = None"
  shows "fw_work s' + 30 * owed_sum s' < fw_work s + 30 * owed_sum s"
  using assms(1)
proof cases
  case fw_local
  then have l: "list_all local_instr is" "local_instr i" by auto
  then have "fw_work s = weight i + sum_list (map weight is)"
    using fw_work_local [of s] assms(3) by simp
  moreover have "fw_work s' \<le> sum_list (map weight is)" "owed_sum s' = owed_sum s"
    using assms(2) l fw_work_local [of s'] by (cases i; auto)+
  moreover have "0 < weight i" using l by (cases i) auto
  ultimately show ?thesis by simp
next
  case (fw_clear c)
  with assms(2,3) fw_work_local [of s'] show ?thesis by (auto simp: fw_work_def)
qed (use assms in \<open>auto simp: fw_work_def split: if_splits\<close>)

lemma fw_step_awake:
  assumes "inv_asleep s" "fw_code s = i # is" "fw_step i is s = Some s'"
  shows "asleep_on s = None"
  using assms unfolding inv_asleep_def by (cases "asleep_on s") (auto split: if_splits)

lemma work_less:
  assumes "inv_live s" "inner a" "a \<noteq> Spurious" "step a s = Some s'"
  shows "work s' < work s"
proof (cases a)
  case Fw
  then obtain i "is" where i: "fw_code s = i # is" "fw_step i is s = Some s'"
    using assms(4) by (auto split: list.splits)
  with assms(1) have "fw_wf (i # is)" "asleep_on s = None"
    using fw_step_awake unfolding inv_live_def inv_base_def inv_code_def by auto
  with i fw_work_step [of i "is" s s'] fw_step_keeps(1,4,5) [OF i(2)] show ?thesis
    by (simp add: work_def owed_sum_def)
next
  case Cb
  then obtain i "is" where i: "cb_code s = i # is" "cb_step i is s = Some s'"
    using assms(4) by (auto split: list.splits)
  have "cb_code s' = is"
    using i assms(1) cb_code_step(2) unfolding inv_live_def inv_base_def inv_code_def by auto
  moreover have "fw_work s' \<le> fw_work s + 3"
    using cb_step_keeps(1,8) [OF i(2)] discount_woken [of "fw_code s" "asleep_on s"] by (auto simp: fw_work_def)
  ultimately show ?thesis
    using i cb_step_keeps(5,6,7) [OF i(2)] by (simp add: work_def)
next
  case (Deliver c b e)
  have "length (callback_of c b e) \<le> 6" by (cases c) (simp_all add: program_defs)
  with Deliver assms(4) show ?thesis
    by (cases c) (auto simp: work_def fw_work_def split: if_splits)
qed (use assms in \<open>auto simp: work_def fw_work_def split: if_splits\<close>)

lemma work_spurious: "step Spurious s = Some s' \<Longrightarrow> work s' \<le> work s + 3"
  using discount_woken [of "fw_code s" "asleep_on s"] by (auto simp: work_def fw_work_def split: if_splits)

text \<open>
  Whenever the firmware has not returned, something can happen: whoever it waits for, for a mutex or
  for a signal, is able to go on.
\<close>

lemma cb_can_go:
  assumes "inv_code s" "cb_code s = i # is" "\<And>c. i = Lock c \<Longrightarrow> mutex s c = None"
  shows "\<exists>s'. step Cb s = Some s'"
proof -
  have "cb_wf (i # is)" using assms by (simp add: inv_code_def)
  then show ?thesis
  proof cases
    case (cb_signal c a)
    with assms(2) show ?thesis by (cases a; cases i) auto
  qed (use assms in auto)
qed

lemma mutex_held:
  assumes "inv_base s" "\<not> owns c (fw_code s)" "mutex s c \<noteq> None"
  shows "\<exists>s'. step Cb s = Some s'"
proof -
  have o: "owns c (cb_code s)"
    using assms unfolding inv_base_def inv_mutex_def by (cases "mutex s c"; metis thread.exhaust option.exhaust_sel)
  then obtain i "is" where i: "cb_code s = i # is" by (cases "cb_code s") auto
  have "cb_wf (i # is)" using assms(1) i by (simp add: inv_base_def inv_code_def)
  then have "i \<noteq> Lock d" for d
    using o i by cases (auto simp: owns_def Cons_eq_append_conv dest: assigns_not_in(3))
  then show ?thesis using cb_can_go assms(1) i unfolding inv_base_def by blast
qed

lemma asleep_goes_on:
  assumes "inv_live s" "asleep_on s = Some c"
  shows "\<exists>a s'. inner a \<and> a \<noteq> Spurious \<and> step a s = Some s'"
proof (cases "cb_code s")
  case Nil
  then have "step (Deliver c 0 0) s \<noteq> None"
    using assms unfolding inv_live_def inv_wakeup_def by auto
  then show ?thesis by (metis inner.simps action.distinct option.exhaust)
next
  case (Cons i "is")
  have "\<exists>s'. step Cb s = Some s'"
  proof (cases "\<exists>d. i = Lock d \<and> mutex s d \<noteq> None")
    case True
    then obtain d where d: "i = Lock d" "mutex s d \<noteq> None" by auto
    have "fw_wf (fw_code s)" "\<exists>is. fw_code s = Reacquire c # is"
      using assms unfolding inv_live_def inv_base_def inv_code_def inv_asleep_def by auto
    then have "\<not> owns d (fw_code s)" by (auto elim!: fw_wf.cases)
    then show ?thesis using mutex_held assms(1) d unfolding inv_live_def by blast
  next
    case False
    then show ?thesis using cb_can_go Cons assms(1) unfolding inv_live_def inv_base_def by blast
  qed
  then show ?thesis by force
qed

lemma fw_can_go:
  assumes "inv_live s" "fw_code s = i # is" "asleep_on s = None"
  shows "\<exists>a s'. inner a \<and> a \<noteq> Spurious \<and> step a s = Some s'"
proof (cases "\<exists>c. (i = Lock c \<or> i = Reacquire c) \<and> mutex s c \<noteq> None")
  case True
  then obtain c where c: "i = Lock c \<or> i = Reacquire c" "mutex s c \<noteq> None" by auto
  then have "\<not> owns c (fw_code s)" using assms(2) by (auto simp: owns_def)
  then have "\<exists>s'. step Cb s = Some s'" using mutex_held c assms(1) unfolding inv_live_def by blast
  then show ?thesis by force
next
  case False
  then have "\<exists>s'. step Fw s = Some s'" using assms(2,3) by (cases i) auto
  then show ?thesis by force
qed

lemma live_progress:
  assumes "inv_live s" "fw_code s \<noteq> []"
  shows "\<exists>a s'. inner a \<and> a \<noteq> Spurious \<and> step a s = Some s'"
  using assms asleep_goes_on fw_can_go by (cases "fw_code s"; cases "asleep_on s") auto

interpretation handshake: ending_system step inv_live inner "\<lambda>a. a = Spurious" work 3 "\<lambda>s. fw_code s = []"
proof unfold_locales
  fix s a s' assume "inv_live s" "inner a" "step a s = Some s'"
  moreover from this have "a \<noteq> Enter k" for k by auto
  ultimately show "inv_live s'" using live_step by blast
qed (use live_progress work_less work_spurious in blast)+

text \<open>
  C5: the blocking calls return. Take a firmware that makes any calls in any order, sleeps, blocking and
  non-blocking transmissions and receptions, and only does not wait for something it has not
  started in the same call. Wherever both threads stand, a function the firmware is in can always go on
  without a spurious wake-up, some continuation returns, and every run until the next call is bounded: by
  the work left and four steps for every spurious wake-up. No wake-up is lost and there is no deadlock,
  although the flag is tested and cleared by two threads.
\<close>

theorem blocking_calls_return:
  assumes "reach unaided s"
  shows "(fw_code s \<noteq> [] \<longrightarrow> (\<exists>a s'. inner a \<and> a \<noteq> Spurious \<and> step a s = Some s')) \<and>
    (\<exists>as s'. list_all inner as \<and> run step as s = Some s' \<and> fw_code s' = []) \<and>
    (\<forall>as s'. list_all inner as \<longrightarrow> run step as s = Some s' \<longrightarrow>
       length as \<le> work s + 4 * length (filter (\<lambda>a. a = Spurious) as))"
proof (intro conjI impI allI)
  note l = live_reach [OF assms]
  show "fw_code s \<noteq> [] \<Longrightarrow> \<exists>a s'. inner a \<and> a \<noteq> Spurious \<and> step a s = Some s'"
    by (rule live_progress [OF l])
  show "\<exists>as s'. list_all inner as \<and> run step as s = Some s' \<and> fw_code s' = []"
    using handshake.run_ends [OF l] by blast
  show "list_all inner as \<Longrightarrow> run step as s = Some s' \<Longrightarrow>
          length as \<le> work s + 4 * length (filter (\<lambda>a. a = Spurious) as)" for as s'
    using handshake.run_bound [OF l] by fastforce
qed

text \<open>A firmware that has just entered a sleep, the simulation not having ended.\<close>

lemma sleeping_reached:
  "reach unaided (sim0\<lparr>fw_call := Some (Call_sleep 1), fw_code := sim_sleep 1\<rparr>)"
proof -
  have "step (Enter (Call_sleep 1)) sim0 = Some (sim0\<lparr>fw_call := Some (Call_sleep 1), fw_code := sim_sleep 1\<rparr>)"
    by (simp add: sim0_def)
  then show ?thesis
    using reach_step [OF reach_init, where P = unaided and a = "Enter (Call_sleep 1)"] by (simp add: unaided_def)
qed

theorem blocking_calls_return_witness:
  "\<exists>as s'. list_all inner as \<and>
     run step as (sim0\<lparr>fw_call := Some (Call_sleep 1), fw_code := sim_sleep 1\<rparr>) = Some s' \<and> fw_code s' = []"
  using blocking_calls_return [OF sleeping_reached] by blast

end
