(* ===== verification/Sim_Handshake.thy ===== *)
theory Sim_Handshake
  imports Sim_Threads
begin

text \<open>
  What the handshakes of \<open>Sim_Threads\<close> guarantee when a call returns: a sleep and a reception return
  only after the callback of their own request and with its result, and leave nothing behind. A
  transmission does not have this property, and a wait nobody answers never ends.
\<close>

section \<open>Tokens\<close>

text \<open>The calls that pair every start of a reception with a wait for it.\<close>

definition paired :: "call \<Rightarrow> bool" where
  "paired k \<longleftrightarrow> k \<noteq> Call_wait_receive_finished \<and> (\<forall>data len t. k \<noteq> Call_start_receive data len t)"

text \<open>A function that has started something and not yet cleared the flag.\<close>

definition pending :: "chan \<Rightarrow> instr list \<Rightarrow> bool" where
  "pending c code \<longleftrightarrow> Set_ready c 0 \<in> set code \<and> (\<forall>r. Start r \<notin> set code)"

text \<open>
  What was started on a channel is in exactly one place: owed by the simulator, in a callback that has
  not set the flag (\<open>f\<close>), or in the flag; it is there exactly while the function that started it is
  pending (\<open>p\<close>), and in the flag once the function has seen it (not \<open>w\<close>).
\<close>

definition token :: "int \<Rightarrow> nat \<Rightarrow> bool \<Rightarrow> bool \<Rightarrow> bool \<Rightarrow> bool" where
  "token rdy n f p w \<longleftrightarrow> rdy \<in> {0, 1} \<and> int n + (if f then 1 else 0) + rdy = (if p then 1 else 0) \<and>
     (p \<and> \<not> w \<longrightarrow> rdy = 1)"

lemma token_rules:
  "token rdy n f False w \<Longrightarrow> token rdy (Suc n) f True True"
  "token rdy n f True False \<Longrightarrow> token 0 n f False w'"
  "token rdy n f p w \<Longrightarrow> rdy \<noteq> 0 \<Longrightarrow> token rdy n f p w'"
  "token rdy n True p w \<Longrightarrow> token 1 n False p w"
  "token rdy (Suc n) False p w \<Longrightarrow> token rdy n True p w"
  "token rdy n f False w \<Longrightarrow> token rdy n f False w'"
  by (auto simp: token_def split: if_splits)

definition token_ok :: "chan \<Rightarrow> sim_state \<Rightarrow> bool" where
  "token_ok c s \<longleftrightarrow>
     token (ready s c) (owed s c) (Set_ready c 1 \<in> set (cb_code s)) (pending c (fw_code s))
       (Wait_ready c \<in> set (fw_code s)) \<and>
     (\<forall>r. fw_code s = [Start r] \<longrightarrow> chan_of r \<noteq> c)"

lemma pending_simps [simp]:
  "\<not> pending c []" "list_all local_instr e \<Longrightarrow> \<not> pending c e" "\<not> pending c (Start r # e)"
  "pending c (Unlock d # e) = pending c e" "pending c (Wait_ready d # e) = pending c e"
  "pending c (Lock d # e) = pending c e" "pending c (Reacquire d # e) = pending c e"
  "pending c (Return_if_transmitting v # e) = pending c e"
  "list_all local_instr e \<Longrightarrow> pending c (Set_ready d 0 # e) \<longleftrightarrow> d = c"
  by (auto simp: pending_def local_not_in)

lemma pending_body: "paired k \<Longrightarrow> c \<noteq> TX_DONE \<Longrightarrow> \<not> pending c (body k)"
  by (cases k) (auto simp: paired_def pending_def program_defs)

lemma local_token:
  assumes "list_all local_instr (i # is)" "fw_step i is s = Some s'" "fw_code s = i # is" "token_ok c s"
  shows "token_ok c s'"
proof -
  have "list_all local_instr (fw_code s')" "ready s' = ready s" "owed s' = owed s" "cb_code s' = cb_code s"
    using assms(1,2) by (cases i; auto)+
  moreover have "\<not> pending c (fw_code s)" using assms(1,3) pending_simps(2) by metis
  moreover have "fw_code s' \<noteq> [Start r]" for r using calculation(1) by auto
  ultimately show ?thesis
    using assms(4) by (auto simp: token_ok_def intro: token_rules(6))
qed

lemma token_fw_step:
  assumes "fw_wf (i # is)" "fw_step i is s = Some s'" "fw_code s = i # is" "token_ok c s" "c \<noteq> TX_DONE"
  shows "token_ok c s'"
  using assms(1)
proof cases
  case fw_local
  with assms local_token show ?thesis by blast
next
  case (fw_clear d)
  with assms show ?thesis
    by (cases "d = c") (auto simp: token_ok_def local_not_in intro: token_rules)
next
  case (fw_unlock e d)
  with assms show ?thesis by (auto simp: token_ok_def local_not_in)
next
  case (fw_test e d)
  with assms show ?thesis
    by (cases "d = c") (auto simp: token_ok_def local_not_in intro: token_rules split: if_splits)
next
  case (fw_start e d r)
  with assms show ?thesis
    by (cases "d = c") (auto simp: token_ok_def local_not_in intro: token_rules split: if_splits)
next
  case (fw_start_check e d r v)
  with assms show ?thesis
    by (cases "d = c") (auto simp: token_ok_def local_not_in intro: token_rules split: if_splits)
next
  case (fw_start_only r)
  with assms show ?thesis by (auto simp: token_ok_def split: if_splits)
qed (use assms in \<open>auto simp: token_ok_def local_not_in intro: token_rules split: if_splits\<close>)

lemma cb_set_once: "cb_wf (Set_ready c 1 # is) \<Longrightarrow> Set_ready c 1 \<notin> set is"
  by (cases rule: cb_wf.cases) (auto simp: Cons_eq_append_conv)

lemma token_cb_step:
  assumes "cb_wf (i # is)" "cb_step i is s = Some s'" "cb_code s = i # is" "token_ok c s"
  shows "token_ok c s'"
proof (cases i)
  case (Set_ready d v)
  then have v: "v = 1" using cb_sets_one [OF assms(1)] by auto
  then have "Set_ready d 1 \<notin> set is" using cb_set_once assms(1) Set_ready by simp
  with v Set_ready assms show ?thesis by (cases "d = c") (auto simp: token_ok_def intro: token_rules)
qed (use assms in \<open>auto simp: token_ok_def split: if_splits\<close>)

lemma callback_sets: "Set_ready d 1 \<in> set (callback_of c b e) \<longleftrightarrow> d = c"
  by (cases c) (auto simp: program_defs)

lemma body_not_start: "paired k \<Longrightarrow> body k = [Start r] \<Longrightarrow> chan_of r = TX_DONE"
  by (cases k) (auto simp: paired_def program_defs)

lemma token_step:
  assumes "inv_code s" "token_ok c s" "c \<noteq> TX_DONE" "step a s = Some s'" "\<And>k. a = Enter k \<Longrightarrow> paired k"
  shows "token_ok c s'"
proof (cases a)
  case (Enter k)
  then have "\<not> pending c (body k)" "\<forall>r. body k = [Start r] \<longrightarrow> chan_of r \<noteq> c"
    using assms(3,5) pending_body body_not_start by auto
  with Enter assms show ?thesis by (auto simp: token_ok_def intro: token_rules split: if_splits)
next
  case Fw
  with assms token_fw_step show ?thesis by (auto simp: inv_code_def split: list.splits)
next
  case Cb
  with assms token_cb_step show ?thesis by (auto simp: inv_code_def split: list.splits)
next
  case (Deliver d b e)
  with assms show ?thesis
    by (cases "d = c"; cases "owed s c") (auto simp: token_ok_def callback_sets intro: token_rules split: if_splits)
qed (use assms in \<open>auto simp: token_ok_def split: if_splits\<close>)

lemma token_reach: "reach paired s \<Longrightarrow> c \<noteq> TX_DONE \<Longrightarrow> token_ok c s"
proof (induction rule: reach.induct)
  case reach_init
  then show ?case by (simp add: token_ok_def token_def sim0_def)
next
  case (reach_step s a s')
  then show ?case using token_step base_reach unfolding inv_base_def by blast
qed

section \<open>Results\<close>

fun call_chan :: "call \<Rightarrow> chan option" where
  "call_chan (Call_sleep d) = Some SLEEP"
| "call_chan (Call_HAL_Delay d) = Some SLEEP"
| "call_chan Call_HAL_IncTick = Some SLEEP"
| "call_chan (Call_receive_blocking data len t) = Some RX_DONE"
| "call_chan (Call_receive_blocking_no_timeout data len) = Some RX_DONE"
| "call_chan _ = None"

text \<open>The variables of a reception: as the last callback set them, or about to be set by it.\<close>

definition assigned :: "err_var \<Rightarrow> instr list \<Rightarrow> int set" where
  "assigned x code = {v. Set_var x v \<in> set code}"

lemma assigned_simps [simp]:
  "assigned x [] = {}"
  "assigned x (Set_var y v # is) = (if y = x then insert v (assigned x is) else assigned x is)"
  "(\<And>y v. i \<noteq> Set_var y v) \<Longrightarrow> assigned x (i # is) = assigned x is"
  by (auto simp: assigned_def)

definition var_ok :: "err_var \<Rightarrow> int \<Rightarrow> sim_state \<Rightarrow> bool" where
  "var_ok x v s \<longleftrightarrow> assigned x (cb_code s) \<subseteq> {v} \<and> (get_var x s = v \<or> assigned x (cb_code s) \<noteq> {})"

definition vars_ok :: "int \<Rightarrow> int \<Rightarrow> sim_state \<Rightarrow> bool" where
  "vars_ok b e s \<longleftrightarrow> var_ok sim_rx_bytes_received_var b s \<and> var_ok sim_rx_err_var e s"

definition inv_vars :: "sim_state \<Rightarrow> bool" where
  "inv_vars s \<longleftrightarrow> (\<forall>b e. answer s RX_DONE = Some (b, e) \<longrightarrow> vars_ok b e s)"

lemma fw_no_set_var: "fw_wf code \<Longrightarrow> Set_var x v \<notin> set code"
  by (cases rule: fw_wf.cases) (auto simp: local_not_in)

lemma fw_step_vars:
  assumes "fw_step i is s = Some s'" "\<And>x v. i \<noteq> Set_var x v"
  shows "get_var x s' = get_var x s"
  using assms by (cases x; cases i; auto split: if_splits)

lemma get_set_var: "get_var x (set_var y v s) = (if x = y then v else get_var x s)"
  by (cases x; cases y) auto

lemma get_var_frame [simp]:
  "get_var x (s\<lparr>cb_code := is\<rparr>) = get_var x s" "get_var x (s\<lparr>cb_code := is, mutex := m\<rparr>) = get_var x s"
  "get_var x (s\<lparr>cb_code := is, ready := r\<rparr>) = get_var x s" "get_var x (s\<lparr>cb_code := is, asleep_on := w\<rparr>) = get_var x s"
  by (cases x; simp)+

lemma cb_var_step:
  assumes "cb_step i is s = Some s'" "cb_code s = i # is" "var_ok x v s"
  shows "var_ok x v s'"
proof (cases i)
  case (Set_var y w)
  with assms show ?thesis by (auto simp: var_ok_def get_set_var split: if_splits)
qed (use assms in \<open>auto simp: var_ok_def split: if_splits\<close>)

lemma cb_vars_step:
  assumes "cb_step i is s = Some s'" "cb_code s = i # is" "vars_ok b e s"
  shows "vars_ok b e s'"
  using assms cb_var_step unfolding vars_ok_def by blast

lemma vars_step:
  assumes "inv_code s" "inv_vars s" "step a s = Some s'"
  shows "inv_vars s'"
proof (cases a)
  case Fw
  then obtain i "is" where i: "fw_code s = i # is" "fw_step i is s = Some s'"
    using assms(3) by (auto split: list.splits)
  then have "i \<noteq> Set_var x v" for x v
    using fw_no_set_var assms(1) unfolding inv_code_def by (metis list.set_intros(1))
  with i fw_step_vars [OF i(2)] fw_step_keeps(1,2) [OF i(2)] assms(2) show ?thesis
    by (simp add: inv_vars_def vars_ok_def var_ok_def)
next
  case Cb
  then obtain i "is" where i: "cb_code s = i # is" "cb_step i is s = Some s'"
    using assms(3) by (auto split: list.splits)
  then show ?thesis
    using assms(2) cb_step_keeps(2) [OF i(2)] cb_vars_step by (simp add: inv_vars_def)
next
  case (Deliver c b e)
  with assms(2,3) show ?thesis
    by (cases c) (auto simp: inv_vars_def vars_ok_def var_ok_def program_defs split: if_splits)
qed (use assms in \<open>auto simp: inv_vars_def vars_ok_def var_ok_def split: if_splits\<close>)

text \<open>Before its first statement a function still has its whole body to do.\<close>

definition inv_call :: "sim_state \<Rightarrow> bool" where
  "inv_call s \<longleftrightarrow> (\<forall>k r. fw_call s = Some k \<longrightarrow> Start r \<in> set (fw_code s) \<longrightarrow> fw_code s = body k)"

lemma started_after_step:
  assumes "fw_wf (i # is)" "fw_step i is s = Some s'"
  shows "Start r \<notin> set (fw_code s')"
  using assms
proof cases
  case fw_local
  with assms local_not_in(1) [of "is"] show ?thesis by (cases i) (auto split: if_splits)
qed (use assms in \<open>auto simp: local_not_in split: if_splits\<close>)

lemma call_step:
  assumes "inv_code s" "inv_call s" "step a s = Some s'"
  shows "inv_call s'"
proof (cases a)
  case Fw
  with assms started_after_step show ?thesis
    unfolding inv_call_def inv_code_def by (auto split: list.splits)
next
  case Cb
  with assms cb_step_keeps(1,3) show ?thesis
    unfolding inv_call_def by (auto split: list.splits)
qed (use assms in \<open>auto simp: inv_call_def split: if_splits\<close>)

text \<open>A sleep is answered before it returns.\<close>

definition inv_slept :: "sim_state \<Rightarrow> bool" where
  "inv_slept s \<longleftrightarrow> (\<forall>k. fw_call s = Some k \<longrightarrow> call_chan k = Some SLEEP \<longrightarrow> (\<forall>r. Start r \<notin> set (fw_code s)) \<longrightarrow>
     owed s SLEEP > 0 \<or> answer s SLEEP \<noteq> None)"

lemma sleep_body: "call_chan k = Some SLEEP \<Longrightarrow> \<exists>d is. body k = Start (sim_sleep_start d) # is"
proof -
  assume "call_chan k = Some SLEEP"
  then have "\<exists>d. body k = sim_sleep d" by (cases k) (auto simp: HAL_Delay_def HAL_IncTick_def)
  then show ?thesis by (auto simp: sim_sleep_def)
qed

lemma receive_body: "call_chan k = Some RX_DONE \<Longrightarrow>
    \<exists>data len t. body k = sim_receive_blocking data len t"
  by (cases k) (auto simp: program_defs)

lemma fw_step_owed: "fw_step i is s = Some s' \<Longrightarrow> owed s c \<le> owed s' c"
  by (cases i) (auto split: if_splits)

lemma slept_step:
  assumes "inv_code s" "inv_call s" "inv_slept s" "step a s = Some s'"
  shows "inv_slept s'"
proof (cases a)
  case (Enter k)
  with assms(4) sleep_body show ?thesis by (auto simp: inv_slept_def split: if_splits) fastforce
next
  case Fw
  then obtain i "is" where i: "fw_code s = i # is" "fw_step i is s = Some s'"
    using assms(4) by (auto split: list.splits)
  show ?thesis
    unfolding inv_slept_def
  proof (intro allI impI)
    fix k assume k: "fw_call s' = Some k" "call_chan k = Some SLEEP"
    show "owed s' SLEEP > 0 \<or> answer s' SLEEP \<noteq> None"
    proof (cases "\<exists>r. Start r \<in> set (fw_code s)")
      case True
      with assms(2) k fw_step_keeps(3) [OF i(2)] have "fw_code s = body k"
        unfolding inv_call_def by auto
      with sleep_body [OF k(2)] i show ?thesis by auto
    next
      case False
      with assms(3) k fw_step_keeps(2,3) [OF i(2)] fw_step_owed [OF i(2), of SLEEP] show ?thesis
        unfolding inv_slept_def by fastforce
    qed
  qed
next
  case Cb
  then obtain i "is" where "cb_step i is s = Some s'"
    using assms(4) by (auto split: list.splits)
  with assms(3) show ?thesis unfolding inv_slept_def by (simp add: cb_step_keeps)
qed (use assms in \<open>auto simp: inv_slept_def split: if_splits\<close>)

text \<open>
  A reception on its way: refused, waiting for an answer that is owed or already given, or past the
  wait with the answer given, nothing left to come, and the result as far as it is computed.
\<close>

abbreviation rx_tail :: "instr list" where
  "rx_tail \<equiv> [Load sim_rx_err_var, Return_if_nonzero, Load sim_rx_bytes_received_var]"

abbreviation rx_wait :: "instr list" where
  "rx_wait \<equiv> Wait_ready RX_DONE # Unlock RX_DONE # Set_ready RX_DONE 0 # rx_tail"

definition rx_result :: "sim_state \<Rightarrow> bool" where
  "rx_result s \<longleftrightarrow> fw_code s \<in> {Unlock RX_DONE # Set_ready RX_DONE 0 # rx_tail, Set_ready RX_DONE 0 # rx_tail, rx_tail} \<or>
     fw_code s = tl rx_tail \<and> fw_ret s = sim_rx_err s \<or>
     fw_code s = tl (tl rx_tail) \<and> sim_rx_err s = 0 \<or>
     fw_code s = [] \<and> fw_ret s = (if sim_rx_err s \<noteq> 0 then sim_rx_err s else sim_rx_bytes_received s)"

definition rx_refused :: "sim_state \<Rightarrow> bool" where
  "rx_refused s \<longleftrightarrow> fw_code s = [] \<and> fw_ret s = 1 \<and> answer s RX_DONE = None"

definition rx_waiting :: "sim_state \<Rightarrow> bool" where
  "rx_waiting s \<longleftrightarrow> fw_code s \<in> {Lock RX_DONE # rx_wait, rx_wait, Reacquire RX_DONE # rx_wait} \<and>
     (owed s RX_DONE > 0 \<or> answer s RX_DONE \<noteq> None)"

definition rx_past :: "sim_state \<Rightarrow> bool" where
  "rx_past s \<longleftrightarrow> Unlock RX_DONE \<notin> set (cb_code s) \<and> owed s RX_DONE = 0 \<and> answer s RX_DONE \<noteq> None \<and> rx_result s"

definition inv_receive :: "sim_state \<Rightarrow> bool" where
  "inv_receive s \<longleftrightarrow> (\<forall>k. fw_call s = Some k \<longrightarrow> call_chan k = Some RX_DONE \<longrightarrow> (\<forall>r. Start r \<notin> set (fw_code s)) \<longrightarrow>
     rx_refused s \<or> rx_waiting s \<or> rx_past s)"

text \<open>Past the wait the simulator has finished with the reception.\<close>

lemma cb_owns: "cb_wf code \<Longrightarrow> Unlock c \<in> set code \<Longrightarrow> Set_ready c 1 \<notin> set code \<Longrightarrow> owns c code"
  by (cases rule: cb_wf.cases) (auto simp: owns_def dest: assigns_not_in)

lemma past_wait:
  assumes "inv_base s" "token_ok RX_DONE s" "fw_code s = rx_wait" "ready s RX_DONE \<noteq> 0"
  shows "Unlock RX_DONE \<notin> set (cb_code s)" "owed s RX_DONE = 0"
proof -
  have "pending RX_DONE (fw_code s)" using assms(3) by (simp add: pending_def)
  then have t: "owed s RX_DONE = 0" "Set_ready RX_DONE 1 \<notin> set (cb_code s)"
    using assms(2,4) by (auto simp: token_ok_def token_def split: if_splits)
  have "owns RX_DONE (fw_code s)" using assms(3) by (simp add: owns_def)
  then have "\<not> owns RX_DONE (cb_code s)"
    using assms(1) unfolding inv_base_def inv_mutex_def by (metis option.inject thread.distinct(1))
  moreover have "cb_wf (cb_code s)" using assms(1) by (simp add: inv_base_def inv_code_def)
  ultimately show "Unlock RX_DONE \<notin> set (cb_code s)"
    using t(2) cb_owns by blast
  show "owed s RX_DONE = 0" by (rule t(1))
qed

lemma receive_start:
  assumes "fw_code s = body k" "call_chan k = Some RX_DONE" "step Fw s = Some s'" "token_ok RX_DONE s" "answer s RX_DONE = None"
  shows "rx_refused s' \<or> rx_waiting s'"
proof -
  obtain data len t where "body k = sim_receive_blocking data len t" using receive_body assms(2) by blast
  with assms show ?thesis
    by (auto simp: program_defs rx_refused_def rx_waiting_def split: if_splits)
qed

lemma receive_wait_step:
  assumes "inv_base s" "token_ok RX_DONE s" "rx_waiting s" "step Fw s = Some s'"
  shows "rx_waiting s' \<or> rx_past s'"
proof (cases "fw_code s = rx_wait \<and> ready s RX_DONE \<noteq> 0")
  case True
  with assms past_wait [of s] show ?thesis
    by (auto simp: rx_waiting_def rx_past_def rx_result_def)
next
  case False
  with assms show ?thesis by (auto simp: rx_waiting_def split: if_splits)
qed

lemma receive_past_step: "rx_past s \<Longrightarrow> step Fw s = Some s' \<Longrightarrow> rx_past s'"
  by (auto simp: rx_past_def rx_result_def split: if_splits)

text \<open>Until a function has made its request nothing is answered.\<close>

definition inv_fresh :: "sim_state \<Rightarrow> bool" where
  "inv_fresh s \<longleftrightarrow> (\<forall>r. Start r \<in> set (fw_code s) \<longrightarrow> answer s RX_DONE = None)"

lemma unanswered:
  assumes "token_ok RX_DONE s" "Start r \<in> set (fw_code s)"
  shows "owed s RX_DONE = 0"
proof -
  have "\<not> pending RX_DONE (fw_code s)" using assms(2) by (auto simp: pending_def)
  then show ?thesis using assms(1) by (auto simp: token_ok_def token_def split: if_splits)
qed

lemma fresh_step:
  assumes "inv_code s" "token_ok RX_DONE s" "inv_fresh s" "step a s = Some s'"
  shows "inv_fresh s'"
proof (cases a)
  case Fw
  with assms started_after_step show ?thesis
    unfolding inv_fresh_def inv_code_def by (auto split: list.splits)
next
  case Cb
  then obtain i "is" where "cb_step i is s = Some s'"
    using assms(4) by (auto split: list.splits)
  with assms(3) show ?thesis by (simp add: inv_fresh_def cb_step_keeps)
next
  case (Deliver c b e)
  with assms unanswered show ?thesis by (fastforce simp: inv_fresh_def split: if_splits)
qed (use assms in \<open>auto simp: inv_fresh_def split: if_splits\<close>)

lemma assigns_var: "list_all (assigns c) a \<Longrightarrow> Set_var x v \<in> set a \<Longrightarrow> var_chan x = c"
  by (force simp: list_all_iff)

lemma cb_assigns_chan: "cb_wf code \<Longrightarrow> Set_var x v \<in> set code \<Longrightarrow> Unlock (var_chan x) \<in> set code"
  by (cases rule: cb_wf.cases) (auto dest: assigns_var)

lemma receive_past_cb:
  assumes "cb_wf (i # is)" "cb_step i is s = Some s'" "cb_code s = i # is" "rx_past s"
  shows "rx_past s'"
proof -
  have "Unlock RX_DONE \<notin> set (i # is)" using assms(3,4) by (simp add: rx_past_def)
  then have n: "i \<noteq> Set_var sim_rx_err_var v" "i \<noteq> Set_var sim_rx_bytes_received_var v" for v
    using cb_assigns_chan [OF assms(1)] by (metis list.set_intros(1) var_chan.simps(2,3))+
  then have "sim_rx_err s' = sim_rx_err s \<and> sim_rx_bytes_received s' = sim_rx_bytes_received s"
  proof (cases i)
    case (Set_var x v)
    then show ?thesis using assms(2) n by (cases x) auto
  qed (use assms(2) in \<open>auto split: if_splits\<close>)
  moreover have "cb_code s' = is" using cb_code_step(2) assms(1,2) by blast
  ultimately show ?thesis
    using assms(3,4) cb_step_keeps [OF assms(2)] unfolding rx_past_def rx_result_def by auto
qed

lemma callback_unlocks: "Unlock d \<in> set (callback_of c b e) \<longleftrightarrow> d = c"
  by (cases c) (auto simp: program_defs)

lemma receive_step:
  assumes "inv_base s" "token_ok RX_DONE s" "inv_call s" "inv_fresh s" "inv_receive s" "step a s = Some s'"
  shows "inv_receive s'"
proof (cases a)
  case (Enter k)
  with assms(6) receive_body show ?thesis
    by (fastforce simp: inv_receive_def program_defs split: if_splits)
next
  case Fw
  then obtain i "is" where i: "fw_code s = i # is" "fw_step i is s = Some s'"
    using assms(6) by (auto split: list.splits)
  have "rx_refused s' \<or> rx_waiting s' \<or> rx_past s'" if k: "fw_call s' = Some k" "call_chan k = Some RX_DONE" for k
  proof (cases "\<exists>r. Start r \<in> set (fw_code s)")
    case True
    then have "fw_code s = body k" "answer s RX_DONE = None"
      using assms(3,4) k fw_step_keeps(3) [OF i(2)] unfolding inv_call_def inv_fresh_def by auto
    with receive_start k(2) assms(2,6) Fw show ?thesis by blast
  next
    case False
    then have "rx_waiting s \<or> rx_past s"
      using assms(5) k fw_step_keeps(3) [OF i(2)] i(1) unfolding inv_receive_def rx_refused_def by auto
    with receive_wait_step receive_past_step assms(1,2,6) Fw show ?thesis by blast
  qed
  then show ?thesis unfolding inv_receive_def by blast
next
  case Cb
  then obtain i "is" where i: "cb_code s = i # is" "cb_step i is s = Some s'"
    using assms(6) by (auto split: list.splits)
  then have "cb_wf (i # is)" using assms(1) by (simp add: inv_base_def inv_code_def)
  then have "rx_past s \<Longrightarrow> rx_past s'" using receive_past_cb i by blast
  then show ?thesis
    using assms(5) cb_step_keeps [OF i(2)] unfolding inv_receive_def rx_refused_def rx_waiting_def by auto
next
  case (Deliver c b e)
  have n: "\<not> rx_refused s \<or> c \<noteq> RX_DONE"
    using assms(2,6) Deliver by (auto simp: rx_refused_def token_ok_def token_def split: if_splits)
  have s': "s' = s\<lparr>cb_code := callback_of c b e, owed := (owed s)(c := owed s c - 1),
      on_air := on_air s \<and> c \<noteq> TX_DONE, answer := (answer s)(c := Some (b, e))\<rparr>" and o: "owed s c > 0"
    using assms(6) Deliver by (simp_all split: if_splits)
  have "rx_refused s \<Longrightarrow> rx_refused s'"
    using n unfolding s' by (simp add: rx_refused_def)
  moreover have "rx_waiting s \<Longrightarrow> rx_waiting s'"
    unfolding s' rx_waiting_def by (simp split: if_splits)
  moreover have "rx_past s \<Longrightarrow> rx_past s'"
  proof -
    have "rx_result s' = rx_result s" unfolding s' by (simp add: rx_result_def)
    then show "rx_past s \<Longrightarrow> rx_past s'"
      using o callback_unlocks [of RX_DONE c b e] unfolding rx_past_def
      by (cases "c = RX_DONE") (simp_all add: s')
  qed
  moreover have "fw_call s' = fw_call s" "fw_code s' = fw_code s"
    by (simp_all add: s')
  ultimately show ?thesis using assms(5) unfolding inv_receive_def by auto
qed (use assms(5,6) in \<open>auto simp: inv_receive_def rx_refused_def rx_waiting_def rx_past_def rx_result_def split: if_splits\<close>)

definition inv_results :: "sim_state \<Rightarrow> bool" where
  "inv_results s \<longleftrightarrow> inv_base s \<and> token_ok SLEEP s \<and> token_ok RX_DONE s \<and> inv_vars s \<and> inv_call s \<and> inv_slept s \<and>
     inv_fresh s \<and> inv_receive s"

lemma results_init: "inv_results sim0"
  unfolding inv_results_def
  by (intro conjI base_init)
    (simp_all add: sim0_def token_ok_def token_def inv_vars_def inv_call_def inv_slept_def inv_fresh_def inv_receive_def)

lemma results_step:
  assumes "inv_results s" "step a s = Some s'" "\<And>k. a = Enter k \<Longrightarrow> paired k"
  shows "inv_results s'"
proof -
  have c: "inv_code s" using assms(1) by (simp add: inv_results_def inv_base_def)
  show ?thesis
    using assms(1) base_step [OF _ assms(2)] token_step [OF c _ _ assms(2,3)] vars_step [OF c _ assms(2)]
      call_step [OF c _ assms(2)] slept_step [OF c _ _ assms(2)] fresh_step [OF c _ _ assms(2)]
      receive_step [OF _ _ _ _ _ assms(2)]
    unfolding inv_results_def by simp
qed

lemma results_reach: "reach paired s \<Longrightarrow> inv_results s"
  by (induction rule: reach.induct) (auto intro: results_init results_step)

lemma returned_results:
  assumes r: "inv_results s" and "fw_code s = []"
  shows "owed s SLEEP = 0 \<and> ready s SLEEP = 0 \<and> owed s RX_DONE = 0 \<and> ready s RX_DONE = 0 \<and>
    (\<forall>k. fw_call s = Some k \<longrightarrow> call_chan k = Some SLEEP \<longrightarrow> answer s SLEEP \<noteq> None) \<and>
    (\<forall>k. fw_call s = Some k \<longrightarrow> call_chan k = Some RX_DONE \<longrightarrow>
       (case answer s RX_DONE of None \<Rightarrow> fw_ret s = 1
        | Some (bytes, err) \<Rightarrow> fw_ret s = (if err \<noteq> 0 then err else bytes)))"
proof -
  have q: "owed s c = 0 \<and> ready s c = 0" if "c \<noteq> TX_DONE" for c
    using r assms(2) that unfolding inv_results_def token_ok_def token_def by (cases c) (auto split: if_splits)
  have "answer s SLEEP \<noteq> None" if "fw_call s = Some k" "call_chan k = Some SLEEP" for k
    using r that assms(2) q [of SLEEP] unfolding inv_results_def inv_slept_def by auto
  moreover have "case answer s RX_DONE of None \<Rightarrow> fw_ret s = 1
      | Some (bytes, err) \<Rightarrow> fw_ret s = (if err \<noteq> 0 then err else bytes)"
    if k: "fw_call s = Some k" "call_chan k = Some RX_DONE" for k
  proof (cases "rx_refused s")
    case True
    then show ?thesis by (simp add: rx_refused_def)
  next
    case False
    then have p: "rx_past s"
      using r k assms(2) unfolding inv_results_def inv_receive_def by (auto simp: rx_waiting_def)
    then obtain b e where a: "answer s RX_DONE = Some (b, e)" by (auto simp: rx_past_def)
    have w: "cb_wf (cb_code s)" and "vars_ok b e s"
      using r a by (auto simp: inv_results_def inv_base_def inv_code_def inv_vars_def)
    moreover have "assigned x (cb_code s) = {}" if "var_chan x = RX_DONE" for x
      using cb_assigns_chan [OF w] p that by (fastforce simp: assigned_def rx_past_def)
    ultimately have "sim_rx_bytes_received s = b" "sim_rx_err s = e"
      by (auto simp: vars_ok_def var_ok_def)
    with p a assms(2) show ?thesis by (auto simp: rx_past_def rx_result_def)
  qed
  ultimately show ?thesis using q [of SLEEP] q [of RX_DONE] by blast
qed

text \<open>
  C7: what sleeps and receptions return. Whatever calls the firmware makes, except starting a reception
  or waiting for one by itself, and however the threads interleave: when a function has returned, the
  sleep and receive channels are clean, nothing is owed and no flag is left set. A sleep has returned
  after the callback of its own request. A reception returned 1 when the simulator refused it, and
  otherwise the error of its own callback, or its number of bytes when the error is 0.
\<close>

theorem sleep_receive_synchronised:
  assumes "reach paired s" "fw_code s = []"
  shows "owed s SLEEP = 0 \<and> ready s SLEEP = 0 \<and> owed s RX_DONE = 0 \<and> ready s RX_DONE = 0 \<and>
    (\<forall>k. fw_call s = Some k \<longrightarrow> call_chan k = Some SLEEP \<longrightarrow> answer s SLEEP \<noteq> None) \<and>
    (\<forall>k. fw_call s = Some k \<longrightarrow> call_chan k = Some RX_DONE \<longrightarrow>
       (case answer s RX_DONE of None \<Rightarrow> fw_ret s = 1
        | Some (bytes, err) \<Rightarrow> fw_ret s = (if err \<noteq> 0 then err else bytes)))"
  by (rule returned_results [OF results_reach [OF assms(1)] assms(2)])

text \<open>A reception of four bytes, from the call to its return.\<close>

definition rx_run :: "action list" where
  "rx_run = [Enter (Call_receive_blocking 0 256 1000), Fw, Fw, Fw, Deliver RX_DONE 4 0, Cb, Cb, Cb, Cb, Cb, Cb,
     Fw, Fw, Fw, Fw, Fw, Fw, Fw]"

lemma reach_run:
  "reach P s \<Longrightarrow> list_all (\<lambda>a. \<forall>k. a = Enter k \<longrightarrow> P k) as \<Longrightarrow> run step as s = Some s' \<Longrightarrow> reach P s'"
  by (induction as arbitrary: s) (auto split: option.splits intro: reach_step)

theorem sleep_receive_synchronised_witness:
  "fw_ret (the (run step rx_run sim0)) = 4"
proof -
  obtain s where r: "run step rx_run sim0 = Some s"
    by (simp add: rx_run_def sim0_def program_defs)
  then have s: "fw_code s = [] \<and> fw_call s = Some (Call_receive_blocking 0 256 1000) \<and> answer s RX_DONE = Some (4, 0)"
    by (auto simp: rx_run_def sim0_def program_defs)
  have "reach paired s"
    by (rule reach_run [OF reach_init _ r]) (simp add: rx_run_def paired_def)
  then show ?thesis
    using sleep_receive_synchronised [of s] s r by simp
qed

section \<open>Where the handshake fails\<close>

text \<open>
  A transmission that is put on the air between its start and the wait makes the wait give up; the
  callback of that transmission then answers the next one.
\<close>

definition race :: "action list" where
  "race = [Enter (Call_transmit_blocking [] 4), Fw, Begin_tx, Fw]"

definition stale :: "action list" where
  "stale = [Deliver TX_DONE 0 0, Cb, Cb, Cb, Cb, Cb, Enter (Call_transmit_blocking [] 4), Fw, Fw, Fw, Fw, Fw, Fw, Fw]"

text \<open>
  A blocking transmission is not synchronised. There is an interleaving in which the call starts a
  transmission and returns the error for a node that is already transmitting, the transmission being
  its own and still running; and it can go on so that the next blocking transmission reports
  success while its callback is still owed.
\<close>

theorem transmit_blocking_race:
  "\<exists>s t. run step race sim0 = Some s \<and> fw_code s = [] \<and> fw_ret s = SIM_ERR_ALREADY_TRANSMITTING \<and>
     owed s TX_DONE = 1 \<and> on_air s \<and>
     run step stale s = Some t \<and> fw_code t = [] \<and> fw_ret t = 0 \<and> owed t TX_DONE = 1"
  by (simp add: race_def stale_def sim0_def program_defs)

definition idle_tx :: "sim_state \<Rightarrow> bool" where
  "idle_tx s \<longleftrightarrow> owed s TX_DONE = 0 \<and> ready s TX_DONE = 0 \<and> \<not> on_air s \<and> Set_ready TX_DONE 1 \<notin> set (cb_code s)"

abbreviation tx_wait :: "instr list" where
  "tx_wait \<equiv> [Wait_ready TX_DONE, Unlock TX_DONE, Set_ready TX_DONE 0, Load sim_tx_err_var]"

definition stuck :: "sim_state \<Rightarrow> bool" where
  "stuck s \<longleftrightarrow> inv_code s \<and> idle_tx s \<and>
     fw_code s \<in> {Return_if_transmitting SIM_ERR_ALREADY_TRANSMITTING # Lock TX_DONE # tx_wait, Lock TX_DONE # tx_wait,
       tx_wait, Reacquire TX_DONE # tx_wait}"

lemma idle_tx_step:
  assumes "idle_tx s" "inv_code s" "step a s = Some s'" "fw_code s' \<noteq> []" "stuck s" "inner a"
  shows "idle_tx s'"
proof (cases a)
  case Fw
  with assms(3,5) show ?thesis by (auto simp: stuck_def idle_tx_def split: if_splits)
next
  case Cb
  then obtain i "is" where i: "cb_code s = i # is" "cb_step i is s = Some s'"
    using assms(3) by (auto split: list.splits)
  then have "cb_wf (i # is)" using assms(2) by (simp add: inv_code_def)
  with i assms(1) show ?thesis
    by (cases i) (auto simp: idle_tx_def dest: cb_sets_one split: if_splits)
next
  case (Deliver c b e)
  with assms(1,3) show ?thesis by (cases "c = TX_DONE") (auto simp: idle_tx_def callback_sets split: if_splits)
qed (use assms in \<open>auto simp: idle_tx_def split: if_splits\<close>)

lemma stuck_step:
  assumes "stuck s" "inner a" "step a s = Some s'"
  shows "stuck s'"
proof -
  have w: "inv_code s'" using inv_code_step assms(1,3) unfolding stuck_def by blast
  have c: "fw_code s' = fw_code s" if "a \<noteq> Fw"
    using assms(2,3) that by (cases a) (auto split: if_splits list.splits dest: cb_step_keeps(1))
  show ?thesis
  proof (cases "a = Fw")
    case True
    with assms w show ?thesis by (auto simp: stuck_def idle_tx_def split: if_splits)
  next
    case False
    with c w assms idle_tx_step [of s a s'] show ?thesis unfolding stuck_def by auto
  qed
qed

text \<open>
  C40: Waiting for a transmission nobody started never ends. The comment promises that the wait returns
  at once when none is active. Entered with nothing on the air, no callback owed or under way and the flag
  clear, the call never returns, whatever the threads do until the firmware makes another request,
  spurious wake-ups included.
\<close>

theorem wait_transmit_never_returns:
  assumes "reach P s" "idle_tx s" "step (Enter Call_wait_transmit_finished) s = Some s'"
    and "list_all inner as" "run step as s' = Some s''"
  shows "fw_code s'' \<noteq> []"
proof -
  have "inv_code s" using base_reach [OF assms(1)] by (simp add: inv_base_def)
  then have "inv_code s'" using inv_code_step assms(3) by blast
  with assms(2,3) have "stuck s'"
    by (auto simp: stuck_def idle_tx_def program_defs split: if_splits)
  then have "stuck s''" using assms(4,5)
    by (induction as arbitrary: s') (auto split: option.splits dest: stuck_step)
  then show ?thesis by (auto simp: stuck_def)
qed

theorem wait_transmit_never_returns_witness:
  "fw_code (the (run step [Enter Call_wait_transmit_finished, Fw, Fw, Fw, Spurious] sim0)) \<noteq> []"
proof -
  obtain s where s: "step (Enter Call_wait_transmit_finished) sim0 = Some s" by (simp add: sim0_def)
  obtain t where t: "run step [Fw, Fw, Fw, Spurious] s = Some t"
    using s by (auto simp: sim0_def program_defs)
  have "fw_code t \<noteq> []"
    using wait_transmit_never_returns [OF reach_init _ s _ t] by (simp add: idle_tx_def sim0_def)
  then show ?thesis using s t by simp
qed

end
