(* ===== verification/Ping_Pong.thy ===== *)
theory Ping_Pong
  imports Sim_Handshake
begin

text \<open>
  The example firmware \<^verbatim>\<open>examples/native_ping_pong/firmware/main.c\<close>: two nodes that answer each other. Its
  \<^verbatim>\<open>main\<close> is a client of the handshakes; here it runs on top of them, one blocking call after the
  other, and inherits what they promise. The calls that configure the radio and print have no effect on
  the handshakes and are left out.
\<close>

section \<open>The firmware\<close>

definition ping :: "u8 list" where "ping = [0x50, 0x69, 0x6E, 0x67]"
definition pong :: "u8 list" where "pong = [0x50, 0x6F, 0x6E, 0x67]"

text \<open>What \<^verbatim>\<open>wait_for\<close> makes of the value of \<^verbatim>\<open>sim_receive_blocking_no_timeout\<close> and the bytes in its buffer.\<close>

definition wait_for :: "u8 list \<Rightarrow> int \<Rightarrow> u8 list \<Rightarrow> int" where
  "wait_for msg res rx_data =
     (if res \<le> 0 then 0
      else if res = 4 \<and> take 4 rx_data = msg then 1
      else 0)"

definition send_msg :: "int \<Rightarrow> int" where
  "send_msg err = (if err \<noteq> 0 then err else 0)"

text \<open>
  The places of \<^verbatim>\<open>main\<close>, each a blocking call: the first sleep and the first message of an even node, and
  the waiting, the pause and the answer of the loop; \<open>Done\<close> is its end.
\<close>

datatype place = First_sleep | First_send | Waiting | Pause | Reply | Done

definition even_node :: "int \<Rightarrow> bool" where
  "even_node node_id \<longleftrightarrow> node_id mod 2 = 0"

definition first_place :: "int \<Rightarrow> place" where
  "first_place node_id = (if even_node node_id then First_sleep else Waiting)"

fun place_call :: "int \<Rightarrow> place \<Rightarrow> call option" where
  "place_call node_id First_sleep = Some (Call_sleep 1)"
| "place_call node_id First_send = Some (Call_transmit_blocking ping 4)"
| "place_call node_id Waiting = Some (Call_receive_blocking_no_timeout 0 256)"
| "place_call node_id Pause = Some (Call_sleep (if even_node node_id then 4 else 2))"
| "place_call node_id Reply = Some (Call_transmit_blocking (if even_node node_id then ping else pong) 4)"
| "place_call node_id Done = None"

text \<open>Where \<^verbatim>\<open>main\<close> goes when the call of a place has returned \<open>res\<close>, with \<open>rx_data\<close> in the buffer.\<close>

fun next_place :: "int \<Rightarrow> place \<Rightarrow> int \<Rightarrow> u8 list \<Rightarrow> place" where
  "next_place node_id First_sleep res rx_data = First_send"
| "next_place node_id First_send res rx_data = Waiting"
| "next_place node_id Waiting res rx_data =
     (if wait_for (if even_node node_id then pong else ping) res rx_data \<noteq> 0 then Pause else Done)"
| "next_place node_id Pause res rx_data = Reply"
| "next_place node_id Reply res rx_data = (if send_msg res \<noteq> 0 then Done else Waiting)"
| "next_place node_id Done res rx_data = Done"

section \<open>A node\<close>

text \<open>\<open>Main\<close> goes on when the function it called has returned; all else is a step of the handshakes.\<close>

datatype node_action = Sim action | Main "u8 list"

fun enter :: "int \<Rightarrow> place \<Rightarrow> sim_state \<Rightarrow> (sim_state \<times> place) option" where
  "enter node_id l s = (case place_call node_id l of
     None \<Rightarrow> Some (s, l)
   | Some k \<Rightarrow> (case step (Enter k) s of None \<Rightarrow> None | Some s' \<Rightarrow> Some (s', l)))"

fun node_step :: "int \<Rightarrow> node_action \<Rightarrow> sim_state \<times> place \<Rightarrow> (sim_state \<times> place) option" where
  "node_step node_id (Sim a) (s, l) =
     (if inner a then (case step a s of None \<Rightarrow> None | Some s' \<Rightarrow> Some (s', l)) else None)"
| "node_step node_id (Main rx_data) (s, l) =
     (if fw_code s = [] \<and> l \<noteq> Done then enter node_id (next_place node_id l (fw_ret s) rx_data) s else None)"

text \<open>
  What a node says and hears: a message when \<^verbatim>\<open>main\<close> calls the transmission of it, and the value and
  the first four bytes of the buffer when its reception has returned.
\<close>

datatype radio_event = Said "u8 list" | Heard int "u8 list"

fun said :: "int \<Rightarrow> place \<Rightarrow> radio_event list" where
  "said node_id l = (case place_call node_id l of
     Some (Call_transmit_blocking data len) \<Rightarrow> [Said (take (nat len) data)] | _ \<Rightarrow> [])"

definition heard :: "place \<Rightarrow> int \<Rightarrow> u8 list \<Rightarrow> radio_event list" where
  "heard l res rx_data = (if l = Waiting then [Heard res (take 4 rx_data)] else [])"

inductive node :: "int \<Rightarrow> radio_event list \<Rightarrow> sim_state \<times> place \<Rightarrow> bool" for node_id where
  node_init: "enter node_id (first_place node_id) sim0 = Some n \<Longrightarrow> node node_id (said node_id (first_place node_id)) n"
| node_sim: "node node_id evs n \<Longrightarrow> node_step node_id (Sim a) n = Some n' \<Longrightarrow> node node_id evs n'"
| node_main: "node node_id evs (s, l) \<Longrightarrow> node_step node_id (Main rx_data) (s, l) = Some (s', l') \<Longrightarrow>
    node node_id (evs @ heard l (fw_ret s) rx_data @ said node_id l') (s', l')"

text \<open>Every call of \<^verbatim>\<open>main\<close> is one the handshakes serve.\<close>

lemma place_call_ok: "place_call node_id l = Some k \<Longrightarrow> unaided k \<and> paired k"
  by (cases l) (auto simp: unaided_def paired_def)

lemma enter_reach:
  assumes "reach unaided s" "reach paired s" "enter node_id l s = Some (s', l')"
  shows "reach unaided s' \<and> reach paired s' \<and> l' = l \<and> (l \<noteq> Done \<longrightarrow> fw_call s' = place_call node_id l)"
proof (cases "place_call node_id l")
  case None
  with assms show ?thesis by (cases l) auto
next
  case (Some k)
  then have e: "step (Enter k) s = Some s'" "l' = l" using assms(3) by (auto split: option.splits if_splits)
  have "fw_call s' = Some k" using e(1) by (auto split: if_splits)
  moreover have "reach unaided s'" "reach paired s'"
    using reach_step [OF assms(1) _ e(1)] reach_step [OF assms(2) _ e(1)] place_call_ok [OF Some] by auto
  ultimately show ?thesis using e(2) Some by simp
qed

lemma inner_keeps_call: "inner a \<Longrightarrow> step a s = Some s' \<Longrightarrow> fw_call s' = fw_call s"
  by (cases a) (auto split: if_splits list.splits dest: fw_step_keeps(3) cb_step_keeps(3))

lemma node_reach:
  "node node_id evs n \<Longrightarrow> reach unaided (fst n) \<and> reach paired (fst n) \<and>
     (snd n \<noteq> Done \<longrightarrow> fw_call (fst n) = place_call node_id (snd n))"
proof (induction rule: node.induct)
  case (node_init n)
  then show ?case using enter_reach [OF reach_init reach_init, of node_id "first_place node_id"] by (cases n) auto
next
  case (node_sim evs n a n')
  obtain s l s' l' where n: "n = (s, l)" "n' = (s', l')" by (cases n; cases n') auto
  then have a: "inner a" "step a s = Some s'" "l' = l"
    using node_sim.hyps(2) by (auto split: if_splits option.splits)
  moreover have "reach unaided s'" "reach paired s'"
    using node_sim.IH n a reach_step [of unaided s a s'] reach_step [of paired s a s'] by (cases a; simp)+
  ultimately show ?case using node_sim.IH n inner_keeps_call by auto
next
  case (node_main evs s l rx s' l')
  then show ?case
    using enter_reach [of s node_id "next_place node_id l (fw_ret s) rx" s' l'] by (auto split: if_splits)
qed

text \<open>
  The dialogue of a node: an even node opens with "Ping"; then it hears the four bytes of the other's
  message and says its own, round after round.
\<close>

definition ascii :: "string \<Rightarrow> u8 list" where
  "ascii = map of_char"

definition own_message :: "int \<Rightarrow> u8 list" where
  "own_message node_id = ascii (if even node_id then ''Ping'' else ''Pong'')"

definition other_message :: "int \<Rightarrow> u8 list" where
  "other_message node_id = ascii (if even node_id then ''Pong'' else ''Ping'')"

definition rounds :: "int \<Rightarrow> nat \<Rightarrow> radio_event list" where
  "rounds node_id k = (if even node_id then [Said (own_message node_id)] else []) @
     concat (replicate k [Heard 4 (other_message node_id), Said (own_message node_id)])"

lemma rounds_Suc:
  "rounds node_id k @ [Heard 4 (other_message node_id), Said (own_message node_id)] = rounds node_id (Suc k)"
proof -
  have "replicate (Suc k) x = replicate k x @ [x]" for x :: "radio_event list"
    by (simp add: replicate_append_same)
  then show ?thesis by (simp add: rounds_def del: replicate.simps)
qed

lemma messages:
  "ping = ascii ''Ping''" "pong = ascii ''Pong''" "ping \<noteq> pong"
  by (simp_all add: ping_def pong_def ascii_def)

text \<open>What has been said and heard when \<^verbatim>\<open>main\<close> is at a place.\<close>

definition dialogue :: "int \<Rightarrow> place \<Rightarrow> radio_event list \<Rightarrow> bool" where
  "dialogue node_id l evs \<longleftrightarrow>
     (case l of
        First_sleep \<Rightarrow> even node_id \<and> evs = []
      | First_send \<Rightarrow> even node_id \<and> evs = rounds node_id 0
      | Waiting \<Rightarrow> (\<exists>k. evs = rounds node_id k)
      | Pause \<Rightarrow> (\<exists>k. evs = rounds node_id k @ [Heard 4 (other_message node_id)])
      | Reply \<Rightarrow> (\<exists>k. evs = rounds node_id (Suc k))
      | Done \<Rightarrow> (\<exists>k. evs = rounds node_id (Suc k)) \<or>
          (\<exists>k res bytes. (res, bytes) \<noteq> (4, other_message node_id) \<and> evs = rounds node_id k @ [Heard res bytes]))"

lemma said_simps [simp]:
  "said node_id First_sleep = []" "said node_id Waiting = []" "said node_id Pause = []" "said node_id Done = []"
  "said node_id Reply = [Said (own_message node_id)]"
  "even node_id \<Longrightarrow> said node_id First_send = [Said (own_message node_id)]"
  by (simp_all add: own_message_def messages [symmetric] even_node_def ping_def pong_def even_iff_mod_2_eq_zero)

lemma next_dialogue:
  assumes "dialogue node_id l evs" "l \<noteq> Done" "l' = next_place node_id l res rx_data"
  shows "dialogue node_id l' (evs @ heard l res rx_data @ said node_id l')"
proof (cases l)
  case Waiting
  define ok where "ok \<longleftrightarrow> res = 4 \<and> take 4 rx_data = other_message node_id"
  have "wait_for (if even_node node_id then pong else ping) res rx_data \<noteq> 0 \<longleftrightarrow> ok"
    by (auto simp: wait_for_def ok_def other_message_def messages even_node_def even_iff_mod_2_eq_zero)
  then have "l' = (if ok then Pause else Done)" using assms(3) Waiting by simp
  then show ?thesis using assms(1) Waiting by (cases ok) (auto simp: dialogue_def heard_def ok_def)
next
  case Pause
  then show ?thesis using assms rounds_Suc [of node_id] by (auto simp: dialogue_def heard_def simp del: said.simps)
next
  case First_sleep
  then show ?thesis using assms by (auto simp: dialogue_def heard_def rounds_def simp del: said.simps)
next
  case First_send
  then show ?thesis using assms by (auto simp: dialogue_def heard_def simp del: said.simps)
next
  case Reply
  then show ?thesis using assms by (auto simp: dialogue_def heard_def simp del: said.simps)
qed (use assms in simp)

lemma node_dialogue: "node node_id evs n \<Longrightarrow> dialogue node_id (snd n) evs"
proof (induction rule: node.induct)
  case (node_init n)
  then have "snd n = first_place node_id"
    using enter_reach [OF reach_init reach_init, of node_id "first_place node_id"] by (cases n) auto
  then show ?case
    by (auto simp: first_place_def dialogue_def rounds_def even_node_def even_iff_mod_2_eq_zero simp del: said.simps)
next
  case (node_sim evs n a n')
  then show ?case by (cases n) (auto split: if_splits option.splits)
next
  case (node_main evs s l rx s' l')
  then have "l \<noteq> Done" "enter node_id (next_place node_id l (fw_ret s) rx) s = Some (s', l')"
    by (auto split: if_splits)
  moreover from this(2) have "l' = next_place node_id l (fw_ret s) rx" by (auto split: option.splits)
  ultimately show ?case using next_dialogue node_main.IH by simp
qed

lemma enter_possible: "fw_code s = [] \<Longrightarrow> \<exists>n. enter node_id l s = Some n"
  by (cases "place_call node_id l") auto

text \<open>
  C19: the ping-pong firmware keeps to its dialogue and never hangs. However the threads interleave and
  whatever the simulator answers, an even node says "Ping" first and then answers only "Pong" with "Ping"; an
  odd node answers only "Ping" with "Pong". So what a node has said and heard is whole rounds, after the
  pause of a round with one more message of the other node heard, and ends only with a reception of anything else -
  an error, another length or other bytes - or with a reply. Until then \<^verbatim>\<open>main\<close> is in the function its place calls
  for and something other than a spurious wake-up can happen. When a reception has returned, its value
  is 1 if the simulator refused it and otherwise the result of its own callback.
\<close>

theorem ping_pong_dialogue:
  assumes "node node_id evs (s, l)"
  shows "dialogue node_id l evs \<and>
    (l \<noteq> Done \<longrightarrow> fw_call s = place_call node_id l \<and>
       (\<exists>a n. a \<noteq> Sim Spurious \<and> node_step node_id a (s, l) = Some n)) \<and>
    (l = Waiting \<and> fw_code s = [] \<longrightarrow>
       (case answer s RX_DONE of None \<Rightarrow> fw_ret s = 1
        | Some (bytes, err) \<Rightarrow> fw_ret s = (if err \<noteq> 0 then err else bytes)))"
proof (intro conjI)
  show "dialogue node_id l evs" using node_dialogue [OF assms] by simp
  have r: "reach unaided s" "reach paired s" and c: "l \<noteq> Done \<longrightarrow> fw_call s = place_call node_id l"
    using node_reach [OF assms] by auto
  have "\<exists>a n. a \<noteq> Sim Spurious \<and> node_step node_id a (s, l) = Some n" if "l \<noteq> Done"
  proof (cases "fw_code s = []")
    case True
    then have "\<exists>n. node_step node_id (Main []) (s, l) = Some n"
      using that enter_possible [of s node_id "next_place node_id l (fw_ret s) []"] by simp
    then show ?thesis by blast
  next
    case False
    then obtain a s' where "inner a" "a \<noteq> Spurious" "step a s = Some s'"
      using live_progress [OF live_reach [OF r(1)]] by blast
    then have "Sim a \<noteq> Sim Spurious \<and> node_step node_id (Sim a) (s, l) = Some (s', l)" by simp
    then show ?thesis by blast
  qed
  with c show "l \<noteq> Done \<longrightarrow> fw_call s = place_call node_id l \<and>
      (\<exists>a n. a \<noteq> Sim Spurious \<and> node_step node_id a (s, l) = Some n)" by blast
  show "l = Waiting \<and> fw_code s = [] \<longrightarrow>
       (case answer s RX_DONE of None \<Rightarrow> fw_ret s = 1
        | Some (bytes, err) \<Rightarrow> fw_ret s = (if err \<noteq> 0 then err else bytes))"
    using returned_results [OF results_reach [OF r(2)]] c by auto
qed

theorem ping_pong_dialogue_witness:
  "\<exists>s k. enter 1 (first_place 1) sim0 = Some (s, Waiting) \<and> said 1 (first_place 1) = rounds 1 k \<and>
     (\<exists>a n. a \<noteq> Sim Spurious \<and> node_step 1 a (s, Waiting) = Some n)"
proof -
  obtain s where s: "enter 1 (first_place 1) sim0 = Some (s, Waiting)"
    by (simp add: first_place_def even_node_def sim0_def)
  then show ?thesis using ping_pong_dialogue [OF node_init [OF s]] by (auto simp: dialogue_def)
qed

end
