(* ===== verification/Adv_Trace.thy ===== *)
theory Adv_Trace
  imports Ending_Systems
begin

text \<open>
  The trace utility of the example firmware (\<^verbatim>\<open>stm32_adv_trace.c\<close> in the configuration of its
  \<^verbatim>\<open>utilities_conf.h\<close>: conditional traces, unchunk mode, no overrun handling; the transfers of
  \<^verbatim>\<open>usart_if.c\<close>). A FIFO of 512 bytes is filled by the application and emptied by DMA transfers whose end
  is an interrupt. Unchunk mode keeps every message in one piece: one that does not fit before the end
  of the buffer starts again at its beginning. The theory shows that the FIFO is a queue of bytes under
  every interleaving of the writer with the interrupt, that it drains, and when it does not.
\<close>

section \<open>Types and state\<close>

datatype UTIL_ADV_TRACE_Status_t =
    UTIL_ADV_TRACE_OK
  | UTIL_ADV_TRACE_INVALID_PARAM
  | UTIL_ADV_TRACE_HW_ERROR
  | UTIL_ADV_TRACE_MEM_FULL
  | UTIL_ADV_TRACE_UNKNOWN_ERROR
  | UTIL_ADV_TRACE_GIVEUP
  | UTIL_ADV_TRACE_REGIONMASKED

datatype TRACE_UNCHUNK_STATUS = TRACE_UNCHUNK_NONE | TRACE_UNCHUNK_DETECTED | TRACE_UNCHUNK_TRANSFER

definition UTIL_ADV_TRACE_TMP_BUF_SIZE :: nat where [simp]: "UTIL_ADV_TRACE_TMP_BUF_SIZE = 256"
definition UTIL_ADV_TRACE_TMP_MAX_TIMESTMAP_SIZE :: nat where [simp]: "UTIL_ADV_TRACE_TMP_MAX_TIMESTMAP_SIZE = 15"
definition UTIL_ADV_TRACE_FIFO_SIZE :: nat where [simp]: "UTIL_ADV_TRACE_FIFO_SIZE = 512"

text \<open>
  The context and the buffers. The 16-bit counters are numbers below \<open>65536\<close>; \<open>sub16\<close> is their
  subtraction and wraps. \<open>dma\<close> is the transfer under way, the place and the number of bytes handed
  to the driver, and \<open>wire\<close> what the transfers that ended have sent.
\<close>

definition sub16 :: "nat \<Rightarrow> nat \<Rightarrow> nat" where
  "sub16 a b = (a + 65536 - b) mod 65536"

lemma sub16_le [simp]:
  assumes "b \<le> a" "a < 65536"
  shows "sub16 a b = a - b"
proof -
  have "a + 65536 - b = (a - b) + 65536" using assms by linarith
  then have "sub16 a b = (a - b) mod 65536" by (simp only: sub16_def mod_add_self2)
  then show ?thesis using assms by simp
qed

record trace_state =
  unchunk_enabled :: nat
  unchunk_status :: TRACE_UNCHUNK_STATUS
  timestamp_func :: bool
  CurrentVerboseLevel :: u8
  RegionMask :: u32
  TraceRdPtr :: nat
  TraceWrPtr :: nat
  TraceSentSize :: nat
  TraceLock :: nat
  ADV_TRACE_Buffer :: "u8 list"
  sztmp :: "u8 list"
  dma :: "(nat \<times> nat) option"
  wire :: "u8 list"

section \<open>Operations\<close>

subsection \<open>Locks, transfers and space\<close>

definition TRACE_Lock :: "'a trace_state_scheme \<Rightarrow> 'a trace_state_scheme" where
  "TRACE_Lock s = s\<lparr>TraceLock := (TraceLock s + 1) mod 65536\<rparr>"

definition TRACE_UnLock :: "'a trace_state_scheme \<Rightarrow> 'a trace_state_scheme" where
  "TRACE_UnLock s = s\<lparr>TraceLock := sub16 (TraceLock s) 1\<rparr>"

definition TRACE_IsLocked :: "'a trace_state_scheme \<Rightarrow> u32" where
  "TRACE_IsLocked s = (if TraceLock s = 0 then 0 else 1)"

text \<open>The driver starts a DMA transfer and reports success (\<^verbatim>\<open>usart_if.c\<close>).\<close>

definition vcom_Trace_DMA :: "nat \<Rightarrow> nat \<Rightarrow> 'a trace_state_scheme \<Rightarrow> UTIL_ADV_TRACE_Status_t \<times> 'a trace_state_scheme" where
  "vcom_Trace_DMA p_data sz s = (UTIL_ADV_TRACE_OK, s\<lparr>dma := Some (p_data, sz)\<rparr>)"

text \<open>The size of the next transfer, the same code in \<^verbatim>\<open>TRACE_Send\<close> and in the callback.\<close>

definition next_transfer :: "'a trace_state_scheme \<Rightarrow> 'a trace_state_scheme" where
  "next_transfer s =
     (let s = (if unchunk_status s = TRACE_UNCHUNK_DETECTED then
                 let s = s\<lparr>TraceSentSize := sub16 (unchunk_enabled s) (TraceRdPtr s),
                           unchunk_status := TRACE_UNCHUNK_TRANSFER, unchunk_enabled := 0\<rparr>
                 in if TraceSentSize s = 0 then s\<lparr>unchunk_status := TRACE_UNCHUNK_NONE, TraceRdPtr := 0\<rparr> else s
               else s)
      in if unchunk_status s = TRACE_UNCHUNK_NONE then
           if TraceWrPtr s > TraceRdPtr s then s\<lparr>TraceSentSize := TraceWrPtr s - TraceRdPtr s\<rparr>
           else s\<lparr>TraceSentSize := UTIL_ADV_TRACE_FIFO_SIZE - TraceRdPtr s\<rparr>
         else s)"

definition TRACE_Send :: "'a trace_state_scheme \<Rightarrow> UTIL_ADV_TRACE_Status_t \<times> 'a trace_state_scheme" where
  "TRACE_Send s =
     (if TRACE_IsLocked s = 0 then
        let s = TRACE_Lock s
        in if TraceRdPtr s \<noteq> TraceWrPtr s then
             let s = next_transfer s
             in vcom_Trace_DMA (TraceRdPtr s) (TraceSentSize s) s
           else (UTIL_ADV_TRACE_OK, TRACE_UnLock s)
      else (UTIL_ADV_TRACE_OK, s))"

definition TRACE_TxCpltCallback :: "'a trace_state_scheme \<Rightarrow> 'a trace_state_scheme" where
  "TRACE_TxCpltCallback s =
     (let s = (if unchunk_status s = TRACE_UNCHUNK_TRANSFER
               then s\<lparr>unchunk_status := TRACE_UNCHUNK_NONE, TraceRdPtr := 0\<rparr>
               else s\<lparr>TraceRdPtr := (TraceRdPtr s + TraceSentSize s) mod UTIL_ADV_TRACE_FIFO_SIZE\<rparr>)
      in if TraceRdPtr s \<noteq> TraceWrPtr s \<and> TraceLock s = 1 then
           let s = next_transfer s
           in snd (vcom_Trace_DMA (TraceRdPtr s) (TraceSentSize s) s)
         else TRACE_UnLock s)"

definition TRACE_AllocateBufer :: "nat \<Rightarrow> 'a trace_state_scheme \<Rightarrow> nat option \<times> 'a trace_state_scheme" where
  "TRACE_AllocateBufer Size s =
     (let (freesize, s) =
        (if TraceWrPtr s = TraceRdPtr s then
           let freesize = UTIL_ADV_TRACE_FIFO_SIZE - TraceWrPtr s
           in if Size \<ge> freesize \<and> TraceRdPtr s > Size then
                (TraceRdPtr s, s\<lparr>unchunk_status := TRACE_UNCHUNK_DETECTED, unchunk_enabled := TraceWrPtr s, TraceWrPtr := 0\<rparr>)
              else (freesize, s)
         else if TraceWrPtr s > TraceRdPtr s then
           let freesize = UTIL_ADV_TRACE_FIFO_SIZE - TraceWrPtr s
           in if Size \<ge> freesize \<and> TraceRdPtr s > Size then
                (TraceRdPtr s, s\<lparr>unchunk_status := TRACE_UNCHUNK_DETECTED, unchunk_enabled := TraceWrPtr s, TraceWrPtr := 0\<rparr>)
              else (freesize, s)
         else (TraceRdPtr s - TraceWrPtr s, s))
      in if freesize > Size then
           (Some (TraceWrPtr s), s\<lparr>TraceWrPtr := (TraceWrPtr s + Size) mod UTIL_ADV_TRACE_FIFO_SIZE\<rparr>)
         else (None, s))"

subsection \<open>Initialisation and settings\<close>

definition UTIL_ADV_TRACE_Init :: "'a trace_state_scheme \<Rightarrow> UTIL_ADV_TRACE_Status_t \<times> 'a trace_state_scheme" where
  "UTIL_ADV_TRACE_Init s =
     (UTIL_ADV_TRACE_OK,
      s\<lparr>unchunk_enabled := 0, unchunk_status := TRACE_UNCHUNK_NONE, timestamp_func := False, CurrentVerboseLevel := 0,
        RegionMask := 0, TraceRdPtr := 0, TraceWrPtr := 0, TraceSentSize := 0, TraceLock := 0,
        ADV_TRACE_Buffer := replicate UTIL_ADV_TRACE_FIFO_SIZE 0\<rparr>)"

definition UTIL_ADV_TRACE_IsBufferEmpty :: "'a trace_state_scheme \<Rightarrow> u8" where
  "UTIL_ADV_TRACE_IsBufferEmpty s = (if TraceWrPtr s = TraceRdPtr s then 1 else 0)"

definition UTIL_ADV_TRACE_RegisterTimeStampFunction :: "bool \<Rightarrow> 'a trace_state_scheme \<Rightarrow> 'a trace_state_scheme" where
  "UTIL_ADV_TRACE_RegisterTimeStampFunction cb s = s\<lparr>timestamp_func := cb\<rparr>"

definition UTIL_ADV_TRACE_SetVerboseLevel :: "u8 \<Rightarrow> 'a trace_state_scheme \<Rightarrow> 'a trace_state_scheme" where
  "UTIL_ADV_TRACE_SetVerboseLevel Level s = s\<lparr>CurrentVerboseLevel := Level\<rparr>"

definition UTIL_ADV_TRACE_GetVerboseLevel :: "'a trace_state_scheme \<Rightarrow> u8" where
  "UTIL_ADV_TRACE_GetVerboseLevel s = CurrentVerboseLevel s"

definition UTIL_ADV_TRACE_SetRegion :: "u32 \<Rightarrow> 'a trace_state_scheme \<Rightarrow> 'a trace_state_scheme" where
  "UTIL_ADV_TRACE_SetRegion Region s = s\<lparr>RegionMask := RegionMask s OR Region\<rparr>"

definition UTIL_ADV_TRACE_GetRegion :: "'a trace_state_scheme \<Rightarrow> u32" where
  "UTIL_ADV_TRACE_GetRegion s = RegionMask s"

definition UTIL_ADV_TRACE_ResetRegion :: "u32 \<Rightarrow> 'a trace_state_scheme \<Rightarrow> 'a trace_state_scheme" where
  "UTIL_ADV_TRACE_ResetRegion Region s = s\<lparr>RegionMask := RegionMask s AND NOT Region\<rparr>"

subsection \<open>Sending\<close>

text \<open>The loop that stores bytes into the FIFO.\<close>

fun fill :: "nat \<Rightarrow> u8 list \<Rightarrow> 'a trace_state_scheme \<Rightarrow> nat \<times> 'a trace_state_scheme" where
  "fill writepos [] s = (writepos, s)"
| "fill writepos (b # bs) s =
     fill ((writepos + 1) mod UTIL_ADV_TRACE_FIFO_SIZE) bs (s\<lparr>ADV_TRACE_Buffer := (ADV_TRACE_Buffer s)[writepos := b]\<rparr>)"

definition UTIL_ADV_TRACE_Send :: "u8 list \<Rightarrow> 'a trace_state_scheme \<Rightarrow> UTIL_ADV_TRACE_Status_t \<times> 'a trace_state_scheme" where
  "UTIL_ADV_TRACE_Send pData s =
     (let s = TRACE_Lock s
      in case TRACE_AllocateBufer (length pData) s of
           (Some writepos, s) \<Rightarrow>
             (let (writepos, s) = fill writepos pData s;
                  s = TRACE_UnLock s
              in TRACE_Send s)
         | (None, s) \<Rightarrow> (UTIL_ADV_TRACE_MEM_FULL, TRACE_UnLock s))"

definition UTIL_ADV_TRACE_ZCSend_Allocation ::
  "nat \<Rightarrow> 'a trace_state_scheme \<Rightarrow> (UTIL_ADV_TRACE_Status_t \<times> nat option) \<times> 'a trace_state_scheme" where
  "UTIL_ADV_TRACE_ZCSend_Allocation Length s =
     (let s = TRACE_Lock s
      in case TRACE_AllocateBufer Length s of
           (Some writepos, s) \<Rightarrow> ((UTIL_ADV_TRACE_OK, Some writepos), s)
         | (None, s) \<Rightarrow> ((UTIL_ADV_TRACE_MEM_FULL, None), TRACE_UnLock s))"

definition UTIL_ADV_TRACE_ZCSend_Finalize :: "'a trace_state_scheme \<Rightarrow> UTIL_ADV_TRACE_Status_t \<times> 'a trace_state_scheme" where
  "UTIL_ADV_TRACE_ZCSend_Finalize s = TRACE_Send (TRACE_UnLock s)"

text \<open>
  The conditional functions share their checks: the verbose level, the region, and the time stamp,
  whose function writes its bytes (\<open>ts\<close>) to an array of 15.
\<close>

definition cond_refused :: "u32 \<Rightarrow> u32 \<Rightarrow> 'a trace_state_scheme \<Rightarrow> UTIL_ADV_TRACE_Status_t option" where
  "cond_refused VerboseLevel Region s =
     (if \<not> ucast (CurrentVerboseLevel s) \<ge> VerboseLevel then Some UTIL_ADV_TRACE_GIVEUP
      else if Region AND RegionMask s \<noteq> Region then Some UTIL_ADV_TRACE_REGIONMASKED else None)"

definition timestamp :: "u32 \<Rightarrow> u8 list \<Rightarrow> 'a trace_state_scheme \<Rightarrow> u8 list result" where
  "timestamp TimeStampState ts s =
     (if timestamp_func s \<and> TimeStampState \<noteq> 0
      then if length ts \<le> UTIL_ADV_TRACE_TMP_MAX_TIMESTMAP_SIZE then Inr ts else Inl OutOfBounds
      else Inr [])"

definition UTIL_ADV_TRACE_COND_Send ::
  "u32 \<Rightarrow> u32 \<Rightarrow> u32 \<Rightarrow> u8 list \<Rightarrow> u8 list \<Rightarrow> 'a trace_state_scheme \<Rightarrow> (UTIL_ADV_TRACE_Status_t \<times> 'a trace_state_scheme) result" where
  "UTIL_ADV_TRACE_COND_Send VerboseLevel Region TimeStampState ts pData s =
     (case cond_refused VerboseLevel Region s of
        Some st \<Rightarrow> Inr (st, s)
      | None \<Rightarrow> bindr (timestamp TimeStampState ts s) (\<lambda>timestamp_ptr.
          let s = TRACE_Lock s
          in case TRACE_AllocateBufer ((length pData + length timestamp_ptr) mod 65536) s of
               (Some writepos, s) \<Rightarrow>
                 (let (writepos, s) = fill writepos timestamp_ptr s;
                      (writepos, s) = fill writepos pData s;
                      s = TRACE_UnLock s
                  in Inr (TRACE_Send s))
             | (None, s) \<Rightarrow> Inr (UTIL_ADV_TRACE_MEM_FULL, TRACE_UnLock s)))"

definition UTIL_ADV_TRACE_COND_ZCSend_Allocation ::
  "u32 \<Rightarrow> u32 \<Rightarrow> u32 \<Rightarrow> u8 list \<Rightarrow> nat \<Rightarrow> 'a trace_state_scheme
     \<Rightarrow> ((UTIL_ADV_TRACE_Status_t \<times> nat option) \<times> 'a trace_state_scheme) result" where
  "UTIL_ADV_TRACE_COND_ZCSend_Allocation VerboseLevel Region TimeStampState ts len s =
     (case cond_refused VerboseLevel Region s of
        Some st \<Rightarrow> Inr ((st, None), s)
      | None \<Rightarrow> bindr (timestamp TimeStampState ts s) (\<lambda>timestamp_ptr.
          let s = TRACE_Lock s
          in case TRACE_AllocateBufer ((len + length timestamp_ptr) mod 65536) s of
               (Some writepos, s) \<Rightarrow>
                 (let (writepos, s) = fill writepos timestamp_ptr s
                  in Inr ((UTIL_ADV_TRACE_OK, Some writepos), s))
             | (None, s) \<Rightarrow> Inr ((UTIL_ADV_TRACE_MEM_FULL, None), TRACE_UnLock s)))"

definition UTIL_ADV_TRACE_COND_ZCSend_Finalize ::
  "'a trace_state_scheme \<Rightarrow> UTIL_ADV_TRACE_Status_t \<times> 'a trace_state_scheme" where
  "UTIL_ADV_TRACE_COND_ZCSend_Finalize s = UTIL_ADV_TRACE_ZCSend_Finalize s"

text \<open>
  Formatted output: \<open>out\<close> is what the format expands to. The function writes at most \<open>size\<close> bytes, the
  terminator included, and answers \<open>size\<close> whatever it wrote.
\<close>

definition tiny_vsnprintf_like :: "nat \<Rightarrow> nat \<Rightarrow> u8 list \<Rightarrow> u8 list \<Rightarrow> (nat \<times> u8 list) result" where
  "tiny_vsnprintf_like off sz out buf =
     bindr (copy_into off (take (sz - 1) out @ [0]) buf) (\<lambda>buf. Inr (sz, buf))"

text \<open>The stack buffer of \<^verbatim>\<open>UTIL_ADV_TRACE_FSend\<close> holds \<open>stack\<close> before it is written.\<close>

definition UTIL_ADV_TRACE_FSend ::
  "u8 list \<Rightarrow> u8 list \<Rightarrow> 'a trace_state_scheme \<Rightarrow> (UTIL_ADV_TRACE_Status_t \<times> 'a trace_state_scheme) result" where
  "UTIL_ADV_TRACE_FSend stack out s =
     bindr (tiny_vsnprintf_like 0 UTIL_ADV_TRACE_TMP_BUF_SIZE out stack) (\<lambda>(bufSize, buf).
     Inr (UTIL_ADV_TRACE_Send (take bufSize buf) s))"

text \<open>
  The format is expanded twice, with the argument list of the first time: what the second expansion
  gives is \<open>out2\<close>. The time stamp is stored without a modulus.
\<close>

definition UTIL_ADV_TRACE_COND_FSend ::
  "u32 \<Rightarrow> u32 \<Rightarrow> u32 \<Rightarrow> u8 list \<Rightarrow> u8 list \<Rightarrow> u8 list \<Rightarrow> 'a trace_state_scheme
     \<Rightarrow> (UTIL_ADV_TRACE_Status_t \<times> 'a trace_state_scheme) result" where
  "UTIL_ADV_TRACE_COND_FSend VerboseLevel Region TimeStampState ts out out2 s =
     (case cond_refused VerboseLevel Region s of
        Some st \<Rightarrow> Inr (st, s)
      | None \<Rightarrow> bindr (timestamp TimeStampState ts s) (\<lambda>buf.
          bindr (tiny_vsnprintf_like 0 UTIL_ADV_TRACE_TMP_BUF_SIZE out (sztmp s)) (\<lambda>(buff_size, tmp).
          let s = TRACE_Lock (s\<lparr>sztmp := tmp\<rparr>)
          in case TRACE_AllocateBufer (buff_size + length buf) s of
               (Some writepos, s) \<Rightarrow>
                 bindr (copy_into writepos buf (ADV_TRACE_Buffer s)) (\<lambda>fifo.
                 bindr (tiny_vsnprintf_like (writepos + length buf) UTIL_ADV_TRACE_TMP_BUF_SIZE out2 fifo) (\<lambda>(n, fifo).
                 Inr (TRACE_Send (TRACE_UnLock (s\<lparr>ADV_TRACE_Buffer := fifo\<rparr>)))))
             | (None, s) \<Rightarrow> Inr (UTIL_ADV_TRACE_MEM_FULL, TRACE_UnLock s))))"

section \<open>The writer and the interrupt\<close>

text \<open>
  The application sends one message at a time; the end of a transfer interrupts it at any statement. The
  writer is between calls, has taken the lock, is copying a message to a position, was refused, or has
  released the lock and is about to call \<^verbatim>\<open>TRACE_Send\<close>. \<open>accepted\<close> holds the bytes of all messages that got
  space and \<open>refused\<close> counts those that did not. A transfer reads the buffer as it is when it ends.
\<close>

datatype writer = Idle | Locked "u8 list" | Copying nat "u8 list" | Refused | Unlocked

record trace_sys = trace_state +
  writer :: writer
  accepted :: "u8 list"
  refused :: nat

datatype trace_action = Submit "u8 list" | Writer | Dma_done

fun writer_step :: "writer \<Rightarrow> trace_sys \<Rightarrow> trace_sys option" where
  "writer_step Idle s = None"
| "writer_step (Locked pData) s = (case TRACE_AllocateBufer (length pData) s of
     (Some writepos, s) \<Rightarrow> Some (s\<lparr>writer := Copying writepos pData, accepted := accepted s @ pData\<rparr>)
   | (None, s) \<Rightarrow> Some (s\<lparr>writer := Refused, refused := refused s + 1\<rparr>))"
| "writer_step (Copying writepos (b # bs)) s =
     Some (s\<lparr>ADV_TRACE_Buffer := (ADV_TRACE_Buffer s)[writepos := b],
             writer := Copying ((writepos + 1) mod UTIL_ADV_TRACE_FIFO_SIZE) bs\<rparr>)"
| "writer_step (Copying writepos []) s = Some ((TRACE_UnLock s)\<lparr>writer := Unlocked\<rparr>)"
| "writer_step Refused s = Some ((TRACE_UnLock s)\<lparr>writer := Idle\<rparr>)"
| "writer_step Unlocked s = Some ((snd (TRACE_Send s))\<lparr>writer := Idle\<rparr>)"

fun trace_step :: "trace_action \<Rightarrow> trace_sys \<Rightarrow> trace_sys option" where
  "trace_step (Submit pData) s =
     (if writer s = Idle \<and> length pData < 65536 then Some ((TRACE_Lock s)\<lparr>writer := Locked pData\<rparr>) else None)"
| "trace_step Writer s = writer_step (writer s) s"
| "trace_step Dma_done s = (case dma s of
     None \<Rightarrow> None
   | Some (p, n) \<Rightarrow> Some (TRACE_TxCpltCallback (s\<lparr>wire := wire s @ take n (drop p (ADV_TRACE_Buffer s)), dma := None\<rparr>)))"

definition trace0 :: trace_sys where
  "trace0 = \<lparr>unchunk_enabled = 0, unchunk_status = TRACE_UNCHUNK_NONE, timestamp_func = False, CurrentVerboseLevel = 0,
     RegionMask = 0, TraceRdPtr = 0, TraceWrPtr = 0, TraceSentSize = 0, TraceLock = 0,
     ADV_TRACE_Buffer = replicate 512 0, sztmp = replicate 256 0, dma = None, wire = [],
     writer = Idle, accepted = [], refused = 0\<rparr>"

inductive traced :: "trace_sys \<Rightarrow> bool" where
  traced_init: "traced trace0"
| traced_step: "traced s \<Longrightarrow> trace_step a s = Some s' \<Longrightarrow> traced s'"

section \<open>The bytes in the FIFO\<close>

definition slice :: "nat \<Rightarrow> nat \<Rightarrow> 'b list \<Rightarrow> 'b list" where
  "slice a b xs = take (b - a) (drop a xs)"

lemma length_slice [simp]: "b \<le> length xs \<Longrightarrow> length (slice a b xs) = b - a"
  by (simp add: slice_def)

lemma slice_same [simp]: "slice a a xs = []"
  by (simp add: slice_def)

lemma slice_split:
  assumes "a \<le> m" "m \<le> b"
  shows "slice a b xs = slice a m xs @ slice m b xs"
proof -
  have "b - a = (m - a) + (b - m)" using assms by simp
  then have "slice a b xs = slice a m xs @ take (b - m) (drop (m - a) (drop a xs))"
    by (simp only: slice_def take_add)
  then show ?thesis using assms by (simp add: slice_def)
qed

lemma slice_blit_other:
  assumes "off + length bs \<le> length xs" "b \<le> off \<or> off + length bs \<le> a" "b \<le> length xs"
  shows "slice a b (blit off bs xs) = slice a b xs"
  using assms by (intro nth_equalityI) (auto simp: slice_def nth_blit)

lemma slice_blit_at:
  assumes "off + length bs \<le> length xs"
  shows "slice off (off + length bs) (blit off bs xs) = bs"
  using assms by (intro nth_equalityI) (auto simp: slice_def nth_blit)

lemma blit_Cons: "off + length (b # bs) \<le> length xs \<Longrightarrow> blit (off + 1) bs (xs[off := b]) = blit off (b # bs) xs"
  by (simp add: blit_def take_Suc_conv_app_nth)

text \<open>What waits in a buffer, in the order it is sent.\<close>

definition queued :: "'a trace_state_scheme \<Rightarrow> u8 list \<Rightarrow> u8 list" where
  "queued s buf = (case unchunk_status s of
     TRACE_UNCHUNK_NONE \<Rightarrow> slice (TraceRdPtr s) (TraceWrPtr s) buf
   | TRACE_UNCHUNK_DETECTED \<Rightarrow> slice (TraceRdPtr s) (unchunk_enabled s) buf @ slice 0 (TraceWrPtr s) buf
   | TRACE_UNCHUNK_TRANSFER \<Rightarrow> slice (TraceRdPtr s) (TraceRdPtr s + TraceSentSize s) buf @ slice 0 (TraceWrPtr s) buf)"

text \<open>The buffer as it will be when the message being copied is complete.\<close>

definition completed :: "trace_sys \<Rightarrow> u8 list" where
  "completed s = (case writer s of Copying writepos bs \<Rightarrow> blit writepos bs (ADV_TRACE_Buffer s) | _ \<Rightarrow> ADV_TRACE_Buffer s)"

definition contents :: "trace_sys \<Rightarrow> u8 list" where
  "contents s = queued s (completed s)"

section \<open>Invariant\<close>

definition inv_ptr :: "'a trace_state_scheme \<Rightarrow> bool" where
  "inv_ptr s \<longleftrightarrow> length (ADV_TRACE_Buffer s) = 512 \<and> (case unchunk_status s of
     TRACE_UNCHUNK_NONE \<Rightarrow> TraceRdPtr s \<le> TraceWrPtr s \<and> TraceWrPtr s < 512
   | TRACE_UNCHUNK_DETECTED \<Rightarrow> 0 < TraceWrPtr s \<and> TraceWrPtr s < TraceRdPtr s \<and>
       TraceRdPtr s \<le> unchunk_enabled s \<and> unchunk_enabled s < 512
   | TRACE_UNCHUNK_TRANSFER \<Rightarrow> 0 < TraceWrPtr s \<and> TraceWrPtr s < TraceRdPtr s \<and>
       TraceRdPtr s + TraceSentSize s < 512 \<and> dma s \<noteq> None)"

definition inv_dma :: "'a trace_state_scheme \<Rightarrow> bool" where
  "inv_dma s \<longleftrightarrow> (\<forall>p n. dma s = Some (p, n) \<longrightarrow> p = TraceRdPtr s \<and> n = TraceSentSize s \<and> 0 < n \<and>
     (unchunk_status s = TRACE_UNCHUNK_NONE \<longrightarrow> p + n \<le> TraceWrPtr s) \<and>
     (unchunk_status s = TRACE_UNCHUNK_DETECTED \<longrightarrow> p + n \<le> unchunk_enabled s))"

fun holds :: "writer \<Rightarrow> bool" where
  "holds Idle = False"
| "holds Unlocked = False"
| "holds _ = True"

definition inv_lock :: "trace_sys \<Rightarrow> bool" where
  "inv_lock s \<longleftrightarrow> TraceLock s = (if dma s = None then 0 else 1) + (if holds (writer s) then 1 else 0)"

definition inv_copy :: "trace_sys \<Rightarrow> bool" where
  "inv_copy s \<longleftrightarrow> (\<forall>pos bs. writer s = Copying pos bs \<longrightarrow> pos + length bs = TraceWrPtr s \<and>
     (unchunk_status s = TRACE_UNCHUNK_NONE \<longrightarrow> TraceRdPtr s \<le> pos \<and>
        (dma s \<noteq> None \<longrightarrow> TraceRdPtr s + TraceSentSize s \<le> pos)))"

definition inv_fifo :: "trace_sys \<Rightarrow> bool" where
  "inv_fifo s \<longleftrightarrow> wire s @ contents s = accepted s"

definition inv_kick :: "trace_sys \<Rightarrow> bool" where
  "inv_kick s \<longleftrightarrow> (refused s = 0 \<and> writer s = Idle \<and> dma s = None \<longrightarrow> TraceRdPtr s = TraceWrPtr s) \<and>
     (writer s = Refused \<longrightarrow> refused s > 0)"

definition trace_inv :: "trace_sys \<Rightarrow> bool" where
  "trace_inv s \<longleftrightarrow> inv_ptr s \<and> inv_dma s \<and> inv_lock s \<and> inv_copy s \<and> inv_fifo s \<and> inv_kick s"

lemma ptr_frame [simp]:
  "inv_ptr (s\<lparr>TraceLock := l\<rparr>) = inv_ptr s" "inv_dma (s\<lparr>TraceLock := l\<rparr>) = inv_dma s"
  "queued (s\<lparr>TraceLock := l\<rparr>) = queued s" "queued (s\<lparr>dma := d\<rparr>) = queued s" "queued (s\<lparr>wire := w\<rparr>) = queued s"
  "inv_ptr (s\<lparr>wire := w\<rparr>) = inv_ptr s" "inv_dma (s\<lparr>wire := w\<rparr>) = inv_dma s"
  by (auto simp: inv_ptr_def inv_dma_def queued_def fun_eq_iff cong: TRACE_UNCHUNK_STATUS.case_cong)

lemma sys_frame [simp]:
  "inv_ptr (s\<lparr>writer := w\<rparr>) = inv_ptr s" "inv_dma (s\<lparr>writer := w\<rparr>) = inv_dma s" "queued (s\<lparr>writer := w\<rparr>) = queued s"
  "inv_ptr (s\<lparr>accepted := b\<rparr>) = inv_ptr s" "inv_dma (s\<lparr>accepted := b\<rparr>) = inv_dma s" "queued (s\<lparr>accepted := b\<rparr>) = queued s"
  "inv_ptr (s\<lparr>refused := n\<rparr>) = inv_ptr s" "inv_dma (s\<lparr>refused := n\<rparr>) = inv_dma s" "queued (s\<lparr>refused := n\<rparr>) = queued s"
  by (auto simp: inv_ptr_def inv_dma_def queued_def fun_eq_iff cong: TRACE_UNCHUNK_STATUS.case_cong)

lemmas trace_defs = TRACE_Lock_def TRACE_UnLock_def TRACE_IsLocked_def vcom_Trace_DMA_def

lemma trace_init: "trace_inv trace0"
  by (simp add: trace_inv_def inv_ptr_def inv_dma_def inv_lock_def inv_copy_def inv_fifo_def inv_kick_def trace0_def
      contents_def completed_def queued_def)

text \<open>The next transfer sends the next bytes of the queue.\<close>

lemma next_transfer_fields [simp]:
  "ADV_TRACE_Buffer (next_transfer s) = ADV_TRACE_Buffer s" "TraceLock (next_transfer s) = TraceLock s"
  "wire (next_transfer s) = wire s" "dma (next_transfer s) = dma s" "TraceWrPtr (next_transfer s) = TraceWrPtr s"
  by (auto simp: next_transfer_def Let_def)

lemma next_transfer_sys [simp]:
  "writer (next_transfer s) = writer s" "accepted (next_transfer s) = accepted s" "refused (next_transfer s) = refused s"
  by (auto simp: next_transfer_def Let_def)

lemma next_transfer_inv:
  assumes "inv_ptr s" "dma s = None" "TraceRdPtr s \<noteq> TraceWrPtr s" "t = next_transfer s"
  shows "inv_ptr (t\<lparr>dma := Some (TraceRdPtr t, TraceSentSize t)\<rparr>) \<and>
    inv_dma (t\<lparr>dma := Some (TraceRdPtr t, TraceSentSize t)\<rparr>) \<and> queued t buf = queued s buf"
  using assms
  by (cases "unchunk_status s") (auto simp: inv_ptr_def inv_dma_def queued_def next_transfer_def Let_def)

text \<open>Space for a message: its bytes are next to be written, and nothing that waits is overwritten.\<close>

lemma allocate_fields:
  assumes "TRACE_AllocateBufer n s = (r, s')"
  shows "ADV_TRACE_Buffer s' = ADV_TRACE_Buffer s" "TraceLock s' = TraceLock s" "wire s' = wire s" "dma s' = dma s"
    "TraceRdPtr s' = TraceRdPtr s" "TraceSentSize s' = TraceSentSize s"
  using assms by (auto simp: TRACE_AllocateBufer_def Let_def split: if_splits prod.splits)

lemma allocate_sys:
  assumes "TRACE_AllocateBufer n s = (r, s')"
  shows "writer s' = writer s" "accepted s' = accepted s" "refused s' = refused s"
  using assms by (auto simp: TRACE_AllocateBufer_def Let_def split: if_splits prod.splits)

lemma allocate_refused: "TRACE_AllocateBufer n s = (None, s') \<Longrightarrow> s' = s"
  by (auto simp: TRACE_AllocateBufer_def Let_def split: if_splits prod.splits)

lemma allocate_cases:
  assumes "TRACE_AllocateBufer n s = (Some pos, s')" "inv_ptr s" "inv_dma s"
  obtains
    (here) "pos = TraceWrPtr s" "s' = s\<lparr>TraceWrPtr := pos + n\<rparr>" "pos + n < 512"
      "unchunk_status s \<noteq> TRACE_UNCHUNK_NONE \<Longrightarrow> pos + n < TraceRdPtr s"
  | (again) "pos = 0" "unchunk_status s = TRACE_UNCHUNK_NONE" "n < TraceRdPtr s" "0 < n"
      "s' = s\<lparr>unchunk_status := TRACE_UNCHUNK_DETECTED, unchunk_enabled := TraceWrPtr s, TraceWrPtr := n\<rparr>"
proof (cases "unchunk_status s")
  case TRACE_UNCHUNK_NONE
  with assms show ?thesis
    by (cases "512 - TraceWrPtr s \<le> n \<and> n < TraceRdPtr s")
      (auto simp: TRACE_AllocateBufer_def inv_ptr_def Let_def split: if_splits intro: here again)
qed (use assms in \<open>auto simp: TRACE_AllocateBufer_def inv_ptr_def Let_def split: if_splits intro: here\<close>)

lemma allocate_step:
  assumes "trace_inv s" "writer s = Locked d" "TRACE_AllocateBufer (length d) s = (Some pos, s1)"
  shows "trace_inv (s1\<lparr>writer := Copying pos d, accepted := accepted s1 @ d\<rparr>)"
proof -
  have i: "inv_ptr s" "inv_dma s" "inv_lock s" "inv_fifo s" using assms(1) by (auto simp: trace_inv_def)
  let ?t = "s1\<lparr>writer := Copying pos d, accepted := accepted s1 @ d\<rparr>"
  have "inv_ptr ?t \<and> inv_dma ?t \<and> inv_copy ?t \<and> contents ?t = contents s @ d"
    using assms(3) i(1,2)
  proof (cases rule: allocate_cases)
    case here
    have l: "length (ADV_TRACE_Buffer s) = 512" using i(1) by (simp add: inv_ptr_def)
    have w: "slice a (pos + length d) (blit pos d (ADV_TRACE_Buffer s)) = slice a pos (ADV_TRACE_Buffer s) @ d"
      if "a \<le> pos" for a
      using that here l slice_split [of a pos "pos + length d" "blit pos d (ADV_TRACE_Buffer s)"]
        slice_blit_other [of pos d "ADV_TRACE_Buffer s" pos a] slice_blit_at [of pos d "ADV_TRACE_Buffer s"] by simp
    show ?thesis
    proof (cases "unchunk_status s")
      case TRACE_UNCHUNK_NONE
      with here w i(1,2) assms(2) show ?thesis
        by (auto simp: inv_ptr_def inv_dma_def inv_copy_def contents_def queued_def completed_def)
    next
      case TRACE_UNCHUNK_DETECTED
      with here w l i(1,2) assms(2) show ?thesis
        by (auto simp: inv_ptr_def inv_dma_def inv_copy_def contents_def queued_def completed_def slice_blit_other)
    next
      case TRACE_UNCHUNK_TRANSFER
      with here w l i(1,2) assms(2) show ?thesis
        by (auto simp: inv_ptr_def inv_dma_def inv_copy_def contents_def queued_def completed_def slice_blit_other)
    qed
  next
    case again
    have "slice 0 (length d) (blit 0 d (ADV_TRACE_Buffer s)) = d" if "length d \<le> 512"
      using that slice_blit_at [of 0 d] i(1) by (simp add: inv_ptr_def)
    with again i(1,2) assms(2) show ?thesis
      by (auto simp: inv_ptr_def inv_dma_def inv_copy_def contents_def queued_def completed_def slice_blit_other)
  qed
  moreover have "inv_lock ?t" "inv_kick ?t"
    using i(3) assms(2) allocate_fields [OF assms(3)] by (auto simp: inv_lock_def inv_kick_def)
  moreover have "inv_fifo ?t"
    using i(4) calculation(1) allocate_fields(3) [OF assms(3)] allocate_sys(2) [OF assms(3)] by (simp add: inv_fifo_def)
  ultimately show ?thesis by (simp add: trace_inv_def)
qed

lemma copy_step:
  assumes "trace_inv s" "writer s = Copying pos (b # bs)"
  shows "trace_inv (s\<lparr>ADV_TRACE_Buffer := (ADV_TRACE_Buffer s)[pos := b],
           writer := Copying ((pos + 1) mod UTIL_ADV_TRACE_FIFO_SIZE) bs\<rparr>)"
proof -
  have "pos + length (b # bs) = TraceWrPtr s" "TraceWrPtr s < 512" "length (ADV_TRACE_Buffer s) = 512"
    using assms by (auto simp: trace_inv_def inv_copy_def inv_ptr_def split: TRACE_UNCHUNK_STATUS.splits)
  then have "(pos + 1) mod 512 = pos + 1"
    "blit (pos + 1) bs ((ADV_TRACE_Buffer s)[pos := b]) = blit pos (b # bs) (ADV_TRACE_Buffer s)"
    using blit_Cons [of pos b bs "ADV_TRACE_Buffer s"] by auto
  with assms show ?thesis
    by (auto simp: trace_inv_def inv_ptr_def inv_dma_def inv_lock_def inv_copy_def inv_fifo_def inv_kick_def contents_def
        queued_def completed_def cong: TRACE_UNCHUNK_STATUS.case_cong)
qed

text \<open>A transfer starts, from the writer or from the interrupt.\<close>

lemma start_transfer:
  assumes "inv_ptr s" "dma s = None" "TraceRdPtr s \<noteq> TraceWrPtr s" "\<not> holds w"
    and "TraceLock s = 1" "wire s @ queued s (ADV_TRACE_Buffer s) = accepted s"
  defines "t \<equiv> next_transfer s"
  shows "trace_inv (t\<lparr>dma := Some (TraceRdPtr t, TraceSentSize t), writer := w\<rparr>)"
proof -
  have n: "inv_ptr (t\<lparr>dma := Some (TraceRdPtr t, TraceSentSize t)\<rparr>)" "inv_dma (t\<lparr>dma := Some (TraceRdPtr t, TraceSentSize t)\<rparr>)"
    "queued t (ADV_TRACE_Buffer s) = queued s (ADV_TRACE_Buffer s)"
    using next_transfer_inv [OF assms(1-3) refl] by (simp_all add: t_def)
  then show ?thesis
    using assms(4-6)
    by (cases w) (simp_all add: trace_inv_def inv_lock_def inv_copy_def inv_fifo_def inv_kick_def contents_def completed_def t_def)
qed

lemma start_transfer_same:
  assumes "inv_ptr s" "dma s = None" "TraceRdPtr s \<noteq> TraceWrPtr s" "\<not> holds (writer s)"
    and "TraceLock s = 1" "wire s @ queued s (ADV_TRACE_Buffer s) = accepted s"
  shows "trace_inv ((next_transfer s)\<lparr>dma := Some (TraceRdPtr (next_transfer s), TraceSentSize (next_transfer s))\<rparr>)"
proof -
  have "r\<lparr>dma := d, writer := writer r\<rparr> = r\<lparr>dma := d\<rparr>" for r :: trace_sys and d by simp
  then have e: "(next_transfer s)\<lparr>dma := d, writer := writer s\<rparr> = (next_transfer s)\<lparr>dma := d\<rparr>" for d
    by (metis next_transfer_sys(1))
  show ?thesis
    using start_transfer [OF assms] unfolding e .
qed

lemma send_step:
  assumes "trace_inv s" "writer s = Unlocked"
  shows "trace_inv ((snd (TRACE_Send s))\<lparr>writer := Idle\<rparr>)"
proof (cases "dma s = None \<and> TraceRdPtr s \<noteq> TraceWrPtr s")
  case True
  then have "TraceLock s = 0" using assms by (simp add: trace_inv_def inv_lock_def)
  then have "snd (TRACE_Send s) = (let t = next_transfer (TRACE_Lock s) in t\<lparr>dma := Some (TraceRdPtr t, TraceSentSize t)\<rparr>)"
    using True by (simp add: TRACE_Send_def trace_defs Let_def)
  moreover have "inv_ptr (TRACE_Lock s)" "wire s @ queued s (ADV_TRACE_Buffer s) = accepted s"
    using assms by (auto simp: trace_inv_def inv_fifo_def contents_def completed_def TRACE_Lock_def)
  ultimately show ?thesis
    using start_transfer [of "TRACE_Lock s" Idle] True \<open>TraceLock s = 0\<close>
    by (simp add: TRACE_Lock_def Let_def)
next
  case False
  with assms show ?thesis
    by (auto simp: TRACE_Send_def trace_defs Let_def trace_inv_def inv_lock_def inv_copy_def
        inv_fifo_def inv_kick_def contents_def completed_def)
qed

text \<open>The end of a transfer: the read pointer moves over the bytes that were sent.\<close>

definition advance :: "'a trace_state_scheme \<Rightarrow> 'a trace_state_scheme" where
  "advance s = (if unchunk_status s = TRACE_UNCHUNK_TRANSFER
     then s\<lparr>unchunk_status := TRACE_UNCHUNK_NONE, TraceRdPtr := 0\<rparr>
     else s\<lparr>TraceRdPtr := (TraceRdPtr s + TraceSentSize s) mod UTIL_ADV_TRACE_FIFO_SIZE\<rparr>)"

lemma advance_fields [simp]:
  "ADV_TRACE_Buffer (advance s) = ADV_TRACE_Buffer s" "TraceLock (advance s) = TraceLock s" "wire (advance s) = wire s"
  "dma (advance s) = dma s" "TraceWrPtr (advance s) = TraceWrPtr s"
  by (auto simp: advance_def)

lemma advance_sys [simp]:
  "writer (advance s) = writer s" "accepted (advance s) = accepted s" "refused (advance s) = refused s"
  by (auto simp: advance_def)

lemma TxCplt_advance:
  "TRACE_TxCpltCallback s =
     (let s = advance s
      in if TraceRdPtr s \<noteq> TraceWrPtr s \<and> TraceLock s = 1
         then let t = next_transfer s in t\<lparr>dma := Some (TraceRdPtr t, TraceSentSize t)\<rparr>
         else TRACE_UnLock s)"
  unfolding TRACE_TxCpltCallback_def advance_def Let_def vcom_Trace_DMA_def by simp

lemma advance_inv:
  assumes "inv_ptr s" "inv_dma s" "dma s = Some (p, n)" "length buf = 512"
  shows "inv_ptr ((advance s)\<lparr>dma := None\<rparr>)" "queued s buf = slice p (p + n) buf @ queued (advance s) buf"
proof -
  have pn: "p = TraceRdPtr s" "n = TraceSentSize s" "0 < n" using assms(2,3) by (auto simp: inv_dma_def)
  have "inv_ptr ((advance s)\<lparr>dma := None\<rparr>) \<and> queued s buf = slice p (p + n) buf @ queued (advance s) buf"
  proof (cases "unchunk_status s")
    case TRACE_UNCHUNK_NONE
    moreover have "slice p (TraceWrPtr s) buf = slice p (p + n) buf @ slice (p + n) (TraceWrPtr s) buf"
      using TRACE_UNCHUNK_NONE assms(2,3) by (intro slice_split) (auto simp: inv_dma_def)
    ultimately show ?thesis
      using assms(1,2,3) pn by (simp add: inv_ptr_def inv_dma_def queued_def advance_def)
  next
    case TRACE_UNCHUNK_DETECTED
    moreover have "slice p (unchunk_enabled s) buf = slice p (p + n) buf @ slice (p + n) (unchunk_enabled s) buf"
      using TRACE_UNCHUNK_DETECTED assms(2,3) by (intro slice_split) (auto simp: inv_dma_def)
    ultimately show ?thesis
      using assms(1,2,3) pn by (simp add: inv_ptr_def inv_dma_def queued_def advance_def)
  next
    case TRACE_UNCHUNK_TRANSFER
    then show ?thesis
      using assms(1) pn by (simp add: inv_ptr_def queued_def advance_def)
  qed
  then show "inv_ptr ((advance s)\<lparr>dma := None\<rparr>)" "queued s buf = slice p (p + n) buf @ queued (advance s) buf"
    by auto
qed

text \<open>What a transfer reads is complete: the message being copied is elsewhere.\<close>

lemma sent_complete:
  assumes "trace_inv s" "dma s = Some (p, n)"
  shows "take n (drop p (ADV_TRACE_Buffer s)) = slice p (p + n) (completed s)" "length (completed s) = 512"
proof -
  have i: "inv_ptr s" "inv_dma s" "inv_copy s" using assms(1) by (auto simp: trace_inv_def)
  have l: "length (ADV_TRACE_Buffer s) = 512" using i(1) by (simp add: inv_ptr_def)
  have "slice p (p + n) (completed s) = slice p (p + n) (ADV_TRACE_Buffer s) \<and> length (completed s) = 512"
  proof (cases "writer s")
    case (Copying pos bs)
    then have c: "pos + length bs = TraceWrPtr s" "TraceWrPtr s < 512"
      using i by (auto simp: inv_copy_def inv_ptr_def split: TRACE_UNCHUNK_STATUS.splits)
    moreover have "p + n \<le> pos \<or> pos + length bs \<le> p" "p + n \<le> 512"
      using i assms(2) Copying c by (cases "unchunk_status s"; auto simp: inv_copy_def inv_ptr_def inv_dma_def)+
    ultimately show ?thesis
      using Copying l slice_blit_other [of pos bs "ADV_TRACE_Buffer s" "p + n" p] by (simp add: completed_def)
  qed (use l in \<open>simp_all add: completed_def\<close>)
  then show "take n (drop p (ADV_TRACE_Buffer s)) = slice p (p + n) (completed s)" "length (completed s) = 512"
    by (simp_all add: slice_def)
qed

lemma dma_step:
  assumes "trace_inv s" "dma s = Some (p, n)"
  shows "trace_inv (TRACE_TxCpltCallback (s\<lparr>wire := wire s @ take n (drop p (ADV_TRACE_Buffer s)), dma := None\<rparr>))"
proof -
  have i: "inv_ptr s" "inv_dma s" "inv_copy s" "inv_lock s" "inv_fifo s" "inv_kick s"
    using assms(1) by (auto simp: trace_inv_def)
  let ?s = "s\<lparr>wire := wire s @ take n (drop p (ADV_TRACE_Buffer s)), dma := None\<rparr>"
  have a: "advance ?s = (advance s)\<lparr>wire := wire s @ take n (drop p (ADV_TRACE_Buffer s)), dma := None\<rparr>"
    by (simp add: advance_def)
  have ptr: "inv_ptr (advance ?s)"
    using advance_inv(1) [OF i(1,2) assms(2) sent_complete(2) [OF assms]] unfolding a
    by (simp add: inv_ptr_def cong: TRACE_UNCHUNK_STATUS.case_cong)
  have "queued (advance ?s) = queued (advance s)" unfolding a by (simp add: queued_def fun_eq_iff)
  then have q: "wire ?s @ queued (advance ?s) (completed s) = accepted s"
    using advance_inv(2) [OF i(1,2) assms(2) sent_complete(2) [OF assms]] sent_complete(1) [OF assms] i(5)
    by (simp add: inv_fifo_def contents_def)
  have lock: "TraceLock (advance ?s) = 1 + (if holds (writer s) then 1 else 0)"
    using i(4) assms(2) by (simp add: inv_lock_def)
  show ?thesis
  proof (cases "TraceRdPtr (advance ?s) \<noteq> TraceWrPtr (advance ?s) \<and> TraceLock (advance ?s) = 1")
    case True
    with lock have h: "\<not> holds (writer s)" by (auto split: if_splits)
    then have "completed s = ADV_TRACE_Buffer s" by (cases "writer s") (auto simp: completed_def)
    then show ?thesis
      using start_transfer_same [of "advance ?s"] True ptr q h by (simp add: TxCplt_advance Let_def)
  next
    case False
    then have "TRACE_TxCpltCallback ?s = TRACE_UnLock (advance ?s)"
      unfolding TxCplt_advance Let_def by (simp only: if_False)
    moreover have "inv_dma (advance ?s)" by (simp add: inv_dma_def)
    moreover have "inv_copy (TRACE_UnLock (advance ?s))"
      using i(1,3) assms(2) by (auto simp: inv_copy_def inv_ptr_def TRACE_UnLock_def advance_def)
    moreover have "completed (TRACE_UnLock (advance ?s)) = completed s"
      by (simp add: completed_def TRACE_UnLock_def cong: writer.case_cong)
    ultimately show ?thesis
      using ptr q lock False i(6)
      by (cases "holds (writer s)")
        (auto simp: trace_inv_def inv_lock_def inv_fifo_def inv_kick_def contents_def TRACE_UnLock_def)
  qed
qed

lemma trace_inv_step:
  assumes "trace_inv s" "trace_step a s = Some s'"
  shows "trace_inv s'"
proof (cases a)
  case (Submit d)
  with assms show ?thesis
    by (auto simp: trace_inv_def inv_lock_def inv_copy_def inv_fifo_def inv_kick_def contents_def completed_def TRACE_Lock_def
        split: if_splits)
next
  case Dma_done
  with assms dma_step show ?thesis by (auto split: option.splits)
next
  case Writer
  show ?thesis
  proof (cases "writer s")
    case (Locked d)
    obtain r s1 where r: "TRACE_AllocateBufer (length d) s = (r, s1)" by fastforce
    show ?thesis
    proof (cases r)
      case None
      then have "s1 = s" using allocate_refused r by blast
      with None r Writer Locked assms show ?thesis
        by (auto simp: trace_inv_def inv_lock_def inv_copy_def inv_fifo_def inv_kick_def contents_def completed_def)
    next
      case (Some pos)
      with r Writer Locked assms allocate_step [OF assms(1) Locked] show ?thesis by auto
    qed
  next
    case (Copying pos bs)
    show ?thesis
    proof (cases bs)
      case Nil
      with Copying have "completed s = ADV_TRACE_Buffer s" by (simp add: completed_def blit_def)
      with Nil Copying Writer assms show ?thesis
        by (auto simp: trace_inv_def inv_lock_def inv_copy_def inv_fifo_def inv_kick_def contents_def TRACE_UnLock_def
            completed_def [of "_\<lparr>writer := _\<rparr>"])
    next
      case (Cons b bs')
      with Copying Writer assms copy_step [of s pos b bs'] show ?thesis by simp
    qed
  next
    case Refused
    with Writer assms show ?thesis
      by (auto simp: trace_inv_def inv_lock_def inv_copy_def inv_fifo_def inv_kick_def contents_def completed_def
          TRACE_UnLock_def)
  next
    case Unlocked
    with Writer assms send_step show ?thesis by auto
  qed (use Writer assms in auto)
qed

lemma traced_inv: "traced s \<Longrightarrow> trace_inv s"
  by (induction rule: traced.induct) (auto intro: trace_init trace_inv_step)

section \<open>A queue of bytes\<close>

lemma empty_iff:
  assumes "trace_inv s"
  shows "TraceWrPtr s = TraceRdPtr s \<longleftrightarrow> contents s = []"
proof -
  have i: "inv_ptr s" "inv_copy s" using assms by (auto simp: trace_inv_def)
  have "length (completed s) = 512"
    using i by (cases "writer s") (auto simp: completed_def inv_ptr_def inv_copy_def split: TRACE_UNCHUNK_STATUS.splits)
  then have "length (contents s) = 0 \<longleftrightarrow> TraceWrPtr s = TraceRdPtr s"
    using i(1) by (cases "unchunk_status s") (auto simp: contents_def queued_def inv_ptr_def)
  then show ?thesis by auto
qed

text \<open>
  C8: the trace FIFO is a queue. However the writer and the transfer interrupt interleave, what has left
  on the wire followed by what waits in the buffer is exactly the accepted messages, byte by
  byte and in order: nothing is lost, repeated or overwritten, and no transfer reads a byte that
  was not written yet. The pointers stay inside the buffer, every transfer lies inside it, and the
  buffer reports itself empty exactly when everything accepted has been sent.
\<close>

theorem trace_fifo:
  assumes "traced s"
  shows "wire s @ contents s = accepted s \<and>
    TraceRdPtr s < UTIL_ADV_TRACE_FIFO_SIZE \<and> TraceWrPtr s < UTIL_ADV_TRACE_FIFO_SIZE \<and>
    (\<forall>p n. dma s = Some (p, n) \<longrightarrow> 0 < n \<and> p + n \<le> UTIL_ADV_TRACE_FIFO_SIZE \<and>
       take n (drop p (ADV_TRACE_Buffer s)) = take n (contents s)) \<and>
    (UTIL_ADV_TRACE_IsBufferEmpty s = 1 \<longleftrightarrow> wire s = accepted s)"
proof -
  note t = traced_inv [OF assms]
  then have i: "inv_ptr s" "inv_dma s" "inv_fifo s" by (auto simp: trace_inv_def)
  have "0 < n \<and> p + n \<le> 512 \<and> take n (drop p (ADV_TRACE_Buffer s)) = take n (contents s)" if d: "dma s = Some (p, n)" for p n
  proof -
    have "0 < n" "p + n \<le> 512"
      using i(1,2) d by (auto simp: inv_ptr_def inv_dma_def split: TRACE_UNCHUNK_STATUS.splits)
    moreover have "contents s = slice p (p + n) (completed s) @ queued (advance s) (completed s)"
      using advance_inv(2) [OF i(1,2) d sent_complete(2) [OF t d]] by (simp add: contents_def)
    moreover have "length (slice p (p + n) (completed s)) = n"
      using sent_complete(2) [OF t d] calculation by simp
    ultimately show ?thesis using sent_complete(1) [OF t d] by simp
  qed
  moreover have "UTIL_ADV_TRACE_IsBufferEmpty s = 1 \<longleftrightarrow> wire s = accepted s"
    using empty_iff [OF t] i(3) by (auto simp: UTIL_ADV_TRACE_IsBufferEmpty_def inv_fifo_def)
  moreover have "TraceRdPtr s < 512" "TraceWrPtr s < 512"
    using i(1) by (auto simp: inv_ptr_def split: TRACE_UNCHUNK_STATUS.splits)
  ultimately show ?thesis using i(3) by (simp add: inv_fifo_def)
qed

section \<open>Draining\<close>

fun trace_inner :: "trace_action \<Rightarrow> bool" where
  "trace_inner (Submit d) = False"
| "trace_inner _ = True"

fun writer_work :: "writer \<Rightarrow> nat" where
  "writer_work Idle = 0"
| "writer_work (Locked d) = 3 * length d + 4"
| "writer_work (Copying pos bs) = length bs + 2"
| "writer_work Refused = 1"
| "writer_work Unlocked = 1"

definition trace_work :: "trace_sys \<Rightarrow> nat" where
  "trace_work s = writer_work (writer s) + (length (accepted s) - length (wire s))"

lemma trace_work_less:
  assumes "trace_inv s" "trace_inner a" "trace_step a s = Some s'"
  shows "trace_work s' < trace_work s"
proof -
  have f: "length (accepted s) = length (wire s) + length (contents s)"
    using assms(1) by (auto simp: trace_inv_def inv_fifo_def simp flip: length_append)
  show ?thesis
  proof (cases a)
    case Dma_done
    then obtain p n where d: "dma s = Some (p, n)"
      and s': "s' = TRACE_TxCpltCallback (s\<lparr>wire := wire s @ take n (drop p (ADV_TRACE_Buffer s)), dma := None\<rparr>)"
      using assms(3) by (auto split: option.splits)
    have "0 < n" "p + n \<le> 512" "length (ADV_TRACE_Buffer s) = 512"
      using assms(1) d by (auto simp: trace_inv_def inv_ptr_def inv_dma_def split: TRACE_UNCHUNK_STATUS.splits)
    then have n: "0 < length (take n (drop p (ADV_TRACE_Buffer s)))" by simp
    have w: "writer s' = writer s" "accepted s' = accepted s"
      "wire s' = wire s @ take n (drop p (ADV_TRACE_Buffer s))"
      using s' by (auto simp: TxCplt_advance Let_def TRACE_UnLock_def)
    have "trace_inv s'" using trace_inv_step assms by blast
    then have "wire s' @ contents s' = accepted s'" by (simp add: trace_inv_def inv_fifo_def)
    then have "length (wire s') \<le> length (accepted s')" by (metis length_append le_add1)
    moreover have "length (wire s') = length (wire s) + length (take n (drop p (ADV_TRACE_Buffer s)))"
      using w(3) by simp
    ultimately show ?thesis using n unfolding trace_work_def w(1,2) by linarith
  next
    case Writer
    then show ?thesis
    proof (cases "writer s")
      case (Locked d)
      obtain r s1 where r: "TRACE_AllocateBufer (length d) s = (r, s1)" by fastforce
      with Locked Writer assms(3) allocate_fields(3) [OF r] allocate_sys [OF r] f show ?thesis
        by (auto simp: trace_work_def split: option.splits)
    next
      case (Copying pos bs)
      with Writer assms(3) show ?thesis by (cases bs) (auto simp: trace_work_def TRACE_UnLock_def)
    next
      case Refused
      with Writer assms(3) show ?thesis by (auto simp: trace_work_def TRACE_UnLock_def)
    next
      case Unlocked
      have "wire (snd (TRACE_Send s)) = wire s" "accepted (snd (TRACE_Send s)) = accepted s"
        by (auto simp: TRACE_Send_def trace_defs Let_def)
      with Unlocked Writer assms(3) show ?thesis by (auto simp: trace_work_def)
    qed (use Writer assms(3) in auto)
  qed (use assms(2) in auto)
qed

lemma trace_progress:
  assumes "\<not> (writer s = Idle \<and> dma s = None)"
  shows "\<exists>a s'. trace_inner a \<and> trace_step a s = Some s'"
proof (cases "dma s")
  case None
  with assms have "writer s \<noteq> Idle" by simp
  then have "\<exists>s'. trace_step Writer s = Some s'"
  proof (cases "writer s")
    case (Copying pos bs)
    then show ?thesis by (cases bs) auto
  qed (auto split: prod.splits option.splits)
  then show ?thesis by (metis trace_inner.simps(2))
next
  case (Some pn)
  then have "\<exists>s'. trace_step Dma_done s = Some s'" by (cases pn) auto
  then show ?thesis by (metis trace_inner.simps(3))
qed

interpretation trace: ending_system trace_step trace_inv trace_inner "\<lambda>a. False" trace_work 0
  "\<lambda>s. writer s = Idle \<and> dma s = None"
  by unfold_locales (use trace_inv_step trace_work_less trace_progress in blast)+

text \<open>
  C32: the FIFO drains. From every reachable state the writer and the transfers come to rest after a
  bounded number of steps, without another message and without any step that is needed from
  outside; and when they rest and no message was ever refused, everything accepted is on the wire.
\<close>

theorem trace_drains:
  assumes "traced s"
  shows "(\<forall>as s'. list_all trace_inner as \<longrightarrow> run trace_step as s = Some s' \<longrightarrow> length as \<le> trace_work s) \<and>
    (\<exists>as s'. list_all trace_inner as \<and> run trace_step as s = Some s' \<and> writer s' = Idle \<and> dma s' = None) \<and>
    (\<forall>as s'. list_all trace_inner as \<longrightarrow> run trace_step as s = Some s' \<longrightarrow> writer s' = Idle \<longrightarrow> dma s' = None \<longrightarrow>
       refused s' = 0 \<longrightarrow> wire s' = accepted s')"
proof (intro conjI allI impI)
  note t = traced_inv [OF assms]
  show "length as \<le> trace_work s" if "list_all trace_inner as" "run trace_step as s = Some s'" for as s'
    using trace.run_bound [OF t that] by simp
  show "\<exists>as s'. list_all trace_inner as \<and> run trace_step as s = Some s' \<and> writer s' = Idle \<and> dma s' = None"
    using trace.run_ends [OF t] by blast
  show "wire s' = accepted s'" if "list_all trace_inner as" "run trace_step as s = Some s'" "writer s' = Idle" "dma s' = None"
    "refused s' = 0" for as s'
  proof -
    have "trace_inv s'" using trace.inv_run [OF t that(1,2)] .
    then show ?thesis
      using that(3-5) empty_iff [of s'] by (simp add: trace_inv_def inv_kick_def inv_fifo_def)
  qed
qed

text \<open>The bytes of a transfer are as many as its size says.\<close>

lemma transfer_length:
  assumes "trace_inv s" "dma s = Some (p, n)"
  shows "length (take n (drop p (ADV_TRACE_Buffer s))) = n"
  using assms by (cases "unchunk_status s") (auto simp: trace_inv_def inv_ptr_def inv_dma_def)

lemma traced_run: "traced s \<Longrightarrow> run trace_step as s = Some s' \<Longrightarrow> traced s'"
  by (induction as arbitrary: s) (auto split: option.splits intro: traced_step)

lemma transfer_leaves:
  assumes "trace_inv s" "dma s = Some (p, n)" "trace_inv s'" "accepted s' = accepted s"
    and "wire s' = wire s @ take n (drop p (ADV_TRACE_Buffer s))"
  shows "contents s' = drop n (contents s)"
proof -
  have "wire s @ contents s = wire s @ take n (drop p (ADV_TRACE_Buffer s)) @ contents s'"
    using assms(1,3-5) by (simp add: trace_inv_def inv_fifo_def)
  then show ?thesis using transfer_length [OF assms(1,2)] by (simp add: append_eq_conv_conj)
qed

text \<open>What the callback of a transfer leaves alone, and that it starts a transfer under its own lock only.\<close>

lemma callback_fields:
  "writer (TRACE_TxCpltCallback t) = writer t" "accepted (TRACE_TxCpltCallback t) = accepted t"
  "wire (TRACE_TxCpltCallback t) = wire t"
  "TraceLock t \<noteq> 1 \<Longrightarrow> dma (TRACE_TxCpltCallback t) = dma t"
  "TraceLock t = 1 \<Longrightarrow> dma (TRACE_TxCpltCallback t) = None \<Longrightarrow>
     TraceRdPtr (TRACE_TxCpltCallback t) = TraceWrPtr (TRACE_TxCpltCallback t)"
  by (auto simp: TRACE_TxCpltCallback_def trace_defs Let_def split: if_splits)

text \<open>
  C39: a refused message stops the trace. In every reachable state in which a message was just refused
  and a transfer is under way that does not empty the buffer: if the transfer ends before the writer
  releases the lock, the interrupt sees the lock taken and starts no transfer, and neither does the writer
  when it returns. The bytes that waited stay in the buffer, in their order, and nothing more happens until
  the application sends again. If the writer releases the lock first, the end of the
  transfer starts the next one.
\<close>

theorem refusal_stalls_trace:
  assumes "traced s" "writer s = Refused" "dma s = Some (p, n)" "n < length (contents s)"
  shows "(\<exists>s'. run trace_step [Dma_done, Writer] s = Some s' \<and> writer s' = Idle \<and> dma s' = None \<and>
      contents s' = drop n (contents s) \<and> contents s' \<noteq> [] \<and>
      (\<forall>as s''. list_all trace_inner as \<longrightarrow> run trace_step as s' = Some s'' \<longrightarrow> s'' = s')) \<and>
    (\<exists>s'. run trace_step [Writer, Dma_done] s = Some s' \<and> writer s' = Idle \<and> dma s' \<noteq> None \<and>
      contents s' = drop n (contents s))"
proof (intro conjI)
  note inv = traced_inv [OF assms(1)]
  have lock: "TraceLock s = 2" using inv assms(2,3) by (simp add: trace_inv_def inv_lock_def)
  let ?sent = "s\<lparr>wire := wire s @ take n (drop p (ADV_TRACE_Buffer s)), dma := None\<rparr>"
  obtain s' where s': "run trace_step [Dma_done, Writer] s = Some s'" "writer s' = Idle" "dma s' = None"
    "accepted s' = accepted s" "wire s' = wire s @ take n (drop p (ADV_TRACE_Buffer s))"
    using assms(2,3) lock callback_fields [of ?sent] by (simp add: TRACE_UnLock_def)
  have c: "contents s' = drop n (contents s)"
    using transfer_leaves [OF inv assms(3) traced_inv [OF traced_run [OF assms(1) s'(1)]] s'(4,5)] .
  have still: "s'' = s'" if "list_all trace_inner as" "run trace_step as s' = Some s''" for as s''
    using that s'(2,3) by (cases as) (auto elim: trace_inner.elims split: option.splits)
  with s' c assms(4) show "\<exists>s'. run trace_step [Dma_done, Writer] s = Some s' \<and> writer s' = Idle \<and> dma s' = None \<and>
      contents s' = drop n (contents s) \<and> contents s' \<noteq> [] \<and>
      (\<forall>as s''. list_all trace_inner as \<longrightarrow> run trace_step as s' = Some s'' \<longrightarrow> s'' = s')" by auto
  obtain t where t: "run trace_step [Writer, Dma_done] s = Some t" "writer t = Idle"
    "accepted t = accepted s" "wire t = wire s @ take n (drop p (ADV_TRACE_Buffer s))"
    "dma t = None \<longrightarrow> TraceRdPtr t = TraceWrPtr t"
    using assms(2,3) lock callback_fields [of "s\<lparr>TraceLock := 1, writer := Idle,
      wire := wire s @ take n (drop p (ADV_TRACE_Buffer s)), dma := None\<rparr>"]
    by (simp add: TRACE_UnLock_def)
  have ti: "trace_inv t" using traced_inv [OF traced_run [OF assms(1) t(1)]] .
  have d: "contents t = drop n (contents s)" using transfer_leaves [OF inv assms(3) ti t(3,4)] .
  moreover have "dma t \<noteq> None"
    using d t(2,5) assms(4) empty_iff [of t] ti by (auto simp: trace_inv_def)
  ultimately show "\<exists>s'. run trace_step [Writer, Dma_done] s = Some s' \<and> writer s' = Idle \<and> dma s' \<noteq> None \<and>
      contents s' = drop n (contents s)" using t(1,2) by blast
qed

theorem refusal_stalls_trace_witness:
  "\<exists>s s'. run trace_step [Submit [1], Writer, Writer, Writer, Writer, Submit [2], Writer, Writer, Writer, Writer,
      Submit (replicate 512 0), Writer] trace0 = Some s \<and>
    run trace_step [Dma_done, Writer] s = Some s' \<and> writer s' = Idle \<and> dma s' = None \<and> contents s' = [2]"
proof -
  obtain s where s: "run trace_step [Submit [1], Writer, Writer, Writer, Writer, Submit [2], Writer, Writer, Writer,
      Writer, Submit (replicate 512 0), Writer] trace0 = Some s"
    "writer s = Refused" "dma s = Some (0, 1)" "contents s = [1, 2]"
    by (simp add: trace0_def TRACE_AllocateBufer_def trace_defs TRACE_Send_def next_transfer_def Let_def
        contents_def completed_def queued_def slice_def take_Suc_conv_app_nth)
  from refusal_stalls_trace [OF traced_run [OF traced_init s(1)] s(2,3)] s(4)
  obtain s' where "run trace_step [Dma_done, Writer] s = Some s'" "writer s' = Idle" "dma s' = None" "contents s' = [2]"
    by (auto simp del: run.simps)
  then show ?thesis using s(1) by blast
qed

section \<open>The function\<close>

lemma fill_blit:
  "pos + length d \<le> 511 \<Longrightarrow> length (ADV_TRACE_Buffer s) = 512 \<Longrightarrow>
     fill pos d s = (pos + length d, s\<lparr>ADV_TRACE_Buffer := blit pos d (ADV_TRACE_Buffer s)\<rparr>)"
proof (induction d arbitrary: pos s)
  case (Cons b d)
  then show ?case using blit_Cons [of pos b d "ADV_TRACE_Buffer s"] by simp
qed (simp add: blit_def)

lemma writer_copies:
  "writer s = Copying pos d \<Longrightarrow> pos + length d \<le> 511 \<Longrightarrow> length (ADV_TRACE_Buffer s) = 512 \<Longrightarrow>
     run trace_step (replicate (length d) Writer) s =
       Some (s\<lparr>ADV_TRACE_Buffer := blit pos d (ADV_TRACE_Buffer s), writer := Copying (pos + length d) []\<rparr>)"
proof (induction d arbitrary: pos s)
  case (Cons b d)
  then show ?case using blit_Cons [of pos b d "ADV_TRACE_Buffer s"] by simp
qed (simp add: blit_def)

text \<open>The operations neither read nor change what the model adds to the state.\<close>

lemma send_frame:
  "snd (TRACE_Send (s\<lparr>writer := w\<rparr>)) = (snd (TRACE_Send s))\<lparr>writer := w\<rparr>"
  "snd (TRACE_Send (s\<lparr>accepted := b\<rparr>)) = (snd (TRACE_Send s))\<lparr>accepted := b\<rparr>"
  by (simp_all add: TRACE_Send_def trace_defs next_transfer_def Let_def)

lemma unlock_frame:
  "TRACE_UnLock (s\<lparr>writer := w\<rparr>) = (TRACE_UnLock s)\<lparr>writer := w\<rparr>"
  "TRACE_UnLock (s\<lparr>accepted := b\<rparr>) = (TRACE_UnLock s)\<lparr>accepted := b\<rparr>"
  "TRACE_UnLock (s\<lparr>refused := n\<rparr>) = (TRACE_UnLock s)\<lparr>refused := n\<rparr>"
  by (simp_all add: TRACE_UnLock_def)

lemma allocate_frame:
  "TRACE_AllocateBufer n (s\<lparr>writer := w\<rparr>) = (let (r, t) = TRACE_AllocateBufer n s in (r, t\<lparr>writer := w\<rparr>))"
proof (cases "TraceWrPtr s" "TraceRdPtr s" rule: linorder_cases)
  case less
  then show ?thesis by (simp add: TRACE_AllocateBufer_def Let_def)
next
  case equal
  then show ?thesis by (simp add: TRACE_AllocateBufer_def Let_def)
next
  case greater
  then show ?thesis by (simp add: TRACE_AllocateBufer_def Let_def)
qed

lemma send_keeps [simp]:
  "fst (TRACE_Send s) = UTIL_ADV_TRACE_OK" "wire (snd (TRACE_Send s)) = wire s"
  by (auto simp: TRACE_Send_def trace_defs Let_def)

text \<open>When a message does not fit: before the end of the buffer, nor, when it may start again, before the read pointer.\<close>

definition no_room :: "nat \<Rightarrow> 'a trace_state_scheme \<Rightarrow> bool" where
  "no_room n s \<longleftrightarrow> (if unchunk_status s = TRACE_UNCHUNK_NONE
     then UTIL_ADV_TRACE_FIFO_SIZE - TraceWrPtr s \<le> n \<and> TraceRdPtr s \<le> n
     else TraceRdPtr s - TraceWrPtr s \<le> n)"

lemma allocate_no_room:
  assumes "inv_ptr s"
  shows "fst (TRACE_AllocateBufer n (TRACE_Lock s)) = None \<longleftrightarrow> no_room n s"
  using assms by (cases "unchunk_status s")
    (auto simp: TRACE_AllocateBufer_def TRACE_Lock_def no_room_def inv_ptr_def Let_def)

lemma send_refused_runs:
  assumes "writer s = Idle" "length d < 65536" "TRACE_AllocateBufer (length d) (TRACE_Lock s) = (None, t)"
  shows "run trace_step [Submit d, Writer, Writer] s = Some ((snd (UTIL_ADV_TRACE_Send d s))\<lparr>refused := refused s + 1\<rparr>)"
    and "fst (UTIL_ADV_TRACE_Send d s) = UTIL_ADV_TRACE_MEM_FULL"
proof -
  have t: "t = TRACE_Lock s" using allocate_refused assms(3) by blast
  then show "run trace_step [Submit d, Writer, Writer] s = Some ((snd (UTIL_ADV_TRACE_Send d s))\<lparr>refused := refused s + 1\<rparr>)"
    "fst (UTIL_ADV_TRACE_Send d s) = UTIL_ADV_TRACE_MEM_FULL"
    using assms by (simp_all add: UTIL_ADV_TRACE_Send_def allocate_frame TRACE_Lock_def TRACE_UnLock_def Let_def)
qed

lemma send_accepted_runs:
  assumes "writer s = Idle" "length d < 65536" "TRACE_AllocateBufer (length d) (TRACE_Lock s) = (Some pos, t)"
    and "pos + length d \<le> 511" "length (ADV_TRACE_Buffer s) = 512"
  shows "run trace_step (Submit d # replicate (length d + 3) Writer) s =
      Some ((snd (UTIL_ADV_TRACE_Send d s))\<lparr>accepted := accepted s @ d\<rparr>)"
    and "fst (UTIL_ADV_TRACE_Send d s) = UTIL_ADV_TRACE_OK"
    and "wire (snd (UTIL_ADV_TRACE_Send d s)) = wire s"
proof -
  have b: "ADV_TRACE_Buffer t = ADV_TRACE_Buffer s" "wire t = wire s" "accepted t = accepted s" "writer t = Idle"
    using allocate_fields [OF assms(3)] allocate_sys [OF assms(3)] assms(1) by (simp_all add: TRACE_Lock_def)
  let ?u = "t\<lparr>ADV_TRACE_Buffer := blit pos d (ADV_TRACE_Buffer s)\<rparr>"
  have e: "UTIL_ADV_TRACE_Send d s = TRACE_Send (TRACE_UnLock ?u)"
    using assms(3-5) b fill_blit [of pos d t] by (simp add: UTIL_ADV_TRACE_Send_def Let_def)
  then show "fst (UTIL_ADV_TRACE_Send d s) = UTIL_ADV_TRACE_OK" "wire (snd (UTIL_ADV_TRACE_Send d s)) = wire s"
    using b by (simp_all add: TRACE_UnLock_def)
  let ?c = "t\<lparr>writer := Copying pos d, accepted := accepted s @ d\<rparr>"
  have r1: "run trace_step [Submit d, Writer] s = Some ?c"
    using assms(1-3) b by (simp add: allocate_frame)
  have r2: "run trace_step (replicate (length d) Writer) ?c =
      Some (?u\<lparr>writer := Copying (pos + length d) [], accepted := accepted s @ d\<rparr>)"
    using writer_copies [of ?c pos d] assms(4,5) b by simp
  have r3: "run trace_step [Writer, Writer] (?u\<lparr>writer := Copying (pos + length d) [], accepted := accepted s @ d\<rparr>) =
      Some ((snd (TRACE_Send (TRACE_UnLock ?u)))\<lparr>writer := Idle, accepted := accepted s @ d\<rparr>)"
    by (simp add: send_frame unlock_frame)
  have l: "Submit d # replicate (length d + 3) Writer =
      [Submit d, Writer] @ replicate (length d) Writer @ [Writer, Writer]"
    by (simp add: numeral_eq_Suc replicate_app_Cons_same)
  have w: "(snd (TRACE_Send (TRACE_UnLock ?u)))\<lparr>writer := Idle\<rparr> = snd (TRACE_Send (TRACE_UnLock ?u))"
  proof -
    have "?u\<lparr>writer := Idle\<rparr> = ?u" using b(4) by simp
    then show ?thesis using send_frame(1) [of Idle "TRACE_UnLock ?u"] unlock_frame(1) [of Idle ?u] by simp
  qed
  show "run trace_step (Submit d # replicate (length d + 3) Writer) s =
      Some ((snd (UTIL_ADV_TRACE_Send d s))\<lparr>accepted := accepted s @ d\<rparr>)"
    by (simp only: e l run_append r1 r2 r3 w option.case)
qed

text \<open>
  Sending a message. Called between messages, \<^verbatim>\<open>UTIL_ADV_TRACE_Send\<close> does what the writer does when
  no interrupt comes in between. A message is refused exactly when it fits neither before the end of
  the buffer nor, if it may start again there, before the read pointer; then the answer is that the
  memory is full and what waits stays the same. Otherwise the answer is success and the message is
  appended to what waits.
\<close>

theorem Send_enqueues:
  assumes "traced s" "writer s = Idle" "length d < 65536"
  shows "case UTIL_ADV_TRACE_Send d s of (st, s') \<Rightarrow>
    if no_room (length d) s
    then st = UTIL_ADV_TRACE_MEM_FULL \<and> contents s' = contents s \<and>
      run trace_step [Submit d, Writer, Writer] s = Some (s'\<lparr>refused := refused s + 1\<rparr>)
    else st = UTIL_ADV_TRACE_OK \<and> contents s' = contents s @ d \<and>
      run trace_step (Submit d # replicate (length d + 3) Writer) s = Some (s'\<lparr>accepted := accepted s @ d\<rparr>)"
proof -
  note t = traced_inv [OF assms(1)]
  then have i: "inv_ptr s" "inv_dma s" "wire s @ contents s = accepted s" by (auto simp: trace_inv_def inv_fifo_def)
  obtain r u where u: "TRACE_AllocateBufer (length d) (TRACE_Lock s) = (r, u)" by fastforce
  have keeps: "trace_inv s'" if "run trace_step as s = Some s'" for as s'
    using t that by (induction as arbitrary: s) (auto split: option.splits dest: trace_inv_step)
  show ?thesis
  proof (cases r)
    case None
    then have n: "no_room (length d) s" using allocate_no_room [OF i(1), of "length d"] u by simp
    have "u = TRACE_Lock s" using allocate_refused u None by blast
    then have "contents (snd (UTIL_ADV_TRACE_Send d s)) = contents s"
      using u None assms(2) by (simp add: UTIL_ADV_TRACE_Send_def Let_def TRACE_Lock_def TRACE_UnLock_def contents_def completed_def)
    then show ?thesis
      using send_refused_runs [OF assms(2,3)] u None n by (simp add: case_prod_beta)
  next
    case (Some pos)
    then have n: "\<not> no_room (length d) s" using allocate_no_room [OF i(1), of "length d"] u by simp
    have "pos + length d \<le> 511"
    proof -
      have "inv_ptr (TRACE_Lock s)" "inv_dma (TRACE_Lock s)" using i by (simp_all add: TRACE_Lock_def)
      then show ?thesis
        using u Some by (auto simp: TRACE_Lock_def inv_ptr_def elim!: allocate_cases)
    qed
    then have a: "run trace_step (Submit d # replicate (length d + 3) Writer) s =
        Some ((snd (UTIL_ADV_TRACE_Send d s))\<lparr>accepted := accepted s @ d\<rparr>)"
      "fst (UTIL_ADV_TRACE_Send d s) = UTIL_ADV_TRACE_OK" "wire (snd (UTIL_ADV_TRACE_Send d s)) = wire s"
      using send_accepted_runs [OF assms(2,3)] u Some i(1) by (auto simp: inv_ptr_def)
    have "contents (snd (UTIL_ADV_TRACE_Send d s)) = contents s @ d"
      using keeps [OF a(1)] a(3) i(3) by (simp add: trace_inv_def inv_fifo_def contents_def completed_def cong: writer.case_cong) (metis append_assoc same_append_eq)
    then show ?thesis using a n by (simp add: case_prod_beta)
  qed
qed

theorem Send_enqueues_witness:
  "contents (snd (UTIL_ADV_TRACE_Send [7, 8] trace0)) = [7, 8]"
proof -
  have "\<not> no_room (Suc (Suc 0)) trace0" "contents trace0 = []" "writer trace0 = Idle"
    by (simp_all add: no_room_def trace0_def contents_def queued_def)
  then show ?thesis
    using Send_enqueues [OF traced_init, of "[7, 8]"] by (simp add: case_prod_beta)
qed

text \<open>A message of two bytes under way, the second not written yet.\<close>

lemma half_copied:
  obtains s where "traced s" "run trace_step [Submit [7, 8], Writer, Writer] trace0 = Some s" "accepted s = [7, 8]"
proof -
  obtain s where s: "run trace_step [Submit [7, 8], Writer, Writer] trace0 = Some s" "accepted s = [7, 8]"
    by (simp add: trace0_def TRACE_AllocateBufer_def TRACE_Lock_def Let_def)
  then show ?thesis using that traced_run traced_init by blast
qed

theorem trace_fifo_witness:
  "\<exists>s. run trace_step [Submit [7, 8], Writer, Writer] trace0 = Some s \<and> wire s @ contents s = [7, 8]"
proof -
  obtain s where "traced s" "run trace_step [Submit [7, 8], Writer, Writer] trace0 = Some s" "accepted s = [7, 8]"
    by (rule half_copied)
  then show ?thesis using trace_fifo [of s] by auto
qed

theorem trace_drains_witness:
  "\<exists>s as s'. run trace_step [Submit [7, 8], Writer, Writer] trace0 = Some s \<and> list_all trace_inner as \<and>
     run trace_step as s = Some s' \<and> writer s' = Idle \<and> dma s' = None"
proof -
  obtain s where "traced s" "run trace_step [Submit [7, 8], Writer, Writer] trace0 = Some s" "accepted s = [7, 8]"
    by (rule half_copied)
  then show ?thesis using trace_drains [of s] by blast
qed

end
