(* ===== verification/Registers.thy ===== *)
theory Registers
  imports Radio_Prelude
begin

text \<open>
  Memory-mapped registers and the macros that access them (\<^verbatim>\<open>stm32wlxx.h\<close>), with the bit counting
  stubs of \<^verbatim>\<open>cmsis_compiler.h\<close>. The registers are a store of 32-bit words by address; a write
  changes the word at its address and nothing else, which is what an assignment through
  a volatile pointer does. Effects of the real hardware (bits that clear themselves, flags
  a peripheral raises) are in no file of the repository and so in no definition here.

  Two contracts are stated as locales: \<open>line_set\<close>, registers whose bits are the
  elements of a set, and \<open>reg_field\<close>, a field with a setter and a getter. The accessors of the
  clock, bus, interrupt and DMA headers are instances.
\<close>

named_theorems reg_mask \<open>values of the constants of the headers\<close>
named_theorems hal_check \<open>parameter checks of the HAL\<close>
named_theorems reg_pos \<open>bit positions of the headers\<close>
named_theorems reg_addr \<open>addresses of registers\<close>
named_theorems ll_def \<open>definitions of the accessors\<close>

type_synonym regs = "u32 \<Rightarrow> u32"

section \<open>Access macros (stm32wlxx.h)\<close>

definition READ_REG :: "u32 \<Rightarrow> regs \<Rightarrow> u32" where
  "READ_REG REG r = r REG"

definition WRITE_REG :: "u32 \<Rightarrow> u32 \<Rightarrow> regs \<Rightarrow> regs" where
  "WRITE_REG REG VAL r = r(REG := VAL)"

definition CLEAR_REG :: "u32 \<Rightarrow> regs \<Rightarrow> regs" where
  "CLEAR_REG REG r = r(REG := 0)"

definition SET_BIT :: "u32 \<Rightarrow> u32 \<Rightarrow> regs \<Rightarrow> regs" where
  "SET_BIT REG BIT r = r(REG := r REG OR BIT)"

definition CLEAR_BIT :: "u32 \<Rightarrow> u32 \<Rightarrow> regs \<Rightarrow> regs" where
  "CLEAR_BIT REG BIT r = r(REG := r REG AND NOT BIT)"

definition READ_BIT :: "u32 \<Rightarrow> u32 \<Rightarrow> regs \<Rightarrow> u32" where
  "READ_BIT REG BIT r = r REG AND BIT"

definition MODIFY_REG :: "u32 \<Rightarrow> u32 \<Rightarrow> u32 \<Rightarrow> regs \<Rightarrow> regs" where
  "MODIFY_REG REG CLEARMASK SETMASK r =
     WRITE_REG REG ((READ_REG REG r AND NOT CLEARMASK) OR SETMASK) r"

lemmas reg_access = READ_REG_def WRITE_REG_def CLEAR_REG_def SET_BIT_def CLEAR_BIT_def READ_BIT_def
  MODIFY_REG_def

text \<open>
  The exclusive accesses of the core are plain ones in the simulator: \<^verbatim>\<open>__LDREXW\<close> reads and
  \<^verbatim>\<open>__STREXW\<close> writes and answers 0. The macros repeat the pair until the answer is 0. The half-word
  forms work on the low half of the register.
\<close>

definition LDREXW :: "u32 \<Rightarrow> regs \<Rightarrow> u32" where
  "LDREXW ptr r = r ptr"

definition STREXW :: "u32 \<Rightarrow> u32 \<Rightarrow> regs \<Rightarrow> u32 \<times> regs" where
  "STREXW val ptr r = (0, r(ptr := val))"

definition LDREXH :: "u32 \<Rightarrow> regs \<Rightarrow> u16" where
  "LDREXH ptr r = ucast (r ptr)"

definition STREXH :: "u16 \<Rightarrow> u32 \<Rightarrow> regs \<Rightarrow> u32 \<times> regs" where
  "STREXH val ptr r = (0, r(ptr := (r ptr AND 0xFFFF0000) OR ucast val))"

partial_function (option) atomic_word :: "(u32 \<Rightarrow> u32) \<Rightarrow> u32 \<Rightarrow> regs \<Rightarrow> regs option" where
  "atomic_word f REG r =
     (let val = f (LDREXW REG r); (status, r') = STREXW val REG r
      in if status \<noteq> 0 then atomic_word f REG r' else Some r')"

partial_function (option) atomic_half :: "(u16 \<Rightarrow> u16) \<Rightarrow> u32 \<Rightarrow> regs \<Rightarrow> regs option" where
  "atomic_half f REG r =
     (let val = f (LDREXH REG r); (status, r') = STREXH val REG r
      in if status \<noteq> 0 then atomic_half f REG r' else Some r')"

definition ATOMIC_SET_BIT :: "u32 \<Rightarrow> u32 \<Rightarrow> regs \<Rightarrow> regs option" where
  "ATOMIC_SET_BIT REG BIT = atomic_word (\<lambda>x. x OR BIT) REG"

definition ATOMIC_CLEAR_BIT :: "u32 \<Rightarrow> u32 \<Rightarrow> regs \<Rightarrow> regs option" where
  "ATOMIC_CLEAR_BIT REG BIT = atomic_word (\<lambda>x. x AND NOT BIT) REG"

definition ATOMIC_MODIFY_REG :: "u32 \<Rightarrow> u32 \<Rightarrow> u32 \<Rightarrow> regs \<Rightarrow> regs option" where
  "ATOMIC_MODIFY_REG REG CLEARMSK SETMASK = atomic_word (\<lambda>x. (x AND NOT CLEARMSK) OR SETMASK) REG"

definition ATOMIC_SETH_BIT :: "u32 \<Rightarrow> u16 \<Rightarrow> regs \<Rightarrow> regs option" where
  "ATOMIC_SETH_BIT REG BIT = atomic_half (\<lambda>x. x OR BIT) REG"

definition ATOMIC_CLEARH_BIT :: "u32 \<Rightarrow> u16 \<Rightarrow> regs \<Rightarrow> regs option" where
  "ATOMIC_CLEARH_BIT REG BIT = atomic_half (\<lambda>x. x AND NOT BIT) REG"

definition ATOMIC_MODIFYH_REG :: "u32 \<Rightarrow> u16 \<Rightarrow> u16 \<Rightarrow> regs \<Rightarrow> regs option" where
  "ATOMIC_MODIFYH_REG REG CLEARMSK SETMASK = atomic_half (\<lambda>x. (x AND NOT CLEARMSK) OR SETMASK) REG"

section \<open>Counting bits (cmsis_compiler.h)\<close>

definition sim_rbit :: "u32 \<Rightarrow> u32" where
  "sim_rbit x =
     (let x = push_bit 1 (x AND 0x55555555) OR drop_bit 1 (x AND 0xAAAAAAAA);
          x = push_bit 2 (x AND 0x33333333) OR drop_bit 2 (x AND 0xCCCCCCCC);
          x = push_bit 4 (x AND 0x0F0F0F0F) OR drop_bit 4 (x AND 0xF0F0F0F0);
          x = push_bit 8 (x AND 0x00FF00FF) OR drop_bit 8 (x AND 0xFF00FF00)
      in push_bit 16 x OR drop_bit 16 x)"

text \<open>\<^verbatim>\<open>__builtin_clz\<close>: the number of zero bits above the highest set one.\<close>

definition builtin_clz :: "u32 \<Rightarrow> nat" where
  "builtin_clz x = length (takeWhile (\<lambda>n. \<not> bit x n) (rev [0..<32]))"

definition CLZ :: "u32 \<Rightarrow> nat" where
  "CLZ x = (if x \<noteq> 0 then builtin_clz x else 32)"

definition POSITION_VAL :: "u32 \<Rightarrow> nat" where
  "POSITION_VAL VAL = CLZ (sim_rbit VAL)"

section \<open>Reading what was written\<close>

text \<open>A word as the set of its bits.\<close>

definition bits :: "u32 \<Rightarrow> nat set" where
  "bits w = {n. n < 32 \<and> bit w n}"

lemma bits_or [simp]: "bits (a OR b) = bits a \<union> bits b"
  by (auto simp: bits_def bit_simps)

lemma bits_and [simp]: "bits (a AND b) = bits a \<inter> bits b"
  by (auto simp: bits_def bit_simps)

lemma bits_not: "bits (NOT b) = {..<32} - bits b"
  by (auto simp: bits_def bit_simps)

lemma bits_less: "n \<in> bits a \<Longrightarrow> n < 32"
  by (simp add: bits_def)

lemma bits_and_not: "bits a \<inter> bits (NOT b) = bits a - bits b"
  by (auto simp: bits_not bits_less)

lemma bits_0 [simp]: "bits 0 = {}"
  by (simp add: bits_def)

lemma bits_inject: "bits a = bits b \<longleftrightarrow> a = b"
proof
  assume "bits a = bits b"
  then have "bit a n = bit b n" if "n < LENGTH(32)" for n
    using that by (simp add: bits_def set_eq_iff) blast
  then show "a = b" by (rule bit_word_eqI)
qed simp

lemma bits_eq_0 [simp]: "bits a = {} \<longleftrightarrow> a = 0"
  using bits_inject [of a 0] by simp

lemma and_eq_iff_bits: "a AND m = m \<longleftrightarrow> bits m \<subseteq> bits a"
  by (metis bits_and bits_inject inf.absorb_iff2)

lemma and_eq_0_iff_bits: "a AND m = 0 \<longleftrightarrow> bits a \<inter> bits m = {}"
  by (metis bits_and bits_eq_0)

lemma bits_single: "n < 32 \<Longrightarrow> bits (push_bit n 1) = {n}"
  by (auto simp: bits_def bit_simps)

lemma single_flag: "n < 32 \<Longrightarrow> (w AND push_bit n 1 = push_bit n 1) = (w AND push_bit n 1 \<noteq> (0 :: u32))"
  by (simp only: and_eq_iff_bits and_eq_0_iff_bits bits_single) simp

lemma bits_diff: "bits a - bits b = bits (a AND NOT b)"
  by (simp add: bits_and_not)

lemma bits_union: "bits a \<union> bits b = bits (a OR b)"
  by simp

text \<open>Sets of concrete words are compared by calculation.\<close>

lemmas bits_eval = bits_diff bits_union and_eq_iff_bits [symmetric]

text \<open>
  The fact every setting rests on: after \<^verbatim>\<open>MODIFY_REG\<close> with a value inside the mask, reading
  the mask gives the value, and reading a disjoint mask gives what was there.
\<close>

lemma modify_read:
  "v AND m = v \<Longrightarrow> ((x AND NOT m) OR v) AND m = (v :: u32)"
  by (simp add: bit.conj_disj_distrib2 and.assoc)

lemma modify_read_other:
  assumes "v AND m = v" and "m AND n = 0"
  shows "((x AND NOT m) OR v) AND n = (x AND n :: u32)"
proof -
  have "bits v \<subseteq> bits m" and "bits m \<inter> bits n = {}"
    using assms by (metis and.commute and_eq_iff_bits, metis and_eq_0_iff_bits)
  then have "bits (((x AND NOT m) OR v) AND n) = bits (x AND n)"
    by (auto simp: bits_and_not)
  then show ?thesis by (simp only: bits_inject)
qed

lemma MODIFY_REG_apply:
  "MODIFY_REG a m v r b = (if b = a then (r a AND NOT m) OR v else r b)"
  by (simp add: reg_access)

lemma READ_BIT_MODIFY [simp]: "v AND m = v \<Longrightarrow> READ_BIT a m (MODIFY_REG a m v r) = v"
  by (simp add: reg_access modify_read)

text \<open>Two register accesses do not meet when their addresses differ or their masks are disjoint.\<close>

definition apart :: "u32 \<Rightarrow> u32 \<Rightarrow> u32 \<Rightarrow> u32 \<Rightarrow> bool" where
  "apart a m b n \<longleftrightarrow> a \<noteq> b \<or> m AND n = 0"

lemma READ_BIT_MODIFY_other:
  "v AND m = v \<Longrightarrow> apart a m b n \<Longrightarrow> READ_BIT b n (MODIFY_REG a m v r) = READ_BIT b n r"
  by (auto simp: reg_access apart_def modify_read_other)

lemma READ_BIT_SET_other: "apart a m b n \<Longrightarrow> READ_BIT b n (SET_BIT a m r) = READ_BIT b n r"
  by (auto simp: reg_access apart_def bit.conj_disj_distrib2)

lemma READ_BIT_CLEAR_other: "apart a m b n \<Longrightarrow> READ_BIT b n (CLEAR_BIT a m r) = READ_BIT b n r"
  using modify_read_other [of 0 m n] by (auto simp: reg_access apart_def)

section \<open>Registers that hold a set\<close>

text \<open>
  Enabling and disabling bits is union and difference of sets, and the test asks for a
  subset: the contract of the accessors in threes (enable, disable, is enabled) of the bus and
  interrupt headers. A client's sequence of calls leaves the set the calls describe.
\<close>

datatype line_op = Enable u32 | Disable u32

fun line_effect :: "line_op \<Rightarrow> nat set \<Rightarrow> nat set" where
  "line_effect (Enable m) X = X \<union> bits m"
| "line_effect (Disable m) X = X - bits m"

locale line_set =
  fixes lines :: "'s \<Rightarrow> nat set"
    and enable :: "u32 \<Rightarrow> 's \<Rightarrow> 's"
    and disable :: "u32 \<Rightarrow> 's \<Rightarrow> 's"
    and is_enabled :: "u32 \<Rightarrow> 's \<Rightarrow> u32"
  assumes lines_enable: "lines (enable m s) = lines s \<union> bits m"
    and lines_disable: "lines (disable m s) = lines s - bits m"
    and is_enabled_iff: "is_enabled m s = (if bits m \<subseteq> lines s then 1 else 0)"
begin

fun apply_op :: "line_op \<Rightarrow> 's \<Rightarrow> 's" where
  "apply_op (Enable m) s = enable m s"
| "apply_op (Disable m) s = disable m s"

lemma lines_apply_op: "lines (apply_op x s) = line_effect x (lines s)"
  by (cases x) (simp_all add: lines_enable lines_disable)

lemma lines_run: "lines (fold apply_op xs s) = fold line_effect xs (lines s)"
  by (induction xs arbitrary: s) (simp_all add: lines_apply_op)

lemma is_enabled_run:
  "is_enabled m (fold apply_op xs s) = (if bits m \<subseteq> fold line_effect xs (lines s) then 1 else 0)"
  by (simp add: is_enabled_iff lines_run)

end

lemma line_set_register:
  "line_set (\<lambda>r. bits (r a)) (SET_BIT a) (CLEAR_BIT a)
     (\<lambda>m r. if READ_BIT a m r = m then 1 else 0)"
  by unfold_locales (simp_all add: reg_access and_eq_iff_bits bits_and_not)

section \<open>Fields with a setter and a getter\<close>

text \<open>
  The laws of a field: what is set is read back, the last setting counts, setting what is
  read changes nothing, and the getter answers values of the field only.
\<close>

locale reg_field =
  fixes put :: "u32 \<Rightarrow> regs \<Rightarrow> regs"
    and get :: "regs \<Rightarrow> u32"
    and valid :: "u32 \<Rightarrow> bool"
  assumes put_get: "valid v \<Longrightarrow> get (put v r) = v"
    and get_put: "put (get r) r = r"
    and put_put: "valid v \<Longrightarrow> put w (put v r) = put w r"
    and get_valid: "valid (get r)"
begin

lemma put_same: "valid v \<Longrightarrow> put v (put v r) = put v r"
  by (simp add: put_put)

lemma put_last: "valid v \<Longrightarrow> \<forall>w \<in> set ws. valid w \<Longrightarrow> get (put v (fold put ws r)) = v"
  by (simp add: put_get)

lemma restore: "valid v \<Longrightarrow> put (get r) (put v r) = r"
  by (simp add: put_put get_put)

end

lemma reg_field_plain: "reg_field (MODIFY_REG a m) (READ_BIT a m) (\<lambda>v. v AND m = v)"
proof
  fix v w :: u32 and r :: regs
  show "v AND m = v \<Longrightarrow> READ_BIT a m (MODIFY_REG a m v r) = v" by simp
  have "bits ((x AND NOT m) OR (x AND m)) = bits x" for x :: u32
    by (auto simp: bits_and_not)
  then have "(x AND NOT m) OR (x AND m) = x" for x :: u32
    by (simp only: bits_inject)
  then show "MODIFY_REG a m (READ_BIT a m r) r = r"
    by (simp add: reg_access)
  assume v: "v AND m = v"
  then have "bits v \<subseteq> bits m" by (metis and.commute and_eq_iff_bits)
  then have "bits ((((x AND NOT m) OR v) AND NOT m) OR w) = bits ((x AND NOT m) OR w)" for x :: u32
    by (auto simp: bits_not bits_less)
  then have "(((x AND NOT m) OR v) AND NOT m) OR w = (x AND NOT m) OR w" for x :: u32
    by (simp only: bits_inject)
  then show "MODIFY_REG a m w (MODIFY_REG a m v r) = MODIFY_REG a m w r"
    by (simp add: reg_access)
next
  fix r :: regs
  show "READ_BIT a m r AND m = READ_BIT a m r" by (simp add: reg_access and.assoc)
qed

section \<open>The atomic macros end\<close>

lemma atomic_word_eq: "atomic_word f REG r = Some (r(REG := f (r REG)))"
  by (subst atomic_word.simps) (simp add: LDREXW_def STREXW_def)

lemma atomic_half_eq:
  "atomic_half f REG r = Some (r(REG := (r REG AND 0xFFFF0000) OR ucast (f (ucast (r REG)))))"
  by (subst atomic_half.simps) (simp add: LDREXH_def STREXH_def)

lemma atomic_macros:
  "ATOMIC_SET_BIT a m r = Some (SET_BIT a m r)"
  "ATOMIC_CLEAR_BIT a m r = Some (CLEAR_BIT a m r)"
  "ATOMIC_MODIFY_REG a m v r = Some (MODIFY_REG a m v r)"
  by (simp_all add: ATOMIC_SET_BIT_def ATOMIC_CLEAR_BIT_def ATOMIC_MODIFY_REG_def atomic_word_eq
      reg_access)

section \<open>Positions\<close>

lemma bit_double: "bit (x * 2) n \<longleftrightarrow> 0 < n \<and> n < 32 \<and> bit x (n - 1)" for x :: u32
  using bit_push_bit_iff [of 1 x n] by (simp add: push_bit_double bit_simps Suc_le_eq)

lemma rbit_bits: "\<forall>n \<in> set [0..<32]. bit (sim_rbit x) n = bit x (31 - n)"
  by (simp add: upt_rec sim_rbit_def Let_def bit_simps bit_double) (simp add: numeral_eq_Suc)

lemma bit_sim_rbit: "n < 32 \<Longrightarrow> bit (sim_rbit x) n = bit x (31 - n)"
  using rbit_bits [of x] by simp

lemma rbit_eq_0 [simp]: "sim_rbit x = 0 \<longleftrightarrow> x = 0"
proof
  assume z: "sim_rbit x = 0"
  show "x = 0"
  proof (rule bit_word_eqI)
    fix n assume "n < LENGTH(32)"
    then show "bit x n = bit (0 :: u32) n"
      using bit_sim_rbit [of "31 - n" x] z by simp
  qed
qed (simp add: sim_rbit_def)

lemma takeWhile_upt:
  "\<exists>k \<le> n. takeWhile P [0..<n] = [0..<k] \<and> (\<forall>i < k. P i) \<and> (k < n \<longrightarrow> \<not> P k)"
proof (induction n)
  case (Suc n)
  then obtain k where k: "k \<le> n" "takeWhile P [0..<n] = [0..<k]" "\<forall>i < k. P i" "k < n \<longrightarrow> \<not> P k"
    by blast
  show ?case
  proof (cases "k < n")
    case True
    then have "k \<in> set [0..<n]" and "\<not> P k" using k by auto
    then have "takeWhile P [0..<Suc n] = [0..<k]"
      using k by (simp add: takeWhile_append1)
    then show ?thesis using k True by (intro exI [of _ k]) auto
  next
    case False
    then have all: "\<forall>i < n. P i" using k by auto
    then have "takeWhile P ([0..<n] @ [n]) = [0..<n] @ takeWhile P [n]"
      by (intro takeWhile_append2) simp
    with all show ?thesis
      by (cases "P n") (rule exI [of _ "Suc n"], simp add: less_Suc_eq, rule exI [of _ n], simp)
  qed
qed simp

lemma rev_upt_map: "rev [0..<n] = map (\<lambda>i. n - 1 - i) [0..<n]"
  by (rule nth_equalityI) (simp_all add: rev_nth)

text \<open>\<^verbatim>\<open>POSITION_VAL\<close> is the lowest set bit.\<close>

lemma POSITION_VAL_eq:
  "POSITION_VAL x = (if x = 0 then 32 else length (takeWhile (\<lambda>n. \<not> bit x n) [0..<32]))"
proof -
  have "map (\<lambda>i. 31 - i) [0..<32] = rev [0..<(32 :: nat)]"
    by (simp add: rev_upt_map)
  then have "builtin_clz (sim_rbit x) =
      length (takeWhile (\<lambda>n. \<not> bit (sim_rbit x) n) (map (\<lambda>i. 31 - i) [0..<32]))"
    by (simp add: builtin_clz_def)
  also have "\<dots> = length (takeWhile (\<lambda>i. \<not> bit (sim_rbit x) (31 - i)) [0..<32])"
    by (simp add: takeWhile_map comp_def)
  also have "takeWhile (\<lambda>i. \<not> bit (sim_rbit x) (31 - i)) [0..<32] = takeWhile (\<lambda>n. \<not> bit x n) [0..<32]"
    by (rule takeWhile_cong) (simp_all add: bit_sim_rbit)
  finally show ?thesis by (simp add: POSITION_VAL_def CLZ_def)
qed

text \<open>
  The position of a bit. For a word that is not 0, \<^verbatim>\<open>POSITION_VAL\<close>, which counts leading zeros of the
  word \<^verbatim>\<open>sim_rbit\<close> has mirrored with masks and shifts, is the lowest set bit: that bit is set and no
  lower one is.
\<close>

theorem POSITION_VAL_lowest:
  assumes "x \<noteq> 0"
  shows "bit x (POSITION_VAL x) \<and> (\<forall>n < POSITION_VAL x. \<not> bit x n) \<and> POSITION_VAL x < 32"
proof -
  obtain k where k: "k \<le> 32" "takeWhile (\<lambda>n. \<not> bit x n) [0..<32] = [0..<k]"
      "\<forall>i < k. \<not> bit x i" "k < 32 \<longrightarrow> bit x k"
    using takeWhile_upt [where n = 32 and P = "\<lambda>n. \<not> bit x n"] by auto
  then have pos: "POSITION_VAL x = k" using assms by (simp add: POSITION_VAL_eq)
  have "bits x \<noteq> {}" using assms by simp
  then obtain n where "n < 32" and "bit x n" by (auto simp: bits_def)
  then have "k < 32" using k by (meson le_less_trans not_le)
  then show ?thesis using k pos by simp
qed

theorem POSITION_VAL_lowest_witness:
  "(0x50 :: u32) \<noteq> 0 \<and> bit (0x50 :: u32) (POSITION_VAL 0x50) \<and> (\<forall>n < POSITION_VAL 0x50. \<not> bit (0x50 :: u32) n)"
  using POSITION_VAL_lowest [of "0x50"] by simp

section \<open>Banks of registers\<close>

text \<open>
  A gate is a register together with the three accessors on its bits; a bank is a list of gates on
  different registers. A client may call the accessors of all gates in any order: each gate
  holds the set its own calls describe.
\<close>

record gate =
  gate_reg :: u32
  gate_enable :: "u32 \<Rightarrow> regs \<Rightarrow> regs"
  gate_disable :: "u32 \<Rightarrow> regs \<Rightarrow> regs"
  gate_test :: "u32 \<Rightarrow> regs \<Rightarrow> u32"

definition plain_gate :: "gate \<Rightarrow> bool" where
  "plain_gate g \<longleftrightarrow> gate_enable g = SET_BIT (gate_reg g) \<and> gate_disable g = CLEAR_BIT (gate_reg g) \<and>
     gate_test g = (\<lambda>m r. if READ_BIT (gate_reg g) m r = m then 1 else 0)"

fun gate_call :: "gate list \<Rightarrow> nat \<times> line_op \<Rightarrow> regs \<Rightarrow> regs" where
  "gate_call gs (i, Enable m) r = gate_enable (gs ! i) m r"
| "gate_call gs (i, Disable m) r = gate_disable (gs ! i) m r"

definition own_calls :: "'i \<Rightarrow> ('i \<times> 'a) list \<Rightarrow> 'a list" where
  "own_calls i xs = map snd (filter (\<lambda>x. fst x = i) xs)"

lemma own_calls_simps [simp]:
  "own_calls i [] = []"
  "own_calls i (x # xs) = (if fst x = i then snd x # own_calls i xs else own_calls i xs)"
  by (simp_all add: own_calls_def)

locale gate_bank =
  fixes gates :: "gate list"
  assumes gates_plain: "\<forall>g \<in> set gates. plain_gate g"
    and gates_distinct: "distinct (map gate_reg gates)"
begin

lemma gate_line_set:
  assumes "i < length gates"
  shows "line_set (\<lambda>r. bits (r (gate_reg (gates ! i)))) (gate_enable (gates ! i))
           (gate_disable (gates ! i)) (gate_test (gates ! i))"
  using assms gates_plain line_set_register [of "gate_reg (gates ! i)"]
  by (simp add: plain_gate_def)

lemma gate_call_lines:
  assumes "i < length gates" and "fst x < length gates"
  shows "bits (gate_call gates x r (gate_reg (gates ! i))) =
    (if fst x = i then line_effect (snd x) (bits (r (gate_reg (gates ! i))))
     else bits (r (gate_reg (gates ! i))))"
proof -
  obtain j y where x: "x = (j, y)" by (cases x)
  have "plain_gate (gates ! j)" using assms x gates_plain by simp
  moreover have "gate_reg (gates ! j) \<noteq> gate_reg (gates ! i)" if "j \<noteq> i"
    using that assms x gates_distinct by (auto simp: distinct_conv_nth)
  ultimately show ?thesis
    by (cases y) (auto simp: x plain_gate_def reg_access bits_and_not)
qed

lemma bank_lines:
  assumes "i < length gates" and "\<forall>x \<in> set xs. fst x < length gates"
  shows "bits (fold (gate_call gates) xs r (gate_reg (gates ! i))) =
    fold line_effect (own_calls i xs) (bits (r (gate_reg (gates ! i))))"
  using assms(2)
  by (induction xs arbitrary: r) (simp_all add: gate_call_lines [OF assms(1)])

lemma bank_test:
  assumes "i < length gates" and "\<forall>x \<in> set xs. fst x < length gates"
  shows "gate_test (gates ! i) m (fold (gate_call gates) xs r) =
    (if bits m \<subseteq> fold line_effect (own_calls i xs) (bits (r (gate_reg (gates ! i)))) then 1 else 0)"
  using line_set.is_enabled_iff [OF gate_line_set [OF assms(1)]] bank_lines [OF assms]
  by simp

end

text \<open>
  The general contract of units that do not meet: a call on one unit succeeds, keeps the invariant, changes what is seen of that
  unit the way its effect says, and nothing that is seen of the others. A client's calls in any order then leave
  each unit what its own calls make of it.
\<close>

locale unit_bank =
  fixes units :: "'u set"
    and ok :: "'op \<Rightarrow> bool"
    and inv :: "'s \<Rightarrow> bool"
    and step :: "'u \<times> 'op \<Rightarrow> 's \<Rightarrow> 's result"
    and view :: "'u \<Rightarrow> 's \<Rightarrow> 'v"
    and effect :: "'op \<Rightarrow> 'v \<Rightarrow> 'v"
  assumes step_view: "u \<in> units \<Longrightarrow> ok x \<Longrightarrow> inv s \<Longrightarrow> \<exists>s'. step (u, x) s = Inr s' \<and> inv s' \<and>
      (\<forall>w \<in> units. view w s' = (if w = u then effect x (view w s) else view w s))"
begin

lemma run_view:
  "\<forall>y \<in> set xs. fst y \<in> units \<and> ok (snd y) \<Longrightarrow> inv s \<Longrightarrow>
   \<exists>s'. run_ops step xs s = Inr s' \<and> inv s' \<and>
     (\<forall>w \<in> units. view w s' = fold effect (own_calls w xs) (view w s))"
proof (induction xs arbitrary: s)
  case (Cons y ys)
  then obtain s1 where s1: "step y s = Inr s1" "inv s1"
      "\<forall>w \<in> units. view w s1 = (if w = fst y then effect (snd y) (view w s) else view w s)"
    using step_view [of "fst y" "snd y" s] by auto
  moreover obtain s' where "run_ops step ys s1 = Inr s'" "inv s'"
      "\<forall>w \<in> units. view w s' = fold effect (own_calls w ys) (view w s1)"
    using Cons.IH [of s1] Cons.prems s1 by auto
  ultimately show ?case by auto
qed simp

end

text \<open>
  A setting is a field with its register and mask. A bank of settings has pairwise disjoint
  fields: whatever is set in whatever order, every field reads the last value set to it.
\<close>

record setting =
  set_reg :: u32
  set_mask :: u32
  set_put :: "u32 \<Rightarrow> regs \<Rightarrow> regs"
  set_get :: "regs \<Rightarrow> u32"
  set_enc :: "u32 \<Rightarrow> u32"
  set_dec :: "u32 \<Rightarrow> u32"
  set_ok :: "u32 \<Rightarrow> bool"

text \<open>
  On its values, the setter writes an encoded value into the field, and the getter decodes the field.
\<close>

definition coded_setting :: "setting \<Rightarrow> bool" where
  "coded_setting f \<longleftrightarrow>
     (\<forall>v. set_ok f v \<longrightarrow>
        set_put f v = MODIFY_REG (set_reg f) (set_mask f) (set_enc f v) \<and>
        set_enc f v AND set_mask f = set_enc f v \<and> set_dec f (set_enc f v) = v) \<and>
     set_get f = (\<lambda>r. set_dec f (READ_BIT (set_reg f) (set_mask f) r))"

fun setting_call :: "setting list \<Rightarrow> nat \<times> u32 \<Rightarrow> regs \<Rightarrow> regs" where
  "setting_call fs (i, v) r = set_put (fs ! i) v r"

fun settings_apart :: "setting list \<Rightarrow> bool" where
  "settings_apart [] \<longleftrightarrow> True"
| "settings_apart (f # fs) \<longleftrightarrow>
     (\<forall>g \<in> set fs. apart (set_reg f) (set_mask f) (set_reg g) (set_mask g)) \<and> settings_apart fs"

lemma apart_commute: "apart a m b n \<longleftrightarrow> apart b n a m"
  by (auto simp: apart_def and.commute)

lemma settings_apartD:
  "settings_apart fs \<Longrightarrow> i < length fs \<Longrightarrow> j < length fs \<Longrightarrow> i \<noteq> j \<Longrightarrow>
   apart (set_reg (fs ! i)) (set_mask (fs ! i)) (set_reg (fs ! j)) (set_mask (fs ! j))"
proof (induction fs arbitrary: i j)
  case (Cons f fs)
  then show ?case
    by (cases i; cases j) (auto simp: apart_commute nth_mem)
qed simp

locale setting_bank =
  fixes settings :: "setting list"
  assumes settings_coded: "\<forall>f \<in> set settings. coded_setting f"
    and disjoint: "settings_apart settings"
begin

lemma call_get:
  assumes "i < length settings" and "fst x < length settings"
    and "set_ok (settings ! fst x) (snd x)"
  shows "set_get (settings ! i) (setting_call settings x r) =
    (if fst x = i then snd x else set_get (settings ! i) r)"
proof -
  obtain j v where x: "x = (j, v)" by (cases x)
  have "coded_setting (settings ! j)" and "coded_setting (settings ! i)"
    using assms x settings_coded by simp_all
  moreover have "apart (set_reg (settings ! j)) (set_mask (settings ! j)) (set_reg (settings ! i))
      (set_mask (settings ! i))" if "j \<noteq> i"
    using that assms x settings_apartD [OF disjoint, of j i] by simp
  ultimately show ?thesis
    using assms(3) by (auto simp: x coded_setting_def READ_BIT_MODIFY_other)
qed

lemma bank_get:
  assumes "i < length settings"
    and "\<forall>x \<in> set xs. fst x < length settings \<and> set_ok (settings ! fst x) (snd x)"
  shows "set_get (settings ! i) (fold (setting_call settings) xs r) =
    last (set_get (settings ! i) r # own_calls i xs)"
  using assms(2)
  by (induction xs arbitrary: r) (auto simp: call_get [OF assms(1)])

end

end
