(* ===== verification/Device_Map.thy ===== *)
theory Device_Map
  imports Registers
begin

text \<open>
  The part of the device description (\<^verbatim>\<open>stm32wl55xx.h\<close>) the accessors use: base addresses of the
  peripherals, offsets of the registers in their structures, positions and masks of the fields.
  A mask is the value \<^verbatim>\<open>X_Msk\<close> names, shifted by \<^verbatim>\<open>X_Pos\<close>; the register \<^verbatim>\<open>P->R\<close> is the constant
  \<^verbatim>\<open>P_R\<close>, its address, for the clock and interrupt controllers, and an offset for structures that
  occur more than once (the DMA controllers, their channels and the request multiplexer).
\<close>

section \<open>Bit positions\<close>

definition RCC_ICSCR_HSICAL_Pos :: nat where [reg_pos]: "RCC_ICSCR_HSICAL_Pos = 16"
definition RCC_ICSCR_HSITRIM_Pos :: nat where [reg_pos]: "RCC_ICSCR_HSITRIM_Pos = 24"
definition RCC_ICSCR_MSICAL_Pos :: nat where [reg_pos]: "RCC_ICSCR_MSICAL_Pos = 0"
definition RCC_ICSCR_MSITRIM_Pos :: nat where [reg_pos]: "RCC_ICSCR_MSITRIM_Pos = 8"
definition RCC_PLLCFGR_PLLN_Pos :: nat where [reg_pos]: "RCC_PLLCFGR_PLLN_Pos = 8"
definition RCC_PLLCFGR_PLLM_Pos :: nat where [reg_pos]: "RCC_PLLCFGR_PLLM_Pos = 4"
definition RCC_PLLCFGR_PLLR_Pos :: nat where [reg_pos]: "RCC_PLLCFGR_PLLR_Pos = 29"
definition RCC_PLLCFGR_PLLP_Pos :: nat where [reg_pos]: "RCC_PLLCFGR_PLLP_Pos = 17"
definition RCC_PLLCFGR_PLLQ_Pos :: nat where [reg_pos]: "RCC_PLLCFGR_PLLQ_Pos = 25"
definition RCC_CFGR_HPRE_Pos :: nat where [reg_pos]: "RCC_CFGR_HPRE_Pos = 4"
definition RCC_EXTCFGR_C2HPRE_Pos :: nat where [reg_pos]: "RCC_EXTCFGR_C2HPRE_Pos = 4"
definition RCC_EXTCFGR_SHDHPRE_Pos :: nat where [reg_pos]: "RCC_EXTCFGR_SHDHPRE_Pos = 0"
definition RCC_CFGR_PPRE1_Pos :: nat where [reg_pos]: "RCC_CFGR_PPRE1_Pos = 8"
definition RCC_CFGR_PPRE2_Pos :: nat where [reg_pos]: "RCC_CFGR_PPRE2_Pos = 11"
definition RCC_CSR_MSISRANGE_Pos :: nat where [reg_pos]: "RCC_CSR_MSISRANGE_Pos = 8"
definition RCC_CR_MSIRANGE_Pos :: nat where [reg_pos]: "RCC_CR_MSIRANGE_Pos = 4"

section \<open>Base addresses\<close>

definition PERIPH_BASE :: u32 where [reg_addr]: "PERIPH_BASE = 0x40000000"
definition AHB1PERIPH_BASE :: u32 where [reg_addr]: "AHB1PERIPH_BASE = PERIPH_BASE + 0x00020000"
definition AHB3PERIPH_BASE :: u32 where [reg_addr]: "AHB3PERIPH_BASE = PERIPH_BASE + 0x18000000"
definition RCC_BASE :: u32 where [reg_addr]: "RCC_BASE = AHB3PERIPH_BASE + 0x00000000"
definition EXTI_BASE :: u32 where [reg_addr]: "EXTI_BASE = AHB3PERIPH_BASE + 0x00000800"
definition DMA1_BASE :: u32 where [reg_addr]: "DMA1_BASE = AHB1PERIPH_BASE + 0x00000000"
definition DMA2_BASE :: u32 where [reg_addr]: "DMA2_BASE = AHB1PERIPH_BASE + 0x00000400"
definition DMAMUX1_BASE :: u32 where [reg_addr]: "DMAMUX1_BASE = AHB1PERIPH_BASE + 0x00000800"
definition DMA1_Channel1_BASE :: u32 where [reg_addr]: "DMA1_Channel1_BASE = DMA1_BASE + 0x00000008"
definition DMA1_Channel2_BASE :: u32 where [reg_addr]: "DMA1_Channel2_BASE = DMA1_BASE + 0x0000001C"
definition DMA1_Channel3_BASE :: u32 where [reg_addr]: "DMA1_Channel3_BASE = DMA1_BASE + 0x00000030"
definition DMA1_Channel4_BASE :: u32 where [reg_addr]: "DMA1_Channel4_BASE = DMA1_BASE + 0x00000044"
definition DMA1_Channel5_BASE :: u32 where [reg_addr]: "DMA1_Channel5_BASE = DMA1_BASE + 0x00000058"
definition DMA1_Channel6_BASE :: u32 where [reg_addr]: "DMA1_Channel6_BASE = DMA1_BASE + 0x0000006C"
definition DMA1_Channel7_BASE :: u32 where [reg_addr]: "DMA1_Channel7_BASE = DMA1_BASE + 0x00000080"
definition DMA2_Channel1_BASE :: u32 where [reg_addr]: "DMA2_Channel1_BASE = DMA2_BASE + 0x00000008"
definition DMA2_Channel2_BASE :: u32 where [reg_addr]: "DMA2_Channel2_BASE = DMA2_BASE + 0x0000001C"
definition DMA2_Channel3_BASE :: u32 where [reg_addr]: "DMA2_Channel3_BASE = DMA2_BASE + 0x00000030"
definition DMA2_Channel4_BASE :: u32 where [reg_addr]: "DMA2_Channel4_BASE = DMA2_BASE + 0x00000044"
definition DMA2_Channel5_BASE :: u32 where [reg_addr]: "DMA2_Channel5_BASE = DMA2_BASE + 0x00000058"
definition DMA2_Channel6_BASE :: u32 where [reg_addr]: "DMA2_Channel6_BASE = DMA2_BASE + 0x0000006C"
definition DMA2_Channel7_BASE :: u32 where [reg_addr]: "DMA2_Channel7_BASE = DMA2_BASE + 0x00000080"
definition DMAMUX1_Channel0_BASE :: u32 where [reg_addr]: "DMAMUX1_Channel0_BASE = DMAMUX1_BASE"

section \<open>Fields of the registers\<close>

definition RCC_CR_HSEBYPPWR :: u32 where [reg_mask]: "RCC_CR_HSEBYPPWR = push_bit 21 0x1"
definition RCC_CR_HSEPRE :: u32 where [reg_mask]: "RCC_CR_HSEPRE = push_bit 20 0x1"
definition RCC_CR_CSSON :: u32 where [reg_mask]: "RCC_CR_CSSON = push_bit 19 0x1"
definition RCC_CR_HSEON :: u32 where [reg_mask]: "RCC_CR_HSEON = push_bit 16 0x1"
definition RCC_CR_HSERDY :: u32 where [reg_mask]: "RCC_CR_HSERDY = push_bit 17 0x1"
definition RCC_CR_HSIKERON :: u32 where [reg_mask]: "RCC_CR_HSIKERON = push_bit 9 0x1"
definition RCC_CR_HSION :: u32 where [reg_mask]: "RCC_CR_HSION = push_bit 8 0x1"
definition RCC_CR_HSIRDY :: u32 where [reg_mask]: "RCC_CR_HSIRDY = push_bit 10 0x1"
definition RCC_CR_HSIASFS :: u32 where [reg_mask]: "RCC_CR_HSIASFS = push_bit 11 0x1"
definition RCC_ICSCR_HSICAL :: u32 where [reg_mask]: "RCC_ICSCR_HSICAL = push_bit RCC_ICSCR_HSICAL_Pos 0xFF"
definition RCC_ICSCR_HSITRIM :: u32 where
  [reg_mask]: "RCC_ICSCR_HSITRIM = push_bit RCC_ICSCR_HSITRIM_Pos 0x7F"
definition RCC_BDCR_LSEON :: u32 where [reg_mask]: "RCC_BDCR_LSEON = push_bit 0 0x1"
definition RCC_BDCR_LSEBYP :: u32 where [reg_mask]: "RCC_BDCR_LSEBYP = push_bit 2 0x1"
definition RCC_BDCR_LSEDRV :: u32 where [reg_mask]: "RCC_BDCR_LSEDRV = push_bit 3 0x3"
definition RCC_BDCR_LSECSSON :: u32 where [reg_mask]: "RCC_BDCR_LSECSSON = push_bit 5 0x1"
definition RCC_BDCR_LSESYSEN :: u32 where [reg_mask]: "RCC_BDCR_LSESYSEN = push_bit 7 0x1"
definition RCC_BDCR_LSESYSRDY :: u32 where [reg_mask]: "RCC_BDCR_LSESYSRDY = push_bit 11 0x1"
definition RCC_BDCR_LSERDY :: u32 where [reg_mask]: "RCC_BDCR_LSERDY = push_bit 1 0x1"
definition RCC_BDCR_LSECSSD :: u32 where [reg_mask]: "RCC_BDCR_LSECSSD = push_bit 6 0x1"
definition RCC_CSR_LSIPRE :: u32 where [reg_mask]: "RCC_CSR_LSIPRE = push_bit 4 0x1"
definition RCC_CSR_LSION :: u32 where [reg_mask]: "RCC_CSR_LSION = push_bit 0 0x1"
definition RCC_CSR_LSIRDY :: u32 where [reg_mask]: "RCC_CSR_LSIRDY = push_bit 1 0x1"
definition RCC_CR_MSION :: u32 where [reg_mask]: "RCC_CR_MSION = push_bit 0 0x1"
definition RCC_CR_MSIRDY :: u32 where [reg_mask]: "RCC_CR_MSIRDY = push_bit 1 0x1"
definition RCC_CR_MSIPLLEN :: u32 where [reg_mask]: "RCC_CR_MSIPLLEN = push_bit 2 0x1"
definition RCC_CR_MSIRGSEL :: u32 where [reg_mask]: "RCC_CR_MSIRGSEL = push_bit 3 0x1"
definition RCC_CR_MSIRANGE :: u32 where [reg_mask]: "RCC_CR_MSIRANGE = push_bit RCC_CR_MSIRANGE_Pos 0xF"
definition RCC_CSR_MSISRANGE :: u32 where [reg_mask]: "RCC_CSR_MSISRANGE = push_bit RCC_CSR_MSISRANGE_Pos 0xF"
definition RCC_ICSCR_MSICAL :: u32 where [reg_mask]: "RCC_ICSCR_MSICAL = push_bit RCC_ICSCR_MSICAL_Pos 0xFF"
definition RCC_ICSCR_MSITRIM :: u32 where
  [reg_mask]: "RCC_ICSCR_MSITRIM = push_bit RCC_ICSCR_MSITRIM_Pos 0xFF"
definition RCC_BDCR_LSCOEN :: u32 where [reg_mask]: "RCC_BDCR_LSCOEN = push_bit 24 0x1"
definition RCC_BDCR_LSCOSEL :: u32 where [reg_mask]: "RCC_BDCR_LSCOSEL = push_bit 25 0x1"
definition RCC_CSR_RFRST :: u32 where [reg_mask]: "RCC_CSR_RFRST = push_bit 15 0x1"
definition RCC_CSR_RFRSTF :: u32 where [reg_mask]: "RCC_CSR_RFRSTF = push_bit 14 0x1"
definition RCC_CFGR_SW :: u32 where [reg_mask]: "RCC_CFGR_SW = push_bit 0 0x3"
definition RCC_CFGR_SWS :: u32 where [reg_mask]: "RCC_CFGR_SWS = push_bit 2 0x3"
definition RCC_CFGR_HPRE :: u32 where [reg_mask]: "RCC_CFGR_HPRE = push_bit RCC_CFGR_HPRE_Pos 0xF"
definition RCC_EXTCFGR_C2HPRE :: u32 where
  [reg_mask]: "RCC_EXTCFGR_C2HPRE = push_bit RCC_EXTCFGR_C2HPRE_Pos 0xF"
definition RCC_EXTCFGR_SHDHPRE :: u32 where
  [reg_mask]: "RCC_EXTCFGR_SHDHPRE = push_bit RCC_EXTCFGR_SHDHPRE_Pos 0xF"
definition RCC_CFGR_PPRE1 :: u32 where [reg_mask]: "RCC_CFGR_PPRE1 = push_bit RCC_CFGR_PPRE1_Pos 0x7"
definition RCC_CFGR_PPRE2 :: u32 where [reg_mask]: "RCC_CFGR_PPRE2 = push_bit RCC_CFGR_PPRE2_Pos 0x7"
definition RCC_CFGR_STOPWUCK :: u32 where [reg_mask]: "RCC_CFGR_STOPWUCK = push_bit 15 0x1"
definition RCC_CFGR_MCOSEL :: u32 where [reg_mask]: "RCC_CFGR_MCOSEL = push_bit 24 0xF"
definition RCC_CFGR_MCOPRE :: u32 where [reg_mask]: "RCC_CFGR_MCOPRE = push_bit 28 0x7"
definition RCC_CCIPR_I2S2SEL :: u32 where [reg_mask]: "RCC_CCIPR_I2S2SEL = push_bit 8 0x3"
definition RCC_CCIPR_LPUART1SEL :: u32 where [reg_mask]: "RCC_CCIPR_LPUART1SEL = push_bit 10 0x3"
definition RCC_CCIPR_RNGSEL :: u32 where [reg_mask]: "RCC_CCIPR_RNGSEL = push_bit 30 0x3"
definition RCC_CCIPR_ADCSEL :: u32 where [reg_mask]: "RCC_CCIPR_ADCSEL = push_bit 28 0x3"
definition RCC_BDCR_RTCSEL :: u32 where [reg_mask]: "RCC_BDCR_RTCSEL = push_bit 8 0x3"
definition RCC_BDCR_RTCEN :: u32 where [reg_mask]: "RCC_BDCR_RTCEN = push_bit 15 0x1"
definition RCC_BDCR_BDRST :: u32 where [reg_mask]: "RCC_BDCR_BDRST = push_bit 16 0x1"
definition RCC_CR_PLLON :: u32 where [reg_mask]: "RCC_CR_PLLON = push_bit 24 0x1"
definition RCC_CR_PLLRDY :: u32 where [reg_mask]: "RCC_CR_PLLRDY = push_bit 25 0x1"
definition RCC_PLLCFGR_PLLSRC :: u32 where [reg_mask]: "RCC_PLLCFGR_PLLSRC = push_bit 0 0x3"
definition RCC_PLLCFGR_PLLM :: u32 where [reg_mask]: "RCC_PLLCFGR_PLLM = push_bit RCC_PLLCFGR_PLLM_Pos 0x7"
definition RCC_PLLCFGR_PLLN :: u32 where [reg_mask]: "RCC_PLLCFGR_PLLN = push_bit RCC_PLLCFGR_PLLN_Pos 0x7F"
definition RCC_PLLCFGR_PLLR :: u32 where [reg_mask]: "RCC_PLLCFGR_PLLR = push_bit RCC_PLLCFGR_PLLR_Pos 0x7"
definition RCC_PLLCFGR_PLLP :: u32 where [reg_mask]: "RCC_PLLCFGR_PLLP = push_bit RCC_PLLCFGR_PLLP_Pos 0x1F"
definition RCC_PLLCFGR_PLLQ :: u32 where [reg_mask]: "RCC_PLLCFGR_PLLQ = push_bit RCC_PLLCFGR_PLLQ_Pos 0x7"
definition RCC_PLLCFGR_PLLPEN :: u32 where [reg_mask]: "RCC_PLLCFGR_PLLPEN = push_bit 16 0x1"
definition RCC_PLLCFGR_PLLQEN :: u32 where [reg_mask]: "RCC_PLLCFGR_PLLQEN = push_bit 24 0x1"
definition RCC_PLLCFGR_PLLREN :: u32 where [reg_mask]: "RCC_PLLCFGR_PLLREN = push_bit 28 0x1"
definition RCC_CICR_LSIRDYC :: u32 where [reg_mask]: "RCC_CICR_LSIRDYC = push_bit 0 0x1"
definition RCC_CICR_LSERDYC :: u32 where [reg_mask]: "RCC_CICR_LSERDYC = push_bit 1 0x1"
definition RCC_CICR_MSIRDYC :: u32 where [reg_mask]: "RCC_CICR_MSIRDYC = push_bit 2 0x1"
definition RCC_CICR_HSIRDYC :: u32 where [reg_mask]: "RCC_CICR_HSIRDYC = push_bit 3 0x1"
definition RCC_CICR_HSERDYC :: u32 where [reg_mask]: "RCC_CICR_HSERDYC = push_bit 4 0x1"
definition RCC_CICR_PLLRDYC :: u32 where [reg_mask]: "RCC_CICR_PLLRDYC = push_bit 5 0x1"
definition RCC_CICR_CSSC :: u32 where [reg_mask]: "RCC_CICR_CSSC = push_bit 8 0x1"
definition RCC_CICR_LSECSSC :: u32 where [reg_mask]: "RCC_CICR_LSECSSC = push_bit 9 0x1"
definition RCC_CIFR_LSIRDYF :: u32 where [reg_mask]: "RCC_CIFR_LSIRDYF = push_bit 0 0x1"
definition RCC_CIFR_LSERDYF :: u32 where [reg_mask]: "RCC_CIFR_LSERDYF = push_bit 1 0x1"
definition RCC_CIFR_MSIRDYF :: u32 where [reg_mask]: "RCC_CIFR_MSIRDYF = push_bit 2 0x1"
definition RCC_CIFR_HSIRDYF :: u32 where [reg_mask]: "RCC_CIFR_HSIRDYF = push_bit 3 0x1"
definition RCC_CIFR_HSERDYF :: u32 where [reg_mask]: "RCC_CIFR_HSERDYF = push_bit 4 0x1"
definition RCC_CIFR_PLLRDYF :: u32 where [reg_mask]: "RCC_CIFR_PLLRDYF = push_bit 5 0x1"
definition RCC_CIFR_CSSF :: u32 where [reg_mask]: "RCC_CIFR_CSSF = push_bit 8 0x1"
definition RCC_CIFR_LSECSSF :: u32 where [reg_mask]: "RCC_CIFR_LSECSSF = push_bit 9 0x1"
definition RCC_CFGR_HPREF :: u32 where [reg_mask]: "RCC_CFGR_HPREF = push_bit 16 0x1"
definition RCC_EXTCFGR_C2HPREF :: u32 where [reg_mask]: "RCC_EXTCFGR_C2HPREF = push_bit 17 0x1"
definition RCC_EXTCFGR_SHDHPREF :: u32 where [reg_mask]: "RCC_EXTCFGR_SHDHPREF = push_bit 16 0x1"
definition RCC_CFGR_PPRE1F :: u32 where [reg_mask]: "RCC_CFGR_PPRE1F = push_bit 17 0x1"
definition RCC_CFGR_PPRE2F :: u32 where [reg_mask]: "RCC_CFGR_PPRE2F = push_bit 18 0x1"
definition RCC_CSR_IWDGRSTF :: u32 where [reg_mask]: "RCC_CSR_IWDGRSTF = push_bit 29 0x1"
definition RCC_CSR_RFILARSTF :: u32 where [reg_mask]: "RCC_CSR_RFILARSTF = push_bit 24 0x1"
definition RCC_CSR_LPWRRSTF :: u32 where [reg_mask]: "RCC_CSR_LPWRRSTF = push_bit 31 0x1"
definition RCC_CSR_OBLRSTF :: u32 where [reg_mask]: "RCC_CSR_OBLRSTF = push_bit 25 0x1"
definition RCC_CSR_PINRSTF :: u32 where [reg_mask]: "RCC_CSR_PINRSTF = push_bit 26 0x1"
definition RCC_CSR_SFTRSTF :: u32 where [reg_mask]: "RCC_CSR_SFTRSTF = push_bit 28 0x1"
definition RCC_CSR_WWDGRSTF :: u32 where [reg_mask]: "RCC_CSR_WWDGRSTF = push_bit 30 0x1"
definition RCC_CSR_BORRSTF :: u32 where [reg_mask]: "RCC_CSR_BORRSTF = push_bit 27 0x1"
definition RCC_CSR_RMVF :: u32 where [reg_mask]: "RCC_CSR_RMVF = push_bit 23 0x1"
definition RCC_CIER_LSIRDYIE :: u32 where [reg_mask]: "RCC_CIER_LSIRDYIE = push_bit 0 0x1"
definition RCC_CIER_LSERDYIE :: u32 where [reg_mask]: "RCC_CIER_LSERDYIE = push_bit 1 0x1"
definition RCC_CIER_MSIRDYIE :: u32 where [reg_mask]: "RCC_CIER_MSIRDYIE = push_bit 2 0x1"
definition RCC_CIER_HSIRDYIE :: u32 where [reg_mask]: "RCC_CIER_HSIRDYIE = push_bit 3 0x1"
definition RCC_CIER_HSERDYIE :: u32 where [reg_mask]: "RCC_CIER_HSERDYIE = push_bit 4 0x1"
definition RCC_CIER_PLLRDYIE :: u32 where [reg_mask]: "RCC_CIER_PLLRDYIE = push_bit 5 0x1"
definition RCC_CIER_LSECSSIE :: u32 where [reg_mask]: "RCC_CIER_LSECSSIE = push_bit 9 0x1"
definition DMA_CCR_EN :: u32 where [reg_mask]: "DMA_CCR_EN = push_bit 0 0x1"
definition DMA_CCR_SECM :: u32 where [reg_mask]: "DMA_CCR_SECM = push_bit 17 0x1"
definition DMA_CCR_DIR :: u32 where [reg_mask]: "DMA_CCR_DIR = push_bit 4 0x1"
definition DMA_CCR_MEM2MEM :: u32 where [reg_mask]: "DMA_CCR_MEM2MEM = push_bit 14 0x1"
definition DMA_CCR_CIRC :: u32 where [reg_mask]: "DMA_CCR_CIRC = push_bit 5 0x1"
definition DMA_CCR_PINC :: u32 where [reg_mask]: "DMA_CCR_PINC = push_bit 6 0x1"
definition DMA_CCR_MINC :: u32 where [reg_mask]: "DMA_CCR_MINC = push_bit 7 0x1"
definition DMA_CCR_PSIZE :: u32 where [reg_mask]: "DMA_CCR_PSIZE = push_bit 8 0x3"
definition DMA_CCR_MSIZE :: u32 where [reg_mask]: "DMA_CCR_MSIZE = push_bit 10 0x3"
definition DMA_CCR_PL :: u32 where [reg_mask]: "DMA_CCR_PL = push_bit 12 0x3"
definition DMA_CCR_PRIV :: u32 where [reg_mask]: "DMA_CCR_PRIV = push_bit 20 0x1"
definition DMA_CNDTR_NDT :: u32 where [reg_mask]: "DMA_CNDTR_NDT = push_bit 0 0x3FFFF"
definition DMAMUX_CxCR_DMAREQ_ID :: u32 where [reg_mask]: "DMAMUX_CxCR_DMAREQ_ID = push_bit 0 0x7F"
definition DMA_ISR_GIF1 :: u32 where [reg_mask]: "DMA_ISR_GIF1 = push_bit 0 0x1"
definition DMA_ISR_GIF2 :: u32 where [reg_mask]: "DMA_ISR_GIF2 = push_bit 4 0x1"
definition DMA_ISR_GIF3 :: u32 where [reg_mask]: "DMA_ISR_GIF3 = push_bit 8 0x1"
definition DMA_ISR_GIF4 :: u32 where [reg_mask]: "DMA_ISR_GIF4 = push_bit 12 0x1"
definition DMA_ISR_GIF5 :: u32 where [reg_mask]: "DMA_ISR_GIF5 = push_bit 16 0x1"
definition DMA_ISR_GIF6 :: u32 where [reg_mask]: "DMA_ISR_GIF6 = push_bit 20 0x1"
definition DMA_ISR_GIF7 :: u32 where [reg_mask]: "DMA_ISR_GIF7 = push_bit 24 0x1"
definition DMA_ISR_TCIF1 :: u32 where [reg_mask]: "DMA_ISR_TCIF1 = push_bit 1 0x1"
definition DMA_ISR_TCIF2 :: u32 where [reg_mask]: "DMA_ISR_TCIF2 = push_bit 5 0x1"
definition DMA_ISR_TCIF3 :: u32 where [reg_mask]: "DMA_ISR_TCIF3 = push_bit 9 0x1"
definition DMA_ISR_TCIF4 :: u32 where [reg_mask]: "DMA_ISR_TCIF4 = push_bit 13 0x1"
definition DMA_ISR_TCIF5 :: u32 where [reg_mask]: "DMA_ISR_TCIF5 = push_bit 17 0x1"
definition DMA_ISR_TCIF6 :: u32 where [reg_mask]: "DMA_ISR_TCIF6 = push_bit 21 0x1"
definition DMA_ISR_TCIF7 :: u32 where [reg_mask]: "DMA_ISR_TCIF7 = push_bit 25 0x1"
definition DMA_ISR_HTIF1 :: u32 where [reg_mask]: "DMA_ISR_HTIF1 = push_bit 2 0x1"
definition DMA_ISR_HTIF2 :: u32 where [reg_mask]: "DMA_ISR_HTIF2 = push_bit 6 0x1"
definition DMA_ISR_HTIF3 :: u32 where [reg_mask]: "DMA_ISR_HTIF3 = push_bit 10 0x1"
definition DMA_ISR_HTIF4 :: u32 where [reg_mask]: "DMA_ISR_HTIF4 = push_bit 14 0x1"
definition DMA_ISR_HTIF5 :: u32 where [reg_mask]: "DMA_ISR_HTIF5 = push_bit 18 0x1"
definition DMA_ISR_HTIF6 :: u32 where [reg_mask]: "DMA_ISR_HTIF6 = push_bit 22 0x1"
definition DMA_ISR_HTIF7 :: u32 where [reg_mask]: "DMA_ISR_HTIF7 = push_bit 26 0x1"
definition DMA_ISR_TEIF1 :: u32 where [reg_mask]: "DMA_ISR_TEIF1 = push_bit 3 0x1"
definition DMA_ISR_TEIF2 :: u32 where [reg_mask]: "DMA_ISR_TEIF2 = push_bit 7 0x1"
definition DMA_ISR_TEIF3 :: u32 where [reg_mask]: "DMA_ISR_TEIF3 = push_bit 11 0x1"
definition DMA_ISR_TEIF4 :: u32 where [reg_mask]: "DMA_ISR_TEIF4 = push_bit 15 0x1"
definition DMA_ISR_TEIF5 :: u32 where [reg_mask]: "DMA_ISR_TEIF5 = push_bit 19 0x1"
definition DMA_ISR_TEIF6 :: u32 where [reg_mask]: "DMA_ISR_TEIF6 = push_bit 23 0x1"
definition DMA_ISR_TEIF7 :: u32 where [reg_mask]: "DMA_ISR_TEIF7 = push_bit 27 0x1"
definition DMA_IFCR_CGIF1 :: u32 where [reg_mask]: "DMA_IFCR_CGIF1 = push_bit 0 0x1"
definition DMA_IFCR_CGIF2 :: u32 where [reg_mask]: "DMA_IFCR_CGIF2 = push_bit 4 0x1"
definition DMA_IFCR_CGIF3 :: u32 where [reg_mask]: "DMA_IFCR_CGIF3 = push_bit 8 0x1"
definition DMA_IFCR_CGIF4 :: u32 where [reg_mask]: "DMA_IFCR_CGIF4 = push_bit 12 0x1"
definition DMA_IFCR_CGIF5 :: u32 where [reg_mask]: "DMA_IFCR_CGIF5 = push_bit 16 0x1"
definition DMA_IFCR_CGIF6 :: u32 where [reg_mask]: "DMA_IFCR_CGIF6 = push_bit 20 0x1"
definition DMA_IFCR_CGIF7 :: u32 where [reg_mask]: "DMA_IFCR_CGIF7 = push_bit 24 0x1"
definition DMA_IFCR_CTCIF1 :: u32 where [reg_mask]: "DMA_IFCR_CTCIF1 = push_bit 1 0x1"
definition DMA_IFCR_CTCIF2 :: u32 where [reg_mask]: "DMA_IFCR_CTCIF2 = push_bit 5 0x1"
definition DMA_IFCR_CTCIF3 :: u32 where [reg_mask]: "DMA_IFCR_CTCIF3 = push_bit 9 0x1"
definition DMA_IFCR_CTCIF4 :: u32 where [reg_mask]: "DMA_IFCR_CTCIF4 = push_bit 13 0x1"
definition DMA_IFCR_CTCIF5 :: u32 where [reg_mask]: "DMA_IFCR_CTCIF5 = push_bit 17 0x1"
definition DMA_IFCR_CTCIF6 :: u32 where [reg_mask]: "DMA_IFCR_CTCIF6 = push_bit 21 0x1"
definition DMA_IFCR_CTCIF7 :: u32 where [reg_mask]: "DMA_IFCR_CTCIF7 = push_bit 25 0x1"
definition DMA_IFCR_CHTIF1 :: u32 where [reg_mask]: "DMA_IFCR_CHTIF1 = push_bit 2 0x1"
definition DMA_IFCR_CHTIF2 :: u32 where [reg_mask]: "DMA_IFCR_CHTIF2 = push_bit 6 0x1"
definition DMA_IFCR_CHTIF3 :: u32 where [reg_mask]: "DMA_IFCR_CHTIF3 = push_bit 10 0x1"
definition DMA_IFCR_CHTIF4 :: u32 where [reg_mask]: "DMA_IFCR_CHTIF4 = push_bit 14 0x1"
definition DMA_IFCR_CHTIF5 :: u32 where [reg_mask]: "DMA_IFCR_CHTIF5 = push_bit 18 0x1"
definition DMA_IFCR_CHTIF6 :: u32 where [reg_mask]: "DMA_IFCR_CHTIF6 = push_bit 22 0x1"
definition DMA_IFCR_CHTIF7 :: u32 where [reg_mask]: "DMA_IFCR_CHTIF7 = push_bit 26 0x1"
definition DMA_IFCR_CTEIF1 :: u32 where [reg_mask]: "DMA_IFCR_CTEIF1 = push_bit 3 0x1"
definition DMA_IFCR_CTEIF2 :: u32 where [reg_mask]: "DMA_IFCR_CTEIF2 = push_bit 7 0x1"
definition DMA_IFCR_CTEIF3 :: u32 where [reg_mask]: "DMA_IFCR_CTEIF3 = push_bit 11 0x1"
definition DMA_IFCR_CTEIF4 :: u32 where [reg_mask]: "DMA_IFCR_CTEIF4 = push_bit 15 0x1"
definition DMA_IFCR_CTEIF5 :: u32 where [reg_mask]: "DMA_IFCR_CTEIF5 = push_bit 19 0x1"
definition DMA_IFCR_CTEIF6 :: u32 where [reg_mask]: "DMA_IFCR_CTEIF6 = push_bit 23 0x1"
definition DMA_IFCR_CTEIF7 :: u32 where [reg_mask]: "DMA_IFCR_CTEIF7 = push_bit 27 0x1"
definition DMA_CCR_TCIE :: u32 where [reg_mask]: "DMA_CCR_TCIE = push_bit 1 0x1"
definition DMA_CCR_HTIE :: u32 where [reg_mask]: "DMA_CCR_HTIE = push_bit 2 0x1"
definition DMA_CCR_TEIE :: u32 where [reg_mask]: "DMA_CCR_TEIE = push_bit 3 0x1"
definition RCC_BDCR_LSEDRV_0 :: u32 where [reg_mask]: "RCC_BDCR_LSEDRV_0 = push_bit 3 0x1"
definition RCC_BDCR_LSEDRV_1 :: u32 where [reg_mask]: "RCC_BDCR_LSEDRV_1 = push_bit 3 0x2"
definition RCC_CR_MSIRANGE_0 :: u32 where [reg_mask]: "RCC_CR_MSIRANGE_0 = push_bit RCC_CR_MSIRANGE_Pos 0x0"
definition RCC_CR_MSIRANGE_1 :: u32 where [reg_mask]: "RCC_CR_MSIRANGE_1 = push_bit RCC_CR_MSIRANGE_Pos 0x1"
definition RCC_CR_MSIRANGE_2 :: u32 where [reg_mask]: "RCC_CR_MSIRANGE_2 = push_bit RCC_CR_MSIRANGE_Pos 0x2"
definition RCC_CR_MSIRANGE_3 :: u32 where [reg_mask]: "RCC_CR_MSIRANGE_3 = push_bit RCC_CR_MSIRANGE_Pos 0x3"
definition RCC_CR_MSIRANGE_4 :: u32 where [reg_mask]: "RCC_CR_MSIRANGE_4 = push_bit RCC_CR_MSIRANGE_Pos 0x4"
definition RCC_CR_MSIRANGE_5 :: u32 where [reg_mask]: "RCC_CR_MSIRANGE_5 = push_bit RCC_CR_MSIRANGE_Pos 0x5"
definition RCC_CR_MSIRANGE_6 :: u32 where [reg_mask]: "RCC_CR_MSIRANGE_6 = push_bit RCC_CR_MSIRANGE_Pos 0x6"
definition RCC_CR_MSIRANGE_7 :: u32 where [reg_mask]: "RCC_CR_MSIRANGE_7 = push_bit RCC_CR_MSIRANGE_Pos 0x7"
definition RCC_CR_MSIRANGE_8 :: u32 where [reg_mask]: "RCC_CR_MSIRANGE_8 = push_bit RCC_CR_MSIRANGE_Pos 0x8"
definition RCC_CR_MSIRANGE_9 :: u32 where [reg_mask]: "RCC_CR_MSIRANGE_9 = push_bit RCC_CR_MSIRANGE_Pos 0x9"
definition RCC_CR_MSIRANGE_10 :: u32 where [reg_mask]: "RCC_CR_MSIRANGE_10 = push_bit RCC_CR_MSIRANGE_Pos 0xA"
definition RCC_CR_MSIRANGE_11 :: u32 where [reg_mask]: "RCC_CR_MSIRANGE_11 = push_bit RCC_CR_MSIRANGE_Pos 0xB"
definition RCC_CSR_MSISRANGE_1 :: u32 where
  [reg_mask]: "RCC_CSR_MSISRANGE_1 = push_bit RCC_CSR_MSISRANGE_Pos 0x4"
definition RCC_CSR_MSISRANGE_2 :: u32 where
  [reg_mask]: "RCC_CSR_MSISRANGE_2 = push_bit RCC_CSR_MSISRANGE_Pos 0x5"
definition RCC_CSR_MSISRANGE_4 :: u32 where
  [reg_mask]: "RCC_CSR_MSISRANGE_4 = push_bit RCC_CSR_MSISRANGE_Pos 0x6"
definition RCC_CSR_MSISRANGE_8 :: u32 where
  [reg_mask]: "RCC_CSR_MSISRANGE_8 = push_bit RCC_CSR_MSISRANGE_Pos 0x7"
definition RCC_CFGR_HPRE_3 :: u32 where [reg_mask]: "RCC_CFGR_HPRE_3 = push_bit RCC_CFGR_HPRE_Pos 0x8"
definition RCC_CFGR_HPRE_0 :: u32 where [reg_mask]: "RCC_CFGR_HPRE_0 = push_bit RCC_CFGR_HPRE_Pos 0x1"
definition RCC_CFGR_HPRE_1 :: u32 where [reg_mask]: "RCC_CFGR_HPRE_1 = push_bit RCC_CFGR_HPRE_Pos 0x2"
definition RCC_CFGR_HPRE_2 :: u32 where [reg_mask]: "RCC_CFGR_HPRE_2 = push_bit RCC_CFGR_HPRE_Pos 0x4"
definition RCC_CFGR_PPRE1_2 :: u32 where [reg_mask]: "RCC_CFGR_PPRE1_2 = push_bit RCC_CFGR_PPRE1_Pos 0x4"
definition RCC_CFGR_PPRE1_0 :: u32 where [reg_mask]: "RCC_CFGR_PPRE1_0 = push_bit RCC_CFGR_PPRE1_Pos 0x1"
definition RCC_CFGR_PPRE1_1 :: u32 where [reg_mask]: "RCC_CFGR_PPRE1_1 = push_bit RCC_CFGR_PPRE1_Pos 0x2"
definition RCC_CFGR_PPRE2_2 :: u32 where [reg_mask]: "RCC_CFGR_PPRE2_2 = push_bit RCC_CFGR_PPRE2_Pos 0x4"
definition RCC_CFGR_PPRE2_0 :: u32 where [reg_mask]: "RCC_CFGR_PPRE2_0 = push_bit RCC_CFGR_PPRE2_Pos 0x1"
definition RCC_CFGR_PPRE2_1 :: u32 where [reg_mask]: "RCC_CFGR_PPRE2_1 = push_bit RCC_CFGR_PPRE2_Pos 0x2"
definition RCC_CCIPR_USART1SEL :: u32 where [reg_mask]: "RCC_CCIPR_USART1SEL = push_bit 0 0x3"
definition RCC_CCIPR_USART1SEL_0 :: u32 where [reg_mask]: "RCC_CCIPR_USART1SEL_0 = push_bit 0 0x1"
definition RCC_CCIPR_USART1SEL_1 :: u32 where [reg_mask]: "RCC_CCIPR_USART1SEL_1 = push_bit 0 0x2"
definition RCC_CCIPR_USART2SEL :: u32 where [reg_mask]: "RCC_CCIPR_USART2SEL = push_bit 2 0x3"
definition RCC_CCIPR_USART2SEL_0 :: u32 where [reg_mask]: "RCC_CCIPR_USART2SEL_0 = push_bit 2 0x1"
definition RCC_CCIPR_USART2SEL_1 :: u32 where [reg_mask]: "RCC_CCIPR_USART2SEL_1 = push_bit 2 0x2"
definition RCC_CCIPR_I2S2SEL_0 :: u32 where [reg_mask]: "RCC_CCIPR_I2S2SEL_0 = push_bit 8 0x1"
definition RCC_CCIPR_I2S2SEL_1 :: u32 where [reg_mask]: "RCC_CCIPR_I2S2SEL_1 = push_bit 8 0x2"
definition RCC_CCIPR_LPUART1SEL_0 :: u32 where [reg_mask]: "RCC_CCIPR_LPUART1SEL_0 = push_bit 10 0x1"
definition RCC_CCIPR_LPUART1SEL_1 :: u32 where [reg_mask]: "RCC_CCIPR_LPUART1SEL_1 = push_bit 10 0x2"
definition RCC_CCIPR_I2C1SEL :: u32 where [reg_mask]: "RCC_CCIPR_I2C1SEL = push_bit 12 0x3"
definition RCC_CCIPR_I2C1SEL_0 :: u32 where [reg_mask]: "RCC_CCIPR_I2C1SEL_0 = push_bit 12 0x1"
definition RCC_CCIPR_I2C1SEL_1 :: u32 where [reg_mask]: "RCC_CCIPR_I2C1SEL_1 = push_bit 12 0x2"
definition RCC_CCIPR_I2C2SEL :: u32 where [reg_mask]: "RCC_CCIPR_I2C2SEL = push_bit 14 0x3"
definition RCC_CCIPR_I2C2SEL_0 :: u32 where [reg_mask]: "RCC_CCIPR_I2C2SEL_0 = push_bit 14 0x1"
definition RCC_CCIPR_I2C2SEL_1 :: u32 where [reg_mask]: "RCC_CCIPR_I2C2SEL_1 = push_bit 14 0x2"
definition RCC_CCIPR_I2C3SEL :: u32 where [reg_mask]: "RCC_CCIPR_I2C3SEL = push_bit 16 0x3"
definition RCC_CCIPR_I2C3SEL_0 :: u32 where [reg_mask]: "RCC_CCIPR_I2C3SEL_0 = push_bit 16 0x1"
definition RCC_CCIPR_I2C3SEL_1 :: u32 where [reg_mask]: "RCC_CCIPR_I2C3SEL_1 = push_bit 16 0x2"
definition RCC_CCIPR_LPTIM1SEL :: u32 where [reg_mask]: "RCC_CCIPR_LPTIM1SEL = push_bit 18 0x3"
definition RCC_CCIPR_LPTIM1SEL_0 :: u32 where [reg_mask]: "RCC_CCIPR_LPTIM1SEL_0 = push_bit 18 0x1"
definition RCC_CCIPR_LPTIM1SEL_1 :: u32 where [reg_mask]: "RCC_CCIPR_LPTIM1SEL_1 = push_bit 18 0x2"
definition RCC_CCIPR_LPTIM2SEL :: u32 where [reg_mask]: "RCC_CCIPR_LPTIM2SEL = push_bit 20 0x3"
definition RCC_CCIPR_LPTIM2SEL_0 :: u32 where [reg_mask]: "RCC_CCIPR_LPTIM2SEL_0 = push_bit 20 0x1"
definition RCC_CCIPR_LPTIM2SEL_1 :: u32 where [reg_mask]: "RCC_CCIPR_LPTIM2SEL_1 = push_bit 20 0x2"
definition RCC_CCIPR_LPTIM3SEL :: u32 where [reg_mask]: "RCC_CCIPR_LPTIM3SEL = push_bit 22 0x3"
definition RCC_CCIPR_LPTIM3SEL_0 :: u32 where [reg_mask]: "RCC_CCIPR_LPTIM3SEL_0 = push_bit 22 0x1"
definition RCC_CCIPR_LPTIM3SEL_1 :: u32 where [reg_mask]: "RCC_CCIPR_LPTIM3SEL_1 = push_bit 22 0x2"
definition RCC_CCIPR_ADCSEL_0 :: u32 where [reg_mask]: "RCC_CCIPR_ADCSEL_0 = push_bit 28 0x1"
definition RCC_CCIPR_ADCSEL_1 :: u32 where [reg_mask]: "RCC_CCIPR_ADCSEL_1 = push_bit 28 0x2"
definition RCC_CCIPR_RNGSEL_0 :: u32 where [reg_mask]: "RCC_CCIPR_RNGSEL_0 = push_bit 30 0x1"
definition RCC_CCIPR_RNGSEL_1 :: u32 where [reg_mask]: "RCC_CCIPR_RNGSEL_1 = push_bit 30 0x2"
definition RCC_BDCR_RTCSEL_0 :: u32 where [reg_mask]: "RCC_BDCR_RTCSEL_0 = push_bit 8 0x1"
definition RCC_BDCR_RTCSEL_1 :: u32 where [reg_mask]: "RCC_BDCR_RTCSEL_1 = push_bit 8 0x2"
definition RCC_PLLCFGR_PLLSRC_0 :: u32 where [reg_mask]: "RCC_PLLCFGR_PLLSRC_0 = push_bit 0 0x1"
definition RCC_PLLCFGR_PLLSRC_1 :: u32 where [reg_mask]: "RCC_PLLCFGR_PLLSRC_1 = push_bit 0 0x2"
definition RCC_PLLCFGR_PLLM_0 :: u32 where
  [reg_mask]: "RCC_PLLCFGR_PLLM_0 = push_bit RCC_PLLCFGR_PLLM_Pos 0x1"
definition RCC_PLLCFGR_PLLM_1 :: u32 where
  [reg_mask]: "RCC_PLLCFGR_PLLM_1 = push_bit RCC_PLLCFGR_PLLM_Pos 0x2"
definition RCC_PLLCFGR_PLLM_2 :: u32 where
  [reg_mask]: "RCC_PLLCFGR_PLLM_2 = push_bit RCC_PLLCFGR_PLLM_Pos 0x4"
definition RCC_PLLCFGR_PLLR_0 :: u32 where
  [reg_mask]: "RCC_PLLCFGR_PLLR_0 = push_bit RCC_PLLCFGR_PLLR_Pos 0x1"
definition RCC_PLLCFGR_PLLR_1 :: u32 where
  [reg_mask]: "RCC_PLLCFGR_PLLR_1 = push_bit RCC_PLLCFGR_PLLR_Pos 0x2"
definition RCC_PLLCFGR_PLLR_2 :: u32 where
  [reg_mask]: "RCC_PLLCFGR_PLLR_2 = push_bit RCC_PLLCFGR_PLLR_Pos 0x4"
definition RCC_PLLCFGR_PLLP_0 :: u32 where
  [reg_mask]: "RCC_PLLCFGR_PLLP_0 = push_bit RCC_PLLCFGR_PLLP_Pos 0x01"
definition RCC_PLLCFGR_PLLP_1 :: u32 where
  [reg_mask]: "RCC_PLLCFGR_PLLP_1 = push_bit RCC_PLLCFGR_PLLP_Pos 0x02"
definition RCC_PLLCFGR_PLLQ_0 :: u32 where
  [reg_mask]: "RCC_PLLCFGR_PLLQ_0 = push_bit RCC_PLLCFGR_PLLQ_Pos 0x1"
definition RCC_PLLCFGR_PLLQ_1 :: u32 where
  [reg_mask]: "RCC_PLLCFGR_PLLQ_1 = push_bit RCC_PLLCFGR_PLLQ_Pos 0x2"
definition RCC_AHB1ENR_DMA1EN :: u32 where [reg_mask]: "RCC_AHB1ENR_DMA1EN = push_bit 0 0x1"
definition RCC_AHB1ENR_DMA2EN :: u32 where [reg_mask]: "RCC_AHB1ENR_DMA2EN = push_bit 1 0x1"
definition RCC_AHB1ENR_DMAMUX1EN :: u32 where [reg_mask]: "RCC_AHB1ENR_DMAMUX1EN = push_bit 2 0x1"
definition RCC_AHB1ENR_CRCEN :: u32 where [reg_mask]: "RCC_AHB1ENR_CRCEN = push_bit 12 0x1"
definition RCC_AHB2ENR_GPIOAEN :: u32 where [reg_mask]: "RCC_AHB2ENR_GPIOAEN = push_bit 0 0x1"
definition RCC_AHB2ENR_GPIOBEN :: u32 where [reg_mask]: "RCC_AHB2ENR_GPIOBEN = push_bit 1 0x1"
definition RCC_AHB2ENR_GPIOCEN :: u32 where [reg_mask]: "RCC_AHB2ENR_GPIOCEN = push_bit 2 0x1"
definition RCC_AHB2ENR_GPIOHEN :: u32 where [reg_mask]: "RCC_AHB2ENR_GPIOHEN = push_bit 7 0x1"
definition RCC_AHB3ENR_PKAEN :: u32 where [reg_mask]: "RCC_AHB3ENR_PKAEN = push_bit 16 0x1"
definition RCC_AHB3ENR_AESEN :: u32 where [reg_mask]: "RCC_AHB3ENR_AESEN = push_bit 17 0x1"
definition RCC_AHB3ENR_RNGEN :: u32 where [reg_mask]: "RCC_AHB3ENR_RNGEN = push_bit 18 0x1"
definition RCC_AHB3ENR_HSEMEN :: u32 where [reg_mask]: "RCC_AHB3ENR_HSEMEN = push_bit 19 0x1"
definition RCC_AHB3ENR_IPCCEN :: u32 where [reg_mask]: "RCC_AHB3ENR_IPCCEN = push_bit 20 0x1"
definition RCC_AHB3SMENR_SRAM1SMEN :: u32 where [reg_mask]: "RCC_AHB3SMENR_SRAM1SMEN = push_bit 23 0x1"
definition RCC_AHB3SMENR_SRAM2SMEN :: u32 where [reg_mask]: "RCC_AHB3SMENR_SRAM2SMEN = push_bit 24 0x1"
definition RCC_AHB3ENR_FLASHEN :: u32 where [reg_mask]: "RCC_AHB3ENR_FLASHEN = push_bit 25 0x1"
definition RCC_APB1ENR1_TIM2EN :: u32 where [reg_mask]: "RCC_APB1ENR1_TIM2EN = push_bit 0 0x1"
definition RCC_APB1ENR1_RTCAPBEN :: u32 where [reg_mask]: "RCC_APB1ENR1_RTCAPBEN = push_bit 10 0x1"
definition RCC_APB1ENR1_WWDGEN :: u32 where [reg_mask]: "RCC_APB1ENR1_WWDGEN = push_bit 11 0x1"
definition RCC_APB1ENR1_SPI2EN :: u32 where [reg_mask]: "RCC_APB1ENR1_SPI2EN = push_bit 14 0x1"
definition RCC_APB1ENR1_USART2EN :: u32 where [reg_mask]: "RCC_APB1ENR1_USART2EN = push_bit 17 0x1"
definition RCC_APB1ENR1_I2C1EN :: u32 where [reg_mask]: "RCC_APB1ENR1_I2C1EN = push_bit 21 0x1"
definition RCC_APB1ENR1_I2C2EN :: u32 where [reg_mask]: "RCC_APB1ENR1_I2C2EN = push_bit 22 0x1"
definition RCC_APB1ENR1_I2C3EN :: u32 where [reg_mask]: "RCC_APB1ENR1_I2C3EN = push_bit 23 0x1"
definition RCC_APB1ENR1_DACEN :: u32 where [reg_mask]: "RCC_APB1ENR1_DACEN = push_bit 29 0x1"
definition RCC_APB1ENR1_LPTIM1EN :: u32 where [reg_mask]: "RCC_APB1ENR1_LPTIM1EN = push_bit 31 0x1"
definition RCC_APB1ENR2_LPUART1EN :: u32 where [reg_mask]: "RCC_APB1ENR2_LPUART1EN = push_bit 0 0x1"
definition RCC_APB1ENR2_LPTIM2EN :: u32 where [reg_mask]: "RCC_APB1ENR2_LPTIM2EN = push_bit 5 0x1"
definition RCC_APB1ENR2_LPTIM3EN :: u32 where [reg_mask]: "RCC_APB1ENR2_LPTIM3EN = push_bit 6 0x1"
definition RCC_APB2ENR_ADCEN :: u32 where [reg_mask]: "RCC_APB2ENR_ADCEN = push_bit 9 0x1"
definition RCC_APB2ENR_TIM1EN :: u32 where [reg_mask]: "RCC_APB2ENR_TIM1EN = push_bit 11 0x1"
definition RCC_APB2ENR_SPI1EN :: u32 where [reg_mask]: "RCC_APB2ENR_SPI1EN = push_bit 12 0x1"
definition RCC_APB2ENR_USART1EN :: u32 where [reg_mask]: "RCC_APB2ENR_USART1EN = push_bit 14 0x1"
definition RCC_APB2ENR_TIM16EN :: u32 where [reg_mask]: "RCC_APB2ENR_TIM16EN = push_bit 17 0x1"
definition RCC_APB2ENR_TIM17EN :: u32 where [reg_mask]: "RCC_APB2ENR_TIM17EN = push_bit 18 0x1"
definition RCC_APB3ENR_SUBGHZSPIEN :: u32 where [reg_mask]: "RCC_APB3ENR_SUBGHZSPIEN = push_bit 0 0x1"
definition RCC_C2AHB1ENR_DMA1EN :: u32 where [reg_mask]: "RCC_C2AHB1ENR_DMA1EN = push_bit 0 0x1"
definition RCC_C2AHB1ENR_DMA2EN :: u32 where [reg_mask]: "RCC_C2AHB1ENR_DMA2EN = push_bit 1 0x1"
definition RCC_C2AHB1ENR_DMAMUX1EN :: u32 where [reg_mask]: "RCC_C2AHB1ENR_DMAMUX1EN = push_bit 2 0x1"
definition RCC_C2AHB1ENR_CRCEN :: u32 where [reg_mask]: "RCC_C2AHB1ENR_CRCEN = push_bit 12 0x1"
definition RCC_C2AHB2ENR_GPIOAEN :: u32 where [reg_mask]: "RCC_C2AHB2ENR_GPIOAEN = push_bit 0 0x1"
definition RCC_C2AHB2ENR_GPIOBEN :: u32 where [reg_mask]: "RCC_C2AHB2ENR_GPIOBEN = push_bit 1 0x1"
definition RCC_C2AHB2ENR_GPIOCEN :: u32 where [reg_mask]: "RCC_C2AHB2ENR_GPIOCEN = push_bit 2 0x1"
definition RCC_C2AHB2ENR_GPIOHEN :: u32 where [reg_mask]: "RCC_C2AHB2ENR_GPIOHEN = push_bit 7 0x1"
definition RCC_C2AHB3ENR_PKAEN :: u32 where [reg_mask]: "RCC_C2AHB3ENR_PKAEN = push_bit 16 0x1"
definition RCC_C2AHB3ENR_AESEN :: u32 where [reg_mask]: "RCC_C2AHB3ENR_AESEN = push_bit 17 0x1"
definition RCC_C2AHB3ENR_RNGEN :: u32 where [reg_mask]: "RCC_C2AHB3ENR_RNGEN = push_bit 18 0x1"
definition RCC_C2AHB3ENR_HSEMEN :: u32 where [reg_mask]: "RCC_C2AHB3ENR_HSEMEN = push_bit 19 0x1"
definition RCC_C2AHB3ENR_IPCCEN :: u32 where [reg_mask]: "RCC_C2AHB3ENR_IPCCEN = push_bit 20 0x1"
definition RCC_C2AHB3ENR_FLASHEN :: u32 where [reg_mask]: "RCC_C2AHB3ENR_FLASHEN = push_bit 25 0x1"
definition RCC_C2AHB3SMENR_SRAM1SMEN :: u32 where [reg_mask]: "RCC_C2AHB3SMENR_SRAM1SMEN = push_bit 23 0x1"
definition RCC_C2AHB3SMENR_SRAM2SMEN :: u32 where [reg_mask]: "RCC_C2AHB3SMENR_SRAM2SMEN = push_bit 24 0x1"
definition RCC_C2APB1ENR1_TIM2EN :: u32 where [reg_mask]: "RCC_C2APB1ENR1_TIM2EN = push_bit 0 0x1"
definition RCC_C2APB1ENR1_RTCAPBEN :: u32 where [reg_mask]: "RCC_C2APB1ENR1_RTCAPBEN = push_bit 10 0x1"
definition RCC_C2APB1ENR1_SPI2EN :: u32 where [reg_mask]: "RCC_C2APB1ENR1_SPI2EN = push_bit 14 0x1"
definition RCC_C2APB1ENR1_USART2EN :: u32 where [reg_mask]: "RCC_C2APB1ENR1_USART2EN = push_bit 17 0x1"
definition RCC_C2APB1ENR1_I2C1EN :: u32 where [reg_mask]: "RCC_C2APB1ENR1_I2C1EN = push_bit 21 0x1"
definition RCC_C2APB1ENR1_I2C2EN :: u32 where [reg_mask]: "RCC_C2APB1ENR1_I2C2EN = push_bit 22 0x1"
definition RCC_C2APB1ENR1_I2C3EN :: u32 where [reg_mask]: "RCC_C2APB1ENR1_I2C3EN = push_bit 23 0x1"
definition RCC_C2APB1ENR1_DACEN :: u32 where [reg_mask]: "RCC_C2APB1ENR1_DACEN = push_bit 29 0x1"
definition RCC_C2APB1ENR1_LPTIM1EN :: u32 where [reg_mask]: "RCC_C2APB1ENR1_LPTIM1EN = push_bit 31 0x1"
definition RCC_C2APB1ENR2_LPUART1EN :: u32 where [reg_mask]: "RCC_C2APB1ENR2_LPUART1EN = push_bit 0 0x1"
definition RCC_C2APB1ENR2_LPTIM2EN :: u32 where [reg_mask]: "RCC_C2APB1ENR2_LPTIM2EN = push_bit 5 0x1"
definition RCC_C2APB1ENR2_LPTIM3EN :: u32 where [reg_mask]: "RCC_C2APB1ENR2_LPTIM3EN = push_bit 6 0x1"
definition RCC_C2APB2ENR_ADCEN :: u32 where [reg_mask]: "RCC_C2APB2ENR_ADCEN = push_bit 9 0x1"
definition RCC_C2APB2ENR_TIM1EN :: u32 where [reg_mask]: "RCC_C2APB2ENR_TIM1EN = push_bit 11 0x1"
definition RCC_C2APB2ENR_SPI1EN :: u32 where [reg_mask]: "RCC_C2APB2ENR_SPI1EN = push_bit 12 0x1"
definition RCC_C2APB2ENR_USART1EN :: u32 where [reg_mask]: "RCC_C2APB2ENR_USART1EN = push_bit 14 0x1"
definition RCC_C2APB2ENR_TIM16EN :: u32 where [reg_mask]: "RCC_C2APB2ENR_TIM16EN = push_bit 17 0x1"
definition RCC_C2APB2ENR_TIM17EN :: u32 where [reg_mask]: "RCC_C2APB2ENR_TIM17EN = push_bit 18 0x1"
definition RCC_C2APB3ENR_SUBGHZSPIEN :: u32 where [reg_mask]: "RCC_C2APB3ENR_SUBGHZSPIEN = push_bit 0 0x1"
definition EXTI_IMR1_IM0 :: u32 where [reg_mask]: "EXTI_IMR1_IM0 = push_bit 0 0x1"
definition EXTI_IMR1_IM1 :: u32 where [reg_mask]: "EXTI_IMR1_IM1 = push_bit 1 0x1"
definition EXTI_IMR1_IM2 :: u32 where [reg_mask]: "EXTI_IMR1_IM2 = push_bit 2 0x1"
definition EXTI_IMR1_IM3 :: u32 where [reg_mask]: "EXTI_IMR1_IM3 = push_bit 3 0x1"
definition EXTI_IMR1_IM4 :: u32 where [reg_mask]: "EXTI_IMR1_IM4 = push_bit 4 0x1"
definition EXTI_IMR1_IM5 :: u32 where [reg_mask]: "EXTI_IMR1_IM5 = push_bit 5 0x1"
definition EXTI_IMR1_IM6 :: u32 where [reg_mask]: "EXTI_IMR1_IM6 = push_bit 6 0x1"
definition EXTI_IMR1_IM7 :: u32 where [reg_mask]: "EXTI_IMR1_IM7 = push_bit 7 0x1"
definition EXTI_IMR1_IM8 :: u32 where [reg_mask]: "EXTI_IMR1_IM8 = push_bit 8 0x1"
definition EXTI_IMR1_IM9 :: u32 where [reg_mask]: "EXTI_IMR1_IM9 = push_bit 9 0x1"
definition EXTI_IMR1_IM10 :: u32 where [reg_mask]: "EXTI_IMR1_IM10 = push_bit 10 0x1"
definition EXTI_IMR1_IM11 :: u32 where [reg_mask]: "EXTI_IMR1_IM11 = push_bit 11 0x1"
definition EXTI_IMR1_IM12 :: u32 where [reg_mask]: "EXTI_IMR1_IM12 = push_bit 12 0x1"
definition EXTI_IMR1_IM13 :: u32 where [reg_mask]: "EXTI_IMR1_IM13 = push_bit 13 0x1"
definition EXTI_IMR1_IM14 :: u32 where [reg_mask]: "EXTI_IMR1_IM14 = push_bit 14 0x1"
definition EXTI_IMR1_IM15 :: u32 where [reg_mask]: "EXTI_IMR1_IM15 = push_bit 15 0x1"
definition EXTI_IMR1_IM16 :: u32 where [reg_mask]: "EXTI_IMR1_IM16 = push_bit 16 0x1"
definition EXTI_IMR1_IM17 :: u32 where [reg_mask]: "EXTI_IMR1_IM17 = push_bit 17 0x1"
definition EXTI_IMR1_IM18 :: u32 where [reg_mask]: "EXTI_IMR1_IM18 = push_bit 18 0x1"
definition EXTI_IMR1_IM19 :: u32 where [reg_mask]: "EXTI_IMR1_IM19 = push_bit 19 0x1"
definition EXTI_IMR1_IM20 :: u32 where [reg_mask]: "EXTI_IMR1_IM20 = push_bit 20 0x1"
definition EXTI_IMR1_IM21 :: u32 where [reg_mask]: "EXTI_IMR1_IM21 = push_bit 21 0x1"
definition EXTI_IMR1_IM22 :: u32 where [reg_mask]: "EXTI_IMR1_IM22 = push_bit 22 0x1"
definition EXTI_IMR1_IM23 :: u32 where [reg_mask]: "EXTI_IMR1_IM23 = push_bit 23 0x1"
definition EXTI_IMR1_IM24 :: u32 where [reg_mask]: "EXTI_IMR1_IM24 = push_bit 24 0x1"
definition EXTI_IMR1_IM25 :: u32 where [reg_mask]: "EXTI_IMR1_IM25 = push_bit 25 0x1"
definition EXTI_IMR1_IM26 :: u32 where [reg_mask]: "EXTI_IMR1_IM26 = push_bit 26 0x1"
definition EXTI_IMR1_IM27 :: u32 where [reg_mask]: "EXTI_IMR1_IM27 = push_bit 27 0x1"
definition EXTI_IMR1_IM28 :: u32 where [reg_mask]: "EXTI_IMR1_IM28 = push_bit 28 0x1"
definition EXTI_IMR1_IM29 :: u32 where [reg_mask]: "EXTI_IMR1_IM29 = push_bit 29 0x1"
definition EXTI_IMR1_IM30 :: u32 where [reg_mask]: "EXTI_IMR1_IM30 = push_bit 30 0x1"
definition EXTI_IMR1_IM31 :: u32 where [reg_mask]: "EXTI_IMR1_IM31 = push_bit 31 0x1"
definition EXTI_IMR2_IM34 :: u32 where [reg_mask]: "EXTI_IMR2_IM34 = push_bit 2 0x1"
definition EXTI_IMR2_IM36 :: u32 where [reg_mask]: "EXTI_IMR2_IM36 = push_bit 4 0x1"
definition EXTI_IMR2_IM37 :: u32 where [reg_mask]: "EXTI_IMR2_IM37 = push_bit 5 0x1"
definition EXTI_IMR2_IM38 :: u32 where [reg_mask]: "EXTI_IMR2_IM38 = push_bit 6 0x1"
definition EXTI_IMR2_IM39 :: u32 where [reg_mask]: "EXTI_IMR2_IM39 = push_bit 7 0x1"
definition EXTI_IMR2_IM40 :: u32 where [reg_mask]: "EXTI_IMR2_IM40 = push_bit 8 0x1"
definition EXTI_IMR2_IM41 :: u32 where [reg_mask]: "EXTI_IMR2_IM41 = push_bit 9 0x1"
definition EXTI_IMR2_IM42 :: u32 where [reg_mask]: "EXTI_IMR2_IM42 = push_bit 10 0x1"
definition EXTI_IMR2_IM43 :: u32 where [reg_mask]: "EXTI_IMR2_IM43 = push_bit 11 0x1"
definition EXTI_IMR2_IM44 :: u32 where [reg_mask]: "EXTI_IMR2_IM44 = push_bit 12 0x1"
definition EXTI_IMR2_IM45 :: u32 where [reg_mask]: "EXTI_IMR2_IM45 = push_bit 13 0x1"
definition EXTI_IMR2_IM46 :: u32 where [reg_mask]: "EXTI_IMR2_IM46 = push_bit 14 0x1"
definition DMA_CCR_PSIZE_0 :: u32 where [reg_mask]: "DMA_CCR_PSIZE_0 = push_bit 8 0x1"
definition DMA_CCR_PSIZE_1 :: u32 where [reg_mask]: "DMA_CCR_PSIZE_1 = push_bit 8 0x2"
definition DMA_CCR_MSIZE_0 :: u32 where [reg_mask]: "DMA_CCR_MSIZE_0 = push_bit 10 0x1"
definition DMA_CCR_MSIZE_1 :: u32 where [reg_mask]: "DMA_CCR_MSIZE_1 = push_bit 10 0x2"
definition DMA_CCR_PL_0 :: u32 where [reg_mask]: "DMA_CCR_PL_0 = push_bit 12 0x1"
definition DMA_CCR_PL_1 :: u32 where [reg_mask]: "DMA_CCR_PL_1 = push_bit 12 0x2"

section \<open>Registers\<close>

definition RCC_CR :: u32 where [reg_addr]: "RCC_CR = RCC_BASE + 0x000"
definition RCC_ICSCR :: u32 where [reg_addr]: "RCC_ICSCR = RCC_BASE + 0x004"
definition RCC_BDCR :: u32 where [reg_addr]: "RCC_BDCR = RCC_BASE + 0x090"
definition RCC_CSR :: u32 where [reg_addr]: "RCC_CSR = RCC_BASE + 0x094"
definition RCC_CFGR :: u32 where [reg_addr]: "RCC_CFGR = RCC_BASE + 0x008"
definition RCC_EXTCFGR :: u32 where [reg_addr]: "RCC_EXTCFGR = RCC_BASE + 0x108"
definition RCC_CCIPR :: u32 where [reg_addr]: "RCC_CCIPR = RCC_BASE + 0x088"
definition RCC_PLLCFGR :: u32 where [reg_addr]: "RCC_PLLCFGR = RCC_BASE + 0x00C"
definition RCC_CICR :: u32 where [reg_addr]: "RCC_CICR = RCC_BASE + 0x020"
definition RCC_CIFR :: u32 where [reg_addr]: "RCC_CIFR = RCC_BASE + 0x01C"
definition RCC_CIER :: u32 where [reg_addr]: "RCC_CIER = RCC_BASE + 0x018"
definition RCC_AHB1ENR :: u32 where [reg_addr]: "RCC_AHB1ENR = RCC_BASE + 0x048"
definition RCC_AHB1RSTR :: u32 where [reg_addr]: "RCC_AHB1RSTR = RCC_BASE + 0x028"
definition RCC_AHB1SMENR :: u32 where [reg_addr]: "RCC_AHB1SMENR = RCC_BASE + 0x068"
definition RCC_AHB2ENR :: u32 where [reg_addr]: "RCC_AHB2ENR = RCC_BASE + 0x04C"
definition RCC_AHB2RSTR :: u32 where [reg_addr]: "RCC_AHB2RSTR = RCC_BASE + 0x02C"
definition RCC_AHB2SMENR :: u32 where [reg_addr]: "RCC_AHB2SMENR = RCC_BASE + 0x06C"
definition RCC_AHB3ENR :: u32 where [reg_addr]: "RCC_AHB3ENR = RCC_BASE + 0x050"
definition RCC_AHB3RSTR :: u32 where [reg_addr]: "RCC_AHB3RSTR = RCC_BASE + 0x030"
definition RCC_AHB3SMENR :: u32 where [reg_addr]: "RCC_AHB3SMENR = RCC_BASE + 0x070"
definition RCC_APB1ENR1 :: u32 where [reg_addr]: "RCC_APB1ENR1 = RCC_BASE + 0x058"
definition RCC_APB1ENR2 :: u32 where [reg_addr]: "RCC_APB1ENR2 = RCC_BASE + 0x05C"
definition RCC_APB1RSTR1 :: u32 where [reg_addr]: "RCC_APB1RSTR1 = RCC_BASE + 0x038"
definition RCC_APB1RSTR2 :: u32 where [reg_addr]: "RCC_APB1RSTR2 = RCC_BASE + 0x03C"
definition RCC_APB1SMENR1 :: u32 where [reg_addr]: "RCC_APB1SMENR1 = RCC_BASE + 0x078"
definition RCC_APB1SMENR2 :: u32 where [reg_addr]: "RCC_APB1SMENR2 = RCC_BASE + 0x07C"
definition RCC_APB2ENR :: u32 where [reg_addr]: "RCC_APB2ENR = RCC_BASE + 0x060"
definition RCC_APB2SMENR :: u32 where [reg_addr]: "RCC_APB2SMENR = RCC_BASE + 0x080"
definition RCC_APB3ENR :: u32 where [reg_addr]: "RCC_APB3ENR = RCC_BASE + 0x064"
definition RCC_APB3RSTR :: u32 where [reg_addr]: "RCC_APB3RSTR = RCC_BASE + 0x044"
definition RCC_APB3SMENR :: u32 where [reg_addr]: "RCC_APB3SMENR = RCC_BASE + 0x084"
definition RCC_C2AHB1ENR :: u32 where [reg_addr]: "RCC_C2AHB1ENR = RCC_BASE + 0x148"
definition RCC_C2AHB1SMENR :: u32 where [reg_addr]: "RCC_C2AHB1SMENR = RCC_BASE + 0x168"
definition RCC_C2AHB2ENR :: u32 where [reg_addr]: "RCC_C2AHB2ENR = RCC_BASE + 0x14C"
definition RCC_C2AHB2SMENR :: u32 where [reg_addr]: "RCC_C2AHB2SMENR = RCC_BASE + 0x16C"
definition RCC_C2AHB3ENR :: u32 where [reg_addr]: "RCC_C2AHB3ENR = RCC_BASE + 0x150"
definition RCC_C2AHB3SMENR :: u32 where [reg_addr]: "RCC_C2AHB3SMENR = RCC_BASE + 0x170"
definition RCC_C2APB1ENR1 :: u32 where [reg_addr]: "RCC_C2APB1ENR1 = RCC_BASE + 0x158"
definition RCC_C2APB1ENR2 :: u32 where [reg_addr]: "RCC_C2APB1ENR2 = RCC_BASE + 0x15C"
definition RCC_C2APB1SMENR1 :: u32 where [reg_addr]: "RCC_C2APB1SMENR1 = RCC_BASE + 0x178"
definition RCC_C2APB1SMENR2 :: u32 where [reg_addr]: "RCC_C2APB1SMENR2 = RCC_BASE + 0x17C"
definition RCC_C2APB2ENR :: u32 where [reg_addr]: "RCC_C2APB2ENR = RCC_BASE + 0x160"
definition RCC_C2APB2SMENR :: u32 where [reg_addr]: "RCC_C2APB2SMENR = RCC_BASE + 0x180"
definition RCC_C2APB3ENR :: u32 where [reg_addr]: "RCC_C2APB3ENR = RCC_BASE + 0x164"
definition RCC_C2APB3SMENR :: u32 where [reg_addr]: "RCC_C2APB3SMENR = RCC_BASE + 0x184"

definition EXTI_IMR1 :: u32 where [reg_addr]: "EXTI_IMR1 = EXTI_BASE + 0x080"
definition EXTI_C2IMR1 :: u32 where [reg_addr]: "EXTI_C2IMR1 = EXTI_BASE + 0x0C0"
definition EXTI_IMR2 :: u32 where [reg_addr]: "EXTI_IMR2 = EXTI_BASE + 0x090"
definition EXTI_C2IMR2 :: u32 where [reg_addr]: "EXTI_C2IMR2 = EXTI_BASE + 0x0D0"
definition EXTI_EMR1 :: u32 where [reg_addr]: "EXTI_EMR1 = EXTI_BASE + 0x084"
definition EXTI_C2EMR1 :: u32 where [reg_addr]: "EXTI_C2EMR1 = EXTI_BASE + 0x0C4"
definition EXTI_EMR2 :: u32 where [reg_addr]: "EXTI_EMR2 = EXTI_BASE + 0x094"
definition EXTI_C2EMR2 :: u32 where [reg_addr]: "EXTI_C2EMR2 = EXTI_BASE + 0x0D4"
definition EXTI_RTSR1 :: u32 where [reg_addr]: "EXTI_RTSR1 = EXTI_BASE + 0x000"
definition EXTI_RTSR2 :: u32 where [reg_addr]: "EXTI_RTSR2 = EXTI_BASE + 0x020"
definition EXTI_FTSR1 :: u32 where [reg_addr]: "EXTI_FTSR1 = EXTI_BASE + 0x004"
definition EXTI_FTSR2 :: u32 where [reg_addr]: "EXTI_FTSR2 = EXTI_BASE + 0x024"
definition EXTI_SWIER1 :: u32 where [reg_addr]: "EXTI_SWIER1 = EXTI_BASE + 0x008"
definition EXTI_SWIER2 :: u32 where [reg_addr]: "EXTI_SWIER2 = EXTI_BASE + 0x028"
definition EXTI_PR1 :: u32 where [reg_addr]: "EXTI_PR1 = EXTI_BASE + 0x00C"
definition EXTI_PR2 :: u32 where [reg_addr]: "EXTI_PR2 = EXTI_BASE + 0x02C"

definition DMA_ISR :: u32 where [reg_addr]: "DMA_ISR = 0x00"
definition DMA_IFCR :: u32 where [reg_addr]: "DMA_IFCR = 0x04"

definition DMA_Channel_CCR :: u32 where [reg_addr]: "DMA_Channel_CCR = 0x00"
definition DMA_Channel_CNDTR :: u32 where [reg_addr]: "DMA_Channel_CNDTR = 0x04"
definition DMA_Channel_CMAR :: u32 where [reg_addr]: "DMA_Channel_CMAR = 0x0C"
definition DMA_Channel_CPAR :: u32 where [reg_addr]: "DMA_Channel_CPAR = 0x08"

definition DMAMUX_Channel_CCR :: u32 where [reg_addr]: "DMAMUX_Channel_CCR = 0x00"

end
