(* ===== verification/Ll_Exti.thy ===== *)
theory Ll_Exti
  imports Device_Map
begin

text \<open>
  The accessors of the interrupt controller for external lines (\<^verbatim>\<open>stm32wlxx_ll_exti.h\<close>): masks of interrupts
  and events for both cores, edge triggers, software interrupts and pending flags. The trace driver of the
  example firmware enables line 27 through them. The masks and triggers are
  sets of lines, independent of each other; the pending flags are plain words.
\<close>

section \<open>Constants\<close>

definition LL_EXTI_LINE_0 :: u32 where [reg_mask]: "LL_EXTI_LINE_0 = EXTI_IMR1_IM0"
definition LL_EXTI_LINE_1 :: u32 where [reg_mask]: "LL_EXTI_LINE_1 = EXTI_IMR1_IM1"
definition LL_EXTI_LINE_2 :: u32 where [reg_mask]: "LL_EXTI_LINE_2 = EXTI_IMR1_IM2"
definition LL_EXTI_LINE_3 :: u32 where [reg_mask]: "LL_EXTI_LINE_3 = EXTI_IMR1_IM3"
definition LL_EXTI_LINE_4 :: u32 where [reg_mask]: "LL_EXTI_LINE_4 = EXTI_IMR1_IM4"
definition LL_EXTI_LINE_5 :: u32 where [reg_mask]: "LL_EXTI_LINE_5 = EXTI_IMR1_IM5"
definition LL_EXTI_LINE_6 :: u32 where [reg_mask]: "LL_EXTI_LINE_6 = EXTI_IMR1_IM6"
definition LL_EXTI_LINE_7 :: u32 where [reg_mask]: "LL_EXTI_LINE_7 = EXTI_IMR1_IM7"
definition LL_EXTI_LINE_8 :: u32 where [reg_mask]: "LL_EXTI_LINE_8 = EXTI_IMR1_IM8"
definition LL_EXTI_LINE_9 :: u32 where [reg_mask]: "LL_EXTI_LINE_9 = EXTI_IMR1_IM9"
definition LL_EXTI_LINE_10 :: u32 where [reg_mask]: "LL_EXTI_LINE_10 = EXTI_IMR1_IM10"
definition LL_EXTI_LINE_11 :: u32 where [reg_mask]: "LL_EXTI_LINE_11 = EXTI_IMR1_IM11"
definition LL_EXTI_LINE_12 :: u32 where [reg_mask]: "LL_EXTI_LINE_12 = EXTI_IMR1_IM12"
definition LL_EXTI_LINE_13 :: u32 where [reg_mask]: "LL_EXTI_LINE_13 = EXTI_IMR1_IM13"
definition LL_EXTI_LINE_14 :: u32 where [reg_mask]: "LL_EXTI_LINE_14 = EXTI_IMR1_IM14"
definition LL_EXTI_LINE_15 :: u32 where [reg_mask]: "LL_EXTI_LINE_15 = EXTI_IMR1_IM15"
definition LL_EXTI_LINE_16 :: u32 where [reg_mask]: "LL_EXTI_LINE_16 = EXTI_IMR1_IM16"
definition LL_EXTI_LINE_17 :: u32 where [reg_mask]: "LL_EXTI_LINE_17 = EXTI_IMR1_IM17"
definition LL_EXTI_LINE_18 :: u32 where [reg_mask]: "LL_EXTI_LINE_18 = EXTI_IMR1_IM18"
definition LL_EXTI_LINE_19 :: u32 where [reg_mask]: "LL_EXTI_LINE_19 = EXTI_IMR1_IM19"
definition LL_EXTI_LINE_20 :: u32 where [reg_mask]: "LL_EXTI_LINE_20 = EXTI_IMR1_IM20"
definition LL_EXTI_LINE_21 :: u32 where [reg_mask]: "LL_EXTI_LINE_21 = EXTI_IMR1_IM21"
definition LL_EXTI_LINE_22 :: u32 where [reg_mask]: "LL_EXTI_LINE_22 = EXTI_IMR1_IM22"
definition LL_EXTI_LINE_23 :: u32 where [reg_mask]: "LL_EXTI_LINE_23 = EXTI_IMR1_IM23"
definition LL_EXTI_LINE_24 :: u32 where [reg_mask]: "LL_EXTI_LINE_24 = EXTI_IMR1_IM24"
definition LL_EXTI_LINE_25 :: u32 where [reg_mask]: "LL_EXTI_LINE_25 = EXTI_IMR1_IM25"
definition LL_EXTI_LINE_26 :: u32 where [reg_mask]: "LL_EXTI_LINE_26 = EXTI_IMR1_IM26"
definition LL_EXTI_LINE_27 :: u32 where [reg_mask]: "LL_EXTI_LINE_27 = EXTI_IMR1_IM27"
definition LL_EXTI_LINE_28 :: u32 where [reg_mask]: "LL_EXTI_LINE_28 = EXTI_IMR1_IM28"
definition LL_EXTI_LINE_29 :: u32 where [reg_mask]: "LL_EXTI_LINE_29 = EXTI_IMR1_IM29"
definition LL_EXTI_LINE_30 :: u32 where [reg_mask]: "LL_EXTI_LINE_30 = EXTI_IMR1_IM30"
definition LL_EXTI_LINE_31 :: u32 where [reg_mask]: "LL_EXTI_LINE_31 = EXTI_IMR1_IM31"
definition LL_EXTI_LINE_ALL_0_31 :: u32 where [reg_mask]: "LL_EXTI_LINE_ALL_0_31 = 0xFFFFFFFF"
definition LL_EXTI_LINE_34 :: u32 where [reg_mask]: "LL_EXTI_LINE_34 = EXTI_IMR2_IM34"
definition LL_EXTI_LINE_36 :: u32 where [reg_mask]: "LL_EXTI_LINE_36 = EXTI_IMR2_IM36"
definition LL_EXTI_LINE_37 :: u32 where [reg_mask]: "LL_EXTI_LINE_37 = EXTI_IMR2_IM37"
definition LL_EXTI_LINE_38 :: u32 where [reg_mask]: "LL_EXTI_LINE_38 = EXTI_IMR2_IM38"
definition LL_EXTI_LINE_39 :: u32 where [reg_mask]: "LL_EXTI_LINE_39 = EXTI_IMR2_IM39"
definition LL_EXTI_LINE_40 :: u32 where [reg_mask]: "LL_EXTI_LINE_40 = EXTI_IMR2_IM40"
definition LL_EXTI_LINE_41 :: u32 where [reg_mask]: "LL_EXTI_LINE_41 = EXTI_IMR2_IM41"
definition LL_EXTI_LINE_42 :: u32 where [reg_mask]: "LL_EXTI_LINE_42 = EXTI_IMR2_IM42"
definition LL_EXTI_LINE_43 :: u32 where [reg_mask]: "LL_EXTI_LINE_43 = EXTI_IMR2_IM43"
definition LL_EXTI_LINE_44 :: u32 where [reg_mask]: "LL_EXTI_LINE_44 = EXTI_IMR2_IM44"
definition LL_EXTI_LINE_45 :: u32 where [reg_mask]: "LL_EXTI_LINE_45 = EXTI_IMR2_IM45"
definition LL_EXTI_LINE_46 :: u32 where [reg_mask]: "LL_EXTI_LINE_46 = EXTI_IMR2_IM46"
definition LL_EXTI_LINE_ALL_32_63 :: u32 where
  [reg_mask]: "LL_EXTI_LINE_ALL_32_63 = EXTI_IMR2_IM34 OR EXTI_IMR2_IM36 OR EXTI_IMR2_IM37 OR EXTI_IMR2_IM38 OR EXTI_IMR2_IM39 OR
        EXTI_IMR2_IM40 OR EXTI_IMR2_IM41 OR EXTI_IMR2_IM42 OR EXTI_IMR2_IM43 OR EXTI_IMR2_IM44 OR
        EXTI_IMR2_IM45 OR EXTI_IMR2_IM46"

section \<open>Accessors\<close>

definition LL_EXTI_EnableIT_0_31 :: "u32 \<Rightarrow> regs \<Rightarrow> regs" where
  [ll_def]: "LL_EXTI_EnableIT_0_31 ExtiLine r = SET_BIT EXTI_IMR1 ExtiLine r"

definition LL_C2_EXTI_EnableIT_0_31 :: "u32 \<Rightarrow> regs \<Rightarrow> regs" where
  [ll_def]: "LL_C2_EXTI_EnableIT_0_31 ExtiLine r = SET_BIT EXTI_C2IMR1 ExtiLine r"

definition LL_EXTI_EnableIT_32_63 :: "u32 \<Rightarrow> regs \<Rightarrow> regs" where
  [ll_def]: "LL_EXTI_EnableIT_32_63 ExtiLine r = SET_BIT EXTI_IMR2 ExtiLine r"

definition LL_C2_EXTI_EnableIT_32_63 :: "u32 \<Rightarrow> regs \<Rightarrow> regs" where
  [ll_def]: "LL_C2_EXTI_EnableIT_32_63 ExtiLine r = SET_BIT EXTI_C2IMR2 ExtiLine r"

definition LL_EXTI_DisableIT_0_31 :: "u32 \<Rightarrow> regs \<Rightarrow> regs" where
  [ll_def]: "LL_EXTI_DisableIT_0_31 ExtiLine r = CLEAR_BIT EXTI_IMR1 ExtiLine r"

definition LL_C2_EXTI_DisableIT_0_31 :: "u32 \<Rightarrow> regs \<Rightarrow> regs" where
  [ll_def]: "LL_C2_EXTI_DisableIT_0_31 ExtiLine r = CLEAR_BIT EXTI_C2IMR1 ExtiLine r"

definition LL_EXTI_DisableIT_32_63 :: "u32 \<Rightarrow> regs \<Rightarrow> regs" where
  [ll_def]: "LL_EXTI_DisableIT_32_63 ExtiLine r = CLEAR_BIT EXTI_IMR2 ExtiLine r"

definition LL_C2_EXTI_DisableIT_32_63 :: "u32 \<Rightarrow> regs \<Rightarrow> regs" where
  [ll_def]: "LL_C2_EXTI_DisableIT_32_63 ExtiLine r = CLEAR_BIT EXTI_C2IMR2 ExtiLine r"

definition LL_EXTI_IsEnabledIT_0_31 :: "u32 \<Rightarrow> regs \<Rightarrow> u32" where
  [ll_def]: "LL_EXTI_IsEnabledIT_0_31 ExtiLine r =
     (if READ_BIT EXTI_IMR1 ExtiLine r = ExtiLine then 1 else 0)"

definition LL_C2_EXTI_IsEnabledIT_0_31 :: "u32 \<Rightarrow> regs \<Rightarrow> u32" where
  [ll_def]: "LL_C2_EXTI_IsEnabledIT_0_31 ExtiLine r =
     (if READ_BIT EXTI_C2IMR1 ExtiLine r = ExtiLine then 1 else 0)"

definition LL_EXTI_IsEnabledIT_32_63 :: "u32 \<Rightarrow> regs \<Rightarrow> u32" where
  [ll_def]: "LL_EXTI_IsEnabledIT_32_63 ExtiLine r =
     (if READ_BIT EXTI_IMR2 ExtiLine r = ExtiLine then 1 else 0)"

definition LL_C2_EXTI_IsEnabledIT_32_63 :: "u32 \<Rightarrow> regs \<Rightarrow> u32" where
  [ll_def]: "LL_C2_EXTI_IsEnabledIT_32_63 ExtiLine r =
     (if READ_BIT EXTI_C2IMR2 ExtiLine r = ExtiLine then 1 else 0)"

definition LL_EXTI_EnableEvent_0_31 :: "u32 \<Rightarrow> regs \<Rightarrow> regs" where
  [ll_def]: "LL_EXTI_EnableEvent_0_31 ExtiLine r = SET_BIT EXTI_EMR1 ExtiLine r"

definition LL_C2_EXTI_EnableEvent_0_31 :: "u32 \<Rightarrow> regs \<Rightarrow> regs" where
  [ll_def]: "LL_C2_EXTI_EnableEvent_0_31 ExtiLine r = SET_BIT EXTI_C2EMR1 ExtiLine r"

definition LL_EXTI_EnableEvent_32_63 :: "u32 \<Rightarrow> regs \<Rightarrow> regs" where
  [ll_def]: "LL_EXTI_EnableEvent_32_63 ExtiLine r = SET_BIT EXTI_EMR2 ExtiLine r"

definition LL_C2_EXTI_EnableEvent_32_63 :: "u32 \<Rightarrow> regs \<Rightarrow> regs" where
  [ll_def]: "LL_C2_EXTI_EnableEvent_32_63 ExtiLine r = SET_BIT EXTI_C2EMR2 ExtiLine r"

definition LL_EXTI_DisableEvent_0_31 :: "u32 \<Rightarrow> regs \<Rightarrow> regs" where
  [ll_def]: "LL_EXTI_DisableEvent_0_31 ExtiLine r = CLEAR_BIT EXTI_EMR1 ExtiLine r"

definition LL_C2_EXTI_DisableEvent_0_31 :: "u32 \<Rightarrow> regs \<Rightarrow> regs" where
  [ll_def]: "LL_C2_EXTI_DisableEvent_0_31 ExtiLine r = CLEAR_BIT EXTI_C2EMR1 ExtiLine r"

definition LL_EXTI_DisableEvent_32_63 :: "u32 \<Rightarrow> regs \<Rightarrow> regs" where
  [ll_def]: "LL_EXTI_DisableEvent_32_63 ExtiLine r = CLEAR_BIT EXTI_EMR2 ExtiLine r"

definition LL_C2_EXTI_DisableEvent_32_63 :: "u32 \<Rightarrow> regs \<Rightarrow> regs" where
  [ll_def]: "LL_C2_EXTI_DisableEvent_32_63 ExtiLine r = CLEAR_BIT EXTI_C2EMR2 ExtiLine r"

definition LL_EXTI_IsEnabledEvent_0_31 :: "u32 \<Rightarrow> regs \<Rightarrow> u32" where
  [ll_def]: "LL_EXTI_IsEnabledEvent_0_31 ExtiLine r =
     (if READ_BIT EXTI_EMR1 ExtiLine r = ExtiLine then 1 else 0)"

definition LL_C2_EXTI_IsEnabledEvent_0_31 :: "u32 \<Rightarrow> regs \<Rightarrow> u32" where
  [ll_def]: "LL_C2_EXTI_IsEnabledEvent_0_31 ExtiLine r =
     (if READ_BIT EXTI_C2EMR1 ExtiLine r = ExtiLine then 1 else 0)"

definition LL_EXTI_IsEnabledEvent_32_63 :: "u32 \<Rightarrow> regs \<Rightarrow> u32" where
  [ll_def]: "LL_EXTI_IsEnabledEvent_32_63 ExtiLine r =
     (if READ_BIT EXTI_EMR2 ExtiLine r = ExtiLine then 1 else 0)"

definition LL_C2_EXTI_IsEnabledEvent_32_63 :: "u32 \<Rightarrow> regs \<Rightarrow> u32" where
  [ll_def]: "LL_C2_EXTI_IsEnabledEvent_32_63 ExtiLine r =
     (if READ_BIT EXTI_C2EMR2 ExtiLine r = ExtiLine then 1 else 0)"

definition LL_EXTI_EnableRisingTrig_0_31 :: "u32 \<Rightarrow> regs \<Rightarrow> regs" where
  [ll_def]: "LL_EXTI_EnableRisingTrig_0_31 ExtiLine r = SET_BIT EXTI_RTSR1 ExtiLine r"

definition LL_EXTI_EnableRisingTrig_32_63 :: "u32 \<Rightarrow> regs \<Rightarrow> regs" where
  [ll_def]: "LL_EXTI_EnableRisingTrig_32_63 ExtiLine r = SET_BIT EXTI_RTSR2 ExtiLine r"

definition LL_EXTI_DisableRisingTrig_0_31 :: "u32 \<Rightarrow> regs \<Rightarrow> regs" where
  [ll_def]: "LL_EXTI_DisableRisingTrig_0_31 ExtiLine r = CLEAR_BIT EXTI_RTSR1 ExtiLine r"

definition LL_EXTI_DisableRisingTrig_32_63 :: "u32 \<Rightarrow> regs \<Rightarrow> regs" where
  [ll_def]: "LL_EXTI_DisableRisingTrig_32_63 ExtiLine r = CLEAR_BIT EXTI_RTSR2 ExtiLine r"

definition LL_EXTI_IsEnabledRisingTrig_0_31 :: "u32 \<Rightarrow> regs \<Rightarrow> u32" where
  [ll_def]: "LL_EXTI_IsEnabledRisingTrig_0_31 ExtiLine r =
     (if READ_BIT EXTI_RTSR1 ExtiLine r = ExtiLine then 1 else 0)"

definition LL_EXTI_IsEnabledRisingTrig_32_63 :: "u32 \<Rightarrow> regs \<Rightarrow> u32" where
  [ll_def]: "LL_EXTI_IsEnabledRisingTrig_32_63 ExtiLine r =
     (if READ_BIT EXTI_RTSR2 ExtiLine r = ExtiLine then 1 else 0)"

definition LL_EXTI_EnableFallingTrig_0_31 :: "u32 \<Rightarrow> regs \<Rightarrow> regs" where
  [ll_def]: "LL_EXTI_EnableFallingTrig_0_31 ExtiLine r = SET_BIT EXTI_FTSR1 ExtiLine r"

definition LL_EXTI_EnableFallingTrig_32_63 :: "u32 \<Rightarrow> regs \<Rightarrow> regs" where
  [ll_def]: "LL_EXTI_EnableFallingTrig_32_63 ExtiLine r = SET_BIT EXTI_FTSR2 ExtiLine r"

definition LL_EXTI_DisableFallingTrig_0_31 :: "u32 \<Rightarrow> regs \<Rightarrow> regs" where
  [ll_def]: "LL_EXTI_DisableFallingTrig_0_31 ExtiLine r = CLEAR_BIT EXTI_FTSR1 ExtiLine r"

definition LL_EXTI_DisableFallingTrig_32_63 :: "u32 \<Rightarrow> regs \<Rightarrow> regs" where
  [ll_def]: "LL_EXTI_DisableFallingTrig_32_63 ExtiLine r = CLEAR_BIT EXTI_FTSR2 ExtiLine r"

definition LL_EXTI_IsEnabledFallingTrig_0_31 :: "u32 \<Rightarrow> regs \<Rightarrow> u32" where
  [ll_def]: "LL_EXTI_IsEnabledFallingTrig_0_31 ExtiLine r =
     (if READ_BIT EXTI_FTSR1 ExtiLine r = ExtiLine then 1 else 0)"

definition LL_EXTI_IsEnabledFallingTrig_32_63 :: "u32 \<Rightarrow> regs \<Rightarrow> u32" where
  [ll_def]: "LL_EXTI_IsEnabledFallingTrig_32_63 ExtiLine r =
     (if READ_BIT EXTI_FTSR2 ExtiLine r = ExtiLine then 1 else 0)"

definition LL_EXTI_GenerateSWI_0_31 :: "u32 \<Rightarrow> regs \<Rightarrow> regs" where
  [ll_def]: "LL_EXTI_GenerateSWI_0_31 ExtiLine r = SET_BIT EXTI_SWIER1 ExtiLine r"

definition LL_EXTI_GenerateSWI_32_63 :: "u32 \<Rightarrow> regs \<Rightarrow> regs" where
  [ll_def]: "LL_EXTI_GenerateSWI_32_63 ExtiLine r = SET_BIT EXTI_SWIER2 ExtiLine r"

definition LL_EXTI_IsActiveFlag_0_31 :: "u32 \<Rightarrow> regs \<Rightarrow> u32" where
  [ll_def]: "LL_EXTI_IsActiveFlag_0_31 ExtiLine r =
     (if READ_BIT EXTI_PR1 ExtiLine r = ExtiLine then 1 else 0)"

definition LL_EXTI_IsActiveFlag_32_63 :: "u32 \<Rightarrow> regs \<Rightarrow> u32" where
  [ll_def]: "LL_EXTI_IsActiveFlag_32_63 ExtiLine r =
     (if READ_BIT EXTI_PR2 ExtiLine r = ExtiLine then 1 else 0)"

definition LL_EXTI_ReadFlag_0_31 :: "u32 \<Rightarrow> regs \<Rightarrow> u32" where
  [ll_def]: "LL_EXTI_ReadFlag_0_31 ExtiLine r = READ_BIT EXTI_PR1 ExtiLine r"

definition LL_EXTI_ReadFlag_32_63 :: "u32 \<Rightarrow> regs \<Rightarrow> u32" where
  [ll_def]: "LL_EXTI_ReadFlag_32_63 ExtiLine r = READ_BIT EXTI_PR2 ExtiLine r"

definition LL_EXTI_ClearFlag_0_31 :: "u32 \<Rightarrow> regs \<Rightarrow> regs" where
  [ll_def]: "LL_EXTI_ClearFlag_0_31 ExtiLine r = WRITE_REG EXTI_PR1 ExtiLine r"

definition LL_EXTI_ClearFlag_32_63 :: "u32 \<Rightarrow> regs \<Rightarrow> regs" where
  [ll_def]: "LL_EXTI_ClearFlag_32_63 ExtiLine r = WRITE_REG EXTI_PR2 ExtiLine r"

section \<open>Masks and triggers\<close>

definition exti_masks :: "gate list" where
  "exti_masks =
    [\<lparr>gate_reg = EXTI_IMR1, gate_enable = LL_EXTI_EnableIT_0_31,
       gate_disable = LL_EXTI_DisableIT_0_31, gate_test = LL_EXTI_IsEnabledIT_0_31\<rparr>,
     \<lparr>gate_reg = EXTI_IMR2, gate_enable = LL_EXTI_EnableIT_32_63,
       gate_disable = LL_EXTI_DisableIT_32_63, gate_test = LL_EXTI_IsEnabledIT_32_63\<rparr>,
     \<lparr>gate_reg = EXTI_EMR1, gate_enable = LL_EXTI_EnableEvent_0_31,
       gate_disable = LL_EXTI_DisableEvent_0_31, gate_test = LL_EXTI_IsEnabledEvent_0_31\<rparr>,
     \<lparr>gate_reg = EXTI_EMR2, gate_enable = LL_EXTI_EnableEvent_32_63,
       gate_disable = LL_EXTI_DisableEvent_32_63, gate_test = LL_EXTI_IsEnabledEvent_32_63\<rparr>,
     \<lparr>gate_reg = EXTI_C2IMR1, gate_enable = LL_C2_EXTI_EnableIT_0_31,
       gate_disable = LL_C2_EXTI_DisableIT_0_31, gate_test = LL_C2_EXTI_IsEnabledIT_0_31\<rparr>,
     \<lparr>gate_reg = EXTI_C2IMR2, gate_enable = LL_C2_EXTI_EnableIT_32_63,
       gate_disable = LL_C2_EXTI_DisableIT_32_63, gate_test = LL_C2_EXTI_IsEnabledIT_32_63\<rparr>,
     \<lparr>gate_reg = EXTI_C2EMR1, gate_enable = LL_C2_EXTI_EnableEvent_0_31,
       gate_disable = LL_C2_EXTI_DisableEvent_0_31, gate_test = LL_C2_EXTI_IsEnabledEvent_0_31\<rparr>,
     \<lparr>gate_reg = EXTI_C2EMR2, gate_enable = LL_C2_EXTI_EnableEvent_32_63,
       gate_disable = LL_C2_EXTI_DisableEvent_32_63, gate_test = LL_C2_EXTI_IsEnabledEvent_32_63\<rparr>,
     \<lparr>gate_reg = EXTI_RTSR1, gate_enable = LL_EXTI_EnableRisingTrig_0_31,
       gate_disable = LL_EXTI_DisableRisingTrig_0_31, gate_test = LL_EXTI_IsEnabledRisingTrig_0_31\<rparr>,
     \<lparr>gate_reg = EXTI_RTSR2, gate_enable = LL_EXTI_EnableRisingTrig_32_63,
       gate_disable = LL_EXTI_DisableRisingTrig_32_63, gate_test = LL_EXTI_IsEnabledRisingTrig_32_63\<rparr>,
     \<lparr>gate_reg = EXTI_FTSR1, gate_enable = LL_EXTI_EnableFallingTrig_0_31,
       gate_disable = LL_EXTI_DisableFallingTrig_0_31, gate_test = LL_EXTI_IsEnabledFallingTrig_0_31\<rparr>,
     \<lparr>gate_reg = EXTI_FTSR2, gate_enable = LL_EXTI_EnableFallingTrig_32_63,
       gate_disable = LL_EXTI_DisableFallingTrig_32_63, gate_test = LL_EXTI_IsEnabledFallingTrig_32_63\<rparr>]"

lemma exti_masks_plain: "\<forall>g \<in> set exti_masks. plain_gate g"
  by (simp add: exti_masks_def plain_gate_def ll_def fun_eq_iff)

lemma exti_masks_distinct: "distinct (map gate_reg exti_masks)"
  by (simp add: exti_masks_def reg_addr)

interpretation exti: gate_bank exti_masks
  by unfold_locales (rule exti_masks_plain exti_masks_distinct)+

interpretation interrupts: line_set "\<lambda>r. bits (r EXTI_IMR1)"
  LL_EXTI_EnableIT_0_31 LL_EXTI_DisableIT_0_31 LL_EXTI_IsEnabledIT_0_31
  by unfold_locales (simp_all add: ll_def reg_access bits_and_not and_eq_iff_bits)

text \<open>
  The interrupt lines. Whatever masks and triggers of both cores are enabled and
  disabled in whatever order, the test of each answers 1 exactly when all lines asked for are in the set its own calls
  describe; a software interrupt or a pending flag does not change it.
\<close>

theorem exti_masks_are_sets:
  assumes "i < length exti_masks" and "\<forall>x \<in> set xs. fst x < length exti_masks"
  shows "gate_test (exti_masks ! i) m
      (LL_EXTI_GenerateSWI_0_31 l (LL_EXTI_ClearFlag_0_31 l' (fold (gate_call exti_masks) xs r))) =
    (if bits m \<subseteq> fold line_effect (own_calls i xs) (bits (r (gate_reg (exti_masks ! i)))) then 1 else 0)"
proof -
  have "\<forall>g \<in> set exti_masks. gate_reg g \<noteq> EXTI_SWIER1 \<and> gate_reg g \<noteq> EXTI_PR1"
    by (simp add: exti_masks_def reg_addr)
  then have "gate_reg (exti_masks ! i) \<noteq> EXTI_SWIER1" and "gate_reg (exti_masks ! i) \<noteq> EXTI_PR1"
    using assms(1) by simp_all
  moreover have "plain_gate (exti_masks ! i)"
    using assms(1) exti_masks_plain by simp
  ultimately have "gate_test (exti_masks ! i) m
      (LL_EXTI_GenerateSWI_0_31 l (LL_EXTI_ClearFlag_0_31 l' s)) = gate_test (exti_masks ! i) m s" for s
    by (simp add: plain_gate_def ll_def reg_access)
  then show ?thesis using exti.bank_test [OF assms] by simp
qed

theorem exti_masks_are_sets_witness:
  "gate_test (exti_masks ! 0) LL_EXTI_LINE_27
     (LL_EXTI_GenerateSWI_0_31 1 (LL_EXTI_ClearFlag_0_31 1
       (fold (gate_call exti_masks) [(0, Enable LL_EXTI_LINE_27), (8, Disable LL_EXTI_LINE_27)] (\<lambda>_. 0)))) = 1"
  using exti_masks_are_sets [of 0 "[(0, Enable LL_EXTI_LINE_27), (8, Disable LL_EXTI_LINE_27)]"
      LL_EXTI_LINE_27 1 1 "\<lambda>_. 0"]
  by (simp add: exti_masks_def)

section \<open>Pending flags\<close>

text \<open>
  A flag is cleared on the chip by writing 1 to it. On plain memory the write leaves exactly the
  lines that were to be cleared pending, and drops the others.
\<close>

theorem clear_flag_on_memory:
  "LL_EXTI_ReadFlag_0_31 m (LL_EXTI_ClearFlag_0_31 l r) = l AND m \<and>
   LL_EXTI_IsActiveFlag_0_31 l (LL_EXTI_ClearFlag_0_31 l r) = 1 \<and>
   LL_EXTI_IsActiveFlag_32_63 l (LL_EXTI_ClearFlag_32_63 l r) = 1"
  by (simp add: ll_def reg_access)

end
