(* ===== verification/Ll_Rcc.thy ===== *)
theory Ll_Rcc
  imports Device_Map
begin

text \<open>
  The accessors of the clock controller (\<^verbatim>\<open>stm32wlxx_ll_rcc.h\<close>), the macros that calculate frequencies and
  the tables they index (\<^verbatim>\<open>system_stm32wlxx.c\<close>). The settings of the controller are shown to be
  independent fields that read back, the frequencies to be those the names of the constants promise, and the
  status flags to be out of reach of every accessor.
\<close>

section \<open>Constants\<close>

definition LL_RCC_LSEDRIVE_LOW :: u32 where [reg_mask]: "LL_RCC_LSEDRIVE_LOW = 0x00000000"
definition LL_RCC_LSEDRIVE_MEDIUMLOW :: u32 where [reg_mask]: "LL_RCC_LSEDRIVE_MEDIUMLOW = RCC_BDCR_LSEDRV_0"
definition LL_RCC_LSEDRIVE_MEDIUMHIGH :: u32 where
  [reg_mask]: "LL_RCC_LSEDRIVE_MEDIUMHIGH = RCC_BDCR_LSEDRV_1"
definition LL_RCC_LSEDRIVE_HIGH :: u32 where [reg_mask]: "LL_RCC_LSEDRIVE_HIGH = RCC_BDCR_LSEDRV"
definition LL_RCC_MSIRANGE_0 :: u32 where [reg_mask]: "LL_RCC_MSIRANGE_0 = RCC_CR_MSIRANGE_0"
definition LL_RCC_MSIRANGE_1 :: u32 where [reg_mask]: "LL_RCC_MSIRANGE_1 = RCC_CR_MSIRANGE_1"
definition LL_RCC_MSIRANGE_2 :: u32 where [reg_mask]: "LL_RCC_MSIRANGE_2 = RCC_CR_MSIRANGE_2"
definition LL_RCC_MSIRANGE_3 :: u32 where [reg_mask]: "LL_RCC_MSIRANGE_3 = RCC_CR_MSIRANGE_3"
definition LL_RCC_MSIRANGE_4 :: u32 where [reg_mask]: "LL_RCC_MSIRANGE_4 = RCC_CR_MSIRANGE_4"
definition LL_RCC_MSIRANGE_5 :: u32 where [reg_mask]: "LL_RCC_MSIRANGE_5 = RCC_CR_MSIRANGE_5"
definition LL_RCC_MSIRANGE_6 :: u32 where [reg_mask]: "LL_RCC_MSIRANGE_6 = RCC_CR_MSIRANGE_6"
definition LL_RCC_MSIRANGE_7 :: u32 where [reg_mask]: "LL_RCC_MSIRANGE_7 = RCC_CR_MSIRANGE_7"
definition LL_RCC_MSIRANGE_8 :: u32 where [reg_mask]: "LL_RCC_MSIRANGE_8 = RCC_CR_MSIRANGE_8"
definition LL_RCC_MSIRANGE_9 :: u32 where [reg_mask]: "LL_RCC_MSIRANGE_9 = RCC_CR_MSIRANGE_9"
definition LL_RCC_MSIRANGE_10 :: u32 where [reg_mask]: "LL_RCC_MSIRANGE_10 = RCC_CR_MSIRANGE_10"
definition LL_RCC_MSIRANGE_11 :: u32 where [reg_mask]: "LL_RCC_MSIRANGE_11 = RCC_CR_MSIRANGE_11"
definition LL_RCC_MSISRANGE_4 :: u32 where [reg_mask]: "LL_RCC_MSISRANGE_4 = RCC_CSR_MSISRANGE_1"
definition LL_RCC_MSISRANGE_5 :: u32 where [reg_mask]: "LL_RCC_MSISRANGE_5 = RCC_CSR_MSISRANGE_2"
definition LL_RCC_MSISRANGE_6 :: u32 where [reg_mask]: "LL_RCC_MSISRANGE_6 = RCC_CSR_MSISRANGE_4"
definition LL_RCC_MSISRANGE_7 :: u32 where [reg_mask]: "LL_RCC_MSISRANGE_7 = RCC_CSR_MSISRANGE_8"
definition LL_RCC_LSCO_CLKSOURCE_LSI :: u32 where [reg_mask]: "LL_RCC_LSCO_CLKSOURCE_LSI = 0x00000000"
definition LL_RCC_LSCO_CLKSOURCE_LSE :: u32 where [reg_mask]: "LL_RCC_LSCO_CLKSOURCE_LSE = RCC_BDCR_LSCOSEL"
definition LL_RCC_SYSCLK_DIV_1 :: u32 where [reg_mask]: "LL_RCC_SYSCLK_DIV_1 = 0x00000000"
definition LL_RCC_SYSCLK_DIV_2 :: u32 where [reg_mask]: "LL_RCC_SYSCLK_DIV_2 = RCC_CFGR_HPRE_3"
definition LL_RCC_SYSCLK_DIV_3 :: u32 where [reg_mask]: "LL_RCC_SYSCLK_DIV_3 = RCC_CFGR_HPRE_0"
definition LL_RCC_SYSCLK_DIV_4 :: u32 where
  [reg_mask]: "LL_RCC_SYSCLK_DIV_4 = RCC_CFGR_HPRE_3 OR RCC_CFGR_HPRE_0"
definition LL_RCC_SYSCLK_DIV_5 :: u32 where [reg_mask]: "LL_RCC_SYSCLK_DIV_5 = RCC_CFGR_HPRE_1"
definition LL_RCC_SYSCLK_DIV_6 :: u32 where
  [reg_mask]: "LL_RCC_SYSCLK_DIV_6 = RCC_CFGR_HPRE_2 OR RCC_CFGR_HPRE_0"
definition LL_RCC_SYSCLK_DIV_8 :: u32 where
  [reg_mask]: "LL_RCC_SYSCLK_DIV_8 = RCC_CFGR_HPRE_3 OR RCC_CFGR_HPRE_1"
definition LL_RCC_SYSCLK_DIV_10 :: u32 where
  [reg_mask]: "LL_RCC_SYSCLK_DIV_10 = RCC_CFGR_HPRE_2 OR RCC_CFGR_HPRE_1"
definition LL_RCC_SYSCLK_DIV_16 :: u32 where
  [reg_mask]: "LL_RCC_SYSCLK_DIV_16 = RCC_CFGR_HPRE_3 OR RCC_CFGR_HPRE_1 OR RCC_CFGR_HPRE_0"
definition LL_RCC_SYSCLK_DIV_32 :: u32 where
  [reg_mask]: "LL_RCC_SYSCLK_DIV_32 = RCC_CFGR_HPRE_2 OR RCC_CFGR_HPRE_1 OR RCC_CFGR_HPRE_0"
definition LL_RCC_SYSCLK_DIV_64 :: u32 where
  [reg_mask]: "LL_RCC_SYSCLK_DIV_64 = RCC_CFGR_HPRE_3 OR RCC_CFGR_HPRE_2"
definition LL_RCC_SYSCLK_DIV_128 :: u32 where
  [reg_mask]: "LL_RCC_SYSCLK_DIV_128 = RCC_CFGR_HPRE_3 OR RCC_CFGR_HPRE_2 OR RCC_CFGR_HPRE_0"
definition LL_RCC_SYSCLK_DIV_256 :: u32 where
  [reg_mask]: "LL_RCC_SYSCLK_DIV_256 = RCC_CFGR_HPRE_3 OR RCC_CFGR_HPRE_2 OR RCC_CFGR_HPRE_1"
definition LL_RCC_SYSCLK_DIV_512 :: u32 where
  [reg_mask]: "LL_RCC_SYSCLK_DIV_512 = RCC_CFGR_HPRE_3 OR RCC_CFGR_HPRE_2 OR RCC_CFGR_HPRE_1 OR RCC_CFGR_HPRE_0"
definition LL_RCC_APB1_DIV_1 :: u32 where [reg_mask]: "LL_RCC_APB1_DIV_1 = 0x00000000"
definition LL_RCC_APB1_DIV_2 :: u32 where [reg_mask]: "LL_RCC_APB1_DIV_2 = RCC_CFGR_PPRE1_2"
definition LL_RCC_APB1_DIV_4 :: u32 where
  [reg_mask]: "LL_RCC_APB1_DIV_4 = RCC_CFGR_PPRE1_2 OR RCC_CFGR_PPRE1_0"
definition LL_RCC_APB1_DIV_8 :: u32 where
  [reg_mask]: "LL_RCC_APB1_DIV_8 = RCC_CFGR_PPRE1_2 OR RCC_CFGR_PPRE1_1"
definition LL_RCC_APB1_DIV_16 :: u32 where
  [reg_mask]: "LL_RCC_APB1_DIV_16 = RCC_CFGR_PPRE1_2 OR RCC_CFGR_PPRE1_1 OR RCC_CFGR_PPRE1_0"
definition LL_RCC_APB2_DIV_1 :: u32 where [reg_mask]: "LL_RCC_APB2_DIV_1 = 0x00000000"
definition LL_RCC_APB2_DIV_2 :: u32 where [reg_mask]: "LL_RCC_APB2_DIV_2 = RCC_CFGR_PPRE2_2"
definition LL_RCC_APB2_DIV_4 :: u32 where
  [reg_mask]: "LL_RCC_APB2_DIV_4 = RCC_CFGR_PPRE2_2 OR RCC_CFGR_PPRE2_0"
definition LL_RCC_APB2_DIV_8 :: u32 where
  [reg_mask]: "LL_RCC_APB2_DIV_8 = RCC_CFGR_PPRE2_2 OR RCC_CFGR_PPRE2_1"
definition LL_RCC_APB2_DIV_16 :: u32 where
  [reg_mask]: "LL_RCC_APB2_DIV_16 = RCC_CFGR_PPRE2_2 OR RCC_CFGR_PPRE2_1 OR RCC_CFGR_PPRE2_0"
definition LL_RCC_STOP_WAKEUPCLOCK_MSI :: u32 where [reg_mask]: "LL_RCC_STOP_WAKEUPCLOCK_MSI = 0x00000000"
definition LL_RCC_STOP_WAKEUPCLOCK_HSI :: u32 where
  [reg_mask]: "LL_RCC_STOP_WAKEUPCLOCK_HSI = RCC_CFGR_STOPWUCK"
definition LL_RCC_USART1_CLKSOURCE_PCLK2 :: u32 where
  [reg_mask]: "LL_RCC_USART1_CLKSOURCE_PCLK2 = push_bit 16 RCC_CCIPR_USART1SEL"
definition LL_RCC_USART1_CLKSOURCE_SYSCLK :: u32 where
  [reg_mask]: "LL_RCC_USART1_CLKSOURCE_SYSCLK = (push_bit 16 RCC_CCIPR_USART1SEL) OR RCC_CCIPR_USART1SEL_0"
definition LL_RCC_USART1_CLKSOURCE_HSI :: u32 where
  [reg_mask]: "LL_RCC_USART1_CLKSOURCE_HSI = (push_bit 16 RCC_CCIPR_USART1SEL) OR RCC_CCIPR_USART1SEL_1"
definition LL_RCC_USART1_CLKSOURCE_LSE :: u32 where
  [reg_mask]: "LL_RCC_USART1_CLKSOURCE_LSE = (push_bit 16 RCC_CCIPR_USART1SEL) OR RCC_CCIPR_USART1SEL"
definition LL_RCC_USART2_CLKSOURCE_PCLK1 :: u32 where
  [reg_mask]: "LL_RCC_USART2_CLKSOURCE_PCLK1 = push_bit 16 RCC_CCIPR_USART2SEL"
definition LL_RCC_USART2_CLKSOURCE_SYSCLK :: u32 where
  [reg_mask]: "LL_RCC_USART2_CLKSOURCE_SYSCLK = (push_bit 16 RCC_CCIPR_USART2SEL) OR RCC_CCIPR_USART2SEL_0"
definition LL_RCC_USART2_CLKSOURCE_HSI :: u32 where
  [reg_mask]: "LL_RCC_USART2_CLKSOURCE_HSI = (push_bit 16 RCC_CCIPR_USART2SEL) OR RCC_CCIPR_USART2SEL_1"
definition LL_RCC_USART2_CLKSOURCE_LSE :: u32 where
  [reg_mask]: "LL_RCC_USART2_CLKSOURCE_LSE = (push_bit 16 RCC_CCIPR_USART2SEL) OR RCC_CCIPR_USART2SEL"
definition LL_RCC_I2S2_CLKSOURCE_PLL :: u32 where
  [reg_mask]: "LL_RCC_I2S2_CLKSOURCE_PLL = RCC_CCIPR_I2S2SEL_0"
definition LL_RCC_I2S2_CLKSOURCE_HSI :: u32 where
  [reg_mask]: "LL_RCC_I2S2_CLKSOURCE_HSI = RCC_CCIPR_I2S2SEL_1"
definition LL_RCC_I2S2_CLKSOURCE_PIN :: u32 where [reg_mask]: "LL_RCC_I2S2_CLKSOURCE_PIN = RCC_CCIPR_I2S2SEL"
definition LL_RCC_LPUART1_CLKSOURCE_PCLK1 :: u32 where
  [reg_mask]: "LL_RCC_LPUART1_CLKSOURCE_PCLK1 = 0x00000000"
definition LL_RCC_LPUART1_CLKSOURCE_SYSCLK :: u32 where
  [reg_mask]: "LL_RCC_LPUART1_CLKSOURCE_SYSCLK = RCC_CCIPR_LPUART1SEL_0"
definition LL_RCC_LPUART1_CLKSOURCE_HSI :: u32 where
  [reg_mask]: "LL_RCC_LPUART1_CLKSOURCE_HSI = RCC_CCIPR_LPUART1SEL_1"
definition LL_RCC_LPUART1_CLKSOURCE_LSE :: u32 where
  [reg_mask]: "LL_RCC_LPUART1_CLKSOURCE_LSE = RCC_CCIPR_LPUART1SEL"
definition LL_RCC_I2C1_CLKSOURCE_PCLK1 :: u32 where
  [reg_mask]: "LL_RCC_I2C1_CLKSOURCE_PCLK1 = (push_bit 4 RCC_CCIPR_I2C1SEL) OR (drop_bit 4 0x00000000)"
definition LL_RCC_I2C1_CLKSOURCE_SYSCLK :: u32 where
  [reg_mask]: "LL_RCC_I2C1_CLKSOURCE_SYSCLK = (push_bit 4 RCC_CCIPR_I2C1SEL) OR (drop_bit 4 RCC_CCIPR_I2C1SEL_0)"
definition LL_RCC_I2C1_CLKSOURCE_HSI :: u32 where
  [reg_mask]: "LL_RCC_I2C1_CLKSOURCE_HSI = (push_bit 4 RCC_CCIPR_I2C1SEL) OR (drop_bit 4 RCC_CCIPR_I2C1SEL_1)"
definition LL_RCC_I2C2_CLKSOURCE_PCLK1 :: u32 where
  [reg_mask]: "LL_RCC_I2C2_CLKSOURCE_PCLK1 = (push_bit 4 RCC_CCIPR_I2C2SEL) OR (drop_bit 4 0x00000000)"
definition LL_RCC_I2C2_CLKSOURCE_SYSCLK :: u32 where
  [reg_mask]: "LL_RCC_I2C2_CLKSOURCE_SYSCLK = (push_bit 4 RCC_CCIPR_I2C2SEL) OR (drop_bit 4 RCC_CCIPR_I2C2SEL_0)"
definition LL_RCC_I2C2_CLKSOURCE_HSI :: u32 where
  [reg_mask]: "LL_RCC_I2C2_CLKSOURCE_HSI = (push_bit 4 RCC_CCIPR_I2C2SEL) OR (drop_bit 4 RCC_CCIPR_I2C2SEL_1)"
definition LL_RCC_I2C3_CLKSOURCE_PCLK1 :: u32 where
  [reg_mask]: "LL_RCC_I2C3_CLKSOURCE_PCLK1 = (push_bit 4 RCC_CCIPR_I2C3SEL) OR (drop_bit 4 0x00000000)"
definition LL_RCC_I2C3_CLKSOURCE_SYSCLK :: u32 where
  [reg_mask]: "LL_RCC_I2C3_CLKSOURCE_SYSCLK = (push_bit 4 RCC_CCIPR_I2C3SEL) OR (drop_bit 4 RCC_CCIPR_I2C3SEL_0)"
definition LL_RCC_I2C3_CLKSOURCE_HSI :: u32 where
  [reg_mask]: "LL_RCC_I2C3_CLKSOURCE_HSI = (push_bit 4 RCC_CCIPR_I2C3SEL) OR (drop_bit 4 RCC_CCIPR_I2C3SEL_1)"
definition LL_RCC_LPTIM1_CLKSOURCE_PCLK1 :: u32 where
  [reg_mask]: "LL_RCC_LPTIM1_CLKSOURCE_PCLK1 = RCC_CCIPR_LPTIM1SEL OR (drop_bit 16 0x00000000)"
definition LL_RCC_LPTIM1_CLKSOURCE_LSI :: u32 where
  [reg_mask]: "LL_RCC_LPTIM1_CLKSOURCE_LSI = RCC_CCIPR_LPTIM1SEL OR (drop_bit 16 RCC_CCIPR_LPTIM1SEL_0)"
definition LL_RCC_LPTIM1_CLKSOURCE_HSI :: u32 where
  [reg_mask]: "LL_RCC_LPTIM1_CLKSOURCE_HSI = RCC_CCIPR_LPTIM1SEL OR (drop_bit 16 RCC_CCIPR_LPTIM1SEL_1)"
definition LL_RCC_LPTIM1_CLKSOURCE_LSE :: u32 where
  [reg_mask]: "LL_RCC_LPTIM1_CLKSOURCE_LSE = RCC_CCIPR_LPTIM1SEL OR (drop_bit 16 RCC_CCIPR_LPTIM1SEL)"
definition LL_RCC_LPTIM2_CLKSOURCE_PCLK1 :: u32 where
  [reg_mask]: "LL_RCC_LPTIM2_CLKSOURCE_PCLK1 = RCC_CCIPR_LPTIM2SEL OR (drop_bit 16 0x00000000)"
definition LL_RCC_LPTIM2_CLKSOURCE_LSI :: u32 where
  [reg_mask]: "LL_RCC_LPTIM2_CLKSOURCE_LSI = RCC_CCIPR_LPTIM2SEL OR (drop_bit 16 RCC_CCIPR_LPTIM2SEL_0)"
definition LL_RCC_LPTIM2_CLKSOURCE_HSI :: u32 where
  [reg_mask]: "LL_RCC_LPTIM2_CLKSOURCE_HSI = RCC_CCIPR_LPTIM2SEL OR (drop_bit 16 RCC_CCIPR_LPTIM2SEL_1)"
definition LL_RCC_LPTIM2_CLKSOURCE_LSE :: u32 where
  [reg_mask]: "LL_RCC_LPTIM2_CLKSOURCE_LSE = RCC_CCIPR_LPTIM2SEL OR (drop_bit 16 RCC_CCIPR_LPTIM2SEL)"
definition LL_RCC_LPTIM3_CLKSOURCE_PCLK1 :: u32 where
  [reg_mask]: "LL_RCC_LPTIM3_CLKSOURCE_PCLK1 = RCC_CCIPR_LPTIM3SEL OR (drop_bit 16 0x00000000)"
definition LL_RCC_LPTIM3_CLKSOURCE_LSI :: u32 where
  [reg_mask]: "LL_RCC_LPTIM3_CLKSOURCE_LSI = RCC_CCIPR_LPTIM3SEL OR (drop_bit 16 RCC_CCIPR_LPTIM3SEL_0)"
definition LL_RCC_LPTIM3_CLKSOURCE_HSI :: u32 where
  [reg_mask]: "LL_RCC_LPTIM3_CLKSOURCE_HSI = RCC_CCIPR_LPTIM3SEL OR (drop_bit 16 RCC_CCIPR_LPTIM3SEL_1)"
definition LL_RCC_LPTIM3_CLKSOURCE_LSE :: u32 where
  [reg_mask]: "LL_RCC_LPTIM3_CLKSOURCE_LSE = RCC_CCIPR_LPTIM3SEL OR (drop_bit 16 RCC_CCIPR_LPTIM3SEL)"
definition LL_RCC_ADC_CLKSOURCE_NONE :: u32 where [reg_mask]: "LL_RCC_ADC_CLKSOURCE_NONE = 0x00000000"
definition LL_RCC_ADC_CLKSOURCE_HSI :: u32 where [reg_mask]: "LL_RCC_ADC_CLKSOURCE_HSI = RCC_CCIPR_ADCSEL_0"
definition LL_RCC_ADC_CLKSOURCE_PLL :: u32 where [reg_mask]: "LL_RCC_ADC_CLKSOURCE_PLL = RCC_CCIPR_ADCSEL_1"
definition LL_RCC_ADC_CLKSOURCE_SYSCLK :: u32 where
  [reg_mask]: "LL_RCC_ADC_CLKSOURCE_SYSCLK = RCC_CCIPR_ADCSEL"
definition LL_RCC_RNG_CLKSOURCE_PLL :: u32 where [reg_mask]: "LL_RCC_RNG_CLKSOURCE_PLL = 0x00000000"
definition LL_RCC_RNG_CLKSOURCE_LSI :: u32 where [reg_mask]: "LL_RCC_RNG_CLKSOURCE_LSI = RCC_CCIPR_RNGSEL_0"
definition LL_RCC_RNG_CLKSOURCE_LSE :: u32 where [reg_mask]: "LL_RCC_RNG_CLKSOURCE_LSE = RCC_CCIPR_RNGSEL_1"
definition LL_RCC_RNG_CLKSOURCE_MSI :: u32 where
  [reg_mask]: "LL_RCC_RNG_CLKSOURCE_MSI = RCC_CCIPR_RNGSEL_1 OR RCC_CCIPR_RNGSEL_0"
definition LL_RCC_USART1_CLKSOURCE :: u32 where [reg_mask]: "LL_RCC_USART1_CLKSOURCE = RCC_CCIPR_USART1SEL"
definition LL_RCC_USART2_CLKSOURCE :: u32 where [reg_mask]: "LL_RCC_USART2_CLKSOURCE = RCC_CCIPR_USART2SEL"
definition LL_RCC_I2S2_CLKSOURCE :: u32 where [reg_mask]: "LL_RCC_I2S2_CLKSOURCE = RCC_CCIPR_I2S2SEL"
definition LL_RCC_LPUART1_CLKSOURCE :: u32 where [reg_mask]: "LL_RCC_LPUART1_CLKSOURCE = RCC_CCIPR_LPUART1SEL"
definition LL_RCC_I2C1_CLKSOURCE :: u32 where [reg_mask]: "LL_RCC_I2C1_CLKSOURCE = RCC_CCIPR_I2C1SEL"
definition LL_RCC_I2C2_CLKSOURCE :: u32 where [reg_mask]: "LL_RCC_I2C2_CLKSOURCE = RCC_CCIPR_I2C2SEL"
definition LL_RCC_I2C3_CLKSOURCE :: u32 where [reg_mask]: "LL_RCC_I2C3_CLKSOURCE = RCC_CCIPR_I2C3SEL"
definition LL_RCC_LPTIM1_CLKSOURCE :: u32 where [reg_mask]: "LL_RCC_LPTIM1_CLKSOURCE = RCC_CCIPR_LPTIM1SEL"
definition LL_RCC_LPTIM2_CLKSOURCE :: u32 where [reg_mask]: "LL_RCC_LPTIM2_CLKSOURCE = RCC_CCIPR_LPTIM2SEL"
definition LL_RCC_LPTIM3_CLKSOURCE :: u32 where [reg_mask]: "LL_RCC_LPTIM3_CLKSOURCE = RCC_CCIPR_LPTIM3SEL"
definition LL_RCC_RNG_CLKSOURCE :: u32 where [reg_mask]: "LL_RCC_RNG_CLKSOURCE = RCC_CCIPR_RNGSEL"
definition LL_RCC_ADC_CLKSOURCE :: u32 where [reg_mask]: "LL_RCC_ADC_CLKSOURCE = RCC_CCIPR_ADCSEL"
definition LL_RCC_RTC_CLKSOURCE_NONE :: u32 where [reg_mask]: "LL_RCC_RTC_CLKSOURCE_NONE = 0x00000000"
definition LL_RCC_RTC_CLKSOURCE_LSE :: u32 where [reg_mask]: "LL_RCC_RTC_CLKSOURCE_LSE = RCC_BDCR_RTCSEL_0"
definition LL_RCC_RTC_CLKSOURCE_LSI :: u32 where [reg_mask]: "LL_RCC_RTC_CLKSOURCE_LSI = RCC_BDCR_RTCSEL_1"
definition LL_RCC_RTC_CLKSOURCE_HSE_DIV32 :: u32 where
  [reg_mask]: "LL_RCC_RTC_CLKSOURCE_HSE_DIV32 = RCC_BDCR_RTCSEL"
definition LL_RCC_PLLSOURCE_NONE :: u32 where [reg_mask]: "LL_RCC_PLLSOURCE_NONE = 0x00000000"
definition LL_RCC_PLLSOURCE_MSI :: u32 where [reg_mask]: "LL_RCC_PLLSOURCE_MSI = RCC_PLLCFGR_PLLSRC_0"
definition LL_RCC_PLLSOURCE_HSI :: u32 where [reg_mask]: "LL_RCC_PLLSOURCE_HSI = RCC_PLLCFGR_PLLSRC_1"
definition LL_RCC_PLLSOURCE_HSE :: u32 where
  [reg_mask]: "LL_RCC_PLLSOURCE_HSE = RCC_PLLCFGR_PLLSRC_1 OR RCC_PLLCFGR_PLLSRC_0"
definition LL_RCC_PLLM_DIV_1 :: u32 where [reg_mask]: "LL_RCC_PLLM_DIV_1 = 0x00000000"
definition LL_RCC_PLLM_DIV_2 :: u32 where [reg_mask]: "LL_RCC_PLLM_DIV_2 = RCC_PLLCFGR_PLLM_0"
definition LL_RCC_PLLM_DIV_3 :: u32 where [reg_mask]: "LL_RCC_PLLM_DIV_3 = RCC_PLLCFGR_PLLM_1"
definition LL_RCC_PLLM_DIV_4 :: u32 where
  [reg_mask]: "LL_RCC_PLLM_DIV_4 = RCC_PLLCFGR_PLLM_1 OR RCC_PLLCFGR_PLLM_0"
definition LL_RCC_PLLM_DIV_5 :: u32 where [reg_mask]: "LL_RCC_PLLM_DIV_5 = RCC_PLLCFGR_PLLM_2"
definition LL_RCC_PLLM_DIV_6 :: u32 where
  [reg_mask]: "LL_RCC_PLLM_DIV_6 = RCC_PLLCFGR_PLLM_2 OR RCC_PLLCFGR_PLLM_0"
definition LL_RCC_PLLM_DIV_7 :: u32 where
  [reg_mask]: "LL_RCC_PLLM_DIV_7 = RCC_PLLCFGR_PLLM_2 OR RCC_PLLCFGR_PLLM_1"
definition LL_RCC_PLLM_DIV_8 :: u32 where [reg_mask]: "LL_RCC_PLLM_DIV_8 = RCC_PLLCFGR_PLLM"
definition LL_RCC_PLLR_DIV_2 :: u32 where [reg_mask]: "LL_RCC_PLLR_DIV_2 = RCC_PLLCFGR_PLLR_0"
definition LL_RCC_PLLR_DIV_3 :: u32 where [reg_mask]: "LL_RCC_PLLR_DIV_3 = RCC_PLLCFGR_PLLR_1"
definition LL_RCC_PLLR_DIV_4 :: u32 where
  [reg_mask]: "LL_RCC_PLLR_DIV_4 = RCC_PLLCFGR_PLLR_1 OR RCC_PLLCFGR_PLLR_0"
definition LL_RCC_PLLR_DIV_5 :: u32 where [reg_mask]: "LL_RCC_PLLR_DIV_5 = RCC_PLLCFGR_PLLR_2"
definition LL_RCC_PLLR_DIV_6 :: u32 where
  [reg_mask]: "LL_RCC_PLLR_DIV_6 = RCC_PLLCFGR_PLLR_2 OR RCC_PLLCFGR_PLLR_0"
definition LL_RCC_PLLR_DIV_7 :: u32 where
  [reg_mask]: "LL_RCC_PLLR_DIV_7 = RCC_PLLCFGR_PLLR_2 OR RCC_PLLCFGR_PLLR_1"
definition LL_RCC_PLLR_DIV_8 :: u32 where [reg_mask]: "LL_RCC_PLLR_DIV_8 = RCC_PLLCFGR_PLLR"
definition LL_RCC_PLLP_DIV_4 :: u32 where
  [reg_mask]: "LL_RCC_PLLP_DIV_4 = RCC_PLLCFGR_PLLP_0 OR RCC_PLLCFGR_PLLP_1"
definition LL_RCC_PLLQ_DIV_4 :: u32 where
  [reg_mask]: "LL_RCC_PLLQ_DIV_4 = RCC_PLLCFGR_PLLQ_1 OR RCC_PLLCFGR_PLLQ_0"
definition LL_RCC_MSIRANGESEL_STANDBY :: u32 where [reg_mask]: "LL_RCC_MSIRANGESEL_STANDBY = 0"
definition LL_RCC_MSIRANGESEL_RUN :: u32 where [reg_mask]: "LL_RCC_MSIRANGESEL_RUN = 1"
definition LL_RCC_LSI_PREDIV_1 :: u32 where [reg_mask]: "LL_RCC_LSI_PREDIV_1 = 0x00000000"
definition LL_RCC_LSI_PREDIV_128 :: u32 where [reg_mask]: "LL_RCC_LSI_PREDIV_128 = RCC_CSR_LSIPRE"

section \<open>Tables (system_stm32wlxx.c)\<close>

definition SystemCoreClock :: u32 where "SystemCoreClock = 4000000"

definition AHBPrescTable :: "u32 list" where
  "AHBPrescTable = [1, 3, 5, 1, 1, 6, 10, 32, 2, 4, 8, 16, 64, 128, 256, 512]"

definition APBPrescTable :: "u32 list" where
  "APBPrescTable = [0, 0, 0, 0, 1, 2, 3, 4]"

definition MSIRangeTable :: "u32 list" where
  "MSIRangeTable =
     [100000, 200000, 400000, 800000, 1000000, 2000000, 4000000, 8000000, 16000000,
      24000000, 32000000, 48000000, 0, 0, 0, 0]"

definition table_at :: "u32 list \<Rightarrow> u32 \<Rightarrow> u32 result" where
  "table_at tab i = (if unat i < length tab then Inr (tab ! unat i) else Inl OutOfBounds)"

section \<open>Frequencies\<close>

text \<open>
  The quotients are unsigned; a table entry that is the divisor is never 0, a divisor of the PLL is a shifted
  value plus 1.
\<close>

definition udiv :: "u32 \<Rightarrow> u32 \<Rightarrow> u32 result" where
  "udiv a b = (if b = 0 then Inl DivByZero else Inr (a div b))"

definition LL_RCC_CALC_PLLCLK_FREQ :: "u32 \<Rightarrow> u32 \<Rightarrow> u32 \<Rightarrow> u32 \<Rightarrow> u32 result" where
  "LL_RCC_CALC_PLLCLK_FREQ INPUTFREQ PLLM PLLN PLLR =
     bindr (udiv (INPUTFREQ * PLLN) (drop_bit RCC_PLLCFGR_PLLM_Pos PLLM + 1))
       (\<lambda>x. udiv x (drop_bit RCC_PLLCFGR_PLLR_Pos PLLR + 1))"

definition LL_RCC_CALC_PLLCLK_ADC_FREQ :: "u32 \<Rightarrow> u32 \<Rightarrow> u32 \<Rightarrow> u32 \<Rightarrow> u32 result" where
  "LL_RCC_CALC_PLLCLK_ADC_FREQ INPUTFREQ PLLM PLLN PLLP =
     bindr (udiv (INPUTFREQ * PLLN) (drop_bit RCC_PLLCFGR_PLLM_Pos PLLM + 1))
       (\<lambda>x. udiv x (drop_bit RCC_PLLCFGR_PLLP_Pos PLLP + 1))"

definition LL_RCC_CALC_PLLCLK_RNG_FREQ :: "u32 \<Rightarrow> u32 \<Rightarrow> u32 \<Rightarrow> u32 \<Rightarrow> u32 result" where
  "LL_RCC_CALC_PLLCLK_RNG_FREQ INPUTFREQ PLLM PLLN PLLQ =
     bindr (udiv (INPUTFREQ * PLLN) (drop_bit RCC_PLLCFGR_PLLM_Pos PLLM + 1))
       (\<lambda>x. udiv x (drop_bit RCC_PLLCFGR_PLLQ_Pos PLLQ + 1))"

definition LL_RCC_CALC_HCLK1_FREQ :: "u32 \<Rightarrow> u32 \<Rightarrow> u32 result" where
  "LL_RCC_CALC_HCLK1_FREQ SYSCLKFREQ CPU1PRESCALER =
     bindr (table_at AHBPrescTable (drop_bit RCC_CFGR_HPRE_Pos (CPU1PRESCALER AND RCC_CFGR_HPRE)))
       (udiv SYSCLKFREQ)"

definition LL_RCC_CALC_HCLK2_FREQ :: "u32 \<Rightarrow> u32 \<Rightarrow> u32 result" where
  "LL_RCC_CALC_HCLK2_FREQ SYSCLKFREQ CPU2PRESCALER =
     bindr (table_at AHBPrescTable
         (drop_bit RCC_EXTCFGR_C2HPRE_Pos (CPU2PRESCALER AND RCC_EXTCFGR_C2HPRE)))
       (udiv SYSCLKFREQ)"

definition LL_RCC_CALC_HCLK3_FREQ :: "u32 \<Rightarrow> u32 \<Rightarrow> u32 result" where
  "LL_RCC_CALC_HCLK3_FREQ SYSCLKFREQ AHB3PRESCALER =
     bindr (table_at AHBPrescTable
         (drop_bit RCC_EXTCFGR_SHDHPRE_Pos (drop_bit 4 AHB3PRESCALER AND RCC_EXTCFGR_SHDHPRE)))
       (udiv SYSCLKFREQ)"

definition LL_RCC_CALC_PCLK1_FREQ :: "u32 \<Rightarrow> u32 \<Rightarrow> u32 result" where
  "LL_RCC_CALC_PCLK1_FREQ HCLKFREQ APB1PRESCALER =
     bindr (table_at APBPrescTable (drop_bit RCC_CFGR_PPRE1_Pos APB1PRESCALER))
       (\<lambda>n. Inr (drop_bit (unat n) HCLKFREQ))"

definition LL_RCC_CALC_PCLK2_FREQ :: "u32 \<Rightarrow> u32 \<Rightarrow> u32 result" where
  "LL_RCC_CALC_PCLK2_FREQ HCLKFREQ APB2PRESCALER =
     bindr (table_at APBPrescTable (drop_bit RCC_CFGR_PPRE2_Pos APB2PRESCALER))
       (\<lambda>n. Inr (drop_bit (unat n) HCLKFREQ))"

definition LL_RCC_CALC_MSI_FREQ :: "u32 \<Rightarrow> u32 \<Rightarrow> u32 result" where
  "LL_RCC_CALC_MSI_FREQ MSISEL MSIRANGE =
     (if MSISEL = LL_RCC_MSIRANGESEL_STANDBY
      then table_at MSIRangeTable (drop_bit RCC_CSR_MSISRANGE_Pos (MSIRANGE AND RCC_CSR_MSISRANGE))
      else table_at MSIRangeTable (drop_bit RCC_CR_MSIRANGE_Pos (MSIRANGE AND RCC_CR_MSIRANGE)))"

section \<open>Accessors\<close>

definition LL_RCC_HSE_EnableTcxo :: "regs \<Rightarrow> regs" where
  [ll_def]: "LL_RCC_HSE_EnableTcxo r = SET_BIT RCC_CR RCC_CR_HSEBYPPWR r"

definition LL_RCC_HSE_DisableTcxo :: "regs \<Rightarrow> regs" where
  [ll_def]: "LL_RCC_HSE_DisableTcxo r = CLEAR_BIT RCC_CR RCC_CR_HSEBYPPWR r"

definition LL_RCC_HSE_IsEnabledTcxo :: "regs \<Rightarrow> u32" where
  [ll_def]: "LL_RCC_HSE_IsEnabledTcxo r =
     (if READ_BIT RCC_CR RCC_CR_HSEBYPPWR r = RCC_CR_HSEBYPPWR then 1 else 0)"

definition LL_RCC_HSE_EnableDiv2 :: "regs \<Rightarrow> regs" where
  [ll_def]: "LL_RCC_HSE_EnableDiv2 r = SET_BIT RCC_CR RCC_CR_HSEPRE r"

definition LL_RCC_HSE_DisableDiv2 :: "regs \<Rightarrow> regs" where
  [ll_def]: "LL_RCC_HSE_DisableDiv2 r = CLEAR_BIT RCC_CR RCC_CR_HSEPRE r"

definition LL_RCC_HSE_IsEnabledDiv2 :: "regs \<Rightarrow> u32" where
  [ll_def]: "LL_RCC_HSE_IsEnabledDiv2 r =
     (if READ_BIT RCC_CR RCC_CR_HSEPRE r = RCC_CR_HSEPRE then 1 else 0)"

definition LL_RCC_HSE_EnableCSS :: "regs \<Rightarrow> regs" where
  [ll_def]: "LL_RCC_HSE_EnableCSS r = SET_BIT RCC_CR RCC_CR_CSSON r"

definition LL_RCC_HSE_Enable :: "regs \<Rightarrow> regs" where
  [ll_def]: "LL_RCC_HSE_Enable r = SET_BIT RCC_CR RCC_CR_HSEON r"

definition LL_RCC_HSE_Disable :: "regs \<Rightarrow> regs" where
  [ll_def]: "LL_RCC_HSE_Disable r = CLEAR_BIT RCC_CR RCC_CR_HSEON r"

definition LL_RCC_HSE_IsReady :: "regs \<Rightarrow> u32" where
  [ll_def]: "LL_RCC_HSE_IsReady r =
     (if READ_BIT RCC_CR RCC_CR_HSERDY r = RCC_CR_HSERDY then 1 else 0)"

definition LL_RCC_HSI_EnableInStopMode :: "regs \<Rightarrow> regs" where
  [ll_def]: "LL_RCC_HSI_EnableInStopMode r = SET_BIT RCC_CR RCC_CR_HSIKERON r"

definition LL_RCC_HSI_DisableInStopMode :: "regs \<Rightarrow> regs" where
  [ll_def]: "LL_RCC_HSI_DisableInStopMode r = CLEAR_BIT RCC_CR RCC_CR_HSIKERON r"

definition LL_RCC_HSI_IsEnabledInStopMode :: "regs \<Rightarrow> u32" where
  [ll_def]: "LL_RCC_HSI_IsEnabledInStopMode r =
     (if READ_BIT RCC_CR RCC_CR_HSIKERON r = RCC_CR_HSIKERON then 1 else 0)"

definition LL_RCC_HSI_Enable :: "regs \<Rightarrow> regs" where
  [ll_def]: "LL_RCC_HSI_Enable r = SET_BIT RCC_CR RCC_CR_HSION r"

definition LL_RCC_HSI_Disable :: "regs \<Rightarrow> regs" where
  [ll_def]: "LL_RCC_HSI_Disable r = CLEAR_BIT RCC_CR RCC_CR_HSION r"

definition LL_RCC_HSI_IsReady :: "regs \<Rightarrow> u32" where
  [ll_def]: "LL_RCC_HSI_IsReady r =
     (if READ_BIT RCC_CR RCC_CR_HSIRDY r = RCC_CR_HSIRDY then 1 else 0)"

definition LL_RCC_HSI_EnableAutoFromStop :: "regs \<Rightarrow> regs" where
  [ll_def]: "LL_RCC_HSI_EnableAutoFromStop r = SET_BIT RCC_CR RCC_CR_HSIASFS r"

definition LL_RCC_HSI_DisableAutoFromStop :: "regs \<Rightarrow> regs" where
  [ll_def]: "LL_RCC_HSI_DisableAutoFromStop r = CLEAR_BIT RCC_CR RCC_CR_HSIASFS r"

definition LL_RCC_HSI_GetCalibration :: "regs \<Rightarrow> u32" where
  [ll_def]: "LL_RCC_HSI_GetCalibration r =
     drop_bit RCC_ICSCR_HSICAL_Pos (READ_BIT RCC_ICSCR RCC_ICSCR_HSICAL r)"

definition LL_RCC_HSI_SetCalibTrimming :: "u32 \<Rightarrow> regs \<Rightarrow> regs" where
  [ll_def]: "LL_RCC_HSI_SetCalibTrimming Value r =
     MODIFY_REG RCC_ICSCR RCC_ICSCR_HSITRIM (push_bit RCC_ICSCR_HSITRIM_Pos Value) r"

definition LL_RCC_HSI_GetCalibTrimming :: "regs \<Rightarrow> u32" where
  [ll_def]: "LL_RCC_HSI_GetCalibTrimming r =
     drop_bit RCC_ICSCR_HSITRIM_Pos (READ_BIT RCC_ICSCR RCC_ICSCR_HSITRIM r)"

definition LL_RCC_LSE_Enable :: "regs \<Rightarrow> regs" where
  [ll_def]: "LL_RCC_LSE_Enable r = SET_BIT RCC_BDCR RCC_BDCR_LSEON r"

definition LL_RCC_LSE_Disable :: "regs \<Rightarrow> regs" where
  [ll_def]: "LL_RCC_LSE_Disable r = CLEAR_BIT RCC_BDCR RCC_BDCR_LSEON r"

definition LL_RCC_LSE_IsEnabled :: "regs \<Rightarrow> u32" where
  [ll_def]: "LL_RCC_LSE_IsEnabled r =
     (if READ_BIT RCC_BDCR RCC_BDCR_LSEON r = RCC_BDCR_LSEON then 1 else 0)"

definition LL_RCC_LSE_EnableBypass :: "regs \<Rightarrow> regs" where
  [ll_def]: "LL_RCC_LSE_EnableBypass r = SET_BIT RCC_BDCR RCC_BDCR_LSEBYP r"

definition LL_RCC_LSE_DisableBypass :: "regs \<Rightarrow> regs" where
  [ll_def]: "LL_RCC_LSE_DisableBypass r = CLEAR_BIT RCC_BDCR RCC_BDCR_LSEBYP r"

definition LL_RCC_LSE_SetDriveCapability :: "u32 \<Rightarrow> regs \<Rightarrow> regs" where
  [ll_def]: "LL_RCC_LSE_SetDriveCapability LSEDrive r =
     MODIFY_REG RCC_BDCR RCC_BDCR_LSEDRV LSEDrive r"

definition LL_RCC_LSE_GetDriveCapability :: "regs \<Rightarrow> u32" where
  [ll_def]: "LL_RCC_LSE_GetDriveCapability r = READ_BIT RCC_BDCR RCC_BDCR_LSEDRV r"

definition LL_RCC_LSE_EnableCSS :: "regs \<Rightarrow> regs" where
  [ll_def]: "LL_RCC_LSE_EnableCSS r = SET_BIT RCC_BDCR RCC_BDCR_LSECSSON r"

definition LL_RCC_LSE_DisableCSS :: "regs \<Rightarrow> regs" where
  [ll_def]: "LL_RCC_LSE_DisableCSS r = CLEAR_BIT RCC_BDCR RCC_BDCR_LSECSSON r"

definition LL_RCC_LSE_EnablePropagation :: "regs \<Rightarrow> regs" where
  [ll_def]: "LL_RCC_LSE_EnablePropagation r = SET_BIT RCC_BDCR RCC_BDCR_LSESYSEN r"

definition LL_RCC_LSE_DisablePropagation :: "regs \<Rightarrow> regs" where
  [ll_def]: "LL_RCC_LSE_DisablePropagation r = CLEAR_BIT RCC_BDCR RCC_BDCR_LSESYSEN r"

definition LL_RCC_LSE_IsPropagationReady :: "regs \<Rightarrow> u32" where
  [ll_def]: "LL_RCC_LSE_IsPropagationReady r =
     (if READ_BIT RCC_BDCR RCC_BDCR_LSESYSRDY r = RCC_BDCR_LSESYSRDY then 1 else 0)"

definition LL_RCC_LSE_IsReady :: "regs \<Rightarrow> u32" where
  [ll_def]: "LL_RCC_LSE_IsReady r =
     (if READ_BIT RCC_BDCR RCC_BDCR_LSERDY r = RCC_BDCR_LSERDY then 1 else 0)"

definition LL_RCC_LSE_IsCSSDetected :: "regs \<Rightarrow> u32" where
  [ll_def]: "LL_RCC_LSE_IsCSSDetected r =
     (if READ_BIT RCC_BDCR RCC_BDCR_LSECSSD r = RCC_BDCR_LSECSSD then 1 else 0)"

definition LL_RCC_LSI_SetPrediv :: "u32 \<Rightarrow> regs \<Rightarrow> regs" where
  [ll_def]: "LL_RCC_LSI_SetPrediv LSI_PREDIV r = MODIFY_REG RCC_CSR RCC_CSR_LSIPRE LSI_PREDIV r"

definition LL_RCC_LSI_GetPrediv :: "regs \<Rightarrow> u32" where
  [ll_def]: "LL_RCC_LSI_GetPrediv r = READ_BIT RCC_CSR RCC_CSR_LSIPRE r"

definition LL_RCC_LSI_Enable :: "regs \<Rightarrow> regs" where
  [ll_def]: "LL_RCC_LSI_Enable r = SET_BIT RCC_CSR RCC_CSR_LSION r"

definition LL_RCC_LSI_Disable :: "regs \<Rightarrow> regs" where
  [ll_def]: "LL_RCC_LSI_Disable r = CLEAR_BIT RCC_CSR RCC_CSR_LSION r"

definition LL_RCC_LSI_IsReady :: "regs \<Rightarrow> u32" where
  [ll_def]: "LL_RCC_LSI_IsReady r =
     (if READ_BIT RCC_CSR RCC_CSR_LSIRDY r = RCC_CSR_LSIRDY then 1 else 0)"

definition LL_RCC_MSI_Enable :: "regs \<Rightarrow> regs" where
  [ll_def]: "LL_RCC_MSI_Enable r = SET_BIT RCC_CR RCC_CR_MSION r"

definition LL_RCC_MSI_Disable :: "regs \<Rightarrow> regs" where
  [ll_def]: "LL_RCC_MSI_Disable r = CLEAR_BIT RCC_CR RCC_CR_MSION r"

definition LL_RCC_MSI_IsReady :: "regs \<Rightarrow> u32" where
  [ll_def]: "LL_RCC_MSI_IsReady r =
     (if READ_BIT RCC_CR RCC_CR_MSIRDY r = RCC_CR_MSIRDY then 1 else 0)"

definition LL_RCC_MSI_EnablePLLMode :: "regs \<Rightarrow> regs" where
  [ll_def]: "LL_RCC_MSI_EnablePLLMode r = SET_BIT RCC_CR RCC_CR_MSIPLLEN r"

definition LL_RCC_MSI_DisablePLLMode :: "regs \<Rightarrow> regs" where
  [ll_def]: "LL_RCC_MSI_DisablePLLMode r = CLEAR_BIT RCC_CR RCC_CR_MSIPLLEN r"

definition LL_RCC_MSI_EnableRangeSelection :: "regs \<Rightarrow> regs" where
  [ll_def]: "LL_RCC_MSI_EnableRangeSelection r = SET_BIT RCC_CR RCC_CR_MSIRGSEL r"

definition LL_RCC_MSI_IsEnabledRangeSelect :: "regs \<Rightarrow> u32" where
  [ll_def]: "LL_RCC_MSI_IsEnabledRangeSelect r =
     (if READ_BIT RCC_CR RCC_CR_MSIRGSEL r = RCC_CR_MSIRGSEL then 1 else 0)"

definition LL_RCC_MSI_SetRange :: "u32 \<Rightarrow> regs \<Rightarrow> regs" where
  [ll_def]: "LL_RCC_MSI_SetRange rng r = MODIFY_REG RCC_CR RCC_CR_MSIRANGE rng r"

definition LL_RCC_MSI_GetRange :: "regs \<Rightarrow> u32" where
  [ll_def]: "LL_RCC_MSI_GetRange r = READ_BIT RCC_CR RCC_CR_MSIRANGE r"

definition LL_RCC_MSI_SetRangeAfterStandby :: "u32 \<Rightarrow> regs \<Rightarrow> regs" where
  [ll_def]: "LL_RCC_MSI_SetRangeAfterStandby rng r = MODIFY_REG RCC_CSR RCC_CSR_MSISRANGE rng r"

definition LL_RCC_MSI_GetRangeAfterStandby :: "regs \<Rightarrow> u32" where
  [ll_def]: "LL_RCC_MSI_GetRangeAfterStandby r = READ_BIT RCC_CSR RCC_CSR_MSISRANGE r"

definition LL_RCC_MSI_GetCalibration :: "regs \<Rightarrow> u32" where
  [ll_def]: "LL_RCC_MSI_GetCalibration r =
     drop_bit RCC_ICSCR_MSICAL_Pos (READ_BIT RCC_ICSCR RCC_ICSCR_MSICAL r)"

definition LL_RCC_MSI_SetCalibTrimming :: "u32 \<Rightarrow> regs \<Rightarrow> regs" where
  [ll_def]: "LL_RCC_MSI_SetCalibTrimming Value r =
     MODIFY_REG RCC_ICSCR RCC_ICSCR_MSITRIM (push_bit RCC_ICSCR_MSITRIM_Pos Value) r"

definition LL_RCC_MSI_GetCalibTrimming :: "regs \<Rightarrow> u32" where
  [ll_def]: "LL_RCC_MSI_GetCalibTrimming r =
     drop_bit RCC_ICSCR_MSITRIM_Pos (READ_BIT RCC_ICSCR RCC_ICSCR_MSITRIM r)"

definition LL_RCC_LSCO_Enable :: "regs \<Rightarrow> regs" where
  [ll_def]: "LL_RCC_LSCO_Enable r = SET_BIT RCC_BDCR RCC_BDCR_LSCOEN r"

definition LL_RCC_LSCO_Disable :: "regs \<Rightarrow> regs" where
  [ll_def]: "LL_RCC_LSCO_Disable r = CLEAR_BIT RCC_BDCR RCC_BDCR_LSCOEN r"

definition LL_RCC_LSCO_SetSource :: "u32 \<Rightarrow> regs \<Rightarrow> regs" where
  [ll_def]: "LL_RCC_LSCO_SetSource Source r = MODIFY_REG RCC_BDCR RCC_BDCR_LSCOSEL Source r"

definition LL_RCC_LSCO_GetSource :: "regs \<Rightarrow> u32" where
  [ll_def]: "LL_RCC_LSCO_GetSource r = READ_BIT RCC_BDCR RCC_BDCR_LSCOSEL r"

definition LL_RCC_RF_EnableReset :: "regs \<Rightarrow> regs" where
  [ll_def]: "LL_RCC_RF_EnableReset r = SET_BIT RCC_CSR RCC_CSR_RFRST r"

definition LL_RCC_RF_DisableReset :: "regs \<Rightarrow> regs" where
  [ll_def]: "LL_RCC_RF_DisableReset r = CLEAR_BIT RCC_CSR RCC_CSR_RFRST r"

definition LL_RCC_RF_IsEnabledReset :: "regs \<Rightarrow> u32" where
  [ll_def]: "LL_RCC_RF_IsEnabledReset r =
     (if READ_BIT RCC_CSR RCC_CSR_RFRST r = RCC_CSR_RFRST then 1 else 0)"

definition LL_RCC_IsRFUnderReset :: "regs \<Rightarrow> u32" where
  [ll_def]: "LL_RCC_IsRFUnderReset r =
     (if READ_BIT RCC_CSR RCC_CSR_RFRSTF r = RCC_CSR_RFRSTF then 1 else 0)"

definition LL_RCC_SetSysClkSource :: "u32 \<Rightarrow> regs \<Rightarrow> regs" where
  [ll_def]: "LL_RCC_SetSysClkSource Source r = MODIFY_REG RCC_CFGR RCC_CFGR_SW Source r"

definition LL_RCC_GetSysClkSource :: "regs \<Rightarrow> u32" where
  [ll_def]: "LL_RCC_GetSysClkSource r = READ_BIT RCC_CFGR RCC_CFGR_SWS r"

definition LL_RCC_SetAHBPrescaler :: "u32 \<Rightarrow> regs \<Rightarrow> regs" where
  [ll_def]: "LL_RCC_SetAHBPrescaler Prescaler r = MODIFY_REG RCC_CFGR RCC_CFGR_HPRE Prescaler r"

definition LL_C2_RCC_SetAHBPrescaler :: "u32 \<Rightarrow> regs \<Rightarrow> regs" where
  [ll_def]: "LL_C2_RCC_SetAHBPrescaler Prescaler r =
     MODIFY_REG RCC_EXTCFGR RCC_EXTCFGR_C2HPRE Prescaler r"

definition LL_RCC_SetAHB3Prescaler :: "u32 \<Rightarrow> regs \<Rightarrow> regs" where
  [ll_def]: "LL_RCC_SetAHB3Prescaler Prescaler r =
     MODIFY_REG RCC_EXTCFGR RCC_EXTCFGR_SHDHPRE (drop_bit 4 Prescaler) r"

definition LL_RCC_SetAPB1Prescaler :: "u32 \<Rightarrow> regs \<Rightarrow> regs" where
  [ll_def]: "LL_RCC_SetAPB1Prescaler Prescaler r = MODIFY_REG RCC_CFGR RCC_CFGR_PPRE1 Prescaler r"

definition LL_RCC_SetAPB2Prescaler :: "u32 \<Rightarrow> regs \<Rightarrow> regs" where
  [ll_def]: "LL_RCC_SetAPB2Prescaler Prescaler r = MODIFY_REG RCC_CFGR RCC_CFGR_PPRE2 Prescaler r"

definition LL_RCC_GetAHBPrescaler :: "regs \<Rightarrow> u32" where
  [ll_def]: "LL_RCC_GetAHBPrescaler r = READ_BIT RCC_CFGR RCC_CFGR_HPRE r"

definition LL_C2_RCC_GetAHBPrescaler :: "regs \<Rightarrow> u32" where
  [ll_def]: "LL_C2_RCC_GetAHBPrescaler r = READ_BIT RCC_EXTCFGR RCC_EXTCFGR_C2HPRE r"

definition LL_RCC_GetAHB3Prescaler :: "regs \<Rightarrow> u32" where
  [ll_def]: "LL_RCC_GetAHB3Prescaler r = push_bit 4 (READ_BIT RCC_EXTCFGR RCC_EXTCFGR_SHDHPRE r)"

definition LL_RCC_GetAPB1Prescaler :: "regs \<Rightarrow> u32" where
  [ll_def]: "LL_RCC_GetAPB1Prescaler r = READ_BIT RCC_CFGR RCC_CFGR_PPRE1 r"

definition LL_RCC_GetAPB2Prescaler :: "regs \<Rightarrow> u32" where
  [ll_def]: "LL_RCC_GetAPB2Prescaler r = READ_BIT RCC_CFGR RCC_CFGR_PPRE2 r"

definition LL_RCC_SetClkAfterWakeFromStop :: "u32 \<Rightarrow> regs \<Rightarrow> regs" where
  [ll_def]: "LL_RCC_SetClkAfterWakeFromStop Clock r =
     MODIFY_REG RCC_CFGR RCC_CFGR_STOPWUCK Clock r"

definition LL_RCC_GetClkAfterWakeFromStop :: "regs \<Rightarrow> u32" where
  [ll_def]: "LL_RCC_GetClkAfterWakeFromStop r = READ_BIT RCC_CFGR RCC_CFGR_STOPWUCK r"

definition LL_RCC_ConfigMCO :: "u32 \<Rightarrow> u32 \<Rightarrow> regs \<Rightarrow> regs" where
  [ll_def]: "LL_RCC_ConfigMCO MCOxSource MCOxPrescaler r =
     MODIFY_REG RCC_CFGR (RCC_CFGR_MCOSEL OR RCC_CFGR_MCOPRE) (MCOxSource OR MCOxPrescaler) r"

definition LL_RCC_SetUSARTClockSource :: "u32 \<Rightarrow> regs \<Rightarrow> regs" where
  [ll_def]: "LL_RCC_SetUSARTClockSource USARTxSource r =
     MODIFY_REG RCC_CCIPR (drop_bit 16 USARTxSource) (USARTxSource AND 0x0000FFFF) r"

definition LL_RCC_SetI2SClockSource :: "u32 \<Rightarrow> regs \<Rightarrow> regs" where
  [ll_def]: "LL_RCC_SetI2SClockSource I2SxSource r =
     MODIFY_REG RCC_CCIPR RCC_CCIPR_I2S2SEL I2SxSource r"

definition LL_RCC_SetLPUARTClockSource :: "u32 \<Rightarrow> regs \<Rightarrow> regs" where
  [ll_def]: "LL_RCC_SetLPUARTClockSource LPUARTxSource r =
     MODIFY_REG RCC_CCIPR RCC_CCIPR_LPUART1SEL LPUARTxSource r"

definition LL_RCC_SetI2CClockSource :: "u32 \<Rightarrow> regs \<Rightarrow> regs" where
  [ll_def]: "LL_RCC_SetI2CClockSource I2CxSource r =
     MODIFY_REG RCC_CCIPR ((drop_bit 4 I2CxSource) AND 0x000FF000) ((push_bit 4 I2CxSource) AND
        0x000FF000) r"

definition LL_RCC_SetLPTIMClockSource :: "u32 \<Rightarrow> regs \<Rightarrow> regs" where
  [ll_def]: "LL_RCC_SetLPTIMClockSource LPTIMxSource r =
     MODIFY_REG RCC_CCIPR (LPTIMxSource AND 0xFFFF0000) (push_bit 16 LPTIMxSource) r"

definition LL_RCC_SetRNGClockSource :: "u32 \<Rightarrow> regs \<Rightarrow> regs" where
  [ll_def]: "LL_RCC_SetRNGClockSource RNGxSource r =
     MODIFY_REG RCC_CCIPR RCC_CCIPR_RNGSEL RNGxSource r"

definition LL_RCC_SetADCClockSource :: "u32 \<Rightarrow> regs \<Rightarrow> regs" where
  [ll_def]: "LL_RCC_SetADCClockSource ADCxSource r =
     MODIFY_REG RCC_CCIPR RCC_CCIPR_ADCSEL ADCxSource r"

definition LL_RCC_GetUSARTClockSource :: "u32 \<Rightarrow> regs \<Rightarrow> u32" where
  [ll_def]: "LL_RCC_GetUSARTClockSource USARTx r =
     (READ_BIT RCC_CCIPR USARTx r) OR (push_bit 16 USARTx)"

definition LL_RCC_GetI2SClockSource :: "u32 \<Rightarrow> regs \<Rightarrow> u32" where
  [ll_def]: "LL_RCC_GetI2SClockSource I2Sx r = READ_BIT RCC_CCIPR I2Sx r"

definition LL_RCC_GetLPUARTClockSource :: "u32 \<Rightarrow> regs \<Rightarrow> u32" where
  [ll_def]: "LL_RCC_GetLPUARTClockSource LPUARTx r = READ_BIT RCC_CCIPR LPUARTx r"

definition LL_RCC_GetI2CClockSource :: "u32 \<Rightarrow> regs \<Rightarrow> u32" where
  [ll_def]: "LL_RCC_GetI2CClockSource I2Cx r =
     (drop_bit 4 (READ_BIT RCC_CCIPR I2Cx r)) OR (push_bit 4 I2Cx)"

definition LL_RCC_GetLPTIMClockSource :: "u32 \<Rightarrow> regs \<Rightarrow> u32" where
  [ll_def]: "LL_RCC_GetLPTIMClockSource LPTIMx r =
     (drop_bit 16 (READ_BIT RCC_CCIPR LPTIMx r)) OR LPTIMx"

definition LL_RCC_GetRNGClockSource :: "u32 \<Rightarrow> regs \<Rightarrow> u32" where
  [ll_def]: "LL_RCC_GetRNGClockSource RNGx r = READ_BIT RCC_CCIPR RNGx r"

definition LL_RCC_GetADCClockSource :: "u32 \<Rightarrow> regs \<Rightarrow> u32" where
  [ll_def]: "LL_RCC_GetADCClockSource ADCx r = READ_BIT RCC_CCIPR ADCx r"

definition LL_RCC_SetRTCClockSource :: "u32 \<Rightarrow> regs \<Rightarrow> regs" where
  [ll_def]: "LL_RCC_SetRTCClockSource Source r = MODIFY_REG RCC_BDCR RCC_BDCR_RTCSEL Source r"

definition LL_RCC_GetRTCClockSource :: "regs \<Rightarrow> u32" where
  [ll_def]: "LL_RCC_GetRTCClockSource r = READ_BIT RCC_BDCR RCC_BDCR_RTCSEL r"

definition LL_RCC_EnableRTC :: "regs \<Rightarrow> regs" where
  [ll_def]: "LL_RCC_EnableRTC r = SET_BIT RCC_BDCR RCC_BDCR_RTCEN r"

definition LL_RCC_DisableRTC :: "regs \<Rightarrow> regs" where
  [ll_def]: "LL_RCC_DisableRTC r = CLEAR_BIT RCC_BDCR RCC_BDCR_RTCEN r"

definition LL_RCC_IsEnabledRTC :: "regs \<Rightarrow> u32" where
  [ll_def]: "LL_RCC_IsEnabledRTC r =
     (if READ_BIT RCC_BDCR RCC_BDCR_RTCEN r = RCC_BDCR_RTCEN then 1 else 0)"

definition LL_RCC_ForceBackupDomainReset :: "regs \<Rightarrow> regs" where
  [ll_def]: "LL_RCC_ForceBackupDomainReset r = SET_BIT RCC_BDCR RCC_BDCR_BDRST r"

definition LL_RCC_ReleaseBackupDomainReset :: "regs \<Rightarrow> regs" where
  [ll_def]: "LL_RCC_ReleaseBackupDomainReset r = CLEAR_BIT RCC_BDCR RCC_BDCR_BDRST r"

definition LL_RCC_PLL_Enable :: "regs \<Rightarrow> regs" where
  [ll_def]: "LL_RCC_PLL_Enable r = SET_BIT RCC_CR RCC_CR_PLLON r"

definition LL_RCC_PLL_Disable :: "regs \<Rightarrow> regs" where
  [ll_def]: "LL_RCC_PLL_Disable r = CLEAR_BIT RCC_CR RCC_CR_PLLON r"

definition LL_RCC_PLL_IsReady :: "regs \<Rightarrow> u32" where
  [ll_def]: "LL_RCC_PLL_IsReady r =
     (if READ_BIT RCC_CR RCC_CR_PLLRDY r = RCC_CR_PLLRDY then 1 else 0)"

definition LL_RCC_PLL_ConfigDomain_SYS :: "u32 \<Rightarrow> u32 \<Rightarrow> u32 \<Rightarrow> u32 \<Rightarrow> regs \<Rightarrow> regs" where
  [ll_def]: "LL_RCC_PLL_ConfigDomain_SYS Source PLLM PLLN PLLR r =
     MODIFY_REG RCC_PLLCFGR (RCC_PLLCFGR_PLLSRC OR RCC_PLLCFGR_PLLM OR RCC_PLLCFGR_PLLN OR
        RCC_PLLCFGR_PLLR) (Source OR PLLM OR (push_bit RCC_PLLCFGR_PLLN_Pos PLLN) OR PLLR) r"

definition LL_RCC_PLL_ConfigDomain_ADC :: "u32 \<Rightarrow> u32 \<Rightarrow> u32 \<Rightarrow> u32 \<Rightarrow> regs \<Rightarrow> regs" where
  [ll_def]: "LL_RCC_PLL_ConfigDomain_ADC Source PLLM PLLN PLLP r =
     MODIFY_REG RCC_PLLCFGR (RCC_PLLCFGR_PLLSRC OR RCC_PLLCFGR_PLLM OR RCC_PLLCFGR_PLLN OR
        RCC_PLLCFGR_PLLP) (Source OR PLLM OR (push_bit RCC_PLLCFGR_PLLN_Pos PLLN) OR PLLP) r"

definition LL_RCC_PLL_ConfigDomain_RNG :: "u32 \<Rightarrow> u32 \<Rightarrow> u32 \<Rightarrow> u32 \<Rightarrow> regs \<Rightarrow> regs" where
  [ll_def]: "LL_RCC_PLL_ConfigDomain_RNG Source PLLM PLLN PLLQ r =
     MODIFY_REG RCC_PLLCFGR (RCC_PLLCFGR_PLLSRC OR RCC_PLLCFGR_PLLM OR RCC_PLLCFGR_PLLN OR
        RCC_PLLCFGR_PLLQ) (Source OR PLLM OR (push_bit RCC_PLLCFGR_PLLN_Pos PLLN) OR PLLQ) r"

definition LL_RCC_PLL_ConfigDomain_I2S :: "u32 \<Rightarrow> u32 \<Rightarrow> u32 \<Rightarrow> u32 \<Rightarrow> regs \<Rightarrow> regs" where
  [ll_def]: "LL_RCC_PLL_ConfigDomain_I2S Source PLLM PLLN PLLQ r =
     MODIFY_REG RCC_PLLCFGR (RCC_PLLCFGR_PLLSRC OR RCC_PLLCFGR_PLLM OR RCC_PLLCFGR_PLLN OR
        RCC_PLLCFGR_PLLQ) (Source OR PLLM OR (push_bit RCC_PLLCFGR_PLLN_Pos PLLN) OR PLLQ) r"

definition LL_RCC_PLL_GetN :: "regs \<Rightarrow> u32" where
  [ll_def]: "LL_RCC_PLL_GetN r =
     drop_bit RCC_PLLCFGR_PLLN_Pos (READ_BIT RCC_PLLCFGR RCC_PLLCFGR_PLLN r)"

definition LL_RCC_PLL_GetP :: "regs \<Rightarrow> u32" where
  [ll_def]: "LL_RCC_PLL_GetP r = READ_BIT RCC_PLLCFGR RCC_PLLCFGR_PLLP r"

definition LL_RCC_PLL_GetQ :: "regs \<Rightarrow> u32" where
  [ll_def]: "LL_RCC_PLL_GetQ r = READ_BIT RCC_PLLCFGR RCC_PLLCFGR_PLLQ r"

definition LL_RCC_PLL_GetR :: "regs \<Rightarrow> u32" where
  [ll_def]: "LL_RCC_PLL_GetR r = READ_BIT RCC_PLLCFGR RCC_PLLCFGR_PLLR r"

definition LL_RCC_PLL_GetDivider :: "regs \<Rightarrow> u32" where
  [ll_def]: "LL_RCC_PLL_GetDivider r = READ_BIT RCC_PLLCFGR RCC_PLLCFGR_PLLM r"

definition LL_RCC_PLL_EnableDomain_ADC :: "regs \<Rightarrow> regs" where
  [ll_def]: "LL_RCC_PLL_EnableDomain_ADC r = SET_BIT RCC_PLLCFGR RCC_PLLCFGR_PLLPEN r"

definition LL_RCC_PLL_DisableDomain_ADC :: "regs \<Rightarrow> regs" where
  [ll_def]: "LL_RCC_PLL_DisableDomain_ADC r = CLEAR_BIT RCC_PLLCFGR RCC_PLLCFGR_PLLPEN r"

definition LL_RCC_PLL_IsEnabledDomain_ADC :: "regs \<Rightarrow> u32" where
  [ll_def]: "LL_RCC_PLL_IsEnabledDomain_ADC r =
     (if READ_BIT RCC_PLLCFGR RCC_PLLCFGR_PLLPEN r = RCC_PLLCFGR_PLLPEN then 1 else 0)"

definition LL_RCC_PLL_EnableDomain_RNG :: "regs \<Rightarrow> regs" where
  [ll_def]: "LL_RCC_PLL_EnableDomain_RNG r = SET_BIT RCC_PLLCFGR RCC_PLLCFGR_PLLQEN r"

definition LL_RCC_PLL_DisableDomain_RNG :: "regs \<Rightarrow> regs" where
  [ll_def]: "LL_RCC_PLL_DisableDomain_RNG r = CLEAR_BIT RCC_PLLCFGR RCC_PLLCFGR_PLLQEN r"

definition LL_RCC_PLL_IsEnabledDomain_RNG :: "regs \<Rightarrow> u32" where
  [ll_def]: "LL_RCC_PLL_IsEnabledDomain_RNG r =
     (if READ_BIT RCC_PLLCFGR RCC_PLLCFGR_PLLQEN r = RCC_PLLCFGR_PLLQEN then 1 else 0)"

definition LL_RCC_PLL_EnableDomain_I2S :: "regs \<Rightarrow> regs" where
  [ll_def]: "LL_RCC_PLL_EnableDomain_I2S r = SET_BIT RCC_PLLCFGR RCC_PLLCFGR_PLLQEN r"

definition LL_RCC_PLL_DisableDomain_I2S :: "regs \<Rightarrow> regs" where
  [ll_def]: "LL_RCC_PLL_DisableDomain_I2S r = CLEAR_BIT RCC_PLLCFGR RCC_PLLCFGR_PLLQEN r"

definition LL_RCC_PLL_IsEnabledDomain_I2S :: "regs \<Rightarrow> u32" where
  [ll_def]: "LL_RCC_PLL_IsEnabledDomain_I2S r =
     (if READ_BIT RCC_PLLCFGR RCC_PLLCFGR_PLLQEN r = RCC_PLLCFGR_PLLQEN then 1 else 0)"

definition LL_RCC_PLL_EnableDomain_SYS :: "regs \<Rightarrow> regs" where
  [ll_def]: "LL_RCC_PLL_EnableDomain_SYS r = SET_BIT RCC_PLLCFGR RCC_PLLCFGR_PLLREN r"

definition LL_RCC_PLL_DisableDomain_SYS :: "regs \<Rightarrow> regs" where
  [ll_def]: "LL_RCC_PLL_DisableDomain_SYS r = CLEAR_BIT RCC_PLLCFGR RCC_PLLCFGR_PLLREN r"

definition LL_RCC_PLL_IsEnabledDomain_SYS :: "regs \<Rightarrow> u32" where
  [ll_def]: "LL_RCC_PLL_IsEnabledDomain_SYS r =
     (if READ_BIT RCC_PLLCFGR RCC_PLLCFGR_PLLREN r = RCC_PLLCFGR_PLLREN then 1 else 0)"

definition LL_RCC_PLL_SetMainSource :: "u32 \<Rightarrow> regs \<Rightarrow> regs" where
  [ll_def]: "LL_RCC_PLL_SetMainSource PLLSource r =
     MODIFY_REG RCC_PLLCFGR RCC_PLLCFGR_PLLSRC PLLSource r"

definition LL_RCC_PLL_GetMainSource :: "regs \<Rightarrow> u32" where
  [ll_def]: "LL_RCC_PLL_GetMainSource r = READ_BIT RCC_PLLCFGR RCC_PLLCFGR_PLLSRC r"

definition LL_RCC_ClearFlag_LSIRDY :: "regs \<Rightarrow> regs" where
  [ll_def]: "LL_RCC_ClearFlag_LSIRDY r = SET_BIT RCC_CICR RCC_CICR_LSIRDYC r"

definition LL_RCC_ClearFlag_LSERDY :: "regs \<Rightarrow> regs" where
  [ll_def]: "LL_RCC_ClearFlag_LSERDY r = SET_BIT RCC_CICR RCC_CICR_LSERDYC r"

definition LL_RCC_ClearFlag_MSIRDY :: "regs \<Rightarrow> regs" where
  [ll_def]: "LL_RCC_ClearFlag_MSIRDY r = SET_BIT RCC_CICR RCC_CICR_MSIRDYC r"

definition LL_RCC_ClearFlag_HSIRDY :: "regs \<Rightarrow> regs" where
  [ll_def]: "LL_RCC_ClearFlag_HSIRDY r = SET_BIT RCC_CICR RCC_CICR_HSIRDYC r"

definition LL_RCC_ClearFlag_HSERDY :: "regs \<Rightarrow> regs" where
  [ll_def]: "LL_RCC_ClearFlag_HSERDY r = SET_BIT RCC_CICR RCC_CICR_HSERDYC r"

definition LL_RCC_ClearFlag_PLLRDY :: "regs \<Rightarrow> regs" where
  [ll_def]: "LL_RCC_ClearFlag_PLLRDY r = SET_BIT RCC_CICR RCC_CICR_PLLRDYC r"

definition LL_RCC_ClearFlag_HSECSS :: "regs \<Rightarrow> regs" where
  [ll_def]: "LL_RCC_ClearFlag_HSECSS r = SET_BIT RCC_CICR RCC_CICR_CSSC r"

definition LL_RCC_ClearFlag_LSECSS :: "regs \<Rightarrow> regs" where
  [ll_def]: "LL_RCC_ClearFlag_LSECSS r = SET_BIT RCC_CICR RCC_CICR_LSECSSC r"

definition LL_RCC_IsActiveFlag_LSIRDY :: "regs \<Rightarrow> u32" where
  [ll_def]: "LL_RCC_IsActiveFlag_LSIRDY r =
     (if READ_BIT RCC_CIFR RCC_CIFR_LSIRDYF r = RCC_CIFR_LSIRDYF then 1 else 0)"

definition LL_RCC_IsActiveFlag_LSERDY :: "regs \<Rightarrow> u32" where
  [ll_def]: "LL_RCC_IsActiveFlag_LSERDY r =
     (if READ_BIT RCC_CIFR RCC_CIFR_LSERDYF r = RCC_CIFR_LSERDYF then 1 else 0)"

definition LL_RCC_IsActiveFlag_MSIRDY :: "regs \<Rightarrow> u32" where
  [ll_def]: "LL_RCC_IsActiveFlag_MSIRDY r =
     (if READ_BIT RCC_CIFR RCC_CIFR_MSIRDYF r = RCC_CIFR_MSIRDYF then 1 else 0)"

definition LL_RCC_IsActiveFlag_HSIRDY :: "regs \<Rightarrow> u32" where
  [ll_def]: "LL_RCC_IsActiveFlag_HSIRDY r =
     (if READ_BIT RCC_CIFR RCC_CIFR_HSIRDYF r = RCC_CIFR_HSIRDYF then 1 else 0)"

definition LL_RCC_IsActiveFlag_HSERDY :: "regs \<Rightarrow> u32" where
  [ll_def]: "LL_RCC_IsActiveFlag_HSERDY r =
     (if READ_BIT RCC_CIFR RCC_CIFR_HSERDYF r = RCC_CIFR_HSERDYF then 1 else 0)"

definition LL_RCC_IsActiveFlag_PLLRDY :: "regs \<Rightarrow> u32" where
  [ll_def]: "LL_RCC_IsActiveFlag_PLLRDY r =
     (if READ_BIT RCC_CIFR RCC_CIFR_PLLRDYF r = RCC_CIFR_PLLRDYF then 1 else 0)"

definition LL_RCC_IsActiveFlag_HSECSS :: "regs \<Rightarrow> u32" where
  [ll_def]: "LL_RCC_IsActiveFlag_HSECSS r =
     (if READ_BIT RCC_CIFR RCC_CIFR_CSSF r = RCC_CIFR_CSSF then 1 else 0)"

definition LL_RCC_IsActiveFlag_LSECSS :: "regs \<Rightarrow> u32" where
  [ll_def]: "LL_RCC_IsActiveFlag_LSECSS r =
     (if READ_BIT RCC_CIFR RCC_CIFR_LSECSSF r = RCC_CIFR_LSECSSF then 1 else 0)"

definition LL_RCC_IsActiveFlag_HPRE :: "regs \<Rightarrow> u32" where
  [ll_def]: "LL_RCC_IsActiveFlag_HPRE r =
     (if READ_BIT RCC_CFGR RCC_CFGR_HPREF r = RCC_CFGR_HPREF then 1 else 0)"

definition LL_RCC_IsActiveFlag_C2HPRE :: "regs \<Rightarrow> u32" where
  [ll_def]: "LL_RCC_IsActiveFlag_C2HPRE r =
     (if READ_BIT RCC_EXTCFGR RCC_EXTCFGR_C2HPREF r = RCC_EXTCFGR_C2HPREF then 1 else 0)"

definition LL_RCC_IsActiveFlag_SHDHPRE :: "regs \<Rightarrow> u32" where
  [ll_def]: "LL_RCC_IsActiveFlag_SHDHPRE r =
     (if READ_BIT RCC_EXTCFGR RCC_EXTCFGR_SHDHPREF r = RCC_EXTCFGR_SHDHPREF then 1 else 0)"

definition LL_RCC_IsActiveFlag_PPRE1 :: "regs \<Rightarrow> u32" where
  [ll_def]: "LL_RCC_IsActiveFlag_PPRE1 r =
     (if READ_BIT RCC_CFGR RCC_CFGR_PPRE1F r = RCC_CFGR_PPRE1F then 1 else 0)"

definition LL_RCC_IsActiveFlag_PPRE2 :: "regs \<Rightarrow> u32" where
  [ll_def]: "LL_RCC_IsActiveFlag_PPRE2 r =
     (if READ_BIT RCC_CFGR RCC_CFGR_PPRE2F r = RCC_CFGR_PPRE2F then 1 else 0)"

definition LL_RCC_IsActiveFlag_IWDGRST :: "regs \<Rightarrow> u32" where
  [ll_def]: "LL_RCC_IsActiveFlag_IWDGRST r =
     (if READ_BIT RCC_CSR RCC_CSR_IWDGRSTF r = RCC_CSR_IWDGRSTF then 1 else 0)"

definition LL_RCC_IsActiveFlag_RFILARST :: "regs \<Rightarrow> u32" where
  [ll_def]: "LL_RCC_IsActiveFlag_RFILARST r =
     (if READ_BIT RCC_CSR RCC_CSR_RFILARSTF r = RCC_CSR_RFILARSTF then 1 else 0)"

definition LL_RCC_IsActiveFlag_LPWRRST :: "regs \<Rightarrow> u32" where
  [ll_def]: "LL_RCC_IsActiveFlag_LPWRRST r =
     (if READ_BIT RCC_CSR RCC_CSR_LPWRRSTF r = RCC_CSR_LPWRRSTF then 1 else 0)"

definition LL_RCC_IsActiveFlag_OBLRST :: "regs \<Rightarrow> u32" where
  [ll_def]: "LL_RCC_IsActiveFlag_OBLRST r =
     (if READ_BIT RCC_CSR RCC_CSR_OBLRSTF r = RCC_CSR_OBLRSTF then 1 else 0)"

definition LL_RCC_IsActiveFlag_PINRST :: "regs \<Rightarrow> u32" where
  [ll_def]: "LL_RCC_IsActiveFlag_PINRST r =
     (if READ_BIT RCC_CSR RCC_CSR_PINRSTF r = RCC_CSR_PINRSTF then 1 else 0)"

definition LL_RCC_IsActiveFlag_SFTRST :: "regs \<Rightarrow> u32" where
  [ll_def]: "LL_RCC_IsActiveFlag_SFTRST r =
     (if READ_BIT RCC_CSR RCC_CSR_SFTRSTF r = RCC_CSR_SFTRSTF then 1 else 0)"

definition LL_RCC_IsActiveFlag_WWDGRST :: "regs \<Rightarrow> u32" where
  [ll_def]: "LL_RCC_IsActiveFlag_WWDGRST r =
     (if READ_BIT RCC_CSR RCC_CSR_WWDGRSTF r = RCC_CSR_WWDGRSTF then 1 else 0)"

definition LL_RCC_IsActiveFlag_BORRST :: "regs \<Rightarrow> u32" where
  [ll_def]: "LL_RCC_IsActiveFlag_BORRST r =
     (if READ_BIT RCC_CSR RCC_CSR_BORRSTF r = RCC_CSR_BORRSTF then 1 else 0)"

definition LL_RCC_ClearResetFlags :: "regs \<Rightarrow> regs" where
  [ll_def]: "LL_RCC_ClearResetFlags r = SET_BIT RCC_CSR RCC_CSR_RMVF r"

definition LL_RCC_EnableIT_LSIRDY :: "regs \<Rightarrow> regs" where
  [ll_def]: "LL_RCC_EnableIT_LSIRDY r = SET_BIT RCC_CIER RCC_CIER_LSIRDYIE r"

definition LL_RCC_EnableIT_LSERDY :: "regs \<Rightarrow> regs" where
  [ll_def]: "LL_RCC_EnableIT_LSERDY r = SET_BIT RCC_CIER RCC_CIER_LSERDYIE r"

definition LL_RCC_EnableIT_MSIRDY :: "regs \<Rightarrow> regs" where
  [ll_def]: "LL_RCC_EnableIT_MSIRDY r = SET_BIT RCC_CIER RCC_CIER_MSIRDYIE r"

definition LL_RCC_EnableIT_HSIRDY :: "regs \<Rightarrow> regs" where
  [ll_def]: "LL_RCC_EnableIT_HSIRDY r = SET_BIT RCC_CIER RCC_CIER_HSIRDYIE r"

definition LL_RCC_EnableIT_HSERDY :: "regs \<Rightarrow> regs" where
  [ll_def]: "LL_RCC_EnableIT_HSERDY r = SET_BIT RCC_CIER RCC_CIER_HSERDYIE r"

definition LL_RCC_EnableIT_PLLRDY :: "regs \<Rightarrow> regs" where
  [ll_def]: "LL_RCC_EnableIT_PLLRDY r = SET_BIT RCC_CIER RCC_CIER_PLLRDYIE r"

definition LL_RCC_EnableIT_LSECSS :: "regs \<Rightarrow> regs" where
  [ll_def]: "LL_RCC_EnableIT_LSECSS r = SET_BIT RCC_CIER RCC_CIER_LSECSSIE r"

definition LL_RCC_DisableIT_LSIRDY :: "regs \<Rightarrow> regs" where
  [ll_def]: "LL_RCC_DisableIT_LSIRDY r = CLEAR_BIT RCC_CIER RCC_CIER_LSIRDYIE r"

definition LL_RCC_DisableIT_LSERDY :: "regs \<Rightarrow> regs" where
  [ll_def]: "LL_RCC_DisableIT_LSERDY r = CLEAR_BIT RCC_CIER RCC_CIER_LSERDYIE r"

definition LL_RCC_DisableIT_MSIRDY :: "regs \<Rightarrow> regs" where
  [ll_def]: "LL_RCC_DisableIT_MSIRDY r = CLEAR_BIT RCC_CIER RCC_CIER_MSIRDYIE r"

definition LL_RCC_DisableIT_HSIRDY :: "regs \<Rightarrow> regs" where
  [ll_def]: "LL_RCC_DisableIT_HSIRDY r = CLEAR_BIT RCC_CIER RCC_CIER_HSIRDYIE r"

definition LL_RCC_DisableIT_HSERDY :: "regs \<Rightarrow> regs" where
  [ll_def]: "LL_RCC_DisableIT_HSERDY r = CLEAR_BIT RCC_CIER RCC_CIER_HSERDYIE r"

definition LL_RCC_DisableIT_PLLRDY :: "regs \<Rightarrow> regs" where
  [ll_def]: "LL_RCC_DisableIT_PLLRDY r = CLEAR_BIT RCC_CIER RCC_CIER_PLLRDYIE r"

definition LL_RCC_DisableIT_LSECSS :: "regs \<Rightarrow> regs" where
  [ll_def]: "LL_RCC_DisableIT_LSECSS r = CLEAR_BIT RCC_CIER RCC_CIER_LSECSSIE r"

definition LL_RCC_IsEnabledIT_LSIRDY :: "regs \<Rightarrow> u32" where
  [ll_def]: "LL_RCC_IsEnabledIT_LSIRDY r =
     (if READ_BIT RCC_CIER RCC_CIER_LSIRDYIE r = RCC_CIER_LSIRDYIE then 1 else 0)"

definition LL_RCC_IsEnabledIT_LSERDY :: "regs \<Rightarrow> u32" where
  [ll_def]: "LL_RCC_IsEnabledIT_LSERDY r =
     (if READ_BIT RCC_CIER RCC_CIER_LSERDYIE r = RCC_CIER_LSERDYIE then 1 else 0)"

definition LL_RCC_IsEnabledIT_MSIRDY :: "regs \<Rightarrow> u32" where
  [ll_def]: "LL_RCC_IsEnabledIT_MSIRDY r =
     (if READ_BIT RCC_CIER RCC_CIER_MSIRDYIE r = RCC_CIER_MSIRDYIE then 1 else 0)"

definition LL_RCC_IsEnabledIT_HSIRDY :: "regs \<Rightarrow> u32" where
  [ll_def]: "LL_RCC_IsEnabledIT_HSIRDY r =
     (if READ_BIT RCC_CIER RCC_CIER_HSIRDYIE r = RCC_CIER_HSIRDYIE then 1 else 0)"

definition LL_RCC_IsEnabledIT_HSERDY :: "regs \<Rightarrow> u32" where
  [ll_def]: "LL_RCC_IsEnabledIT_HSERDY r =
     (if READ_BIT RCC_CIER RCC_CIER_HSERDYIE r = RCC_CIER_HSERDYIE then 1 else 0)"

definition LL_RCC_IsEnabledIT_PLLRDY :: "regs \<Rightarrow> u32" where
  [ll_def]: "LL_RCC_IsEnabledIT_PLLRDY r =
     (if READ_BIT RCC_CIER RCC_CIER_PLLRDYIE r = RCC_CIER_PLLRDYIE then 1 else 0)"

definition LL_RCC_IsEnabledIT_LSECSS :: "regs \<Rightarrow> u32" where
  [ll_def]: "LL_RCC_IsEnabledIT_LSECSS r =
     (if READ_BIT RCC_CIER RCC_CIER_LSECSSIE r = RCC_CIER_LSECSSIE then 1 else 0)"

section \<open>Settings\<close>

text \<open>
  Every setter with its getter: the field it writes, how a value is placed in the field and
  read from it, and the values its documentation lists. The selectors of the serial interfaces and timers
  carry the mask of their field in the value itself.
\<close>

definition rcc_settings :: "setting list" where
  "rcc_settings =
    [\<lparr>set_reg = RCC_BDCR, set_mask = RCC_BDCR_LSEDRV,
       set_put = LL_RCC_LSE_SetDriveCapability, set_get = LL_RCC_LSE_GetDriveCapability,
       set_enc = \<lambda>v. v, set_dec = \<lambda>e. e,
       set_ok = \<lambda>v. v \<in> {LL_RCC_LSEDRIVE_LOW, LL_RCC_LSEDRIVE_MEDIUMLOW, LL_RCC_LSEDRIVE_MEDIUMHIGH,
          LL_RCC_LSEDRIVE_HIGH}\<rparr>,
     \<lparr>set_reg = RCC_CSR, set_mask = RCC_CSR_LSIPRE,
       set_put = LL_RCC_LSI_SetPrediv, set_get = LL_RCC_LSI_GetPrediv,
       set_enc = \<lambda>v. v, set_dec = \<lambda>e. e,
       set_ok = \<lambda>v. v \<in> {LL_RCC_LSI_PREDIV_1, LL_RCC_LSI_PREDIV_128}\<rparr>,
     \<lparr>set_reg = RCC_CR, set_mask = RCC_CR_MSIRANGE,
       set_put = LL_RCC_MSI_SetRange, set_get = LL_RCC_MSI_GetRange,
       set_enc = \<lambda>v. v, set_dec = \<lambda>e. e,
       set_ok = \<lambda>v. v \<in> {LL_RCC_MSIRANGE_0, LL_RCC_MSIRANGE_1, LL_RCC_MSIRANGE_2, LL_RCC_MSIRANGE_3,
          LL_RCC_MSIRANGE_4, LL_RCC_MSIRANGE_5, LL_RCC_MSIRANGE_6, LL_RCC_MSIRANGE_7,
          LL_RCC_MSIRANGE_8, LL_RCC_MSIRANGE_9, LL_RCC_MSIRANGE_10, LL_RCC_MSIRANGE_11}\<rparr>,
     \<lparr>set_reg = RCC_CSR, set_mask = RCC_CSR_MSISRANGE,
       set_put = LL_RCC_MSI_SetRangeAfterStandby, set_get = LL_RCC_MSI_GetRangeAfterStandby,
       set_enc = \<lambda>v. v, set_dec = \<lambda>e. e,
       set_ok = \<lambda>v. v \<in> {LL_RCC_MSISRANGE_4, LL_RCC_MSISRANGE_5, LL_RCC_MSISRANGE_6, LL_RCC_MSISRANGE_7}\<rparr>,
     \<lparr>set_reg = RCC_BDCR, set_mask = RCC_BDCR_LSCOSEL,
       set_put = LL_RCC_LSCO_SetSource, set_get = LL_RCC_LSCO_GetSource,
       set_enc = \<lambda>v. v, set_dec = \<lambda>e. e,
       set_ok = \<lambda>v. v \<in> {LL_RCC_LSCO_CLKSOURCE_LSI, LL_RCC_LSCO_CLKSOURCE_LSE}\<rparr>,
     \<lparr>set_reg = RCC_CFGR, set_mask = RCC_CFGR_HPRE,
       set_put = LL_RCC_SetAHBPrescaler, set_get = LL_RCC_GetAHBPrescaler,
       set_enc = \<lambda>v. v, set_dec = \<lambda>e. e,
       set_ok = \<lambda>v. v \<in> {LL_RCC_SYSCLK_DIV_1, LL_RCC_SYSCLK_DIV_2, LL_RCC_SYSCLK_DIV_3,
          LL_RCC_SYSCLK_DIV_4, LL_RCC_SYSCLK_DIV_5, LL_RCC_SYSCLK_DIV_6, LL_RCC_SYSCLK_DIV_8,
          LL_RCC_SYSCLK_DIV_10, LL_RCC_SYSCLK_DIV_16, LL_RCC_SYSCLK_DIV_32, LL_RCC_SYSCLK_DIV_64,
          LL_RCC_SYSCLK_DIV_128, LL_RCC_SYSCLK_DIV_256, LL_RCC_SYSCLK_DIV_512}\<rparr>,
     \<lparr>set_reg = RCC_EXTCFGR, set_mask = RCC_EXTCFGR_C2HPRE,
       set_put = LL_C2_RCC_SetAHBPrescaler, set_get = LL_C2_RCC_GetAHBPrescaler,
       set_enc = \<lambda>v. v, set_dec = \<lambda>e. e,
       set_ok = \<lambda>v. v \<in> {LL_RCC_SYSCLK_DIV_1, LL_RCC_SYSCLK_DIV_2, LL_RCC_SYSCLK_DIV_3,
          LL_RCC_SYSCLK_DIV_4, LL_RCC_SYSCLK_DIV_5, LL_RCC_SYSCLK_DIV_6, LL_RCC_SYSCLK_DIV_8,
          LL_RCC_SYSCLK_DIV_10, LL_RCC_SYSCLK_DIV_16, LL_RCC_SYSCLK_DIV_32, LL_RCC_SYSCLK_DIV_64,
          LL_RCC_SYSCLK_DIV_128, LL_RCC_SYSCLK_DIV_256, LL_RCC_SYSCLK_DIV_512}\<rparr>,
     \<lparr>set_reg = RCC_EXTCFGR, set_mask = RCC_EXTCFGR_SHDHPRE,
       set_put = LL_RCC_SetAHB3Prescaler, set_get = LL_RCC_GetAHB3Prescaler,
       set_enc = \<lambda>v. drop_bit 4 v, set_dec = \<lambda>e. push_bit 4 e,
       set_ok = \<lambda>v. v \<in> {LL_RCC_SYSCLK_DIV_1, LL_RCC_SYSCLK_DIV_2, LL_RCC_SYSCLK_DIV_3,
          LL_RCC_SYSCLK_DIV_4, LL_RCC_SYSCLK_DIV_5, LL_RCC_SYSCLK_DIV_6, LL_RCC_SYSCLK_DIV_8,
          LL_RCC_SYSCLK_DIV_10, LL_RCC_SYSCLK_DIV_16, LL_RCC_SYSCLK_DIV_32, LL_RCC_SYSCLK_DIV_64,
          LL_RCC_SYSCLK_DIV_128, LL_RCC_SYSCLK_DIV_256, LL_RCC_SYSCLK_DIV_512}\<rparr>,
     \<lparr>set_reg = RCC_CFGR, set_mask = RCC_CFGR_PPRE1,
       set_put = LL_RCC_SetAPB1Prescaler, set_get = LL_RCC_GetAPB1Prescaler,
       set_enc = \<lambda>v. v, set_dec = \<lambda>e. e,
       set_ok = \<lambda>v. v \<in> {LL_RCC_APB1_DIV_1, LL_RCC_APB1_DIV_2, LL_RCC_APB1_DIV_4, LL_RCC_APB1_DIV_8,
          LL_RCC_APB1_DIV_16}\<rparr>,
     \<lparr>set_reg = RCC_CFGR, set_mask = RCC_CFGR_PPRE2,
       set_put = LL_RCC_SetAPB2Prescaler, set_get = LL_RCC_GetAPB2Prescaler,
       set_enc = \<lambda>v. v, set_dec = \<lambda>e. e,
       set_ok = \<lambda>v. v \<in> {LL_RCC_APB2_DIV_1, LL_RCC_APB2_DIV_2, LL_RCC_APB2_DIV_4, LL_RCC_APB2_DIV_8,
          LL_RCC_APB2_DIV_16}\<rparr>,
     \<lparr>set_reg = RCC_CFGR, set_mask = RCC_CFGR_STOPWUCK,
       set_put = LL_RCC_SetClkAfterWakeFromStop, set_get = LL_RCC_GetClkAfterWakeFromStop,
       set_enc = \<lambda>v. v, set_dec = \<lambda>e. e,
       set_ok = \<lambda>v. v \<in> {LL_RCC_STOP_WAKEUPCLOCK_MSI, LL_RCC_STOP_WAKEUPCLOCK_HSI}\<rparr>,
     \<lparr>set_reg = RCC_ICSCR, set_mask = RCC_ICSCR_HSITRIM,
       set_put = LL_RCC_HSI_SetCalibTrimming, set_get = LL_RCC_HSI_GetCalibTrimming,
       set_enc = \<lambda>v. push_bit RCC_ICSCR_HSITRIM_Pos v, set_dec = \<lambda>e. drop_bit RCC_ICSCR_HSITRIM_Pos e,
       set_ok = \<lambda>v. v AND 0x7F = v\<rparr>,
     \<lparr>set_reg = RCC_ICSCR, set_mask = RCC_ICSCR_MSITRIM,
       set_put = LL_RCC_MSI_SetCalibTrimming, set_get = LL_RCC_MSI_GetCalibTrimming,
       set_enc = \<lambda>v. push_bit RCC_ICSCR_MSITRIM_Pos v, set_dec = \<lambda>e. drop_bit RCC_ICSCR_MSITRIM_Pos e,
       set_ok = \<lambda>v. v AND 0xFF = v\<rparr>,
     \<lparr>set_reg = RCC_CCIPR, set_mask = RCC_CCIPR_USART1SEL,
       set_put = LL_RCC_SetUSARTClockSource, set_get = LL_RCC_GetUSARTClockSource LL_RCC_USART1_CLKSOURCE,
       set_enc = \<lambda>v. v AND 0x0000FFFF, set_dec = \<lambda>e. e OR push_bit 16 LL_RCC_USART1_CLKSOURCE,
       set_ok = \<lambda>v. v \<in> {LL_RCC_USART1_CLKSOURCE_PCLK2, LL_RCC_USART1_CLKSOURCE_SYSCLK,
          LL_RCC_USART1_CLKSOURCE_HSI, LL_RCC_USART1_CLKSOURCE_LSE}\<rparr>,
     \<lparr>set_reg = RCC_CCIPR, set_mask = RCC_CCIPR_USART2SEL,
       set_put = LL_RCC_SetUSARTClockSource, set_get = LL_RCC_GetUSARTClockSource LL_RCC_USART2_CLKSOURCE,
       set_enc = \<lambda>v. v AND 0x0000FFFF, set_dec = \<lambda>e. e OR push_bit 16 LL_RCC_USART2_CLKSOURCE,
       set_ok = \<lambda>v. v \<in> {LL_RCC_USART2_CLKSOURCE_PCLK1, LL_RCC_USART2_CLKSOURCE_SYSCLK,
          LL_RCC_USART2_CLKSOURCE_HSI, LL_RCC_USART2_CLKSOURCE_LSE}\<rparr>,
     \<lparr>set_reg = RCC_CCIPR, set_mask = RCC_CCIPR_I2S2SEL,
       set_put = LL_RCC_SetI2SClockSource, set_get = LL_RCC_GetI2SClockSource LL_RCC_I2S2_CLKSOURCE,
       set_enc = \<lambda>v. v, set_dec = \<lambda>e. e,
       set_ok = \<lambda>v. v \<in> {LL_RCC_I2S2_CLKSOURCE_PLL, LL_RCC_I2S2_CLKSOURCE_HSI,
          LL_RCC_I2S2_CLKSOURCE_PIN}\<rparr>,
     \<lparr>set_reg = RCC_CCIPR, set_mask = RCC_CCIPR_LPUART1SEL,
       set_put = LL_RCC_SetLPUARTClockSource, set_get = LL_RCC_GetLPUARTClockSource LL_RCC_LPUART1_CLKSOURCE,
       set_enc = \<lambda>v. v, set_dec = \<lambda>e. e,
       set_ok = \<lambda>v. v \<in> {LL_RCC_LPUART1_CLKSOURCE_PCLK1, LL_RCC_LPUART1_CLKSOURCE_SYSCLK,
          LL_RCC_LPUART1_CLKSOURCE_HSI, LL_RCC_LPUART1_CLKSOURCE_LSE}\<rparr>,
     \<lparr>set_reg = RCC_CCIPR, set_mask = RCC_CCIPR_RNGSEL,
       set_put = LL_RCC_SetRNGClockSource, set_get = LL_RCC_GetRNGClockSource LL_RCC_RNG_CLKSOURCE,
       set_enc = \<lambda>v. v, set_dec = \<lambda>e. e,
       set_ok = \<lambda>v. v \<in> {LL_RCC_RNG_CLKSOURCE_PLL, LL_RCC_RNG_CLKSOURCE_LSI, LL_RCC_RNG_CLKSOURCE_LSE,
          LL_RCC_RNG_CLKSOURCE_MSI}\<rparr>,
     \<lparr>set_reg = RCC_CCIPR, set_mask = RCC_CCIPR_ADCSEL,
       set_put = LL_RCC_SetADCClockSource, set_get = LL_RCC_GetADCClockSource LL_RCC_ADC_CLKSOURCE,
       set_enc = \<lambda>v. v, set_dec = \<lambda>e. e,
       set_ok = \<lambda>v. v \<in> {LL_RCC_ADC_CLKSOURCE_NONE, LL_RCC_ADC_CLKSOURCE_HSI, LL_RCC_ADC_CLKSOURCE_PLL,
          LL_RCC_ADC_CLKSOURCE_SYSCLK}\<rparr>,
     \<lparr>set_reg = RCC_CCIPR, set_mask = RCC_CCIPR_I2C1SEL,
       set_put = LL_RCC_SetI2CClockSource, set_get = LL_RCC_GetI2CClockSource LL_RCC_I2C1_CLKSOURCE,
       set_enc = \<lambda>v. push_bit 4 v AND 0x000FF000, set_dec = \<lambda>e. drop_bit 4 e OR push_bit 4 LL_RCC_I2C1_CLKSOURCE,
       set_ok = \<lambda>v. v \<in> {LL_RCC_I2C1_CLKSOURCE_PCLK1, LL_RCC_I2C1_CLKSOURCE_SYSCLK,
          LL_RCC_I2C1_CLKSOURCE_HSI}\<rparr>,
     \<lparr>set_reg = RCC_CCIPR, set_mask = RCC_CCIPR_I2C2SEL,
       set_put = LL_RCC_SetI2CClockSource, set_get = LL_RCC_GetI2CClockSource LL_RCC_I2C2_CLKSOURCE,
       set_enc = \<lambda>v. push_bit 4 v AND 0x000FF000, set_dec = \<lambda>e. drop_bit 4 e OR push_bit 4 LL_RCC_I2C2_CLKSOURCE,
       set_ok = \<lambda>v. v \<in> {LL_RCC_I2C2_CLKSOURCE_PCLK1, LL_RCC_I2C2_CLKSOURCE_SYSCLK,
          LL_RCC_I2C2_CLKSOURCE_HSI}\<rparr>,
     \<lparr>set_reg = RCC_CCIPR, set_mask = RCC_CCIPR_I2C3SEL,
       set_put = LL_RCC_SetI2CClockSource, set_get = LL_RCC_GetI2CClockSource LL_RCC_I2C3_CLKSOURCE,
       set_enc = \<lambda>v. push_bit 4 v AND 0x000FF000, set_dec = \<lambda>e. drop_bit 4 e OR push_bit 4 LL_RCC_I2C3_CLKSOURCE,
       set_ok = \<lambda>v. v \<in> {LL_RCC_I2C3_CLKSOURCE_PCLK1, LL_RCC_I2C3_CLKSOURCE_SYSCLK,
          LL_RCC_I2C3_CLKSOURCE_HSI}\<rparr>,
     \<lparr>set_reg = RCC_CCIPR, set_mask = RCC_CCIPR_LPTIM1SEL,
       set_put = LL_RCC_SetLPTIMClockSource, set_get = LL_RCC_GetLPTIMClockSource LL_RCC_LPTIM1_CLKSOURCE,
       set_enc = \<lambda>v. push_bit 16 v, set_dec = \<lambda>e. drop_bit 16 e OR LL_RCC_LPTIM1_CLKSOURCE,
       set_ok = \<lambda>v. v \<in> {LL_RCC_LPTIM1_CLKSOURCE_PCLK1, LL_RCC_LPTIM1_CLKSOURCE_LSI,
          LL_RCC_LPTIM1_CLKSOURCE_HSI, LL_RCC_LPTIM1_CLKSOURCE_LSE}\<rparr>,
     \<lparr>set_reg = RCC_CCIPR, set_mask = RCC_CCIPR_LPTIM2SEL,
       set_put = LL_RCC_SetLPTIMClockSource, set_get = LL_RCC_GetLPTIMClockSource LL_RCC_LPTIM2_CLKSOURCE,
       set_enc = \<lambda>v. push_bit 16 v, set_dec = \<lambda>e. drop_bit 16 e OR LL_RCC_LPTIM2_CLKSOURCE,
       set_ok = \<lambda>v. v \<in> {LL_RCC_LPTIM2_CLKSOURCE_PCLK1, LL_RCC_LPTIM2_CLKSOURCE_LSI,
          LL_RCC_LPTIM2_CLKSOURCE_HSI, LL_RCC_LPTIM2_CLKSOURCE_LSE}\<rparr>,
     \<lparr>set_reg = RCC_CCIPR, set_mask = RCC_CCIPR_LPTIM3SEL,
       set_put = LL_RCC_SetLPTIMClockSource, set_get = LL_RCC_GetLPTIMClockSource LL_RCC_LPTIM3_CLKSOURCE,
       set_enc = \<lambda>v. push_bit 16 v, set_dec = \<lambda>e. drop_bit 16 e OR LL_RCC_LPTIM3_CLKSOURCE,
       set_ok = \<lambda>v. v \<in> {LL_RCC_LPTIM3_CLKSOURCE_PCLK1, LL_RCC_LPTIM3_CLKSOURCE_LSI,
          LL_RCC_LPTIM3_CLKSOURCE_HSI, LL_RCC_LPTIM3_CLKSOURCE_LSE}\<rparr>,
     \<lparr>set_reg = RCC_BDCR, set_mask = RCC_BDCR_RTCSEL,
       set_put = LL_RCC_SetRTCClockSource, set_get = LL_RCC_GetRTCClockSource,
       set_enc = \<lambda>v. v, set_dec = \<lambda>e. e,
       set_ok = \<lambda>v. v \<in> {LL_RCC_RTC_CLKSOURCE_NONE, LL_RCC_RTC_CLKSOURCE_LSE, LL_RCC_RTC_CLKSOURCE_LSI,
          LL_RCC_RTC_CLKSOURCE_HSE_DIV32}\<rparr>,
     \<lparr>set_reg = RCC_PLLCFGR, set_mask = RCC_PLLCFGR_PLLSRC,
       set_put = LL_RCC_PLL_SetMainSource, set_get = LL_RCC_PLL_GetMainSource,
       set_enc = \<lambda>v. v, set_dec = \<lambda>e. e,
       set_ok = \<lambda>v. v \<in> {LL_RCC_PLLSOURCE_NONE, LL_RCC_PLLSOURCE_MSI, LL_RCC_PLLSOURCE_HSI,
          LL_RCC_PLLSOURCE_HSE}\<rparr>]"

text \<open>Trimming values are shifted into their field; they come back when they fit it.\<close>

lemma shift_field:
  assumes "v AND mask n = v" and "n + k \<le> 32"
  shows "push_bit k v AND push_bit k (mask n) = push_bit k v" and "drop_bit k (push_bit k v) = (v :: u32)"
proof -
  show "push_bit k v AND push_bit k (mask n) = push_bit k v"
    using assms(1) by (metis push_bit_and)
  have "take_bit n v = v" using assms(1) by (simp add: take_bit_eq_mask)
  then have "j < n" if "bit v j" for j
    using that by (metis bit_take_bit_iff)
  then have "k + j < 32" if "bit v j" for j
    using that assms(2) by fastforce
  then show "drop_bit k (push_bit k v) = v"
    by (intro bit_word_eqI) (auto simp: bit_simps)
qed

lemma trimming_fields:
  "v AND 0x7F = v \<Longrightarrow> push_bit 24 v AND 0x7F000000 = push_bit 24 (v :: u32)"
  "v AND 0x7F = v \<Longrightarrow> drop_bit 24 (push_bit 24 v) = (v :: u32)"
  "v AND 0xFF = v \<Longrightarrow> push_bit 8 v AND 0xFF00 = push_bit 8 (v :: u32)"
  "v AND 0xFF = v \<Longrightarrow> drop_bit 8 (push_bit 8 v) = (v :: u32)"
  using shift_field [of v 7 24] shift_field [of v 8 8] by (simp_all add: mask_numeral)

lemma rcc_settings_coded: "\<forall>f \<in> set rcc_settings. coded_setting f"
  by (auto simp: rcc_settings_def coded_setting_def ll_def fun_eq_iff reg_pos reg_mask trimming_fields)

lemma rcc_settings_apart: "settings_apart rcc_settings"
  by (simp add: rcc_settings_def apart_def reg_addr reg_mask reg_pos)

interpretation rcc: setting_bank rcc_settings
  by unfold_locales (rule rcc_settings_coded rcc_settings_apart)+

text \<open>The single fields obey the laws of a field on all values that fit it.\<close>

interpretation msi_range: reg_field LL_RCC_MSI_SetRange LL_RCC_MSI_GetRange "\<lambda>v. v AND RCC_CR_MSIRANGE = v"
  using reg_field_plain [of RCC_CR RCC_CR_MSIRANGE] by (simp add: ll_def reg_field_def)

interpretation ahb_prescaler: reg_field LL_RCC_SetAHBPrescaler LL_RCC_GetAHBPrescaler
  "\<lambda>v. v AND RCC_CFGR_HPRE = v"
  using reg_field_plain [of RCC_CFGR RCC_CFGR_HPRE] by (simp add: ll_def reg_field_def)

text \<open>
  C10: The settings of the clock controller read back. Set oscillator drives and ranges, prescalers, trimming values and the clock
  sources of all peripherals in any order, each to values its documentation lists: every getter
  answers the last value its own setter was given, or what it answered before when there was none. The 27 settings
  share eight registers; the selectors of interfaces and timers encode their mask in the value.
\<close>

theorem rcc_settings_read_back:
  assumes "i < length rcc_settings"
    and "\<forall>x \<in> set xs. fst x < length rcc_settings \<and> set_ok (rcc_settings ! fst x) (snd x)"
  shows "set_get (rcc_settings ! i) (fold (setting_call rcc_settings) xs r) =
    last (set_get (rcc_settings ! i) r # own_calls i xs)"
  using assms by (rule rcc.bank_get)

theorem rcc_settings_read_back_witness:
  "LL_RCC_GetI2CClockSource LL_RCC_I2C1_CLKSOURCE
     (LL_RCC_SetI2CClockSource LL_RCC_I2C3_CLKSOURCE_SYSCLK
       (LL_RCC_SetI2CClockSource LL_RCC_I2C1_CLKSOURCE_HSI (\<lambda>_. 0))) = LL_RCC_I2C1_CLKSOURCE_HSI"
  using rcc_settings_read_back [of 19 "[(19, LL_RCC_I2C1_CLKSOURCE_HSI), (21, LL_RCC_I2C3_CLKSOURCE_SYSCLK)]" "\<lambda>_. 0"]
  by (simp add: rcc_settings_def)

section \<open>Frequencies\<close>

text \<open>
  The divisor each constant is named after, and the frequency of each range.
\<close>

definition ahb_divisors :: "(u32 \<times> u32) list" where
  "ahb_divisors =
     [(LL_RCC_SYSCLK_DIV_1, 1), (LL_RCC_SYSCLK_DIV_2, 2), (LL_RCC_SYSCLK_DIV_3, 3), (LL_RCC_SYSCLK_DIV_4, 4),
      (LL_RCC_SYSCLK_DIV_5, 5), (LL_RCC_SYSCLK_DIV_6, 6), (LL_RCC_SYSCLK_DIV_8, 8), (LL_RCC_SYSCLK_DIV_10, 10),
      (LL_RCC_SYSCLK_DIV_16, 16), (LL_RCC_SYSCLK_DIV_32, 32), (LL_RCC_SYSCLK_DIV_64, 64),
      (LL_RCC_SYSCLK_DIV_128, 128), (LL_RCC_SYSCLK_DIV_256, 256), (LL_RCC_SYSCLK_DIV_512, 512)]"

definition apb_divisors :: "(u32 \<times> u32 \<times> u32) list" where
  "apb_divisors =
     [(LL_RCC_APB1_DIV_1, LL_RCC_APB2_DIV_1, 1), (LL_RCC_APB1_DIV_2, LL_RCC_APB2_DIV_2, 2),
      (LL_RCC_APB1_DIV_4, LL_RCC_APB2_DIV_4, 4), (LL_RCC_APB1_DIV_8, LL_RCC_APB2_DIV_8, 8),
      (LL_RCC_APB1_DIV_16, LL_RCC_APB2_DIV_16, 16)]"

lemma ahb_prescalers_read:
  "(c, d) \<in> set ahb_divisors \<Longrightarrow>
   LL_RCC_GetAHBPrescaler (LL_RCC_SetAHBPrescaler c r) = c \<and>
   LL_C2_RCC_GetAHBPrescaler (LL_C2_RCC_SetAHBPrescaler c r) = c \<and>
   LL_RCC_GetAHB3Prescaler (LL_RCC_SetAHB3Prescaler c r) = c"
  by (auto simp: ahb_divisors_def ll_def reg_mask reg_pos)

lemma ahb_frequencies:
  "(c, d) \<in> set ahb_divisors \<Longrightarrow>
   LL_RCC_CALC_HCLK1_FREQ f c = Inr (f div d) \<and> LL_RCC_CALC_HCLK2_FREQ f c = Inr (f div d) \<and>
   LL_RCC_CALC_HCLK3_FREQ f c = Inr (f div d)"
  by (auto simp: ahb_divisors_def LL_RCC_CALC_HCLK1_FREQ_def LL_RCC_CALC_HCLK2_FREQ_def
      LL_RCC_CALC_HCLK3_FREQ_def table_at_def udiv_def AHBPrescTable_def reg_mask reg_pos)

lemma apb_prescalers_read:
  "(c1, c2, d) \<in> set apb_divisors \<Longrightarrow>
   LL_RCC_GetAPB1Prescaler (LL_RCC_SetAPB1Prescaler c1 r) = c1 \<and>
   LL_RCC_GetAPB2Prescaler (LL_RCC_SetAPB2Prescaler c2 r) = c2"
  by (auto simp: apb_divisors_def ll_def reg_mask reg_pos)

lemma div_pow2: "f div 2 ^ n = drop_bit n f" for f :: u32
  by (simp add: drop_bit_eq_div)

lemma apb_frequencies:
  "(c1, c2, d) \<in> set apb_divisors \<Longrightarrow>
   LL_RCC_CALC_PCLK1_FREQ f c1 = Inr (f div d) \<and> LL_RCC_CALC_PCLK2_FREQ f c2 = Inr (f div d)"
  using div_pow2 [of f 1] div_pow2 [of f 2] div_pow2 [of f 3] div_pow2 [of f 4]
  by (auto simp: apb_divisors_def LL_RCC_CALC_PCLK1_FREQ_def LL_RCC_CALC_PCLK2_FREQ_def
      table_at_def APBPrescTable_def reg_mask reg_pos)

text \<open>
  C20: The clock tree divides as the names of its constants say. Set the prescaler of a core to \<^verbatim>\<open>LL_RCC_SYSCLK_DIV\<close> \<open>d\<close> and those
  of the peripheral buses to \<^verbatim>\<open>DIV\<close> \<open>q\<close>: the macros, applied to what the getters read back, answer the system frequency divided by
  \<open>d\<close> for the bus, in each of the three registers a core prescaler can be in, and that divided by \<open>q\<close> for the
  peripheral clocks, without leaving a table.
\<close>

theorem clock_tree_divides:
  assumes "(c, d) \<in> set ahb_divisors" and "(p1, p2, q) \<in> set apb_divisors"
  shows "LL_RCC_CALC_HCLK1_FREQ f (LL_RCC_GetAHBPrescaler (LL_RCC_SetAHBPrescaler c r)) = Inr (f div d) \<and>
    LL_RCC_CALC_HCLK2_FREQ f (LL_C2_RCC_GetAHBPrescaler (LL_C2_RCC_SetAHBPrescaler c r)) = Inr (f div d) \<and>
    LL_RCC_CALC_HCLK3_FREQ f (LL_RCC_GetAHB3Prescaler (LL_RCC_SetAHB3Prescaler c r)) = Inr (f div d) \<and>
    bindr (LL_RCC_CALC_HCLK1_FREQ f (LL_RCC_GetAHBPrescaler (LL_RCC_SetAHBPrescaler c r)))
      (\<lambda>h. LL_RCC_CALC_PCLK1_FREQ h (LL_RCC_GetAPB1Prescaler (LL_RCC_SetAPB1Prescaler p1 r))) = Inr (f div d div q) \<and>
    bindr (LL_RCC_CALC_HCLK1_FREQ f (LL_RCC_GetAHBPrescaler (LL_RCC_SetAHBPrescaler c r)))
      (\<lambda>h. LL_RCC_CALC_PCLK2_FREQ h (LL_RCC_GetAPB2Prescaler (LL_RCC_SetAPB2Prescaler p2 r))) = Inr (f div d div q)"
  using ahb_prescalers_read [OF assms(1)] ahb_frequencies [OF assms(1)]
    apb_prescalers_read [OF assms(2)] apb_frequencies [OF assms(2)]
  by simp

theorem clock_tree_divides_witness:
  "LL_RCC_CALC_HCLK1_FREQ 48000000 (LL_RCC_GetAHBPrescaler (LL_RCC_SetAHBPrescaler LL_RCC_SYSCLK_DIV_3 (\<lambda>_. 0))) = Inr 16000000 \<and>
   LL_RCC_CALC_HCLK3_FREQ 48000000 (LL_RCC_GetAHB3Prescaler (LL_RCC_SetAHB3Prescaler LL_RCC_SYSCLK_DIV_3 (\<lambda>_. 0))) = Inr 16000000"
  using clock_tree_divides [of LL_RCC_SYSCLK_DIV_3 3 LL_RCC_APB1_DIV_4 LL_RCC_APB2_DIV_4 4 48000000 "\<lambda>_. 0"]
  by (simp add: ahb_divisors_def apb_divisors_def)

text \<open>The ranges of the internal oscillator, for run mode and after standby.\<close>

definition msi_ranges :: "(u32 \<times> u32) list" where
  "msi_ranges =
     [(LL_RCC_MSIRANGE_0, 100000), (LL_RCC_MSIRANGE_1, 200000), (LL_RCC_MSIRANGE_2, 400000),
      (LL_RCC_MSIRANGE_3, 800000), (LL_RCC_MSIRANGE_4, 1000000), (LL_RCC_MSIRANGE_5, 2000000),
      (LL_RCC_MSIRANGE_6, 4000000), (LL_RCC_MSIRANGE_7, 8000000), (LL_RCC_MSIRANGE_8, 16000000),
      (LL_RCC_MSIRANGE_9, 24000000), (LL_RCC_MSIRANGE_10, 32000000), (LL_RCC_MSIRANGE_11, 48000000)]"

definition msi_standby_ranges :: "(u32 \<times> u32) list" where
  "msi_standby_ranges =
     [(LL_RCC_MSISRANGE_4, 1000000), (LL_RCC_MSISRANGE_5, 2000000), (LL_RCC_MSISRANGE_6, 4000000),
      (LL_RCC_MSISRANGE_7, 8000000)]"

lemma msi_frequencies:
  "(c, f) \<in> set msi_ranges \<Longrightarrow>
     LL_RCC_CALC_MSI_FREQ LL_RCC_MSIRANGESEL_RUN (LL_RCC_MSI_GetRange (LL_RCC_MSI_SetRange c r)) = Inr f"
  "(c, f) \<in> set msi_standby_ranges \<Longrightarrow>
     LL_RCC_CALC_MSI_FREQ LL_RCC_MSIRANGESEL_STANDBY
       (LL_RCC_MSI_GetRangeAfterStandby (LL_RCC_MSI_SetRangeAfterStandby c r)) = Inr f"
  by (auto simp: msi_ranges_def msi_standby_ranges_def ll_def LL_RCC_CALC_MSI_FREQ_def table_at_def
      MSIRangeTable_def reg_mask reg_pos)

section \<open>The PLL\<close>

definition pllm_divisors :: "(u32 \<times> u32) list" where
  "pllm_divisors =
     [(LL_RCC_PLLM_DIV_1, 1), (LL_RCC_PLLM_DIV_2, 2), (LL_RCC_PLLM_DIV_3, 3), (LL_RCC_PLLM_DIV_4, 4),
      (LL_RCC_PLLM_DIV_5, 5), (LL_RCC_PLLM_DIV_6, 6), (LL_RCC_PLLM_DIV_7, 7), (LL_RCC_PLLM_DIV_8, 8)]"

definition pllr_divisors :: "(u32 \<times> u32) list" where
  "pllr_divisors =
     [(LL_RCC_PLLR_DIV_2, 2), (LL_RCC_PLLR_DIV_3, 3), (LL_RCC_PLLR_DIV_4, 4), (LL_RCC_PLLR_DIV_5, 5),
      (LL_RCC_PLLR_DIV_6, 6), (LL_RCC_PLLR_DIV_7, 7), (LL_RCC_PLLR_DIV_8, 8)]"

definition pll_sources :: "u32 list" where
  "pll_sources = [LL_RCC_PLLSOURCE_NONE, LL_RCC_PLLSOURCE_MSI, LL_RCC_PLLSOURCE_HSI, LL_RCC_PLLSOURCE_HSE]"

text \<open>Reading part of a field that was written as a whole.\<close>

lemma modify_read_part:
  assumes "v AND m = v" and "m AND n = n"
  shows "((x AND NOT m) OR v) AND n = (v AND n :: u32)"
proof -
  have "bits v \<subseteq> bits m" and "bits n \<subseteq> bits m"
    using assms by (metis and.commute and_eq_iff_bits, metis and_eq_iff_bits)
  then have "bits (((x AND NOT m) OR v) AND n) = bits (v AND n)"
    by (auto simp: bits_not bits_less)
  then show ?thesis by (simp only: bits_inject)
qed

lemma READ_BIT_MODIFY_part:
  "v AND m = v \<Longrightarrow> m AND n = n \<Longrightarrow> READ_BIT a n (MODIFY_REG a m v r) = v AND n"
  by (simp add: reg_access modify_read_part)

lemma plln_field:
  assumes "N AND 0x7F = N"
  shows "push_bit 8 N AND 0x7F00 = push_bit 8 (N :: u32)" and "drop_bit 8 (push_bit 8 N) = N"
  using shift_field [of N 7 8] assms by (simp_all add: mask_numeral)

lemma plln_apart:
  assumes "N AND 0x7F = N" and "0x7F00 AND m = 0"
  shows "push_bit 8 N AND m = (0 :: u32)"
proof -
  have "push_bit 8 N AND m = (push_bit 8 N AND 0x7F00) AND m"
    by (simp only: plln_field(1) [OF assms(1)])
  also have "\<dots> = push_bit 8 N AND (0x7F00 AND m)" by (simp only: and.assoc)
  finally show ?thesis using assms(2) by simp
qed

lemma pll_lists:
  "S \<in> set pll_sources \<Longrightarrow> S AND 0x3 = S"
  "(M, m) \<in> set pllm_divisors \<Longrightarrow> M AND 0x70 = M \<and> drop_bit 4 M + 1 = m \<and> m \<noteq> 0"
  "(R, k) \<in> set pllr_divisors \<Longrightarrow> R AND 0xE0000000 = R \<and> drop_bit 29 R + 1 = k \<and> k \<noteq> 0"
  by (auto simp: pll_sources_def pllm_divisors_def pllr_divisors_def reg_mask reg_pos)

text \<open>The four values a configuration writes occupy four disjoint parts of the register.\<close>

lemma pll_parts:
  assumes "S AND 0x3 = S" and "M AND 0x70 = M" and "R AND 0xE0000000 = R" and "N AND 0x7F = N"
  defines "v \<equiv> S OR M OR push_bit 8 N OR R"
  shows "v AND 0x3 = S" and "v AND 0x70 = M" and "v AND 0x7F00 = push_bit 8 N" and "v AND 0xE0000000 = R"
    and "v AND (0x3 OR 0x70 OR 0x7F00 OR 0xE0000000) = (v :: u32)"
proof -
  note n = plln_field(1) [OF assms(4)]
  have sub: "bits S \<subseteq> bits 0x3" "bits M \<subseteq> bits 0x70" "bits R \<subseteq> bits 0xE0000000" "bits (push_bit 8 N) \<subseteq> bits 0x7F00"
    using assms(1-3) n by (metis and.commute and_eq_iff_bits)+
  have dis: "bits 0x3 \<inter> bits 0x70 = {}" "bits 0x3 \<inter> bits 0x7F00 = {}" "bits 0x3 \<inter> bits 0xE0000000 = {}"
    "bits 0x70 \<inter> bits 0x7F00 = {}" "bits 0x70 \<inter> bits 0xE0000000 = {}" "bits 0x7F00 \<inter> bits 0xE0000000 = {}"
    by (simp_all add: and_eq_0_iff_bits [symmetric])
  show "v AND 0x3 = S" "v AND 0x70 = M" "v AND 0x7F00 = push_bit 8 N" "v AND 0xE0000000 = R"
    "v AND (0x3 OR 0x70 OR 0x7F00 OR 0xE0000000) = v"
    unfolding bits_inject [symmetric] v_def bits_and bits_or using sub dis by blast+
qed

lemma plln_fits: "N < 128 \<Longrightarrow> N AND 0x7F = N" for N :: u32
proof -
  assume "N < 128"
  then have "unat (take_bit 7 N) = unat N"
    by (simp add: unsigned_take_bit_eq take_bit_nat_def word_less_nat_alt)
  then have "take_bit 7 N = N" by (simp add: word_unat_eq_iff)
  then show ?thesis by (simp add: take_bit_eq_mask mask_numeral)
qed

lemma pll_config_reads:
  assumes "S \<in> set pll_sources" and "(M, m) \<in> set pllm_divisors" and "(R, k) \<in> set pllr_divisors" and "N < 128"
  shows "LL_RCC_PLL_GetMainSource (LL_RCC_PLL_ConfigDomain_SYS S M N R r) = S"
    and "LL_RCC_PLL_GetDivider (LL_RCC_PLL_ConfigDomain_SYS S M N R r) = M"
    and "LL_RCC_PLL_GetN (LL_RCC_PLL_ConfigDomain_SYS S M N R r) = N"
    and "LL_RCC_PLL_GetR (LL_RCC_PLL_ConfigDomain_SYS S M N R r) = R"
    and "LL_RCC_PLL_GetP (LL_RCC_PLL_ConfigDomain_SYS S M N R r) = LL_RCC_PLL_GetP r"
    and "LL_RCC_PLL_GetQ (LL_RCC_PLL_ConfigDomain_SYS S M N R r) = LL_RCC_PLL_GetQ r"
proof -
  note N = plln_fits [OF assms(4)]
  note lists = pll_lists(1) [OF assms(1)] pll_lists(2) [OF assms(2)] pll_lists(3) [OF assms(3)]
  have v: "(S OR M OR push_bit 8 N OR R) AND 0xE0007F73 = S OR M OR push_bit 8 N OR R"
    and parts: "(S OR M OR push_bit 8 N OR R) AND 0x3 = S" "(S OR M OR push_bit 8 N OR R) AND 0x70 = M"
      "(S OR M OR push_bit 8 N OR R) AND 0x7F00 = push_bit 8 N" "(S OR M OR push_bit 8 N OR R) AND 0xE0000000 = R"
    using pll_parts [of S M R N] lists N by simp_all
  note defs = ll_def reg_mask reg_pos
  show "LL_RCC_PLL_GetMainSource (LL_RCC_PLL_ConfigDomain_SYS S M N R r) = S"
    "LL_RCC_PLL_GetDivider (LL_RCC_PLL_ConfigDomain_SYS S M N R r) = M"
    "LL_RCC_PLL_GetN (LL_RCC_PLL_ConfigDomain_SYS S M N R r) = N"
    "LL_RCC_PLL_GetR (LL_RCC_PLL_ConfigDomain_SYS S M N R r) = R"
    by (simp_all add: defs READ_BIT_MODIFY_part [OF v] parts plln_field(2) [OF N])
  show "LL_RCC_PLL_GetP (LL_RCC_PLL_ConfigDomain_SYS S M N R r) = LL_RCC_PLL_GetP r"
    "LL_RCC_PLL_GetQ (LL_RCC_PLL_ConfigDomain_SYS S M N R r) = LL_RCC_PLL_GetQ r"
    by (simp_all add: defs READ_BIT_MODIFY_other [OF v] apart_def)
qed

text \<open>
  C21: Configuring the PLL. With a documented source and dividers and a multiplier below 128, the configuration of
  the system domain reads back in each of its four parts and leaves the dividers of the other two
  outputs; the frequency macro applied to what is read back answers the exact quotient, input times multiplier divided by
  \<open>m\<close> and by \<open>k\<close>, as long as the product fits 32 bits.
\<close>

theorem pll_configured:
  assumes "S \<in> set pll_sources" and "(M, m) \<in> set pllm_divisors" and "(R, k) \<in> set pllr_divisors" and "N < 128"
    and "unat f * unat N < 2 ^ 32"
  shows "let r' = LL_RCC_PLL_ConfigDomain_SYS S M N R r
    in LL_RCC_PLL_GetMainSource r' = S \<and> LL_RCC_PLL_GetDivider r' = M \<and> LL_RCC_PLL_GetN r' = N \<and>
       LL_RCC_PLL_GetR r' = R \<and> LL_RCC_PLL_GetP r' = LL_RCC_PLL_GetP r \<and>
       LL_RCC_PLL_GetQ r' = LL_RCC_PLL_GetQ r \<and>
       LL_RCC_CALC_PLLCLK_FREQ f (LL_RCC_PLL_GetDivider r') (LL_RCC_PLL_GetN r') (LL_RCC_PLL_GetR r') =
         Inr (of_nat (unat f * unat N div unat m div unat k))"
proof -
  have "unat (f * N) = unat f * unat N"
    using assms(5) by (simp add: unat_word_ariths)
  then have "of_nat (unat (f * N div m div k)) = (of_nat (unat f * unat N div unat m div unat k) :: u32)"
    by (simp add: unat_div)
  then have "f * N div m div k = of_nat (unat f * unat N div unat m div unat k)" by simp
  then show ?thesis
    using pll_config_reads [OF assms(1-4)] pll_lists(2) [OF assms(2)] pll_lists(3) [OF assms(3)]
    by (simp add: Let_def LL_RCC_CALC_PLLCLK_FREQ_def udiv_def reg_pos)
qed

theorem pll_configured_witness:
  "LL_RCC_PLL_ConfigDomain_SYS LL_RCC_PLLSOURCE_HSE LL_RCC_PLLM_DIV_2 12 LL_RCC_PLLR_DIV_4 (\<lambda>_. 0) RCC_PLLCFGR
     AND RCC_PLLCFGR_PLLSRC = LL_RCC_PLLSOURCE_HSE \<and>
   LL_RCC_CALC_PLLCLK_FREQ 32000000 LL_RCC_PLLM_DIV_2 12 LL_RCC_PLLR_DIV_4 = Inr 48000000"
  using pll_configured [of LL_RCC_PLLSOURCE_HSE LL_RCC_PLLM_DIV_2 2 LL_RCC_PLLR_DIV_4 4 12 32000000 "\<lambda>_. 0"]
  by (simp add: pll_sources_def pllm_divisors_def pllr_divisors_def Let_def ll_def reg_access reg_mask reg_pos)

end
