(* ===== verification/Rcc_Status.thy ===== *)
theory Rcc_Status
  imports Ll_Rcc
begin

text \<open>
  What the clock controller reports, and that no accessor of \<^verbatim>\<open>stm32wlxx_ll_rcc.h\<close> can change it.
\<close>

section \<open>Status flags\<close>

text \<open>
  The functions without argument that write, and those that report what the clocks do: readiness, security
  events, pending interrupts, causes of a reset, prescalers in effect and the current system clock.
\<close>

definition rcc_switches :: "(regs \<Rightarrow> regs) list" where
  "rcc_switches =
     [LL_RCC_HSE_EnableTcxo, LL_RCC_HSE_DisableTcxo, LL_RCC_HSE_EnableDiv2,
      LL_RCC_HSE_DisableDiv2, LL_RCC_HSE_EnableCSS, LL_RCC_HSE_Enable, LL_RCC_HSE_Disable,
      LL_RCC_HSI_EnableInStopMode, LL_RCC_HSI_DisableInStopMode, LL_RCC_HSI_Enable,
      LL_RCC_HSI_Disable, LL_RCC_HSI_EnableAutoFromStop, LL_RCC_HSI_DisableAutoFromStop,
      LL_RCC_LSE_Enable, LL_RCC_LSE_Disable, LL_RCC_LSE_EnableBypass, LL_RCC_LSE_DisableBypass,
      LL_RCC_LSE_EnableCSS, LL_RCC_LSE_DisableCSS, LL_RCC_LSE_EnablePropagation,
      LL_RCC_LSE_DisablePropagation, LL_RCC_LSI_Enable, LL_RCC_LSI_Disable, LL_RCC_MSI_Enable,
      LL_RCC_MSI_Disable, LL_RCC_MSI_EnablePLLMode, LL_RCC_MSI_DisablePLLMode,
      LL_RCC_MSI_EnableRangeSelection, LL_RCC_LSCO_Enable, LL_RCC_LSCO_Disable,
      LL_RCC_RF_EnableReset, LL_RCC_RF_DisableReset, LL_RCC_EnableRTC, LL_RCC_DisableRTC,
      LL_RCC_ForceBackupDomainReset, LL_RCC_ReleaseBackupDomainReset, LL_RCC_PLL_Enable,
      LL_RCC_PLL_Disable, LL_RCC_PLL_EnableDomain_ADC, LL_RCC_PLL_DisableDomain_ADC,
      LL_RCC_PLL_EnableDomain_RNG, LL_RCC_PLL_DisableDomain_RNG, LL_RCC_PLL_EnableDomain_I2S,
      LL_RCC_PLL_DisableDomain_I2S, LL_RCC_PLL_EnableDomain_SYS, LL_RCC_PLL_DisableDomain_SYS,
      LL_RCC_ClearFlag_LSIRDY, LL_RCC_ClearFlag_LSERDY, LL_RCC_ClearFlag_MSIRDY,
      LL_RCC_ClearFlag_HSIRDY, LL_RCC_ClearFlag_HSERDY, LL_RCC_ClearFlag_PLLRDY,
      LL_RCC_ClearFlag_HSECSS, LL_RCC_ClearFlag_LSECSS, LL_RCC_ClearResetFlags,
      LL_RCC_EnableIT_LSIRDY, LL_RCC_EnableIT_LSERDY, LL_RCC_EnableIT_MSIRDY,
      LL_RCC_EnableIT_HSIRDY, LL_RCC_EnableIT_HSERDY, LL_RCC_EnableIT_PLLRDY,
      LL_RCC_EnableIT_LSECSS, LL_RCC_DisableIT_LSIRDY, LL_RCC_DisableIT_LSERDY,
      LL_RCC_DisableIT_MSIRDY, LL_RCC_DisableIT_HSIRDY, LL_RCC_DisableIT_HSERDY,
      LL_RCC_DisableIT_PLLRDY, LL_RCC_DisableIT_LSECSS]"

definition rcc_status :: "(regs \<Rightarrow> u32) list" where
  "rcc_status =
     [LL_RCC_HSE_IsReady, LL_RCC_HSI_IsReady, LL_RCC_HSI_GetCalibration,
      LL_RCC_LSE_IsPropagationReady, LL_RCC_LSE_IsReady, LL_RCC_LSE_IsCSSDetected,
      LL_RCC_LSI_IsReady, LL_RCC_MSI_IsReady, LL_RCC_MSI_GetCalibration, LL_RCC_IsRFUnderReset,
      LL_RCC_GetSysClkSource, LL_RCC_PLL_IsReady, LL_RCC_IsActiveFlag_LSIRDY,
      LL_RCC_IsActiveFlag_LSERDY, LL_RCC_IsActiveFlag_MSIRDY, LL_RCC_IsActiveFlag_HSIRDY,
      LL_RCC_IsActiveFlag_HSERDY, LL_RCC_IsActiveFlag_PLLRDY, LL_RCC_IsActiveFlag_HSECSS,
      LL_RCC_IsActiveFlag_LSECSS, LL_RCC_IsActiveFlag_HPRE, LL_RCC_IsActiveFlag_C2HPRE,
      LL_RCC_IsActiveFlag_SHDHPRE, LL_RCC_IsActiveFlag_PPRE1, LL_RCC_IsActiveFlag_PPRE2,
      LL_RCC_IsActiveFlag_IWDGRST, LL_RCC_IsActiveFlag_RFILARST, LL_RCC_IsActiveFlag_LPWRRST,
      LL_RCC_IsActiveFlag_OBLRST, LL_RCC_IsActiveFlag_PINRST, LL_RCC_IsActiveFlag_SFTRST,
      LL_RCC_IsActiveFlag_WWDGRST, LL_RCC_IsActiveFlag_BORRST]"

text \<open>All the accessors that write, with documented arguments.\<close>

definition pll_configs :: "(u32 \<Rightarrow> u32 \<Rightarrow> u32 \<Rightarrow> u32 \<Rightarrow> regs \<Rightarrow> regs) list" where
  "pll_configs =
     [LL_RCC_PLL_ConfigDomain_SYS, LL_RCC_PLL_ConfigDomain_ADC, LL_RCC_PLL_ConfigDomain_RNG,
      LL_RCC_PLL_ConfigDomain_I2S]"

inductive rcc_step :: "regs \<Rightarrow> regs \<Rightarrow> bool" where
  switch: "f \<in> set rcc_switches \<Longrightarrow> r' = f r \<Longrightarrow> rcc_step r r'"
| setting: "i < length rcc_settings \<Longrightarrow> set_ok (rcc_settings ! i) v \<Longrightarrow>
    r' = set_put (rcc_settings ! i) v r \<Longrightarrow> rcc_step r r'"
| sysclk: "src AND RCC_CFGR_SW = src \<Longrightarrow> r' = LL_RCC_SetSysClkSource src r \<Longrightarrow> rcc_step r r'"
| mco: "(src OR pre) AND (RCC_CFGR_MCOSEL OR RCC_CFGR_MCOPRE) = src OR pre \<Longrightarrow>
    r' = LL_RCC_ConfigMCO src pre r \<Longrightarrow> rcc_step r r'"
| pll: "f \<in> set pll_configs \<Longrightarrow> r' = f src m n d r \<Longrightarrow> rcc_step r r'"

text \<open>The flags of a register, as one mask; two stores with the same flags give the same reports.\<close>

definition status_mask :: "u32 \<Rightarrow> u32" where
  "status_mask a =
     (if a = RCC_CR then RCC_CR_MSIRDY OR RCC_CR_HSIRDY OR RCC_CR_HSERDY OR RCC_CR_PLLRDY
      else if a = RCC_BDCR then RCC_BDCR_LSERDY OR RCC_BDCR_LSECSSD OR RCC_BDCR_LSESYSRDY
      else if a = RCC_CSR
      then RCC_CSR_LSIRDY OR RCC_CSR_RFRSTF OR RCC_CSR_IWDGRSTF OR RCC_CSR_RFILARSTF OR RCC_CSR_LPWRRSTF OR
        RCC_CSR_OBLRSTF OR RCC_CSR_PINRSTF OR RCC_CSR_SFTRSTF OR RCC_CSR_WWDGRSTF OR RCC_CSR_BORRSTF
      else if a = RCC_CFGR then RCC_CFGR_SWS OR RCC_CFGR_HPREF OR RCC_CFGR_PPRE1F OR RCC_CFGR_PPRE2F
      else if a = RCC_EXTCFGR then RCC_EXTCFGR_C2HPREF OR RCC_EXTCFGR_SHDHPREF
      else if a = RCC_ICSCR then RCC_ICSCR_HSICAL OR RCC_ICSCR_MSICAL
      else if a = RCC_CIFR then 0xFFFFFFFF
      else 0)"

definition same_status :: "regs \<Rightarrow> regs \<Rightarrow> bool" where
  "same_status r s \<longleftrightarrow> (\<forall>a. READ_BIT a (status_mask a) r = READ_BIT a (status_mask a) s)"

lemma status_mask_at:
  "status_mask RCC_CR = 0x02020402" "status_mask RCC_BDCR = 0x00000842" "status_mask RCC_CSR = 0xFF004002"
  "status_mask RCC_CFGR = 0x0007000C" "status_mask RCC_EXTCFGR = 0x00030000" "status_mask RCC_ICSCR = 0x00FF00FF"
  "status_mask RCC_CIFR = 0xFFFFFFFF" "status_mask RCC_CICR = 0" "status_mask RCC_CIER = 0"
  "status_mask RCC_PLLCFGR = 0" "status_mask RCC_CCIPR = 0"
  by (simp_all add: status_mask_def reg_addr reg_mask reg_pos)

lemma same_status_READ:
  assumes "same_status r s" and "status_mask a AND n = n"
  shows "READ_BIT a n r = READ_BIT a n s"
proof -
  have "READ_BIT a n x = READ_BIT a (status_mask a) x AND n" for x
    using assms(2) by (simp add: reg_access and.assoc)
  then show ?thesis using assms(1) by (simp add: same_status_def)
qed

lemma same_status_reports:
  assumes "same_status r s"
  shows "\<forall>g \<in> set rcc_status. g r = g s"
  by (simp add: rcc_status_def ll_def same_status_READ [OF assms] status_mask_at reg_mask reg_pos)

lemma same_status_trans: "same_status r s \<Longrightarrow> same_status s t \<Longrightarrow> same_status r t"
  by (simp add: same_status_def)

lemma same_status_write:
  "m AND status_mask a = 0 \<Longrightarrow> same_status (SET_BIT a m r) r"
  "m AND status_mask a = 0 \<Longrightarrow> same_status (CLEAR_BIT a m r) r"
  "m AND status_mask a = 0 \<Longrightarrow> v AND m = v \<Longrightarrow> same_status (MODIFY_REG a m v r) r"
  unfolding same_status_def apart_def [symmetric]
  by (auto intro!: READ_BIT_SET_other READ_BIT_CLEAR_other READ_BIT_MODIFY_other simp: apart_def)

lemma switches_keep_status: "\<forall>f \<in> set rcc_switches. same_status (f r) r"
  by (simp add: rcc_switches_def ll_def same_status_write status_mask_at reg_mask)

lemma settings_keep_status:
  assumes "i < length rcc_settings" and "set_ok (rcc_settings ! i) v"
  shows "same_status (set_put (rcc_settings ! i) v r) r"
proof -
  have "\<forall>f \<in> set rcc_settings. set_mask f AND status_mask (set_reg f) = 0"
    by (simp add: rcc_settings_def status_mask_at reg_mask reg_pos)
  then have "set_mask (rcc_settings ! i) AND status_mask (set_reg (rcc_settings ! i)) = 0"
    using assms(1) by simp
  moreover have "coded_setting (rcc_settings ! i)" using assms(1) rcc_settings_coded by simp
  ultimately show ?thesis
    using assms(2) by (simp add: coded_setting_def same_status_write)
qed

lemma pll_keeps_status: "f \<in> set pll_configs \<Longrightarrow> same_status (f src m n d r) r"
  using status_mask_at(10) by (auto simp: pll_configs_def same_status_def ll_def reg_access)

lemma rcc_step_status: "rcc_step r r' \<Longrightarrow> same_status r' r"
proof (induction rule: rcc_step.induct)
  case (switch f r' r)
  then show ?case using switches_keep_status by blast
next
  case (setting i v r' r)
  then show ?case by (simp add: settings_keep_status)
next
  case (sysclk src r' r)
  then show ?case by (simp add: ll_def same_status_write status_mask_at reg_mask)
next
  case (mco src pre r' r)
  then show ?case by (simp add: ll_def same_status_write status_mask_at reg_mask)
next
  case (pll f r' src m n d r)
  then show ?case by (simp add: pll_keeps_status)
qed

lemma rcc_steps_status: "rcc_step\<^sup>*\<^sup>* r r' \<Longrightarrow> same_status r' r"
  by (induction rule: rtranclp_induct)
    (auto simp: same_status_def dest!: rcc_step_status)

text \<open>
  C11: No accessor changes what the clock controller reports. Call any of the writing functions of the header with
  documented arguments, as often as one likes: the 33 functions that report readiness, flags, the system clock
  in use and prescalers in effect answer what they answered at the beginning. So firmware that enables an oscillator
  or selects a system clock and waits for the report waits forever, unless something else writes the registers, and
  the causes of a reset are never cleared.
\<close>

theorem rcc_status_out_of_reach:
  assumes "rcc_step\<^sup>*\<^sup>* r r'" and "g \<in> set rcc_status"
  shows "g r' = g r"
  using same_status_reports [OF rcc_steps_status [OF assms(1)]] assms(2) by blast

theorem rcc_status_out_of_reach_witness:
  "LL_RCC_HSE_IsReady (LL_RCC_HSE_Enable (\<lambda>_. 0)) = LL_RCC_HSE_IsReady (\<lambda>_. 0)"
proof -
  have "LL_RCC_HSE_Enable \<in> set rcc_switches" and g: "LL_RCC_HSE_IsReady \<in> set rcc_status"
    by (simp_all add: rcc_switches_def rcc_status_def)
  then have "rcc_step (\<lambda>_. 0) (LL_RCC_HSE_Enable (\<lambda>_. 0))" by (blast intro: rcc_step.switch)
  then show ?thesis using g by (intro rcc_status_out_of_reach r_into_rtranclp)
qed

end
