(* ===== verification/Ll_Dma.thy ===== *)
theory Ll_Dma
  imports Device_Map
begin

text \<open>
  The DMA controllers, \<^verbatim>\<open>stm32wlxx_ll_dma.h\<close>: the constants its accessors take, the table of channel offsets with the
  address computed from it, which faults beyond the table, and every accessor in the order of the header.
\<close>

section \<open>Constants\<close>

definition LL_DMA_CHANNEL_1 :: u32 where [reg_mask]: "LL_DMA_CHANNEL_1 = 0x00000000"
definition LL_DMA_CHANNEL_2 :: u32 where [reg_mask]: "LL_DMA_CHANNEL_2 = 0x00000001"
definition LL_DMA_CHANNEL_3 :: u32 where [reg_mask]: "LL_DMA_CHANNEL_3 = 0x00000002"
definition LL_DMA_CHANNEL_4 :: u32 where [reg_mask]: "LL_DMA_CHANNEL_4 = 0x00000003"
definition LL_DMA_CHANNEL_5 :: u32 where [reg_mask]: "LL_DMA_CHANNEL_5 = 0x00000004"
definition LL_DMA_CHANNEL_6 :: u32 where [reg_mask]: "LL_DMA_CHANNEL_6 = 0x00000005"
definition LL_DMA_CHANNEL_7 :: u32 where [reg_mask]: "LL_DMA_CHANNEL_7 = 0x00000006"
definition LL_DMA_DIRECTION_PERIPH_TO_MEMORY :: u32 where
  [reg_mask]: "LL_DMA_DIRECTION_PERIPH_TO_MEMORY = 0x00000000"
definition LL_DMA_DIRECTION_MEMORY_TO_PERIPH :: u32 where
  [reg_mask]: "LL_DMA_DIRECTION_MEMORY_TO_PERIPH = DMA_CCR_DIR"
definition LL_DMA_DIRECTION_MEMORY_TO_MEMORY :: u32 where
  [reg_mask]: "LL_DMA_DIRECTION_MEMORY_TO_MEMORY = DMA_CCR_MEM2MEM"
definition LL_DMA_MODE_NORMAL :: u32 where [reg_mask]: "LL_DMA_MODE_NORMAL = 0x00000000"
definition LL_DMA_MODE_CIRCULAR :: u32 where [reg_mask]: "LL_DMA_MODE_CIRCULAR = DMA_CCR_CIRC"
definition LL_DMA_PERIPH_INCREMENT :: u32 where [reg_mask]: "LL_DMA_PERIPH_INCREMENT = DMA_CCR_PINC"
definition LL_DMA_PERIPH_NOINCREMENT :: u32 where [reg_mask]: "LL_DMA_PERIPH_NOINCREMENT = 0x00000000"
definition LL_DMA_MEMORY_INCREMENT :: u32 where [reg_mask]: "LL_DMA_MEMORY_INCREMENT = DMA_CCR_MINC"
definition LL_DMA_MEMORY_NOINCREMENT :: u32 where [reg_mask]: "LL_DMA_MEMORY_NOINCREMENT = 0x00000000"
definition LL_DMA_PDATAALIGN_BYTE :: u32 where [reg_mask]: "LL_DMA_PDATAALIGN_BYTE = 0x00000000"
definition LL_DMA_PDATAALIGN_HALFWORD :: u32 where [reg_mask]: "LL_DMA_PDATAALIGN_HALFWORD = DMA_CCR_PSIZE_0"
definition LL_DMA_PDATAALIGN_WORD :: u32 where [reg_mask]: "LL_DMA_PDATAALIGN_WORD = DMA_CCR_PSIZE_1"
definition LL_DMA_MDATAALIGN_BYTE :: u32 where [reg_mask]: "LL_DMA_MDATAALIGN_BYTE = 0x00000000"
definition LL_DMA_MDATAALIGN_HALFWORD :: u32 where [reg_mask]: "LL_DMA_MDATAALIGN_HALFWORD = DMA_CCR_MSIZE_0"
definition LL_DMA_MDATAALIGN_WORD :: u32 where [reg_mask]: "LL_DMA_MDATAALIGN_WORD = DMA_CCR_MSIZE_1"
definition LL_DMA_PRIORITY_LOW :: u32 where [reg_mask]: "LL_DMA_PRIORITY_LOW = 0x00000000"
definition LL_DMA_PRIORITY_MEDIUM :: u32 where [reg_mask]: "LL_DMA_PRIORITY_MEDIUM = DMA_CCR_PL_0"
definition LL_DMA_PRIORITY_HIGH :: u32 where [reg_mask]: "LL_DMA_PRIORITY_HIGH = DMA_CCR_PL_1"
definition LL_DMA_PRIORITY_VERYHIGH :: u32 where [reg_mask]: "LL_DMA_PRIORITY_VERYHIGH = DMA_CCR_PL"

section \<open>Channels\<close>

text \<open>
  \<^verbatim>\<open>DMAx\<close> is the base address of a controller. A channel's registers start at the offset the table
  has for it; an index outside the table is an access outside an array.
\<close>

definition DMA1 :: u32 where [reg_addr]: "DMA1 = DMA1_BASE"

definition DMA2 :: u32 where [reg_addr]: "DMA2 = DMA2_BASE"

definition DMAMUX1_Channel0 :: u32 where [reg_addr]: "DMAMUX1_Channel0 = DMAMUX1_Channel0_BASE"

definition DMA1_Channel1 :: u32 where [reg_addr]: "DMA1_Channel1 = DMA1_Channel1_BASE"
definition DMA1_Channel2 :: u32 where [reg_addr]: "DMA1_Channel2 = DMA1_Channel2_BASE"
definition DMA1_Channel3 :: u32 where [reg_addr]: "DMA1_Channel3 = DMA1_Channel3_BASE"
definition DMA1_Channel4 :: u32 where [reg_addr]: "DMA1_Channel4 = DMA1_Channel4_BASE"
definition DMA1_Channel5 :: u32 where [reg_addr]: "DMA1_Channel5 = DMA1_Channel5_BASE"
definition DMA1_Channel6 :: u32 where [reg_addr]: "DMA1_Channel6 = DMA1_Channel6_BASE"
definition DMA1_Channel7 :: u32 where [reg_addr]: "DMA1_Channel7 = DMA1_Channel7_BASE"
definition DMA2_Channel1 :: u32 where [reg_addr]: "DMA2_Channel1 = DMA2_Channel1_BASE"
definition DMA2_Channel2 :: u32 where [reg_addr]: "DMA2_Channel2 = DMA2_Channel2_BASE"
definition DMA2_Channel3 :: u32 where [reg_addr]: "DMA2_Channel3 = DMA2_Channel3_BASE"
definition DMA2_Channel4 :: u32 where [reg_addr]: "DMA2_Channel4 = DMA2_Channel4_BASE"
definition DMA2_Channel5 :: u32 where [reg_addr]: "DMA2_Channel5 = DMA2_Channel5_BASE"
definition DMA2_Channel6 :: u32 where [reg_addr]: "DMA2_Channel6 = DMA2_Channel6_BASE"
definition DMA2_Channel7 :: u32 where [reg_addr]: "DMA2_Channel7 = DMA2_Channel7_BASE"

definition CHANNEL_OFFSET_TAB :: "u8 list" where
  "CHANNEL_OFFSET_TAB =
     [ucast (DMA1_Channel1_BASE - DMA1_BASE),
      ucast (DMA1_Channel2_BASE - DMA1_BASE),
      ucast (DMA1_Channel3_BASE - DMA1_BASE),
      ucast (DMA1_Channel4_BASE - DMA1_BASE),
      ucast (DMA1_Channel5_BASE - DMA1_BASE),
      ucast (DMA1_Channel6_BASE - DMA1_BASE),
      ucast (DMA1_Channel7_BASE - DMA1_BASE)]"

definition DMA_Channel :: "u32 \<Rightarrow> u32 \<Rightarrow> u32 result" where
  "DMA_Channel DMAx Channel =
     (if unat Channel < length CHANNEL_OFFSET_TAB
      then Inr (DMAx + ucast (CHANNEL_OFFSET_TAB ! unat Channel)) else Inl OutOfBounds)"

section \<open>Conversions\<close>

definition LL_DMA_INSTANCE_TO_DMAMUX_CHANNEL :: "u32 \<Rightarrow> u32" where
  "LL_DMA_INSTANCE_TO_DMAMUX_CHANNEL DMA_INSTANCE = (if DMA_INSTANCE = DMA1 then 0 else LL_DMA_CHANNEL_7)"

definition LL_DMA_GET_INSTANCE :: "u32 \<Rightarrow> u32" where
  "LL_DMA_GET_INSTANCE CHANNEL_INSTANCE = (if DMA1_Channel7 < CHANNEL_INSTANCE then DMA2 else DMA1)"

definition LL_DMA_GET_CHANNEL :: "u32 \<Rightarrow> u32" where
  "LL_DMA_GET_CHANNEL CHANNEL_INSTANCE =
     (if CHANNEL_INSTANCE = DMA1_Channel1 then LL_DMA_CHANNEL_1
      else if CHANNEL_INSTANCE = DMA2_Channel1 then LL_DMA_CHANNEL_1
      else if CHANNEL_INSTANCE = DMA1_Channel2 then LL_DMA_CHANNEL_2
      else if CHANNEL_INSTANCE = DMA2_Channel2 then LL_DMA_CHANNEL_2
      else if CHANNEL_INSTANCE = DMA1_Channel3 then LL_DMA_CHANNEL_3
      else if CHANNEL_INSTANCE = DMA2_Channel3 then LL_DMA_CHANNEL_3
      else if CHANNEL_INSTANCE = DMA1_Channel4 then LL_DMA_CHANNEL_4
      else if CHANNEL_INSTANCE = DMA2_Channel4 then LL_DMA_CHANNEL_4
      else if CHANNEL_INSTANCE = DMA1_Channel5 then LL_DMA_CHANNEL_5
      else if CHANNEL_INSTANCE = DMA2_Channel5 then LL_DMA_CHANNEL_5
      else if CHANNEL_INSTANCE = DMA1_Channel6 then LL_DMA_CHANNEL_6
      else if CHANNEL_INSTANCE = DMA2_Channel6 then LL_DMA_CHANNEL_6
      else LL_DMA_CHANNEL_7)"

definition LL_DMA_GET_CHANNEL_INSTANCE :: "u32 \<Rightarrow> u32 \<Rightarrow> u32" where
  "LL_DMA_GET_CHANNEL_INSTANCE DMA_INSTANCE CHANNEL =
     (if DMA_INSTANCE = DMA1 \<and> CHANNEL = LL_DMA_CHANNEL_1 then DMA1_Channel1
      else if DMA_INSTANCE = DMA2 \<and> CHANNEL = LL_DMA_CHANNEL_1 then DMA2_Channel1
      else if DMA_INSTANCE = DMA1 \<and> CHANNEL = LL_DMA_CHANNEL_2 then DMA1_Channel2
      else if DMA_INSTANCE = DMA2 \<and> CHANNEL = LL_DMA_CHANNEL_2 then DMA2_Channel2
      else if DMA_INSTANCE = DMA1 \<and> CHANNEL = LL_DMA_CHANNEL_3 then DMA1_Channel3
      else if DMA_INSTANCE = DMA2 \<and> CHANNEL = LL_DMA_CHANNEL_3 then DMA2_Channel3
      else if DMA_INSTANCE = DMA1 \<and> CHANNEL = LL_DMA_CHANNEL_4 then DMA1_Channel4
      else if DMA_INSTANCE = DMA2 \<and> CHANNEL = LL_DMA_CHANNEL_4 then DMA2_Channel4
      else if DMA_INSTANCE = DMA1 \<and> CHANNEL = LL_DMA_CHANNEL_5 then DMA1_Channel5
      else if DMA_INSTANCE = DMA2 \<and> CHANNEL = LL_DMA_CHANNEL_5 then DMA2_Channel5
      else if DMA_INSTANCE = DMA1 \<and> CHANNEL = LL_DMA_CHANNEL_6 then DMA1_Channel6
      else if DMA_INSTANCE = DMA2 \<and> CHANNEL = LL_DMA_CHANNEL_6 then DMA2_Channel6
      else if DMA_INSTANCE = DMA1 \<and> CHANNEL = LL_DMA_CHANNEL_7 then DMA1_Channel7
      else DMA2_Channel7)"

section \<open>Accessors\<close>

definition LL_DMA_EnableChannel :: "u32 \<Rightarrow> u32 \<Rightarrow> regs \<Rightarrow> regs result" where
  [ll_def]: "LL_DMA_EnableChannel DMAx Channel r =
     bindr (DMA_Channel DMAx Channel) (\<lambda>ch. Inr (SET_BIT (ch + DMA_Channel_CCR)
        DMA_CCR_EN r))"

definition LL_DMA_DisableChannel :: "u32 \<Rightarrow> u32 \<Rightarrow> regs \<Rightarrow> regs result" where
  [ll_def]: "LL_DMA_DisableChannel DMAx Channel r =
     bindr (DMA_Channel DMAx Channel) (\<lambda>ch. Inr (CLEAR_BIT (ch + DMA_Channel_CCR)
        DMA_CCR_EN r))"

definition LL_DMA_IsEnabledChannel :: "u32 \<Rightarrow> u32 \<Rightarrow> regs \<Rightarrow> u32 result" where
  [ll_def]: "LL_DMA_IsEnabledChannel DMAx Channel r =
     bindr (DMA_Channel DMAx Channel) (\<lambda>ch. Inr (if READ_BIT (ch + DMA_Channel_CCR)
        DMA_CCR_EN r = DMA_CCR_EN then 1 else 0))"

definition LL_DMA_GetConfigChannelSecure :: "u32 \<Rightarrow> u32 \<Rightarrow> regs \<Rightarrow> u32 result" where
  [ll_def]: "LL_DMA_GetConfigChannelSecure DMAx Channel r =
     bindr (DMA_Channel DMAx Channel) (\<lambda>ch. Inr (READ_BIT (ch + DMA_Channel_CCR)
        DMA_CCR_SECM r))"

definition LL_DMA_ConfigTransfer :: "u32 \<Rightarrow> u32 \<Rightarrow> u32 \<Rightarrow> regs \<Rightarrow> regs result" where
  [ll_def]: "LL_DMA_ConfigTransfer DMAx Channel Configuration r =
     bindr (DMA_Channel DMAx Channel) (\<lambda>ch. Inr (MODIFY_REG (ch + DMA_Channel_CCR)
        (DMA_CCR_DIR OR DMA_CCR_MEM2MEM OR DMA_CCR_CIRC OR DMA_CCR_PINC OR DMA_CCR_MINC OR
        DMA_CCR_PSIZE OR DMA_CCR_MSIZE OR DMA_CCR_PL) Configuration r))"

definition LL_DMA_SetDataTransferDirection :: "u32 \<Rightarrow> u32 \<Rightarrow> u32 \<Rightarrow> regs \<Rightarrow> regs result" where
  [ll_def]: "LL_DMA_SetDataTransferDirection DMAx Channel Direction r =
     bindr (DMA_Channel DMAx Channel) (\<lambda>ch. Inr (MODIFY_REG (ch + DMA_Channel_CCR)
        (DMA_CCR_DIR OR DMA_CCR_MEM2MEM) Direction r))"

definition LL_DMA_GetDataTransferDirection :: "u32 \<Rightarrow> u32 \<Rightarrow> regs \<Rightarrow> u32 result" where
  [ll_def]: "LL_DMA_GetDataTransferDirection DMAx Channel r =
     bindr (DMA_Channel DMAx Channel) (\<lambda>ch. Inr (READ_BIT (ch + DMA_Channel_CCR)
        (DMA_CCR_DIR OR DMA_CCR_MEM2MEM) r))"

definition LL_DMA_SetMode :: "u32 \<Rightarrow> u32 \<Rightarrow> u32 \<Rightarrow> regs \<Rightarrow> regs result" where
  [ll_def]: "LL_DMA_SetMode DMAx Channel Mode r =
     bindr (DMA_Channel DMAx Channel) (\<lambda>ch. Inr (MODIFY_REG (ch + DMA_Channel_CCR)
        DMA_CCR_CIRC Mode r))"

definition LL_DMA_GetMode :: "u32 \<Rightarrow> u32 \<Rightarrow> regs \<Rightarrow> u32" where
  [ll_def]: "LL_DMA_GetMode DMAx Channel r = 0"

definition LL_DMA_SetPeriphIncMode :: "u32 \<Rightarrow> u32 \<Rightarrow> u32 \<Rightarrow> regs \<Rightarrow> regs" where
  [ll_def]: "LL_DMA_SetPeriphIncMode DMAx Channel PeriphOrM2MSrcIncMode r = r"

definition LL_DMA_GetPeriphIncMode :: "u32 \<Rightarrow> u32 \<Rightarrow> regs \<Rightarrow> u32" where
  [ll_def]: "LL_DMA_GetPeriphIncMode DMAx Channel r = 0"

definition LL_DMA_SetMemoryIncMode :: "u32 \<Rightarrow> u32 \<Rightarrow> u32 \<Rightarrow> regs \<Rightarrow> regs" where
  [ll_def]: "LL_DMA_SetMemoryIncMode DMAx Channel MemoryOrM2MDstIncMode r = r"

definition LL_DMA_GetMemoryIncMode :: "u32 \<Rightarrow> u32 \<Rightarrow> regs \<Rightarrow> u32" where
  [ll_def]: "LL_DMA_GetMemoryIncMode DMAx Channel r = 0"

definition LL_DMA_SetPeriphSize :: "u32 \<Rightarrow> u32 \<Rightarrow> u32 \<Rightarrow> regs \<Rightarrow> regs" where
  [ll_def]: "LL_DMA_SetPeriphSize DMAx Channel PeriphOrM2MSrcDataSize r = r"

definition LL_DMA_GetPeriphSize :: "u32 \<Rightarrow> u32 \<Rightarrow> regs \<Rightarrow> u32" where
  [ll_def]: "LL_DMA_GetPeriphSize DMAx Channel r = 0"

definition LL_DMA_SetMemorySize :: "u32 \<Rightarrow> u32 \<Rightarrow> u32 \<Rightarrow> regs \<Rightarrow> regs" where
  [ll_def]: "LL_DMA_SetMemorySize DMAx Channel MemoryOrM2MDstDataSize r = r"

definition LL_DMA_GetMemorySize :: "u32 \<Rightarrow> u32 \<Rightarrow> regs \<Rightarrow> u32" where
  [ll_def]: "LL_DMA_GetMemorySize DMAx Channel r = 0"

definition LL_DMA_SetChannelPriorityLevel :: "u32 \<Rightarrow> u32 \<Rightarrow> u32 \<Rightarrow> regs \<Rightarrow> regs" where
  [ll_def]: "LL_DMA_SetChannelPriorityLevel DMAx Channel Priority r = r"

definition LL_DMA_GetChannelPriorityLevel :: "u32 \<Rightarrow> u32 \<Rightarrow> regs \<Rightarrow> u32" where
  [ll_def]: "LL_DMA_GetChannelPriorityLevel DMAx Channel r = 0"

definition LL_DMA_IsEnabledChannelSecure :: "u32 \<Rightarrow> u32 \<Rightarrow> regs \<Rightarrow> u32 result" where
  [ll_def]: "LL_DMA_IsEnabledChannelSecure DMAx Channel r =
     bindr (DMA_Channel DMAx Channel) (\<lambda>ch. Inr (if READ_BIT (ch + DMA_Channel_CCR)
        DMA_CCR_SECM r = DMA_CCR_SECM then 1 else 0))"

definition LL_DMA_EnableChannelPrivilege :: "u32 \<Rightarrow> u32 \<Rightarrow> regs \<Rightarrow> regs result" where
  [ll_def]: "LL_DMA_EnableChannelPrivilege DMAx Channel r =
     bindr (DMA_Channel DMAx Channel) (\<lambda>ch. Inr (SET_BIT (ch + DMA_Channel_CCR)
        DMA_CCR_PRIV r))"

definition LL_DMA_DisableChannelPrivilege :: "u32 \<Rightarrow> u32 \<Rightarrow> regs \<Rightarrow> regs result" where
  [ll_def]: "LL_DMA_DisableChannelPrivilege DMAx Channel r =
     bindr (DMA_Channel DMAx Channel) (\<lambda>ch. Inr (CLEAR_BIT (ch + DMA_Channel_CCR)
        DMA_CCR_PRIV r))"

definition LL_DMA_IsEnabledChannelPrivilege :: "u32 \<Rightarrow> u32 \<Rightarrow> regs \<Rightarrow> u32 result" where
  [ll_def]: "LL_DMA_IsEnabledChannelPrivilege DMAx Channel r =
     bindr (DMA_Channel DMAx Channel) (\<lambda>ch. Inr (if READ_BIT (ch + DMA_Channel_CCR)
        DMA_CCR_PRIV r = DMA_CCR_PRIV then 1 else 0))"

definition LL_DMA_SetDataLength :: "u32 \<Rightarrow> u32 \<Rightarrow> u32 \<Rightarrow> regs \<Rightarrow> regs result" where
  [ll_def]: "LL_DMA_SetDataLength DMAx Channel NbData r =
     bindr (DMA_Channel DMAx Channel) (\<lambda>ch. Inr (MODIFY_REG (ch + DMA_Channel_CNDTR)
        DMA_CNDTR_NDT NbData r))"

definition LL_DMA_GetDataLength :: "u32 \<Rightarrow> u32 \<Rightarrow> regs \<Rightarrow> u32 result" where
  [ll_def]: "LL_DMA_GetDataLength DMAx Channel r =
     bindr (DMA_Channel DMAx Channel) (\<lambda>ch. Inr (READ_BIT (ch + DMA_Channel_CNDTR)
        DMA_CNDTR_NDT r))"

definition LL_DMA_ConfigAddresses :: "u32 \<Rightarrow> u32 \<Rightarrow> u32 \<Rightarrow> u32 \<Rightarrow> u32 \<Rightarrow> regs \<Rightarrow> regs result" where
  [ll_def]: "LL_DMA_ConfigAddresses DMAx Channel SrcAddress DstAddress Direction r =
     bindr (DMA_Channel DMAx Channel) (\<lambda>ch.
       if Direction = LL_DMA_DIRECTION_MEMORY_TO_PERIPH
       then Inr (WRITE_REG (ch + DMA_Channel_CPAR) DstAddress
                  (WRITE_REG (ch + DMA_Channel_CMAR) SrcAddress r))
       else Inr (WRITE_REG (ch + DMA_Channel_CMAR) DstAddress
                  (WRITE_REG (ch + DMA_Channel_CPAR) SrcAddress r)))"

definition LL_DMA_SetMemoryAddress :: "u32 \<Rightarrow> u32 \<Rightarrow> u32 \<Rightarrow> regs \<Rightarrow> regs result" where
  [ll_def]: "LL_DMA_SetMemoryAddress DMAx Channel MemoryAddress r =
     bindr (DMA_Channel DMAx Channel) (\<lambda>ch. Inr (WRITE_REG (ch + DMA_Channel_CMAR)
        MemoryAddress r))"

definition LL_DMA_SetPeriphAddress :: "u32 \<Rightarrow> u32 \<Rightarrow> u32 \<Rightarrow> regs \<Rightarrow> regs result" where
  [ll_def]: "LL_DMA_SetPeriphAddress DMAx Channel PeriphAddress r =
     bindr (DMA_Channel DMAx Channel) (\<lambda>ch. Inr (WRITE_REG (ch + DMA_Channel_CPAR)
        PeriphAddress r))"

definition LL_DMA_GetMemoryAddress :: "u32 \<Rightarrow> u32 \<Rightarrow> regs \<Rightarrow> u32 result" where
  [ll_def]: "LL_DMA_GetMemoryAddress DMAx Channel r =
     bindr (DMA_Channel DMAx Channel) (\<lambda>ch. Inr (READ_REG (ch + DMA_Channel_CMAR) r))"

definition LL_DMA_GetPeriphAddress :: "u32 \<Rightarrow> u32 \<Rightarrow> regs \<Rightarrow> u32 result" where
  [ll_def]: "LL_DMA_GetPeriphAddress DMAx Channel r =
     bindr (DMA_Channel DMAx Channel) (\<lambda>ch. Inr (READ_REG (ch + DMA_Channel_CPAR) r))"

definition LL_DMA_SetM2MSrcAddress :: "u32 \<Rightarrow> u32 \<Rightarrow> u32 \<Rightarrow> regs \<Rightarrow> regs result" where
  [ll_def]: "LL_DMA_SetM2MSrcAddress DMAx Channel MemoryAddress r =
     bindr (DMA_Channel DMAx Channel) (\<lambda>ch. Inr (WRITE_REG (ch + DMA_Channel_CPAR)
        MemoryAddress r))"

definition LL_DMA_SetM2MDstAddress :: "u32 \<Rightarrow> u32 \<Rightarrow> u32 \<Rightarrow> regs \<Rightarrow> regs result" where
  [ll_def]: "LL_DMA_SetM2MDstAddress DMAx Channel MemoryAddress r =
     bindr (DMA_Channel DMAx Channel) (\<lambda>ch. Inr (WRITE_REG (ch + DMA_Channel_CMAR)
        MemoryAddress r))"

definition LL_DMA_GetM2MSrcAddress :: "u32 \<Rightarrow> u32 \<Rightarrow> regs \<Rightarrow> u32 result" where
  [ll_def]: "LL_DMA_GetM2MSrcAddress DMAx Channel r =
     bindr (DMA_Channel DMAx Channel) (\<lambda>ch. Inr (READ_REG (ch + DMA_Channel_CPAR) r))"

definition LL_DMA_GetM2MDstAddress :: "u32 \<Rightarrow> u32 \<Rightarrow> regs \<Rightarrow> u32 result" where
  [ll_def]: "LL_DMA_GetM2MDstAddress DMAx Channel r =
     bindr (DMA_Channel DMAx Channel) (\<lambda>ch. Inr (READ_REG (ch + DMA_Channel_CMAR) r))"

definition LL_DMA_SetPeriphRequest :: "u32 \<Rightarrow> u32 \<Rightarrow> u32 \<Rightarrow> regs \<Rightarrow> regs" where
  [ll_def]: "LL_DMA_SetPeriphRequest DMAx Channel Request r =
     (let dmamux_ccr_offset = (drop_bit 10 (DMAx XOR DMA1)) * 7
      in MODIFY_REG (DMAMUX1_Channel0 + 4 * (Channel + dmamux_ccr_offset) + DMAMUX_Channel_CCR) DMAMUX_CxCR_DMAREQ_ID Request r)"

definition LL_DMA_GetPeriphRequest :: "u32 \<Rightarrow> u32 \<Rightarrow> regs \<Rightarrow> u32" where
  [ll_def]: "LL_DMA_GetPeriphRequest DMAx Channel r =
     (let dmamux_ccr_offset = (drop_bit 10 (DMAx XOR DMA1)) * 7
      in READ_BIT (DMAMUX1_Channel0 + 4 * (Channel + dmamux_ccr_offset) + DMAMUX_Channel_CCR) DMAMUX_CxCR_DMAREQ_ID r)"

definition LL_DMA_IsActiveFlag_GI1 :: "u32 \<Rightarrow> regs \<Rightarrow> u32" where
  [ll_def]: "LL_DMA_IsActiveFlag_GI1 DMAx r =
     (if READ_BIT (DMAx + DMA_ISR) DMA_ISR_GIF1 r = DMA_ISR_GIF1 then 1 else 0)"

definition LL_DMA_IsActiveFlag_GI2 :: "u32 \<Rightarrow> regs \<Rightarrow> u32" where
  [ll_def]: "LL_DMA_IsActiveFlag_GI2 DMAx r =
     (if READ_BIT (DMAx + DMA_ISR) DMA_ISR_GIF2 r = DMA_ISR_GIF2 then 1 else 0)"

definition LL_DMA_IsActiveFlag_GI3 :: "u32 \<Rightarrow> regs \<Rightarrow> u32" where
  [ll_def]: "LL_DMA_IsActiveFlag_GI3 DMAx r =
     (if READ_BIT (DMAx + DMA_ISR) DMA_ISR_GIF3 r = DMA_ISR_GIF3 then 1 else 0)"

definition LL_DMA_IsActiveFlag_GI4 :: "u32 \<Rightarrow> regs \<Rightarrow> u32" where
  [ll_def]: "LL_DMA_IsActiveFlag_GI4 DMAx r =
     (if READ_BIT (DMAx + DMA_ISR) DMA_ISR_GIF4 r = DMA_ISR_GIF4 then 1 else 0)"

definition LL_DMA_IsActiveFlag_GI5 :: "u32 \<Rightarrow> regs \<Rightarrow> u32" where
  [ll_def]: "LL_DMA_IsActiveFlag_GI5 DMAx r =
     (if READ_BIT (DMAx + DMA_ISR) DMA_ISR_GIF5 r = DMA_ISR_GIF5 then 1 else 0)"

definition LL_DMA_IsActiveFlag_GI6 :: "u32 \<Rightarrow> regs \<Rightarrow> u32" where
  [ll_def]: "LL_DMA_IsActiveFlag_GI6 DMAx r =
     (if READ_BIT (DMAx + DMA_ISR) DMA_ISR_GIF6 r = DMA_ISR_GIF6 then 1 else 0)"

definition LL_DMA_IsActiveFlag_GI7 :: "u32 \<Rightarrow> regs \<Rightarrow> u32" where
  [ll_def]: "LL_DMA_IsActiveFlag_GI7 DMAx r =
     (if READ_BIT (DMAx + DMA_ISR) DMA_ISR_GIF7 r = DMA_ISR_GIF7 then 1 else 0)"

definition LL_DMA_IsActiveFlag_TC1 :: "u32 \<Rightarrow> regs \<Rightarrow> u32" where
  [ll_def]: "LL_DMA_IsActiveFlag_TC1 DMAx r =
     (if READ_BIT (DMAx + DMA_ISR) DMA_ISR_TCIF1 r = DMA_ISR_TCIF1 then 1 else 0)"

definition LL_DMA_IsActiveFlag_TC2 :: "u32 \<Rightarrow> regs \<Rightarrow> u32" where
  [ll_def]: "LL_DMA_IsActiveFlag_TC2 DMAx r =
     (if READ_BIT (DMAx + DMA_ISR) DMA_ISR_TCIF2 r = DMA_ISR_TCIF2 then 1 else 0)"

definition LL_DMA_IsActiveFlag_TC3 :: "u32 \<Rightarrow> regs \<Rightarrow> u32" where
  [ll_def]: "LL_DMA_IsActiveFlag_TC3 DMAx r =
     (if READ_BIT (DMAx + DMA_ISR) DMA_ISR_TCIF3 r = DMA_ISR_TCIF3 then 1 else 0)"

definition LL_DMA_IsActiveFlag_TC4 :: "u32 \<Rightarrow> regs \<Rightarrow> u32" where
  [ll_def]: "LL_DMA_IsActiveFlag_TC4 DMAx r =
     (if READ_BIT (DMAx + DMA_ISR) DMA_ISR_TCIF4 r = DMA_ISR_TCIF4 then 1 else 0)"

definition LL_DMA_IsActiveFlag_TC5 :: "u32 \<Rightarrow> regs \<Rightarrow> u32" where
  [ll_def]: "LL_DMA_IsActiveFlag_TC5 DMAx r =
     (if READ_BIT (DMAx + DMA_ISR) DMA_ISR_TCIF5 r = DMA_ISR_TCIF5 then 1 else 0)"

definition LL_DMA_IsActiveFlag_TC6 :: "u32 \<Rightarrow> regs \<Rightarrow> u32" where
  [ll_def]: "LL_DMA_IsActiveFlag_TC6 DMAx r =
     (if READ_BIT (DMAx + DMA_ISR) DMA_ISR_TCIF6 r = DMA_ISR_TCIF6 then 1 else 0)"

definition LL_DMA_IsActiveFlag_TC7 :: "u32 \<Rightarrow> regs \<Rightarrow> u32" where
  [ll_def]: "LL_DMA_IsActiveFlag_TC7 DMAx r =
     (if READ_BIT (DMAx + DMA_ISR) DMA_ISR_TCIF7 r = DMA_ISR_TCIF7 then 1 else 0)"

definition LL_DMA_IsActiveFlag_HT1 :: "u32 \<Rightarrow> regs \<Rightarrow> u32" where
  [ll_def]: "LL_DMA_IsActiveFlag_HT1 DMAx r =
     (if READ_BIT (DMAx + DMA_ISR) DMA_ISR_HTIF1 r = DMA_ISR_HTIF1 then 1 else 0)"

definition LL_DMA_IsActiveFlag_HT2 :: "u32 \<Rightarrow> regs \<Rightarrow> u32" where
  [ll_def]: "LL_DMA_IsActiveFlag_HT2 DMAx r =
     (if READ_BIT (DMAx + DMA_ISR) DMA_ISR_HTIF2 r = DMA_ISR_HTIF2 then 1 else 0)"

definition LL_DMA_IsActiveFlag_HT3 :: "u32 \<Rightarrow> regs \<Rightarrow> u32" where
  [ll_def]: "LL_DMA_IsActiveFlag_HT3 DMAx r =
     (if READ_BIT (DMAx + DMA_ISR) DMA_ISR_HTIF3 r = DMA_ISR_HTIF3 then 1 else 0)"

definition LL_DMA_IsActiveFlag_HT4 :: "u32 \<Rightarrow> regs \<Rightarrow> u32" where
  [ll_def]: "LL_DMA_IsActiveFlag_HT4 DMAx r =
     (if READ_BIT (DMAx + DMA_ISR) DMA_ISR_HTIF4 r = DMA_ISR_HTIF4 then 1 else 0)"

definition LL_DMA_IsActiveFlag_HT5 :: "u32 \<Rightarrow> regs \<Rightarrow> u32" where
  [ll_def]: "LL_DMA_IsActiveFlag_HT5 DMAx r =
     (if READ_BIT (DMAx + DMA_ISR) DMA_ISR_HTIF5 r = DMA_ISR_HTIF5 then 1 else 0)"

definition LL_DMA_IsActiveFlag_HT6 :: "u32 \<Rightarrow> regs \<Rightarrow> u32" where
  [ll_def]: "LL_DMA_IsActiveFlag_HT6 DMAx r =
     (if READ_BIT (DMAx + DMA_ISR) DMA_ISR_HTIF6 r = DMA_ISR_HTIF6 then 1 else 0)"

definition LL_DMA_IsActiveFlag_HT7 :: "u32 \<Rightarrow> regs \<Rightarrow> u32" where
  [ll_def]: "LL_DMA_IsActiveFlag_HT7 DMAx r =
     (if READ_BIT (DMAx + DMA_ISR) DMA_ISR_HTIF7 r = DMA_ISR_HTIF7 then 1 else 0)"

definition LL_DMA_IsActiveFlag_TE1 :: "u32 \<Rightarrow> regs \<Rightarrow> u32" where
  [ll_def]: "LL_DMA_IsActiveFlag_TE1 DMAx r =
     (if READ_BIT (DMAx + DMA_ISR) DMA_ISR_TEIF1 r = DMA_ISR_TEIF1 then 1 else 0)"

definition LL_DMA_IsActiveFlag_TE2 :: "u32 \<Rightarrow> regs \<Rightarrow> u32" where
  [ll_def]: "LL_DMA_IsActiveFlag_TE2 DMAx r =
     (if READ_BIT (DMAx + DMA_ISR) DMA_ISR_TEIF2 r = DMA_ISR_TEIF2 then 1 else 0)"

definition LL_DMA_IsActiveFlag_TE3 :: "u32 \<Rightarrow> regs \<Rightarrow> u32" where
  [ll_def]: "LL_DMA_IsActiveFlag_TE3 DMAx r =
     (if READ_BIT (DMAx + DMA_ISR) DMA_ISR_TEIF3 r = DMA_ISR_TEIF3 then 1 else 0)"

definition LL_DMA_IsActiveFlag_TE4 :: "u32 \<Rightarrow> regs \<Rightarrow> u32" where
  [ll_def]: "LL_DMA_IsActiveFlag_TE4 DMAx r =
     (if READ_BIT (DMAx + DMA_ISR) DMA_ISR_TEIF4 r = DMA_ISR_TEIF4 then 1 else 0)"

definition LL_DMA_IsActiveFlag_TE5 :: "u32 \<Rightarrow> regs \<Rightarrow> u32" where
  [ll_def]: "LL_DMA_IsActiveFlag_TE5 DMAx r =
     (if READ_BIT (DMAx + DMA_ISR) DMA_ISR_TEIF5 r = DMA_ISR_TEIF5 then 1 else 0)"

definition LL_DMA_IsActiveFlag_TE6 :: "u32 \<Rightarrow> regs \<Rightarrow> u32" where
  [ll_def]: "LL_DMA_IsActiveFlag_TE6 DMAx r =
     (if READ_BIT (DMAx + DMA_ISR) DMA_ISR_TEIF6 r = DMA_ISR_TEIF6 then 1 else 0)"

definition LL_DMA_IsActiveFlag_TE7 :: "u32 \<Rightarrow> regs \<Rightarrow> u32" where
  [ll_def]: "LL_DMA_IsActiveFlag_TE7 DMAx r =
     (if READ_BIT (DMAx + DMA_ISR) DMA_ISR_TEIF7 r = DMA_ISR_TEIF7 then 1 else 0)"

definition LL_DMA_ClearFlag_GI1 :: "u32 \<Rightarrow> regs \<Rightarrow> regs" where
  [ll_def]: "LL_DMA_ClearFlag_GI1 DMAx r = WRITE_REG (DMAx + DMA_IFCR) DMA_IFCR_CGIF1 r"

definition LL_DMA_ClearFlag_GI2 :: "u32 \<Rightarrow> regs \<Rightarrow> regs" where
  [ll_def]: "LL_DMA_ClearFlag_GI2 DMAx r = WRITE_REG (DMAx + DMA_IFCR) DMA_IFCR_CGIF2 r"

definition LL_DMA_ClearFlag_GI3 :: "u32 \<Rightarrow> regs \<Rightarrow> regs" where
  [ll_def]: "LL_DMA_ClearFlag_GI3 DMAx r = WRITE_REG (DMAx + DMA_IFCR) DMA_IFCR_CGIF3 r"

definition LL_DMA_ClearFlag_GI4 :: "u32 \<Rightarrow> regs \<Rightarrow> regs" where
  [ll_def]: "LL_DMA_ClearFlag_GI4 DMAx r = WRITE_REG (DMAx + DMA_IFCR) DMA_IFCR_CGIF4 r"

definition LL_DMA_ClearFlag_GI5 :: "u32 \<Rightarrow> regs \<Rightarrow> regs" where
  [ll_def]: "LL_DMA_ClearFlag_GI5 DMAx r = WRITE_REG (DMAx + DMA_IFCR) DMA_IFCR_CGIF5 r"

definition LL_DMA_ClearFlag_GI6 :: "u32 \<Rightarrow> regs \<Rightarrow> regs" where
  [ll_def]: "LL_DMA_ClearFlag_GI6 DMAx r = WRITE_REG (DMAx + DMA_IFCR) DMA_IFCR_CGIF6 r"

definition LL_DMA_ClearFlag_GI7 :: "u32 \<Rightarrow> regs \<Rightarrow> regs" where
  [ll_def]: "LL_DMA_ClearFlag_GI7 DMAx r = WRITE_REG (DMAx + DMA_IFCR) DMA_IFCR_CGIF7 r"

definition LL_DMA_ClearFlag_TC1 :: "u32 \<Rightarrow> regs \<Rightarrow> regs" where
  [ll_def]: "LL_DMA_ClearFlag_TC1 DMAx r = WRITE_REG (DMAx + DMA_IFCR) DMA_IFCR_CTCIF1 r"

definition LL_DMA_ClearFlag_TC2 :: "u32 \<Rightarrow> regs \<Rightarrow> regs" where
  [ll_def]: "LL_DMA_ClearFlag_TC2 DMAx r = WRITE_REG (DMAx + DMA_IFCR) DMA_IFCR_CTCIF2 r"

definition LL_DMA_ClearFlag_TC3 :: "u32 \<Rightarrow> regs \<Rightarrow> regs" where
  [ll_def]: "LL_DMA_ClearFlag_TC3 DMAx r = WRITE_REG (DMAx + DMA_IFCR) DMA_IFCR_CTCIF3 r"

definition LL_DMA_ClearFlag_TC4 :: "u32 \<Rightarrow> regs \<Rightarrow> regs" where
  [ll_def]: "LL_DMA_ClearFlag_TC4 DMAx r = WRITE_REG (DMAx + DMA_IFCR) DMA_IFCR_CTCIF4 r"

definition LL_DMA_ClearFlag_TC5 :: "u32 \<Rightarrow> regs \<Rightarrow> regs" where
  [ll_def]: "LL_DMA_ClearFlag_TC5 DMAx r = WRITE_REG (DMAx + DMA_IFCR) DMA_IFCR_CTCIF5 r"

definition LL_DMA_ClearFlag_TC6 :: "u32 \<Rightarrow> regs \<Rightarrow> regs" where
  [ll_def]: "LL_DMA_ClearFlag_TC6 DMAx r = WRITE_REG (DMAx + DMA_IFCR) DMA_IFCR_CTCIF6 r"

definition LL_DMA_ClearFlag_TC7 :: "u32 \<Rightarrow> regs \<Rightarrow> regs" where
  [ll_def]: "LL_DMA_ClearFlag_TC7 DMAx r = WRITE_REG (DMAx + DMA_IFCR) DMA_IFCR_CTCIF7 r"

definition LL_DMA_ClearFlag_HT1 :: "u32 \<Rightarrow> regs \<Rightarrow> regs" where
  [ll_def]: "LL_DMA_ClearFlag_HT1 DMAx r = WRITE_REG (DMAx + DMA_IFCR) DMA_IFCR_CHTIF1 r"

definition LL_DMA_ClearFlag_HT2 :: "u32 \<Rightarrow> regs \<Rightarrow> regs" where
  [ll_def]: "LL_DMA_ClearFlag_HT2 DMAx r = WRITE_REG (DMAx + DMA_IFCR) DMA_IFCR_CHTIF2 r"

definition LL_DMA_ClearFlag_HT3 :: "u32 \<Rightarrow> regs \<Rightarrow> regs" where
  [ll_def]: "LL_DMA_ClearFlag_HT3 DMAx r = WRITE_REG (DMAx + DMA_IFCR) DMA_IFCR_CHTIF3 r"

definition LL_DMA_ClearFlag_HT4 :: "u32 \<Rightarrow> regs \<Rightarrow> regs" where
  [ll_def]: "LL_DMA_ClearFlag_HT4 DMAx r = WRITE_REG (DMAx + DMA_IFCR) DMA_IFCR_CHTIF4 r"

definition LL_DMA_ClearFlag_HT5 :: "u32 \<Rightarrow> regs \<Rightarrow> regs" where
  [ll_def]: "LL_DMA_ClearFlag_HT5 DMAx r = WRITE_REG (DMAx + DMA_IFCR) DMA_IFCR_CHTIF5 r"

definition LL_DMA_ClearFlag_HT6 :: "u32 \<Rightarrow> regs \<Rightarrow> regs" where
  [ll_def]: "LL_DMA_ClearFlag_HT6 DMAx r = WRITE_REG (DMAx + DMA_IFCR) DMA_IFCR_CHTIF6 r"

definition LL_DMA_ClearFlag_HT7 :: "u32 \<Rightarrow> regs \<Rightarrow> regs" where
  [ll_def]: "LL_DMA_ClearFlag_HT7 DMAx r = WRITE_REG (DMAx + DMA_IFCR) DMA_IFCR_CHTIF7 r"

definition LL_DMA_ClearFlag_TE1 :: "u32 \<Rightarrow> regs \<Rightarrow> regs" where
  [ll_def]: "LL_DMA_ClearFlag_TE1 DMAx r = WRITE_REG (DMAx + DMA_IFCR) DMA_IFCR_CTEIF1 r"

definition LL_DMA_ClearFlag_TE2 :: "u32 \<Rightarrow> regs \<Rightarrow> regs" where
  [ll_def]: "LL_DMA_ClearFlag_TE2 DMAx r = WRITE_REG (DMAx + DMA_IFCR) DMA_IFCR_CTEIF2 r"

definition LL_DMA_ClearFlag_TE3 :: "u32 \<Rightarrow> regs \<Rightarrow> regs" where
  [ll_def]: "LL_DMA_ClearFlag_TE3 DMAx r = WRITE_REG (DMAx + DMA_IFCR) DMA_IFCR_CTEIF3 r"

definition LL_DMA_ClearFlag_TE4 :: "u32 \<Rightarrow> regs \<Rightarrow> regs" where
  [ll_def]: "LL_DMA_ClearFlag_TE4 DMAx r = WRITE_REG (DMAx + DMA_IFCR) DMA_IFCR_CTEIF4 r"

definition LL_DMA_ClearFlag_TE5 :: "u32 \<Rightarrow> regs \<Rightarrow> regs" where
  [ll_def]: "LL_DMA_ClearFlag_TE5 DMAx r = WRITE_REG (DMAx + DMA_IFCR) DMA_IFCR_CTEIF5 r"

definition LL_DMA_ClearFlag_TE6 :: "u32 \<Rightarrow> regs \<Rightarrow> regs" where
  [ll_def]: "LL_DMA_ClearFlag_TE6 DMAx r = WRITE_REG (DMAx + DMA_IFCR) DMA_IFCR_CTEIF6 r"

definition LL_DMA_ClearFlag_TE7 :: "u32 \<Rightarrow> regs \<Rightarrow> regs" where
  [ll_def]: "LL_DMA_ClearFlag_TE7 DMAx r = WRITE_REG (DMAx + DMA_IFCR) DMA_IFCR_CTEIF7 r"

definition LL_DMA_EnableIT_TC :: "u32 \<Rightarrow> u32 \<Rightarrow> regs \<Rightarrow> regs result" where
  [ll_def]: "LL_DMA_EnableIT_TC DMAx Channel r =
     bindr (DMA_Channel DMAx Channel) (\<lambda>ch. Inr (SET_BIT (ch + DMA_Channel_CCR)
        DMA_CCR_TCIE r))"

definition LL_DMA_EnableIT_HT :: "u32 \<Rightarrow> u32 \<Rightarrow> regs \<Rightarrow> regs result" where
  [ll_def]: "LL_DMA_EnableIT_HT DMAx Channel r =
     bindr (DMA_Channel DMAx Channel) (\<lambda>ch. Inr (SET_BIT (ch + DMA_Channel_CCR)
        DMA_CCR_HTIE r))"

definition LL_DMA_EnableIT_TE :: "u32 \<Rightarrow> u32 \<Rightarrow> regs \<Rightarrow> regs result" where
  [ll_def]: "LL_DMA_EnableIT_TE DMAx Channel r =
     bindr (DMA_Channel DMAx Channel) (\<lambda>ch. Inr (SET_BIT (ch + DMA_Channel_CCR)
        DMA_CCR_TEIE r))"

definition LL_DMA_DisableIT_TC :: "u32 \<Rightarrow> u32 \<Rightarrow> regs \<Rightarrow> regs result" where
  [ll_def]: "LL_DMA_DisableIT_TC DMAx Channel r =
     bindr (DMA_Channel DMAx Channel) (\<lambda>ch. Inr (CLEAR_BIT (ch + DMA_Channel_CCR)
        DMA_CCR_TCIE r))"

definition LL_DMA_DisableIT_HT :: "u32 \<Rightarrow> u32 \<Rightarrow> regs \<Rightarrow> regs result" where
  [ll_def]: "LL_DMA_DisableIT_HT DMAx Channel r =
     bindr (DMA_Channel DMAx Channel) (\<lambda>ch. Inr (CLEAR_BIT (ch + DMA_Channel_CCR)
        DMA_CCR_HTIE r))"

definition LL_DMA_DisableIT_TE :: "u32 \<Rightarrow> u32 \<Rightarrow> regs \<Rightarrow> regs result" where
  [ll_def]: "LL_DMA_DisableIT_TE DMAx Channel r =
     bindr (DMA_Channel DMAx Channel) (\<lambda>ch. Inr (CLEAR_BIT (ch + DMA_Channel_CCR)
        DMA_CCR_TEIE r))"

definition LL_DMA_IsEnabledIT_TC :: "u32 \<Rightarrow> u32 \<Rightarrow> regs \<Rightarrow> u32 result" where
  [ll_def]: "LL_DMA_IsEnabledIT_TC DMAx Channel r =
     bindr (DMA_Channel DMAx Channel) (\<lambda>ch. Inr (if READ_BIT (ch + DMA_Channel_CCR)
        DMA_CCR_TCIE r = DMA_CCR_TCIE then 1 else 0))"

definition LL_DMA_IsEnabledIT_HT :: "u32 \<Rightarrow> u32 \<Rightarrow> regs \<Rightarrow> u32 result" where
  [ll_def]: "LL_DMA_IsEnabledIT_HT DMAx Channel r =
     bindr (DMA_Channel DMAx Channel) (\<lambda>ch. Inr (if READ_BIT (ch + DMA_Channel_CCR)
        DMA_CCR_HTIE r = DMA_CCR_HTIE then 1 else 0))"

definition LL_DMA_IsEnabledIT_TE :: "u32 \<Rightarrow> u32 \<Rightarrow> regs \<Rightarrow> u32 result" where
  [ll_def]: "LL_DMA_IsEnabledIT_TE DMAx Channel r =
     bindr (DMA_Channel DMAx Channel) (\<lambda>ch. Inr (if READ_BIT (ch + DMA_Channel_CCR)
        DMA_CCR_TEIE r = DMA_CCR_TEIE then 1 else 0))"

end
