(* ===== verification/Dma_Channels.thy ===== *)
theory Dma_Channels
  imports Ll_Dma
begin

text \<open>
  The fourteen DMA channels as the accessors of \<^verbatim>\<open>stm32wlxx_ll_dma.h\<close> see them: each channel has
  the four registers of \<^verbatim>\<open>DMA_Channel_TypeDef\<close> and its request selection in the multiplexer. The calls
  that write are a data type, \<open>dma_exec\<close> runs one with the accessor of the header, and \<open>dma_effect\<close> says
  what it is meant to do to its channel alone.
\<close>

record dma_channel =
  CCR :: u32
  CNDTR :: u32
  CPAR :: u32
  CMAR :: u32
  MUX :: u32

datatype dma_call =
    EnableChannel
  | DisableChannel
  | ConfigTransfer u32
  | SetDataTransferDirection u32
  | SetMode u32
  | SetPeriphIncMode u32
  | SetMemoryIncMode u32
  | SetPeriphSize u32
  | SetMemorySize u32
  | SetChannelPriorityLevel u32
  | EnableChannelPrivilege
  | DisableChannelPrivilege
  | SetDataLength u32
  | ConfigAddresses u32 u32 u32
  | SetMemoryAddress u32
  | SetPeriphAddress u32
  | SetM2MSrcAddress u32
  | SetM2MDstAddress u32
  | SetPeriphRequest u32
  | EnableIT_TC
  | EnableIT_HT
  | EnableIT_TE
  | DisableIT_TC
  | DisableIT_HT
  | DisableIT_TE

fun dma_exec :: "(u32 \<times> u32) \<times> dma_call \<Rightarrow> regs \<Rightarrow> regs result" where
  "dma_exec ((d, c), EnableChannel) r = LL_DMA_EnableChannel d c r"
| "dma_exec ((d, c), DisableChannel) r = LL_DMA_DisableChannel d c r"
| "dma_exec ((d, c), ConfigTransfer v) r = LL_DMA_ConfigTransfer d c v r"
| "dma_exec ((d, c), SetDataTransferDirection v) r = LL_DMA_SetDataTransferDirection d c v r"
| "dma_exec ((d, c), SetMode v) r = LL_DMA_SetMode d c v r"
| "dma_exec ((d, c), SetPeriphIncMode v) r = Inr (LL_DMA_SetPeriphIncMode d c v r)"
| "dma_exec ((d, c), SetMemoryIncMode v) r = Inr (LL_DMA_SetMemoryIncMode d c v r)"
| "dma_exec ((d, c), SetPeriphSize v) r = Inr (LL_DMA_SetPeriphSize d c v r)"
| "dma_exec ((d, c), SetMemorySize v) r = Inr (LL_DMA_SetMemorySize d c v r)"
| "dma_exec ((d, c), SetChannelPriorityLevel v) r = Inr (LL_DMA_SetChannelPriorityLevel d c v r)"
| "dma_exec ((d, c), EnableChannelPrivilege) r = LL_DMA_EnableChannelPrivilege d c r"
| "dma_exec ((d, c), DisableChannelPrivilege) r = LL_DMA_DisableChannelPrivilege d c r"
| "dma_exec ((d, c), SetDataLength v) r = LL_DMA_SetDataLength d c v r"
| "dma_exec ((d, c), ConfigAddresses src dst dir) r = LL_DMA_ConfigAddresses d c src dst dir r"
| "dma_exec ((d, c), SetMemoryAddress v) r = LL_DMA_SetMemoryAddress d c v r"
| "dma_exec ((d, c), SetPeriphAddress v) r = LL_DMA_SetPeriphAddress d c v r"
| "dma_exec ((d, c), SetM2MSrcAddress v) r = LL_DMA_SetM2MSrcAddress d c v r"
| "dma_exec ((d, c), SetM2MDstAddress v) r = LL_DMA_SetM2MDstAddress d c v r"
| "dma_exec ((d, c), SetPeriphRequest v) r = Inr (LL_DMA_SetPeriphRequest d c v r)"
| "dma_exec ((d, c), EnableIT_TC) r = LL_DMA_EnableIT_TC d c r"
| "dma_exec ((d, c), EnableIT_HT) r = LL_DMA_EnableIT_HT d c r"
| "dma_exec ((d, c), EnableIT_TE) r = LL_DMA_EnableIT_TE d c r"
| "dma_exec ((d, c), DisableIT_TC) r = LL_DMA_DisableIT_TC d c r"
| "dma_exec ((d, c), DisableIT_HT) r = LL_DMA_DisableIT_HT d c r"
| "dma_exec ((d, c), DisableIT_TE) r = LL_DMA_DisableIT_TE d c r"

text \<open>The parameters of a transfer in the configuration register, and a field replaced in a word.\<close>

definition transfer_mask :: u32 where
  "transfer_mask = DMA_CCR_DIR OR DMA_CCR_MEM2MEM OR DMA_CCR_CIRC OR DMA_CCR_PINC OR DMA_CCR_MINC OR
     DMA_CCR_PSIZE OR DMA_CCR_MSIZE OR DMA_CCR_PL"

definition put_field :: "u32 \<Rightarrow> u32 \<Rightarrow> u32 \<Rightarrow> u32" where
  "put_field m v x = (x AND NOT m) OR v"

fun dma_effect :: "dma_call \<Rightarrow> dma_channel \<Rightarrow> dma_channel" where
  "dma_effect EnableChannel ch = ch\<lparr>CCR := CCR ch OR DMA_CCR_EN\<rparr>"
| "dma_effect DisableChannel ch = ch\<lparr>CCR := CCR ch AND NOT DMA_CCR_EN\<rparr>"
| "dma_effect (ConfigTransfer v) ch = ch\<lparr>CCR := put_field transfer_mask v (CCR ch)\<rparr>"
| "dma_effect (SetDataTransferDirection v) ch =
     ch\<lparr>CCR := put_field (DMA_CCR_DIR OR DMA_CCR_MEM2MEM) v (CCR ch)\<rparr>"
| "dma_effect (SetMode v) ch = ch\<lparr>CCR := put_field DMA_CCR_CIRC v (CCR ch)\<rparr>"
| "dma_effect (SetPeriphIncMode v) ch = ch"
| "dma_effect (SetMemoryIncMode v) ch = ch"
| "dma_effect (SetPeriphSize v) ch = ch"
| "dma_effect (SetMemorySize v) ch = ch"
| "dma_effect (SetChannelPriorityLevel v) ch = ch"
| "dma_effect EnableChannelPrivilege ch = ch\<lparr>CCR := CCR ch OR DMA_CCR_PRIV\<rparr>"
| "dma_effect DisableChannelPrivilege ch = ch\<lparr>CCR := CCR ch AND NOT DMA_CCR_PRIV\<rparr>"
| "dma_effect (SetDataLength v) ch = ch\<lparr>CNDTR := put_field DMA_CNDTR_NDT v (CNDTR ch)\<rparr>"
| "dma_effect (ConfigAddresses src dst dir) ch =
     (if dir = LL_DMA_DIRECTION_MEMORY_TO_PERIPH then ch\<lparr>CMAR := src, CPAR := dst\<rparr>
      else ch\<lparr>CPAR := src, CMAR := dst\<rparr>)"
| "dma_effect (SetMemoryAddress v) ch = ch\<lparr>CMAR := v\<rparr>"
| "dma_effect (SetPeriphAddress v) ch = ch\<lparr>CPAR := v\<rparr>"
| "dma_effect (SetM2MSrcAddress v) ch = ch\<lparr>CPAR := v\<rparr>"
| "dma_effect (SetM2MDstAddress v) ch = ch\<lparr>CMAR := v\<rparr>"
| "dma_effect (SetPeriphRequest v) ch = ch\<lparr>MUX := put_field DMAMUX_CxCR_DMAREQ_ID v (MUX ch)\<rparr>"
| "dma_effect EnableIT_TC ch = ch\<lparr>CCR := CCR ch OR DMA_CCR_TCIE\<rparr>"
| "dma_effect EnableIT_HT ch = ch\<lparr>CCR := CCR ch OR DMA_CCR_HTIE\<rparr>"
| "dma_effect EnableIT_TE ch = ch\<lparr>CCR := CCR ch OR DMA_CCR_TEIE\<rparr>"
| "dma_effect DisableIT_TC ch = ch\<lparr>CCR := CCR ch AND NOT DMA_CCR_TCIE\<rparr>"
| "dma_effect DisableIT_HT ch = ch\<lparr>CCR := CCR ch AND NOT DMA_CCR_HTIE\<rparr>"
| "dma_effect DisableIT_TE ch = ch\<lparr>CCR := CCR ch AND NOT DMA_CCR_TEIE\<rparr>"

section \<open>Where the channels are\<close>

definition dma_channels :: "(u32 \<times> u32) list" where
  "dma_channels =
     [(DMA1, LL_DMA_CHANNEL_1), (DMA1, LL_DMA_CHANNEL_2), (DMA1, LL_DMA_CHANNEL_3), (DMA1, LL_DMA_CHANNEL_4),
      (DMA1, LL_DMA_CHANNEL_5), (DMA1, LL_DMA_CHANNEL_6), (DMA1, LL_DMA_CHANNEL_7),
      (DMA2, LL_DMA_CHANNEL_1), (DMA2, LL_DMA_CHANNEL_2), (DMA2, LL_DMA_CHANNEL_3), (DMA2, LL_DMA_CHANNEL_4),
      (DMA2, LL_DMA_CHANNEL_5), (DMA2, LL_DMA_CHANNEL_6), (DMA2, LL_DMA_CHANNEL_7)]"

fun channel_base :: "u32 \<times> u32 \<Rightarrow> u32" where
  "channel_base (d, c) = LL_DMA_GET_CHANNEL_INSTANCE d c"

fun channel_mux :: "u32 \<times> u32 \<Rightarrow> u32" where
  "channel_mux (d, c) = DMAMUX1_Channel0 + 4 * (c + drop_bit 10 (d XOR DMA1) * 7)"

definition channel_regs :: "u32 \<times> u32 \<Rightarrow> u32 list" where
  "channel_regs u = [channel_base u, channel_base u + 4, channel_base u + 8, channel_base u + 12, channel_mux u]"

definition dma_view :: "u32 \<times> u32 \<Rightarrow> regs \<Rightarrow> dma_channel" where
  "dma_view u r = \<lparr>CCR = r (channel_base u), CNDTR = r (channel_base u + 4), CPAR = r (channel_base u + 8),
     CMAR = r (channel_base u + 12), MUX = r (channel_mux u)\<rparr>"

lemmas dma_consts = dma_channels_def LL_DMA_GET_CHANNEL_INSTANCE_def LL_DMA_GET_INSTANCE_def
  LL_DMA_GET_CHANNEL_def DMA_Channel_def CHANNEL_OFFSET_TAB_def reg_addr reg_mask

lemma DMA_Channel_eq: "(d, c) \<in> set dma_channels \<Longrightarrow> DMA_Channel d c = Inr (channel_base (d, c))"
  by (auto simp: dma_consts)

lemma channel_regs_distinct: "distinct (concat (map channel_regs dma_channels))"
  by (simp add: dma_consts channel_regs_def)

lemma distinct_concat_apart:
  "distinct (concat (map f us)) \<Longrightarrow> u \<in> set us \<Longrightarrow> w \<in> set us \<Longrightarrow> u \<noteq> w \<Longrightarrow>
   a \<in> set (f u) \<Longrightarrow> a \<notin> set (f w)"
  by (induction us) auto

lemma distinct_concat_each: "distinct (concat (map f us)) \<Longrightarrow> u \<in> set us \<Longrightarrow> distinct (f u)"
  by (induction us) auto

lemma dma_view_other:
  assumes "u \<in> set dma_channels" "w \<in> set dma_channels" "w \<noteq> u"
    and "\<And>a. a \<notin> set (channel_regs u) \<Longrightarrow> r' a = r a"
  shows "dma_view w r' = dma_view w r"
proof -
  have "r' a = r a" if "a \<in> set (channel_regs w)" for a
    using that assms distinct_concat_apart [OF channel_regs_distinct assms(2,1,3)] by blast
  then show ?thesis by (simp add: dma_view_def channel_regs_def)
qed

lemmas dma_defs = LL_DMA_EnableChannel_def LL_DMA_DisableChannel_def LL_DMA_ConfigTransfer_def
  LL_DMA_SetDataTransferDirection_def LL_DMA_SetMode_def LL_DMA_SetPeriphIncMode_def LL_DMA_SetMemoryIncMode_def
  LL_DMA_SetPeriphSize_def LL_DMA_SetMemorySize_def LL_DMA_SetChannelPriorityLevel_def
  LL_DMA_EnableChannelPrivilege_def LL_DMA_DisableChannelPrivilege_def LL_DMA_SetDataLength_def
  LL_DMA_ConfigAddresses_def LL_DMA_SetMemoryAddress_def LL_DMA_SetPeriphAddress_def
  LL_DMA_SetM2MSrcAddress_def LL_DMA_SetM2MDstAddress_def LL_DMA_EnableIT_TC_def LL_DMA_EnableIT_HT_def
  LL_DMA_EnableIT_TE_def LL_DMA_DisableIT_TC_def LL_DMA_DisableIT_HT_def LL_DMA_DisableIT_TE_def

lemma dma_exec_ok:
  assumes "u \<in> set dma_channels"
  shows "\<exists>r'. dma_exec (u, x) r = Inr r' \<and> dma_view u r' = dma_effect x (dma_view u r) \<and>
    (\<forall>a. a \<notin> set (channel_regs u) \<longrightarrow> r' a = r a)"
proof -
  obtain d c where u: "u = (d, c)" by (cases u)
  define b where "b = channel_base (d, c)"
  define m where "m = channel_mux (d, c)"
  have "distinct (channel_regs u)" using assms distinct_concat_each [OF channel_regs_distinct] by blast
  then have m: "m \<noteq> b" "m \<noteq> b + 4" "m \<noteq> b + 8" "m \<noteq> b + 12" "b \<noteq> m" "b + 4 \<noteq> m" "b + 8 \<noteq> m" "b + 12 \<noteq> m"
    unfolding channel_regs_def u b_def m_def by (auto simp del: channel_base.simps channel_mux.simps)
  have b: "DMA_Channel d c = Inr b" using assms u by (simp add: DMA_Channel_eq b_def del: channel_base.simps)
  have off: "DMA_Channel_CCR = 0" "DMA_Channel_CNDTR = 4" "DMA_Channel_CPAR = 8" "DMA_Channel_CMAR = 12"
    by (simp_all add: DMA_Channel_CCR_def DMA_Channel_CNDTR_def DMA_Channel_CPAR_def DMA_Channel_CMAR_def)
  have mux: "LL_DMA_SetPeriphRequest d c v r = MODIFY_REG m DMAMUX_CxCR_DMAREQ_ID v r" for v
    by (simp add: LL_DMA_SetPeriphRequest_def m_def DMAMUX_Channel_CCR_def Let_def)
  show ?thesis
    unfolding u dma_view_def channel_regs_def b_def [symmetric] m_def [symmetric]
    by (cases x) (simp_all add: mux dma_defs b off m reg_access put_field_def transfer_mask_def)
qed

interpretation dma: unit_bank "set dma_channels" "\<lambda>_. True" "\<lambda>_. True" dma_exec dma_view dma_effect
proof
  fix u x and r :: regs
  assume u: "u \<in> set dma_channels"
  then obtain r' where "dma_exec (u, x) r = Inr r'" "dma_view u r' = dma_effect x (dma_view u r)"
      "\<And>a. a \<notin> set (channel_regs u) \<Longrightarrow> r' a = r a"
    using dma_exec_ok by blast
  then show "\<exists>r'. dma_exec (u, x) r = Inr r' \<and> True \<and> (\<forall>w \<in> set dma_channels.
      dma_view w r' = (if w = u then dma_effect x (dma_view w r) else dma_view w r))"
    using dma_view_other [OF u] by (metis (full_types))
qed

section \<open>The channels as a client sees them\<close>

text \<open>
  C9: The DMA accessors implement fourteen separate channels. Let a client call the writing accessors on the seven
  channels of both controllers in any order with any arguments. Every call returns, and afterwards each channel's
  registers and request selection are what its own calls, in their order, make of them; calls on other channels
  leave no trace.
\<close>

theorem dma_channels_refine:
  assumes "\<forall>y \<in> set xs. fst y \<in> set dma_channels"
  shows "\<exists>r'. run_ops dma_exec xs r = Inr r' \<and>
    (\<forall>u \<in> set dma_channels. dma_view u r' = fold dma_effect (own_calls u xs) (dma_view u r))"
  using assms dma.run_view [of xs r] by simp

theorem dma_channels_refine_witness:
  "\<exists>r'. run_ops dma_exec [((DMA1, LL_DMA_CHANNEL_1), SetDataLength 5), ((DMA2, LL_DMA_CHANNEL_1), EnableChannel),
       ((DMA1, LL_DMA_CHANNEL_1), EnableIT_TC)] (\<lambda>_. 0) = Inr r' \<and>
     dma_view (DMA1, LL_DMA_CHANNEL_1) r' = \<lparr>CCR = 2, CNDTR = 5, CPAR = 0, CMAR = 0, MUX = 0\<rparr>"
proof -
  let ?xs = "[((DMA1, LL_DMA_CHANNEL_1), SetDataLength 5), ((DMA2, LL_DMA_CHANNEL_1), EnableChannel),
    ((DMA1, LL_DMA_CHANNEL_1), EnableIT_TC)]"
  have "\<forall>y \<in> set ?xs. fst y \<in> set dma_channels" and u: "(DMA1, LL_DMA_CHANNEL_1) \<in> set dma_channels"
    by (simp_all add: dma_channels_def)
  then obtain r' where "run_ops dma_exec ?xs (\<lambda>_. 0) = Inr r'"
      "\<forall>u \<in> set dma_channels. dma_view u r' = fold dma_effect (own_calls u ?xs) (dma_view u (\<lambda>_. 0))"
    using dma_channels_refine [of ?xs "\<lambda>_. 0"] by blast
  moreover have "fold dma_effect (own_calls (DMA1, LL_DMA_CHANNEL_1) ?xs) (dma_view (DMA1, LL_DMA_CHANNEL_1) (\<lambda>_. 0)) =
      \<lparr>CCR = 2, CNDTR = 5, CPAR = 0, CMAR = 0, MUX = 0\<rparr>"
    by (simp add: dma_view_def put_field_def reg_addr reg_mask)
  ultimately show ?thesis using u by metis
qed

text \<open>The calls whose accessor reads the table of offsets; the others do not look at the channel number.\<close>

fun uses_table :: "dma_call \<Rightarrow> bool" where
  "uses_table (SetPeriphIncMode v) = False"
| "uses_table (SetMemoryIncMode v) = False"
| "uses_table (SetPeriphSize v) = False"
| "uses_table (SetMemorySize v) = False"
| "uses_table (SetChannelPriorityLevel v) = False"
| "uses_table (SetPeriphRequest v) = False"
| "uses_table _ = True"

text \<open>
  A channel number is not checked. With a number past the seventh channel each accessor that computes the address
  of the channel reads outside the table of offsets, and with one up to the seventh none does.
\<close>

theorem dma_channel_bound:
  assumes "uses_table x"
  shows "dma_exec ((d, c), x) r = Inl OutOfBounds \<longleftrightarrow> LL_DMA_CHANNEL_7 < c"
proof -
  have "length CHANNEL_OFFSET_TAB = 7" by (simp add: CHANNEL_OFFSET_TAB_def)
  moreover have "unat c < 7 \<longleftrightarrow> \<not> LL_DMA_CHANNEL_7 < c"
    by (auto simp: LL_DMA_CHANNEL_7_def word_less_nat_alt)
  ultimately show ?thesis
    using assms by (cases x) (auto simp: dma_defs DMA_Channel_def)
qed

theorem dma_channel_bound_witness:
  "dma_exec ((DMA1, 7), EnableChannel) (\<lambda>_. 0) = Inl OutOfBounds \<and> dma_exec ((DMA1, 6), EnableChannel) (\<lambda>_. 0) \<noteq> Inl OutOfBounds"
  using dma_channel_bound [of EnableChannel DMA1 7 "\<lambda>_. 0"]
    dma_channel_bound [of EnableChannel DMA1 6 "\<lambda>_. 0"]
  by (simp add: LL_DMA_CHANNEL_7_def)

text \<open>
  Controller, number and address of a channel convert into each other. For each of the fourteen channels the
  address the offset table gives is the one \<^verbatim>\<open>__LL_DMA_GET_CHANNEL_INSTANCE\<close> names, and from
  that address \<^verbatim>\<open>__LL_DMA_GET_INSTANCE\<close> and \<^verbatim>\<open>__LL_DMA_GET_CHANNEL\<close> recover the
  controller and the number.
\<close>

theorem dma_channel_names:
  "\<forall>(d, c) \<in> set dma_channels.
     DMA_Channel d c = Inr (LL_DMA_GET_CHANNEL_INSTANCE d c) \<and>
     LL_DMA_GET_INSTANCE (LL_DMA_GET_CHANNEL_INSTANCE d c) = d \<and>
     LL_DMA_GET_CHANNEL (LL_DMA_GET_CHANNEL_INSTANCE d c) = c"
  by (simp add: dma_consts)

theorem dma_channel_names_witness:
  "(DMA2, LL_DMA_CHANNEL_3) \<in> set dma_channels \<and>
   LL_DMA_GET_CHANNEL (LL_DMA_GET_CHANNEL_INSTANCE DMA2 LL_DMA_CHANNEL_3) = LL_DMA_CHANNEL_3"
  using dma_channel_names by (simp add: dma_channels_def)

text \<open>What the getters read of a channel.\<close>

lemma dma_getters:
  assumes "u \<in> set dma_channels"
  shows "LL_DMA_GetDataTransferDirection (fst u) (snd u) r = Inr (CCR (dma_view u r) AND (DMA_CCR_DIR OR DMA_CCR_MEM2MEM))"
    and "LL_DMA_GetDataLength (fst u) (snd u) r = Inr (CNDTR (dma_view u r) AND DMA_CNDTR_NDT)"
    and "LL_DMA_IsEnabledChannel (fst u) (snd u) r = Inr (if CCR (dma_view u r) AND DMA_CCR_EN = DMA_CCR_EN then 1 else 0)"
    and "LL_DMA_GetMemoryAddress (fst u) (snd u) r = Inr (CMAR (dma_view u r))"
    and "LL_DMA_GetPeriphAddress (fst u) (snd u) r = Inr (CPAR (dma_view u r))"
  using assms DMA_Channel_eq [of "fst u" "snd u"]
  by (simp_all add: LL_DMA_GetDataTransferDirection_def LL_DMA_GetDataLength_def LL_DMA_IsEnabledChannel_def
      LL_DMA_GetMemoryAddress_def LL_DMA_GetPeriphAddress_def DMA_Channel_CCR_def DMA_Channel_CNDTR_def
      DMA_Channel_CPAR_def DMA_Channel_CMAR_def dma_view_def reg_access del: channel_base.simps)

lemma own_calls_own [simp]: "own_calls i (map (Pair i) xs) = xs"
  by (induction xs) simp_all

lemma put_field_direction:
  assumes "dir AND (DMA_CCR_DIR OR DMA_CCR_MEM2MEM) = dir"
  shows "(put_field transfer_mask dir x OR DMA_CCR_EN) AND (DMA_CCR_DIR OR DMA_CCR_MEM2MEM) = dir"
proof -
  have "bits dir \<subseteq> bits (DMA_CCR_DIR OR DMA_CCR_MEM2MEM)" using assms by (metis and.commute and_eq_iff_bits)
  moreover have "bits (DMA_CCR_DIR OR DMA_CCR_MEM2MEM) \<subseteq> bits transfer_mask"
    by (auto simp: transfer_mask_def)
  moreover have "bits DMA_CCR_EN \<inter> bits (DMA_CCR_DIR OR DMA_CCR_MEM2MEM) = {}"
    unfolding and_eq_0_iff_bits [symmetric] by (simp add: reg_mask)
  ultimately have "bits ((put_field transfer_mask dir x OR DMA_CCR_EN) AND (DMA_CCR_DIR OR DMA_CCR_MEM2MEM)) = bits dir"
    by (auto simp: put_field_def bits_not)
  then show ?thesis by (simp only: bits_inject)
qed

text \<open>
  C22: A transfer set up the way a driver does it. On any of the fourteen channels, configure the transfer for a
  direction, set the addresses for that direction, the number of items (18 bits) and enable the channel: every step
  returns, and then the getters give the direction, the number of items, the channel enabled,
  and source and destination on the side the direction asks for.
\<close>

theorem dma_transfer_set_up:
  assumes "(d, c) \<in> set dma_channels" and "dir AND (DMA_CCR_DIR OR DMA_CCR_MEM2MEM) = dir" and "n AND DMA_CNDTR_NDT = n"
  shows "\<exists>r'. run_ops dma_exec (map (Pair (d, c))
      [ConfigTransfer dir, ConfigAddresses src dst dir, SetDataLength n, EnableChannel]) r = Inr r' \<and>
    LL_DMA_GetDataTransferDirection d c r' = Inr dir \<and>
    LL_DMA_GetDataLength d c r' = Inr n \<and>
    LL_DMA_IsEnabledChannel d c r' = Inr 1 \<and>
    (LL_DMA_GetMemoryAddress d c r', LL_DMA_GetPeriphAddress d c r') =
      (if dir = LL_DMA_DIRECTION_MEMORY_TO_PERIPH then (Inr src, Inr dst) else (Inr dst, Inr src))"
proof -
  let ?ys = "[ConfigTransfer dir, ConfigAddresses src dst dir, SetDataLength n, EnableChannel]"
  have "\<forall>y \<in> set (map (Pair (d, c)) ?ys). fst y \<in> set dma_channels \<and> True" using assms(1) by auto
  then obtain r' where r': "run_ops dma_exec (map (Pair (d, c)) ?ys) r = Inr r'"
      "\<forall>u \<in> set dma_channels. dma_view u r' = fold dma_effect (own_calls u (map (Pair (d, c)) ?ys)) (dma_view u r)"
    using dma.run_view by blast
  then have "dma_view (d, c) r' = fold dma_effect ?ys (dma_view (d, c) r)"
    using assms(1) own_calls_own by metis
  moreover have "(x OR DMA_CCR_EN) AND DMA_CCR_EN = DMA_CCR_EN" for x
    by (simp add: bit.conj_disj_distrib2)
  ultimately show ?thesis
    using r'(1) dma_getters [OF assms(1)] assms(2,3)
    by (auto simp: put_field_direction modify_read put_field_def [of DMA_CNDTR_NDT])
qed

theorem dma_transfer_set_up_witness:
  "\<exists>r'. run_ops dma_exec (map (Pair (DMA1, LL_DMA_CHANNEL_5))
      [ConfigTransfer LL_DMA_DIRECTION_MEMORY_TO_PERIPH, ConfigAddresses 0x20000000 0x40013828 LL_DMA_DIRECTION_MEMORY_TO_PERIPH,
       SetDataLength 12, EnableChannel]) (\<lambda>_. 0) = Inr r' \<and>
     LL_DMA_GetMemoryAddress DMA1 LL_DMA_CHANNEL_5 r' = Inr 0x20000000"
proof -
  have "(DMA1, LL_DMA_CHANNEL_5) \<in> set dma_channels"
    and "LL_DMA_DIRECTION_MEMORY_TO_PERIPH AND (DMA_CCR_DIR OR DMA_CCR_MEM2MEM) = LL_DMA_DIRECTION_MEMORY_TO_PERIPH"
    and "12 AND DMA_CNDTR_NDT = 12"
    by (simp_all add: dma_channels_def reg_mask)
  from dma_transfer_set_up [OF this, of "0x20000000" "0x40013828" "\<lambda>_. 0"] show ?thesis by auto
qed

section \<open>What the accessors do not keep\<close>

text \<open>
  The setters of increments, sizes and priority change nothing and every one of the getters answers 0, also after
  \<^verbatim>\<open>LL_DMA_ConfigTransfer\<close> or \<^verbatim>\<open>LL_DMA_SetMode\<close> have set the bits in the register.
\<close>

theorem dma_modes_not_reported:
  "LL_DMA_GetMode d c r = LL_DMA_MODE_NORMAL"
  "LL_DMA_GetPeriphIncMode d c (LL_DMA_SetPeriphIncMode d c LL_DMA_PERIPH_INCREMENT r) = LL_DMA_PERIPH_NOINCREMENT"
  "LL_DMA_GetMemoryIncMode d c (LL_DMA_SetMemoryIncMode d c LL_DMA_MEMORY_INCREMENT r) = LL_DMA_MEMORY_NOINCREMENT"
  "LL_DMA_GetPeriphSize d c (LL_DMA_SetPeriphSize d c LL_DMA_PDATAALIGN_WORD r) = LL_DMA_PDATAALIGN_BYTE"
  "LL_DMA_GetMemorySize d c (LL_DMA_SetMemorySize d c LL_DMA_MDATAALIGN_WORD r) = LL_DMA_MDATAALIGN_BYTE"
  "LL_DMA_GetChannelPriorityLevel d c (LL_DMA_SetChannelPriorityLevel d c LL_DMA_PRIORITY_HIGH r) = LL_DMA_PRIORITY_LOW"
  by (simp_all add: ll_def reg_mask)

text \<open>
  In the multiplexer, where the channel number is not looked up, an eighth channel of the first controller is the
  first channel of the second; and clearing a flag of a controller leaves the flag raised.
\<close>

theorem dma_request_past_end:
  "LL_DMA_SetPeriphRequest DMA1 7 v r = LL_DMA_SetPeriphRequest DMA2 LL_DMA_CHANNEL_1 v r"
  by (simp add: ll_def reg_addr reg_mask)

theorem dma_flag_stays:
  "LL_DMA_IsActiveFlag_TC1 d (LL_DMA_ClearFlag_TC1 d r) = LL_DMA_IsActiveFlag_TC1 d r"
  "LL_DMA_IsActiveFlag_TE7 d (LL_DMA_ClearFlag_TE7 d r) = LL_DMA_IsActiveFlag_TE7 d r"
  by (simp_all add: ll_def reg_access DMA_ISR_def DMA_IFCR_def)

end
