(* ===== verification/Core_Cm4.thy ===== *)
theory Core_Cm4
  imports Registers
begin

text \<open>
  The core peripherals of the processor in the simulator: \<^verbatim>\<open>core_cm4.h\<close> with the memory that backs it
  (\<^verbatim>\<open>hal_stubs.c\<close>, \<^verbatim>\<open>hal_stubs/core_cm4.c\<close>). The interrupt controller is a plain structure in memory,
  \<open>sim_nvic\<close>. The other peripherals are at offsets from the array \<open>sim_stm32_core_hardware\<close>; the offsets are
  added to the address of the whole array, so each unit of them is the size of the array.
\<close>

section \<open>Interrupt numbers (stm32wl55xx.h)\<close>

text \<open>An enumerator is its number as a 32-bit word; the functions look at its sign.\<close>

definition NonMaskableInt_IRQn :: u32 where "NonMaskableInt_IRQn = - 14"

definition HardFault_IRQn :: u32 where "HardFault_IRQn = - 13"

definition MemoryManagement_IRQn :: u32 where "MemoryManagement_IRQn = - 12"

definition BusFault_IRQn :: u32 where "BusFault_IRQn = - 11"

definition UsageFault_IRQn :: u32 where "UsageFault_IRQn = - 10"

definition SVCall_IRQn :: u32 where "SVCall_IRQn = - 5"

definition DebugMonitor_IRQn :: u32 where "DebugMonitor_IRQn = - 4"

definition PendSV_IRQn :: u32 where "PendSV_IRQn = - 2"

definition SysTick_IRQn :: u32 where "SysTick_IRQn = - 1"

definition WWDG_IRQn :: u32 where "WWDG_IRQn = 0"

definition PVD_PVM_IRQn :: u32 where "PVD_PVM_IRQn = 1"

definition TAMP_STAMP_LSECSS_SSRU_IRQn :: u32 where "TAMP_STAMP_LSECSS_SSRU_IRQn = 2"

definition RTC_WKUP_IRQn :: u32 where "RTC_WKUP_IRQn = 3"

definition FLASH_IRQn :: u32 where "FLASH_IRQn = 4"

definition RCC_IRQn :: u32 where "RCC_IRQn = 5"

definition EXTI0_IRQn :: u32 where "EXTI0_IRQn = 6"

definition EXTI1_IRQn :: u32 where "EXTI1_IRQn = 7"

definition EXTI2_IRQn :: u32 where "EXTI2_IRQn = 8"

definition EXTI3_IRQn :: u32 where "EXTI3_IRQn = 9"

definition EXTI4_IRQn :: u32 where "EXTI4_IRQn = 10"

definition DMA1_Channel1_IRQn :: u32 where "DMA1_Channel1_IRQn = 11"

definition DMA1_Channel2_IRQn :: u32 where "DMA1_Channel2_IRQn = 12"

definition DMA1_Channel3_IRQn :: u32 where "DMA1_Channel3_IRQn = 13"

definition DMA1_Channel4_IRQn :: u32 where "DMA1_Channel4_IRQn = 14"

definition DMA1_Channel5_IRQn :: u32 where "DMA1_Channel5_IRQn = 15"

definition DMA1_Channel6_IRQn :: u32 where "DMA1_Channel6_IRQn = 16"

definition DMA1_Channel7_IRQn :: u32 where "DMA1_Channel7_IRQn = 17"

definition ADC_IRQn :: u32 where "ADC_IRQn = 18"

definition DAC_IRQn :: u32 where "DAC_IRQn = 19"

definition C2SEV_PWR_C2H_IRQn :: u32 where "C2SEV_PWR_C2H_IRQn = 20"

definition COMP_IRQn :: u32 where "COMP_IRQn = 21"

definition EXTI9_5_IRQn :: u32 where "EXTI9_5_IRQn = 22"

definition TIM1_BRK_IRQn :: u32 where "TIM1_BRK_IRQn = 23"

definition TIM1_UP_IRQn :: u32 where "TIM1_UP_IRQn = 24"

definition TIM1_TRG_COM_IRQn :: u32 where "TIM1_TRG_COM_IRQn = 25"

definition TIM1_CC_IRQn :: u32 where "TIM1_CC_IRQn = 26"

definition TIM2_IRQn :: u32 where "TIM2_IRQn = 27"

definition TIM16_IRQn :: u32 where "TIM16_IRQn = 28"

definition TIM17_IRQn :: u32 where "TIM17_IRQn = 29"

definition I2C1_EV_IRQn :: u32 where "I2C1_EV_IRQn = 30"

definition I2C1_ER_IRQn :: u32 where "I2C1_ER_IRQn = 31"

definition I2C2_EV_IRQn :: u32 where "I2C2_EV_IRQn = 32"

definition I2C2_ER_IRQn :: u32 where "I2C2_ER_IRQn = 33"

definition SPI1_IRQn :: u32 where "SPI1_IRQn = 34"

definition SPI2_IRQn :: u32 where "SPI2_IRQn = 35"

definition USART1_IRQn :: u32 where "USART1_IRQn = 36"

definition USART2_IRQn :: u32 where "USART2_IRQn = 37"

definition LPUART1_IRQn :: u32 where "LPUART1_IRQn = 38"

definition LPTIM1_IRQn :: u32 where "LPTIM1_IRQn = 39"

definition LPTIM2_IRQn :: u32 where "LPTIM2_IRQn = 40"

definition EXTI15_10_IRQn :: u32 where "EXTI15_10_IRQn = 41"

definition RTC_Alarm_IRQn :: u32 where "RTC_Alarm_IRQn = 42"

definition LPTIM3_IRQn :: u32 where "LPTIM3_IRQn = 43"

definition SUBGHZSPI_IRQn :: u32 where "SUBGHZSPI_IRQn = 44"

definition IPCC_C1_RX_IRQn :: u32 where "IPCC_C1_RX_IRQn = 45"

definition IPCC_C1_TX_IRQn :: u32 where "IPCC_C1_TX_IRQn = 46"

definition HSEM_IRQn :: u32 where "HSEM_IRQn = 47"

definition I2C3_EV_IRQn :: u32 where "I2C3_EV_IRQn = 48"

definition I2C3_ER_IRQn :: u32 where "I2C3_ER_IRQn = 49"

definition SUBGHZ_Radio_IRQn :: u32 where "SUBGHZ_Radio_IRQn = 50"

definition AES_IRQn :: u32 where "AES_IRQn = 51"

definition RNG_IRQn :: u32 where "RNG_IRQn = 52"

definition PKA_IRQn :: u32 where "PKA_IRQn = 53"

definition DMA2_Channel1_IRQn :: u32 where "DMA2_Channel1_IRQn = 54"

definition DMA2_Channel2_IRQn :: u32 where "DMA2_Channel2_IRQn = 55"

definition DMA2_Channel3_IRQn :: u32 where "DMA2_Channel3_IRQn = 56"

definition DMA2_Channel4_IRQn :: u32 where "DMA2_Channel4_IRQn = 57"

definition DMA2_Channel5_IRQn :: u32 where "DMA2_Channel5_IRQn = 58"

definition DMA2_Channel6_IRQn :: u32 where "DMA2_Channel6_IRQn = 59"

definition DMA2_Channel7_IRQn :: u32 where "DMA2_Channel7_IRQn = 60"

definition DMAMUX1_OVR_IRQn :: u32 where "DMAMUX1_OVR_IRQn = 61"

lemmas irq_numbers = NonMaskableInt_IRQn_def HardFault_IRQn_def MemoryManagement_IRQn_def BusFault_IRQn_def
  UsageFault_IRQn_def SVCall_IRQn_def DebugMonitor_IRQn_def PendSV_IRQn_def SysTick_IRQn_def
  WWDG_IRQn_def PVD_PVM_IRQn_def TAMP_STAMP_LSECSS_SSRU_IRQn_def RTC_WKUP_IRQn_def FLASH_IRQn_def
  RCC_IRQn_def EXTI0_IRQn_def EXTI1_IRQn_def EXTI2_IRQn_def EXTI3_IRQn_def EXTI4_IRQn_def
  DMA1_Channel1_IRQn_def DMA1_Channel2_IRQn_def DMA1_Channel3_IRQn_def DMA1_Channel4_IRQn_def
  DMA1_Channel5_IRQn_def DMA1_Channel6_IRQn_def DMA1_Channel7_IRQn_def ADC_IRQn_def DAC_IRQn_def
  C2SEV_PWR_C2H_IRQn_def COMP_IRQn_def EXTI9_5_IRQn_def TIM1_BRK_IRQn_def TIM1_UP_IRQn_def
  TIM1_TRG_COM_IRQn_def TIM1_CC_IRQn_def TIM2_IRQn_def TIM16_IRQn_def TIM17_IRQn_def I2C1_EV_IRQn_def
  I2C1_ER_IRQn_def I2C2_EV_IRQn_def I2C2_ER_IRQn_def SPI1_IRQn_def SPI2_IRQn_def USART1_IRQn_def
  USART2_IRQn_def LPUART1_IRQn_def LPTIM1_IRQn_def LPTIM2_IRQn_def EXTI15_10_IRQn_def
  RTC_Alarm_IRQn_def LPTIM3_IRQn_def SUBGHZSPI_IRQn_def IPCC_C1_RX_IRQn_def IPCC_C1_TX_IRQn_def
  HSEM_IRQn_def I2C3_EV_IRQn_def I2C3_ER_IRQn_def SUBGHZ_Radio_IRQn_def AES_IRQn_def RNG_IRQn_def
  PKA_IRQn_def DMA2_Channel1_IRQn_def DMA2_Channel2_IRQn_def DMA2_Channel3_IRQn_def
  DMA2_Channel4_IRQn_def DMA2_Channel5_IRQn_def DMA2_Channel6_IRQn_def DMA2_Channel7_IRQn_def
  DMAMUX1_OVR_IRQn_def

definition device_irqs :: "u32 list" where
  "device_irqs =
     [WWDG_IRQn, PVD_PVM_IRQn, TAMP_STAMP_LSECSS_SSRU_IRQn, RTC_WKUP_IRQn, FLASH_IRQn, RCC_IRQn,
      EXTI0_IRQn, EXTI1_IRQn, EXTI2_IRQn, EXTI3_IRQn, EXTI4_IRQn, DMA1_Channel1_IRQn, DMA1_Channel2_IRQn,
      DMA1_Channel3_IRQn, DMA1_Channel4_IRQn, DMA1_Channel5_IRQn, DMA1_Channel6_IRQn, DMA1_Channel7_IRQn,
      ADC_IRQn, DAC_IRQn, C2SEV_PWR_C2H_IRQn, COMP_IRQn, EXTI9_5_IRQn, TIM1_BRK_IRQn, TIM1_UP_IRQn,
      TIM1_TRG_COM_IRQn, TIM1_CC_IRQn, TIM2_IRQn, TIM16_IRQn, TIM17_IRQn, I2C1_EV_IRQn, I2C1_ER_IRQn,
      I2C2_EV_IRQn, I2C2_ER_IRQn, SPI1_IRQn, SPI2_IRQn, USART1_IRQn, USART2_IRQn, LPUART1_IRQn,
      LPTIM1_IRQn, LPTIM2_IRQn, EXTI15_10_IRQn, RTC_Alarm_IRQn, LPTIM3_IRQn, SUBGHZSPI_IRQn,
      IPCC_C1_RX_IRQn, IPCC_C1_TX_IRQn, HSEM_IRQn, I2C3_EV_IRQn, I2C3_ER_IRQn, SUBGHZ_Radio_IRQn,
      AES_IRQn, RNG_IRQn, PKA_IRQn, DMA2_Channel1_IRQn, DMA2_Channel2_IRQn, DMA2_Channel3_IRQn,
      DMA2_Channel4_IRQn, DMA2_Channel5_IRQn, DMA2_Channel6_IRQn, DMA2_Channel7_IRQn, DMAMUX1_OVR_IRQn]"

definition system_irqs :: "u32 list" where
  "system_irqs =
     [NonMaskableInt_IRQn, HardFault_IRQn, MemoryManagement_IRQn, BusFault_IRQn, UsageFault_IRQn,
      SVCall_IRQn, DebugMonitor_IRQn, PendSV_IRQn, SysTick_IRQn]"

definition NVIC_PRIO_BITS :: nat where
  "NVIC_PRIO_BITS = 4"

section \<open>State\<close>

record NVIC_Type =
  ISER :: "u32 list"
  ICER :: "u32 list"
  ISPR :: "u32 list"
  ICPR :: "u32 list"
  IABR :: "u32 list"
  IP :: "u8 list"
  STIR :: u32

text \<open>\<open>hw\<close> has the words of \<^verbatim>\<open>sim_stm32_core_hardware\<close>; \<open>ITM_RxBuffer\<close> is the debugger's input.\<close>

record core =
  nvic :: NVIC_Type
  hw :: "nat \<Rightarrow> u32"
  ITM_RxBuffer :: u32

definition sim_nvic :: NVIC_Type where
  "sim_nvic = \<lparr>ISER = replicate 8 0, ICER = replicate 8 0, ISPR = replicate 8 0, ICPR = replicate 8 0,
     IABR = replicate 8 0, IP = replicate 240 0, STIR = 0\<rparr>"

definition fetch :: "nat \<Rightarrow> 'a list \<Rightarrow> 'a result" where
  "fetch i xs = (if i < length xs then Inr (xs ! i) else Inl OutOfBounds)"

definition store :: "nat \<Rightarrow> 'a \<Rightarrow> 'a list \<Rightarrow> 'a list result" where
  "store i v xs = (if i < length xs then Inr (xs[i := v]) else Inl OutOfBounds)"

section \<open>Addresses\<close>

text \<open>
  Addresses are byte offsets from the start of the array. \<open>hw_step k\<close> is the distance
  \<^verbatim>\<open>&sim_stm32_core_hardware + k\<close> moves: \<open>k\<close> times the size of the array.
\<close>

definition hw_size :: int where
  "hw_size = 4 * 0x0F0000"

definition hw_step :: "int \<Rightarrow> int" where
  "hw_step k = k * hw_size"

definition SCS_BASE :: int where "SCS_BASE = hw_step 0x00E000"

definition ITM_BASE :: int where "ITM_BASE = hw_step 0x000000"

definition DWT_BASE :: int where "DWT_BASE = hw_step 0x001000"

definition TPI_BASE :: int where "TPI_BASE = hw_step 0x040000"

definition CoreDebug_BASE :: int where "CoreDebug_BASE = hw_step 0x00EDF0"

definition SysTick_BASE :: int where "SysTick_BASE = SCS_BASE + hw_step 0x0010"

definition NVIC_BASE :: int where "NVIC_BASE = SCS_BASE + hw_step 0x0100"

definition SCB_BASE :: int where "SCB_BASE = SCS_BASE + hw_step 0x0D00"

definition MPU_BASE :: int where "MPU_BASE = SCS_BASE + hw_step 0x0D90"

definition FPU_BASE :: int where "FPU_BASE = SCS_BASE + hw_step 0x0F30"

lemmas core_bases = SCS_BASE_def ITM_BASE_def DWT_BASE_def TPI_BASE_def CoreDebug_BASE_def SysTick_BASE_def
  NVIC_BASE_def SCB_BASE_def MPU_BASE_def FPU_BASE_def hw_step_def hw_size_def

text \<open>Reads and writes of words and bytes (little-endian); outside the array they are faults.\<close>

definition hw_read :: "int \<Rightarrow> core \<Rightarrow> u32 result" where
  "hw_read a c = (if 0 \<le> a \<and> a + 4 \<le> hw_size then Inr (hw c (nat a div 4)) else Inl OutOfBounds)"

definition hw_write :: "int \<Rightarrow> u32 \<Rightarrow> core \<Rightarrow> core result" where
  "hw_write a v c =
     (if 0 \<le> a \<and> a + 4 \<le> hw_size then Inr (c\<lparr>hw := (hw c)(nat a div 4 := v)\<rparr>) else Inl OutOfBounds)"

definition hw_read8 :: "int \<Rightarrow> core \<Rightarrow> u8 result" where
  "hw_read8 a c =
     (if 0 \<le> a \<and> a < hw_size then Inr (byte_at (8 * (nat a mod 4)) (hw c (nat a div 4))) else Inl OutOfBounds)"

definition hw_write8 :: "int \<Rightarrow> u8 \<Rightarrow> core \<Rightarrow> core result" where
  "hw_write8 a v c =
     (if 0 \<le> a \<and> a < hw_size
      then let n = 8 * (nat a mod 4); w = hw c (nat a div 4)
           in Inr (c\<lparr>hw := (hw c)(nat a div 4 := (w AND NOT (push_bit n 0xFF)) OR push_bit n (ucast v))\<rparr>)
      else Inl OutOfBounds)"

text \<open>Offsets of the structures' fields.\<close>

definition SCB_VTOR :: int where "SCB_VTOR = SCB_BASE + 0x008"

definition SCB_AIRCR :: int where "SCB_AIRCR = SCB_BASE + 0x00C"

definition SCB_SHP :: int where "SCB_SHP = SCB_BASE + 0x018"

definition SysTick_CTRL :: int where "SysTick_CTRL = SysTick_BASE + 0x000"

definition SysTick_LOAD :: int where "SysTick_LOAD = SysTick_BASE + 0x004"

definition SysTick_VAL :: int where "SysTick_VAL = SysTick_BASE + 0x008"

definition FPU_MVFR0 :: int where "FPU_MVFR0 = FPU_BASE + 0x010"

definition ITM_PORT0 :: int where "ITM_PORT0 = ITM_BASE + 0x000"

definition ITM_TER :: int where "ITM_TER = ITM_BASE + 0xE00"

definition ITM_TCR :: int where "ITM_TCR = ITM_BASE + 0xE80"

lemmas core_regs = SCB_VTOR_def SCB_AIRCR_def SCB_SHP_def SysTick_CTRL_def SysTick_LOAD_def SysTick_VAL_def
  FPU_MVFR0_def ITM_PORT0_def ITM_TER_def ITM_TCR_def

definition SCB_AIRCR_VECTKEY_Pos :: nat where "SCB_AIRCR_VECTKEY_Pos = 16"

definition SCB_AIRCR_VECTKEY_Msk :: u32 where "SCB_AIRCR_VECTKEY_Msk = push_bit SCB_AIRCR_VECTKEY_Pos 0xFFFF"

definition SCB_AIRCR_PRIGROUP_Pos :: nat where "SCB_AIRCR_PRIGROUP_Pos = 8"

definition SCB_AIRCR_PRIGROUP_Msk :: u32 where "SCB_AIRCR_PRIGROUP_Msk = push_bit SCB_AIRCR_PRIGROUP_Pos 7"

definition SCB_AIRCR_SYSRESETREQ_Msk :: u32 where "SCB_AIRCR_SYSRESETREQ_Msk = push_bit 2 1"

definition SysTick_CTRL_CLKSOURCE_Msk :: u32 where "SysTick_CTRL_CLKSOURCE_Msk = push_bit 2 1"

definition SysTick_CTRL_TICKINT_Msk :: u32 where "SysTick_CTRL_TICKINT_Msk = push_bit 1 1"

definition SysTick_CTRL_ENABLE_Msk :: u32 where "SysTick_CTRL_ENABLE_Msk = 1"

definition SysTick_LOAD_RELOAD_Msk :: u32 where "SysTick_LOAD_RELOAD_Msk = 0xFFFFFF"

definition FPU_MVFR0_Double_precision_Msk :: u32 where "FPU_MVFR0_Double_precision_Msk = push_bit 8 0xF"

definition FPU_MVFR0_Single_precision_Msk :: u32 where "FPU_MVFR0_Single_precision_Msk = push_bit 4 0xF"

definition ITM_TCR_ITMENA_Msk :: u32 where "ITM_TCR_ITMENA_Msk = 1"

definition ITM_RXBUFFER_EMPTY :: u32 where "ITM_RXBUFFER_EMPTY = 0x5AA55AA5"

section \<open>Interrupt controller\<close>

definition irq_word :: "u32 \<Rightarrow> nat" where
  "irq_word IRQn = unat (drop_bit 5 IRQn)"

definition irq_bit :: "u32 \<Rightarrow> u32" where
  "irq_bit IRQn = push_bit (unat (IRQn AND 0x1F)) 1"

definition NVIC_SetPriorityGrouping :: "u32 \<Rightarrow> core \<Rightarrow> core result" where
  "NVIC_SetPriorityGrouping PriorityGroup c =
     (let PriorityGroupTmp = PriorityGroup AND 0x07
      in bindr (hw_read SCB_AIRCR c) (\<lambda>reg_value.
         let reg_value = reg_value AND NOT (SCB_AIRCR_VECTKEY_Msk OR SCB_AIRCR_PRIGROUP_Msk);
             reg_value = reg_value OR push_bit SCB_AIRCR_VECTKEY_Pos 0x5FA OR
               push_bit SCB_AIRCR_PRIGROUP_Pos PriorityGroupTmp
         in hw_write SCB_AIRCR reg_value c))"

definition NVIC_GetPriorityGrouping :: "core \<Rightarrow> u32 result" where
  "NVIC_GetPriorityGrouping c =
     bindr (hw_read SCB_AIRCR c) (\<lambda>v. Inr (drop_bit SCB_AIRCR_PRIGROUP_Pos (v AND SCB_AIRCR_PRIGROUP_Msk)))"

definition NVIC_EnableIRQ :: "u32 \<Rightarrow> core \<Rightarrow> core result" where
  "NVIC_EnableIRQ IRQn c =
     (if 0 \<le> sint IRQn
      then bindr (store (irq_word IRQn) (irq_bit IRQn) (ISER (nvic c))) (\<lambda>xs. Inr (c\<lparr>nvic := (nvic c)\<lparr>ISER := xs\<rparr>\<rparr>))
      else Inr c)"

definition NVIC_GetEnableIRQ :: "u32 \<Rightarrow> core \<Rightarrow> u32 result" where
  "NVIC_GetEnableIRQ IRQn c =
     (if 0 \<le> sint IRQn
      then bindr (fetch (irq_word IRQn) (ISER (nvic c))) (\<lambda>w. Inr (if w AND irq_bit IRQn \<noteq> 0 then 1 else 0))
      else Inr 0)"

definition NVIC_DisableIRQ :: "u32 \<Rightarrow> core \<Rightarrow> core result" where
  "NVIC_DisableIRQ IRQn c =
     (if 0 \<le> sint IRQn
      then bindr (store (irq_word IRQn) (irq_bit IRQn) (ICER (nvic c))) (\<lambda>xs. Inr (c\<lparr>nvic := (nvic c)\<lparr>ICER := xs\<rparr>\<rparr>))
      else Inr c)"

definition NVIC_GetPendingIRQ :: "u32 \<Rightarrow> core \<Rightarrow> u32 result" where
  "NVIC_GetPendingIRQ IRQn c =
     (if 0 \<le> sint IRQn
      then bindr (fetch (irq_word IRQn) (ISPR (nvic c))) (\<lambda>w. Inr (if w AND irq_bit IRQn \<noteq> 0 then 1 else 0))
      else Inr 0)"

definition NVIC_SetPendingIRQ :: "u32 \<Rightarrow> core \<Rightarrow> core result" where
  "NVIC_SetPendingIRQ IRQn c =
     (if 0 \<le> sint IRQn
      then bindr (store (irq_word IRQn) (irq_bit IRQn) (ISPR (nvic c))) (\<lambda>xs. Inr (c\<lparr>nvic := (nvic c)\<lparr>ISPR := xs\<rparr>\<rparr>))
      else Inr c)"

definition NVIC_ClearPendingIRQ :: "u32 \<Rightarrow> core \<Rightarrow> core result" where
  "NVIC_ClearPendingIRQ IRQn c =
     (if 0 \<le> sint IRQn
      then bindr (store (irq_word IRQn) (irq_bit IRQn) (ICPR (nvic c))) (\<lambda>xs. Inr (c\<lparr>nvic := (nvic c)\<lparr>ICPR := xs\<rparr>\<rparr>))
      else Inr c)"

definition NVIC_GetActive :: "u32 \<Rightarrow> core \<Rightarrow> u32 result" where
  "NVIC_GetActive IRQn c =
     (if 0 \<le> sint IRQn
      then bindr (fetch (irq_word IRQn) (IABR (nvic c))) (\<lambda>w. Inr (if w AND irq_bit IRQn \<noteq> 0 then 1 else 0))
      else Inr 0)"

text \<open>
  The index into \<^verbatim>\<open>SHP\<close> is computed in \<^verbatim>\<open>unsigned long\<close> and wraps below 4; as an offset from the
  array's start that is a step back.
\<close>

definition shp_addr :: "u32 \<Rightarrow> int" where
  "shp_addr IRQn = SCB_SHP + (uint (IRQn AND 0xF) - 4)"

definition NVIC_SetPriority :: "u32 \<Rightarrow> u32 \<Rightarrow> core \<Rightarrow> core result" where
  "NVIC_SetPriority IRQn priority c =
     (let v = ucast (push_bit (8 - NVIC_PRIO_BITS) priority AND 0xFF)
      in if 0 \<le> sint IRQn
         then bindr (store (unat IRQn) v (IP (nvic c))) (\<lambda>xs. Inr (c\<lparr>nvic := (nvic c)\<lparr>IP := xs\<rparr>\<rparr>))
         else hw_write8 (shp_addr IRQn) v c)"

definition NVIC_GetPriority :: "u32 \<Rightarrow> core \<Rightarrow> u32 result" where
  "NVIC_GetPriority IRQn c =
     (if 0 \<le> sint IRQn
      then bindr (fetch (unat IRQn) (IP (nvic c))) (\<lambda>p. Inr (drop_bit (8 - NVIC_PRIO_BITS) (ucast p)))
      else bindr (hw_read8 (shp_addr IRQn) c) (\<lambda>p. Inr (drop_bit (8 - NVIC_PRIO_BITS) (ucast p))))"

definition PreemptPriorityBits :: "u32 \<Rightarrow> u32" where
  "PreemptPriorityBits PriorityGroupTmp =
     (if 7 - PriorityGroupTmp > of_nat NVIC_PRIO_BITS then of_nat NVIC_PRIO_BITS else 7 - PriorityGroupTmp)"

definition SubPriorityBits :: "u32 \<Rightarrow> u32" where
  "SubPriorityBits PriorityGroupTmp =
     (if PriorityGroupTmp + of_nat NVIC_PRIO_BITS < 7 then 0 else (PriorityGroupTmp - 7) + of_nat NVIC_PRIO_BITS)"

definition NVIC_EncodePriority :: "u32 \<Rightarrow> u32 \<Rightarrow> u32 \<Rightarrow> u32" where
  "NVIC_EncodePriority PriorityGroup PreemptPriority SubPriority =
     (let PriorityGroupTmp = PriorityGroup AND 0x07;
          p = unat (PreemptPriorityBits PriorityGroupTmp);
          s = unat (SubPriorityBits PriorityGroupTmp)
      in push_bit s (PreemptPriority AND (push_bit p 1 - 1)) OR (SubPriority AND (push_bit s 1 - 1)))"

definition NVIC_DecodePriority :: "u32 \<Rightarrow> u32 \<Rightarrow> u32 \<times> u32" where
  "NVIC_DecodePriority Priority PriorityGroup =
     (let PriorityGroupTmp = PriorityGroup AND 0x07;
          p = unat (PreemptPriorityBits PriorityGroupTmp);
          s = unat (SubPriorityBits PriorityGroupTmp)
      in (drop_bit s Priority AND (push_bit p 1 - 1), Priority AND (push_bit s 1 - 1)))"

text \<open>
  The vector table is at the address \<^verbatim>\<open>SCB->VTOR\<close> holds, in no memory of the simulator: \<open>vectors\<close>
  stands for what is there.
\<close>

definition NVIC_SetVector :: "u32 \<Rightarrow> u32 \<Rightarrow> (int \<Rightarrow> u32) \<Rightarrow> core \<Rightarrow> (int \<Rightarrow> u32) result" where
  "NVIC_SetVector IRQn vector vectors c =
     bindr (hw_read SCB_VTOR c) (\<lambda>vtor. Inr (vectors(uint vtor + 4 * (sint IRQn + 16) := vector)))"

definition NVIC_GetVector :: "u32 \<Rightarrow> (int \<Rightarrow> u32) \<Rightarrow> core \<Rightarrow> u32 result" where
  "NVIC_GetVector IRQn vectors c =
     bindr (hw_read SCB_VTOR c) (\<lambda>vtor. Inr (vectors (uint vtor + 4 * (sint IRQn + 16))))"

text \<open>After its write the reset waits forever; \<open>Diverges\<close> is the loop that never ends.\<close>

definition NVIC_SystemReset :: "core \<Rightarrow> core result" where
  "NVIC_SystemReset c =
     bindr (hw_read SCB_AIRCR c) (\<lambda>v.
       bindr (hw_write SCB_AIRCR (push_bit SCB_AIRCR_VECTKEY_Pos 0x5FA OR (v AND SCB_AIRCR_PRIGROUP_Msk) OR
         SCB_AIRCR_SYSRESETREQ_Msk) c) (\<lambda>_. Inl Diverges))"

section \<open>Floating point, system timer and debug port\<close>

definition SCB_GetFPUType :: "core \<Rightarrow> u32 result" where
  "SCB_GetFPUType c =
     bindr (hw_read FPU_MVFR0 c) (\<lambda>mvfr0.
       Inr (if mvfr0 AND (FPU_MVFR0_Single_precision_Msk OR FPU_MVFR0_Double_precision_Msk) = 0x020 then 1 else 0))"

definition SysTick_Config :: "u32 \<Rightarrow> core \<Rightarrow> (u32 \<times> core) result" where
  "SysTick_Config ticks c =
     (if ticks - 1 > SysTick_LOAD_RELOAD_Msk then Inr (1, c)
      else bindr (hw_write SysTick_LOAD (ticks - 1) c) (\<lambda>c.
        bindr (NVIC_SetPriority SysTick_IRQn (push_bit NVIC_PRIO_BITS 1 - 1) c) (\<lambda>c.
        bindr (hw_write SysTick_VAL 0 c) (\<lambda>c.
        bindr (hw_write SysTick_CTRL (SysTick_CTRL_CLKSOURCE_Msk OR SysTick_CTRL_TICKINT_Msk OR
          SysTick_CTRL_ENABLE_Msk) c) (\<lambda>c. Inr (0, c))))))"

text \<open>The wait for the port, in which nothing in the simulator changes the port.\<close>

partial_function (option) itm_wait :: "core \<Rightarrow> unit result option" where
  "itm_wait c =
     (case hw_read ITM_PORT0 c of
        Inl e \<Rightarrow> Some (Inl e)
      | Inr v \<Rightarrow> if v = 0 then itm_wait c else Some (Inr ()))"

definition ITM_SendChar :: "u32 \<Rightarrow> core \<Rightarrow> (u32 \<times> core) result option" where
  "ITM_SendChar ch c =
     (case bindr (hw_read ITM_TCR c) (\<lambda>tcr. bindr (hw_read ITM_TER c) (\<lambda>ter.
         Inr (tcr AND ITM_TCR_ITMENA_Msk \<noteq> 0 \<and> ter AND 1 \<noteq> 0))) of
        Inl e \<Rightarrow> Some (Inl e)
      | Inr enabled \<Rightarrow>
          if enabled
          then map_option (\<lambda>w. bindr w (\<lambda>_. bindr (hw_write8 ITM_PORT0 (ucast ch) c) (\<lambda>c. Inr (ch, c)))) (itm_wait c)
          else Some (Inr (ch, c)))"

definition ITM_ReceiveChar :: "core \<Rightarrow> u32 \<times> core" where
  "ITM_ReceiveChar c =
     (if ITM_RxBuffer c \<noteq> ITM_RXBUFFER_EMPTY then (ITM_RxBuffer c, c\<lparr>ITM_RxBuffer := ITM_RXBUFFER_EMPTY\<rparr>)
      else (-1, c))"

definition ITM_CheckChar :: "core \<Rightarrow> u32" where
  "ITM_CheckChar c = (if ITM_RxBuffer c = ITM_RXBUFFER_EMPTY then 0 else 1)"

section \<open>The shape of the controller\<close>

definition nvic_ok :: "core \<Rightarrow> bool" where
  "nvic_ok c \<longleftrightarrow> length (ISER (nvic c)) = 8 \<and> length (ICER (nvic c)) = 8 \<and> length (ISPR (nvic c)) = 8 \<and>
     length (ICPR (nvic c)) = 8 \<and> length (IABR (nvic c)) = 8 \<and> length (IP (nvic c)) = 240"

datatype nvic_call = EnableIRQ u32 | DisableIRQ u32 | SetPendingIRQ u32 | ClearPendingIRQ u32 | SetPriority u32 u32

fun nvic_exec :: "nvic_call \<Rightarrow> core \<Rightarrow> core result" where
  "nvic_exec (EnableIRQ i) c = NVIC_EnableIRQ i c"
| "nvic_exec (DisableIRQ i) c = NVIC_DisableIRQ i c"
| "nvic_exec (SetPendingIRQ i) c = NVIC_SetPendingIRQ i c"
| "nvic_exec (ClearPendingIRQ i) c = NVIC_ClearPendingIRQ i c"
| "nvic_exec (SetPriority i p) c = NVIC_SetPriority i p c"

fun call_irq :: "nvic_call \<Rightarrow> u32" where
  "call_irq (EnableIRQ i) = i"
| "call_irq (DisableIRQ i) = i"
| "call_irq (SetPendingIRQ i) = i"
| "call_irq (ClearPendingIRQ i) = i"
| "call_irq (SetPriority i p) = i"

lemmas nvic_defs = NVIC_EnableIRQ_def NVIC_DisableIRQ_def NVIC_SetPendingIRQ_def NVIC_ClearPendingIRQ_def
  NVIC_SetPriority_def NVIC_GetEnableIRQ_def NVIC_GetPendingIRQ_def NVIC_GetActive_def NVIC_GetPriority_def
  fetch_def store_def

lemma bit_31_iff: "bit i 31 \<longleftrightarrow> 2 ^ 31 \<le> unat i" for i :: u32
proof -
  have "bit i 31 \<longleftrightarrow> bit (unat i) 31" by (simp add: bit_simps)
  also have "\<dots> \<longleftrightarrow> odd (unat i div 2 ^ 31)" by (rule bit_iff_odd)
  finally have "bit i 31 \<longleftrightarrow> odd (unat i div 2 ^ 31)" .
  moreover have "unat i div 2 ^ 31 < 2" using unsigned_less [of i, where ?'a = nat] by (simp add: div_less_iff_less_mult)
  ultimately show ?thesis by (cases "unat i div 2 ^ 31 = 0") (auto simp: div_eq_0_iff less_2_cases_iff)
qed

lemma sint_nonneg_iff: "0 \<le> sint i \<longleftrightarrow> unat i < 2 ^ 31" for i :: u32
proof -
  have "0 \<le> sint i \<longleftrightarrow> \<not> bit (uint i) 31"
    unfolding sint_uint by (simp add: signed_take_bit_nonnegative_iff)
  then show ?thesis using bit_31_iff [of i] by (simp add: bit_uint_iff not_le)
qed

lemma sint_eq_unat: "unat i < 2 ^ 31 \<Longrightarrow> sint i = int (unat i)" for i :: u32
proof -
  assume a: "unat i < 2 ^ 31"
  then have n: "\<not> bit (uint i) 31" using bit_31_iff [of i] by (simp add: bit_uint_iff)
  have l: "LENGTH(32) - Suc 0 = 31" by simp
  have "sint i = take_bit 31 (uint i)"
    unfolding sint_uint l by (rule signed_take_bit_eq_if_positive [OF n])
  also have "\<dots> = uint i"
  proof (rule take_bit_int_eq_self)
    show "0 \<le> uint i" by simp
    have "int (unat i) < 2 ^ 31" using a by (metis of_nat_less_iff of_nat_numeral of_nat_power)
    then show "uint i < 2 ^ 31" by (simp only: uint_nat)
  qed
  finally show ?thesis by (simp only: uint_nat)
qed

lemma irq_word_eq: "irq_word i = unat i div 32"
  by (simp add: irq_word_def drop_bit_eq_div unat_div_distrib)

lemma device_range: "i \<in> set device_irqs \<Longrightarrow> unat i < 240"
proof -
  have "\<forall>i \<in> set device_irqs. unat i < 240"
    by (simp add: device_irqs_def irq_numbers)
  then show "i \<in> set device_irqs \<Longrightarrow> unat i < 240" by blast
qed

lemma nvic_exec_ok:
  assumes "nvic_ok c" and "unat (call_irq x) < 240"
  shows "\<exists>c'. nvic_exec x c = Inr c' \<and> nvic_ok c' \<and> hw c' = hw c \<and> ITM_RxBuffer c' = ITM_RxBuffer c"
proof -
  have "0 \<le> sint (call_irq x)" using assms(2) by (simp add: sint_nonneg_iff)
  moreover have "irq_word (call_irq x) < 8" using assms(2) by (simp add: irq_word_eq)
  ultimately show ?thesis using assms by (cases x) (auto simp: nvic_defs nvic_ok_def)
qed

lemma nvic_run_ok:
  "nvic_ok c \<Longrightarrow> \<forall>x \<in> set xs. unat (call_irq x) < 240 \<Longrightarrow>
   \<exists>c'. run_ops nvic_exec xs c = Inr c' \<and> nvic_ok c' \<and> hw c' = hw c \<and> ITM_RxBuffer c' = ITM_RxBuffer c"
proof (induction xs arbitrary: c)
  case (Cons x xs)
  then obtain c1 where "nvic_exec x c = Inr c1" "nvic_ok c1" "hw c1 = hw c" "ITM_RxBuffer c1 = ITM_RxBuffer c"
    using nvic_exec_ok [of c x] by auto
  with Cons.IH [of c1] Cons.prems show ?case by auto
qed simp

text \<open>
  The interrupt controller keeps its shape. From the zeroed structure of the simulator on, any sequence of the
  writing functions on interrupt numbers of the device (the 62 enumerators from the watchdog to the multiplexer) returns,
  and leaves six arrays of the declared sizes; no such call touches the other core registers.
\<close>

theorem nvic_shape:
  assumes "\<forall>x \<in> set xs. call_irq x \<in> set device_irqs"
  shows "\<exists>c'. run_ops nvic_exec xs \<lparr>nvic = sim_nvic, hw = h, ITM_RxBuffer = b\<rparr> = Inr c' \<and>
    nvic_ok c' \<and> hw c' = h \<and> ITM_RxBuffer c' = b"
  using assms nvic_run_ok [of "\<lparr>nvic = sim_nvic, hw = h, ITM_RxBuffer = b\<rparr>" xs] device_range
  by (auto simp: nvic_ok_def sim_nvic_def)

theorem nvic_shape_witness:
  "\<exists>c'. run_ops nvic_exec [EnableIRQ SUBGHZ_Radio_IRQn, SetPriority DMAMUX1_OVR_IRQn 3]
     \<lparr>nvic = sim_nvic, hw = \<lambda>_. 0, ITM_RxBuffer = 0\<rparr> = Inr c' \<and> nvic_ok c'"
  using nvic_shape [of "[EnableIRQ SUBGHZ_Radio_IRQn, SetPriority DMAMUX1_OVR_IRQn 3]" "\<lambda>_. 0" 0]
  by (auto simp: device_irqs_def)

section \<open>Enabled interrupts\<close>

lemma irq_bit_eq: "irq_bit i = push_bit (unat i mod 32) 1"
proof -
  have "i AND 0x1F = take_bit 5 i" by (simp add: take_bit_eq_mask mask_eq_exp_minus_1)
  then show ?thesis by (simp add: irq_bit_def take_bit_eq_mod unat_mod_distrib)
qed

lemma irq_bits_meet:
  assumes "irq_word i = irq_word j"
  shows "irq_bit i AND irq_bit j \<noteq> 0 \<longleftrightarrow> i = j"
proof -
  have m: "unat k mod 32 < 32" for k :: u32 by simp
  have "push_bit a 1 AND push_bit b 1 \<noteq> (0 :: u32) \<longleftrightarrow> a = b" if "a < 32" "b < 32" for a b
    using that by (auto simp: bit_eq_iff bit_simps)
  from this [OF m m] have "irq_bit i AND irq_bit j \<noteq> 0 \<longleftrightarrow> unat i mod 32 = unat j mod 32"
    by (simp only: irq_bit_eq)
  also have "\<dots> \<longleftrightarrow> i = j"
    using assms by (metis irq_word_eq div_mult_mod_eq word_unat_eq_iff)
  finally show ?thesis .
qed

text \<open>The enabling calls that write the same word as \<open>i\<close>.\<close>

fun enables :: "u32 \<Rightarrow> nvic_call list \<Rightarrow> u32 list" where
  "enables i [] = []"
| "enables i (EnableIRQ j # xs) = (if irq_word j = irq_word i then j # enables i xs else enables i xs)"
| "enables i (_ # xs) = enables i xs"

lemma enabled_step:
  assumes "nvic_ok c" and "unat (call_irq x) < 240" and "unat i < 240" and "nvic_exec x c = Inr c'"
  shows "NVIC_GetEnableIRQ i c' =
    (if enables i [x] = [] then NVIC_GetEnableIRQ i c else Inr (if call_irq x = i then 1 else 0))"
proof -
  have "0 \<le> sint (call_irq x)" and "0 \<le> sint i" using assms by (simp_all add: sint_nonneg_iff)
  moreover have "irq_word (call_irq x) < 8" and "irq_word i < 8" using assms by (simp_all add: irq_word_eq)
  ultimately show ?thesis
    using assms irq_bits_meet [of "call_irq x" i]
    by (cases x) (auto simp: nvic_defs nvic_ok_def nth_list_update bindr_eq_Inr_iff split: if_splits)
qed

lemma enables_Cons: "enables i (x # xs) = enables i [x] @ enables i xs"
  by (cases x) simp_all

lemma enables_single: "enables i [x] = [] \<or> enables i [x] = [call_irq x]"
  by (cases x) simp_all

text \<open>
  C28: Which interrupt the simulated controller reports enabled. After any sequence of calls on interrupts 0 to 239
  an interrupt is reported enabled exactly if it was the last one enabled among the 32 of its word; if none of
  them was enabled, the report is the earlier one. Disabling never matters.
\<close>

theorem nvic_enabled_is_last:
  assumes "nvic_ok c" and "\<forall>x \<in> set xs. unat (call_irq x) < 240" and "unat i < 240"
  shows "\<exists>c'. run_ops nvic_exec xs c = Inr c' \<and>
    NVIC_GetEnableIRQ i c' = (if enables i xs = [] then NVIC_GetEnableIRQ i c
      else Inr (if last (enables i xs) = i then 1 else 0))"
  using assms(1,2)
proof (induction xs arbitrary: c)
  case (Cons x xs)
  then obtain c1 where c1: "nvic_exec x c = Inr c1" "nvic_ok c1"
    using nvic_exec_ok [of c x] by auto
  then obtain c' where "run_ops nvic_exec xs c1 = Inr c'"
      "NVIC_GetEnableIRQ i c' = (if enables i xs = [] then NVIC_GetEnableIRQ i c1
        else Inr (if last (enables i xs) = i then 1 else 0))"
    using Cons by auto
  moreover have "NVIC_GetEnableIRQ i c1 =
      (if enables i [x] = [] then NVIC_GetEnableIRQ i c else Inr (if call_irq x = i then 1 else 0))"
    using enabled_step [OF _ _ assms(3) c1(1)] Cons.prems by simp
  ultimately show ?case
    using c1 enables_Cons [of i x xs] enables_single [of i x] by auto
qed simp

theorem nvic_enabled_is_last_witness:
  "\<exists>c'. run_ops nvic_exec [EnableIRQ SUBGHZ_Radio_IRQn, EnableIRQ RTC_Alarm_IRQn, DisableIRQ RTC_Alarm_IRQn]
     \<lparr>nvic = sim_nvic, hw = \<lambda>_. 0, ITM_RxBuffer = 0\<rparr> = Inr c' \<and> NVIC_GetEnableIRQ SUBGHZ_Radio_IRQn c' = Inr 0"
  using nvic_enabled_is_last [of "\<lparr>nvic = sim_nvic, hw = \<lambda>_. 0, ITM_RxBuffer = 0\<rparr>"
    "[EnableIRQ SUBGHZ_Radio_IRQn, EnableIRQ RTC_Alarm_IRQn, DisableIRQ RTC_Alarm_IRQn]" SUBGHZ_Radio_IRQn]
  by (simp add: nvic_ok_def sim_nvic_def irq_word_eq SUBGHZ_Radio_IRQn_def RTC_Alarm_IRQn_def)

text \<open>A pending interrupt stays pending: clearing writes another array.\<close>

theorem nvic_pending_not_cleared:
  "NVIC_ClearPendingIRQ j c = Inr c' \<Longrightarrow> NVIC_GetPendingIRQ i c' = NVIC_GetPendingIRQ i c"
  by (auto simp: nvic_defs split: if_splits)

section \<open>Priorities\<close>

lemma group_less: "unat (g AND 7) < 8" for g :: u32
proof -
  have "g AND 7 = take_bit 3 g" by (simp add: take_bit_eq_mask mask_eq_exp_minus_1)
  then show ?thesis by (simp add: unsigned_take_bit_eq take_bit_nat_less_exp [of 3, simplified])
qed

lemma group_bits:
  "unat (PreemptPriorityBits (g AND 7)) = min 4 (7 - unat (g AND 7)) \<and>
   unat (SubPriorityBits (g AND 7)) = unat (g AND 7) - 3"
proof -
  have "unat (g AND 7) \<in> {0, 1, 2, 3, 4, 5, 6, 7}" using group_less [of g] by auto
  then have "g AND 7 \<in> {0, 1, 2, 3, 4, 5, 6, 7}"
    by (auto simp: word_unat_eq_iff)
  then show ?thesis
    by (auto simp: PreemptPriorityBits_def SubPriorityBits_def NVIC_PRIO_BITS_def)
qed

lemma mask_and: "x AND (push_bit n 1 - 1) = take_bit n (x :: u32)"
  by (simp add: take_bit_eq_mask mask_eq_exp_minus_1 push_bit_eq_mult)

lemma priority_fields:
  fixes p s :: u32
  assumes "a + b = 4"
  shows "drop_bit b (push_bit b (take_bit a p) OR take_bit b s) = take_bit a p"
    and "take_bit b (push_bit b (take_bit a p) OR take_bit b s) = take_bit b s"
    and "take_bit 4 (push_bit b (take_bit a p) OR take_bit b s) = push_bit b (take_bit a p) OR take_bit b s"
  using assms by - (rule bit_word_eqI; auto simp: bit_simps)+

lemma SetPriority_GetPriority:
  assumes "nvic_ok c" and "unat i < 240" and "unat j < 240"
  shows "\<exists>c'. NVIC_SetPriority i p c = Inr c' \<and> nvic_ok c' \<and>
    NVIC_GetPriority j c' = (if j = i then Inr (take_bit 4 p) else NVIC_GetPriority j c)"
proof -
  have "push_bit 4 p AND 0xFF = take_bit 8 (push_bit 4 p)"
    by (simp only: take_bit_eq_mask mask_eq_exp_minus_1) simp
  then have "drop_bit 4 (ucast (ucast (push_bit 4 p AND 0xFF) :: u8)) = take_bit 4 p"
    by (simp only:) (rule bit_word_eqI, auto simp: bit_simps)
  moreover have "0 \<le> sint i" and "0 \<le> sint j" using assms by (simp_all add: sint_nonneg_iff)
  ultimately show ?thesis
    using assms by (auto simp: nvic_defs nvic_ok_def NVIC_PRIO_BITS_def nth_list_update word_unat_eq_iff)
qed

interpretation priorities: unit_bank "{i :: u32. unat i < 240}" "\<lambda>_. True" nvic_ok
  "\<lambda>(i, p). NVIC_SetPriority i p" NVIC_GetPriority "\<lambda>p _. Inr (take_bit 4 p)"
proof
  fix i p :: u32 and c
  assume i: "i \<in> {i. unat i < 240}" and c: "nvic_ok c"
  then obtain c' where "NVIC_SetPriority i p c = Inr c'" "nvic_ok c'"
    using SetPriority_GetPriority [of c i i p] by auto
  then show "\<exists>c'. (case (i, p) of (i, p) \<Rightarrow> NVIC_SetPriority i p) c = Inr c' \<and> nvic_ok c' \<and>
      (\<forall>j \<in> {i. unat i < 240}. NVIC_GetPriority j c' = (if j = i then Inr (take_bit 4 p) else NVIC_GetPriority j c))"
    using SetPriority_GetPriority [OF c, of i _ p] i by force
qed

text \<open>
  C17: Priorities keep their two parts. Give any interrupts from 0 to 239 priorities encoded from a preemption and a
  subpriority: the calls return, and the priority read back for the last setting of an interrupt decodes to
  the preemption priority and the subpriority it was encoded from, each cut to its number of bits, which the grouping
  divides up among four.
\<close>

theorem nvic_priority_roundtrip:
  assumes "nvic_ok c" and "\<forall>y \<in> set ys. unat (fst y) < 240" and "unat i < 240"
  shows "\<exists>c' q. run_ops (\<lambda>(i, p). NVIC_SetPriority i p) (ys @ [(i, NVIC_EncodePriority g p s)]) c = Inr c' \<and>
    NVIC_GetPriority i c' = Inr q \<and>
    NVIC_DecodePriority q g = (take_bit (min 4 (7 - unat (g AND 7))) p, take_bit (unat (g AND 7) - 3) s)"
proof -
  let ?a = "min 4 (7 - unat (g AND 7))" and ?b = "unat (g AND 7) - 3" and ?e = "NVIC_EncodePriority g p s"
  have ab: "?a + ?b = 4" using group_less [of g] by auto
  have e: "?e = push_bit ?b (take_bit ?a p) OR take_bit ?b s"
    by (simp only: NVIC_EncodePriority_def Let_def group_bits mask_and)
  have "\<forall>y \<in> set (ys @ [(i, ?e)]). fst y \<in> {i. unat i < 240} \<and> True" using assms(2,3) by auto
  then obtain c' where c': "run_ops (\<lambda>(i, p). NVIC_SetPriority i p) (ys @ [(i, ?e)]) c = Inr c'"
      "NVIC_GetPriority i c' = fold (\<lambda>p _. Inr (take_bit 4 p)) (own_calls i (ys @ [(i, ?e)])) (NVIC_GetPriority i c)"
    using priorities.run_view [OF _ assms(1)] assms(3) by blast
  moreover have "NVIC_DecodePriority ?e g = (take_bit ?a p, take_bit ?b s)"
    by (simp only: NVIC_DecodePriority_def Let_def group_bits mask_and e priority_fields [OF ab] take_bit_take_bit min.idem)
  moreover have "take_bit 4 ?e = ?e" unfolding e by (rule priority_fields(3) [OF ab])
  ultimately show ?thesis by (simp add: own_calls_def)
qed

theorem nvic_priority_roundtrip_witness:
  "\<exists>c' q. run_ops (\<lambda>(i, p). NVIC_SetPriority i p) [(3, 1), (50, NVIC_EncodePriority 5 2 3)]
     \<lparr>nvic = sim_nvic, hw = \<lambda>_. 0, ITM_RxBuffer = 0\<rparr> = Inr c' \<and>
     NVIC_GetPriority 50 c' = Inr q \<and> NVIC_DecodePriority q 5 = (2, 3)"
  using nvic_priority_roundtrip [of "\<lparr>nvic = sim_nvic, hw = \<lambda>_. 0, ITM_RxBuffer = 0\<rparr>" "[(3, 1)]" 50 5 2 3]
  by (simp add: nvic_ok_def sim_nvic_def)

section \<open>Outside the arrays\<close>

text \<open>
  Interrupt numbers are not checked against the arrays. On a controller of the declared shape a call with a number
  that is not negative runs past an array exactly from 256 on for the bit arrays and from 240 on for priorities.
\<close>

theorem nvic_bounds:
  assumes "nvic_ok c"
  shows "(NVIC_EnableIRQ i c = Inl OutOfBounds \<longleftrightarrow> 256 \<le> sint i) \<and>
    (NVIC_DisableIRQ i c = Inl OutOfBounds \<longleftrightarrow> 256 \<le> sint i) \<and>
    (NVIC_GetEnableIRQ i c = Inl OutOfBounds \<longleftrightarrow> 256 \<le> sint i) \<and>
    (NVIC_SetPendingIRQ i c = Inl OutOfBounds \<longleftrightarrow> 256 \<le> sint i) \<and>
    (NVIC_ClearPendingIRQ i c = Inl OutOfBounds \<longleftrightarrow> 256 \<le> sint i) \<and>
    (NVIC_SetPriority i p c = Inl OutOfBounds \<longleftrightarrow> sint i < 0 \<or> 240 \<le> sint i) \<and>
    (NVIC_GetPriority i c = Inl OutOfBounds \<longleftrightarrow> sint i < 0 \<or> 240 \<le> sint i)"
proof -
  have "0 \<le> uint (i AND 0xF)" by simp
  then have "hw_size \<le> shp_addr i" unfolding shp_addr_def core_regs core_bases by linarith
  then have shp: "hw_write8 (shp_addr i) v c = Inl OutOfBounds" "hw_read8 (shp_addr i) c = Inl OutOfBounds" for v
    by (simp_all add: hw_write8_def hw_read8_def)
  show ?thesis
  proof (cases "0 \<le> sint i")
    case True
    then have i: "sint i = int (unat i)" by (intro sint_eq_unat) (simp add: sint_nonneg_iff)
    have "irq_word i < 8 \<longleftrightarrow> sint i < 256" "unat i < 240 \<longleftrightarrow> sint i < 240"
      unfolding i irq_word_eq by linarith+
    then show ?thesis using assms True by (auto simp: nvic_defs nvic_ok_def)
  next
    case False
    then show ?thesis using assms shp by (auto simp: nvic_defs)
  qed
qed

theorem nvic_bounds_witness:
  "NVIC_EnableIRQ 255 \<lparr>nvic = sim_nvic, hw = \<lambda>_. 0, ITM_RxBuffer = 0\<rparr> \<noteq> Inl OutOfBounds \<and>
   NVIC_SetPriority SysTick_IRQn 0 \<lparr>nvic = sim_nvic, hw = \<lambda>_. 0, ITM_RxBuffer = 0\<rparr> = Inl OutOfBounds"
  using nvic_bounds [of "\<lparr>nvic = sim_nvic, hw = \<lambda>_. 0, ITM_RxBuffer = 0\<rparr>" 255 0]
    nvic_bounds [of "\<lparr>nvic = sim_nvic, hw = \<lambda>_. 0, ITM_RxBuffer = 0\<rparr>" SysTick_IRQn 0]
  by (simp add: nvic_ok_def sim_nvic_def SysTick_IRQn_def)

text \<open>
  C38: The core peripherals other than the controller and the trace port are not in the array. The functions on the
  system control block, the floating point unit and the system timer access memory outside the array that
  is there to back them: priority grouping, reset, vectors, the floating point type, and a timer with a possible
  number of ticks (1 to 16777216). An impossible number of ticks is refused without an access.
\<close>

theorem core_peripherals_outside:
  "NVIC_SetPriorityGrouping g c = Inl OutOfBounds \<and> NVIC_GetPriorityGrouping c = Inl OutOfBounds \<and>
   NVIC_SystemReset c = Inl OutOfBounds \<and> NVIC_SetVector i v vectors c = Inl OutOfBounds \<and>
   NVIC_GetVector i vectors c = Inl OutOfBounds \<and> SCB_GetFPUType c = Inl OutOfBounds \<and>
   SysTick_Config ticks c = (if 1 \<le> unat ticks \<and> unat ticks \<le> 2 ^ 24 then Inl OutOfBounds else Inr (1, c))"
proof -
  have "ticks - 1 > SysTick_LOAD_RELOAD_Msk \<longleftrightarrow> \<not> (1 \<le> unat ticks \<and> unat ticks \<le> 2 ^ 24)"
  proof (cases "ticks = 0")
    case False
    then have "unat (ticks - 1) = unat ticks - 1" "0 < unat ticks" by (simp_all add: unat_minus_one unat_gt_0)
    then show ?thesis by (auto simp: SysTick_LOAD_RELOAD_Msk_def word_less_nat_alt)
  qed (simp add: SysTick_LOAD_RELOAD_Msk_def)
  then show ?thesis
    by (simp add: NVIC_SetPriorityGrouping_def NVIC_GetPriorityGrouping_def NVIC_SystemReset_def NVIC_SetVector_def
        NVIC_GetVector_def SCB_GetFPUType_def SysTick_Config_def hw_read_def hw_write_def core_regs core_bases)
qed

section \<open>Trace port\<close>

lemma itm_wait_ready: "hw c 0 \<noteq> 0 \<Longrightarrow> itm_wait c = Some (Inr ())"
  by (subst itm_wait.simps) (simp add: hw_read_def core_regs core_bases)

lemma itm_wait_returns: "itm_wait c = Some w \<Longrightarrow> hw c 0 \<noteq> 0"
proof (induction c w rule: itm_wait.raw_induct [rotated, consumes 1, case_names step])
  case (step wait c w)
  then show ?case by (cases "hw c 0 = 0") (auto simp: hw_read_def core_regs core_bases)
qed

lemma itm_wait_iff: "itm_wait c = (if hw c 0 = 0 then None else Some (Inr ()))"
  using itm_wait_ready [of c] itm_wait_returns [of c] by (cases "itm_wait c") auto

text \<open>Trace and port 0 are enabled.\<close>

definition itm_on :: "core \<Rightarrow> bool" where
  "itm_on c \<longleftrightarrow> hw c (0xE80 div 4) AND ITM_TCR_ITMENA_Msk \<noteq> 0 \<and> hw c (0xE00 div 4) AND 1 \<noteq> 0"

text \<open>
  Sending a character over the trace port. Without trace and port 0 enabled the character is returned and nothing
  changes. With both enabled, sending returns exactly if the port's word is not 0, and then the word's low byte is
  the character; a port that reads 0, as the simulator's does at the start, makes the call wait forever.
\<close>

theorem itm_send:
  "ITM_SendChar ch c =
    (if \<not> itm_on c then Some (Inr (ch, c))
     else if hw c 0 = 0 then None
     else Some (Inr (ch, c\<lparr>hw := (hw c)(0 := (hw c 0 AND NOT 0xFF) OR ucast (ucast ch :: u8))\<rparr>)))"
  by (simp add: ITM_SendChar_def itm_on_def itm_wait_iff hw_read_def hw_write8_def core_regs core_bases)

text \<open>A received character is delivered once.\<close>

theorem itm_receive_once:
  "ITM_CheckChar c = 1 \<Longrightarrow> ITM_ReceiveChar c = (ch, c') \<Longrightarrow>
     ch = ITM_RxBuffer c \<and> ITM_CheckChar c' = 0 \<and> fst (ITM_ReceiveChar c') = -1"
  by (auto simp: ITM_CheckChar_def ITM_ReceiveChar_def split: if_splits)

end
