(* ===== verification/Ll_Bus.thy ===== *)
theory Ll_Bus
  imports Device_Map
begin

text \<open>
  The bus accessors (\<^verbatim>\<open>stm32wlxx_ll_bus.h\<close>): clock gates of the peripherals for run and sleep mode, for both
  cores, and the reset lines. Each function is a transformer of the register store, each test a
  function of it; the read the source makes after enabling a clock has no effect on the
  store. The functions the simulator replaced (\<^verbatim>\<open>LL_APB2_GRP1_IsEnabledClock\<close> and three others) are
  modelled as they are. The clock gates are shown to be sets of peripherals, independent of each other.
\<close>

section \<open>Constants\<close>

definition LL_AHB1_GRP1_PERIPH_ALL :: u32 where [reg_mask]: "LL_AHB1_GRP1_PERIPH_ALL = 0xFFFFFFFF"
definition LL_AHB1_GRP1_PERIPH_DMA1 :: u32 where [reg_mask]: "LL_AHB1_GRP1_PERIPH_DMA1 = RCC_AHB1ENR_DMA1EN"
definition LL_AHB1_GRP1_PERIPH_DMA2 :: u32 where [reg_mask]: "LL_AHB1_GRP1_PERIPH_DMA2 = RCC_AHB1ENR_DMA2EN"
definition LL_AHB1_GRP1_PERIPH_DMAMUX1 :: u32 where
  [reg_mask]: "LL_AHB1_GRP1_PERIPH_DMAMUX1 = RCC_AHB1ENR_DMAMUX1EN"
definition LL_AHB1_GRP1_PERIPH_CRC :: u32 where [reg_mask]: "LL_AHB1_GRP1_PERIPH_CRC = RCC_AHB1ENR_CRCEN"
definition LL_AHB2_GRP1_PERIPH_ALL :: u32 where [reg_mask]: "LL_AHB2_GRP1_PERIPH_ALL = 0xFFFFFFFF"
definition LL_AHB2_GRP1_PERIPH_GPIOA :: u32 where
  [reg_mask]: "LL_AHB2_GRP1_PERIPH_GPIOA = RCC_AHB2ENR_GPIOAEN"
definition LL_AHB2_GRP1_PERIPH_GPIOB :: u32 where
  [reg_mask]: "LL_AHB2_GRP1_PERIPH_GPIOB = RCC_AHB2ENR_GPIOBEN"
definition LL_AHB2_GRP1_PERIPH_GPIOC :: u32 where
  [reg_mask]: "LL_AHB2_GRP1_PERIPH_GPIOC = RCC_AHB2ENR_GPIOCEN"
definition LL_AHB2_GRP1_PERIPH_GPIOH :: u32 where
  [reg_mask]: "LL_AHB2_GRP1_PERIPH_GPIOH = RCC_AHB2ENR_GPIOHEN"
definition LL_AHB3_GRP1_PERIPH_ALL :: u32 where [reg_mask]: "LL_AHB3_GRP1_PERIPH_ALL = 0xFFFFFFFF"
definition LL_AHB3_GRP1_PERIPH_PKA :: u32 where [reg_mask]: "LL_AHB3_GRP1_PERIPH_PKA = RCC_AHB3ENR_PKAEN"
definition LL_AHB3_GRP1_PERIPH_AES :: u32 where [reg_mask]: "LL_AHB3_GRP1_PERIPH_AES = RCC_AHB3ENR_AESEN"
definition LL_AHB3_GRP1_PERIPH_RNG :: u32 where [reg_mask]: "LL_AHB3_GRP1_PERIPH_RNG = RCC_AHB3ENR_RNGEN"
definition LL_AHB3_GRP1_PERIPH_HSEM :: u32 where [reg_mask]: "LL_AHB3_GRP1_PERIPH_HSEM = RCC_AHB3ENR_HSEMEN"
definition LL_AHB3_GRP1_PERIPH_IPCC :: u32 where [reg_mask]: "LL_AHB3_GRP1_PERIPH_IPCC = RCC_AHB3ENR_IPCCEN"
definition LL_AHB3_GRP1_PERIPH_SRAM1 :: u32 where
  [reg_mask]: "LL_AHB3_GRP1_PERIPH_SRAM1 = RCC_AHB3SMENR_SRAM1SMEN"
definition LL_AHB3_GRP1_PERIPH_SRAM2 :: u32 where
  [reg_mask]: "LL_AHB3_GRP1_PERIPH_SRAM2 = RCC_AHB3SMENR_SRAM2SMEN"
definition LL_AHB3_GRP1_PERIPH_FLASH :: u32 where
  [reg_mask]: "LL_AHB3_GRP1_PERIPH_FLASH = RCC_AHB3ENR_FLASHEN"
definition LL_APB1_GRP1_PERIPH_ALL :: u32 where [reg_mask]: "LL_APB1_GRP1_PERIPH_ALL = 0xFFFFFFFF"
definition LL_APB1_GRP1_PERIPH_TIM2 :: u32 where [reg_mask]: "LL_APB1_GRP1_PERIPH_TIM2 = RCC_APB1ENR1_TIM2EN"
definition LL_APB1_GRP1_PERIPH_RTCAPB :: u32 where
  [reg_mask]: "LL_APB1_GRP1_PERIPH_RTCAPB = RCC_APB1ENR1_RTCAPBEN"
definition LL_APB1_GRP1_PERIPH_WWDG :: u32 where [reg_mask]: "LL_APB1_GRP1_PERIPH_WWDG = RCC_APB1ENR1_WWDGEN"
definition LL_APB1_GRP1_PERIPH_SPI2 :: u32 where [reg_mask]: "LL_APB1_GRP1_PERIPH_SPI2 = RCC_APB1ENR1_SPI2EN"
definition LL_APB1_GRP1_PERIPH_USART2 :: u32 where
  [reg_mask]: "LL_APB1_GRP1_PERIPH_USART2 = RCC_APB1ENR1_USART2EN"
definition LL_APB1_GRP1_PERIPH_I2C1 :: u32 where [reg_mask]: "LL_APB1_GRP1_PERIPH_I2C1 = RCC_APB1ENR1_I2C1EN"
definition LL_APB1_GRP1_PERIPH_I2C2 :: u32 where [reg_mask]: "LL_APB1_GRP1_PERIPH_I2C2 = RCC_APB1ENR1_I2C2EN"
definition LL_APB1_GRP1_PERIPH_I2C3 :: u32 where [reg_mask]: "LL_APB1_GRP1_PERIPH_I2C3 = RCC_APB1ENR1_I2C3EN"
definition LL_APB1_GRP1_PERIPH_DAC :: u32 where [reg_mask]: "LL_APB1_GRP1_PERIPH_DAC = RCC_APB1ENR1_DACEN"
definition LL_APB1_GRP1_PERIPH_LPTIM1 :: u32 where
  [reg_mask]: "LL_APB1_GRP1_PERIPH_LPTIM1 = RCC_APB1ENR1_LPTIM1EN"
definition LL_APB1_GRP2_PERIPH_ALL :: u32 where [reg_mask]: "LL_APB1_GRP2_PERIPH_ALL = 0xFFFFFFFF"
definition LL_APB1_GRP2_PERIPH_LPUART1 :: u32 where
  [reg_mask]: "LL_APB1_GRP2_PERIPH_LPUART1 = RCC_APB1ENR2_LPUART1EN"
definition LL_APB1_GRP2_PERIPH_LPTIM2 :: u32 where
  [reg_mask]: "LL_APB1_GRP2_PERIPH_LPTIM2 = RCC_APB1ENR2_LPTIM2EN"
definition LL_APB1_GRP2_PERIPH_LPTIM3 :: u32 where
  [reg_mask]: "LL_APB1_GRP2_PERIPH_LPTIM3 = RCC_APB1ENR2_LPTIM3EN"
definition LL_APB2_GRP1_PERIPH_ALL :: u32 where [reg_mask]: "LL_APB2_GRP1_PERIPH_ALL = 0xFFFFFFFF"
definition LL_APB2_GRP1_PERIPH_ADC :: u32 where [reg_mask]: "LL_APB2_GRP1_PERIPH_ADC = RCC_APB2ENR_ADCEN"
definition LL_APB2_GRP1_PERIPH_TIM1 :: u32 where [reg_mask]: "LL_APB2_GRP1_PERIPH_TIM1 = RCC_APB2ENR_TIM1EN"
definition LL_APB2_GRP1_PERIPH_SPI1 :: u32 where [reg_mask]: "LL_APB2_GRP1_PERIPH_SPI1 = RCC_APB2ENR_SPI1EN"
definition LL_APB2_GRP1_PERIPH_USART1 :: u32 where
  [reg_mask]: "LL_APB2_GRP1_PERIPH_USART1 = RCC_APB2ENR_USART1EN"
definition LL_APB2_GRP1_PERIPH_TIM16 :: u32 where
  [reg_mask]: "LL_APB2_GRP1_PERIPH_TIM16 = RCC_APB2ENR_TIM16EN"
definition LL_APB2_GRP1_PERIPH_TIM17 :: u32 where
  [reg_mask]: "LL_APB2_GRP1_PERIPH_TIM17 = RCC_APB2ENR_TIM17EN"
definition LL_APB3_GRP1_PERIPH_ALL :: u32 where [reg_mask]: "LL_APB3_GRP1_PERIPH_ALL = 0xFFFFFFFF"
definition LL_APB3_GRP1_PERIPH_SUBGHZSPI :: u32 where
  [reg_mask]: "LL_APB3_GRP1_PERIPH_SUBGHZSPI = RCC_APB3ENR_SUBGHZSPIEN"
definition LL_C2_AHB1_GRP1_PERIPH_DMA1 :: u32 where
  [reg_mask]: "LL_C2_AHB1_GRP1_PERIPH_DMA1 = RCC_C2AHB1ENR_DMA1EN"
definition LL_C2_AHB1_GRP1_PERIPH_DMA2 :: u32 where
  [reg_mask]: "LL_C2_AHB1_GRP1_PERIPH_DMA2 = RCC_C2AHB1ENR_DMA2EN"
definition LL_C2_AHB1_GRP1_PERIPH_DMAMUX1 :: u32 where
  [reg_mask]: "LL_C2_AHB1_GRP1_PERIPH_DMAMUX1 = RCC_C2AHB1ENR_DMAMUX1EN"
definition LL_C2_AHB1_GRP1_PERIPH_CRC :: u32 where
  [reg_mask]: "LL_C2_AHB1_GRP1_PERIPH_CRC = RCC_C2AHB1ENR_CRCEN"
definition LL_C2_AHB2_GRP1_PERIPH_GPIOA :: u32 where
  [reg_mask]: "LL_C2_AHB2_GRP1_PERIPH_GPIOA = RCC_C2AHB2ENR_GPIOAEN"
definition LL_C2_AHB2_GRP1_PERIPH_GPIOB :: u32 where
  [reg_mask]: "LL_C2_AHB2_GRP1_PERIPH_GPIOB = RCC_C2AHB2ENR_GPIOBEN"
definition LL_C2_AHB2_GRP1_PERIPH_GPIOC :: u32 where
  [reg_mask]: "LL_C2_AHB2_GRP1_PERIPH_GPIOC = RCC_C2AHB2ENR_GPIOCEN"
definition LL_C2_AHB2_GRP1_PERIPH_GPIOH :: u32 where
  [reg_mask]: "LL_C2_AHB2_GRP1_PERIPH_GPIOH = RCC_C2AHB2ENR_GPIOHEN"
definition LL_C2_AHB3_GRP1_PERIPH_PKA :: u32 where
  [reg_mask]: "LL_C2_AHB3_GRP1_PERIPH_PKA = RCC_C2AHB3ENR_PKAEN"
definition LL_C2_AHB3_GRP1_PERIPH_AES :: u32 where
  [reg_mask]: "LL_C2_AHB3_GRP1_PERIPH_AES = RCC_C2AHB3ENR_AESEN"
definition LL_C2_AHB3_GRP1_PERIPH_RNG :: u32 where
  [reg_mask]: "LL_C2_AHB3_GRP1_PERIPH_RNG = RCC_C2AHB3ENR_RNGEN"
definition LL_C2_AHB3_GRP1_PERIPH_HSEM :: u32 where
  [reg_mask]: "LL_C2_AHB3_GRP1_PERIPH_HSEM = RCC_C2AHB3ENR_HSEMEN"
definition LL_C2_AHB3_GRP1_PERIPH_IPCC :: u32 where
  [reg_mask]: "LL_C2_AHB3_GRP1_PERIPH_IPCC = RCC_C2AHB3ENR_IPCCEN"
definition LL_C2_AHB3_GRP1_PERIPH_FLASH :: u32 where
  [reg_mask]: "LL_C2_AHB3_GRP1_PERIPH_FLASH = RCC_C2AHB3ENR_FLASHEN"
definition LL_C2_AHB3_GRP1_PERIPH_SRAM1 :: u32 where
  [reg_mask]: "LL_C2_AHB3_GRP1_PERIPH_SRAM1 = RCC_C2AHB3SMENR_SRAM1SMEN"
definition LL_C2_AHB3_GRP1_PERIPH_SRAM2 :: u32 where
  [reg_mask]: "LL_C2_AHB3_GRP1_PERIPH_SRAM2 = RCC_C2AHB3SMENR_SRAM2SMEN"
definition LL_C2_APB1_GRP1_PERIPH_TIM2 :: u32 where
  [reg_mask]: "LL_C2_APB1_GRP1_PERIPH_TIM2 = RCC_C2APB1ENR1_TIM2EN"
definition LL_C2_APB1_GRP1_PERIPH_RTCAPB :: u32 where
  [reg_mask]: "LL_C2_APB1_GRP1_PERIPH_RTCAPB = RCC_C2APB1ENR1_RTCAPBEN"
definition LL_C2_APB1_GRP1_PERIPH_SPI2 :: u32 where
  [reg_mask]: "LL_C2_APB1_GRP1_PERIPH_SPI2 = RCC_C2APB1ENR1_SPI2EN"
definition LL_C2_APB1_GRP1_PERIPH_USART2 :: u32 where
  [reg_mask]: "LL_C2_APB1_GRP1_PERIPH_USART2 = RCC_C2APB1ENR1_USART2EN"
definition LL_C2_APB1_GRP1_PERIPH_I2C1 :: u32 where
  [reg_mask]: "LL_C2_APB1_GRP1_PERIPH_I2C1 = RCC_C2APB1ENR1_I2C1EN"
definition LL_C2_APB1_GRP1_PERIPH_I2C2 :: u32 where
  [reg_mask]: "LL_C2_APB1_GRP1_PERIPH_I2C2 = RCC_C2APB1ENR1_I2C2EN"
definition LL_C2_APB1_GRP1_PERIPH_I2C3 :: u32 where
  [reg_mask]: "LL_C2_APB1_GRP1_PERIPH_I2C3 = RCC_C2APB1ENR1_I2C3EN"
definition LL_C2_APB1_GRP1_PERIPH_DAC :: u32 where
  [reg_mask]: "LL_C2_APB1_GRP1_PERIPH_DAC = RCC_C2APB1ENR1_DACEN"
definition LL_C2_APB1_GRP1_PERIPH_LPTIM1 :: u32 where
  [reg_mask]: "LL_C2_APB1_GRP1_PERIPH_LPTIM1 = RCC_C2APB1ENR1_LPTIM1EN"
definition LL_C2_APB1_GRP2_PERIPH_LPUART1 :: u32 where
  [reg_mask]: "LL_C2_APB1_GRP2_PERIPH_LPUART1 = RCC_C2APB1ENR2_LPUART1EN"
definition LL_C2_APB1_GRP2_PERIPH_LPTIM2 :: u32 where
  [reg_mask]: "LL_C2_APB1_GRP2_PERIPH_LPTIM2 = RCC_C2APB1ENR2_LPTIM2EN"
definition LL_C2_APB1_GRP2_PERIPH_LPTIM3 :: u32 where
  [reg_mask]: "LL_C2_APB1_GRP2_PERIPH_LPTIM3 = RCC_C2APB1ENR2_LPTIM3EN"
definition LL_C2_APB2_GRP1_PERIPH_ADC :: u32 where
  [reg_mask]: "LL_C2_APB2_GRP1_PERIPH_ADC = RCC_C2APB2ENR_ADCEN"
definition LL_C2_APB2_GRP1_PERIPH_TIM1 :: u32 where
  [reg_mask]: "LL_C2_APB2_GRP1_PERIPH_TIM1 = RCC_C2APB2ENR_TIM1EN"
definition LL_C2_APB2_GRP1_PERIPH_SPI1 :: u32 where
  [reg_mask]: "LL_C2_APB2_GRP1_PERIPH_SPI1 = RCC_C2APB2ENR_SPI1EN"
definition LL_C2_APB2_GRP1_PERIPH_USART1 :: u32 where
  [reg_mask]: "LL_C2_APB2_GRP1_PERIPH_USART1 = RCC_C2APB2ENR_USART1EN"
definition LL_C2_APB2_GRP1_PERIPH_TIM16 :: u32 where
  [reg_mask]: "LL_C2_APB2_GRP1_PERIPH_TIM16 = RCC_C2APB2ENR_TIM16EN"
definition LL_C2_APB2_GRP1_PERIPH_TIM17 :: u32 where
  [reg_mask]: "LL_C2_APB2_GRP1_PERIPH_TIM17 = RCC_C2APB2ENR_TIM17EN"
definition LL_C2_APB3_GRP1_PERIPH_SUBGHZSPI :: u32 where
  [reg_mask]: "LL_C2_APB3_GRP1_PERIPH_SUBGHZSPI = RCC_C2APB3ENR_SUBGHZSPIEN"

section \<open>Accessors\<close>

definition LL_AHB1_GRP1_EnableClock :: "u32 \<Rightarrow> regs \<Rightarrow> regs" where
  [ll_def]: "LL_AHB1_GRP1_EnableClock Periphs r =
     (let r = SET_BIT RCC_AHB1ENR Periphs r; tmpreg = READ_BIT RCC_AHB1ENR Periphs r
      in r)"

definition LL_AHB1_GRP1_IsEnabledClock :: "u32 \<Rightarrow> regs \<Rightarrow> u32" where
  [ll_def]: "LL_AHB1_GRP1_IsEnabledClock Periphs r =
     (if READ_BIT RCC_AHB1ENR Periphs r = Periphs then 1 else 0)"

definition LL_AHB1_GRP1_DisableClock :: "u32 \<Rightarrow> regs \<Rightarrow> regs" where
  [ll_def]: "LL_AHB1_GRP1_DisableClock Periphs r = CLEAR_BIT RCC_AHB1ENR Periphs r"

definition LL_AHB1_GRP1_ForceReset :: "u32 \<Rightarrow> regs \<Rightarrow> regs" where
  [ll_def]: "LL_AHB1_GRP1_ForceReset Periphs r = SET_BIT RCC_AHB1RSTR Periphs r"

definition LL_AHB1_GRP1_ReleaseReset :: "u32 \<Rightarrow> regs \<Rightarrow> regs" where
  [ll_def]: "LL_AHB1_GRP1_ReleaseReset Periphs r = CLEAR_BIT RCC_AHB1RSTR Periphs r"

definition LL_AHB1_GRP1_EnableClockSleep :: "u32 \<Rightarrow> regs \<Rightarrow> regs" where
  [ll_def]: "LL_AHB1_GRP1_EnableClockSleep Periphs r =
     (let r = SET_BIT RCC_AHB1SMENR Periphs r; tmpreg = READ_BIT RCC_AHB1SMENR Periphs r
      in r)"

definition LL_AHB1_GRP1_IsEnabledClockSleep :: "u32 \<Rightarrow> regs \<Rightarrow> u32" where
  [ll_def]: "LL_AHB1_GRP1_IsEnabledClockSleep Periphs r =
     (if READ_BIT RCC_AHB1SMENR Periphs r = Periphs then 1 else 0)"

definition LL_AHB1_GRP1_DisableClockSleep :: "u32 \<Rightarrow> regs \<Rightarrow> regs" where
  [ll_def]: "LL_AHB1_GRP1_DisableClockSleep Periphs r = CLEAR_BIT RCC_AHB1SMENR Periphs r"

definition LL_AHB2_GRP1_EnableClock :: "u32 \<Rightarrow> regs \<Rightarrow> regs" where
  [ll_def]: "LL_AHB2_GRP1_EnableClock Periphs r =
     (let r = SET_BIT RCC_AHB2ENR Periphs r; tmpreg = READ_BIT RCC_AHB2ENR Periphs r
      in r)"

definition LL_AHB2_GRP1_IsEnabledClock :: "u32 \<Rightarrow> regs \<Rightarrow> u32" where
  [ll_def]: "LL_AHB2_GRP1_IsEnabledClock Periphs r =
     (if READ_BIT RCC_AHB2ENR Periphs r = Periphs then 1 else 0)"

definition LL_AHB2_GRP1_DisableClock :: "u32 \<Rightarrow> regs \<Rightarrow> regs" where
  [ll_def]: "LL_AHB2_GRP1_DisableClock Periphs r = CLEAR_BIT RCC_AHB2ENR Periphs r"

definition LL_AHB2_GRP1_ForceReset :: "u32 \<Rightarrow> regs \<Rightarrow> regs" where
  [ll_def]: "LL_AHB2_GRP1_ForceReset Periphs r = SET_BIT RCC_AHB2RSTR Periphs r"

definition LL_AHB2_GRP1_ReleaseReset :: "u32 \<Rightarrow> regs \<Rightarrow> regs" where
  [ll_def]: "LL_AHB2_GRP1_ReleaseReset Periphs r = CLEAR_BIT RCC_AHB2RSTR Periphs r"

definition LL_AHB2_GRP1_EnableClockSleep :: "u32 \<Rightarrow> regs \<Rightarrow> regs" where
  [ll_def]: "LL_AHB2_GRP1_EnableClockSleep Periphs r =
     (let r = SET_BIT RCC_AHB2SMENR Periphs r; tmpreg = READ_BIT RCC_AHB2SMENR Periphs r
      in r)"

definition LL_AHB2_GRP1_IsEnabledClockSleep :: "u32 \<Rightarrow> regs \<Rightarrow> u32" where
  [ll_def]: "LL_AHB2_GRP1_IsEnabledClockSleep Periphs r =
     (if READ_BIT RCC_AHB2SMENR Periphs r = Periphs then 1 else 0)"

definition LL_AHB2_GRP1_DisableClockSleep :: "u32 \<Rightarrow> regs \<Rightarrow> regs" where
  [ll_def]: "LL_AHB2_GRP1_DisableClockSleep Periphs r = CLEAR_BIT RCC_AHB2SMENR Periphs r"

definition LL_AHB3_GRP1_EnableClock :: "u32 \<Rightarrow> regs \<Rightarrow> regs" where
  [ll_def]: "LL_AHB3_GRP1_EnableClock Periphs r =
     (let r = SET_BIT RCC_AHB3ENR Periphs r; tmpreg = READ_BIT RCC_AHB3ENR Periphs r
      in r)"

definition LL_AHB3_GRP1_IsEnabledClock :: "u32 \<Rightarrow> regs \<Rightarrow> u32" where
  [ll_def]: "LL_AHB3_GRP1_IsEnabledClock Periphs r =
     (if READ_BIT RCC_AHB3ENR Periphs r = Periphs then 1 else 0)"

definition LL_AHB3_GRP1_DisableClock :: "u32 \<Rightarrow> regs \<Rightarrow> regs" where
  [ll_def]: "LL_AHB3_GRP1_DisableClock Periphs r = CLEAR_BIT RCC_AHB3ENR Periphs r"

definition LL_AHB3_GRP1_ForceReset :: "u32 \<Rightarrow> regs \<Rightarrow> regs" where
  [ll_def]: "LL_AHB3_GRP1_ForceReset Periphs r = SET_BIT RCC_AHB3RSTR Periphs r"

definition LL_AHB3_GRP1_ReleaseReset :: "u32 \<Rightarrow> regs \<Rightarrow> regs" where
  [ll_def]: "LL_AHB3_GRP1_ReleaseReset Periphs r = CLEAR_BIT RCC_AHB3RSTR Periphs r"

definition LL_AHB3_GRP1_EnableClockSleep :: "u32 \<Rightarrow> regs \<Rightarrow> regs" where
  [ll_def]: "LL_AHB3_GRP1_EnableClockSleep Periphs r =
     (let r = SET_BIT RCC_AHB3SMENR Periphs r; tmpreg = READ_BIT RCC_AHB3SMENR Periphs r
      in r)"

definition LL_AHB3_GRP1_IsEnabledClockSleep :: "u32 \<Rightarrow> regs \<Rightarrow> u32" where
  [ll_def]: "LL_AHB3_GRP1_IsEnabledClockSleep Periphs r =
     (if READ_BIT RCC_AHB3SMENR Periphs r = Periphs then 1 else 0)"

definition LL_AHB3_GRP1_DisableClockSleep :: "u32 \<Rightarrow> regs \<Rightarrow> regs" where
  [ll_def]: "LL_AHB3_GRP1_DisableClockSleep Periphs r = CLEAR_BIT RCC_AHB3SMENR Periphs r"

definition LL_APB1_GRP1_EnableClock :: "u32 \<Rightarrow> regs \<Rightarrow> regs" where
  [ll_def]: "LL_APB1_GRP1_EnableClock Periphs r =
     (let r = SET_BIT RCC_APB1ENR1 Periphs r; tmpreg = READ_BIT RCC_APB1ENR1 Periphs r
      in r)"

definition LL_APB1_GRP2_EnableClock :: "u32 \<Rightarrow> regs \<Rightarrow> regs" where
  [ll_def]: "LL_APB1_GRP2_EnableClock Periphs r =
     (let r = SET_BIT RCC_APB1ENR2 Periphs r; tmpreg = READ_BIT RCC_APB1ENR2 Periphs r
      in r)"

definition LL_APB1_GRP1_IsEnabledClock :: "u32 \<Rightarrow> regs \<Rightarrow> u32" where
  [ll_def]: "LL_APB1_GRP1_IsEnabledClock Periphs r =
     (if READ_BIT RCC_APB1ENR1 Periphs r = Periphs then 1 else 0)"

definition LL_APB1_GRP2_IsEnabledClock :: "u32 \<Rightarrow> regs \<Rightarrow> u32" where
  [ll_def]: "LL_APB1_GRP2_IsEnabledClock Periphs r =
     (if READ_BIT RCC_APB1ENR2 Periphs r = Periphs then 1 else 0)"

definition LL_APB1_GRP1_DisableClock :: "u32 \<Rightarrow> regs \<Rightarrow> regs" where
  [ll_def]: "LL_APB1_GRP1_DisableClock Periphs r = CLEAR_BIT RCC_APB1ENR1 Periphs r"

definition LL_APB1_GRP2_DisableClock :: "u32 \<Rightarrow> regs \<Rightarrow> regs" where
  [ll_def]: "LL_APB1_GRP2_DisableClock Periphs r = CLEAR_BIT RCC_APB1ENR2 Periphs r"

definition LL_APB1_GRP1_ForceReset :: "u32 \<Rightarrow> regs \<Rightarrow> regs" where
  [ll_def]: "LL_APB1_GRP1_ForceReset Periphs r = SET_BIT RCC_APB1RSTR1 Periphs r"

definition LL_APB1_GRP2_ForceReset :: "u32 \<Rightarrow> regs \<Rightarrow> regs" where
  [ll_def]: "LL_APB1_GRP2_ForceReset Periphs r = SET_BIT RCC_APB1RSTR2 Periphs r"

definition LL_APB1_GRP1_ReleaseReset :: "u32 \<Rightarrow> regs \<Rightarrow> regs" where
  [ll_def]: "LL_APB1_GRP1_ReleaseReset Periphs r = CLEAR_BIT RCC_APB1RSTR1 Periphs r"

definition LL_APB1_GRP2_ReleaseReset :: "u32 \<Rightarrow> regs \<Rightarrow> regs" where
  [ll_def]: "LL_APB1_GRP2_ReleaseReset Periphs r = CLEAR_BIT RCC_APB1RSTR2 Periphs r"

definition LL_APB1_GRP1_EnableClockSleep :: "u32 \<Rightarrow> regs \<Rightarrow> regs" where
  [ll_def]: "LL_APB1_GRP1_EnableClockSleep Periphs r =
     (let r = SET_BIT RCC_APB1SMENR1 Periphs r; tmpreg = READ_BIT RCC_APB1SMENR1 Periphs r
      in r)"

definition LL_APB1_GRP2_EnableClockSleep :: "u32 \<Rightarrow> regs \<Rightarrow> regs" where
  [ll_def]: "LL_APB1_GRP2_EnableClockSleep Periphs r =
     (let r = SET_BIT RCC_APB1SMENR2 Periphs r; tmpreg = READ_BIT RCC_APB1SMENR2 Periphs r
      in r)"

definition LL_APB1_GRP1_IsEnabledClockSleep :: "u32 \<Rightarrow> regs \<Rightarrow> u32" where
  [ll_def]: "LL_APB1_GRP1_IsEnabledClockSleep Periphs r =
     (if READ_BIT RCC_APB1SMENR1 Periphs r = Periphs then 1 else 0)"

definition LL_APB1_GRP2_IsEnabledClockSleep :: "u32 \<Rightarrow> regs \<Rightarrow> u32" where
  [ll_def]: "LL_APB1_GRP2_IsEnabledClockSleep Periphs r =
     (if READ_BIT RCC_APB1SMENR2 Periphs r = Periphs then 1 else 0)"

definition LL_APB1_GRP1_DisableClockSleep :: "u32 \<Rightarrow> regs \<Rightarrow> regs" where
  [ll_def]: "LL_APB1_GRP1_DisableClockSleep Periphs r = CLEAR_BIT RCC_APB1SMENR1 Periphs r"

definition LL_APB1_GRP2_DisableClockSleep :: "u32 \<Rightarrow> regs \<Rightarrow> regs" where
  [ll_def]: "LL_APB1_GRP2_DisableClockSleep Periphs r = CLEAR_BIT RCC_APB1SMENR2 Periphs r"

definition LL_APB2_GRP1_EnableClock :: "u32 \<Rightarrow> regs \<Rightarrow> regs" where
  [ll_def]: "LL_APB2_GRP1_EnableClock Periphs r =
     (let r = SET_BIT RCC_APB2ENR Periphs r; tmpreg = READ_BIT RCC_APB2ENR Periphs r
      in r)"

definition LL_APB2_GRP1_IsEnabledClock :: "u32 \<Rightarrow> regs \<Rightarrow> u32" where
  [ll_def]: "LL_APB2_GRP1_IsEnabledClock Periphs r = 1"

definition LL_APB2_GRP1_DisableClock :: "u32 \<Rightarrow> regs \<Rightarrow> regs" where
  [ll_def]: "LL_APB2_GRP1_DisableClock Periphs r = r"

definition LL_APB2_GRP1_ForceReset :: "u32 \<Rightarrow> regs \<Rightarrow> regs" where
  [ll_def]: "LL_APB2_GRP1_ForceReset Periphs r = r"

definition LL_APB2_GRP1_ReleaseReset :: "u32 \<Rightarrow> regs \<Rightarrow> regs" where
  [ll_def]: "LL_APB2_GRP1_ReleaseReset Periphs r = r"

definition LL_APB2_GRP1_EnableClockSleep :: "u32 \<Rightarrow> regs \<Rightarrow> regs" where
  [ll_def]: "LL_APB2_GRP1_EnableClockSleep Periphs r =
     (let r = SET_BIT RCC_APB2SMENR Periphs r; tmpreg = READ_BIT RCC_APB2SMENR Periphs r
      in r)"

definition LL_APB2_GRP1_IsEnabledClockSleep :: "u32 \<Rightarrow> regs \<Rightarrow> u32" where
  [ll_def]: "LL_APB2_GRP1_IsEnabledClockSleep Periphs r =
     (if READ_BIT RCC_APB2SMENR Periphs r = Periphs then 1 else 0)"

definition LL_APB2_GRP1_DisableClockSleep :: "u32 \<Rightarrow> regs \<Rightarrow> regs" where
  [ll_def]: "LL_APB2_GRP1_DisableClockSleep Periphs r = CLEAR_BIT RCC_APB2SMENR Periphs r"

definition LL_APB3_GRP1_EnableClock :: "u32 \<Rightarrow> regs \<Rightarrow> regs" where
  [ll_def]: "LL_APB3_GRP1_EnableClock Periphs r =
     (let r = SET_BIT RCC_APB3ENR Periphs r; tmpreg = READ_BIT RCC_APB3ENR Periphs r
      in r)"

definition LL_APB3_GRP1_IsEnabledClock :: "u32 \<Rightarrow> regs \<Rightarrow> u32" where
  [ll_def]: "LL_APB3_GRP1_IsEnabledClock Periphs r =
     (if READ_BIT RCC_APB3ENR Periphs r = Periphs then 1 else 0)"

definition LL_APB3_GRP1_DisableClock :: "u32 \<Rightarrow> regs \<Rightarrow> regs" where
  [ll_def]: "LL_APB3_GRP1_DisableClock Periphs r = CLEAR_BIT RCC_APB3ENR Periphs r"

definition LL_APB3_GRP1_ForceReset :: "u32 \<Rightarrow> regs \<Rightarrow> regs" where
  [ll_def]: "LL_APB3_GRP1_ForceReset Periphs r = SET_BIT RCC_APB3RSTR Periphs r"

definition LL_APB3_GRP1_ReleaseReset :: "u32 \<Rightarrow> regs \<Rightarrow> regs" where
  [ll_def]: "LL_APB3_GRP1_ReleaseReset Periphs r = CLEAR_BIT RCC_APB3RSTR Periphs r"

definition LL_APB3_GRP1_EnableClockSleep :: "u32 \<Rightarrow> regs \<Rightarrow> regs" where
  [ll_def]: "LL_APB3_GRP1_EnableClockSleep Periphs r =
     (let r = SET_BIT RCC_APB3SMENR Periphs r; tmpreg = READ_BIT RCC_APB3SMENR Periphs r
      in r)"

definition LL_APB3_GRP1_IsEnabledClockSleep :: "u32 \<Rightarrow> regs \<Rightarrow> u32" where
  [ll_def]: "LL_APB3_GRP1_IsEnabledClockSleep Periphs r =
     (if READ_BIT RCC_APB3SMENR Periphs r = Periphs then 1 else 0)"

definition LL_APB3_GRP1_DisableClockSleep :: "u32 \<Rightarrow> regs \<Rightarrow> regs" where
  [ll_def]: "LL_APB3_GRP1_DisableClockSleep Periphs r = CLEAR_BIT RCC_APB3SMENR Periphs r"

definition LL_C2_AHB1_GRP1_EnableClock :: "u32 \<Rightarrow> regs \<Rightarrow> regs" where
  [ll_def]: "LL_C2_AHB1_GRP1_EnableClock Periphs r =
     (let r = SET_BIT RCC_C2AHB1ENR Periphs r; tmpreg = READ_BIT RCC_C2AHB1ENR Periphs r
      in r)"

definition LL_C2_AHB1_GRP1_IsEnabledClock :: "u32 \<Rightarrow> regs \<Rightarrow> u32" where
  [ll_def]: "LL_C2_AHB1_GRP1_IsEnabledClock Periphs r =
     (if READ_BIT RCC_C2AHB1ENR Periphs r = Periphs then 1 else 0)"

definition LL_C2_AHB1_GRP1_DisableClock :: "u32 \<Rightarrow> regs \<Rightarrow> regs" where
  [ll_def]: "LL_C2_AHB1_GRP1_DisableClock Periphs r = CLEAR_BIT RCC_C2AHB1ENR Periphs r"

definition LL_C2_AHB1_GRP1_EnableClockSleep :: "u32 \<Rightarrow> regs \<Rightarrow> regs" where
  [ll_def]: "LL_C2_AHB1_GRP1_EnableClockSleep Periphs r =
     (let r = SET_BIT RCC_C2AHB1SMENR Periphs r; tmpreg = READ_BIT RCC_C2AHB1SMENR Periphs r
      in r)"

definition LL_C2_AHB1_GRP1_IsEnabledClockSleep :: "u32 \<Rightarrow> regs \<Rightarrow> u32" where
  [ll_def]: "LL_C2_AHB1_GRP1_IsEnabledClockSleep Periphs r =
     (if READ_BIT RCC_C2AHB1SMENR Periphs r = Periphs then 1 else 0)"

definition LL_C2_AHB1_GRP1_DisableClockSleep :: "u32 \<Rightarrow> regs \<Rightarrow> regs" where
  [ll_def]: "LL_C2_AHB1_GRP1_DisableClockSleep Periphs r = CLEAR_BIT RCC_C2AHB1SMENR Periphs r"

definition LL_C2_AHB2_GRP1_EnableClock :: "u32 \<Rightarrow> regs \<Rightarrow> regs" where
  [ll_def]: "LL_C2_AHB2_GRP1_EnableClock Periphs r =
     (let r = SET_BIT RCC_C2AHB2ENR Periphs r; tmpreg = READ_BIT RCC_C2AHB2ENR Periphs r
      in r)"

definition LL_C2_AHB2_GRP1_IsEnabledClock :: "u32 \<Rightarrow> regs \<Rightarrow> u32" where
  [ll_def]: "LL_C2_AHB2_GRP1_IsEnabledClock Periphs r =
     (if READ_BIT RCC_C2AHB2ENR Periphs r = Periphs then 1 else 0)"

definition LL_C2_AHB2_GRP1_DisableClock :: "u32 \<Rightarrow> regs \<Rightarrow> regs" where
  [ll_def]: "LL_C2_AHB2_GRP1_DisableClock Periphs r = CLEAR_BIT RCC_C2AHB2ENR Periphs r"

definition LL_C2_AHB2_GRP1_EnableClockSleep :: "u32 \<Rightarrow> regs \<Rightarrow> regs" where
  [ll_def]: "LL_C2_AHB2_GRP1_EnableClockSleep Periphs r =
     (let r = SET_BIT RCC_C2AHB2SMENR Periphs r; tmpreg = READ_BIT RCC_C2AHB2SMENR Periphs r
      in r)"

definition LL_C2_AHB2_GRP1_IsEnabledClockSleep :: "u32 \<Rightarrow> regs \<Rightarrow> u32" where
  [ll_def]: "LL_C2_AHB2_GRP1_IsEnabledClockSleep Periphs r =
     (if READ_BIT RCC_C2AHB2SMENR Periphs r = Periphs then 1 else 0)"

definition LL_C2_AHB2_GRP1_DisableClockSleep :: "u32 \<Rightarrow> regs \<Rightarrow> regs" where
  [ll_def]: "LL_C2_AHB2_GRP1_DisableClockSleep Periphs r = CLEAR_BIT RCC_C2AHB2SMENR Periphs r"

definition LL_C2_AHB3_GRP1_EnableClock :: "u32 \<Rightarrow> regs \<Rightarrow> regs" where
  [ll_def]: "LL_C2_AHB3_GRP1_EnableClock Periphs r =
     (let r = SET_BIT RCC_C2AHB3ENR Periphs r; tmpreg = READ_BIT RCC_C2AHB3ENR Periphs r
      in r)"

definition LL_C2_AHB3_GRP1_IsEnabledClock :: "u32 \<Rightarrow> regs \<Rightarrow> u32" where
  [ll_def]: "LL_C2_AHB3_GRP1_IsEnabledClock Periphs r =
     (if READ_BIT RCC_C2AHB3ENR Periphs r = Periphs then 1 else 0)"

definition LL_C2_AHB3_GRP1_DisableClock :: "u32 \<Rightarrow> regs \<Rightarrow> regs" where
  [ll_def]: "LL_C2_AHB3_GRP1_DisableClock Periphs r = CLEAR_BIT RCC_C2AHB3ENR Periphs r"

definition LL_C2_AHB3_GRP1_EnableClockSleep :: "u32 \<Rightarrow> regs \<Rightarrow> regs" where
  [ll_def]: "LL_C2_AHB3_GRP1_EnableClockSleep Periphs r =
     (let r = SET_BIT RCC_C2AHB3SMENR Periphs r; tmpreg = READ_BIT RCC_C2AHB3SMENR Periphs r
      in r)"

definition LL_C2_AHB3_GRP1_IsEnabledClockSleep :: "u32 \<Rightarrow> regs \<Rightarrow> u32" where
  [ll_def]: "LL_C2_AHB3_GRP1_IsEnabledClockSleep Periphs r =
     (if READ_BIT RCC_C2AHB3SMENR Periphs r = Periphs then 1 else 0)"

definition LL_C2_AHB3_GRP1_DisableClockSleep :: "u32 \<Rightarrow> regs \<Rightarrow> regs" where
  [ll_def]: "LL_C2_AHB3_GRP1_DisableClockSleep Periphs r = CLEAR_BIT RCC_C2AHB3SMENR Periphs r"

definition LL_C2_APB1_GRP1_EnableClock :: "u32 \<Rightarrow> regs \<Rightarrow> regs" where
  [ll_def]: "LL_C2_APB1_GRP1_EnableClock Periphs r =
     (let r = SET_BIT RCC_C2APB1ENR1 Periphs r; tmpreg = READ_BIT RCC_C2APB1ENR1 Periphs r
      in r)"

definition LL_C2_APB1_GRP2_EnableClock :: "u32 \<Rightarrow> regs \<Rightarrow> regs" where
  [ll_def]: "LL_C2_APB1_GRP2_EnableClock Periphs r =
     (let r = SET_BIT RCC_C2APB1ENR2 Periphs r; tmpreg = READ_BIT RCC_C2APB1ENR2 Periphs r
      in r)"

definition LL_C2_APB1_GRP1_IsEnabledClock :: "u32 \<Rightarrow> regs \<Rightarrow> u32" where
  [ll_def]: "LL_C2_APB1_GRP1_IsEnabledClock Periphs r =
     (if READ_BIT RCC_C2APB1ENR1 Periphs r = Periphs then 1 else 0)"

definition LL_C2_APB1_GRP2_IsEnabledClock :: "u32 \<Rightarrow> regs \<Rightarrow> u32" where
  [ll_def]: "LL_C2_APB1_GRP2_IsEnabledClock Periphs r =
     (if READ_BIT RCC_C2APB1ENR2 Periphs r = Periphs then 1 else 0)"

definition LL_C2_APB1_GRP1_DisableClock :: "u32 \<Rightarrow> regs \<Rightarrow> regs" where
  [ll_def]: "LL_C2_APB1_GRP1_DisableClock Periphs r = CLEAR_BIT RCC_C2APB1ENR1 Periphs r"

definition LL_C2_APB1_GRP2_DisableClock :: "u32 \<Rightarrow> regs \<Rightarrow> regs" where
  [ll_def]: "LL_C2_APB1_GRP2_DisableClock Periphs r = CLEAR_BIT RCC_C2APB1ENR2 Periphs r"

definition LL_C2_APB1_GRP1_EnableClockSleep :: "u32 \<Rightarrow> regs \<Rightarrow> regs" where
  [ll_def]: "LL_C2_APB1_GRP1_EnableClockSleep Periphs r =
     (let r = SET_BIT RCC_C2APB1SMENR1 Periphs r; tmpreg = READ_BIT RCC_C2APB1SMENR1 Periphs r
      in r)"

definition LL_C2_APB1_GRP2_EnableClockSleep :: "u32 \<Rightarrow> regs \<Rightarrow> regs" where
  [ll_def]: "LL_C2_APB1_GRP2_EnableClockSleep Periphs r =
     (let r = SET_BIT RCC_C2APB1SMENR2 Periphs r; tmpreg = READ_BIT RCC_C2APB1SMENR2 Periphs r
      in r)"

definition LL_C2_APB1_GRP1_IsEnabledClockSleep :: "u32 \<Rightarrow> regs \<Rightarrow> u32" where
  [ll_def]: "LL_C2_APB1_GRP1_IsEnabledClockSleep Periphs r =
     (if READ_BIT RCC_C2APB1SMENR1 Periphs r = Periphs then 1 else 0)"

definition LL_C2_APB1_GRP2_IsEnabledClockSleep :: "u32 \<Rightarrow> regs \<Rightarrow> u32" where
  [ll_def]: "LL_C2_APB1_GRP2_IsEnabledClockSleep Periphs r =
     (if READ_BIT RCC_C2APB1SMENR2 Periphs r = Periphs then 1 else 0)"

definition LL_C2_APB1_GRP1_DisableClockSleep :: "u32 \<Rightarrow> regs \<Rightarrow> regs" where
  [ll_def]: "LL_C2_APB1_GRP1_DisableClockSleep Periphs r = CLEAR_BIT RCC_C2APB1SMENR1 Periphs r"

definition LL_C2_APB1_GRP2_DisableClockSleep :: "u32 \<Rightarrow> regs \<Rightarrow> regs" where
  [ll_def]: "LL_C2_APB1_GRP2_DisableClockSleep Periphs r = CLEAR_BIT RCC_C2APB1SMENR2 Periphs r"

definition LL_C2_APB2_GRP1_EnableClock :: "u32 \<Rightarrow> regs \<Rightarrow> regs" where
  [ll_def]: "LL_C2_APB2_GRP1_EnableClock Periphs r =
     (let r = SET_BIT RCC_C2APB2ENR Periphs r; tmpreg = READ_BIT RCC_C2APB2ENR Periphs r
      in r)"

definition LL_C2_APB2_GRP1_IsEnabledClock :: "u32 \<Rightarrow> regs \<Rightarrow> u32" where
  [ll_def]: "LL_C2_APB2_GRP1_IsEnabledClock Periphs r =
     (if READ_BIT RCC_C2APB2ENR Periphs r = Periphs then 1 else 0)"

definition LL_C2_APB2_GRP1_DisableClock :: "u32 \<Rightarrow> regs \<Rightarrow> regs" where
  [ll_def]: "LL_C2_APB2_GRP1_DisableClock Periphs r = CLEAR_BIT RCC_C2APB2ENR Periphs r"

definition LL_C2_APB2_GRP1_EnableClockSleep :: "u32 \<Rightarrow> regs \<Rightarrow> regs" where
  [ll_def]: "LL_C2_APB2_GRP1_EnableClockSleep Periphs r =
     (let r = SET_BIT RCC_C2APB2SMENR Periphs r; tmpreg = READ_BIT RCC_C2APB2SMENR Periphs r
      in r)"

definition LL_C2_APB2_GRP1_IsEnabledClockSleep :: "u32 \<Rightarrow> regs \<Rightarrow> u32" where
  [ll_def]: "LL_C2_APB2_GRP1_IsEnabledClockSleep Periphs r =
     (if READ_BIT RCC_C2APB2SMENR Periphs r = Periphs then 1 else 0)"

definition LL_C2_APB2_GRP1_DisableClockSleep :: "u32 \<Rightarrow> regs \<Rightarrow> regs" where
  [ll_def]: "LL_C2_APB2_GRP1_DisableClockSleep Periphs r = CLEAR_BIT RCC_C2APB2SMENR Periphs r"

definition LL_C2_APB3_GRP1_EnableClock :: "u32 \<Rightarrow> regs \<Rightarrow> regs" where
  [ll_def]: "LL_C2_APB3_GRP1_EnableClock Periphs r =
     (let r = SET_BIT RCC_C2APB3ENR Periphs r; tmpreg = READ_BIT RCC_C2APB3ENR Periphs r
      in r)"

definition LL_C2_APB3_GRP1_IsEnabledClock :: "u32 \<Rightarrow> regs \<Rightarrow> u32" where
  [ll_def]: "LL_C2_APB3_GRP1_IsEnabledClock Periphs r =
     (if READ_BIT RCC_C2APB3ENR Periphs r = Periphs then 1 else 0)"

definition LL_C2_APB3_GRP1_DisableClock :: "u32 \<Rightarrow> regs \<Rightarrow> regs" where
  [ll_def]: "LL_C2_APB3_GRP1_DisableClock Periphs r = CLEAR_BIT RCC_C2APB3ENR Periphs r"

definition LL_C2_APB3_GRP1_EnableClockSleep :: "u32 \<Rightarrow> regs \<Rightarrow> regs" where
  [ll_def]: "LL_C2_APB3_GRP1_EnableClockSleep Periphs r =
     (let r = SET_BIT RCC_C2APB3SMENR Periphs r; tmpreg = READ_BIT RCC_C2APB3SMENR Periphs r
      in r)"

definition LL_C2_APB3_GRP1_IsEnabledClockSleep :: "u32 \<Rightarrow> regs \<Rightarrow> u32" where
  [ll_def]: "LL_C2_APB3_GRP1_IsEnabledClockSleep Periphs r =
     (if READ_BIT RCC_C2APB3SMENR Periphs r = Periphs then 1 else 0)"

definition LL_C2_APB3_GRP1_DisableClockSleep :: "u32 \<Rightarrow> regs \<Rightarrow> regs" where
  [ll_def]: "LL_C2_APB3_GRP1_DisableClockSleep Periphs r = CLEAR_BIT RCC_C2APB3SMENR Periphs r"

section \<open>Clock gates\<close>

text \<open>
  The gates with their accessors. The run-mode gate \<^verbatim>\<open>LL_APB2_GRP1\<close> is not among them: its disabling
  function does nothing and its test always answers 1, so it does not have the contract of a gate.
\<close>

definition clock_gates :: "gate list" where
  "clock_gates =
    [\<lparr>gate_reg = RCC_AHB1ENR, gate_enable = LL_AHB1_GRP1_EnableClock,
       gate_disable = LL_AHB1_GRP1_DisableClock, gate_test = LL_AHB1_GRP1_IsEnabledClock\<rparr>,
     \<lparr>gate_reg = RCC_AHB1SMENR, gate_enable = LL_AHB1_GRP1_EnableClockSleep,
       gate_disable = LL_AHB1_GRP1_DisableClockSleep, gate_test = LL_AHB1_GRP1_IsEnabledClockSleep\<rparr>,
     \<lparr>gate_reg = RCC_AHB2ENR, gate_enable = LL_AHB2_GRP1_EnableClock,
       gate_disable = LL_AHB2_GRP1_DisableClock, gate_test = LL_AHB2_GRP1_IsEnabledClock\<rparr>,
     \<lparr>gate_reg = RCC_AHB2SMENR, gate_enable = LL_AHB2_GRP1_EnableClockSleep,
       gate_disable = LL_AHB2_GRP1_DisableClockSleep, gate_test = LL_AHB2_GRP1_IsEnabledClockSleep\<rparr>,
     \<lparr>gate_reg = RCC_AHB3ENR, gate_enable = LL_AHB3_GRP1_EnableClock,
       gate_disable = LL_AHB3_GRP1_DisableClock, gate_test = LL_AHB3_GRP1_IsEnabledClock\<rparr>,
     \<lparr>gate_reg = RCC_AHB3SMENR, gate_enable = LL_AHB3_GRP1_EnableClockSleep,
       gate_disable = LL_AHB3_GRP1_DisableClockSleep, gate_test = LL_AHB3_GRP1_IsEnabledClockSleep\<rparr>,
     \<lparr>gate_reg = RCC_APB1ENR1, gate_enable = LL_APB1_GRP1_EnableClock,
       gate_disable = LL_APB1_GRP1_DisableClock, gate_test = LL_APB1_GRP1_IsEnabledClock\<rparr>,
     \<lparr>gate_reg = RCC_APB1SMENR1, gate_enable = LL_APB1_GRP1_EnableClockSleep,
       gate_disable = LL_APB1_GRP1_DisableClockSleep, gate_test = LL_APB1_GRP1_IsEnabledClockSleep\<rparr>,
     \<lparr>gate_reg = RCC_APB1ENR2, gate_enable = LL_APB1_GRP2_EnableClock,
       gate_disable = LL_APB1_GRP2_DisableClock, gate_test = LL_APB1_GRP2_IsEnabledClock\<rparr>,
     \<lparr>gate_reg = RCC_APB1SMENR2, gate_enable = LL_APB1_GRP2_EnableClockSleep,
       gate_disable = LL_APB1_GRP2_DisableClockSleep, gate_test = LL_APB1_GRP2_IsEnabledClockSleep\<rparr>,
     \<lparr>gate_reg = RCC_APB2SMENR, gate_enable = LL_APB2_GRP1_EnableClockSleep,
       gate_disable = LL_APB2_GRP1_DisableClockSleep, gate_test = LL_APB2_GRP1_IsEnabledClockSleep\<rparr>,
     \<lparr>gate_reg = RCC_APB3ENR, gate_enable = LL_APB3_GRP1_EnableClock,
       gate_disable = LL_APB3_GRP1_DisableClock, gate_test = LL_APB3_GRP1_IsEnabledClock\<rparr>,
     \<lparr>gate_reg = RCC_APB3SMENR, gate_enable = LL_APB3_GRP1_EnableClockSleep,
       gate_disable = LL_APB3_GRP1_DisableClockSleep, gate_test = LL_APB3_GRP1_IsEnabledClockSleep\<rparr>,
     \<lparr>gate_reg = RCC_C2AHB1ENR, gate_enable = LL_C2_AHB1_GRP1_EnableClock,
       gate_disable = LL_C2_AHB1_GRP1_DisableClock, gate_test = LL_C2_AHB1_GRP1_IsEnabledClock\<rparr>,
     \<lparr>gate_reg = RCC_C2AHB1SMENR, gate_enable = LL_C2_AHB1_GRP1_EnableClockSleep,
       gate_disable = LL_C2_AHB1_GRP1_DisableClockSleep, gate_test = LL_C2_AHB1_GRP1_IsEnabledClockSleep\<rparr>,
     \<lparr>gate_reg = RCC_C2AHB2ENR, gate_enable = LL_C2_AHB2_GRP1_EnableClock,
       gate_disable = LL_C2_AHB2_GRP1_DisableClock, gate_test = LL_C2_AHB2_GRP1_IsEnabledClock\<rparr>,
     \<lparr>gate_reg = RCC_C2AHB2SMENR, gate_enable = LL_C2_AHB2_GRP1_EnableClockSleep,
       gate_disable = LL_C2_AHB2_GRP1_DisableClockSleep, gate_test = LL_C2_AHB2_GRP1_IsEnabledClockSleep\<rparr>,
     \<lparr>gate_reg = RCC_C2AHB3ENR, gate_enable = LL_C2_AHB3_GRP1_EnableClock,
       gate_disable = LL_C2_AHB3_GRP1_DisableClock, gate_test = LL_C2_AHB3_GRP1_IsEnabledClock\<rparr>,
     \<lparr>gate_reg = RCC_C2AHB3SMENR, gate_enable = LL_C2_AHB3_GRP1_EnableClockSleep,
       gate_disable = LL_C2_AHB3_GRP1_DisableClockSleep, gate_test = LL_C2_AHB3_GRP1_IsEnabledClockSleep\<rparr>,
     \<lparr>gate_reg = RCC_C2APB1ENR1, gate_enable = LL_C2_APB1_GRP1_EnableClock,
       gate_disable = LL_C2_APB1_GRP1_DisableClock, gate_test = LL_C2_APB1_GRP1_IsEnabledClock\<rparr>,
     \<lparr>gate_reg = RCC_C2APB1SMENR1, gate_enable = LL_C2_APB1_GRP1_EnableClockSleep,
       gate_disable = LL_C2_APB1_GRP1_DisableClockSleep, gate_test = LL_C2_APB1_GRP1_IsEnabledClockSleep\<rparr>,
     \<lparr>gate_reg = RCC_C2APB1ENR2, gate_enable = LL_C2_APB1_GRP2_EnableClock,
       gate_disable = LL_C2_APB1_GRP2_DisableClock, gate_test = LL_C2_APB1_GRP2_IsEnabledClock\<rparr>,
     \<lparr>gate_reg = RCC_C2APB1SMENR2, gate_enable = LL_C2_APB1_GRP2_EnableClockSleep,
       gate_disable = LL_C2_APB1_GRP2_DisableClockSleep, gate_test = LL_C2_APB1_GRP2_IsEnabledClockSleep\<rparr>,
     \<lparr>gate_reg = RCC_C2APB2ENR, gate_enable = LL_C2_APB2_GRP1_EnableClock,
       gate_disable = LL_C2_APB2_GRP1_DisableClock, gate_test = LL_C2_APB2_GRP1_IsEnabledClock\<rparr>,
     \<lparr>gate_reg = RCC_C2APB2SMENR, gate_enable = LL_C2_APB2_GRP1_EnableClockSleep,
       gate_disable = LL_C2_APB2_GRP1_DisableClockSleep, gate_test = LL_C2_APB2_GRP1_IsEnabledClockSleep\<rparr>,
     \<lparr>gate_reg = RCC_C2APB3ENR, gate_enable = LL_C2_APB3_GRP1_EnableClock,
       gate_disable = LL_C2_APB3_GRP1_DisableClock, gate_test = LL_C2_APB3_GRP1_IsEnabledClock\<rparr>,
     \<lparr>gate_reg = RCC_C2APB3SMENR, gate_enable = LL_C2_APB3_GRP1_EnableClockSleep,
       gate_disable = LL_C2_APB3_GRP1_DisableClockSleep, gate_test = LL_C2_APB3_GRP1_IsEnabledClockSleep\<rparr>]"

text \<open>
  The functions only pass their argument on, so a gate's accessors are the macros on its
  register.
\<close>

lemma clock_gates_plain: "\<forall>g \<in> set clock_gates. plain_gate g"
  by (simp add: clock_gates_def plain_gate_def ll_def Let_def fun_eq_iff)

lemma clock_gates_distinct: "distinct (map gate_reg clock_gates)"
  by (simp add: clock_gates_def reg_addr)

interpretation clocks: gate_bank clock_gates
  by unfold_locales (rule clock_gates_plain clock_gates_distinct)+

text \<open>The gate the simulator replaces, and that it does not reach the others.\<close>

lemma APB2_clock_apart:
  assumes "g \<in> set clock_gates"
  shows "gate_test g m (LL_APB2_GRP1_EnableClock Periphs r) = gate_test g m r"
  using assms by (auto simp: clock_gates_def ll_def reg_access reg_addr Let_def)

text \<open>
  C14: The clock gates are independent sets of peripherals. Call the enabling and disabling functions of the clock
  gates of the buses, for both cores and both power modes, in any order with any arguments: afterwards the test of a gate
  answers 1 exactly when every peripheral asked for is in the set that results from
  the gate's own calls, by adding what was enabled and taking away what was disabled. The one exception is the
  run-mode gate of the second APB bus (\<^verbatim>\<open>LL_APB2_GRP1\<close>), which is not among these gates: its test
  always answers 1 and disabling leaves every register as it was; enabling adds to the set in its register and
  changes the test of no other gate.
\<close>

theorem clock_gates_are_sets:
  assumes "i < length clock_gates" and "\<forall>x \<in> set xs. fst x < length clock_gates"
  shows "gate_test (clock_gates ! i) m (fold (gate_call clock_gates) xs r) =
      (if bits m \<subseteq> fold line_effect (own_calls i xs) (bits (r (gate_reg (clock_gates ! i)))) then 1 else 0) \<and>
    LL_APB2_GRP1_IsEnabledClock Periphs r = 1 \<and> LL_APB2_GRP1_DisableClock Periphs r = r \<and>
    bits (LL_APB2_GRP1_EnableClock Periphs r RCC_APB2ENR) = bits (r RCC_APB2ENR) \<union> bits Periphs \<and>
    gate_test (clock_gates ! i) m (LL_APB2_GRP1_EnableClock Periphs r) = gate_test (clock_gates ! i) m r"
  using clocks.bank_test [OF assms] APB2_clock_apart [OF nth_mem [OF assms(1)]]
  by (simp add: ll_def reg_access Let_def)

theorem clock_gates_are_sets_witness:
  "gate_test (clock_gates ! 2) 3
     (fold (gate_call clock_gates) [(2, Enable 7), (0, Disable 1), (2, Disable 4)] (\<lambda>_. 0)) = 1"
  using clock_gates_are_sets [of 2 "[(2, Enable 7), (0, Disable 1), (2, Disable 4)]" 3 "\<lambda>_. 0" 0]
  by (simp add: clock_gates_def bits_eval del: bits_and bits_or)

section \<open>Reset lines\<close>

text \<open>A reset that is forced and released leaves every other peripheral's line as it was.\<close>

theorem reset_pulse:
  "bits (LL_AHB1_GRP1_ReleaseReset p (LL_AHB1_GRP1_ForceReset p r) RCC_AHB1RSTR) = bits (r RCC_AHB1RSTR) - bits p"
  "bits (LL_APB1_GRP1_ReleaseReset p (LL_APB1_GRP1_ForceReset p r) RCC_APB1RSTR1) = bits (r RCC_APB1RSTR1) - bits p"
  "LL_APB2_GRP1_ReleaseReset p (LL_APB2_GRP1_ForceReset p r) = r"
  by (auto simp: ll_def reg_access bits_not bits_less)

end
