(* ===== verification/Hal_Rcc.thy ===== *)
theory Hal_Rcc
  imports Ll_Rcc Ll_Bus Ll_Exti Hal_Stubs
begin

text \<open>
  The clock macros of the HAL as the simulator has them (\<^verbatim>\<open>stm32wlxx_hal_rcc.h\<close>, \<^verbatim>\<open>stm32wlxx_hal_rcc_ex.h\<close>)
  with their stubs in \<^verbatim>\<open>hal_stubs/stm32wlxx_hal_rcc.c\<close>. The macros for run mode and most resets are
  replaced by \<^verbatim>\<open>sim_nop()\<close>; those for sleep mode, oscillators, the PLL and the clock sources expand to the accessors
  below them or write registers. They are shown to be independent switches and settings, and the oscillator
  configurations to reach the states they name.
\<close>

section \<open>Constants\<close>

definition RCC_HSE_OFF :: u32 where [reg_mask]: "RCC_HSE_OFF = 0x00000000"
definition RCC_HSE_ON :: u32 where [reg_mask]: "RCC_HSE_ON = RCC_CR_HSEON"
definition RCC_HSE_BYPASS_PWR :: u32 where [reg_mask]: "RCC_HSE_BYPASS_PWR = RCC_CR_HSEBYPPWR OR RCC_CR_HSEON"
definition RCC_LSE_OFF :: u32 where [reg_mask]: "RCC_LSE_OFF = 0"
definition RCC_LSE_ON_RTC_ONLY :: u32 where [reg_mask]: "RCC_LSE_ON_RTC_ONLY = RCC_BDCR_LSEON"
definition RCC_LSE_ON :: u32 where [reg_mask]: "RCC_LSE_ON = RCC_BDCR_LSESYSEN OR RCC_BDCR_LSEON"
definition RCC_LSE_BYPASS_RTC_ONLY :: u32 where
  [reg_mask]: "RCC_LSE_BYPASS_RTC_ONLY = RCC_BDCR_LSEBYP OR RCC_BDCR_LSEON"
definition RCC_LSE_BYPASS :: u32 where
  [reg_mask]: "RCC_LSE_BYPASS = RCC_BDCR_LSEBYP OR RCC_BDCR_LSESYSEN OR RCC_BDCR_LSEON"
definition RCC_PLLM_DIV2 :: u32 where [reg_mask]: "RCC_PLLM_DIV2 = LL_RCC_PLLM_DIV_2"
definition RCC_PLLP_DIV4 :: u32 where [reg_mask]: "RCC_PLLP_DIV4 = LL_RCC_PLLP_DIV_4"
definition RCC_PLLQ_DIV4 :: u32 where [reg_mask]: "RCC_PLLQ_DIV4 = LL_RCC_PLLQ_DIV_4"
definition RCC_PLLR_DIV4 :: u32 where [reg_mask]: "RCC_PLLR_DIV4 = LL_RCC_PLLR_DIV_4"
definition RCC_PLLSOURCE_HSE :: u32 where [reg_mask]: "RCC_PLLSOURCE_HSE = LL_RCC_PLLSOURCE_HSE"
definition RCC_PLL_SYSCLK :: u32 where [reg_mask]: "RCC_PLL_SYSCLK = RCC_PLLCFGR_PLLREN"
definition RCC_PLL_RNGCLK :: u32 where [reg_mask]: "RCC_PLL_RNGCLK = RCC_PLLCFGR_PLLQEN"
definition RCC_PLL_ADCCLK :: u32 where [reg_mask]: "RCC_PLL_ADCCLK = RCC_PLLCFGR_PLLPEN"
definition RCC_MSIRANGE_11 :: u32 where [reg_mask]: "RCC_MSIRANGE_11 = LL_RCC_MSIRANGE_11"
definition RCC_USART1CLKSOURCE_PCLK2 :: u32 where
  [reg_mask]: "RCC_USART1CLKSOURCE_PCLK2 = LL_RCC_USART1_CLKSOURCE_PCLK2"
definition RCC_USART1CLKSOURCE_SYSCLK :: u32 where
  [reg_mask]: "RCC_USART1CLKSOURCE_SYSCLK = LL_RCC_USART1_CLKSOURCE_SYSCLK"
definition RCC_USART1CLKSOURCE_HSI :: u32 where
  [reg_mask]: "RCC_USART1CLKSOURCE_HSI = LL_RCC_USART1_CLKSOURCE_HSI"
definition RCC_USART1CLKSOURCE_LSE :: u32 where
  [reg_mask]: "RCC_USART1CLKSOURCE_LSE = LL_RCC_USART1_CLKSOURCE_LSE"
definition RCC_USART2CLKSOURCE_PCLK1 :: u32 where
  [reg_mask]: "RCC_USART2CLKSOURCE_PCLK1 = LL_RCC_USART2_CLKSOURCE_PCLK1"
definition RCC_USART2CLKSOURCE_SYSCLK :: u32 where
  [reg_mask]: "RCC_USART2CLKSOURCE_SYSCLK = LL_RCC_USART2_CLKSOURCE_SYSCLK"
definition RCC_USART2CLKSOURCE_HSI :: u32 where
  [reg_mask]: "RCC_USART2CLKSOURCE_HSI = LL_RCC_USART2_CLKSOURCE_HSI"
definition RCC_USART2CLKSOURCE_LSE :: u32 where
  [reg_mask]: "RCC_USART2CLKSOURCE_LSE = LL_RCC_USART2_CLKSOURCE_LSE"
definition RCC_I2S2CLKSOURCE_PLL :: u32 where [reg_mask]: "RCC_I2S2CLKSOURCE_PLL = LL_RCC_I2S2_CLKSOURCE_PLL"
definition RCC_I2S2CLKSOURCE_HSI :: u32 where [reg_mask]: "RCC_I2S2CLKSOURCE_HSI = LL_RCC_I2S2_CLKSOURCE_HSI"
definition RCC_I2S2CLKSOURCE_PIN :: u32 where [reg_mask]: "RCC_I2S2CLKSOURCE_PIN = LL_RCC_I2S2_CLKSOURCE_PIN"
definition RCC_LPUART1CLKSOURCE_PCLK1 :: u32 where
  [reg_mask]: "RCC_LPUART1CLKSOURCE_PCLK1 = LL_RCC_LPUART1_CLKSOURCE_PCLK1"
definition RCC_LPUART1CLKSOURCE_SYSCLK :: u32 where
  [reg_mask]: "RCC_LPUART1CLKSOURCE_SYSCLK = LL_RCC_LPUART1_CLKSOURCE_SYSCLK"
definition RCC_LPUART1CLKSOURCE_HSI :: u32 where
  [reg_mask]: "RCC_LPUART1CLKSOURCE_HSI = LL_RCC_LPUART1_CLKSOURCE_HSI"
definition RCC_LPUART1CLKSOURCE_LSE :: u32 where
  [reg_mask]: "RCC_LPUART1CLKSOURCE_LSE = LL_RCC_LPUART1_CLKSOURCE_LSE"
definition RCC_I2C1CLKSOURCE_PCLK1 :: u32 where
  [reg_mask]: "RCC_I2C1CLKSOURCE_PCLK1 = LL_RCC_I2C1_CLKSOURCE_PCLK1"
definition RCC_I2C1CLKSOURCE_SYSCLK :: u32 where
  [reg_mask]: "RCC_I2C1CLKSOURCE_SYSCLK = LL_RCC_I2C1_CLKSOURCE_SYSCLK"
definition RCC_I2C1CLKSOURCE_HSI :: u32 where [reg_mask]: "RCC_I2C1CLKSOURCE_HSI = LL_RCC_I2C1_CLKSOURCE_HSI"
definition RCC_I2C2CLKSOURCE_PCLK1 :: u32 where
  [reg_mask]: "RCC_I2C2CLKSOURCE_PCLK1 = LL_RCC_I2C2_CLKSOURCE_PCLK1"
definition RCC_I2C2CLKSOURCE_SYSCLK :: u32 where
  [reg_mask]: "RCC_I2C2CLKSOURCE_SYSCLK = LL_RCC_I2C2_CLKSOURCE_SYSCLK"
definition RCC_I2C2CLKSOURCE_HSI :: u32 where [reg_mask]: "RCC_I2C2CLKSOURCE_HSI = LL_RCC_I2C2_CLKSOURCE_HSI"
definition RCC_I2C3CLKSOURCE_PCLK1 :: u32 where
  [reg_mask]: "RCC_I2C3CLKSOURCE_PCLK1 = LL_RCC_I2C3_CLKSOURCE_PCLK1"
definition RCC_I2C3CLKSOURCE_SYSCLK :: u32 where
  [reg_mask]: "RCC_I2C3CLKSOURCE_SYSCLK = LL_RCC_I2C3_CLKSOURCE_SYSCLK"
definition RCC_I2C3CLKSOURCE_HSI :: u32 where [reg_mask]: "RCC_I2C3CLKSOURCE_HSI = LL_RCC_I2C3_CLKSOURCE_HSI"
definition RCC_LPTIM1CLKSOURCE_PCLK1 :: u32 where
  [reg_mask]: "RCC_LPTIM1CLKSOURCE_PCLK1 = LL_RCC_LPTIM1_CLKSOURCE_PCLK1"
definition RCC_LPTIM1CLKSOURCE_LSI :: u32 where
  [reg_mask]: "RCC_LPTIM1CLKSOURCE_LSI = LL_RCC_LPTIM1_CLKSOURCE_LSI"
definition RCC_LPTIM1CLKSOURCE_HSI :: u32 where
  [reg_mask]: "RCC_LPTIM1CLKSOURCE_HSI = LL_RCC_LPTIM1_CLKSOURCE_HSI"
definition RCC_LPTIM1CLKSOURCE_LSE :: u32 where
  [reg_mask]: "RCC_LPTIM1CLKSOURCE_LSE = LL_RCC_LPTIM1_CLKSOURCE_LSE"
definition RCC_LPTIM2CLKSOURCE_PCLK1 :: u32 where
  [reg_mask]: "RCC_LPTIM2CLKSOURCE_PCLK1 = LL_RCC_LPTIM2_CLKSOURCE_PCLK1"
definition RCC_LPTIM2CLKSOURCE_LSI :: u32 where
  [reg_mask]: "RCC_LPTIM2CLKSOURCE_LSI = LL_RCC_LPTIM2_CLKSOURCE_LSI"
definition RCC_LPTIM2CLKSOURCE_HSI :: u32 where
  [reg_mask]: "RCC_LPTIM2CLKSOURCE_HSI = LL_RCC_LPTIM2_CLKSOURCE_HSI"
definition RCC_LPTIM2CLKSOURCE_LSE :: u32 where
  [reg_mask]: "RCC_LPTIM2CLKSOURCE_LSE = LL_RCC_LPTIM2_CLKSOURCE_LSE"
definition RCC_LPTIM3CLKSOURCE_PCLK1 :: u32 where
  [reg_mask]: "RCC_LPTIM3CLKSOURCE_PCLK1 = LL_RCC_LPTIM3_CLKSOURCE_PCLK1"
definition RCC_LPTIM3CLKSOURCE_LSI :: u32 where
  [reg_mask]: "RCC_LPTIM3CLKSOURCE_LSI = LL_RCC_LPTIM3_CLKSOURCE_LSI"
definition RCC_LPTIM3CLKSOURCE_HSI :: u32 where
  [reg_mask]: "RCC_LPTIM3CLKSOURCE_HSI = LL_RCC_LPTIM3_CLKSOURCE_HSI"
definition RCC_LPTIM3CLKSOURCE_LSE :: u32 where
  [reg_mask]: "RCC_LPTIM3CLKSOURCE_LSE = LL_RCC_LPTIM3_CLKSOURCE_LSE"
definition RCC_RNGCLKSOURCE_PLL :: u32 where [reg_mask]: "RCC_RNGCLKSOURCE_PLL = LL_RCC_RNG_CLKSOURCE_PLL"
definition RCC_RNGCLKSOURCE_LSI :: u32 where [reg_mask]: "RCC_RNGCLKSOURCE_LSI = LL_RCC_RNG_CLKSOURCE_LSI"
definition RCC_RNGCLKSOURCE_LSE :: u32 where [reg_mask]: "RCC_RNGCLKSOURCE_LSE = LL_RCC_RNG_CLKSOURCE_LSE"
definition RCC_RNGCLKSOURCE_MSI :: u32 where [reg_mask]: "RCC_RNGCLKSOURCE_MSI = LL_RCC_RNG_CLKSOURCE_MSI"
definition RCC_ADCCLKSOURCE_NONE :: u32 where [reg_mask]: "RCC_ADCCLKSOURCE_NONE = LL_RCC_ADC_CLKSOURCE_NONE"
definition RCC_ADCCLKSOURCE_HSI :: u32 where [reg_mask]: "RCC_ADCCLKSOURCE_HSI = LL_RCC_ADC_CLKSOURCE_HSI"
definition RCC_ADCCLKSOURCE_PLL :: u32 where [reg_mask]: "RCC_ADCCLKSOURCE_PLL = LL_RCC_ADC_CLKSOURCE_PLL"
definition RCC_ADCCLKSOURCE_SYSCLK :: u32 where
  [reg_mask]: "RCC_ADCCLKSOURCE_SYSCLK = LL_RCC_ADC_CLKSOURCE_SYSCLK"
definition RCC_EXTI_LINE_LSECSS :: u32 where [reg_mask]: "RCC_EXTI_LINE_LSECSS = EXTI_IMR1_IM19"
definition RCC_EXTI_LINE_HSECSS :: u32 where [reg_mask]: "RCC_EXTI_LINE_HSECSS = EXTI_IMR2_IM43"

section \<open>Stubs (stm32wlxx_hal_rcc.c)\<close>

definition HAL_RCC_DeInit :: "regs \<Rightarrow> HAL_StatusTypeDef \<times> regs" where
  "HAL_RCC_DeInit r = (HAL_OK, r)"

record RCC_PLLInitTypeDef =
  PLLState :: u32
  PLLSource :: u32
  PLLM :: u32
  PLLN :: u32
  PLLP :: u32
  PLLQ :: u32
  PLLR :: u32

record RCC_OscInitTypeDef =
  OscillatorType :: u32
  HSEState :: u32
  HSEDiv :: u32
  LSEState :: u32
  HSIState :: u32
  HSICalibrationValue :: u32
  LSIState :: u32
  LSIDiv :: u32
  MSIState :: u32
  MSICalibrationValue :: u32
  MSIClockRange :: u32
  PLL :: RCC_PLLInitTypeDef

record RCC_ClkInitTypeDef =
  ClockType :: u32
  SYSCLKSource :: u32
  AHBCLKDivider :: u32
  APB1CLKDivider :: u32
  APB2CLKDivider :: u32
  AHBCLK2Divider :: u32
  AHBCLK3Divider :: u32

definition HAL_RCC_OscConfig :: "RCC_OscInitTypeDef \<Rightarrow> regs \<Rightarrow> HAL_StatusTypeDef \<times> regs" where
  "HAL_RCC_OscConfig RCC_OscInitStruct r = (HAL_OK, r)"

definition HAL_RCC_ClockConfig :: "RCC_ClkInitTypeDef \<Rightarrow> u32 \<Rightarrow> regs \<Rightarrow> HAL_StatusTypeDef \<times> regs" where
  "HAL_RCC_ClockConfig RCC_ClkInitStruct FLatency r = (HAL_OK, r)"

definition HAL_RCC_MCOConfig :: "u32 \<Rightarrow> u32 \<Rightarrow> u32 \<Rightarrow> regs \<Rightarrow> regs" where
  "HAL_RCC_MCOConfig RCC_MCOx RCC_MCOSource RCC_MCODiv r = r"

definition HAL_RCC_EnableCSS :: "regs \<Rightarrow> regs" where
  "HAL_RCC_EnableCSS r = r"

definition sim_stm32_hal_rcc_subghz_clk_enable :: "regs \<Rightarrow> regs" where
  "sim_stm32_hal_rcc_subghz_clk_enable r = r"

definition sim_stm32_hal_rcc_subghz_clk_disable :: "regs \<Rightarrow> regs" where
  "sim_stm32_hal_rcc_subghz_clk_disable r = r"

definition sim_stm32_hal_clk_enabled :: "u32 \<Rightarrow> u32" where
  "sim_stm32_hal_clk_enabled clk = 1"

section \<open>Macros that expand to a call\<close>

definition HAL_RCC_DMA1_CLK_ENABLE :: "regs \<Rightarrow> regs" where
  [ll_def]: "HAL_RCC_DMA1_CLK_ENABLE r = r"

definition HAL_RCC_DMA2_CLK_ENABLE :: "regs \<Rightarrow> regs" where
  [ll_def]: "HAL_RCC_DMA2_CLK_ENABLE r = r"

definition HAL_RCC_DMAMUX1_CLK_ENABLE :: "regs \<Rightarrow> regs" where
  [ll_def]: "HAL_RCC_DMAMUX1_CLK_ENABLE r = r"

definition HAL_RCC_CRC_CLK_ENABLE :: "regs \<Rightarrow> regs" where
  [ll_def]: "HAL_RCC_CRC_CLK_ENABLE r = r"

definition HAL_RCC_DMA1_CLK_DISABLE :: "regs \<Rightarrow> regs" where
  [ll_def]: "HAL_RCC_DMA1_CLK_DISABLE r = r"

definition HAL_RCC_DMA2_CLK_DISABLE :: "regs \<Rightarrow> regs" where
  [ll_def]: "HAL_RCC_DMA2_CLK_DISABLE r = r"

definition HAL_RCC_DMAMUX1_CLK_DISABLE :: "regs \<Rightarrow> regs" where
  [ll_def]: "HAL_RCC_DMAMUX1_CLK_DISABLE r = r"

definition HAL_RCC_CRC_CLK_DISABLE :: "regs \<Rightarrow> regs" where
  [ll_def]: "HAL_RCC_CRC_CLK_DISABLE r = r"

definition HAL_RCC_GPIOA_CLK_ENABLE :: "regs \<Rightarrow> regs" where
  [ll_def]: "HAL_RCC_GPIOA_CLK_ENABLE r = r"

definition HAL_RCC_GPIOB_CLK_ENABLE :: "regs \<Rightarrow> regs" where
  [ll_def]: "HAL_RCC_GPIOB_CLK_ENABLE r = r"

definition HAL_RCC_GPIOC_CLK_ENABLE :: "regs \<Rightarrow> regs" where
  [ll_def]: "HAL_RCC_GPIOC_CLK_ENABLE r = r"

definition HAL_RCC_GPIOH_CLK_ENABLE :: "regs \<Rightarrow> regs" where
  [ll_def]: "HAL_RCC_GPIOH_CLK_ENABLE r = r"

definition HAL_RCC_GPIOA_CLK_DISABLE :: "regs \<Rightarrow> regs" where
  [ll_def]: "HAL_RCC_GPIOA_CLK_DISABLE r = r"

definition HAL_RCC_GPIOB_CLK_DISABLE :: "regs \<Rightarrow> regs" where
  [ll_def]: "HAL_RCC_GPIOB_CLK_DISABLE r = r"

definition HAL_RCC_GPIOC_CLK_DISABLE :: "regs \<Rightarrow> regs" where
  [ll_def]: "HAL_RCC_GPIOC_CLK_DISABLE r = r"

definition HAL_RCC_GPIOH_CLK_DISABLE :: "regs \<Rightarrow> regs" where
  [ll_def]: "HAL_RCC_GPIOH_CLK_DISABLE r = r"

definition HAL_RCC_PKA_CLK_ENABLE :: "regs \<Rightarrow> regs" where
  [ll_def]: "HAL_RCC_PKA_CLK_ENABLE r = r"

definition HAL_RCC_AES_CLK_ENABLE :: "regs \<Rightarrow> regs" where
  [ll_def]: "HAL_RCC_AES_CLK_ENABLE r = r"

definition HAL_RCC_RNG_CLK_ENABLE :: "regs \<Rightarrow> regs" where
  [ll_def]: "HAL_RCC_RNG_CLK_ENABLE r = r"

definition HAL_RCC_HSEM_CLK_ENABLE :: "regs \<Rightarrow> regs" where
  [ll_def]: "HAL_RCC_HSEM_CLK_ENABLE r = r"

definition HAL_RCC_IPCC_CLK_ENABLE :: "regs \<Rightarrow> regs" where
  [ll_def]: "HAL_RCC_IPCC_CLK_ENABLE r = r"

definition HAL_RCC_FLASH_CLK_ENABLE :: "regs \<Rightarrow> regs" where
  [ll_def]: "HAL_RCC_FLASH_CLK_ENABLE r = r"

definition HAL_RCC_PKA_CLK_DISABLE :: "regs \<Rightarrow> regs" where
  [ll_def]: "HAL_RCC_PKA_CLK_DISABLE r = r"

definition HAL_RCC_AES_CLK_DISABLE :: "regs \<Rightarrow> regs" where
  [ll_def]: "HAL_RCC_AES_CLK_DISABLE r = r"

definition HAL_RCC_RNG_CLK_DISABLE :: "regs \<Rightarrow> regs" where
  [ll_def]: "HAL_RCC_RNG_CLK_DISABLE r = r"

definition HAL_RCC_HSEM_CLK_DISABLE :: "regs \<Rightarrow> regs" where
  [ll_def]: "HAL_RCC_HSEM_CLK_DISABLE r = r"

definition HAL_RCC_IPCC_CLK_DISABLE :: "regs \<Rightarrow> regs" where
  [ll_def]: "HAL_RCC_IPCC_CLK_DISABLE r = r"

definition HAL_RCC_FLASH_CLK_DISABLE :: "regs \<Rightarrow> regs" where
  [ll_def]: "HAL_RCC_FLASH_CLK_DISABLE r = r"

definition HAL_RCC_TIM2_CLK_ENABLE :: "regs \<Rightarrow> regs" where
  [ll_def]: "HAL_RCC_TIM2_CLK_ENABLE r = r"

definition HAL_RCC_RTCAPB_CLK_ENABLE :: "regs \<Rightarrow> regs" where
  [ll_def]: "HAL_RCC_RTCAPB_CLK_ENABLE r = r"

definition HAL_RCC_SPI2_CLK_ENABLE :: "regs \<Rightarrow> regs" where
  [ll_def]: "HAL_RCC_SPI2_CLK_ENABLE r = r"

definition HAL_RCC_USART2_CLK_ENABLE :: "regs \<Rightarrow> regs" where
  [ll_def]: "HAL_RCC_USART2_CLK_ENABLE r = r"

definition HAL_RCC_I2C1_CLK_ENABLE :: "regs \<Rightarrow> regs" where
  [ll_def]: "HAL_RCC_I2C1_CLK_ENABLE r = r"

definition HAL_RCC_I2C2_CLK_ENABLE :: "regs \<Rightarrow> regs" where
  [ll_def]: "HAL_RCC_I2C2_CLK_ENABLE r = r"

definition HAL_RCC_I2C3_CLK_ENABLE :: "regs \<Rightarrow> regs" where
  [ll_def]: "HAL_RCC_I2C3_CLK_ENABLE r = r"

definition HAL_RCC_DAC_CLK_ENABLE :: "regs \<Rightarrow> regs" where
  [ll_def]: "HAL_RCC_DAC_CLK_ENABLE r = r"

definition HAL_RCC_LPTIM1_CLK_ENABLE :: "regs \<Rightarrow> regs" where
  [ll_def]: "HAL_RCC_LPTIM1_CLK_ENABLE r = r"

definition HAL_RCC_LPTIM3_CLK_ENABLE :: "regs \<Rightarrow> regs" where
  [ll_def]: "HAL_RCC_LPTIM3_CLK_ENABLE r = r"

definition HAL_RCC_LPUART1_CLK_ENABLE :: "regs \<Rightarrow> regs" where
  [ll_def]: "HAL_RCC_LPUART1_CLK_ENABLE r = r"

definition HAL_RCC_LPTIM2_CLK_ENABLE :: "regs \<Rightarrow> regs" where
  [ll_def]: "HAL_RCC_LPTIM2_CLK_ENABLE r = r"

definition HAL_RCC_TIM2_CLK_DISABLE :: "regs \<Rightarrow> regs" where
  [ll_def]: "HAL_RCC_TIM2_CLK_DISABLE r = r"

definition HAL_RCC_RTCAPB_CLK_DISABLE :: "regs \<Rightarrow> regs" where
  [ll_def]: "HAL_RCC_RTCAPB_CLK_DISABLE r = r"

definition HAL_RCC_SPI2_CLK_DISABLE :: "regs \<Rightarrow> regs" where
  [ll_def]: "HAL_RCC_SPI2_CLK_DISABLE r = r"

definition HAL_RCC_USART2_CLK_DISABLE :: "regs \<Rightarrow> regs" where
  [ll_def]: "HAL_RCC_USART2_CLK_DISABLE r = r"

definition HAL_RCC_I2C1_CLK_DISABLE :: "regs \<Rightarrow> regs" where
  [ll_def]: "HAL_RCC_I2C1_CLK_DISABLE r = r"

definition HAL_RCC_I2C2_CLK_DISABLE :: "regs \<Rightarrow> regs" where
  [ll_def]: "HAL_RCC_I2C2_CLK_DISABLE r = r"

definition HAL_RCC_I2C3_CLK_DISABLE :: "regs \<Rightarrow> regs" where
  [ll_def]: "HAL_RCC_I2C3_CLK_DISABLE r = r"

definition HAL_RCC_DAC_CLK_DISABLE :: "regs \<Rightarrow> regs" where
  [ll_def]: "HAL_RCC_DAC_CLK_DISABLE r = r"

definition HAL_RCC_LPTIM1_CLK_DISABLE :: "regs \<Rightarrow> regs" where
  [ll_def]: "HAL_RCC_LPTIM1_CLK_DISABLE r = r"

definition HAL_RCC_LPTIM2_CLK_DISABLE :: "regs \<Rightarrow> regs" where
  [ll_def]: "HAL_RCC_LPTIM2_CLK_DISABLE r = r"

definition HAL_RCC_LPTIM3_CLK_DISABLE :: "regs \<Rightarrow> regs" where
  [ll_def]: "HAL_RCC_LPTIM3_CLK_DISABLE r = r"

definition HAL_RCC_LPUART1_CLK_DISABLE :: "regs \<Rightarrow> regs" where
  [ll_def]: "HAL_RCC_LPUART1_CLK_DISABLE r = r"

definition HAL_RCC_WWDG_CLK_ENABLE :: "regs \<Rightarrow> regs" where
  [ll_def]: "HAL_RCC_WWDG_CLK_ENABLE r = r"

definition HAL_RCC_WWDG_CLK_DISABLE :: "regs \<Rightarrow> regs" where
  [ll_def]: "HAL_RCC_WWDG_CLK_DISABLE r = r"

definition HAL_RCC_ADC_CLK_ENABLE :: "regs \<Rightarrow> regs" where
  [ll_def]: "HAL_RCC_ADC_CLK_ENABLE r = r"

definition HAL_RCC_TIM1_CLK_ENABLE :: "regs \<Rightarrow> regs" where
  [ll_def]: "HAL_RCC_TIM1_CLK_ENABLE r = r"

definition HAL_RCC_SPI1_CLK_ENABLE :: "regs \<Rightarrow> regs" where
  [ll_def]: "HAL_RCC_SPI1_CLK_ENABLE r = r"

definition HAL_RCC_USART1_CLK_ENABLE :: "regs \<Rightarrow> regs" where
  [ll_def]: "HAL_RCC_USART1_CLK_ENABLE r = r"

definition HAL_RCC_TIM16_CLK_ENABLE :: "regs \<Rightarrow> regs" where
  [ll_def]: "HAL_RCC_TIM16_CLK_ENABLE r = r"

definition HAL_RCC_TIM17_CLK_ENABLE :: "regs \<Rightarrow> regs" where
  [ll_def]: "HAL_RCC_TIM17_CLK_ENABLE r = r"

definition HAL_RCC_ADC_CLK_DISABLE :: "regs \<Rightarrow> regs" where
  [ll_def]: "HAL_RCC_ADC_CLK_DISABLE r = r"

definition HAL_RCC_TIM1_CLK_DISABLE :: "regs \<Rightarrow> regs" where
  [ll_def]: "HAL_RCC_TIM1_CLK_DISABLE r = r"

definition HAL_RCC_SPI1_CLK_DISABLE :: "regs \<Rightarrow> regs" where
  [ll_def]: "HAL_RCC_SPI1_CLK_DISABLE r = r"

definition HAL_RCC_USART1_CLK_DISABLE :: "regs \<Rightarrow> regs" where
  [ll_def]: "HAL_RCC_USART1_CLK_DISABLE r = r"

definition HAL_RCC_TIM16_CLK_DISABLE :: "regs \<Rightarrow> regs" where
  [ll_def]: "HAL_RCC_TIM16_CLK_DISABLE r = r"

definition HAL_RCC_TIM17_CLK_DISABLE :: "regs \<Rightarrow> regs" where
  [ll_def]: "HAL_RCC_TIM17_CLK_DISABLE r = r"

definition HAL_RCC_SUBGHZSPI_CLK_ENABLE :: "regs \<Rightarrow> regs" where
  [ll_def]: "HAL_RCC_SUBGHZSPI_CLK_ENABLE r = r"

definition HAL_RCC_SUBGHZSPI_CLK_DISABLE :: "regs \<Rightarrow> regs" where
  [ll_def]: "HAL_RCC_SUBGHZSPI_CLK_DISABLE r = r"

definition HAL_RCC_TIM2_IS_CLK_ENABLED :: "regs \<Rightarrow> u32" where
  [ll_def]: "HAL_RCC_TIM2_IS_CLK_ENABLED r = sim_stm32_hal_clk_enabled LL_C2_APB1_GRP1_PERIPH_TIM2"

definition HAL_RCC_RTCAPB_IS_CLK_ENABLED :: "regs \<Rightarrow> u32" where
  [ll_def]: "HAL_RCC_RTCAPB_IS_CLK_ENABLED r = sim_stm32_hal_clk_enabled LL_C2_APB1_GRP1_PERIPH_RTCAPB"

definition HAL_RCC_SPI2_IS_CLK_ENABLED :: "regs \<Rightarrow> u32" where
  [ll_def]: "HAL_RCC_SPI2_IS_CLK_ENABLED r = sim_stm32_hal_clk_enabled LL_C2_APB1_GRP1_PERIPH_SPI2"

definition HAL_RCC_USART2_IS_CLK_ENABLED :: "regs \<Rightarrow> u32" where
  [ll_def]: "HAL_RCC_USART2_IS_CLK_ENABLED r = sim_stm32_hal_clk_enabled LL_C2_APB1_GRP1_PERIPH_USART2"

definition HAL_RCC_I2C1_IS_CLK_ENABLED :: "regs \<Rightarrow> u32" where
  [ll_def]: "HAL_RCC_I2C1_IS_CLK_ENABLED r = sim_stm32_hal_clk_enabled LL_C2_APB1_GRP1_PERIPH_I2C1"

definition HAL_RCC_I2C2_IS_CLK_ENABLED :: "regs \<Rightarrow> u32" where
  [ll_def]: "HAL_RCC_I2C2_IS_CLK_ENABLED r = sim_stm32_hal_clk_enabled LL_C2_APB1_GRP1_PERIPH_I2C2"

definition HAL_RCC_I2C3_IS_CLK_ENABLED :: "regs \<Rightarrow> u32" where
  [ll_def]: "HAL_RCC_I2C3_IS_CLK_ENABLED r = sim_stm32_hal_clk_enabled LL_C2_APB1_GRP1_PERIPH_I2C3"

definition HAL_RCC_DAC_IS_CLK_ENABLED :: "regs \<Rightarrow> u32" where
  [ll_def]: "HAL_RCC_DAC_IS_CLK_ENABLED r = sim_stm32_hal_clk_enabled LL_C2_APB1_GRP1_PERIPH_DAC"

definition HAL_RCC_LPTIM1_IS_CLK_ENABLED :: "regs \<Rightarrow> u32" where
  [ll_def]: "HAL_RCC_LPTIM1_IS_CLK_ENABLED r = sim_stm32_hal_clk_enabled LL_C2_APB1_GRP1_PERIPH_LPTIM1"

definition HAL_RCC_LPTIM2_IS_CLK_ENABLED :: "regs \<Rightarrow> u32" where
  [ll_def]: "HAL_RCC_LPTIM2_IS_CLK_ENABLED r = sim_stm32_hal_clk_enabled LL_C2_APB1_GRP2_PERIPH_LPTIM2"

definition HAL_RCC_LPTIM3_IS_CLK_ENABLED :: "regs \<Rightarrow> u32" where
  [ll_def]: "HAL_RCC_LPTIM3_IS_CLK_ENABLED r = sim_stm32_hal_clk_enabled LL_C2_APB1_GRP2_PERIPH_LPTIM3"

definition HAL_RCC_LPUART1_IS_CLK_ENABLED :: "regs \<Rightarrow> u32" where
  [ll_def]: "HAL_RCC_LPUART1_IS_CLK_ENABLED r = sim_stm32_hal_clk_enabled LL_C2_APB1_GRP2_PERIPH_LPUART1"

definition HAL_RCC_WWDG_IS_CLK_ENABLED :: "regs \<Rightarrow> u32" where
  [ll_def]: "HAL_RCC_WWDG_IS_CLK_ENABLED r = sim_stm32_hal_clk_enabled LL_APB1_GRP1_PERIPH_WWDG"

definition HAL_RCC_ADC_IS_CLK_ENABLED :: "regs \<Rightarrow> u32" where
  [ll_def]: "HAL_RCC_ADC_IS_CLK_ENABLED r = sim_stm32_hal_clk_enabled LL_C2_APB2_GRP1_PERIPH_ADC"

definition HAL_RCC_TIM1_IS_CLK_ENABLED :: "regs \<Rightarrow> u32" where
  [ll_def]: "HAL_RCC_TIM1_IS_CLK_ENABLED r = sim_stm32_hal_clk_enabled LL_C2_APB2_GRP1_PERIPH_TIM1"

definition HAL_RCC_SPI1_IS_CLK_ENABLED :: "regs \<Rightarrow> u32" where
  [ll_def]: "HAL_RCC_SPI1_IS_CLK_ENABLED r = sim_stm32_hal_clk_enabled LL_C2_APB2_GRP1_PERIPH_SPI1"

definition HAL_RCC_USART1_IS_CLK_ENABLED :: "regs \<Rightarrow> u32" where
  [ll_def]: "HAL_RCC_USART1_IS_CLK_ENABLED r = sim_stm32_hal_clk_enabled LL_C2_APB2_GRP1_PERIPH_USART1"

definition HAL_RCC_TIM16_IS_CLK_ENABLED :: "regs \<Rightarrow> u32" where
  [ll_def]: "HAL_RCC_TIM16_IS_CLK_ENABLED r = sim_stm32_hal_clk_enabled LL_C2_APB2_GRP1_PERIPH_TIM16"

definition HAL_RCC_TIM17_IS_CLK_ENABLED :: "regs \<Rightarrow> u32" where
  [ll_def]: "HAL_RCC_TIM17_IS_CLK_ENABLED r = sim_stm32_hal_clk_enabled LL_C2_APB2_GRP1_PERIPH_TIM17"

definition HAL_RCC_SUBGHZSPI_IS_CLK_ENABLED :: "regs \<Rightarrow> u32" where
  [ll_def]: "HAL_RCC_SUBGHZSPI_IS_CLK_ENABLED r = sim_stm32_hal_clk_enabled LL_APB3_GRP1_PERIPH_SUBGHZSPI"

definition HAL_RCC_SUBGHZ_IS_CLK_ENABLED :: "regs \<Rightarrow> u32" where
  [ll_def]: "HAL_RCC_SUBGHZ_IS_CLK_ENABLED r = sim_stm32_hal_clk_enabled LL_APB3_GRP1_PERIPH_SUBGHZSPI"

definition HAL_RCC_AHB1_FORCE_RESET :: "regs \<Rightarrow> regs" where
  [ll_def]: "HAL_RCC_AHB1_FORCE_RESET r = r"

definition HAL_RCC_DMA1_FORCE_RESET :: "regs \<Rightarrow> regs" where
  [ll_def]: "HAL_RCC_DMA1_FORCE_RESET r = r"

definition HAL_RCC_DMA2_FORCE_RESET :: "regs \<Rightarrow> regs" where
  [ll_def]: "HAL_RCC_DMA2_FORCE_RESET r = r"

definition HAL_RCC_DMAMUX1_FORCE_RESET :: "regs \<Rightarrow> regs" where
  [ll_def]: "HAL_RCC_DMAMUX1_FORCE_RESET r = r"

definition HAL_RCC_CRC_FORCE_RESET :: "regs \<Rightarrow> regs" where
  [ll_def]: "HAL_RCC_CRC_FORCE_RESET r = r"

definition HAL_RCC_AHB1_RELEASE_RESET :: "regs \<Rightarrow> regs" where
  [ll_def]: "HAL_RCC_AHB1_RELEASE_RESET r = r"

definition HAL_RCC_DMA1_RELEASE_RESET :: "regs \<Rightarrow> regs" where
  [ll_def]: "HAL_RCC_DMA1_RELEASE_RESET r = r"

definition HAL_RCC_DMA2_RELEASE_RESET :: "regs \<Rightarrow> regs" where
  [ll_def]: "HAL_RCC_DMA2_RELEASE_RESET r = r"

definition HAL_RCC_DMAMUX1_RELEASE_RESET :: "regs \<Rightarrow> regs" where
  [ll_def]: "HAL_RCC_DMAMUX1_RELEASE_RESET r = r"

definition HAL_RCC_CRC_RELEASE_RESET :: "regs \<Rightarrow> regs" where
  [ll_def]: "HAL_RCC_CRC_RELEASE_RESET r = r"

definition HAL_RCC_AHB2_FORCE_RESET :: "regs \<Rightarrow> regs" where
  [ll_def]: "HAL_RCC_AHB2_FORCE_RESET r = r"

definition HAL_RCC_GPIOA_FORCE_RESET :: "regs \<Rightarrow> regs" where
  [ll_def]: "HAL_RCC_GPIOA_FORCE_RESET r = r"

definition HAL_RCC_GPIOB_FORCE_RESET :: "regs \<Rightarrow> regs" where
  [ll_def]: "HAL_RCC_GPIOB_FORCE_RESET r = r"

definition HAL_RCC_GPIOC_FORCE_RESET :: "regs \<Rightarrow> regs" where
  [ll_def]: "HAL_RCC_GPIOC_FORCE_RESET r = r"

definition HAL_RCC_GPIOH_FORCE_RESET :: "regs \<Rightarrow> regs" where
  [ll_def]: "HAL_RCC_GPIOH_FORCE_RESET r = r"

definition HAL_RCC_AHB2_RELEASE_RESET :: "regs \<Rightarrow> regs" where
  [ll_def]: "HAL_RCC_AHB2_RELEASE_RESET r = r"

definition HAL_RCC_GPIOA_RELEASE_RESET :: "regs \<Rightarrow> regs" where
  [ll_def]: "HAL_RCC_GPIOA_RELEASE_RESET r = r"

definition HAL_RCC_GPIOB_RELEASE_RESET :: "regs \<Rightarrow> regs" where
  [ll_def]: "HAL_RCC_GPIOB_RELEASE_RESET r = r"

definition HAL_RCC_GPIOC_RELEASE_RESET :: "regs \<Rightarrow> regs" where
  [ll_def]: "HAL_RCC_GPIOC_RELEASE_RESET r = r"

definition HAL_RCC_GPIOH_RELEASE_RESET :: "regs \<Rightarrow> regs" where
  [ll_def]: "HAL_RCC_GPIOH_RELEASE_RESET r = r"

definition HAL_RCC_IPCC_FORCE_RESET :: "regs \<Rightarrow> regs" where
  [ll_def]: "HAL_RCC_IPCC_FORCE_RESET r = r"

definition HAL_RCC_IPCC_RELEASE_RESET :: "regs \<Rightarrow> regs" where
  [ll_def]: "HAL_RCC_IPCC_RELEASE_RESET r = r"

definition HAL_RCC_AHB3_FORCE_RESET :: "regs \<Rightarrow> regs" where
  [ll_def]: "HAL_RCC_AHB3_FORCE_RESET r = r"

definition HAL_RCC_PKA_FORCE_RESET :: "regs \<Rightarrow> regs" where
  [ll_def]: "HAL_RCC_PKA_FORCE_RESET r = r"

definition HAL_RCC_AES_FORCE_RESET :: "regs \<Rightarrow> regs" where
  [ll_def]: "HAL_RCC_AES_FORCE_RESET r = r"

definition HAL_RCC_RNG_FORCE_RESET :: "regs \<Rightarrow> regs" where
  [ll_def]: "HAL_RCC_RNG_FORCE_RESET r = r"

definition HAL_RCC_HSEM_FORCE_RESET :: "regs \<Rightarrow> regs" where
  [ll_def]: "HAL_RCC_HSEM_FORCE_RESET r = r"

definition HAL_RCC_FLASH_FORCE_RESET :: "regs \<Rightarrow> regs" where
  [ll_def]: "HAL_RCC_FLASH_FORCE_RESET r = r"

definition HAL_RCC_AHB3_RELEASE_RESET :: "regs \<Rightarrow> regs" where
  [ll_def]: "HAL_RCC_AHB3_RELEASE_RESET r = r"

definition HAL_RCC_PKA_RELEASE_RESET :: "regs \<Rightarrow> regs" where
  [ll_def]: "HAL_RCC_PKA_RELEASE_RESET r = r"

definition HAL_RCC_AES_RELEASE_RESET :: "regs \<Rightarrow> regs" where
  [ll_def]: "HAL_RCC_AES_RELEASE_RESET r = r"

definition HAL_RCC_RNG_RELEASE_RESET :: "regs \<Rightarrow> regs" where
  [ll_def]: "HAL_RCC_RNG_RELEASE_RESET r = r"

definition HAL_RCC_HSEM_RELEASE_RESET :: "regs \<Rightarrow> regs" where
  [ll_def]: "HAL_RCC_HSEM_RELEASE_RESET r = r"

definition HAL_RCC_FLASH_RELEASE_RESET :: "regs \<Rightarrow> regs" where
  [ll_def]: "HAL_RCC_FLASH_RELEASE_RESET r = r"

definition HAL_RCC_APB1L_FORCE_RESET :: "regs \<Rightarrow> regs" where
  [ll_def]: "HAL_RCC_APB1L_FORCE_RESET r = r"

definition HAL_RCC_TIM2_FORCE_RESET :: "regs \<Rightarrow> regs" where
  [ll_def]: "HAL_RCC_TIM2_FORCE_RESET r = r"

definition HAL_RCC_SPI2_FORCE_RESET :: "regs \<Rightarrow> regs" where
  [ll_def]: "HAL_RCC_SPI2_FORCE_RESET r = r"

definition HAL_RCC_USART2_FORCE_RESET :: "regs \<Rightarrow> regs" where
  [ll_def]: "HAL_RCC_USART2_FORCE_RESET r = r"

definition HAL_RCC_I2C1_FORCE_RESET :: "regs \<Rightarrow> regs" where
  [ll_def]: "HAL_RCC_I2C1_FORCE_RESET r = r"

definition HAL_RCC_I2C2_FORCE_RESET :: "regs \<Rightarrow> regs" where
  [ll_def]: "HAL_RCC_I2C2_FORCE_RESET r = r"

definition HAL_RCC_I2C3_FORCE_RESET :: "regs \<Rightarrow> regs" where
  [ll_def]: "HAL_RCC_I2C3_FORCE_RESET r = r"

definition HAL_RCC_DAC_FORCE_RESET :: "regs \<Rightarrow> regs" where
  [ll_def]: "HAL_RCC_DAC_FORCE_RESET r = r"

definition HAL_RCC_LPTIM1_FORCE_RESET :: "regs \<Rightarrow> regs" where
  [ll_def]: "HAL_RCC_LPTIM1_FORCE_RESET r = r"

definition HAL_RCC_APB1H_FORCE_RESET :: "regs \<Rightarrow> regs" where
  [ll_def]: "HAL_RCC_APB1H_FORCE_RESET r = r"

definition HAL_RCC_LPUART1_FORCE_RESET :: "regs \<Rightarrow> regs" where
  [ll_def]: "HAL_RCC_LPUART1_FORCE_RESET r = r"

definition HAL_RCC_LPTIM2_FORCE_RESET :: "regs \<Rightarrow> regs" where
  [ll_def]: "HAL_RCC_LPTIM2_FORCE_RESET r = r"

definition HAL_RCC_LPTIM3_FORCE_RESET :: "regs \<Rightarrow> regs" where
  [ll_def]: "HAL_RCC_LPTIM3_FORCE_RESET r = r"

definition HAL_RCC_APB1L_RELEASE_RESET :: "regs \<Rightarrow> regs" where
  [ll_def]: "HAL_RCC_APB1L_RELEASE_RESET r = r"

definition HAL_RCC_TIM2_RELEASE_RESET :: "regs \<Rightarrow> regs" where
  [ll_def]: "HAL_RCC_TIM2_RELEASE_RESET r = r"

definition HAL_RCC_USART2_RELEASE_RESET :: "regs \<Rightarrow> regs" where
  [ll_def]: "HAL_RCC_USART2_RELEASE_RESET r = r"

definition HAL_RCC_SPI2_RELEASE_RESET :: "regs \<Rightarrow> regs" where
  [ll_def]: "HAL_RCC_SPI2_RELEASE_RESET r = r"

definition HAL_RCC_I2C1_RELEASE_RESET :: "regs \<Rightarrow> regs" where
  [ll_def]: "HAL_RCC_I2C1_RELEASE_RESET r = r"

definition HAL_RCC_I2C2_RELEASE_RESET :: "regs \<Rightarrow> regs" where
  [ll_def]: "HAL_RCC_I2C2_RELEASE_RESET r = r"

definition HAL_RCC_I2C3_RELEASE_RESET :: "regs \<Rightarrow> regs" where
  [ll_def]: "HAL_RCC_I2C3_RELEASE_RESET r = r"

definition HAL_RCC_DAC_RELEASE_RESET :: "regs \<Rightarrow> regs" where
  [ll_def]: "HAL_RCC_DAC_RELEASE_RESET r = r"

definition HAL_RCC_LPTIM1_RELEASE_RESET :: "regs \<Rightarrow> regs" where
  [ll_def]: "HAL_RCC_LPTIM1_RELEASE_RESET r = r"

definition HAL_RCC_APB1H_RELEASE_RESET :: "regs \<Rightarrow> regs" where
  [ll_def]: "HAL_RCC_APB1H_RELEASE_RESET r = r"

definition HAL_RCC_LPUART1_RELEASE_RESET :: "regs \<Rightarrow> regs" where
  [ll_def]: "HAL_RCC_LPUART1_RELEASE_RESET r = r"

definition HAL_RCC_LPTIM2_RELEASE_RESET :: "regs \<Rightarrow> regs" where
  [ll_def]: "HAL_RCC_LPTIM2_RELEASE_RESET r = r"

definition HAL_RCC_LPTIM3_RELEASE_RESET :: "regs \<Rightarrow> regs" where
  [ll_def]: "HAL_RCC_LPTIM3_RELEASE_RESET r = r"

definition HAL_RCC_APB2_FORCE_RESET :: "regs \<Rightarrow> regs" where
  [ll_def]: "HAL_RCC_APB2_FORCE_RESET r = LL_APB2_GRP1_ForceReset LL_APB2_GRP1_PERIPH_ALL r"

definition HAL_RCC_ADC_FORCE_RESET :: "regs \<Rightarrow> regs" where
  [ll_def]: "HAL_RCC_ADC_FORCE_RESET r = LL_APB2_GRP1_ForceReset LL_APB2_GRP1_PERIPH_ADC r"

definition HAL_RCC_TIM1_FORCE_RESET :: "regs \<Rightarrow> regs" where
  [ll_def]: "HAL_RCC_TIM1_FORCE_RESET r = LL_APB2_GRP1_ForceReset LL_APB2_GRP1_PERIPH_TIM1 r"

definition HAL_RCC_SPI1_FORCE_RESET :: "regs \<Rightarrow> regs" where
  [ll_def]: "HAL_RCC_SPI1_FORCE_RESET r = LL_APB2_GRP1_ForceReset LL_APB2_GRP1_PERIPH_SPI1 r"

definition HAL_RCC_USART1_FORCE_RESET :: "regs \<Rightarrow> regs" where
  [ll_def]: "HAL_RCC_USART1_FORCE_RESET r = LL_APB2_GRP1_ForceReset LL_APB2_GRP1_PERIPH_USART1 r"

definition HAL_RCC_TIM16_FORCE_RESET :: "regs \<Rightarrow> regs" where
  [ll_def]: "HAL_RCC_TIM16_FORCE_RESET r = LL_APB2_GRP1_ForceReset LL_APB2_GRP1_PERIPH_TIM16 r"

definition HAL_RCC_TIM17_FORCE_RESET :: "regs \<Rightarrow> regs" where
  [ll_def]: "HAL_RCC_TIM17_FORCE_RESET r = LL_APB2_GRP1_ForceReset LL_APB2_GRP1_PERIPH_TIM17 r"

definition HAL_RCC_APB2_RELEASE_RESET :: "regs \<Rightarrow> regs" where
  [ll_def]: "HAL_RCC_APB2_RELEASE_RESET r = LL_APB2_GRP1_ReleaseReset LL_APB2_GRP1_PERIPH_ALL r"

definition HAL_RCC_ADC_RELEASE_RESET :: "regs \<Rightarrow> regs" where
  [ll_def]: "HAL_RCC_ADC_RELEASE_RESET r = LL_APB2_GRP1_ReleaseReset LL_APB2_GRP1_PERIPH_ADC r"

definition HAL_RCC_TIM1_RELEASE_RESET :: "regs \<Rightarrow> regs" where
  [ll_def]: "HAL_RCC_TIM1_RELEASE_RESET r = LL_APB2_GRP1_ReleaseReset LL_APB2_GRP1_PERIPH_TIM1 r"

definition HAL_RCC_SPI1_RELEASE_RESET :: "regs \<Rightarrow> regs" where
  [ll_def]: "HAL_RCC_SPI1_RELEASE_RESET r = LL_APB2_GRP1_ReleaseReset LL_APB2_GRP1_PERIPH_SPI1 r"

definition HAL_RCC_USART1_RELEASE_RESET :: "regs \<Rightarrow> regs" where
  [ll_def]: "HAL_RCC_USART1_RELEASE_RESET r = LL_APB2_GRP1_ReleaseReset LL_APB2_GRP1_PERIPH_USART1 r"

definition HAL_RCC_TIM16_RELEASE_RESET :: "regs \<Rightarrow> regs" where
  [ll_def]: "HAL_RCC_TIM16_RELEASE_RESET r = LL_APB2_GRP1_ReleaseReset LL_APB2_GRP1_PERIPH_TIM16 r"

definition HAL_RCC_TIM17_RELEASE_RESET :: "regs \<Rightarrow> regs" where
  [ll_def]: "HAL_RCC_TIM17_RELEASE_RESET r = LL_APB2_GRP1_ReleaseReset LL_APB2_GRP1_PERIPH_TIM17 r"

definition HAL_RCC_APB3_FORCE_RESET :: "regs \<Rightarrow> regs" where
  [ll_def]: "HAL_RCC_APB3_FORCE_RESET r = LL_APB3_GRP1_ForceReset LL_APB3_GRP1_PERIPH_ALL r"

definition HAL_RCC_SUBGHZSPI_FORCE_RESET :: "regs \<Rightarrow> regs" where
  [ll_def]: "HAL_RCC_SUBGHZSPI_FORCE_RESET r = LL_APB3_GRP1_ForceReset LL_APB3_GRP1_PERIPH_SUBGHZSPI r"

definition HAL_RCC_APB3_RELEASE_RESET :: "regs \<Rightarrow> regs" where
  [ll_def]: "HAL_RCC_APB3_RELEASE_RESET r = LL_APB3_GRP1_ReleaseReset LL_APB3_GRP1_PERIPH_ALL r"

definition HAL_RCC_SUBGHZSPI_RELEASE_RESET :: "regs \<Rightarrow> regs" where
  [ll_def]: "HAL_RCC_SUBGHZSPI_RELEASE_RESET r = LL_APB3_GRP1_ReleaseReset LL_APB3_GRP1_PERIPH_SUBGHZSPI r"

definition HAL_RCC_SUBGHZ_FORCE_RESET :: "regs \<Rightarrow> regs" where
  [ll_def]: "HAL_RCC_SUBGHZ_FORCE_RESET r = HAL_RCC_SUBGHZSPI_FORCE_RESET r"

definition HAL_RCC_SUBGHZ_RELEASE_RESET :: "regs \<Rightarrow> regs" where
  [ll_def]: "HAL_RCC_SUBGHZ_RELEASE_RESET r = HAL_RCC_SUBGHZSPI_RELEASE_RESET r"

definition HAL_RCC_DMA1_CLK_SLEEP_ENABLE :: "regs \<Rightarrow> regs" where
  [ll_def]: "HAL_RCC_DMA1_CLK_SLEEP_ENABLE r = LL_AHB1_GRP1_EnableClockSleep LL_AHB1_GRP1_PERIPH_DMA1 r"

definition HAL_RCC_DMA2_CLK_SLEEP_ENABLE :: "regs \<Rightarrow> regs" where
  [ll_def]: "HAL_RCC_DMA2_CLK_SLEEP_ENABLE r = LL_AHB1_GRP1_EnableClockSleep LL_AHB1_GRP1_PERIPH_DMA2 r"

definition HAL_RCC_DMAMUX1_CLK_SLEEP_ENABLE :: "regs \<Rightarrow> regs" where
  [ll_def]: "HAL_RCC_DMAMUX1_CLK_SLEEP_ENABLE r =
     LL_AHB1_GRP1_EnableClockSleep LL_AHB1_GRP1_PERIPH_DMAMUX1 r"

definition HAL_RCC_CRC_CLK_SLEEP_ENABLE :: "regs \<Rightarrow> regs" where
  [ll_def]: "HAL_RCC_CRC_CLK_SLEEP_ENABLE r = LL_AHB1_GRP1_EnableClockSleep LL_AHB1_GRP1_PERIPH_CRC r"

definition HAL_RCC_DMA1_CLK_SLEEP_DISABLE :: "regs \<Rightarrow> regs" where
  [ll_def]: "HAL_RCC_DMA1_CLK_SLEEP_DISABLE r = LL_AHB1_GRP1_DisableClockSleep LL_AHB1_GRP1_PERIPH_DMA1 r"

definition HAL_RCC_DMA2_CLK_SLEEP_DISABLE :: "regs \<Rightarrow> regs" where
  [ll_def]: "HAL_RCC_DMA2_CLK_SLEEP_DISABLE r = LL_AHB1_GRP1_DisableClockSleep LL_AHB1_GRP1_PERIPH_DMA2 r"

definition HAL_RCC_DMAMUX1_CLK_SLEEP_DISABLE :: "regs \<Rightarrow> regs" where
  [ll_def]: "HAL_RCC_DMAMUX1_CLK_SLEEP_DISABLE r =
     LL_AHB1_GRP1_DisableClockSleep LL_AHB1_GRP1_PERIPH_DMAMUX1 r"

definition HAL_RCC_CRC_CLK_SLEEP_DISABLE :: "regs \<Rightarrow> regs" where
  [ll_def]: "HAL_RCC_CRC_CLK_SLEEP_DISABLE r = LL_AHB1_GRP1_DisableClockSleep LL_AHB1_GRP1_PERIPH_CRC r"

definition HAL_RCC_GPIOA_CLK_SLEEP_ENABLE :: "regs \<Rightarrow> regs" where
  [ll_def]: "HAL_RCC_GPIOA_CLK_SLEEP_ENABLE r = LL_AHB2_GRP1_EnableClockSleep LL_AHB2_GRP1_PERIPH_GPIOA r"

definition HAL_RCC_GPIOB_CLK_SLEEP_ENABLE :: "regs \<Rightarrow> regs" where
  [ll_def]: "HAL_RCC_GPIOB_CLK_SLEEP_ENABLE r = LL_AHB2_GRP1_EnableClockSleep LL_AHB2_GRP1_PERIPH_GPIOB r"

definition HAL_RCC_GPIOC_CLK_SLEEP_ENABLE :: "regs \<Rightarrow> regs" where
  [ll_def]: "HAL_RCC_GPIOC_CLK_SLEEP_ENABLE r = LL_AHB2_GRP1_EnableClockSleep LL_AHB2_GRP1_PERIPH_GPIOC r"

definition HAL_RCC_GPIOH_CLK_SLEEP_ENABLE :: "regs \<Rightarrow> regs" where
  [ll_def]: "HAL_RCC_GPIOH_CLK_SLEEP_ENABLE r = LL_AHB2_GRP1_EnableClockSleep LL_AHB2_GRP1_PERIPH_GPIOH r"

definition HAL_RCC_GPIOA_CLK_SLEEP_DISABLE :: "regs \<Rightarrow> regs" where
  [ll_def]: "HAL_RCC_GPIOA_CLK_SLEEP_DISABLE r =
     LL_AHB2_GRP1_DisableClockSleep LL_AHB2_GRP1_PERIPH_GPIOA r"

definition HAL_RCC_GPIOB_CLK_SLEEP_DISABLE :: "regs \<Rightarrow> regs" where
  [ll_def]: "HAL_RCC_GPIOB_CLK_SLEEP_DISABLE r =
     LL_AHB2_GRP1_DisableClockSleep LL_AHB2_GRP1_PERIPH_GPIOB r"

definition HAL_RCC_GPIOC_CLK_SLEEP_DISABLE :: "regs \<Rightarrow> regs" where
  [ll_def]: "HAL_RCC_GPIOC_CLK_SLEEP_DISABLE r =
     LL_AHB2_GRP1_DisableClockSleep LL_AHB2_GRP1_PERIPH_GPIOC r"

definition HAL_RCC_GPIOH_CLK_SLEEP_DISABLE :: "regs \<Rightarrow> regs" where
  [ll_def]: "HAL_RCC_GPIOH_CLK_SLEEP_DISABLE r =
     LL_AHB2_GRP1_DisableClockSleep LL_AHB2_GRP1_PERIPH_GPIOH r"

definition HAL_RCC_PKA_CLK_SLEEP_ENABLE :: "regs \<Rightarrow> regs" where
  [ll_def]: "HAL_RCC_PKA_CLK_SLEEP_ENABLE r = LL_AHB3_GRP1_EnableClockSleep LL_AHB3_GRP1_PERIPH_PKA r"

definition HAL_RCC_AES_CLK_SLEEP_ENABLE :: "regs \<Rightarrow> regs" where
  [ll_def]: "HAL_RCC_AES_CLK_SLEEP_ENABLE r = LL_AHB3_GRP1_EnableClockSleep LL_AHB3_GRP1_PERIPH_AES r"

definition HAL_RCC_RNG_CLK_SLEEP_ENABLE :: "regs \<Rightarrow> regs" where
  [ll_def]: "HAL_RCC_RNG_CLK_SLEEP_ENABLE r = LL_AHB3_GRP1_EnableClockSleep LL_AHB3_GRP1_PERIPH_RNG r"

definition HAL_RCC_SRAM1_CLK_SLEEP_ENABLE :: "regs \<Rightarrow> regs" where
  [ll_def]: "HAL_RCC_SRAM1_CLK_SLEEP_ENABLE r = LL_AHB3_GRP1_EnableClockSleep LL_AHB3_GRP1_PERIPH_SRAM1 r"

definition HAL_RCC_SRAM2_CLK_SLEEP_ENABLE :: "regs \<Rightarrow> regs" where
  [ll_def]: "HAL_RCC_SRAM2_CLK_SLEEP_ENABLE r = LL_AHB3_GRP1_EnableClockSleep LL_AHB3_GRP1_PERIPH_SRAM2 r"

definition HAL_RCC_FLASH_CLK_SLEEP_ENABLE :: "regs \<Rightarrow> regs" where
  [ll_def]: "HAL_RCC_FLASH_CLK_SLEEP_ENABLE r = LL_AHB3_GRP1_EnableClockSleep LL_AHB3_GRP1_PERIPH_FLASH r"

definition HAL_RCC_PKA_CLK_SLEEP_DISABLE :: "regs \<Rightarrow> regs" where
  [ll_def]: "HAL_RCC_PKA_CLK_SLEEP_DISABLE r = LL_AHB3_GRP1_DisableClockSleep LL_AHB3_GRP1_PERIPH_PKA r"

definition HAL_RCC_AES_CLK_SLEEP_DISABLE :: "regs \<Rightarrow> regs" where
  [ll_def]: "HAL_RCC_AES_CLK_SLEEP_DISABLE r = LL_AHB3_GRP1_DisableClockSleep LL_AHB3_GRP1_PERIPH_AES r"

definition HAL_RCC_RNG_CLK_SLEEP_DISABLE :: "regs \<Rightarrow> regs" where
  [ll_def]: "HAL_RCC_RNG_CLK_SLEEP_DISABLE r = LL_AHB3_GRP1_DisableClockSleep LL_AHB3_GRP1_PERIPH_RNG r"

definition HAL_RCC_SRAM1_CLK_SLEEP_DISABLE :: "regs \<Rightarrow> regs" where
  [ll_def]: "HAL_RCC_SRAM1_CLK_SLEEP_DISABLE r =
     LL_AHB3_GRP1_DisableClockSleep LL_AHB3_GRP1_PERIPH_SRAM1 r"

definition HAL_RCC_SRAM2_CLK_SLEEP_DISABLE :: "regs \<Rightarrow> regs" where
  [ll_def]: "HAL_RCC_SRAM2_CLK_SLEEP_DISABLE r =
     LL_AHB3_GRP1_DisableClockSleep LL_AHB3_GRP1_PERIPH_SRAM2 r"

definition HAL_RCC_FLASH_CLK_SLEEP_DISABLE :: "regs \<Rightarrow> regs" where
  [ll_def]: "HAL_RCC_FLASH_CLK_SLEEP_DISABLE r =
     LL_AHB3_GRP1_DisableClockSleep LL_AHB3_GRP1_PERIPH_FLASH r"

definition HAL_RCC_TIM2_CLK_SLEEP_ENABLE :: "regs \<Rightarrow> regs" where
  [ll_def]: "HAL_RCC_TIM2_CLK_SLEEP_ENABLE r = LL_APB1_GRP1_EnableClockSleep LL_APB1_GRP1_PERIPH_TIM2 r"

definition HAL_RCC_RTCAPB_CLK_SLEEP_ENABLE :: "regs \<Rightarrow> regs" where
  [ll_def]: "HAL_RCC_RTCAPB_CLK_SLEEP_ENABLE r =
     LL_APB1_GRP1_EnableClockSleep LL_APB1_GRP1_PERIPH_RTCAPB r"

definition HAL_RCC_SPI2_CLK_SLEEP_ENABLE :: "regs \<Rightarrow> regs" where
  [ll_def]: "HAL_RCC_SPI2_CLK_SLEEP_ENABLE r = LL_APB1_GRP1_EnableClockSleep LL_APB1_GRP1_PERIPH_SPI2 r"

definition HAL_RCC_USART2_CLK_SLEEP_ENABLE :: "regs \<Rightarrow> regs" where
  [ll_def]: "HAL_RCC_USART2_CLK_SLEEP_ENABLE r =
     LL_APB1_GRP1_EnableClockSleep LL_APB1_GRP1_PERIPH_USART2 r"

definition HAL_RCC_I2C1_CLK_SLEEP_ENABLE :: "regs \<Rightarrow> regs" where
  [ll_def]: "HAL_RCC_I2C1_CLK_SLEEP_ENABLE r = LL_APB1_GRP1_EnableClockSleep LL_APB1_GRP1_PERIPH_I2C1 r"

definition HAL_RCC_I2C2_CLK_SLEEP_ENABLE :: "regs \<Rightarrow> regs" where
  [ll_def]: "HAL_RCC_I2C2_CLK_SLEEP_ENABLE r = LL_APB1_GRP1_EnableClockSleep LL_APB1_GRP1_PERIPH_I2C2 r"

definition HAL_RCC_I2C3_CLK_SLEEP_ENABLE :: "regs \<Rightarrow> regs" where
  [ll_def]: "HAL_RCC_I2C3_CLK_SLEEP_ENABLE r = LL_APB1_GRP1_EnableClockSleep LL_APB1_GRP1_PERIPH_I2C3 r"

definition HAL_RCC_DAC_CLK_SLEEP_ENABLE :: "regs \<Rightarrow> regs" where
  [ll_def]: "HAL_RCC_DAC_CLK_SLEEP_ENABLE r = LL_APB1_GRP1_EnableClockSleep LL_APB1_GRP1_PERIPH_DAC r"

definition HAL_RCC_LPTIM1_CLK_SLEEP_ENABLE :: "regs \<Rightarrow> regs" where
  [ll_def]: "HAL_RCC_LPTIM1_CLK_SLEEP_ENABLE r =
     LL_APB1_GRP1_EnableClockSleep LL_APB1_GRP1_PERIPH_LPTIM1 r"

definition HAL_RCC_LPUART1_CLK_SLEEP_ENABLE :: "regs \<Rightarrow> regs" where
  [ll_def]: "HAL_RCC_LPUART1_CLK_SLEEP_ENABLE r =
     LL_APB1_GRP2_EnableClockSleep LL_APB1_GRP2_PERIPH_LPUART1 r"

definition HAL_RCC_LPTIM2_CLK_SLEEP_ENABLE :: "regs \<Rightarrow> regs" where
  [ll_def]: "HAL_RCC_LPTIM2_CLK_SLEEP_ENABLE r =
     LL_APB1_GRP2_EnableClockSleep LL_APB1_GRP2_PERIPH_LPTIM2 r"

definition HAL_RCC_LPTIM3_CLK_SLEEP_ENABLE :: "regs \<Rightarrow> regs" where
  [ll_def]: "HAL_RCC_LPTIM3_CLK_SLEEP_ENABLE r =
     LL_APB1_GRP2_EnableClockSleep LL_APB1_GRP2_PERIPH_LPTIM3 r"

definition HAL_RCC_TIM2_CLK_SLEEP_DISABLE :: "regs \<Rightarrow> regs" where
  [ll_def]: "HAL_RCC_TIM2_CLK_SLEEP_DISABLE r = LL_APB1_GRP1_DisableClockSleep LL_APB1_GRP1_PERIPH_TIM2 r"

definition HAL_RCC_RTCAPB_CLK_SLEEP_DISABLE :: "regs \<Rightarrow> regs" where
  [ll_def]: "HAL_RCC_RTCAPB_CLK_SLEEP_DISABLE r =
     LL_APB1_GRP1_DisableClockSleep LL_APB1_GRP1_PERIPH_RTCAPB r"

definition HAL_RCC_USART2_CLK_SLEEP_DISABLE :: "regs \<Rightarrow> regs" where
  [ll_def]: "HAL_RCC_USART2_CLK_SLEEP_DISABLE r =
     LL_APB1_GRP1_DisableClockSleep LL_APB1_GRP1_PERIPH_USART2 r"

definition HAL_RCC_SPI2_CLK_SLEEP_DISABLE :: "regs \<Rightarrow> regs" where
  [ll_def]: "HAL_RCC_SPI2_CLK_SLEEP_DISABLE r = LL_APB1_GRP1_DisableClockSleep LL_APB1_GRP1_PERIPH_SPI2 r"

definition HAL_RCC_I2C1_CLK_SLEEP_DISABLE :: "regs \<Rightarrow> regs" where
  [ll_def]: "HAL_RCC_I2C1_CLK_SLEEP_DISABLE r = LL_APB1_GRP1_DisableClockSleep LL_APB1_GRP1_PERIPH_I2C1 r"

definition HAL_RCC_I2C2_CLK_SLEEP_DISABLE :: "regs \<Rightarrow> regs" where
  [ll_def]: "HAL_RCC_I2C2_CLK_SLEEP_DISABLE r = LL_APB1_GRP1_DisableClockSleep LL_APB1_GRP1_PERIPH_I2C2 r"

definition HAL_RCC_I2C3_CLK_SLEEP_DISABLE :: "regs \<Rightarrow> regs" where
  [ll_def]: "HAL_RCC_I2C3_CLK_SLEEP_DISABLE r = LL_APB1_GRP1_DisableClockSleep LL_APB1_GRP1_PERIPH_I2C3 r"

definition HAL_RCC_DAC_CLK_SLEEP_DISABLE :: "regs \<Rightarrow> regs" where
  [ll_def]: "HAL_RCC_DAC_CLK_SLEEP_DISABLE r = LL_APB1_GRP1_DisableClockSleep LL_APB1_GRP1_PERIPH_DAC r"

definition HAL_RCC_LPTIM1_CLK_SLEEP_DISABLE :: "regs \<Rightarrow> regs" where
  [ll_def]: "HAL_RCC_LPTIM1_CLK_SLEEP_DISABLE r =
     LL_APB1_GRP1_DisableClockSleep LL_APB1_GRP1_PERIPH_LPTIM1 r"

definition HAL_RCC_LPUART1_CLK_SLEEP_DISABLE :: "regs \<Rightarrow> regs" where
  [ll_def]: "HAL_RCC_LPUART1_CLK_SLEEP_DISABLE r =
     LL_APB1_GRP2_DisableClockSleep LL_APB1_GRP2_PERIPH_LPUART1 r"

definition HAL_RCC_LPTIM2_CLK_SLEEP_DISABLE :: "regs \<Rightarrow> regs" where
  [ll_def]: "HAL_RCC_LPTIM2_CLK_SLEEP_DISABLE r =
     LL_APB1_GRP2_DisableClockSleep LL_APB1_GRP2_PERIPH_LPTIM2 r"

definition HAL_RCC_LPTIM3_CLK_SLEEP_DISABLE :: "regs \<Rightarrow> regs" where
  [ll_def]: "HAL_RCC_LPTIM3_CLK_SLEEP_DISABLE r =
     LL_APB1_GRP2_DisableClockSleep LL_APB1_GRP2_PERIPH_LPTIM3 r"

definition HAL_RCC_WWDG_CLK_SLEEP_ENABLE :: "regs \<Rightarrow> regs" where
  [ll_def]: "HAL_RCC_WWDG_CLK_SLEEP_ENABLE r = LL_APB1_GRP1_EnableClockSleep LL_APB1_GRP1_PERIPH_WWDG r"

definition HAL_RCC_WWDG_CLK_SLEEP_DISABLE :: "regs \<Rightarrow> regs" where
  [ll_def]: "HAL_RCC_WWDG_CLK_SLEEP_DISABLE r = LL_APB1_GRP1_DisableClockSleep LL_APB1_GRP1_PERIPH_WWDG r"

definition HAL_RCC_ADC_CLK_SLEEP_ENABLE :: "regs \<Rightarrow> regs" where
  [ll_def]: "HAL_RCC_ADC_CLK_SLEEP_ENABLE r = LL_APB2_GRP1_EnableClockSleep LL_APB2_GRP1_PERIPH_ADC r"

definition HAL_RCC_TIM1_CLK_SLEEP_ENABLE :: "regs \<Rightarrow> regs" where
  [ll_def]: "HAL_RCC_TIM1_CLK_SLEEP_ENABLE r = LL_APB2_GRP1_EnableClockSleep LL_APB2_GRP1_PERIPH_TIM1 r"

definition HAL_RCC_SPI1_CLK_SLEEP_ENABLE :: "regs \<Rightarrow> regs" where
  [ll_def]: "HAL_RCC_SPI1_CLK_SLEEP_ENABLE r = LL_APB2_GRP1_EnableClockSleep LL_APB2_GRP1_PERIPH_SPI1 r"

definition HAL_RCC_USART1_CLK_SLEEP_ENABLE :: "regs \<Rightarrow> regs" where
  [ll_def]: "HAL_RCC_USART1_CLK_SLEEP_ENABLE r =
     LL_APB2_GRP1_EnableClockSleep LL_APB2_GRP1_PERIPH_USART1 r"

definition HAL_RCC_TIM16_CLK_SLEEP_ENABLE :: "regs \<Rightarrow> regs" where
  [ll_def]: "HAL_RCC_TIM16_CLK_SLEEP_ENABLE r = LL_APB2_GRP1_EnableClockSleep LL_APB2_GRP1_PERIPH_TIM16 r"

definition HAL_RCC_TIM17_CLK_SLEEP_ENABLE :: "regs \<Rightarrow> regs" where
  [ll_def]: "HAL_RCC_TIM17_CLK_SLEEP_ENABLE r = LL_APB2_GRP1_EnableClockSleep LL_APB2_GRP1_PERIPH_TIM17 r"

definition HAL_RCC_ADC_CLK_SLEEP_DISABLE :: "regs \<Rightarrow> regs" where
  [ll_def]: "HAL_RCC_ADC_CLK_SLEEP_DISABLE r = LL_APB2_GRP1_DisableClockSleep LL_APB2_GRP1_PERIPH_ADC r"

definition HAL_RCC_TIM1_CLK_SLEEP_DISABLE :: "regs \<Rightarrow> regs" where
  [ll_def]: "HAL_RCC_TIM1_CLK_SLEEP_DISABLE r = LL_APB2_GRP1_DisableClockSleep LL_APB2_GRP1_PERIPH_TIM1 r"

definition HAL_RCC_SPI1_CLK_SLEEP_DISABLE :: "regs \<Rightarrow> regs" where
  [ll_def]: "HAL_RCC_SPI1_CLK_SLEEP_DISABLE r = LL_APB2_GRP1_DisableClockSleep LL_APB2_GRP1_PERIPH_SPI1 r"

definition HAL_RCC_USART1_CLK_SLEEP_DISABLE :: "regs \<Rightarrow> regs" where
  [ll_def]: "HAL_RCC_USART1_CLK_SLEEP_DISABLE r =
     LL_APB2_GRP1_DisableClockSleep LL_APB2_GRP1_PERIPH_USART1 r"

definition HAL_RCC_TIM16_CLK_SLEEP_DISABLE :: "regs \<Rightarrow> regs" where
  [ll_def]: "HAL_RCC_TIM16_CLK_SLEEP_DISABLE r =
     LL_APB2_GRP1_DisableClockSleep LL_APB2_GRP1_PERIPH_TIM16 r"

definition HAL_RCC_TIM17_CLK_SLEEP_DISABLE :: "regs \<Rightarrow> regs" where
  [ll_def]: "HAL_RCC_TIM17_CLK_SLEEP_DISABLE r =
     LL_APB2_GRP1_DisableClockSleep LL_APB2_GRP1_PERIPH_TIM17 r"

definition HAL_RCC_SUBGHZSPI_CLK_SLEEP_ENABLE :: "regs \<Rightarrow> regs" where
  [ll_def]: "HAL_RCC_SUBGHZSPI_CLK_SLEEP_ENABLE r =
     LL_APB3_GRP1_EnableClockSleep LL_APB3_GRP1_PERIPH_SUBGHZSPI r"

definition HAL_RCC_SUBGHZSPI_CLK_SLEEP_DISABLE :: "regs \<Rightarrow> regs" where
  [ll_def]: "HAL_RCC_SUBGHZSPI_CLK_SLEEP_DISABLE r =
     LL_APB3_GRP1_DisableClockSleep LL_APB3_GRP1_PERIPH_SUBGHZSPI r"

definition HAL_RCC_SUBGHZ_CLK_SLEEP_ENABLE :: "regs \<Rightarrow> regs" where
  [ll_def]: "HAL_RCC_SUBGHZ_CLK_SLEEP_ENABLE r = HAL_RCC_SUBGHZSPI_CLK_SLEEP_ENABLE r"

definition HAL_RCC_SUBGHZ_CLK_SLEEP_DISABLE :: "regs \<Rightarrow> regs" where
  [ll_def]: "HAL_RCC_SUBGHZ_CLK_SLEEP_DISABLE r = HAL_RCC_SUBGHZSPI_CLK_SLEEP_DISABLE r"

definition HAL_RCC_DMA1_IS_CLK_SLEEP_ENABLED :: "regs \<Rightarrow> u32" where
  [ll_def]: "HAL_RCC_DMA1_IS_CLK_SLEEP_ENABLED r =
     LL_AHB1_GRP1_IsEnabledClockSleep LL_AHB1_GRP1_PERIPH_DMA1 r"

definition HAL_RCC_DMA2_IS_CLK_SLEEP_ENABLED :: "regs \<Rightarrow> u32" where
  [ll_def]: "HAL_RCC_DMA2_IS_CLK_SLEEP_ENABLED r =
     LL_AHB1_GRP1_IsEnabledClockSleep LL_AHB1_GRP1_PERIPH_DMA2 r"

definition HAL_RCC_DMAMUX1_IS_CLK_SLEEP_ENABLED :: "regs \<Rightarrow> u32" where
  [ll_def]: "HAL_RCC_DMAMUX1_IS_CLK_SLEEP_ENABLED r =
     LL_AHB1_GRP1_IsEnabledClockSleep LL_AHB1_GRP1_PERIPH_DMAMUX1 r"

definition HAL_RCC_CRC_IS_CLK_SLEEP_ENABLED :: "regs \<Rightarrow> u32" where
  [ll_def]: "HAL_RCC_CRC_IS_CLK_SLEEP_ENABLED r =
     LL_AHB1_GRP1_IsEnabledClockSleep LL_AHB1_GRP1_PERIPH_CRC r"

definition HAL_RCC_GPIOA_IS_CLK_SLEEP_ENABLED :: "regs \<Rightarrow> u32" where
  [ll_def]: "HAL_RCC_GPIOA_IS_CLK_SLEEP_ENABLED r =
     LL_AHB2_GRP1_IsEnabledClockSleep LL_AHB2_GRP1_PERIPH_GPIOA r"

definition HAL_RCC_GPIOB_IS_CLK_SLEEP_ENABLED :: "regs \<Rightarrow> u32" where
  [ll_def]: "HAL_RCC_GPIOB_IS_CLK_SLEEP_ENABLED r =
     LL_AHB2_GRP1_IsEnabledClockSleep LL_AHB2_GRP1_PERIPH_GPIOB r"

definition HAL_RCC_GPIOC_IS_CLK_SLEEP_ENABLED :: "regs \<Rightarrow> u32" where
  [ll_def]: "HAL_RCC_GPIOC_IS_CLK_SLEEP_ENABLED r =
     LL_AHB2_GRP1_IsEnabledClockSleep LL_AHB2_GRP1_PERIPH_GPIOC r"

definition HAL_RCC_GPIOH_IS_CLK_SLEEP_ENABLED :: "regs \<Rightarrow> u32" where
  [ll_def]: "HAL_RCC_GPIOH_IS_CLK_SLEEP_ENABLED r =
     LL_AHB2_GRP1_IsEnabledClockSleep LL_AHB2_GRP1_PERIPH_GPIOH r"

definition HAL_RCC_PKA_IS_CLK_SLEEP_ENABLED :: "regs \<Rightarrow> u32" where
  [ll_def]: "HAL_RCC_PKA_IS_CLK_SLEEP_ENABLED r =
     LL_AHB3_GRP1_IsEnabledClockSleep LL_AHB3_GRP1_PERIPH_PKA r"

definition HAL_RCC_AES_IS_CLK_SLEEP_ENABLED :: "regs \<Rightarrow> u32" where
  [ll_def]: "HAL_RCC_AES_IS_CLK_SLEEP_ENABLED r =
     LL_AHB3_GRP1_IsEnabledClockSleep LL_AHB3_GRP1_PERIPH_AES r"

definition HAL_RCC_RNG_IS_CLK_SLEEP_ENABLED :: "regs \<Rightarrow> u32" where
  [ll_def]: "HAL_RCC_RNG_IS_CLK_SLEEP_ENABLED r =
     LL_AHB3_GRP1_IsEnabledClockSleep LL_AHB3_GRP1_PERIPH_RNG r"

definition HAL_RCC_SRAM1_IS_CLK_SLEEP_ENABLED :: "regs \<Rightarrow> u32" where
  [ll_def]: "HAL_RCC_SRAM1_IS_CLK_SLEEP_ENABLED r =
     LL_AHB3_GRP1_IsEnabledClockSleep LL_AHB3_GRP1_PERIPH_SRAM1 r"

definition HAL_RCC_SRAM2_IS_CLK_SLEEP_ENABLED :: "regs \<Rightarrow> u32" where
  [ll_def]: "HAL_RCC_SRAM2_IS_CLK_SLEEP_ENABLED r =
     LL_AHB3_GRP1_IsEnabledClockSleep LL_AHB3_GRP1_PERIPH_SRAM2 r"

definition HAL_RCC_FLASH_IS_CLK_SLEEP_ENABLED :: "regs \<Rightarrow> u32" where
  [ll_def]: "HAL_RCC_FLASH_IS_CLK_SLEEP_ENABLED r =
     LL_AHB3_GRP1_IsEnabledClockSleep LL_AHB3_GRP1_PERIPH_FLASH r"

definition HAL_RCC_TIM2_IS_CLK_SLEEP_ENABLED :: "regs \<Rightarrow> u32" where
  [ll_def]: "HAL_RCC_TIM2_IS_CLK_SLEEP_ENABLED r =
     LL_APB1_GRP1_IsEnabledClockSleep LL_APB1_GRP1_PERIPH_TIM2 r"

definition HAL_RCC_RTCAPB_IS_CLK_SLEEP_ENABLED :: "regs \<Rightarrow> u32" where
  [ll_def]: "HAL_RCC_RTCAPB_IS_CLK_SLEEP_ENABLED r =
     LL_APB1_GRP1_IsEnabledClockSleep LL_APB1_GRP1_PERIPH_RTCAPB r"

definition HAL_RCC_USART2_IS_CLK_SLEEP_ENABLED :: "regs \<Rightarrow> u32" where
  [ll_def]: "HAL_RCC_USART2_IS_CLK_SLEEP_ENABLED r =
     LL_APB1_GRP1_IsEnabledClockSleep LL_APB1_GRP1_PERIPH_USART2 r"

definition HAL_RCC_SPI2_IS_CLK_SLEEP_ENABLED :: "regs \<Rightarrow> u32" where
  [ll_def]: "HAL_RCC_SPI2_IS_CLK_SLEEP_ENABLED r =
     LL_APB1_GRP1_IsEnabledClockSleep LL_APB1_GRP1_PERIPH_SPI2 r"

definition HAL_RCC_I2C1_IS_CLK_SLEEP_ENABLED :: "regs \<Rightarrow> u32" where
  [ll_def]: "HAL_RCC_I2C1_IS_CLK_SLEEP_ENABLED r =
     LL_APB1_GRP1_IsEnabledClockSleep LL_APB1_GRP1_PERIPH_I2C1 r"

definition HAL_RCC_I2C2_IS_CLK_SLEEP_ENABLED :: "regs \<Rightarrow> u32" where
  [ll_def]: "HAL_RCC_I2C2_IS_CLK_SLEEP_ENABLED r =
     LL_APB1_GRP1_IsEnabledClockSleep LL_APB1_GRP1_PERIPH_I2C2 r"

definition HAL_RCC_I2C3_IS_CLK_SLEEP_ENABLED :: "regs \<Rightarrow> u32" where
  [ll_def]: "HAL_RCC_I2C3_IS_CLK_SLEEP_ENABLED r =
     LL_APB1_GRP1_IsEnabledClockSleep LL_APB1_GRP1_PERIPH_I2C3 r"

definition HAL_RCC_DAC_IS_CLK_SLEEP_ENABLED :: "regs \<Rightarrow> u32" where
  [ll_def]: "HAL_RCC_DAC_IS_CLK_SLEEP_ENABLED r =
     LL_APB1_GRP1_IsEnabledClockSleep LL_APB1_GRP1_PERIPH_DAC r"

definition HAL_RCC_LPTIM1_IS_CLK_SLEEP_ENABLED :: "regs \<Rightarrow> u32" where
  [ll_def]: "HAL_RCC_LPTIM1_IS_CLK_SLEEP_ENABLED r =
     LL_APB1_GRP1_IsEnabledClockSleep LL_APB1_GRP1_PERIPH_LPTIM1 r"

definition HAL_RCC_LPUART1_IS_CLK_SLEEP_ENABLED :: "regs \<Rightarrow> u32" where
  [ll_def]: "HAL_RCC_LPUART1_IS_CLK_SLEEP_ENABLED r =
     LL_APB1_GRP2_IsEnabledClockSleep LL_APB1_GRP2_PERIPH_LPUART1 r"

definition HAL_RCC_LPTIM2_IS_CLK_SLEEP_ENABLED :: "regs \<Rightarrow> u32" where
  [ll_def]: "HAL_RCC_LPTIM2_IS_CLK_SLEEP_ENABLED r =
     LL_APB1_GRP2_IsEnabledClockSleep LL_APB1_GRP2_PERIPH_LPTIM2 r"

definition HAL_RCC_LPTIM3_IS_CLK_SLEEP_ENABLED :: "regs \<Rightarrow> u32" where
  [ll_def]: "HAL_RCC_LPTIM3_IS_CLK_SLEEP_ENABLED r =
     LL_APB1_GRP2_IsEnabledClockSleep LL_APB1_GRP2_PERIPH_LPTIM3 r"

definition HAL_RCC_WWDG_IS_CLK_SLEEP_ENABLED :: "regs \<Rightarrow> u32" where
  [ll_def]: "HAL_RCC_WWDG_IS_CLK_SLEEP_ENABLED r =
     LL_APB1_GRP1_IsEnabledClockSleep LL_APB1_GRP1_PERIPH_WWDG r"

definition HAL_RCC_ADC_IS_CLK_SLEEP_ENABLED :: "regs \<Rightarrow> u32" where
  [ll_def]: "HAL_RCC_ADC_IS_CLK_SLEEP_ENABLED r =
     LL_APB2_GRP1_IsEnabledClockSleep LL_APB2_GRP1_PERIPH_ADC r"

definition HAL_RCC_TIM1_IS_CLK_SLEEP_ENABLED :: "regs \<Rightarrow> u32" where
  [ll_def]: "HAL_RCC_TIM1_IS_CLK_SLEEP_ENABLED r =
     LL_APB2_GRP1_IsEnabledClockSleep LL_APB2_GRP1_PERIPH_TIM1 r"

definition HAL_RCC_SPI1_IS_CLK_SLEEP_ENABLED :: "regs \<Rightarrow> u32" where
  [ll_def]: "HAL_RCC_SPI1_IS_CLK_SLEEP_ENABLED r =
     LL_APB2_GRP1_IsEnabledClockSleep LL_APB2_GRP1_PERIPH_SPI1 r"

definition HAL_RCC_USART1_IS_CLK_SLEEP_ENABLED :: "regs \<Rightarrow> u32" where
  [ll_def]: "HAL_RCC_USART1_IS_CLK_SLEEP_ENABLED r =
     LL_APB2_GRP1_IsEnabledClockSleep LL_APB2_GRP1_PERIPH_USART1 r"

definition HAL_RCC_TIM16_IS_CLK_SLEEP_ENABLED :: "regs \<Rightarrow> u32" where
  [ll_def]: "HAL_RCC_TIM16_IS_CLK_SLEEP_ENABLED r =
     LL_APB2_GRP1_IsEnabledClockSleep LL_APB2_GRP1_PERIPH_TIM16 r"

definition HAL_RCC_TIM17_IS_CLK_SLEEP_ENABLED :: "regs \<Rightarrow> u32" where
  [ll_def]: "HAL_RCC_TIM17_IS_CLK_SLEEP_ENABLED r =
     LL_APB2_GRP1_IsEnabledClockSleep LL_APB2_GRP1_PERIPH_TIM17 r"

definition HAL_RCC_SUBGHZSPI_IS_CLK_SLEEP_ENABLED :: "regs \<Rightarrow> u32" where
  [ll_def]: "HAL_RCC_SUBGHZSPI_IS_CLK_SLEEP_ENABLED r =
     LL_APB3_GRP1_IsEnabledClockSleep LL_APB3_GRP1_PERIPH_SUBGHZSPI r"

definition HAL_RCC_SUBGHZ_IS_CLK_SLEEP_ENABLED :: "regs \<Rightarrow> u32" where
  [ll_def]: "HAL_RCC_SUBGHZ_IS_CLK_SLEEP_ENABLED r = HAL_RCC_SUBGHZSPI_IS_CLK_SLEEP_ENABLED r"

definition HAL_RCC_BACKUPRESET_FORCE :: "regs \<Rightarrow> regs" where
  [ll_def]: "HAL_RCC_BACKUPRESET_FORCE r = LL_RCC_ForceBackupDomainReset r"

definition HAL_RCC_BACKUPRESET_RELEASE :: "regs \<Rightarrow> regs" where
  [ll_def]: "HAL_RCC_BACKUPRESET_RELEASE r = LL_RCC_ReleaseBackupDomainReset r"

definition HAL_RCC_RTC_ENABLE :: "regs \<Rightarrow> regs" where
  [ll_def]: "HAL_RCC_RTC_ENABLE r = LL_RCC_EnableRTC r"

definition HAL_RCC_RTC_DISABLE :: "regs \<Rightarrow> regs" where
  [ll_def]: "HAL_RCC_RTC_DISABLE r = LL_RCC_DisableRTC r"

definition HAL_RCC_HSI_ENABLE :: "regs \<Rightarrow> regs" where
  [ll_def]: "HAL_RCC_HSI_ENABLE r = LL_RCC_HSI_Enable r"

definition HAL_RCC_HSI_DISABLE :: "regs \<Rightarrow> regs" where
  [ll_def]: "HAL_RCC_HSI_DISABLE r = LL_RCC_HSI_Disable r"

definition HAL_RCC_HSI_CALIBRATIONVALUE_ADJUST :: "u32 \<Rightarrow> regs \<Rightarrow> regs" where
  [ll_def]: "HAL_RCC_HSI_CALIBRATIONVALUE_ADJUST HSICALIBRATIONVALUE r =
     LL_RCC_HSI_SetCalibTrimming HSICALIBRATIONVALUE r"

definition HAL_RCC_HSIAUTOMATIC_START_ENABLE :: "regs \<Rightarrow> regs" where
  [ll_def]: "HAL_RCC_HSIAUTOMATIC_START_ENABLE r = LL_RCC_HSI_EnableAutoFromStop r"

definition HAL_RCC_HSIAUTOMATIC_START_DISABLE :: "regs \<Rightarrow> regs" where
  [ll_def]: "HAL_RCC_HSIAUTOMATIC_START_DISABLE r = LL_RCC_HSI_DisableAutoFromStop r"

definition HAL_RCC_HSISTOP_ENABLE :: "regs \<Rightarrow> regs" where
  [ll_def]: "HAL_RCC_HSISTOP_ENABLE r = LL_RCC_HSI_EnableInStopMode r"

definition HAL_RCC_HSISTOP_DISABLE :: "regs \<Rightarrow> regs" where
  [ll_def]: "HAL_RCC_HSISTOP_DISABLE r = LL_RCC_HSI_DisableInStopMode r"

definition HAL_RCC_MSI_ENABLE :: "regs \<Rightarrow> regs" where
  [ll_def]: "HAL_RCC_MSI_ENABLE r = LL_RCC_MSI_Enable r"

definition HAL_RCC_MSI_DISABLE :: "regs \<Rightarrow> regs" where
  [ll_def]: "HAL_RCC_MSI_DISABLE r = LL_RCC_MSI_Disable r"

definition HAL_RCC_MSI_CALIBRATIONVALUE_ADJUST :: "u32 \<Rightarrow> regs \<Rightarrow> regs" where
  [ll_def]: "HAL_RCC_MSI_CALIBRATIONVALUE_ADJUST MSICALIBRATIONVALUE r =
     LL_RCC_MSI_SetCalibTrimming MSICALIBRATIONVALUE r"

definition HAL_RCC_LSI_ENABLE :: "regs \<Rightarrow> regs" where
  [ll_def]: "HAL_RCC_LSI_ENABLE r = LL_RCC_LSI_Enable r"

definition HAL_RCC_LSI_DISABLE :: "regs \<Rightarrow> regs" where
  [ll_def]: "HAL_RCC_LSI_DISABLE r = LL_RCC_LSI_Disable r"

definition HAL_RCC_HSE_DIV2_ENABLE :: "regs \<Rightarrow> regs" where
  [ll_def]: "HAL_RCC_HSE_DIV2_ENABLE r = LL_RCC_HSE_EnableDiv2 r"

definition HAL_RCC_HSE_DIV2_DISABLE :: "regs \<Rightarrow> regs" where
  [ll_def]: "HAL_RCC_HSE_DIV2_DISABLE r = LL_RCC_HSE_DisableDiv2 r"

definition HAL_RCC_RTC_CONFIG :: "u32 \<Rightarrow> regs \<Rightarrow> regs" where
  [ll_def]: "HAL_RCC_RTC_CONFIG RTC_CLKSOURCE r = LL_RCC_SetRTCClockSource RTC_CLKSOURCE r"

definition HAL_RCC_GET_RTC_SOURCE :: "regs \<Rightarrow> u32" where
  [ll_def]: "HAL_RCC_GET_RTC_SOURCE r = LL_RCC_GetRTCClockSource r"

definition HAL_RCC_PLL_ENABLE :: "regs \<Rightarrow> regs" where
  [ll_def]: "HAL_RCC_PLL_ENABLE r = LL_RCC_PLL_Enable r"

definition HAL_RCC_PLL_DISABLE :: "regs \<Rightarrow> regs" where
  [ll_def]: "HAL_RCC_PLL_DISABLE r = LL_RCC_PLL_Disable r"

definition HAL_RCC_GET_PLL_OSCSOURCE :: "regs \<Rightarrow> u32" where
  [ll_def]: "HAL_RCC_GET_PLL_OSCSOURCE r = LL_RCC_PLL_GetMainSource r"

definition HAL_RCC_SYSCLK_CONFIG :: "u32 \<Rightarrow> regs \<Rightarrow> regs" where
  [ll_def]: "HAL_RCC_SYSCLK_CONFIG SYSCLKSOURCE r = LL_RCC_SetSysClkSource SYSCLKSOURCE r"

definition HAL_RCC_GET_SYSCLK_SOURCE :: "regs \<Rightarrow> u32" where
  [ll_def]: "HAL_RCC_GET_SYSCLK_SOURCE r = LL_RCC_GetSysClkSource r"

definition HAL_RCC_LSEDRIVE_CONFIG :: "u32 \<Rightarrow> regs \<Rightarrow> regs" where
  [ll_def]: "HAL_RCC_LSEDRIVE_CONFIG LSEDRIVE r = r"

definition HAL_RCC_WAKEUPSTOP_CLK_CONFIG :: "u32 \<Rightarrow> regs \<Rightarrow> regs" where
  [ll_def]: "HAL_RCC_WAKEUPSTOP_CLK_CONFIG STOPWUCLK r = LL_RCC_SetClkAfterWakeFromStop STOPWUCLK r"

definition HAL_RCC_MCO1_CONFIG :: "u32 \<Rightarrow> u32 \<Rightarrow> regs \<Rightarrow> regs" where
  [ll_def]: "HAL_RCC_MCO1_CONFIG MCOCLKSOURCE MCODIV r = LL_RCC_ConfigMCO MCOCLKSOURCE MCODIV r"

definition HAL_RCC_CLEAR_RESET_FLAGS :: "regs \<Rightarrow> regs" where
  [ll_def]: "HAL_RCC_CLEAR_RESET_FLAGS r = LL_RCC_ClearResetFlags r"

definition HAL_RCC_USART1_CONFIG :: "u32 \<Rightarrow> regs \<Rightarrow> regs" where
  [ll_def]: "HAL_RCC_USART1_CONFIG USART1_CLKSOURCE r = LL_RCC_SetUSARTClockSource USART1_CLKSOURCE r"

definition HAL_RCC_GET_USART1_SOURCE :: "regs \<Rightarrow> u32" where
  [ll_def]: "HAL_RCC_GET_USART1_SOURCE r = LL_RCC_GetUSARTClockSource LL_RCC_USART1_CLKSOURCE r"

definition HAL_RCC_USART2_CONFIG :: "u32 \<Rightarrow> regs \<Rightarrow> regs" where
  [ll_def]: "HAL_RCC_USART2_CONFIG USART2_CLKSOURCE r = LL_RCC_SetUSARTClockSource USART2_CLKSOURCE r"

definition HAL_RCC_GET_USART2_SOURCE :: "regs \<Rightarrow> u32" where
  [ll_def]: "HAL_RCC_GET_USART2_SOURCE r = LL_RCC_GetUSARTClockSource LL_RCC_USART2_CLKSOURCE r"

definition HAL_RCC_I2S2_CONFIG :: "u32 \<Rightarrow> regs \<Rightarrow> regs" where
  [ll_def]: "HAL_RCC_I2S2_CONFIG I2S2_CLKSOURCE r = LL_RCC_SetI2SClockSource I2S2_CLKSOURCE r"

definition HAL_RCC_GET_I2S2_SOURCE :: "regs \<Rightarrow> u32" where
  [ll_def]: "HAL_RCC_GET_I2S2_SOURCE r = LL_RCC_GetI2SClockSource LL_RCC_I2S2_CLKSOURCE r"

definition HAL_RCC_LPUART1_CONFIG :: "u32 \<Rightarrow> regs \<Rightarrow> regs" where
  [ll_def]: "HAL_RCC_LPUART1_CONFIG LPUART1_CLKSOURCE r = LL_RCC_SetLPUARTClockSource LPUART1_CLKSOURCE r"

definition HAL_RCC_GET_LPUART1_SOURCE :: "regs \<Rightarrow> u32" where
  [ll_def]: "HAL_RCC_GET_LPUART1_SOURCE r = LL_RCC_GetLPUARTClockSource LL_RCC_LPUART1_CLKSOURCE r"

definition HAL_RCC_I2C1_CONFIG :: "u32 \<Rightarrow> regs \<Rightarrow> regs" where
  [ll_def]: "HAL_RCC_I2C1_CONFIG I2C1_CLKSOURCE r = LL_RCC_SetI2CClockSource I2C1_CLKSOURCE r"

definition HAL_RCC_GET_I2C1_SOURCE :: "regs \<Rightarrow> u32" where
  [ll_def]: "HAL_RCC_GET_I2C1_SOURCE r = LL_RCC_GetI2CClockSource LL_RCC_I2C1_CLKSOURCE r"

definition HAL_RCC_I2C2_CONFIG :: "u32 \<Rightarrow> regs \<Rightarrow> regs" where
  [ll_def]: "HAL_RCC_I2C2_CONFIG I2C2_CLKSOURCE r = LL_RCC_SetI2CClockSource I2C2_CLKSOURCE r"

definition HAL_RCC_GET_I2C2_SOURCE :: "regs \<Rightarrow> u32" where
  [ll_def]: "HAL_RCC_GET_I2C2_SOURCE r = LL_RCC_GetI2CClockSource LL_RCC_I2C2_CLKSOURCE r"

definition HAL_RCC_I2C3_CONFIG :: "u32 \<Rightarrow> regs \<Rightarrow> regs" where
  [ll_def]: "HAL_RCC_I2C3_CONFIG I2C3_CLKSOURCE r = LL_RCC_SetI2CClockSource I2C3_CLKSOURCE r"

definition HAL_RCC_GET_I2C3_SOURCE :: "regs \<Rightarrow> u32" where
  [ll_def]: "HAL_RCC_GET_I2C3_SOURCE r = LL_RCC_GetI2CClockSource LL_RCC_I2C3_CLKSOURCE r"

definition HAL_RCC_LPTIM1_CONFIG :: "u32 \<Rightarrow> regs \<Rightarrow> regs" where
  [ll_def]: "HAL_RCC_LPTIM1_CONFIG LPTIM1_CLKSOURCE r = LL_RCC_SetLPTIMClockSource LPTIM1_CLKSOURCE r"

definition HAL_RCC_GET_LPTIM1_SOURCE :: "regs \<Rightarrow> u32" where
  [ll_def]: "HAL_RCC_GET_LPTIM1_SOURCE r = LL_RCC_GetLPTIMClockSource LL_RCC_LPTIM1_CLKSOURCE r"

definition HAL_RCC_LPTIM2_CONFIG :: "u32 \<Rightarrow> regs \<Rightarrow> regs" where
  [ll_def]: "HAL_RCC_LPTIM2_CONFIG LPTIM2_CLKSOURCE r = LL_RCC_SetLPTIMClockSource LPTIM2_CLKSOURCE r"

definition HAL_RCC_GET_LPTIM2_SOURCE :: "regs \<Rightarrow> u32" where
  [ll_def]: "HAL_RCC_GET_LPTIM2_SOURCE r = LL_RCC_GetLPTIMClockSource LL_RCC_LPTIM2_CLKSOURCE r"

definition HAL_RCC_LPTIM3_CONFIG :: "u32 \<Rightarrow> regs \<Rightarrow> regs" where
  [ll_def]: "HAL_RCC_LPTIM3_CONFIG LPTIM3_CLKSOURCE r = LL_RCC_SetLPTIMClockSource LPTIM3_CLKSOURCE r"

definition HAL_RCC_GET_LPTIM3_SOURCE :: "regs \<Rightarrow> u32" where
  [ll_def]: "HAL_RCC_GET_LPTIM3_SOURCE r = LL_RCC_GetLPTIMClockSource LL_RCC_LPTIM3_CLKSOURCE r"

definition HAL_RCC_RNG_CONFIG :: "u32 \<Rightarrow> regs \<Rightarrow> regs" where
  [ll_def]: "HAL_RCC_RNG_CONFIG RNG_CLKSOURCE r = LL_RCC_SetRNGClockSource RNG_CLKSOURCE r"

definition HAL_RCC_GET_RNG_SOURCE :: "regs \<Rightarrow> u32" where
  [ll_def]: "HAL_RCC_GET_RNG_SOURCE r = LL_RCC_GetRNGClockSource LL_RCC_RNG_CLKSOURCE r"

definition HAL_RCC_ADC_CONFIG :: "u32 \<Rightarrow> regs \<Rightarrow> regs" where
  [ll_def]: "HAL_RCC_ADC_CONFIG ADC_CLKSOURCE r = LL_RCC_SetADCClockSource ADC_CLKSOURCE r"

definition HAL_RCC_GET_ADC_SOURCE :: "regs \<Rightarrow> u32" where
  [ll_def]: "HAL_RCC_GET_ADC_SOURCE r = LL_RCC_GetADCClockSource LL_RCC_ADC_CLKSOURCE r"

definition HAL_RCC_LSECSS_EXTI_ENABLE_IT :: "regs \<Rightarrow> regs" where
  [ll_def]: "HAL_RCC_LSECSS_EXTI_ENABLE_IT r = LL_EXTI_EnableIT_0_31 RCC_EXTI_LINE_LSECSS r"

definition HAL_RCC_LSECSS_EXTI_DISABLE_IT :: "regs \<Rightarrow> regs" where
  [ll_def]: "HAL_RCC_LSECSS_EXTI_DISABLE_IT r = LL_EXTI_DisableIT_0_31 RCC_EXTI_LINE_LSECSS r"

definition HAL_RCC_LSECSS_EXTI_ENABLE_EVENT :: "regs \<Rightarrow> regs" where
  [ll_def]: "HAL_RCC_LSECSS_EXTI_ENABLE_EVENT r = LL_EXTI_EnableEvent_0_31 RCC_EXTI_LINE_LSECSS r"

definition HAL_RCC_LSECSS_EXTI_DISABLE_EVENT :: "regs \<Rightarrow> regs" where
  [ll_def]: "HAL_RCC_LSECSS_EXTI_DISABLE_EVENT r = LL_EXTI_DisableEvent_0_31 RCC_EXTI_LINE_LSECSS r"

definition HAL_RCC_HSECSS_EXTI_ENABLE_IT :: "regs \<Rightarrow> regs" where
  [ll_def]: "HAL_RCC_HSECSS_EXTI_ENABLE_IT r = LL_EXTI_EnableIT_32_63 RCC_EXTI_LINE_HSECSS r"

definition HAL_RCC_HSECSS_EXTI_DISABLE_IT :: "regs \<Rightarrow> regs" where
  [ll_def]: "HAL_RCC_HSECSS_EXTI_DISABLE_IT r = LL_EXTI_DisableIT_32_63 RCC_EXTI_LINE_HSECSS r"

definition HAL_RCC_SUBGHZ_CLK_ENABLE :: "regs \<Rightarrow> regs" where
  "HAL_RCC_SUBGHZ_CLK_ENABLE r = sim_stm32_hal_rcc_subghz_clk_enable r"

definition HAL_RCC_SUBGHZ_CLK_DISABLE :: "regs \<Rightarrow> regs" where
  "HAL_RCC_SUBGHZ_CLK_DISABLE r = sim_stm32_hal_rcc_subghz_clk_disable r"

section \<open>Macros that write registers\<close>

definition HAL_RCC_APB1_FORCE_RESET :: "regs \<Rightarrow> regs" where
  "HAL_RCC_APB1_FORCE_RESET r = HAL_RCC_APB1H_FORCE_RESET (HAL_RCC_APB1L_FORCE_RESET r)"

definition HAL_RCC_APB1_RELEASE_RESET :: "regs \<Rightarrow> regs" where
  "HAL_RCC_APB1_RELEASE_RESET r = HAL_RCC_APB1H_RELEASE_RESET (HAL_RCC_APB1L_RELEASE_RESET r)"

definition HAL_RCC_SUBGHZ_RADIO_FORCE_RESET :: "regs \<Rightarrow> regs" where
  "HAL_RCC_SUBGHZ_RADIO_FORCE_RESET r = SET_BIT RCC_CSR RCC_CSR_RFRST r"

definition HAL_RCC_SUBGHZ_RADIO_RELEASE_RESET :: "regs \<Rightarrow> regs" where
  "HAL_RCC_SUBGHZ_RADIO_RELEASE_RESET r = CLEAR_BIT RCC_CSR RCC_CSR_RFRST r"

definition HAL_RCC_MSI_RANGE_CONFIG :: "u32 \<Rightarrow> regs \<Rightarrow> regs" where
  "HAL_RCC_MSI_RANGE_CONFIG MSIRANGEVALUE r =
     MODIFY_REG RCC_CR RCC_CR_MSIRANGE MSIRANGEVALUE (SET_BIT RCC_CR RCC_CR_MSIRGSEL r)"

definition HAL_RCC_MSI_STANDBY_RANGE_CONFIG :: "u32 \<Rightarrow> regs \<Rightarrow> regs" where
  "HAL_RCC_MSI_STANDBY_RANGE_CONFIG MSIRANGEVALUE r =
     MODIFY_REG RCC_CSR RCC_CSR_MSISRANGE (push_bit 4 MSIRANGEVALUE) r"

definition HAL_RCC_GET_MSI_RANGE :: "regs \<Rightarrow> u32" where
  "HAL_RCC_GET_MSI_RANGE r =
     (if READ_BIT RCC_CR RCC_CR_MSIRGSEL r \<noteq> 0 then READ_BIT RCC_CR RCC_CR_MSIRANGE r
      else drop_bit 4 (READ_BIT RCC_CSR RCC_CSR_MSISRANGE r))"

definition HAL_RCC_HSE_CONFIG :: "u32 \<Rightarrow> regs \<Rightarrow> regs" where
  "HAL_RCC_HSE_CONFIG STATE r =
     (if STATE = RCC_HSE_ON then LL_RCC_HSE_Enable r
      else if STATE = RCC_HSE_BYPASS_PWR then LL_RCC_HSE_Enable (LL_RCC_HSE_EnableTcxo r)
      else LL_RCC_HSE_DisableTcxo (LL_RCC_HSE_Disable r))"

definition HAL_RCC_LSE_CONFIG :: "u32 \<Rightarrow> regs \<Rightarrow> regs" where
  "HAL_RCC_LSE_CONFIG STATE r =
     (if STATE = RCC_LSE_ON_RTC_ONLY then SET_BIT RCC_BDCR RCC_BDCR_LSEON r
      else if STATE = RCC_LSE_ON then SET_BIT RCC_BDCR (RCC_BDCR_LSEON OR RCC_BDCR_LSESYSEN) r
      else if STATE = RCC_LSE_BYPASS_RTC_ONLY
      then SET_BIT RCC_BDCR RCC_BDCR_LSEON (SET_BIT RCC_BDCR RCC_BDCR_LSEBYP r)
      else if STATE = RCC_LSE_BYPASS
      then SET_BIT RCC_BDCR (RCC_BDCR_LSEON OR RCC_BDCR_LSESYSEN) (SET_BIT RCC_BDCR RCC_BDCR_LSEBYP r)
      else CLEAR_BIT RCC_BDCR RCC_BDCR_LSEBYP (CLEAR_BIT RCC_BDCR (RCC_BDCR_LSEON OR RCC_BDCR_LSESYSEN) r))"

definition HAL_RCC_PLL_PLLSOURCE_CONFIG :: "u32 \<Rightarrow> regs \<Rightarrow> regs" where
  "HAL_RCC_PLL_PLLSOURCE_CONFIG PLLSOURCE r = MODIFY_REG RCC_PLLCFGR RCC_PLLCFGR_PLLSRC PLLSOURCE r"

definition HAL_RCC_PLL_CONFIG :: "u32 \<Rightarrow> u32 \<Rightarrow> u32 \<Rightarrow> u32 \<Rightarrow> u32 \<Rightarrow> u32 \<Rightarrow> regs \<Rightarrow> regs" where
  "HAL_RCC_PLL_CONFIG pllsource pllm plln pllp pllq pllr r =
     MODIFY_REG RCC_PLLCFGR
       (RCC_PLLCFGR_PLLSRC OR RCC_PLLCFGR_PLLM OR RCC_PLLCFGR_PLLN OR RCC_PLLCFGR_PLLP OR RCC_PLLCFGR_PLLQ OR
        RCC_PLLCFGR_PLLR)
       (pllsource OR pllm OR push_bit RCC_PLLCFGR_PLLN_Pos plln OR pllp OR pllq OR pllr) r"

definition HAL_RCC_PLLCLKOUT_ENABLE :: "u32 \<Rightarrow> regs \<Rightarrow> regs" where
  "HAL_RCC_PLLCLKOUT_ENABLE PLLCLOCKOUT r = SET_BIT RCC_PLLCFGR PLLCLOCKOUT r"

definition HAL_RCC_PLLCLKOUT_DISABLE :: "u32 \<Rightarrow> regs \<Rightarrow> regs" where
  "HAL_RCC_PLLCLKOUT_DISABLE PLLCLOCKOUT r = CLEAR_BIT RCC_PLLCFGR PLLCLOCKOUT r"

definition HAL_RCC_GET_PLLCLKOUT_CONFIG :: "u32 \<Rightarrow> regs \<Rightarrow> u32" where
  "HAL_RCC_GET_PLLCLKOUT_CONFIG PLLCLOCKOUT r = READ_BIT RCC_PLLCFGR PLLCLOCKOUT r"

definition HAL_RCC_ENABLE_IT :: "u32 \<Rightarrow> regs \<Rightarrow> regs" where
  "HAL_RCC_ENABLE_IT INTERRUPT r = SET_BIT RCC_CIER INTERRUPT r"

definition HAL_RCC_DISABLE_IT :: "u32 \<Rightarrow> regs \<Rightarrow> regs" where
  "HAL_RCC_DISABLE_IT INTERRUPT r = CLEAR_BIT RCC_CIER INTERRUPT r"

definition HAL_RCC_CLEAR_IT :: "u32 \<Rightarrow> regs \<Rightarrow> regs" where
  "HAL_RCC_CLEAR_IT INTERRUPT r = WRITE_REG RCC_CICR INTERRUPT r"

definition HAL_RCC_GET_IT :: "u32 \<Rightarrow> regs \<Rightarrow> bool" where
  "HAL_RCC_GET_IT INTERRUPT r \<longleftrightarrow> READ_BIT RCC_CIFR INTERRUPT r = INTERRUPT"

text \<open>
  The constants a flag is made of (\<^verbatim>\<open>REG_INDEX_POS\<close>, \<^verbatim>\<open>CR_REG_INDEX\<close>, \<^verbatim>\<open>BDCR_REG_INDEX\<close>, \<^verbatim>\<open>CSR_REG_INDEX\<close>
  and \<^verbatim>\<open>RCC_FLAG_MASK\<close>) are in no file of the repository: they are parameters here.
\<close>

record flag_coding =
  REG_INDEX_POS :: nat
  CR_REG_INDEX :: u32
  BDCR_REG_INDEX :: u32
  CSR_REG_INDEX :: u32
  RCC_FLAG_MASK :: u32

definition HAL_RCC_GET_FLAG :: "flag_coding \<Rightarrow> u32 \<Rightarrow> regs \<Rightarrow> u32" where
  "HAL_RCC_GET_FLAG k FLAG r =
     (let reg = (if drop_bit (REG_INDEX_POS k) FLAG = CR_REG_INDEX k then r RCC_CR
                 else if drop_bit (REG_INDEX_POS k) FLAG = BDCR_REG_INDEX k then r RCC_BDCR
                 else if drop_bit (REG_INDEX_POS k) FLAG = CSR_REG_INDEX k then r RCC_CSR
                 else r RCC_CIFR)
      in if reg AND push_bit (unat (FLAG AND RCC_FLAG_MASK k)) 1 \<noteq> 0 then 1 else 0)"

section \<open>Accepted sources\<close>

definition IS_RCC_USART1CLKSOURCE :: "u32 \<Rightarrow> bool" where
  "IS_RCC_USART1CLKSOURCE SOURCE \<longleftrightarrow>
     SOURCE = RCC_USART1CLKSOURCE_PCLK2 \<or> SOURCE = RCC_USART1CLKSOURCE_SYSCLK \<or> SOURCE = RCC_USART1CLKSOURCE_LSE \<or> SOURCE = RCC_USART1CLKSOURCE_HSI"

definition IS_RCC_USART2CLKSOURCE :: "u32 \<Rightarrow> bool" where
  "IS_RCC_USART2CLKSOURCE SOURCE \<longleftrightarrow>
     SOURCE = RCC_USART2CLKSOURCE_PCLK1 \<or> SOURCE = RCC_USART2CLKSOURCE_SYSCLK \<or> SOURCE = RCC_USART2CLKSOURCE_LSE \<or> SOURCE = RCC_USART2CLKSOURCE_HSI"

definition IS_RCC_I2S2CLKSOURCE :: "u32 \<Rightarrow> bool" where
  "IS_RCC_I2S2CLKSOURCE SOURCE \<longleftrightarrow>
     SOURCE = RCC_I2S2CLKSOURCE_PLL \<or> SOURCE = RCC_I2S2CLKSOURCE_HSI \<or> SOURCE = RCC_I2S2CLKSOURCE_PIN"

definition IS_RCC_LPUART1CLKSOURCE :: "u32 \<Rightarrow> bool" where
  "IS_RCC_LPUART1CLKSOURCE SOURCE \<longleftrightarrow>
     SOURCE = RCC_LPUART1CLKSOURCE_PCLK1 \<or> SOURCE = RCC_LPUART1CLKSOURCE_SYSCLK \<or> SOURCE = RCC_LPUART1CLKSOURCE_LSE \<or> SOURCE = RCC_LPUART1CLKSOURCE_HSI"

definition IS_RCC_I2C1CLKSOURCE :: "u32 \<Rightarrow> bool" where
  "IS_RCC_I2C1CLKSOURCE SOURCE \<longleftrightarrow>
     SOURCE = RCC_I2C1CLKSOURCE_PCLK1 \<or> SOURCE = RCC_I2C1CLKSOURCE_SYSCLK \<or> SOURCE = RCC_I2C1CLKSOURCE_HSI"

definition IS_RCC_I2C2CLKSOURCE :: "u32 \<Rightarrow> bool" where
  "IS_RCC_I2C2CLKSOURCE SOURCE \<longleftrightarrow>
     SOURCE = RCC_I2C2CLKSOURCE_PCLK1 \<or> SOURCE = RCC_I2C2CLKSOURCE_SYSCLK \<or> SOURCE = RCC_I2C2CLKSOURCE_HSI"

definition IS_RCC_I2C3CLKSOURCE :: "u32 \<Rightarrow> bool" where
  "IS_RCC_I2C3CLKSOURCE SOURCE \<longleftrightarrow>
     SOURCE = RCC_I2C3CLKSOURCE_PCLK1 \<or> SOURCE = RCC_I2C3CLKSOURCE_SYSCLK \<or> SOURCE = RCC_I2C3CLKSOURCE_HSI"

definition IS_RCC_LPTIM1CLKSOURCE :: "u32 \<Rightarrow> bool" where
  "IS_RCC_LPTIM1CLKSOURCE SOURCE \<longleftrightarrow>
     SOURCE = RCC_LPTIM1CLKSOURCE_PCLK1 \<or> SOURCE = RCC_LPTIM1CLKSOURCE_LSI \<or> SOURCE = RCC_LPTIM1CLKSOURCE_HSI \<or> SOURCE = RCC_LPTIM1CLKSOURCE_LSE"

definition IS_RCC_LPTIM2CLKSOURCE :: "u32 \<Rightarrow> bool" where
  "IS_RCC_LPTIM2CLKSOURCE SOURCE \<longleftrightarrow>
     SOURCE = RCC_LPTIM2CLKSOURCE_PCLK1 \<or> SOURCE = RCC_LPTIM2CLKSOURCE_LSI \<or> SOURCE = RCC_LPTIM2CLKSOURCE_HSI \<or> SOURCE = RCC_LPTIM2CLKSOURCE_LSE"

definition IS_RCC_LPTIM3CLKSOURCE :: "u32 \<Rightarrow> bool" where
  "IS_RCC_LPTIM3CLKSOURCE SOURCE \<longleftrightarrow>
     SOURCE = RCC_LPTIM3CLKSOURCE_PCLK1 \<or> SOURCE = RCC_LPTIM3CLKSOURCE_LSI \<or> SOURCE = RCC_LPTIM3CLKSOURCE_HSI \<or> SOURCE = RCC_LPTIM3CLKSOURCE_LSE"

definition IS_RCC_RNGCLKSOURCE :: "u32 \<Rightarrow> bool" where
  "IS_RCC_RNGCLKSOURCE SOURCE \<longleftrightarrow>
     SOURCE = RCC_RNGCLKSOURCE_PLL \<or> SOURCE = RCC_RNGCLKSOURCE_LSI \<or> SOURCE = RCC_RNGCLKSOURCE_LSE \<or> SOURCE = RCC_RNGCLKSOURCE_MSI"

definition IS_RCC_ADCCLKSOURCE :: "u32 \<Rightarrow> bool" where
  "IS_RCC_ADCCLKSOURCE SOURCE \<longleftrightarrow>
     SOURCE = RCC_ADCCLKSOURCE_NONE \<or> SOURCE = RCC_ADCCLKSOURCE_HSI \<or> SOURCE = RCC_ADCCLKSOURCE_PLL \<or> SOURCE = RCC_ADCCLKSOURCE_SYSCLK"

lemmas source_preds = IS_RCC_USART1CLKSOURCE_def IS_RCC_USART2CLKSOURCE_def IS_RCC_I2S2CLKSOURCE_def
  IS_RCC_LPUART1CLKSOURCE_def IS_RCC_I2C1CLKSOURCE_def IS_RCC_I2C2CLKSOURCE_def
  IS_RCC_I2C3CLKSOURCE_def IS_RCC_LPTIM1CLKSOURCE_def IS_RCC_LPTIM2CLKSOURCE_def
  IS_RCC_LPTIM3CLKSOURCE_def IS_RCC_RNGCLKSOURCE_def IS_RCC_ADCCLKSOURCE_def

section \<open>Sleep clocks\<close>

record switch =
  sw_reg :: u32
  sw_bit :: u32
  sw_on :: "regs \<Rightarrow> regs"
  sw_off :: "regs \<Rightarrow> regs"
  sw_test :: "regs \<Rightarrow> u32"

definition sleep_clocks :: "switch list" where
  "sleep_clocks =
    [\<lparr>sw_reg = RCC_AHB1SMENR, sw_bit = LL_AHB1_GRP1_PERIPH_DMA1,
       sw_on = HAL_RCC_DMA1_CLK_SLEEP_ENABLE, sw_off = HAL_RCC_DMA1_CLK_SLEEP_DISABLE,
       sw_test = HAL_RCC_DMA1_IS_CLK_SLEEP_ENABLED\<rparr>,
     \<lparr>sw_reg = RCC_AHB1SMENR, sw_bit = LL_AHB1_GRP1_PERIPH_DMA2,
       sw_on = HAL_RCC_DMA2_CLK_SLEEP_ENABLE, sw_off = HAL_RCC_DMA2_CLK_SLEEP_DISABLE,
       sw_test = HAL_RCC_DMA2_IS_CLK_SLEEP_ENABLED\<rparr>,
     \<lparr>sw_reg = RCC_AHB1SMENR, sw_bit = LL_AHB1_GRP1_PERIPH_DMAMUX1,
       sw_on = HAL_RCC_DMAMUX1_CLK_SLEEP_ENABLE, sw_off = HAL_RCC_DMAMUX1_CLK_SLEEP_DISABLE,
       sw_test = HAL_RCC_DMAMUX1_IS_CLK_SLEEP_ENABLED\<rparr>,
     \<lparr>sw_reg = RCC_AHB1SMENR, sw_bit = LL_AHB1_GRP1_PERIPH_CRC,
       sw_on = HAL_RCC_CRC_CLK_SLEEP_ENABLE, sw_off = HAL_RCC_CRC_CLK_SLEEP_DISABLE,
       sw_test = HAL_RCC_CRC_IS_CLK_SLEEP_ENABLED\<rparr>,
     \<lparr>sw_reg = RCC_AHB2SMENR, sw_bit = LL_AHB2_GRP1_PERIPH_GPIOA,
       sw_on = HAL_RCC_GPIOA_CLK_SLEEP_ENABLE, sw_off = HAL_RCC_GPIOA_CLK_SLEEP_DISABLE,
       sw_test = HAL_RCC_GPIOA_IS_CLK_SLEEP_ENABLED\<rparr>,
     \<lparr>sw_reg = RCC_AHB2SMENR, sw_bit = LL_AHB2_GRP1_PERIPH_GPIOB,
       sw_on = HAL_RCC_GPIOB_CLK_SLEEP_ENABLE, sw_off = HAL_RCC_GPIOB_CLK_SLEEP_DISABLE,
       sw_test = HAL_RCC_GPIOB_IS_CLK_SLEEP_ENABLED\<rparr>,
     \<lparr>sw_reg = RCC_AHB2SMENR, sw_bit = LL_AHB2_GRP1_PERIPH_GPIOC,
       sw_on = HAL_RCC_GPIOC_CLK_SLEEP_ENABLE, sw_off = HAL_RCC_GPIOC_CLK_SLEEP_DISABLE,
       sw_test = HAL_RCC_GPIOC_IS_CLK_SLEEP_ENABLED\<rparr>,
     \<lparr>sw_reg = RCC_AHB2SMENR, sw_bit = LL_AHB2_GRP1_PERIPH_GPIOH,
       sw_on = HAL_RCC_GPIOH_CLK_SLEEP_ENABLE, sw_off = HAL_RCC_GPIOH_CLK_SLEEP_DISABLE,
       sw_test = HAL_RCC_GPIOH_IS_CLK_SLEEP_ENABLED\<rparr>,
     \<lparr>sw_reg = RCC_AHB3SMENR, sw_bit = LL_AHB3_GRP1_PERIPH_PKA,
       sw_on = HAL_RCC_PKA_CLK_SLEEP_ENABLE, sw_off = HAL_RCC_PKA_CLK_SLEEP_DISABLE,
       sw_test = HAL_RCC_PKA_IS_CLK_SLEEP_ENABLED\<rparr>,
     \<lparr>sw_reg = RCC_AHB3SMENR, sw_bit = LL_AHB3_GRP1_PERIPH_AES,
       sw_on = HAL_RCC_AES_CLK_SLEEP_ENABLE, sw_off = HAL_RCC_AES_CLK_SLEEP_DISABLE,
       sw_test = HAL_RCC_AES_IS_CLK_SLEEP_ENABLED\<rparr>,
     \<lparr>sw_reg = RCC_AHB3SMENR, sw_bit = LL_AHB3_GRP1_PERIPH_RNG,
       sw_on = HAL_RCC_RNG_CLK_SLEEP_ENABLE, sw_off = HAL_RCC_RNG_CLK_SLEEP_DISABLE,
       sw_test = HAL_RCC_RNG_IS_CLK_SLEEP_ENABLED\<rparr>,
     \<lparr>sw_reg = RCC_AHB3SMENR, sw_bit = LL_AHB3_GRP1_PERIPH_SRAM1,
       sw_on = HAL_RCC_SRAM1_CLK_SLEEP_ENABLE, sw_off = HAL_RCC_SRAM1_CLK_SLEEP_DISABLE,
       sw_test = HAL_RCC_SRAM1_IS_CLK_SLEEP_ENABLED\<rparr>,
     \<lparr>sw_reg = RCC_AHB3SMENR, sw_bit = LL_AHB3_GRP1_PERIPH_SRAM2,
       sw_on = HAL_RCC_SRAM2_CLK_SLEEP_ENABLE, sw_off = HAL_RCC_SRAM2_CLK_SLEEP_DISABLE,
       sw_test = HAL_RCC_SRAM2_IS_CLK_SLEEP_ENABLED\<rparr>,
     \<lparr>sw_reg = RCC_AHB3SMENR, sw_bit = LL_AHB3_GRP1_PERIPH_FLASH,
       sw_on = HAL_RCC_FLASH_CLK_SLEEP_ENABLE, sw_off = HAL_RCC_FLASH_CLK_SLEEP_DISABLE,
       sw_test = HAL_RCC_FLASH_IS_CLK_SLEEP_ENABLED\<rparr>,
     \<lparr>sw_reg = RCC_APB1SMENR1, sw_bit = LL_APB1_GRP1_PERIPH_TIM2,
       sw_on = HAL_RCC_TIM2_CLK_SLEEP_ENABLE, sw_off = HAL_RCC_TIM2_CLK_SLEEP_DISABLE,
       sw_test = HAL_RCC_TIM2_IS_CLK_SLEEP_ENABLED\<rparr>,
     \<lparr>sw_reg = RCC_APB1SMENR1, sw_bit = LL_APB1_GRP1_PERIPH_RTCAPB,
       sw_on = HAL_RCC_RTCAPB_CLK_SLEEP_ENABLE, sw_off = HAL_RCC_RTCAPB_CLK_SLEEP_DISABLE,
       sw_test = HAL_RCC_RTCAPB_IS_CLK_SLEEP_ENABLED\<rparr>,
     \<lparr>sw_reg = RCC_APB1SMENR1, sw_bit = LL_APB1_GRP1_PERIPH_SPI2,
       sw_on = HAL_RCC_SPI2_CLK_SLEEP_ENABLE, sw_off = HAL_RCC_SPI2_CLK_SLEEP_DISABLE,
       sw_test = HAL_RCC_SPI2_IS_CLK_SLEEP_ENABLED\<rparr>,
     \<lparr>sw_reg = RCC_APB1SMENR1, sw_bit = LL_APB1_GRP1_PERIPH_USART2,
       sw_on = HAL_RCC_USART2_CLK_SLEEP_ENABLE, sw_off = HAL_RCC_USART2_CLK_SLEEP_DISABLE,
       sw_test = HAL_RCC_USART2_IS_CLK_SLEEP_ENABLED\<rparr>,
     \<lparr>sw_reg = RCC_APB1SMENR1, sw_bit = LL_APB1_GRP1_PERIPH_I2C1,
       sw_on = HAL_RCC_I2C1_CLK_SLEEP_ENABLE, sw_off = HAL_RCC_I2C1_CLK_SLEEP_DISABLE,
       sw_test = HAL_RCC_I2C1_IS_CLK_SLEEP_ENABLED\<rparr>,
     \<lparr>sw_reg = RCC_APB1SMENR1, sw_bit = LL_APB1_GRP1_PERIPH_I2C2,
       sw_on = HAL_RCC_I2C2_CLK_SLEEP_ENABLE, sw_off = HAL_RCC_I2C2_CLK_SLEEP_DISABLE,
       sw_test = HAL_RCC_I2C2_IS_CLK_SLEEP_ENABLED\<rparr>,
     \<lparr>sw_reg = RCC_APB1SMENR1, sw_bit = LL_APB1_GRP1_PERIPH_I2C3,
       sw_on = HAL_RCC_I2C3_CLK_SLEEP_ENABLE, sw_off = HAL_RCC_I2C3_CLK_SLEEP_DISABLE,
       sw_test = HAL_RCC_I2C3_IS_CLK_SLEEP_ENABLED\<rparr>,
     \<lparr>sw_reg = RCC_APB1SMENR1, sw_bit = LL_APB1_GRP1_PERIPH_DAC,
       sw_on = HAL_RCC_DAC_CLK_SLEEP_ENABLE, sw_off = HAL_RCC_DAC_CLK_SLEEP_DISABLE,
       sw_test = HAL_RCC_DAC_IS_CLK_SLEEP_ENABLED\<rparr>,
     \<lparr>sw_reg = RCC_APB1SMENR1, sw_bit = LL_APB1_GRP1_PERIPH_LPTIM1,
       sw_on = HAL_RCC_LPTIM1_CLK_SLEEP_ENABLE, sw_off = HAL_RCC_LPTIM1_CLK_SLEEP_DISABLE,
       sw_test = HAL_RCC_LPTIM1_IS_CLK_SLEEP_ENABLED\<rparr>,
     \<lparr>sw_reg = RCC_APB1SMENR2, sw_bit = LL_APB1_GRP2_PERIPH_LPUART1,
       sw_on = HAL_RCC_LPUART1_CLK_SLEEP_ENABLE, sw_off = HAL_RCC_LPUART1_CLK_SLEEP_DISABLE,
       sw_test = HAL_RCC_LPUART1_IS_CLK_SLEEP_ENABLED\<rparr>,
     \<lparr>sw_reg = RCC_APB1SMENR2, sw_bit = LL_APB1_GRP2_PERIPH_LPTIM2,
       sw_on = HAL_RCC_LPTIM2_CLK_SLEEP_ENABLE, sw_off = HAL_RCC_LPTIM2_CLK_SLEEP_DISABLE,
       sw_test = HAL_RCC_LPTIM2_IS_CLK_SLEEP_ENABLED\<rparr>,
     \<lparr>sw_reg = RCC_APB1SMENR2, sw_bit = LL_APB1_GRP2_PERIPH_LPTIM3,
       sw_on = HAL_RCC_LPTIM3_CLK_SLEEP_ENABLE, sw_off = HAL_RCC_LPTIM3_CLK_SLEEP_DISABLE,
       sw_test = HAL_RCC_LPTIM3_IS_CLK_SLEEP_ENABLED\<rparr>,
     \<lparr>sw_reg = RCC_APB1SMENR1, sw_bit = LL_APB1_GRP1_PERIPH_WWDG,
       sw_on = HAL_RCC_WWDG_CLK_SLEEP_ENABLE, sw_off = HAL_RCC_WWDG_CLK_SLEEP_DISABLE,
       sw_test = HAL_RCC_WWDG_IS_CLK_SLEEP_ENABLED\<rparr>,
     \<lparr>sw_reg = RCC_APB2SMENR, sw_bit = LL_APB2_GRP1_PERIPH_ADC,
       sw_on = HAL_RCC_ADC_CLK_SLEEP_ENABLE, sw_off = HAL_RCC_ADC_CLK_SLEEP_DISABLE,
       sw_test = HAL_RCC_ADC_IS_CLK_SLEEP_ENABLED\<rparr>,
     \<lparr>sw_reg = RCC_APB2SMENR, sw_bit = LL_APB2_GRP1_PERIPH_TIM1,
       sw_on = HAL_RCC_TIM1_CLK_SLEEP_ENABLE, sw_off = HAL_RCC_TIM1_CLK_SLEEP_DISABLE,
       sw_test = HAL_RCC_TIM1_IS_CLK_SLEEP_ENABLED\<rparr>,
     \<lparr>sw_reg = RCC_APB2SMENR, sw_bit = LL_APB2_GRP1_PERIPH_SPI1,
       sw_on = HAL_RCC_SPI1_CLK_SLEEP_ENABLE, sw_off = HAL_RCC_SPI1_CLK_SLEEP_DISABLE,
       sw_test = HAL_RCC_SPI1_IS_CLK_SLEEP_ENABLED\<rparr>,
     \<lparr>sw_reg = RCC_APB2SMENR, sw_bit = LL_APB2_GRP1_PERIPH_USART1,
       sw_on = HAL_RCC_USART1_CLK_SLEEP_ENABLE, sw_off = HAL_RCC_USART1_CLK_SLEEP_DISABLE,
       sw_test = HAL_RCC_USART1_IS_CLK_SLEEP_ENABLED\<rparr>,
     \<lparr>sw_reg = RCC_APB2SMENR, sw_bit = LL_APB2_GRP1_PERIPH_TIM16,
       sw_on = HAL_RCC_TIM16_CLK_SLEEP_ENABLE, sw_off = HAL_RCC_TIM16_CLK_SLEEP_DISABLE,
       sw_test = HAL_RCC_TIM16_IS_CLK_SLEEP_ENABLED\<rparr>,
     \<lparr>sw_reg = RCC_APB2SMENR, sw_bit = LL_APB2_GRP1_PERIPH_TIM17,
       sw_on = HAL_RCC_TIM17_CLK_SLEEP_ENABLE, sw_off = HAL_RCC_TIM17_CLK_SLEEP_DISABLE,
       sw_test = HAL_RCC_TIM17_IS_CLK_SLEEP_ENABLED\<rparr>,
     \<lparr>sw_reg = RCC_APB3SMENR, sw_bit = LL_APB3_GRP1_PERIPH_SUBGHZSPI,
       sw_on = HAL_RCC_SUBGHZSPI_CLK_SLEEP_ENABLE, sw_off = HAL_RCC_SUBGHZSPI_CLK_SLEEP_DISABLE,
       sw_test = HAL_RCC_SUBGHZSPI_IS_CLK_SLEEP_ENABLED\<rparr>]"

definition plain_switch :: "switch \<Rightarrow> bool" where
  "plain_switch s \<longleftrightarrow> sw_on s = SET_BIT (sw_reg s) (sw_bit s) \<and> sw_off s = CLEAR_BIT (sw_reg s) (sw_bit s) \<and>
     sw_test s = (\<lambda>r. if READ_BIT (sw_reg s) (sw_bit s) r = sw_bit s then 1 else 0) \<and> sw_bit s \<noteq> 0"

fun switches_apart :: "switch list \<Rightarrow> bool" where
  "switches_apart [] \<longleftrightarrow> True"
| "switches_apart (s # ss) \<longleftrightarrow>
     (\<forall>t \<in> set ss. apart (sw_reg s) (sw_bit s) (sw_reg t) (sw_bit t)) \<and> switches_apart ss"

lemma switches_apartD:
  "switches_apart ss \<Longrightarrow> i < length ss \<Longrightarrow> j < length ss \<Longrightarrow> i \<noteq> j \<Longrightarrow>
   apart (sw_reg (ss ! i)) (sw_bit (ss ! i)) (sw_reg (ss ! j)) (sw_bit (ss ! j))"
proof (induction ss arbitrary: i j)
  case (Cons s ss)
  then show ?case by (cases i; cases j) (auto simp: apart_commute nth_mem)
qed simp

fun sw_call :: "switch list \<Rightarrow> nat \<times> bool \<Rightarrow> regs \<Rightarrow> regs" where
  "sw_call ss (i, b) r = (if b then sw_on (ss ! i) r else sw_off (ss ! i) r)"

lemma sleep_clocks_plain: "\<forall>s \<in> set sleep_clocks. plain_switch s"
  by (simp add: sleep_clocks_def plain_switch_def ll_def Let_def fun_eq_iff reg_mask)

lemma sleep_clocks_apart: "switches_apart sleep_clocks"
  by (simp add: sleep_clocks_def apart_def reg_addr reg_mask)

lemma sw_call_test:
  assumes "i < length sleep_clocks" and "j < length sleep_clocks"
  shows "sw_test (sleep_clocks ! j) (sw_call sleep_clocks (i, b) r) =
    (if j = i then (if b then 1 else 0) else sw_test (sleep_clocks ! j) r)"
proof -
  have p: "plain_switch (sleep_clocks ! i)" "plain_switch (sleep_clocks ! j)"
    using assms sleep_clocks_plain by simp_all
  show ?thesis
  proof (cases "j = i")
    case True
    have "(x OR m) AND m = m" and "(x AND NOT m) AND m = 0" for x m :: u32
      by (simp_all add: bit.conj_disj_distrib2 and.assoc)
    with True p show ?thesis by (auto simp: plain_switch_def reg_access)
  next
    case False
    then have "apart (sw_reg (sleep_clocks ! i)) (sw_bit (sleep_clocks ! i))
        (sw_reg (sleep_clocks ! j)) (sw_bit (sleep_clocks ! j))"
      using switches_apartD [OF sleep_clocks_apart assms] by simp
    with False p show ?thesis by (simp add: plain_switch_def READ_BIT_SET_other READ_BIT_CLEAR_other)
  qed
qed

interpretation sleep: unit_bank "{..<length sleep_clocks}" "\<lambda>_. True" "\<lambda>_. True"
  "\<lambda>x r. Inr (sw_call sleep_clocks x r)" "\<lambda>i. sw_test (sleep_clocks ! i)" "\<lambda>b _. if b then 1 else 0"
  by unfold_locales (auto simp: sw_call_test simp del: sw_call.simps)

lemma run_ops_total: "run_ops (\<lambda>x s. Inr (f x s)) xs s = Inr (fold f xs s)"
  by (induction xs arbitrary: s) simp_all

lemma fold_last: "fold (\<lambda>x _. f x) xs v = last (v # map f xs)"
  by (induction xs arbitrary: v) (simp_all split: if_splits)

text \<open>
  The sleep clocks of the HAL are independent switches. Call the macros that enable and disable the clocks of the
  34 peripherals in sleep mode in any order: afterwards the macro that asks for a peripheral answers what the
  last call for that peripheral was, or what it answered before when there was none. The switches share seven registers.
\<close>

theorem sleep_clocks_switch:
  assumes "i < length sleep_clocks" and "\<forall>x \<in> set xs. fst x < length sleep_clocks"
  shows "sw_test (sleep_clocks ! i) (fold (sw_call sleep_clocks) xs r) =
    last (sw_test (sleep_clocks ! i) r # map (\<lambda>b. if b then 1 else 0) (own_calls i xs))"
  using sleep.run_view [of xs r] assms by (simp add: run_ops_total fold_last)

theorem sleep_clocks_switch_witness:
  "HAL_RCC_DMA1_IS_CLK_SLEEP_ENABLED
     (HAL_RCC_DMA2_CLK_SLEEP_DISABLE (HAL_RCC_DMA1_CLK_SLEEP_ENABLE (\<lambda>_. 0))) = 1"
  using sleep_clocks_switch [of 0 "[(0, True), (1, False)]" "\<lambda>_. 0"] by (simp add: sleep_clocks_def)

section \<open>Clock sources\<close>

definition hal_sources :: "setting list" where
  "hal_sources =
    [\<lparr>set_reg = RCC_CCIPR, set_mask = RCC_CCIPR_USART1SEL,
       set_put = HAL_RCC_USART1_CONFIG, set_get = HAL_RCC_GET_USART1_SOURCE,
       set_enc = \<lambda>v. v AND 0x0000FFFF, set_dec = \<lambda>e. e OR push_bit 16 LL_RCC_USART1_CLKSOURCE,
       set_ok = IS_RCC_USART1CLKSOURCE\<rparr>,
     \<lparr>set_reg = RCC_CCIPR, set_mask = RCC_CCIPR_USART2SEL,
       set_put = HAL_RCC_USART2_CONFIG, set_get = HAL_RCC_GET_USART2_SOURCE,
       set_enc = \<lambda>v. v AND 0x0000FFFF, set_dec = \<lambda>e. e OR push_bit 16 LL_RCC_USART2_CLKSOURCE,
       set_ok = IS_RCC_USART2CLKSOURCE\<rparr>,
     \<lparr>set_reg = RCC_CCIPR, set_mask = RCC_CCIPR_I2S2SEL,
       set_put = HAL_RCC_I2S2_CONFIG, set_get = HAL_RCC_GET_I2S2_SOURCE,
       set_enc = \<lambda>v. v, set_dec = \<lambda>e. e,
       set_ok = IS_RCC_I2S2CLKSOURCE\<rparr>,
     \<lparr>set_reg = RCC_CCIPR, set_mask = RCC_CCIPR_LPUART1SEL,
       set_put = HAL_RCC_LPUART1_CONFIG, set_get = HAL_RCC_GET_LPUART1_SOURCE,
       set_enc = \<lambda>v. v, set_dec = \<lambda>e. e,
       set_ok = IS_RCC_LPUART1CLKSOURCE\<rparr>,
     \<lparr>set_reg = RCC_CCIPR, set_mask = RCC_CCIPR_I2C1SEL,
       set_put = HAL_RCC_I2C1_CONFIG, set_get = HAL_RCC_GET_I2C1_SOURCE,
       set_enc = \<lambda>v. push_bit 4 v AND 0x000FF000, set_dec = \<lambda>e. drop_bit 4 e OR push_bit 4 LL_RCC_I2C1_CLKSOURCE,
       set_ok = IS_RCC_I2C1CLKSOURCE\<rparr>,
     \<lparr>set_reg = RCC_CCIPR, set_mask = RCC_CCIPR_I2C2SEL,
       set_put = HAL_RCC_I2C2_CONFIG, set_get = HAL_RCC_GET_I2C2_SOURCE,
       set_enc = \<lambda>v. push_bit 4 v AND 0x000FF000, set_dec = \<lambda>e. drop_bit 4 e OR push_bit 4 LL_RCC_I2C2_CLKSOURCE,
       set_ok = IS_RCC_I2C2CLKSOURCE\<rparr>,
     \<lparr>set_reg = RCC_CCIPR, set_mask = RCC_CCIPR_I2C3SEL,
       set_put = HAL_RCC_I2C3_CONFIG, set_get = HAL_RCC_GET_I2C3_SOURCE,
       set_enc = \<lambda>v. push_bit 4 v AND 0x000FF000, set_dec = \<lambda>e. drop_bit 4 e OR push_bit 4 LL_RCC_I2C3_CLKSOURCE,
       set_ok = IS_RCC_I2C3CLKSOURCE\<rparr>,
     \<lparr>set_reg = RCC_CCIPR, set_mask = RCC_CCIPR_LPTIM1SEL,
       set_put = HAL_RCC_LPTIM1_CONFIG, set_get = HAL_RCC_GET_LPTIM1_SOURCE,
       set_enc = \<lambda>v. push_bit 16 v, set_dec = \<lambda>e. drop_bit 16 e OR LL_RCC_LPTIM1_CLKSOURCE,
       set_ok = IS_RCC_LPTIM1CLKSOURCE\<rparr>,
     \<lparr>set_reg = RCC_CCIPR, set_mask = RCC_CCIPR_LPTIM2SEL,
       set_put = HAL_RCC_LPTIM2_CONFIG, set_get = HAL_RCC_GET_LPTIM2_SOURCE,
       set_enc = \<lambda>v. push_bit 16 v, set_dec = \<lambda>e. drop_bit 16 e OR LL_RCC_LPTIM2_CLKSOURCE,
       set_ok = IS_RCC_LPTIM2CLKSOURCE\<rparr>,
     \<lparr>set_reg = RCC_CCIPR, set_mask = RCC_CCIPR_LPTIM3SEL,
       set_put = HAL_RCC_LPTIM3_CONFIG, set_get = HAL_RCC_GET_LPTIM3_SOURCE,
       set_enc = \<lambda>v. push_bit 16 v, set_dec = \<lambda>e. drop_bit 16 e OR LL_RCC_LPTIM3_CLKSOURCE,
       set_ok = IS_RCC_LPTIM3CLKSOURCE\<rparr>,
     \<lparr>set_reg = RCC_CCIPR, set_mask = RCC_CCIPR_RNGSEL,
       set_put = HAL_RCC_RNG_CONFIG, set_get = HAL_RCC_GET_RNG_SOURCE,
       set_enc = \<lambda>v. v, set_dec = \<lambda>e. e,
       set_ok = IS_RCC_RNGCLKSOURCE\<rparr>,
     \<lparr>set_reg = RCC_CCIPR, set_mask = RCC_CCIPR_ADCSEL,
       set_put = HAL_RCC_ADC_CONFIG, set_get = HAL_RCC_GET_ADC_SOURCE,
       set_enc = \<lambda>v. v, set_dec = \<lambda>e. e,
       set_ok = IS_RCC_ADCCLKSOURCE\<rparr>]"

lemma hal_sources_coded: "\<forall>f \<in> set hal_sources. coded_setting f"
  by (auto simp: hal_sources_def coded_setting_def ll_def source_preds fun_eq_iff reg_pos reg_mask)

lemma hal_sources_apart: "settings_apart hal_sources"
  by (simp add: hal_sources_def apart_def reg_addr reg_mask reg_pos)

interpretation hal_source: setting_bank hal_sources
  by unfold_locales (rule hal_sources_coded hal_sources_apart)+

text \<open>
  The clock sources of the HAL read back. Configure the clock sources of the twelve peripherals in any order with
  sources the parameter checks of the HAL accept: each query answers the source configured last for its peripheral.
\<close>

theorem hal_sources_read_back:
  assumes "i < length hal_sources"
    and "\<forall>x \<in> set xs. fst x < length hal_sources \<and> set_ok (hal_sources ! fst x) (snd x)"
  shows "set_get (hal_sources ! i) (fold (setting_call hal_sources) xs r) =
    last (set_get (hal_sources ! i) r # own_calls i xs)"
  using assms by (rule hal_source.bank_get)

theorem hal_sources_read_back_witness:
  "HAL_RCC_GET_LPTIM1_SOURCE (HAL_RCC_LPTIM2_CONFIG RCC_LPTIM2CLKSOURCE_LSI
     (HAL_RCC_LPTIM1_CONFIG RCC_LPTIM1CLKSOURCE_LSE (\<lambda>_. 0))) = RCC_LPTIM1CLKSOURCE_LSE"
  using hal_sources_read_back [of 7 "[(7, RCC_LPTIM1CLKSOURCE_LSE), (8, RCC_LPTIM2CLKSOURCE_LSI)]" "\<lambda>_. 0"]
  by (simp add: hal_sources_def IS_RCC_LPTIM1CLKSOURCE_def IS_RCC_LPTIM2CLKSOURCE_def)

section \<open>Oscillators\<close>

definition lse_states :: "u32 list" where
  "lse_states = [RCC_LSE_OFF, RCC_LSE_ON_RTC_ONLY, RCC_LSE_ON, RCC_LSE_BYPASS_RTC_ONLY, RCC_LSE_BYPASS]"

definition hse_states :: "u32 list" where
  "hse_states = [RCC_HSE_OFF, RCC_HSE_ON, RCC_HSE_BYPASS_PWR]"

lemma LSE_CONFIG_on:
  "s \<in> set lse_states \<Longrightarrow> s \<noteq> RCC_LSE_OFF \<Longrightarrow> HAL_RCC_LSE_CONFIG s r = SET_BIT RCC_BDCR s r"
  by (auto simp: lse_states_def HAL_RCC_LSE_CONFIG_def reg_access reg_mask or.assoc)

lemma HSE_CONFIG_on:
  "h \<in> set hse_states \<Longrightarrow> h \<noteq> RCC_HSE_OFF \<Longrightarrow> HAL_RCC_HSE_CONFIG h r = SET_BIT RCC_CR h r"
  by (auto simp: hse_states_def HAL_RCC_HSE_CONFIG_def ll_def reg_access reg_mask or.assoc)

lemma READ_BIT_cleared:
  assumes "bits k \<subseteq> bits m \<union> bits n"
  shows "READ_BIT a k (CLEAR_BIT a n (CLEAR_BIT a m r)) = 0"
proof -
  have "bits (READ_BIT a k (CLEAR_BIT a n (CLEAR_BIT a m r))) = {}"
    using assms by (auto simp: reg_access bits_not)
  then show ?thesis by (simp only: bits_eq_0)
qed

lemma CONFIG_off:
  "READ_BIT RCC_BDCR (RCC_BDCR_LSEON OR RCC_BDCR_LSESYSEN OR RCC_BDCR_LSEBYP) (HAL_RCC_LSE_CONFIG RCC_LSE_OFF r) = 0"
  "READ_BIT RCC_CR (RCC_CR_HSEON OR RCC_CR_HSEBYPPWR) (HAL_RCC_HSE_CONFIG RCC_HSE_OFF r) = 0"
proof -
  have "HAL_RCC_LSE_CONFIG RCC_LSE_OFF r =
      CLEAR_BIT RCC_BDCR RCC_BDCR_LSEBYP (CLEAR_BIT RCC_BDCR (RCC_BDCR_LSEON OR RCC_BDCR_LSESYSEN) r)"
    by (simp add: HAL_RCC_LSE_CONFIG_def reg_mask)
  then show "READ_BIT RCC_BDCR (RCC_BDCR_LSEON OR RCC_BDCR_LSESYSEN OR RCC_BDCR_LSEBYP)
      (HAL_RCC_LSE_CONFIG RCC_LSE_OFF r) = 0"
    by (simp only:) (rule READ_BIT_cleared, auto)
  have "HAL_RCC_HSE_CONFIG RCC_HSE_OFF r = CLEAR_BIT RCC_CR RCC_CR_HSEBYPPWR (CLEAR_BIT RCC_CR RCC_CR_HSEON r)"
    by (simp add: HAL_RCC_HSE_CONFIG_def ll_def reg_mask)
  then show "READ_BIT RCC_CR (RCC_CR_HSEON OR RCC_CR_HSEBYPPWR) (HAL_RCC_HSE_CONFIG RCC_HSE_OFF r) = 0"
    by (simp only:) (rule READ_BIT_cleared, auto)
qed

lemma READ_BIT_SET_part: "READ_BIT a m (SET_BIT a v r) = READ_BIT a m r OR (v AND m)"
  by (simp add: reg_access bit.conj_disj_distrib2)

lemma states_in_masks:
  "s \<in> set lse_states \<Longrightarrow> s AND (RCC_BDCR_LSEON OR RCC_BDCR_LSESYSEN OR RCC_BDCR_LSEBYP) = s"
  "h \<in> set hse_states \<Longrightarrow> h AND (RCC_CR_HSEON OR RCC_CR_HSEBYPPWR) = h"
  by (auto simp: lse_states_def hse_states_def reg_mask)

text \<open>
  The oscillator configurations reach the states they are named after. Switched off first, as the documentation
  asks, the low-speed and the high-speed external oscillator have exactly the control bits of the state they are
  configured for. Configured from another state without switching off, the bits of the old state stay: a
  bypassed oscillator remains bypassed when it is configured as a crystal.
\<close>

theorem oscillator_states:
  assumes "s \<in> set lse_states" and "h \<in> set hse_states"
  shows "READ_BIT RCC_BDCR (RCC_BDCR_LSEON OR RCC_BDCR_LSESYSEN OR RCC_BDCR_LSEBYP)
      (HAL_RCC_LSE_CONFIG s (HAL_RCC_LSE_CONFIG RCC_LSE_OFF r)) = s \<and>
    READ_BIT RCC_CR (RCC_CR_HSEON OR RCC_CR_HSEBYPPWR) (HAL_RCC_HSE_CONFIG h (HAL_RCC_HSE_CONFIG RCC_HSE_OFF r)) = h \<and>
    (s \<noteq> RCC_LSE_OFF \<longrightarrow> bits (HAL_RCC_LSE_CONFIG s r RCC_BDCR) = bits (r RCC_BDCR) \<union> bits s) \<and>
    (h \<noteq> RCC_HSE_OFF \<longrightarrow> bits (HAL_RCC_HSE_CONFIG h r RCC_CR) = bits (r RCC_CR) \<union> bits h)"
proof -
  have "bits (SET_BIT a v r a) = bits (r a) \<union> bits v" for a v by (simp add: reg_access)
  moreover have "READ_BIT RCC_BDCR (RCC_BDCR_LSEON OR RCC_BDCR_LSESYSEN OR RCC_BDCR_LSEBYP)
      (HAL_RCC_LSE_CONFIG s (HAL_RCC_LSE_CONFIG RCC_LSE_OFF r)) = s"
    using LSE_CONFIG_on [OF assms(1)] states_in_masks(1) [OF assms(1)]
    by (cases "s = RCC_LSE_OFF") (simp_all add: CONFIG_off READ_BIT_SET_part, simp add: RCC_LSE_OFF_def)
  moreover have "READ_BIT RCC_CR (RCC_CR_HSEON OR RCC_CR_HSEBYPPWR)
      (HAL_RCC_HSE_CONFIG h (HAL_RCC_HSE_CONFIG RCC_HSE_OFF r)) = h"
    using HSE_CONFIG_on [OF assms(2)] states_in_masks(2) [OF assms(2)]
    by (cases "h = RCC_HSE_OFF") (simp_all add: CONFIG_off READ_BIT_SET_part, simp add: RCC_HSE_OFF_def)
  ultimately show ?thesis using LSE_CONFIG_on [OF assms(1)] HSE_CONFIG_on [OF assms(2)] by simp
qed

theorem oscillator_states_witness:
  "READ_BIT RCC_BDCR (RCC_BDCR_LSEON OR RCC_BDCR_LSESYSEN OR RCC_BDCR_LSEBYP)
     (HAL_RCC_LSE_CONFIG RCC_LSE_ON (HAL_RCC_LSE_CONFIG RCC_LSE_OFF (\<lambda>_. 0xFFFFFFFF))) = RCC_LSE_ON"
  using oscillator_states [of RCC_LSE_ON RCC_HSE_OFF "\<lambda>_. 0xFFFFFFFF"]
  by (simp add: lse_states_def hse_states_def)

lemma or_not_zero: "y \<noteq> 0 \<Longrightarrow> x OR y \<noteq> (0 :: u32)"
  by (metis bits_or bits_eq_0 Un_empty)

lemma msi_mask: "0xF0 AND mask 8 = (0xF0 :: u32)"
  by (simp add: mask_numeral)

text \<open>
  The range of the multi-speed oscillator. The range configured for run mode is the range read, and so is the range
  configured for standby as long as the run-mode range is not selected; that selection, once made, is never undone
  by the macros, and the standby range is then out of sight.
\<close>

theorem msi_range_read:
  assumes "v AND RCC_CR_MSIRANGE = v"
  shows "HAL_RCC_GET_MSI_RANGE (HAL_RCC_MSI_RANGE_CONFIG v r) = v \<and>
    (READ_BIT RCC_CR RCC_CR_MSIRGSEL r = 0 \<longrightarrow> HAL_RCC_GET_MSI_RANGE (HAL_RCC_MSI_STANDBY_RANGE_CONFIG v r) = v) \<and>
    HAL_RCC_GET_MSI_RANGE (HAL_RCC_MSI_STANDBY_RANGE_CONFIG w (HAL_RCC_MSI_RANGE_CONFIG v r)) = v"
proof -
  have v0: "v AND 0xF0 = v" using assms by (simp add: reg_mask reg_pos)
  then have "v AND mask 8 = v" by (metis and.assoc msi_mask)
  then have v: "push_bit 4 v AND RCC_CSR_MSISRANGE = push_bit 4 v" "drop_bit 4 (push_bit 4 v) = v"
    using shift_field(2) [of v 8 4] push_bit_and [of 4 v "0xF0"] v0 by (simp_all add: reg_mask reg_pos)
  have sel: "READ_BIT RCC_CR RCC_CR_MSIRGSEL (HAL_RCC_MSI_RANGE_CONFIG v s) \<noteq> 0" for s
  proof -
    have "apart RCC_CR RCC_CR_MSIRANGE RCC_CR RCC_CR_MSIRGSEL" and "RCC_CR_MSIRGSEL \<noteq> 0"
      by (simp_all add: apart_def reg_mask reg_pos)
    then show ?thesis
      using assms by (simp add: HAL_RCC_MSI_RANGE_CONFIG_def READ_BIT_MODIFY_other READ_BIT_SET_part or_not_zero)
  qed
  have out: "READ_BIT RCC_CR m (HAL_RCC_MSI_STANDBY_RANGE_CONFIG u s) = READ_BIT RCC_CR m s" for m u s
    by (simp add: HAL_RCC_MSI_STANDBY_RANGE_CONFIG_def reg_access reg_addr)
  have run: "READ_BIT RCC_CR RCC_CR_MSIRANGE (HAL_RCC_MSI_RANGE_CONFIG v r) = v"
    using assms by (simp add: HAL_RCC_MSI_RANGE_CONFIG_def)
  have "READ_BIT RCC_CSR RCC_CSR_MSISRANGE (HAL_RCC_MSI_STANDBY_RANGE_CONFIG v r) = push_bit 4 v"
    using v(1) by (simp add: HAL_RCC_MSI_STANDBY_RANGE_CONFIG_def)
  then show ?thesis
    using sel out run v(2) by (simp add: HAL_RCC_GET_MSI_RANGE_def)
qed

theorem msi_range_read_witness:
  "HAL_RCC_GET_MSI_RANGE (HAL_RCC_MSI_RANGE_CONFIG RCC_MSIRANGE_11 (\<lambda>_. 0)) = RCC_MSIRANGE_11"
  using msi_range_read [of RCC_MSIRANGE_11 "\<lambda>_. 0"] by (simp add: reg_mask reg_pos)

section \<open>PLL\<close>

text \<open>A value put together from parts that lie in disjoint fields has each part in its field.\<close>

lemma field_zero: "v AND m = v \<Longrightarrow> m AND k = 0 \<Longrightarrow> v AND k = (0 :: u32)"
  by (metis and.assoc and_zero_eq)

lemma field_keep: "v AND m = v \<Longrightarrow> m AND k = m \<Longrightarrow> v AND k = (v :: u32)"
  by (metis and.assoc)

text \<open>
  The PLL macro configures all six parts. With each value inside its field, and a multiplier below 128, the getters of
  the low-level driver read back the source, the divider of the input, the multiplier and the dividers of the
  three outputs that the macro was given, and the enable bits of the outputs are as they were.
\<close>

theorem pll_config_reads_back:
  assumes "src AND RCC_PLLCFGR_PLLSRC = src" and "m AND RCC_PLLCFGR_PLLM = m" and "n AND 0x7F = n"
    and "p AND RCC_PLLCFGR_PLLP = p" and "q AND RCC_PLLCFGR_PLLQ = q" and "d AND RCC_PLLCFGR_PLLR = d"
  shows "let r' = HAL_RCC_PLL_CONFIG src m n p q d r
    in HAL_RCC_GET_PLL_OSCSOURCE r' = src \<and> LL_RCC_PLL_GetDivider r' = m \<and> LL_RCC_PLL_GetN r' = n \<and>
       LL_RCC_PLL_GetP r' = p \<and> LL_RCC_PLL_GetQ r' = q \<and> LL_RCC_PLL_GetR r' = d \<and>
       HAL_RCC_GET_PLLCLKOUT_CONFIG (RCC_PLL_SYSCLK OR RCC_PLL_RNGCLK OR RCC_PLL_ADCCLK) r' =
         HAL_RCC_GET_PLLCLKOUT_CONFIG (RCC_PLL_SYSCLK OR RCC_PLL_RNGCLK OR RCC_PLL_ADCCLK) r"
proof -
  have n: "push_bit 8 n AND 0x7F00 = push_bit 8 n" "drop_bit 8 (push_bit 8 n) = n"
    using assms(3) plln_field [of n] by simp_all
  have parts: "src AND 0x3 = src" "m AND 0x70 = m" "p AND 0x3E0000 = p" "q AND 0xE000000 = q" "d AND 0xE0000000 = d"
    using assms by (simp_all add: reg_mask reg_pos)
  note zero = field_zero [OF n(1)] parts [THEN field_zero]
  let ?v = "src OR m OR push_bit 8 n OR p OR q OR d"
  have v: "?v AND 0xEE3E7F73 = ?v"
    by (simp add: bit.conj_disj_distrib2 field_keep [OF n(1)] parts [THEN field_keep])
  show ?thesis
    using parts n
    by (simp add: Let_def HAL_RCC_PLL_CONFIG_def HAL_RCC_GET_PLLCLKOUT_CONFIG_def ll_def reg_mask reg_pos
        READ_BIT_MODIFY_part [OF v] READ_BIT_MODIFY_other [OF v] apart_def bit.conj_disj_distrib2 zero)
qed

theorem pll_config_reads_back_witness:
  "LL_RCC_PLL_GetN (HAL_RCC_PLL_CONFIG RCC_PLLSOURCE_HSE RCC_PLLM_DIV2 12 RCC_PLLP_DIV4 RCC_PLLQ_DIV4 RCC_PLLR_DIV4
     (\<lambda>_. 0)) = 12"
  using pll_config_reads_back [of RCC_PLLSOURCE_HSE RCC_PLLM_DIV2 12 RCC_PLLP_DIV4 RCC_PLLQ_DIV4 RCC_PLLR_DIV4 "\<lambda>_. 0"]
  by (simp add: Let_def reg_mask reg_pos)

section \<open>What does nothing\<close>

definition hal_nops :: "(regs \<Rightarrow> regs) list" where
  "hal_nops =
     [HAL_RCC_DMA1_CLK_ENABLE, HAL_RCC_DMA2_CLK_ENABLE, HAL_RCC_DMAMUX1_CLK_ENABLE,
      HAL_RCC_CRC_CLK_ENABLE, HAL_RCC_DMA1_CLK_DISABLE, HAL_RCC_DMA2_CLK_DISABLE,
      HAL_RCC_DMAMUX1_CLK_DISABLE, HAL_RCC_CRC_CLK_DISABLE, HAL_RCC_GPIOA_CLK_ENABLE,
      HAL_RCC_GPIOB_CLK_ENABLE, HAL_RCC_GPIOC_CLK_ENABLE, HAL_RCC_GPIOH_CLK_ENABLE,
      HAL_RCC_GPIOA_CLK_DISABLE, HAL_RCC_GPIOB_CLK_DISABLE, HAL_RCC_GPIOC_CLK_DISABLE,
      HAL_RCC_GPIOH_CLK_DISABLE, HAL_RCC_PKA_CLK_ENABLE, HAL_RCC_AES_CLK_ENABLE,
      HAL_RCC_RNG_CLK_ENABLE, HAL_RCC_HSEM_CLK_ENABLE, HAL_RCC_IPCC_CLK_ENABLE,
      HAL_RCC_FLASH_CLK_ENABLE, HAL_RCC_PKA_CLK_DISABLE, HAL_RCC_AES_CLK_DISABLE,
      HAL_RCC_RNG_CLK_DISABLE, HAL_RCC_HSEM_CLK_DISABLE, HAL_RCC_IPCC_CLK_DISABLE,
      HAL_RCC_FLASH_CLK_DISABLE, HAL_RCC_TIM2_CLK_ENABLE, HAL_RCC_RTCAPB_CLK_ENABLE,
      HAL_RCC_SPI2_CLK_ENABLE, HAL_RCC_USART2_CLK_ENABLE, HAL_RCC_I2C1_CLK_ENABLE,
      HAL_RCC_I2C2_CLK_ENABLE, HAL_RCC_I2C3_CLK_ENABLE, HAL_RCC_DAC_CLK_ENABLE,
      HAL_RCC_LPTIM1_CLK_ENABLE, HAL_RCC_LPTIM3_CLK_ENABLE, HAL_RCC_LPUART1_CLK_ENABLE,
      HAL_RCC_LPTIM2_CLK_ENABLE, HAL_RCC_TIM2_CLK_DISABLE, HAL_RCC_RTCAPB_CLK_DISABLE,
      HAL_RCC_SPI2_CLK_DISABLE, HAL_RCC_USART2_CLK_DISABLE, HAL_RCC_I2C1_CLK_DISABLE,
      HAL_RCC_I2C2_CLK_DISABLE, HAL_RCC_I2C3_CLK_DISABLE, HAL_RCC_DAC_CLK_DISABLE,
      HAL_RCC_LPTIM1_CLK_DISABLE, HAL_RCC_LPTIM2_CLK_DISABLE, HAL_RCC_LPTIM3_CLK_DISABLE,
      HAL_RCC_LPUART1_CLK_DISABLE, HAL_RCC_WWDG_CLK_ENABLE, HAL_RCC_WWDG_CLK_DISABLE,
      HAL_RCC_ADC_CLK_ENABLE, HAL_RCC_TIM1_CLK_ENABLE, HAL_RCC_SPI1_CLK_ENABLE,
      HAL_RCC_USART1_CLK_ENABLE, HAL_RCC_TIM16_CLK_ENABLE, HAL_RCC_TIM17_CLK_ENABLE,
      HAL_RCC_ADC_CLK_DISABLE, HAL_RCC_TIM1_CLK_DISABLE, HAL_RCC_SPI1_CLK_DISABLE,
      HAL_RCC_USART1_CLK_DISABLE, HAL_RCC_TIM16_CLK_DISABLE, HAL_RCC_TIM17_CLK_DISABLE,
      HAL_RCC_SUBGHZSPI_CLK_ENABLE, HAL_RCC_SUBGHZSPI_CLK_DISABLE, HAL_RCC_AHB1_FORCE_RESET,
      HAL_RCC_DMA1_FORCE_RESET, HAL_RCC_DMA2_FORCE_RESET, HAL_RCC_DMAMUX1_FORCE_RESET,
      HAL_RCC_CRC_FORCE_RESET, HAL_RCC_AHB1_RELEASE_RESET, HAL_RCC_DMA1_RELEASE_RESET,
      HAL_RCC_DMA2_RELEASE_RESET, HAL_RCC_DMAMUX1_RELEASE_RESET, HAL_RCC_CRC_RELEASE_RESET,
      HAL_RCC_AHB2_FORCE_RESET, HAL_RCC_GPIOA_FORCE_RESET, HAL_RCC_GPIOB_FORCE_RESET,
      HAL_RCC_GPIOC_FORCE_RESET, HAL_RCC_GPIOH_FORCE_RESET, HAL_RCC_AHB2_RELEASE_RESET,
      HAL_RCC_GPIOA_RELEASE_RESET, HAL_RCC_GPIOB_RELEASE_RESET, HAL_RCC_GPIOC_RELEASE_RESET,
      HAL_RCC_GPIOH_RELEASE_RESET, HAL_RCC_IPCC_FORCE_RESET, HAL_RCC_IPCC_RELEASE_RESET,
      HAL_RCC_AHB3_FORCE_RESET, HAL_RCC_PKA_FORCE_RESET, HAL_RCC_AES_FORCE_RESET,
      HAL_RCC_RNG_FORCE_RESET, HAL_RCC_HSEM_FORCE_RESET, HAL_RCC_FLASH_FORCE_RESET,
      HAL_RCC_AHB3_RELEASE_RESET, HAL_RCC_PKA_RELEASE_RESET, HAL_RCC_AES_RELEASE_RESET,
      HAL_RCC_RNG_RELEASE_RESET, HAL_RCC_HSEM_RELEASE_RESET, HAL_RCC_FLASH_RELEASE_RESET,
      HAL_RCC_APB1L_FORCE_RESET, HAL_RCC_TIM2_FORCE_RESET, HAL_RCC_SPI2_FORCE_RESET,
      HAL_RCC_USART2_FORCE_RESET, HAL_RCC_I2C1_FORCE_RESET, HAL_RCC_I2C2_FORCE_RESET,
      HAL_RCC_I2C3_FORCE_RESET, HAL_RCC_DAC_FORCE_RESET, HAL_RCC_LPTIM1_FORCE_RESET,
      HAL_RCC_APB1H_FORCE_RESET, HAL_RCC_LPUART1_FORCE_RESET, HAL_RCC_LPTIM2_FORCE_RESET,
      HAL_RCC_LPTIM3_FORCE_RESET, HAL_RCC_APB1L_RELEASE_RESET, HAL_RCC_TIM2_RELEASE_RESET,
      HAL_RCC_USART2_RELEASE_RESET, HAL_RCC_SPI2_RELEASE_RESET, HAL_RCC_I2C1_RELEASE_RESET,
      HAL_RCC_I2C2_RELEASE_RESET, HAL_RCC_I2C3_RELEASE_RESET, HAL_RCC_DAC_RELEASE_RESET,
      HAL_RCC_LPTIM1_RELEASE_RESET, HAL_RCC_APB1H_RELEASE_RESET, HAL_RCC_LPUART1_RELEASE_RESET,
      HAL_RCC_LPTIM2_RELEASE_RESET, HAL_RCC_LPTIM3_RELEASE_RESET]"

text \<open>
  The run-mode clock macros and the reset macros of most buses leave every register as it is, the configuration functions
  answer success without configuring, and the clock tests that answer at all answer 1. So a peripheral that was never
  enabled is reported enabled, and the clock tree stays as the accessors of the low-level driver left it.
\<close>

theorem hal_clocks_are_stubs:
  "\<forall>f \<in> set hal_nops. f r = r"
  "HAL_RCC_OscConfig osc r = (HAL_OK, r)"
  "HAL_RCC_ClockConfig clk latency r = (HAL_OK, r)"
  "HAL_RCC_USART1_IS_CLK_ENABLED (HAL_RCC_USART1_CLK_DISABLE r) = 1"
  "HAL_RCC_SUBGHZSPI_IS_CLK_ENABLED (HAL_RCC_SUBGHZSPI_CLK_DISABLE r) = 1"
  by (simp_all add: hal_nops_def ll_def HAL_RCC_OscConfig_def HAL_RCC_ClockConfig_def sim_stm32_hal_clk_enabled_def)

end
