(* ===== verification/Hal_Dma.thy ===== *)
theory Hal_Dma
  imports Dma_Channels
begin

text \<open>
  The DMA macros of \<^verbatim>\<open>stm32wlxx_hal_dma.h\<close> on a handle, with the parameter checks of that header
  and the constants they use. They address the same registers as the low-level accessors, by the channel's address instead of
  controller and number, and are shown to do the same. The request numbers of the header are left out: they are
  names of \<^verbatim>\<open>stm32wlxx_ll_dmamux.h\<close>, which is empty.
\<close>

section \<open>Constants\<close>

definition DMA_PERIPH_TO_MEMORY :: u32 where
  [reg_mask]: "DMA_PERIPH_TO_MEMORY = LL_DMA_DIRECTION_PERIPH_TO_MEMORY"
definition DMA_MEMORY_TO_PERIPH :: u32 where
  [reg_mask]: "DMA_MEMORY_TO_PERIPH = LL_DMA_DIRECTION_MEMORY_TO_PERIPH"
definition DMA_MEMORY_TO_MEMORY :: u32 where
  [reg_mask]: "DMA_MEMORY_TO_MEMORY = LL_DMA_DIRECTION_MEMORY_TO_MEMORY"
definition DMA_PINC_ENABLE :: u32 where [reg_mask]: "DMA_PINC_ENABLE = LL_DMA_PERIPH_INCREMENT"
definition DMA_PINC_DISABLE :: u32 where [reg_mask]: "DMA_PINC_DISABLE = LL_DMA_PERIPH_NOINCREMENT"
definition DMA_MINC_ENABLE :: u32 where [reg_mask]: "DMA_MINC_ENABLE = LL_DMA_MEMORY_INCREMENT"
definition DMA_MINC_DISABLE :: u32 where [reg_mask]: "DMA_MINC_DISABLE = LL_DMA_MEMORY_NOINCREMENT"
definition DMA_PDATAALIGN_BYTE :: u32 where [reg_mask]: "DMA_PDATAALIGN_BYTE = LL_DMA_PDATAALIGN_BYTE"
definition DMA_PDATAALIGN_HALFWORD :: u32 where
  [reg_mask]: "DMA_PDATAALIGN_HALFWORD = LL_DMA_PDATAALIGN_HALFWORD"
definition DMA_PDATAALIGN_WORD :: u32 where [reg_mask]: "DMA_PDATAALIGN_WORD = LL_DMA_PDATAALIGN_WORD"
definition DMA_MDATAALIGN_BYTE :: u32 where [reg_mask]: "DMA_MDATAALIGN_BYTE = LL_DMA_MDATAALIGN_BYTE"
definition DMA_MDATAALIGN_HALFWORD :: u32 where
  [reg_mask]: "DMA_MDATAALIGN_HALFWORD = LL_DMA_MDATAALIGN_HALFWORD"
definition DMA_MDATAALIGN_WORD :: u32 where [reg_mask]: "DMA_MDATAALIGN_WORD = LL_DMA_MDATAALIGN_WORD"
definition DMA_NORMAL :: u32 where [reg_mask]: "DMA_NORMAL = LL_DMA_MODE_NORMAL"
definition DMA_CIRCULAR :: u32 where [reg_mask]: "DMA_CIRCULAR = LL_DMA_MODE_CIRCULAR"
definition DMA_PRIORITY_LOW :: u32 where [reg_mask]: "DMA_PRIORITY_LOW = LL_DMA_PRIORITY_LOW"
definition DMA_PRIORITY_MEDIUM :: u32 where [reg_mask]: "DMA_PRIORITY_MEDIUM = LL_DMA_PRIORITY_MEDIUM"
definition DMA_PRIORITY_HIGH :: u32 where [reg_mask]: "DMA_PRIORITY_HIGH = LL_DMA_PRIORITY_HIGH"
definition DMA_PRIORITY_VERY_HIGH :: u32 where [reg_mask]: "DMA_PRIORITY_VERY_HIGH = LL_DMA_PRIORITY_VERYHIGH"
definition DMA_IT_TC :: u32 where [reg_mask]: "DMA_IT_TC = DMA_CCR_TCIE"
definition DMA_IT_HT :: u32 where [reg_mask]: "DMA_IT_HT = DMA_CCR_HTIE"
definition DMA_IT_TE :: u32 where [reg_mask]: "DMA_IT_TE = DMA_CCR_TEIE"
definition DMA_FLAG_GI1 :: u32 where [reg_mask]: "DMA_FLAG_GI1 = DMA_ISR_GIF1"
definition DMA_FLAG_TC1 :: u32 where [reg_mask]: "DMA_FLAG_TC1 = DMA_ISR_TCIF1"
definition DMA_FLAG_HT1 :: u32 where [reg_mask]: "DMA_FLAG_HT1 = DMA_ISR_HTIF1"
definition DMA_FLAG_TE1 :: u32 where [reg_mask]: "DMA_FLAG_TE1 = DMA_ISR_TEIF1"
definition DMA_FLAG_GI2 :: u32 where [reg_mask]: "DMA_FLAG_GI2 = DMA_ISR_GIF2"
definition DMA_FLAG_TC2 :: u32 where [reg_mask]: "DMA_FLAG_TC2 = DMA_ISR_TCIF2"
definition DMA_FLAG_HT2 :: u32 where [reg_mask]: "DMA_FLAG_HT2 = DMA_ISR_HTIF2"
definition DMA_FLAG_TE2 :: u32 where [reg_mask]: "DMA_FLAG_TE2 = DMA_ISR_TEIF2"
definition DMA_FLAG_GI3 :: u32 where [reg_mask]: "DMA_FLAG_GI3 = DMA_ISR_GIF3"
definition DMA_FLAG_TC3 :: u32 where [reg_mask]: "DMA_FLAG_TC3 = DMA_ISR_TCIF3"
definition DMA_FLAG_HT3 :: u32 where [reg_mask]: "DMA_FLAG_HT3 = DMA_ISR_HTIF3"
definition DMA_FLAG_TE3 :: u32 where [reg_mask]: "DMA_FLAG_TE3 = DMA_ISR_TEIF3"
definition DMA_FLAG_GI4 :: u32 where [reg_mask]: "DMA_FLAG_GI4 = DMA_ISR_GIF4"
definition DMA_FLAG_TC4 :: u32 where [reg_mask]: "DMA_FLAG_TC4 = DMA_ISR_TCIF4"
definition DMA_FLAG_HT4 :: u32 where [reg_mask]: "DMA_FLAG_HT4 = DMA_ISR_HTIF4"
definition DMA_FLAG_TE4 :: u32 where [reg_mask]: "DMA_FLAG_TE4 = DMA_ISR_TEIF4"
definition DMA_FLAG_GI5 :: u32 where [reg_mask]: "DMA_FLAG_GI5 = DMA_ISR_GIF5"
definition DMA_FLAG_TC5 :: u32 where [reg_mask]: "DMA_FLAG_TC5 = DMA_ISR_TCIF5"
definition DMA_FLAG_HT5 :: u32 where [reg_mask]: "DMA_FLAG_HT5 = DMA_ISR_HTIF5"
definition DMA_FLAG_TE5 :: u32 where [reg_mask]: "DMA_FLAG_TE5 = DMA_ISR_TEIF5"
definition DMA_FLAG_GI6 :: u32 where [reg_mask]: "DMA_FLAG_GI6 = DMA_ISR_GIF6"
definition DMA_FLAG_TC6 :: u32 where [reg_mask]: "DMA_FLAG_TC6 = DMA_ISR_TCIF6"
definition DMA_FLAG_HT6 :: u32 where [reg_mask]: "DMA_FLAG_HT6 = DMA_ISR_HTIF6"
definition DMA_FLAG_TE6 :: u32 where [reg_mask]: "DMA_FLAG_TE6 = DMA_ISR_TEIF6"
definition DMA_FLAG_GI7 :: u32 where [reg_mask]: "DMA_FLAG_GI7 = DMA_ISR_GIF7"
definition DMA_FLAG_TC7 :: u32 where [reg_mask]: "DMA_FLAG_TC7 = DMA_ISR_TCIF7"
definition DMA_FLAG_HT7 :: u32 where [reg_mask]: "DMA_FLAG_HT7 = DMA_ISR_HTIF7"
definition DMA_FLAG_TE7 :: u32 where [reg_mask]: "DMA_FLAG_TE7 = DMA_ISR_TEIF7"

section \<open>Handles\<close>

record DMA_InitTypeDef =
  init_Request :: u32
  init_Direction :: u32
  init_PeriphInc :: u32
  init_MemInc :: u32
  init_PeriphDataAlignment :: u32
  init_MemDataAlignment :: u32
  init_Mode :: u32
  init_Priority :: u32

datatype HAL_DMA_StateTypeDef =
  HAL_DMA_STATE_RESET | HAL_DMA_STATE_READY | HAL_DMA_STATE_BUSY | HAL_DMA_STATE_TIMEOUT

text \<open>The pointers of a handle are addresses; a callback is set or not.\<close>

record DMA_HandleTypeDef =
  dma_Instance :: u32
  dma_Init :: DMA_InitTypeDef
  dma_Lock :: bool
  dma_State :: HAL_DMA_StateTypeDef
  dma_Parent :: u32
  dma_XferCpltCallback :: bool
  dma_XferHalfCpltCallback :: bool
  dma_XferErrorCallback :: bool
  dma_XferAbortCallback :: bool
  dma_ErrorCode :: u32
  dma_DmaBaseAddress :: u32
  dma_ChannelIndex :: u32
  dma_DMAmuxChannel :: u32
  dma_DMAmuxChannelStatus :: u32
  dma_DMAmuxChannelStatusMask :: u32
  dma_DMAmuxRequestGen :: u32
  dma_DMAmuxRequestGenStatus :: u32
  dma_DMAmuxRequestGenStatusMask :: u32

section \<open>Macros\<close>

definition HAL_DMA_RESET_HANDLE_STATE :: "DMA_HandleTypeDef \<Rightarrow> DMA_HandleTypeDef" where
  "HAL_DMA_RESET_HANDLE_STATE HANDLE = HANDLE\<lparr>dma_State := HAL_DMA_STATE_RESET\<rparr>"

definition HAL_DMA_ENABLE :: "DMA_HandleTypeDef \<Rightarrow> regs \<Rightarrow> regs" where
  "HAL_DMA_ENABLE HANDLE r = SET_BIT (dma_Instance HANDLE + DMA_Channel_CCR) DMA_CCR_EN r"

definition HAL_DMA_DISABLE :: "DMA_HandleTypeDef \<Rightarrow> regs \<Rightarrow> regs" where
  "HAL_DMA_DISABLE HANDLE r = CLEAR_BIT (dma_Instance HANDLE + DMA_Channel_CCR) DMA_CCR_EN r"

definition HAL_DMA_GET_TC_FLAG_INDEX :: "DMA_HandleTypeDef \<Rightarrow> u32" where
  "HAL_DMA_GET_TC_FLAG_INDEX HANDLE =
     (if dma_Instance HANDLE = DMA1_Channel1 then DMA_FLAG_TC1
      else if dma_Instance HANDLE = DMA2_Channel1 then DMA_FLAG_TC1
      else if dma_Instance HANDLE = DMA1_Channel2 then DMA_FLAG_TC2
      else if dma_Instance HANDLE = DMA2_Channel2 then DMA_FLAG_TC2
      else if dma_Instance HANDLE = DMA1_Channel3 then DMA_FLAG_TC3
      else if dma_Instance HANDLE = DMA2_Channel3 then DMA_FLAG_TC3
      else if dma_Instance HANDLE = DMA1_Channel4 then DMA_FLAG_TC4
      else if dma_Instance HANDLE = DMA2_Channel4 then DMA_FLAG_TC4
      else if dma_Instance HANDLE = DMA1_Channel5 then DMA_FLAG_TC5
      else if dma_Instance HANDLE = DMA2_Channel5 then DMA_FLAG_TC5
      else if dma_Instance HANDLE = DMA1_Channel6 then DMA_FLAG_TC6
      else if dma_Instance HANDLE = DMA2_Channel6 then DMA_FLAG_TC6
      else DMA_FLAG_TC7)"

definition HAL_DMA_GET_HT_FLAG_INDEX :: "DMA_HandleTypeDef \<Rightarrow> u32" where
  "HAL_DMA_GET_HT_FLAG_INDEX HANDLE =
     (if dma_Instance HANDLE = DMA1_Channel1 then DMA_FLAG_HT1
      else if dma_Instance HANDLE = DMA2_Channel1 then DMA_FLAG_HT1
      else if dma_Instance HANDLE = DMA1_Channel2 then DMA_FLAG_HT2
      else if dma_Instance HANDLE = DMA2_Channel2 then DMA_FLAG_HT2
      else if dma_Instance HANDLE = DMA1_Channel3 then DMA_FLAG_HT3
      else if dma_Instance HANDLE = DMA2_Channel3 then DMA_FLAG_HT3
      else if dma_Instance HANDLE = DMA1_Channel4 then DMA_FLAG_HT4
      else if dma_Instance HANDLE = DMA2_Channel4 then DMA_FLAG_HT4
      else if dma_Instance HANDLE = DMA1_Channel5 then DMA_FLAG_HT5
      else if dma_Instance HANDLE = DMA2_Channel5 then DMA_FLAG_HT5
      else if dma_Instance HANDLE = DMA1_Channel6 then DMA_FLAG_HT6
      else if dma_Instance HANDLE = DMA2_Channel6 then DMA_FLAG_HT6
      else DMA_FLAG_HT7)"

definition HAL_DMA_GET_TE_FLAG_INDEX :: "DMA_HandleTypeDef \<Rightarrow> u32" where
  "HAL_DMA_GET_TE_FLAG_INDEX HANDLE =
     (if dma_Instance HANDLE = DMA1_Channel1 then DMA_FLAG_TE1
      else if dma_Instance HANDLE = DMA2_Channel1 then DMA_FLAG_TE1
      else if dma_Instance HANDLE = DMA1_Channel2 then DMA_FLAG_TE2
      else if dma_Instance HANDLE = DMA2_Channel2 then DMA_FLAG_TE2
      else if dma_Instance HANDLE = DMA1_Channel3 then DMA_FLAG_TE3
      else if dma_Instance HANDLE = DMA2_Channel3 then DMA_FLAG_TE3
      else if dma_Instance HANDLE = DMA1_Channel4 then DMA_FLAG_TE4
      else if dma_Instance HANDLE = DMA2_Channel4 then DMA_FLAG_TE4
      else if dma_Instance HANDLE = DMA1_Channel5 then DMA_FLAG_TE5
      else if dma_Instance HANDLE = DMA2_Channel5 then DMA_FLAG_TE5
      else if dma_Instance HANDLE = DMA1_Channel6 then DMA_FLAG_TE6
      else if dma_Instance HANDLE = DMA2_Channel6 then DMA_FLAG_TE6
      else DMA_FLAG_TE7)"

definition HAL_DMA_GET_GI_FLAG_INDEX :: "DMA_HandleTypeDef \<Rightarrow> u32" where
  "HAL_DMA_GET_GI_FLAG_INDEX HANDLE =
     (if dma_Instance HANDLE = DMA1_Channel1 then DMA_FLAG_GI1
      else if dma_Instance HANDLE = DMA2_Channel1 then DMA_FLAG_GI1
      else if dma_Instance HANDLE = DMA1_Channel2 then DMA_FLAG_GI2
      else if dma_Instance HANDLE = DMA2_Channel2 then DMA_FLAG_GI2
      else if dma_Instance HANDLE = DMA1_Channel3 then DMA_FLAG_GI3
      else if dma_Instance HANDLE = DMA2_Channel3 then DMA_FLAG_GI3
      else if dma_Instance HANDLE = DMA1_Channel4 then DMA_FLAG_GI4
      else if dma_Instance HANDLE = DMA2_Channel4 then DMA_FLAG_GI4
      else if dma_Instance HANDLE = DMA1_Channel5 then DMA_FLAG_GI5
      else if dma_Instance HANDLE = DMA2_Channel5 then DMA_FLAG_GI5
      else if dma_Instance HANDLE = DMA1_Channel6 then DMA_FLAG_GI6
      else if dma_Instance HANDLE = DMA2_Channel6 then DMA_FLAG_GI6
      else DMA_FLAG_GI7)"

definition HAL_DMA_GET_FLAG :: "DMA_HandleTypeDef \<Rightarrow> u32 \<Rightarrow> regs \<Rightarrow> u32" where
  "HAL_DMA_GET_FLAG HANDLE FLAG r =
     (if dma_Instance HANDLE > DMA1_Channel7 then READ_BIT (DMA2 + DMA_ISR) FLAG r
      else READ_BIT (DMA1 + DMA_ISR) FLAG r)"

definition HAL_DMA_CLEAR_FLAG :: "DMA_HandleTypeDef \<Rightarrow> u32 \<Rightarrow> regs \<Rightarrow> regs" where
  "HAL_DMA_CLEAR_FLAG HANDLE FLAG r =
     (if dma_Instance HANDLE > DMA1_Channel7 then WRITE_REG (DMA2 + DMA_IFCR) FLAG r
      else WRITE_REG (DMA1 + DMA_IFCR) FLAG r)"

definition HAL_DMA_ENABLE_IT :: "DMA_HandleTypeDef \<Rightarrow> u32 \<Rightarrow> regs \<Rightarrow> regs" where
  "HAL_DMA_ENABLE_IT HANDLE INTERRUPT r = SET_BIT (dma_Instance HANDLE + DMA_Channel_CCR) INTERRUPT r"

definition HAL_DMA_DISABLE_IT :: "DMA_HandleTypeDef \<Rightarrow> u32 \<Rightarrow> regs \<Rightarrow> regs" where
  "HAL_DMA_DISABLE_IT HANDLE INTERRUPT r = CLEAR_BIT (dma_Instance HANDLE + DMA_Channel_CCR) INTERRUPT r"

definition HAL_DMA_GET_IT_SOURCE :: "DMA_HandleTypeDef \<Rightarrow> u32 \<Rightarrow> regs \<Rightarrow> u32" where
  "HAL_DMA_GET_IT_SOURCE HANDLE INTERRUPT r = READ_BIT (dma_Instance HANDLE + DMA_Channel_CCR) INTERRUPT r"

definition HAL_DMA_GET_COUNTER :: "DMA_HandleTypeDef \<Rightarrow> regs \<Rightarrow> u32" where
  "HAL_DMA_GET_COUNTER HANDLE r = READ_REG (dma_Instance HANDLE + DMA_Channel_CNDTR) r"

lemmas hal_dma_control = HAL_DMA_ENABLE_def HAL_DMA_DISABLE_def HAL_DMA_ENABLE_IT_def HAL_DMA_DISABLE_IT_def
  HAL_DMA_GET_IT_SOURCE_def HAL_DMA_GET_COUNTER_def

section \<open>Parameter checks\<close>

definition IS_DMA_DIRECTION :: "u32 \<Rightarrow> bool" where
  [hal_check]: "IS_DMA_DIRECTION DIRECTION \<longleftrightarrow>
     (DIRECTION = DMA_PERIPH_TO_MEMORY) \<or> (DIRECTION = DMA_MEMORY_TO_PERIPH) \<or> (DIRECTION =
       DMA_MEMORY_TO_MEMORY)"

definition IS_DMA_BUFFER_SIZE :: "u32 \<Rightarrow> bool" where
  [hal_check]: "IS_DMA_BUFFER_SIZE SIZE \<longleftrightarrow>
     (SIZE \<ge> 0x1) \<and> (SIZE < DMA_CNDTR_NDT)"

definition IS_DMA_PERIPHERAL_INC_STATE :: "u32 \<Rightarrow> bool" where
  [hal_check]: "IS_DMA_PERIPHERAL_INC_STATE STATE \<longleftrightarrow>
     (STATE = DMA_PINC_ENABLE) \<or> (STATE = DMA_PINC_DISABLE)"

definition IS_DMA_MEMORY_INC_STATE :: "u32 \<Rightarrow> bool" where
  [hal_check]: "IS_DMA_MEMORY_INC_STATE STATE \<longleftrightarrow>
     (STATE = DMA_MINC_ENABLE) \<or> (STATE = DMA_MINC_DISABLE)"

definition IS_DMA_PERIPHERAL_DATA_SIZE :: "u32 \<Rightarrow> bool" where
  [hal_check]: "IS_DMA_PERIPHERAL_DATA_SIZE SIZE \<longleftrightarrow>
     (SIZE = DMA_PDATAALIGN_BYTE) \<or> (SIZE = DMA_PDATAALIGN_HALFWORD) \<or> (SIZE =
       DMA_PDATAALIGN_WORD)"

definition IS_DMA_MEMORY_DATA_SIZE :: "u32 \<Rightarrow> bool" where
  [hal_check]: "IS_DMA_MEMORY_DATA_SIZE SIZE \<longleftrightarrow>
     (SIZE = DMA_MDATAALIGN_BYTE) \<or> (SIZE = DMA_MDATAALIGN_HALFWORD) \<or> (SIZE =
       DMA_MDATAALIGN_WORD)"

definition IS_DMA_MODE :: "u32 \<Rightarrow> bool" where
  [hal_check]: "IS_DMA_MODE MODE \<longleftrightarrow>
     (MODE = DMA_NORMAL) \<or> (MODE = DMA_CIRCULAR)"

definition IS_DMA_PRIORITY :: "u32 \<Rightarrow> bool" where
  [hal_check]: "IS_DMA_PRIORITY PRIORITY \<longleftrightarrow>
     (PRIORITY = DMA_PRIORITY_LOW) \<or> (PRIORITY = DMA_PRIORITY_MEDIUM) \<or> (PRIORITY =
       DMA_PRIORITY_HIGH) \<or> (PRIORITY = DMA_PRIORITY_VERY_HIGH)"

definition IS_DMA_ATTRIBUTES :: "u32 \<Rightarrow> bool" where
  [hal_check]: "IS_DMA_ATTRIBUTES ATTRIBUTE \<longleftrightarrow>
     ((ATTRIBUTE AND (NOT 0x00100010)) = 0) \<and> ((ATTRIBUTE AND 0x00000010) \<noteq> 0)"

section \<open>The macros do what the low-level accessors do\<close>

text \<open>
  The HAL macros and the low-level accessors are two names of the same operations. For a handle whose instance is
  one of the fourteen channels, enabling and disabling the channel and each of its three interrupts through the
  handle changes the registers as the accessor with that controller and channel number does; the source macro says
  which interrupts the accessors report enabled, and the counter, cut to its field, is the accessors' data length.
\<close>

theorem hal_ll_dma_agree:
  assumes "(d, c) \<in> set dma_channels" and "dma_Instance h = LL_DMA_GET_CHANNEL_INSTANCE d c"
  shows "LL_DMA_EnableChannel d c r = Inr (HAL_DMA_ENABLE h r) \<and>
    LL_DMA_DisableChannel d c r = Inr (HAL_DMA_DISABLE h r) \<and>
    LL_DMA_EnableIT_TC d c r = Inr (HAL_DMA_ENABLE_IT h DMA_IT_TC r) \<and>
    LL_DMA_EnableIT_HT d c r = Inr (HAL_DMA_ENABLE_IT h DMA_IT_HT r) \<and>
    LL_DMA_EnableIT_TE d c r = Inr (HAL_DMA_ENABLE_IT h DMA_IT_TE r) \<and>
    LL_DMA_DisableIT_TC d c r = Inr (HAL_DMA_DISABLE_IT h DMA_IT_TC r) \<and>
    LL_DMA_DisableIT_HT d c r = Inr (HAL_DMA_DISABLE_IT h DMA_IT_HT r) \<and>
    LL_DMA_DisableIT_TE d c r = Inr (HAL_DMA_DISABLE_IT h DMA_IT_TE r) \<and>
    LL_DMA_IsEnabledIT_TC d c r = Inr (if HAL_DMA_GET_IT_SOURCE h DMA_IT_TC r = DMA_IT_TC then 1 else 0) \<and>
    LL_DMA_IsEnabledIT_HT d c r = Inr (if HAL_DMA_GET_IT_SOURCE h DMA_IT_HT r = DMA_IT_HT then 1 else 0) \<and>
    LL_DMA_IsEnabledIT_TE d c r = Inr (if HAL_DMA_GET_IT_SOURCE h DMA_IT_TE r = DMA_IT_TE then 1 else 0) \<and>
    LL_DMA_GetDataLength d c r = Inr (HAL_DMA_GET_COUNTER h r AND DMA_CNDTR_NDT)"
  using DMA_Channel_eq [OF assms(1)] assms(2)
  by (simp add: ll_def hal_dma_control DMA_IT_TC_def DMA_IT_HT_def DMA_IT_TE_def reg_access)

definition handle_of :: "u32 \<Rightarrow> DMA_HandleTypeDef" where
  "handle_of a = \<lparr>dma_Instance = a, dma_Init = \<lparr>init_Request = 0, init_Direction = 0, init_PeriphInc = 0,
     init_MemInc = 0, init_PeriphDataAlignment = 0, init_MemDataAlignment = 0, init_Mode = 0, init_Priority = 0\<rparr>,
     dma_Lock = False, dma_State = HAL_DMA_STATE_READY, dma_Parent = 0, dma_XferCpltCallback = False,
     dma_XferHalfCpltCallback = False, dma_XferErrorCallback = False, dma_XferAbortCallback = False,
     dma_ErrorCode = 0, dma_DmaBaseAddress = 0, dma_ChannelIndex = 0, dma_DMAmuxChannel = 0,
     dma_DMAmuxChannelStatus = 0, dma_DMAmuxChannelStatusMask = 0, dma_DMAmuxRequestGen = 0,
     dma_DMAmuxRequestGenStatus = 0, dma_DMAmuxRequestGenStatusMask = 0\<rparr>"

lemma handle_of_instance [simp]: "dma_Instance (handle_of a) = a"
  by (simp add: handle_of_def)

theorem hal_ll_dma_agree_witness:
  "(DMA2, LL_DMA_CHANNEL_3) \<in> set dma_channels \<and>
   LL_DMA_EnableChannel DMA2 LL_DMA_CHANNEL_3 (\<lambda>_. 2) =
     Inr (HAL_DMA_ENABLE (handle_of (LL_DMA_GET_CHANNEL_INSTANCE DMA2 LL_DMA_CHANNEL_3)) (\<lambda>_. 2))"
  using hal_ll_dma_agree [of DMA2 LL_DMA_CHANNEL_3 "handle_of (LL_DMA_GET_CHANNEL_INSTANCE DMA2 LL_DMA_CHANNEL_3)"]
  by (simp add: dma_channels_def)

section \<open>Flags\<close>

text \<open>The low-level functions for the flags of a channel, by its number.\<close>

definition ll_TC_flag :: "u32 \<Rightarrow> u32 \<Rightarrow> regs \<Rightarrow> u32" where
  "ll_TC_flag c =
     [LL_DMA_IsActiveFlag_TC1, LL_DMA_IsActiveFlag_TC2, LL_DMA_IsActiveFlag_TC3, LL_DMA_IsActiveFlag_TC4,
      LL_DMA_IsActiveFlag_TC5, LL_DMA_IsActiveFlag_TC6, LL_DMA_IsActiveFlag_TC7] ! unat c"

definition ll_TC_clear :: "u32 \<Rightarrow> u32 \<Rightarrow> regs \<Rightarrow> regs" where
  "ll_TC_clear c =
     [LL_DMA_ClearFlag_TC1, LL_DMA_ClearFlag_TC2, LL_DMA_ClearFlag_TC3, LL_DMA_ClearFlag_TC4,
      LL_DMA_ClearFlag_TC5, LL_DMA_ClearFlag_TC6, LL_DMA_ClearFlag_TC7] ! unat c"

definition ll_HT_flag :: "u32 \<Rightarrow> u32 \<Rightarrow> regs \<Rightarrow> u32" where
  "ll_HT_flag c =
     [LL_DMA_IsActiveFlag_HT1, LL_DMA_IsActiveFlag_HT2, LL_DMA_IsActiveFlag_HT3, LL_DMA_IsActiveFlag_HT4,
      LL_DMA_IsActiveFlag_HT5, LL_DMA_IsActiveFlag_HT6, LL_DMA_IsActiveFlag_HT7] ! unat c"

definition ll_HT_clear :: "u32 \<Rightarrow> u32 \<Rightarrow> regs \<Rightarrow> regs" where
  "ll_HT_clear c =
     [LL_DMA_ClearFlag_HT1, LL_DMA_ClearFlag_HT2, LL_DMA_ClearFlag_HT3, LL_DMA_ClearFlag_HT4,
      LL_DMA_ClearFlag_HT5, LL_DMA_ClearFlag_HT6, LL_DMA_ClearFlag_HT7] ! unat c"

definition ll_TE_flag :: "u32 \<Rightarrow> u32 \<Rightarrow> regs \<Rightarrow> u32" where
  "ll_TE_flag c =
     [LL_DMA_IsActiveFlag_TE1, LL_DMA_IsActiveFlag_TE2, LL_DMA_IsActiveFlag_TE3, LL_DMA_IsActiveFlag_TE4,
      LL_DMA_IsActiveFlag_TE5, LL_DMA_IsActiveFlag_TE6, LL_DMA_IsActiveFlag_TE7] ! unat c"

definition ll_TE_clear :: "u32 \<Rightarrow> u32 \<Rightarrow> regs \<Rightarrow> regs" where
  "ll_TE_clear c =
     [LL_DMA_ClearFlag_TE1, LL_DMA_ClearFlag_TE2, LL_DMA_ClearFlag_TE3, LL_DMA_ClearFlag_TE4,
      LL_DMA_ClearFlag_TE5, LL_DMA_ClearFlag_TE6, LL_DMA_ClearFlag_TE7] ! unat c"

definition ll_GI_flag :: "u32 \<Rightarrow> u32 \<Rightarrow> regs \<Rightarrow> u32" where
  "ll_GI_flag c =
     [LL_DMA_IsActiveFlag_GI1, LL_DMA_IsActiveFlag_GI2, LL_DMA_IsActiveFlag_GI3, LL_DMA_IsActiveFlag_GI4,
      LL_DMA_IsActiveFlag_GI5, LL_DMA_IsActiveFlag_GI6, LL_DMA_IsActiveFlag_GI7] ! unat c"

definition ll_GI_clear :: "u32 \<Rightarrow> u32 \<Rightarrow> regs \<Rightarrow> regs" where
  "ll_GI_clear c =
     [LL_DMA_ClearFlag_GI1, LL_DMA_ClearFlag_GI2, LL_DMA_ClearFlag_GI3, LL_DMA_ClearFlag_GI4,
      LL_DMA_ClearFlag_GI5, LL_DMA_ClearFlag_GI6, LL_DMA_ClearFlag_GI7] ! unat c"

lemmas ll_flags = ll_TC_flag_def ll_TC_clear_def ll_HT_flag_def ll_HT_clear_def ll_TE_flag_def ll_TE_clear_def
  ll_GI_flag_def ll_GI_clear_def

lemmas flag_index_defs = HAL_DMA_GET_TC_FLAG_INDEX_def HAL_DMA_GET_HT_FLAG_INDEX_def HAL_DMA_GET_TE_FLAG_INDEX_def
  HAL_DMA_GET_GI_FLAG_INDEX_def

text \<open>A channel's flags are four neighbouring bits of its own controller.\<close>

lemma channel_number: "(d, c) \<in> set dma_channels \<Longrightarrow> unat c < 7"
  by (auto simp: dma_channels_def reg_mask)

lemma flag_index_all:
  "\<forall>(d, c) \<in> set dma_channels. HAL_DMA_GET_GI_FLAG_INDEX (h\<lparr>dma_Instance := LL_DMA_GET_CHANNEL_INSTANCE d c\<rparr>) =
    push_bit (4 * unat c) 1"
  "\<forall>(d, c) \<in> set dma_channels. HAL_DMA_GET_TC_FLAG_INDEX (h\<lparr>dma_Instance := LL_DMA_GET_CHANNEL_INSTANCE d c\<rparr>) =
    push_bit (4 * unat c + 1) 1"
  "\<forall>(d, c) \<in> set dma_channels. HAL_DMA_GET_HT_FLAG_INDEX (h\<lparr>dma_Instance := LL_DMA_GET_CHANNEL_INSTANCE d c\<rparr>) =
    push_bit (4 * unat c + 2) 1"
  "\<forall>(d, c) \<in> set dma_channels. HAL_DMA_GET_TE_FLAG_INDEX (h\<lparr>dma_Instance := LL_DMA_GET_CHANNEL_INSTANCE d c\<rparr>) =
    push_bit (4 * unat c + 3) 1"
  by (simp_all add: flag_index_defs dma_consts reg_mask)

lemma flag_controller_all:
  "\<forall>(d, c) \<in> set dma_channels. HAL_DMA_GET_FLAG (h\<lparr>dma_Instance := LL_DMA_GET_CHANNEL_INSTANCE d c\<rparr>) f r =
    READ_BIT (d + DMA_ISR) f r"
  "\<forall>(d, c) \<in> set dma_channels. HAL_DMA_CLEAR_FLAG (h\<lparr>dma_Instance := LL_DMA_GET_CHANNEL_INSTANCE d c\<rparr>) f r =
    WRITE_REG (d + DMA_IFCR) f r"
  by (simp_all add: HAL_DMA_GET_FLAG_def HAL_DMA_CLEAR_FLAG_def dma_consts)

lemma flag_index:
  assumes "(d, c) \<in> set dma_channels" and "dma_Instance h = LL_DMA_GET_CHANNEL_INSTANCE d c"
  shows "HAL_DMA_GET_GI_FLAG_INDEX h = push_bit (4 * unat c) 1"
    and "HAL_DMA_GET_TC_FLAG_INDEX h = push_bit (4 * unat c + 1) 1"
    and "HAL_DMA_GET_HT_FLAG_INDEX h = push_bit (4 * unat c + 2) 1"
    and "HAL_DMA_GET_TE_FLAG_INDEX h = push_bit (4 * unat c + 3) 1"
  using flag_index_all [of h, THEN bspec, OF assms(1)] by (simp_all flip: assms(2))

lemma flag_controller:
  assumes "(d, c) \<in> set dma_channels" and "dma_Instance h = LL_DMA_GET_CHANNEL_INSTANCE d c"
  shows "HAL_DMA_GET_FLAG h f r = READ_BIT (d + DMA_ISR) f r"
    and "HAL_DMA_CLEAR_FLAG h f r = WRITE_REG (d + DMA_IFCR) f r"
  using flag_controller_all [of h, THEN bspec, OF assms(1)] by (simp_all flip: assms(2))

lemma ll_flag_bits:
  assumes "(d, c) \<in> set dma_channels"
  shows "ll_GI_flag c e r = (if READ_BIT (e + DMA_ISR) (push_bit (4 * unat c) 1) r = push_bit (4 * unat c) 1 then 1 else 0)"
    and "ll_TC_flag c e r = (if READ_BIT (e + DMA_ISR) (push_bit (4 * unat c + 1) 1) r = push_bit (4 * unat c + 1) 1 then 1 else 0)"
    and "ll_HT_flag c e r = (if READ_BIT (e + DMA_ISR) (push_bit (4 * unat c + 2) 1) r = push_bit (4 * unat c + 2) 1 then 1 else 0)"
    and "ll_TE_flag c e r = (if READ_BIT (e + DMA_ISR) (push_bit (4 * unat c + 3) 1) r = push_bit (4 * unat c + 3) 1 then 1 else 0)"
    and "ll_GI_clear c e r = WRITE_REG (e + DMA_IFCR) (push_bit (4 * unat c) 1) r"
    and "ll_TC_clear c e r = WRITE_REG (e + DMA_IFCR) (push_bit (4 * unat c + 1) 1) r"
    and "ll_HT_clear c e r = WRITE_REG (e + DMA_IFCR) (push_bit (4 * unat c + 2) 1) r"
    and "ll_TE_clear c e r = WRITE_REG (e + DMA_IFCR) (push_bit (4 * unat c + 3) 1) r"
  using assms by (auto simp: ll_flags ll_def dma_channels_def reg_mask)

text \<open>
  C29: Flags read and cleared through a handle are those of its channel. For a handle on any of the fourteen channels,
  the flag the index macros select is raised in the HAL's view exactly when the low-level function named after the
  channel reports it, for transfer complete, half transfer, error and the global flag, and clearing it is the same write.
\<close>

theorem hal_ll_dma_flags:
  assumes "(d, c) \<in> set dma_channels" and "dma_Instance h = LL_DMA_GET_CHANNEL_INSTANCE d c"
  shows "ll_TC_flag c d r = (if HAL_DMA_GET_FLAG h (HAL_DMA_GET_TC_FLAG_INDEX h) r \<noteq> 0 then 1 else 0) \<and>
    ll_HT_flag c d r = (if HAL_DMA_GET_FLAG h (HAL_DMA_GET_HT_FLAG_INDEX h) r \<noteq> 0 then 1 else 0) \<and>
    ll_TE_flag c d r = (if HAL_DMA_GET_FLAG h (HAL_DMA_GET_TE_FLAG_INDEX h) r \<noteq> 0 then 1 else 0) \<and>
    ll_GI_flag c d r = (if HAL_DMA_GET_FLAG h (HAL_DMA_GET_GI_FLAG_INDEX h) r \<noteq> 0 then 1 else 0) \<and>
    ll_TC_clear c d r = HAL_DMA_CLEAR_FLAG h (HAL_DMA_GET_TC_FLAG_INDEX h) r \<and>
    ll_HT_clear c d r = HAL_DMA_CLEAR_FLAG h (HAL_DMA_GET_HT_FLAG_INDEX h) r \<and>
    ll_TE_clear c d r = HAL_DMA_CLEAR_FLAG h (HAL_DMA_GET_TE_FLAG_INDEX h) r \<and>
    ll_GI_clear c d r = HAL_DMA_CLEAR_FLAG h (HAL_DMA_GET_GI_FLAG_INDEX h) r"
proof -
  have n: "4 * unat c < 32" "4 * unat c + 1 < 32" "4 * unat c + 2 < 32" "4 * unat c + 3 < 32"
    using channel_number [OF assms(1)] by simp_all
  show ?thesis
    unfolding flag_index [OF assms] flag_controller [OF assms] ll_flag_bits [OF assms(1)]
    unfolding READ_BIT_def n [THEN single_flag] by simp
qed

theorem hal_ll_dma_flags_witness:
  "(DMA1, LL_DMA_CHANNEL_4) \<in> set dma_channels \<and>
   ll_TC_flag LL_DMA_CHANNEL_4 DMA1 (\<lambda>_. 0x2000) = 1 \<and>
   HAL_DMA_GET_FLAG (handle_of (LL_DMA_GET_CHANNEL_INSTANCE DMA1 LL_DMA_CHANNEL_4)) DMA_FLAG_TC4 (\<lambda>_. 0x2000) \<noteq> 0"
proof -
  let ?h = "handle_of (LL_DMA_GET_CHANNEL_INSTANCE DMA1 LL_DMA_CHANNEL_4)"
  have c: "(DMA1, LL_DMA_CHANNEL_4) \<in> set dma_channels"
    by (simp add: dma_channels_def)
  have i: "HAL_DMA_GET_TC_FLAG_INDEX ?h = DMA_FLAG_TC4" and "ll_TC_flag LL_DMA_CHANNEL_4 DMA1 (\<lambda>_. 0x2000) = 1"
    by (simp_all add: HAL_DMA_GET_TC_FLAG_INDEX_def ll_TC_flag_def ll_def reg_access dma_consts reg_mask)
  moreover have "ll_TC_flag LL_DMA_CHANNEL_4 DMA1 (\<lambda>_. 0x2000) =
      (if HAL_DMA_GET_FLAG ?h (HAL_DMA_GET_TC_FLAG_INDEX ?h) (\<lambda>_. 0x2000) \<noteq> 0 then 1 else 0)"
    using hal_ll_dma_flags [OF c] by simp
  ultimately show ?thesis
    using c by (simp split: if_splits)
qed

section \<open>Configurations the HAL accepts\<close>

lemma checked_fields:
  "IS_DMA_DIRECTION v \<Longrightarrow> bits v \<subseteq> bits (DMA_CCR_DIR OR DMA_CCR_MEM2MEM)"
  "IS_DMA_PERIPHERAL_INC_STATE v \<Longrightarrow> bits v \<subseteq> bits DMA_CCR_PINC"
  "IS_DMA_MEMORY_INC_STATE v \<Longrightarrow> bits v \<subseteq> bits DMA_CCR_MINC"
  "IS_DMA_PERIPHERAL_DATA_SIZE v \<Longrightarrow> bits v \<subseteq> bits DMA_CCR_PSIZE"
  "IS_DMA_MEMORY_DATA_SIZE v \<Longrightarrow> bits v \<subseteq> bits DMA_CCR_MSIZE"
  "IS_DMA_MODE v \<Longrightarrow> bits v \<subseteq> bits DMA_CCR_CIRC"
  "IS_DMA_PRIORITY v \<Longrightarrow> bits v \<subseteq> bits DMA_CCR_PL"
  by (auto simp: hal_check reg_mask bits_eval)

text \<open>The fields of the configuration register do not meet.\<close>

definition config_masks :: "u32 list" where
  "config_masks = [DMA_CCR_DIR OR DMA_CCR_MEM2MEM, DMA_CCR_CIRC, DMA_CCR_PINC, DMA_CCR_MINC, DMA_CCR_PSIZE,
     DMA_CCR_MSIZE, DMA_CCR_PL]"

lemma config_masks_apart:
  assumes "i < length config_masks" and "j < length config_masks" and "i \<noteq> j"
  shows "bits (config_masks ! i) \<inter> bits (config_masks ! j) = {}"
proof -
  have "\<forall>i < length config_masks. \<forall>j < length config_masks. i \<noteq> j \<longrightarrow> config_masks ! i AND config_masks ! j = 0"
    by (simp add: config_masks_def All_less_Suc reg_mask)
  then show ?thesis
    using assms by (simp flip: and_eq_0_iff_bits)
qed

text \<open>Values that lie in masks that do not meet are recovered from their union.\<close>

lemma bits_fold_or: "bits (fold (OR) ws w) = bits w \<union> (\<Union>v \<in> set ws. bits v)"
  by (induction ws arbitrary: w) auto

lemma fold_or_disjoint: "\<forall>w \<in> set ws. bits w \<inter> M = {} \<Longrightarrow> bits (fold (OR) ws 0) \<inter> M = {}"
  by (auto simp: bits_fold_or)

lemma union_recovers:
  fixes vs ms :: "u32 list"
  assumes "length vs = length ms" and "\<forall>i < length ms. bits (vs ! i) \<subseteq> bits (ms ! i)"
    and "\<forall>i < length ms. \<forall>j < length ms. i \<noteq> j \<longrightarrow> bits (ms ! i) \<inter> bits (ms ! j) = {}" and "k < length ms"
  shows "fold (OR) vs 0 AND ms ! k = vs ! k"
proof -
  have one: "bits (vs ! i) \<inter> bits (ms ! k) = (if i = k then bits (vs ! k) else {})" if "i < length ms" for i
    using that assms(2-4) by (cases "i = k") (auto, blast)
  have "bits (fold (OR) vs 0 AND ms ! k) = (\<Union>v \<in> set vs. bits v \<inter> bits (ms ! k))"
    by (auto simp: bits_fold_or)
  also have "\<dots> = (\<Union>i \<in> {..<length ms}. bits (vs ! i) \<inter> bits (ms ! k))"
    using assms(1) by (force simp: in_set_conv_nth)
  also have "\<dots> = (\<Union>i \<in> {..<length ms}. if i = k then bits (vs ! k) else {})"
    by (intro SUP_cong) (simp_all add: one)
  also have "\<dots> = bits (vs ! k)"
    using assms(4) by (auto split: if_splits)
  finally show ?thesis
    by (simp only: bits_inject)
qed

text \<open>Replacing a field: inside the mask there is the value, outside the old word.\<close>

lemma put_field_inside: "m AND NOT t = 0 \<Longrightarrow> put_field t v x AND m = v AND m"
  by (simp add: put_field_def bit.conj_disj_distrib2 and.assoc and.commute [of "NOT t"])

lemma put_field_outside: "v AND NOT t = 0 \<Longrightarrow> put_field t v x AND NOT t = x AND NOT t"
  by (simp add: put_field_def bit.conj_disj_distrib2 and.assoc)

text \<open>
  C30: A configuration the HAL accepts is the configuration the channel gets. Combine a direction, mode, increments, data sizes
  and a priority that pass the checks of the HAL into one word and hand it to \<^verbatim>\<open>LL_DMA_ConfigTransfer\<close> on
  one of the fourteen channels: the call returns, each field of the configuration register holds its parameter, and
  enable bits, interrupt bits and everything else in the register stay.
\<close>

theorem hal_dma_config:
  assumes "(d, c) \<in> set dma_channels" and "IS_DMA_DIRECTION dir" and "IS_DMA_MODE mode"
    and "IS_DMA_PERIPHERAL_INC_STATE pinc" and "IS_DMA_MEMORY_INC_STATE minc" and "IS_DMA_PERIPHERAL_DATA_SIZE ps"
    and "IS_DMA_MEMORY_DATA_SIZE ms" and "IS_DMA_PRIORITY pl"
  shows "\<exists>r'. LL_DMA_ConfigTransfer d c (dir OR mode OR pinc OR minc OR ps OR ms OR pl) r = Inr r' \<and>
    map (\<lambda>m. CCR (dma_view (d, c) r') AND m) config_masks = [dir, mode, pinc, minc, ps, ms, pl] \<and>
    CCR (dma_view (d, c) r') AND NOT transfer_mask = CCR (dma_view (d, c) r) AND NOT transfer_mask"
proof -
  let ?vs = "[dir, mode, pinc, minc, ps, ms, pl]" and ?v = "dir OR mode OR pinc OR minc OR ps OR ms OR pl"
  have sub: "\<forall>i < length config_masks. bits (?vs ! i) \<subseteq> bits (config_masks ! i)"
    using checked_fields assms(2-8) by (simp add: config_masks_def All_less_Suc)
  have len: "length ?vs = length config_masks"
    by (simp add: config_masks_def)
  have v: "fold (OR) ?vs 0 = ?v"
    by (simp add: or.commute or.left_commute)
  have get: "?v AND config_masks ! k = ?vs ! k" if "k < length config_masks" for k
    using union_recovers [OF len sub _ that] config_masks_apart unfolding v by blast
  have mask: "\<forall>m \<in> set config_masks. m AND NOT transfer_mask = 0"
    by (simp add: config_masks_def transfer_mask_def reg_mask)
  have "bits (?vs ! i) \<inter> bits (NOT transfer_mask) = {}" if "i < length config_masks" for i
  proof -
    have "bits (config_masks ! i) \<inter> bits (NOT transfer_mask) = {}"
      using mask nth_mem [OF that] unfolding and_eq_0_iff_bits by blast
    then show ?thesis
      using sub that by blast
  qed
  then have "\<forall>w \<in> set ?vs. bits w \<inter> bits (NOT transfer_mask) = {}"
    by (metis in_set_conv_nth len)
  then have "bits (fold (OR) ?vs 0) \<inter> bits (NOT transfer_mask) = {}"
    by (rule fold_or_disjoint)
  then have out: "?v AND NOT transfer_mask = 0"
    unfolding v and_eq_0_iff_bits .
  obtain r' where r': "LL_DMA_ConfigTransfer d c ?v r = Inr r'"
      and w: "CCR (dma_view (d, c) r') = put_field transfer_mask ?v (CCR (dma_view (d, c) r))"
    using dma_exec_ok [OF assms(1), of "ConfigTransfer ?v" r] by auto
  have "map (\<lambda>m. CCR (dma_view (d, c) r') AND m) config_masks = ?vs"
    using get mask by (intro nth_equalityI) (simp_all only: w len length_map nth_map nth_mem put_field_inside)
  then show ?thesis
    using r' out by (auto simp: w put_field_outside)
qed

theorem hal_dma_config_witness:
  "\<exists>r'. LL_DMA_ConfigTransfer DMA1 LL_DMA_CHANNEL_2 (DMA_MEMORY_TO_PERIPH OR DMA_NORMAL OR DMA_PINC_DISABLE OR
      DMA_MINC_ENABLE OR DMA_PDATAALIGN_BYTE OR DMA_MDATAALIGN_BYTE OR DMA_PRIORITY_HIGH) (\<lambda>_. 0) = Inr r' \<and>
    CCR (dma_view (DMA1, LL_DMA_CHANNEL_2) r') AND DMA_CCR_PL = DMA_PRIORITY_HIGH"
proof -
  have "(DMA1, LL_DMA_CHANNEL_2) \<in> set dma_channels"
    by (simp add: dma_channels_def)
  from hal_dma_config [OF this, of DMA_MEMORY_TO_PERIPH DMA_NORMAL DMA_PINC_DISABLE DMA_MINC_ENABLE
      DMA_PDATAALIGN_BYTE DMA_MDATAALIGN_BYTE DMA_PRIORITY_HIGH "\<lambda>_. 0"]
  show ?thesis
    by (auto simp: hal_check config_masks_def)
qed

text \<open>
  A buffer size the HAL accepts fits the counter; the check also refuses the largest one, which the counter could hold.
\<close>

theorem hal_dma_buffer_size: "IS_DMA_BUFFER_SIZE n \<longleftrightarrow> n AND DMA_CNDTR_NDT = n \<and> n \<noteq> 0 \<and> n \<noteq> DMA_CNDTR_NDT"
proof -
  have "n AND DMA_CNDTR_NDT = take_bit 18 n"
    by (simp add: reg_mask take_bit_eq_mask mask_eq_exp_minus_1)
  then have "unat (n AND DMA_CNDTR_NDT) = take_bit 18 (unat n)"
    by (simp add: unsigned_take_bit_eq)
  then have e: "n AND DMA_CNDTR_NDT = n \<longleftrightarrow> n < 0x40000"
    by (simp add: word_unat_eq_iff take_bit_nat_eq_self_iff word_less_nat_alt)
  have m: "DMA_CNDTR_NDT = 0x3FFFF"
    by (simp add: reg_mask)
  show ?thesis
    unfolding IS_DMA_BUFFER_SIZE_def e unfolding m by unat_arith
qed

end
