(* ===== verification/Device_Layout.thy ===== *)
theory Device_Layout
  imports Device_Map
begin

text \<open>
  The register structures of \<^verbatim>\<open>stm32wl55xx.h\<close> and where the peripherals are. A structure is the list of its
  fields with their types, numbers of elements and the offset the comment beside each field gives.
  \<open>layout\<close> places the fields as a C compiler does; the comments, the addresses of \<open>Device_Map\<close> and
  the distances of the base addresses are checked against it.
\<close>

section \<open>Structures\<close>

datatype ctype = U8 | U16 | U32

record cfield =
  fld_name :: string
  fld_type :: ctype
  fld_count :: nat
  fld_doc :: "nat option"

type_synonym cstruct = "cfield list"

definition field :: "string \<Rightarrow> ctype \<Rightarrow> nat \<Rightarrow> nat option \<Rightarrow> cfield" where
  "field n t k d = \<lparr>fld_name = n, fld_type = t, fld_count = k, fld_doc = d\<rparr>"

definition ADC_TypeDef :: cstruct where
  "ADC_TypeDef =
    [field ''ISR'' U32 1 (Some 0x00),
     field ''IER'' U32 1 (Some 0x04),
     field ''CR'' U32 1 (Some 0x08),
     field ''CFGR1'' U32 1 (Some 0x0C),
     field ''CFGR2'' U32 1 (Some 0x10),
     field ''SMPR'' U32 1 (Some 0x14),
     field ''RESERVED1'' U32 1 (Some 0x18),
     field ''RESERVED2'' U32 1 (Some 0x1C),
     field ''AWD1TR'' U32 1 (Some 0x20),
     field ''AWD2TR'' U32 1 (Some 0x24),
     field ''CHSELR'' U32 1 (Some 0x28),
     field ''AWD3TR'' U32 1 (Some 0x2C),
     field ''RESERVED3'' U32 4 (Some 0x30),
     field ''DR'' U32 1 (Some 0x40),
     field ''RESERVED4'' U32 23 (Some 0x44),
     field ''AWD2CR'' U32 1 (Some 0xA0),
     field ''AWD3CR'' U32 1 (Some 0xA4),
     field ''RESERVED5'' U32 3 (Some 0xA8),
     field ''CALFACT'' U32 1 (Some 0xB4)]"

definition ADC_Common_TypeDef :: cstruct where
  "ADC_Common_TypeDef =
    [field ''CCR'' U32 1 None]"

definition AES_TypeDef :: cstruct where
  "AES_TypeDef =
    [field ''CR'' U32 1 (Some 0x00),
     field ''SR'' U32 1 (Some 0x04),
     field ''DINR'' U32 1 (Some 0x08),
     field ''DOUTR'' U32 1 (Some 0x0C),
     field ''KEYR0'' U32 1 (Some 0x10),
     field ''KEYR1'' U32 1 (Some 0x14),
     field ''KEYR2'' U32 1 (Some 0x18),
     field ''KEYR3'' U32 1 (Some 0x1C),
     field ''IVR0'' U32 1 (Some 0x20),
     field ''IVR1'' U32 1 (Some 0x24),
     field ''IVR2'' U32 1 (Some 0x28),
     field ''IVR3'' U32 1 (Some 0x2C),
     field ''KEYR4'' U32 1 (Some 0x30),
     field ''KEYR5'' U32 1 (Some 0x34),
     field ''KEYR6'' U32 1 (Some 0x38),
     field ''KEYR7'' U32 1 (Some 0x3C),
     field ''SUSP0R'' U32 1 (Some 0x40),
     field ''SUSP1R'' U32 1 (Some 0x44),
     field ''SUSP2R'' U32 1 (Some 0x48),
     field ''SUSP3R'' U32 1 (Some 0x4C),
     field ''SUSP4R'' U32 1 (Some 0x50),
     field ''SUSP5R'' U32 1 (Some 0x54),
     field ''SUSP6R'' U32 1 (Some 0x58),
     field ''SUSP7R'' U32 1 (Some 0x6C)]"

definition COMP_TypeDef :: cstruct where
  "COMP_TypeDef =
    [field ''CSR'' U32 1 (Some 0x00)]"

definition COMP_Common_TypeDef :: cstruct where
  "COMP_Common_TypeDef =
    [field ''CSR'' U32 1 (Some 0x00)]"

definition CRC_TypeDef :: cstruct where
  "CRC_TypeDef =
    [field ''DR'' U32 1 (Some 0x00),
     field ''IDR'' U32 1 (Some 0x04),
     field ''CR'' U32 1 (Some 0x08),
     field ''RESERVED2'' U32 1 (Some 0x0C),
     field ''INIT'' U32 1 (Some 0x10),
     field ''POL'' U32 1 (Some 0x14)]"

definition DAC_TypeDef :: cstruct where
  "DAC_TypeDef =
    [field ''CR'' U32 1 (Some 0x00),
     field ''SWTRIGR'' U32 1 (Some 0x04),
     field ''DHR12R1'' U32 1 (Some 0x08),
     field ''DHR12L1'' U32 1 (Some 0x0C),
     field ''DHR8R1'' U32 1 (Some 0x10),
     field ''RESERVED1'' U32 1 (Some 0x14),
     field ''RESERVED2'' U32 1 (Some 0x18),
     field ''RESERVED3'' U32 1 (Some 0x1C),
     field ''DHR12RD'' U32 1 (Some 0x20),
     field ''DHR12LD'' U32 1 (Some 0x24),
     field ''DHR8RD'' U32 1 (Some 0x28),
     field ''DOR1'' U32 1 (Some 0x2C),
     field ''RESERVED4'' U32 1 (Some 0x30),
     field ''SR'' U32 1 (Some 0x34),
     field ''CCR'' U32 1 (Some 0x38),
     field ''MCR'' U32 1 (Some 0x3C),
     field ''SHSR1'' U32 1 (Some 0x40),
     field ''RESERVED5'' U32 1 (Some 0x44),
     field ''SHHR'' U32 1 (Some 0x48),
     field ''SHRR'' U32 1 (Some 0x4C)]"

definition DMA_Channel_TypeDef :: cstruct where
  "DMA_Channel_TypeDef =
    [field ''CCR'' U32 1 None,
     field ''CNDTR'' U32 1 None,
     field ''CPAR'' U32 1 None,
     field ''CMAR'' U32 1 None]"

definition DMA_TypeDef :: cstruct where
  "DMA_TypeDef =
    [field ''ISR'' U32 1 (Some 0x00),
     field ''IFCR'' U32 1 (Some 0x04)]"

definition DMAMUX_Channel_TypeDef :: cstruct where
  "DMAMUX_Channel_TypeDef =
    [field ''CCR'' U32 1 None]"

definition DMAMUX_ChannelStatus_TypeDef :: cstruct where
  "DMAMUX_ChannelStatus_TypeDef =
    [field ''CSR'' U32 1 None,
     field ''CFR'' U32 1 None]"

definition DMAMUX_RequestGen_TypeDef :: cstruct where
  "DMAMUX_RequestGen_TypeDef =
    [field ''RGCR'' U32 1 None]"

definition DMAMUX_RequestGenStatus_TypeDef :: cstruct where
  "DMAMUX_RequestGenStatus_TypeDef =
    [field ''RGSR'' U32 1 None,
     field ''RGCFR'' U32 1 None]"

definition EXTI_TypeDef :: cstruct where
  "EXTI_TypeDef =
    [field ''RTSR1'' U32 1 (Some 0x00),
     field ''FTSR1'' U32 1 (Some 0x04),
     field ''SWIER1'' U32 1 (Some 0x08),
     field ''PR1'' U32 1 (Some 0x0C),
     field ''RESERVED1'' U32 4 (Some 0x10),
     field ''RTSR2'' U32 1 (Some 0x20),
     field ''FTSR2'' U32 1 (Some 0x24),
     field ''SWIER2'' U32 1 (Some 0x28),
     field ''PR2'' U32 1 (Some 0x2C),
     field ''RESERVED2'' U32 4 (Some 0x30),
     field ''RESERVED3'' U32 8 (Some 0x40),
     field ''RESERVED4'' U32 8 (Some 0x60),
     field ''IMR1'' U32 1 (Some 0x80),
     field ''EMR1'' U32 1 (Some 0x84),
     field ''RESERVED5'' U32 2 (Some 0x88),
     field ''IMR2'' U32 1 (Some 0x90),
     field ''EMR2'' U32 1 (Some 0x94),
     field ''RESERVED8'' U32 10 (Some 0x98),
     field ''C2IMR1'' U32 1 (Some 0xC0),
     field ''C2EMR1'' U32 1 (Some 0xC4),
     field ''RESERVED9'' U32 2 (Some 0xC8),
     field ''C2IMR2'' U32 1 (Some 0xD0),
     field ''C2EMR2'' U32 1 (Some 0xD4)]"

definition FLASH_TypeDef :: cstruct where
  "FLASH_TypeDef =
    [field ''ACR'' U32 1 (Some 0x00),
     field ''ACR2'' U32 1 (Some 0x04),
     field ''KEYR'' U32 1 (Some 0x08),
     field ''OPTKEYR'' U32 1 (Some 0x0C),
     field ''SR'' U32 1 (Some 0x10),
     field ''CR'' U32 1 (Some 0x14),
     field ''ECCR'' U32 1 (Some 0x18),
     field ''RESERVED1'' U32 1 (Some 0x1C),
     field ''OPTR'' U32 1 (Some 0x20),
     field ''PCROP1ASR'' U32 1 (Some 0x24),
     field ''PCROP1AER'' U32 1 (Some 0x28),
     field ''WRP1AR'' U32 1 (Some 0x2C),
     field ''WRP1BR'' U32 1 (Some 0x30),
     field ''PCROP1BSR'' U32 1 (Some 0x34),
     field ''PCROP1BER'' U32 1 (Some 0x38),
     field ''IPCCBR'' U32 1 (Some 0x3C),
     field ''RESERVED2'' U32 7 (Some 0x40),
     field ''C2ACR'' U32 1 (Some 0x5C),
     field ''C2SR'' U32 1 (Some 0x60),
     field ''C2CR'' U32 1 (Some 0x64),
     field ''RESERVED3'' U32 6 (Some 0x68),
     field ''SFR'' U32 1 (Some 0x80),
     field ''SRRVR'' U32 1 (Some 0x84)]"

definition GPIO_TypeDef :: cstruct where
  "GPIO_TypeDef =
    [field ''MODER'' U32 1 (Some 0x00),
     field ''OTYPER'' U32 1 (Some 0x04),
     field ''OSPEEDR'' U32 1 (Some 0x08),
     field ''PUPDR'' U32 1 (Some 0x0C),
     field ''IDR'' U32 1 (Some 0x10),
     field ''ODR'' U32 1 (Some 0x14),
     field ''BSRR'' U32 1 (Some 0x18),
     field ''LCKR'' U32 1 (Some 0x1C),
     field ''AFR'' U32 2 (Some 0x20),
     field ''BRR'' U32 1 (Some 0x28)]"

definition GTZC_TZSC_TypeDef :: cstruct where
  "GTZC_TZSC_TypeDef =
    [field ''CR'' U32 1 (Some 0x00),
     field ''RESERVED1'' U32 3 (Some 0x04),
     field ''SECCFGR1'' U32 1 (Some 0x10),
     field ''RESERVED2'' U32 3 (Some 0x14),
     field ''PRIVCFGR1'' U32 1 (Some 0x20),
     field ''RESERVED3'' U32 67 (Some 0x24),
     field ''MPCWM1_UPWMR'' U32 1 (Some 0x130),
     field ''MPCWM1_UPWWMR'' U32 1 (Some 0x134),
     field ''MPCWM2_UPWMR'' U32 1 (Some 0x138),
     field ''RESERVED4'' U32 1 (Some 0x13C),
     field ''MPCWM3_UPWMR'' U32 1 (Some 0x140)]"

definition GTZC_TZIC_TypeDef :: cstruct where
  "GTZC_TZIC_TypeDef =
    [field ''IER1'' U32 1 (Some 0x00),
     field ''RESERVED1'' U32 3 (Some 0x0C),
     field ''MISR1'' U32 1 (Some 0x10),
     field ''RESERVED2'' U32 3 (Some 0x1C),
     field ''ICR1'' U32 1 (Some 0x20)]"

definition HSEM_TypeDef :: cstruct where
  "HSEM_TypeDef =
    [field ''R'' U32 16 (Some 0x00),
     field ''Reserved1'' U32 16 (Some 0x40),
     field ''RLR'' U32 16 (Some 0x80),
     field ''Reserved2'' U32 16 (Some 0xC0),
     field ''C1IER'' U32 1 (Some 0x100),
     field ''C1ICR'' U32 1 (Some 0x104),
     field ''C1ISR'' U32 1 (Some 0x108),
     field ''C1MISR'' U32 1 (Some 0x10C),
     field ''C2IER'' U32 1 (Some 0x110),
     field ''C2ICR'' U32 1 (Some 0x114),
     field ''C2ISR'' U32 1 (Some 0x118),
     field ''C2MISR'' U32 1 (Some 0x11C),
     field ''Reserved'' U32 8 (Some 0x120),
     field ''CR'' U32 1 (Some 0x140),
     field ''KEYR'' U32 1 (Some 0x144)]"

definition HSEM_Common_TypeDef :: cstruct where
  "HSEM_Common_TypeDef =
    [field ''IER'' U32 1 (Some 0x00),
     field ''ICR'' U32 1 (Some 0x04),
     field ''ISR'' U32 1 (Some 0x08),
     field ''MISR'' U32 1 (Some 0x0C)]"

definition I2C_TypeDef :: cstruct where
  "I2C_TypeDef =
    [field ''CR1'' U32 1 (Some 0x00),
     field ''CR2'' U32 1 (Some 0x04),
     field ''OAR1'' U32 1 (Some 0x08),
     field ''OAR2'' U32 1 (Some 0x0C),
     field ''TIMINGR'' U32 1 (Some 0x10),
     field ''TIMEOUTR'' U32 1 (Some 0x14),
     field ''ISR'' U32 1 (Some 0x18),
     field ''ICR'' U32 1 (Some 0x1C),
     field ''PECR'' U32 1 (Some 0x20),
     field ''RXDR'' U32 1 (Some 0x24),
     field ''TXDR'' U32 1 (Some 0x28)]"

definition IPCC_TypeDef :: cstruct where
  "IPCC_TypeDef =
    [field ''C1CR'' U32 1 (Some 0x00),
     field ''C1MR'' U32 1 (Some 0x04),
     field ''C1SCR'' U32 1 (Some 0x08),
     field ''C1TOC2SR'' U32 1 (Some 0x0C),
     field ''C2CR'' U32 1 (Some 0x10),
     field ''C2MR'' U32 1 (Some 0x14),
     field ''C2SCR'' U32 1 (Some 0x18),
     field ''C2TOC1SR'' U32 1 (Some 0x1C)]"

definition IPCC_CommonTypeDef :: cstruct where
  "IPCC_CommonTypeDef =
    [field ''CR'' U32 1 (Some 0x00),
     field ''MR'' U32 1 (Some 0x04),
     field ''SCR'' U32 1 (Some 0x08),
     field ''SR'' U32 1 (Some 0x0C)]"

definition IWDG_TypeDef :: cstruct where
  "IWDG_TypeDef =
    [field ''KR'' U32 1 (Some 0x00),
     field ''PR'' U32 1 (Some 0x04),
     field ''RLR'' U32 1 (Some 0x08),
     field ''SR'' U32 1 (Some 0x0C),
     field ''WINR'' U32 1 (Some 0x10)]"

definition LPTIM_TypeDef :: cstruct where
  "LPTIM_TypeDef =
    [field ''ISR'' U32 1 (Some 0x00),
     field ''ICR'' U32 1 (Some 0x04),
     field ''IER'' U32 1 (Some 0x08),
     field ''CFGR'' U32 1 (Some 0x0C),
     field ''CR'' U32 1 (Some 0x10),
     field ''CMP'' U32 1 (Some 0x14),
     field ''ARR'' U32 1 (Some 0x18),
     field ''CNT'' U32 1 (Some 0x1C),
     field ''OR'' U32 1 (Some 0x20),
     field ''RESERVED'' U32 1 (Some 0x24),
     field ''RCR'' U32 1 (Some 0x28)]"

definition PKA_TypeDef :: cstruct where
  "PKA_TypeDef =
    [field ''CR'' U32 1 (Some 0x00),
     field ''SR'' U32 1 (Some 0x04),
     field ''CLRFR'' U32 1 (Some 0x08),
     field ''Reserved1'' U32 253 (Some 0x0C),
     field ''RAM'' U32 894 (Some 0x400)]"

definition PWR_TypeDef :: cstruct where
  "PWR_TypeDef =
    [field ''CR1'' U32 1 (Some 0x00),
     field ''CR2'' U32 1 (Some 0x04),
     field ''CR3'' U32 1 (Some 0x08),
     field ''CR4'' U32 1 (Some 0x0C),
     field ''SR1'' U32 1 (Some 0x10),
     field ''SR2'' U32 1 (Some 0x14),
     field ''SCR'' U32 1 (Some 0x18),
     field ''CR5'' U32 1 (Some 0x1C),
     field ''PUCRA'' U32 1 (Some 0x20),
     field ''PDCRA'' U32 1 (Some 0x24),
     field ''PUCRB'' U32 1 (Some 0x28),
     field ''PDCRB'' U32 1 (Some 0x2C),
     field ''PUCRC'' U32 1 (Some 0x30),
     field ''PDCRC'' U32 1 (Some 0x34),
     field ''RESERVED0'' U32 8 (Some 0x38),
     field ''PUCRH'' U32 1 (Some 0x58),
     field ''PDCRH'' U32 1 (Some 0x5C),
     field ''RESERVED1'' U32 8 (Some 0x60),
     field ''C2CR1'' U32 1 (Some 0x80),
     field ''C2CR3'' U32 1 (Some 0x84),
     field ''EXTSCR'' U32 1 (Some 0x88),
     field ''SECCFGR'' U32 1 (Some 0x8C),
     field ''SUBGHZSPICR'' U32 1 (Some 0x90),
     field ''RESERVED2'' U32 1 (Some 0x94),
     field ''RSSCMDR'' U32 1 (Some 0x98)]"

definition RCC_TypeDef :: cstruct where
  "RCC_TypeDef =
    [field ''CR'' U32 1 (Some 0x00),
     field ''ICSCR'' U32 1 (Some 0x04),
     field ''CFGR'' U32 1 (Some 0x08),
     field ''PLLCFGR'' U32 1 (Some 0x0C),
     field ''RESERVED0'' U32 1 (Some 0x10),
     field ''RESERVED1'' U32 1 (Some 0x14),
     field ''CIER'' U32 1 (Some 0x18),
     field ''CIFR'' U32 1 (Some 0x1C),
     field ''CICR'' U32 1 (Some 0x20),
     field ''RESERVED2'' U32 1 (Some 0x24),
     field ''AHB1RSTR'' U32 1 (Some 0x28),
     field ''AHB2RSTR'' U32 1 (Some 0x2C),
     field ''AHB3RSTR'' U32 1 (Some 0x30),
     field ''RESERVED3'' U32 1 (Some 0x34),
     field ''APB1RSTR1'' U32 1 (Some 0x38),
     field ''APB1RSTR2'' U32 1 (Some 0x3C),
     field ''APB2RSTR'' U32 1 (Some 0x40),
     field ''APB3RSTR'' U32 1 (Some 0x44),
     field ''AHB1ENR'' U32 1 (Some 0x48),
     field ''AHB2ENR'' U32 1 (Some 0x4C),
     field ''AHB3ENR'' U32 1 (Some 0x50),
     field ''RESERVED4'' U32 1 (Some 0x54),
     field ''APB1ENR1'' U32 1 (Some 0x58),
     field ''APB1ENR2'' U32 1 (Some 0x5C),
     field ''APB2ENR'' U32 1 (Some 0x60),
     field ''APB3ENR'' U32 1 (Some 0x64),
     field ''AHB1SMENR'' U32 1 (Some 0x68),
     field ''AHB2SMENR'' U32 1 (Some 0x6C),
     field ''AHB3SMENR'' U32 1 (Some 0x70),
     field ''RESERVED5'' U32 1 (Some 0x74),
     field ''APB1SMENR1'' U32 1 (Some 0x78),
     field ''APB1SMENR2'' U32 1 (Some 0x7C),
     field ''APB2SMENR'' U32 1 (Some 0x80),
     field ''APB3SMENR'' U32 1 (Some 0x84),
     field ''CCIPR'' U32 1 (Some 0x88),
     field ''RESERVED6'' U32 1 (Some 0x8C),
     field ''BDCR'' U32 1 (Some 0x90),
     field ''CSR'' U32 1 (Some 0x94),
     field ''RESERVED7'' U32 28 (Some 0x98),
     field ''EXTCFGR'' U32 1 (Some 0x108),
     field ''RESERVED8'' U32 15 (Some 0x10C),
     field ''C2AHB1ENR'' U32 1 (Some 0x148),
     field ''C2AHB2ENR'' U32 1 (Some 0x14C),
     field ''C2AHB3ENR'' U32 1 (Some 0x150),
     field ''RESERVED9'' U32 1 (Some 0x154),
     field ''C2APB1ENR1'' U32 1 (Some 0x158),
     field ''C2APB1ENR2'' U32 1 (Some 0x15C),
     field ''C2APB2ENR'' U32 1 (Some 0x160),
     field ''C2APB3ENR'' U32 1 (Some 0x164),
     field ''C2AHB1SMENR'' U32 1 (Some 0x168),
     field ''C2AHB2SMENR'' U32 1 (Some 0x16C),
     field ''C2AHB3SMENR'' U32 1 (Some 0x170),
     field ''RESERVED10'' U32 1 None,
     field ''C2APB1SMENR1'' U32 1 (Some 0x178),
     field ''C2APB1SMENR2'' U32 1 (Some 0x17C),
     field ''C2APB2SMENR'' U32 1 (Some 0x180),
     field ''C2APB3SMENR'' U32 1 (Some 0x184)]"

definition RNG_TypeDef :: cstruct where
  "RNG_TypeDef =
    [field ''CR'' U32 1 (Some 0x00),
     field ''SR'' U32 1 (Some 0x04),
     field ''DR'' U32 1 (Some 0x08),
     field ''RESERVED0'' U32 1 (Some 0x0C),
     field ''HTCR'' U32 1 (Some 0x10)]"

definition RTC_TypeDef :: cstruct where
  "RTC_TypeDef =
    [field ''TR'' U32 1 (Some 0x00),
     field ''DR'' U32 1 (Some 0x04),
     field ''SSR'' U32 1 (Some 0x08),
     field ''ICSR'' U32 1 (Some 0x0C),
     field ''PRER'' U32 1 (Some 0x10),
     field ''WUTR'' U32 1 (Some 0x14),
     field ''CR'' U32 1 (Some 0x18),
     field ''RESERVED0'' U32 1 (Some 0x1C),
     field ''RESERVED1'' U32 1 (Some 0x20),
     field ''WPR'' U32 1 (Some 0x24),
     field ''CALR'' U32 1 (Some 0x28),
     field ''SHIFTR'' U32 1 (Some 0x2C),
     field ''TSTR'' U32 1 (Some 0x30),
     field ''TSDR'' U32 1 (Some 0x34),
     field ''TSSSR'' U32 1 (Some 0x38),
     field ''RESERVED2'' U32 1 (Some 0x3C),
     field ''ALRMAR'' U32 1 (Some 0x40),
     field ''ALRMASSR'' U32 1 (Some 0x44),
     field ''ALRMBR'' U32 1 (Some 0x48),
     field ''ALRMBSSR'' U32 1 (Some 0x4C),
     field ''SR'' U32 1 (Some 0x50),
     field ''MISR'' U32 1 (Some 0x54),
     field ''RESERVED3'' U32 1 (Some 0x58),
     field ''SCR'' U32 1 (Some 0x5C),
     field ''RESERVED4'' U32 4 (Some 0x58),
     field ''ALRABINR'' U32 1 (Some 0x70),
     field ''ALRBBINR'' U32 1 (Some 0x74)]"

definition SPI_TypeDef :: cstruct where
  "SPI_TypeDef =
    [field ''CR1'' U32 1 (Some 0x00),
     field ''CR2'' U32 1 (Some 0x04),
     field ''SR'' U32 1 (Some 0x08),
     field ''DR'' U32 1 (Some 0x0C),
     field ''CRCPR'' U32 1 (Some 0x10),
     field ''RXCRCR'' U32 1 (Some 0x14),
     field ''TXCRCR'' U32 1 (Some 0x18),
     field ''I2SCFGR'' U32 1 (Some 0x1C),
     field ''I2SPR'' U32 1 (Some 0x20)]"

definition SYSCFG_TypeDef :: cstruct where
  "SYSCFG_TypeDef =
    [field ''MEMRMP'' U32 1 (Some 0x00),
     field ''CFGR1'' U32 1 (Some 0x04),
     field ''EXTICR'' U32 4 (Some 0x08),
     field ''SCSR'' U32 1 (Some 0x18),
     field ''CFGR2'' U32 1 (Some 0x1C),
     field ''SWPR'' U32 1 (Some 0x20),
     field ''SKR'' U32 1 (Some 0x24),
     field ''RESERVED1'' U32 54 (Some 0x28),
     field ''IMR1'' U32 1 (Some 0x100),
     field ''IMR2'' U32 1 (Some 0x104),
     field ''C2IMR1'' U32 1 (Some 0x108),
     field ''C2IMR2'' U32 1 (Some 0x10C),
     field ''RESERVED2'' U32 62 (Some 0x110),
     field ''RFDCR'' U32 1 (Some 0x208)]"

definition TAMP_TypeDef :: cstruct where
  "TAMP_TypeDef =
    [field ''CR1'' U32 1 (Some 0x00),
     field ''CR2'' U32 1 (Some 0x04),
     field ''CR3'' U32 1 (Some 0x08),
     field ''FLTCR'' U32 1 (Some 0x0C),
     field ''RESERVED0'' U32 7 (Some 0x10),
     field ''IER'' U32 1 (Some 0x2C),
     field ''SR'' U32 1 (Some 0x30),
     field ''MISR'' U32 1 (Some 0x34),
     field ''RESERVED1'' U32 1 (Some 0x38),
     field ''SCR'' U32 1 (Some 0x3C),
     field ''COUNTR'' U32 1 (Some 0x40),
     field ''RESERVED2'' U32 47 (Some 0x54),
     field ''BKP0R'' U32 1 (Some 0x100),
     field ''BKP1R'' U32 1 (Some 0x104),
     field ''BKP2R'' U32 1 (Some 0x108),
     field ''BKP3R'' U32 1 (Some 0x10C),
     field ''BKP4R'' U32 1 (Some 0x110),
     field ''BKP5R'' U32 1 (Some 0x114),
     field ''BKP6R'' U32 1 (Some 0x118),
     field ''BKP7R'' U32 1 (Some 0x11C),
     field ''BKP8R'' U32 1 (Some 0x120),
     field ''BKP9R'' U32 1 (Some 0x124),
     field ''BKP10R'' U32 1 (Some 0x128),
     field ''BKP11R'' U32 1 (Some 0x12C),
     field ''BKP12R'' U32 1 (Some 0x130),
     field ''BKP13R'' U32 1 (Some 0x134),
     field ''BKP14R'' U32 1 (Some 0x138),
     field ''BKP15R'' U32 1 (Some 0x13C),
     field ''BKP16R'' U32 1 (Some 0x140),
     field ''BKP17R'' U32 1 (Some 0x144),
     field ''BKP18R'' U32 1 (Some 0x148),
     field ''BKP19R'' U32 1 (Some 0x14C)]"

definition TIM_TypeDef :: cstruct where
  "TIM_TypeDef =
    [field ''CR1'' U32 1 (Some 0x00),
     field ''CR2'' U32 1 (Some 0x04),
     field ''SMCR'' U32 1 (Some 0x08),
     field ''DIER'' U32 1 (Some 0x0C),
     field ''SR'' U32 1 (Some 0x10),
     field ''EGR'' U32 1 (Some 0x14),
     field ''CCMR1'' U32 1 (Some 0x18),
     field ''CCMR2'' U32 1 (Some 0x1C),
     field ''CCER'' U32 1 (Some 0x20),
     field ''CNT'' U32 1 (Some 0x24),
     field ''PSC'' U32 1 (Some 0x28),
     field ''ARR'' U32 1 (Some 0x2C),
     field ''RCR'' U32 1 (Some 0x30),
     field ''CCR1'' U32 1 (Some 0x34),
     field ''CCR2'' U32 1 (Some 0x38),
     field ''CCR3'' U32 1 (Some 0x3C),
     field ''CCR4'' U32 1 (Some 0x40),
     field ''BDTR'' U32 1 (Some 0x44),
     field ''DCR'' U32 1 (Some 0x48),
     field ''DMAR'' U32 1 (Some 0x4C),
     field ''OR1'' U32 1 (Some 0x50),
     field ''CCMR3'' U32 1 (Some 0x54),
     field ''CCR5'' U32 1 (Some 0x58),
     field ''CCR6'' U32 1 (Some 0x5C),
     field ''AF1'' U32 1 (Some 0x60),
     field ''AF2'' U32 1 (Some 0x64)]"

definition USART_TypeDef :: cstruct where
  "USART_TypeDef =
    [field ''CR1'' U32 1 (Some 0x00),
     field ''CR2'' U32 1 (Some 0x04),
     field ''CR3'' U32 1 (Some 0x08),
     field ''BRR'' U32 1 (Some 0x0C),
     field ''GTPR'' U32 1 (Some 0x10),
     field ''RTOR'' U32 1 (Some 0x14),
     field ''RQR'' U32 1 (Some 0x18),
     field ''ISR'' U32 1 (Some 0x1C),
     field ''ICR'' U32 1 (Some 0x20),
     field ''RDR'' U32 1 (Some 0x24),
     field ''TDR'' U32 1 (Some 0x28),
     field ''PRESC'' U32 1 (Some 0x2C)]"

definition VREFBUF_TypeDef :: cstruct where
  "VREFBUF_TypeDef =
    [field ''CSR'' U32 1 (Some 0x00),
     field ''CCR'' U32 1 (Some 0x04)]"

definition WWDG_TypeDef :: cstruct where
  "WWDG_TypeDef =
    [field ''CR'' U32 1 (Some 0x00),
     field ''CFR'' U32 1 (Some 0x04),
     field ''SR'' U32 1 (Some 0x08)]"

lemmas struct_defs = ADC_TypeDef_def ADC_Common_TypeDef_def AES_TypeDef_def COMP_TypeDef_def COMP_Common_TypeDef_def
  CRC_TypeDef_def DAC_TypeDef_def DMA_Channel_TypeDef_def DMA_TypeDef_def
  DMAMUX_Channel_TypeDef_def DMAMUX_ChannelStatus_TypeDef_def DMAMUX_RequestGen_TypeDef_def
  DMAMUX_RequestGenStatus_TypeDef_def EXTI_TypeDef_def FLASH_TypeDef_def GPIO_TypeDef_def
  GTZC_TZSC_TypeDef_def GTZC_TZIC_TypeDef_def HSEM_TypeDef_def HSEM_Common_TypeDef_def
  I2C_TypeDef_def IPCC_TypeDef_def IPCC_CommonTypeDef_def IWDG_TypeDef_def LPTIM_TypeDef_def
  PKA_TypeDef_def PWR_TypeDef_def RCC_TypeDef_def RNG_TypeDef_def RTC_TypeDef_def SPI_TypeDef_def
  SYSCFG_TypeDef_def TAMP_TypeDef_def TIM_TypeDef_def USART_TypeDef_def VREFBUF_TypeDef_def
  WWDG_TypeDef_def

section \<open>Layout\<close>

text \<open>Every field starts at the next multiple of its type's size; so does the end of a structure of words.\<close>

fun ctype_size :: "ctype \<Rightarrow> nat" where
  "ctype_size U8 = 1"
| "ctype_size U16 = 2"
| "ctype_size U32 = 4"

definition align :: "nat \<Rightarrow> nat \<Rightarrow> nat" where
  "align n k = (n + k - 1) div k * k"

fun layout :: "nat \<Rightarrow> cstruct \<Rightarrow> (nat \<times> cfield) list" where
  "layout n [] = []"
| "layout n (f # fs) =
     (let m = align n (ctype_size (fld_type f))
      in (m, f) # layout (m + ctype_size (fld_type f) * fld_count f) fs)"

fun struct_end :: "nat \<Rightarrow> cstruct \<Rightarrow> nat" where
  "struct_end n [] = align n 4"
| "struct_end n (f # fs) =
     struct_end (align n (ctype_size (fld_type f)) + ctype_size (fld_type f) * fld_count f) fs"

definition sizeof :: "cstruct \<Rightarrow> nat" where
  "sizeof s = struct_end 0 s"

definition offsets :: "cstruct \<Rightarrow> (string \<times> nat) list" where
  "offsets s = map (\<lambda>(n, f). (fld_name f, n)) (layout 0 s)"

definition offset_of :: "string \<Rightarrow> cstruct \<Rightarrow> nat option" where
  "offset_of x s = map_of (offsets s) x"

definition misdocumented :: "cstruct \<Rightarrow> (string \<times> nat) list" where
  "misdocumented s =
     map (\<lambda>(n, f). (fld_name f, n)) (filter (\<lambda>(n, f). fld_doc f \<noteq> None \<and> fld_doc f \<noteq> Some n) (layout 0 s))"

definition device_structs :: "(string \<times> cstruct) list" where
  "device_structs =
     [(''ADC_TypeDef'', ADC_TypeDef), (''ADC_Common_TypeDef'', ADC_Common_TypeDef), (''AES_TypeDef'',
      AES_TypeDef), (''COMP_TypeDef'', COMP_TypeDef), (''COMP_Common_TypeDef'', COMP_Common_TypeDef),
      (''CRC_TypeDef'', CRC_TypeDef), (''DAC_TypeDef'', DAC_TypeDef), (''DMA_Channel_TypeDef'',
      DMA_Channel_TypeDef), (''DMA_TypeDef'', DMA_TypeDef), (''DMAMUX_Channel_TypeDef'',
      DMAMUX_Channel_TypeDef), (''DMAMUX_ChannelStatus_TypeDef'', DMAMUX_ChannelStatus_TypeDef),
      (''DMAMUX_RequestGen_TypeDef'', DMAMUX_RequestGen_TypeDef),
      (''DMAMUX_RequestGenStatus_TypeDef'', DMAMUX_RequestGenStatus_TypeDef), (''EXTI_TypeDef'',
      EXTI_TypeDef), (''FLASH_TypeDef'', FLASH_TypeDef), (''GPIO_TypeDef'', GPIO_TypeDef),
      (''GTZC_TZSC_TypeDef'', GTZC_TZSC_TypeDef), (''GTZC_TZIC_TypeDef'', GTZC_TZIC_TypeDef),
      (''HSEM_TypeDef'', HSEM_TypeDef), (''HSEM_Common_TypeDef'', HSEM_Common_TypeDef),
      (''I2C_TypeDef'', I2C_TypeDef), (''IPCC_TypeDef'', IPCC_TypeDef), (''IPCC_CommonTypeDef'',
      IPCC_CommonTypeDef), (''IWDG_TypeDef'', IWDG_TypeDef), (''LPTIM_TypeDef'', LPTIM_TypeDef),
      (''PKA_TypeDef'', PKA_TypeDef), (''PWR_TypeDef'', PWR_TypeDef), (''RCC_TypeDef'', RCC_TypeDef),
      (''RNG_TypeDef'', RNG_TypeDef), (''RTC_TypeDef'', RTC_TypeDef), (''SPI_TypeDef'', SPI_TypeDef),
      (''SYSCFG_TypeDef'', SYSCFG_TypeDef), (''TAMP_TypeDef'', TAMP_TypeDef), (''TIM_TypeDef'',
      TIM_TypeDef), (''USART_TypeDef'', USART_TypeDef), (''VREFBUF_TypeDef'', VREFBUF_TypeDef),
      (''WWDG_TypeDef'', WWDG_TypeDef)]"

section \<open>Peripherals\<close>

definition APB1PERIPH_BASE :: u32 where [reg_addr]: "APB1PERIPH_BASE = PERIPH_BASE"
definition TIM2_BASE :: u32 where [reg_addr]: "TIM2_BASE = APB1PERIPH_BASE + 0x00000000"
definition IWDG_BASE :: u32 where [reg_addr]: "IWDG_BASE = APB1PERIPH_BASE + 0x00003000"
definition WWDG_BASE :: u32 where [reg_addr]: "WWDG_BASE = APB1PERIPH_BASE + 0x00002C00"
definition DAC_BASE :: u32 where [reg_addr]: "DAC_BASE = APB1PERIPH_BASE + 0x00007400"
definition LPTIM1_BASE :: u32 where [reg_addr]: "LPTIM1_BASE = APB1PERIPH_BASE + 0x00007C00"
definition LPTIM2_BASE :: u32 where [reg_addr]: "LPTIM2_BASE = APB1PERIPH_BASE + 0x00009400"
definition LPTIM3_BASE :: u32 where [reg_addr]: "LPTIM3_BASE = APB1PERIPH_BASE + 0x00009800"
definition RTC_BASE :: u32 where [reg_addr]: "RTC_BASE = APB1PERIPH_BASE + 0x00002800"
definition SPI2_BASE :: u32 where [reg_addr]: "SPI2_BASE = APB1PERIPH_BASE + 0x00003800"
definition I2C1_BASE :: u32 where [reg_addr]: "I2C1_BASE = APB1PERIPH_BASE + 0x00005400"
definition I2C2_BASE :: u32 where [reg_addr]: "I2C2_BASE = APB1PERIPH_BASE + 0x00005800"
definition I2C3_BASE :: u32 where [reg_addr]: "I2C3_BASE = APB1PERIPH_BASE + 0x00005C00"
definition TAMP_BASE :: u32 where [reg_addr]: "TAMP_BASE = APB1PERIPH_BASE + 0x0000B000"
definition USART2_BASE :: u32 where [reg_addr]: "USART2_BASE = APB1PERIPH_BASE + 0x00004400"
definition LPUART1_BASE :: u32 where [reg_addr]: "LPUART1_BASE = APB1PERIPH_BASE + 0x00008000"
definition APB2PERIPH_BASE :: u32 where [reg_addr]: "APB2PERIPH_BASE = PERIPH_BASE + 0x00010000"
definition SYSCFG_BASE :: u32 where [reg_addr]: "SYSCFG_BASE = APB2PERIPH_BASE + 0x00000000"
definition VREFBUF_BASE :: u32 where [reg_addr]: "VREFBUF_BASE = APB2PERIPH_BASE + 0x00000030"
definition COMP1_BASE :: u32 where [reg_addr]: "COMP1_BASE = APB2PERIPH_BASE + 0x00000200"
definition COMP2_BASE :: u32 where [reg_addr]: "COMP2_BASE = APB2PERIPH_BASE + 0x00000204"
definition TIM1_BASE :: u32 where [reg_addr]: "TIM1_BASE = APB2PERIPH_BASE + 0x00002C00"
definition SPI1_BASE :: u32 where [reg_addr]: "SPI1_BASE = APB2PERIPH_BASE + 0x00003000"
definition ADC_BASE :: u32 where [reg_addr]: "ADC_BASE = APB2PERIPH_BASE + 0x00002400"
definition ADC_COMMON_BASE :: u32 where [reg_addr]: "ADC_COMMON_BASE = APB2PERIPH_BASE + 0x00002708"
definition TIM16_BASE :: u32 where [reg_addr]: "TIM16_BASE = APB2PERIPH_BASE + 0x00004400"
definition TIM17_BASE :: u32 where [reg_addr]: "TIM17_BASE = APB2PERIPH_BASE + 0x00004800"
definition USART1_BASE :: u32 where [reg_addr]: "USART1_BASE = APB2PERIPH_BASE + 0x00003800"
definition DMAMUX1_Channel1_BASE :: u32 where [reg_addr]: "DMAMUX1_Channel1_BASE = DMAMUX1_BASE + 0x00000004"
definition DMAMUX1_Channel2_BASE :: u32 where [reg_addr]: "DMAMUX1_Channel2_BASE = DMAMUX1_BASE + 0x00000008"
definition DMAMUX1_Channel3_BASE :: u32 where [reg_addr]: "DMAMUX1_Channel3_BASE = DMAMUX1_BASE + 0x0000000C"
definition DMAMUX1_Channel4_BASE :: u32 where [reg_addr]: "DMAMUX1_Channel4_BASE = DMAMUX1_BASE + 0x00000010"
definition DMAMUX1_Channel5_BASE :: u32 where [reg_addr]: "DMAMUX1_Channel5_BASE = DMAMUX1_BASE + 0x00000014"
definition DMAMUX1_Channel6_BASE :: u32 where [reg_addr]: "DMAMUX1_Channel6_BASE = DMAMUX1_BASE + 0x00000018"
definition DMAMUX1_Channel7_BASE :: u32 where [reg_addr]: "DMAMUX1_Channel7_BASE = DMAMUX1_BASE + 0x0000001C"
definition DMAMUX1_Channel8_BASE :: u32 where [reg_addr]: "DMAMUX1_Channel8_BASE = DMAMUX1_BASE + 0x00000020"
definition DMAMUX1_Channel9_BASE :: u32 where [reg_addr]: "DMAMUX1_Channel9_BASE = DMAMUX1_BASE + 0x00000024"
definition DMAMUX1_Channel10_BASE :: u32 where
  [reg_addr]: "DMAMUX1_Channel10_BASE = DMAMUX1_BASE + 0x00000028"
definition DMAMUX1_Channel11_BASE :: u32 where
  [reg_addr]: "DMAMUX1_Channel11_BASE = DMAMUX1_BASE + 0x0000002C"
definition DMAMUX1_Channel12_BASE :: u32 where
  [reg_addr]: "DMAMUX1_Channel12_BASE = DMAMUX1_BASE + 0x00000030"
definition DMAMUX1_Channel13_BASE :: u32 where
  [reg_addr]: "DMAMUX1_Channel13_BASE = DMAMUX1_BASE + 0x00000034"
definition DMAMUX1_RequestGenerator0_BASE :: u32 where
  [reg_addr]: "DMAMUX1_RequestGenerator0_BASE = DMAMUX1_BASE + 0x00000100"
definition DMAMUX1_RequestGenerator1_BASE :: u32 where
  [reg_addr]: "DMAMUX1_RequestGenerator1_BASE = DMAMUX1_BASE + 0x00000104"
definition DMAMUX1_RequestGenerator2_BASE :: u32 where
  [reg_addr]: "DMAMUX1_RequestGenerator2_BASE = DMAMUX1_BASE + 0x00000108"
definition DMAMUX1_RequestGenerator3_BASE :: u32 where
  [reg_addr]: "DMAMUX1_RequestGenerator3_BASE = DMAMUX1_BASE + 0x0000010C"
definition DMAMUX1_ChannelStatus_BASE :: u32 where
  [reg_addr]: "DMAMUX1_ChannelStatus_BASE = DMAMUX1_BASE + 0x00000080"
definition DMAMUX1_RequestGenStatus_BASE :: u32 where
  [reg_addr]: "DMAMUX1_RequestGenStatus_BASE = DMAMUX1_BASE + 0x00000140"
definition CRC_BASE :: u32 where [reg_addr]: "CRC_BASE = AHB1PERIPH_BASE + 0x00003000"
definition AHB2PERIPH_BASE :: u32 where [reg_addr]: "AHB2PERIPH_BASE = PERIPH_BASE + 0x08000000"
definition IOPORT_BASE :: u32 where [reg_addr]: "IOPORT_BASE = AHB2PERIPH_BASE + 0x00000000"
definition GPIOA_BASE :: u32 where [reg_addr]: "GPIOA_BASE = IOPORT_BASE + 0x00000000"
definition GPIOB_BASE :: u32 where [reg_addr]: "GPIOB_BASE = IOPORT_BASE + 0x00000400"
definition GPIOC_BASE :: u32 where [reg_addr]: "GPIOC_BASE = IOPORT_BASE + 0x00000800"
definition GPIOH_BASE :: u32 where [reg_addr]: "GPIOH_BASE = IOPORT_BASE + 0x00001C00"
definition AES_BASE :: u32 where [reg_addr]: "AES_BASE = AHB3PERIPH_BASE + 0x00001800"
definition IPCC_BASE :: u32 where [reg_addr]: "IPCC_BASE = AHB3PERIPH_BASE + 0x00000C00"
definition PWR_BASE :: u32 where [reg_addr]: "PWR_BASE = AHB3PERIPH_BASE + 0x00000400"
definition RNG_BASE :: u32 where [reg_addr]: "RNG_BASE = AHB3PERIPH_BASE + 0x00001000"
definition HSEM_BASE :: u32 where [reg_addr]: "HSEM_BASE = AHB3PERIPH_BASE + 0x00001400"
definition PKA_BASE :: u32 where [reg_addr]: "PKA_BASE = AHB3PERIPH_BASE + 0x00002000"
definition FLASH_REG_BASE :: u32 where [reg_addr]: "FLASH_REG_BASE = AHB3PERIPH_BASE + 0x00004000"
definition GTZC_TZSC_BASE :: u32 where [reg_addr]: "GTZC_TZSC_BASE = AHB3PERIPH_BASE + 0x00004400"
definition GTZC_TZIC_BASE :: u32 where [reg_addr]: "GTZC_TZIC_BASE = AHB3PERIPH_BASE + 0x00004800"
definition APB3PERIPH_BASE :: u32 where [reg_addr]: "APB3PERIPH_BASE = PERIPH_BASE + 0x18010000"
definition SUBGHZSPI_BASE :: u32 where [reg_addr]: "SUBGHZSPI_BASE = APB3PERIPH_BASE + 0x00000000"

record peripheral =
  per_name :: string
  per_base :: u32
  per_struct :: cstruct

definition periph :: "string \<Rightarrow> u32 \<Rightarrow> cstruct \<Rightarrow> peripheral" where
  "periph n b s = \<lparr>per_name = n, per_base = b, per_struct = s\<rparr>"

definition device_peripherals :: "peripheral list" where
  "device_peripherals =
    [periph ''TIM2'' TIM2_BASE TIM_TypeDef,
     periph ''IWDG'' IWDG_BASE IWDG_TypeDef,
     periph ''WWDG'' WWDG_BASE WWDG_TypeDef,
     periph ''DAC'' DAC_BASE DAC_TypeDef,
     periph ''LPTIM1'' LPTIM1_BASE LPTIM_TypeDef,
     periph ''LPTIM2'' LPTIM2_BASE LPTIM_TypeDef,
     periph ''LPTIM3'' LPTIM3_BASE LPTIM_TypeDef,
     periph ''RTC'' RTC_BASE RTC_TypeDef,
     periph ''SPI2'' SPI2_BASE SPI_TypeDef,
     periph ''I2C1'' I2C1_BASE I2C_TypeDef,
     periph ''I2C2'' I2C2_BASE I2C_TypeDef,
     periph ''I2C3'' I2C3_BASE I2C_TypeDef,
     periph ''TAMP'' TAMP_BASE TAMP_TypeDef,
     periph ''USART2'' USART2_BASE USART_TypeDef,
     periph ''LPUART1'' LPUART1_BASE USART_TypeDef,
     periph ''SYSCFG'' SYSCFG_BASE SYSCFG_TypeDef,
     periph ''VREFBUF'' VREFBUF_BASE VREFBUF_TypeDef,
     periph ''COMP1'' COMP1_BASE COMP_TypeDef,
     periph ''COMP2'' COMP2_BASE COMP_TypeDef,
     periph ''TIM1'' TIM1_BASE TIM_TypeDef,
     periph ''SPI1'' SPI1_BASE SPI_TypeDef,
     periph ''ADC'' ADC_BASE ADC_TypeDef,
     periph ''ADC_COMMON'' ADC_COMMON_BASE ADC_Common_TypeDef,
     periph ''TIM16'' TIM16_BASE TIM_TypeDef,
     periph ''TIM17'' TIM17_BASE TIM_TypeDef,
     periph ''USART1'' USART1_BASE USART_TypeDef,
     periph ''DMA1'' DMA1_BASE DMA_TypeDef,
     periph ''DMA1_Channel1'' DMA1_Channel1_BASE DMA_Channel_TypeDef,
     periph ''DMA1_Channel2'' DMA1_Channel2_BASE DMA_Channel_TypeDef,
     periph ''DMA1_Channel3'' DMA1_Channel3_BASE DMA_Channel_TypeDef,
     periph ''DMA1_Channel4'' DMA1_Channel4_BASE DMA_Channel_TypeDef,
     periph ''DMA1_Channel5'' DMA1_Channel5_BASE DMA_Channel_TypeDef,
     periph ''DMA1_Channel6'' DMA1_Channel6_BASE DMA_Channel_TypeDef,
     periph ''DMA1_Channel7'' DMA1_Channel7_BASE DMA_Channel_TypeDef,
     periph ''DMA2'' DMA2_BASE DMA_TypeDef,
     periph ''DMA2_Channel1'' DMA2_Channel1_BASE DMA_Channel_TypeDef,
     periph ''DMA2_Channel2'' DMA2_Channel2_BASE DMA_Channel_TypeDef,
     periph ''DMA2_Channel3'' DMA2_Channel3_BASE DMA_Channel_TypeDef,
     periph ''DMA2_Channel4'' DMA2_Channel4_BASE DMA_Channel_TypeDef,
     periph ''DMA2_Channel5'' DMA2_Channel5_BASE DMA_Channel_TypeDef,
     periph ''DMA2_Channel6'' DMA2_Channel6_BASE DMA_Channel_TypeDef,
     periph ''DMA2_Channel7'' DMA2_Channel7_BASE DMA_Channel_TypeDef,
     periph ''DMAMUX1_Channel0'' DMAMUX1_Channel0_BASE DMAMUX_Channel_TypeDef,
     periph ''DMAMUX1_Channel1'' DMAMUX1_Channel1_BASE DMAMUX_Channel_TypeDef,
     periph ''DMAMUX1_Channel2'' DMAMUX1_Channel2_BASE DMAMUX_Channel_TypeDef,
     periph ''DMAMUX1_Channel3'' DMAMUX1_Channel3_BASE DMAMUX_Channel_TypeDef,
     periph ''DMAMUX1_Channel4'' DMAMUX1_Channel4_BASE DMAMUX_Channel_TypeDef,
     periph ''DMAMUX1_Channel5'' DMAMUX1_Channel5_BASE DMAMUX_Channel_TypeDef,
     periph ''DMAMUX1_Channel6'' DMAMUX1_Channel6_BASE DMAMUX_Channel_TypeDef,
     periph ''DMAMUX1_Channel7'' DMAMUX1_Channel7_BASE DMAMUX_Channel_TypeDef,
     periph ''DMAMUX1_Channel8'' DMAMUX1_Channel8_BASE DMAMUX_Channel_TypeDef,
     periph ''DMAMUX1_Channel9'' DMAMUX1_Channel9_BASE DMAMUX_Channel_TypeDef,
     periph ''DMAMUX1_Channel10'' DMAMUX1_Channel10_BASE DMAMUX_Channel_TypeDef,
     periph ''DMAMUX1_Channel11'' DMAMUX1_Channel11_BASE DMAMUX_Channel_TypeDef,
     periph ''DMAMUX1_Channel12'' DMAMUX1_Channel12_BASE DMAMUX_Channel_TypeDef,
     periph ''DMAMUX1_Channel13'' DMAMUX1_Channel13_BASE DMAMUX_Channel_TypeDef,
     periph ''DMAMUX1_RequestGenerator0'' DMAMUX1_RequestGenerator0_BASE DMAMUX_RequestGen_TypeDef,
     periph ''DMAMUX1_RequestGenerator1'' DMAMUX1_RequestGenerator1_BASE DMAMUX_RequestGen_TypeDef,
     periph ''DMAMUX1_RequestGenerator2'' DMAMUX1_RequestGenerator2_BASE DMAMUX_RequestGen_TypeDef,
     periph ''DMAMUX1_RequestGenerator3'' DMAMUX1_RequestGenerator3_BASE DMAMUX_RequestGen_TypeDef,
     periph ''DMAMUX1_ChannelStatus'' DMAMUX1_ChannelStatus_BASE DMAMUX_ChannelStatus_TypeDef,
     periph ''DMAMUX1_RequestGenStatus'' DMAMUX1_RequestGenStatus_BASE DMAMUX_RequestGenStatus_TypeDef,
     periph ''CRC'' CRC_BASE CRC_TypeDef,
     periph ''GPIOA'' GPIOA_BASE GPIO_TypeDef,
     periph ''GPIOB'' GPIOB_BASE GPIO_TypeDef,
     periph ''GPIOC'' GPIOC_BASE GPIO_TypeDef,
     periph ''GPIOH'' GPIOH_BASE GPIO_TypeDef,
     periph ''AES'' AES_BASE AES_TypeDef,
     periph ''EXTI'' EXTI_BASE EXTI_TypeDef,
     periph ''IPCC'' IPCC_BASE IPCC_TypeDef,
     periph ''RCC'' RCC_BASE RCC_TypeDef,
     periph ''PWR'' PWR_BASE PWR_TypeDef,
     periph ''RNG'' RNG_BASE RNG_TypeDef,
     periph ''HSEM'' HSEM_BASE HSEM_TypeDef,
     periph ''PKA'' PKA_BASE PKA_TypeDef,
     periph ''FLASH'' FLASH_REG_BASE FLASH_TypeDef,
     periph ''GTZC_TZSC'' GTZC_TZSC_BASE GTZC_TZSC_TypeDef,
     periph ''GTZC_TZIC'' GTZC_TZIC_BASE GTZC_TZIC_TypeDef,
     periph ''SUBGHZSPI'' SUBGHZSPI_BASE SPI_TypeDef]"

text \<open>Second views of peripherals that are in the list already.\<close>

definition peripheral_views :: "peripheral list" where
  "peripheral_views =
    [periph ''COMP12_COMMON'' COMP2_BASE COMP_Common_TypeDef,
     periph ''DMAMUX1'' DMAMUX1_BASE DMAMUX_Channel_TypeDef,
     periph ''IPCC_C1'' IPCC_BASE IPCC_CommonTypeDef,
     periph ''IPCC_C2'' (IPCC_BASE + 0x10) IPCC_CommonTypeDef,
     periph ''HSEM_COMMON'' (HSEM_BASE + 0x100) HSEM_Common_TypeDef]"

text \<open>The registers the accessors of \<open>Device_Map\<close> name, with the structure and the field each comes from.\<close>

definition device_registers :: "(u32 \<times> u32 \<times> cstruct \<times> string) list" where
  "device_registers =
    [(RCC_CR, RCC_BASE, RCC_TypeDef, ''CR''),
     (RCC_ICSCR, RCC_BASE, RCC_TypeDef, ''ICSCR''),
     (RCC_BDCR, RCC_BASE, RCC_TypeDef, ''BDCR''),
     (RCC_CSR, RCC_BASE, RCC_TypeDef, ''CSR''),
     (RCC_CFGR, RCC_BASE, RCC_TypeDef, ''CFGR''),
     (RCC_EXTCFGR, RCC_BASE, RCC_TypeDef, ''EXTCFGR''),
     (RCC_CCIPR, RCC_BASE, RCC_TypeDef, ''CCIPR''),
     (RCC_PLLCFGR, RCC_BASE, RCC_TypeDef, ''PLLCFGR''),
     (RCC_CICR, RCC_BASE, RCC_TypeDef, ''CICR''),
     (RCC_CIFR, RCC_BASE, RCC_TypeDef, ''CIFR''),
     (RCC_CIER, RCC_BASE, RCC_TypeDef, ''CIER''),
     (RCC_AHB1ENR, RCC_BASE, RCC_TypeDef, ''AHB1ENR''),
     (RCC_AHB1RSTR, RCC_BASE, RCC_TypeDef, ''AHB1RSTR''),
     (RCC_AHB1SMENR, RCC_BASE, RCC_TypeDef, ''AHB1SMENR''),
     (RCC_AHB2ENR, RCC_BASE, RCC_TypeDef, ''AHB2ENR''),
     (RCC_AHB2RSTR, RCC_BASE, RCC_TypeDef, ''AHB2RSTR''),
     (RCC_AHB2SMENR, RCC_BASE, RCC_TypeDef, ''AHB2SMENR''),
     (RCC_AHB3ENR, RCC_BASE, RCC_TypeDef, ''AHB3ENR''),
     (RCC_AHB3RSTR, RCC_BASE, RCC_TypeDef, ''AHB3RSTR''),
     (RCC_AHB3SMENR, RCC_BASE, RCC_TypeDef, ''AHB3SMENR''),
     (RCC_APB1ENR1, RCC_BASE, RCC_TypeDef, ''APB1ENR1''),
     (RCC_APB1ENR2, RCC_BASE, RCC_TypeDef, ''APB1ENR2''),
     (RCC_APB1RSTR1, RCC_BASE, RCC_TypeDef, ''APB1RSTR1''),
     (RCC_APB1RSTR2, RCC_BASE, RCC_TypeDef, ''APB1RSTR2''),
     (RCC_APB1SMENR1, RCC_BASE, RCC_TypeDef, ''APB1SMENR1''),
     (RCC_APB1SMENR2, RCC_BASE, RCC_TypeDef, ''APB1SMENR2''),
     (RCC_APB2ENR, RCC_BASE, RCC_TypeDef, ''APB2ENR''),
     (RCC_APB2SMENR, RCC_BASE, RCC_TypeDef, ''APB2SMENR''),
     (RCC_APB3ENR, RCC_BASE, RCC_TypeDef, ''APB3ENR''),
     (RCC_APB3RSTR, RCC_BASE, RCC_TypeDef, ''APB3RSTR''),
     (RCC_APB3SMENR, RCC_BASE, RCC_TypeDef, ''APB3SMENR''),
     (RCC_C2AHB1ENR, RCC_BASE, RCC_TypeDef, ''C2AHB1ENR''),
     (RCC_C2AHB1SMENR, RCC_BASE, RCC_TypeDef, ''C2AHB1SMENR''),
     (RCC_C2AHB2ENR, RCC_BASE, RCC_TypeDef, ''C2AHB2ENR''),
     (RCC_C2AHB2SMENR, RCC_BASE, RCC_TypeDef, ''C2AHB2SMENR''),
     (RCC_C2AHB3ENR, RCC_BASE, RCC_TypeDef, ''C2AHB3ENR''),
     (RCC_C2AHB3SMENR, RCC_BASE, RCC_TypeDef, ''C2AHB3SMENR''),
     (RCC_C2APB1ENR1, RCC_BASE, RCC_TypeDef, ''C2APB1ENR1''),
     (RCC_C2APB1ENR2, RCC_BASE, RCC_TypeDef, ''C2APB1ENR2''),
     (RCC_C2APB1SMENR1, RCC_BASE, RCC_TypeDef, ''C2APB1SMENR1''),
     (RCC_C2APB1SMENR2, RCC_BASE, RCC_TypeDef, ''C2APB1SMENR2''),
     (RCC_C2APB2ENR, RCC_BASE, RCC_TypeDef, ''C2APB2ENR''),
     (RCC_C2APB2SMENR, RCC_BASE, RCC_TypeDef, ''C2APB2SMENR''),
     (RCC_C2APB3ENR, RCC_BASE, RCC_TypeDef, ''C2APB3ENR''),
     (RCC_C2APB3SMENR, RCC_BASE, RCC_TypeDef, ''C2APB3SMENR''),
     (EXTI_IMR1, EXTI_BASE, EXTI_TypeDef, ''IMR1''),
     (EXTI_C2IMR1, EXTI_BASE, EXTI_TypeDef, ''C2IMR1''),
     (EXTI_IMR2, EXTI_BASE, EXTI_TypeDef, ''IMR2''),
     (EXTI_C2IMR2, EXTI_BASE, EXTI_TypeDef, ''C2IMR2''),
     (EXTI_EMR1, EXTI_BASE, EXTI_TypeDef, ''EMR1''),
     (EXTI_C2EMR1, EXTI_BASE, EXTI_TypeDef, ''C2EMR1''),
     (EXTI_EMR2, EXTI_BASE, EXTI_TypeDef, ''EMR2''),
     (EXTI_C2EMR2, EXTI_BASE, EXTI_TypeDef, ''C2EMR2''),
     (EXTI_RTSR1, EXTI_BASE, EXTI_TypeDef, ''RTSR1''),
     (EXTI_RTSR2, EXTI_BASE, EXTI_TypeDef, ''RTSR2''),
     (EXTI_FTSR1, EXTI_BASE, EXTI_TypeDef, ''FTSR1''),
     (EXTI_FTSR2, EXTI_BASE, EXTI_TypeDef, ''FTSR2''),
     (EXTI_SWIER1, EXTI_BASE, EXTI_TypeDef, ''SWIER1''),
     (EXTI_SWIER2, EXTI_BASE, EXTI_TypeDef, ''SWIER2''),
     (EXTI_PR1, EXTI_BASE, EXTI_TypeDef, ''PR1''),
     (EXTI_PR2, EXTI_BASE, EXTI_TypeDef, ''PR2''),
     (DMA_ISR, 0, DMA_TypeDef, ''ISR''),
     (DMA_IFCR, 0, DMA_TypeDef, ''IFCR''),
     (DMA_Channel_CCR, 0, DMA_Channel_TypeDef, ''CCR''),
     (DMA_Channel_CNDTR, 0, DMA_Channel_TypeDef, ''CNDTR''),
     (DMA_Channel_CMAR, 0, DMA_Channel_TypeDef, ''CMAR''),
     (DMA_Channel_CPAR, 0, DMA_Channel_TypeDef, ''CPAR''),
     (DMAMUX_Channel_CCR, 0, DMAMUX_Channel_TypeDef, ''CCR'')]"

definition placed :: "u32 \<times> u32 \<times> cstruct \<times> string \<Rightarrow> bool" where
  "placed = (\<lambda>(a, b, s, x). case offset_of x s of Some k \<Rightarrow> a = b + of_nat k | None \<Rightarrow> False)"

definition span :: "peripheral \<Rightarrow> string \<times> nat \<times> nat" where
  "span p = (per_name p, unat (per_base p), unat (per_base p) + sizeof (per_struct p))"

fun overlaps :: "(string \<times> nat \<times> nat) list \<Rightarrow> (string \<times> string) list" where
  "overlaps [] = []"
| "overlaps ((x, a, b) # ps) =
     map (\<lambda>(y, c, d). (x, y)) (filter (\<lambda>(y, c, d). a < d \<and> c < b) ps) @ overlaps ps"

section \<open>Offsets\<close>

text \<open>
  A structure is walked field by field, with the offset reached so far as a number; congruence rules keep the simplifier
  from walking the rest of the fields at every step.
\<close>

definition mis_from :: "nat \<Rightarrow> cstruct \<Rightarrow> (string \<times> nat) list" where
  "mis_from n s =
     map (\<lambda>(n, f). (fld_name f, n)) (filter (\<lambda>(n, f). fld_doc f \<noteq> None \<and> fld_doc f \<noteq> Some n) (layout n s))"

definition offsets_from :: "nat \<Rightarrow> cstruct \<Rightarrow> (string \<times> nat) list" where
  "offsets_from n s = map (\<lambda>(n, f). (fld_name f, n)) (layout n s)"

lemma walk_cong:
  "n = m \<Longrightarrow> mis_from n s = mis_from m s"
  "n = m \<Longrightarrow> offsets_from n s = offsets_from m s"
  "n = m \<Longrightarrow> struct_end n s = struct_end m s"
  by simp_all

lemma mis_from_field:
  "mis_from n (field x t k None # s) = mis_from (align n (ctype_size t) + ctype_size t * k) s"
  "mis_from n (field x t k (Some d) # s) =
     (if align n (ctype_size t) = d then mis_from (align n (ctype_size t) + ctype_size t * k) s
      else (x, align n (ctype_size t)) # mis_from (align n (ctype_size t) + ctype_size t * k) s)"
  by (auto simp: mis_from_def field_def Let_def)

lemma offsets_from_field:
  "offsets_from n (field x t k d # s) =
     (x, align n (ctype_size t)) # offsets_from (align n (ctype_size t) + ctype_size t * k) s"
  by (simp add: offsets_from_def field_def Let_def)

lemma struct_end_field:
  "struct_end n (field x t k d # s) = struct_end (align n (ctype_size t) + ctype_size t * k) s"
  by (simp add: field_def)

lemma walk_end: "mis_from n [] = []" "offsets_from n [] = []"
  by (simp_all add: mis_from_def offsets_from_def)

lemmas walk = mis_from_field offsets_from_field struct_end_field walk_end align_def

lemma misdocumented_from: "misdocumented s = mis_from 0 s"
  by (simp add: misdocumented_def mis_from_def)

lemma offsets_from_0: "offsets s = offsets_from 0 s"
  by (simp add: offsets_def offsets_from_def)

lemma misdocumented_structs:
  "misdocumented ADC_TypeDef = []"
  "misdocumented ADC_Common_TypeDef = []"
  "misdocumented AES_TypeDef = [(''SUSP7R'', 0x5C)]"
  "misdocumented COMP_TypeDef = []"
  "misdocumented COMP_Common_TypeDef = []"
  "misdocumented CRC_TypeDef = []"
  "misdocumented DAC_TypeDef = []"
  "misdocumented DMA_Channel_TypeDef = []"
  "misdocumented DMA_TypeDef = []"
  "misdocumented DMAMUX_Channel_TypeDef = []"
  "misdocumented DMAMUX_ChannelStatus_TypeDef = []"
  "misdocumented DMAMUX_RequestGen_TypeDef = []"
  "misdocumented DMAMUX_RequestGenStatus_TypeDef = []"
  "misdocumented EXTI_TypeDef = []"
  "misdocumented FLASH_TypeDef = []"
  "misdocumented GPIO_TypeDef = []"
  "misdocumented GTZC_TZSC_TypeDef = []"
  "misdocumented GTZC_TZIC_TypeDef = [(''RESERVED1'', 0x04), (''RESERVED2'', 0x14)]"
  "misdocumented HSEM_TypeDef = []"
  "misdocumented HSEM_Common_TypeDef = []"
  "misdocumented I2C_TypeDef = []"
  "misdocumented IPCC_TypeDef = []"
  "misdocumented IPCC_CommonTypeDef = []"
  "misdocumented IWDG_TypeDef = []"
  "misdocumented LPTIM_TypeDef = []"
  "misdocumented PKA_TypeDef = []"
  "misdocumented PWR_TypeDef = []"
  "misdocumented RCC_TypeDef = []"
  "misdocumented RNG_TypeDef = []"
  "misdocumented RTC_TypeDef = [(''RESERVED4'', 0x60)]"
  "misdocumented SPI_TypeDef = []"
  "misdocumented SYSCFG_TypeDef = []"
  "misdocumented TAMP_TypeDef = [(''RESERVED2'', 0x44)]"
  "misdocumented TIM_TypeDef = []"
  "misdocumented USART_TypeDef = []"
  "misdocumented VREFBUF_TypeDef = []"
  "misdocumented WWDG_TypeDef = []"
  unfolding misdocumented_from struct_defs by (simp_all add: walk cong: walk_cong)

text \<open>
  The comments beside the 419 fields with a documented offset give the offset the compiler computes, except for
  five: the last suspend register of the AES unit, two reserved fields of the TrustZone interrupt controller and one
  each of the clock and the tamper unit.
\<close>

theorem offsets_as_documented:
  "filter (\<lambda>(n, fs). fs \<noteq> []) (map (\<lambda>(n, s). (n, misdocumented s)) device_structs) =
     [(''AES_TypeDef'', [(''SUSP7R'', 0x5C)]),
      (''GTZC_TZIC_TypeDef'', [(''RESERVED1'', 0x04), (''RESERVED2'', 0x14)]),
      (''RTC_TypeDef'', [(''RESERVED4'', 0x60)]),
      (''TAMP_TypeDef'', [(''RESERVED2'', 0x44)])]"
  by (simp add: device_structs_def misdocumented_structs)

lemma offsets_accessed:
  "offsets RCC_TypeDef =
    [(''CR'', 0x00), (''ICSCR'', 0x04), (''CFGR'', 0x08), (''PLLCFGR'', 0x0C), (''RESERVED0'', 0x10),
     (''RESERVED1'', 0x14), (''CIER'', 0x18), (''CIFR'', 0x1C), (''CICR'', 0x20), (''RESERVED2'',
     0x24), (''AHB1RSTR'', 0x28), (''AHB2RSTR'', 0x2C), (''AHB3RSTR'', 0x30), (''RESERVED3'', 0x34),
     (''APB1RSTR1'', 0x38), (''APB1RSTR2'', 0x3C), (''APB2RSTR'', 0x40), (''APB3RSTR'', 0x44),
     (''AHB1ENR'', 0x48), (''AHB2ENR'', 0x4C), (''AHB3ENR'', 0x50), (''RESERVED4'', 0x54),
     (''APB1ENR1'', 0x58), (''APB1ENR2'', 0x5C), (''APB2ENR'', 0x60), (''APB3ENR'', 0x64),
     (''AHB1SMENR'', 0x68), (''AHB2SMENR'', 0x6C), (''AHB3SMENR'', 0x70), (''RESERVED5'', 0x74),
     (''APB1SMENR1'', 0x78), (''APB1SMENR2'', 0x7C), (''APB2SMENR'', 0x80), (''APB3SMENR'', 0x84),
     (''CCIPR'', 0x88), (''RESERVED6'', 0x8C), (''BDCR'', 0x90), (''CSR'', 0x94), (''RESERVED7'',
     0x98), (''EXTCFGR'', 0x108), (''RESERVED8'', 0x10C), (''C2AHB1ENR'', 0x148), (''C2AHB2ENR'',
     0x14C), (''C2AHB3ENR'', 0x150), (''RESERVED9'', 0x154), (''C2APB1ENR1'', 0x158),
     (''C2APB1ENR2'', 0x15C), (''C2APB2ENR'', 0x160), (''C2APB3ENR'', 0x164), (''C2AHB1SMENR'',
     0x168), (''C2AHB2SMENR'', 0x16C), (''C2AHB3SMENR'', 0x170), (''RESERVED10'', 0x174),
     (''C2APB1SMENR1'', 0x178), (''C2APB1SMENR2'', 0x17C), (''C2APB2SMENR'', 0x180),
     (''C2APB3SMENR'', 0x184)]"
  "offsets EXTI_TypeDef =
    [(''RTSR1'', 0x00), (''FTSR1'', 0x04), (''SWIER1'', 0x08), (''PR1'', 0x0C), (''RESERVED1'',
     0x10), (''RTSR2'', 0x20), (''FTSR2'', 0x24), (''SWIER2'', 0x28), (''PR2'', 0x2C),
     (''RESERVED2'', 0x30), (''RESERVED3'', 0x40), (''RESERVED4'', 0x60), (''IMR1'', 0x80),
     (''EMR1'', 0x84), (''RESERVED5'', 0x88), (''IMR2'', 0x90), (''EMR2'', 0x94), (''RESERVED8'',
     0x98), (''C2IMR1'', 0xC0), (''C2EMR1'', 0xC4), (''RESERVED9'', 0xC8), (''C2IMR2'', 0xD0),
     (''C2EMR2'', 0xD4)]"
  "offsets DMA_TypeDef =
    [(''ISR'', 0x00), (''IFCR'', 0x04)]"
  "offsets DMA_Channel_TypeDef =
    [(''CCR'', 0x00), (''CNDTR'', 0x04), (''CPAR'', 0x08), (''CMAR'', 0x0C)]"
  "offsets DMAMUX_Channel_TypeDef =
    [(''CCR'', 0x00)]"
  unfolding offsets_from_0 struct_defs by (simp_all add: walk cong: walk_cong)

lemma offset_of_eq: "offsets s = ys \<Longrightarrow> offset_of x s = map_of ys x"
  by (simp add: offset_of_def)

lemmas offset_of_accessed = offsets_accessed [THEN offset_of_eq]

lemma placed_simps: "placed (a, b, s, x) = (case offset_of x s of Some k \<Rightarrow> a = b + of_nat k | None \<Rightarrow> False)"
  by (simp add: placed_def)

lemma lookup_cong:
  "x = y \<Longrightarrow> map_of xs x = map_of xs y"
  "P = Q \<Longrightarrow> list_all P xs = list_all Q xs"
  by simp_all

text \<open>
  The address constants the register accessors use are those of the structures: for each of the 68 registers, base
  address plus compiler offset of its field is the address the accessors read and write.
\<close>

theorem register_addresses:
  "list_all placed device_registers"
  unfolding device_registers_def
  by (simp add: placed_simps reg_addr offset_of_accessed map_of_Cons_code del: map_of.simps cong: lookup_cong)

section \<open>No two peripherals share an address\<close>

lemma sizeof_structs:
  "sizeof ADC_TypeDef = 0xB8"
  "sizeof ADC_Common_TypeDef = 0x4"
  "sizeof AES_TypeDef = 0x60"
  "sizeof COMP_TypeDef = 0x4"
  "sizeof COMP_Common_TypeDef = 0x4"
  "sizeof CRC_TypeDef = 0x18"
  "sizeof DAC_TypeDef = 0x50"
  "sizeof DMA_Channel_TypeDef = 0x10"
  "sizeof DMA_TypeDef = 0x8"
  "sizeof DMAMUX_Channel_TypeDef = 0x4"
  "sizeof DMAMUX_ChannelStatus_TypeDef = 0x8"
  "sizeof DMAMUX_RequestGen_TypeDef = 0x4"
  "sizeof DMAMUX_RequestGenStatus_TypeDef = 0x8"
  "sizeof EXTI_TypeDef = 0xD8"
  "sizeof FLASH_TypeDef = 0x88"
  "sizeof GPIO_TypeDef = 0x2C"
  "sizeof GTZC_TZSC_TypeDef = 0x144"
  "sizeof GTZC_TZIC_TypeDef = 0x24"
  "sizeof HSEM_TypeDef = 0x148"
  "sizeof HSEM_Common_TypeDef = 0x10"
  "sizeof I2C_TypeDef = 0x2C"
  "sizeof IPCC_TypeDef = 0x20"
  "sizeof IPCC_CommonTypeDef = 0x10"
  "sizeof IWDG_TypeDef = 0x14"
  "sizeof LPTIM_TypeDef = 0x2C"
  "sizeof PKA_TypeDef = 0x11F8"
  "sizeof PWR_TypeDef = 0x9C"
  "sizeof RCC_TypeDef = 0x188"
  "sizeof RNG_TypeDef = 0x14"
  "sizeof RTC_TypeDef = 0x78"
  "sizeof SPI_TypeDef = 0x24"
  "sizeof SYSCFG_TypeDef = 0x20C"
  "sizeof TAMP_TypeDef = 0x150"
  "sizeof TIM_TypeDef = 0x68"
  "sizeof USART_TypeDef = 0x30"
  "sizeof VREFBUF_TypeDef = 0x8"
  "sizeof WWDG_TypeDef = 0xC"
  unfolding sizeof_def struct_defs by (simp_all add: walk del: struct_end.simps(2) cong: walk_cong)

text \<open>The address ranges, in the order of the list and cut where a bus or a block of registers ends.\<close>

definition spans_APB1 :: "(string \<times> nat \<times> nat) list" where
  "spans_APB1 =
    [(''TIM2'', 0x40000000, 0x40000068), (''IWDG'', 0x40003000, 0x40003014), (''WWDG'', 0x40002C00,
     0x40002C0C), (''DAC'', 0x40007400, 0x40007450), (''LPTIM1'', 0x40007C00, 0x40007C2C),
     (''LPTIM2'', 0x40009400, 0x4000942C), (''LPTIM3'', 0x40009800, 0x4000982C), (''RTC'',
     0x40002800, 0x40002878), (''SPI2'', 0x40003800, 0x40003824), (''I2C1'', 0x40005400, 0x4000542C),
     (''I2C2'', 0x40005800, 0x4000582C), (''I2C3'', 0x40005C00, 0x40005C2C), (''TAMP'', 0x4000B000,
     0x4000B150), (''USART2'', 0x40004400, 0x40004430), (''LPUART1'', 0x40008000, 0x40008030)]"

definition spans_APB2 :: "(string \<times> nat \<times> nat) list" where
  "spans_APB2 =
    [(''SYSCFG'', 0x40010000, 0x4001020C), (''VREFBUF'', 0x40010030, 0x40010038), (''COMP1'',
     0x40010200, 0x40010204), (''COMP2'', 0x40010204, 0x40010208), (''TIM1'', 0x40012C00,
     0x40012C68), (''SPI1'', 0x40013000, 0x40013024), (''ADC'', 0x40012400, 0x400124B8),
     (''ADC_COMMON'', 0x40012708, 0x4001270C), (''TIM16'', 0x40014400, 0x40014468), (''TIM17'',
     0x40014800, 0x40014868), (''USART1'', 0x40013800, 0x40013830)]"

definition spans_DMA1 :: "(string \<times> nat \<times> nat) list" where
  "spans_DMA1 =
    [(''DMA1'', 0x40020000, 0x40020008), (''DMA1_Channel1'', 0x40020008, 0x40020018),
     (''DMA1_Channel2'', 0x4002001C, 0x4002002C), (''DMA1_Channel3'', 0x40020030, 0x40020040),
     (''DMA1_Channel4'', 0x40020044, 0x40020054), (''DMA1_Channel5'', 0x40020058, 0x40020068),
     (''DMA1_Channel6'', 0x4002006C, 0x4002007C), (''DMA1_Channel7'', 0x40020080, 0x40020090)]"

definition spans_DMA2 :: "(string \<times> nat \<times> nat) list" where
  "spans_DMA2 =
    [(''DMA2'', 0x40020400, 0x40020408), (''DMA2_Channel1'', 0x40020408, 0x40020418),
     (''DMA2_Channel2'', 0x4002041C, 0x4002042C), (''DMA2_Channel3'', 0x40020430, 0x40020440),
     (''DMA2_Channel4'', 0x40020444, 0x40020454), (''DMA2_Channel5'', 0x40020458, 0x40020468),
     (''DMA2_Channel6'', 0x4002046C, 0x4002047C), (''DMA2_Channel7'', 0x40020480, 0x40020490)]"

definition spans_DMAMUX :: "(string \<times> nat \<times> nat) list" where
  "spans_DMAMUX =
    [(''DMAMUX1_Channel0'', 0x40020800, 0x40020804), (''DMAMUX1_Channel1'', 0x40020804, 0x40020808),
     (''DMAMUX1_Channel2'', 0x40020808, 0x4002080C), (''DMAMUX1_Channel3'', 0x4002080C, 0x40020810),
     (''DMAMUX1_Channel4'', 0x40020810, 0x40020814), (''DMAMUX1_Channel5'', 0x40020814, 0x40020818),
     (''DMAMUX1_Channel6'', 0x40020818, 0x4002081C), (''DMAMUX1_Channel7'', 0x4002081C, 0x40020820),
     (''DMAMUX1_Channel8'', 0x40020820, 0x40020824), (''DMAMUX1_Channel9'', 0x40020824, 0x40020828),
     (''DMAMUX1_Channel10'', 0x40020828, 0x4002082C), (''DMAMUX1_Channel11'', 0x4002082C,
     0x40020830), (''DMAMUX1_Channel12'', 0x40020830, 0x40020834), (''DMAMUX1_Channel13'',
     0x40020834, 0x40020838)]"

definition spans_REQGEN :: "(string \<times> nat \<times> nat) list" where
  "spans_REQGEN =
    [(''DMAMUX1_RequestGenerator0'', 0x40020900, 0x40020904), (''DMAMUX1_RequestGenerator1'',
     0x40020904, 0x40020908), (''DMAMUX1_RequestGenerator2'', 0x40020908, 0x4002090C),
     (''DMAMUX1_RequestGenerator3'', 0x4002090C, 0x40020910), (''DMAMUX1_ChannelStatus'', 0x40020880,
     0x40020888), (''DMAMUX1_RequestGenStatus'', 0x40020940, 0x40020948)]"

definition spans_CRC :: "(string \<times> nat \<times> nat) list" where
  "spans_CRC =
    [(''CRC'', 0x40023000, 0x40023018)]"

definition spans_GPIO :: "(string \<times> nat \<times> nat) list" where
  "spans_GPIO =
    [(''GPIOA'', 0x48000000, 0x4800002C), (''GPIOB'', 0x48000400, 0x4800042C), (''GPIOC'',
     0x48000800, 0x4800082C), (''GPIOH'', 0x48001C00, 0x48001C2C)]"

definition spans_AHB3 :: "(string \<times> nat \<times> nat) list" where
  "spans_AHB3 =
    [(''AES'', 0x58001800, 0x58001860), (''EXTI'', 0x58000800, 0x580008D8), (''IPCC'', 0x58000C00,
     0x58000C20), (''RCC'', 0x58000000, 0x58000188), (''PWR'', 0x58000400, 0x5800049C), (''RNG'',
     0x58001000, 0x58001014), (''HSEM'', 0x58001400, 0x58001548), (''PKA'', 0x58002000, 0x580031F8),
     (''FLASH'', 0x58004000, 0x58004088), (''GTZC_TZSC'', 0x58004400, 0x58004544), (''GTZC_TZIC'',
     0x58004800, 0x58004824), (''SUBGHZSPI'', 0x58010000, 0x58010024)]"

lemmas span_blocks = spans_APB1_def spans_APB2_def spans_DMA1_def spans_DMA2_def spans_DMAMUX_def spans_REQGEN_def spans_CRC_def spans_GPIO_def spans_AHB3_def

text \<open>Each block with the address where it ends.\<close>

definition blocks :: "(nat \<times> (string \<times> nat \<times> nat) list) list" where
  "blocks =
    [(0x40010000, spans_APB1), (0x40020000, spans_APB2), (0x40020400, spans_DMA1), (0x40020800,
     spans_DMA2), (0x40020880, spans_DMAMUX), (0x40023000, spans_REQGEN), (0x48000000, spans_CRC),
     (0x58000000, spans_GPIO), (0x58010024, spans_AHB3)]"

lemma spans: "map span device_peripherals = concat (map snd blocks)"
  by (simp add: blocks_def span_blocks device_peripherals_def periph_def span_def sizeof_structs reg_addr)

fun stacked :: "nat \<Rightarrow> (nat \<times> (string \<times> nat \<times> nat) list) list \<Rightarrow> bool" where
  "stacked m [] \<longleftrightarrow> True"
| "stacked m ((n, xs) # bs) \<longleftrightarrow> m \<le> n \<and> list_all (\<lambda>(x, a, b). m \<le> a \<and> b \<le> n) xs \<and> stacked n bs"

lemma stacked_above: "stacked m bs \<Longrightarrow> list_all (\<lambda>(x, a, b). m \<le> a) (concat (map snd bs))"
  by (induction m bs rule: stacked.induct) (fastforce simp: list_all_iff)+

lemma overlaps_append:
  assumes "list_all (\<lambda>(x, a, b). b \<le> m) xs" and "list_all (\<lambda>(y, c, d). m \<le> c) ys"
  shows "overlaps (xs @ ys) = overlaps xs @ overlaps ys"
  using assms
proof (induction xs)
  case (Cons p xs)
  obtain x a b where p: "p = (x, a, b)"
    by (cases p)
  have "filter (\<lambda>(y, c, d). a < d \<and> c < b) ys = []"
    using Cons.prems by (fastforce simp: p list_all_iff filter_empty_conv)
  then show ?case
    using Cons by (simp add: p)
qed simp

lemma overlaps_stacked: "stacked m bs \<Longrightarrow> overlaps (concat (map snd bs)) = concat (map (\<lambda>b. overlaps (snd b)) bs)"
proof (induction m bs rule: stacked.induct)
  case (2 m n xs bs)
  then have "overlaps (xs @ concat (map snd bs)) = overlaps xs @ overlaps (concat (map snd bs))"
    by (intro overlaps_append [of n] stacked_above) (auto simp: list_all_iff)
  then show ?case
    using 2 by simp
qed simp

lemma blocks_stacked: "stacked 0 blocks"
  by (simp add: blocks_def span_blocks)

lemma overlaps_blocks:
  "overlaps spans_APB1 = []"
  "overlaps spans_APB2 = [(''SYSCFG'', ''VREFBUF''), (''SYSCFG'', ''COMP1''), (''SYSCFG'', ''COMP2'')]"
  "overlaps spans_DMA1 = []"
  "overlaps spans_DMA2 = []"
  "overlaps spans_DMAMUX = []"
  "overlaps spans_REQGEN = []"
  "overlaps spans_CRC = []"
  "overlaps spans_GPIO = []"
  "overlaps spans_AHB3 = []"
  by (simp_all add: span_blocks)

text \<open>
  The structures of the 79 peripherals, placed at their base addresses, do not overlap, except that the
  structure of \<open>SYSCFG\<close> runs over \<open>VREFBUF\<close> and the comparators, which lie in its reserved fields.
\<close>

theorem peripherals_apart:
  "overlaps (map span device_peripherals) =
     [(''SYSCFG'', ''VREFBUF''), (''SYSCFG'', ''COMP1''), (''SYSCFG'', ''COMP2'')]"
  unfolding spans overlaps_stacked [OF blocks_stacked] by (simp add: blocks_def overlaps_blocks)

end
