(* ===== verification/Hal_Flash.thy ===== *)
theory Hal_Flash
  imports Device_Layout
begin

text \<open>
  The flash interface as \<^verbatim>\<open>stm32wlxx_hal_flash.h\<close> and \<^verbatim>\<open>stm32wlxx_hal_flash_ex.h\<close> present it: the constants, the
  macros on the access, status, control and ECC registers, and the parameter checks for addresses, pages and option bytes. The
  simulator puts the main memory in the array \<^verbatim>\<open>flash_buf\<close>, whose address the linker chooses: \<open>base\<close>, the
  value of \<^verbatim>\<open>FLASH_BASE\<close>, is an argument of the checks that use it. The sizes are \<^verbatim>\<open>unsigned long\<close>
  constants, so the bounds are computed in 64 bits and do not wrap.
\<close>

section \<open>Registers\<close>

definition FLASH_ACR :: u32 where [reg_addr]: "FLASH_ACR = FLASH_REG_BASE + 0x00"
definition FLASH_SR :: u32 where [reg_addr]: "FLASH_SR = FLASH_REG_BASE + 0x10"
definition FLASH_CR :: u32 where [reg_addr]: "FLASH_CR = FLASH_REG_BASE + 0x14"
definition FLASH_ECCR :: u32 where [reg_addr]: "FLASH_ECCR = FLASH_REG_BASE + 0x18"

section \<open>Constants\<close>

definition FLASH_SIZE :: u64 where "FLASH_SIZE = 256000"

definition FLASH_ACR_LATENCY :: u32 where [reg_mask]: "FLASH_ACR_LATENCY = push_bit 0 0x7"
definition FLASH_ACR_PRFTEN :: u32 where [reg_mask]: "FLASH_ACR_PRFTEN = push_bit 8 0x1"
definition FLASH_ACR_ICEN :: u32 where [reg_mask]: "FLASH_ACR_ICEN = push_bit 9 0x1"
definition FLASH_ACR_DCEN :: u32 where [reg_mask]: "FLASH_ACR_DCEN = push_bit 10 0x1"
definition FLASH_ACR_ICRST :: u32 where [reg_mask]: "FLASH_ACR_ICRST = push_bit 11 0x1"
definition FLASH_ACR_DCRST :: u32 where [reg_mask]: "FLASH_ACR_DCRST = push_bit 12 0x1"
definition FLASH_LATENCY_0 :: u32 where [reg_mask]: "FLASH_LATENCY_0 = 0x00000000"
definition FLASH_ACR_LATENCY_Pos :: nat where [reg_pos]: "FLASH_ACR_LATENCY_Pos = 0"
definition FLASH_ACR_LATENCY_0 :: u32 where
  [reg_mask]: "FLASH_ACR_LATENCY_0 = push_bit FLASH_ACR_LATENCY_Pos 0x1"
definition FLASH_LATENCY_1 :: u32 where [reg_mask]: "FLASH_LATENCY_1 = FLASH_ACR_LATENCY_0"
definition FLASH_ACR_LATENCY_1 :: u32 where
  [reg_mask]: "FLASH_ACR_LATENCY_1 = push_bit FLASH_ACR_LATENCY_Pos 0x2"
definition FLASH_LATENCY_2 :: u32 where [reg_mask]: "FLASH_LATENCY_2 = FLASH_ACR_LATENCY_1"
definition FLASH_SR_EOP :: u32 where [reg_mask]: "FLASH_SR_EOP = push_bit 0 0x1"
definition FLASH_FLAG_EOP :: u32 where [reg_mask]: "FLASH_FLAG_EOP = FLASH_SR_EOP"
definition FLASH_ECCR_ECCC :: u32 where [reg_mask]: "FLASH_ECCR_ECCC = push_bit 30 0x1"
definition FLASH_FLAG_ECCC :: u32 where [reg_mask]: "FLASH_FLAG_ECCC = FLASH_ECCR_ECCC"
definition FLASH_ECCR_ECCD :: u32 where [reg_mask]: "FLASH_ECCR_ECCD = push_bit 31 0x1"
definition FLASH_FLAG_ECCD :: u32 where [reg_mask]: "FLASH_FLAG_ECCD = FLASH_ECCR_ECCD"
definition FLASH_FLAG_ECCR_ERRORS :: u32 where
  [reg_mask]: "FLASH_FLAG_ECCR_ERRORS = FLASH_FLAG_ECCC OR FLASH_FLAG_ECCD"
definition FLASH_ECCR_ECCCIE_Pos :: nat where [reg_pos]: "FLASH_ECCR_ECCCIE_Pos = 24"
definition FLASH_ECCR_ECCCIE :: u32 where [reg_mask]: "FLASH_ECCR_ECCCIE = push_bit 24 0x1"
definition FLASH_IT_ECCC :: u32 where
  [reg_mask]: "FLASH_IT_ECCC = drop_bit FLASH_ECCR_ECCCIE_Pos FLASH_ECCR_ECCCIE"
definition FLASH_CR_PER :: u32 where [reg_mask]: "FLASH_CR_PER = push_bit 1 0x1"
definition FLASH_TYPEERASE_PAGES :: u32 where [reg_mask]: "FLASH_TYPEERASE_PAGES = FLASH_CR_PER"
definition FLASH_CR_MER :: u32 where [reg_mask]: "FLASH_CR_MER = push_bit 2 0x1"
definition FLASH_TYPEERASE_MASSERASE :: u32 where [reg_mask]: "FLASH_TYPEERASE_MASSERASE = FLASH_CR_MER"
definition FLASH_CR_PG :: u32 where [reg_mask]: "FLASH_CR_PG = push_bit 0 0x1"
definition FLASH_TYPEPROGRAM_DOUBLEWORD :: u32 where [reg_mask]: "FLASH_TYPEPROGRAM_DOUBLEWORD = FLASH_CR_PG"
definition FLASH_CR_FSTPG :: u32 where [reg_mask]: "FLASH_CR_FSTPG = push_bit 18 0x1"
definition FLASH_TYPEPROGRAM_FAST :: u32 where [reg_mask]: "FLASH_TYPEPROGRAM_FAST = FLASH_CR_FSTPG"
definition OPTIONBYTE_WRP :: u32 where [reg_mask]: "OPTIONBYTE_WRP = 0x00000001"
definition OPTIONBYTE_RDP :: u32 where [reg_mask]: "OPTIONBYTE_RDP = 0x00000002"
definition OPTIONBYTE_USER :: u32 where [reg_mask]: "OPTIONBYTE_USER = 0x00000004"
definition OPTIONBYTE_PCROP :: u32 where [reg_mask]: "OPTIONBYTE_PCROP = 0x00000008"
definition OPTIONBYTE_IPCC_BUF_ADDR :: u32 where [reg_mask]: "OPTIONBYTE_IPCC_BUF_ADDR = 0x00000010"
definition OPTIONBYTE_C2_BOOT_VECT :: u32 where [reg_mask]: "OPTIONBYTE_C2_BOOT_VECT = 0x00000100"
definition OPTIONBYTE_SECURE_MODE :: u32 where [reg_mask]: "OPTIONBYTE_SECURE_MODE = 0x00000200"
definition OPTIONBYTE_C2_DEBUG_ACCESS :: u32 where [reg_mask]: "OPTIONBYTE_C2_DEBUG_ACCESS = 0x00000400"
definition OPTIONBYTE_SUBGHZSPI_SECURE_ACCESS :: u32 where
  [reg_mask]: "OPTIONBYTE_SUBGHZSPI_SECURE_ACCESS = 0x00000800"
definition OB_WRPAREA_BANK1_AREAA :: u32 where [reg_mask]: "OB_WRPAREA_BANK1_AREAA = 0x00000000"
definition OB_WRPAREA_BANK1_AREAB :: u32 where [reg_mask]: "OB_WRPAREA_BANK1_AREAB = 0x00000001"
definition OB_RDP_LEVEL_0 :: u32 where [reg_mask]: "OB_RDP_LEVEL_0 = 0x000000AA"
definition OB_RDP_LEVEL_1 :: u32 where [reg_mask]: "OB_RDP_LEVEL_1 = 0x000000BB"
definition OB_RDP_LEVEL_2 :: u32 where [reg_mask]: "OB_RDP_LEVEL_2 = 0x000000CC"
definition FLASH_OPTR_BOR_LEV :: u32 where [reg_mask]: "FLASH_OPTR_BOR_LEV = push_bit 9 0x7"
definition OB_USER_BOR_LEV :: u32 where [reg_mask]: "OB_USER_BOR_LEV = FLASH_OPTR_BOR_LEV"
definition FLASH_OPTR_nRST_STOP :: u32 where [reg_mask]: "FLASH_OPTR_nRST_STOP = push_bit 12 0x1"
definition OB_USER_nRST_STOP :: u32 where [reg_mask]: "OB_USER_nRST_STOP = FLASH_OPTR_nRST_STOP"
definition FLASH_OPTR_nRST_STDBY :: u32 where [reg_mask]: "FLASH_OPTR_nRST_STDBY = push_bit 13 0x1"
definition OB_USER_nRST_STDBY :: u32 where [reg_mask]: "OB_USER_nRST_STDBY = FLASH_OPTR_nRST_STDBY"
definition FLASH_OPTR_nRST_SHDW :: u32 where [reg_mask]: "FLASH_OPTR_nRST_SHDW = push_bit 14 0x1"
definition OB_USER_nRST_SHDW :: u32 where [reg_mask]: "OB_USER_nRST_SHDW = FLASH_OPTR_nRST_SHDW"
definition FLASH_OPTR_IWDG_SW :: u32 where [reg_mask]: "FLASH_OPTR_IWDG_SW = push_bit 16 0x1"
definition OB_USER_IWDG_SW :: u32 where [reg_mask]: "OB_USER_IWDG_SW = FLASH_OPTR_IWDG_SW"
definition FLASH_OPTR_IWDG_STOP :: u32 where [reg_mask]: "FLASH_OPTR_IWDG_STOP = push_bit 17 0x1"
definition OB_USER_IWDG_STOP :: u32 where [reg_mask]: "OB_USER_IWDG_STOP = FLASH_OPTR_IWDG_STOP"
definition FLASH_OPTR_IWDG_STDBY :: u32 where [reg_mask]: "FLASH_OPTR_IWDG_STDBY = push_bit 18 0x1"
definition OB_USER_IWDG_STDBY :: u32 where [reg_mask]: "OB_USER_IWDG_STDBY = FLASH_OPTR_IWDG_STDBY"
definition FLASH_OPTR_WWDG_SW :: u32 where [reg_mask]: "FLASH_OPTR_WWDG_SW = push_bit 19 0x1"
definition OB_USER_WWDG_SW :: u32 where [reg_mask]: "OB_USER_WWDG_SW = FLASH_OPTR_WWDG_SW"
definition FLASH_OPTR_nBOOT1 :: u32 where [reg_mask]: "FLASH_OPTR_nBOOT1 = push_bit 23 0x1"
definition OB_USER_nBOOT1 :: u32 where [reg_mask]: "OB_USER_nBOOT1 = FLASH_OPTR_nBOOT1"
definition FLASH_OPTR_SRAM2_PE :: u32 where [reg_mask]: "FLASH_OPTR_SRAM2_PE = push_bit 24 0x1"
definition OB_USER_SRAM2_PE :: u32 where [reg_mask]: "OB_USER_SRAM2_PE = FLASH_OPTR_SRAM2_PE"
definition FLASH_OPTR_SRAM_RST :: u32 where [reg_mask]: "FLASH_OPTR_SRAM_RST = push_bit 25 0x1"
definition OB_USER_SRAM_RST :: u32 where [reg_mask]: "OB_USER_SRAM_RST = FLASH_OPTR_SRAM_RST"
definition FLASH_OPTR_nSWBOOT0 :: u32 where [reg_mask]: "FLASH_OPTR_nSWBOOT0 = push_bit 26 0x1"
definition OB_USER_nSWBOOT0 :: u32 where [reg_mask]: "OB_USER_nSWBOOT0 = FLASH_OPTR_nSWBOOT0"
definition FLASH_OPTR_nBOOT0 :: u32 where [reg_mask]: "FLASH_OPTR_nBOOT0 = push_bit 27 0x1"
definition OB_USER_nBOOT0 :: u32 where [reg_mask]: "OB_USER_nBOOT0 = FLASH_OPTR_nBOOT0"
definition FLASH_OPTR_BOOT_LOCK :: u32 where [reg_mask]: "FLASH_OPTR_BOOT_LOCK = push_bit 30 0x1"
definition OB_USER_BOOT_LOCK :: u32 where [reg_mask]: "OB_USER_BOOT_LOCK = FLASH_OPTR_BOOT_LOCK"
definition FLASH_OPTR_C2BOOT_LOCK :: u32 where [reg_mask]: "FLASH_OPTR_C2BOOT_LOCK = push_bit 31 0x1"
definition OB_USER_C2BOOT_LOCK :: u32 where [reg_mask]: "OB_USER_C2BOOT_LOCK = FLASH_OPTR_C2BOOT_LOCK"
definition OB_USER_ALL :: u32 where
  [reg_mask]: "OB_USER_ALL = OB_USER_BOR_LEV OR OB_USER_nRST_STOP OR OB_USER_nRST_STDBY OR OB_USER_nRST_SHDW OR
        OB_USER_IWDG_SW OR OB_USER_IWDG_STOP OR OB_USER_IWDG_STDBY OR OB_USER_WWDG_SW OR
        OB_USER_nBOOT1 OR OB_USER_SRAM2_PE OR OB_USER_SRAM_RST OR OB_USER_nSWBOOT0 OR OB_USER_nBOOT0
        OR OB_USER_BOOT_LOCK OR OB_USER_C2BOOT_LOCK"
definition OB_BOR_LEVEL_0 :: u32 where [reg_mask]: "OB_BOR_LEVEL_0 = 0x00000000"
definition FLASH_OPTR_BOR_LEV_Pos :: nat where [reg_pos]: "FLASH_OPTR_BOR_LEV_Pos = 9"
definition FLASH_OPTR_BOR_LEV_0 :: u32 where
  [reg_mask]: "FLASH_OPTR_BOR_LEV_0 = push_bit FLASH_OPTR_BOR_LEV_Pos 0x1"
definition OB_BOR_LEVEL_1 :: u32 where [reg_mask]: "OB_BOR_LEVEL_1 = FLASH_OPTR_BOR_LEV_0"
definition FLASH_OPTR_BOR_LEV_1 :: u32 where
  [reg_mask]: "FLASH_OPTR_BOR_LEV_1 = push_bit FLASH_OPTR_BOR_LEV_Pos 0x2"
definition OB_BOR_LEVEL_2 :: u32 where [reg_mask]: "OB_BOR_LEVEL_2 = FLASH_OPTR_BOR_LEV_1"
definition OB_BOR_LEVEL_3 :: u32 where
  [reg_mask]: "OB_BOR_LEVEL_3 = FLASH_OPTR_BOR_LEV_0 OR FLASH_OPTR_BOR_LEV_1"
definition FLASH_OPTR_BOR_LEV_2 :: u32 where
  [reg_mask]: "FLASH_OPTR_BOR_LEV_2 = push_bit FLASH_OPTR_BOR_LEV_Pos 0x4"
definition OB_BOR_LEVEL_4 :: u32 where [reg_mask]: "OB_BOR_LEVEL_4 = FLASH_OPTR_BOR_LEV_2"
definition OB_PCROP_ZONE_A :: u32 where [reg_mask]: "OB_PCROP_ZONE_A = 0x00000001"
definition OB_PCROP_ZONE_B :: u32 where [reg_mask]: "OB_PCROP_ZONE_B = 0x00000002"
definition FLASH_PCROP1AER_PCROP_RDP :: u32 where [reg_mask]: "FLASH_PCROP1AER_PCROP_RDP = push_bit 31 0x1"
definition OB_PCROP_RDP_ERASE :: u32 where [reg_mask]: "OB_PCROP_RDP_ERASE = FLASH_PCROP1AER_PCROP_RDP"
definition OB_SECURE_SYSTEM_AND_FLASH_ENABLE :: u32 where
  [reg_mask]: "OB_SECURE_SYSTEM_AND_FLASH_ENABLE = 0x00000001"
definition OB_SECURE_HIDE_PROTECTION_ENABLE :: u32 where
  [reg_mask]: "OB_SECURE_HIDE_PROTECTION_ENABLE = 0x00000002"
definition OB_SECURE_SRAM1_ENABLE :: u32 where [reg_mask]: "OB_SECURE_SRAM1_ENABLE = 0x00000004"
definition OB_SECURE_SRAM2_ENABLE :: u32 where [reg_mask]: "OB_SECURE_SRAM2_ENABLE = 0x00000008"
definition OB_SECURE_SYSTEM_AND_FLASH_DISABLE :: u32 where
  [reg_mask]: "OB_SECURE_SYSTEM_AND_FLASH_DISABLE = 0x00000010"
definition OB_SECURE_HIDE_PROTECTION_DISABLE :: u32 where
  [reg_mask]: "OB_SECURE_HIDE_PROTECTION_DISABLE = 0x00000020"
definition OB_SECURE_SRAM1_DISABLE :: u32 where [reg_mask]: "OB_SECURE_SRAM1_DISABLE = 0x00000040"
definition OB_SECURE_SRAM2_DISABLE :: u32 where [reg_mask]: "OB_SECURE_SRAM2_DISABLE = 0x00000080"
definition OB_SECURE_SYSTEM_AND_ALL_AREAS_ENABLE :: u32 where
  [reg_mask]: "OB_SECURE_SYSTEM_AND_ALL_AREAS_ENABLE = OB_SECURE_SYSTEM_AND_FLASH_ENABLE OR OB_SECURE_HIDE_PROTECTION_ENABLE OR
        OB_SECURE_SRAM1_ENABLE OR OB_SECURE_SRAM2_ENABLE"
definition OB_SECURE_SYSTEM_AND_ALL_AREAS_DISABLE :: u32 where
  [reg_mask]: "OB_SECURE_SYSTEM_AND_ALL_AREAS_DISABLE = OB_SECURE_SYSTEM_AND_FLASH_DISABLE OR OB_SECURE_HIDE_PROTECTION_DISABLE OR
        OB_SECURE_SRAM1_DISABLE OR OB_SECURE_SRAM2_DISABLE"
definition FLASH_SFR_SUBGHZSPISD :: u32 where [reg_mask]: "FLASH_SFR_SUBGHZSPISD = push_bit 31 0x1"
definition OB_SUBGHZSPI_SECURE_ACCESS_DISABLE :: u32 where
  [reg_mask]: "OB_SUBGHZSPI_SECURE_ACCESS_DISABLE = FLASH_SFR_SUBGHZSPISD"
definition OB_SUBGHZSPI_SECURE_ACCESS_ENABLE :: u32 where
  [reg_mask]: "OB_SUBGHZSPI_SECURE_ACCESS_ENABLE = 0x00000000"
definition FLASH_SFR_DDS :: u32 where [reg_mask]: "FLASH_SFR_DDS = push_bit 12 0x1"
definition OB_C2_DEBUG_ACCESS_DISABLE :: u32 where [reg_mask]: "OB_C2_DEBUG_ACCESS_DISABLE = FLASH_SFR_DDS"
definition OB_C2_DEBUG_ACCESS_ENABLE :: u32 where [reg_mask]: "OB_C2_DEBUG_ACCESS_ENABLE = 0x00000000"
definition OB_C2_BOOT_FROM_SRAM :: u32 where [reg_mask]: "OB_C2_BOOT_FROM_SRAM = 0x00000000"
definition FLASH_SRRVR_C2OPT :: u32 where [reg_mask]: "FLASH_SRRVR_C2OPT = push_bit 31 0x1"
definition OB_C2_BOOT_FROM_FLASH :: u32 where [reg_mask]: "OB_C2_BOOT_FROM_FLASH = FLASH_SRRVR_C2OPT"
definition FLASH_PAGE_SIZE :: u32 where [reg_mask]: "FLASH_PAGE_SIZE = 0x00000800"
definition FLASH_PAGE_NB :: u32 where [reg_mask]: "FLASH_PAGE_NB = 128"
definition SYSTEM_FLASH_BASE :: u32 where [reg_mask]: "SYSTEM_FLASH_BASE = 0x1FFF0000"
definition OTP_AREA_BASE :: u32 where [reg_mask]: "OTP_AREA_BASE = SYSTEM_FLASH_BASE + 0x00007000"
definition OTP_AREA_END_ADDR :: u32 where [reg_mask]: "OTP_AREA_END_ADDR = 0x1FFF73FF"
definition SRAM2_BASE :: u32 where [reg_mask]: "SRAM2_BASE = 0x20008000"
definition SRAM2_SIZE :: u32 where [reg_mask]: "SRAM2_SIZE = 0x00008000"
definition SRAM1_BASE :: u32 where [reg_mask]: "SRAM1_BASE = 0x20000000"
definition SRAM1_SIZE :: u32 where [reg_mask]: "SRAM1_SIZE = 0x00008000"
definition FLASH_PROG_NOT_EMPTY :: u32 where [reg_mask]: "FLASH_PROG_NOT_EMPTY = 0x00000000"
definition FLASH_ACR_EMPTY :: u32 where [reg_mask]: "FLASH_ACR_EMPTY = push_bit 16 0x1"
definition FLASH_PROG_EMPTY :: u32 where [reg_mask]: "FLASH_PROG_EMPTY = FLASH_ACR_EMPTY"
definition FLASH_PRIV_GRANTED :: u32 where [reg_mask]: "FLASH_PRIV_GRANTED = 0x00000000"
definition FLASH_ACR2_PRIVMODE :: u32 where [reg_mask]: "FLASH_ACR2_PRIVMODE = push_bit 0 0x1"
definition FLASH_PRIV_DENIED :: u32 where [reg_mask]: "FLASH_PRIV_DENIED = FLASH_ACR2_PRIVMODE"

section \<open>Macros\<close>

definition HAL_FLASH_SET_LATENCY :: "u32 \<Rightarrow> regs \<Rightarrow> regs" where
  "HAL_FLASH_SET_LATENCY LATENCY r = MODIFY_REG FLASH_ACR FLASH_ACR_LATENCY LATENCY r"

definition HAL_FLASH_GET_LATENCY :: "regs \<Rightarrow> u32" where
  "HAL_FLASH_GET_LATENCY r = READ_BIT FLASH_ACR FLASH_ACR_LATENCY r"

definition HAL_FLASH_PREFETCH_BUFFER_ENABLE :: "regs \<Rightarrow> regs" where
  "HAL_FLASH_PREFETCH_BUFFER_ENABLE r = SET_BIT FLASH_ACR FLASH_ACR_PRFTEN r"

definition HAL_FLASH_PREFETCH_BUFFER_DISABLE :: "regs \<Rightarrow> regs" where
  "HAL_FLASH_PREFETCH_BUFFER_DISABLE r = CLEAR_BIT FLASH_ACR FLASH_ACR_PRFTEN r"

definition HAL_FLASH_INSTRUCTION_CACHE_ENABLE :: "regs \<Rightarrow> regs" where
  "HAL_FLASH_INSTRUCTION_CACHE_ENABLE r = SET_BIT FLASH_ACR FLASH_ACR_ICEN r"

definition HAL_FLASH_INSTRUCTION_CACHE_DISABLE :: "regs \<Rightarrow> regs" where
  "HAL_FLASH_INSTRUCTION_CACHE_DISABLE r = CLEAR_BIT FLASH_ACR FLASH_ACR_ICEN r"

definition HAL_FLASH_DATA_CACHE_ENABLE :: "regs \<Rightarrow> regs" where
  "HAL_FLASH_DATA_CACHE_ENABLE r = SET_BIT FLASH_ACR FLASH_ACR_DCEN r"

definition HAL_FLASH_DATA_CACHE_DISABLE :: "regs \<Rightarrow> regs" where
  "HAL_FLASH_DATA_CACHE_DISABLE r = CLEAR_BIT FLASH_ACR FLASH_ACR_DCEN r"

definition HAL_FLASH_INSTRUCTION_CACHE_RESET :: "regs \<Rightarrow> regs" where
  "HAL_FLASH_INSTRUCTION_CACHE_RESET r = CLEAR_BIT FLASH_ACR FLASH_ACR_ICRST (SET_BIT FLASH_ACR FLASH_ACR_ICRST r)"

definition HAL_FLASH_DATA_CACHE_RESET :: "regs \<Rightarrow> regs" where
  "HAL_FLASH_DATA_CACHE_RESET r = CLEAR_BIT FLASH_ACR FLASH_ACR_DCRST (SET_BIT FLASH_ACR FLASH_ACR_DCRST r)"

definition HAL_FLASH_ENABLE_IT :: "u32 \<Rightarrow> regs \<Rightarrow> regs" where
  "HAL_FLASH_ENABLE_IT INTERRUPT r =
     (let r = (if INTERRUPT AND FLASH_IT_ECCC \<noteq> 0 then SET_BIT FLASH_ECCR FLASH_ECCR_ECCCIE r else r)
      in if INTERRUPT AND NOT FLASH_IT_ECCC \<noteq> 0 then SET_BIT FLASH_CR (INTERRUPT AND NOT FLASH_IT_ECCC) r else r)"

definition HAL_FLASH_DISABLE_IT :: "u32 \<Rightarrow> regs \<Rightarrow> regs" where
  "HAL_FLASH_DISABLE_IT INTERRUPT r =
     (let r = (if INTERRUPT AND FLASH_IT_ECCC \<noteq> 0 then CLEAR_BIT FLASH_ECCR FLASH_ECCR_ECCCIE r else r)
      in if INTERRUPT AND NOT FLASH_IT_ECCC \<noteq> 0 then CLEAR_BIT FLASH_CR (INTERRUPT AND NOT FLASH_IT_ECCC) r else r)"

definition HAL_FLASH_GET_FLAG :: "u32 \<Rightarrow> regs \<Rightarrow> bool" where
  "HAL_FLASH_GET_FLAG FLAG r \<longleftrightarrow>
     (if FLAG AND FLASH_FLAG_ECCR_ERRORS \<noteq> 0 then READ_BIT FLASH_ECCR FLAG r = FLAG
      else READ_BIT FLASH_SR FLAG r = FLAG)"

definition HAL_FLASH_CLEAR_FLAG :: "u32 \<Rightarrow> regs \<Rightarrow> regs" where
  "HAL_FLASH_CLEAR_FLAG FLAG r =
     (let r = (if FLAG AND FLASH_FLAG_ECCR_ERRORS \<noteq> 0 then SET_BIT FLASH_ECCR (FLAG AND FLASH_FLAG_ECCR_ERRORS) r else r)
      in if FLAG AND NOT FLASH_FLAG_ECCR_ERRORS \<noteq> 0 then WRITE_REG FLASH_SR (FLAG AND NOT FLASH_FLAG_ECCR_ERRORS) r else r)"

section \<open>Parameter checks\<close>

definition FLASH_END_ADDR :: "u32 \<Rightarrow> u64" where
  "FLASH_END_ADDR base = ucast base + FLASH_SIZE - 1"

definition IS_FLASH_MAIN_MEM_ADDRESS :: "u32 \<Rightarrow> u32 \<Rightarrow> bool" where
  "IS_FLASH_MAIN_MEM_ADDRESS base VALUE \<longleftrightarrow> VALUE \<ge> base \<and> ucast VALUE \<le> ucast base + FLASH_SIZE - 1"

definition IS_FLASH_FAST_PROGRAM_ADDRESS :: "u32 \<Rightarrow> u32 \<Rightarrow> bool" where
  "IS_FLASH_FAST_PROGRAM_ADDRESS base VALUE \<longleftrightarrow>
     VALUE \<ge> base \<and> ucast VALUE \<le> ucast base + FLASH_SIZE - 256 \<and> VALUE mod 256 = 0"

definition IS_FLASH_PROGRAM_MAIN_MEM_ADDRESS :: "u32 \<Rightarrow> u32 \<Rightarrow> bool" where
  "IS_FLASH_PROGRAM_MAIN_MEM_ADDRESS base VALUE \<longleftrightarrow>
     VALUE \<ge> base \<and> ucast VALUE \<le> ucast base + FLASH_SIZE - 8 \<and> VALUE mod 8 = 0"

definition IS_OB_SFSA_START_ADDR :: "u32 \<Rightarrow> u32 \<Rightarrow> bool" where
  "IS_OB_SFSA_START_ADDR base VALUE \<longleftrightarrow>
     VALUE \<ge> base \<and> ucast VALUE \<le> FLASH_END_ADDR base \<and> VALUE AND NOT 0x7FF = VALUE"

definition IS_OB_HDPSA_START_ADDR :: "u32 \<Rightarrow> u32 \<Rightarrow> bool" where
  "IS_OB_HDPSA_START_ADDR base VALUE \<longleftrightarrow> IS_OB_SFSA_START_ADDR base VALUE"

definition IS_FLASH_PROGRAM_OTP_ADDRESS :: "u32 \<Rightarrow> bool" where
  [hal_check]: "IS_FLASH_PROGRAM_OTP_ADDRESS VALUE \<longleftrightarrow>
     (VALUE \<ge> OTP_AREA_BASE) \<and> (VALUE \<le> ((OTP_AREA_END_ADDR + 1) - 8)) \<and> ((VALUE mod 8)
       = 0)"

definition IS_FLASH_PAGE :: "u32 \<Rightarrow> bool" where
  [hal_check]: "IS_FLASH_PAGE VALUE \<longleftrightarrow>
     VALUE < FLASH_PAGE_NB"

definition IS_ADDR_ALIGNED_64BITS :: "u32 \<Rightarrow> bool" where
  [hal_check]: "IS_ADDR_ALIGNED_64BITS VALUE \<longleftrightarrow>
     (VALUE AND 0x7) = 0x00"

definition IS_FLASH_TYPEERASE :: "u32 \<Rightarrow> bool" where
  [hal_check]: "IS_FLASH_TYPEERASE VALUE \<longleftrightarrow>
     (VALUE = FLASH_TYPEERASE_PAGES) \<or> (VALUE = FLASH_TYPEERASE_MASSERASE)"

definition IS_FLASH_TYPEPROGRAM :: "u32 \<Rightarrow> bool" where
  [hal_check]: "IS_FLASH_TYPEPROGRAM VALUE \<longleftrightarrow>
     (VALUE = FLASH_TYPEPROGRAM_DOUBLEWORD) \<or> (VALUE = FLASH_TYPEPROGRAM_FAST)"

definition IS_OB_SBRSA_START_ADDR :: "u32 \<Rightarrow> bool" where
  [hal_check]: "IS_OB_SBRSA_START_ADDR VALUE \<longleftrightarrow>
     (VALUE \<ge> SRAM2_BASE) \<and> (VALUE \<le> (SRAM2_BASE + SRAM2_SIZE)) \<and> ((VALUE AND (NOT
       0x3FF)) = VALUE)"

definition IS_OB_SNBRSA_START_ADDR :: "u32 \<Rightarrow> bool" where
  [hal_check]: "IS_OB_SNBRSA_START_ADDR VALUE \<longleftrightarrow>
     (VALUE \<ge> SRAM1_BASE) \<and> (VALUE \<le> (SRAM1_BASE + SRAM1_SIZE)) \<and> ((VALUE AND (NOT
       0x3FF)) = VALUE)"

definition IS_OB_SECURE_MODE :: "u32 \<Rightarrow> bool" where
  [hal_check]: "IS_OB_SECURE_MODE VALUE \<longleftrightarrow>
     ((VALUE AND (OB_SECURE_SYSTEM_AND_ALL_AREAS_ENABLE OR OB_SECURE_SYSTEM_AND_ALL_AREAS_DISABLE))
       \<noteq> 0) \<and> ((VALUE AND (NOT (OB_SECURE_SYSTEM_AND_ALL_AREAS_ENABLE OR
       OB_SECURE_SYSTEM_AND_ALL_AREAS_DISABLE))) = 0) \<and> ((VALUE AND (OB_SECURE_SYSTEM_AND_FLASH_ENABLE
       OR OB_SECURE_SYSTEM_AND_FLASH_DISABLE)) \<noteq> (OB_SECURE_SYSTEM_AND_FLASH_ENABLE OR
       OB_SECURE_SYSTEM_AND_FLASH_DISABLE)) \<and> ((VALUE AND (OB_SECURE_HIDE_PROTECTION_ENABLE OR
       OB_SECURE_HIDE_PROTECTION_DISABLE)) \<noteq> (OB_SECURE_HIDE_PROTECTION_ENABLE OR
       OB_SECURE_HIDE_PROTECTION_DISABLE)) \<and> ((VALUE AND (OB_SECURE_SRAM1_ENABLE OR
       OB_SECURE_SRAM1_DISABLE)) \<noteq> (OB_SECURE_SRAM1_ENABLE OR OB_SECURE_SRAM1_DISABLE)) \<and>
       ((VALUE AND (OB_SECURE_SRAM2_ENABLE OR OB_SECURE_SRAM2_DISABLE)) \<noteq> (OB_SECURE_SRAM2_ENABLE OR
       OB_SECURE_SRAM2_DISABLE))"

definition IS_OPTIONBYTE :: "u32 \<Rightarrow> bool" where
  [hal_check]: "IS_OPTIONBYTE VALUE \<longleftrightarrow>
     VALUE \<le> (OPTIONBYTE_WRP OR OPTIONBYTE_RDP OR OPTIONBYTE_USER OR OPTIONBYTE_PCROP OR
       OPTIONBYTE_IPCC_BUF_ADDR OR OPTIONBYTE_C2_BOOT_VECT OR OPTIONBYTE_SECURE_MODE OR
       OPTIONBYTE_C2_DEBUG_ACCESS OR OPTIONBYTE_SUBGHZSPI_SECURE_ACCESS)"

definition IS_OB_WRPAREA :: "u32 \<Rightarrow> bool" where
  [hal_check]: "IS_OB_WRPAREA VALUE \<longleftrightarrow>
     (VALUE = OB_WRPAREA_BANK1_AREAA) \<or> (VALUE = OB_WRPAREA_BANK1_AREAB)"

definition IS_OB_RDP_LEVEL :: "u32 \<Rightarrow> bool" where
  [hal_check]: "IS_OB_RDP_LEVEL VALUE \<longleftrightarrow>
     (VALUE = OB_RDP_LEVEL_0) \<or> (VALUE = OB_RDP_LEVEL_1) \<or> (VALUE = OB_RDP_LEVEL_2)"

definition IS_OB_USER_TYPE :: "u32 \<Rightarrow> bool" where
  [hal_check]: "IS_OB_USER_TYPE VALUE \<longleftrightarrow>
     ((VALUE AND OB_USER_ALL) \<noteq> 0) \<and> ((VALUE AND (NOT OB_USER_ALL)) = 0)"

definition IS_OB_USER_CONFIG :: "u32 \<Rightarrow> u32 \<Rightarrow> bool" where
  [hal_check]: "IS_OB_USER_CONFIG TYP VALUE \<longleftrightarrow>
     (if (TYP AND OB_USER_BOR_LEV) = OB_USER_BOR_LEV then ((VALUE AND (NOT (OB_USER_ALL AND (NOT
       OB_USER_BOR_LEV)))) = OB_BOR_LEVEL_0) \<or> ((VALUE AND (NOT (OB_USER_ALL AND (NOT
       OB_USER_BOR_LEV)))) = OB_BOR_LEVEL_1) \<or> ((VALUE AND (NOT (OB_USER_ALL AND (NOT
       OB_USER_BOR_LEV)))) = OB_BOR_LEVEL_2) \<or> ((VALUE AND (NOT (OB_USER_ALL AND (NOT
       OB_USER_BOR_LEV)))) = OB_BOR_LEVEL_3) \<or> ((VALUE AND (NOT (OB_USER_ALL AND (NOT
       OB_USER_BOR_LEV)))) = OB_BOR_LEVEL_4) else ((NOT TYP) AND VALUE) = 0)"

definition IS_OB_USER_BOR_LEVEL :: "u32 \<Rightarrow> bool" where
  [hal_check]: "IS_OB_USER_BOR_LEVEL VALUE \<longleftrightarrow>
     (VALUE = OB_BOR_LEVEL_0) \<or> (VALUE = OB_BOR_LEVEL_1) \<or> (VALUE = OB_BOR_LEVEL_2) \<or> (VALUE
       = OB_BOR_LEVEL_3) \<or> (VALUE = OB_BOR_LEVEL_4)"

definition IS_OB_PCROP_CONFIG :: "u32 \<Rightarrow> bool" where
  [hal_check]: "IS_OB_PCROP_CONFIG VALUE \<longleftrightarrow>
     (VALUE AND (NOT (OB_PCROP_ZONE_A OR OB_PCROP_ZONE_B OR OB_PCROP_RDP_ERASE))) = 0"

definition IS_OB_IPCC_BUF_ADDR :: "u32 \<Rightarrow> bool" where
  [hal_check]: "IS_OB_IPCC_BUF_ADDR VALUE \<longleftrightarrow>
     (IS_OB_SBRSA_START_ADDR VALUE) \<or> (IS_OB_SNBRSA_START_ADDR VALUE)"

definition IS_OB_BOOT_REGION :: "u32 \<Rightarrow> bool" where
  [hal_check]: "IS_OB_BOOT_REGION VALUE \<longleftrightarrow>
     (VALUE = OB_C2_BOOT_FROM_FLASH) \<or> (VALUE = OB_C2_BOOT_FROM_SRAM)"

definition IS_OB_SUBGHZSPI_SECURE_ACCESS :: "u32 \<Rightarrow> bool" where
  [hal_check]: "IS_OB_SUBGHZSPI_SECURE_ACCESS VALUE \<longleftrightarrow>
     (VALUE = OB_SUBGHZSPI_SECURE_ACCESS_ENABLE) \<or> (VALUE = OB_SUBGHZSPI_SECURE_ACCESS_DISABLE)"

definition IS_OB_C2_DEBUG_MODE :: "u32 \<Rightarrow> bool" where
  [hal_check]: "IS_OB_C2_DEBUG_MODE VALUE \<longleftrightarrow>
     (VALUE = OB_C2_DEBUG_ACCESS_ENABLE) \<or> (VALUE = OB_C2_DEBUG_ACCESS_DISABLE)"

definition IS_FLASH_LATENCY :: "u32 \<Rightarrow> bool" where
  [hal_check]: "IS_FLASH_LATENCY VALUE \<longleftrightarrow>
     (VALUE = FLASH_LATENCY_0) \<or> (VALUE = FLASH_LATENCY_1) \<or> (VALUE = FLASH_LATENCY_2)"

definition IS_FLASH_EMPTY_CHECK :: "u32 \<Rightarrow> bool" where
  [hal_check]: "IS_FLASH_EMPTY_CHECK VALUE \<longleftrightarrow>
     (VALUE = FLASH_PROG_EMPTY) \<or> (VALUE = FLASH_PROG_NOT_EMPTY)"

definition IS_FLASH_CFGPRIVMODE :: "u32 \<Rightarrow> bool" where
  [hal_check]: "IS_FLASH_CFGPRIVMODE VALUE \<longleftrightarrow>
     (VALUE = FLASH_PRIV_GRANTED) \<or> (VALUE = FLASH_PRIV_DENIED)"

definition IS_FLASH_PROGRAM_ADDRESS :: "u32 \<Rightarrow> u32 \<Rightarrow> bool" where
  "IS_FLASH_PROGRAM_ADDRESS base VALUE \<longleftrightarrow>
     IS_FLASH_PROGRAM_MAIN_MEM_ADDRESS base VALUE \<or> IS_FLASH_PROGRAM_OTP_ADDRESS VALUE"

definition IS_OB_BOOT_VECTOR_ADDR :: "u32 \<Rightarrow> u32 \<Rightarrow> bool" where
  "IS_OB_BOOT_VECTOR_ADDR base VALUE \<longleftrightarrow>
     IS_OB_SFSA_START_ADDR base VALUE \<or> IS_OB_SBRSA_START_ADDR VALUE \<or> IS_OB_SNBRSA_START_ADDR VALUE"

section \<open>Programming stays in memory\<close>

lemma unat_wide: "unat (ucast a :: u64) = unat a" for a :: u32
proof -
  have "unat a < 18446744073709551616"
    using unat_u32_less [of a] by linarith
  then show ?thesis
    by (simp add: unsigned_ucast_eq take_bit_nat_eq_self_iff)
qed

lemma unat_aligned: "(a mod n = 0) = (unat n dvd unat a)" for a n :: u32
  by (metis dvd_eq_mod_eq_0 unat_eq_zero unat_mod)

lemma below_end:
  fixes base a :: u32 and k :: u64
  assumes "1 \<le> unat k" and "unat k \<le> 256000"
  shows "ucast a \<le> ucast base + FLASH_SIZE - k \<longleftrightarrow> unat a + unat k \<le> unat base + 256000"
proof -
  let ?e = "ucast base + FLASH_SIZE :: u64"
  have "unat base + 256000 < 18446744073709551616"
    using unat_u32_less [of base] by linarith
  then have e: "unat ?e = unat base + 256000"
    by (simp add: FLASH_SIZE_def unat_word_ariths unat_wide)
  then have "k \<le> ?e"
    using assms by (simp add: word_le_nat_alt)
  then have "unat (?e - k) = unat base + 256000 - unat k"
    using e by (simp add: unat_sub)
  then show ?thesis
    using assms(2) by (simp add: word_le_nat_alt unat_wide) linarith
qed

text \<open>The checks of addresses in the main memory, in numbers.\<close>

lemma main_mem_iff:
  "IS_FLASH_MAIN_MEM_ADDRESS base a \<longleftrightarrow> unat base \<le> unat a \<and> unat a < unat base + 256000"
  using below_end [of 1 a base] by (auto simp: IS_FLASH_MAIN_MEM_ADDRESS_def word_le_nat_alt)

lemma program_main_mem_iff:
  "IS_FLASH_PROGRAM_MAIN_MEM_ADDRESS base a \<longleftrightarrow>
    unat base \<le> unat a \<and> unat a + 8 \<le> unat base + 256000 \<and> 8 dvd unat a"
  using below_end [of 8 a base]
  by (simp add: IS_FLASH_PROGRAM_MAIN_MEM_ADDRESS_def unat_aligned) (simp add: word_le_nat_alt)

lemma fast_program_iff:
  "IS_FLASH_FAST_PROGRAM_ADDRESS base a \<longleftrightarrow>
    unat base \<le> unat a \<and> unat a + 256 \<le> unat base + 256000 \<and> 256 dvd unat a"
  using below_end [of 256 a base]
  by (simp add: IS_FLASH_FAST_PROGRAM_ADDRESS_def unat_aligned) (simp add: word_le_nat_alt)

lemma program_otp_iff:
  "IS_FLASH_PROGRAM_OTP_ADDRESS a \<longleftrightarrow> 0x1FFF7000 \<le> unat a \<and> unat a + 8 \<le> 0x1FFF7400 \<and> 8 dvd unat a"
  by (auto simp: IS_FLASH_PROGRAM_OTP_ADDRESS_def unat_aligned reg_mask word_le_nat_alt)

lemma unat_offset: "unat a + i < 2 ^ 32 \<Longrightarrow> unat (a + of_nat i) = unat a + i" for a :: u32
  by (simp add: unat_word_ariths unat_of_nat take_bit_nat_eq_self)

text \<open>Whether an address is in one of the memories the HAL programs.\<close>

definition in_otp :: "u32 \<Rightarrow> bool" where
  "in_otp a \<longleftrightarrow> OTP_AREA_BASE \<le> a \<and> a \<le> OTP_AREA_END_ADDR"

text \<open>
  C31: Programming stays in memory. When the flash buffer does not reach across the end of the 32-bit address
  space, every one of the eight bytes at an address the HAL accepts for a double word lies in the main memory, or every one
  in the one-time-programmable area; all 256 bytes of an accepted row lie in the main memory; and the
  addresses are aligned to what is written.
\<close>

theorem flash_programming_in_memory:
  assumes "unat base + 256000 \<le> 2 ^ 32"
  shows "(IS_FLASH_PROGRAM_ADDRESS base a \<longrightarrow> IS_ADDR_ALIGNED_64BITS a \<and>
      ((\<forall>i < 8. IS_FLASH_MAIN_MEM_ADDRESS base (a + of_nat i)) \<or> (\<forall>i < 8. in_otp (a + of_nat i)))) \<and>
    (IS_FLASH_FAST_PROGRAM_ADDRESS base a \<longrightarrow> 256 dvd unat a \<and>
      (\<forall>i < 256. IS_FLASH_MAIN_MEM_ADDRESS base (a + of_nat i)))"
proof -
  have al: "IS_ADDR_ALIGNED_64BITS a \<longleftrightarrow> 8 dvd unat a"
    using unat_aligned [of a 8] take_bit_eq_mask [of 3 a] take_bit_eq_mod [of 3 a]
    by (simp add: IS_ADDR_ALIGNED_64BITS_def mask_eq_exp_minus_1)
  have main: "IS_FLASH_MAIN_MEM_ADDRESS base (a + of_nat i)"
    if "unat base \<le> unat a" "unat a + n \<le> unat base + 256000" "i < n" for i n
    using that assms by (simp add: main_mem_iff unat_offset)
  have otp: "in_otp (a + of_nat i)" if "0x1FFF7000 \<le> unat a" "unat a + 8 \<le> 0x1FFF7400" "i < 8" for i
    using that by (simp add: in_otp_def reg_mask word_le_nat_alt unat_offset)
  show ?thesis
    unfolding IS_FLASH_PROGRAM_ADDRESS_def al program_main_mem_iff program_otp_iff fast_program_iff
    using main otp by blast
qed

theorem flash_programming_in_memory_witness:
  "unat (0x08000000 :: u32) + 256000 \<le> 2 ^ 32 \<and> IS_FLASH_PROGRAM_ADDRESS 0x08000000 0x0803E7F8 \<and>
   IS_FLASH_MAIN_MEM_ADDRESS 0x08000000 (0x0803E7F8 + of_nat 7)"
proof -
  have p: "IS_FLASH_PROGRAM_ADDRESS 0x08000000 0x0803E7F8"
    by (simp add: IS_FLASH_PROGRAM_ADDRESS_def program_main_mem_iff)
  have "\<not> (\<forall>i < 8. in_otp (0x0803E7F8 + of_nat i))"
    by (intro notI, drule spec [of _ 0]) (simp add: in_otp_def reg_mask)
  then have "\<forall>i < 8. IS_FLASH_MAIN_MEM_ADDRESS 0x08000000 (0x0803E7F8 + of_nat i)"
    using p flash_programming_in_memory [of "0x08000000" "0x0803E7F8"] by auto
  then have "IS_FLASH_MAIN_MEM_ADDRESS 0x08000000 (0x0803E7F8 + of_nat 7)"
    by (elim allE [of _ 7]) simp
  then show ?thesis
    using p by simp
qed

text \<open>
  The page check and the buffer disagree. Of the 128 pages of 2 KB that \<^verbatim>\<open>IS_FLASH_PAGE\<close> accepts, the first
  125 lie in the 256,000 bytes of the simulated flash with all their bytes; each of the other three starts beyond
  its end.
\<close>

theorem flash_pages_in_memory:
  assumes "unat base + 262144 \<le> 2 ^ 32" and "IS_FLASH_PAGE p"
  shows "if p < 125 then \<forall>i < 2048. IS_FLASH_MAIN_MEM_ADDRESS base (base + p * FLASH_PAGE_SIZE + of_nat i)
    else \<not> IS_FLASH_MAIN_MEM_ADDRESS base (base + p * FLASH_PAGE_SIZE)"
proof -
  have p: "unat p < 128"
    using assms(2) by (simp add: IS_FLASH_PAGE_def reg_mask word_less_nat_alt)
  then have m: "unat (p * FLASH_PAGE_SIZE) = unat p * 2048"
    by (simp add: reg_mask unat_word_ariths)
  then have "unat (base + p * FLASH_PAGE_SIZE) = unat base + unat p * 2048"
    using p assms(1) by (simp add: unat_word_ariths)
  then show ?thesis
    using p assms(1) by (auto simp: main_mem_iff unat_offset word_less_nat_alt)
qed

theorem flash_pages_in_memory_witness:
  "IS_FLASH_PAGE 125 \<and> \<not> IS_FLASH_MAIN_MEM_ADDRESS 0x08000000 (0x08000000 + 125 * FLASH_PAGE_SIZE)"
proof -
  have "IS_FLASH_PAGE 125"
    by (simp add: IS_FLASH_PAGE_def reg_mask)
  then show ?thesis
    using flash_pages_in_memory [of "0x08000000" 125] by simp
qed

section \<open>Interrupts are a set over two registers\<close>

lemma flash_registers_apart:
  "FLASH_ACR \<noteq> FLASH_SR" "FLASH_ACR \<noteq> FLASH_CR" "FLASH_ACR \<noteq> FLASH_ECCR"
  "FLASH_SR \<noteq> FLASH_CR" "FLASH_SR \<noteq> FLASH_ECCR" "FLASH_CR \<noteq> FLASH_ECCR"
  by (simp_all add: reg_addr)

lemma flash_offsets:
  "take 7 (offsets FLASH_TypeDef) = [(''ACR'', 0x00), (''ACR2'', 0x04), (''KEYR'', 0x08), (''OPTKEYR'', 0x0C),
     (''SR'', 0x10), (''CR'', 0x14), (''ECCR'', 0x18)]"
  unfolding offsets_from_0 FLASH_TypeDef_def by (simp add: walk cong: walk_cong)

lemma map_of_take: "map_of (take n xs) x = Some k \<Longrightarrow> map_of xs x = Some k"
  by (metis append_take_drop_id map_of_append map_add_find_right not_None_eq map_add_Some_iff)

text \<open>The addresses are those of the fields of the register structure.\<close>

lemma flash_registers_placed:
  "placed (FLASH_ACR, FLASH_REG_BASE, FLASH_TypeDef, ''ACR'')"
  "placed (FLASH_SR, FLASH_REG_BASE, FLASH_TypeDef, ''SR'')"
  "placed (FLASH_CR, FLASH_REG_BASE, FLASH_TypeDef, ''CR'')"
  "placed (FLASH_ECCR, FLASH_REG_BASE, FLASH_TypeDef, ''ECCR'')"
  by (simp_all add: placed_simps offset_of_def map_of_take [where n = 7] flash_offsets reg_addr)

text \<open>
  The interrupts that are on: the bits of the control register, but for bit 0, which there starts programming and
  in an argument of the macros stands for the ECC correction interrupt, whose bit is in the ECC register.
\<close>

definition flash_interrupts :: "regs \<Rightarrow> nat set" where
  "flash_interrupts r = (bits (r FLASH_CR) - {0}) \<union> (if bit (r FLASH_ECCR) 24 then {0} else {})"

fun flash_call :: "line_op \<Rightarrow> regs \<Rightarrow> regs" where
  "flash_call (Enable m) r = HAL_FLASH_ENABLE_IT m r"
| "flash_call (Disable m) r = HAL_FLASH_DISABLE_IT m r"

lemma it_eccc: "bits FLASH_IT_ECCC = {0}" "bits FLASH_ECCR_ECCCIE = {24}"
  using bits_single [of 0] bits_single [of 24] by (simp_all add: reg_mask reg_pos)

lemma bit_eccie: "bit FLASH_ECCR_ECCCIE 24"
  using it_eccc(2) by (auto simp: bits_def)

text \<open>A guard that skips an empty set of bits makes no difference.\<close>

lemma guarded_bits:
  "(if m \<noteq> 0 then SET_BIT a m r else r) = SET_BIT a m r"
  "(if m \<noteq> 0 then CLEAR_BIT a m r else r) = CLEAR_BIT a m r"
  by (simp_all add: reg_access)

lemma eccc_selected: "m AND FLASH_IT_ECCC \<noteq> 0 \<longleftrightarrow> 0 \<in> bits m"
  by (simp add: and_eq_0_iff_bits it_eccc)

lemma flash_it:
  "HAL_FLASH_ENABLE_IT m r =
    SET_BIT FLASH_CR (m AND NOT FLASH_IT_ECCC) (if 0 \<in> bits m then SET_BIT FLASH_ECCR FLASH_ECCR_ECCCIE r else r)"
  "HAL_FLASH_DISABLE_IT m r =
    CLEAR_BIT FLASH_CR (m AND NOT FLASH_IT_ECCC) (if 0 \<in> bits m then CLEAR_BIT FLASH_ECCR FLASH_ECCR_ECCCIE r else r)"
  unfolding HAL_FLASH_ENABLE_IT_def HAL_FLASH_DISABLE_IT_def Let_def guarded_bits eccc_selected by (rule refl)+

lemmas flash_at = reg_access flash_registers_apart flash_registers_apart [symmetric]

lemma flash_it_registers:
  "HAL_FLASH_ENABLE_IT m r FLASH_CR = r FLASH_CR OR (m AND NOT FLASH_IT_ECCC)"
  "HAL_FLASH_DISABLE_IT m r FLASH_CR = r FLASH_CR AND NOT (m AND NOT FLASH_IT_ECCC)"
  "HAL_FLASH_ENABLE_IT m r FLASH_ECCR = (if 0 \<in> bits m then r FLASH_ECCR OR FLASH_ECCR_ECCCIE else r FLASH_ECCR)"
  "HAL_FLASH_DISABLE_IT m r FLASH_ECCR = (if 0 \<in> bits m then r FLASH_ECCR AND NOT FLASH_ECCR_ECCCIE else r FLASH_ECCR)"
  by (simp_all add: flash_it flash_at)

lemma flash_it_other:
  "a \<noteq> FLASH_CR \<Longrightarrow> a \<noteq> FLASH_ECCR \<Longrightarrow> flash_call x r a = r a"
  by (cases x) (simp_all add: flash_it reg_access)

lemma control_bits:
  "bits (w OR (m AND NOT FLASH_IT_ECCC)) - {0} = (bits w \<union> bits m) - {0}"
  "bits (w AND NOT (m AND NOT FLASH_IT_ECCC)) - {0} = (bits w - bits m) - {0}"
  by (auto simp: bits_not it_eccc bits_less)

lemma flash_interrupts_call: "flash_interrupts (flash_call x r) = line_effect x (flash_interrupts r)"
proof (cases x)
  case (Enable m)
  have "flash_interrupts (HAL_FLASH_ENABLE_IT m r) = flash_interrupts r \<union> bits m"
    unfolding flash_interrupts_def flash_it_registers control_bits by (auto simp: bit_or_iff bit_eccie)
  then show ?thesis by (simp add: Enable)
next
  case (Disable m)
  have "flash_interrupts (HAL_FLASH_DISABLE_IT m r) = flash_interrupts r - bits m"
    unfolding flash_interrupts_def flash_it_registers control_bits
    by (auto simp: bit_and_iff bit_not_iff bit_eccie)
  then show ?thesis by (simp add: Disable)
qed

text \<open>What the calls leave: the programming bit, the rest of the ECC register and all other registers.\<close>

definition flash_rest :: "regs \<Rightarrow> bool \<times> u32 \<times> regs" where
  "flash_rest r = (bit (r FLASH_CR) 0, r FLASH_ECCR AND NOT FLASH_ECCR_ECCCIE, r(FLASH_CR := 0, FLASH_ECCR := 0))"

lemma flash_rest_call: "flash_rest (flash_call x r) = flash_rest r"
proof -
  have "bit (NOT FLASH_IT_ECCC) 0 = False"
    using it_eccc(1) by (auto simp: bits_def bit_simps)
  then have "bit (flash_call x r FLASH_CR) 0 = bit (r FLASH_CR) 0"
    by (cases x) (auto simp: flash_it_registers bit_and_iff bit_or_iff bit_not_iff)
  moreover have "flash_call x r FLASH_ECCR AND NOT FLASH_ECCR_ECCCIE = r FLASH_ECCR AND NOT FLASH_ECCR_ECCCIE"
    by (cases x) (simp_all add: flash_it_registers bit.conj_disj_distrib2 and.assoc)
  moreover have "(flash_call x r)(FLASH_CR := 0, FLASH_ECCR := 0) = r(FLASH_CR := 0, FLASH_ECCR := 0)"
    by (auto simp: flash_it_other)
  ultimately show ?thesis
    by (simp add: flash_rest_def)
qed

text \<open>
  C34: The interrupts of the flash are a set. Whatever calls of \<^verbatim>\<open>__HAL_FLASH_ENABLE_IT\<close> and
  \<^verbatim>\<open>__HAL_FLASH_DISABLE_IT\<close> a program makes, with any combinations of interrupts, the interrupts on at the end
  are those the calls describe as unions and differences, though one of them is kept in another
  register under another number; and no call starts programming or changes anything else.
\<close>

theorem flash_interrupts_refine:
  "flash_interrupts (fold flash_call xs r) = fold line_effect xs (flash_interrupts r) \<and>
   flash_rest (fold flash_call xs r) = flash_rest r"
  by (induction xs arbitrary: r) (simp_all add: flash_interrupts_call flash_rest_call)

section \<open>Flags\<close>

text \<open>
  Flags of one register are read as raised exactly when all of them are; with flags of both registers the macro
  looks for all in the ECC register, where a status flag has no bit of its own.
\<close>

lemma flash_flags:
  "bits f \<inter> bits FLASH_FLAG_ECCR_ERRORS = {} \<Longrightarrow> HAL_FLASH_GET_FLAG f r \<longleftrightarrow> bits f \<subseteq> bits (r FLASH_SR)"
  "bits f \<inter> bits FLASH_FLAG_ECCR_ERRORS \<noteq> {} \<Longrightarrow> HAL_FLASH_GET_FLAG f r \<longleftrightarrow> bits f \<subseteq> bits (r FLASH_ECCR)"
  by (simp_all add: HAL_FLASH_GET_FLAG_def READ_BIT_def and_eq_iff_bits and_eq_0_iff_bits)

lemma flash_flags_mixed:
  "\<not> HAL_FLASH_GET_FLAG (FLASH_FLAG_EOP OR FLASH_FLAG_ECCC)
     ((\<lambda>_. 0)(FLASH_SR := FLASH_FLAG_EOP, FLASH_ECCR := FLASH_FLAG_ECCC))"
  by (simp add: HAL_FLASH_GET_FLAG_def reg_access reg_mask reg_addr)

section \<open>Option bytes\<close>

text \<open>
  With the brown-out level among the types, values with option bits of types that are not selected pass, which are
  refused for every other selection.
\<close>

lemma user_config_bor:
  "IS_OB_USER_CONFIG OB_USER_BOR_LEV (OB_BOR_LEVEL_1 OR OB_USER_nRST_STOP)"
  "\<not> IS_OB_USER_CONFIG OB_USER_nRST_STDBY OB_USER_nRST_STOP"
  by (simp_all add: IS_OB_USER_CONFIG_def reg_mask reg_pos)

section \<open>Latency\<close>

interpretation flash_latency: reg_field HAL_FLASH_SET_LATENCY HAL_FLASH_GET_LATENCY
  "\<lambda>v. v AND FLASH_ACR_LATENCY = v"
proof -
  have "HAL_FLASH_SET_LATENCY = MODIFY_REG FLASH_ACR FLASH_ACR_LATENCY"
    and "HAL_FLASH_GET_LATENCY = READ_BIT FLASH_ACR FLASH_ACR_LATENCY"
    by (rule ext, rule ext, rule HAL_FLASH_SET_LATENCY_def, rule ext, rule HAL_FLASH_GET_LATENCY_def)
  note eqs = this
  show "reg_field HAL_FLASH_SET_LATENCY HAL_FLASH_GET_LATENCY (\<lambda>v. v AND FLASH_ACR_LATENCY = v)"
    unfolding eqs by (rule reg_field_plain)
qed

text \<open>Every latency that passes the check is read back, and caches and prefetch do not touch it.\<close>

lemma latency_read_back: "IS_FLASH_LATENCY l \<Longrightarrow> HAL_FLASH_GET_LATENCY (HAL_FLASH_SET_LATENCY l r) = l"
  by (rule flash_latency.put_get) (auto simp: hal_check reg_mask reg_pos)

lemma latency_kept:
  "f \<in> {HAL_FLASH_PREFETCH_BUFFER_ENABLE, HAL_FLASH_PREFETCH_BUFFER_DISABLE, HAL_FLASH_INSTRUCTION_CACHE_ENABLE,
     HAL_FLASH_INSTRUCTION_CACHE_DISABLE, HAL_FLASH_DATA_CACHE_ENABLE, HAL_FLASH_DATA_CACHE_DISABLE,
     HAL_FLASH_INSTRUCTION_CACHE_RESET, HAL_FLASH_DATA_CACHE_RESET} \<Longrightarrow>
   HAL_FLASH_GET_LATENCY (f r) = HAL_FLASH_GET_LATENCY r"
  by (auto simp: HAL_FLASH_GET_LATENCY_def HAL_FLASH_PREFETCH_BUFFER_ENABLE_def
      HAL_FLASH_PREFETCH_BUFFER_DISABLE_def HAL_FLASH_INSTRUCTION_CACHE_ENABLE_def
      HAL_FLASH_INSTRUCTION_CACHE_DISABLE_def HAL_FLASH_DATA_CACHE_ENABLE_def HAL_FLASH_DATA_CACHE_DISABLE_def
      HAL_FLASH_INSTRUCTION_CACHE_RESET_def HAL_FLASH_DATA_CACHE_RESET_def READ_BIT_SET_other
      READ_BIT_CLEAR_other apart_def reg_mask)

end
