(* ===== verification/Hal_Pins.thy ===== *)
theory Hal_Pins
  imports Ll_Exti Hal_Stubs Device_Layout
begin

text \<open>
  Pins and interrupt lines as the HAL names them (\<^verbatim>\<open>stm32wlxx_hal_exti.h\<close>, \<^verbatim>\<open>stm32wlxx_hal_gpio.h\<close>,
  \<^verbatim>\<open>stm32wlxx_hal_gpio_ex.h\<close>). A line is a word that packs its kind, whether it has an event, its register and its
  bit; a pin mode packs direction, output type, interrupt mode and trigger. The packing is shown to be sound: the
  words decode to what they name, and the checks accept only words that do.
\<close>

section \<open>Constants\<close>

definition GPIO_PIN_RESET :: u32 where [reg_mask]: "GPIO_PIN_RESET = 0"
definition GPIO_PIN_SET :: u32 where [reg_mask]: "GPIO_PIN_SET = 1"

definition EXTI_PROPERTY_SHIFT :: nat where [reg_pos]: "EXTI_PROPERTY_SHIFT = 24"
definition EXTI_CONFIG :: u32 where [reg_mask]: "EXTI_CONFIG = push_bit EXTI_PROPERTY_SHIFT 0x02"
definition EXTI_GPIO :: u32 where [reg_mask]: "EXTI_GPIO = (push_bit EXTI_PROPERTY_SHIFT 0x04) OR EXTI_CONFIG"
definition EXTI_EVENT_PRESENCE_SHIFT :: nat where [reg_pos]: "EXTI_EVENT_PRESENCE_SHIFT = 28"
definition EXTI_EVENT_PRESENCE_MASK :: u32 where
  [reg_mask]: "EXTI_EVENT_PRESENCE_MASK = push_bit EXTI_EVENT_PRESENCE_SHIFT 0x01"
definition EXTI_EVENT :: u32 where [reg_mask]: "EXTI_EVENT = EXTI_EVENT_PRESENCE_MASK"
definition EXTI_REG_SHIFT :: nat where [reg_pos]: "EXTI_REG_SHIFT = 16"
definition EXTI_REG1 :: u32 where [reg_mask]: "EXTI_REG1 = push_bit EXTI_REG_SHIFT 0x00"
definition EXTI_LINE_0 :: u32 where [reg_mask]: "EXTI_LINE_0 = EXTI_GPIO OR EXTI_EVENT OR EXTI_REG1 OR 0x00"
definition EXTI_LINE_1 :: u32 where [reg_mask]: "EXTI_LINE_1 = EXTI_GPIO OR EXTI_EVENT OR EXTI_REG1 OR 0x01"
definition EXTI_LINE_2 :: u32 where [reg_mask]: "EXTI_LINE_2 = EXTI_GPIO OR EXTI_EVENT OR EXTI_REG1 OR 0x02"
definition EXTI_LINE_3 :: u32 where [reg_mask]: "EXTI_LINE_3 = EXTI_GPIO OR EXTI_EVENT OR EXTI_REG1 OR 0x03"
definition EXTI_LINE_4 :: u32 where [reg_mask]: "EXTI_LINE_4 = EXTI_GPIO OR EXTI_EVENT OR EXTI_REG1 OR 0x04"
definition EXTI_LINE_5 :: u32 where [reg_mask]: "EXTI_LINE_5 = EXTI_GPIO OR EXTI_EVENT OR EXTI_REG1 OR 0x05"
definition EXTI_LINE_6 :: u32 where [reg_mask]: "EXTI_LINE_6 = EXTI_GPIO OR EXTI_EVENT OR EXTI_REG1 OR 0x06"
definition EXTI_LINE_7 :: u32 where [reg_mask]: "EXTI_LINE_7 = EXTI_GPIO OR EXTI_EVENT OR EXTI_REG1 OR 0x07"
definition EXTI_LINE_8 :: u32 where [reg_mask]: "EXTI_LINE_8 = EXTI_GPIO OR EXTI_EVENT OR EXTI_REG1 OR 0x08"
definition EXTI_LINE_9 :: u32 where [reg_mask]: "EXTI_LINE_9 = EXTI_GPIO OR EXTI_EVENT OR EXTI_REG1 OR 0x09"
definition EXTI_LINE_10 :: u32 where [reg_mask]: "EXTI_LINE_10 = EXTI_GPIO OR EXTI_EVENT OR EXTI_REG1 OR 0x0A"
definition EXTI_LINE_11 :: u32 where [reg_mask]: "EXTI_LINE_11 = EXTI_GPIO OR EXTI_EVENT OR EXTI_REG1 OR 0x0B"
definition EXTI_LINE_12 :: u32 where [reg_mask]: "EXTI_LINE_12 = EXTI_GPIO OR EXTI_EVENT OR EXTI_REG1 OR 0x0C"
definition EXTI_LINE_13 :: u32 where [reg_mask]: "EXTI_LINE_13 = EXTI_GPIO OR EXTI_EVENT OR EXTI_REG1 OR 0x0D"
definition EXTI_LINE_14 :: u32 where [reg_mask]: "EXTI_LINE_14 = EXTI_GPIO OR EXTI_EVENT OR EXTI_REG1 OR 0x0E"
definition EXTI_LINE_15 :: u32 where [reg_mask]: "EXTI_LINE_15 = EXTI_GPIO OR EXTI_EVENT OR EXTI_REG1 OR 0x0F"
definition EXTI_LINE_16 :: u32 where [reg_mask]: "EXTI_LINE_16 = EXTI_CONFIG OR EXTI_REG1 OR 0x10"
definition EXTI_DIRECT :: u32 where [reg_mask]: "EXTI_DIRECT = push_bit EXTI_PROPERTY_SHIFT 0x01"
definition EXTI_LINE_17 :: u32 where
  [reg_mask]: "EXTI_LINE_17 = EXTI_DIRECT OR EXTI_EVENT OR EXTI_REG1 OR 0x11"
definition EXTI_LINE_18 :: u32 where
  [reg_mask]: "EXTI_LINE_18 = EXTI_DIRECT OR EXTI_EVENT OR EXTI_REG1 OR 0x12"
definition EXTI_LINE_19 :: u32 where
  [reg_mask]: "EXTI_LINE_19 = EXTI_DIRECT OR EXTI_EVENT OR EXTI_REG1 OR 0x13"
definition EXTI_LINE_20 :: u32 where
  [reg_mask]: "EXTI_LINE_20 = EXTI_DIRECT OR EXTI_EVENT OR EXTI_REG1 OR 0x14"
definition EXTI_LINE_21 :: u32 where
  [reg_mask]: "EXTI_LINE_21 = EXTI_CONFIG OR EXTI_EVENT OR EXTI_REG1 OR 0x15"
definition EXTI_LINE_22 :: u32 where
  [reg_mask]: "EXTI_LINE_22 = EXTI_CONFIG OR EXTI_EVENT OR EXTI_REG1 OR 0x16"
definition EXTI_LINE_23 :: u32 where [reg_mask]: "EXTI_LINE_23 = EXTI_DIRECT OR EXTI_REG1 OR 0x17"
definition EXTI_LINE_24 :: u32 where [reg_mask]: "EXTI_LINE_24 = EXTI_DIRECT OR EXTI_REG1 OR 0x18"
definition EXTI_LINE_25 :: u32 where [reg_mask]: "EXTI_LINE_25 = EXTI_DIRECT OR EXTI_REG1 OR 0x19"
definition EXTI_LINE_26 :: u32 where [reg_mask]: "EXTI_LINE_26 = EXTI_DIRECT OR EXTI_REG1 OR 0x1A"
definition EXTI_LINE_27 :: u32 where [reg_mask]: "EXTI_LINE_27 = EXTI_DIRECT OR EXTI_REG1 OR 0x1B"
definition EXTI_LINE_28 :: u32 where [reg_mask]: "EXTI_LINE_28 = EXTI_DIRECT OR EXTI_REG1 OR 0x1C"
definition EXTI_LINE_29 :: u32 where [reg_mask]: "EXTI_LINE_29 = EXTI_DIRECT OR EXTI_REG1 OR 0x1D"
definition EXTI_LINE_30 :: u32 where [reg_mask]: "EXTI_LINE_30 = EXTI_DIRECT OR EXTI_REG1 OR 0x1E"
definition EXTI_LINE_31 :: u32 where [reg_mask]: "EXTI_LINE_31 = EXTI_DIRECT OR EXTI_REG1 OR 0x1F"
definition EXTI_RESERVED :: u32 where [reg_mask]: "EXTI_RESERVED = push_bit EXTI_PROPERTY_SHIFT 0x08"
definition EXTI_REG2 :: u32 where [reg_mask]: "EXTI_REG2 = push_bit EXTI_REG_SHIFT 0x01"
definition EXTI_LINE_32 :: u32 where [reg_mask]: "EXTI_LINE_32 = EXTI_RESERVED OR EXTI_REG2 OR 0x00"
definition EXTI_LINE_33 :: u32 where [reg_mask]: "EXTI_LINE_33 = EXTI_RESERVED OR EXTI_REG2 OR 0x01"
definition EXTI_LINE_34 :: u32 where [reg_mask]: "EXTI_LINE_34 = EXTI_CONFIG OR EXTI_REG2 OR 0x02"
definition EXTI_LINE_35 :: u32 where [reg_mask]: "EXTI_LINE_35 = EXTI_RESERVED OR EXTI_REG2 OR 0x03"
definition EXTI_LINE_36 :: u32 where [reg_mask]: "EXTI_LINE_36 = EXTI_DIRECT OR EXTI_REG2 OR 0x04"
definition EXTI_LINE_37 :: u32 where [reg_mask]: "EXTI_LINE_37 = EXTI_DIRECT OR EXTI_REG2 OR 0x05"
definition EXTI_LINE_38 :: u32 where [reg_mask]: "EXTI_LINE_38 = EXTI_DIRECT OR EXTI_REG2 OR 0x06"
definition EXTI_LINE_39 :: u32 where [reg_mask]: "EXTI_LINE_39 = EXTI_DIRECT OR EXTI_REG2 OR 0x07"
definition EXTI_LINE_40 :: u32 where
  [reg_mask]: "EXTI_LINE_40 = EXTI_CONFIG OR EXTI_EVENT OR EXTI_REG2 OR 0x08"
definition EXTI_LINE_41 :: u32 where
  [reg_mask]: "EXTI_LINE_41 = EXTI_CONFIG OR EXTI_EVENT OR EXTI_REG2 OR 0x09"
definition EXTI_LINE_42 :: u32 where [reg_mask]: "EXTI_LINE_42 = EXTI_DIRECT OR EXTI_REG2 OR 0x0A"
definition EXTI_LINE_43 :: u32 where [reg_mask]: "EXTI_LINE_43 = EXTI_DIRECT OR EXTI_REG2 OR 0x0B"
definition EXTI_LINE_44 :: u32 where [reg_mask]: "EXTI_LINE_44 = EXTI_DIRECT OR EXTI_REG2 OR 0x0C"
definition EXTI_LINE_45 :: u32 where [reg_mask]: "EXTI_LINE_45 = EXTI_CONFIG OR EXTI_REG2 OR 0x0D"
definition EXTI_LINE_46 :: u32 where [reg_mask]: "EXTI_LINE_46 = EXTI_DIRECT OR EXTI_REG2 OR 0x0E"
definition EXTI_MODE_INTERRUPT :: u32 where [reg_mask]: "EXTI_MODE_INTERRUPT = 0x00000001"
definition EXTI_MODE_EVENT :: u32 where [reg_mask]: "EXTI_MODE_EVENT = 0x00000002"
definition EXTI_TRIGGER_RISING :: u32 where [reg_mask]: "EXTI_TRIGGER_RISING = 0x00000001"
definition EXTI_TRIGGER_FALLING :: u32 where [reg_mask]: "EXTI_TRIGGER_FALLING = 0x00000002"
definition EXTI_TRIGGER_RISING_FALLING :: u32 where
  [reg_mask]: "EXTI_TRIGGER_RISING_FALLING = EXTI_TRIGGER_RISING OR EXTI_TRIGGER_FALLING"
definition EXTI_GPIOA :: u32 where [reg_mask]: "EXTI_GPIOA = 0x00000000"
definition EXTI_GPIOB :: u32 where [reg_mask]: "EXTI_GPIOB = 0x00000001"
definition EXTI_GPIOC :: u32 where [reg_mask]: "EXTI_GPIOC = 0x00000002"
definition EXTI_GPIOH :: u32 where [reg_mask]: "EXTI_GPIOH = 0x00000007"
definition EXTI_PROPERTY_MASK :: u32 where
  [reg_mask]: "EXTI_PROPERTY_MASK = EXTI_DIRECT OR EXTI_CONFIG OR EXTI_GPIO"
definition EXTI_REG_MASK :: u32 where [reg_mask]: "EXTI_REG_MASK = EXTI_REG1 OR EXTI_REG2"
definition EXTI_PIN_MASK :: u32 where [reg_mask]: "EXTI_PIN_MASK = 0x0000001F"
definition EXTI_MODE_MASK :: u32 where [reg_mask]: "EXTI_MODE_MASK = EXTI_MODE_EVENT OR EXTI_MODE_INTERRUPT"
definition EXTI_TRIGGER_MASK :: u32 where
  [reg_mask]: "EXTI_TRIGGER_MASK = EXTI_TRIGGER_RISING OR EXTI_TRIGGER_FALLING"
definition EXTI_LINE_NB :: u32 where [reg_mask]: "EXTI_LINE_NB = 47"
definition GPIO_MODE_Pos :: nat where [reg_pos]: "GPIO_MODE_Pos = 0"
definition MODE_INPUT :: u32 where [reg_mask]: "MODE_INPUT = push_bit GPIO_MODE_Pos 0x0"
definition GPIO_MODE_INPUT :: u32 where [reg_mask]: "GPIO_MODE_INPUT = MODE_INPUT"
definition MODE_OUTPUT :: u32 where [reg_mask]: "MODE_OUTPUT = push_bit GPIO_MODE_Pos 0x1"
definition OUTPUT_TYPE_Pos :: nat where [reg_pos]: "OUTPUT_TYPE_Pos = 4"
definition OUTPUT_PP :: u32 where [reg_mask]: "OUTPUT_PP = push_bit OUTPUT_TYPE_Pos 0x0"
definition GPIO_MODE_OUTPUT_PP :: u32 where [reg_mask]: "GPIO_MODE_OUTPUT_PP = MODE_OUTPUT OR OUTPUT_PP"
definition OUTPUT_OD :: u32 where [reg_mask]: "OUTPUT_OD = push_bit OUTPUT_TYPE_Pos 0x1"
definition GPIO_MODE_OUTPUT_OD :: u32 where [reg_mask]: "GPIO_MODE_OUTPUT_OD = MODE_OUTPUT OR OUTPUT_OD"
definition MODE_AF :: u32 where [reg_mask]: "MODE_AF = push_bit GPIO_MODE_Pos 0x2"
definition GPIO_MODE_AF_PP :: u32 where [reg_mask]: "GPIO_MODE_AF_PP = MODE_AF OR OUTPUT_PP"
definition GPIO_MODE_AF_OD :: u32 where [reg_mask]: "GPIO_MODE_AF_OD = MODE_AF OR OUTPUT_OD"
definition MODE_ANALOG :: u32 where [reg_mask]: "MODE_ANALOG = push_bit GPIO_MODE_Pos 0x3"
definition GPIO_MODE_ANALOG :: u32 where [reg_mask]: "GPIO_MODE_ANALOG = MODE_ANALOG"
definition EXTI_MODE_Pos :: nat where [reg_pos]: "EXTI_MODE_Pos = 16"
definition EXTI_IT :: u32 where [reg_mask]: "EXTI_IT = push_bit EXTI_MODE_Pos 0x1"
definition TRIGGER_MODE_Pos :: nat where [reg_pos]: "TRIGGER_MODE_Pos = 20"
definition TRIGGER_RISING :: u32 where [reg_mask]: "TRIGGER_RISING = push_bit TRIGGER_MODE_Pos 0x1"
definition GPIO_MODE_IT_RISING :: u32 where
  [reg_mask]: "GPIO_MODE_IT_RISING = MODE_INPUT OR EXTI_IT OR TRIGGER_RISING"
definition TRIGGER_FALLING :: u32 where [reg_mask]: "TRIGGER_FALLING = push_bit TRIGGER_MODE_Pos 0x2"
definition GPIO_MODE_IT_FALLING :: u32 where
  [reg_mask]: "GPIO_MODE_IT_FALLING = MODE_INPUT OR EXTI_IT OR TRIGGER_FALLING"
definition GPIO_MODE_IT_RISING_FALLING :: u32 where
  [reg_mask]: "GPIO_MODE_IT_RISING_FALLING = MODE_INPUT OR EXTI_IT OR TRIGGER_RISING OR TRIGGER_FALLING"
definition EXTI_EVT :: u32 where [reg_mask]: "EXTI_EVT = push_bit EXTI_MODE_Pos 0x2"
definition GPIO_MODE_EVT_RISING :: u32 where
  [reg_mask]: "GPIO_MODE_EVT_RISING = MODE_INPUT OR EXTI_EVT OR TRIGGER_RISING"
definition GPIO_MODE_EVT_FALLING :: u32 where
  [reg_mask]: "GPIO_MODE_EVT_FALLING = MODE_INPUT OR EXTI_EVT OR TRIGGER_FALLING"
definition GPIO_MODE_EVT_RISING_FALLING :: u32 where
  [reg_mask]: "GPIO_MODE_EVT_RISING_FALLING = MODE_INPUT OR EXTI_EVT OR TRIGGER_RISING OR TRIGGER_FALLING"
definition GPIO_SPEED_FREQ_LOW :: u32 where [reg_mask]: "GPIO_SPEED_FREQ_LOW = 0x00000000"
definition GPIO_SPEED_FREQ_MEDIUM :: u32 where [reg_mask]: "GPIO_SPEED_FREQ_MEDIUM = 0x00000001"
definition GPIO_SPEED_FREQ_HIGH :: u32 where [reg_mask]: "GPIO_SPEED_FREQ_HIGH = 0x00000002"
definition GPIO_SPEED_FREQ_VERY_HIGH :: u32 where [reg_mask]: "GPIO_SPEED_FREQ_VERY_HIGH = 0x00000003"
definition GPIO_NOPULL :: u32 where [reg_mask]: "GPIO_NOPULL = 0x00000000"
definition GPIO_PULLUP :: u32 where [reg_mask]: "GPIO_PULLUP = 0x00000001"
definition GPIO_PULLDOWN :: u32 where [reg_mask]: "GPIO_PULLDOWN = 0x00000002"
definition GPIO_MODE :: u32 where [reg_mask]: "GPIO_MODE = push_bit GPIO_MODE_Pos 0x3"
definition OUTPUT_TYPE :: u32 where [reg_mask]: "OUTPUT_TYPE = push_bit OUTPUT_TYPE_Pos 0x1"
definition EXTI_MODE :: u32 where [reg_mask]: "EXTI_MODE = push_bit EXTI_MODE_Pos 0x3"
definition TRIGGER_MODE :: u32 where [reg_mask]: "TRIGGER_MODE = push_bit TRIGGER_MODE_Pos 0x7"

section \<open>Macros\<close>

definition HAL_GPIO_EXTI_GET_FLAG :: "u32 \<Rightarrow> regs \<Rightarrow> u32" where
  "HAL_GPIO_EXTI_GET_FLAG LINE r = r EXTI_PR1 AND LINE"

definition HAL_GPIO_EXTI_CLEAR_FLAG :: "u32 \<Rightarrow> regs \<Rightarrow> regs" where
  "HAL_GPIO_EXTI_CLEAR_FLAG LINE r = r(EXTI_PR1 := LINE)"

definition HAL_GPIO_EXTI_GET_IT :: "u32 \<Rightarrow> regs \<Rightarrow> u32" where
  "HAL_GPIO_EXTI_GET_IT LINE r = r EXTI_PR1 AND LINE"

definition HAL_GPIO_EXTI_CLEAR_IT :: "u32 \<Rightarrow> regs \<Rightarrow> regs" where
  "HAL_GPIO_EXTI_CLEAR_IT LINE r = r(EXTI_PR1 := LINE)"

definition HAL_GPIO_EXTI_GENERATE_SWIT :: "u32 \<Rightarrow> regs \<Rightarrow> regs" where
  "HAL_GPIO_EXTI_GENERATE_SWIT LINE r = r(EXTI_SWIER1 := r EXTI_SWIER1 OR LINE)"

definition GPIO_GET_INDEX :: "u32 \<Rightarrow> u32" where
  "GPIO_GET_INDEX GPIOx =
     (if GPIOx = GPIOA_BASE then 0 else if GPIOx = GPIOB_BASE then 1 else if GPIOx = GPIOC_BASE then 2 else 7)"

section \<open>Parameter checks\<close>

definition IS_EXTI_LINE :: "u32 \<Rightarrow> bool" where
  [hal_check]: "IS_EXTI_LINE EXTI_LINE \<longleftrightarrow>
     ((EXTI_LINE AND (NOT (EXTI_PROPERTY_MASK OR EXTI_EVENT_PRESENCE_MASK OR EXTI_REG_MASK OR
       EXTI_PIN_MASK))) = 0x00) \<and> (((EXTI_LINE AND EXTI_PROPERTY_MASK) = EXTI_DIRECT) \<or>
       ((EXTI_LINE AND EXTI_PROPERTY_MASK) = EXTI_CONFIG) \<or> ((EXTI_LINE AND EXTI_PROPERTY_MASK) =
       EXTI_GPIO)) \<and> ((EXTI_LINE AND (EXTI_REG_MASK OR EXTI_PIN_MASK)) < ((push_bit EXTI_REG_SHIFT
       (EXTI_LINE_NB div 32)) OR (EXTI_LINE_NB mod 32)))"

definition IS_EXTI_MODE :: "u32 \<Rightarrow> bool" where
  [hal_check]: "IS_EXTI_MODE EXTI_LINE \<longleftrightarrow>
     ((EXTI_LINE AND EXTI_MODE_MASK) \<noteq> 0x00) \<and> ((EXTI_LINE AND (NOT EXTI_MODE_MASK)) = 0x00)"

definition IS_EXTI_TRIGGER :: "u32 \<Rightarrow> bool" where
  [hal_check]: "IS_EXTI_TRIGGER EXTI_LINE \<longleftrightarrow>
     (EXTI_LINE AND (NOT EXTI_TRIGGER_MASK)) = 0x00"

definition IS_EXTI_PENDING_EDGE :: "u32 \<Rightarrow> bool" where
  [hal_check]: "IS_EXTI_PENDING_EDGE EXTI_LINE \<longleftrightarrow>
     EXTI_LINE = EXTI_TRIGGER_RISING_FALLING"

definition IS_EXTI_CONFIG_LINE :: "u32 \<Rightarrow> bool" where
  [hal_check]: "IS_EXTI_CONFIG_LINE EXTI_LINE \<longleftrightarrow>
     (EXTI_LINE AND EXTI_CONFIG) \<noteq> 0x00"

definition IS_EXTI_EVENT_PRESENT :: "u32 \<Rightarrow> bool" where
  [hal_check]: "IS_EXTI_EVENT_PRESENT EXTI_LINE \<longleftrightarrow>
     (EXTI_LINE AND EXTI_EVENT) \<noteq> 0x00"

definition IS_EXTI_GPIO_PORT :: "u32 \<Rightarrow> bool" where
  [hal_check]: "IS_EXTI_GPIO_PORT PORT \<longleftrightarrow>
     (PORT = EXTI_GPIOA) \<or> (PORT = EXTI_GPIOB) \<or> (PORT = EXTI_GPIOC) \<or> (PORT = EXTI_GPIOH)"

definition IS_EXTI_GPIO_PIN :: "u32 \<Rightarrow> bool" where
  [hal_check]: "IS_EXTI_GPIO_PIN PIN \<longleftrightarrow>
     PIN < 16"

definition IS_GPIO_PIN_ACTION :: "u32 \<Rightarrow> bool" where
  [hal_check]: "IS_GPIO_PIN_ACTION ACTION \<longleftrightarrow>
     (ACTION = GPIO_PIN_RESET) \<or> (ACTION = GPIO_PIN_SET)"

definition IS_GPIO_PIN :: "u32 \<Rightarrow> bool" where
  [hal_check]: "IS_GPIO_PIN PIN \<longleftrightarrow>
     ((PIN AND GPIO_PIN_MASK) \<noteq> 0x00) \<and> ((PIN AND (NOT GPIO_PIN_MASK)) = 0x00)"

definition IS_GPIO_COMMON_PIN :: "u32 \<Rightarrow> u32 \<Rightarrow> bool" where
  [hal_check]: "IS_GPIO_COMMON_PIN RESETMASK SETMASK \<longleftrightarrow>
     (RESETMASK AND SETMASK) = 0x00"

definition IS_GPIO_MODE :: "u32 \<Rightarrow> bool" where
  [hal_check]: "IS_GPIO_MODE MODE \<longleftrightarrow>
     (MODE = GPIO_MODE_INPUT) \<or> (MODE = GPIO_MODE_OUTPUT_PP) \<or> (MODE = GPIO_MODE_OUTPUT_OD) \<or>
       (MODE = GPIO_MODE_AF_PP) \<or> (MODE = GPIO_MODE_AF_OD) \<or> (MODE = GPIO_MODE_IT_RISING) \<or>
       (MODE = GPIO_MODE_IT_FALLING) \<or> (MODE = GPIO_MODE_IT_RISING_FALLING) \<or> (MODE =
       GPIO_MODE_EVT_RISING) \<or> (MODE = GPIO_MODE_EVT_FALLING) \<or> (MODE =
       GPIO_MODE_EVT_RISING_FALLING) \<or> (MODE = GPIO_MODE_ANALOG)"

definition IS_GPIO_SPEED :: "u32 \<Rightarrow> bool" where
  [hal_check]: "IS_GPIO_SPEED SPEED \<longleftrightarrow>
     (SPEED = GPIO_SPEED_FREQ_LOW) \<or> (SPEED = GPIO_SPEED_FREQ_MEDIUM) \<or> (SPEED =
       GPIO_SPEED_FREQ_HIGH) \<or> (SPEED = GPIO_SPEED_FREQ_VERY_HIGH)"

definition IS_GPIO_PULL :: "u32 \<Rightarrow> bool" where
  [hal_check]: "IS_GPIO_PULL PULL \<longleftrightarrow>
     (PULL = GPIO_NOPULL) \<or> (PULL = GPIO_PULLUP) \<or> (PULL = GPIO_PULLDOWN)"

definition IS_GPIO_AF :: "u32 \<Rightarrow> bool" where
  [hal_check]: "IS_GPIO_AF AF \<longleftrightarrow>
     AF \<le> 0x0F"

section \<open>Interrupt lines\<close>

text \<open>The lines by number, as the HAL packs them and as the low-level header masks them (0 where it has none).\<close>

definition exti_lines :: "u32 list" where
  "exti_lines =
     [EXTI_LINE_0, EXTI_LINE_1, EXTI_LINE_2, EXTI_LINE_3, EXTI_LINE_4,
      EXTI_LINE_5, EXTI_LINE_6, EXTI_LINE_7, EXTI_LINE_8, EXTI_LINE_9,
      EXTI_LINE_10, EXTI_LINE_11, EXTI_LINE_12, EXTI_LINE_13, EXTI_LINE_14,
      EXTI_LINE_15, EXTI_LINE_16, EXTI_LINE_17, EXTI_LINE_18, EXTI_LINE_19,
      EXTI_LINE_20, EXTI_LINE_21, EXTI_LINE_22, EXTI_LINE_23, EXTI_LINE_24,
      EXTI_LINE_25, EXTI_LINE_26, EXTI_LINE_27, EXTI_LINE_28, EXTI_LINE_29,
      EXTI_LINE_30, EXTI_LINE_31, EXTI_LINE_32, EXTI_LINE_33, EXTI_LINE_34,
      EXTI_LINE_35, EXTI_LINE_36, EXTI_LINE_37, EXTI_LINE_38, EXTI_LINE_39,
      EXTI_LINE_40, EXTI_LINE_41, EXTI_LINE_42, EXTI_LINE_43, EXTI_LINE_44,
      EXTI_LINE_45, EXTI_LINE_46]"

definition ll_exti_lines :: "u32 list" where
  "ll_exti_lines =
     [LL_EXTI_LINE_0, LL_EXTI_LINE_1, LL_EXTI_LINE_2, LL_EXTI_LINE_3, LL_EXTI_LINE_4,
      LL_EXTI_LINE_5, LL_EXTI_LINE_6, LL_EXTI_LINE_7, LL_EXTI_LINE_8, LL_EXTI_LINE_9,
      LL_EXTI_LINE_10, LL_EXTI_LINE_11, LL_EXTI_LINE_12, LL_EXTI_LINE_13, LL_EXTI_LINE_14,
      LL_EXTI_LINE_15, LL_EXTI_LINE_16, LL_EXTI_LINE_17, LL_EXTI_LINE_18, LL_EXTI_LINE_19,
      LL_EXTI_LINE_20, LL_EXTI_LINE_21, LL_EXTI_LINE_22, LL_EXTI_LINE_23, LL_EXTI_LINE_24,
      LL_EXTI_LINE_25, LL_EXTI_LINE_26, LL_EXTI_LINE_27, LL_EXTI_LINE_28, LL_EXTI_LINE_29,
      LL_EXTI_LINE_30, LL_EXTI_LINE_31, 0, 0, LL_EXTI_LINE_34,
      0, LL_EXTI_LINE_36, LL_EXTI_LINE_37, LL_EXTI_LINE_38, LL_EXTI_LINE_39,
      LL_EXTI_LINE_40, LL_EXTI_LINE_41, LL_EXTI_LINE_42, LL_EXTI_LINE_43, LL_EXTI_LINE_44,
      LL_EXTI_LINE_45, LL_EXTI_LINE_46]"

text \<open>The register and bit a packed line stands for, and its number.\<close>

definition line_reg :: "u32 \<Rightarrow> nat" where
  "line_reg l = unat (drop_bit EXTI_REG_SHIFT (l AND EXTI_REG_MASK))"

definition line_pin :: "u32 \<Rightarrow> nat" where
  "line_pin l = unat (l AND EXTI_PIN_MASK)"

definition line_number :: "u32 \<Rightarrow> nat" where
  "line_number l = 32 * line_reg l + line_pin l"

lemma exti_lines_length: "length exti_lines = 47" "length ll_exti_lines = 47"
  by (simp_all add: exti_lines_def ll_exti_lines_def)

lemma line_numbers: "map line_number exti_lines = [0..<47]"
  by (simp add: exti_lines_def line_number_def line_reg_def line_pin_def reg_mask reg_pos upt_rec)

lemma line_masks:
  "map (\<lambda>l. if IS_EXTI_LINE l then push_bit (line_pin l) 1 else 0) exti_lines = ll_exti_lines"
  by (simp add: exti_lines_def ll_exti_lines_def line_pin_def IS_EXTI_LINE_def reg_mask reg_pos)

lemma lines_accepted:
  "filter (\<lambda>k. \<not> IS_EXTI_LINE (exti_lines ! k)) [0..<47] = [32, 33, 35]"
  by (simp add: exti_lines_def IS_EXTI_LINE_def reg_mask reg_pos upt_rec)

text \<open>
  The two namings of the interrupt lines agree. The word the HAL defines for line \<open>k\<close> decodes to the number \<open>k\<close>; the
  check accepts it unless the line is one of the three reserved ones; and for an accepted line the bit it names in
  its register is the mask the low-level header defines for that line.
\<close>

theorem exti_lines_agree:
  assumes "k < 47"
  shows "line_number (exti_lines ! k) = k \<and>
    (IS_EXTI_LINE (exti_lines ! k) \<longleftrightarrow> k \<notin> {32, 33, 35}) \<and>
    (IS_EXTI_LINE (exti_lines ! k) \<longrightarrow> push_bit (line_pin (exti_lines ! k)) 1 = ll_exti_lines ! k)"
proof (intro conjI)
  have "map line_number exti_lines ! k = [0..<47] ! k"
    by (simp only: line_numbers)
  then show "line_number (exti_lines ! k) = k"
    using assms by (simp add: exti_lines_length)
  have "k \<in> set (filter (\<lambda>k. \<not> IS_EXTI_LINE (exti_lines ! k)) [0..<47]) \<longleftrightarrow> k \<in> set [32, 33, 35]"
    by (simp only: lines_accepted)
  then show "IS_EXTI_LINE (exti_lines ! k) \<longleftrightarrow> k \<notin> {32, 33, 35}"
    using assms by auto
  have "map (\<lambda>l. if IS_EXTI_LINE l then push_bit (line_pin l) 1 else 0) exti_lines ! k = ll_exti_lines ! k"
    by (simp only: line_masks)
  then show "IS_EXTI_LINE (exti_lines ! k) \<longrightarrow> push_bit (line_pin (exti_lines ! k)) 1 = ll_exti_lines ! k"
    using assms by (auto simp: exti_lines_length)
qed

theorem exti_lines_agree_witness:
  "line_number EXTI_LINE_44 = 44 \<and> push_bit (line_pin EXTI_LINE_44) 1 = LL_EXTI_LINE_44"
  using exti_lines_agree [of 44] by (simp add: exti_lines_def ll_exti_lines_def)

text \<open>Any word the check accepts names a line of the controller, not only the defined ones.\<close>

lemma line_number_bound:
  assumes "IS_EXTI_LINE l"
  shows "line_number l < 47"
proof -
  have lt: "l AND 0x1001F < 0x1000F"
    using assms by (simp add: IS_EXTI_LINE_def reg_mask reg_pos)
  have or: "l AND 0x1001F = (l AND 0x10000) OR (l AND 0x1F)"
    by (simp flip: bit.conj_disj_distrib)
  have p: "unat (l AND 0x1F) < 32"
    using word_and_le1 [of l "0x1F"] by (simp add: word_le_nat_alt)
  show ?thesis
  proof (cases "l AND 0x10000 = 0")
    case True
    then show ?thesis
      using p by (simp add: line_number_def line_reg_def line_pin_def reg_mask reg_pos)
  next
    case False
    then have h: "l AND 0x10000 = 0x10000"
      using single_flag [of 16 l] by simp
    have "0x10000 AND (l AND 0x1F) = (0 :: u32)"
      by (simp add: and.left_commute)
    then have "l AND 0x1001F = 0x10000 + (l AND 0x1F)"
      using or h by (simp add: disjunctive_add_eq_or)
    then have "unat (0x10000 + (l AND 0x1F)) < 0x1000F"
      using lt by (simp add: word_less_nat_alt)
    moreover have "unat (0x10000 + (l AND 0x1F)) = 0x10000 + unat (l AND 0x1F)"
      using p by (simp add: unat_word_ariths)
    ultimately show ?thesis
      using h by (simp add: line_number_def line_reg_def line_pin_def reg_mask reg_pos)
  qed
qed

section \<open>Pins\<close>

text \<open>The pin macros are the low-level functions on the lines of the first register.\<close>

lemma hal_gpio_exti:
  "HAL_GPIO_EXTI_GET_FLAG p r = LL_EXTI_ReadFlag_0_31 p r"
  "HAL_GPIO_EXTI_GET_IT p r = LL_EXTI_ReadFlag_0_31 p r"
  "HAL_GPIO_EXTI_CLEAR_FLAG p r = LL_EXTI_ClearFlag_0_31 p r"
  "HAL_GPIO_EXTI_CLEAR_IT p r = LL_EXTI_ClearFlag_0_31 p r"
  "HAL_GPIO_EXTI_GENERATE_SWIT p r = LL_EXTI_GenerateSWI_0_31 p r"
  by (simp_all add: HAL_GPIO_EXTI_GET_FLAG_def HAL_GPIO_EXTI_GET_IT_def HAL_GPIO_EXTI_CLEAR_FLAG_def
      HAL_GPIO_EXTI_CLEAR_IT_def HAL_GPIO_EXTI_GENERATE_SWIT_def ll_def reg_access)

definition gpio_ports :: "u32 list" where
  "gpio_ports = [GPIOA_BASE, GPIOB_BASE, GPIOC_BASE, GPIOH_BASE]"

lemma port_index:
  "map GPIO_GET_INDEX gpio_ports = [EXTI_GPIOA, EXTI_GPIOB, EXTI_GPIOC, EXTI_GPIOH]"
  "map GPIO_GET_INDEX gpio_ports = [PWR_GPIO_A, PWR_GPIO_B, PWR_GPIO_C, PWR_GPIO_H]"
  by (simp_all add: gpio_ports_def GPIO_GET_INDEX_def reg_addr reg_mask PWR_GPIO_A_def PWR_GPIO_B_def
      PWR_GPIO_C_def PWR_GPIO_H_def)

definition gpio_modes :: "u32 list" where
  "gpio_modes = [GPIO_MODE_INPUT, GPIO_MODE_OUTPUT_PP, GPIO_MODE_OUTPUT_OD, GPIO_MODE_AF_PP, GPIO_MODE_AF_OD,
     GPIO_MODE_IT_RISING, GPIO_MODE_IT_FALLING, GPIO_MODE_IT_RISING_FALLING, GPIO_MODE_EVT_RISING,
     GPIO_MODE_EVT_FALLING, GPIO_MODE_EVT_RISING_FALLING, GPIO_MODE_ANALOG]"

text \<open>
  The accepted modes are twelve different words, each the union of its four fields, and a trigger is chosen exactly
  when the mode is one with an interrupt or event, which are inputs.
\<close>

lemma gpio_modes_fields:
  "distinct gpio_modes \<and> (IS_GPIO_MODE m \<longleftrightarrow> m \<in> set gpio_modes) \<and>
   (\<forall>m \<in> set gpio_modes. (m AND GPIO_MODE) OR (m AND OUTPUT_TYPE) OR (m AND EXTI_MODE) OR (m AND TRIGGER_MODE) = m \<and>
     ((m AND EXTI_MODE \<noteq> 0) = (m AND TRIGGER_MODE \<noteq> 0)) \<and>
     (m AND EXTI_MODE \<noteq> 0 \<longrightarrow> m AND GPIO_MODE = MODE_INPUT))"
  by (simp add: gpio_modes_def IS_GPIO_MODE_def reg_mask reg_pos)

text \<open>A pin the power stubs take is a pin of the HAL: the stub and the check agree on the empty selection.\<close>

lemma pull_up_checked:
  "IS_GPIO_PIN p \<Longrightarrow> g \<in> set gpio_ports \<Longrightarrow> HAL_PWREx_EnableGPIOPullUp (GPIO_GET_INDEX g) p = HAL_OK"
  using port_index(2)
  by (auto simp: IS_GPIO_PIN_def gpio_ports_def HAL_PWREx_EnableGPIOPullUp_def sim_hal_stm32_pwr_gpio_def IS_PWR_GPIO_def)

end
