(* ===== verification/Hal_Rtc.thy ===== *)
theory Hal_Rtc
  imports Device_Layout
begin

text \<open>
  The real-time clock as \<^verbatim>\<open>stm32wlxx_hal_rtc.h\<close> presents it: constants, the macros on its control, status and write
  protection registers, and the parameter checks. The macros ignore the handle they take, so it is left out here;
  \<^verbatim>\<open>__HAL_RTC_RESET_HANDLE_STATE\<close>, which only sets a field of it, and \<^verbatim>\<open>__HAL_RTC_ALARM_GET_FLAG\<close>, which
  calls a macro no header defines, have no counterpart.
\<close>

section \<open>Registers\<close>

definition RTC_ICSR :: u32 where [reg_addr]: "RTC_ICSR = RTC_BASE + 0x0C"
definition RTC_CR :: u32 where [reg_addr]: "RTC_CR = RTC_BASE + 0x18"
definition RTC_WPR :: u32 where [reg_addr]: "RTC_WPR = RTC_BASE + 0x24"
definition RTC_MISR :: u32 where [reg_addr]: "RTC_MISR = RTC_BASE + 0x54"
definition RTC_SCR :: u32 where [reg_addr]: "RTC_SCR = RTC_BASE + 0x5C"

section \<open>Constants\<close>

definition RTC_CR_ADD1H :: u32 where [reg_mask]: "RTC_CR_ADD1H = push_bit 16 0x1"
definition RTC_CR_SUB1H :: u32 where [reg_mask]: "RTC_CR_SUB1H = push_bit 17 0x1"
definition RTC_CR_BKP :: u32 where [reg_mask]: "RTC_CR_BKP = push_bit 18 0x1"
definition RTC_CR_ALRAE :: u32 where [reg_mask]: "RTC_CR_ALRAE = push_bit 8 0x1"
definition RTC_CR_ALRBE :: u32 where [reg_mask]: "RTC_CR_ALRBE = push_bit 9 0x1"
definition RTC_ICSR_INITS :: u32 where [reg_mask]: "RTC_ICSR_INITS = push_bit 4 0x1"
definition RTC_ICSR_BIN :: u32 where [reg_mask]: "RTC_ICSR_BIN = push_bit 8 0x3"
definition RTC_MISR_ALRAMF :: u32 where [reg_mask]: "RTC_MISR_ALRAMF = push_bit 0 0x1"
definition RTC_MISR_ALRBMF :: u32 where [reg_mask]: "RTC_MISR_ALRBMF = push_bit 1 0x1"
definition RTC_HOURFORMAT_24 :: u32 where [reg_mask]: "RTC_HOURFORMAT_24 = 0x00000000"
definition RTC_CR_FMT :: u32 where [reg_mask]: "RTC_CR_FMT = push_bit 6 0x1"
definition RTC_HOURFORMAT_12 :: u32 where [reg_mask]: "RTC_HOURFORMAT_12 = RTC_CR_FMT"
definition RTC_OUTPUT_DISABLE :: u32 where [reg_mask]: "RTC_OUTPUT_DISABLE = 0x00000000"
definition RTC_CR_OSEL_Pos :: nat where [reg_pos]: "RTC_CR_OSEL_Pos = 21"
definition RTC_CR_OSEL_0 :: u32 where [reg_mask]: "RTC_CR_OSEL_0 = push_bit RTC_CR_OSEL_Pos 0x1"
definition RTC_OUTPUT_ALARMA :: u32 where [reg_mask]: "RTC_OUTPUT_ALARMA = RTC_CR_OSEL_0"
definition RTC_CR_OSEL_1 :: u32 where [reg_mask]: "RTC_CR_OSEL_1 = push_bit RTC_CR_OSEL_Pos 0x2"
definition RTC_OUTPUT_ALARMB :: u32 where [reg_mask]: "RTC_OUTPUT_ALARMB = RTC_CR_OSEL_1"
definition RTC_CR_OSEL :: u32 where [reg_mask]: "RTC_CR_OSEL = push_bit 21 0x3"
definition RTC_OUTPUT_WAKEUP :: u32 where [reg_mask]: "RTC_OUTPUT_WAKEUP = RTC_CR_OSEL"
definition RTC_CR_TAMPOE :: u32 where [reg_mask]: "RTC_CR_TAMPOE = push_bit 26 0x1"
definition RTC_OUTPUT_TAMPER :: u32 where [reg_mask]: "RTC_OUTPUT_TAMPER = RTC_CR_TAMPOE"
definition RTC_OUTPUT_POLARITY_HIGH :: u32 where [reg_mask]: "RTC_OUTPUT_POLARITY_HIGH = 0x00000000"
definition RTC_CR_POL :: u32 where [reg_mask]: "RTC_CR_POL = push_bit 20 0x1"
definition RTC_OUTPUT_POLARITY_LOW :: u32 where [reg_mask]: "RTC_OUTPUT_POLARITY_LOW = RTC_CR_POL"
definition RTC_OUTPUT_TYPE_PUSHPULL :: u32 where [reg_mask]: "RTC_OUTPUT_TYPE_PUSHPULL = 0x00000000"
definition RTC_CR_TAMPALRM_TYPE :: u32 where [reg_mask]: "RTC_CR_TAMPALRM_TYPE = push_bit 30 0x1"
definition RTC_OUTPUT_TYPE_OPENDRAIN :: u32 where
  [reg_mask]: "RTC_OUTPUT_TYPE_OPENDRAIN = RTC_CR_TAMPALRM_TYPE"
definition RTC_OUTPUT_PULLUP_NONE :: u32 where [reg_mask]: "RTC_OUTPUT_PULLUP_NONE = 0x00000000"
definition RTC_CR_TAMPALRM_PU :: u32 where [reg_mask]: "RTC_CR_TAMPALRM_PU = push_bit 29 0x1"
definition RTC_OUTPUT_PULLUP_ON :: u32 where [reg_mask]: "RTC_OUTPUT_PULLUP_ON = RTC_CR_TAMPALRM_PU"
definition RTC_OUTPUT_REMAP_NONE :: u32 where [reg_mask]: "RTC_OUTPUT_REMAP_NONE = 0x00000000"
definition RTC_CR_OUT2EN :: u32 where [reg_mask]: "RTC_CR_OUT2EN = push_bit 31 0x1"
definition RTC_OUTPUT_REMAP_POS1 :: u32 where [reg_mask]: "RTC_OUTPUT_REMAP_POS1 = RTC_CR_OUT2EN"
definition RTC_HOURFORMAT12_AM :: u32 where [reg_mask]: "RTC_HOURFORMAT12_AM = 0x0"
definition RTC_HOURFORMAT12_PM :: u32 where [reg_mask]: "RTC_HOURFORMAT12_PM = 0x1"
definition RTC_DAYLIGHTSAVING_SUB1H :: u32 where [reg_mask]: "RTC_DAYLIGHTSAVING_SUB1H = RTC_CR_SUB1H"
definition RTC_DAYLIGHTSAVING_ADD1H :: u32 where [reg_mask]: "RTC_DAYLIGHTSAVING_ADD1H = RTC_CR_ADD1H"
definition RTC_DAYLIGHTSAVING_NONE :: u32 where [reg_mask]: "RTC_DAYLIGHTSAVING_NONE = 0x00000000"
definition RTC_STOREOPERATION_RESET :: u32 where [reg_mask]: "RTC_STOREOPERATION_RESET = 0x00000000"
definition RTC_STOREOPERATION_SET :: u32 where [reg_mask]: "RTC_STOREOPERATION_SET = RTC_CR_BKP"
definition RTC_FORMAT_BIN :: u32 where [reg_mask]: "RTC_FORMAT_BIN = 0x00000000"
definition RTC_FORMAT_BCD :: u32 where [reg_mask]: "RTC_FORMAT_BCD = 0x00000001"
definition RTC_WEEKDAY_MONDAY :: u32 where [reg_mask]: "RTC_WEEKDAY_MONDAY = 0x01"
definition RTC_WEEKDAY_TUESDAY :: u32 where [reg_mask]: "RTC_WEEKDAY_TUESDAY = 0x02"
definition RTC_WEEKDAY_WEDNESDAY :: u32 where [reg_mask]: "RTC_WEEKDAY_WEDNESDAY = 0x03"
definition RTC_WEEKDAY_THURSDAY :: u32 where [reg_mask]: "RTC_WEEKDAY_THURSDAY = 0x04"
definition RTC_WEEKDAY_FRIDAY :: u32 where [reg_mask]: "RTC_WEEKDAY_FRIDAY = 0x05"
definition RTC_WEEKDAY_SATURDAY :: u32 where [reg_mask]: "RTC_WEEKDAY_SATURDAY = 0x06"
definition RTC_WEEKDAY_SUNDAY :: u32 where [reg_mask]: "RTC_WEEKDAY_SUNDAY = 0x07"
definition RTC_ALARMDATEWEEKDAYSEL_DATE :: u32 where [reg_mask]: "RTC_ALARMDATEWEEKDAYSEL_DATE = 0x00000000"
definition RTC_ALRMAR_WDSEL :: u32 where [reg_mask]: "RTC_ALRMAR_WDSEL = push_bit 30 0x1"
definition RTC_ALARMDATEWEEKDAYSEL_WEEKDAY :: u32 where
  [reg_mask]: "RTC_ALARMDATEWEEKDAYSEL_WEEKDAY = RTC_ALRMAR_WDSEL"
definition RTC_ALRMAR_MSK4 :: u32 where [reg_mask]: "RTC_ALRMAR_MSK4 = push_bit 31 0x1"
definition RTC_ALARMMASK_DATEWEEKDAY :: u32 where [reg_mask]: "RTC_ALARMMASK_DATEWEEKDAY = RTC_ALRMAR_MSK4"
definition RTC_ALRMAR_MSK3 :: u32 where [reg_mask]: "RTC_ALRMAR_MSK3 = push_bit 23 0x1"
definition RTC_ALARMMASK_HOURS :: u32 where [reg_mask]: "RTC_ALARMMASK_HOURS = RTC_ALRMAR_MSK3"
definition RTC_ALRMAR_MSK2 :: u32 where [reg_mask]: "RTC_ALRMAR_MSK2 = push_bit 15 0x1"
definition RTC_ALARMMASK_MINUTES :: u32 where [reg_mask]: "RTC_ALARMMASK_MINUTES = RTC_ALRMAR_MSK2"
definition RTC_ALRMAR_MSK1 :: u32 where [reg_mask]: "RTC_ALRMAR_MSK1 = push_bit 7 0x1"
definition RTC_ALARMMASK_SECONDS :: u32 where [reg_mask]: "RTC_ALARMMASK_SECONDS = RTC_ALRMAR_MSK1"
definition RTC_ALARMMASK_ALL :: u32 where
  [reg_mask]: "RTC_ALARMMASK_ALL = RTC_ALARMMASK_DATEWEEKDAY OR RTC_ALARMMASK_HOURS OR RTC_ALARMMASK_MINUTES OR
        RTC_ALARMMASK_SECONDS"
definition RTC_ALARM_A :: u32 where [reg_mask]: "RTC_ALARM_A = RTC_CR_ALRAE"
definition RTC_ALARM_B :: u32 where [reg_mask]: "RTC_ALARM_B = RTC_CR_ALRBE"
definition RTC_ALRMASSR_MASKSS_Pos :: nat where [reg_pos]: "RTC_ALRMASSR_MASKSS_Pos = 24"
definition RTC_ALRMASSR_MASKSS_0 :: u32 where
  [reg_mask]: "RTC_ALRMASSR_MASKSS_0 = push_bit RTC_ALRMASSR_MASKSS_Pos 0x1"
definition RTC_ALARMSUBSECONDMASK_SS14_1 :: u32 where
  [reg_mask]: "RTC_ALARMSUBSECONDMASK_SS14_1 = RTC_ALRMASSR_MASKSS_0"
definition RTC_ALRMASSR_MASKSS :: u32 where [reg_mask]: "RTC_ALRMASSR_MASKSS = push_bit 24 0x3F"
definition RTC_ALARMSUBSECONDMASK_NONE :: u32 where
  [reg_mask]: "RTC_ALARMSUBSECONDMASK_NONE = RTC_ALRMASSR_MASKSS"
definition RTC_CR_ALRAIE :: u32 where [reg_mask]: "RTC_CR_ALRAIE = push_bit 12 0x1"
definition RTC_IT_ALRA :: u32 where [reg_mask]: "RTC_IT_ALRA = RTC_CR_ALRAIE"
definition RTC_CR_ALRBIE :: u32 where [reg_mask]: "RTC_CR_ALRBIE = push_bit 13 0x1"
definition RTC_IT_ALRB :: u32 where [reg_mask]: "RTC_IT_ALRB = RTC_CR_ALRBIE"
definition RTC_SR_ALRAF_Pos :: nat where [reg_pos]: "RTC_SR_ALRAF_Pos = 0"
definition RTC_FLAG_ALRAF :: u32 where [reg_mask]: "RTC_FLAG_ALRAF = 0x00000200 OR (of_nat RTC_SR_ALRAF_Pos)"
definition RTC_SCR_CALRBF :: u32 where [reg_mask]: "RTC_SCR_CALRBF = push_bit 1 0x1"
definition RTC_CLEAR_ALRBF :: u32 where [reg_mask]: "RTC_CLEAR_ALRBF = RTC_SCR_CALRBF"
definition RTC_SCR_CALRAF :: u32 where [reg_mask]: "RTC_SCR_CALRAF = push_bit 0 0x1"
definition RTC_CLEAR_ALRAF :: u32 where [reg_mask]: "RTC_CLEAR_ALRAF = RTC_SCR_CALRAF"
definition RTC_ALRMASSR_SS :: u32 where [reg_mask]: "RTC_ALRMASSR_SS = push_bit 0 0x7FFF"
definition RTC_PRER_PREDIV_A_Pos :: nat where [reg_pos]: "RTC_PRER_PREDIV_A_Pos = 16"
definition RTC_PRER_PREDIV_A :: u32 where [reg_mask]: "RTC_PRER_PREDIV_A = push_bit 16 0x7F"
definition RTC_PRER_PREDIV_S_Pos :: nat where [reg_pos]: "RTC_PRER_PREDIV_S_Pos = 0"
definition RTC_PRER_PREDIV_S :: u32 where [reg_mask]: "RTC_PRER_PREDIV_S = push_bit 0 0x7FFF"

section \<open>Macros\<close>

definition HAL_RTC_WRITEPROTECTION_DISABLE :: "regs \<Rightarrow> regs" where
  "HAL_RTC_WRITEPROTECTION_DISABLE r = (r(RTC_WPR := 0xCA))(RTC_WPR := 0x53)"

definition HAL_RTC_WRITEPROTECTION_ENABLE :: "regs \<Rightarrow> regs" where
  "HAL_RTC_WRITEPROTECTION_ENABLE r = r(RTC_WPR := 0xFF)"

definition HAL_RTC_DAYLIGHT_SAVING_TIME_ADD1H :: "u32 \<Rightarrow> regs \<Rightarrow> regs" where
  "HAL_RTC_DAYLIGHT_SAVING_TIME_ADD1H BKP r =
     (let r = HAL_RTC_WRITEPROTECTION_DISABLE r;
          r = SET_BIT RTC_CR RTC_CR_ADD1H r;
          r = MODIFY_REG RTC_CR RTC_CR_BKP BKP r
      in HAL_RTC_WRITEPROTECTION_ENABLE r)"

definition HAL_RTC_DAYLIGHT_SAVING_TIME_SUB1H :: "u32 \<Rightarrow> regs \<Rightarrow> regs" where
  "HAL_RTC_DAYLIGHT_SAVING_TIME_SUB1H BKP r =
     (let r = HAL_RTC_WRITEPROTECTION_DISABLE r;
          r = SET_BIT RTC_CR RTC_CR_SUB1H r;
          r = MODIFY_REG RTC_CR RTC_CR_BKP BKP r
      in HAL_RTC_WRITEPROTECTION_ENABLE r)"

definition HAL_RTC_ALARMA_ENABLE :: "regs \<Rightarrow> regs" where
  "HAL_RTC_ALARMA_ENABLE r = r(RTC_CR := r RTC_CR OR RTC_CR_ALRAE)"

definition HAL_RTC_ALARMA_DISABLE :: "regs \<Rightarrow> regs" where
  "HAL_RTC_ALARMA_DISABLE r = r(RTC_CR := r RTC_CR AND NOT RTC_CR_ALRAE)"

definition HAL_RTC_ALARMB_ENABLE :: "regs \<Rightarrow> regs" where
  "HAL_RTC_ALARMB_ENABLE r = r(RTC_CR := r RTC_CR OR RTC_CR_ALRBE)"

definition HAL_RTC_ALARMB_DISABLE :: "regs \<Rightarrow> regs" where
  "HAL_RTC_ALARMB_DISABLE r = r(RTC_CR := r RTC_CR AND NOT RTC_CR_ALRBE)"

definition HAL_RTC_ALARM_ENABLE_IT :: "u32 \<Rightarrow> regs \<Rightarrow> regs" where
  "HAL_RTC_ALARM_ENABLE_IT INTERRUPT r = r(RTC_CR := r RTC_CR OR INTERRUPT)"

definition HAL_RTC_ALARM_DISABLE_IT :: "u32 \<Rightarrow> regs \<Rightarrow> regs" where
  "HAL_RTC_ALARM_DISABLE_IT INTERRUPT r = r(RTC_CR := r RTC_CR AND NOT INTERRUPT)"

definition HAL_RTC_ALARM_GET_IT :: "u32 \<Rightarrow> regs \<Rightarrow> u32" where
  "HAL_RTC_ALARM_GET_IT INTERRUPT r = (if r RTC_MISR AND drop_bit 12 INTERRUPT \<noteq> 0 then 1 else 0)"

definition HAL_RTC_ALARM_GET_IT_SOURCE :: "u32 \<Rightarrow> regs \<Rightarrow> u32" where
  "HAL_RTC_ALARM_GET_IT_SOURCE INTERRUPT r = (if r RTC_CR AND INTERRUPT \<noteq> 0 then 1 else 0)"

definition HAL_RTC_ALARM_CLEAR_FLAG :: "u32 \<Rightarrow> regs \<Rightarrow> regs" where
  "HAL_RTC_ALARM_CLEAR_FLAG FLAG r =
     (if FLAG = RTC_FLAG_ALRAF then r(RTC_SCR := RTC_CLEAR_ALRAF) else r(RTC_SCR := RTC_CLEAR_ALRBF))"

definition HAL_RTC_IS_CALENDAR_INITIALIZED :: "regs \<Rightarrow> u32" where
  "HAL_RTC_IS_CALENDAR_INITIALIZED r = (if r RTC_ICSR AND RTC_ICSR_INITS = RTC_ICSR_INITS then 1 else 0)"

definition HAL_RTC_GET_BINARY_MODE :: "regs \<Rightarrow> u32" where
  "HAL_RTC_GET_BINARY_MODE r = r RTC_ICSR AND RTC_ICSR_BIN"

text \<open>The macros on the interrupt line of the alarm do nothing in the simulator.\<close>

definition HAL_RTC_ALARM_EXTI_ENABLE_IT :: "regs \<Rightarrow> regs" where
  "HAL_RTC_ALARM_EXTI_ENABLE_IT r = r"

definition HAL_RTC_ALARM_EXTI_DISABLE_IT :: "regs \<Rightarrow> regs" where
  "HAL_RTC_ALARM_EXTI_DISABLE_IT r = r"

definition HAL_RTC_ALARM_EXTI_ENABLE_EVENT :: "regs \<Rightarrow> regs" where
  "HAL_RTC_ALARM_EXTI_ENABLE_EVENT r = r"

definition HAL_RTC_ALARM_EXTI_DISABLE_EVENT :: "regs \<Rightarrow> regs" where
  "HAL_RTC_ALARM_EXTI_DISABLE_EVENT r = r"

section \<open>Parameter checks\<close>

definition IS_RTC_OUTPUT :: "u32 \<Rightarrow> bool" where
  [hal_check]: "IS_RTC_OUTPUT OUTPUT \<longleftrightarrow>
     (OUTPUT = RTC_OUTPUT_DISABLE) \<or> (OUTPUT = RTC_OUTPUT_ALARMA) \<or> (OUTPUT = RTC_OUTPUT_ALARMB)
       \<or> (OUTPUT = RTC_OUTPUT_WAKEUP) \<or> (OUTPUT = RTC_OUTPUT_TAMPER)"

definition IS_RTC_HOUR_FORMAT :: "u32 \<Rightarrow> bool" where
  [hal_check]: "IS_RTC_HOUR_FORMAT FORMAT \<longleftrightarrow>
     (FORMAT = RTC_HOURFORMAT_12) \<or> (FORMAT = RTC_HOURFORMAT_24)"

definition IS_RTC_OUTPUT_POL :: "u32 \<Rightarrow> bool" where
  [hal_check]: "IS_RTC_OUTPUT_POL POL \<longleftrightarrow>
     (POL = RTC_OUTPUT_POLARITY_HIGH) \<or> (POL = RTC_OUTPUT_POLARITY_LOW)"

definition IS_RTC_OUTPUT_TYPE :: "u32 \<Rightarrow> bool" where
  [hal_check]: "IS_RTC_OUTPUT_TYPE TYP \<longleftrightarrow>
     (TYP = RTC_OUTPUT_TYPE_OPENDRAIN) \<or> (TYP = RTC_OUTPUT_TYPE_PUSHPULL)"

definition IS_RTC_OUTPUT_PULLUP :: "u32 \<Rightarrow> bool" where
  [hal_check]: "IS_RTC_OUTPUT_PULLUP TYP \<longleftrightarrow>
     (TYP = RTC_OUTPUT_PULLUP_NONE) \<or> (TYP = RTC_OUTPUT_PULLUP_ON)"

definition IS_RTC_OUTPUT_REMAP :: "u32 \<Rightarrow> bool" where
  [hal_check]: "IS_RTC_OUTPUT_REMAP REMAP \<longleftrightarrow>
     (REMAP = RTC_OUTPUT_REMAP_NONE) \<or> (REMAP = RTC_OUTPUT_REMAP_POS1)"

definition IS_RTC_HOURFORMAT12 :: "u32 \<Rightarrow> bool" where
  [hal_check]: "IS_RTC_HOURFORMAT12 PM \<longleftrightarrow>
     (PM = RTC_HOURFORMAT12_AM) \<or> (PM = RTC_HOURFORMAT12_PM)"

definition IS_RTC_DAYLIGHT_SAVING :: "u32 \<Rightarrow> bool" where
  [hal_check]: "IS_RTC_DAYLIGHT_SAVING SAVE \<longleftrightarrow>
     (SAVE = RTC_DAYLIGHTSAVING_SUB1H) \<or> (SAVE = RTC_DAYLIGHTSAVING_ADD1H) \<or> (SAVE =
       RTC_DAYLIGHTSAVING_NONE)"

definition IS_RTC_STORE_OPERATION :: "u32 \<Rightarrow> bool" where
  [hal_check]: "IS_RTC_STORE_OPERATION OPERATION \<longleftrightarrow>
     (OPERATION = RTC_STOREOPERATION_RESET) \<or> (OPERATION = RTC_STOREOPERATION_SET)"

definition IS_RTC_FORMAT :: "u32 \<Rightarrow> bool" where
  [hal_check]: "IS_RTC_FORMAT FORMAT \<longleftrightarrow>
     (FORMAT = RTC_FORMAT_BIN) \<or> (FORMAT = RTC_FORMAT_BCD)"

definition IS_RTC_YEAR :: "u32 \<Rightarrow> bool" where
  [hal_check]: "IS_RTC_YEAR YEAR \<longleftrightarrow>
     YEAR \<le> 99"

definition IS_RTC_MONTH :: "u32 \<Rightarrow> bool" where
  [hal_check]: "IS_RTC_MONTH MONTH \<longleftrightarrow>
     (MONTH \<ge> 1) \<and> (MONTH \<le> 12)"

definition IS_RTC_DATE :: "u32 \<Rightarrow> bool" where
  [hal_check]: "IS_RTC_DATE DATE \<longleftrightarrow>
     (DATE \<ge> 1) \<and> (DATE \<le> 31)"

definition IS_RTC_WEEKDAY :: "u32 \<Rightarrow> bool" where
  [hal_check]: "IS_RTC_WEEKDAY WEEKDAY \<longleftrightarrow>
     (WEEKDAY = RTC_WEEKDAY_MONDAY) \<or> (WEEKDAY = RTC_WEEKDAY_TUESDAY) \<or> (WEEKDAY =
       RTC_WEEKDAY_WEDNESDAY) \<or> (WEEKDAY = RTC_WEEKDAY_THURSDAY) \<or> (WEEKDAY = RTC_WEEKDAY_FRIDAY)
       \<or> (WEEKDAY = RTC_WEEKDAY_SATURDAY) \<or> (WEEKDAY = RTC_WEEKDAY_SUNDAY)"

definition IS_RTC_ALARM_DATE_WEEKDAY_DATE :: "u32 \<Rightarrow> bool" where
  [hal_check]: "IS_RTC_ALARM_DATE_WEEKDAY_DATE DATE \<longleftrightarrow>
     (DATE > 0) \<and> (DATE \<le> 31)"

definition IS_RTC_ALARM_DATE_WEEKDAY_WEEKDAY :: "u32 \<Rightarrow> bool" where
  [hal_check]: "IS_RTC_ALARM_DATE_WEEKDAY_WEEKDAY WEEKDAY \<longleftrightarrow>
     (WEEKDAY = RTC_WEEKDAY_MONDAY) \<or> (WEEKDAY = RTC_WEEKDAY_TUESDAY) \<or> (WEEKDAY =
       RTC_WEEKDAY_WEDNESDAY) \<or> (WEEKDAY = RTC_WEEKDAY_THURSDAY) \<or> (WEEKDAY = RTC_WEEKDAY_FRIDAY)
       \<or> (WEEKDAY = RTC_WEEKDAY_SATURDAY) \<or> (WEEKDAY = RTC_WEEKDAY_SUNDAY)"

definition IS_RTC_ALARM_DATE_WEEKDAY_SEL :: "u32 \<Rightarrow> bool" where
  [hal_check]: "IS_RTC_ALARM_DATE_WEEKDAY_SEL SEL \<longleftrightarrow>
     (SEL = RTC_ALARMDATEWEEKDAYSEL_DATE) \<or> (SEL = RTC_ALARMDATEWEEKDAYSEL_WEEKDAY)"

definition IS_RTC_ALARM_MASK :: "u32 \<Rightarrow> bool" where
  [hal_check]: "IS_RTC_ALARM_MASK MASK \<longleftrightarrow>
     (MASK AND (NOT RTC_ALARMMASK_ALL)) = 0"

definition IS_RTC_ALARM :: "u32 \<Rightarrow> bool" where
  [hal_check]: "IS_RTC_ALARM ALARM \<longleftrightarrow>
     (ALARM = RTC_ALARM_A) \<or> (ALARM = RTC_ALARM_B)"

definition IS_RTC_ALARM_SUB_SECOND_VALUE :: "u32 \<Rightarrow> bool" where
  [hal_check]: "IS_RTC_ALARM_SUB_SECOND_VALUE VALUE \<longleftrightarrow>
     VALUE \<le> RTC_ALRMASSR_SS"

definition IS_RTC_ALARM_SUB_SECOND_MASK :: "u32 \<Rightarrow> bool" where
  [hal_check]: "IS_RTC_ALARM_SUB_SECOND_MASK MASK \<longleftrightarrow>
     (MASK = 0) \<or> ((MASK \<ge> RTC_ALARMSUBSECONDMASK_SS14_1) \<and> (MASK \<le>
       RTC_ALARMSUBSECONDMASK_NONE))"

definition IS_RTC_ASYNCH_PREDIV :: "u32 \<Rightarrow> bool" where
  [hal_check]: "IS_RTC_ASYNCH_PREDIV PREDIV \<longleftrightarrow>
     PREDIV \<le> (drop_bit RTC_PRER_PREDIV_A_Pos RTC_PRER_PREDIV_A)"

definition IS_RTC_SYNCH_PREDIV :: "u32 \<Rightarrow> bool" where
  [hal_check]: "IS_RTC_SYNCH_PREDIV PREDIV \<longleftrightarrow>
     PREDIV \<le> (drop_bit RTC_PRER_PREDIV_S_Pos RTC_PRER_PREDIV_S)"

definition IS_RTC_HOUR12 :: "u32 \<Rightarrow> bool" where
  [hal_check]: "IS_RTC_HOUR12 HOUR \<longleftrightarrow>
     (HOUR > 0) \<and> (HOUR \<le> 12)"

definition IS_RTC_HOUR24 :: "u32 \<Rightarrow> bool" where
  [hal_check]: "IS_RTC_HOUR24 HOUR \<longleftrightarrow>
     HOUR \<le> 23"

definition IS_RTC_MINUTES :: "u32 \<Rightarrow> bool" where
  [hal_check]: "IS_RTC_MINUTES MINUTES \<longleftrightarrow>
     MINUTES \<le> 59"

definition IS_RTC_SECONDS :: "u32 \<Rightarrow> bool" where
  [hal_check]: "IS_RTC_SECONDS SECONDS \<longleftrightarrow>
     SECONDS \<le> 59"

section \<open>Alarms\<close>

lemma rtc_registers_apart:
  "RTC_CR \<noteq> RTC_WPR" "RTC_CR \<noteq> RTC_MISR" "RTC_CR \<noteq> RTC_SCR" "RTC_CR \<noteq> RTC_ICSR" "RTC_WPR \<noteq> RTC_MISR"
  "RTC_WPR \<noteq> RTC_SCR" "RTC_WPR \<noteq> RTC_ICSR" "RTC_MISR \<noteq> RTC_SCR" "RTC_MISR \<noteq> RTC_ICSR"
  by (simp_all add: reg_addr)

text \<open>
  The alarm interrupts are a set, and the source macro asks for one of them; what the status macro
  reads of the masked status register is the bit of the same alarm.
\<close>

definition rtc_alarm_is_on :: "u32 \<Rightarrow> regs \<Rightarrow> u32" where
  "rtc_alarm_is_on m r = (if r RTC_CR AND m = m then 1 else 0)"

interpretation rtc_alarm: line_set "\<lambda>r. bits (r RTC_CR)" HAL_RTC_ALARM_ENABLE_IT HAL_RTC_ALARM_DISABLE_IT
  rtc_alarm_is_on
  by unfold_locales (simp_all add: HAL_RTC_ALARM_ENABLE_IT_def HAL_RTC_ALARM_DISABLE_IT_def rtc_alarm_is_on_def
      and_eq_iff_bits bits_and_not)

lemma alarm_source:
  "m \<in> {RTC_IT_ALRA, RTC_IT_ALRB} \<Longrightarrow> HAL_RTC_ALARM_GET_IT_SOURCE m r = rtc_alarm_is_on m r"
  using single_flag [of 12 "r RTC_CR"] single_flag [of 13 "r RTC_CR"]
  by (auto simp: HAL_RTC_ALARM_GET_IT_SOURCE_def rtc_alarm_is_on_def reg_mask)

lemma alarm_source_run:
  "m \<in> {RTC_IT_ALRA, RTC_IT_ALRB} \<Longrightarrow> HAL_RTC_ALARM_GET_IT_SOURCE m (fold rtc_alarm.apply_op xs r) =
    (if bits m \<subseteq> fold line_effect xs (bits (r RTC_CR)) then 1 else 0)"
  by (simp only: alarm_source rtc_alarm.is_enabled_run)

lemma alarm_status:
  "HAL_RTC_ALARM_GET_IT RTC_IT_ALRA r = (if r RTC_MISR AND RTC_MISR_ALRAMF \<noteq> 0 then 1 else 0)"
  "HAL_RTC_ALARM_GET_IT RTC_IT_ALRB r = (if r RTC_MISR AND RTC_MISR_ALRBMF \<noteq> 0 then 1 else 0)"
  by (simp_all add: HAL_RTC_ALARM_GET_IT_def reg_mask)

section \<open>Daylight saving\<close>

text \<open>
  A change of the hour sets its bit and stores the flag; the rest of the control register and
  all other registers stay, and the write protection is on at the end.
\<close>

lemma rtc_add_hour:
  "HAL_RTC_DAYLIGHT_SAVING_TIME_ADD1H b r =
    r(RTC_CR := ((r RTC_CR OR RTC_CR_ADD1H) AND NOT RTC_CR_BKP) OR b, RTC_WPR := 0xFF)"
  "HAL_RTC_DAYLIGHT_SAVING_TIME_SUB1H b r =
    r(RTC_CR := ((r RTC_CR OR RTC_CR_SUB1H) AND NOT RTC_CR_BKP) OR b, RTC_WPR := 0xFF)"
  by (auto simp: HAL_RTC_DAYLIGHT_SAVING_TIME_ADD1H_def HAL_RTC_DAYLIGHT_SAVING_TIME_SUB1H_def Let_def
      HAL_RTC_WRITEPROTECTION_DISABLE_def HAL_RTC_WRITEPROTECTION_ENABLE_def reg_access rtc_registers_apart
      rtc_registers_apart [symmetric] fun_eq_iff)

lemma rtc_backup_flag:
  assumes "IS_RTC_STORE_OPERATION b"
  shows "HAL_RTC_DAYLIGHT_SAVING_TIME_ADD1H b r RTC_CR AND RTC_CR_BKP = b"
    and "HAL_RTC_DAYLIGHT_SAVING_TIME_SUB1H b r RTC_CR AND RTC_CR_BKP = b"
proof -
  have "b AND RTC_CR_BKP = b"
    using assms by (auto simp: hal_check reg_mask)
  then show "HAL_RTC_DAYLIGHT_SAVING_TIME_ADD1H b r RTC_CR AND RTC_CR_BKP = b"
    and "HAL_RTC_DAYLIGHT_SAVING_TIME_SUB1H b r RTC_CR AND RTC_CR_BKP = b"
    by (simp_all add: rtc_add_hour rtc_registers_apart modify_read)
qed

section \<open>Times\<close>

text \<open>
  The hours of a 12-hour time are 1 to 12 for the check, where the field's comment allows 0, so each minute
  of a day has exactly one accepted form.
\<close>

definition hour24 :: "u32 \<Rightarrow> u32 \<Rightarrow> u32" where
  "hour24 h pm = (if h = 12 then 0 else h) + (if pm = RTC_HOURFORMAT12_PM then 12 else 0)"

definition hours12 :: "u32 list" where
  "hours12 = [1, 2, 3, 4, 5, 6, 7, 8, 9, 10, 11, 12]"

lemma u32_cases_12: "0 < h \<Longrightarrow> h \<le> 12 \<Longrightarrow> h \<in> set hours12" for h :: u32
proof -
  assume "0 < h" and "h \<le> 12"
  then have "unat h \<in> set [1..<13]"
    by (auto simp: word_less_nat_alt word_le_nat_alt)
  moreover have "h = of_nat (unat h)"
    by simp
  ultimately have "h \<in> of_nat ` set [1..<13]"
    by (metis imageI)
  then show ?thesis
    by (simp add: upt_rec hours12_def)
qed

lemma hour12_hour24: "IS_RTC_HOUR12 h \<Longrightarrow> IS_RTC_HOURFORMAT12 pm \<Longrightarrow> IS_RTC_HOUR24 (hour24 h pm)"
  using u32_cases_12 [of h] by (auto simp: hal_check hours12_def hour24_def reg_mask)

lemma hours_distinct:
  "distinct (map (\<lambda>(h, pm). hour24 h pm) (List.product hours12 [RTC_HOURFORMAT12_AM, RTC_HOURFORMAT12_PM]))"
  by (simp add: hours12_def hour24_def reg_mask)

lemma hour24_inj:
  assumes "IS_RTC_HOUR12 h" "IS_RTC_HOURFORMAT12 pm" "IS_RTC_HOUR12 k" "IS_RTC_HOURFORMAT12 qm"
    and "hour24 h pm = hour24 k qm"
  shows "h = k \<and> pm = qm"
proof -
  let ?X = "set (List.product hours12 [RTC_HOURFORMAT12_AM, RTC_HOURFORMAT12_PM])"
  have i: "inj_on (\<lambda>(h, pm). hour24 h pm) ?X"
    using hours_distinct by (simp only: distinct_map)
  have "(h, pm) \<in> ?X" and "(k, qm) \<in> ?X"
    using u32_cases_12 [of h] u32_cases_12 [of k] assms(1-4)
    by (simp_all add: IS_RTC_HOUR12_def IS_RTC_HOURFORMAT12_def)
  then have "(h, pm) = (k, qm)"
    using assms(5) by (intro inj_onD [OF i]) simp_all
  then show ?thesis by simp
qed

lemma hour12_zero: "\<not> IS_RTC_HOUR12 0"
  by (simp add: hal_check)

end
