(* ===== verification/Spec2Isabelle.thy ===== *)
theory Spec2Isabelle
  imports Radio_Time Radio_Mirror Radio_Api Ping_Pong Adv_Trace Ll_Exti Rcc_Status Dma_Channels Core_Cm4 Hal_Rcc
    Hal_Dma Hal_Flash Hal_Pins Hal_Rtc
begin

text \<open>
  A verification of the C part of lora-simulator: the code that lets firmware written for an STM32WL
  run inside the simulator (\<^verbatim>\<open>src/simulator/native_node\<close>) and the trace utility of its example firmware
  (\<^verbatim>\<open>src/examples/native-stm32wl-phy-ping-pong/firmware\<close>).

  \<^bold>\<open>The program.\<close> A firmware is compiled together with stubs of the vendor's libraries and runs in a thread of
  its own. It calls the radio API (\<^verbatim>\<open>radio.c\<close>), which uses the packet layer done in firmware
  (\<^verbatim>\<open>radio_fw.c\<close>) and the radio driver (\<^verbatim>\<open>radio_driver.c\<close>); the driver turns every request into commands and
  register accesses of the sub-GHz HAL (\<^verbatim>\<open>stm32wlxx_hal_subghz.c\<close>). Interrupts come back through the
  callbacks of the HAL to \<^verbatim>\<open>RadioIrqProcess\<close>, which calls the application. Below, \<^verbatim>\<open>native_node.c\<close> and \<^verbatim>\<open>radio_node.c\<close>
  let the firmware's thread sleep, transmit and receive in simulated time: a request to the simulator,
  then a wait on a condition variable until the simulator's thread calls back. Firmware that programs the chip
  itself includes the register headers (\<^verbatim>\<open>hal_headers\<close>): accessors and macros over memory-mapped registers.

  \<^bold>\<open>The theories\<close>, each of which follows the order of the file it models.
  \<^item> \<open>Radio_Prelude\<close>: machine integers, faults, the sequencing of fallible steps, bytes of words, buffers, and
    two contracts as locales: streaming transformations, whose result does not depend on how the
    input is cut (the whitening and the CRC are instances), and operations whose calls are recorded
    and mirrored (the driver and the API are instances).
  \<^item> \<open>Ending_Systems\<close>: the contract of a system whose runs end (the handshakes and the trace are instances).
  \<^item> \<open>Hal_Stubs\<close>: \<^verbatim>\<open>stm32_mem.c\<close> over a store of bytes, the interrupt mask of \<^verbatim>\<open>cmsis_compiler.c\<close> and the
    critical sections on it, the argument checks of \<^verbatim>\<open>stm32wlxx_hal_pwr.c\<close>.
  \<^item> \<open>Subghz_Hal\<close>: the handle, its states, the callback table, register writes and commands. It fixes the
    boundary: \<open>ext_call\<close> is the alphabet of calls that leave the modelled code, \<open>calls\<close> the
    sequence made so far, and \<open>env\<close> the answers, a parameter of every definition that reads one.
  \<^item> \<open>Radio_Types\<close>: the enumerations, registers and parameter structures of the radio headers.
  \<^item> \<open>Radio_Driver\<close>: every \<^verbatim>\<open>SUBGRF\<close> function; its record holds the static variables of the file.
  \<^item> \<open>Radio_Fw\<close>: every \<^verbatim>\<open>RFW\<close> function; its record extends the driver's by \<^verbatim>\<open>RFWPacket\<close> and the two buffers.
  \<^item> \<open>Radio\<close>: every function of \<^verbatim>\<open>radio.c\<close>; its record extends that by \<^verbatim>\<open>SubgRf\<close> and the file's variables.
    \<open>Radio_Time\<close>, \<open>Radio_Mirror\<close> and \<open>Radio_Api\<close> hold its properties.
  \<^item> \<open>Sim_Threads\<close>, \<open>Sim_Handshake\<close>: \<^verbatim>\<open>native_node.c\<close>, \<^verbatim>\<open>radio_node.c\<close> and the delays of \<^verbatim>\<open>stm32wlxx_hal.c\<close>.
    A C function is the list of its statements; \<open>step\<close> executes one statement of the firmware's or of the
    simulator's thread, and \<open>reach\<close> has the states of all interleavings, spurious wake-ups included.
  \<^item> \<open>Ping_Pong\<close>: the firmware of \<^verbatim>\<open>examples/native_ping_pong\<close>, a client of the handshakes.
  \<^item> \<open>Adv_Trace\<close>: \<^verbatim>\<open>stm32_adv_trace.c\<close> with the transfer function of \<^verbatim>\<open>usart_if.c\<close> and the formatting stub
    \<^verbatim>\<open>stm32_tiny_vsnprintf.c\<close>; \<open>trace_step\<close> interleaves a writer with the end of DMA transfers.
  \<^item> \<open>Registers\<close>: the access macros of \<^verbatim>\<open>stm32wlxx.h\<close> and the bit counting of \<^verbatim>\<open>cmsis_compiler.h\<close>, over a
    register file from addresses to words. Its locales are the contracts of the accessors above it: \<open>line_set\<close>
    (enable, disable and test bits), \<open>reg_field\<close> (set and get a field), and \<open>gate_bank\<close>, \<open>setting_bank\<close> and
    \<open>unit_bank\<close>, in which a list of them that share registers is used in any order.
  \<^item> \<open>Device_Map\<close>, \<open>Device_Layout\<close>: the addresses and masks of \<^verbatim>\<open>stm32wl55xx.h\<close> that the accessors use, and its
    register structures and peripherals with the layout a compiler gives them.
  \<^item> \<open>Ll_Bus\<close>, \<open>Ll_Exti\<close>, \<open>Ll_Rcc\<close>, \<open>Ll_Dma\<close>: every accessor of the four low-level headers, in their order;
    \<open>Rcc_Status\<close> and \<open>Dma_Channels\<close> hold properties of two of them.
  \<^item> \<open>Hal_Rcc\<close>: the clock macros of \<^verbatim>\<open>stm32wlxx_hal_rcc.h\<close> and its extension, the stubs of \<^verbatim>\<open>stm32wlxx_hal_rcc.c\<close>.
  \<^item> \<open>Hal_Dma\<close>, \<open>Hal_Flash\<close>, \<open>Hal_Pins\<close>, \<open>Hal_Rtc\<close>: macros and parameter checks of the HAL headers, with the constants they use, for DMA,
    flash, pins with interrupt lines, and the real-time clock, over the same registers as the low-level accessors.
  \<^item> \<open>Core_Cm4\<close>: the functions of \<^verbatim>\<open>core_cm4.h\<close> on the simulator's interrupt controller and core array.

  \<^bold>\<open>Conventions.\<close> A function that can fault (an access outside an array, a null pointer, a division by
  zero, behaviour C leaves undefined, or \<^verbatim>\<open>sim_error\<close>, which exits) returns \<open>Inl\<close> of the fault; unsigned
  integers are words of their width, signed ones integers brought back into their width where the
  source stores them. A bool that stands for a function pointer says whether it is set. Switches of
  the build (\<^verbatim>\<open>RFW_ENABLE\<close> and the like) and the board interface (\<^verbatim>\<open>RBI\<close>) are fields of \<open>env\<close>, so the theorems hold for every
  configuration unless they say otherwise.

  \<^bold>\<open>What is shown.\<close>
  \<^item> Mirroring: the driver's operating mode, packet type and calibration flag, and the status
    of the API above, are those of a radio that executed exactly the commands sent, over every
    sequence of calls, timer events and interrupts (\<open>driver_mirrors_radio\<close>, \<open>api_mirrors_radio\<close>);
    the continuous transmissions are the exception.
  \<^item> Data: what is framed is received (\<open>frame_round_trip\<close>), the whitening is the sequence of its shift
    register and, like the CRC, independent of chunks, the CRC detects every burst inside two bytes, a Sigfox
    frame can be decoded, a LoRa packet is written before it is sent, and a received one is read where the
    radio announced it and delivered unchanged. Framing works in the caller's buffer and overruns one that
    has only the bytes of the payload (\<open>TransmitInit_correct\<close>, \<open>RadioSend_fsk_overruns\<close>).
  \<^item> Arithmetic: time on air against the LoRa formula and the bound beyond which it wraps, the frequency
    command, symbol timeouts, power settings, packet status units.
  \<^item> Control: the synchronisation word of a network survives modem changes, each interrupt makes one
    callback, polling returns, a long transmission starts or is refused on every branch with the timers it
    arms, registration of callbacks on every branch.
  \<^item> Threads: the blocking calls return without a lost wake-up, sleeps and receptions return only after
    their own callback and with its result; transmissions do not, and waiting for one that nobody started
    never ends. The ping-pong firmware on top of them keeps to its dialogue and never hangs.
  \<^item> Registers: clock gates are sets, but for one that cannot be closed, settings of the clock controller read back, its status reports are out of
    the accessors' reach, the frequency macros divide as their constants say, fourteen DMA channels are independent of
    each other, the PLL is configured as it reads back, priorities decode to what was encoded. The simulated interrupt controller reports only the last interrupt enabled, and the other core
    peripherals lie outside their array.
  \<^item> HAL headers: the DMA macros on a handle do what the low-level accessors do, and a configuration the checks accept
    is the one a channel gets; addresses accepted for programming stay in the flash, though three accepted pages do not;
    flash interrupts are a set over two registers; both namings of the interrupt lines agree.
  \<^item> The trace FIFO is a queue of bytes under every interleaving and drains, unless a transfer ends while the
    refusal of a message holds the lock (\<open>refusal_stalls_trace\<close>).

  \<^bold>\<open>Loops.\<close> The loop that may run forever in the radio code is the polling of \<^verbatim>\<open>RFW_PollRxBytes\<close>; it is a partial function whose
  termination is proved from the timer. The wait of \<^verbatim>\<open>ITM_SendChar\<close> is a partial function too, with the exact condition
  under which it returns; the exclusive accesses of \<open>Registers\<close> end at once. The waits of the handshakes are steps of the relation,
  and their end is a theorem about every run. All other loops are structural. No fuel is used.

  \<^bold>\<open>Not modelled.\<close> The simulator itself is Python; of it the model has what the C code sees: the answers to
  requests and one callback for every accepted one. The two LR-FHSS functions the \<^verbatim>\<open>Radio\<close> table names are
  declared nowhere in the repository. The HAL answers commands that read without writing the
  buffer, so the bytes read are arbitrary (\<open>env\<close>). A register file is plain memory: what hardware
  would change in it (flags that rise, bits that clear when written) does not happen, as in the simulator, which has
  no memory at all behind the addresses of the chip. The masks of peripherals no code of the repository
  accesses and the HAL headers of other units (UART, SPI, I2C, memory protection), whose functions have no body, are left out; system stubs are
  empty or constant, and \<^verbatim>\<open>HAL_GetTick\<close> converts the simulated time with floating-point arithmetic.
  The UART set-up of \<^verbatim>\<open>usart_if.c\<close> and the other example applications only call libraries outside the
  repository or print. Two orders of memory effects are taken from C's atomic statements: the flags of the
  handshakes are read and written in one step, as on the machines the simulator runs on.
\<close>

end
